(* ===== verification/Prelude.thy ===== *)
theory Prelude
  imports Main "HOL-Library.Sublist"
begin

text \<open>
  Shared vocabulary of the development: the Go string helpers the sources call
  (package \<^verbatim>\<open>strings\<close> on ASCII bytes), clock values, zero-value map lookups, and the
  generic list lemmas the component theories use through their simp and intro
  declarations.
\<close>

named_theorems go_string \<open>characterisations of the Go string helpers\<close>

section \<open>Times and durations\<close>

text \<open>
  A \<^verbatim>\<open>time.Time\<close> is a number of nanoseconds since an epoch and a \<^verbatim>\<open>time.Duration\<close> a number of
  nanoseconds. The durations of the program stay far below the 292 years where
  \<^verbatim>\<open>time.Duration\<close> saturates, so both are unbounded integers here.
\<close>

type_synonym time = int
type_synonym duration = int

definition second :: duration where "second = 1000000000"
definition minute :: duration where "minute = 60 * second"
definition hour :: duration where "hour = 60 * minute"

text \<open>\<^verbatim>\<open>time.Since\<close>, with the clock reading as an argument.\<close>

definition since :: "time \<Rightarrow> time \<Rightarrow> duration" where
  "since now t = now - t"

lemmas clock_defs = second_def minute_def hour_def since_def

section \<open>Go maps and strings\<close>

text \<open>Reading a missing key of a Go map gives the zero value, here the empty string.\<close>

definition goget :: "('k \<rightharpoonup> string) \<Rightarrow> 'k \<Rightarrow> string" where
  "goget m k = (case m k of None \<Rightarrow> [] | Some v \<Rightarrow> v)"

lemma goget_simps [simp]:
  "m k = None \<Longrightarrow> goget m k = []"
  "m k = Some v \<Longrightarrow> goget m k = v"
  by (simp_all add: goget_def)

definition hasPrefix :: "string \<Rightarrow> string \<Rightarrow> bool" where
  "hasPrefix s p \<longleftrightarrow> take (length p) s = p"

definition hasSuffix :: "string \<Rightarrow> string \<Rightarrow> bool" where
  "hasSuffix s p \<longleftrightarrow> length p \<le> length s \<and> drop (length s - length p) s = p"

lemma hasPrefix_append [simp]: "hasPrefix (p @ s) p"
  by (simp add: hasPrefix_def)

lemma hasPrefix_prefix [go_string]: "hasPrefix s p \<longleftrightarrow> prefix p s"
  by (metis append_eq_conv_conj append_take_drop_id hasPrefix_def prefix_def)

lemma hasSuffix_append [simp]: "hasSuffix (s @ p) p"
  by (simp add: hasSuffix_def)

text \<open>
  The verb \<^verbatim>\<open>%q\<close> on the names of Kubernetes objects and declared resources, which hold neither quotes
  nor backslashes nor unprintable characters, so nothing is escaped.
\<close>

definition quoted :: "string \<Rightarrow> string" where
  "quoted s = CHR 0x22 # s @ [CHR 0x22]"

text \<open>\<^verbatim>\<open>strings.Contains\<close>.\<close>

fun contains :: "string \<Rightarrow> string \<Rightarrow> bool" where
  "contains [] p \<longleftrightarrow> p = []"
| "contains (c # s) p \<longleftrightarrow> hasPrefix (c # s) p \<or> contains s p"

text \<open>
  \<^verbatim>\<open>strings.ReplaceAll\<close> for a non-empty pattern, the only use in the sources: occurrences are
  replaced from the left and do not overlap.
\<close>

function replaceAll :: "string \<Rightarrow> string \<Rightarrow> string \<Rightarrow> string" where
  "replaceAll [] old new = []"
| "replaceAll (c # s) old new =
     (if old \<noteq> [] \<and> hasPrefix (c # s) old then new @ replaceAll (drop (length old) (c # s)) old new
      else c # replaceAll s old new)"
  by pat_completeness auto
termination
  by (relation "measure (\<lambda>(s, old, new). length s)") (auto simp: neq_Nil_conv)

lemma replaceAll_length_le:
  "length new \<le> length old \<Longrightarrow> length (replaceAll s old new) \<le> length s"
proof (induction s old new rule: replaceAll.induct)
  case (2 c s old new)
  show ?case
  proof (cases "old \<noteq> [] \<and> hasPrefix (c # s) old")
    case True
    then have "length old \<le> length (c # s)"
      unfolding hasPrefix_def by (metis length_take min.cobounded1)
    moreover have "length (replaceAll (drop (length old) (c # s)) old new)
        \<le> length (drop (length old) (c # s))"
      using 2 True by blast
    ultimately show ?thesis
      using True 2(3) by (simp add: Suc_diff_le)
  next
    case False
    then show ?thesis using 2 by auto
  qed
qed simp

lemma replaceAll_shorter:
  "length new < length old \<Longrightarrow> contains s old \<Longrightarrow> length (replaceAll s old new) < length s"
proof (induction s old new rule: replaceAll.induct)
  case (2 c s old new)
  show ?case
  proof (cases "old \<noteq> [] \<and> hasPrefix (c # s) old")
    case True
    then have *: "length old \<le> length (c # s)"
      unfolding hasPrefix_def by (metis length_take min.cobounded1)
    have "length (replaceAll (drop (length old) (c # s)) old new) \<le> length (drop (length old) (c # s))"
      using 2(3) by (intro replaceAll_length_le) simp
    with True 2(3) * show ?thesis by (simp add: Suc_diff_le)
  next
    case False
    moreover from this 2 have "contains s old" by (auto simp: hasPrefix_def)
    ultimately show ?thesis using 2 by auto
  qed
qed auto

text \<open>\<^verbatim>\<open>strings.TrimRight\<close> with a one-byte cutset.\<close>

definition trimRight :: "string \<Rightarrow> char \<Rightarrow> string" where
  "trimRight s c = rev (dropWhile (\<lambda>x. x = c) (rev s))"

lemma trimRight_prefix: "prefix (trimRight s c) s"
  unfolding trimRight_def
  by (metis rev_rev_ident suffix_dropWhile suffix_to_prefix)

lemma trimRight_last: "trimRight s c \<noteq> [] \<Longrightarrow> last (trimRight s c) \<noteq> c"
  unfolding trimRight_def
  by (metis (full_types) hd_dropWhile last_rev rev_is_Nil_conv rev_rev_ident)

lemma trimRight_length: "length (trimRight s c) \<le> length s"
  by (simp add: prefix_length_le trimRight_prefix)

text \<open>\<^verbatim>\<open>strings.Join\<close>.\<close>

fun join :: "string list \<Rightarrow> string \<Rightarrow> string" where
  "join [] sep = []"
| "join [x] sep = x"
| "join (x # y # xs) sep = x @ sep @ join (y # xs) sep"

text \<open>
  \<^verbatim>\<open>strings.Cut\<close> at a one-byte separator: what stands before the first occurrence, and whether
  there was one.
\<close>

lemma takeWhile_fresh [simp]: "c \<notin> set a \<Longrightarrow> takeWhile (\<lambda>x. x \<noteq> c) (a @ c # b) = a"
  by (induction a) auto

definition cutBefore :: "string \<Rightarrow> char \<Rightarrow> string" where
  "cutBefore s c = takeWhile (\<lambda>x. x \<noteq> c) s"

lemma cutBefore_append [simp]: "c \<notin> set a \<Longrightarrow> cutBefore (a @ c # b) c = a"
  by (simp add: cutBefore_def)

lemma cutBefore_id [simp]: "c \<notin> set a \<Longrightarrow> cutBefore a c = a"
  by (auto simp: cutBefore_def takeWhile_eq_all_conv)

text \<open>
  \<^verbatim>\<open>s[strings.LastIndex(s, c)+1:]\<close>, what follows the last occurrence of a byte;
  \<^verbatim>\<open>LastIndex\<close> is -1 when there is none, so the whole string is then returned.
\<close>

definition afterLast :: "string \<Rightarrow> char \<Rightarrow> string" where
  "afterLast s c = rev (takeWhile (\<lambda>x. x \<noteq> c) (rev s))"

lemma afterLast_append [simp]: "c \<notin> set b \<Longrightarrow> afterLast (a @ c # b) c = b"
  by (simp add: afterLast_def)

text \<open>\<^verbatim>\<open>strings.Split\<close> at a one-byte separator.\<close>

fun splitOn :: "string \<Rightarrow> char \<Rightarrow> string list" where
  "splitOn [] c = [[]]"
| "splitOn (x # s) c =
     (if x = c then [] # splitOn s c
      else case splitOn s c of [] \<Rightarrow> [[x]] | p # ps \<Rightarrow> (x # p) # ps)"

text \<open>Decimal rendering of a non-negative number (\<^verbatim>\<open>%d\<close>).\<close>

fun show_nat :: "nat \<Rightarrow> string" where
  "show_nat n = (if n < 10 then [char_of (48 + n)] else show_nat (n div 10) @ [char_of (48 + n mod 10)])"

declare show_nat.simps [simp del]

definition show_int :: "int \<Rightarrow> string" where
  "show_int i = (if i < 0 then CHR ''-'' # show_nat (nat (- i)) else show_nat (nat i))"

text \<open>
  \<^verbatim>\<open>t.UTC().Format(time.DateOnly)\<close>: year, month and day of a time counted from the Unix epoch, by
  the usual arithmetic on 400-year eras that start on the first of March.
\<close>

definition civilDate :: "int \<Rightarrow> int \<times> int \<times> int" where
  "civilDate days =
     (let z = days + 719468;
          era = z div 146097;
          doe = z mod 146097;
          yoe = (doe - doe div 1460 + doe div 36524 - doe div 146096) div 365;
          doy = doe - (365 * yoe + yoe div 4 - yoe div 100);
          mp = (5 * doy + 2) div 153;
          d = doy - (153 * mp + 2) div 5 + 1;
          m = (if mp < 10 then mp + 3 else mp - 9);
          y = yoe + era * 400 + (if m \<le> 2 then 1 else 0)
      in (y, m, d))"

definition padTo :: "nat \<Rightarrow> string \<Rightarrow> string" where
  "padTo w s = replicate (w - length s) CHR ''0'' @ s"

definition dateOnly :: "time \<Rightarrow> string" where
  "dateOnly t = (case civilDate (t div (24 * hour)) of (y, m, d) \<Rightarrow>
     padTo 4 (show_int y) @ ''-'' @ padTo 2 (show_int m) @ ''-'' @ padTo 2 (show_int d))"

section \<open>Joining with a separator that no part contains\<close>

lemma join_Cons: "xs \<noteq> [] \<Longrightarrow> join (x # xs) sep = x @ sep @ join xs sep"
  by (cases xs) auto

lemma split_at_fresh:
  assumes "a @ c # r = b @ c # s" and "c \<notin> set a" and "c \<notin> set b"
  shows "a = b \<and> r = s"
proof -
  have "a = takeWhile (\<lambda>x. x \<noteq> c) (a @ c # r)"
    using assms(2) by simp
  also have "\<dots> = takeWhile (\<lambda>x. x \<noteq> c) (b @ c # s)"
    using assms(1) by simp
  also have "\<dots> = b"
    using assms(3) by simp
  finally show ?thesis using assms(1) by simp
qed

lemma join_fresh_inj:
  assumes "join xs [c] = join ys [c]" "xs \<noteq> []" "ys \<noteq> []"
    and "\<forall>x\<in>set xs. c \<notin> set x" "\<forall>y\<in>set ys. c \<notin> set y"
  shows "xs = ys"
  using assms
proof (induction xs arbitrary: ys)
  case (Cons x xs)
  obtain y ys' where ys: "ys = y # ys'" using Cons.prems(3) by (cases ys) auto
  have fresh: "c \<notin> set x" "c \<notin> set y" using Cons.prems ys by auto
  show ?case
  proof (cases "xs = []")
    case True
    then have eq: "x = join (y # ys') [c]" using Cons.prems(1) ys by simp
    have "ys' = []"
    proof (rule ccontr)
      assume "ys' \<noteq> []"
      then have "c \<in> set x" using eq by (simp add: join_Cons)
      with fresh show False by simp
    qed
    with eq True ys show ?thesis by simp
  next
    case xs: False
    have ys': "ys' \<noteq> []"
    proof
      assume "ys' = []"
      then have "y = x @ c # join xs [c]" using Cons.prems(1) ys xs by (simp add: join_Cons)
      with fresh show False by auto
    qed
    have "x @ c # join xs [c] = y @ c # join ys' [c]"
      using Cons.prems(1) ys xs ys' by (simp add: join_Cons)
    from split_at_fresh [OF this fresh] have xy: "x = y" and rest: "join xs [c] = join ys' [c]"
      by auto
    have "\<forall>x\<in>set xs. c \<notin> set x" "\<forall>y\<in>set ys'. c \<notin> set y"
      using Cons.prems(4,5) ys by auto
    with Cons.IH [OF rest xs ys'] xy ys show ?thesis by blast
  qed
qed simp

section \<open>Lists\<close>

lemma sublist_pair_iff: "sublist [a, b] s \<longleftrightarrow> (\<exists>p q. s = p @ a # b # q)"
  by (auto simp: sublist_def)

lemma contains_sublist [go_string]: "contains s p \<longleftrightarrow> sublist p s"
proof (induction s)
  case (Cons c s)
  then show ?case by (auto simp: hasPrefix_prefix sublist_Cons_right)
qed simp

lemma map_of_map_snd: "map_of (map (\<lambda>kv. (fst kv, f (snd kv))) xs) k = map_option f (map_of xs k)"
  by (induction xs) auto

text \<open>A slash separates what contains no slash from the rest.\<close>

lemma slash_split:
  "CHR ''/'' \<notin> set t \<Longrightarrow> CHR ''/'' \<notin> set t' \<Longrightarrow> t @ CHR ''/'' # n = t' @ CHR ''/'' # n' \<longleftrightarrow> t = t' \<and> n = n'"
proof (induction t arbitrary: t')
  case Nil
  then show ?case by (cases t') auto
next
  case (Cons c t)
  then show ?case by (cases t') auto
qed

end
