(* ===== verification/Api_Types.thy ===== *)
theory Api_Types
  imports Prelude
begin

text \<open>
  The custom resource of the operator, \<^verbatim>\<open>api/v1alpha1/appdependencies_types.go\<close>: one record per
  Go struct with the fields in the order of the source, one datatype per string enumeration.
  A Go string enumeration has the empty string as its zero value, which is a constructor of
  its own here; a pointer that may be nil is an option. Field names carry a short prefix of
  their struct because record fields share one name space.
\<close>

section \<open>Shared building blocks\<close>

datatype DeletionPolicy = DeletionPolicyUnset | DeletionPolicyRetain | DeletionPolicyDelete

datatype AccessLevel = AccessLevelUnset | AccessLevelReadOnly | AccessLevelReadWrite

record SharedWithEntry =
  sw_Namespace :: string
  sw_Name :: string
  sw_Access :: AccessLevel

record ConsumeRef =
  cr_Namespace :: string
  cr_Name :: string
  cr_ResourceName :: string

record EncryptionSpec =
  en_Enabled :: bool
  en_KMSKeyRef :: string
  en_LegacyKMSKeyRef :: bool

section \<open>SQS and SNS\<close>

record SQSOverrides =
  so_VisibilityTimeoutSeconds :: "int option"
  so_MaxReceiveCount :: "int option"
  so_ContentBasedDeduplication :: "bool option"

record SQSQueueSpec =
  q_Name :: string
  q_DLQ :: bool
  q_DeletionPolicy :: DeletionPolicy
  q_Force :: bool
  q_SharedWith :: "SharedWithEntry list"
  q_Adopt :: bool
  q_FIFO :: bool
  q_Overrides :: "SQSOverrides option"
  q_Encryption :: "EncryptionSpec option"
  q_SubscribesTo :: "ConsumeRef list"

record SQSSpec =
  sqs_Resources :: "SQSQueueSpec list"
  sqs_Consumes :: "ConsumeRef list"

record SNSOverrides =
  no_ContentBasedDeduplication :: "bool option"

record SNSTopicSpec =
  t_Name :: string
  t_DeletionPolicy :: DeletionPolicy
  t_Force :: bool
  t_SharedWith :: "SharedWithEntry list"
  t_Adopt :: bool
  t_FIFO :: bool
  t_Overrides :: "SNSOverrides option"
  t_Encryption :: "EncryptionSpec option"

record SNSSpec =
  sns_Resources :: "SNSTopicSpec list"
  sns_Consumes :: "ConsumeRef list"

section \<open>S3 and DynamoDB\<close>

record S3BackupSpec =
  b3_Enabled :: bool

record S3ReplicationSpec =
  r3_Enabled :: bool
  r3_Region :: string

record S3LifecycleRule =
  slr_ID :: string
  slr_TransitionAfterDays :: "int option"
  slr_TransitionStorageClass :: string
  slr_ExpirationAfterDays :: "int option"
  slr_NoncurrentVersionExpirationAfterDays :: "int option"

text \<open>
  \<^verbatim>\<open>lifecycleRules\<close> distinguishes an absent list from an empty one, so it is an option.
\<close>

record S3Overrides =
  s3o_VersioningEnabled :: "bool option"
  s3o_LifecycleRules :: "S3LifecycleRule list option"

record S3BucketSpec =
  b_Name :: string
  b_Backup :: "S3BackupSpec option"
  b_Replication :: "S3ReplicationSpec option"
  b_DeletionPolicy :: DeletionPolicy
  b_Force :: bool
  b_Adopt :: bool
  b_SharedWith :: "SharedWithEntry list"
  b_Overrides :: "S3Overrides option"
  b_Encryption :: "EncryptionSpec option"

record S3Spec =
  s3_Resources :: "S3BucketSpec list"
  s3_Consumes :: "ConsumeRef list"

record DynamoDBBackupSpec =
  db_Enabled :: bool
  db_RetentionDays :: "int option"

datatype DynamoDBBillingMode = BillingModeUnset | PayPerRequest | Provisioned

record DynamoDBOverrides =
  do_BillingMode :: DynamoDBBillingMode

record DynamoDBTableSpec =
  tb_Name :: string
  tb_PartitionKey :: string
  tb_SortKey :: string
  tb_Backup :: "DynamoDBBackupSpec option"
  tb_DeletionPolicy :: DeletionPolicy
  tb_Force :: bool
  tb_Adopt :: bool
  tb_DeletionProtection :: "bool option"
  tb_SharedWith :: "SharedWithEntry list"
  tb_Overrides :: "DynamoDBOverrides option"
  tb_Encryption :: "EncryptionSpec option"

record DynamoDBSpec =
  ddb_Resources :: "DynamoDBTableSpec list"
  ddb_Consumes :: "ConsumeRef list"

section \<open>RDS, KMS and alarms\<close>

record RDSHighAvailabilitySpec =
  ha_Enabled :: bool

record RDSBackupSpec =
  rb_Enabled :: bool

record RDSReplicationSpec =
  rr_Enabled :: bool
  rr_Region :: string

record RDSInstanceSpec =
  i_Name :: string
  i_DBSubnetGroupName :: string
  i_Engine :: string
  i_EngineVersion :: string
  i_InstanceClass :: string
  i_AllocatedStorage :: int
  i_MaxAllocatedStorage :: "int option"
  i_DeletionPolicy :: DeletionPolicy
  i_AllowMajorVersionUpgrade :: bool
  i_ApplyImmediately :: bool
  i_Adopt :: bool
  i_DeletionProtection :: "bool option"
  i_SharedWith :: "SharedWithEntry list"
  i_HighAvailability :: "RDSHighAvailabilitySpec option"
  i_Backup :: "RDSBackupSpec option"
  i_Replication :: "RDSReplicationSpec option"
  i_Encryption :: "EncryptionSpec option"

record RDSSpec =
  rds_Resources :: "RDSInstanceSpec list"
  rds_Consumes :: "ConsumeRef list"

record KMSKeySpec =
  k_Name :: string
  k_DeletionPolicy :: DeletionPolicy
  k_Adopt :: bool

record KMSSpec =
  kms_Resources :: "KMSKeySpec list"

record AlarmsSpec =
  al_Enabled :: bool
  al_SnsTopicRef :: "ConsumeRef option"

section \<open>The ownership ledger entry\<close>

datatype ManagedResourceState =
  StateUnset | StateCreating | StateTagPending | StateVerified | StateNeedsVerification
| StateRelinquished

datatype OnDeleteOutcome =
  OnDeleteUnset | OnDeleteRetain | OnDeleteDelete | OnDeleteEvenIfNotEmpty | OnDeleteManual

record ManagedResource =
  mr_Type :: string
  mr_Name :: string
  mr_ARN :: string
  mr_DeletionPolicy :: DeletionPolicy
  mr_Force :: bool
  mr_State :: ManagedResourceState
  mr_CreatedAt :: time
  mr_LastVerifiedAt :: "time option"
  mr_PendingDeletionSince :: "time option"
  mr_LastEmptyCheckAt :: "time option"
  mr_ObservedStatus :: string
  mr_ObservedStatusSince :: "time option"
  mr_KMSKeyARN :: string
  mr_AppliedDigest :: string
  mr_OnDelete :: OnDeleteOutcome
  mr_HeldBy :: "string list option"

text \<open>
  The Go zero value of the struct; the resource packages build an entry from it by setting
  only the fields they name. \<^verbatim>\<open>HeldBy\<close> is nil in it, which the code tells apart from a list.
\<close>

definition zeroManagedResource :: ManagedResource where
  "zeroManagedResource =
     \<lparr>mr_Type = [], mr_Name = [], mr_ARN = [], mr_DeletionPolicy = DeletionPolicyUnset,
      mr_Force = False, mr_State = StateUnset, mr_CreatedAt = 0, mr_LastVerifiedAt = None,
      mr_PendingDeletionSince = None, mr_LastEmptyCheckAt = None, mr_ObservedStatus = [],
      mr_ObservedStatusSince = None, mr_KMSKeyARN = [], mr_AppliedDigest = [],
      mr_OnDelete = OnDeleteUnset, mr_HeldBy = None\<rparr>"

section \<open>The custom resource\<close>

record AppDependenciesSpec =
  sp_ServiceAccountName :: string
  sp_SQS :: "SQSSpec option"
  sp_SNS :: "SNSSpec option"
  sp_S3 :: "S3Spec option"
  sp_DynamoDB :: "DynamoDBSpec option"
  sp_RDS :: "RDSSpec option"
  sp_KMS :: "KMSSpec option"
  sp_Alarms :: "AlarmsSpec option"
  sp_NetworkServiceAccountName :: string

datatype ConditionStatus = ConditionTrue | ConditionFalse | ConditionUnknown

text \<open>
  \<^verbatim>\<open>metav1.Condition\<close>; the transition time is kept because
  \<^verbatim>\<open>meta.SetStatusCondition\<close> maintains it.
\<close>

record Condition =
  co_Type :: string
  co_Status :: ConditionStatus
  co_ObservedGeneration :: int
  co_LastTransitionTime :: time
  co_Reason :: string
  co_Message :: string

record AppDependenciesStatus =
  st_Conditions :: "Condition list"
  st_ManagedResources :: "ManagedResource list"
  st_IAMRoleARN :: string
  st_ServiceAccountName :: string
  st_AlarmsMayExist :: "bool option"

record AppDependencies =
  md_Namespace :: string
  md_Name :: string
  md_UID :: string
  md_ResourceVersion :: string
  md_Generation :: int
  md_Annotations :: "string \<rightharpoonup> string"
  md_Finalizers :: "string list"
  md_Deleting :: bool
  ad_Spec :: AppDependenciesSpec
  ad_Status :: AppDependenciesStatus

end
