(* ===== verification/Ledger.thy ===== *)
theory Ledger
  imports Api_Types
begin

text \<open>
  The ownership ledger, \<^verbatim>\<open>internal/status/managed_resources.go\<close>: the list of managed resources a
  custom resource carries in its status, its lookup, upsert and removal, and the clock
  predicates that decide when an entry is re-verified or re-checked. The locale
  \<open>ledger_store\<close> states what the resource packages rely on and is interpreted on the list
  operations at the end of the first section.
\<close>

type_synonym ledger = "ManagedResource list"

section \<open>Lookup, upsert, removal\<close>

abbreviation mr_key :: "ManagedResource \<Rightarrow> string \<times> string" where
  "mr_key e \<equiv> (mr_Type e, mr_Name e)"

fun FindManagedResource :: "ledger \<Rightarrow> string \<Rightarrow> string \<Rightarrow> ManagedResource option" where
  "FindManagedResource [] resourceType name = None"
| "FindManagedResource (r # rs) resourceType name =
     (if mr_Type r = resourceType \<and> mr_Name r = name then Some r
      else FindManagedResource rs resourceType name)"

definition HasManagedResource :: "ledger \<Rightarrow> string \<Rightarrow> string \<Rightarrow> bool" where
  "HasManagedResource resources resourceType name \<longleftrightarrow>
     FindManagedResource resources resourceType name \<noteq> None"

text \<open>The fields an update keeps when it does not set them.\<close>

definition carryOver :: "ManagedResource \<Rightarrow> ManagedResource \<Rightarrow> ManagedResource" where
  "carryOver old entry =
     (let e1 = (if mr_KMSKeyARN entry = [] then entry\<lparr>mr_KMSKeyARN := mr_KMSKeyARN old\<rparr> else entry);
          e2 = (if mr_OnDelete e1 = OnDeleteUnset then e1\<lparr>mr_OnDelete := mr_OnDelete old\<rparr> else e1)
      in if mr_HeldBy e2 = None then e2\<lparr>mr_HeldBy := mr_HeldBy old\<rparr> else e2)"

fun UpsertManagedResource :: "ledger \<Rightarrow> ManagedResource \<Rightarrow> ledger" where
  "UpsertManagedResource [] entry = [entry]"
| "UpsertManagedResource (r # rs) entry =
     (if mr_Type r = mr_Type entry \<and> mr_Name r = mr_Name entry then carryOver r entry # rs
      else r # UpsertManagedResource rs entry)"

fun RemoveManagedResource :: "ledger \<Rightarrow> string \<Rightarrow> string \<Rightarrow> ledger" where
  "RemoveManagedResource [] resourceType name = []"
| "RemoveManagedResource (r # rs) resourceType name =
     (if mr_Type r = resourceType \<and> mr_Name r = name then RemoveManagedResource rs resourceType name
      else r # RemoveManagedResource rs resourceType name)"

lemma carryOver_key [simp]:
  "mr_Type (carryOver r e) = mr_Type e" "mr_Name (carryOver r e) = mr_Name e"
  by (simp_all add: carryOver_def Let_def)

lemma carryOver_fields [simp]:
  "mr_ARN (carryOver r e) = mr_ARN e"
  "mr_DeletionPolicy (carryOver r e) = mr_DeletionPolicy e"
  "mr_Force (carryOver r e) = mr_Force e"
  "mr_State (carryOver r e) = mr_State e"
  "mr_CreatedAt (carryOver r e) = mr_CreatedAt e"
  "mr_LastVerifiedAt (carryOver r e) = mr_LastVerifiedAt e"
  "mr_PendingDeletionSince (carryOver r e) = mr_PendingDeletionSince e"
  "mr_LastEmptyCheckAt (carryOver r e) = mr_LastEmptyCheckAt e"
  by (simp_all add: carryOver_def Let_def)

lemma carryOver_kept:
  "mr_KMSKeyARN (carryOver r e) = (if mr_KMSKeyARN e = [] then mr_KMSKeyARN r else mr_KMSKeyARN e)"
  "mr_OnDelete (carryOver r e) = (if mr_OnDelete e = OnDeleteUnset then mr_OnDelete r else mr_OnDelete e)"
  "mr_HeldBy (carryOver r e) = (if mr_HeldBy e = None then mr_HeldBy r else mr_HeldBy e)"
  by (auto simp: carryOver_def Let_def)

text \<open>What a lookup returns after an upsert: the new entry, with the kept fields of the old one.\<close>

definition upserted :: "ManagedResource option \<Rightarrow> ManagedResource \<Rightarrow> ManagedResource" where
  "upserted old entry = (case old of None \<Rightarrow> entry | Some r \<Rightarrow> carryOver r entry)"

lemma upserted_simps [simp]:
  "upserted None e = e"
  "upserted (Some r) e = carryOver r e"
  by (simp_all add: upserted_def)

lemma Find_key: "FindManagedResource l t n = Some e \<Longrightarrow> mr_Type e = t \<and> mr_Name e = n"
  by (induction l) (auto split: if_splits)

lemma Find_in_set: "FindManagedResource l t n = Some e \<Longrightarrow> e \<in> set l"
  by (induction l) (auto split: if_splits)

lemma Has_in_set: "e \<in> set l \<Longrightarrow> HasManagedResource l (mr_Type e) (mr_Name e)"
  by (induction l) (auto simp: HasManagedResource_def)

lemma Find_None_iff: "FindManagedResource l t n = None \<longleftrightarrow> (t, n) \<notin> mr_key ` set l"
  by (induction l) auto

lemma Find_Upsert:
  "FindManagedResource (UpsertManagedResource l e) t n =
     (if t = mr_Type e \<and> n = mr_Name e then Some (upserted (FindManagedResource l t n) e)
      else FindManagedResource l t n)"
  by (induction l) auto

lemma Find_Remove:
  "FindManagedResource (RemoveManagedResource l t n) t' n' =
     (if t' = t \<and> n' = n then None else FindManagedResource l t' n')"
  by (induction l) auto

lemma Remove_filter: "RemoveManagedResource l t n = filter (\<lambda>r. mr_key r \<noteq> (t, n)) l"
  by (induction l) auto

lemma Upsert_keys: "mr_key ` set (UpsertManagedResource l e) = insert (mr_key e) (mr_key ` set l)"
  by (induction l) auto

lemma Upsert_distinct:
  "distinct (map mr_key l) \<Longrightarrow> distinct (map mr_key (UpsertManagedResource l e))"
proof (induction l)
  case (Cons r rs)
  then show ?case using Upsert_keys [of rs e] by (auto simp: image_iff)
qed simp

lemma Remove_distinct:
  "distinct (map mr_key l) \<Longrightarrow> distinct (map mr_key (RemoveManagedResource l t n))"
  by (simp add: Remove_filter distinct_map_filter)

text \<open>With one entry per key, being in the list and being found are the same.\<close>

lemma Find_eq_Some_iff:
  assumes "distinct (map mr_key l)"
  shows "FindManagedResource l t n = Some e \<longleftrightarrow> e \<in> set l \<and> mr_key e = (t, n)"
  using assms
proof (induction l)
  case (Cons r rs)
  have "mr_key r \<notin> mr_key ` set rs" using Cons.prems by simp
  with Cons show ?case by (force simp: image_iff)
qed simp

text \<open>
  The interface the resource packages use. \<open>carried\<close> says which value a later lookup returns
  for an upserted entry, so that a package rebuilding an entry from scratch can rely on the
  fields it does not set.
\<close>

locale ledger_store =
  fixes find :: "'l \<Rightarrow> 'k \<Rightarrow> 'e option"
    and upsert :: "'l \<Rightarrow> 'e \<Rightarrow> 'l"
    and remove :: "'l \<Rightarrow> 'k \<Rightarrow> 'l"
    and key :: "'e \<Rightarrow> 'k"
    and carried :: "'e option \<Rightarrow> 'e \<Rightarrow> 'e"
    and invar :: "'l \<Rightarrow> bool"
  assumes find_upsert: "find (upsert l e) k = (if k = key e then Some (carried (find l k) e) else find l k)"
    and find_remove: "find (remove l k) k' = (if k' = k then None else find l k')"
    and find_key: "find l k = Some e \<Longrightarrow> key e = k"
    and carried_key: "key (carried old e) = key e"
    and carried_idem: "carried (Some (carried old e)) e = carried old e"
    and invar_upsert: "invar l \<Longrightarrow> invar (upsert l e)"
    and invar_remove: "invar l \<Longrightarrow> invar (remove l k)"
begin

lemma find_upsert_same: "find (upsert l e) (key e) = Some (carried (find l (key e)) e)"
  by (simp add: find_upsert)

lemma upsert_idem: "find (upsert (upsert l e) e) k = find (upsert l e) k"
  by (simp add: find_upsert carried_idem)

lemma upsert_commute:
  "key e \<noteq> key f \<Longrightarrow> find (upsert (upsert l e) f) k = find (upsert (upsert l f) e) k"
  by (simp add: find_upsert)

lemma remove_upsert: "find (remove (upsert l e) (key e)) k = find (remove l (key e)) k"
  by (simp add: find_upsert find_remove)

lemma upsert_after_remove: "find (upsert (remove l (key e)) e) (key e) = Some (carried None e)"
  by (simp add: find_upsert find_remove)

end

lemma carryOver_idem: "carryOver (carryOver r e) e = carryOver r e"
  by (cases r; cases e) (auto simp: carryOver_def Let_def)

lemma carryOver_self: "carryOver e e = e"
  by (cases e) (auto simp: carryOver_def Let_def)

interpretation ledger: ledger_store
  "\<lambda>l k. FindManagedResource l (fst k) (snd k)" UpsertManagedResource
  "\<lambda>l k. RemoveManagedResource l (fst k) (snd k)" mr_key upserted "\<lambda>l. distinct (map mr_key l)"
proof unfold_locales
  fix l e k
  show "FindManagedResource (UpsertManagedResource l e) (fst k) (snd k) =
    (if k = mr_key e then Some (upserted (FindManagedResource l (fst k) (snd k)) e)
     else FindManagedResource l (fst k) (snd k))"
    by (cases k) (auto simp: Find_Upsert)
next
  fix old e
  show "upserted (Some (upserted old e)) e = upserted old e"
    by (cases old) (simp_all add: carryOver_idem carryOver_self)
next
  fix old :: "ManagedResource option" and e
  show "mr_key (upserted old e) = mr_key e" by (cases old) simp_all
qed (auto simp: Find_Remove prod_eq_iff Upsert_distinct Remove_distinct dest: Find_key)

text \<open>Operations on one type never disturb entries of another.\<close>

lemma Find_Upsert_other_type [simp]:
  "mr_Type e \<noteq> t \<Longrightarrow> FindManagedResource (UpsertManagedResource l e) t n = FindManagedResource l t n"
  by (simp add: Find_Upsert)

lemma Find_Remove_other_type [simp]:
  "t' \<noteq> t \<Longrightarrow> FindManagedResource (RemoveManagedResource l t' n') t n = FindManagedResource l t n"
  by (simp add: Find_Remove)

section \<open>Clock predicates\<close>

definition TrustWindow :: duration where "TrustWindow = 10 * minute"

definition Relinquished :: "time \<Rightarrow> ManagedResource \<Rightarrow> ManagedResource" where
  "Relinquished now entry = entry\<lparr>mr_State := StateRelinquished, mr_LastVerifiedAt := Some now\<rparr>"

definition RelinquishedRecheckInterval :: duration where
  "RelinquishedRecheckInterval = 24 * hour"

definition NeedsRelinquishedRecheck :: "time \<Rightarrow> ManagedResource \<Rightarrow> bool" where
  "NeedsRelinquishedRecheck now entry =
     (if mr_State entry \<noteq> StateRelinquished then False
      else case mr_LastVerifiedAt entry of None \<Rightarrow> True
           | Some t \<Rightarrow> since now t > RelinquishedRecheckInterval)"

definition NeedsRevalidation :: "time \<Rightarrow> ManagedResource \<Rightarrow> bool" where
  "NeedsRevalidation now entry =
     (if mr_State entry \<noteq> StateVerified then True
      else case mr_LastVerifiedAt entry of None \<Rightarrow> True
           | Some t \<Rightarrow> since now t > TrustWindow)"

definition VerifiedSince :: "ManagedResource \<Rightarrow> ManagedResource \<Rightarrow> bool" where
  "VerifiedSince before after =
     (case mr_LastVerifiedAt after of None \<Rightarrow> False
      | Some a \<Rightarrow> (case mr_LastVerifiedAt before of None \<Rightarrow> True | Some b \<Rightarrow> a > b))"

definition EmptyCheckBackoffStartAfter :: duration where "EmptyCheckBackoffStartAfter = 24 * hour"
definition EmptyCheckBaseInterval :: duration where "EmptyCheckBaseInterval = 10 * minute"
definition EmptyCheckMaxInterval :: duration where "EmptyCheckMaxInterval = 20 * hour"

lemmas emptyCheck_consts =
  EmptyCheckBackoffStartAfter_def EmptyCheckBaseInterval_def EmptyCheckMaxInterval_def

text \<open>The loop of \<^verbatim>\<open>emptyCheckInterval\<close>, counting the remaining days down.\<close>

fun emptyCheckLoop :: "nat \<Rightarrow> duration \<Rightarrow> duration" where
  "emptyCheckLoop 0 interval = interval"
| "emptyCheckLoop (Suc daysPastStart) interval =
     (let doubled = interval * 2
      in if doubled \<ge> EmptyCheckMaxInterval then EmptyCheckMaxInterval
         else emptyCheckLoop daysPastStart doubled)"

definition emptyCheckInterval :: "duration \<Rightarrow> duration" where
  "emptyCheckInterval age =
     emptyCheckLoop (nat ((age - EmptyCheckBackoffStartAfter) div (24 * hour))) EmptyCheckBaseInterval"

definition NeedsEmptyCheck :: "time \<Rightarrow> ManagedResource \<Rightarrow> bool" where
  "NeedsEmptyCheck now entry =
     (case mr_PendingDeletionSince entry of None \<Rightarrow> True
      | Some p \<Rightarrow>
          (let age = since now p
           in case mr_LastEmptyCheckAt entry of None \<Rightarrow> True
              | Some c \<Rightarrow> if age < EmptyCheckBackoffStartAfter then True
                          else since now c \<ge> emptyCheckInterval age))"

lemma emptyCheckLoop_min:
  "0 < interval \<Longrightarrow> interval < EmptyCheckMaxInterval \<Longrightarrow>
   emptyCheckLoop d interval = min EmptyCheckMaxInterval (interval * 2 ^ d)"
proof (induction d arbitrary: interval)
  case (Suc d)
  show ?case
  proof (cases "interval * 2 \<ge> EmptyCheckMaxInterval")
    case True
    have "interval * 2 ^ Suc d \<ge> interval * 2"
      using Suc.prems(1) by (simp add: mult.assoc [symmetric] mult_left_mono)
    with True show ?thesis by (simp add: Let_def min_def)
  next
    case False
    with Suc.prems Suc.IH [of "interval * 2"] show ?thesis by (simp add: Let_def mult.assoc)
  qed
qed (simp add: min_def)

lemma emptyCheckInterval_eq:
  "emptyCheckInterval age =
     min EmptyCheckMaxInterval
       (EmptyCheckBaseInterval * 2 ^ nat ((age - EmptyCheckBackoffStartAfter) div (24 * hour)))"
  unfolding emptyCheckInterval_def
  by (rule emptyCheckLoop_min) (simp_all add: emptyCheck_consts clock_defs)

section \<open>Properties\<close>

text \<open>The ledger as the map it represents.\<close>

definition ledgerMap :: "ledger \<Rightarrow> (string \<times> string \<rightharpoonup> ManagedResource)" where
  "ledgerMap l = (\<lambda>(t, n). FindManagedResource l t n)"

lemma upserted_eq:
  "upserted old e = (case old of None \<Rightarrow> e
     | Some r \<Rightarrow> e\<lparr>mr_KMSKeyARN := if mr_KMSKeyARN e = [] then mr_KMSKeyARN r else mr_KMSKeyARN e,
         mr_OnDelete := if mr_OnDelete e = OnDeleteUnset then mr_OnDelete r else mr_OnDelete e,
         mr_HeldBy := if mr_HeldBy e = None then mr_HeldBy r else mr_HeldBy e\<rparr>)"
  by (cases old) (simp_all add: carryOver_def Let_def)

text \<open>C5: The ledger operations implement a finite map keyed by type and name. An upsert of a key
  that is not in the map adds the entry as it is. An upsert of a key that is there replaces the
  whole entry, apart from three fields: the recorded key ARN, the outcome of a deletion and the
  holders are those of the entry it replaces when the new one leaves them empty, unset or nil. A
  removal is the deletion of the key, and both keep at most one entry per key.\<close>

theorem ledger_refines_map:
  assumes "distinct (map mr_key l)"
  shows "ledgerMap (UpsertManagedResource l e) = (ledgerMap l)(mr_key e \<mapsto>
           (case ledgerMap l (mr_key e) of None \<Rightarrow> e
            | Some old \<Rightarrow> e\<lparr>mr_KMSKeyARN := if mr_KMSKeyARN e = [] then mr_KMSKeyARN old else mr_KMSKeyARN e,
                mr_OnDelete := if mr_OnDelete e = OnDeleteUnset then mr_OnDelete old else mr_OnDelete e,
                mr_HeldBy := if mr_HeldBy e = None then mr_HeldBy old else mr_HeldBy e\<rparr>))
       \<and> ledgerMap (RemoveManagedResource l t n) = (ledgerMap l)((t, n) := None)
       \<and> distinct (map mr_key (UpsertManagedResource l e))
       \<and> distinct (map mr_key (RemoveManagedResource l t n))"
proof -
  have "ledgerMap (UpsertManagedResource l e) = (ledgerMap l)(mr_key e \<mapsto> upserted (ledgerMap l (mr_key e)) e)"
    using ledger.find_upsert [of l e] by (auto simp: ledgerMap_def fun_eq_iff)
  moreover have "ledgerMap (RemoveManagedResource l t n) = (ledgerMap l)((t, n) := None)"
    using ledger.find_remove [of l "(t, n)"] by (auto simp: ledgerMap_def fun_eq_iff)
  ultimately show ?thesis
    using assms ledger.invar_upsert [of l e] ledger.invar_remove [of l "(t, n)"] by (simp add: upserted_eq)
qed

theorem ledger_refines_map_witness:
  "ledgerMap (UpsertManagedResource
      [zeroManagedResource\<lparr>mr_Type := ''sqs'', mr_Name := ''jobs'', mr_ARN := ''arn:old'', mr_KMSKeyARN := ''arn:k'', mr_HeldBy := Some [''sns/a'']\<rparr>]
      (zeroManagedResource\<lparr>mr_Type := ''sqs'', mr_Name := ''jobs'', mr_ARN := ''arn:new'', mr_HeldBy := Some []\<rparr>))
    = Map.empty((''sqs'', ''jobs'') \<mapsto>
        zeroManagedResource\<lparr>mr_Type := ''sqs'', mr_Name := ''jobs'', mr_ARN := ''arn:new'', mr_KMSKeyARN := ''arn:k'', mr_HeldBy := Some []\<rparr>)
   \<and> ledgerMap (RemoveManagedResource
      [zeroManagedResource\<lparr>mr_Type := ''sqs'', mr_Name := ''jobs'', mr_ARN := ''arn:old'', mr_KMSKeyARN := ''arn:k'', mr_HeldBy := Some [''sns/a'']\<rparr>] ''sqs'' ''jobs'')
    = Map.empty"
proof -
  let ?old = "zeroManagedResource\<lparr>mr_Type := ''sqs'', mr_Name := ''jobs'', mr_ARN := ''arn:old'', mr_KMSKeyARN := ''arn:k'', mr_HeldBy := Some [''sns/a'']\<rparr>"
  have "ledgerMap [?old] = Map.empty((''sqs'', ''jobs'') \<mapsto> ?old)" by (auto simp: ledgerMap_def fun_eq_iff)
  with ledger_refines_map [of "[?old]" "zeroManagedResource\<lparr>mr_Type := ''sqs'', mr_Name := ''jobs'', mr_ARN := ''arn:new'', mr_HeldBy := Some []\<rparr>"
      "''sqs''" "''jobs''"]
  show ?thesis by (simp add: zeroManagedResource_def)
qed

text \<open>C24: The key an entry records is the last one that was named for it. Whatever sequence of
  upserts runs over a ledger with an entry, the entry is still there, and its key ARN is the last
  non-empty one among the upserts of that type and name, or the one it had when they all leave the
  field empty, as the resource packages do when they rebuild an entry from scratch. In particular
  a recorded key is never lost: only naming another key replaces it.\<close>

theorem key_arn_survives_upserts:
  assumes "FindManagedResource l t n = Some e"
  shows "\<exists>e'. FindManagedResource (foldl UpsertManagedResource l es) t n = Some e'
           \<and> mr_KMSKeyARN e' = last (mr_KMSKeyARN e #
               filter (\<lambda>k. k \<noteq> []) (map mr_KMSKeyARN (filter (\<lambda>x. mr_Type x = t \<and> mr_Name x = n) es)))
           \<and> (mr_KMSKeyARN e \<noteq> [] \<longrightarrow> mr_KMSKeyARN e' \<noteq> [])"
  using assms
proof (induction es arbitrary: l e)
  case (Cons x xs)
  show ?case
  proof (cases "mr_Type x = t \<and> mr_Name x = n")
    case True
    with Cons.prems have "FindManagedResource (UpsertManagedResource l x) t n = Some (carryOver e x)" by (simp add: Find_Upsert)
    from Cons.IH [OF this] True show ?thesis by (auto simp: carryOver_kept)
  next
    case False
    with Cons.prems have "FindManagedResource (UpsertManagedResource l x) t n = Some e" by (auto simp: Find_Upsert)
    from Cons.IH [OF this] False show ?thesis by auto
  qed
qed simp

theorem key_arn_survives_upserts_witness:
  "\<exists>e'. FindManagedResource (foldl UpsertManagedResource
      [zeroManagedResource\<lparr>mr_Type := ''sqs'', mr_Name := ''jobs'', mr_KMSKeyARN := ''arn:k''\<rparr>]
      [zeroManagedResource\<lparr>mr_Type := ''sqs'', mr_Name := ''jobs''\<rparr>,
       zeroManagedResource\<lparr>mr_Type := ''sqs'', mr_Name := ''mail'', mr_KMSKeyARN := ''arn:m''\<rparr>,
       zeroManagedResource\<lparr>mr_Type := ''sqs'', mr_Name := ''jobs'', mr_KMSKeyARN := ''arn:l''\<rparr>,
       zeroManagedResource\<lparr>mr_Type := ''sqs'', mr_Name := ''jobs''\<rparr>]) ''sqs'' ''jobs'' = Some e'
     \<and> mr_KMSKeyARN e' = ''arn:l''"
  using key_arn_survives_upserts
    [of "[zeroManagedResource\<lparr>mr_Type := ''sqs'', mr_Name := ''jobs'', mr_KMSKeyARN := ''arn:k''\<rparr>]"
        "''sqs''" "''jobs''" "zeroManagedResource\<lparr>mr_Type := ''sqs'', mr_Name := ''jobs'', mr_KMSKeyARN := ''arn:k''\<rparr>"
        "[zeroManagedResource\<lparr>mr_Type := ''sqs'', mr_Name := ''jobs''\<rparr>,
          zeroManagedResource\<lparr>mr_Type := ''sqs'', mr_Name := ''mail'', mr_KMSKeyARN := ''arn:m''\<rparr>,
          zeroManagedResource\<lparr>mr_Type := ''sqs'', mr_Name := ''jobs'', mr_KMSKeyARN := ''arn:l''\<rparr>,
          zeroManagedResource\<lparr>mr_Type := ''sqs'', mr_Name := ''jobs''\<rparr>]"]
  by (simp add: zeroManagedResource_def)

lemma emptyCheckInterval_bounds:
  "EmptyCheckBaseInterval \<le> emptyCheckInterval age \<and> emptyCheckInterval age \<le> EmptyCheckMaxInterval"
proof -
  let ?d = "nat ((age - EmptyCheckBackoffStartAfter) div (24 * hour))"
  have "EmptyCheckBaseInterval * 1 \<le> EmptyCheckBaseInterval * 2 ^ ?d"
    by (rule mult_left_mono) (simp_all add: emptyCheck_consts clock_defs)
  moreover have "EmptyCheckBaseInterval \<le> EmptyCheckMaxInterval"
    by (simp add: emptyCheck_consts clock_defs)
  ultimately show ?thesis by (simp add: emptyCheckInterval_eq)
qed

text \<open>The emptiness check of a resource that waits for deletion backs off but never stops: the
  interval is ten minutes doubled once per full day past the first, capped at twenty hours; so a
  check that is twenty hours old is always repeated, and past the first day none is repeated
  within ten minutes.\<close>

theorem empty_check_backoff:
  assumes "mr_PendingDeletionSince e = Some p" "mr_LastEmptyCheckAt e = Some c"
  shows "emptyCheckInterval (since now p) =
           min (20 * hour) (10 * minute * 2 ^ nat ((since now p - 24 * hour) div (24 * hour)))
       \<and> (since now c \<ge> 20 * hour \<longrightarrow> NeedsEmptyCheck now e)
       \<and> (since now p \<ge> 24 * hour \<and> since now c < 10 * minute \<longrightarrow> \<not> NeedsEmptyCheck now e)"
proof -
  have "10 * minute \<le> emptyCheckInterval (since now p)" "emptyCheckInterval (since now p) \<le> 20 * hour"
    using emptyCheckInterval_bounds [of "since now p"] by (simp_all add: emptyCheck_consts)
  moreover have "emptyCheckInterval (since now p) =
      min (20 * hour) (10 * minute * 2 ^ nat ((since now p - 24 * hour) div (24 * hour)))"
    using emptyCheckInterval_eq [of "since now p"] by (simp add: emptyCheck_consts)
  ultimately show ?thesis
    using assms by (auto simp: NeedsEmptyCheck_def Let_def EmptyCheckBackoffStartAfter_def)
qed

theorem empty_check_backoff_witness:
  "NeedsEmptyCheck (50 * hour) (zeroManagedResource\<lparr>mr_PendingDeletionSince := Some 0,
     mr_LastEmptyCheckAt := Some (10 * hour)\<rparr>)
   \<and> \<not> NeedsEmptyCheck (50 * hour) (zeroManagedResource\<lparr>mr_PendingDeletionSince := Some 0,
     mr_LastEmptyCheckAt := Some (50 * hour - minute)\<rparr>)"
  using empty_check_backoff [of "zeroManagedResource\<lparr>mr_PendingDeletionSince := Some 0,
      mr_LastEmptyCheckAt := Some (10 * hour)\<rparr>" 0 "10 * hour" "50 * hour"]
    empty_check_backoff [of "zeroManagedResource\<lparr>mr_PendingDeletionSince := Some 0,
      mr_LastEmptyCheckAt := Some (50 * hour - minute)\<rparr>" 0 "50 * hour - minute" "50 * hour"]
  by (simp add: clock_defs)

end
