(* ===== verification/Errors.thy ===== *)
theory Errors
  imports Prelude
begin

text \<open>
  Errors and their classification, \<^verbatim>\<open>internal/aws/errors.go\<close>, with the retry verdict the
  controller derives from them (\<open>isRetryable\<close> of \<^verbatim>\<open>internal/controller/desiredstate.go\<close>).
  A Go error is a chain of wrappers around at most one error that came from outside the program
  (an SDK, network or Kubernetes API error); \<open>ext_error\<close> records what \<^verbatim>\<open>errors.As\<close> and
  \<^verbatim>\<open>errors.Is\<close> can find in that outside error. A formatted message is kept as the tag of its
  format string and the strings formatted into it, not as rendered text.
\<close>

section \<open>Errors as values\<close>

datatype ErrorFault = FaultUnknown | FaultServer | FaultClient

record api_error =
  ap_ErrorCode :: string
  ap_ErrorFault :: ErrorFault
  ap_ErrorMessage :: string

text \<open>
  \<open>ex_type\<close> is the modelled exception type (such as \<open>QueueDoesNotExist\<close>), \<open>ex_api\<close> the
  \<^verbatim>\<open>smithy.APIError\<close>, \<open>ex_status\<close> the HTTP status of a bare response error, \<open>ex_net\<close> whether a
  \<^verbatim>\<open>net.Error\<close> is there and timed out, \<open>ex_dns\<close> the \<^verbatim>\<open>IsNotFound\<close> and \<^verbatim>\<open>IsTemporary\<close> of a DNS
  error, \<open>ex_badcert\<close> whether one of the four certificate errors is there.
\<close>

record ext_error =
  ex_type :: string
  ex_api :: "api_error option"
  ex_status :: "int option"
  ex_deadline :: bool
  ex_ratewait :: bool
  ex_quota :: bool
  ex_net :: "bool option"
  ex_dns :: "(bool \<times> bool) option"
  ex_connreset :: bool
  ex_connrefused :: bool
  ex_badcert :: bool
  ex_k8s_notfound :: bool

text \<open>The error that carries nothing; concrete errors are built from it.\<close>

definition plain_ext_error :: ext_error where
  "plain_ext_error = \<lparr>ex_type = [], ex_api = None, ex_status = None, ex_deadline = False,
     ex_ratewait = False, ex_quota = False, ex_net = None, ex_dns = None, ex_connreset = False,
     ex_connrefused = False, ex_badcert = False, ex_k8s_notfound = False\<rparr>"

definition typed_error :: "string \<Rightarrow> ext_error" where
  "typed_error ty = plain_ext_error\<lparr>ex_type := ty,
     ex_api := Some \<lparr>ap_ErrorCode = ty, ap_ErrorFault = FaultClient, ap_ErrorMessage = []\<rparr>\<rparr>"

datatype go_error =
  ExtError ext_error
| ReconcileError (re_Err: go_error) (re_Retryable: bool) (re_Reason: string) (re_WakesOnChange: bool)
| Errorf string "string list" "go_error option"
| WaitingError go_error
| JoinError go_error go_error

text \<open>\<^verbatim>\<open>errors.New\<close> and \<^verbatim>\<open>fmt.Errorf\<close> without \<^verbatim>\<open>%w\<close>.\<close>

abbreviation msgError :: "string \<Rightarrow> string list \<Rightarrow> go_error" where
  "msgError tag args \<equiv> Errorf tag args None"

abbreviation wrapf :: "string \<Rightarrow> string list \<Rightarrow> go_error \<Rightarrow> go_error" where
  "wrapf tag args e \<equiv> Errorf tag args (Some e)"

text \<open>
  \<^verbatim>\<open>errors.As\<close> into the outside error, and into a \<^verbatim>\<open>*ReconcileError\<close> (the outermost one). Of two joined errors the first
  is searched first.
\<close>

fun asExt :: "go_error \<Rightarrow> ext_error option" where
  "asExt (ExtError e) = Some e"
| "asExt (ReconcileError e _ _ _) = asExt e"
| "asExt (Errorf _ _ None) = None"
| "asExt (Errorf _ _ (Some e)) = asExt e"
| "asExt (WaitingError e) = asExt e"
| "asExt (JoinError a b) = (case asExt a of Some e \<Rightarrow> Some e | None \<Rightarrow> asExt b)"

fun asReconcileError :: "go_error \<Rightarrow> go_error option" where
  "asReconcileError (ExtError e) = None"
| "asReconcileError (ReconcileError e r s w) = Some (ReconcileError e r s w)"
| "asReconcileError (Errorf _ _ None) = None"
| "asReconcileError (Errorf _ _ (Some e)) = asReconcileError e"
| "asReconcileError (WaitingError e) = asReconcileError e"
| "asReconcileError (JoinError a b) = (case asReconcileError a of Some e \<Rightarrow> Some e | None \<Rightarrow> asReconcileError b)"

lemma asReconcileError_shape:
  "asReconcileError e = Some x \<Longrightarrow> \<exists>a b c d. x = ReconcileError a b c d"
  by (induction e rule: asReconcileError.induct) (auto split: option.splits)

section \<open>Classification\<close>

definition permissionCodes :: "string list" where
  "permissionCodes = [''AccessDenied'', ''AccessDeniedException'', ''UnauthorizedException'',
     ''UnauthorizedOperation'', ''NotAuthorized'', ''AuthorizationError'']"

definition IsPermissionDenied :: "go_error \<Rightarrow> bool" where
  "IsPermissionDenied err =
     (case asExt err of None \<Rightarrow> False
      | Some e \<Rightarrow>
          (case ex_api e of Some a \<Rightarrow> ap_ErrorCode a \<in> set permissionCodes
           | None \<Rightarrow> ex_status e = Some 403))"

definition isTransientLimit :: "string \<Rightarrow> bool" where
  "isTransientLimit message \<longleftrightarrow>
     contains message ''Table tags are being updated'' \<or>
     contains message ''can be created, updated, or deleted simultaneously''"

definition retryableCodes :: "string list" where
  "retryableCodes = [''ThrottlingException'', ''RequestLimitExceeded'', ''TooManyRequestsException'',
     ''ResourceInUseException'', ''ConcurrentModification'', ''ContinuousBackupsUnavailableException'']"

definition isRetryableAPIError :: "api_error \<Rightarrow> bool" where
  "isRetryableAPIError a =
     (if ap_ErrorFault a = FaultServer then True
      else if ap_ErrorCode a = ''LimitExceededException'' then isTransientLimit (ap_ErrorMessage a)
      else if ap_ErrorCode a \<in> set retryableCodes then True
      else contains (ap_ErrorCode a) ''Throttl'')"

definition IsEndpointUnreachable :: "go_error \<Rightarrow> bool" where
  "IsEndpointUnreachable err =
     (case asExt err of None \<Rightarrow> False
      | Some e \<Rightarrow> (case ex_dns e of Some (notFound, temporary) \<Rightarrow> notFound \<or> ex_badcert e
                   | None \<Rightarrow> ex_badcert e))"

definition isTransientNetworkError :: "bool \<Rightarrow> ext_error \<Rightarrow> bool" where
  "isTransientNetworkError timeout e \<longleftrightarrow>
     timeout \<or> (case ex_dns e of Some (notFound, temporary) \<Rightarrow> temporary | None \<Rightarrow> False)
     \<or> ex_connreset e \<or> ex_connrefused e"

definition IsRetryable :: "go_error \<Rightarrow> bool" where
  "IsRetryable err =
     (case asExt err of None \<Rightarrow> False
      | Some e \<Rightarrow>
          if ex_deadline e \<or> ex_ratewait e then True
          else if ex_quota e then True
          else (case ex_net e of
                  Some timeout \<Rightarrow> \<not> IsEndpointUnreachable err \<and> isTransientNetworkError timeout e
                | None \<Rightarrow>
                    (case ex_api e of Some a \<Rightarrow> isRetryableAPIError a
                     | None \<Rightarrow>
                         (case ex_status e of Some s \<Rightarrow> s = 429 \<or> s \<ge> 500 | None \<Rightarrow> False))))"

text \<open>
  A resource package wraps an SDK error with the string saying what was being done (\<^verbatim>\<open>wrapAWSError\<close>). The packages of queues, topics,
  tables, buckets, keys, alarms and roles do it alike; the RDS package also retries what a call meets in the middle of an operation.
\<close>

definition wrapAWSError :: "go_error \<Rightarrow> string \<Rightarrow> go_error" where
  "wrapAWSError err errContext = ReconcileError (wrapf errContext [] err) (IsRetryable err) [] False"

definition apiCode :: "go_error \<Rightarrow> string \<Rightarrow> bool" where
  "apiCode err code =
     (case asExt err of None \<Rightarrow> False | Some e \<Rightarrow> (case ex_api e of None \<Rightarrow> False | Some a \<Rightarrow> ap_ErrorCode a = code))"

definition isInTransitionError :: "go_error \<Rightarrow> bool" where
  "isInTransitionError err \<longleftrightarrow> apiCode err ''InvalidDBInstanceState'' \<or> apiCode err ''InvalidDBSnapshotState''"

definition wrapAWSError_rds :: "go_error \<Rightarrow> string \<Rightarrow> go_error" where
  "wrapAWSError_rds err errContext =
     ReconcileError (wrapf errContext [] err) (IsRetryable err \<or> isInTransitionError err) [] False"

text \<open>The controller's verdict: a \<^verbatim>\<open>ReconcileError\<close> speaks for itself.\<close>

definition isRetryable :: "go_error \<Rightarrow> bool" where
  "isRetryable err =
     (case asReconcileError err of Some re \<Rightarrow> re_Retryable re | None \<Rightarrow> IsRetryable err)"

lemma asExt_wrapAWSError [simp]: "asExt (wrapAWSError e c) = asExt e"
  by (simp add: wrapAWSError_def)

lemma asReconcileError_wrapAWSError [simp]:
  "asReconcileError (wrapAWSError e c) = Some (ReconcileError (wrapf c [] e) (IsRetryable e) [] False)"
  by (simp add: wrapAWSError_def)

text \<open>The classification only looks at the outside error, whatever wraps it.\<close>

lemma IsEndpointUnreachable_cong:
  "asExt a = asExt b \<Longrightarrow> IsEndpointUnreachable a = IsEndpointUnreachable b"
  by (simp only: IsEndpointUnreachable_def)

lemma IsRetryable_cong:
  assumes "asExt a = asExt b"
  shows "IsRetryable a = IsRetryable b"
  using IsEndpointUnreachable_cong [OF assms] by (simp only: IsRetryable_def assms)

lemma isRetryable_wrapAWSError [simp]: "isRetryable (wrapAWSError e c) = IsRetryable e"
  by (simp add: isRetryable_def)

lemma isRetryable_wrapf [simp]: "isRetryable (wrapf t as e) = isRetryable e"
  using IsRetryable_cong [of "wrapf t as e" e] by (simp add: isRetryable_def split: option.split)

section \<open>Properties\<close>

lemma permission_codes_not_retryable:
  assumes "ap_ErrorCode a \<in> set permissionCodes" "ap_ErrorFault a \<noteq> FaultServer"
  shows "\<not> isRetryableAPIError a"
proof -
  have "\<forall>c\<in>set permissionCodes. c \<noteq> ''LimitExceededException'' \<and> c \<notin> set retryableCodes \<and> \<not> contains c ''Throttl''"
    by (simp add: permissionCodes_def retryableCodes_def hasPrefix_def)
  with assms show ?thesis by (auto simp: isRetryableAPIError_def)
qed

lemma isRetryable_wrapAll: "isRetryable (foldr (\<lambda>tag. wrapf tag args) contexts e) = isRetryable e"
  by (induction contexts) simp_all

text \<open>The two codes of an operation under way are not those of a refused permission.\<close>

lemma transition_codes:
  assumes "isInTransitionError (ExtError x)"
  shows "\<not> IsPermissionDenied (ExtError x)"
  using assms by (auto simp: isInTransitionError_def apiCode_def IsPermissionDenied_def permissionCodes_def split: option.splits)



end
