(* ===== verification/Ownership.thy ===== *)
theory Ownership
  imports Errors Api_Types
begin

text \<open>
  Ownership tags and the adoption rules, \<^verbatim>\<open>internal/aws/ownership.go\<close> and \<^verbatim>\<open>internal/aws/tags.go\<close>.
  A tag set is a finite map of strings. What the Go code carries through \<^verbatim>\<open>context.Context\<close> and
  as leading parameters of every function (the identity of the custom resource, the UID to take
  over from, whether release tags are off) is the record \<open>pass\<close>, together with the clock reading
  of the pass, whether an event recorder and a checkpoint are installed, the status a checkpoint is
  diffed against (the one the pass began with), and how many pages of a paged listing the deadline
  of the context leaves time for.
\<close>

type_synonym tags = "string \<rightharpoonup> string"

record pass =
  ps_namespace :: string
  ps_crName :: string
  ps_crUID :: string
  ps_now :: time
  ps_adoptFromUID :: string
  ps_releaseTagsOff :: bool
  ps_recordEvent :: bool
  ps_checkpoint :: bool
  ps_original :: "AppDependenciesStatus option"
  ps_pageBudget :: nat

text \<open>The pass of a concrete custom resource, for the examples.\<close>

definition demoPass :: pass where
  "demoPass = \<lparr>ps_namespace = ''team'', ps_crName = ''orders'', ps_crUID = ''u1'', ps_now = 0,
     ps_adoptFromUID = [], ps_releaseTagsOff = False, ps_recordEvent = False, ps_checkpoint = False, ps_original = None,
     ps_pageBudget = 10\<rparr>"

section \<open>Ownership tags\<close>

definition OwnerTagKey :: string where "OwnerTagKey = ''cloudctl.io/owner''"
definition OwnerUIDTagKey :: string where "OwnerUIDTagKey = ''cloudctl.io/owner-uid''"

lemma owner_keys_differ [simp]: "OwnerTagKey \<noteq> OwnerUIDTagKey" "OwnerUIDTagKey \<noteq> OwnerTagKey"
  by (simp_all add: OwnerTagKey_def OwnerUIDTagKey_def)

definition OwnerTagValue :: "string \<Rightarrow> string \<Rightarrow> string" where
  "OwnerTagValue namespace name = namespace @ ''/'' @ name"

definition IsOwnedBy :: "tags \<Rightarrow> string \<Rightarrow> string \<Rightarrow> string \<Rightarrow> bool" where
  "IsOwnedBy tgs namespace name uid \<longleftrightarrow>
     goget tgs OwnerTagKey = OwnerTagValue namespace name \<and> goget tgs OwnerUIDTagKey = uid"

text \<open>\<open>Some existingUID\<close> stands for the result pair with \<^verbatim>\<open>isStale\<close> true.\<close>

definition IsStaleUID :: "tags \<Rightarrow> string \<Rightarrow> string \<Rightarrow> string \<Rightarrow> string option" where
  "IsStaleUID tgs namespace name uid =
     (if goget tgs OwnerTagKey \<noteq> OwnerTagValue namespace name then None
      else case tgs OwnerUIDTagKey of None \<Rightarrow> None
           | Some existingUID \<Rightarrow> if existingUID = uid then None else Some existingUID)"

definition TakingOver :: "pass \<Rightarrow> bool" where
  "TakingOver p \<longleftrightarrow> ps_adoptFromUID p \<noteq> []"

definition MayTransferFrom :: "pass \<Rightarrow> string \<Rightarrow> bool" where
  "MayTransferFrom p staleUID \<longleftrightarrow> ps_adoptFromUID p \<noteq> [] \<and> ps_adoptFromUID p = staleUID"

definition OwnedByAnotherCRError :: "string \<Rightarrow> string \<Rightarrow> string \<Rightarrow> go_error" where
  "OwnedByAnotherCRError kind name owner =
     ReconcileError (msgError ''already owned by a different AppDependencies CR'' [kind, name, owner])
       False ''OwnedByAnotherCR'' False"

definition PreviousIncarnationError :: "string \<Rightarrow> string \<Rightarrow> string \<Rightarrow> go_error" where
  "PreviousIncarnationError kind name staleUID =
     ReconcileError (msgError ''tagged with this CR's name but a different UID'' [kind, name, staleUID])
       False ''PreviousIncarnation'' False"

definition AdoptRequiredError :: "string \<Rightarrow> string \<Rightarrow> go_error" where
  "AdoptRequiredError kind name =
     ReconcileError (msgError ''exists but is not tagged as owned by this CR'' [kind, name])
       False ''AdoptRequired'' False"

definition OwnershipLostError :: "string \<Rightarrow> string \<Rightarrow> string \<Rightarrow> go_error" where
  "OwnershipLostError kind name refusal =
     ReconcileError (msgError ''no longer verified as owned by this CR'' [kind, name, refusal])
       False ''OwnershipLost'' False"

text \<open>\<open>Inr transferred\<close> when the resource may be re-tagged, \<open>Inl\<close> the refusal otherwise.\<close>

definition CheckExistingOwnership ::
  "pass \<Rightarrow> string \<Rightarrow> string \<Rightarrow> tags \<Rightarrow> bool \<Rightarrow> go_error + bool" where
  "CheckExistingOwnership p kind name tgs adopt =
     (case tgs OwnerTagKey of
        Some owner \<Rightarrow>
          if owner \<noteq> OwnerTagValue (ps_namespace p) (ps_crName p)
          then Inl (OwnedByAnotherCRError kind name owner)
          else (case IsStaleUID tgs (ps_namespace p) (ps_crName p) (ps_crUID p) of
                  Some staleUID \<Rightarrow>
                    if \<not> MayTransferFrom p staleUID then Inl (PreviousIncarnationError kind name staleUID)
                    else Inr True
                | None \<Rightarrow> if \<not> adopt then Inl (AdoptRequiredError kind name) else Inr False)
      | None \<Rightarrow>
          (case IsStaleUID tgs (ps_namespace p) (ps_crName p) (ps_crUID p) of
             Some staleUID \<Rightarrow>
               if \<not> MayTransferFrom p staleUID then Inl (PreviousIncarnationError kind name staleUID)
               else Inr True
           | None \<Rightarrow> if \<not> adopt then Inl (AdoptRequiredError kind name) else Inr False))"

section \<open>Tag sets\<close>

definition MergeTags :: "tags \<Rightarrow> tags \<Rightarrow> tags" where
  "MergeTags existing desired = existing ++ desired"

definition ReleasedFromTagKey :: string where "ReleasedFromTagKey = ''cloudctl.io/released-from''"
definition ReleasedAtTagKey :: string where "ReleasedAtTagKey = ''cloudctl.io/released-at''"

text \<open>
  \<^verbatim>\<open>ReleaseTags\<close>; \<open>None\<close> when they are turned off.
\<close>

definition ReleaseTags :: "pass \<Rightarrow> tags option" where
  "ReleaseTags p =
     (if ps_releaseTagsOff p then None
      else Some [ReleasedFromTagKey \<mapsto> OwnerTagValue (ps_namespace p) (ps_crName p),
                 ReleasedAtTagKey \<mapsto> dateOnly (ps_now p)])"

definition ReleasedTagKeys :: "string list" where
  "ReleasedTagKeys = [ReleasedFromTagKey, ReleasedAtTagKey]"

definition HasReleaseTags :: "tags \<Rightarrow> bool" where
  "HasReleaseTags tgs \<longleftrightarrow> tgs ReleasedFromTagKey \<noteq> None \<or> tgs ReleasedAtTagKey \<noteq> None"

definition deleteKeys :: "tags \<Rightarrow> string list \<Rightarrow> tags" where
  "deleteKeys tgs ks = (\<lambda>k. if k \<in> set ks then None else tgs k)"

definition WithoutReleaseTags :: "tags \<Rightarrow> tags" where
  "WithoutReleaseTags tgs = deleteKeys tgs ReleasedTagKeys"

text \<open>The two tags a resource of this custom resource carries.\<close>

definition ownerTags :: "pass \<Rightarrow> tags" where
  "ownerTags p = [OwnerTagKey \<mapsto> OwnerTagValue (ps_namespace p) (ps_crName p),
                  OwnerUIDTagKey \<mapsto> ps_crUID p]"

abbreviation owned_by_pass :: "pass \<Rightarrow> tags \<Rightarrow> bool" where
  "owned_by_pass p tgs \<equiv> IsOwnedBy tgs (ps_namespace p) (ps_crName p) (ps_crUID p)"

lemma owned_ownerTags [simp]: "owned_by_pass p (ownerTags p)"
  by (simp add: IsOwnedBy_def ownerTags_def)

lemma owned_merge_ownerTags [simp]: "owned_by_pass p (MergeTags tgs (ownerTags p))"
  by (simp add: IsOwnedBy_def ownerTags_def MergeTags_def)

lemma release_keys_not_owner [simp]:
  "ReleasedFromTagKey \<noteq> OwnerTagKey" "ReleasedFromTagKey \<noteq> OwnerUIDTagKey"
  "ReleasedAtTagKey \<noteq> OwnerTagKey" "ReleasedAtTagKey \<noteq> OwnerUIDTagKey"
  "OwnerTagKey \<noteq> ReleasedFromTagKey" "OwnerUIDTagKey \<noteq> ReleasedFromTagKey"
  "OwnerTagKey \<noteq> ReleasedAtTagKey" "OwnerUIDTagKey \<noteq> ReleasedAtTagKey"
  by (simp_all add: ReleasedFromTagKey_def ReleasedAtTagKey_def OwnerTagKey_def OwnerUIDTagKey_def)

lemma owned_WithoutReleaseTags [simp]:
  "IsOwnedBy (WithoutReleaseTags tgs) ns n u = IsOwnedBy tgs ns n u"
  by (simp add: IsOwnedBy_def WithoutReleaseTags_def deleteKeys_def ReleasedTagKeys_def goget_def)

lemma not_owned_after_untag:
  assumes "OwnerTagKey \<in> set ks"
  shows "\<not> IsOwnedBy (deleteKeys tgs ks) ns n u"
  using assms by (simp add: IsOwnedBy_def deleteKeys_def goget_def OwnerTagValue_def)

lemma stale_not_owned:
  "IsStaleUID tgs ns n u = Some v \<Longrightarrow> \<not> IsOwnedBy tgs ns n u \<and> v \<noteq> u"
  by (auto simp: IsStaleUID_def IsOwnedBy_def split: if_splits option.splits)

text \<open>
  The owner value determines namespace and name, because a Kubernetes namespace contains no slash:
  two custom resources never share it.
\<close>

lemma OwnerTagValue_inj:
  assumes "OwnerTagValue ns n = OwnerTagValue ns' n'" "CHR ''/'' \<notin> set ns" "CHR ''/'' \<notin> set ns'"
  shows "ns = ns' \<and> n = n'"
proof -
  have "ns @ CHR ''/'' # n = ns' @ CHR ''/'' # n'"
    using assms(1) by (simp add: OwnerTagValue_def)
  then show ?thesis using assms(2,3) by (rule split_at_fresh)
qed

section \<open>Properties\<close>

text \<open>C4: A resource found in AWS is only ever taken over when it carries no owner tag and the
  entry asks for adoption, or when it carries this custom resource's own owner value with exactly
  the UID the takeover annotation names, or with no or this very UID and adoption asked for. A resource of
  another custom resource is refused with the owner's name in the error and never tagged, and a refusal never asks for a retry.\<close>

theorem ownership_is_exclusive:
  shows "CheckExistingOwnership p kind name tgs adopt = Inr transferred \<longleftrightarrow>
     (case tgs OwnerTagKey of
        Some owner \<Rightarrow> owner = OwnerTagValue (ps_namespace p) (ps_crName p) \<and>
          (case tgs OwnerUIDTagKey of
             Some uid \<Rightarrow> if uid = ps_crUID p then adopt \<and> \<not> transferred
                         else transferred \<and> ps_adoptFromUID p = uid \<and> uid \<noteq> []
           | None \<Rightarrow> adopt \<and> \<not> transferred)
      | None \<Rightarrow> adopt \<and> \<not> transferred)"
proof (cases "tgs OwnerTagKey")
  case None
  then have "IsStaleUID tgs (ps_namespace p) (ps_crName p) (ps_crUID p) = None"
    by (simp add: IsStaleUID_def OwnerTagValue_def)
  with None show ?thesis by (auto simp: CheckExistingOwnership_def)
next
  case (Some owner)
  then show ?thesis
    by (auto simp: CheckExistingOwnership_def IsStaleUID_def MayTransferFrom_def split: option.split)
qed

text \<open>Tagging and releasing are inverse: merging the owner tags over any tag set makes it owned
  by this custom resource and keeps every other tag, removing the two owner keys makes it owned by
  nobody, and dropping the release tags changes the ownership of nothing.\<close>

theorem tagging_transfers_ownership:
  "owned_by_pass p (MergeTags tgs (ownerTags p))
   \<and> (\<forall>k. k \<notin> {OwnerTagKey, OwnerUIDTagKey} \<longrightarrow> MergeTags tgs (ownerTags p) k = tgs k)
   \<and> \<not> IsOwnedBy (deleteKeys tgs [OwnerTagKey, OwnerUIDTagKey]) ns n u
   \<and> IsOwnedBy (WithoutReleaseTags tgs) ns n u = IsOwnedBy tgs ns n u"
  by (simp add: not_owned_after_untag) (simp add: MergeTags_def ownerTags_def map_add_def)

theorem tagging_transfers_ownership_witness:
  "MergeTags [''team'' \<mapsto> ''x''] (ownerTags demoPass) ''team'' = Some ''x''"
  using tagging_transfers_ownership [where tgs = "[''team'' \<mapsto> ''x'']" and p = demoPass]
  by (simp add: OwnerTagKey_def OwnerUIDTagKey_def)

end
