(* ===== verification/Sha256.thy ===== *)
theory Sha256
  imports Prelude "HOL-Library.Word"
begin

unbundle bit_operations_syntax

text \<open>
  \<^verbatim>\<open>crypto/sha256.Sum256\<close> followed by \<^verbatim>\<open>hex.EncodeToString\<close>, as FIPS 180-4 defines them, on byte
  strings. The naming scheme of the operator hashes every resource identity with it. The
  message length in bits is taken modulo \<open>2 ^ 64\<close>, as the padding field has eight bytes.
\<close>

type_synonym u32 = "32 word"

text \<open>
  The round constants and the initial state are the first 32 bits of the fractional parts of the cube roots
  of the first 64 primes and of the square roots of the first eight. \<open>iroot k b r n\<close> extends
  \<open>r\<close> by the \<open>b\<close> low bits of the integer \<open>k\<close>-th root of \<open>n\<close>.
\<close>

primrec iroot :: "nat \<Rightarrow> nat \<Rightarrow> nat \<Rightarrow> nat \<Rightarrow> nat" where
  "iroot k 0 r n = r"
| "iroot k (Suc b) r n = iroot k b (if (r + 2 ^ b) ^ k \<le> n then r + 2 ^ b else r) n"

definition fracRoot :: "nat \<Rightarrow> nat \<Rightarrow> u32" where
  "fracRoot k p = of_nat (iroot k 40 0 (p * 2 ^ (32 * k)))"

definition smallPrimes :: "nat list" where
  "smallPrimes = filter (\<lambda>n. \<forall>d\<in>set [2..<n]. n mod d \<noteq> 0) [2..<312]"

definition sha256_K :: "u32 list" where
  "sha256_K = map (fracRoot 3) smallPrimes"

definition sha256_H0 :: "u32 list" where
  "sha256_H0 = map (fracRoot 2) (take 8 smallPrimes)"

definition rotr32 :: "nat \<Rightarrow> u32 \<Rightarrow> u32" where
  "rotr32 n x = drop_bit n x OR push_bit (32 - n) x"

definition small_sigma0 :: "u32 \<Rightarrow> u32" where
  "small_sigma0 x = rotr32 7 x XOR rotr32 18 x XOR drop_bit 3 x"

definition small_sigma1 :: "u32 \<Rightarrow> u32" where
  "small_sigma1 x = rotr32 17 x XOR rotr32 19 x XOR drop_bit 10 x"

definition big_sigma0 :: "u32 \<Rightarrow> u32" where
  "big_sigma0 x = rotr32 2 x XOR rotr32 13 x XOR rotr32 22 x"

definition big_sigma1 :: "u32 \<Rightarrow> u32" where
  "big_sigma1 x = rotr32 6 x XOR rotr32 11 x XOR rotr32 25 x"

section \<open>Padding and message schedule\<close>

definition be_bytes :: "nat \<Rightarrow> nat \<Rightarrow> nat list" where
  "be_bytes k n = map (\<lambda>i. (n div 256 ^ (k - 1 - i)) mod 256) [0..<k]"

definition pad :: "nat list \<Rightarrow> nat list" where
  "pad bs = bs @ [128] @ replicate ((119 - length bs mod 64) mod 64) 0 @ be_bytes 8 (8 * length bs)"

fun words_of_bytes :: "nat list \<Rightarrow> u32 list" where
  "words_of_bytes (a # b # c # d # bs) =
     of_nat (((a * 256 + b) * 256 + c) * 256 + d) # words_of_bytes bs"
| "words_of_bytes _ = []"

fun schedule :: "nat \<Rightarrow> u32 list \<Rightarrow> u32 list" where
  "schedule 0 ws = ws"
| "schedule (Suc n) ws =
     (let t = length ws
      in schedule n (ws @ [small_sigma1 (ws ! (t - 2)) + ws ! (t - 7) + small_sigma0 (ws ! (t - 15))
                           + ws ! (t - 16)]))"

section \<open>Compression\<close>

type_synonym sha_state = "u32 \<times> u32 \<times> u32 \<times> u32 \<times> u32 \<times> u32 \<times> u32 \<times> u32"

fun sha_round :: "u32 \<times> u32 \<Rightarrow> sha_state \<Rightarrow> sha_state" where
  "sha_round (k, w) (a, b, c, d, e, f, g, h) =
     (let t1 = h + big_sigma1 e + ((e AND f) XOR (NOT e AND g)) + k + w;
          t2 = big_sigma0 a + ((a AND b) XOR (a AND c) XOR (b AND c))
      in (t1 + t2, a, b, c, d + t1, e, f, g))"

fun add_state :: "sha_state \<Rightarrow> sha_state \<Rightarrow> sha_state" where
  "add_state (a, b, c, d, e, f, g, h) (a', b', c', d', e', f', g', h') =
     (a + a', b + b', c + c', d + d', e + e', f + f', g + g', h + h')"

definition compress :: "u32 list \<Rightarrow> sha_state \<Rightarrow> sha_state" where
  "compress block st = add_state st (fold sha_round (zip sha256_K (schedule 48 block)) st)"

function compress_all :: "u32 list \<Rightarrow> sha_state \<Rightarrow> sha_state" where
  "compress_all ws st =
     (if ws = [] then st else compress_all (drop 16 ws) (compress (take 16 ws) st))"
  by pat_completeness auto
termination
  by (relation "measure (\<lambda>(ws, st). length ws)") auto

declare compress_all.simps [simp del]

definition init_state :: sha_state where
  "init_state = (sha256_H0 ! 0, sha256_H0 ! 1, sha256_H0 ! 2, sha256_H0 ! 3,
                 sha256_H0 ! 4, sha256_H0 ! 5, sha256_H0 ! 6, sha256_H0 ! 7)"

fun state_words :: "sha_state \<Rightarrow> u32 list" where
  "state_words (a, b, c, d, e, f, g, h) = [a, b, c, d, e, f, g, h]"

section \<open>Hexadecimal digest\<close>

definition hex_digits :: string where "hex_digits = ''0123456789abcdef''"

definition word_hex :: "u32 \<Rightarrow> string" where
  "word_hex w = map (\<lambda>i. hex_digits ! (unat w div 16 ^ (7 - i) mod 16)) [0..<8]"

definition sha256_hex :: "string \<Rightarrow> string" where
  "sha256_hex s =
     concat (map word_hex (state_words (compress_all (words_of_bytes (pad (map of_char s))) init_state)))"

lemma word_hex_length [simp]: "length (word_hex w) = 8"
  by (simp add: word_hex_def)

lemma word_hex_chars: "set (word_hex w) \<subseteq> set hex_digits"
proof -
  have "length hex_digits = 16" by (simp add: hex_digits_def)
  then show ?thesis by (auto simp: word_hex_def)
qed

lemma sha256_hex_length: "length (sha256_hex s) = 64"
proof -
  have "length (concat (map word_hex (state_words st))) = 64" for st
    by (cases st rule: state_words.cases) simp
  then show ?thesis by (simp add: sha256_hex_def)
qed

lemma sha256_hex_chars: "set (sha256_hex s) \<subseteq> set hex_digits"
  using word_hex_chars by (auto simp: sha256_hex_def)

end
