(* ===== verification/Naming.thy ===== *)
theory Naming
  imports Sha256 Errors
begin

text \<open>
  Deterministic AWS names, \<^verbatim>\<open>internal/aws/naming.go\<close>: the identity hash, the readable prefix and
  its per-service cleaning, the ledger keys of derived resources. The lemmas show that a name
  fits the service's limit and alphabet and that two identities share a name only when the
  truncated hash collides on two different inputs.
\<close>

section \<open>Identity hash and derived keys\<close>

definition identityHashLen :: nat where "identityHashLen = 12"

definition identityHash :: "string list \<Rightarrow> string" where
  "identityHash flds = take identityHashLen (sha256_hex (join flds [CHR 0x00]))"

definition derivedKeySeparator :: string where "derivedKeySeparator = ''#''"

definition DerivedKey :: "string \<Rightarrow> string \<Rightarrow> string" where
  "DerivedKey resourceKey role = resourceKey @ derivedKeySeparator @ role"

definition DedicatedKeyRole :: string where "DedicatedKeyRole = ''key''"

definition ResourceTypeRDSSnapshot :: string where "ResourceTypeRDSSnapshot = ''rds-snapshot''"

definition DedicatedKeyLedgerName :: "string \<Rightarrow> string \<Rightarrow> string" where
  "DedicatedKeyLedgerName ownerType resourceName =
     ownerType @ derivedKeySeparator @ resourceName @ derivedKeySeparator @ DedicatedKeyRole"

section \<open>Cleaning a prefix for a service\<close>

datatype NameStyle = NameStyleAny | NameStyleWordChars | NameStyleRDS | NameStyleS3

definition byte_in :: "char \<Rightarrow> char \<Rightarrow> char \<Rightarrow> bool" where
  "byte_in lo c hi \<longleftrightarrow> (of_char lo :: nat) \<le> of_char c \<and> (of_char c :: nat) \<le> of_char hi"

definition isLetter :: "char \<Rightarrow> bool" where
  "isLetter c \<longleftrightarrow> byte_in CHR ''a'' c CHR ''z'' \<or> byte_in CHR ''A'' c CHR ''Z''"

definition isDigit :: "char \<Rightarrow> bool" where
  "isDigit c \<longleftrightarrow> byte_in CHR ''0'' c CHR ''9''"

definition mapBytes :: "string \<Rightarrow> (char \<Rightarrow> bool) \<Rightarrow> string" where
  "mapBytes s keep = map (\<lambda>c. if \<not> keep c then CHR ''-'' else c) s"

text \<open>
  \<^verbatim>\<open>for strings.Contains(s, old) { s = strings.ReplaceAll(s, old, new) }\<close>. The sources only run it
  with a replacement shorter than the pattern, which is what makes it stop; the guard states
  that use.
\<close>

function replaceWhile :: "string \<Rightarrow> string \<Rightarrow> string \<Rightarrow> string" where
  "replaceWhile s old new =
     (if length new < length old \<and> contains s old then replaceWhile (replaceAll s old new) old new
      else s)"
  by pat_completeness auto
termination
  by (relation "measure (\<lambda>(s, old, new). length s)") (auto intro: replaceAll_shorter)

declare replaceWhile.simps [simp del]

fun clean :: "NameStyle \<Rightarrow> string \<Rightarrow> string" where
  "clean NameStyleWordChars pfx =
     mapBytes pfx (\<lambda>c. isLetter c \<or> isDigit c \<or> c = CHR ''-'' \<or> c = CHR ''_'')"
| "clean NameStyleRDS pfx =
     replaceWhile (mapBytes pfx (\<lambda>c. isLetter c \<or> isDigit c \<or> c = CHR ''-'')) ''--'' ''-''"
| "clean NameStyleS3 pfx =
     fold (\<lambda>adjacent s. replaceWhile s adjacent ''-'') [''..'', ''.-'', ''-.'']
       (mapBytes pfx (\<lambda>c. byte_in CHR ''a'' c CHR ''z'' \<or> isDigit c \<or> c = CHR ''-'' \<or> c = CHR ''.''))"
| "clean NameStyleAny pfx = pfx"

fun trimEnd :: "NameStyle \<Rightarrow> string \<Rightarrow> string" where
  "trimEnd NameStyleRDS pfx = trimRight pfx CHR ''-''"
| "trimEnd NameStyleS3 pfx = trimRight pfx CHR ''.''"
| "trimEnd _ pfx = pfx"

section \<open>Building a name\<close>

definition buildName :: "NameStyle \<Rightarrow> string \<Rightarrow> string \<Rightarrow> int \<Rightarrow> string" where
  "buildName style pfx hash maxLen =
     (let p1 = clean style pfx;
          budget = nat (max (maxLen - int (length hash) - 1) 0);
          p2 = (if style = NameStyleRDS \<and> (p1 = [] \<or> \<not> isLetter (hd p1)) then ''db-'' @ p1 else p1);
          p3 = (if length p2 > budget then take budget p2 else p2);
          p4 = trimEnd style p3;
          p5 = (if p4 = [] \<and> style = NameStyleRDS then ''db'' else p4)
      in p5 @ ''-'' @ hash)"

definition ResourceNameFor :: "NameStyle \<Rightarrow> string \<Rightarrow> string \<Rightarrow> string \<Rightarrow> string \<Rightarrow> int \<Rightarrow> string" where
  "ResourceNameFor style namespace crName resourceType key maxLen =
     buildName style (namespace @ ''-'' @ crName @ ''-'' @ key)
       (identityHash [namespace, crName, resourceType, key]) maxLen"

definition ResourceName :: "string \<Rightarrow> string \<Rightarrow> string \<Rightarrow> string \<Rightarrow> int \<Rightarrow> string" where
  "ResourceName namespace crName resourceType key maxLen =
     ResourceNameFor NameStyleAny namespace crName resourceType key maxLen"

definition DerivedResourceNameFor ::
  "NameStyle \<Rightarrow> string \<Rightarrow> string \<Rightarrow> string \<Rightarrow> int \<Rightarrow> string list \<Rightarrow> string" where
  "DerivedResourceNameFor style namespace crName resourceType maxLen keyParts =
     buildName style (join ([namespace, crName] @ keyParts) ''-'')
       (identityHash ([namespace, crName, resourceType] @ keyParts)) maxLen"

definition DerivedResourceName :: "string \<Rightarrow> string \<Rightarrow> string \<Rightarrow> int \<Rightarrow> string list \<Rightarrow> string" where
  "DerivedResourceName namespace crName resourceType maxLen keyParts =
     DerivedResourceNameFor NameStyleAny namespace crName resourceType maxLen keyParts"

definition QueueOrTopicName :: "string \<Rightarrow> string \<Rightarrow> string \<Rightarrow> bool \<Rightarrow> int \<Rightarrow> string list \<Rightarrow> string" where
  "QueueOrTopicName namespace crName resourceType fifo maxLen keyParts =
     (let limit = (if fifo then maxLen - int (length ''.fifo'') else maxLen);
          name = DerivedResourceNameFor NameStyleWordChars namespace crName resourceType limit keyParts
      in if fifo then name @ ''.fifo'' else name)"

definition CheckFIFOUnchanged :: "string \<Rightarrow> string \<Rightarrow> bool \<Rightarrow> go_error option" where
  "CheckFIFOUnchanged kind arn fifo =
     (let isFIFO = hasSuffix arn ''.fifo''
      in if isFIFO = fifo then None
         else let have = (if isFIFO then ''FIFO'' else ''standard'');
                  want = (if isFIFO then ''standard'' else ''FIFO'')
              in Some (ReconcileError
                   (msgError ''the type can't change'' [kind, afterLast arn CHR '':'', have, want])
                   False ''FIFOChanged'' False))"

definition TopicARN :: "string \<Rightarrow> string \<Rightarrow> string \<Rightarrow> string" where
  "TopicARN region accountID topicName =
     ''arn:aws:sns:'' @ region @ '':'' @ accountID @ '':'' @ topicName"

section \<open>The hash part\<close>

lemma identityHash_length [simp]: "length (identityHash fs) = 12"
  by (simp add: identityHash_def identityHashLen_def sha256_hex_length)

lemma identityHash_chars: "set (identityHash fs) \<subseteq> set hex_digits"
  using set_take_subset sha256_hex_chars unfolding identityHash_def by fastforce

lemma hex_digit_ok:
  "c \<in> set hex_digits \<Longrightarrow> (isLetter c \<or> isDigit c) \<and> c \<noteq> CHR ''-'' \<and> c \<noteq> CHR ''.''"
  by (auto simp: hex_digits_def isLetter_def isDigit_def byte_in_def)

lemma buildName_suffix: "\<exists>p. buildName style pfx hash maxLen = p @ CHR ''-'' # hash"
  by (simp add: buildName_def Let_def)

lemma buildName_same_hash:
  assumes "buildName s p h m = buildName s' p' h' m'" "length h = length h'"
  shows "h = h'"
proof -
  obtain a b where "a @ CHR ''-'' # h = b @ CHR ''-'' # h'"
    using buildName_suffix assms(1) by metis
  with assms(2) show ?thesis by (simp add: append_eq_append_conv)
qed

text \<open>What a name's hash is computed from, and that it determines the identity.\<close>

definition hash_input :: "string list \<Rightarrow> string" where
  "hash_input flds = join flds [CHR 0x00]"

definition nul_free :: "string list \<Rightarrow> bool" where
  "nul_free flds \<longleftrightarrow> (\<forall>f\<in>set flds. CHR 0x00 \<notin> set f)"

definition hash_collision :: "string \<Rightarrow> string \<Rightarrow> bool" where
  "hash_collision x y \<longleftrightarrow> x \<noteq> y \<and> take identityHashLen (sha256_hex x) = take identityHashLen (sha256_hex y)"

lemma hash_input_inj:
  assumes "hash_input xs = hash_input ys" "xs \<noteq> []" "ys \<noteq> []" "nul_free xs" "nul_free ys"
  shows "xs = ys"
  using assms unfolding hash_input_def nul_free_def by (intro join_fresh_inj)

lemma identityHash_eq_cases:
  assumes "identityHash xs = identityHash ys" "xs \<noteq> []" "ys \<noteq> []" "nul_free xs" "nul_free ys"
  shows "xs = ys \<or> hash_collision (hash_input xs) (hash_input ys)"
  using assms hash_input_inj unfolding identityHash_def hash_collision_def hash_input_def by metis

lemma DerivedResourceNameFor_eq_cases:
  assumes "DerivedResourceNameFor s ns cr ty m ks = DerivedResourceNameFor s' ns' cr' ty' m' ks'"
    and "nul_free ([ns, cr, ty] @ ks)" "nul_free ([ns', cr', ty'] @ ks')"
  shows "(ns, cr, ty, ks) = (ns', cr', ty', ks')
         \<or> hash_collision (hash_input ([ns, cr, ty] @ ks)) (hash_input ([ns', cr', ty'] @ ks'))"
proof -
  have "identityHash ([ns, cr, ty] @ ks) = identityHash ([ns', cr', ty'] @ ks')"
    using assms(1) buildName_same_hash unfolding DerivedResourceNameFor_def by fastforce
  from identityHash_eq_cases [OF this] assms(2,3) show ?thesis by auto
qed

text \<open>A name built from one key is the derived name of the one-element key list.\<close>

lemma ResourceNameFor_derived:
  "ResourceNameFor style ns cr ty key m = DerivedResourceNameFor style ns cr ty m [key]"
  by (simp add: ResourceNameFor_def DerivedResourceNameFor_def)

section \<open>Length\<close>

lemma trimEnd_prefix: "prefix (trimEnd style p) p"
  by (cases style) (simp_all add: trimRight_prefix)

lemma trimEnd_length: "length (trimEnd style p) \<le> length p"
  by (simp add: trimEnd_prefix prefix_length_le)

lemma buildName_length:
  assumes "int (length hash) + 3 \<le> maxLen"
  shows "int (length (buildName style pfx hash maxLen)) \<le> maxLen"
proof -
  define budget where "budget = nat (max (maxLen - int (length hash) - 1) 0)"
  have b: "int budget = maxLen - int (length hash) - 1" "2 \<le> budget"
    using assms by (auto simp: budget_def)
  define p2 where "p2 = (if style = NameStyleRDS \<and> (clean style pfx = [] \<or> \<not> isLetter (hd (clean style pfx)))
    then ''db-'' @ clean style pfx else clean style pfx)"
  define p4 where "p4 = trimEnd style (if length p2 > budget then take budget p2 else p2)"
  have "length p4 \<le> budget"
    unfolding p4_def using trimEnd_length [of style "if length p2 > budget then take budget p2 else p2"]
    by (auto split: if_splits)
  moreover have "buildName style pfx hash maxLen =
      (if p4 = [] \<and> style = NameStyleRDS then ''db'' else p4) @ ''-'' @ hash"
    unfolding buildName_def Let_def budget_def [symmetric] p2_def [symmetric] p4_def [symmetric] ..
  ultimately show ?thesis using b by (auto simp: algebra_simps)
qed

section \<open>Alphabet and adjacency\<close>

text \<open>\<open>pair_free a b s\<close>: the bytes \<open>a\<close>, \<open>b\<close> never stand next to each other in \<open>s\<close>.\<close>

definition pair_free :: "char \<Rightarrow> char \<Rightarrow> string \<Rightarrow> bool" where
  "pair_free a b s \<longleftrightarrow> \<not> contains s [a, b]"

lemma pair_free_Nil [simp]: "pair_free a b []"
  by (simp add: pair_free_def)

lemma pair_free_Cons [simp]:
  "pair_free a b (c # s) \<longleftrightarrow> \<not> (c = a \<and> s \<noteq> [] \<and> hd s = b) \<and> pair_free a b s"
  by (cases s) (auto simp: pair_free_def hasPrefix_def)

lemma pair_free_append:
  "pair_free a b (s @ t) \<longleftrightarrow>
     pair_free a b s \<and> pair_free a b t \<and> \<not> (s \<noteq> [] \<and> t \<noteq> [] \<and> last s = a \<and> hd t = b)"
  by (induction s) (auto simp: hd_append)

lemma pair_free_prefix: "prefix p s \<Longrightarrow> pair_free a b s \<Longrightarrow> pair_free a b p"
  by (auto simp: prefix_def pair_free_append)

lemma pair_free_other: "a \<notin> set s \<or> b \<notin> set s \<Longrightarrow> pair_free a b s"
  by (induction s) auto

lemma set_replaceAll: "set (replaceAll s old new) \<subseteq> set s \<union> set new"
proof (induction s old new rule: replaceAll.induct)
  case (2 c s old new)
  then show ?case
    using in_set_dropD [of _ "length old" "c # s"] by (auto split: if_splits)
qed simp

lemma set_replaceWhile: "set (replaceWhile s old new) \<subseteq> set s \<union> set new"
proof (induction s old new rule: replaceWhile.induct)
  case (1 s old new)
  then show ?case
    using set_replaceAll [of s old new] by (subst replaceWhile.simps) auto
qed

lemma replaceWhile_free: "length new < length old \<Longrightarrow> \<not> contains (replaceWhile s old new) old"
  by (induction s old new rule: replaceWhile.induct) (subst replaceWhile.simps, auto)

text \<open>A property that one replacement keeps is kept by the loop.\<close>

lemma replaceWhile_invariant:
  assumes "P s" "\<And>t. P t \<Longrightarrow> P (replaceAll t old new)"
  shows "P (replaceWhile s old new)"
  using assms
proof (induction s old new rule: replaceWhile.induct)
  case (1 s old new)
  have "P (replaceAll s old new)" using "1.prems" by blast
  with "1.IH" "1.prems" show ?case
    by (subst replaceWhile.simps) (simp split: if_splits)
qed

lemma hd_replaceAll_pair:
  "hd (replaceAll (c # s) [a, b] [h]) = (if c = a \<and> s \<noteq> [] \<and> hd s = b then h else c)"
  by (cases s) (auto simp: hasPrefix_def)

lemma replaceAll_pair_nonempty [simp]: "replaceAll (c # s) [a, b] [h] \<noteq> []"
  by simp

lemma replaceAll_pair_cases:
  "replaceAll (c # s) [a, b] [h] =
     (if c = a \<and> s \<noteq> [] \<and> hd s = b then h # replaceAll (tl s) [a, b] [h]
      else c # replaceAll s [a, b] [h])"
  by (cases s) (auto simp: hasPrefix_def)

lemma replaceAll_pair_nil_iff [simp]: "replaceAll s [a, b] [h] = [] \<longleftrightarrow> s = []"
  by (cases s) auto

declare replaceAll.simps(2) [simp del]

lemma pair_free_tl: "pair_free a b s \<Longrightarrow> pair_free a b (tl s)"
  by (cases s) auto

lemma replaceAll_dot_dash_keeps:
  assumes "d \<noteq> h" "pair_free d d s"
  shows "pair_free d d (replaceAll s [d, h] [h])"
  using assms(2)
proof (induction "length s" arbitrary: s rule: less_induct)
  case less
  show ?case
  proof (cases s)
    case (Cons c s')
    have IH1: "pair_free d d (replaceAll s' [d, h] [h])" using less Cons by simp
    have IH2: "pair_free d d (replaceAll (tl s') [d, h] [h])"
      using less Cons pair_free_tl [of d d s'] by simp
    have "s' \<noteq> [] \<Longrightarrow> hd (replaceAll s' [d, h] [h]) = d \<Longrightarrow> hd s' = d"
      using assms(1) by (cases s') (auto simp: hd_replaceAll_pair split: if_splits)
    with less.prems Cons IH1 IH2 assms(1) show ?thesis
      by (auto simp: replaceAll_pair_cases)
  qed simp
qed

lemma replaceAll_dash_dot_keeps:
  assumes "d \<noteq> h" "pair_free d d s" "pair_free d h s"
  shows "pair_free d d (replaceAll s [h, d] [h]) \<and> pair_free d h (replaceAll s [h, d] [h])"
  using assms(2,3)
proof (induction "length s" arbitrary: s rule: less_induct)
  case less
  show ?case
  proof (cases s)
    case (Cons c s')
    have IH1: "pair_free d d (replaceAll s' [h, d] [h]) \<and> pair_free d h (replaceAll s' [h, d] [h])"
      using less Cons by simp
    have IH2: "pair_free d d (replaceAll (tl s') [h, d] [h]) \<and> pair_free d h (replaceAll (tl s') [h, d] [h])"
      using less Cons pair_free_tl [of d d s'] pair_free_tl [of d h s'] by simp
    have "s' \<noteq> [] \<Longrightarrow> hd (replaceAll s' [h, d] [h]) = hd s'"
      by (cases s') (auto simp: hd_replaceAll_pair)
    with less.prems Cons IH1 IH2 assms(1) show ?thesis
      by (auto simp: replaceAll_pair_cases)
  qed simp
qed

definition s3_bytes_ok :: "string \<Rightarrow> bool" where
  "s3_bytes_ok s \<longleftrightarrow> pair_free CHR ''.'' CHR ''.'' s \<and> pair_free CHR ''.'' CHR ''-'' s \<and> pair_free CHR ''-'' CHR ''.'' s"

lemma clean_S3_ok: "s3_bytes_ok (clean NameStyleS3 p)"
proof -
  let ?m = "mapBytes p (\<lambda>c. byte_in CHR ''a'' c CHR ''z'' \<or> isDigit c \<or> c = CHR ''-'' \<or> c = CHR ''.'')"
  define s1 where "s1 = replaceWhile ?m ''..'' ''-''"
  define s2 where "s2 = replaceWhile s1 ''.-'' ''-''"
  define s3 where "s3 = replaceWhile s2 ''-.'' ''-''"
  have a1: "pair_free CHR ''.'' CHR ''.'' s1"
    unfolding s1_def pair_free_def by (rule replaceWhile_free) simp
  have a2: "pair_free CHR ''.'' CHR ''.'' s2"
    unfolding s2_def using a1
    by (rule replaceWhile_invariant [where P = "pair_free CHR ''.'' CHR ''.''"])
       (rule replaceAll_dot_dash_keeps, simp)
  have b2: "pair_free CHR ''.'' CHR ''-'' s2"
    unfolding s2_def pair_free_def by (rule replaceWhile_free) simp
  have "pair_free CHR ''.'' CHR ''.'' s3 \<and> pair_free CHR ''.'' CHR ''-'' s3"
    unfolding s3_def
  proof (rule replaceWhile_invariant)
    show "pair_free CHR ''.'' CHR ''.'' s2 \<and> pair_free CHR ''.'' CHR ''-'' s2" using a2 b2 ..
    fix t assume "pair_free CHR ''.'' CHR ''.'' t \<and> pair_free CHR ''.'' CHR ''-'' t"
    then show "pair_free CHR ''.'' CHR ''.'' (replaceAll t ''-.'' ''-'')
        \<and> pair_free CHR ''.'' CHR ''-'' (replaceAll t ''-.'' ''-'')"
      by (intro replaceAll_dash_dot_keeps) auto
  qed
  moreover have "pair_free CHR ''-'' CHR ''.'' s3"
    unfolding s3_def pair_free_def by (rule replaceWhile_free) simp
  ultimately show ?thesis
    by (simp add: s3_bytes_ok_def s1_def s2_def s3_def)
qed

lemma clean_RDS_free: "pair_free CHR ''-'' CHR ''-'' (clean NameStyleRDS p)"
  unfolding pair_free_def clean.simps by (rule replaceWhile_free) simp

lemma set_mapBytes: "c \<in> set (mapBytes s keep) \<Longrightarrow> keep c \<or> c = CHR ''-''"
  by (auto simp: mapBytes_def split: if_splits)

text \<open>The bytes each service takes in a name.\<close>

fun byte_allowed :: "NameStyle \<Rightarrow> char \<Rightarrow> bool" where
  "byte_allowed NameStyleWordChars c \<longleftrightarrow> isLetter c \<or> isDigit c \<or> c = CHR ''-'' \<or> c = CHR ''_''"
| "byte_allowed NameStyleRDS c \<longleftrightarrow> isLetter c \<or> isDigit c \<or> c = CHR ''-''"
| "byte_allowed NameStyleS3 c \<longleftrightarrow> byte_in CHR ''a'' c CHR ''z'' \<or> isDigit c \<or> c = CHR ''-'' \<or> c = CHR ''.''"
| "byte_allowed NameStyleAny c \<longleftrightarrow> True"

lemma clean_allowed: "c \<in> set (clean style p) \<Longrightarrow> byte_allowed style c"
proof (cases style)
  case NameStyleS3
  let ?m = "mapBytes p (\<lambda>c. byte_in CHR ''a'' c CHR ''z'' \<or> isDigit c \<or> c = CHR ''-'' \<or> c = CHR ''.'')"
  assume "c \<in> set (clean style p)"
  then have "c \<in> set (replaceWhile (replaceWhile (replaceWhile ?m ''..'' ''-'') ''.-'' ''-'') ''-.'' ''-'')"
    using NameStyleS3 by simp
  then have "c \<in> set ?m \<union> set ''-''"
    using set_replaceWhile [of _ _ "''-''"] by blast
  then have "c \<in> set ?m \<or> c = CHR ''-''" by auto
  with NameStyleS3 show ?thesis using set_mapBytes [of c] by auto
next
  case NameStyleRDS
  assume "c \<in> set (clean style p)"
  then have "c \<in> set (replaceWhile (mapBytes p (\<lambda>c. isLetter c \<or> isDigit c \<or> c = CHR ''-'')) ''--'' ''-'')"
    using NameStyleRDS by simp
  then have "c \<in> set (mapBytes p (\<lambda>c. isLetter c \<or> isDigit c \<or> c = CHR ''-'')) \<union> set ''-''"
    using set_replaceWhile [of _ _ "''-''"] by blast
  with NameStyleRDS show ?thesis using set_mapBytes [of c] by auto
qed (auto dest: set_mapBytes)

lemma hex_lower: "c \<in> set hex_digits \<Longrightarrow> byte_in CHR ''a'' c CHR ''z'' \<or> isDigit c"
  by (auto simp: hex_digits_def isDigit_def byte_in_def)

lemma hex_allowed: "c \<in> set hex_digits \<Longrightarrow> byte_allowed style c"
  using hex_digit_ok [of c] hex_lower [of c] by (cases style) auto

text \<open>The prefix of a built name, before the dash and the hash.\<close>

definition name_prefix :: "NameStyle \<Rightarrow> string \<Rightarrow> nat \<Rightarrow> string" where
  "name_prefix style p budget =
     trimEnd style (take budget
       (if style = NameStyleRDS \<and> (clean style p = [] \<or> \<not> isLetter (hd (clean style p)))
        then ''db-'' @ clean style p else clean style p))"

lemma buildName_name_prefix:
  "buildName style p hash maxLen =
     (let q = name_prefix style p (nat (max (maxLen - int (length hash) - 1) 0))
      in (if q = [] \<and> style = NameStyleRDS then ''db'' else q)) @ ''-'' @ hash"
proof -
  have trunc: "(if length q > b then take b q else q) = take b q" for q :: string and b by simp
  show ?thesis unfolding buildName_def name_prefix_def Let_def trunc by (rule refl)
qed

lemma name_prefix_subset:
  "set (name_prefix style p b) \<subseteq> set (clean style p) \<union> (if style = NameStyleRDS then set ''db-'' else {})"
proof -
  have sub: "set (trimEnd style (take b q)) \<subseteq> set q" for q
    by (meson dual_order.trans set_mono_prefix set_take_subset trimEnd_prefix)
  show ?thesis unfolding name_prefix_def by (rule subset_trans [OF sub]) auto
qed

lemma db_allowed: "c \<in> set ''db-'' \<Longrightarrow> byte_allowed NameStyleRDS c"
  by (auto simp: isLetter_def byte_in_def)

lemma buildName_allowed:
  assumes "set hash \<subseteq> set hex_digits"
  shows "\<forall>c\<in>set (buildName style p hash m). byte_allowed style c"
proof
  fix c assume "c \<in> set (buildName style p hash m)"
  then consider "c \<in> set (name_prefix style p (nat (max (m - int (length hash) - 1) 0)))"
    | "c \<in> set ''db-''" "style = NameStyleRDS" | "c = CHR ''-''" | "c \<in> set hash"
    by (auto simp: buildName_name_prefix Let_def split: if_splits)
  then show "byte_allowed style c"
  proof cases
    case 1
    then consider "c \<in> set (clean style p)" | "c \<in> set ''db-''" "style = NameStyleRDS"
      using name_prefix_subset by (fastforce split: if_splits)
    then show ?thesis using clean_allowed db_allowed by cases auto
  next
    case 2
    then show ?thesis using db_allowed by auto
  next
    case 3
    then show ?thesis by (cases style) auto
  next
    case 4
    then show ?thesis using assms hex_allowed by blast
  qed
qed

lemma buildName_S3_ok:
  assumes "set hash \<subseteq> set hex_digits"
  shows "s3_bytes_ok (buildName NameStyleS3 p hash m)"
proof -
  define q where "q = name_prefix NameStyleS3 p (nat (max (m - int (length hash) - 1) 0))"
  have pq: "prefix q (clean NameStyleS3 p)"
    unfolding q_def name_prefix_def by (simp add: prefix_order.trans [OF trimRight_prefix] take_is_prefix)
  have q_ok: "s3_bytes_ok q"
    using clean_S3_ok [of p] pair_free_prefix [OF pq] by (simp add: s3_bytes_ok_def)
  have lq: "q \<noteq> [] \<Longrightarrow> last q \<noteq> CHR ''.''"
    unfolding q_def name_prefix_def by (simp add: trimRight_last)
  have dots: "CHR ''.'' \<notin> set hash" using assms hex_digit_ok by blast
  moreover have "hash \<noteq> [] \<Longrightarrow> hd hash \<noteq> CHR ''.''" using dots list.set_sel(1) by metis
  ultimately have "s3_bytes_ok (q @ CHR ''-'' # hash)"
    using q_ok lq by (auto simp: s3_bytes_ok_def pair_free_append pair_free_other)
  then show ?thesis by (simp add: buildName_name_prefix Let_def q_def)
qed

text \<open>
  The rules for bucket names that a generated name can meet or miss: at least three bytes, a lower-case letter or digit first
  and last, no dot next to a dot or hyphen, and not the form of an IP address, which has no hyphen. The readable prefix starts with the
  namespace, whose first byte is a lower-case letter or digit, so the cleaned prefix keeps it.
\<close>

definition s3_name_ok :: "string \<Rightarrow> bool" where
  "s3_name_ok s \<longleftrightarrow> 3 \<le> length s
     \<and> (byte_in CHR ''a'' (hd s) CHR ''z'' \<or> isDigit (hd s)) \<and> (byte_in CHR ''a'' (last s) CHR ''z'' \<or> isDigit (last s))
     \<and> s3_bytes_ok s \<and> CHR ''-'' \<in> set s"

text \<open>
  An RDS identifier starts with a letter, has no double hyphen and does not end in one. The
  prefix starts with the namespace, whose first byte is a letter or digit, so the cleaned prefix
  never starts with a hyphen.
\<close>

definition rds_name_ok :: "string \<Rightarrow> bool" where
  "rds_name_ok s \<longleftrightarrow> s \<noteq> [] \<and> isLetter (hd s) \<and> pair_free CHR ''-'' CHR ''-'' s \<and> last s \<noteq> CHR ''-''"

lemma dash_not_alnum [simp]: "\<not> isLetter CHR ''-''" "\<not> isDigit CHR ''-''"
  by (simp_all add: isLetter_def isDigit_def byte_in_def)

lemma hd_replaceWhile_pair:
  assumes "s \<noteq> []" "hd s \<noteq> a"
  shows "replaceWhile s [a, b] [h] \<noteq> [] \<and> hd (replaceWhile s [a, b] [h]) = hd s"
proof (rule replaceWhile_invariant [where P = "\<lambda>t. t \<noteq> [] \<and> hd t = hd s"])
  fix t assume "t \<noteq> [] \<and> hd t = hd s"
  then show "replaceAll t [a, b] [h] \<noteq> [] \<and> hd (replaceAll t [a, b] [h]) = hd s"
    using assms(2) by (cases t) (auto simp: hd_replaceAll_pair)
qed (use assms in simp)

lemma clean_RDS_hd:
  assumes "isLetter c \<or> isDigit c"
  shows "clean NameStyleRDS (c # p) \<noteq> [] \<and> hd (clean NameStyleRDS (c # p)) = c"
proof -
  have "c \<noteq> CHR ''-''" using assms by auto
  then show ?thesis
    using assms hd_replaceWhile_pair [of "mapBytes (c # p) (\<lambda>c. isLetter c \<or> isDigit c \<or> c = CHR ''-'')"]
    by (simp add: mapBytes_def)
qed

lemma clean_S3_hd:
  assumes "byte_in CHR ''a'' c CHR ''z'' \<or> isDigit c"
  shows "clean NameStyleS3 (c # p) \<noteq> [] \<and> hd (clean NameStyleS3 (c # p)) = c"
proof -
  let ?m = "mapBytes (c # p) (\<lambda>c. byte_in CHR ''a'' c CHR ''z'' \<or> isDigit c \<or> c = CHR ''-'' \<or> c = CHR ''.'')"
  have c: "c \<noteq> CHR ''.''" "c \<noteq> CHR ''-''" using assms by (auto simp: isDigit_def byte_in_def)
  have m: "?m \<noteq> [] \<and> hd ?m = c" using assms by (auto simp: mapBytes_def)
  have step: "t \<noteq> [] \<and> hd t = c \<Longrightarrow> a \<noteq> c \<Longrightarrow> replaceWhile t [a, b] ''-'' \<noteq> [] \<and> hd (replaceWhile t [a, b] ''-'') = c" for t a b
    using hd_replaceWhile_pair [of t a b "CHR ''-''"] by auto
  show ?thesis using step [OF step [OF step [OF m]]] c by (simp add: eq_commute)
qed

text \<open>A prefix that starts with a byte the style keeps is not cut away.\<close>

lemma trimRight_hd:
  assumes "q \<noteq> []" "hd q \<noteq> x" "1 \<le> b"
  shows "trimRight (take b q) x \<noteq> [] \<and> hd (trimRight (take b q) x) = hd q"
proof -
  have t: "take b q \<noteq> []" "hd (take b q) = hd q" using assms(1,3) by (simp_all add: hd_take)
  have ne: "trimRight (take b q) x \<noteq> []"
  proof
    assume "trimRight (take b q) x = []"
    then have "\<forall>y\<in>set (take b q). y = x" by (simp add: trimRight_def dropWhile_eq_Nil_conv)
    with t assms(2) show False by (metis list.set_sel(1))
  qed
  then show ?thesis using trimRight_prefix [of "take b q" x] t(2) unfolding prefix_def by (metis hd_append2)
qed

lemma buildName_S3_valid:
  assumes "byte_in CHR ''a'' c CHR ''z'' \<or> isDigit c" "set hash \<subseteq> set hex_digits" "hash \<noteq> []" "int (length hash) + 2 \<le> m"
  shows "s3_name_ok (buildName NameStyleS3 (c # p) hash m)"
proof -
  define q where "q = name_prefix NameStyleS3 (c # p) (nat (max (m - int (length hash) - 1) 0))"
  have "c \<noteq> CHR ''.''" using assms(1) by (auto simp: isDigit_def byte_in_def)
  then have q: "q \<noteq> [] \<and> hd q = c"
    using clean_S3_hd [OF assms(1), of p] assms(4) trimRight_hd [of "clean NameStyleS3 (c # p)" "CHR ''.''"]
    by (simp add: q_def name_prefix_def)
  have name: "buildName NameStyleS3 (c # p) hash m = q @ CHR ''-'' # hash"
    by (simp add: buildName_name_prefix Let_def q_def)
  have "last hash \<in> set hex_digits" using assms(2,3) last_in_set by blast
  with q assms(1,3) hex_lower [of "last hash"] buildName_S3_ok [OF assms(2), of "c # p" m] show ?thesis
    unfolding s3_name_ok_def name by (cases q; cases hash) auto
qed

lemma buildName_RDS_ok:
  assumes "isLetter c \<or> isDigit c" and "set hash \<subseteq> set hex_digits" "hash \<noteq> []"
    and "int (length hash) + 2 \<le> m"
  shows "rds_name_ok (buildName NameStyleRDS (c # p) hash m)"
proof -
  define b where "b = nat (max (m - int (length hash) - 1) 0)"
  define k where "k = clean NameStyleRDS (c # p)"
  define q2 where "q2 = (if \<not> isLetter c then ''db-'' @ k else k)"
  define q where "q = name_prefix NameStyleRDS (c # p) b"
  have k: "k \<noteq> []" "hd k = c" using clean_RDS_hd [OF assms(1)] by (simp_all add: k_def)
  have b1: "1 \<le> b" using assms(4) by (simp add: b_def)
  have free2: "pair_free CHR ''-'' CHR ''-'' q2"
    using clean_RDS_free [of "c # p"] k assms(1) by (auto simp: q2_def k_def)
  have hd2: "q2 \<noteq> []" "isLetter (hd q2)"
    using k by (auto simp: q2_def isLetter_def byte_in_def)
  have q_eq: "q = trimRight (take b q2) CHR ''-''"
    using k by (simp add: q_def name_prefix_def q2_def k_def)
  have "q \<noteq> []" "hd q = hd q2"
    using trimRight_hd [OF hd2(1) _ b1, of "CHR ''-''"] hd2(2) q_eq by (metis dash_not_alnum(1))+
  moreover have "pair_free CHR ''-'' CHR ''-'' q"
    using free2 pair_free_prefix [of "take b q2" q2] pair_free_prefix [OF trimRight_prefix] take_is_prefix
    by (metis q_eq)
  moreover have "last q \<noteq> CHR ''-''" using \<open>q \<noteq> []\<close> q_eq trimRight_last by simp
  moreover have "CHR ''-'' \<notin> set hash" using assms(2) hex_digit_ok by blast
  moreover from this have "hd hash \<noteq> CHR ''-''" "last hash \<noteq> CHR ''-''"
    using assms(3) list.set_sel(1) last_in_set by metis+
  moreover have "buildName NameStyleRDS (c # p) hash m = q @ CHR ''-'' # hash"
    using \<open>q \<noteq> []\<close> by (simp add: buildName_name_prefix Let_def q_def b_def)
  ultimately show ?thesis
    using hd2(2) assms(3) by (auto simp: rds_name_ok_def pair_free_append pair_free_other)
qed

lemma identityHash_nonempty [simp]: "identityHash fs \<noteq> []"
  by (metis identityHash_length length_0_conv zero_neq_numeral)

section \<open>Numbers in names\<close>

lemma show_nat_digits: "c \<in> set (show_nat n) \<Longrightarrow> isDigit c"
proof (induction n rule: show_nat.induct)
  case (1 n)
  have "isDigit (char_of (48 + m))" if "m < 10" for m :: nat
    using that by (simp add: isDigit_def byte_in_def)
  then show ?case
    using 1 by (cases "n < 10") (auto simp: show_nat.simps [of n])
qed

lemma show_nat_inject: "show_nat m = show_nat n \<longleftrightarrow> m = n"
proof
  show "show_nat m = show_nat n \<Longrightarrow> m = n"
  proof (induction m arbitrary: n rule: show_nat.induct)
    case (1 m)
    have nonempty: "show_nat k \<noteq> []" for k by (simp add: show_nat.simps [of k])
    have dig: "a = b" if "char_of (48 + a) = (char_of (48 + b) :: char)" "a < 10" "b < 10" for a b :: nat
    proof -
      have "of_char (char_of (48 + a) :: char) = (of_char (char_of (48 + b) :: char) :: nat)" using that by simp
      then show ?thesis using that by simp
    qed
    have big: "show_nat k = show_nat (k div 10) @ [char_of (48 + k mod 10)]" if "\<not> k < 10" for k
      using that by (simp add: show_nat.simps [of k])
    have small: "show_nat k = [char_of (48 + k)]" if "k < 10" for k
      using that by (simp add: show_nat.simps [of k])
    show ?case
    proof (cases "m < 10"; cases "n < 10")
      assume "m < 10" "n < 10"
      then show ?thesis using 1(2) dig by (simp add: small)
    next
      assume "m < 10" "\<not> n < 10"
      then show ?thesis using 1(2) nonempty [of "n div 10"] by (simp add: small big)
    next
      assume "\<not> m < 10" "n < 10"
      then show ?thesis using 1(2) nonempty [of "m div 10"] by (simp add: small big)
    next
      assume m: "\<not> m < 10" and n: "\<not> n < 10"
      have e: "show_nat (m div 10) = show_nat (n div 10)" "char_of (48 + m mod 10) = (char_of (48 + n mod 10) :: char)"
        using 1(2) unfolding big [OF m] big [OF n] by simp_all
      have "m div 10 = n div 10" by (rule 1(1) [OF m e(1)])
      moreover have "m mod 10 = n mod 10" by (rule dig [OF e(2)]) simp_all
      ultimately show ?thesis using div_mult_mod_eq [of m 10] div_mult_mod_eq [of n 10] by argo
    qed
  qed
qed simp

section \<open>Properties\<close>

lemma QueueOrTopicName_cases:
  "QueueOrTopicName ns cr ty f m ks =
     DerivedResourceNameFor NameStyleWordChars ns cr ty (if f then m - 5 else m) ks
       @ (if f then ''.fifo'' else [])"
  by (simp add: QueueOrTopicName_def Let_def)

lemma DerivedResourceNameFor_last_hex:
  "DerivedResourceNameFor s ns cr ty m ks \<noteq> [] \<and> last (DerivedResourceNameFor s ns cr ty m ks) \<in> set hex_digits"
proof -
  let ?h = "identityHash ([ns, cr, ty] @ ks)"
  obtain p where "DerivedResourceNameFor s ns cr ty m ks = p @ CHR ''-'' # ?h"
    using buildName_suffix unfolding DerivedResourceNameFor_def by blast
  moreover have "last ?h \<in> set hex_digits"
    using identityHash_chars [of "[ns, cr, ty] @ ks"] last_in_set [of ?h] by auto
  ultimately show ?thesis by simp
qed

lemma fifo_name_not_plain:
  "DerivedResourceNameFor s ns cr ty m ks \<noteq> q @ ''.fifo''"
  using DerivedResourceNameFor_last_hex [of s ns cr ty m ks]
  by (auto simp: hex_digits_def)

text \<open>Two queues or topics get the same AWS name only when they are the same resource of the
  same custom resource, or the twelve hex digits of SHA-256 collide on two different inputs: no
  choice of namespaces, names and keys makes the readable parts run into one another, a derived
  queue (a DLQ) never takes the name of a declared one, and a FIFO name is never a standard name.
  Kubernetes names contain no NUL byte, which is what keeps the hash input unambiguous.\<close>

theorem queue_names_unique:
  assumes "QueueOrTopicName ns cr ty f m ks = QueueOrTopicName ns' cr' ty' f' m ks'"
    and "nul_free ([ns, cr, ty] @ ks)" "nul_free ([ns', cr', ty'] @ ks')"
  shows "(ns, cr, ty, ks, f) = (ns', cr', ty', ks', f')
         \<or> hash_collision (hash_input ([ns, cr, ty] @ ks)) (hash_input ([ns', cr', ty'] @ ks'))"
proof -
  have f: "f = f'"
    using assms(1) fifo_name_not_plain unfolding QueueOrTopicName_cases
    by (cases f; cases f'; simp del: append_assoc; metis)
  with assms(1) have "DerivedResourceNameFor NameStyleWordChars ns cr ty (if f then m - 5 else m) ks =
      DerivedResourceNameFor NameStyleWordChars ns' cr' ty' (if f then m - 5 else m) ks'"
    unfolding QueueOrTopicName_cases by simp
  from DerivedResourceNameFor_eq_cases [OF this assms(2,3)] f show ?thesis by auto
qed

theorem queue_names_unique_witness:
  "(''ns'', ''app'', ''sqs'', [''jobs''], False) = (''ns'', ''app'', ''sqs'', [''jobs''], False)
   \<or> hash_collision (hash_input ([''ns'', ''app'', ''sqs''] @ [''jobs'']))
       (hash_input ([''ns'', ''app'', ''sqs''] @ [''jobs'']))"
  by (rule queue_names_unique [of _ _ _ False 80]) (simp_all add: nul_free_def)

text \<open>Every generated queue or topic name fits the limit it was built for, whatever the lengths
  of namespace, custom resource and keys, and consists of letters, digits, hyphens and
  underscores, with the suffix \<open>.fifo\<close> exactly when FIFO was asked for.\<close>

theorem queue_names_valid:
  assumes "20 \<le> maxLen"
  shows "int (length (QueueOrTopicName ns cr ty f maxLen ks)) \<le> maxLen
       \<and> (\<exists>stem. QueueOrTopicName ns cr ty f maxLen ks = stem @ (if f then ''.fifo'' else [])
            \<and> (\<forall>c\<in>set stem. byte_allowed NameStyleWordChars c))"
proof -
  let ?m = "if f then maxLen - 5 else maxLen"
  let ?n = "DerivedResourceNameFor NameStyleWordChars ns cr ty ?m ks"
  have "int (length ?n) \<le> ?m"
    unfolding DerivedResourceNameFor_def using assms by (intro buildName_length) simp
  moreover have "\<forall>c\<in>set ?n. byte_allowed NameStyleWordChars c"
    unfolding DerivedResourceNameFor_def by (rule buildName_allowed) (rule identityHash_chars)
  ultimately show ?thesis unfolding QueueOrTopicName_cases by auto
qed

theorem queue_names_valid_witness:
  "int (length (QueueOrTopicName ''team-a'' ''orders'' ''sqs'' True 80 [''jobs'', ''dlq''])) \<le> 80"
  using queue_names_valid [of 80 "''team-a''" "''orders''" "''sqs''" True "[''jobs'', ''dlq'']"] by simp

text \<open>C25: Every name generated for a bucket is at least three bytes long, begins and ends with a lower-case letter or a digit, has no dot
  next to a dot or hyphen and a hyphen, so that it is no IP address; every identifier generated for a database starts with a letter,
  contains no double hyphen and does not end in one. Both, and the names of every other style, are within the length limit and consist of
  the bytes the service takes. The readable part starts with a namespace whose first byte is a lower-case letter or a digit, as Kubernetes
  requires, and the limit leaves room for the hash and two bytes. The prefixes that S3 reserves for itself are not ruled out.\<close>

theorem bucket_and_instance_names_valid:
  assumes "byte_in CHR ''a'' c CHR ''z'' \<or> isDigit c" and "15 \<le> maxLen"
  shows "s3_name_ok (ResourceNameFor NameStyleS3 (c # ns) cr ty key maxLen)
       \<and> rds_name_ok (ResourceNameFor NameStyleRDS (c # ns) cr ty key maxLen)
       \<and> (\<forall>style. int (length (ResourceNameFor style (c # ns) cr ty key maxLen)) \<le> maxLen
            \<and> (\<forall>b\<in>set (ResourceNameFor style (c # ns) cr ty key maxLen). byte_allowed style b))"
proof -
  let ?h = "identityHash [c # ns, cr, ty, key]"
  have "int (length ?h) + 3 \<le> maxLen" using assms(2) by simp
  moreover have "isLetter c \<or> isDigit c" using assms(1) by (auto simp: isLetter_def)
  ultimately show ?thesis
    using buildName_S3_valid [OF assms(1) identityHash_chars] buildName_RDS_ok [OF _ identityHash_chars, of c]
      buildName_length [of ?h maxLen] buildName_allowed [OF identityHash_chars]
    unfolding ResourceNameFor_def by simp
qed

theorem bucket_and_instance_names_valid_witness:
  "s3_name_ok (ResourceNameFor NameStyleS3 ''team'' ''Orders_API'' ''s3'' ''data..x'' 63)
   \<and> rds_name_ok (ResourceNameFor NameStyleRDS ''2nd-team'' ''Orders_API'' ''rds'' ''main'' 63)"
  using bucket_and_instance_names_valid [of "CHR ''t''" 63 "''eam''" "''Orders_API''" "''s3''" "''data..x''"]
    bucket_and_instance_names_valid [of "CHR ''2''" 63 "''nd-team''" "''Orders_API''" "''rds''" "''main''"]
  by (simp add: isLetter_def isDigit_def byte_in_def)

end
