(* ===== verification/Json.thy ===== *)
theory Json
  imports Prelude Complex_Main "HOL-Library.Monad_Syntax"
begin

text \<open>
  JSON text as \<^verbatim>\<open>encoding/json\<close> reads and writes it, for the policy documents and attribute values
  of the resource packages. A \<open>json\<close> value keeps the members of an object in document order
  with duplicates and a number as its literal, so it is what a \<^verbatim>\<open>json.RawMessage\<close> holds up to
  white space and the choice of escapes. \<open>parseJSON\<close> is the reader and \<open>renderJSON\<close> the compact
  writer; \<open>parse_render\<close> shows that reading what was written gives the value back. Bytes above
  127 pass through both, which is what they do to valid UTF-8.
\<close>

datatype json =
  JNull | JBool bool | JNum string | JStr string | JArr "json list" | JObj "(string \<times> json) list"

section \<open>Tokens\<close>

definition isWS :: "char \<Rightarrow> bool" where
  "isWS c \<longleftrightarrow> c \<in> {CHR '' '', CHR 0x09, CHR 0x0A, CHR 0x0D}"

definition skipWS :: "string \<Rightarrow> string" where
  "skipWS s = dropWhile isWS s"

definition digit :: "char \<Rightarrow> bool" where
  "digit c \<longleftrightarrow> 48 \<le> (of_char c :: nat) \<and> (of_char c :: nat) \<le> 57"

text \<open>A number literal at the start of the input, and what follows it.\<close>

definition pDigits :: "string \<Rightarrow> (string \<times> string) option" where
  "pDigits s = (if takeWhile digit s = [] then None else Some (takeWhile digit s, dropWhile digit s))"

definition pInt :: "string \<Rightarrow> (string \<times> string) option" where
  "pInt s = (case s of c # t \<Rightarrow> if c = CHR ''0'' then Some ([c], t) else pDigits s | [] \<Rightarrow> None)"

definition pFrac :: "string \<Rightarrow> (string \<times> string) option" where
  "pFrac s = (case s of
     c # t \<Rightarrow> if c = CHR ''.'' then map_option (\<lambda>(d, u). (c # d, u)) (pDigits t) else Some ([], s)
   | [] \<Rightarrow> Some ([], s))"

definition pSign :: "string \<Rightarrow> string \<times> string" where
  "pSign s = (case s of c # t \<Rightarrow> if c = CHR ''+'' \<or> c = CHR ''-'' then ([c], t) else ([], s) | [] \<Rightarrow> ([], s))"

definition pExp :: "string \<Rightarrow> (string \<times> string) option" where
  "pExp s = (case s of
     c # t \<Rightarrow> if c = CHR ''e'' \<or> c = CHR ''E''
              then (case pSign t of (sg, u) \<Rightarrow> map_option (\<lambda>(d, v). (c # sg @ d, v)) (pDigits u))
              else Some ([], s)
   | [] \<Rightarrow> Some ([], s))"

definition pNumber :: "string \<Rightarrow> (string \<times> string) option" where
  "pNumber s =
     (case (case s of c # t \<Rightarrow> if c = CHR ''-'' then ([c], t) else ([], s) | [] \<Rightarrow> ([], s)) of (sg, s1) \<Rightarrow>
        do { (i, s2) \<leftarrow> pInt s1; (f, s3) \<leftarrow> pFrac s2; (e, s4) \<leftarrow> pExp s3; Some (sg @ i @ f @ e, s4) })"

text \<open>Strings: escapes, code points and the closing quote.\<close>

definition hexVal :: "char \<Rightarrow> nat option" where
  "hexVal c = (let n = (of_char c :: nat) in
     if 48 \<le> n \<and> n \<le> 57 then Some (n - 48)
     else if 97 \<le> n \<and> n \<le> 102 then Some (n - 87)
     else if 65 \<le> n \<and> n \<le> 70 then Some (n - 55) else None)"

fun hex4 :: "string \<Rightarrow> nat option" where
  "hex4 [a, b, c, d] =
     do { w \<leftarrow> hexVal a; x \<leftarrow> hexVal b; y \<leftarrow> hexVal c; z \<leftarrow> hexVal d;
          Some (((w * 16 + x) * 16 + y) * 16 + z) }"
| "hex4 _ = None"

definition utf8 :: "nat \<Rightarrow> string" where
  "utf8 r =
     (if r < 0x80 then [char_of r]
      else if r < 0x800 then [char_of (0xC0 + r div 0x40), char_of (0x80 + r mod 0x40)]
      else if r < 0x10000 then
        [char_of (0xE0 + r div 0x1000), char_of (0x80 + r div 0x40 mod 0x40), char_of (0x80 + r mod 0x40)]
      else [char_of (0xF0 + r div 0x40000), char_of (0x80 + r div 0x1000 mod 0x40),
            char_of (0x80 + r div 0x40 mod 0x40), char_of (0x80 + r mod 0x40)])"

text \<open>
  The escape after \<open>\u\<close>: the bytes it stands for and how many bytes of input it takes. A high
  surrogate needs the low one right behind it; a surrogate on its own is U+FFFD.
\<close>

definition uEscape :: "string \<Rightarrow> (string \<times> nat) option" where
  "uEscape t =
     do { r \<leftarrow> hex4 (take 4 t);
          let low = (if take 2 (drop 4 t) = [CHR 0x5C, CHR ''u''] then hex4 (take 4 (drop 6 t)) else None);
          (if 0xD800 \<le> r \<and> r < 0xDC00
           then (case low of
                   Some l \<Rightarrow> if 0xDC00 \<le> l \<and> l < 0xE000
                             then Some (utf8 (0x10000 + (r - 0xD800) * 0x400 + (l - 0xDC00)), 10)
                             else Some (utf8 0xFFFD, 4)
                 | None \<Rightarrow> Some (utf8 0xFFFD, 4))
           else if 0xDC00 \<le> r \<and> r < 0xE000 then Some (utf8 0xFFFD, 4)
           else Some (utf8 r, 4)) }"

definition simpleEscape :: "char \<Rightarrow> char option" where
  "simpleEscape c =
     (if c = CHR 0x22 then Some CHR 0x22
      else if c = CHR 0x5C then Some CHR 0x5C
      else if c = CHR ''/'' then Some CHR ''/''
      else if c = CHR ''b'' then Some CHR 0x08
      else if c = CHR ''f'' then Some CHR 0x0C
      else if c = CHR ''n'' then Some CHR 0x0A
      else if c = CHR ''r'' then Some CHR 0x0D
      else if c = CHR ''t'' then Some CHR 0x09 else None)"

text \<open>The rest of a string literal, its opening quote already read.\<close>

function pStr :: "string \<Rightarrow> (string \<times> string) option" where
  "pStr s =
     (case s of [] \<Rightarrow> None
      | c # t \<Rightarrow>
          if c = CHR 0x22 then Some ([], t)
          else if c = CHR 0x5C then
            (case t of [] \<Rightarrow> None
             | d # u \<Rightarrow>
                 if d = CHR ''u'' then
                   (case uEscape u of None \<Rightarrow> None
                    | Some (bs, n) \<Rightarrow> map_option (\<lambda>(r, v). (bs @ r, v)) (pStr (drop n u)))
                 else
                   (case simpleEscape d of None \<Rightarrow> None
                    | Some b \<Rightarrow> map_option (\<lambda>(r, v). (b # r, v)) (pStr u)))
          else if (of_char c :: nat) < 32 then None
          else map_option (\<lambda>(r, v). (c # r, v)) (pStr t))"
  by pat_completeness auto
termination
  by (relation "measure length") auto

declare pStr.simps [simp del]

section \<open>Values\<close>

definition pLiteral :: "string \<Rightarrow> (json \<times> string) option" where
  "pLiteral s =
     (if hasPrefix s ''null'' then Some (JNull, drop 4 s)
      else if hasPrefix s ''true'' then Some (JBool True, drop 4 s)
      else if hasPrefix s ''false'' then Some (JBool False, drop 5 s)
      else map_option (\<lambda>(l, t). (JNum l, t)) (pNumber s))"

text \<open>
  The three readers count down one fuel each; \<open>parseJSON\<close> starts them with twice the length of
  the text plus two. A value, an element list and a member list each read at least one byte every
  second call, so the fuel never runs out before the text does.
\<close>

fun pValue :: "nat \<Rightarrow> string \<Rightarrow> (json \<times> string) option"
  and pElems :: "nat \<Rightarrow> string \<Rightarrow> (json list \<times> string) option"
  and pMembers :: "nat \<Rightarrow> string \<Rightarrow> ((string \<times> json) list \<times> string) option" where
  "pValue 0 s = None"
| "pValue (Suc n) s =
     (case skipWS s of [] \<Rightarrow> None
      | c # t \<Rightarrow>
          if c = CHR ''{'' then
            (case skipWS t of [] \<Rightarrow> None
             | d # u \<Rightarrow> if d = CHR ''}'' then Some (JObj [], u)
                        else map_option (\<lambda>(ms, v). (JObj ms, v)) (pMembers n (d # u)))
          else if c = CHR ''['' then
            (case skipWS t of [] \<Rightarrow> None
             | d # u \<Rightarrow> if d = CHR '']'' then Some (JArr [], u)
                        else map_option (\<lambda>(xs, v). (JArr xs, v)) (pElems n (d # u)))
          else if c = CHR 0x22 then map_option (\<lambda>(r, v). (JStr r, v)) (pStr t)
          else pLiteral (c # t))"
| "pElems 0 s = None"
| "pElems (Suc n) s =
     (case pValue n s of None \<Rightarrow> None
      | Some (x, t) \<Rightarrow>
          (case skipWS t of [] \<Rightarrow> None
           | d # u \<Rightarrow> if d = CHR '','' then map_option (\<lambda>(xs, v). (x # xs, v)) (pElems n u)
                      else if d = CHR '']'' then Some ([x], u) else None))"
| "pMembers 0 s = None"
| "pMembers (Suc n) s =
     (case skipWS s of [] \<Rightarrow> None
      | c # t \<Rightarrow>
          if c \<noteq> CHR 0x22 then None
          else (case pStr t of None \<Rightarrow> None
                | Some (k, u) \<Rightarrow>
                    (case skipWS u of [] \<Rightarrow> None
                     | d # v \<Rightarrow>
                         if d \<noteq> CHR '':'' then None
                         else (case pValue n v of None \<Rightarrow> None
                               | Some (x, w) \<Rightarrow>
                                   (case skipWS w of [] \<Rightarrow> None
                                    | e # r \<Rightarrow>
                                        if e = CHR '','' then map_option (\<lambda>(ms, z). ((k, x) # ms, z)) (pMembers n r)
                                        else if e = CHR ''}'' then Some ([(k, x)], r) else None)))))"

definition parseJSON :: "string \<Rightarrow> json option" where
  "parseJSON s =
     (case pValue (2 * length s + 2) s of None \<Rightarrow> None
      | Some (j, rest) \<Rightarrow> if skipWS rest = [] then Some j else None)"

section \<open>Writing\<close>

definition hexDigit :: "nat \<Rightarrow> char" where
  "hexDigit n = (if n < 10 then char_of (48 + n) else char_of (87 + n))"

text \<open>One byte of a string as \<^verbatim>\<open>json.Marshal\<close> writes it, with its escapes for HTML.\<close>

definition quoteByte :: "char \<Rightarrow> string" where
  "quoteByte c =
     (let n = (of_char c :: nat) in
      if n = 34 then [CHR 0x5C, CHR 0x22]
      else if n = 92 then [CHR 0x5C, CHR 0x5C]
      else if n = 8 then [CHR 0x5C, CHR ''b'']
      else if n = 12 then [CHR 0x5C, CHR ''f'']
      else if n = 10 then [CHR 0x5C, CHR ''n'']
      else if n = 13 then [CHR 0x5C, CHR ''r'']
      else if n = 9 then [CHR 0x5C, CHR ''t'']
      else if n < 32 \<or> n = 60 \<or> n = 62 \<or> n = 38 then
        [CHR 0x5C, CHR ''u'', CHR ''0'', CHR ''0'', hexDigit (n div 16), hexDigit (n mod 16)]
      else [c])"

definition quote :: "string \<Rightarrow> string" where
  "quote s = CHR 0x22 # concat (map quoteByte s) @ [CHR 0x22]"

fun renderJSON :: "json \<Rightarrow> string" where
  "renderJSON JNull = ''null''"
| "renderJSON (JBool b) = (if b then ''true'' else ''false'')"
| "renderJSON (JNum l) = l"
| "renderJSON (JStr s) = quote s"
| "renderJSON (JArr xs) = CHR ''['' # join (map renderJSON xs) '','' @ '']''"
| "renderJSON (JObj kvs) =
     CHR ''{'' # join (map (\<lambda>kv. quote (fst kv) @ '':'' @ renderJSON (snd kv)) kvs) '','' @ ''}''"

section \<open>Reading back what was written\<close>

lemma hexVal_hexDigit: "n < 16 \<Longrightarrow> hexVal (hexDigit n) = Some n"
  by (auto simp: hexVal_def hexDigit_def Let_def)

lemma uEscape_byte:
  assumes "n < 128"
  shows "uEscape (CHR ''0'' # CHR ''0'' # hexDigit (n div 16) # hexDigit (n mod 16) # t) = Some ([char_of n], 4)"
proof -
  have "hexVal CHR ''0'' = Some 0" by (simp add: hexVal_def)
  moreover have "hexVal (hexDigit (n div 16)) = Some (n div 16)" "hexVal (hexDigit (n mod 16)) = Some (n mod 16)"
    using assms by (auto intro!: hexVal_hexDigit)
  moreover have "n div 16 * 16 + n mod 16 = n" by simp
  ultimately show ?thesis using assms by (simp add: uEscape_def utf8_def)
qed

lemma char_of_escaped:
  "char_of (8::nat) = CHR 0x08" "char_of (9::nat) = CHR 0x09" "char_of (10::nat) = CHR 0x0A"
  "char_of (12::nat) = CHR 0x0C" "char_of (13::nat) = CHR 0x0D" "char_of (34::nat) = CHR 0x22"
  "char_of (92::nat) = CHR 0x5C"
  by (subst of_char_eq_iff [where 'a = nat, symmetric], simp)+

lemma pStr_quoteByte: "pStr (quoteByte c @ t) = map_option (\<lambda>(r, v). (c # r, v)) (pStr t)"
proof -
  define n where "n = (of_char c :: nat)"
  have c: "c = char_of n" by (simp add: n_def)
  consider "n \<in> {8, 9, 10, 12, 13, 34, 92}"
    | "n \<notin> {8, 9, 10, 12, 13, 34, 92}" "n < 32 \<or> n = 60 \<or> n = 62 \<or> n = 38"
    | "n \<notin> {8, 9, 10, 12, 13, 34, 92}" "\<not> (n < 32 \<or> n = 60 \<or> n = 62 \<or> n = 38)"
    by blast
  then show ?thesis
  proof cases
    case 1
    then show ?thesis
      by (elim insertE emptyE)
        (simp_all add: c char_of_escaped quoteByte_def pStr.simps [of "CHR 0x5C # _"] simpleEscape_def)
  next
    case 2
    then have "n < 128" by auto
    have "quoteByte c = [CHR 0x5C, CHR ''u'', CHR ''0'', CHR ''0'', hexDigit (n div 16), hexDigit (n mod 16)]"
      using 2 by (simp add: quoteByte_def n_def [symmetric])
    then show ?thesis
      using uEscape_byte [OF \<open>n < 128\<close>, of t]
      by (simp add: pStr.simps [of "CHR 0x5C # _"] c split: option.split)
  next
    case 3
    then have "quoteByte c = [c]" by (simp add: quoteByte_def n_def [symmetric])
    moreover have "c \<noteq> CHR 0x22" "c \<noteq> CHR 0x5C" using 3 by (auto simp: n_def)
    ultimately show ?thesis using 3 by (simp add: pStr.simps [of "c # _"] n_def)
  qed
qed

lemma pStr_quote: "pStr (concat (map quoteByte s) @ CHR 0x22 # rest) = Some (s, rest)"
  by (induction s) (simp_all add: pStr_quoteByte, simp add: pStr.simps)

text \<open>A number literal is read the same way whatever follows it, as long as that does not continue it.\<close>

definition afterNumber :: "string \<Rightarrow> bool" where
  "afterNumber rest \<longleftrightarrow> rest = [] \<or> (\<not> digit (hd rest) \<and> hd rest \<notin> {CHR ''.'', CHR ''e'', CHR ''E''})"

lemma pDigits_append:
  assumes "pDigits s = Some (a, t)" "afterNumber rest"
  shows "pDigits (s @ rest) = Some (a, t @ rest)"
proof -
  have r: "takeWhile digit rest = []" "dropWhile digit rest = rest"
    using assms(2) by (cases rest; simp add: afterNumber_def)+
  have "takeWhile digit (s @ rest) = takeWhile digit s \<and> dropWhile digit (s @ rest) = dropWhile digit s @ rest"
    by (induction s) (simp_all add: r)
  then show ?thesis
    using assms(1) by (auto simp: pDigits_def split: if_splits)
qed

lemma pInt_append:
  assumes "pInt s = Some (a, t)" "afterNumber rest"
  shows "pInt (s @ rest) = Some (a, t @ rest)"
  using assms pDigits_append [of s a t rest] by (cases s) (auto simp: pInt_def split: if_splits)

lemma pFrac_append:
  assumes "pFrac s = Some (a, t)" "afterNumber rest"
  shows "pFrac (s @ rest) = Some (a, t @ rest)"
proof (cases s)
  case Nil
  with assms show ?thesis by (cases rest) (auto simp: pFrac_def afterNumber_def)
next
  case (Cons c u)
  with assms pDigits_append [of u _ _ rest] show ?thesis
    by (auto simp: pFrac_def split: if_splits)
qed

lemma pExp_append:
  assumes "pExp s = Some (a, t)" "afterNumber rest"
  shows "pExp (s @ rest) = Some (a, t @ rest)"
proof (cases s)
  case Nil
  with assms show ?thesis by (cases rest) (auto simp: pExp_def afterNumber_def)
next
  case (Cons c u)
  show ?thesis
  proof (cases "c = CHR ''e'' \<or> c = CHR ''E''")
    case True
    obtain sg v where sg: "pSign u = (sg, v)" by fastforce
    with True Cons assms(1) obtain d where d: "pDigits v = Some (d, t)" "a = c # sg @ d"
      by (auto simp: pExp_def)
    then have "u \<noteq> []" using sg by (auto simp: pSign_def pDigits_def)
    then have "pSign (u @ rest) = (sg, v @ rest)"
      using sg by (cases u) (auto simp: pSign_def split: if_splits)
    with True Cons d pDigits_append [OF d(1) assms(2)] show ?thesis by (auto simp: pExp_def)
  qed (use Cons assms(1) in \<open>auto simp: pExp_def\<close>)
qed

lemma pNumber_append:
  assumes "pNumber s = Some (a, t)" "afterNumber rest"
  shows "pNumber (s @ rest) = Some (a, t @ rest)"
proof -
  define sgn where "sgn x = (case x of c # t \<Rightarrow> if c = CHR ''-'' then ([c], t) else ([], x) | [] \<Rightarrow> ([], x))"
    for x :: string
  obtain sg s1 where s1: "sgn s = (sg, s1)" by fastforce
  have num: "pNumber x = (case sgn x of (sg, s1) \<Rightarrow>
      do { (i, s2) \<leftarrow> pInt s1; (f, s3) \<leftarrow> pFrac s2; (e, s4) \<leftarrow> pExp s3; Some (sg @ i @ f @ e, s4) })" for x
    by (simp add: pNumber_def sgn_def)
  from assms(1) obtain i s2 f s3 e where p: "pInt s1 = Some (i, s2)" "pFrac s2 = Some (f, s3)"
      "pExp s3 = Some (e, t)" "a = sg @ i @ f @ e"
    by (auto simp: num s1 bind_eq_Some_conv)
  have "s \<noteq> []" using p(1) s1 by (auto simp: sgn_def pInt_def)
  then have "sgn (s @ rest) = (sg, s1 @ rest)"
    using s1 by (cases s) (auto simp: sgn_def split: if_splits)
  then show ?thesis
    using p pInt_append [OF p(1) assms(2)] pFrac_append [OF p(2) assms(2)] pExp_append [OF p(3) assms(2)]
    by (simp add: num)
qed

lemma pNumber_head:
  assumes "pNumber s = Some (a, t)"
  shows "\<exists>c u. s = c # u \<and> (digit c \<or> c = CHR ''-'')"
proof (cases s)
  case Nil
  with assms show ?thesis by (simp add: pNumber_def pInt_def)
next
  case (Cons c u)
  have "digit CHR ''0''" by (simp add: digit_def)
  with Cons assms show ?thesis
    by (auto simp: pNumber_def pInt_def pDigits_def bind_eq_Some_conv split: if_splits)
qed

fun wfJSON :: "json \<Rightarrow> bool" where
  "wfJSON (JNum l) \<longleftrightarrow> pNumber l = Some (l, [])"
| "wfJSON (JArr xs) \<longleftrightarrow> (\<forall>x\<in>set xs. wfJSON x)"
| "wfJSON (JObj kvs) \<longleftrightarrow> (\<forall>kv\<in>set kvs. wfJSON (snd kv))"
| "wfJSON _ \<longleftrightarrow> True"

fun need :: "json \<Rightarrow> nat" where
  "need (JArr xs) = Suc (sum_list (map (\<lambda>x. Suc (need x)) xs))"
| "need (JObj kvs) = Suc (sum_list (map (\<lambda>kv. Suc (need (snd kv))) kvs))"
| "need _ = 1"

lemma render_head:
  assumes "wfJSON j"
  shows "\<exists>c u. renderJSON j = c # u \<and> \<not> isWS c \<and> c \<notin> {CHR '']'', CHR ''}'', CHR '','', CHR '':''}"
proof (cases j)
  case (JNum l)
  with assms pNumber_head [of l l "[]"] show ?thesis by (auto simp: isWS_def digit_def)
qed (auto simp: quote_def isWS_def)

lemma skipWS_render: "wfJSON j \<Longrightarrow> skipWS (renderJSON j @ rest) = renderJSON j @ rest"
  using render_head [of j] by (auto simp: skipWS_def)

lemma skipWS_nonspace [simp]: "\<not> isWS c \<Longrightarrow> skipWS (c # s) = c # s"
  by (simp add: skipWS_def)

lemma not_isWS [simp]:
  "\<not> isWS CHR ''{''" "\<not> isWS CHR ''}''" "\<not> isWS CHR ''[''" "\<not> isWS CHR '']''" "\<not> isWS CHR '':''"
  "\<not> isWS CHR '',''" "\<not> isWS CHR 0x22" "\<not> isWS CHR ''n''" "\<not> isWS CHR ''t''" "\<not> isWS CHR ''f''"
  by (simp_all add: isWS_def)

text \<open>What may follow a value in a document: nothing, or the punctuation after it.\<close>

definition afterValue :: "string \<Rightarrow> bool" where
  "afterValue rest \<longleftrightarrow> rest = [] \<or> hd rest \<in> {CHR '','', CHR '']'', CHR ''}''}"

lemma afterValue_afterNumber: "afterValue rest \<Longrightarrow> afterNumber rest"
  by (auto simp: afterValue_def afterNumber_def digit_def)

definition reads :: "json \<Rightarrow> bool" where
  "reads j \<longleftrightarrow> (\<forall>n rest. need j \<le> n \<longrightarrow> afterValue rest \<longrightarrow> pValue n (renderJSON j @ rest) = Some (j, rest))"

lemma pElems_render:
  assumes "\<forall>x\<in>set xs. wfJSON x \<and> reads x" "xs \<noteq> []" "sum_list (map (\<lambda>x. Suc (need x)) xs) \<le> n"
  shows "pElems n (join (map renderJSON xs) '','' @ CHR '']'' # rest) = Some (xs, rest)"
  using assms
proof (induction xs arbitrary: n)
  case (Cons x xs)
  then obtain m where n: "n = Suc m" "need x \<le> m" by (cases n) auto
  show ?case
  proof (cases "xs = []")
    case True
    with Cons.prems n show ?thesis by (simp add: reads_def afterValue_def)
  next
    case False
    then have *: "join (map renderJSON (x # xs)) '','' @ CHR '']'' # rest =
        renderJSON x @ CHR '','' # (join (map renderJSON xs) '','' @ CHR '']'' # rest)"
      by (simp add: join_Cons)
    have "sum_list (map (\<lambda>x. Suc (need x)) xs) \<le> m" using Cons.prems(3) n by simp
    with Cons.IH [of m] Cons.prems(1) False n show ?thesis
      unfolding * by (simp add: reads_def afterValue_def)
  qed
qed simp

lemma pMembers_render:
  assumes "\<forall>kv\<in>set kvs. wfJSON (snd kv) \<and> reads (snd kv)" "kvs \<noteq> []"
    and "sum_list (map (\<lambda>kv. Suc (need (snd kv))) kvs) \<le> n"
  shows "pMembers n (join (map (\<lambda>kv. quote (fst kv) @ '':'' @ renderJSON (snd kv)) kvs) '','' @ CHR ''}'' # rest)
         = Some (kvs, rest)"
  using assms
proof (induction kvs arbitrary: n)
  case (Cons kv kvs)
  obtain k x where kv: "kv = (k, x)" by (cases kv)
  from Cons.prems obtain m where n: "n = Suc m" "need x \<le> m" by (cases n) (auto simp: kv)
  have x: "pValue m (renderJSON x @ r) = Some (x, r)" if "afterValue r" for r
    using Cons.prems(1) n that by (simp add: kv reads_def)
  show ?case
  proof (cases "kvs = []")
    case True
    then show ?thesis
      using x [of "CHR ''}'' # rest"] pStr_quote [of k "CHR '':'' # renderJSON x @ CHR ''}'' # rest"]
      by (simp add: kv n quote_def afterValue_def)
  next
    case False
    define tl where "tl = join (map (\<lambda>kv. quote (fst kv) @ '':'' @ renderJSON (snd kv)) kvs) '','' @ CHR ''}'' # rest"
    have *: "join (map (\<lambda>kv. quote (fst kv) @ '':'' @ renderJSON (snd kv)) (kv # kvs)) '','' @ CHR ''}'' # rest =
        CHR 0x22 # concat (map quoteByte k) @ CHR 0x22 # CHR '':'' # renderJSON x @ CHR '','' # tl"
      using False by (simp add: join_Cons kv quote_def tl_def)
    have "pMembers m tl = Some (kvs, rest)"
      using Cons.IH [of m] Cons.prems(1,3) False n by (simp add: kv tl_def)
    then show ?thesis
      using x [of "CHR '','' # tl"] pStr_quote [of k "CHR '':'' # renderJSON x @ CHR '','' # tl"]
      unfolding * by (simp add: kv n afterValue_def)
  qed
qed simp

lemma reads_all: "wfJSON j \<Longrightarrow> reads j"
proof (induction j)
  case JNull
  then show ?case by (auto simp: reads_def pLiteral_def hasPrefix_def gr0_conv_Suc Suc_le_eq)
next
  case (JBool b)
  then show ?case by (auto simp: reads_def pLiteral_def hasPrefix_def gr0_conv_Suc Suc_le_eq)
next
  case (JNum l)
  then obtain c u where l: "l = c # u" "digit c \<or> c = CHR ''-''" using pNumber_head [of l l "[]"] by auto
  then have c: "\<not> isWS c" "c \<notin> {CHR ''{'', CHR ''['', CHR 0x22, CHR ''n'', CHR ''t'', CHR ''f''}"
    by (auto simp: isWS_def digit_def)
  have "pNumber (l @ rest) = Some (l, rest)" if "afterValue rest" for rest
    using pNumber_append [of l l "[]" rest] JNum that afterValue_afterNumber by simp
  then have "pLiteral (c # u @ rest) = Some (JNum l, rest)" if "afterValue rest" for rest
    using that l(1) c(2) by (simp add: pLiteral_def hasPrefix_def)
  with l(1) c show ?case by (auto simp: reads_def gr0_conv_Suc Suc_le_eq)
next
  case (JStr s)
  show ?case
    using pStr_quote [of s] by (auto simp: reads_def quote_def gr0_conv_Suc Suc_le_eq)
next
  case (JArr xs)
  then have all: "\<forall>x\<in>set xs. wfJSON x \<and> reads x" by simp
  show ?case unfolding reads_def
  proof (intro allI impI)
    fix n rest assume n: "need (JArr xs) \<le> n" and "afterValue rest"
    then obtain m where m: "n = Suc m" "sum_list (map (\<lambda>x. Suc (need x)) xs) \<le> m" by (cases n) auto
    show "pValue n (renderJSON (JArr xs) @ rest) = Some (JArr xs, rest)"
    proof (cases xs)
      case Nil
      then show ?thesis by (simp add: m)
    next
      case (Cons x ys)
      then obtain c u where c: "join (map renderJSON xs) '','' @ CHR '']'' # rest = c # u" "\<not> isWS c" "c \<noteq> CHR '']''"
        using render_head [of x] all by (cases ys) auto
      have "pElems m (c # u) = Some (xs, rest)"
        using pElems_render [OF all _ m(2), of rest] Cons c(1) by simp
      with c show ?thesis by (simp add: m)
    qed
  qed
next
  case (JObj kvs)
  then have all: "\<forall>kv\<in>set kvs. wfJSON (snd kv) \<and> reads (snd kv)" by (auto simp: snds.simps)
  show ?case unfolding reads_def
  proof (intro allI impI)
    fix n rest assume n: "need (JObj kvs) \<le> n" and "afterValue rest"
    then obtain m where m: "n = Suc m" "sum_list (map (\<lambda>kv. Suc (need (snd kv))) kvs) \<le> m" by (cases n) auto
    let ?body = "join (map (\<lambda>kv. quote (fst kv) @ '':'' @ renderJSON (snd kv)) kvs) '','' @ CHR ''}'' # rest"
    show "pValue n (renderJSON (JObj kvs) @ rest) = Some (JObj kvs, rest)"
    proof (cases kvs)
      case Nil
      then show ?thesis by (simp add: m)
    next
      case (Cons kv ks)
      then obtain u where c: "?body = CHR 0x22 # u"
        by (cases ks) (auto simp: quote_def)
      have "pMembers m (CHR 0x22 # u) = Some (kvs, rest)"
        using pMembers_render [OF all _ m(2), of rest] Cons c by simp
      with c show ?thesis by (simp add: m)
    qed
  qed
qed

lemma join_length_ge: "sum_list (map length xs) \<le> length (join xs sep)"
  by (induction xs sep rule: join.induct) auto

lemma need_le: "wfJSON j \<Longrightarrow> need j + 1 \<le> 2 * length (renderJSON j)"
proof (induction j)
  case (JNum l)
  then show ?case using pNumber_head [of l l "[]"] by auto
next
  case (JArr xs)
  have "sum_list (map (\<lambda>x. Suc (need x)) xs) \<le> 2 * sum_list (map (\<lambda>x. length (renderJSON x)) xs)"
    using JArr by (induction xs) fastforce+
  also have "\<dots> \<le> 2 * length (join (map renderJSON xs) '','')"
    using join_length_ge [of "map renderJSON xs" "'',''"] by (simp add: o_def)
  finally show ?case by simp
next
  case (JObj kvs)
  let ?f = "\<lambda>kv. quote (fst kv) @ '':'' @ renderJSON (snd kv)"
  have "sum_list (map (\<lambda>kv. Suc (need (snd kv))) kvs) \<le> 2 * sum_list (map (\<lambda>kv. length (?f kv)) kvs)"
    using JObj
  proof (induction kvs)
    case (Cons kv ks)
    have "need (snd kv) + 1 \<le> 2 * length (renderJSON (snd kv))"
      using Cons.prems(1) [of kv "snd kv"] Cons.prems(2) by (auto simp: snds.simps)
    with Cons show ?case by fastforce
  qed simp
  also have "\<dots> \<le> 2 * length (join (map ?f kvs) '','')"
    using join_length_ge [of "map ?f kvs" "'',''"] by (simp only: map_map o_def)
  finally show ?case by simp
qed (auto simp: quote_def)

lemma parse_render:
  assumes "wfJSON j"
  shows "parseJSON (renderJSON j) = Some j"
proof -
  have "need j \<le> 2 * length (renderJSON j) + 2" using need_le [OF assms] by simp
  then have "pValue (2 * length (renderJSON j) + 2) (renderJSON j @ []) = Some (j, [])"
    using reads_all [OF assms] unfolding reads_def afterValue_def by blast
  then show ?thesis unfolding parseJSON_def append_Nil2 by (simp add: skipWS_def del: pValue.simps)
qed

section \<open>What is read is well formed\<close>

lemma pDigits_again:
  assumes "pDigits s = Some (d, t)" "u = [] \<or> \<not> digit (hd u)"
  shows "pDigits (d @ u) = Some (d, u)"
proof -
  have d: "d = takeWhile digit s" "d \<noteq> []" using assms(1) by (auto simp: pDigits_def split: if_splits)
  have "\<forall>x\<in>set d. digit x" using d(1) set_takeWhileD by metis
  moreover have "takeWhile digit u = []" "dropWhile digit u = u"
    using assms(2) by (cases u; simp)+
  ultimately show ?thesis
    using d(2) by (simp add: pDigits_def takeWhile_append2 dropWhile_append2)
qed

lemma pInt_again:
  assumes "pInt s = Some (i, t)" "u = [] \<or> \<not> digit (hd u)"
  shows "pInt (i @ u) = Some (i, u) \<and> i \<noteq> [] \<and> digit (hd i)"
proof (cases s)
  case (Cons c r)
  show ?thesis
  proof (cases "c = CHR ''0''")
    case True
    with assms Cons show ?thesis by (auto simp: pInt_def digit_def)
  next
    case False
    then have p: "pDigits s = Some (i, t)" using assms(1) Cons by (simp add: pInt_def)
    then have "i \<noteq> []" "hd i = c" "digit c" using Cons by (auto simp: pDigits_def split: if_splits)
    with pDigits_again [OF p assms(2)] False show ?thesis by (cases i) (auto simp: pInt_def)
  qed
qed (use assms in \<open>simp add: pInt_def\<close>)

lemma pFrac_again:
  assumes "pFrac s = Some (f, t)" "u = [] \<or> hd u \<in> {CHR ''e'', CHR ''E''}"
  shows "pFrac (f @ u) = Some (f, u) \<and> (f = [] \<or> hd f = CHR ''.'')"
proof -
  have nd: "u = [] \<or> \<not> digit (hd u)" using assms(2) by (auto simp: digit_def)
  consider "f = []" | d r where "f = CHR ''.'' # d" "pDigits r = Some (d, t)"
    using assms(1) by (auto simp: pFrac_def split: list.splits if_splits)
  then show ?thesis
  proof cases
    case 1
    then show ?thesis using assms(2) by (auto simp: pFrac_def split: list.split)
  next
    case 2
    then show ?thesis using pDigits_again [OF 2(2) nd] by (simp add: pFrac_def)
  qed
qed

lemma pExp_again:
  assumes "pExp s = Some (e, t)"
  shows "pExp e = Some (e, []) \<and> (e = [] \<or> hd e \<in> {CHR ''e'', CHR ''E''})"
proof -
  consider "e = []" | c sg d r u where "e = c # sg @ d" "c = CHR ''e'' \<or> c = CHR ''E''" "pSign u = (sg, r)" "pDigits r = Some (d, t)"
    using assms by (auto simp: pExp_def split: list.splits if_splits prod.splits)
  then show ?thesis
  proof cases
    case 1
    then show ?thesis by (simp add: pExp_def)
  next
    case 2
    have d: "pDigits d = Some (d, [])" using pDigits_again [OF 2(4), of "[]"] by simp
    then have "d \<noteq> [] \<and> digit (hd d)" by (cases d) (auto simp: pDigits_def split: if_splits)
    then have "pSign (sg @ d) = (sg, d)"
      using 2(3) by (cases d) (auto simp: pSign_def digit_def split: list.splits if_splits)
    with 2 d show ?thesis by (auto simp: pExp_def)
  qed
qed

lemma pNumber_again:
  assumes "pNumber s = Some (l, t)"
  shows "pNumber l = Some (l, [])"
proof -
  define sgn where "sgn x = (case x of c # t \<Rightarrow> if c = CHR ''-'' then ([c], t) else ([], x) | [] \<Rightarrow> ([], x))"
    for x :: string
  have num: "pNumber x = (case sgn x of (sg, s1) \<Rightarrow>
      do { (i, s2) \<leftarrow> pInt s1; (f, s3) \<leftarrow> pFrac s2; (e, s4) \<leftarrow> pExp s3; Some (sg @ i @ f @ e, s4) })" for x
    by (simp add: pNumber_def sgn_def)
  obtain sg s1 where s1: "sgn s = (sg, s1)" by fastforce
  then have sg: "sg = [] \<or> sg = ''-''" by (auto simp: sgn_def split: list.splits if_splits)
  from assms obtain i s2 f s3 e where p: "pInt s1 = Some (i, s2)" "pFrac s2 = Some (f, s3)"
      "pExp s3 = Some (e, t)" "l = sg @ i @ f @ e"
    by (auto simp: num s1 bind_eq_Some_conv)
  note pe = pExp_again [OF p(3)]
  then have "e = [] \<or> hd e \<in> {CHR ''e'', CHR ''E''}" by blast
  note pf = pFrac_again [OF p(2) this]
  have "f @ e = [] \<or> \<not> digit (hd (f @ e))"
    using pe pf by (cases f; cases e) (auto simp: digit_def)
  note pi = pInt_again [OF p(1) this]
  then have "hd i \<noteq> CHR ''-''" by (auto simp: digit_def)
  with sg pi have "sgn l = (sg, i @ f @ e)" by (cases i) (auto simp: sgn_def p(4))
  with pe pf pi show ?thesis by (simp add: num p(4))
qed

lemma pLiteral_wf: "pLiteral s = Some (j, t) \<Longrightarrow> wfJSON j"
  by (auto simp: pLiteral_def split: if_splits dest: pNumber_again)

lemma pValue_wf:
  "pValue n s = Some (j, t) \<Longrightarrow> wfJSON j"
  "pElems n s = Some (xs, t) \<Longrightarrow> \<forall>x\<in>set xs. wfJSON x"
  "pMembers n s = Some (ms, t) \<Longrightarrow> \<forall>m\<in>set ms. wfJSON (snd m)"
proof (induction n arbitrary: s j t xs ms)
  case (Suc n)
  { case 1
    then obtain c r where c: "skipWS s = c # r" by (auto split: list.splits)
    from 1 c consider "j = JObj []" | "j = JArr []" | q where "j = JStr q" | "pLiteral (c # r) = Some (j, t)"
      | kvs u where "j = JObj kvs" "pMembers n u = Some (kvs, t)" | ys u where "j = JArr ys" "pElems n u = Some (ys, t)"
      by (auto split: list.splits if_splits)
    then show ?case
    proof cases
      case 4
      then show ?thesis by (rule pLiteral_wf)
    next
      case 5
      then show ?thesis using Suc.IH(3) [OF 5(2)] by simp
    next
      case 6
      then show ?thesis using Suc.IH(2) [OF 6(2)] by simp
    qed simp_all
  next
    case 2
    then obtain x u d r where x: "pValue n s = Some (x, u)" and u: "skipWS u = d # r"
      by (auto split: option.splits list.splits)
    have wx: "wfJSON x" by (rule Suc.IH(1) [OF x])
    from 2 x u consider ys where "pElems n r = Some (ys, t)" "xs = x # ys" | "xs = [x]"
      by (auto split: if_splits)
    then show ?case using wx Suc.IH(2) by cases auto
  next
    case 3
    then show ?case using Suc.IH
      by (fastforce split: list.splits if_splits option.splits)
  }
qed simp_all

lemma parse_wf: "parseJSON s = Some j \<Longrightarrow> wfJSON j"
  unfolding parseJSON_def by (auto split: option.splits if_splits dest: pValue_wf(1) simp del: pValue.simps)

end
