(* ===== verification/Policy.thy ===== *)
theory Policy
  imports Json "HOL-Library.List_Lexorder" "HOL-Library.Char_ord"
begin

text \<open>
  The policy-statement editing of \<^verbatim>\<open>internal/awspolicy/awspolicy.go\<close>. A \<^verbatim>\<open>json.RawMessage\<close> taken
  from a parsed document, or produced by \<^verbatim>\<open>json.Marshal\<close>, is the JSON value it denotes.
  \<^verbatim>\<open>decode\<close> is unmarshalling into \<^verbatim>\<open>any\<close>: an object becomes a map, where the last duplicate
  wins, and a number its value, taken exactly here where Go rounds to a float64.
\<close>

section \<open>Equivalence of statements\<close>

datatype goval =
  VNull | VBool bool | VNum rat | VStr string | VArr "goval list" | VObj "(string \<times> goval) list"

text \<open>The value of a number literal.\<close>

definition digitVal :: "char \<Rightarrow> nat" where
  "digitVal c = of_char c - 48"

definition natVal :: "string \<Rightarrow> nat" where
  "natVal s = foldl (\<lambda>n c. 10 * n + digitVal c) 0 s"

definition numVal :: "string \<Rightarrow> rat" where
  "numVal s =
     (let neg = hasPrefix s ''-'';
          s1 = (if neg then drop 1 s else s);
          ip = takeWhile digit s1;
          s2 = dropWhile digit s1;
          fp = (if hasPrefix s2 ''.'' then takeWhile digit (drop 1 s2) else []);
          s3 = (if hasPrefix s2 ''.'' then dropWhile digit (drop 1 s2) else s2);
          ex = (case s3 of [] \<Rightarrow> 0
                | _ # t \<Rightarrow> (case pSign t of (sg, d) \<Rightarrow> if sg = ''-'' then - int (natVal d) else int (natVal d)));
          m = of_nat (natVal (ip @ fp)) / 10 ^ length fp
      in (if neg then -1 else 1) * m * (if ex < 0 then 1 / 10 ^ nat (- ex) else 10 ^ nat ex))"

text \<open>The map an object decodes to, as an association list sorted by key.\<close>

definition canonObj :: "(string \<times> 'a) list \<Rightarrow> (string \<times> 'a) list" where
  "canonObj kvs = map (\<lambda>k. (k, the (map_of (rev kvs) k))) (sort (remdups (map fst kvs)))"

fun decode :: "json \<Rightarrow> goval" where
  "decode JNull = VNull"
| "decode (JBool b) = VBool b"
| "decode (JNum l) = VNum (numVal l)"
| "decode (JStr s) = VStr s"
| "decode (JArr xs) = VArr (map decode xs)"
| "decode (JObj kvs) = VObj (canonObj (map (\<lambda>kv. (fst kv, decode (snd kv))) kvs))"

fun collapseSingletons :: "goval \<Rightarrow> goval" where
  "collapseSingletons (VObj kvs) = VObj (map (\<lambda>kv. (fst kv, collapseSingletons (snd kv))) kvs)"
| "collapseSingletons (VArr [x]) = collapseSingletons x"
| "collapseSingletons (VArr xs) = VArr (map collapseSingletons xs)"
| "collapseSingletons v = v"

definition equivalent :: "json \<Rightarrow> json \<Rightarrow> bool" where
  "equivalent a b \<longleftrightarrow> collapseSingletons (decode a) = collapseSingletons (decode b)"

lemma equivalent_refl [simp]: "equivalent a a"
  by (simp add: equivalent_def)

lemma equivalent_sym: "equivalent a b \<Longrightarrow> equivalent b a"
  by (simp add: equivalent_def)

lemma equivalent_trans: "equivalent a b \<Longrightarrow> equivalent b c \<Longrightarrow> equivalent a c"
  by (simp add: equivalent_def)

text \<open>
  Unmarshalling into a struct matches a member name to a field without regard to ASCII case;
  a null leaves the field alone, a later match overwrites an earlier one and a value of another
  type makes the call fail.
\<close>

definition lowerByte :: "char \<Rightarrow> char" where
  "lowerByte c = (if 65 \<le> (of_char c :: nat) \<and> (of_char c :: nat) \<le> 90 then char_of ((of_char c :: nat) + 32) else c)"

definition equalFold :: "string \<Rightarrow> string \<Rightarrow> bool" where
  "equalFold a b \<longleftrightarrow> map lowerByte a = map lowerByte b"

fun sidField :: "(string \<times> json) list \<Rightarrow> string \<Rightarrow> string option" where
  "sidField [] acc = Some acc"
| "sidField ((k, v) # kvs) acc =
     (if equalFold k ''Sid''
      then (case v of JStr s \<Rightarrow> sidField kvs s | JNull \<Rightarrow> sidField kvs acc | _ \<Rightarrow> None)
      else sidField kvs acc)"

fun sidOf :: "json \<Rightarrow> string" where
  "sidOf (JObj kvs) = (case sidField kvs [] of None \<Rightarrow> [] | Some s \<Rightarrow> s)"
| "sidOf _ = []"

section \<open>Statements by Sid\<close>

text \<open>
  \<^verbatim>\<open>Upsert\<close> and \<^verbatim>\<open>Remove\<close>, with the statement list and whether it changed. Marshalling a statement
  built from strings cannot fail, so the error result of \<^verbatim>\<open>Upsert\<close> has no branch.
\<close>

fun Upsert :: "json list \<Rightarrow> string \<Rightarrow> json \<Rightarrow> json list \<times> bool" where
  "Upsert [] sid stmt = ([stmt], True)"
| "Upsert (existing # rest) sid stmt =
     (if sidOf existing \<noteq> sid then (let (out, changed) = Upsert rest sid stmt in (existing # out, changed))
      else if equivalent existing stmt then (existing # rest, False)
      else (stmt # rest, True))"

definition Remove :: "json list \<Rightarrow> string \<Rightarrow> json list \<times> bool" where
  "Remove statements sid =
     (let kept = filter (\<lambda>s. sidOf s \<noteq> sid) statements in (kept, length kept \<noteq> length statements))"

definition InsecureTransportSid :: string where
  "InsecureTransportSid = ''cloudctl-deny-insecure-transport''"

text \<open>Marshalling a Go map writes its keys in order.\<close>

definition denyInsecureTransport :: "json \<Rightarrow> string list \<Rightarrow> json" where
  "denyInsecureTransport action resources =
     JObj [(''Action'', action),
           (''Condition'', JObj [(''Bool'', JObj [(''aws:SecureTransport'', JStr ''false'')])]),
           (''Effect'', JStr ''Deny''),
           (''Principal'', JStr ''*''),
           (''Resource'', JArr (map JStr resources)),
           (''Sid'', JStr InsecureTransportSid)]"

definition DenyInsecureTransport :: "string \<Rightarrow> string list \<Rightarrow> json" where
  "DenyInsecureTransport action resources = denyInsecureTransport (JStr action) resources"

definition DenyInsecureTransportActions :: "string list \<Rightarrow> string list \<Rightarrow> json" where
  "DenyInsecureTransportActions actions resources =
     denyInsecureTransport (JArr (map JStr actions)) resources"

lemma sidOf_obj_first:
  assumes "equalFold k ''Sid''" "\<forall>kv\<in>set kvs. \<not> equalFold (fst kv) ''Sid''"
  shows "sidOf (JObj ((k, JStr s) # kvs)) = s"
proof -
  have "sidField kvs s = Some s"
    using assms(2) by (induction kvs) auto
  with assms(1) show ?thesis by simp
qed

lemma sidOf_denyInsecureTransport [simp]:
  "sidOf (denyInsecureTransport a r) = InsecureTransportSid"
  by (simp add: denyInsecureTransport_def equalFold_def lowerByte_def)

section \<open>The contract of the editing operations\<close>

lemma Upsert_others:
  assumes "sidOf stmt = sid"
  shows "filter (\<lambda>s. sidOf s \<noteq> sid) (fst (Upsert ss sid stmt)) = filter (\<lambda>s. sidOf s \<noteq> sid) ss"
  using assms by (induction ss) (auto simp: split_beta Let_def)

lemma Upsert_has:
  assumes "sidOf stmt = sid"
  shows "\<exists>s\<in>set (fst (Upsert ss sid stmt)). sidOf s = sid \<and> equivalent s stmt"
  using assms by (induction ss) (auto simp: split_beta Let_def)

lemma Upsert_unchanged: "\<not> snd (Upsert ss sid stmt) \<Longrightarrow> fst (Upsert ss sid stmt) = ss"
  by (induction ss) (auto simp: split_beta Let_def split: if_splits)

lemma Upsert_idem:
  assumes "sidOf stmt = sid"
  shows "Upsert (fst (Upsert ss sid stmt)) sid stmt = (fst (Upsert ss sid stmt), False)"
  using assms by (induction ss) (auto simp: split_beta Let_def)

lemma Upsert_length: "length ss \<le> length (fst (Upsert ss sid stmt))"
  by (induction ss) (auto simp: split_beta Let_def)

lemma Remove_others: "filter (\<lambda>s. sidOf s \<noteq> sid') (fst (Remove ss sid)) =
    filter (\<lambda>s. sidOf s \<noteq> sid') (filter (\<lambda>s. sidOf s \<noteq> sid) ss)"
  by (simp add: Remove_def Let_def)

lemma Remove_none: "s \<in> set (fst (Remove ss sid)) \<Longrightarrow> sidOf s \<noteq> sid"
  by (simp add: Remove_def Let_def)

lemma Remove_unchanged: "\<not> snd (Remove ss sid) \<longleftrightarrow> fst (Remove ss sid) = ss"
proof -
  have "length (filter P ss) = length ss \<longleftrightarrow> filter P ss = ss" for P :: "json \<Rightarrow> bool"
    by (metis filter_id_conv length_filter_less less_irrefl)
  then show ?thesis by (simp add: Remove_def Let_def)
qed

lemma Remove_keeps: "s \<in> set ss \<Longrightarrow> sidOf s \<noteq> sid \<Longrightarrow> s \<in> set (fst (Remove ss sid))"
  by (simp add: Remove_def Let_def)

text \<open>
  The interface the resource packages edit policies through: an edit concerns one Sid, leaves
  every other statement as it is and in order, says whether it changed anything, and reports no
  change when repeated.
\<close>

locale statement_editor =
  fixes upsert :: "'s list \<Rightarrow> 'k \<Rightarrow> 's \<Rightarrow> 's list \<times> bool"
    and remove :: "'s list \<Rightarrow> 'k \<Rightarrow> 's list \<times> bool"
    and sid :: "'s \<Rightarrow> 'k"
    and same :: "'s \<Rightarrow> 's \<Rightarrow> bool"
  assumes upsert_others: "sid s = k \<Longrightarrow>
      filter (\<lambda>x. sid x \<noteq> k) (fst (upsert ss k s)) = filter (\<lambda>x. sid x \<noteq> k) ss"
    and upsert_has: "sid s = k \<Longrightarrow> \<exists>x\<in>set (fst (upsert ss k s)). sid x = k \<and> same x s"
    and upsert_unchanged: "\<not> snd (upsert ss k s) \<Longrightarrow> fst (upsert ss k s) = ss"
    and upsert_again: "sid s = k \<Longrightarrow> upsert (fst (upsert ss k s)) k s = (fst (upsert ss k s), False)"
    and remove_eq: "fst (remove ss k) = filter (\<lambda>x. sid x \<noteq> k) ss"
    and remove_changed: "snd (remove ss k) \<longleftrightarrow> fst (remove ss k) \<noteq> ss"
begin

lemma upsert_keeps_statement: "sid s = k \<Longrightarrow> x \<in> set ss \<Longrightarrow> sid x \<noteq> k \<Longrightarrow> x \<in> set (fst (upsert ss k s))"
  using arg_cong [OF upsert_others [of s k ss], of set] by auto

lemma upsert_adds_nothing_else:
  "sid s = k \<Longrightarrow> x \<in> set (fst (upsert ss k s)) \<Longrightarrow> sid x \<noteq> k \<Longrightarrow> x \<in> set ss"
  using arg_cong [OF upsert_others [of s k ss], of set] by auto

lemma remove_again: "remove (fst (remove ss k)) k = (fst (remove ss k), False)"
proof -
  have "fst (remove (fst (remove ss k)) k) = fst (remove ss k)"
    by (simp add: remove_eq)
  then show ?thesis using remove_changed [of "fst (remove ss k)" k] by (simp add: prod_eq_iff)
qed

lemma upsert_then_remove:
  "sid s = k \<Longrightarrow> fst (remove (fst (upsert ss k s)) k) = fst (remove ss k)"
  by (simp add: remove_eq upsert_others)

lemma remove_keeps_upserted:
  assumes "sid s = k" "k \<noteq> k'"
  shows "\<exists>x\<in>set (fst (remove (fst (upsert ss k s)) k')). sid x = k \<and> same x s"
  using upsert_has [OF assms(1), of ss] assms(2) by (auto simp: remove_eq)

end

interpretation stmts: statement_editor Upsert Remove sidOf equivalent
  by unfold_locales
    (simp_all add: Upsert_others Upsert_has Upsert_unchanged Upsert_idem Remove_unchanged [symmetric],
     simp add: Remove_def Let_def)

section \<open>Objects as maps, statements under one Sid\<close>

lemma canonObj_keys: "map fst (canonObj kvs) = sort (remdups (map fst kvs))"
  by (simp add: canonObj_def o_def)

lemma canonObj_distinct [simp]: "distinct (map fst (canonObj kvs))"
  by (simp add: canonObj_keys)

lemma map_of_canonObj: "map_of (canonObj kvs) k = map_of (rev kvs) k"
proof (cases "k \<in> fst ` set kvs")
  case True
  then have "(k, the (map_of (rev kvs) k)) \<in> set (canonObj kvs)" by (simp add: canonObj_def)
  then have "map_of (canonObj kvs) k = Some (the (map_of (rev kvs) k))" by simp
  moreover have "map_of (rev kvs) k \<noteq> None" using True by (simp add: map_of_eq_None_iff)
  ultimately show ?thesis by simp
next
  case False
  have "fst ` set (canonObj kvs) = fst ` set kvs"
    using arg_cong [OF canonObj_keys [of kvs], of set] by simp
  with False have "k \<notin> fst ` set (canonObj kvs)" by simp
  with False show ?thesis by (simp add: map_of_eq_None_iff [THEN iffD2])
qed

lemma map_of_rev_distinct: "distinct (map fst xs) \<Longrightarrow> map_of (rev xs) = map_of xs"
  by (rule map_of_eqI) (auto intro!: map_of_is_SomeI simp: rev_map [symmetric] dest!: map_of_SomeD)

lemma canonObj_idem [simp]: "canonObj (canonObj kvs) = canonObj kvs"
proof -
  have r: "map_of (rev (canonObj kvs)) = map_of (canonObj kvs)"
    by (rule map_of_rev_distinct) simp
  have k: "sort (remdups (map fst (canonObj kvs))) = sort (remdups (map fst kvs))"
    by (simp add: canonObj_keys remdups_id_iff_distinct sorted_sort_id)
  show ?thesis
    unfolding canonObj_def [of "canonObj kvs"] r k by (simp add: canonObj_def map_of_canonObj [unfolded canonObj_def])
qed

lemma canonObj_set: "kv \<in> set (canonObj kvs) \<Longrightarrow> kv \<in> set kvs"
proof -
  assume "kv \<in> set (canonObj kvs)"
  then have "fst kv \<in> fst ` set kvs" "snd kv = the (map_of (rev kvs) (fst kv))"
    by (force simp: canonObj_def)+
  then have "map_of (rev kvs) (fst kv) = Some (snd kv)"
    by (cases "map_of (rev kvs) (fst kv)") (auto simp: map_of_eq_None_iff)
  from map_of_SomeD [OF this] show ?thesis by simp
qed

text \<open>The statements under one Sid, which alone decide whether an edit of that Sid changes anything.\<close>

abbreviation under :: "string \<Rightarrow> json list \<Rightarrow> json list" where
  "under sid ss \<equiv> filter (\<lambda>s. sidOf s = sid) ss"

lemma Upsert_changed_iff:
  "snd (Upsert ss sid stmt) \<longleftrightarrow> \<not> (\<exists>s rest. under sid ss = s # rest \<and> equivalent s stmt)"
  by (induction ss) (auto simp: split_beta Let_def)

lemma Remove_changed_iff: "snd (Remove ss sid) \<longleftrightarrow> under sid ss \<noteq> []"
  using Remove_unchanged [of ss sid] by (auto simp: Remove_def Let_def filter_id_conv filter_empty_conv)

lemma under_of_others:
  assumes "filter (\<lambda>s. sidOf s \<noteq> sid) a = filter (\<lambda>s. sidOf s \<noteq> sid) b" "sid' \<noteq> sid"
  shows "under sid' a = under sid' b"
proof -
  have "under sid' ss = under sid' (filter (\<lambda>s. sidOf s \<noteq> sid) ss)" for ss
    using assms(2) by (induction ss) auto
  then show ?thesis using assms(1) by metis
qed

lemma under_Upsert_other: "sidOf stmt = sid \<Longrightarrow> sid' \<noteq> sid \<Longrightarrow> under sid' (fst (Upsert ss sid stmt)) = under sid' ss"
  using under_of_others [OF Upsert_others] by blast

lemma under_Remove_other: "sid' \<noteq> sid \<Longrightarrow> under sid' (fst (Remove ss sid)) = under sid' ss"
  by (rule under_of_others [of sid]) (simp_all add: Remove_def Let_def)

section \<open>Properties\<close>

text \<open>Editing a resource policy by Sid touches one statement only. After an upsert every statement
  under another Sid is still there, unchanged and in order, and some statement under the Sid
  is equivalent to the wanted one; an edit that reports no change made none; repeating it reports
  no change; and removing the Sid afterwards gives what removing it at once would have given.\<close>

theorem policy_edits_one_statement:
  assumes "sidOf stmt = sid"
  shows "filter (\<lambda>s. sidOf s \<noteq> sid) (fst (Upsert ss sid stmt)) = filter (\<lambda>s. sidOf s \<noteq> sid) ss
       \<and> (\<exists>s\<in>set (fst (Upsert ss sid stmt)). sidOf s = sid \<and> equivalent s stmt)
       \<and> (\<not> snd (Upsert ss sid stmt) \<longrightarrow> fst (Upsert ss sid stmt) = ss)
       \<and> Upsert (fst (Upsert ss sid stmt)) sid stmt = (fst (Upsert ss sid stmt), False)
       \<and> fst (Remove (fst (Upsert ss sid stmt)) sid) = fst (Remove ss sid)
       \<and> Remove (fst (Remove ss sid)) sid = (fst (Remove ss sid), False)"
  using assms stmts.upsert_others stmts.upsert_has stmts.upsert_unchanged stmts.upsert_again
    stmts.upsert_then_remove stmts.remove_again
  by metis

theorem policy_edits_one_statement_witness:
  "fst (Remove (fst (Upsert [] InsecureTransportSid (DenyInsecureTransport ''sqs:*'' [''arn:q''])))
     InsecureTransportSid) = []"
proof -
  have s: "sidOf (DenyInsecureTransport ''sqs:*'' [''arn:q'']) = InsecureTransportSid"
    by (simp add: DenyInsecureTransport_def)
  show ?thesis using policy_edits_one_statement [OF s, of "[]"] by (simp add: Remove_def)
qed

end
