(* ===== verification/Decisions.thy ===== *)
theory Decisions
  imports Ledger Naming "HOL-Library.List_Lexorder" "HOL-Library.Char_ord"
begin

text \<open>
  What happens to a ledger entry when its custom resource goes, and which entries still need
  which KMS key: \<^verbatim>\<open>internal/decisions/decisions.go\<close>. The lemmas say exactly when an entry is a
  holder of a key, that stamping only writes the two published fields, and that the published
  list of holders stays short and tells how many it left out.
\<close>

section \<open>Outcome of a deletion\<close>

definition TypeKMS :: string where "TypeKMS = ''kms''"
definition TypeIAM :: string where "TypeIAM = ''iam''"
definition TypeRDS :: string where "TypeRDS = ''rds''"
definition typeSQS :: string where "typeSQS = ''sqs''"
definition typeSNS :: string where "typeSNS = ''sns''"
definition typeS3 :: string where "typeS3 = ''s3''"
definition typeDynamoDB :: string where "typeDynamoDB = ''dynamodb''"

lemmas type_names = TypeKMS_def TypeIAM_def TypeRDS_def typeSQS_def typeSNS_def typeS3_def
  typeDynamoDB_def

definition maxHeldBy :: nat where "maxHeldBy = 20"

definition forceable :: "string \<Rightarrow> bool" where
  "forceable t \<longleftrightarrow> t = typeSQS \<or> t = typeSNS \<or> t = typeS3 \<or> t = typeDynamoDB"

definition OnDelete :: "ManagedResource \<Rightarrow> OnDeleteOutcome" where
  "OnDelete e =
     (if mr_DeletionPolicy e \<noteq> DeletionPolicyDelete then OnDeleteRetain
      else if mr_Type e = TypeRDS then OnDeleteManual
      else if mr_Force e \<and> forceable (mr_Type e) then OnDeleteEvenIfNotEmpty
      else OnDeleteDelete)"

section \<open>Which entries hold which key\<close>

record Holder =
  ho_Type :: string
  ho_Name :: string
  ho_Retained :: bool

definition holderOf :: "ManagedResource \<Rightarrow> Holder" where
  "holderOf e = \<lparr>ho_Type = mr_Type e, ho_Name = mr_Name e,
                 ho_Retained = (mr_DeletionPolicy e \<noteq> DeletionPolicyDelete)\<rparr>"

text \<open>The map from key ARN to ledger name; of two entries with one ARN the later wins.\<close>

fun byARN :: "ledger \<Rightarrow> (string \<rightharpoonup> string) \<Rightarrow> (string \<rightharpoonup> string)" where
  "byARN [] m = m"
| "byARN (e # es) m = byARN es (if mr_Type e = TypeKMS then m(mr_ARN e \<mapsto> mr_Name e) else m)"

text \<open>The key one entry is held against, the body of the second loop of \<^verbatim>\<open>KeyHolders\<close>.\<close>

definition heldKey :: "ledger \<Rightarrow> (string \<rightharpoonup> string) \<Rightarrow> ManagedResource \<Rightarrow> string option" where
  "heldKey l arns e =
     (if mr_Type e = TypeKMS \<or> mr_Type e = TypeIAM then None
      else case (if mr_KMSKeyARN e \<noteq> [] then arns (mr_KMSKeyARN e) else None) of
             Some name \<Rightarrow> Some name
           | None \<Rightarrow>
               (let ownerType = (if mr_Type e = ResourceTypeRDSSnapshot then TypeRDS else mr_Type e);
                    resourceName = cutBefore (mr_Name e) CHR ''#'';
                    dedicated = DedicatedKeyLedgerName ownerType resourceName
                in if HasManagedResource l TypeKMS dedicated then Some dedicated else None))"

text \<open>A Go map from key name to holders; a missing name reads as the nil slice.\<close>

fun collectHolders ::
  "ledger \<Rightarrow> (string \<rightharpoonup> string) \<Rightarrow> ledger \<Rightarrow> (string \<Rightarrow> Holder list) \<Rightarrow> (string \<Rightarrow> Holder list)" where
  "collectHolders l arns [] holders = holders"
| "collectHolders l arns (e # es) holders =
     collectHolders l arns es
       (case heldKey l arns e of None \<Rightarrow> holders
        | Some name \<Rightarrow> holders(name := holders name @ [holderOf e]))"

definition KeyHolders :: "ledger \<Rightarrow> string \<Rightarrow> Holder list" where
  "KeyHolders l = collectHolders l (byARN l Map.empty) l (\<lambda>_. [])"

definition heldBy :: "Holder list \<Rightarrow> string list option" where
  "heldBy holders =
     (if holders = [] then None
      else (let names = sort (map (\<lambda>h. ho_Type h @ ''/'' @ ho_Name h) holders)
            in if length names > maxHeldBy
               then Some (take maxHeldBy names @ [''and '' @ show_nat (length names - maxHeldBy) @ '' more''])
               else Some names))"

definition stampEntry :: "(string \<Rightarrow> Holder list) \<Rightarrow> ManagedResource \<Rightarrow> ManagedResource" where
  "stampEntry holders e =
     e\<lparr>mr_OnDelete := OnDelete e,
       mr_HeldBy := (if mr_Type e = TypeKMS then heldBy (holders (mr_Name e)) else None)\<rparr>"

definition Stamp :: "ledger \<Rightarrow> ledger" where
  "Stamp l = map (stampEntry (KeyHolders l)) l"

section \<open>Lemmas\<close>

lemma collectHolders_eq:
  "collectHolders l arns es holders n =
     holders n @ map holderOf (filter (\<lambda>e. heldKey l arns e = Some n) es)"
  by (induction es arbitrary: holders) (auto split: option.split)

lemma KeyHolders_eq:
  "KeyHolders l n = map holderOf (filter (\<lambda>e. heldKey l (byARN l Map.empty) e = Some n) l)"
  by (simp add: KeyHolders_def collectHolders_eq)

lemma byARN_map_of:
  "byARN es m = m ++ map_of (rev (map (\<lambda>e. (mr_ARN e, mr_Name e)) (filter (\<lambda>e. mr_Type e = TypeKMS) es)))"
  by (induction es arbitrary: m) (simp_all add: fun_upd_def [symmetric] map_add_assoc [symmetric])

lemma byARN_Some:
  "byARN es Map.empty a = Some n \<Longrightarrow> \<exists>e\<in>set es. mr_Type e = TypeKMS \<and> mr_ARN e = a \<and> mr_Name e = n"
  by (auto simp: byARN_map_of dest!: map_of_SomeD)

lemma byARN_total:
  "e \<in> set es \<Longrightarrow> mr_Type e = TypeKMS \<Longrightarrow> byARN es Map.empty (mr_ARN e) \<noteq> None"
  by (auto simp: byARN_map_of image_iff simp flip: not_None_eq simp del: not_None_eq simp add: map_of_eq_None_iff)

text \<open>An entry stamped with the ARN of a recorded key is held against a key with that ARN.\<close>

lemma heldKey_recorded:
  assumes "e \<in> set l" "mr_Type e \<noteq> TypeKMS" "mr_Type e \<noteq> TypeIAM" "mr_KMSKeyARN e \<noteq> []"
    and k: "k \<in> set l" "mr_Type k = TypeKMS" "mr_ARN k = mr_KMSKeyARN e"
  shows "\<exists>k'\<in>set l. mr_Type k' = TypeKMS \<and> mr_ARN k' = mr_KMSKeyARN e
           \<and> holderOf e \<in> set (KeyHolders l (mr_Name k'))"
proof -
  obtain n where n: "byARN l Map.empty (mr_KMSKeyARN e) = Some n"
    using byARN_total [OF k(1,2)] k(3) by auto
  from byARN_Some [OF this] obtain k' where
    "k' \<in> set l" "mr_Type k' = TypeKMS" "mr_ARN k' = mr_KMSKeyARN e" "mr_Name k' = n" by auto
  moreover have "heldKey l (byARN l Map.empty) e = Some n"
    using assms(2,3,4) n by (simp add: heldKey_def)
  ultimately show ?thesis using assms(1) by (auto simp: KeyHolders_eq)
qed

lemma KeyHolders_snapshot:
  assumes "s \<in> set l" "mr_Type s = ResourceTypeRDSSnapshot" "mr_KMSKeyARN s = []"
    and "mr_Name s = db @ CHR ''#'' # i" "CHR ''#'' \<notin> set db"
    and "HasManagedResource l TypeKMS (DedicatedKeyLedgerName TypeRDS db)"
  shows "holderOf s \<in> set (KeyHolders l (DedicatedKeyLedgerName TypeRDS db))"
proof -
  have "heldKey l (byARN l Map.empty) s = Some (DedicatedKeyLedgerName TypeRDS db)"
    using assms by (simp add: heldKey_def ResourceTypeRDSSnapshot_def TypeKMS_def TypeIAM_def)
  then show ?thesis using assms(1) by (auto simp: KeyHolders_eq)
qed

text \<open>A key is only ever held by entries of the ledger, and is itself in the ledger.\<close>

lemma KeyHolders_sound:
  assumes "h \<in> set (KeyHolders l n)"
  shows "HasManagedResource l TypeKMS n \<and>
    (\<exists>e\<in>set l. h = holderOf e \<and> mr_Type e \<noteq> TypeKMS \<and> mr_Type e \<noteq> TypeIAM)"
proof -
  from assms obtain e where e: "e \<in> set l" "h = holderOf e"
    and k: "heldKey l (byARN l Map.empty) e = Some n" by (auto simp: KeyHolders_eq)
  have "HasManagedResource l TypeKMS n"
  proof (cases "mr_KMSKeyARN e \<noteq> [] \<and> byARN l Map.empty (mr_KMSKeyARN e) \<noteq> None")
    case True
    with k have "byARN l Map.empty (mr_KMSKeyARN e) = Some n"
      by (auto simp: heldKey_def split: if_splits)
    from byARN_Some [OF this] show ?thesis using Has_in_set by metis
  next
    case False
    with k show ?thesis by (auto simp: heldKey_def Let_def split: if_splits option.splits)
  qed
  moreover have "mr_Type e \<noteq> TypeKMS \<and> mr_Type e \<noteq> TypeIAM"
    using k by (auto simp: heldKey_def split: if_splits)
  ultimately show ?thesis using e by auto
qed

text \<open>Stamping writes nothing the computation of the stamps reads.\<close>

lemma stampEntry_fields [simp]:
  "mr_Type (stampEntry h e) = mr_Type e" "mr_Name (stampEntry h e) = mr_Name e"
  "mr_ARN (stampEntry h e) = mr_ARN e" "mr_KMSKeyARN (stampEntry h e) = mr_KMSKeyARN e"
  "mr_DeletionPolicy (stampEntry h e) = mr_DeletionPolicy e" "mr_Force (stampEntry h e) = mr_Force e"
  "OnDelete (stampEntry h e) = OnDelete e" "holderOf (stampEntry h e) = holderOf e"
  by (simp_all add: stampEntry_def OnDelete_def holderOf_def)

lemma Stamp_keys [simp]: "map mr_key (Stamp l) = map mr_key l"
  by (simp add: Stamp_def)

lemma Has_map_key:
  "map mr_key l = map mr_key l' \<Longrightarrow> HasManagedResource l t n = HasManagedResource l' t n"
proof (induction l arbitrary: l')
  case (Cons e es)
  then obtain e' es' where "l' = e' # es'" by (cases l') auto
  with Cons show ?case by (simp add: HasManagedResource_def)
qed (simp add: HasManagedResource_def)

lemma byARN_Stamp: "byARN (map (stampEntry h) l) m = byARN l m"
  by (induction l arbitrary: m) simp_all

lemma heldKey_Stamp:
  "heldKey (Stamp l) (byARN (Stamp l) m) (stampEntry h e) = heldKey l (byARN l m) e"
proof -
  have "byARN (Stamp l) m = byARN l m" by (simp add: Stamp_def byARN_Stamp)
  then show ?thesis by (simp only: heldKey_def stampEntry_fields Has_map_key [OF Stamp_keys, of l])
qed

lemma KeyHolders_Stamp: "KeyHolders (Stamp l) = KeyHolders l"
proof
  fix n
  have "filter (\<lambda>e. heldKey (Stamp l) (byARN (Stamp l) Map.empty) e = Some n) (Stamp l) =
      map (stampEntry (KeyHolders l)) (filter (\<lambda>e. heldKey l (byARN l Map.empty) e = Some n) l)"
    using heldKey_Stamp [of l Map.empty "KeyHolders l"]
    by (simp add: Stamp_def [of l] filter_map o_def)
  then show "KeyHolders (Stamp l) n = KeyHolders l n"
    by (simp add: KeyHolders_eq)
qed

lemma stampEntry_idem: "stampEntry h (stampEntry h e) = stampEntry h e"
proof -
  have "OnDelete (e\<lparr>mr_OnDelete := a, mr_HeldBy := b\<rparr>) = OnDelete e" for a b
    by (simp add: OnDelete_def)
  then show ?thesis by (simp add: stampEntry_def)
qed

lemma Stamp_idem: "Stamp (Stamp l) = Stamp l"
  by (simp add: Stamp_def [of "Stamp l"] KeyHolders_Stamp) (simp add: Stamp_def stampEntry_idem)

lemma Find_Stamp:
  "FindManagedResource (Stamp l) t n = map_option (stampEntry (KeyHolders l)) (FindManagedResource l t n)"
proof -
  have "FindManagedResource (map (stampEntry h) l) t n = map_option (stampEntry h) (FindManagedResource l t n)" for h
    by (induction l) auto
  then show ?thesis by (simp add: Stamp_def)
qed

lemma heldBy_length:
  assumes "heldBy hs = Some ns"
  shows "0 < length ns \<and> length ns \<le> maxHeldBy + 1"
proof -
  define names where "names = sort (map (\<lambda>h. ho_Type h @ ''/'' @ ho_Name h) hs)"
  have "length names = length hs" by (simp add: names_def)
  then show ?thesis
    using assms unfolding heldBy_def Let_def names_def [symmetric] by (auto split: if_splits)
qed

section \<open>Properties\<close>

text \<open>C13: No key is considered free while data still needs it: every entry that records the ARN of
  a key in the ledger is listed as a holder of a key with that ARN, and is marked retained
  whenever its own policy keeps it. Conversely every listed holder is an entry of the ledger, is
  neither a key nor a role, and the key it is listed under is in the ledger. A snapshot recorded
  before keys were recorded holds the dedicated key of the instance it was taken from.\<close>

theorem key_holders_complete_and_sound:
  assumes "e \<in> set l" "mr_Type e \<noteq> TypeKMS" "mr_Type e \<noteq> TypeIAM" "mr_KMSKeyARN e \<noteq> []"
    and "k \<in> set l" "mr_Type k = TypeKMS" "mr_ARN k = mr_KMSKeyARN e"
  shows "(\<exists>k'\<in>set l. mr_Type k' = TypeKMS \<and> mr_ARN k' = mr_KMSKeyARN e
           \<and> (\<exists>h\<in>set (KeyHolders l (mr_Name k')). ho_Type h = mr_Type e \<and> ho_Name h = mr_Name e
                \<and> ho_Retained h = (OnDelete e = OnDeleteRetain)))
       \<and> (\<forall>n. \<forall>h\<in>set (KeyHolders l n). HasManagedResource l TypeKMS n
           \<and> (\<exists>x\<in>set l. h = holderOf x \<and> mr_Type x \<noteq> TypeKMS \<and> mr_Type x \<noteq> TypeIAM))
       \<and> (\<forall>s db i. s \<in> set l \<and> mr_Type s = ResourceTypeRDSSnapshot \<and> mr_KMSKeyARN s = []
             \<and> mr_Name s = db @ CHR ''#'' # i \<and> CHR ''#'' \<notin> set db
             \<and> HasManagedResource l TypeKMS (DedicatedKeyLedgerName TypeRDS db)
           \<longrightarrow> holderOf s \<in> set (KeyHolders l (DedicatedKeyLedgerName TypeRDS db)))"
proof -
  have "ho_Retained (holderOf e) = (OnDelete e = OnDeleteRetain)"
    by (simp add: holderOf_def OnDelete_def)
  moreover have "ho_Type (holderOf e) = mr_Type e" "ho_Name (holderOf e) = mr_Name e"
    by (simp_all add: holderOf_def)
  ultimately show ?thesis
    using heldKey_recorded [OF assms] KeyHolders_sound KeyHolders_snapshot by blast
qed

theorem key_holders_complete_and_sound_witness:
  "HasManagedResource
     [zeroManagedResource\<lparr>mr_Type := ''sqs'', mr_Name := ''jobs'', mr_KMSKeyARN := ''arn:k''\<rparr>,
      zeroManagedResource\<lparr>mr_Type := ''kms'', mr_Name := ''main'', mr_ARN := ''arn:k''\<rparr>] TypeKMS ''main''"
proof -
  let ?q = "zeroManagedResource\<lparr>mr_Type := ''sqs'', mr_Name := ''jobs'', mr_KMSKeyARN := ''arn:k''\<rparr>"
  let ?k = "zeroManagedResource\<lparr>mr_Type := ''kms'', mr_Name := ''main'', mr_ARN := ''arn:k''\<rparr>"
  have "KeyHolders [?q, ?k] ''main'' = [holderOf ?q]"
    by (simp add: KeyHolders_eq heldKey_def type_names zeroManagedResource_def)
  then show ?thesis
    using key_holders_complete_and_sound [of ?q "[?q, ?k]" ?k] by (simp add: type_names)
qed

text \<open>Stamping the ledger is idempotent, keeps every entry in place with its key, ARN, policy
  and recorded encryption key, and publishes on each entry the outcome the deletion code acts on.
  The holders published on a key are at most twenty names and one line counting the rest, and
  there are none exactly when nothing holds the key.\<close>

theorem stamp_publishes_decisions:
  "Stamp (Stamp l) = Stamp l
   \<and> map mr_key (Stamp l) = map mr_key l
   \<and> FindManagedResource (Stamp l) t n =
       map_option (\<lambda>e. e\<lparr>mr_OnDelete := OnDelete e,
          mr_HeldBy := (if mr_Type e = TypeKMS then heldBy (KeyHolders l (mr_Name e)) else None)\<rparr>)
         (FindManagedResource l t n)
   \<and> (heldBy hs = None \<longleftrightarrow> hs = [])
   \<and> (\<forall>ns. heldBy hs = Some ns \<longrightarrow> length ns \<le> maxHeldBy + 1)"
proof -
  have "heldBy hs = None \<longleftrightarrow> hs = []" by (simp add: heldBy_def Let_def)
  then show ?thesis
    using heldBy_length by (simp add: Stamp_idem Find_Stamp stampEntry_def [abs_def])
qed

theorem stamp_publishes_decisions_witness:
  "\<exists>ns. heldBy [holderOf zeroManagedResource] = Some ns \<and> length ns \<le> 21"
  using stamp_publishes_decisions [of "[]" "[]" "[]" "[holderOf zeroManagedResource]"]
  by (auto simp: maxHeldBy_def)

end
