(* ===== verification/Conditions.thy ===== *)
theory Conditions
  imports Api_Types "HOL-Library.Word"
begin

text \<open>
  Status conditions, \<^verbatim>\<open>internal/status/conditions.go\<close>. A string is its UTF-8 bytes, so the
  ellipsis in the markers is the three bytes E2 80 A6. The two functions of
  \<^verbatim>\<open>k8s.io/apimachinery/pkg/api/meta\<close> that read and write the condition list are not part of
  the repository: they are the fields of the record \<open>apimeta\<close>, an argument of everything that
  uses them, and \<open>apimeta_laws\<close> is what their documentation promises.
\<close>

unbundle bit_operations_syntax

section \<open>Messages\<close>

definition ellipsis :: string where "ellipsis = [CHR 0xE2, CHR 0x80, CHR 0xA6]"

definition MaxMessageLength :: int where "MaxMessageLength = 4096"
definition truncatedMarker :: string where "truncatedMarker = ellipsis @ '' (truncated)''"
definition MaxEventNoteLength :: int where "MaxEventNoteLength = 1000"
definition eventNoteMarker :: string where "eventNoteMarker = ellipsis @ '' see the condition''"

text \<open>\<^verbatim>\<open>utf8.RuneStart\<close>: every byte but a continuation byte.\<close>

definition RuneStart :: "char \<Rightarrow> bool" where
  "RuneStart b \<longleftrightarrow> (of_char b :: 8 word) AND 0xC0 \<noteq> 0x80"

text \<open>The loop of \<^verbatim>\<open>capBytes\<close> that moves the cut back to the start of a character.\<close>

fun backToRune :: "string \<Rightarrow> nat \<Rightarrow> nat" where
  "backToRune msg 0 = 0"
| "backToRune msg (Suc c) = (if \<not> RuneStart (msg ! Suc c) then backToRune msg c else Suc c)"

definition capBytes :: "string \<Rightarrow> int \<Rightarrow> string \<Rightarrow> string" where
  "capBytes msg limit marker =
     (if int (length msg) \<le> limit then msg
      else take (backToRune msg (nat (limit - int (length marker)))) msg @ marker)"

definition CapMessage :: "string \<Rightarrow> string" where
  "CapMessage msg = capBytes msg MaxMessageLength truncatedMarker"

definition CapEventNote :: "string \<Rightarrow> string" where
  "CapEventNote msg = capBytes msg MaxEventNoteLength eventNoteMarker"

text \<open>
  The loop of \<^verbatim>\<open>JoinCapped\<close>: what has been written so far, how many items that is, and the items
  still to come.
\<close>

fun joinLoop :: "int \<Rightarrow> string \<Rightarrow> string list \<Rightarrow> string \<Rightarrow> nat \<Rightarrow> string \<times> nat" where
  "joinLoop budget sep [] b shown = (b, shown)"
| "joinLoop budget sep (item # items) b shown =
     (if int (length b) + int (length item) > budget then (b, shown)
      else joinLoop budget sep items ((if shown > 0 then b @ sep else b) @ item) (Suc shown))"

definition JoinCapped :: "string list \<Rightarrow> string \<Rightarrow> string" where
  "JoinCapped items sep =
     (let whole = join items sep
      in if int (length whole) \<le> MaxMessageLength then whole
         else (let budget = MaxMessageLength - int (length sep) - int (length (ellipsis @ '' and 999999 more''));
                   (b, shown) = joinLoop budget sep items [] 0
               in (if shown > 0 then b @ sep else b)
                  @ ellipsis @ '' and '' @ show_nat (length items - shown) @ '' more''))"

text \<open>
  \<^verbatim>\<open>StripRequestIDs\<close>. The expression \<^verbatim>\<open>,?\s*(?:RequestID|HostID): [^,\s]+\<close> matches without
  backtracking: a comma, white space and a letter exclude one another, so each part of the
  expression consumes as much as it can. \<open>matchRequestID\<close> is what remains after a match at the start of
  the string.
\<close>

definition isSpace :: "char \<Rightarrow> bool" where
  "isSpace c \<longleftrightarrow> c \<in> {CHR 0x09, CHR 0x0A, CHR 0x0C, CHR 0x0D, CHR '' ''}"

definition isIDByte :: "char \<Rightarrow> bool" where
  "isIDByte c \<longleftrightarrow> c \<noteq> CHR '','' \<and> \<not> isSpace c"

definition trimPrefix :: "string \<Rightarrow> string \<Rightarrow> string" where
  "trimPrefix s p = (if hasPrefix s p then drop (length p) s else s)"

definition matchRequestID :: "string \<Rightarrow> string option" where
  "matchRequestID s =
     (let s1 = dropWhile isSpace (trimPrefix s '','');
          after = (if hasPrefix s1 ''RequestID: '' then Some (drop 11 s1)
                   else if hasPrefix s1 ''HostID: '' then Some (drop 8 s1) else None)
      in case after of None \<Rightarrow> None
         | Some [] \<Rightarrow> None
         | Some (c # t) \<Rightarrow> if isIDByte c then Some (dropWhile isIDByte t) else None)"

lemma matchRequestID_shorter:
  assumes "matchRequestID s = Some t"
  shows "length t < length s"
proof -
  define s1 where "s1 = dropWhile isSpace (trimPrefix s '','')"
  have "length s1 \<le> length (trimPrefix s '','')" by (simp add: s1_def length_dropWhile_le)
  also have "\<dots> \<le> length s" by (simp add: trimPrefix_def)
  finally have le: "length s1 \<le> length s" .
  obtain n c u where u: "drop n s1 = c # u" "t = dropWhile isIDByte u"
    using assms unfolding matchRequestID_def Let_def s1_def [symmetric]
    by (auto split: if_splits list.splits)
  have "length t \<le> length u" by (simp add: u(2) length_dropWhile_le)
  also have "length u < length s1"
    using arg_cong [OF u(1), of length] by simp
  finally show ?thesis using le by simp
qed

function stripIDs :: "string \<Rightarrow> string" where
  "stripIDs s =
     (case matchRequestID s of
        Some rest \<Rightarrow> stripIDs rest
      | None \<Rightarrow> (case s of [] \<Rightarrow> [] | c # t \<Rightarrow> c # stripIDs t))"
  by pat_completeness auto
termination
  by (relation "measure length") (auto dest: matchRequestID_shorter)

declare stripIDs.simps [simp del]

definition StripRequestIDs :: "string \<Rightarrow> string" where
  "StripRequestIDs msg = trimPrefix (stripIDs msg) '', ''"

section \<open>The condition list\<close>

record apimeta =
  am_SetStatusCondition :: "Condition list \<Rightarrow> Condition \<Rightarrow> Condition list"
  am_FindStatusCondition :: "Condition list \<Rightarrow> string \<Rightarrow> Condition option"

text \<open>
  Setting a condition makes it the one found under its type, up to the transition time that the
  library maintains, and leaves every other type alone.
\<close>

definition apimeta_laws :: "apimeta \<Rightarrow> bool" where
  "apimeta_laws m \<longleftrightarrow>
     (\<forall>cs c. \<exists>tt. am_FindStatusCondition m (am_SetStatusCondition m cs c) (co_Type c)
                  = Some (c\<lparr>co_LastTransitionTime := tt\<rparr>)) \<and>
     (\<forall>cs c t. t \<noteq> co_Type c \<longrightarrow>
        am_FindStatusCondition m (am_SetStatusCondition m cs c) t = am_FindStatusCondition m cs t)"

definition ConditionTypeReady :: string where "ConditionTypeReady = ''Ready''"
definition ConditionTypeDeletionBlocked :: string where "ConditionTypeDeletionBlocked = ''DeletionBlocked''"

text \<open>The value of a composite literal that sets every field but the transition time.\<close>

definition mkCondition :: "string \<Rightarrow> ConditionStatus \<Rightarrow> string \<Rightarrow> string \<Rightarrow> int \<Rightarrow> Condition" where
  "mkCondition t s reason message generation =
     \<lparr>co_Type = t, co_Status = s, co_ObservedGeneration = generation, co_LastTransitionTime = 0,
      co_Reason = reason, co_Message = message\<rparr>"

text \<open>
  One section's verdict in \<^verbatim>\<open>recomputeReady\<close>: \<open>None\<close> when it counts as ready for this generation,
  otherwise the reason and message to report.
\<close>

definition sectionVerdict :: "Condition option \<Rightarrow> string \<Rightarrow> int \<Rightarrow> (string \<times> string) option" where
  "sectionVerdict c t observedGeneration =
     (case c of
        None \<Rightarrow> Some (''SectionsNotReady'', t @ '' is not ready'')
      | Some x \<Rightarrow>
          if co_Status x \<noteq> ConditionTrue
          then (if co_Reason x \<noteq> [] then Some (co_Reason x, t @ '': '' @ co_Message x)
                else Some (''SectionsNotReady'', t @ '' is not ready''))
          else if co_ObservedGeneration x \<noteq> observedGeneration
          then Some (''SectionsNotReady'', t @ '' has not been reconciled for the current generation yet'')
          else None)"

fun readyLoop :: "apimeta \<Rightarrow> Condition list \<Rightarrow> int \<Rightarrow> string list \<Rightarrow>
    ConditionStatus \<times> string \<times> string \<times> string list \<Rightarrow> ConditionStatus \<times> string \<times> string \<times> string list" where
  "readyLoop m conditions gen [] acc = acc"
| "readyLoop m conditions gen (t # ts) (readyStatus, reason, message, alsoNotReady) =
     (case sectionVerdict (am_FindStatusCondition m conditions t) t gen of
        None \<Rightarrow> readyLoop m conditions gen ts (readyStatus, reason, message, alsoNotReady)
      | Some (sectionReason, sectionMessage) \<Rightarrow>
          if readyStatus = ConditionTrue
          then readyLoop m conditions gen ts (ConditionFalse, sectionReason, sectionMessage, alsoNotReady)
          else readyLoop m conditions gen ts (readyStatus, reason, message, alsoNotReady @ [t]))"

definition recomputeReady :: "apimeta \<Rightarrow> Condition list \<Rightarrow> string list \<Rightarrow> int \<Rightarrow> Condition list" where
  "recomputeReady m conditions sectionTypes observedGeneration =
     (let (readyStatus, reason, message, alsoNotReady) =
            readyLoop m conditions observedGeneration sectionTypes
              (ConditionTrue, ''AllSectionsReady'', ''all declared sections are ready'', []);
          message' = (if alsoNotReady \<noteq> []
                      then message @ '' (also not ready: '' @ join alsoNotReady '', '' @ '')''
                      else message)
      in am_SetStatusCondition m conditions
           (mkCondition ConditionTypeReady readyStatus reason (CapMessage message') observedGeneration))"

definition SetSectionCondition ::
  "apimeta \<Rightarrow> Condition list \<Rightarrow> string \<Rightarrow> ConditionStatus \<Rightarrow> string \<Rightarrow> string \<Rightarrow> int \<Rightarrow> string list
   \<Rightarrow> Condition list" where
  "SetSectionCondition m conditions conditionType s reason message observedGeneration sectionTypes =
     recomputeReady m
       (am_SetStatusCondition m conditions
          (mkCondition conditionType s reason (CapMessage message) observedGeneration))
       sectionTypes observedGeneration"

definition SetDeletionBlocked :: "apimeta \<Rightarrow> Condition list \<Rightarrow> int \<Rightarrow> string list \<Rightarrow> Condition list" where
  "SetDeletionBlocked m conditions observedGeneration blocked =
     (let message = JoinCapped blocked ''; '';
          c1 = am_SetStatusCondition m conditions
                 (mkCondition ConditionTypeDeletionBlocked ConditionTrue ''ResourcesNotDrained'' message
                    observedGeneration)
      in am_SetStatusCondition m c1
           (mkCondition ConditionTypeReady ConditionFalse ''DeletionBlocked'' message observedGeneration))"

section \<open>Lemmas on messages\<close>

lemma backToRune_le: "backToRune msg n \<le> n"
  by (induction n) auto

lemma backToRune_start: "backToRune msg n = 0 \<or> RuneStart (msg ! backToRune msg n)"
  by (induction n) auto

lemma capBytes_length:
  assumes "int (length marker) \<le> limit"
  shows "int (length (capBytes msg limit marker)) \<le> limit"
proof (cases "int (length msg) \<le> limit")
  case False
  have "int (backToRune msg (nat (limit - int (length marker)))) \<le> limit - int (length marker)"
    using backToRune_le [of msg "nat (limit - int (length marker))"] assms by linarith
  with False show ?thesis by (simp add: capBytes_def)
qed (simp add: capBytes_def)

lemma CapMessage_length: "int (length (CapMessage msg)) \<le> MaxMessageLength"
  unfolding CapMessage_def
  by (rule capBytes_length) (simp add: truncatedMarker_def ellipsis_def MaxMessageLength_def)

lemma CapEventNote_length: "int (length (CapEventNote msg)) \<le> MaxEventNoteLength"
  unfolding CapEventNote_def
  by (rule capBytes_length) (simp add: eventNoteMarker_def ellipsis_def MaxEventNoteLength_def)

text \<open>A shortened message is a prefix that ends where a character starts, then the marker.\<close>

lemma capBytes_cut:
  assumes "limit < int (length msg)" "int (length marker) \<le> limit"
  shows "\<exists>n. n \<le> length msg \<and> capBytes msg limit marker = take n msg @ marker
           \<and> (n = 0 \<or> RuneStart (msg ! n))"
proof -
  let ?c = "nat (limit - int (length marker))"
  have "backToRune msg ?c \<le> length msg"
    using backToRune_le [of msg ?c] assms by linarith
  then show ?thesis using assms backToRune_start [of msg ?c] by (auto simp: capBytes_def)
qed

lemma show_nat_length: "n < 10 ^ k \<Longrightarrow> 0 < k \<Longrightarrow> length (show_nat n) \<le> k"
proof (induction n arbitrary: k rule: show_nat.induct)
  case (1 n)
  show ?case
  proof (cases "n < 10")
    case True
    with 1 show ?thesis by (simp add: show_nat.simps [of n])
  next
    case False
    have "k \<noteq> 1" using False 1(2) by auto
    with 1(3) have "1 < k" by simp
    then obtain j where j: "k = Suc j" "0 < j" by (cases k) auto
    have "n div 10 < 10 ^ j" using 1(2) j by (simp add: less_mult_imp_div_less mult.commute)
    with 1(1) [OF False, of j] j False show ?thesis by (simp add: show_nat.simps [of n])
  qed
qed

lemma joinLoop_bound:
  assumes "0 \<le> budget" and "int (length b) \<le> budget + int (length sep)"
  shows "int (length (fst (joinLoop budget sep items b shown))) \<le> budget + int (length sep)"
  using assms
proof (induction items arbitrary: b shown)
  case (Cons item items)
  show ?case
  proof (cases "int (length b) + int (length item) > budget")
    case False
    then show ?thesis using Cons by (simp add: Cons.IH)
  qed (use Cons in simp)
qed simp

lemma joinLoop_shown: "snd (joinLoop budget sep items b shown) \<le> shown + length items"
proof (induction items arbitrary: b shown)
  case (Cons item items)
  show ?case
    using Cons.IH [of "(if shown > 0 then b @ sep else b) @ item" "Suc shown"] by auto
qed simp

lemma JoinCapped_length:
  assumes "length items < 10 ^ k" "0 < k" "k + length sep \<le> 6"
  shows "int (length (JoinCapped items sep)) \<le> MaxMessageLength"
proof (cases "int (length (join items sep)) \<le> MaxMessageLength")
  case False
  define budget where
    "budget = MaxMessageLength - int (length sep) - int (length (ellipsis @ '' and 999999 more''))"
  obtain b shown where l: "joinLoop budget sep items [] 0 = (b, shown)" by fastforce
  have "0 \<le> budget" using assms(3) by (simp add: budget_def MaxMessageLength_def ellipsis_def)
  then have b: "int (length b) \<le> budget + int (length sep)"
    using joinLoop_bound [of budget "[]" sep items 0] l by simp
  have "length items - shown < 10 ^ k" using assms(1) by linarith
  then have "length (show_nat (length items - shown)) \<le> k" using assms(2) by (rule show_nat_length)
  moreover have "JoinCapped items sep = (if shown > 0 then b @ sep else b)
      @ ellipsis @ '' and '' @ show_nat (length items - shown) @ '' more''"
    using False l unfolding JoinCapped_def Let_def budget_def by simp
  ultimately show ?thesis
    using b assms(3) by (cases "shown = 0") (simp_all add: budget_def ellipsis_def)
qed (simp add: JoinCapped_def)

text \<open>The text of a request identifier does not show in the stripped message.\<close>

lemma matchRequestID_id:
  assumes "uid \<noteq> []" "\<forall>c\<in>set uid. isIDByte c" "rest = [] \<or> \<not> isIDByte (hd rest)"
  shows "matchRequestID ('', RequestID: '' @ uid @ rest) = Some rest"
proof -
  obtain c u where u: "uid = c # u" using assms(1) by (cases uid) auto
  have "dropWhile isIDByte (u @ rest) = rest"
    using assms(2,3) u by (cases rest) (auto simp: dropWhile_append3)
  then show ?thesis
    using assms(2) u
    by (simp add: matchRequestID_def trimPrefix_def hasPrefix_def isSpace_def)
qed

section \<open>Lemmas on the aggregate condition\<close>

lemma Find_SetStatusCondition:
  assumes "apimeta_laws m"
  shows "\<exists>tt. am_FindStatusCondition m (am_SetStatusCondition m cs c) t =
    (if t = co_Type c then Some (c\<lparr>co_LastTransitionTime := tt\<rparr>) else am_FindStatusCondition m cs t)"
  using assms by (auto simp: apimeta_laws_def)

lemma sectionVerdict_None:
  "sectionVerdict c t g = None \<longleftrightarrow>
     (\<exists>x. c = Some x \<and> co_Status x = ConditionTrue \<and> co_ObservedGeneration x = g)"
  by (auto simp: sectionVerdict_def split: option.splits)

lemma readyLoop_False: "fst (readyLoop m cs g ts (ConditionFalse, r, s, a)) = ConditionFalse"
  by (induction ts arbitrary: r s a) (auto split: option.split)

lemma readyLoop_status:
  "fst (readyLoop m cs g ts (ConditionTrue, r, s, a)) =
     (if \<forall>t\<in>set ts. sectionVerdict (am_FindStatusCondition m cs t) t g = None then ConditionTrue
      else ConditionFalse)"
  by (induction ts arbitrary: r s a) (auto split: option.split simp: readyLoop_False)

lemma recomputeReady_find:
  assumes "apimeta_laws m"
  shows "\<exists>tt r s. am_FindStatusCondition m (recomputeReady m cs ts g) ConditionTypeReady =
    Some ((mkCondition ConditionTypeReady
       (if \<forall>t\<in>set ts. sectionVerdict (am_FindStatusCondition m cs t) t g = None then ConditionTrue
        else ConditionFalse) r (CapMessage s) g)\<lparr>co_LastTransitionTime := tt\<rparr>)"
proof -
  obtain st r s a where l: "readyLoop m cs g ts (ConditionTrue, ''AllSectionsReady'',
      ''all declared sections are ready'', []) = (st, r, s, a)" by (metis prod_cases4)
  then have st: "st = (if \<forall>t\<in>set ts. sectionVerdict (am_FindStatusCondition m cs t) t g = None
      then ConditionTrue else ConditionFalse)"
    using readyLoop_status [of m cs g ts] by (metis fst_conv)
  define c where "c = mkCondition ConditionTypeReady st r
    (CapMessage (if a \<noteq> [] then s @ '' (also not ready: '' @ join a '', '' @ '')'' else s)) g"
  have "recomputeReady m cs ts g = am_SetStatusCondition m cs c"
    by (simp add: recomputeReady_def l c_def)
  moreover have "co_Type c = ConditionTypeReady" by (simp add: c_def mkCondition_def)
  ultimately show ?thesis
    using Find_SetStatusCondition [OF assms, of cs c ConditionTypeReady] unfolding c_def st by metis
qed

lemma recomputeReady_other:
  assumes "apimeta_laws m" "t \<noteq> ConditionTypeReady"
  shows "am_FindStatusCondition m (recomputeReady m cs ts g) t = am_FindStatusCondition m cs t"
proof -
  have "co_Type (mkCondition ConditionTypeReady s r msg g) \<noteq> t" for s r msg
    using assms(2) by (simp add: mkCondition_def)
  then have "am_FindStatusCondition m (am_SetStatusCondition m cs (mkCondition ConditionTypeReady s r msg g)) t
      = am_FindStatusCondition m cs t" for s r msg
    using assms(1) unfolding apimeta_laws_def by metis
  then show ?thesis by (simp add: recomputeReady_def split_beta Let_def)
qed

section \<open>Properties\<close>

text \<open>A list of conditions that follows the documented behaviour.\<close>

definition listMeta :: apimeta where
  "listMeta = \<lparr>am_SetStatusCondition = (\<lambda>cs c. c # filter (\<lambda>x. co_Type x \<noteq> co_Type c) cs),
               am_FindStatusCondition = (\<lambda>cs t. find (\<lambda>x. co_Type x = t) cs)\<rparr>"

lemma listMeta_laws: "apimeta_laws listMeta"
proof -
  have "find (\<lambda>x. co_Type x = t) (filter (\<lambda>x. co_Type x \<noteq> u) cs) = find (\<lambda>x. co_Type x = t) cs"
    if "t \<noteq> u" for t u and cs :: "Condition list"
    using that by (induction cs) auto
  moreover have "\<exists>tt. c = c\<lparr>co_LastTransitionTime := tt\<rparr>" for c :: Condition
    by (cases c) auto
  ultimately show ?thesis by (auto simp: apimeta_laws_def listMeta_def)
qed

text \<open>C15: After a section reports, the aggregate Ready condition is True exactly when every
  declared section has a condition that is True and was observed at this very generation; so a
  condition left over from an earlier generation never makes the custom resource ready. Only the
  section's own condition and Ready are written, and both messages stay within 4096 bytes.\<close>

theorem ready_iff_all_sections_ready:
  assumes "apimeta_laws m" and "ConditionTypeReady \<notin> set sectionTypes" "t \<noteq> ConditionTypeReady"
  shows "\<exists>ready own.
      am_FindStatusCondition m (SetSectionCondition m cs t s reason msg g sectionTypes) ConditionTypeReady = Some ready
    \<and> am_FindStatusCondition m (SetSectionCondition m cs t s reason msg g sectionTypes) t = Some own
    \<and> (co_Status ready = ConditionTrue \<longleftrightarrow>
         (\<forall>u\<in>set sectionTypes. \<exists>x.
            am_FindStatusCondition m (SetSectionCondition m cs t s reason msg g sectionTypes) u = Some x
            \<and> co_Status x = ConditionTrue \<and> co_ObservedGeneration x = g))
    \<and> co_ObservedGeneration ready = g \<and> co_Status own = s \<and> co_ObservedGeneration own = g
    \<and> int (length (co_Message ready)) \<le> MaxMessageLength
    \<and> int (length (co_Message own)) \<le> MaxMessageLength
    \<and> (\<forall>u. u \<noteq> t \<and> u \<noteq> ConditionTypeReady \<longrightarrow>
         am_FindStatusCondition m (SetSectionCondition m cs t s reason msg g sectionTypes) u
         = am_FindStatusCondition m cs u)"
proof -
  define own where "own = mkCondition t s reason (CapMessage msg) g"
  define cs1 where "cs1 = am_SetStatusCondition m cs own"
  have own_t: "co_Type own = t" by (simp add: own_def mkCondition_def)
  have S: "SetSectionCondition m cs t s reason msg g sectionTypes = recomputeReady m cs1 sectionTypes g"
    by (simp add: SetSectionCondition_def cs1_def own_def)
  have other: "am_FindStatusCondition m (recomputeReady m cs1 sectionTypes g) u = am_FindStatusCondition m cs1 u"
    if "u \<noteq> ConditionTypeReady" for u
    using recomputeReady_other [OF assms(1) that] .
  obtain tt where f1: "am_FindStatusCondition m cs1 t = Some (own\<lparr>co_LastTransitionTime := tt\<rparr>)"
    using Find_SetStatusCondition [OF assms(1), of cs own t] own_t by (auto simp: cs1_def)
  have rest: "am_FindStatusCondition m cs1 u = am_FindStatusCondition m cs u" if "u \<noteq> t" for u
    using Find_SetStatusCondition [OF assms(1), of cs own u] own_t that by (simp add: cs1_def)
  have sec: "(\<forall>u\<in>set sectionTypes. sectionVerdict (am_FindStatusCondition m cs1 u) u g = None) \<longleftrightarrow>
      (\<forall>u\<in>set sectionTypes. \<exists>x. am_FindStatusCondition m (recomputeReady m cs1 sectionTypes g) u = Some x
            \<and> co_Status x = ConditionTrue \<and> co_ObservedGeneration x = g)"
    using assms(2) other by (metis sectionVerdict_None)
  obtain tt' r mm where
    "am_FindStatusCondition m (recomputeReady m cs1 sectionTypes g) ConditionTypeReady =
      Some ((mkCondition ConditionTypeReady
       (if \<forall>u\<in>set sectionTypes. sectionVerdict (am_FindStatusCondition m cs1 u) u g = None then ConditionTrue
        else ConditionFalse) r (CapMessage mm) g)\<lparr>co_LastTransitionTime := tt'\<rparr>)"
    using recomputeReady_find [OF assms(1)] by blast
  then show ?thesis
    unfolding S using sec other [OF assms(3)] f1 rest other CapMessage_length
    by (auto simp: mkCondition_def own_def)
qed

theorem ready_iff_all_sections_ready_witness:
  "\<exists>ready. am_FindStatusCondition listMeta
      (SetSectionCondition listMeta [] ''SQSReady'' ConditionTrue ''Reconciled'' [] 3 [''SQSReady''])
      ConditionTypeReady = Some ready \<and> co_ObservedGeneration ready = 3"
  using ready_iff_all_sections_ready [OF listMeta_laws, of "[''SQSReady'']" "''SQSReady''" "[]" ConditionTrue "''Reconciled''" "[]" 3]
  by (auto simp: ConditionTypeReady_def)

text \<open>A message that is too long is cut where a character starts and ends in the marker, so it
  stays valid UTF-8 and within the limit; the list of what blocks a deletion stays within 4096
  bytes for up to 9999 entries and ends in the number it left out; and the deletion path pulls
  Ready down.\<close>

theorem messages_fit:
  assumes "length blocked < 10000" "apimeta_laws m"
  shows "int (length (CapMessage msg)) \<le> MaxMessageLength
       \<and> int (length (CapEventNote msg)) \<le> MaxEventNoteLength
       \<and> (MaxMessageLength < int (length msg) \<longrightarrow>
            (\<exists>n\<le>length msg. CapMessage msg = take n msg @ truncatedMarker \<and> (n = 0 \<or> RuneStart (msg ! n))))
       \<and> int (length (JoinCapped blocked ''; '')) \<le> MaxMessageLength
       \<and> (\<exists>c. am_FindStatusCondition m (SetDeletionBlocked m cs g blocked) ConditionTypeReady = Some c
            \<and> co_Status c = ConditionFalse \<and> co_Message c = JoinCapped blocked ''; '')"
proof -
  have "MaxMessageLength < int (length msg) \<longrightarrow>
      (\<exists>n\<le>length msg. CapMessage msg = take n msg @ truncatedMarker \<and> (n = 0 \<or> RuneStart (msg ! n)))"
    using capBytes_cut [of MaxMessageLength msg truncatedMarker]
    by (auto simp: CapMessage_def MaxMessageLength_def truncatedMarker_def ellipsis_def)
  moreover have "int (length (JoinCapped blocked ''; '')) \<le> MaxMessageLength"
    by (rule JoinCapped_length [of _ 4]) (use assms in simp_all)
  moreover have "\<exists>tt. am_FindStatusCondition m (am_SetStatusCondition m cs'
      (mkCondition ConditionTypeReady ConditionFalse r s g)) ConditionTypeReady
      = Some ((mkCondition ConditionTypeReady ConditionFalse r s g)\<lparr>co_LastTransitionTime := tt\<rparr>)" for cs' r s
    using Find_SetStatusCondition [OF assms(2), of cs' "mkCondition ConditionTypeReady ConditionFalse r s g" ConditionTypeReady]
    by (simp add: mkCondition_def)
  ultimately show ?thesis
    unfolding SetDeletionBlocked_def Let_def
    by (fastforce simp: mkCondition_def intro: CapMessage_length CapEventNote_length)
qed

theorem messages_fit_witness:
  "int (length (JoinCapped [''queue jobs'', ''topic t''] ''; '')) \<le> MaxMessageLength"
  using messages_fit [OF _ listMeta_laws, of "[''queue jobs'', ''topic t'']"] by simp

end
