(* ===== verification/Calls.thy ===== *)
theory Calls
  imports Complex_Main Ownership Ledger Policy "HOL-Library.Multiset"
begin

text \<open>
  The calls the operator makes and the answers it reads: one datatype of calls and one record of answers for each client
  interface (\<^verbatim>\<open>internal/aws/*_client.go\<close> and the private interfaces of the resource packages), and the environment that answers.
\<close>

section \<open>Calls and answers\<close>

type_synonym 'a reply = "ext_error + 'a"

text \<open>\<^verbatim>\<open>errors.As\<close> into one of the exception types of an SDK.\<close>

definition isException :: "string \<Rightarrow> ext_error \<Rightarrow> bool" where
  "isException ty e \<longleftrightarrow> ex_type e = ty"

datatype KeyState =
  KeyStateEnabled | KeyStateDisabled | KeyStatePendingDeletion | KeyStateCreating | KeyStateUpdating
| KeyStatePendingImport | KeyStatePendingReplicaDeletion | KeyStateUnavailable | KeyStateOther string

record KeyMetadata =
  km_Arn :: string
  km_KeyId :: string
  km_KeyState :: KeyState
  km_AwsManaged :: bool

type_synonym aws_tag = "string option \<times> string option"

record TagPage =
  tp_Tags :: "aws_tag list"
  tp_Truncated :: bool
  tp_NextMarker :: "string option"

datatype kms_call =
  DescribeKey string "KeyMetadata reply"
| CreateKey tags "KeyMetadata reply"
| CreateAlias string string "unit reply"
| EnableKey string "unit reply"
| EnableKeyRotation string "unit reply"
| GetKeyRotationStatus string "bool reply"
| GetKeyPolicy string "string option reply"
| PutKeyPolicy string string "unit reply"
| ListResourceTags string "string option" "TagPage reply"
| TagKey string tags "unit reply"
| UntagKey string "string list" "unit reply"
| ScheduleKeyDeletion string int "unit reply"
| CancelKeyDeletion string "unit reply"

type_synonym attributes = "string \<rightharpoonup> string"
type_synonym attr_list = "(string \<times> string) list"

datatype sqs_call =
  CreateQueue string attr_list tags "string reply"
| GetQueueUrl string "string reply"
| GetQueueAttributes string "string list" "attributes reply"
| SetQueueAttributes string attr_list "unit reply"
| ListQueueTags string "tags reply"
| TagQueue string tags "unit reply"
| UntagQueue string "string list" "unit reply"
| DeleteQueue string "unit reply"

text \<open>Of a page of subscriptions the sources only ask whether it is empty.\<close>

record SubscriptionPage =
  sb_Subscriptions :: nat
  sb_NextToken :: "string option"

datatype sns_call =
  CreateTopic string attributes tags "string reply"
| GetTopicAttributes string "attributes reply"
| SetTopicAttributes string string string "unit reply"
| ListTopicTags string "aws_tag list reply"
| TagTopic string tags "unit reply"
| UntagTopic string "string list" "unit reply"
| DeleteTopic string "unit reply"
| ListSubscriptionsByTopic string "string option" "SubscriptionPage reply"
| Subscribe string string string "string reply"
| Unsubscribe string "unit reply"

text \<open>
  The fields of \<^verbatim>\<open>types.MetricAlarm\<close> and \<^verbatim>\<open>PutMetricAlarmInput\<close> that the sources read or set. Of the metric
  math queries only their number is read. A threshold is a rational number: every float is one.
\<close>

record MetricAlarm =
  ma_AlarmName :: "string option"
  ma_AlarmDescription :: "string option"
  ma_Namespace :: "string option"
  ma_MetricName :: "string option"
  ma_Dimensions :: "(string option \<times> string option) list"
  ma_Statistic :: string
  ma_ComparisonOperator :: string
  ma_Threshold :: "rat option"
  ma_EvaluationPeriods :: "int option"
  ma_Period :: "int option"
  ma_TreatMissingData :: "string option"
  ma_AlarmActions :: "string list"
  ma_OKActions :: "string list"
  ma_InsufficientDataActions :: "string list"
  ma_Metrics :: nat
  ma_DatapointsToAlarm :: "int option"
  ma_ExtendedStatistic :: "string option"
  ma_Unit :: string
  ma_EvaluateLowSampleCountPercentile :: "string option"
  ma_ActionsEnabled :: "bool option"

record PutMetricAlarmInput =
  pm_AlarmName :: string
  pm_AlarmDescription :: string
  pm_Namespace :: string
  pm_MetricName :: string
  pm_Dimension :: "string \<times> string"
  pm_Statistic :: string
  pm_ComparisonOperator :: string
  pm_Threshold :: rat
  pm_EvaluationPeriods :: int
  pm_Period :: int
  pm_TreatMissingData :: "string option"
  pm_AlarmActions :: "string list"
  pm_OKActions :: "string list"
  pm_Tags :: "tags option"

record AlarmPage =
  alp_MetricAlarms :: "MetricAlarm list"
  alp_NextToken :: "string option"

datatype cw_call =
  DescribeAlarms string "string option" "AlarmPage reply"
| PutMetricAlarm PutMetricAlarmInput "unit reply"
| DeleteAlarms "string list" "unit reply"
| ListAlarmTags string "aws_tag list reply"

subsection \<open>Tables\<close>

text \<open>
  The fields of a table's description that the sources read. The SDK's pointers to a table, its ARN and a role are
  dereferenced unchecked in the code, so they are no options here.
\<close>

datatype TableStatus =
  TableStatusCreating | TableStatusUpdating | TableStatusDeleting | TableStatusActive
| TableStatusInaccessibleEncryptionCredentials | TableStatusArchiving | TableStatusArchived
| TableStatusReplicationNotAuthorized | TableStatusOther string

datatype BillingMode = BillingModeProvisioned | BillingModePayPerRequest | BillingModeOther string

datatype KeyType = KeyTypeHash | KeyTypeRange | KeyTypeOther string

record TableDescription =
  td_TableArn :: string
  td_TableStatus :: TableStatus
  td_KeySchema :: "(string option \<times> KeyType) list"
  td_BillingModeSummary :: "BillingMode option"
  td_DeletionProtectionEnabled :: "bool option"
  td_SSEDescription :: "string option option"

record CreateTableInput =
  ct_TableName :: string
  ct_AttributeDefinitions :: "string list"
  ct_KeySchema :: "(string \<times> KeyType) list"
  ct_BillingMode :: BillingMode
  ct_Tags :: tags
  ct_DeletionProtectionEnabled :: bool
  ct_ProvisionedThroughput :: "(int \<times> int) option"
  ct_SSESpecification :: "string option"

record UpdateTableInput =
  ut_TableName :: string
  ut_BillingMode :: "BillingMode option"
  ut_ProvisionedThroughput :: "(int \<times> int) option"
  ut_DeletionProtectionEnabled :: "bool option"
  ut_SSESpecification :: "string option"

record PointInTimeRecovery =
  pr_Enabled :: bool
  pr_RecoveryPeriodInDays :: "int option"

datatype dynamodb_call =
  DescribeTable string "TableDescription reply"
| CreateTable CreateTableInput "string reply"
| UpdateTable UpdateTableInput "unit reply"
| DeleteTable string "unit reply"
| GetResourcePolicy string "(string option \<times> string option) reply"
| PutResourcePolicy string string string "unit reply"
| DeleteResourcePolicy string string "unit reply"
| ListTableTags string "string option" "(aws_tag list \<times> string option) reply"
| TagTable string tags "unit reply"
| UntagTable string "string list" "unit reply"
| DescribeContinuousBackups string "PointInTimeRecovery option reply"
| UpdateContinuousBackups string int "unit reply"
| ScanCount string "nat reply"

subsection \<open>Buckets\<close>

text \<open>
  Of a lifecycle rule the code reads some members and asks of the others only whether they are there.
\<close>

record LifecycleFilter =
  lf_Prefix :: "string option"
  lf_And :: bool
  lf_Tag :: bool
  lf_ObjectSizeGreaterThan :: bool
  lf_ObjectSizeLessThan :: bool

record LifecycleTransition =
  lt_Days :: "int option"
  lt_StorageClass :: string
  lt_Date :: bool

record LifecycleExpiration =
  lx_Days :: "int option"
  lx_Date :: bool
  lx_ExpiredObjectDeleteMarker :: bool

record NoncurrentExpiration =
  nv_NoncurrentDays :: "int option"
  nv_NewerNoncurrentVersions :: bool

record LifecycleRule =
  lr_ID :: "string option"
  lr_Status :: string
  lr_Prefix :: "string option"
  lr_Filter :: "LifecycleFilter option"
  lr_Transitions :: "LifecycleTransition list"
  lr_Expiration :: "LifecycleExpiration option"
  lr_NoncurrentVersionExpiration :: "NoncurrentExpiration option"
  lr_NoncurrentVersionTransitions :: nat
  lr_AbortIncompleteMultipartUpload :: bool

type_synonym object_id = "string option \<times> string option"

record VersionPage =
  vp_Versions :: "object_id list"
  vp_DeleteMarkers :: "object_id list"
  vp_IsTruncated :: "bool option"
  vp_NextKeyMarker :: "string option"
  vp_NextVersionIdMarker :: "string option"

record UploadPage =
  up_Uploads :: "object_id list"
  up_IsTruncated :: "bool option"
  up_NextKeyMarker :: "string option"
  up_NextUploadIdMarker :: "string option"

record EncryptionRule =
  er_Default :: "string option option"
  er_BucketKeyEnabled :: "bool option"

record PublicAccessBlock =
  pb_RestrictPublicBuckets :: "bool option"
  pb_IgnorePublicAcls :: "bool option"

datatype s3_call =
  HeadBucket string "unit reply"
| CreateBucket string tags "string option" "unit reply"
| DeleteBucket string "unit reply"
| GetBucketTagging string "aws_tag list reply"
| PutBucketTagging string tags "unit reply"
| GetBucketVersioning string "string reply"
| PutBucketVersioning string string "unit reply"
| GetBucketLifecycleConfiguration string "LifecycleRule list reply"
| PutBucketLifecycleConfiguration string "LifecycleRule list" "unit reply"
| DeleteBucketLifecycle string "unit reply"
| ListObjectVersions string "string option" "string option" "int option" "VersionPage reply"
| DeleteObjects string "object_id list" "string option list reply"
| ListMultipartUploads string "string option" "string option" "UploadPage reply"
| AbortMultipartUpload string object_id "unit reply"
| GetBucketEncryption string "EncryptionRule list option reply"
| PutBucketEncryption string string "unit reply"
| GetBucketPolicy string "string option reply"
| PutBucketPolicy string string "unit reply"
| DeleteBucketPolicy string "unit reply"
| GetBucketWebsite string "unit reply"
| GetBucketPolicyStatus string "bool option option reply"
| GetPublicAccessBlock string "PublicAccessBlock option reply"
| GetBucketAcl string "string option option list reply"

subsection \<open>Roles\<close>

datatype iam_call =
  GetRole string "(string \<times> string option) reply"
| CreateRole string string tags "string reply"
| UpdateAssumeRolePolicy string string "unit reply"
| ListRoleTags string "string option" "TagPage reply"
| GetRolePolicy string string "string option reply"
| PutRolePolicy string string string "unit reply"
| DeleteRolePolicy string string "unit reply"
| DeleteRole string "unit reply"
| TagRole string tags "unit reply"
| ListAttachedRolePolicies string "string option list reply"
| ListInstanceProfilesForRole string "string option list reply"

subsection \<open>Instances, snapshots and security groups\<close>

text \<open>
  Of the types of the RDS and EC2 SDKs what the sources read or set. A pointer that is only ever read through
  \<^verbatim>\<open>aws.ToString\<close>, \<^verbatim>\<open>aws.ToBool\<close> or \<^verbatim>\<open>aws.ToInt32\<close> is the value they give for it. A member of
  \<^verbatim>\<open>ModifyDBInstanceInput\<close> that is not set is \<open>None\<close>, the empty list of groups included.
\<close>

record PendingModifiedValues =
  pv_DBInstanceClass :: "string option"
  pv_EngineVersion :: "string option"
  pv_MultiAZ :: "bool option"
  pv_BackupRetentionPeriod :: "int option"
  pv_AllocatedStorage :: "int option"

record DBInstance =
  di_DBInstanceArn :: string
  di_DBInstanceIdentifier :: string
  di_DBInstanceStatus :: string
  di_DBInstanceClass :: string
  di_Engine :: string
  di_EngineVersion :: string
  di_MultiAZ :: bool
  di_BackupRetentionPeriod :: int
  di_AllocatedStorage :: int
  di_MaxAllocatedStorage :: int
  di_PendingModifiedValues :: "PendingModifiedValues option"
  di_PubliclyAccessible :: bool
  di_StorageEncrypted :: bool
  di_KmsKeyId :: string
  di_DBSubnetGroupName :: string
  di_VpcSecurityGroups :: "(string \<times> string) list"
  di_DeletionProtection :: bool
  di_CopyTagsToSnapshot :: bool
  di_StorageType :: string
  di_Iops :: "int option"
  di_Endpoint :: "(string option \<times> int) option"
  di_MasterUserSecret :: "string option"

record CreateDBInstanceInput =
  ci_DBInstanceIdentifier :: string
  ci_Engine :: string
  ci_EngineVersion :: string
  ci_DBInstanceClass :: string
  ci_AllocatedStorage :: int
  ci_DBSubnetGroupName :: string
  ci_VpcSecurityGroupIds :: "string list"
  ci_MasterUsername :: string
  ci_ManageMasterUserPassword :: bool
  ci_PubliclyAccessible :: bool
  ci_MultiAZ :: bool
  ci_CopyTagsToSnapshot :: bool
  ci_MaxAllocatedStorage :: "int option"
  ci_StorageType :: string
  ci_Tags :: tags
  ci_BackupRetentionPeriod :: int
  ci_StorageEncrypted :: "bool option"
  ci_KmsKeyId :: "string option"
  ci_DeletionProtection :: bool

record ModifyDBInstanceInput =
  mi_DBInstanceIdentifier :: string
  mi_DBInstanceClass :: "string option"
  mi_MultiAZ :: "bool option"
  mi_BackupRetentionPeriod :: "int option"
  mi_AllocatedStorage :: "int option"
  mi_Iops :: "int option"
  mi_EngineVersion :: "string option"
  mi_AllowMajorVersionUpgrade :: "bool option"
  mi_VpcSecurityGroupIds :: "string list option"
  mi_DeletionProtection :: "bool option"
  mi_CopyTagsToSnapshot :: "bool option"
  mi_MaxAllocatedStorage :: "int option"
  mi_ApplyImmediately :: "bool option"

record DBSnapshot =
  ss_Status :: string
  ss_TagList :: "aws_tag list"

datatype rds_call =
  CreateDBInstance CreateDBInstanceInput "string reply"
| ModifyDBInstance ModifyDBInstanceInput "unit reply"
| DescribeDBInstances string "DBInstance list reply"
| ListInstanceTags string "aws_tag list reply"
| AddTagsToResource string tags "unit reply"
| RemoveTagsFromResource string "string list" "unit reply"
| DescribeDBSubnetGroups string "string option list reply"
| DescribeDBEngineVersions string string "(string \<times> bool) list list reply"
| CreateDBSnapshot string string tags "unit reply"
| DescribeDBSnapshots string "DBSnapshot list reply"
| DeleteDBSnapshot string "unit reply"

record IpPermission =
  ip_FromPort :: int
  ip_ToPort :: int
  ip_UserIdGroupPairs :: "string option list"

record SecurityGroup =
  sg_GroupId :: string
  sg_VpcId :: string
  sg_IpPermissions :: "IpPermission list"
  sg_Tags :: "aws_tag list"

text \<open>
  The two filters of \<^verbatim>\<open>DescribeSecurityGroups\<close> the sources use are two calls here: by group ID, and by name and VPC.
\<close>

datatype ec2_call =
  DescribeSecurityGroup string "SecurityGroup list reply"
| FindSecurityGroups string string "SecurityGroup list reply"
| CreateSecurityGroup string string tags "string reply"
| CreateTags string tags "unit reply"
| AuthorizeSecurityGroupIngress string int "string list" "unit reply"
| RevokeSecurityGroupIngress string int string "unit reply"
| DeleteSecurityGroup string "unit reply"

datatype secrets_call =
  GetSecretValue string "string option reply"

subsection \<open>Objects of the cluster\<close>

text \<open>
  An owner reference, and of a service account and a config map what the sources read: \<open>sa_AppliedBy\<close> are the field
  managers with an Apply operation. A cached reader sees labelled config maps only; the other asks the API server.
\<close>

record OwnerReference =
  or_APIVersion :: string
  or_Kind :: string
  or_Name :: string
  or_UID :: string

record ServiceAccount =
  sa_Name :: string
  sa_Annotations :: "string \<rightharpoonup> string"
  sa_Labels :: "string \<rightharpoonup> string"
  sa_Controller :: "OwnerReference option"
  sa_AppliedBy :: "string list"

record ServiceAccountApply =
  sy_Namespace :: string
  sy_Name :: string
  sy_Annotations :: "string \<rightharpoonup> string"
  sy_Labels :: "string \<rightharpoonup> string"
  sy_OwnerReference :: "OwnerReference option"
  sy_FieldOwner :: string

record ConfigMap =
  cm_Data :: "string \<rightharpoonup> string"
  cm_Labels :: "string \<rightharpoonup> string"
  cm_Controller :: "OwnerReference option"
  cm_AppliedBy :: "string list"

record ConfigMapApply =
  cy_Namespace :: string
  cy_Name :: string
  cy_Labels :: "string \<rightharpoonup> string"
  cy_Data :: "string \<rightharpoonup> string"
  cy_OwnerReference :: OwnerReference
  cy_FieldOwner :: string

record Secret =
  se_Data :: "string \<rightharpoonup> string"
  se_Labels :: "string \<rightharpoonup> string"
  se_Controller :: "OwnerReference option"
  se_AppliedBy :: "string list"

record SecretApply =
  sx_Namespace :: string
  sx_Name :: string
  sx_Labels :: "string \<rightharpoonup> string"
  sx_Type :: string
  sx_Data :: "string \<rightharpoonup> string"
  sx_OwnerReference :: OwnerReference
  sx_FieldOwner :: string

text \<open>
  The labels a \<^verbatim>\<open>SecurityGroupPolicy\<close> selects service accounts by and the groups it attaches; \<open>None\<close> is a
  \<^verbatim>\<open>spec\<close> of any other shape.
\<close>

type_synonym policy_spec = "(string \<rightharpoonup> string) \<times> string list"

record SecurityGroupPolicy =
  gp_Spec :: "policy_spec option"
  gp_AppliedBy :: "string list"

record SecurityGroupPolicyApply =
  gy_Namespace :: string
  gy_Name :: string
  gy_Spec :: policy_spec
  gy_FieldOwner :: string

record RDSSubnetGroupGrant =
  gr_DBSubnetGroupName :: string
  gr_AllowedNamespaces :: "string list"

datatype reader = CachedReader | APIReader

datatype k8s_call =
  GetCR string string "AppDependencies reply"
| PatchStatus string string "AppDependenciesStatus option" AppDependenciesStatus "AppDependencies reply"
| PatchFinalizers string string string "string list" "AppDependencies reply"
| GetServiceAccount string string "ServiceAccount reply"
| ApplyServiceAccount ServiceAccountApply "unit reply"
| GetConfigMap reader string string "ConfigMap reply"
| ApplyConfigMap ConfigMapApply "unit reply"
| GetSecret reader string string "Secret reply"
| ApplySecret SecretApply "unit reply"
| DeleteSecret string string "unit reply"
| GetSecurityGroupPolicy string string "SecurityGroupPolicy reply"
| ApplySecurityGroupPolicy SecurityGroupPolicyApply "unit reply"
| DeleteSecurityGroupPolicy string string "unit reply"
| ListSubnetGroupGrants "RDSSubnetGroupGrant list reply"

text \<open>
  Two things a pass asks of the process it runs in: the per-item failure limiter of \<^verbatim>\<open>client-go\<close>, which
  counts the failures of a custom resource and answers with a delay, and random numbers.
\<close>

datatype limiter_call =
  LimiterWhen "string \<times> string" duration
| LimiterForget "string \<times> string"

datatype call =
  KMSCall kms_call | SQSCall sqs_call | SNSCall sns_call | CWCall cw_call | K8sCall k8s_call
| LimiterCall limiter_call | RandCall rat | DynamoDBCall dynamodb_call | S3Call s3_call | IAMCall iam_call | ContextCall bool
| RDSCall rds_call | EC2Call ec2_call | SecretsCall secrets_call

type_synonym history = "call list"

record kms_api =
  ka_DescribeKey :: "history \<Rightarrow> string \<Rightarrow> KeyMetadata reply"
  ka_CreateKey :: "history \<Rightarrow> tags \<Rightarrow> KeyMetadata reply"
  ka_CreateAlias :: "history \<Rightarrow> string \<Rightarrow> string \<Rightarrow> unit reply"
  ka_EnableKey :: "history \<Rightarrow> string \<Rightarrow> unit reply"
  ka_EnableKeyRotation :: "history \<Rightarrow> string \<Rightarrow> unit reply"
  ka_GetKeyRotationStatus :: "history \<Rightarrow> string \<Rightarrow> bool reply"
  ka_GetKeyPolicy :: "history \<Rightarrow> string \<Rightarrow> string option reply"
  ka_PutKeyPolicy :: "history \<Rightarrow> string \<Rightarrow> string \<Rightarrow> unit reply"
  ka_ListResourceTags :: "history \<Rightarrow> string \<Rightarrow> string option \<Rightarrow> TagPage reply"
  ka_TagResource :: "history \<Rightarrow> string \<Rightarrow> tags \<Rightarrow> unit reply"
  ka_UntagResource :: "history \<Rightarrow> string \<Rightarrow> string list \<Rightarrow> unit reply"
  ka_ScheduleKeyDeletion :: "history \<Rightarrow> string \<Rightarrow> int \<Rightarrow> unit reply"
  ka_CancelKeyDeletion :: "history \<Rightarrow> string \<Rightarrow> unit reply"

record sqs_api =
  qa_CreateQueue :: "history \<Rightarrow> string \<Rightarrow> attr_list \<Rightarrow> tags \<Rightarrow> string reply"
  qa_GetQueueUrl :: "history \<Rightarrow> string \<Rightarrow> string reply"
  qa_GetQueueAttributes :: "history \<Rightarrow> string \<Rightarrow> string list \<Rightarrow> attributes reply"
  qa_SetQueueAttributes :: "history \<Rightarrow> string \<Rightarrow> attr_list \<Rightarrow> unit reply"
  qa_ListQueueTags :: "history \<Rightarrow> string \<Rightarrow> tags reply"
  qa_TagQueue :: "history \<Rightarrow> string \<Rightarrow> tags \<Rightarrow> unit reply"
  qa_UntagQueue :: "history \<Rightarrow> string \<Rightarrow> string list \<Rightarrow> unit reply"
  qa_DeleteQueue :: "history \<Rightarrow> string \<Rightarrow> unit reply"

record sns_api =
  na_CreateTopic :: "history \<Rightarrow> string \<Rightarrow> attributes \<Rightarrow> tags \<Rightarrow> string reply"
  na_GetTopicAttributes :: "history \<Rightarrow> string \<Rightarrow> attributes reply"
  na_SetTopicAttributes :: "history \<Rightarrow> string \<Rightarrow> string \<Rightarrow> string \<Rightarrow> unit reply"
  na_ListTagsForResource :: "history \<Rightarrow> string \<Rightarrow> aws_tag list reply"
  na_TagResource :: "history \<Rightarrow> string \<Rightarrow> tags \<Rightarrow> unit reply"
  na_UntagResource :: "history \<Rightarrow> string \<Rightarrow> string list \<Rightarrow> unit reply"
  na_DeleteTopic :: "history \<Rightarrow> string \<Rightarrow> unit reply"
  na_ListSubscriptionsByTopic :: "history \<Rightarrow> string \<Rightarrow> string option \<Rightarrow> SubscriptionPage reply"
  na_Subscribe :: "history \<Rightarrow> string \<Rightarrow> string \<Rightarrow> string \<Rightarrow> string reply"
  na_Unsubscribe :: "history \<Rightarrow> string \<Rightarrow> unit reply"

record cw_api =
  ca_DescribeAlarms :: "history \<Rightarrow> string \<Rightarrow> string option \<Rightarrow> AlarmPage reply"
  ca_PutMetricAlarm :: "history \<Rightarrow> PutMetricAlarmInput \<Rightarrow> unit reply"
  ca_DeleteAlarms :: "history \<Rightarrow> string list \<Rightarrow> unit reply"
  ca_ListTagsForResource :: "history \<Rightarrow> string \<Rightarrow> aws_tag list reply"

record k8s_api =
  ha_GetCR :: "history \<Rightarrow> string \<Rightarrow> string \<Rightarrow> AppDependencies reply"
  ha_PatchStatus :: "history \<Rightarrow> string \<Rightarrow> string \<Rightarrow> AppDependenciesStatus option \<Rightarrow> AppDependenciesStatus \<Rightarrow> AppDependencies reply"
  ha_PatchFinalizers :: "history \<Rightarrow> string \<Rightarrow> string \<Rightarrow> string \<Rightarrow> string list \<Rightarrow> AppDependencies reply"
  ha_GetServiceAccount :: "history \<Rightarrow> string \<Rightarrow> string \<Rightarrow> ServiceAccount reply"
  ha_ApplyServiceAccount :: "history \<Rightarrow> ServiceAccountApply \<Rightarrow> unit reply"
  ha_GetConfigMap :: "history \<Rightarrow> reader \<Rightarrow> string \<Rightarrow> string \<Rightarrow> ConfigMap reply"
  ha_ApplyConfigMap :: "history \<Rightarrow> ConfigMapApply \<Rightarrow> unit reply"
  ha_GetSecret :: "history \<Rightarrow> reader \<Rightarrow> string \<Rightarrow> string \<Rightarrow> Secret reply"
  ha_ApplySecret :: "history \<Rightarrow> SecretApply \<Rightarrow> unit reply"
  ha_DeleteSecret :: "history \<Rightarrow> string \<Rightarrow> string \<Rightarrow> unit reply"
  ha_GetSecurityGroupPolicy :: "history \<Rightarrow> string \<Rightarrow> string \<Rightarrow> SecurityGroupPolicy reply"
  ha_ApplySecurityGroupPolicy :: "history \<Rightarrow> SecurityGroupPolicyApply \<Rightarrow> unit reply"
  ha_DeleteSecurityGroupPolicy :: "history \<Rightarrow> string \<Rightarrow> string \<Rightarrow> unit reply"
  ha_ListSubnetGroupGrants :: "history \<Rightarrow> RDSSubnetGroupGrant list reply"

record dynamodb_api =
  da_DescribeTable :: "history \<Rightarrow> string \<Rightarrow> TableDescription reply"
  da_CreateTable :: "history \<Rightarrow> CreateTableInput \<Rightarrow> string reply"
  da_UpdateTable :: "history \<Rightarrow> UpdateTableInput \<Rightarrow> unit reply"
  da_DeleteTable :: "history \<Rightarrow> string \<Rightarrow> unit reply"
  da_GetResourcePolicy :: "history \<Rightarrow> string \<Rightarrow> (string option \<times> string option) reply"
  da_PutResourcePolicy :: "history \<Rightarrow> string \<Rightarrow> string \<Rightarrow> string \<Rightarrow> unit reply"
  da_DeleteResourcePolicy :: "history \<Rightarrow> string \<Rightarrow> string \<Rightarrow> unit reply"
  da_ListTagsOfResource :: "history \<Rightarrow> string \<Rightarrow> string option \<Rightarrow> (aws_tag list \<times> string option) reply"
  da_TagResource :: "history \<Rightarrow> string \<Rightarrow> tags \<Rightarrow> unit reply"
  da_UntagResource :: "history \<Rightarrow> string \<Rightarrow> string list \<Rightarrow> unit reply"
  da_DescribeContinuousBackups :: "history \<Rightarrow> string \<Rightarrow> PointInTimeRecovery option reply"
  da_UpdateContinuousBackups :: "history \<Rightarrow> string \<Rightarrow> int \<Rightarrow> unit reply"
  da_Scan :: "history \<Rightarrow> string \<Rightarrow> nat reply"

record s3_api =
  sa_HeadBucket :: "history \<Rightarrow> string \<Rightarrow> unit reply"
  sa_CreateBucket :: "history \<Rightarrow> string \<Rightarrow> tags \<Rightarrow> string option \<Rightarrow> unit reply"
  sa_DeleteBucket :: "history \<Rightarrow> string \<Rightarrow> unit reply"
  sa_GetBucketTagging :: "history \<Rightarrow> string \<Rightarrow> aws_tag list reply"
  sa_PutBucketTagging :: "history \<Rightarrow> string \<Rightarrow> tags \<Rightarrow> unit reply"
  sa_GetBucketVersioning :: "history \<Rightarrow> string \<Rightarrow> string reply"
  sa_PutBucketVersioning :: "history \<Rightarrow> string \<Rightarrow> string \<Rightarrow> unit reply"
  sa_GetBucketLifecycleConfiguration :: "history \<Rightarrow> string \<Rightarrow> LifecycleRule list reply"
  sa_PutBucketLifecycleConfiguration :: "history \<Rightarrow> string \<Rightarrow> LifecycleRule list \<Rightarrow> unit reply"
  sa_DeleteBucketLifecycle :: "history \<Rightarrow> string \<Rightarrow> unit reply"
  sa_ListObjectVersions :: "history \<Rightarrow> string \<Rightarrow> string option \<Rightarrow> string option \<Rightarrow> int option \<Rightarrow> VersionPage reply"
  sa_DeleteObjects :: "history \<Rightarrow> string \<Rightarrow> object_id list \<Rightarrow> string option list reply"
  sa_ListMultipartUploads :: "history \<Rightarrow> string \<Rightarrow> string option \<Rightarrow> string option \<Rightarrow> UploadPage reply"
  sa_AbortMultipartUpload :: "history \<Rightarrow> string \<Rightarrow> object_id \<Rightarrow> unit reply"
  sa_GetBucketEncryption :: "history \<Rightarrow> string \<Rightarrow> EncryptionRule list option reply"
  sa_PutBucketEncryption :: "history \<Rightarrow> string \<Rightarrow> string \<Rightarrow> unit reply"
  sa_GetBucketPolicy :: "history \<Rightarrow> string \<Rightarrow> string option reply"
  sa_PutBucketPolicy :: "history \<Rightarrow> string \<Rightarrow> string \<Rightarrow> unit reply"
  sa_DeleteBucketPolicy :: "history \<Rightarrow> string \<Rightarrow> unit reply"
  sa_GetBucketWebsite :: "history \<Rightarrow> string \<Rightarrow> unit reply"
  sa_GetBucketPolicyStatus :: "history \<Rightarrow> string \<Rightarrow> bool option option reply"
  sa_GetPublicAccessBlock :: "history \<Rightarrow> string \<Rightarrow> PublicAccessBlock option reply"
  sa_GetBucketAcl :: "history \<Rightarrow> string \<Rightarrow> string option option list reply"

record iam_api =
  ia_GetRole :: "history \<Rightarrow> string \<Rightarrow> (string \<times> string option) reply"
  ia_CreateRole :: "history \<Rightarrow> string \<Rightarrow> string \<Rightarrow> tags \<Rightarrow> string reply"
  ia_UpdateAssumeRolePolicy :: "history \<Rightarrow> string \<Rightarrow> string \<Rightarrow> unit reply"
  ia_ListRoleTags :: "history \<Rightarrow> string \<Rightarrow> string option \<Rightarrow> TagPage reply"
  ia_GetRolePolicy :: "history \<Rightarrow> string \<Rightarrow> string \<Rightarrow> string option reply"
  ia_PutRolePolicy :: "history \<Rightarrow> string \<Rightarrow> string \<Rightarrow> string \<Rightarrow> unit reply"
  ia_DeleteRolePolicy :: "history \<Rightarrow> string \<Rightarrow> string \<Rightarrow> unit reply"
  ia_DeleteRole :: "history \<Rightarrow> string \<Rightarrow> unit reply"
  ia_TagRole :: "history \<Rightarrow> string \<Rightarrow> tags \<Rightarrow> unit reply"
  ia_ListAttachedRolePolicies :: "history \<Rightarrow> string \<Rightarrow> string option list reply"
  ia_ListInstanceProfilesForRole :: "history \<Rightarrow> string \<Rightarrow> string option list reply"

record rds_api =
  ra_CreateDBInstance :: "history \<Rightarrow> CreateDBInstanceInput \<Rightarrow> string reply"
  ra_ModifyDBInstance :: "history \<Rightarrow> ModifyDBInstanceInput \<Rightarrow> unit reply"
  ra_DescribeDBInstances :: "history \<Rightarrow> string \<Rightarrow> DBInstance list reply"
  ra_ListTagsForResource :: "history \<Rightarrow> string \<Rightarrow> aws_tag list reply"
  ra_AddTagsToResource :: "history \<Rightarrow> string \<Rightarrow> tags \<Rightarrow> unit reply"
  ra_RemoveTagsFromResource :: "history \<Rightarrow> string \<Rightarrow> string list \<Rightarrow> unit reply"
  ra_DescribeDBSubnetGroups :: "history \<Rightarrow> string \<Rightarrow> string option list reply"
  ra_DescribeDBEngineVersions :: "history \<Rightarrow> string \<Rightarrow> string \<Rightarrow> (string \<times> bool) list list reply"
  ra_CreateDBSnapshot :: "history \<Rightarrow> string \<Rightarrow> string \<Rightarrow> tags \<Rightarrow> unit reply"
  ra_DescribeDBSnapshots :: "history \<Rightarrow> string \<Rightarrow> DBSnapshot list reply"
  ra_DeleteDBSnapshot :: "history \<Rightarrow> string \<Rightarrow> unit reply"

record ec2_api =
  ea_DescribeSecurityGroup :: "history \<Rightarrow> string \<Rightarrow> SecurityGroup list reply"
  ea_FindSecurityGroups :: "history \<Rightarrow> string \<Rightarrow> string \<Rightarrow> SecurityGroup list reply"
  ea_CreateSecurityGroup :: "history \<Rightarrow> string \<Rightarrow> string \<Rightarrow> tags \<Rightarrow> string reply"
  ea_CreateTags :: "history \<Rightarrow> string \<Rightarrow> tags \<Rightarrow> unit reply"
  ea_AuthorizeSecurityGroupIngress :: "history \<Rightarrow> string \<Rightarrow> int \<Rightarrow> string list \<Rightarrow> unit reply"
  ea_RevokeSecurityGroupIngress :: "history \<Rightarrow> string \<Rightarrow> int \<Rightarrow> string \<Rightarrow> unit reply"
  ea_DeleteSecurityGroup :: "history \<Rightarrow> string \<Rightarrow> unit reply"

record limiter_api =
  la_NumRequeues :: "history \<Rightarrow> string \<times> string \<Rightarrow> nat"
  la_When :: "history \<Rightarrow> string \<times> string \<Rightarrow> duration"

text \<open>
  \<open>env_ParseARN\<close> stands for \<^verbatim>\<open>awsarn.Parse\<close> of the AWS SDK, of which the sources read the account.
  \<open>env_mapOrder\<close> is the order in which a \<^verbatim>\<open>range\<close> over a map with the given keys visits them: any
  permutation of them (\<open>rangesOver\<close>). \<open>env_rand\<close> is \<^verbatim>\<open>rand.Float64\<close>. \<open>env_ctxErr\<close> tells whether the deadline of
  a context has passed, \<open>env_schedule\<close> the order in which goroutines started together make their calls, and
  \<open>env_GVK\<close> is \<^verbatim>\<open>apiutil.GVKForObject\<close> of the custom resource: group version and kind.
\<close>

record env =
  env_kms :: kms_api
  env_sqs :: sqs_api
  env_sns :: sns_api
  env_cw :: cw_api
  env_k8s :: k8s_api
  env_ParseARN :: "string \<Rightarrow> string reply"
  env_mapOrder :: "string list \<Rightarrow> string list"
  env_limiter :: limiter_api
  env_rand :: "history \<Rightarrow> rat"
  env_ddb :: dynamodb_api
  env_s3 :: s3_api
  env_iam :: iam_api
  env_rds :: rds_api
  env_ec2 :: ec2_api
  env_GetSecretValue :: "history \<Rightarrow> string \<Rightarrow> string option reply"
  env_ctxErr :: "history \<Rightarrow> bool"
  env_schedule :: "history \<Rightarrow> nat \<Rightarrow> nat list"
  env_GVK :: "ext_error + string \<times> string"

definition rangesOver :: "env \<Rightarrow> bool" where
  "rangesOver v \<longleftrightarrow> (\<forall>ks. mset (env_mapOrder v ks) = mset ks)"

definition schedulesAll :: "env \<Rightarrow> bool" where
  "schedulesAll v \<longleftrightarrow> (\<forall>h n. mset (env_schedule v h n) = mset [0..<n])"

end
