(* ===== verification/World.thy ===== *)
theory World
  imports Calls "HOL-Library.State_Monad"
begin

text \<open>
  The outside world as the operator sees it. Every AWS or Kubernetes call appends a record of its
  arguments and its answer to the trace; the answer comes from a function of the calls so far, a
  parameter of the model, so an arbitrary environment is covered: failures, eventual consistency,
  other actors between two calls. A Go function that talks to AWS is a state-monad computation
  over the trace and the emitted events. Client interfaces: \<^verbatim>\<open>internal/aws/*_client.go\<close>,
  callbacks: \<^verbatim>\<open>internal/status/checkpoint.go\<close> and \<^verbatim>\<open>internal/status/event.go\<close>.
\<close>

section \<open>The monad\<close>

datatype event = Event (ev_type: string) (ev_reason: string) (ev_args: "string list")

record world =
  trace :: history
  events :: "event list"
  memCR :: AppDependencies
  describeCache :: "string \<rightharpoonup> DBInstance list"

type_synonym 'a op = "(world, 'a) state"

abbreviation ret :: "'a \<Rightarrow> 'a op" where "ret \<equiv> State_Monad.return"

definition invoke :: "(history \<Rightarrow> 'r) \<Rightarrow> ('r \<Rightarrow> call) \<Rightarrow> 'r op" where
  "invoke f mk = State (\<lambda>w. (f (trace w), w\<lparr>trace := trace w @ [mk (f (trace w))]\<rparr>))"

text \<open>An event recorder that is nil records nothing.\<close>

definition recordEvent :: "pass \<Rightarrow> string \<Rightarrow> string \<Rightarrow> string list \<Rightarrow> unit op" where
  "recordEvent p eventType reason args =
     State (\<lambda>w. ((), if ps_recordEvent p then w\<lparr>events := events w @ [Event eventType reason args]\<rparr> else w))"

definition ReleaseTagFailed :: "pass \<Rightarrow> string \<Rightarrow> string \<Rightarrow> ext_error \<Rightarrow> unit op" where
  "ReleaseTagFailed p kind name err = recordEvent p ''Warning'' ''ReleaseTagFailed'' [kind, name]"

definition EventOwnershipTransferred :: string where
  "EventOwnershipTransferred = ''OwnershipTransferred''"

definition kms_DescribeKey :: "env \<Rightarrow> string \<Rightarrow> KeyMetadata reply op" where
  "kms_DescribeKey v k = invoke (\<lambda>h. ka_DescribeKey (env_kms v) h k) (\<lambda>r. KMSCall (DescribeKey k r))"
definition kms_CreateKey :: "env \<Rightarrow> tags \<Rightarrow> KeyMetadata reply op" where
  "kms_CreateKey v t = invoke (\<lambda>h. ka_CreateKey (env_kms v) h t) (\<lambda>r. KMSCall (CreateKey t r))"
definition kms_CreateAlias :: "env \<Rightarrow> string \<Rightarrow> string \<Rightarrow> unit reply op" where
  "kms_CreateAlias v a k = invoke (\<lambda>h. ka_CreateAlias (env_kms v) h a k) (\<lambda>r. KMSCall (CreateAlias a k r))"
definition kms_EnableKey :: "env \<Rightarrow> string \<Rightarrow> unit reply op" where
  "kms_EnableKey v k = invoke (\<lambda>h. ka_EnableKey (env_kms v) h k) (\<lambda>r. KMSCall (EnableKey k r))"
definition kms_EnableKeyRotation :: "env \<Rightarrow> string \<Rightarrow> unit reply op" where
  "kms_EnableKeyRotation v k = invoke (\<lambda>h. ka_EnableKeyRotation (env_kms v) h k) (\<lambda>r. KMSCall (EnableKeyRotation k r))"
definition kms_GetKeyRotationStatus :: "env \<Rightarrow> string \<Rightarrow> bool reply op" where
  "kms_GetKeyRotationStatus v k =
     invoke (\<lambda>h. ka_GetKeyRotationStatus (env_kms v) h k) (\<lambda>r. KMSCall (GetKeyRotationStatus k r))"
definition kms_GetKeyPolicy :: "env \<Rightarrow> string \<Rightarrow> string option reply op" where
  "kms_GetKeyPolicy v k = invoke (\<lambda>h. ka_GetKeyPolicy (env_kms v) h k) (\<lambda>r. KMSCall (GetKeyPolicy k r))"
definition kms_PutKeyPolicy :: "env \<Rightarrow> string \<Rightarrow> string \<Rightarrow> unit reply op" where
  "kms_PutKeyPolicy v k d = invoke (\<lambda>h. ka_PutKeyPolicy (env_kms v) h k d) (\<lambda>r. KMSCall (PutKeyPolicy k d r))"
definition kms_ListResourceTags :: "env \<Rightarrow> string \<Rightarrow> string option \<Rightarrow> TagPage reply op" where
  "kms_ListResourceTags v k m =
     invoke (\<lambda>h. ka_ListResourceTags (env_kms v) h k m) (\<lambda>r. KMSCall (ListResourceTags k m r))"
definition kms_TagResource :: "env \<Rightarrow> string \<Rightarrow> tags \<Rightarrow> unit reply op" where
  "kms_TagResource v k t = invoke (\<lambda>h. ka_TagResource (env_kms v) h k t) (\<lambda>r. KMSCall (TagKey k t r))"
definition kms_UntagResource :: "env \<Rightarrow> string \<Rightarrow> string list \<Rightarrow> unit reply op" where
  "kms_UntagResource v k ks = invoke (\<lambda>h. ka_UntagResource (env_kms v) h k ks) (\<lambda>r. KMSCall (UntagKey k ks r))"
definition kms_ScheduleKeyDeletion :: "env \<Rightarrow> string \<Rightarrow> int \<Rightarrow> unit reply op" where
  "kms_ScheduleKeyDeletion v k d =
     invoke (\<lambda>h. ka_ScheduleKeyDeletion (env_kms v) h k d) (\<lambda>r. KMSCall (ScheduleKeyDeletion k d r))"
definition kms_CancelKeyDeletion :: "env \<Rightarrow> string \<Rightarrow> unit reply op" where
  "kms_CancelKeyDeletion v k = invoke (\<lambda>h. ka_CancelKeyDeletion (env_kms v) h k) (\<lambda>r. KMSCall (CancelKeyDeletion k r))"

definition sqs_CreateQueue :: "env \<Rightarrow> string \<Rightarrow> attr_list \<Rightarrow> tags \<Rightarrow> string reply op" where
  "sqs_CreateQueue v n a t = invoke (\<lambda>h. qa_CreateQueue (env_sqs v) h n a t) (\<lambda>r. SQSCall (CreateQueue n a t r))"
definition sqs_GetQueueUrl :: "env \<Rightarrow> string \<Rightarrow> string reply op" where
  "sqs_GetQueueUrl v n = invoke (\<lambda>h. qa_GetQueueUrl (env_sqs v) h n) (\<lambda>r. SQSCall (GetQueueUrl n r))"
definition sqs_GetQueueAttributes :: "env \<Rightarrow> string \<Rightarrow> string list \<Rightarrow> attributes reply op" where
  "sqs_GetQueueAttributes v u ns =
     invoke (\<lambda>h. qa_GetQueueAttributes (env_sqs v) h u ns) (\<lambda>r. SQSCall (GetQueueAttributes u ns r))"
definition sqs_SetQueueAttributes :: "env \<Rightarrow> string \<Rightarrow> attr_list \<Rightarrow> unit reply op" where
  "sqs_SetQueueAttributes v u a =
     invoke (\<lambda>h. qa_SetQueueAttributes (env_sqs v) h u a) (\<lambda>r. SQSCall (SetQueueAttributes u a r))"
definition sqs_ListQueueTags :: "env \<Rightarrow> string \<Rightarrow> tags reply op" where
  "sqs_ListQueueTags v u = invoke (\<lambda>h. qa_ListQueueTags (env_sqs v) h u) (\<lambda>r. SQSCall (ListQueueTags u r))"
definition sqs_TagQueue :: "env \<Rightarrow> string \<Rightarrow> tags \<Rightarrow> unit reply op" where
  "sqs_TagQueue v u t = invoke (\<lambda>h. qa_TagQueue (env_sqs v) h u t) (\<lambda>r. SQSCall (TagQueue u t r))"
definition sqs_UntagQueue :: "env \<Rightarrow> string \<Rightarrow> string list \<Rightarrow> unit reply op" where
  "sqs_UntagQueue v u ks = invoke (\<lambda>h. qa_UntagQueue (env_sqs v) h u ks) (\<lambda>r. SQSCall (UntagQueue u ks r))"
definition sqs_DeleteQueue :: "env \<Rightarrow> string \<Rightarrow> unit reply op" where
  "sqs_DeleteQueue v u = invoke (\<lambda>h. qa_DeleteQueue (env_sqs v) h u) (\<lambda>r. SQSCall (DeleteQueue u r))"

definition sns_CreateTopic :: "env \<Rightarrow> string \<Rightarrow> attributes \<Rightarrow> tags \<Rightarrow> string reply op" where
  "sns_CreateTopic v n a t = invoke (\<lambda>h. na_CreateTopic (env_sns v) h n a t) (\<lambda>r. SNSCall (CreateTopic n a t r))"
definition sns_GetTopicAttributes :: "env \<Rightarrow> string \<Rightarrow> attributes reply op" where
  "sns_GetTopicAttributes v a = invoke (\<lambda>h. na_GetTopicAttributes (env_sns v) h a) (\<lambda>r. SNSCall (GetTopicAttributes a r))"
definition sns_SetTopicAttributes :: "env \<Rightarrow> string \<Rightarrow> string \<Rightarrow> string \<Rightarrow> unit reply op" where
  "sns_SetTopicAttributes v a n x =
     invoke (\<lambda>h. na_SetTopicAttributes (env_sns v) h a n x) (\<lambda>r. SNSCall (SetTopicAttributes a n x r))"
definition sns_ListTagsForResource :: "env \<Rightarrow> string \<Rightarrow> aws_tag list reply op" where
  "sns_ListTagsForResource v a = invoke (\<lambda>h. na_ListTagsForResource (env_sns v) h a) (\<lambda>r. SNSCall (ListTopicTags a r))"
definition sns_TagResource :: "env \<Rightarrow> string \<Rightarrow> tags \<Rightarrow> unit reply op" where
  "sns_TagResource v a t = invoke (\<lambda>h. na_TagResource (env_sns v) h a t) (\<lambda>r. SNSCall (TagTopic a t r))"
definition sns_UntagResource :: "env \<Rightarrow> string \<Rightarrow> string list \<Rightarrow> unit reply op" where
  "sns_UntagResource v a ks = invoke (\<lambda>h. na_UntagResource (env_sns v) h a ks) (\<lambda>r. SNSCall (UntagTopic a ks r))"
definition sns_DeleteTopic :: "env \<Rightarrow> string \<Rightarrow> unit reply op" where
  "sns_DeleteTopic v a = invoke (\<lambda>h. na_DeleteTopic (env_sns v) h a) (\<lambda>r. SNSCall (DeleteTopic a r))"
definition sns_ListSubscriptionsByTopic :: "env \<Rightarrow> string \<Rightarrow> string option \<Rightarrow> SubscriptionPage reply op" where
  "sns_ListSubscriptionsByTopic v a t =
     invoke (\<lambda>h. na_ListSubscriptionsByTopic (env_sns v) h a t) (\<lambda>r. SNSCall (ListSubscriptionsByTopic a t r))"
definition sns_Subscribe :: "env \<Rightarrow> string \<Rightarrow> string \<Rightarrow> string \<Rightarrow> string reply op" where
  "sns_Subscribe v t proto e = invoke (\<lambda>h. na_Subscribe (env_sns v) h t proto e) (\<lambda>r. SNSCall (Subscribe t proto e r))"
definition sns_Unsubscribe :: "env \<Rightarrow> string \<Rightarrow> unit reply op" where
  "sns_Unsubscribe v a = invoke (\<lambda>h. na_Unsubscribe (env_sns v) h a) (\<lambda>r. SNSCall (Unsubscribe a r))"

definition cw_DescribeAlarms :: "env \<Rightarrow> string \<Rightarrow> string option \<Rightarrow> AlarmPage reply op" where
  "cw_DescribeAlarms v n t = invoke (\<lambda>h. ca_DescribeAlarms (env_cw v) h n t) (\<lambda>r. CWCall (DescribeAlarms n t r))"
definition cw_PutMetricAlarm :: "env \<Rightarrow> PutMetricAlarmInput \<Rightarrow> unit reply op" where
  "cw_PutMetricAlarm v i = invoke (\<lambda>h. ca_PutMetricAlarm (env_cw v) h i) (\<lambda>r. CWCall (PutMetricAlarm i r))"
definition cw_DeleteAlarms :: "env \<Rightarrow> string list \<Rightarrow> unit reply op" where
  "cw_DeleteAlarms v ns = invoke (\<lambda>h. ca_DeleteAlarms (env_cw v) h ns) (\<lambda>r. CWCall (DeleteAlarms ns r))"
definition cw_ListTagsForResource :: "env \<Rightarrow> string \<Rightarrow> aws_tag list reply op" where
  "cw_ListTagsForResource v a = invoke (\<lambda>h. ca_ListTagsForResource (env_cw v) h a) (\<lambda>r. CWCall (ListAlarmTags a r))"

definition k8s_GetCR :: "env \<Rightarrow> string \<Rightarrow> string \<Rightarrow> AppDependencies reply op" where
  "k8s_GetCR v ns n = invoke (\<lambda>h. ha_GetCR (env_k8s v) h ns n) (\<lambda>r. K8sCall (GetCR ns n r))"

definition limiter_NumRequeues :: "env \<Rightarrow> string \<times> string \<Rightarrow> nat op" where
  "limiter_NumRequeues v k = State (\<lambda>w. (la_NumRequeues (env_limiter v) (trace w) k, w))"
definition limiter_When :: "env \<Rightarrow> string \<times> string \<Rightarrow> duration op" where
  "limiter_When v k = invoke (\<lambda>h. la_When (env_limiter v) h k) (\<lambda>d. LimiterCall (LimiterWhen k d))"
definition limiter_Forget :: "env \<Rightarrow> string \<times> string \<Rightarrow> unit op" where
  "limiter_Forget v k = invoke (\<lambda>h. ()) (\<lambda>_. LimiterCall (LimiterForget k))"
definition rand_Float64 :: "env \<Rightarrow> rat op" where
  "rand_Float64 v = invoke (env_rand v) RandCall"

definition ddb_DescribeTable :: "env \<Rightarrow> string \<Rightarrow> TableDescription reply op" where
  "ddb_DescribeTable v n =
     invoke (\<lambda>h. da_DescribeTable (env_ddb v) h n) (\<lambda>r. DynamoDBCall (DescribeTable n r))"
definition ddb_CreateTable :: "env \<Rightarrow> CreateTableInput \<Rightarrow> string reply op" where
  "ddb_CreateTable v i =
     invoke (\<lambda>h. da_CreateTable (env_ddb v) h i) (\<lambda>r. DynamoDBCall (CreateTable i r))"
definition ddb_UpdateTable :: "env \<Rightarrow> UpdateTableInput \<Rightarrow> unit reply op" where
  "ddb_UpdateTable v i =
     invoke (\<lambda>h. da_UpdateTable (env_ddb v) h i) (\<lambda>r. DynamoDBCall (UpdateTable i r))"
definition ddb_DeleteTable :: "env \<Rightarrow> string \<Rightarrow> unit reply op" where
  "ddb_DeleteTable v n =
     invoke (\<lambda>h. da_DeleteTable (env_ddb v) h n) (\<lambda>r. DynamoDBCall (DeleteTable n r))"
definition ddb_GetResourcePolicy :: "env \<Rightarrow> string \<Rightarrow> (string option \<times> string option) reply op" where
  "ddb_GetResourcePolicy v a =
     invoke (\<lambda>h. da_GetResourcePolicy (env_ddb v) h a) (\<lambda>r. DynamoDBCall (GetResourcePolicy a r))"
definition ddb_PutResourcePolicy :: "env \<Rightarrow> string \<Rightarrow> string \<Rightarrow> string \<Rightarrow> unit reply op" where
  "ddb_PutResourcePolicy v a d x =
     invoke (\<lambda>h. da_PutResourcePolicy (env_ddb v) h a d x) (\<lambda>r. DynamoDBCall (PutResourcePolicy a d x r))"
definition ddb_DeleteResourcePolicy :: "env \<Rightarrow> string \<Rightarrow> string \<Rightarrow> unit reply op" where
  "ddb_DeleteResourcePolicy v a x =
     invoke (\<lambda>h. da_DeleteResourcePolicy (env_ddb v) h a x) (\<lambda>r. DynamoDBCall (DeleteResourcePolicy a x r))"
definition ddb_ListTagsOfResource :: "env \<Rightarrow> string \<Rightarrow> string option \<Rightarrow> (aws_tag list \<times> string option) reply op" where
  "ddb_ListTagsOfResource v a k =
     invoke (\<lambda>h. da_ListTagsOfResource (env_ddb v) h a k) (\<lambda>r. DynamoDBCall (ListTableTags a k r))"
definition ddb_TagResource :: "env \<Rightarrow> string \<Rightarrow> tags \<Rightarrow> unit reply op" where
  "ddb_TagResource v a t =
     invoke (\<lambda>h. da_TagResource (env_ddb v) h a t) (\<lambda>r. DynamoDBCall (TagTable a t r))"
definition ddb_UntagResource :: "env \<Rightarrow> string \<Rightarrow> string list \<Rightarrow> unit reply op" where
  "ddb_UntagResource v a ks =
     invoke (\<lambda>h. da_UntagResource (env_ddb v) h a ks) (\<lambda>r. DynamoDBCall (UntagTable a ks r))"
definition ddb_DescribeContinuousBackups :: "env \<Rightarrow> string \<Rightarrow> PointInTimeRecovery option reply op" where
  "ddb_DescribeContinuousBackups v n =
     invoke (\<lambda>h. da_DescribeContinuousBackups (env_ddb v) h n) (\<lambda>r. DynamoDBCall (DescribeContinuousBackups n r))"
definition ddb_UpdateContinuousBackups :: "env \<Rightarrow> string \<Rightarrow> int \<Rightarrow> unit reply op" where
  "ddb_UpdateContinuousBackups v n d =
     invoke (\<lambda>h. da_UpdateContinuousBackups (env_ddb v) h n d) (\<lambda>r. DynamoDBCall (UpdateContinuousBackups n d r))"
definition ddb_Scan :: "env \<Rightarrow> string \<Rightarrow> nat reply op" where
  "ddb_Scan v n =
     invoke (\<lambda>h. da_Scan (env_ddb v) h n) (\<lambda>r. DynamoDBCall (ScanCount n r))"
definition s3_HeadBucket :: "env \<Rightarrow> string \<Rightarrow> unit reply op" where
  "s3_HeadBucket v b =
     invoke (\<lambda>h. sa_HeadBucket (env_s3 v) h b) (\<lambda>r. S3Call (HeadBucket b r))"
definition s3_CreateBucket :: "env \<Rightarrow> string \<Rightarrow> tags \<Rightarrow> string option \<Rightarrow> unit reply op" where
  "s3_CreateBucket v b t lc =
     invoke (\<lambda>h. sa_CreateBucket (env_s3 v) h b t lc) (\<lambda>r. S3Call (CreateBucket b t lc r))"
definition s3_DeleteBucket :: "env \<Rightarrow> string \<Rightarrow> unit reply op" where
  "s3_DeleteBucket v b =
     invoke (\<lambda>h. sa_DeleteBucket (env_s3 v) h b) (\<lambda>r. S3Call (DeleteBucket b r))"
definition s3_GetBucketTagging :: "env \<Rightarrow> string \<Rightarrow> aws_tag list reply op" where
  "s3_GetBucketTagging v b =
     invoke (\<lambda>h. sa_GetBucketTagging (env_s3 v) h b) (\<lambda>r. S3Call (GetBucketTagging b r))"
definition s3_PutBucketTagging :: "env \<Rightarrow> string \<Rightarrow> tags \<Rightarrow> unit reply op" where
  "s3_PutBucketTagging v b t =
     invoke (\<lambda>h. sa_PutBucketTagging (env_s3 v) h b t) (\<lambda>r. S3Call (PutBucketTagging b t r))"
definition s3_GetBucketVersioning :: "env \<Rightarrow> string \<Rightarrow> string reply op" where
  "s3_GetBucketVersioning v b =
     invoke (\<lambda>h. sa_GetBucketVersioning (env_s3 v) h b) (\<lambda>r. S3Call (GetBucketVersioning b r))"
definition s3_PutBucketVersioning :: "env \<Rightarrow> string \<Rightarrow> string \<Rightarrow> unit reply op" where
  "s3_PutBucketVersioning v b x =
     invoke (\<lambda>h. sa_PutBucketVersioning (env_s3 v) h b x) (\<lambda>r. S3Call (PutBucketVersioning b x r))"
definition s3_GetBucketLifecycleConfiguration :: "env \<Rightarrow> string \<Rightarrow> LifecycleRule list reply op" where
  "s3_GetBucketLifecycleConfiguration v b =
     invoke (\<lambda>h. sa_GetBucketLifecycleConfiguration (env_s3 v) h b) (\<lambda>r. S3Call (GetBucketLifecycleConfiguration b r))"
definition s3_PutBucketLifecycleConfiguration :: "env \<Rightarrow> string \<Rightarrow> LifecycleRule list \<Rightarrow> unit reply op" where
  "s3_PutBucketLifecycleConfiguration v b rs =
     invoke (\<lambda>h. sa_PutBucketLifecycleConfiguration (env_s3 v) h b rs) (\<lambda>r. S3Call (PutBucketLifecycleConfiguration b rs r))"
definition s3_DeleteBucketLifecycle :: "env \<Rightarrow> string \<Rightarrow> unit reply op" where
  "s3_DeleteBucketLifecycle v b =
     invoke (\<lambda>h. sa_DeleteBucketLifecycle (env_s3 v) h b) (\<lambda>r. S3Call (DeleteBucketLifecycle b r))"
definition s3_ListObjectVersions :: "env \<Rightarrow> string \<Rightarrow> string option \<Rightarrow> string option \<Rightarrow> int option \<Rightarrow> VersionPage reply op" where
  "s3_ListObjectVersions v b km vm mx =
     invoke (\<lambda>h. sa_ListObjectVersions (env_s3 v) h b km vm mx) (\<lambda>r. S3Call (ListObjectVersions b km vm mx r))"
definition s3_DeleteObjects :: "env \<Rightarrow> string \<Rightarrow> object_id list \<Rightarrow> string option list reply op" where
  "s3_DeleteObjects v b os =
     invoke (\<lambda>h. sa_DeleteObjects (env_s3 v) h b os) (\<lambda>r. S3Call (DeleteObjects b os r))"
definition s3_ListMultipartUploads :: "env \<Rightarrow> string \<Rightarrow> string option \<Rightarrow> string option \<Rightarrow> UploadPage reply op" where
  "s3_ListMultipartUploads v b km um =
     invoke (\<lambda>h. sa_ListMultipartUploads (env_s3 v) h b km um) (\<lambda>r. S3Call (ListMultipartUploads b km um r))"
definition s3_AbortMultipartUpload :: "env \<Rightarrow> string \<Rightarrow> object_id \<Rightarrow> unit reply op" where
  "s3_AbortMultipartUpload v b u =
     invoke (\<lambda>h. sa_AbortMultipartUpload (env_s3 v) h b u) (\<lambda>r. S3Call (AbortMultipartUpload b u r))"
definition s3_GetBucketEncryption :: "env \<Rightarrow> string \<Rightarrow> EncryptionRule list option reply op" where
  "s3_GetBucketEncryption v b =
     invoke (\<lambda>h. sa_GetBucketEncryption (env_s3 v) h b) (\<lambda>r. S3Call (GetBucketEncryption b r))"
definition s3_PutBucketEncryption :: "env \<Rightarrow> string \<Rightarrow> string \<Rightarrow> unit reply op" where
  "s3_PutBucketEncryption v b k =
     invoke (\<lambda>h. sa_PutBucketEncryption (env_s3 v) h b k) (\<lambda>r. S3Call (PutBucketEncryption b k r))"
definition s3_GetBucketPolicy :: "env \<Rightarrow> string \<Rightarrow> string option reply op" where
  "s3_GetBucketPolicy v b =
     invoke (\<lambda>h. sa_GetBucketPolicy (env_s3 v) h b) (\<lambda>r. S3Call (GetBucketPolicy b r))"
definition s3_PutBucketPolicy :: "env \<Rightarrow> string \<Rightarrow> string \<Rightarrow> unit reply op" where
  "s3_PutBucketPolicy v b d =
     invoke (\<lambda>h. sa_PutBucketPolicy (env_s3 v) h b d) (\<lambda>r. S3Call (PutBucketPolicy b d r))"
definition s3_DeleteBucketPolicy :: "env \<Rightarrow> string \<Rightarrow> unit reply op" where
  "s3_DeleteBucketPolicy v b =
     invoke (\<lambda>h. sa_DeleteBucketPolicy (env_s3 v) h b) (\<lambda>r. S3Call (DeleteBucketPolicy b r))"
definition s3_GetBucketWebsite :: "env \<Rightarrow> string \<Rightarrow> unit reply op" where
  "s3_GetBucketWebsite v b =
     invoke (\<lambda>h. sa_GetBucketWebsite (env_s3 v) h b) (\<lambda>r. S3Call (GetBucketWebsite b r))"
definition s3_GetBucketPolicyStatus :: "env \<Rightarrow> string \<Rightarrow> bool option option reply op" where
  "s3_GetBucketPolicyStatus v b =
     invoke (\<lambda>h. sa_GetBucketPolicyStatus (env_s3 v) h b) (\<lambda>r. S3Call (GetBucketPolicyStatus b r))"
definition s3_GetPublicAccessBlock :: "env \<Rightarrow> string \<Rightarrow> PublicAccessBlock option reply op" where
  "s3_GetPublicAccessBlock v b =
     invoke (\<lambda>h. sa_GetPublicAccessBlock (env_s3 v) h b) (\<lambda>r. S3Call (GetPublicAccessBlock b r))"
definition s3_GetBucketAcl :: "env \<Rightarrow> string \<Rightarrow> string option option list reply op" where
  "s3_GetBucketAcl v b =
     invoke (\<lambda>h. sa_GetBucketAcl (env_s3 v) h b) (\<lambda>r. S3Call (GetBucketAcl b r))"
definition iam_GetRole :: "env \<Rightarrow> string \<Rightarrow> (string \<times> string option) reply op" where
  "iam_GetRole v n =
     invoke (\<lambda>h. ia_GetRole (env_iam v) h n) (\<lambda>r. IAMCall (GetRole n r))"
definition iam_CreateRole :: "env \<Rightarrow> string \<Rightarrow> string \<Rightarrow> tags \<Rightarrow> string reply op" where
  "iam_CreateRole v n d t =
     invoke (\<lambda>h. ia_CreateRole (env_iam v) h n d t) (\<lambda>r. IAMCall (CreateRole n d t r))"
definition iam_UpdateAssumeRolePolicy :: "env \<Rightarrow> string \<Rightarrow> string \<Rightarrow> unit reply op" where
  "iam_UpdateAssumeRolePolicy v n d =
     invoke (\<lambda>h. ia_UpdateAssumeRolePolicy (env_iam v) h n d) (\<lambda>r. IAMCall (UpdateAssumeRolePolicy n d r))"
definition iam_ListRoleTags :: "env \<Rightarrow> string \<Rightarrow> string option \<Rightarrow> TagPage reply op" where
  "iam_ListRoleTags v n m =
     invoke (\<lambda>h. ia_ListRoleTags (env_iam v) h n m) (\<lambda>r. IAMCall (ListRoleTags n m r))"
definition iam_GetRolePolicy :: "env \<Rightarrow> string \<Rightarrow> string \<Rightarrow> string option reply op" where
  "iam_GetRolePolicy v n q =
     invoke (\<lambda>h. ia_GetRolePolicy (env_iam v) h n q) (\<lambda>r. IAMCall (GetRolePolicy n q r))"
definition iam_PutRolePolicy :: "env \<Rightarrow> string \<Rightarrow> string \<Rightarrow> string \<Rightarrow> unit reply op" where
  "iam_PutRolePolicy v n q d =
     invoke (\<lambda>h. ia_PutRolePolicy (env_iam v) h n q d) (\<lambda>r. IAMCall (PutRolePolicy n q d r))"
definition iam_DeleteRolePolicy :: "env \<Rightarrow> string \<Rightarrow> string \<Rightarrow> unit reply op" where
  "iam_DeleteRolePolicy v n q =
     invoke (\<lambda>h. ia_DeleteRolePolicy (env_iam v) h n q) (\<lambda>r. IAMCall (DeleteRolePolicy n q r))"
definition iam_DeleteRole :: "env \<Rightarrow> string \<Rightarrow> unit reply op" where
  "iam_DeleteRole v n =
     invoke (\<lambda>h. ia_DeleteRole (env_iam v) h n) (\<lambda>r. IAMCall (DeleteRole n r))"
definition iam_TagRole :: "env \<Rightarrow> string \<Rightarrow> tags \<Rightarrow> unit reply op" where
  "iam_TagRole v n t =
     invoke (\<lambda>h. ia_TagRole (env_iam v) h n t) (\<lambda>r. IAMCall (TagRole n t r))"
definition iam_ListAttachedRolePolicies :: "env \<Rightarrow> string \<Rightarrow> string option list reply op" where
  "iam_ListAttachedRolePolicies v n =
     invoke (\<lambda>h. ia_ListAttachedRolePolicies (env_iam v) h n) (\<lambda>r. IAMCall (ListAttachedRolePolicies n r))"
definition iam_ListInstanceProfilesForRole :: "env \<Rightarrow> string \<Rightarrow> string option list reply op" where
  "iam_ListInstanceProfilesForRole v n =
     invoke (\<lambda>h. ia_ListInstanceProfilesForRole (env_iam v) h n) (\<lambda>r. IAMCall (ListInstanceProfilesForRole n r))"
definition k8s_GetServiceAccount :: "env \<Rightarrow> string \<Rightarrow> string \<Rightarrow> ServiceAccount reply op" where
  "k8s_GetServiceAccount v ns n =
     invoke (\<lambda>h. ha_GetServiceAccount (env_k8s v) h ns n) (\<lambda>r. K8sCall (GetServiceAccount ns n r))"
definition k8s_ApplyServiceAccount :: "env \<Rightarrow> ServiceAccountApply \<Rightarrow> unit reply op" where
  "k8s_ApplyServiceAccount v i =
     invoke (\<lambda>h. ha_ApplyServiceAccount (env_k8s v) h i) (\<lambda>r. K8sCall (ApplyServiceAccount i r))"
definition k8s_GetConfigMap :: "env \<Rightarrow> reader \<Rightarrow> string \<Rightarrow> string \<Rightarrow> ConfigMap reply op" where
  "k8s_GetConfigMap v rd ns n =
     invoke (\<lambda>h. ha_GetConfigMap (env_k8s v) h rd ns n) (\<lambda>r. K8sCall (GetConfigMap rd ns n r))"
definition k8s_ApplyConfigMap :: "env \<Rightarrow> ConfigMapApply \<Rightarrow> unit reply op" where
  "k8s_ApplyConfigMap v i =
     invoke (\<lambda>h. ha_ApplyConfigMap (env_k8s v) h i) (\<lambda>r. K8sCall (ApplyConfigMap i r))"
definition rds_CreateDBInstance :: "env \<Rightarrow> CreateDBInstanceInput \<Rightarrow> string reply op" where
  "rds_CreateDBInstance v i =
     invoke (\<lambda>h. ra_CreateDBInstance (env_rds v) h i) (\<lambda>r. RDSCall (CreateDBInstance i r))"
definition rds_ModifyDBInstance :: "env \<Rightarrow> ModifyDBInstanceInput \<Rightarrow> unit reply op" where
  "rds_ModifyDBInstance v i =
     invoke (\<lambda>h. ra_ModifyDBInstance (env_rds v) h i) (\<lambda>r. RDSCall (ModifyDBInstance i r))"
definition rds_DescribeDBInstances :: "env \<Rightarrow> string \<Rightarrow> DBInstance list reply op" where
  "rds_DescribeDBInstances v n =
     invoke (\<lambda>h. ra_DescribeDBInstances (env_rds v) h n) (\<lambda>r. RDSCall (DescribeDBInstances n r))"
definition rds_ListTagsForResource :: "env \<Rightarrow> string \<Rightarrow> aws_tag list reply op" where
  "rds_ListTagsForResource v a =
     invoke (\<lambda>h. ra_ListTagsForResource (env_rds v) h a) (\<lambda>r. RDSCall (ListInstanceTags a r))"
definition rds_AddTagsToResource :: "env \<Rightarrow> string \<Rightarrow> tags \<Rightarrow> unit reply op" where
  "rds_AddTagsToResource v a t =
     invoke (\<lambda>h. ra_AddTagsToResource (env_rds v) h a t) (\<lambda>r. RDSCall (AddTagsToResource a t r))"
definition rds_RemoveTagsFromResource :: "env \<Rightarrow> string \<Rightarrow> string list \<Rightarrow> unit reply op" where
  "rds_RemoveTagsFromResource v a ks =
     invoke (\<lambda>h. ra_RemoveTagsFromResource (env_rds v) h a ks) (\<lambda>r. RDSCall (RemoveTagsFromResource a ks r))"
definition rds_DescribeDBSubnetGroups :: "env \<Rightarrow> string \<Rightarrow> string option list reply op" where
  "rds_DescribeDBSubnetGroups v n =
     invoke (\<lambda>h. ra_DescribeDBSubnetGroups (env_rds v) h n) (\<lambda>r. RDSCall (DescribeDBSubnetGroups n r))"
definition rds_DescribeDBEngineVersions :: "env \<Rightarrow> string \<Rightarrow> string \<Rightarrow> (string \<times> bool) list list reply op" where
  "rds_DescribeDBEngineVersions v e n =
     invoke (\<lambda>h. ra_DescribeDBEngineVersions (env_rds v) h e n) (\<lambda>r. RDSCall (DescribeDBEngineVersions e n r))"
definition rds_CreateDBSnapshot :: "env \<Rightarrow> string \<Rightarrow> string \<Rightarrow> tags \<Rightarrow> unit reply op" where
  "rds_CreateDBSnapshot v i s t =
     invoke (\<lambda>h. ra_CreateDBSnapshot (env_rds v) h i s t) (\<lambda>r. RDSCall (CreateDBSnapshot i s t r))"
definition rds_DescribeDBSnapshots :: "env \<Rightarrow> string \<Rightarrow> DBSnapshot list reply op" where
  "rds_DescribeDBSnapshots v s =
     invoke (\<lambda>h. ra_DescribeDBSnapshots (env_rds v) h s) (\<lambda>r. RDSCall (DescribeDBSnapshots s r))"
definition rds_DeleteDBSnapshot :: "env \<Rightarrow> string \<Rightarrow> unit reply op" where
  "rds_DeleteDBSnapshot v s =
     invoke (\<lambda>h. ra_DeleteDBSnapshot (env_rds v) h s) (\<lambda>r. RDSCall (DeleteDBSnapshot s r))"
definition ec2_DescribeSecurityGroup :: "env \<Rightarrow> string \<Rightarrow> SecurityGroup list reply op" where
  "ec2_DescribeSecurityGroup v g =
     invoke (\<lambda>h. ea_DescribeSecurityGroup (env_ec2 v) h g) (\<lambda>r. EC2Call (DescribeSecurityGroup g r))"
definition ec2_FindSecurityGroups :: "env \<Rightarrow> string \<Rightarrow> string \<Rightarrow> SecurityGroup list reply op" where
  "ec2_FindSecurityGroups v n vpc =
     invoke (\<lambda>h. ea_FindSecurityGroups (env_ec2 v) h n vpc) (\<lambda>r. EC2Call (FindSecurityGroups n vpc r))"
definition ec2_CreateSecurityGroup :: "env \<Rightarrow> string \<Rightarrow> string \<Rightarrow> tags \<Rightarrow> string reply op" where
  "ec2_CreateSecurityGroup v n vpc t =
     invoke (\<lambda>h. ea_CreateSecurityGroup (env_ec2 v) h n vpc t) (\<lambda>r. EC2Call (CreateSecurityGroup n vpc t r))"
definition ec2_CreateTags :: "env \<Rightarrow> string \<Rightarrow> tags \<Rightarrow> unit reply op" where
  "ec2_CreateTags v g t =
     invoke (\<lambda>h. ea_CreateTags (env_ec2 v) h g t) (\<lambda>r. EC2Call (CreateTags g t r))"
definition ec2_AuthorizeSecurityGroupIngress :: "env \<Rightarrow> string \<Rightarrow> int \<Rightarrow> string list \<Rightarrow> unit reply op" where
  "ec2_AuthorizeSecurityGroupIngress v g port gs =
     invoke (\<lambda>h. ea_AuthorizeSecurityGroupIngress (env_ec2 v) h g port gs) (\<lambda>r. EC2Call (AuthorizeSecurityGroupIngress g port gs r))"
definition ec2_RevokeSecurityGroupIngress :: "env \<Rightarrow> string \<Rightarrow> int \<Rightarrow> string \<Rightarrow> unit reply op" where
  "ec2_RevokeSecurityGroupIngress v g port s =
     invoke (\<lambda>h. ea_RevokeSecurityGroupIngress (env_ec2 v) h g port s) (\<lambda>r. EC2Call (RevokeSecurityGroupIngress g port s r))"
definition ec2_DeleteSecurityGroup :: "env \<Rightarrow> string \<Rightarrow> unit reply op" where
  "ec2_DeleteSecurityGroup v g =
     invoke (\<lambda>h. ea_DeleteSecurityGroup (env_ec2 v) h g) (\<lambda>r. EC2Call (DeleteSecurityGroup g r))"
definition k8s_GetSecret :: "env \<Rightarrow> reader \<Rightarrow> string \<Rightarrow> string \<Rightarrow> Secret reply op" where
  "k8s_GetSecret v rd ns n =
     invoke (\<lambda>h. ha_GetSecret (env_k8s v) h rd ns n) (\<lambda>r. K8sCall (GetSecret rd ns n r))"
definition k8s_ApplySecret :: "env \<Rightarrow> SecretApply \<Rightarrow> unit reply op" where
  "k8s_ApplySecret v i =
     invoke (\<lambda>h. ha_ApplySecret (env_k8s v) h i) (\<lambda>r. K8sCall (ApplySecret i r))"
definition k8s_DeleteSecret :: "env \<Rightarrow> string \<Rightarrow> string \<Rightarrow> unit reply op" where
  "k8s_DeleteSecret v ns n =
     invoke (\<lambda>h. ha_DeleteSecret (env_k8s v) h ns n) (\<lambda>r. K8sCall (DeleteSecret ns n r))"
definition k8s_GetSecurityGroupPolicy :: "env \<Rightarrow> string \<Rightarrow> string \<Rightarrow> SecurityGroupPolicy reply op" where
  "k8s_GetSecurityGroupPolicy v ns n =
     invoke (\<lambda>h. ha_GetSecurityGroupPolicy (env_k8s v) h ns n) (\<lambda>r. K8sCall (GetSecurityGroupPolicy ns n r))"
definition k8s_ApplySecurityGroupPolicy :: "env \<Rightarrow> SecurityGroupPolicyApply \<Rightarrow> unit reply op" where
  "k8s_ApplySecurityGroupPolicy v i =
     invoke (\<lambda>h. ha_ApplySecurityGroupPolicy (env_k8s v) h i) (\<lambda>r. K8sCall (ApplySecurityGroupPolicy i r))"
definition k8s_DeleteSecurityGroupPolicy :: "env \<Rightarrow> string \<Rightarrow> string \<Rightarrow> unit reply op" where
  "k8s_DeleteSecurityGroupPolicy v ns n =
     invoke (\<lambda>h. ha_DeleteSecurityGroupPolicy (env_k8s v) h ns n) (\<lambda>r. K8sCall (DeleteSecurityGroupPolicy ns n r))"
definition k8s_ListSubnetGroupGrants :: "env \<Rightarrow> RDSSubnetGroupGrant list reply op" where
  "k8s_ListSubnetGroupGrants v =
     invoke (\<lambda>h. ha_ListSubnetGroupGrants (env_k8s v) h) (\<lambda>r. K8sCall (ListSubnetGroupGrants r))"
definition sm_GetSecretValue :: "env \<Rightarrow> string \<Rightarrow> string option reply op" where
  "sm_GetSecretValue v a =
     invoke (\<lambda>h. env_GetSecretValue v h a) (\<lambda>r. SecretsCall (GetSecretValue a r))"

text \<open>
  The request-scoped cache of \<^verbatim>\<open>internal/resources/rds/describecache.go\<close>: a pass starts with an empty one, and only a
  successful description is kept.
\<close>

definition WithDescribeCache :: "unit op" where
  "WithDescribeCache = State (\<lambda>w. ((), w\<lparr>describeCache := Map.empty\<rparr>))"

definition cacheLoad :: "string \<Rightarrow> DBInstance list option op" where
  "cacheLoad k = State (\<lambda>w. (describeCache w k, w))"

definition cacheStore :: "string \<Rightarrow> DBInstance list \<Rightarrow> unit op" where
  "cacheStore k instances = State (\<lambda>w. ((), w\<lparr>describeCache := (describeCache w)(k \<mapsto> instances)\<rparr>))"

definition describeDBInstanceCached :: "env \<Rightarrow> string \<Rightarrow> DBInstance list reply op" where
  "describeDBInstanceCached v instanceID = do {
     known \<leftarrow> cacheLoad instanceID;
     case known of
       Some instances \<Rightarrow> ret (Inr instances)
     | None \<Rightarrow> do {
         r \<leftarrow> rds_DescribeDBInstances v instanceID;
         case r of
           Inl e \<Rightarrow> ret (Inl e)
         | Inr instances \<Rightarrow> do { cacheStore instanceID instances; ret (Inr instances) }
       }
   }"

definition ctx_Err :: "env \<Rightarrow> bool op" where
  "ctx_Err v = invoke (env_ctxErr v) ContextCall"

text \<open>The order in which \<open>n\<close> goroutines started together run; each one's call is a step of its own.\<close>

definition scheduled :: "env \<Rightarrow> 'a list \<Rightarrow> 'a list op" where
  "scheduled v xs = State (\<lambda>w. (map (\<lambda>i. xs ! i) (env_schedule v (trace w) (length xs)), w))"

text \<open>
  The custom resource of the running pass is an object in memory that every section shares: reading
  and assigning it, and the two writes to the API server, whose response replaces it. A patch of the
  status is a diff against the status of \<open>base\<close>, or the whole status without one; a patch of the
  finalizers carries the resource version, so that another writer's change makes it fail.
\<close>

definition getCR :: "AppDependencies op" where
  "getCR = State (\<lambda>w. (memCR w, w))"

definition setCR :: "AppDependencies \<Rightarrow> unit op" where
  "setCR cr = State (\<lambda>w. ((), w\<lparr>memCR := cr\<rparr>))"

abbreviation withLedger :: "AppDependencies \<Rightarrow> ledger \<Rightarrow> AppDependencies" where
  "withLedger cr l \<equiv> cr\<lparr>ad_Status := (ad_Status cr)\<lparr>st_ManagedResources := l\<rparr>\<rparr>"

definition patchStatus :: "env \<Rightarrow> AppDependenciesStatus option \<Rightarrow> ext_error option op" where
  "patchStatus v base = do {
     cr \<leftarrow> getCR;
     r \<leftarrow> invoke (\<lambda>h. ha_PatchStatus (env_k8s v) h (md_Namespace cr) (md_Name cr) base (ad_Status cr))
          (\<lambda>r. K8sCall (PatchStatus (md_Namespace cr) (md_Name cr) base (ad_Status cr) r));
     case r of Inl e \<Rightarrow> ret (Some e) | Inr cr' \<Rightarrow> do { setCR cr'; ret None }
   }"

definition patchFinalizers :: "env \<Rightarrow> string list \<Rightarrow> ext_error option op" where
  "patchFinalizers v fs = do {
     cr \<leftarrow> getCR;
     setCR (cr\<lparr>md_Finalizers := fs\<rparr>);
     r \<leftarrow> invoke (\<lambda>h. ha_PatchFinalizers (env_k8s v) h (md_Namespace cr) (md_Name cr) (md_ResourceVersion cr) fs)
          (\<lambda>r. K8sCall (PatchFinalizers (md_Namespace cr) (md_Name cr) (md_ResourceVersion cr) fs r));
     case r of Inl e \<Rightarrow> ret (Some e) | Inr cr' \<Rightarrow> do { setCR cr'; ret None }
   }"

text \<open>The closure that \<^verbatim>\<open>checkpointFor\<close> builds from the custom resource and its original.\<close>

definition checkpoint :: "env \<Rightarrow> pass \<Rightarrow> ledger \<Rightarrow> ext_error option op" where
  "checkpoint v p l = do {
     cr \<leftarrow> getCR;
     setCR (withLedger cr l);
     patchStatus v (ps_original p)
   }"

lemmas op_defs =
  kms_DescribeKey_def kms_CreateKey_def kms_CreateAlias_def kms_EnableKey_def kms_EnableKeyRotation_def
  kms_GetKeyRotationStatus_def kms_GetKeyPolicy_def kms_PutKeyPolicy_def kms_ListResourceTags_def
  kms_TagResource_def kms_UntagResource_def kms_ScheduleKeyDeletion_def kms_CancelKeyDeletion_def
  sqs_CreateQueue_def sqs_GetQueueUrl_def sqs_GetQueueAttributes_def sqs_SetQueueAttributes_def
  sqs_ListQueueTags_def sqs_TagQueue_def sqs_UntagQueue_def sqs_DeleteQueue_def
  sns_CreateTopic_def sns_GetTopicAttributes_def sns_SetTopicAttributes_def sns_ListTagsForResource_def
  sns_TagResource_def sns_UntagResource_def sns_DeleteTopic_def sns_ListSubscriptionsByTopic_def
  sns_Subscribe_def sns_Unsubscribe_def
  cw_DescribeAlarms_def cw_PutMetricAlarm_def cw_DeleteAlarms_def cw_ListTagsForResource_def k8s_GetCR_def
  limiter_When_def limiter_Forget_def rand_Float64_def ctx_Err_def
  ddb_DescribeTable_def ddb_CreateTable_def ddb_UpdateTable_def ddb_DeleteTable_def ddb_GetResourcePolicy_def
  ddb_PutResourcePolicy_def ddb_DeleteResourcePolicy_def ddb_ListTagsOfResource_def ddb_TagResource_def
  ddb_UntagResource_def ddb_DescribeContinuousBackups_def ddb_UpdateContinuousBackups_def ddb_Scan_def
  s3_HeadBucket_def s3_CreateBucket_def s3_DeleteBucket_def s3_GetBucketTagging_def s3_PutBucketTagging_def
  s3_GetBucketVersioning_def s3_PutBucketVersioning_def s3_GetBucketLifecycleConfiguration_def
  s3_PutBucketLifecycleConfiguration_def s3_DeleteBucketLifecycle_def s3_ListObjectVersions_def s3_DeleteObjects_def
  s3_ListMultipartUploads_def s3_AbortMultipartUpload_def s3_GetBucketEncryption_def s3_PutBucketEncryption_def
  s3_GetBucketPolicy_def s3_PutBucketPolicy_def s3_DeleteBucketPolicy_def s3_GetBucketWebsite_def
  s3_GetBucketPolicyStatus_def s3_GetPublicAccessBlock_def s3_GetBucketAcl_def iam_GetRole_def iam_CreateRole_def
  iam_UpdateAssumeRolePolicy_def iam_ListRoleTags_def iam_GetRolePolicy_def iam_PutRolePolicy_def
  iam_DeleteRolePolicy_def iam_DeleteRole_def iam_TagRole_def iam_ListAttachedRolePolicies_def
  iam_ListInstanceProfilesForRole_def k8s_GetServiceAccount_def k8s_ApplyServiceAccount_def k8s_GetConfigMap_def
  k8s_ApplyConfigMap_def
  rds_CreateDBInstance_def rds_ModifyDBInstance_def rds_DescribeDBInstances_def rds_ListTagsForResource_def
  rds_AddTagsToResource_def rds_RemoveTagsFromResource_def rds_DescribeDBSubnetGroups_def
  rds_DescribeDBEngineVersions_def rds_CreateDBSnapshot_def rds_DescribeDBSnapshots_def
  rds_DeleteDBSnapshot_def ec2_DescribeSecurityGroup_def ec2_FindSecurityGroups_def
  ec2_CreateSecurityGroup_def ec2_CreateTags_def ec2_AuthorizeSecurityGroupIngress_def
  ec2_RevokeSecurityGroupIngress_def ec2_DeleteSecurityGroup_def k8s_GetSecret_def k8s_ApplySecret_def
  k8s_DeleteSecret_def k8s_GetSecurityGroupPolicy_def k8s_ApplySecurityGroupPolicy_def
  k8s_DeleteSecurityGroupPolicy_def k8s_ListSubnetGroupGrants_def sm_GetSecretValue_def

text \<open>\<^verbatim>\<open>for\<close> loops that keep the first error and go on; the body gets and returns the loop state.\<close>

definition firstError :: "go_error option \<Rightarrow> go_error option \<Rightarrow> go_error option" where
  "firstError old new = (case old of Some e \<Rightarrow> Some e | None \<Rightarrow> new)"

lemma firstError_simps [simp]:
  "firstError None e = e" "firstError (Some x) e = Some x"
  by (simp_all add: firstError_def)

lemma firstError_None [simp]: "firstError a b = None \<longleftrightarrow> a = None \<and> b = None"
  by (cases a) simp_all

section \<open>Reasoning about computations\<close>

subsection \<open>Which calls a computation can make\<close>

text \<open>
  \<open>emits C m\<close>: whatever the environment answers, the calls that \<open>m\<close> appends to the trace all satisfy
  \<open>C\<close>. The rules follow the program text, so a proof is one \<open>intro\<close>.
\<close>

definition emits :: "(call \<Rightarrow> bool) \<Rightarrow> 'a op \<Rightarrow> bool" where
  "emits C m \<longleftrightarrow> (\<forall>w. \<exists>new. trace (snd (run_state m w)) = trace w @ new \<and> (\<forall>c\<in>set new. C c))"

named_theorems emits_intros \<open>structural rules for emits\<close>

lemma emits_ret [emits_intros]: "emits C (ret x)"
  by (simp add: emits_def)

lemma emits_bind [emits_intros]:
  assumes "emits C m" "\<And>a. emits C (f a)"
  shows "emits C (State_Monad.bind m f)"
  unfolding emits_def
proof
  fix w
  obtain a w1 where m: "run_state m w = (a, w1)" by fastforce
  obtain n1 where "trace w1 = trace w @ n1" "\<forall>c\<in>set n1. C c"
    using assms(1) m unfolding emits_def by (metis snd_conv)
  moreover obtain n2 where "trace (snd (run_state (f a) w1)) = trace w1 @ n2" "\<forall>c\<in>set n2. C c"
    using assms(2) unfolding emits_def by blast
  ultimately show "\<exists>new. trace (snd (run_state (State_Monad.bind m f) w)) = trace w @ new \<and> (\<forall>c\<in>set new. C c)"
    using m by (intro exI [of _ "n1 @ n2"]) auto
qed

lemma emits_invoke: "(\<And>r. C (mk r)) \<Longrightarrow> emits C (invoke f mk)"
  by (simp add: emits_def invoke_def)

lemma trace_events_if [simp]: "trace (if b then w\<lparr>events := x\<rparr> else w) = trace w"
  by simp

lemma emits_recordEvent [emits_intros]: "emits C (recordEvent p t r a)"
  by (simp add: emits_def recordEvent_def)

lemma emits_ReleaseTagFailed [emits_intros]: "emits C (ReleaseTagFailed p k n e)"
  by (simp add: ReleaseTagFailed_def emits_recordEvent)

lemma emits_getCR [emits_intros]: "emits C getCR"
  by (simp add: emits_def getCR_def)

lemma emits_scheduled [emits_intros]: "emits C (scheduled v xs)"
  by (simp add: emits_def scheduled_def)

lemma emits_setCR [emits_intros]: "emits C (setCR cr)"
  by (simp add: emits_def setCR_def)

lemma emits_cache [emits_intros]: "emits C WithDescribeCache" "emits C (cacheLoad k)" "emits C (cacheStore k xs)"
  by (simp_all add: emits_def WithDescribeCache_def cacheLoad_def cacheStore_def)

lemma emits_NumRequeues [emits_intros]: "emits C (limiter_NumRequeues v k)"
  by (simp add: emits_def limiter_NumRequeues_def)

lemma emits_if [emits_intros]: "(b \<Longrightarrow> emits C m) \<Longrightarrow> (\<not> b \<Longrightarrow> emits C n) \<Longrightarrow> emits C (if b then m else n)"
  by simp

lemma emits_option [emits_intros]:
  "(x = None \<Longrightarrow> emits C m) \<Longrightarrow> (\<And>a. x = Some a \<Longrightarrow> emits C (f a)) \<Longrightarrow> emits C (case x of None \<Rightarrow> m | Some a \<Rightarrow> f a)"
  by (cases x) simp_all

lemma emits_sum [emits_intros]:
  "(\<And>e. x = Inl e \<Longrightarrow> emits C (f e)) \<Longrightarrow> (\<And>a. x = Inr a \<Longrightarrow> emits C (g a)) \<Longrightarrow> emits C (case x of Inl e \<Rightarrow> f e | Inr a \<Rightarrow> g a)"
  by (cases x) simp_all

lemma emits_prod [emits_intros]: "(\<And>a b. x = (a, b) \<Longrightarrow> emits C (f a b)) \<Longrightarrow> emits C (case x of (a, b) \<Rightarrow> f a b)"
  by (cases x) simp

lemma emits_list [emits_intros]:
  "(x = [] \<Longrightarrow> emits C m) \<Longrightarrow> (\<And>a as. x = a # as \<Longrightarrow> emits C (f a as)) \<Longrightarrow> emits C (case x of [] \<Rightarrow> m | a # as \<Rightarrow> f a as)"
  by (cases x) simp_all

lemma emits_patchStatus:
  "(\<And>ns n s r. C (K8sCall (PatchStatus ns n base s r))) \<Longrightarrow> emits C (patchStatus v base)"
  unfolding patchStatus_def by (intro emits_intros emits_invoke)

lemma emits_patchFinalizers:
  "(\<And>ns n rv r. C (K8sCall (PatchFinalizers ns n rv fs r))) \<Longrightarrow> emits C (patchFinalizers v fs)"
  unfolding patchFinalizers_def by (intro emits_intros emits_invoke)

lemma emits_checkpoint:
  "(\<And>ns n s r. C (K8sCall (PatchStatus ns n (ps_original p) s r))) \<Longrightarrow> emits C (checkpoint v p l)"
  unfolding checkpoint_def by (intro emits_intros emits_patchStatus)

lemma emits_mono: "emits C m \<Longrightarrow> (\<And>c. C c \<Longrightarrow> D c) \<Longrightarrow> emits D m"
  unfolding emits_def by blast

lemma emitsD:
  assumes "emits C m" "run_state m w = (a, w')"
  shows "\<exists>new. trace w' = trace w @ new \<and> (\<forall>c\<in>set new. C c)"
  using assms unfolding emits_def by (metis snd_conv)

text \<open>Every computation of the model only appends to the trace.\<close>

abbreviation grows :: "'a op \<Rightarrow> bool" where "grows \<equiv> emits (\<lambda>_. True)"

lemma growsD: "grows m \<Longrightarrow> run_state m w = (a, w') \<Longrightarrow> set (trace w) \<subseteq> set (trace w')"
  using emitsD [of "\<lambda>_. True"] by fastforce

subsection \<open>Weakest preconditions\<close>

definition wp :: "'a op \<Rightarrow> ('a \<Rightarrow> world \<Rightarrow> bool) \<Rightarrow> world \<Rightarrow> bool" where
  "wp m Q w = (case run_state m w of (a, w') \<Rightarrow> Q a w')"

named_theorems wp_simps \<open>weakest preconditions of the program constructs\<close>

lemma wp_ret [wp_simps]: "wp (ret a) Q w = Q a w"
  by (simp add: wp_def)

lemma wp_ret_fun: "wp (ret a) Q = Q a"
  by (simp add: wp_ret fun_eq_iff)

lemma wp_bind [wp_simps]: "wp (State_Monad.bind m f) Q w = wp m (\<lambda>a. wp (f a) Q) w"
  by (simp add: wp_def split_beta)

lemma wp_invoke [wp_simps]:
  "wp (invoke f mk) Q w = Q (f (trace w)) (w\<lparr>trace := trace w @ [mk (f (trace w))]\<rparr>)"
  by (simp add: wp_def invoke_def)

lemma wp_recordEvent [wp_simps]:
  "wp (recordEvent p t r a) Q w =
     Q () (if ps_recordEvent p then w\<lparr>events := events w @ [Event t r a]\<rparr> else w)"
  by (simp add: wp_def recordEvent_def)

lemma wp_ReleaseTagFailed [wp_simps]:
  "wp (ReleaseTagFailed p k n e) Q w = wp (recordEvent p ''Warning'' ''ReleaseTagFailed'' [k, n]) Q w"
  by (simp add: ReleaseTagFailed_def)

lemma wp_getCR [wp_simps]: "wp getCR Q w = Q (memCR w) w"
  by (simp add: wp_def getCR_def)

lemma wp_scheduled [wp_simps]: "wp (scheduled v xs) Q w = Q (map ((!) xs) (env_schedule v (trace w) (length xs))) w"
  by (simp add: wp_def scheduled_def)

lemma wp_setCR [wp_simps]: "wp (setCR cr) Q w = Q () (w\<lparr>memCR := cr\<rparr>)"
  by (simp add: wp_def setCR_def)

lemma wp_cache [wp_simps]:
  "wp WithDescribeCache Q w = Q () (w\<lparr>describeCache := Map.empty\<rparr>)"
  "wp (cacheLoad k) R w = R (describeCache w k) w"
  "wp (cacheStore k xs) Q w = Q () (w\<lparr>describeCache := (describeCache w)(k \<mapsto> xs)\<rparr>)"
  by (simp_all add: wp_def WithDescribeCache_def cacheLoad_def cacheStore_def)

lemma wp_NumRequeues [wp_simps]:
  "wp (limiter_NumRequeues v k) Q w = Q (la_NumRequeues (env_limiter v) (trace w) k) w"
  by (simp add: wp_def limiter_NumRequeues_def)

lemma wp_if [wp_simps]: "wp (if b then m else n) Q w = (if b then wp m Q w else wp n Q w)"
  by simp

lemma wp_option [wp_simps]:
  "wp (case x of None \<Rightarrow> m | Some a \<Rightarrow> f a) Q w = (case x of None \<Rightarrow> wp m Q w | Some a \<Rightarrow> wp (f a) Q w)"
  by (cases x) simp_all

lemma wp_sum [wp_simps]:
  "wp (case x of Inl e \<Rightarrow> f e | Inr a \<Rightarrow> g a) Q w = (case x of Inl e \<Rightarrow> wp (f e) Q w | Inr a \<Rightarrow> wp (g a) Q w)"
  by (cases x) simp_all

lemma wp_prod [wp_simps]: "wp (case x of (a, b) \<Rightarrow> f a b) Q w = (case x of (a, b) \<Rightarrow> wp (f a b) Q w)"
  by (cases x) simp

lemma wp_conseq: "wp m Q w \<Longrightarrow> (\<And>a w'. Q a w' \<Longrightarrow> R a w') \<Longrightarrow> wp m R w"
  by (simp add: wp_def split: prod.splits)

lemma wp_conj: "wp m Q w \<Longrightarrow> wp m R w \<Longrightarrow> wp m (\<lambda>a w'. Q a w' \<and> R a w') w"
  by (simp add: wp_def split: prod.splits)

lemma wp_run: "run_state m w = (a, w') \<Longrightarrow> wp m Q w \<Longrightarrow> Q a w'"
  by (simp add: wp_def)

lemma wp_emits: "emits C m \<Longrightarrow> wp m (\<lambda>_ w'. \<exists>new. trace w' = trace w @ new \<and> (\<forall>c\<in>set new. C c)) w"
  by (simp add: wp_def emits_def split_beta)

subsection \<open>Calls that need an earlier call\<close>

text \<open>
  \<open>guards G m\<close>: every call \<open>c\<close> that \<open>m\<close> makes is made after calls \<open>pre\<close> of \<open>m\<close> itself with
  \<open>G pre c\<close>. It composes when the guard only asks for something to have happened before.
\<close>

definition guards :: "(history \<Rightarrow> call \<Rightarrow> bool) \<Rightarrow> 'a op \<Rightarrow> bool" where
  "guards G m \<longleftrightarrow> (\<forall>w. \<exists>new. trace (snd (run_state m w)) = trace w @ new
     \<and> (\<forall>pre c post. new = pre @ c # post \<longrightarrow> G pre c))"

definition guardedTrace :: "(history \<Rightarrow> call \<Rightarrow> bool) \<Rightarrow> history \<Rightarrow> bool" where
  "guardedTrace G tr \<longleftrightarrow> (\<forall>pre c post. tr = pre @ c # post \<longrightarrow> G pre c)"

definition leftmono :: "(history \<Rightarrow> call \<Rightarrow> bool) \<Rightarrow> bool" where
  "leftmono G \<longleftrightarrow> (\<forall>x pre c. G pre c \<longrightarrow> G (x @ pre) c)"

lemma guards_alt: "guards G m \<longleftrightarrow> (\<forall>w. \<exists>new. trace (snd (run_state m w)) = trace w @ new \<and> guardedTrace G new)"
  by (simp add: guards_def guardedTrace_def)

lemma guardedTrace_Nil [simp]: "guardedTrace G []"
  by (simp add: guardedTrace_def)

lemma guardedTrace_snoc: "guardedTrace G (tr @ [c]) \<longleftrightarrow> guardedTrace G tr \<and> G tr c"
proof
  assume *: "guardedTrace G (tr @ [c])"
  have "G pre x" if "tr = pre @ x # post" for pre x post
    using * that unfolding guardedTrace_def by (metis append.assoc append_Cons)
  with * show "guardedTrace G tr \<and> G tr c" unfolding guardedTrace_def by blast
next
  assume *: "guardedTrace G tr \<and> G tr c"
  show "guardedTrace G (tr @ [c])" unfolding guardedTrace_def
  proof (intro allI impI)
    fix pre x post assume e: "tr @ [c] = pre @ x # post"
    then show "G pre x" using * unfolding guardedTrace_def
      by (cases post rule: rev_cases) (auto simp flip: append_assoc append_Cons)
  qed
qed

lemma guardedTrace_append:
  assumes "leftmono G" "guardedTrace G a" "guardedTrace G b"
  shows "guardedTrace G (a @ b)"
  using assms(3)
proof (induction b rule: rev_induct)
  case (snoc c b)
  then show ?case
    using assms(1) by (simp add: guardedTrace_snoc flip: append_assoc) (simp add: leftmono_def)
qed (simp add: assms(2))

lemma guards_emits:
  assumes "emits C m" "\<And>pre c. C c \<Longrightarrow> G pre c"
  shows "guards G m"
  unfolding guards_alt
proof
  fix w
  obtain new where n: "trace (snd (run_state m w)) = trace w @ new" "\<forall>c\<in>set new. C c"
    using assms(1) unfolding emits_def by blast
  then have "guardedTrace G new" using assms(2) by (auto simp: guardedTrace_def)
  with n(1) show "\<exists>new. trace (snd (run_state m w)) = trace w @ new \<and> guardedTrace G new" by blast
qed

lemma guards_bind:
  assumes "leftmono G" "guards G m" "\<And>a. guards G (f a)"
  shows "guards G (State_Monad.bind m f)"
  unfolding guards_alt
proof
  fix w
  obtain a w1 where m: "run_state m w = (a, w1)" by fastforce
  obtain n1 where "trace w1 = trace w @ n1" "guardedTrace G n1"
    using assms(2) m unfolding guards_alt by (metis snd_conv)
  moreover obtain n2 where "trace (snd (run_state (f a) w1)) = trace w1 @ n2" "guardedTrace G n2"
    using assms(3) unfolding guards_alt by blast
  ultimately show "\<exists>new. trace (snd (run_state (State_Monad.bind m f) w)) = trace w @ new \<and> guardedTrace G new"
    using m guardedTrace_append [OF assms(1)] by (intro exI [of _ "n1 @ n2"]) auto
qed

lemma guards_wp:
  assumes "\<And>w. wp m (\<lambda>_ w'. \<exists>new. trace w' = trace w @ new \<and> guardedTrace G new) w"
  shows "guards G m"
  using assms by (simp add: guards_alt wp_def split_beta)

lemma guards_ret: "guards G (ret x)"
  by (simp add: guards_alt exI [of _ "[]"])

lemma guards_if: "(b \<Longrightarrow> guards G m) \<Longrightarrow> (\<not> b \<Longrightarrow> guards G n) \<Longrightarrow> guards G (if b then m else n)"
  by simp

lemma guards_option:
  "(x = None \<Longrightarrow> guards G m) \<Longrightarrow> (\<And>a. x = Some a \<Longrightarrow> guards G (f a)) \<Longrightarrow> guards G (case x of None \<Rightarrow> m | Some a \<Rightarrow> f a)"
  by (cases x) simp_all

lemma guards_sum:
  "(\<And>e. x = Inl e \<Longrightarrow> guards G (f e)) \<Longrightarrow> (\<And>a. x = Inr a \<Longrightarrow> guards G (g a)) \<Longrightarrow> guards G (case x of Inl e \<Rightarrow> f e | Inr a \<Rightarrow> g a)"
  by (cases x) simp_all

lemma guards_prod: "(\<And>a b. x = (a, b) \<Longrightarrow> guards G (f a b)) \<Longrightarrow> guards G (case x of (a, b) \<Rightarrow> f a b)"
  by (cases x) simp

lemmas guards_intros = guards_ret guards_if guards_option guards_sum guards_prod

lemma guardsD:
  assumes "guards G m" "run_state m w = (a, w')"
  shows "\<exists>new. trace w' = trace w @ new \<and> guardedTrace G new"
  using assms unfolding guards_alt by (metis snd_conv)

text \<open>The calls after a known prefix: it is enough that each is guarded by that prefix alone.\<close>

lemma wp_guard_tail:
  assumes "trace w = t0 @ pre" "guardedTrace G pre" "emits C m" "\<And>x c. C c \<Longrightarrow> G (pre @ x) c"
  shows "wp m (\<lambda>_ w'. \<exists>new. trace w' = t0 @ new \<and> guardedTrace G new) w"
proof -
  obtain new where n: "trace (snd (run_state m w)) = trace w @ new" "\<forall>c\<in>set new. C c"
    using assms(3) unfolding emits_def by blast
  have "guardedTrace G (pre @ new)"
    using n(2)
  proof (induction new rule: rev_induct)
    case (snoc c cs)
    then show ?case using assms(4) by (simp add: guardedTrace_snoc flip: append_assoc)
  qed (simp add: assms(2))
  with n(1) assms(1) show ?thesis by (simp add: wp_def split_beta)
qed

text \<open>
  A computation whose result licenses the calls that follow: \<open>C a\<close> are the calls allowed after the
  result \<open>a\<close>, and what was done to get that result is their guard.
\<close>

lemma guards_after:
  assumes "\<And>w. wp m (\<lambda>a w'. \<exists>new. trace w' = trace w @ new \<and> guardedTrace G new \<and> (\<forall>x c. C a c \<longrightarrow> G (new @ x) c)) w"
    and "\<And>a. emits (C a) (f a)"
  shows "guards G (State_Monad.bind m f)"
proof (rule guards_wp, unfold wp_bind, rule wp_conseq [OF assms(1)])
  fix w w' :: world and a
  assume "\<exists>new. trace w' = trace w @ new \<and> guardedTrace G new \<and> (\<forall>x c. C a c \<longrightarrow> G (new @ x) c)"
  then obtain new where n: "trace w' = trace w @ new" "guardedTrace G new" "\<And>x c. C a c \<Longrightarrow> G (new @ x) c" by blast
  show "wp (f a) (\<lambda>_ w'. \<exists>new. trace w' = trace w @ new \<and> guardedTrace G new) w'"
    by (rule wp_guard_tail [OF n(1,2) assms(2) n(3)])
qed

lemma guards_after_invoke:
  assumes "\<And>r. G [] (mk r)" "\<And>r x c. C r c \<Longrightarrow> G (mk r # x) c" "\<And>r. emits (C r) (f r)"
  shows "guards G (State_Monad.bind (invoke g mk) f)"
proof (rule guards_after)
  fix w :: world
  let ?r = "g (trace w)"
  have "guardedTrace G [mk ?r]" using guardedTrace_snoc [of G "[]" "mk ?r"] assms(1) by simp
  then show "wp (invoke g mk) (\<lambda>a w'. \<exists>new. trace w' = trace w @ new \<and> guardedTrace G new \<and> (\<forall>x c. C a c \<longrightarrow> G (new @ x) c)) w"
    unfolding wp_invoke using assms(2) by (intro exI [of _ "[mk ?r]"]) auto
qed (rule assms(3))

text \<open>The same when the second part makes guarded calls of its own.\<close>

lemma guards_seq:
  assumes "\<And>w. wp m (\<lambda>a w'. \<exists>new. trace w' = trace w @ new \<and> guardedTrace G new \<and> R a new) w"
    and "\<And>a new. R a new \<Longrightarrow> guards (\<lambda>x. G (new @ x)) (f a)"
  shows "guards G (State_Monad.bind m f)"
proof (rule guards_wp, unfold wp_bind, rule wp_conseq [OF assms(1)])
  fix w w' :: world and a
  assume "\<exists>new. trace w' = trace w @ new \<and> guardedTrace G new \<and> R a new"
  then obtain new where n: "trace w' = trace w @ new" "guardedTrace G new" "R a new" by blast
  obtain b w2 where f: "run_state (f a) w' = (b, w2)" by fastforce
  obtain more where m: "trace w2 = trace w' @ more" "guardedTrace (\<lambda>x. G (new @ x)) more"
    using guardsD [OF assms(2) [OF n(3)] f] by blast
  from m(2) have "guardedTrace G (new @ more)"
    by (induction more rule: rev_induct) (simp_all add: n(2) guardedTrace_snoc flip: append_assoc)
  with n m f show "wp (f a) (\<lambda>_ w'. \<exists>new. trace w' = trace w @ new \<and> guardedTrace G new) w'"
    by (auto simp: wp_def)
qed

lemma leftmono_shift: "leftmono G \<Longrightarrow> guards G m \<Longrightarrow> guards (\<lambda>x. G (pre @ x)) m"
  unfolding leftmono_def guards_def by meson

lemma wp_run_eq: "wp m Q w \<longleftrightarrow> (\<forall>a w'. run_state m w = (a, w') \<longrightarrow> Q a w')"
  by (simp add: wp_def split: prod.split)

subsection \<open>What a computation can return\<close>

definition returns :: "('a \<Rightarrow> bool) \<Rightarrow> 'a op \<Rightarrow> bool" where
  "returns P m \<longleftrightarrow> (\<forall>w. P (fst (run_state m w)))"

named_theorems returns_intros \<open>structural rules for returns\<close>

lemma returns_ret [returns_intros]: "P x \<Longrightarrow> returns P (ret x)"
  by (simp add: returns_def)

lemma returns_bind: "returns Q m \<Longrightarrow> (\<And>a. Q a \<Longrightarrow> returns P (f a)) \<Longrightarrow> returns P (State_Monad.bind m f)"
  by (simp add: returns_def split_beta)

lemma returns_bind_any [returns_intros]: "(\<And>a. returns P (f a)) \<Longrightarrow> returns P (State_Monad.bind m f)"
  by (simp add: returns_def split_beta)

lemma returns_if [returns_intros]: "(b \<Longrightarrow> returns P m) \<Longrightarrow> (\<not> b \<Longrightarrow> returns P n) \<Longrightarrow> returns P (if b then m else n)"
  by simp

lemma returns_option [returns_intros]:
  "(x = None \<Longrightarrow> returns P m) \<Longrightarrow> (\<And>a. x = Some a \<Longrightarrow> returns P (f a)) \<Longrightarrow> returns P (case x of None \<Rightarrow> m | Some a \<Rightarrow> f a)"
  by (cases x) simp_all

lemma returns_sum [returns_intros]:
  "(\<And>e. x = Inl e \<Longrightarrow> returns P (f e)) \<Longrightarrow> (\<And>a. x = Inr a \<Longrightarrow> returns P (g a)) \<Longrightarrow> returns P (case x of Inl e \<Rightarrow> f e | Inr a \<Rightarrow> g a)"
  by (cases x) simp_all

lemma returns_prod [returns_intros]: "(\<And>a b. x = (a, b) \<Longrightarrow> returns P (f a b)) \<Longrightarrow> returns P (case x of (a, b) \<Rightarrow> f a b)"
  by (cases x) simp

lemma returns_mono: "returns P m \<Longrightarrow> (\<And>a. P a \<Longrightarrow> Q a) \<Longrightarrow> returns Q m"
  by (simp add: returns_def)

lemma returns_conj: "returns P m \<Longrightarrow> returns Q m \<Longrightarrow> returns (\<lambda>a. P a \<and> Q a) m"
  by (simp add: returns_def)

lemma returnsD: "returns P m \<Longrightarrow> run_state m w = (a, w') \<Longrightarrow> P a"
  unfolding returns_def by (metis fst_conv)

lemma wp_returns: "returns P m \<Longrightarrow> wp m (\<lambda>a _. P a) w"
  by (simp add: returns_def wp_def split_beta)

lemma guards_mono_emits:
  assumes "guards G m" "emits C m" "\<And>pre c. G pre c \<Longrightarrow> C c \<Longrightarrow> H pre c"
  shows "guards H m"
  unfolding guards_alt
proof
  fix w
  obtain new where n: "trace (snd (run_state m w)) = trace w @ new" "guardedTrace G new"
    using assms(1) unfolding guards_alt by blast
  moreover obtain new2 where "trace (snd (run_state m w)) = trace w @ new2" "\<forall>c\<in>set new2. C c"
    using assms(2) unfolding emits_def by blast
  ultimately have "guardedTrace H new" using assms(3) by (auto simp: guardedTrace_def)
  with n show "\<exists>new. trace (snd (run_state m w)) = trace w @ new \<and> guardedTrace H new" by blast
qed

lemma guards_bind_returns:
  assumes "leftmono G" "guards G m" "returns P m" "\<And>a. P a \<Longrightarrow> guards G (f a)"
  shows "guards G (State_Monad.bind m f)"
  unfolding guards_alt
proof
  fix w
  obtain a w1 where m: "run_state m w = (a, w1)" by fastforce
  obtain n1 where "trace w1 = trace w @ n1" "guardedTrace G n1"
    using assms(2) m unfolding guards_alt by (metis snd_conv)
  moreover have "P a" using returnsD [OF assms(3) m] .
  moreover obtain n2 where "trace (snd (run_state (f a) w1)) = trace w1 @ n2" "guardedTrace G n2"
    using assms(4) [OF calculation(3)] unfolding guards_alt by blast
  ultimately show "\<exists>new. trace (snd (run_state (State_Monad.bind m f) w)) = trace w @ new \<and> guardedTrace G new"
    using m guardedTrace_append [OF assms(1)] by (intro exI [of _ "n1 @ n2"]) auto
qed

section \<open>A concrete environment\<close>

text \<open>An environment for the examples: AWS knows nothing and refuses every call.\<close>

definition refuse :: ext_error where "refuse = typed_error ''AccessDenied''"

definition refusingKms :: kms_api where
  "refusingKms = \<lparr>ka_DescribeKey = \<lambda>h k. Inl refuse, ka_CreateKey = \<lambda>h t. Inl refuse,
     ka_CreateAlias = \<lambda>h a k. Inl refuse, ka_EnableKey = \<lambda>h k. Inl refuse,
     ka_EnableKeyRotation = \<lambda>h k. Inl refuse, ka_GetKeyRotationStatus = \<lambda>h k. Inl refuse,
     ka_GetKeyPolicy = \<lambda>h k. Inl refuse, ka_PutKeyPolicy = \<lambda>h k d. Inl refuse,
     ka_ListResourceTags = \<lambda>h k m. Inl refuse, ka_TagResource = \<lambda>h k t. Inl refuse,
     ka_UntagResource = \<lambda>h k ks. Inl refuse, ka_ScheduleKeyDeletion = \<lambda>h k n. Inl refuse,
     ka_CancelKeyDeletion = \<lambda>h k. Inl refuse\<rparr>"

definition refusingSqs :: sqs_api where
  "refusingSqs = \<lparr>qa_CreateQueue = \<lambda>h n a t. Inl refuse, qa_GetQueueUrl = \<lambda>h n. Inl refuse,
     qa_GetQueueAttributes = \<lambda>h u ns. Inl refuse, qa_SetQueueAttributes = \<lambda>h u a. Inl refuse,
     qa_ListQueueTags = \<lambda>h u. Inl refuse, qa_TagQueue = \<lambda>h u t. Inl refuse,
     qa_UntagQueue = \<lambda>h u ks. Inl refuse, qa_DeleteQueue = \<lambda>h u. Inl refuse\<rparr>"

definition refusingSns :: sns_api where
  "refusingSns = \<lparr>na_CreateTopic = \<lambda>h n a t. Inl refuse, na_GetTopicAttributes = \<lambda>h a. Inl refuse,
     na_SetTopicAttributes = \<lambda>h a n x. Inl refuse, na_ListTagsForResource = \<lambda>h a. Inl refuse,
     na_TagResource = \<lambda>h a t. Inl refuse, na_UntagResource = \<lambda>h a ks. Inl refuse,
     na_DeleteTopic = \<lambda>h a. Inl refuse, na_ListSubscriptionsByTopic = \<lambda>h a t. Inl refuse,
     na_Subscribe = \<lambda>h t q e. Inl refuse, na_Unsubscribe = \<lambda>h a. Inl refuse\<rparr>"

definition refusingCw :: cw_api where
  "refusingCw = \<lparr>ca_DescribeAlarms = \<lambda>h n t. Inl refuse, ca_PutMetricAlarm = \<lambda>h i. Inl refuse,
     ca_DeleteAlarms = \<lambda>h ns. Inl refuse, ca_ListTagsForResource = \<lambda>h a. Inl refuse\<rparr>"

definition refusingDdb :: dynamodb_api where
  "refusingDdb = \<lparr>da_DescribeTable = \<lambda>h n. Inl refuse,
     da_CreateTable = \<lambda>h i. Inl refuse,
     da_UpdateTable = \<lambda>h i. Inl refuse,
     da_DeleteTable = \<lambda>h n. Inl refuse,
     da_GetResourcePolicy = \<lambda>h a. Inl refuse,
     da_PutResourcePolicy = \<lambda>h a d x. Inl refuse,
     da_DeleteResourcePolicy = \<lambda>h a x. Inl refuse,
     da_ListTagsOfResource = \<lambda>h a k. Inl refuse,
     da_TagResource = \<lambda>h a t. Inl refuse,
     da_UntagResource = \<lambda>h a ks. Inl refuse,
     da_DescribeContinuousBackups = \<lambda>h n. Inl refuse,
     da_UpdateContinuousBackups = \<lambda>h n d. Inl refuse,
     da_Scan = \<lambda>h n. Inl refuse\<rparr>"

definition refusingS3 :: s3_api where
  "refusingS3 = \<lparr>sa_HeadBucket = \<lambda>h b. Inl refuse,
     sa_CreateBucket = \<lambda>h b t lc. Inl refuse,
     sa_DeleteBucket = \<lambda>h b. Inl refuse,
     sa_GetBucketTagging = \<lambda>h b. Inl refuse,
     sa_PutBucketTagging = \<lambda>h b t. Inl refuse,
     sa_GetBucketVersioning = \<lambda>h b. Inl refuse,
     sa_PutBucketVersioning = \<lambda>h b x. Inl refuse,
     sa_GetBucketLifecycleConfiguration = \<lambda>h b. Inl refuse,
     sa_PutBucketLifecycleConfiguration = \<lambda>h b rs. Inl refuse,
     sa_DeleteBucketLifecycle = \<lambda>h b. Inl refuse,
     sa_ListObjectVersions = \<lambda>h b km vm mx. Inl refuse,
     sa_DeleteObjects = \<lambda>h b os. Inl refuse,
     sa_ListMultipartUploads = \<lambda>h b km um. Inl refuse,
     sa_AbortMultipartUpload = \<lambda>h b u. Inl refuse,
     sa_GetBucketEncryption = \<lambda>h b. Inl refuse,
     sa_PutBucketEncryption = \<lambda>h b k. Inl refuse,
     sa_GetBucketPolicy = \<lambda>h b. Inl refuse,
     sa_PutBucketPolicy = \<lambda>h b d. Inl refuse,
     sa_DeleteBucketPolicy = \<lambda>h b. Inl refuse,
     sa_GetBucketWebsite = \<lambda>h b. Inl refuse,
     sa_GetBucketPolicyStatus = \<lambda>h b. Inl refuse,
     sa_GetPublicAccessBlock = \<lambda>h b. Inl refuse,
     sa_GetBucketAcl = \<lambda>h b. Inl refuse\<rparr>"

definition refusingIam :: iam_api where
  "refusingIam = \<lparr>ia_GetRole = \<lambda>h n. Inl refuse,
     ia_CreateRole = \<lambda>h n d t. Inl refuse,
     ia_UpdateAssumeRolePolicy = \<lambda>h n d. Inl refuse,
     ia_ListRoleTags = \<lambda>h n m. Inl refuse,
     ia_GetRolePolicy = \<lambda>h n q. Inl refuse,
     ia_PutRolePolicy = \<lambda>h n q d. Inl refuse,
     ia_DeleteRolePolicy = \<lambda>h n q. Inl refuse,
     ia_DeleteRole = \<lambda>h n. Inl refuse,
     ia_TagRole = \<lambda>h n t. Inl refuse,
     ia_ListAttachedRolePolicies = \<lambda>h n. Inl refuse,
     ia_ListInstanceProfilesForRole = \<lambda>h n. Inl refuse\<rparr>"

definition refusingRds :: rds_api where
  "refusingRds = \<lparr>ra_CreateDBInstance = \<lambda>h i. Inl refuse,
     ra_ModifyDBInstance = \<lambda>h i. Inl refuse,
     ra_DescribeDBInstances = \<lambda>h n. Inl refuse,
     ra_ListTagsForResource = \<lambda>h a. Inl refuse,
     ra_AddTagsToResource = \<lambda>h a t. Inl refuse,
     ra_RemoveTagsFromResource = \<lambda>h a ks. Inl refuse,
     ra_DescribeDBSubnetGroups = \<lambda>h n. Inl refuse,
     ra_DescribeDBEngineVersions = \<lambda>h e n. Inl refuse,
     ra_CreateDBSnapshot = \<lambda>h i s t. Inl refuse,
     ra_DescribeDBSnapshots = \<lambda>h s. Inl refuse,
     ra_DeleteDBSnapshot = \<lambda>h s. Inl refuse\<rparr>"

definition refusingEc2 :: ec2_api where
  "refusingEc2 = \<lparr>ea_DescribeSecurityGroup = \<lambda>h g. Inl refuse,
     ea_FindSecurityGroups = \<lambda>h n vpc. Inl refuse,
     ea_CreateSecurityGroup = \<lambda>h n vpc t. Inl refuse,
     ea_CreateTags = \<lambda>h g t. Inl refuse,
     ea_AuthorizeSecurityGroupIngress = \<lambda>h g port gs. Inl refuse,
     ea_RevokeSecurityGroupIngress = \<lambda>h g port s. Inl refuse,
     ea_DeleteSecurityGroup = \<lambda>h g. Inl refuse\<rparr>"

definition refusingEnv :: env where
  "refusingEnv = \<lparr>env_kms = refusingKms, env_sqs = refusingSqs, env_sns = refusingSns, env_cw = refusingCw,
     env_k8s = \<lparr>ha_GetCR = \<lambda>h ns n. Inl refuse, ha_PatchStatus = \<lambda>h ns n b s. Inl refuse, ha_PatchFinalizers = \<lambda>h ns n rv fs. Inl refuse,
       ha_GetServiceAccount = \<lambda>h ns n. Inl refuse, ha_ApplyServiceAccount = \<lambda>h i. Inl refuse,
       ha_GetConfigMap = \<lambda>h rd ns n. Inl refuse, ha_ApplyConfigMap = \<lambda>h i. Inl refuse,
       ha_GetSecret = \<lambda>h rd ns n. Inl refuse,
       ha_ApplySecret = \<lambda>h i. Inl refuse,
       ha_DeleteSecret = \<lambda>h ns n. Inl refuse,
       ha_GetSecurityGroupPolicy = \<lambda>h ns n. Inl refuse,
       ha_ApplySecurityGroupPolicy = \<lambda>h i. Inl refuse,
       ha_DeleteSecurityGroupPolicy = \<lambda>h ns n. Inl refuse,
       ha_ListSubnetGroupGrants = \<lambda>h. Inl refuse\<rparr>,
     env_ParseARN = \<lambda>a. Inr ''123'', env_mapOrder = \<lambda>ks. ks,
     env_limiter = \<lparr>la_NumRequeues = \<lambda>h k. 0, la_When = \<lambda>h k. 0\<rparr>, env_rand = \<lambda>h. 0,
     env_ddb = refusingDdb, env_s3 = refusingS3, env_iam = refusingIam, env_rds = refusingRds, env_ec2 = refusingEc2,
     env_GetSecretValue = \<lambda>h a. Inl refuse, env_ctxErr = \<lambda>h. False,
     env_schedule = \<lambda>h n. [0..<n], env_GVK = Inr (''deps.cloudctl.io/v1alpha1'', ''AppDependencies'')\<rparr>"

definition emptyCR :: AppDependencies where
  "emptyCR = \<lparr>md_Namespace = ''team'', md_Name = ''orders'', md_UID = ''u1'', md_ResourceVersion = ''1'', md_Generation = 1,
     md_Annotations = Map.empty, md_Finalizers = [], md_Deleting = False,
     ad_Spec = \<lparr>sp_ServiceAccountName = [], sp_SQS = None, sp_SNS = None, sp_S3 = None, sp_DynamoDB = None,
       sp_RDS = None, sp_KMS = None, sp_Alarms = None, sp_NetworkServiceAccountName = []\<rparr>,
     ad_Status = \<lparr>st_Conditions = [], st_ManagedResources = [], st_IAMRoleARN = [], st_ServiceAccountName = [],
       st_AlarmsMayExist = None\<rparr>\<rparr>"

definition start :: world where "start = \<lparr>trace = [], events = [], memCR = emptyCR, describeCache = Map.empty\<rparr>"


end
