(* ===== verification/Kms.thy ===== *)
theory Kms
  imports World Decisions
begin

text \<open>
  The KMS package, \<^verbatim>\<open>internal/resources/kms\<close>: creating, resuming, adopting and reviving keys
  (\<^verbatim>\<open>kms.go\<close>), the service statements of a key policy (\<^verbatim>\<open>servicegrants.go\<close>) and the cleanup of keys
  nothing needs any more (\<^verbatim>\<open>cleanup.go\<close>). Names that other packages use too carry the suffix
  \<open>_kms\<close>. The dereferences of response fields assume what AWS documents, that a successful answer has
  them.
\<close>

section \<open>Service grants in the key policy\<close>

definition sidSNSDelivery :: string where "sidSNSDelivery = ''cloudctl-sns-delivery''"
definition sidCloudWatchAlarms :: string where "sidCloudWatchAlarms = ''cloudctl-cloudwatch-alarms''"

record ServiceGrants =
  sg_SNSTopicARNs :: "string list"
  sg_AlarmARNs :: "string list"

definition noGrants :: ServiceGrants where
  "noGrants = \<lparr>sg_SNSTopicARNs = [], sg_AlarmARNs = []\<rparr>"

definition serviceStatement :: "string \<Rightarrow> string \<Rightarrow> string \<Rightarrow> string list \<Rightarrow> json" where
  "serviceStatement account sid service sourceARNs =
     JObj [(''Action'', JArr [JStr ''kms:GenerateDataKey*'', JStr ''kms:Decrypt'']),
           (''Condition'', JObj [(''ArnEquals'', JObj [(''aws:SourceArn'', JArr (map JStr (remdups_adj (sort sourceARNs))))]),
                                 (''StringEquals'', JObj [(''aws:SourceAccount'', JStr account)])]),
           (''Effect'', JStr ''Allow''),
           (''Principal'', JObj [(''Service'', JStr service)]),
           (''Resource'', JStr ''*''),
           (''Sid'', JStr sid)]"

definition serviceKeyStatements :: "string \<Rightarrow> ServiceGrants \<Rightarrow> (string \<rightharpoonup> json)" where
  "serviceKeyStatements account grants =
     (let m = (if sg_SNSTopicARNs grants = [] then Map.empty
               else [sidSNSDelivery \<mapsto> serviceStatement account sidSNSDelivery ''sns.amazonaws.com'' (sg_SNSTopicARNs grants)])
      in if sg_AlarmARNs grants = [] then m
         else m(sidCloudWatchAlarms \<mapsto>
                  serviceStatement account sidCloudWatchAlarms ''cloudwatch.amazonaws.com'' (sg_AlarmARNs grants)))"

definition statementList :: "json option \<Rightarrow> json list" where
  "statementList raw =
     (case raw of None \<Rightarrow> [] | Some JNull \<Rightarrow> [] | Some (JArr xs) \<Rightarrow> xs | Some j \<Rightarrow> [j])"

definition rootStatement :: "string \<Rightarrow> json" where
  "rootStatement account =
     JObj [(''Action'', JStr ''kms:*''),
           (''Effect'', JStr ''Allow''),
           (''Principal'', JObj [(''AWS'', JStr (''arn:aws:iam::'' @ account @ '':root''))]),
           (''Resource'', JStr ''*''),
           (''Sid'', JStr ''Enable IAM User Permissions'')]"

text \<open>One turn of the loop over the two Sids.\<close>

definition mergeSid :: "(string \<rightharpoonup> json) \<Rightarrow> string \<Rightarrow> json list \<times> bool \<Rightarrow> json list \<times> bool" where
  "mergeSid wanted sid acc =
     (case acc of (statements, changed) \<Rightarrow>
        (case (case wanted sid of Some stmt \<Rightarrow> Upsert statements sid stmt | None \<Rightarrow> Remove statements sid) of
           (statements', statementChanged) \<Rightarrow> (statements', changed \<or> statementChanged)))"

definition mergeGrants :: "string \<Rightarrow> ServiceGrants option \<Rightarrow> json list \<times> bool \<Rightarrow> json list \<times> bool" where
  "mergeGrants account grants acc =
     (case grants of None \<Rightarrow> acc
      | Some g \<Rightarrow> (let wanted = serviceKeyStatements account g
                   in mergeSid wanted sidCloudWatchAlarms (mergeSid wanted sidSNSDelivery acc)))"

text \<open>
  \<^verbatim>\<open>mergeKeyPolicy\<close>. The document is a Go map of raw members; the text \<^verbatim>\<open>null\<close> makes it the nil map,
  and assigning to that panics.
\<close>

definition mergeKeyPolicy :: "string \<Rightarrow> string \<Rightarrow> ServiceGrants option \<Rightarrow> go_error + string \<times> bool" where
  "mergeKeyPolicy policy account grants =
     (case (if policy = [] then Some (JObj []) else parseJSON policy) of
        Some (JObj kvs) \<Rightarrow>
          (let doc0 = canonObj kvs;
               stmts0 = statementList (map_of doc0 ''Statement'');
               doc1 = (if policy = [] then canonObj (doc0 @ [(''Version'', JStr ''2012-10-17'')]) else doc0);
               acc = (if policy = [] then (stmts0 @ [rootStatement account], True) else (stmts0, False))
           in case mergeGrants account grants acc of (statements, changed) \<Rightarrow>
                if \<not> changed then Inr (policy, False)
                else Inr (renderJSON (JObj (canonObj (doc1 @ [(''Statement'', JArr statements)]))), True))
      | Some JNull \<Rightarrow>
          (case mergeGrants account grants ([], False) of (statements, changed) \<Rightarrow>
             if \<not> changed then Inr (policy, False)
             else Inl (msgError ''panic: assignment to entry in nil map'' []))
      | _ \<Rightarrow> Inl (msgError ''parsing key policy'' []))"

definition ensureKeyPolicy :: "env \<Rightarrow> string \<Rightarrow> go_error option op" where
  "ensureKeyPolicy v arn =
     (case env_ParseARN v arn of
        Inl e \<Rightarrow> ret (Some (wrapf ''parsing key ARN'' [arn] (ExtError e)))
      | Inr account \<Rightarrow> do {
          r \<leftarrow> kms_GetKeyPolicy v arn;
          case r of
            Inl e \<Rightarrow> ret (Some (ExtError e))
          | Inr out \<Rightarrow>
              (case mergeKeyPolicy (case out of None \<Rightarrow> [] | Some s \<Rightarrow> s) account None of
                 Inl e \<Rightarrow> ret (Some e)
               | Inr (merged, changed) \<Rightarrow>
                   if \<not> changed then ret None
                   else do {
                     r2 \<leftarrow> kms_PutKeyPolicy v arn merged;
                     case r2 of Inl e \<Rightarrow> ret (Some (ExtError e)) | Inr _ \<Rightarrow> ret None
                   })
        })"

definition keyCannotBeChanged :: "ext_error \<Rightarrow> bool" where
  "keyCannotBeChanged e \<longleftrightarrow> isException ''KMSInvalidStateException'' e \<or> isException ''NotFoundException'' e"

definition SyncServiceGrants :: "env \<Rightarrow> pass \<Rightarrow> string \<Rightarrow> ServiceGrants \<Rightarrow> go_error option op" where
  "SyncServiceGrants v p keyARN grants =
     (case env_ParseARN v keyARN of
        Inl e \<Rightarrow> ret (Some (wrapf ''parsing key ARN'' [keyARN] (ExtError e)))
      | Inr account \<Rightarrow> do {
          r \<leftarrow> kms_GetKeyPolicy v keyARN;
          case r of
            Inl e \<Rightarrow> if keyCannotBeChanged e then ret None
                     else ret (Some (wrapAWSError (ExtError e) ''reading the policy of KMS key''))
          | Inr out \<Rightarrow>
              (let current = (case out of None \<Rightarrow> [] | Some s \<Rightarrow> s) in
               if current = [] \<and> length (sg_SNSTopicARNs grants) + length (sg_AlarmARNs grants) = 0 then ret None
               else case mergeKeyPolicy current account (Some grants) of
                      Inl e \<Rightarrow> ret (Some e)
                    | Inr (merged, changed) \<Rightarrow>
                        if \<not> changed then ret None
                        else do {
                          r2 \<leftarrow> kms_PutKeyPolicy v keyARN merged;
                          case r2 of
                            Inl e \<Rightarrow> if keyCannotBeChanged e then ret None
                                     else ret (Some (wrapAWSError (ExtError e) ''updating the policy of KMS key''))
                          | Inr _ \<Rightarrow> do {
                              recordEvent p ''Normal'' ''KeyPolicyUpdated''
                                [keyARN, show_nat (length (sg_SNSTopicARNs grants)), show_nat (length (sg_AlarmARNs grants))];
                              ret None
                            }
                        })
        })"

section \<open>Naming, tags and the ledger entry\<close>

definition aliasMaxLen :: int where "aliasMaxLen = 256"
definition aliasPrefix :: string where "aliasPrefix = ''alias/''"

record keyOptions =
  ko_deletionPolicy :: DeletionPolicy
  ko_adopt :: bool
  ko_aliasParts :: "string list"

definition aliasName :: "pass \<Rightarrow> string \<Rightarrow> keyOptions \<Rightarrow> string" where
  "aliasName p resourceName opts =
     (if ko_aliasParts opts \<noteq> []
      then aliasPrefix @ DerivedResourceNameFor NameStyleWordChars (ps_namespace p) (ps_crName p) TypeKMS
             (aliasMaxLen - int (length aliasPrefix)) (ko_aliasParts opts)
      else aliasPrefix @ ResourceNameFor NameStyleWordChars (ps_namespace p) (ps_crName p) TypeKMS resourceName
             (aliasMaxLen - int (length aliasPrefix)))"

definition PinsAKey :: "ledger \<Rightarrow> string \<Rightarrow> ManagedResource \<Rightarrow> bool" where
  "PinsAKey l ownerType entry =
     (if mr_KMSKeyARN entry \<noteq> [] then True
      else HasManagedResource l TypeKMS (DedicatedKeyLedgerName ownerType (cutBefore (mr_Name entry) CHR ''#'')))"

definition SharedKeyARN :: "ledger \<Rightarrow> string \<Rightarrow> string option" where
  "SharedKeyARN l name =
     (case FindManagedResource l TypeKMS name of
        None \<Rightarrow> None
      | Some entry \<Rightarrow> if mr_ARN entry = [] then None else Some (mr_ARN entry))"

fun tagsToMap :: "aws_tag list \<Rightarrow> tags" where
  "tagsToMap [] = Map.empty"
| "tagsToMap ((k, x) # ts) =
     (case (k, x) of (Some key, Some val) \<Rightarrow> [key \<mapsto> val] ++ tagsToMap ts | _ \<Rightarrow> tagsToMap ts)"

text \<open>
  The paging loop of \<^verbatim>\<open>listAllResourceTags\<close>. Nothing in it bounds the number of pages; what ends it
  against an environment that always has a next page is the deadline of the context, which makes
  the next call fail. The page budget is how many calls the deadline leaves time for.
\<close>

definition deadlineExceeded :: ext_error where
  "deadlineExceeded = plain_ext_error\<lparr>ex_deadline := True\<rparr>"

primrec listTagPages :: "env \<Rightarrow> string \<Rightarrow> nat \<Rightarrow> string option \<Rightarrow> aws_tag list \<Rightarrow> (ext_error + aws_tag list) op" where
  "listTagPages v keyID 0 marker all = ret (Inl deadlineExceeded)"
| "listTagPages v keyID (Suc n) marker all = do {
     r \<leftarrow> kms_ListResourceTags v keyID marker;
     case r of
       Inl e \<Rightarrow> ret (Inl e)
     | Inr out \<Rightarrow>
         if \<not> tp_Truncated out then ret (Inr (all @ tp_Tags out))
         else listTagPages v keyID n (tp_NextMarker out) (all @ tp_Tags out)
   }"

definition listAllResourceTags :: "env \<Rightarrow> pass \<Rightarrow> string \<Rightarrow> (ext_error + aws_tag list) op" where
  "listAllResourceTags v p keyID = listTagPages v keyID (ps_pageBudget p) None []"

definition recordKey ::
  "pass \<Rightarrow> ledger \<Rightarrow> string \<Rightarrow> string \<Rightarrow> DeletionPolicy \<Rightarrow> ManagedResourceState \<Rightarrow> ledger" where
  "recordKey p l resourceName arn deletionPolicy state =
     (let createdAt = (case FindManagedResource l TypeKMS resourceName of
                         Some existing \<Rightarrow> mr_CreatedAt existing | None \<Rightarrow> ps_now p)
      in UpsertManagedResource l
           (zeroManagedResource\<lparr>mr_Type := TypeKMS, mr_Name := resourceName, mr_ARN := arn,
              mr_DeletionPolicy := deletionPolicy, mr_CreatedAt := createdAt,
              mr_LastVerifiedAt := Some (ps_now p), mr_State := state\<rparr>))"

section \<open>Key state, rotation, alias\<close>

fun keyStateText :: "KeyState \<Rightarrow> string" where
  "keyStateText KeyStateEnabled = ''Enabled''"
| "keyStateText KeyStateDisabled = ''Disabled''"
| "keyStateText KeyStatePendingDeletion = ''PendingDeletion''"
| "keyStateText KeyStateCreating = ''Creating''"
| "keyStateText KeyStateUpdating = ''Updating''"
| "keyStateText KeyStatePendingImport = ''PendingImport''"
| "keyStateText KeyStatePendingReplicaDeletion = ''PendingReplicaDeletion''"
| "keyStateText KeyStateUnavailable = ''Unavailable''"
| "keyStateText (KeyStateOther s) = s"

definition keyStateError :: "pass \<Rightarrow> string \<Rightarrow> KeyState \<Rightarrow> go_error option op" where
  "keyStateError p arn state =
     (if state = KeyStateEnabled \<or> state = KeyStatePendingDeletion then ret None
      else if state = KeyStateCreating \<or> state = KeyStateUpdating
      then ret (Some (ReconcileError (msgError ''KMS key is'' [arn, keyStateText state]) True [] False))
      else (let reason = (if state = KeyStateDisabled then ''KeyDisabled'' else ''KeyUnavailable'')
            in do {
              recordEvent p ''Warning'' reason [arn, keyStateText state];
              ret (Some (ReconcileError
                (msgError ''nothing encrypted with it can be read or written'' [arn, keyStateText state]) False reason False))
            }))"

definition reviveKey :: "env \<Rightarrow> string \<Rightarrow> go_error option op" where
  "reviveKey v arn = do {
     r \<leftarrow> kms_CancelKeyDeletion v arn;
     case r of
       Inl e \<Rightarrow> ret (Some (ExtError e))
     | Inr _ \<Rightarrow> do {
         r2 \<leftarrow> kms_EnableKey v arn;
         case r2 of Inl e \<Rightarrow> ret (Some (ExtError e)) | Inr _ \<Rightarrow> ret None
       }
   }"

definition ensureRotation :: "env \<Rightarrow> string \<Rightarrow> (bool \<times> go_error option) op" where
  "ensureRotation v keyID = do {
     r \<leftarrow> kms_GetKeyRotationStatus v keyID;
     case r of
       Inl e \<Rightarrow> ret (False, Some (ExtError e))
     | Inr enabled \<Rightarrow>
         if enabled then ret (False, None)
         else do {
           r2 \<leftarrow> kms_EnableKeyRotation v keyID;
           case r2 of Inl e \<Rightarrow> ret (False, Some (ExtError e)) | Inr _ \<Rightarrow> ret (True, None)
         }
   }"

definition ensureAlias :: "env \<Rightarrow> string \<Rightarrow> string \<Rightarrow> string \<Rightarrow> go_error option op" where
  "ensureAlias v alias arn keyID = do {
     r \<leftarrow> kms_CreateAlias v alias keyID;
     case r of
       Inr _ \<Rightarrow> ret None
     | Inl err \<Rightarrow>
         if \<not> isException ''AlreadyExistsException'' err
         then ret (Some (wrapAWSError (ExtError err) ''creating KMS key alias''))
         else do {
           d \<leftarrow> kms_DescribeKey v alias;
           case d of
             Inl dErr \<Rightarrow> ret (Some (wrapAWSError (ExtError dErr) ''verifying existing KMS key alias''))
           | Inr meta \<Rightarrow>
               if km_Arn meta \<noteq> arn
               then ret (Some (ReconcileError
                 (msgError ''KMS alias already points at a different key'' [alias, km_Arn meta, arn]) False ''NameTaken'' False))
               else ret None
         }
   }"

definition keyMissingError :: "pass \<Rightarrow> ManagedResource \<Rightarrow> go_error op" where
  "keyMissingError p entry = do {
     recordEvent p ''Warning'' ''KeyMissing'' [mr_ARN entry];
     ret (ReconcileError (msgError ''KMS key no longer exists in AWS'' [mr_Name entry, mr_ARN entry]) False ''KeyMissing'' False)
   }"

definition verifyOrTakeOverKey :: "env \<Rightarrow> pass \<Rightarrow> ManagedResource \<Rightarrow> go_error option op" where
  "verifyOrTakeOverKey v p entry = do {
     r \<leftarrow> listAllResourceTags v p (mr_ARN entry);
     case r of
       Inl err \<Rightarrow> ret (Some (wrapAWSError (ExtError err) ''re-verifying ownership of KMS key''))
     | Inr tgs \<Rightarrow>
         (let tagMap = tagsToMap tgs in
          if owned_by_pass p tagMap then ret None
          else case IsStaleUID tagMap (ps_namespace p) (ps_crName p) (ps_crUID p) of
                 None \<Rightarrow> ret (Some (OwnershipLostError ''KMS key'' (mr_Name entry) ''manage it further''))
               | Some staleUID \<Rightarrow>
                   if \<not> MayTransferFrom p staleUID
                   then ret (Some (OwnershipLostError ''KMS key'' (mr_Name entry) ''manage it further''))
                   else do {
                     t \<leftarrow> kms_TagResource v (mr_ARN entry) (MergeTags tagMap (ownerTags p));
                     case t of
                       Inl err \<Rightarrow> ret (Some (wrapAWSError (ExtError err) ''taking over KMS key (tagging)''))
                     | Inr _ \<Rightarrow> do {
                         recordEvent p ''Normal'' EventOwnershipTransferred [mr_ARN entry];
                         ret None
                       }
                   })
   }"

definition cancelScheduledDeletion :: "env \<Rightarrow> pass \<Rightarrow> ManagedResource \<Rightarrow> string \<Rightarrow> go_error option op" where
  "cancelScheduledDeletion v p entry alias = do {
     e \<leftarrow> reviveKey v (mr_ARN entry);
     case e of
       Some err \<Rightarrow> ret (Some (wrapAWSError err ''canceling scheduled deletion of KMS key now that it's declared again''))
     | None \<Rightarrow> do {
         recordEvent p ''Normal'' ''KeyDeletionCancelled'' [mr_ARN entry, alias];
         ret None
       }
   }"

definition reassertKeySettings :: "env \<Rightarrow> pass \<Rightarrow> ManagedResource \<Rightarrow> string \<Rightarrow> go_error option op" where
  "reassertKeySettings v p entry keyID = do {
     e \<leftarrow> ensureKeyPolicy v (mr_ARN entry);
     case e of
       Some err \<Rightarrow> ret (Some (wrapAWSError err ''re-asserting the key policy of KMS key''))
     | None \<Rightarrow> do {
         (reenabled, e2) \<leftarrow> ensureRotation v keyID;
         case e2 of
           Some err \<Rightarrow> ret (Some (wrapAWSError err ''re-asserting automatic rotation of KMS key''))
         | None \<Rightarrow> do {
             (if reenabled then recordEvent p ''Warning'' ''KeyRotationReenabled'' [mr_ARN entry] else ret ());
             ret None
           }
       }
   }"

section \<open>Ensuring a key\<close>

definition createKey :: "env \<Rightarrow> pass \<Rightarrow> string \<Rightarrow> string \<Rightarrow> keyOptions \<Rightarrow> ledger \<Rightarrow> (ledger \<times> go_error option) op" where
  "createKey v p alias resourceName opts l = do {
     r \<leftarrow> kms_CreateKey v (ownerTags p);
     case r of
       Inl err \<Rightarrow> ret (l, Some (wrapAWSError (ExtError err) ''creating KMS key''))
     | Inr meta \<Rightarrow>
         (let arn = km_Arn meta;
              keyID = km_KeyId meta;
              l1 = recordKey p l resourceName arn (ko_deletionPolicy opts) StateTagPending
          in do {
            c \<leftarrow> (if ps_checkpoint p then checkpoint v p l1 else ret None);
            case c of
              Some err \<Rightarrow> ret (l1, Some (wrapAWSError (ExtError err) ''checkpointing ledger before creating KMS alias''))
            | None \<Rightarrow> do {
                recordEvent p ''Normal'' ''KeyCreated'' [arn];
                e \<leftarrow> ensureKeyPolicy v arn;
                case e of
                  Some err \<Rightarrow> ret (l1, Some (wrapAWSError err ''setting KMS key policy''))
                | None \<Rightarrow> do {
                    rot \<leftarrow> kms_EnableKeyRotation v keyID;
                    case rot of
                      Inl err \<Rightarrow> ret (l1, Some (wrapAWSError (ExtError err) ''enabling automatic key rotation''))
                    | Inr _ \<Rightarrow> do {
                        e2 \<leftarrow> ensureAlias v alias arn keyID;
                        case e2 of
                          Some err \<Rightarrow> ret (l1, Some err)
                        | None \<Rightarrow> do {
                            recordEvent p ''Normal'' ''KeyAliasCreated'' [alias, arn];
                            ret (recordKey p l1 resourceName arn (ko_deletionPolicy opts) StateVerified, None)
                          }
                      }
                  }
              }
          })
   }"

definition resumeKey :: "env \<Rightarrow> pass \<Rightarrow> string \<Rightarrow> keyOptions \<Rightarrow> ManagedResource \<Rightarrow> ledger \<Rightarrow> (ledger \<times> go_error option) op" where
  "resumeKey v p alias opts entry l = do {
     d \<leftarrow> kms_DescribeKey v (mr_ARN entry);
     case d of
       Inl err \<Rightarrow>
         if isException ''NotFoundException'' err
         then do { e \<leftarrow> keyMissingError p entry; ret (l, Some e) }
         else ret (l, Some (wrapAWSError (ExtError err) ''looking up KMS key''))
     | Inr meta \<Rightarrow> do {
         se \<leftarrow> keyStateError p (mr_ARN entry) (km_KeyState meta);
         case se of
           Some err \<Rightarrow> ret (l, Some err)
         | None \<Rightarrow>
             (let pendingDeletion = (km_KeyState meta = KeyStatePendingDeletion) in
              if \<not> NeedsRevalidation (ps_now p) entry \<and> \<not> pendingDeletion
              then ret (UpsertManagedResource l (entry\<lparr>mr_DeletionPolicy := ko_deletionPolicy opts\<rparr>), None)
              else do {
                ve \<leftarrow> verifyOrTakeOverKey v p entry;
                case ve of
                  Some err \<Rightarrow> ret (l, Some err)
                | None \<Rightarrow> do {
                    ce \<leftarrow> (if pendingDeletion then cancelScheduledDeletion v p entry alias else ret None);
                    case ce of
                      Some err \<Rightarrow> ret (l, Some err)
                    | None \<Rightarrow> do {
                        re \<leftarrow> reassertKeySettings v p entry (km_KeyId meta);
                        case re of
                          Some err \<Rightarrow> ret (l, Some err)
                        | None \<Rightarrow> do {
                            ae \<leftarrow> ensureAlias v alias (mr_ARN entry) (km_KeyId meta);
                            case ae of
                              Some err \<Rightarrow> ret (l, Some err)
                            | None \<Rightarrow>
                                ret (recordKey p l (mr_Name entry) (mr_ARN entry) (ko_deletionPolicy opts) StateVerified, None)
                          }
                      }
                  }
              })
       }
   }"

text \<open>
  The ownership verdict of \<^verbatim>\<open>adoptKey\<close>, written out there before anything changes:
  \<open>Inr transferred\<close> when the key may be tagged.
\<close>

definition adoptKeyVerdict :: "pass \<Rightarrow> string \<Rightarrow> keyOptions \<Rightarrow> tags \<Rightarrow> go_error + bool" where
  "adoptKeyVerdict p alias opts tagMap =
     (case tagMap OwnerTagKey of
        Some existingOwner \<Rightarrow>
          if existingOwner \<noteq> OwnerTagValue (ps_namespace p) (ps_crName p)
          then Inl (OwnedByAnotherCRError ''KMS alias'' alias existingOwner)
          else (case IsStaleUID tagMap (ps_namespace p) (ps_crName p) (ps_crUID p) of
                  Some staleUID \<Rightarrow> if \<not> MayTransferFrom p staleUID
                                   then Inl (PreviousIncarnationError ''KMS alias'' alias staleUID) else Inr True
                | None \<Rightarrow> if \<not> ko_adopt opts then Inl (AdoptRequiredError ''KMS alias'' alias) else Inr False)
      | None \<Rightarrow>
          (case IsStaleUID tagMap (ps_namespace p) (ps_crName p) (ps_crUID p) of
             Some staleUID \<Rightarrow> if \<not> MayTransferFrom p staleUID
                              then Inl (PreviousIncarnationError ''KMS alias'' alias staleUID) else Inr True
           | None \<Rightarrow> if \<not> ko_adopt opts then Inl (AdoptRequiredError ''KMS alias'' alias) else Inr False))"

text \<open>What \<^verbatim>\<open>adoptKey\<close> does once the key is tagged.\<close>

definition settleAdoptedKey ::
  "env \<Rightarrow> pass \<Rightarrow> string \<Rightarrow> KeyMetadata \<Rightarrow> KeyState \<Rightarrow> ledger \<Rightarrow> (ledger \<times> go_error option) op" where
  "settleAdoptedKey v p resourceName meta keyState l1 = do {
     se \<leftarrow> keyStateError p (km_Arn meta) keyState;
     case se of
       Some err \<Rightarrow> ret (l1, Some err)
     | None \<Rightarrow> do {
         pe \<leftarrow> ensureKeyPolicy v (km_Arn meta);
         case pe of
           Some err \<Rightarrow> ret (l1, Some (wrapAWSError err ''setting the key policy of adopted KMS key''))
         | None \<Rightarrow> do {
             (reenabled, re) \<leftarrow> ensureRotation v (km_KeyId meta);
             case re of
               Some err \<Rightarrow> ret (l1, Some (wrapAWSError err ''enabling automatic rotation of adopted KMS key''))
             | None \<Rightarrow> ret (l1, None)
           }
       }
   }"

definition adoptKey ::
  "env \<Rightarrow> pass \<Rightarrow> string \<Rightarrow> string \<Rightarrow> keyOptions \<Rightarrow> KeyMetadata \<Rightarrow> ledger \<Rightarrow> (ledger \<times> go_error option) op" where
  "adoptKey v p alias resourceName opts meta l =
     (let arn = km_Arn meta in do {
        r \<leftarrow> listAllResourceTags v p arn;
        case r of
          Inl tErr \<Rightarrow> ret (l, Some (wrapAWSError (ExtError tErr) ''reading tags on existing KMS key alias''))
        | Inr tgs \<Rightarrow>
            (let tagMap = tagsToMap tgs in
             if owned_by_pass p tagMap
             then ret (recordKey p l resourceName arn (ko_deletionPolicy opts) StateVerified, None)
             else case adoptKeyVerdict p alias opts tagMap of
                    Inl err \<Rightarrow> ret (l, Some err)
                  | Inr transferred \<Rightarrow> do {
                      revived \<leftarrow> (if km_KeyState meta = KeyStatePendingDeletion then do {
                          e \<leftarrow> reviveKey v arn;
                          case e of
                            Some err \<Rightarrow> ret (Inl (wrapAWSError err ''canceling scheduled deletion of adopted KMS key''))
                          | None \<Rightarrow> do {
                              recordEvent p ''Normal'' ''KeyDeletionCancelled'' [arn, alias];
                              ret (Inr KeyStateEnabled)
                            }
                        } else ret (Inr (km_KeyState meta)));
                      case revived of
                        Inl err \<Rightarrow> ret (l, Some err)
                      | Inr keyState \<Rightarrow> do {
                          t \<leftarrow> kms_TagResource v arn (MergeTags tagMap (ownerTags p));
                          case t of
                            Inl err \<Rightarrow> ret (l, Some (wrapAWSError (ExtError err) ''adopting KMS key (tagging)''))
                          | Inr _ \<Rightarrow> do {
                              (if HasReleaseTags tagMap then do {
                                 u \<leftarrow> kms_UntagResource v arn ReleasedTagKeys;
                                 case u of Inl e \<Rightarrow> ReleaseTagFailed p ''KMS key'' alias e | Inr _ \<Rightarrow> ret ()
                               } else ret ());
                              (if transferred then recordEvent p ''Normal'' EventOwnershipTransferred [arn, alias]
                               else recordEvent p ''Normal'' ''KeyAdopted'' [arn, alias]);
                              settleAdoptedKey v p resourceName meta keyState
                                (recordKey p l resourceName arn (ko_deletionPolicy opts) StateVerified)
                            }
                        }
                    })
      })"

definition ensureKey :: "env \<Rightarrow> pass \<Rightarrow> string \<Rightarrow> keyOptions \<Rightarrow> ledger \<Rightarrow> (ledger \<times> go_error option) op" where
  "ensureKey v p resourceName opts l =
     (let alias = aliasName p resourceName opts;
          entry = FindManagedResource l TypeKMS resourceName
      in case entry of
           Some e \<Rightarrow>
             if mr_State e \<noteq> StateRelinquished then resumeKey v p alias opts e l
             else do {
               d \<leftarrow> kms_DescribeKey v alias;
               case d of
                 Inl err \<Rightarrow> if isException ''NotFoundException'' err then createKey v p alias resourceName opts l
                            else ret (l, Some (wrapAWSError (ExtError err) ''looking up KMS key alias''))
               | Inr meta \<Rightarrow> adoptKey v p alias resourceName opts meta l
             }
         | None \<Rightarrow> do {
             d \<leftarrow> kms_DescribeKey v alias;
             case d of
               Inl err \<Rightarrow> if isException ''NotFoundException'' err then createKey v p alias resourceName opts l
                          else ret (l, Some (wrapAWSError (ExtError err) ''looking up KMS key alias''))
             | Inr meta \<Rightarrow> adoptKey v p alias resourceName opts meta l
           })"

primrec ensureKeys :: "env \<Rightarrow> pass \<Rightarrow> KMSKeySpec list \<Rightarrow> ledger \<Rightarrow> go_error option \<Rightarrow> (ledger \<times> go_error option) op" where
  "ensureKeys v p [] l firstErr = ret (l, firstErr)"
| "ensureKeys v p (k # ks) l firstErr = do {
     (l1, err) \<leftarrow> ensureKey v p (k_Name k)
        \<lparr>ko_deletionPolicy = k_DeletionPolicy k, ko_adopt = k_Adopt k, ko_aliasParts = []\<rparr> l;
     ensureKeys v p ks l1 (firstError firstErr (map_option (wrapf ''key'' [k_Name k]) err))
   }"

definition Ensure_kms :: "env \<Rightarrow> pass \<Rightarrow> KMSSpec option \<Rightarrow> ledger \<Rightarrow> (ledger \<times> go_error option) op" where
  "Ensure_kms v p spec l =
     (case spec of None \<Rightarrow> ret (l, None) | Some s \<Rightarrow> ensureKeys v p (kms_Resources s) l None)"

definition EnsureDedicatedKey ::
  "env \<Rightarrow> pass \<Rightarrow> string \<Rightarrow> string \<Rightarrow> DeletionPolicy \<Rightarrow> ledger \<Rightarrow> (string \<times> ledger \<times> go_error option) op" where
  "EnsureDedicatedKey v p ownerType resourceName deletionPolicy l =
     (let ledgerName = DedicatedKeyLedgerName ownerType resourceName;
          opts = \<lparr>ko_deletionPolicy = deletionPolicy, ko_adopt = False,
                  ko_aliasParts = [ownerType, resourceName, DedicatedKeyRole]\<rparr>
      in do {
        (l1, err) \<leftarrow> ensureKey v p ledgerName opts l;
        case err of
          Some e \<Rightarrow> ret ([], l1, Some e)
        | None \<Rightarrow>
            (case FindManagedResource l1 TypeKMS ledgerName of
               None \<Rightarrow> ret ([], l1, Some (msgError ''KMS key is missing from the ledger right after ensuring it'' [ledgerName]))
             | Some entry \<Rightarrow> ret (mr_ARN entry, l1, None))
      })"

text \<open>\<^verbatim>\<open>CheckAdoptedKey\<close>; the client may be nil there, and the wanted key is empty for none.\<close>

definition CheckAdoptedKey :: "env option \<Rightarrow> string \<Rightarrow> string \<Rightarrow> go_error option op" where
  "CheckAdoptedKey kmsClient currentKey wantKey =
     (if currentKey = [] then ret None
      else case kmsClient of
             None \<Rightarrow> ret (Some (msgError ''no KMS client to check key of the resource being adopted'' [currentKey]))
           | Some v \<Rightarrow> do {
               r \<leftarrow> kms_DescribeKey v currentKey;
               case r of
                 Inl err \<Rightarrow> ret (Some (wrapAWSError (ExtError err) ''looking up key of the resource being adopted''))
               | Inr meta \<Rightarrow>
                   if km_AwsManaged meta \<or> (wantKey \<noteq> [] \<and> km_Arn meta = wantKey) then ret None
                   else ret (Some (ReconcileError
                     (msgError ''it is encrypted with a KMS key which this CR doesn't manage'' [km_Arn meta])
                     False ''AdoptionConflict'' False))
             })"

definition AdoptedKeyCheck :: "env option \<Rightarrow> string option \<Rightarrow> string \<Rightarrow> go_error option op" where
  "AdoptedKeyCheck kmsClient wantKey currentKey =
     CheckAdoptedKey kmsClient currentKey (case wantKey of None \<Rightarrow> [] | Some k \<Rightarrow> k)"

section \<open>Cleanup\<close>

definition deletionQuietWindow_kms :: duration where "deletionQuietWindow_kms = 10 * minute"
definition scheduledDeletionWindowDays :: int where "scheduledDeletionWindowDays = 30"

datatype KeyCleanupReason = KeyRetained | KeyPendingDeletion | KeyInUse

record KeyUse =
  ku_Retained :: bool

type_synonym key_result = "string \<times> KeyCleanupReason"

definition declaredKeyNames :: "KMSSpec option \<Rightarrow> (string \<rightharpoonup> KeyUse) \<Rightarrow> bool \<Rightarrow> string \<Rightarrow> bool" where
  "declaredKeyNames spec inUse deleting name =
     (if deleting then False
      else (case spec of None \<Rightarrow> False | Some s \<Rightarrow> name \<in> set (map k_Name (kms_Resources s)))
           \<or> inUse name \<noteq> None)"

definition holdKeyForData :: "pass \<Rightarrow> ManagedResource \<Rightarrow> KeyUse \<Rightarrow> (ManagedResource \<times> bool) op" where
  "holdKeyForData p entry use =
     (if \<not> ku_Retained use then ret (entry, True)
      else do {
        (if mr_DeletionPolicy entry = DeletionPolicyDelete
         then recordEvent p ''Warning'' ''KeyRetainedForData'' [mr_Name entry, mr_ARN entry] else ret ());
        ret (entry\<lparr>mr_DeletionPolicy := DeletionPolicyRetain\<rparr>, False)
      })"

definition markPendingDeletion_kms ::
  "pass \<Rightarrow> ledger \<Rightarrow> key_result list \<Rightarrow> ManagedResource \<Rightarrow> ledger \<times> key_result list" where
  "markPendingDeletion_kms p l results entry =
     (let since' = (case mr_PendingDeletionSince entry of None \<Rightarrow> ps_now p | Some t \<Rightarrow> t)
      in (UpsertManagedResource l (entry\<lparr>mr_PendingDeletionSince := Some since'\<rparr>),
          results @ [(mr_Name entry, KeyPendingDeletion)]))"

definition restoreDeclared_kms :: "ManagedResource \<Rightarrow> ledger \<Rightarrow> ledger" where
  "restoreDeclared_kms entry l =
     (if mr_PendingDeletionSince entry \<noteq> None
      then UpsertManagedResource l (entry\<lparr>mr_PendingDeletionSince := None\<rparr>) else l)"

definition relinquishIfStillTagged_kms :: "env \<Rightarrow> pass \<Rightarrow> ManagedResource \<Rightarrow> (bool \<times> bool \<times> go_error option) op" where
  "relinquishIfStillTagged_kms v p entry = do {
     d \<leftarrow> kms_DescribeKey v (mr_ARN entry);
     case d of
       Inl err \<Rightarrow>
         if isException ''NotFoundException'' err then ret (False, True, None)
         else ret (False, False, Some (wrapAWSError (ExtError err) ''checking state of retained key''))
     | Inr meta \<Rightarrow>
         if km_KeyState meta = KeyStatePendingDeletion then ret (False, False, None)
         else do {
           r \<leftarrow> listAllResourceTags v p (mr_ARN entry);
           case r of
             Inl tErr \<Rightarrow> ret (False, False, Some (wrapAWSError (ExtError tErr) ''checking ownership tags on retained KMS key''))
           | Inr tgs \<Rightarrow>
               if \<not> owned_by_pass p (tagsToMap tgs) then ret (False, False, None)
               else do {
                 se \<leftarrow> SyncServiceGrants v p (mr_ARN entry) noGrants;
                 case se of
                   Some err \<Rightarrow> ret (False, False, Some err)
                 | None \<Rightarrow> do {
                     (case ReleaseTags p of
                        None \<Rightarrow> ret ()
                      | Some released \<Rightarrow> do {
                          t \<leftarrow> kms_TagResource v (mr_ARN entry) released;
                          case t of Inl e \<Rightarrow> ReleaseTagFailed p ''KMS key'' (mr_Name entry) e | Inr _ \<Rightarrow> ret ()
                        });
                     u \<leftarrow> kms_UntagResource v (mr_ARN entry) [OwnerTagKey, OwnerUIDTagKey];
                     case u of
                       Inl uErr \<Rightarrow> ret (False, False, Some (wrapAWSError (ExtError uErr) ''relinquishing ownership tag on retained KMS key''))
                     | Inr _ \<Rightarrow> ret (True, False, None)
                   }
               }
         }
   }"

definition retain_kms ::
  "env \<Rightarrow> pass \<Rightarrow> ManagedResource \<Rightarrow> ledger \<Rightarrow> key_result list \<Rightarrow> (ledger \<times> key_result list \<times> go_error option) op" where
  "retain_kms v p entry l results =
     (let retained = (mr_Name entry, KeyRetained) in
      if mr_State entry = StateRelinquished \<and> \<not> NeedsRelinquishedRecheck (ps_now p) entry
      then ret (l, results @ [retained], None)
      else do {
        (relinquished, gone, err) \<leftarrow> relinquishIfStillTagged_kms v p entry;
        case err of
          Some e \<Rightarrow> ret (l, results, Some e)
        | None \<Rightarrow>
            if gone then ret (RemoveManagedResource l TypeKMS (mr_Name entry), results, None)
            else do {
              (if relinquished then recordEvent p ''Normal'' ''KeyOwnershipRelinquished'' [mr_Name entry, mr_ARN entry] else ret ());
              ret (UpsertManagedResource l (Relinquished (ps_now p) entry), results @ [retained], None)
            }
      })"

definition scheduleDeletion ::
  "env \<Rightarrow> pass \<Rightarrow> ManagedResource \<Rightarrow> ledger \<Rightarrow> key_result list \<Rightarrow> (ledger \<times> key_result list \<times> go_error option) op" where
  "scheduleDeletion v p entry l results = do {
     d \<leftarrow> kms_DescribeKey v (mr_ARN entry);
     case d of
       Inl err \<Rightarrow>
         if isException ''NotFoundException'' err then ret (RemoveManagedResource l TypeKMS (mr_Name entry), results, None)
         else ret (l, results, Some (wrapAWSError (ExtError err) ''looking up KMS key before delete''))
     | Inr meta \<Rightarrow>
         if km_KeyState meta = KeyStatePendingDeletion then ret (l, results, None)
         else do {
           r \<leftarrow> listAllResourceTags v p (mr_ARN entry);
           case r of
             Inl err \<Rightarrow> ret (l, results, Some (wrapAWSError (ExtError err) ''re-verifying ownership of KMS key before delete''))
           | Inr tgs \<Rightarrow>
               if \<not> owned_by_pass p (tagsToMap tgs)
               then ret (l, results, Some (OwnershipLostError ''KMS key'' (mr_Name entry) ''delete it''))
               else (case mr_PendingDeletionSince entry of
                       None \<Rightarrow>
                         (case markPendingDeletion_kms p l results entry of (l1, results1) \<Rightarrow> do {
                            recordEvent p ''Warning'' ''KeyDeletionPending'' [mr_Name entry, mr_ARN entry];
                            ret (l1, results1, None)
                          })
                     | Some pending \<Rightarrow>
                         if since (ps_now p) pending < deletionQuietWindow_kms
                         then ret (l, results @ [(mr_Name entry, KeyPendingDeletion)], None)
                         else do {
                           s \<leftarrow> kms_ScheduleKeyDeletion v (mr_ARN entry) scheduledDeletionWindowDays;
                           case s of
                             Inl err \<Rightarrow> ret (l, results, Some (wrapAWSError (ExtError err) ''scheduling deletion of KMS key''))
                           | Inr _ \<Rightarrow> do {
                               recordEvent p ''Warning'' ''KeyDeletionScheduled'' [mr_Name entry, mr_ARN entry];
                               ret (RemoveManagedResource l TypeKMS (mr_Name entry), results, None)
                             }
                         })
         }
   }"

text \<open>
  The loop of \<^verbatim>\<open>Cleanup\<close> over the entries of the ledger it was called with. An iteration only rewrites or
  removes its own entry, so later iterations see the entries they would see in the shared array.
\<close>

primrec cleanupKeys ::
  "env \<Rightarrow> pass \<Rightarrow> (string \<Rightarrow> bool) \<Rightarrow> (string \<rightharpoonup> KeyUse) \<Rightarrow> bool \<Rightarrow> ManagedResource list
   \<Rightarrow> ledger \<times> key_result list \<times> go_error option \<Rightarrow> (ledger \<times> key_result list \<times> go_error option) op" where
  "cleanupKeys v p declared inUse deleting [] acc = ret acc"
| "cleanupKeys v p declared inUse deleting (entry0 # rest) acc =
     (case acc of (l, results, firstErr) \<Rightarrow>
        if mr_Type entry0 \<noteq> TypeKMS then cleanupKeys v p declared inUse deleting rest acc
        else do {
          (entry, waiting) \<leftarrow> (case inUse (mr_Name entry0) of
              Some use \<Rightarrow> if deleting then holdKeyForData p entry0 use else ret (entry0, False)
            | None \<Rightarrow> ret (entry0, False));
          (if waiting
           then cleanupKeys v p declared inUse deleting rest (l, results @ [(mr_Name entry, KeyInUse)], firstErr)
           else do {
             (l1, results1, entryErr) \<leftarrow>
               (if declared (mr_Name entry) then ret (restoreDeclared_kms entry l, results, None)
                else if mr_DeletionPolicy entry \<noteq> DeletionPolicyDelete then retain_kms v p entry l results
                else scheduleDeletion v p entry l results);
             cleanupKeys v p declared inUse deleting rest (l1, results1, firstError firstErr entryErr)
           })
        })"

definition Cleanup_kms ::
  "env \<Rightarrow> pass \<Rightarrow> KMSSpec option \<Rightarrow> (string \<rightharpoonup> KeyUse) \<Rightarrow> ledger \<Rightarrow> bool
   \<Rightarrow> (ledger \<times> key_result list \<times> go_error option) op" where
  "Cleanup_kms v p spec inUse l deleting =
     cleanupKeys v p (declaredKeyNames spec inUse deleting) inUse deleting l (l, [], None)"

section \<open>Footprints: the calls each function can make\<close>

lemma emits_op:
  "(\<And>r. C (KMSCall (DescribeKey k r))) \<Longrightarrow> emits C (kms_DescribeKey v k)"
  "(\<And>r. C (KMSCall (CreateKey t r))) \<Longrightarrow> emits C (kms_CreateKey v t)"
  "(\<And>r. C (KMSCall (CreateAlias a k r))) \<Longrightarrow> emits C (kms_CreateAlias v a k)"
  "(\<And>r. C (KMSCall (EnableKey k r))) \<Longrightarrow> emits C (kms_EnableKey v k)"
  "(\<And>r. C (KMSCall (EnableKeyRotation k r))) \<Longrightarrow> emits C (kms_EnableKeyRotation v k)"
  "(\<And>r. C (KMSCall (GetKeyRotationStatus k r))) \<Longrightarrow> emits C (kms_GetKeyRotationStatus v k)"
  "(\<And>r. C (KMSCall (GetKeyPolicy k r))) \<Longrightarrow> emits C (kms_GetKeyPolicy v k)"
  "(\<And>r. C (KMSCall (PutKeyPolicy k d r))) \<Longrightarrow> emits C (kms_PutKeyPolicy v k d)"
  "(\<And>r. C (KMSCall (ListResourceTags k m r))) \<Longrightarrow> emits C (kms_ListResourceTags v k m)"
  "(\<And>r. C (KMSCall (TagKey k t r))) \<Longrightarrow> emits C (kms_TagResource v k t)"
  "(\<And>r. C (KMSCall (UntagKey k ks r))) \<Longrightarrow> emits C (kms_UntagResource v k ks)"
  "(\<And>r. C (KMSCall (ScheduleKeyDeletion k n r))) \<Longrightarrow> emits C (kms_ScheduleKeyDeletion v k n)"
  "(\<And>r. C (KMSCall (CancelKeyDeletion k r))) \<Longrightarrow> emits C (kms_CancelKeyDeletion v k)"
  by (simp_all add: op_defs emits_invoke)

lemmas kms_rules = emits_intros emits_op emits_checkpoint

lemma emits_ensureKeyPolicy:
  "(\<And>r. C (KMSCall (GetKeyPolicy arn r))) \<Longrightarrow> (\<And>d r. C (KMSCall (PutKeyPolicy arn d r))) \<Longrightarrow>
   emits C (ensureKeyPolicy v arn)"
  unfolding ensureKeyPolicy_def by (intro kms_rules) auto

lemma emits_SyncServiceGrants:
  "(\<And>r. C (KMSCall (GetKeyPolicy arn r))) \<Longrightarrow> (\<And>d r. C (KMSCall (PutKeyPolicy arn d r))) \<Longrightarrow>
   emits C (SyncServiceGrants v p arn g)"
  unfolding SyncServiceGrants_def Let_def by (intro kms_rules) auto

lemma emits_listTagPages:
  "(\<And>m r. C (KMSCall (ListResourceTags k m r))) \<Longrightarrow> emits C (listTagPages v k n m acc)"
proof (induction n arbitrary: m acc)
  case (Suc n)
  show ?case unfolding listTagPages.simps by (intro kms_rules Suc.IH Suc.prems)
qed (simp add: emits_ret)

lemma emits_listAllResourceTags:
  "(\<And>m r. C (KMSCall (ListResourceTags k m r))) \<Longrightarrow> emits C (listAllResourceTags v p k)"
  unfolding listAllResourceTags_def by (rule emits_listTagPages)

lemma emits_keyStateError: "emits C (keyStateError p a s)"
  unfolding keyStateError_def Let_def by (intro kms_rules)

lemma emits_keyMissingError: "emits C (keyMissingError p e)"
  unfolding keyMissingError_def by (intro kms_rules)

lemma emits_reviveKey:
  "(\<And>r. C (KMSCall (CancelKeyDeletion arn r))) \<Longrightarrow> (\<And>r. C (KMSCall (EnableKey arn r))) \<Longrightarrow> emits C (reviveKey v arn)"
  unfolding reviveKey_def by (intro kms_rules)

lemma emits_ensureRotation:
  "(\<And>r. C (KMSCall (GetKeyRotationStatus k r))) \<Longrightarrow> (\<And>r. C (KMSCall (EnableKeyRotation k r))) \<Longrightarrow>
   emits C (ensureRotation v k)"
  unfolding ensureRotation_def by (intro kms_rules)

lemma emits_ensureAlias:
  "(\<And>r. C (KMSCall (CreateAlias alias k r))) \<Longrightarrow> (\<And>r. C (KMSCall (DescribeKey alias r))) \<Longrightarrow>
   emits C (ensureAlias v alias arn k)"
  unfolding ensureAlias_def by (intro kms_rules)

lemmas kms_rules2 = kms_rules emits_ensureKeyPolicy emits_SyncServiceGrants emits_listAllResourceTags
  emits_keyStateError emits_keyMissingError emits_reviveKey emits_ensureRotation emits_ensureAlias

text \<open>What resuming a known key can do: everything but creating one.\<close>

definition resumeCalls :: "call \<Rightarrow> bool" where
  "resumeCalls c \<longleftrightarrow> (\<forall>t r. c \<noteq> KMSCall (CreateKey t r)) \<and> (\<forall>k n r. c \<noteq> KMSCall (ScheduleKeyDeletion k n r))
     \<and> (\<forall>q. c \<noteq> SQSCall q) \<and> (\<forall>n. c \<noteq> SNSCall n)"

lemma emits_resumeKey: "emits resumeCalls (resumeKey v p alias opts entry l)"
  unfolding resumeKey_def verifyOrTakeOverKey_def cancelScheduledDeletion_def reassertKeySettings_def Let_def
  by (intro kms_rules2) (simp_all add: resumeCalls_def)

lemma emits_adoptKey: "emits resumeCalls (adoptKey v p alias n opts meta l)"
  unfolding adoptKey_def settleAdoptedKey_def Let_def
  by (intro kms_rules2) (simp_all add: resumeCalls_def)


section \<open>Keys are only touched after their tags were read\<close>

text \<open>A complete listing of a key's tags: from the first page to one that is not truncated.\<close>

inductive listing :: "string \<Rightarrow> string option \<Rightarrow> history \<Rightarrow> aws_tag list \<Rightarrow> bool" where
  last_page: "\<not> tp_Truncated pg \<Longrightarrow> listing k m [KMSCall (ListResourceTags k m (Inr pg))] (tp_Tags pg)"
| next_page: "tp_Truncated pg \<Longrightarrow> listing k (tp_NextMarker pg) rest tgs \<Longrightarrow>
    listing k m (KMSCall (ListResourceTags k m (Inr pg)) # rest) (tp_Tags pg @ tgs)"

definition isListing :: "call \<Rightarrow> bool" where
  "isListing c \<longleftrightarrow> (\<exists>k m r. c = KMSCall (ListResourceTags k m r))"

definition readTags :: "string \<Rightarrow> history \<Rightarrow> tags \<Rightarrow> bool" where
  "readTags k pre tm \<longleftrightarrow> (\<exists>a seg b tgs. pre = a @ seg @ b \<and> listing k None seg tgs \<and> tm = tagsToMap tgs)"

lemma readTags_append: "readTags k pre tm \<Longrightarrow> readTags k (x @ pre @ y) tm"
  unfolding readTags_def by (metis append_assoc)

lemma readTags_left: "readTags k pre tm \<Longrightarrow> readTags k (x @ pre) tm"
  using readTags_append [of k pre tm x "[]"] by simp

lemma readTags_right: "readTags k pre tm \<Longrightarrow> readTags k (pre @ y) tm"
  using readTags_append [of k pre tm "[]" y] by simp

lemma wp_listTagPages:
  "wp (listTagPages v k n m acc) (\<lambda>r w'. \<exists>new. trace w' = trace w @ new \<and> (\<forall>c\<in>set new. isListing c)
     \<and> (\<forall>tgs. r = Inr tgs \<longrightarrow> (\<exists>ts. tgs = acc @ ts \<and> listing k m new ts))) w"
proof (induction n arbitrary: m acc w)
  case 0
  show ?case by (simp add: wp_simps)
next
  case (Suc n)
  let ?r = "ka_ListResourceTags (env_kms v) (trace w) k m"
  show ?case
  proof (cases ?r)
    case (Inl e)
    then show ?thesis by (simp add: wp_simps kms_ListResourceTags_def isListing_def)
  next
    case (Inr pg)
    let ?c = "KMSCall (ListResourceTags k m (Inr pg))"
    let ?w = "w\<lparr>trace := trace w @ [?c]\<rparr>"
    show ?thesis
    proof (cases "tp_Truncated pg")
      case False
      then show ?thesis
        using Inr by (simp add: wp_simps kms_ListResourceTags_def isListing_def last_page)
    next
      case True
      have "wp (listTagPages v k n (tp_NextMarker pg) (acc @ tp_Tags pg))
          (\<lambda>r w'. \<exists>new. trace w' = trace w @ new \<and> (\<forall>c\<in>set new. isListing c)
             \<and> (\<forall>tgs. r = Inr tgs \<longrightarrow> (\<exists>ts. tgs = acc @ ts \<and> listing k m new ts))) ?w"
      proof (rule wp_conseq [OF Suc.IH])
        fix r w'
        assume "\<exists>new. trace w' = trace ?w @ new \<and> (\<forall>c\<in>set new. isListing c) \<and>
          (\<forall>tgs. r = Inr tgs \<longrightarrow> (\<exists>ts. tgs = (acc @ tp_Tags pg) @ ts \<and> listing k (tp_NextMarker pg) new ts))"
        then obtain new where n: "trace w' = trace ?w @ new" "\<forall>c\<in>set new. isListing c"
          "\<forall>tgs. r = Inr tgs \<longrightarrow> (\<exists>ts. tgs = (acc @ tp_Tags pg) @ ts \<and> listing k (tp_NextMarker pg) new ts)"
          by blast
        have "\<exists>ts. tgs = acc @ ts \<and> listing k m (?c # new) ts" if "r = Inr tgs" for tgs
          using n(3) that True next_page by fastforce
        moreover have "\<forall>c\<in>set (?c # new). isListing c" using n(2) by (auto simp: isListing_def)
        ultimately show "\<exists>new. trace w' = trace w @ new \<and> (\<forall>c\<in>set new. isListing c)
             \<and> (\<forall>tgs. r = Inr tgs \<longrightarrow> (\<exists>ts. tgs = acc @ ts \<and> listing k m new ts))"
          using n(1) by (intro exI [of _ "?c # new"]) simp
      qed
      with True Inr show ?thesis by (simp add: wp_simps kms_ListResourceTags_def)
    qed
  qed
qed

lemma wp_listAllResourceTags:
  "wp (listAllResourceTags v p k) (\<lambda>r w'. \<exists>new. trace w' = trace w @ new \<and> (\<forall>c\<in>set new. isListing c)
     \<and> (\<forall>tgs. r = Inr tgs \<longrightarrow> readTags k new (tagsToMap tgs))) w"
  unfolding listAllResourceTags_def
  by (rule wp_conseq [OF wp_listTagPages]) (fastforce simp: readTags_def intro: exI [of _ "[]"])

text \<open>The tags name no other owner.\<close>

definition ours :: "pass \<Rightarrow> tags \<Rightarrow> bool" where
  "ours p tm \<longleftrightarrow> (case tm OwnerTagKey of None \<Rightarrow> True | Some owner \<Rightarrow> owner = OwnerTagValue (ps_namespace p) (ps_crName p))"

lemma owned_ours: "owned_by_pass p tm \<Longrightarrow> ours p tm"
  by (auto simp: ours_def IsOwnedBy_def split: option.split)

lemma stale_ours: "IsStaleUID tm (ps_namespace p) (ps_crName p) u = Some s \<Longrightarrow> ours p tm"
  by (auto simp: IsStaleUID_def ours_def split: option.splits if_splits)

text \<open>
  What the tags of a key must say before this custom resource may do anything to it: they name it as the owner; or they name a
  previous incarnation of it, the one that the takeover annotation allows to take over from; or, when the key is declared with
  \<^verbatim>\<open>adopt\<close>, they name no owner or this one without the UID of another.
\<close>

definition mayManage :: "bool \<Rightarrow> pass \<Rightarrow> tags \<Rightarrow> bool" where
  "mayManage adopt p tm \<longleftrightarrow> owned_by_pass p tm
     \<or> (tm OwnerTagKey = Some (OwnerTagValue (ps_namespace p) (ps_crName p)) \<and> ps_adoptFromUID p \<noteq> []
          \<and> tm OwnerUIDTagKey = Some (ps_adoptFromUID p))
     \<or> (adopt \<and> (case tm OwnerTagKey of None \<Rightarrow> True
          | Some owner \<Rightarrow> owner = OwnerTagValue (ps_namespace p) (ps_crName p)
              \<and> (case tm OwnerUIDTagKey of None \<Rightarrow> True | Some u \<Rightarrow> u = ps_crUID p)))"

lemma mayManage_owned: "owned_by_pass p tm \<Longrightarrow> mayManage adopt p tm"
  by (simp add: mayManage_def)

lemma mayManage_adopt: "mayManage False p tm \<Longrightarrow> mayManage adopt p tm"
  by (auto simp: mayManage_def)

lemma OwnerTagValue_nonempty [simp]: "OwnerTagValue ns n \<noteq> []" "[] \<noteq> OwnerTagValue ns n"
  by (simp_all add: OwnerTagValue_def)

lemma ownerless: "goget tm OwnerTagKey = OwnerTagValue ns n \<longleftrightarrow> tm OwnerTagKey = Some (OwnerTagValue ns n)"
  by (auto simp: goget_def OwnerTagValue_def split: option.split)

lemma stale_may:
  "IsStaleUID tm (ps_namespace p) (ps_crName p) u = Some s \<Longrightarrow> MayTransferFrom p s \<Longrightarrow> mayManage adopt p tm"
  by (auto simp: IsStaleUID_def ownerless MayTransferFrom_def mayManage_def split: option.splits if_splits)

lemma verdict_may: "adoptKeyVerdict p alias opts tm = Inr b \<Longrightarrow> mayManage (ko_adopt opts) p tm"
  by (auto simp: adoptKeyVerdict_def IsStaleUID_def ownerless MayTransferFrom_def mayManage_def split: option.splits if_splits)

text \<open>
  The same key under two names: its ARN, and the key ID that a description of the key, asked for by that ARN or showing it, gave.
\<close>

definition sameKey :: "history \<Rightarrow> string \<Rightarrow> string \<Rightarrow> bool" where
  "sameKey pre k arn \<longleftrightarrow> k = arn
     \<or> (\<exists>d meta. KMSCall (DescribeKey d (Inr meta)) \<in> set pre \<and> km_KeyId meta = k \<and> (d = arn \<or> km_Arn meta = arn))"

definition createdHere :: "pass \<Rightarrow> history \<Rightarrow> string \<Rightarrow> bool" where
  "createdHere p pre k \<longleftrightarrow> (\<exists>meta. KMSCall (CreateKey (ownerTags p) (Inr meta)) \<in> set pre \<and> (k = km_Arn meta \<or> k = km_KeyId meta))"

definition touchable :: "pass \<Rightarrow> bool \<Rightarrow> history \<Rightarrow> string \<Rightarrow> bool" where
  "touchable p adopt pre k \<longleftrightarrow> createdHere p pre k
     \<or> (\<exists>arn tm. sameKey pre k arn \<and> readTags arn pre tm \<and> mayManage adopt p tm)"

text \<open>
  The guard on every KMS call that changes something. A key is created with the owner tags. A key's deletion is scheduled, and its owner
  tags are removed, only after a complete listing of its tags earlier in the same run showed it owned by this custom resource; it is
  tagged only after one that showed it may be managed; and anything else is done only to such a key or to one created in the same run.
\<close>

definition kmsGuard :: "pass \<Rightarrow> bool \<Rightarrow> history \<Rightarrow> call \<Rightarrow> bool" where
  "kmsGuard p adopt pre c = (case c of
     KMSCall q \<Rightarrow> (case q of
         CreateKey t r \<Rightarrow> t = ownerTags p
       | ScheduleKeyDeletion k n r \<Rightarrow> \<exists>tm. readTags k pre tm \<and> owned_by_pass p tm
       | UntagKey k ks r \<Rightarrow> if OwnerTagKey \<in> set ks \<or> OwnerUIDTagKey \<in> set ks then \<exists>tm. readTags k pre tm \<and> owned_by_pass p tm
           else touchable p adopt pre k
       | TagKey k t r \<Rightarrow> \<exists>tm. readTags k pre tm \<and> mayManage adopt p tm
       | PutKeyPolicy k d r \<Rightarrow> touchable p adopt pre k
       | EnableKeyRotation k r \<Rightarrow> touchable p adopt pre k
       | CancelKeyDeletion k r \<Rightarrow> touchable p adopt pre k
       | EnableKey k r \<Rightarrow> touchable p adopt pre k
       | CreateAlias a k r \<Rightarrow> touchable p adopt pre k
       | DescribeKey k r \<Rightarrow> True | ListResourceTags k m r \<Rightarrow> True | GetKeyPolicy k r \<Rightarrow> True | GetKeyRotationStatus k r \<Rightarrow> True)
   | _ \<Rightarrow> True)"

lemma touchable_left: "touchable p adopt pre k \<Longrightarrow> touchable p adopt (x @ pre) k"
  unfolding touchable_def createdHere_def sameKey_def set_append Un_iff using readTags_left [of _ pre _ x] by blast

lemma touchable_adopt: "touchable p False pre k \<Longrightarrow> touchable p adopt pre k"
  unfolding touchable_def using mayManage_adopt by blast

lemma leftmono_kmsGuard: "leftmono (kmsGuard p adopt)"
  unfolding leftmono_def kmsGuard_def by (auto split: call.split kms_call.split intro: readTags_left touchable_left)

lemma kmsGuard_adopt: "kmsGuard p False pre c \<Longrightarrow> kmsGuard p adopt pre c"
  unfolding kmsGuard_def by (auto split: call.splits kms_call.splits if_splits intro: mayManage_adopt touchable_adopt)

text \<open>Calls that change nothing at KMS.\<close>

definition harmless :: "call \<Rightarrow> bool" where
  "harmless c = (case c of
     KMSCall q \<Rightarrow> (case q of
         DescribeKey k r \<Rightarrow> True | ListResourceTags k m r \<Rightarrow> True | GetKeyPolicy k r \<Rightarrow> True | GetKeyRotationStatus k r \<Rightarrow> True
       | _ \<Rightarrow> False)
   | _ \<Rightarrow> True)"

lemma harmless_guard: "harmless c \<Longrightarrow> kmsGuard p adopt pre c"
  by (auto simp: harmless_def kmsGuard_def split: call.splits kms_call.splits)

lemma guards_harmless: "emits harmless m \<Longrightarrow> guards (\<lambda>x. kmsGuard p adopt (h @ x)) m"
  by (erule guards_emits) (rule harmless_guard)

lemma harmless_simps [simp]:
  "harmless (KMSCall (DescribeKey k r1))" "harmless (KMSCall (GetKeyRotationStatus k r3))"
  "harmless (KMSCall (GetKeyPolicy k r4))" "harmless (KMSCall (ListResourceTags k m r5))"
  "harmless (K8sCall x)" "harmless (SQSCall q)" "harmless (SNSCall n)"
  by (simp_all add: harmless_def)

text \<open>Calls that change the settings of the keys in \<open>K\<close>, the tags apart.\<close>

definition settings :: "string set \<Rightarrow> call \<Rightarrow> bool" where
  "settings K c \<longleftrightarrow> harmless c \<or> (\<exists>k\<in>K. (\<exists>d r. c = KMSCall (PutKeyPolicy k d r)) \<or> (\<exists>r. c = KMSCall (EnableKeyRotation k r))
     \<or> (\<exists>r. c = KMSCall (CancelKeyDeletion k r)) \<or> (\<exists>r. c = KMSCall (EnableKey k r)) \<or> (\<exists>a r. c = KMSCall (CreateAlias a k r)))"

lemma settings_harmless: "harmless c \<Longrightarrow> settings K c"
  by (simp add: settings_def)

lemma settings_simps [simp]:
  "settings K (KMSCall (PutKeyPolicy k d r)) \<longleftrightarrow> k \<in> K" "settings K (KMSCall (EnableKeyRotation k r)) \<longleftrightarrow> k \<in> K"
  "settings K (KMSCall (CancelKeyDeletion k r)) \<longleftrightarrow> k \<in> K" "settings K (KMSCall (EnableKey k r)) \<longleftrightarrow> k \<in> K"
  "settings K (KMSCall (CreateAlias a k r)) \<longleftrightarrow> k \<in> K"
  by (auto simp: settings_def harmless_def)

lemma settings_guard: "\<forall>k\<in>K. touchable p adopt pre k \<Longrightarrow> settings K c \<Longrightarrow> kmsGuard p adopt pre c"
  using harmless_guard [of c p adopt pre] unfolding settings_def by (auto simp: kmsGuard_def)

text \<open>
  A computation that starts by listing the tags of a key: what follows may use the outcome.
\<close>

lemma listing_harmless: "\<forall>c\<in>set new. isListing c \<Longrightarrow> guardedTrace (\<lambda>x. kmsGuard p adopt (h @ x)) new"
  by (fastforce simp: guardedTrace_def isListing_def kmsGuard_def)

text \<open>What may be done to a key with ARN \<open>k\<close>, also called by the names in \<open>K\<close>, whose tags have just been listed.\<close>

definition allowed :: "pass \<Rightarrow> bool \<Rightarrow> string set \<Rightarrow> string \<Rightarrow> tags \<Rightarrow> call \<Rightarrow> bool" where
  "allowed p adopt K k tm c \<longleftrightarrow> harmless c
     \<or> (mayManage adopt p tm \<and> (settings K c \<or> (\<exists>t r. c = KMSCall (TagKey k t r)) \<or> (\<exists>r. c = KMSCall (UntagKey k ReleasedTagKeys r))))
     \<or> (owned_by_pass p tm \<and> ((\<exists>ks r. c = KMSCall (UntagKey k ks r)) \<or> (\<exists>n r. c = KMSCall (ScheduleKeyDeletion k n r))))"

lemma owner_not_released: "OwnerTagKey \<notin> set ReleasedTagKeys" "OwnerUIDTagKey \<notin> set ReleasedTagKeys"
  by (simp_all add: ReleasedTagKeys_def)

lemma touchable_listed:
  "readTags k pre tm \<Longrightarrow> mayManage adopt p tm \<Longrightarrow> sameKey pre k' k \<Longrightarrow> touchable p adopt pre k'"
  unfolding touchable_def by blast

lemma allowed_guard:
  assumes "readTags k pre tm" "\<forall>k'\<in>K. sameKey pre k' k" "allowed p adopt K k tm c"
  shows "kmsGuard p adopt pre c"
proof -
  have t: "touchable p adopt pre k'" if "mayManage adopt p tm" "k' = k \<or> k' \<in> K" for k'
    by (rule touchable_listed [OF assms(1) that(1)]) (use that(2) assms(2) in \<open>auto simp: sameKey_def\<close>)
  consider "harmless c" | "mayManage adopt p tm" "settings K c" | t r where "mayManage adopt p tm" "c = KMSCall (TagKey k t r)"
    | r where "mayManage adopt p tm" "c = KMSCall (UntagKey k ReleasedTagKeys r)"
    | ks r where "owned_by_pass p tm" "c = KMSCall (UntagKey k ks r)" | n r where "owned_by_pass p tm" "c = KMSCall (ScheduleKeyDeletion k n r)"
    using assms(3) unfolding allowed_def by blast
  then show ?thesis
  proof cases
    case 1
    then show ?thesis by (rule harmless_guard)
  next
    case 2
    then show ?thesis by (intro settings_guard) (auto intro: t)
  next
    case 5
    then show ?thesis using assms(1) t [OF mayManage_owned] by (auto simp: kmsGuard_def)
  qed (use assms(1) t owner_not_released in \<open>auto simp: kmsGuard_def\<close>)
qed

lemma guards_listing:
  assumes "\<forall>k'\<in>K. sameKey h k' k"
    and "\<And>e. emits harmless (f (Inl e))" "\<And>tgs. emits (allowed p adopt K k (tagsToMap tgs)) (f (Inr tgs))"
  shows "guards (\<lambda>x. kmsGuard p adopt (h @ x)) (State_Monad.bind (listAllResourceTags v p k) f)"
proof (rule guards_after [where C = "\<lambda>r. case r of Inl e \<Rightarrow> harmless | Inr tgs \<Rightarrow> allowed p adopt K k (tagsToMap tgs)"])
  show "emits (case r of Inl e \<Rightarrow> harmless | Inr tgs \<Rightarrow> allowed p adopt K k (tagsToMap tgs)) (f r)" for r
    using assms(2,3) by (cases r) simp_all
  fix w :: world
  have ok: "kmsGuard p adopt (h @ new @ x) c" if "readTags k new (tagsToMap tgs)" "allowed p adopt K k (tagsToMap tgs) c" for new x tgs c
    by (rule allowed_guard [OF readTags_append [OF that(1)] _ that(2)]) (use assms(1) in \<open>auto simp: sameKey_def\<close>)
  show "wp (listAllResourceTags v p k) (\<lambda>r w'. \<exists>new. trace w' = trace w @ new \<and> guardedTrace (\<lambda>x. kmsGuard p adopt (h @ x)) new
      \<and> (\<forall>x c. (case r of Inl e \<Rightarrow> harmless | Inr tgs \<Rightarrow> allowed p adopt K k (tagsToMap tgs)) c \<longrightarrow> kmsGuard p adopt (h @ new @ x) c)) w"
    by (rule wp_conseq [OF wp_listAllResourceTags])
      (auto intro: listing_harmless ok harmless_guard split: sum.splits)
qed

lemmas kms_guard_rules = guards_intros guards_bind [OF leftmono_kmsGuard]

text \<open>Describing a key is remembered by what follows.\<close>

lemma guards_described:
  assumes "\<And>r. guards (\<lambda>x. kmsGuard p adopt ([KMSCall (DescribeKey k r)] @ x)) (f r)"
  shows "guards (kmsGuard p adopt) (State_Monad.bind (kms_DescribeKey v k) f)"
proof (rule guards_seq [where R = "\<lambda>r new. new = [KMSCall (DescribeKey k r)]"])
  fix w :: world
  show "wp (kms_DescribeKey v k) (\<lambda>r w'. \<exists>new. trace w' = trace w @ new \<and> guardedTrace (kmsGuard p adopt) new
      \<and> new = [KMSCall (DescribeKey k r)]) w"
    using guardedTrace_snoc [of "kmsGuard p adopt" "[]"] by (simp add: kms_DescribeKey_def wp_simps kmsGuard_def)
qed (use assms in simp)

lemma guards_quiet: "emits (\<lambda>_. False) m \<Longrightarrow> (\<And>a. guards G (f a)) \<Longrightarrow> guards G (State_Monad.bind m f)"
  by (rule guards_seq [where R = "\<lambda>a new. new = []"]) (auto intro!: wp_conseq [OF wp_emits])

lemma wp_verifyOrTakeOverKey:
  "wp (verifyOrTakeOverKey v p entry) (\<lambda>ve w'. \<exists>new. trace w' = trace w @ new \<and> guardedTrace (\<lambda>x. kmsGuard p adopt (h @ x)) new
     \<and> (ve = None \<longrightarrow> (\<exists>tm. readTags (mr_ARN entry) new tm \<and> mayManage adopt p tm))) w"
  unfolding verifyOrTakeOverKey_def wp_bind [of "listAllResourceTags _ _ _"]
proof (rule wp_conseq [OF wp_listAllResourceTags], goal_cases)
  case (1 r w')
  then obtain new where n: "trace w' = trace w @ new" "\<forall>c\<in>set new. isListing c"
      "\<And>tgs. r = Inr tgs \<Longrightarrow> readTags (mr_ARN entry) new (tagsToMap tgs)" by blast
  have g: "guardedTrace (\<lambda>x. kmsGuard p adopt (h @ x)) new" by (rule listing_harmless [OF n(2)])
  have t: "guardedTrace (\<lambda>x. kmsGuard p adopt (h @ x)) (new @ [KMSCall (TagKey (mr_ARN entry) ts a)])"
    if "r = Inr tgs" "mayManage adopt p (tagsToMap tgs)" for tgs ts a
    using g readTags_left [OF n(3) [OF that(1)]] that(2) by (auto simp: guardedTrace_snoc kmsGuard_def)
  have R: "\<exists>tm. readTags (mr_ARN entry) (new @ x) tm \<and> mayManage adopt p tm"
    if "r = Inr tgs" "mayManage adopt p (tagsToMap tgs)" for tgs x
    using readTags_right [OF n(3) [OF that(1)]] that(2) by blast
  show ?case
    using n(1) g t R R [where x = "[]"]
    by (cases r) (auto simp: wp_simps kms_TagResource_def Let_def stale_may mayManage_owned split: option.split sum.split)
qed

text \<open>What follows a verification that succeeds may change the settings of the key, under each of its names.\<close>

lemma guards_verified:
  assumes "\<forall>k\<in>K. sameKey h k (mr_ARN entry)" "emits (settings K) m"
  shows "guards (\<lambda>x. kmsGuard p adopt (h @ x)) (State_Monad.bind (verifyOrTakeOverKey v p entry)
    (\<lambda>ve. case ve of None \<Rightarrow> m | Some err \<Rightarrow> ret (l, Some err)))"
proof (rule guards_seq [OF wp_verifyOrTakeOverKey])
  fix ve :: "go_error option" and new
  assume *: "ve = None \<longrightarrow> (\<exists>tm. readTags (mr_ARN entry) new tm \<and> mayManage adopt p tm)"
  show "guards (\<lambda>x. kmsGuard p adopt (h @ new @ x)) (case ve of None \<Rightarrow> m | Some err \<Rightarrow> ret (l, Some err))"
  proof (cases ve)
    case None
    with * obtain tm where tm: "readTags (mr_ARN entry) new tm" "mayManage adopt p tm" by blast
    have "touchable p adopt (h @ new @ x) k" if "k \<in> K" for x k
      by (rule touchable_listed [OF readTags_append [OF tm(1)] tm(2)]) (use assms(1) that in \<open>auto simp: sameKey_def\<close>)
    then show ?thesis
      unfolding None option.case by (intro guards_emits [OF assms(2)] settings_guard) auto
  qed (simp add: guards_ret)
qed

lemma guards_resumeKey: "guards (kmsGuard p adopt) (resumeKey v p alias opts entry l)"
  unfolding resumeKey_def Let_def cancelScheduledDeletion_def reassertKeySettings_def
  apply (rule guards_described)
  apply (intro guards_intros guards_quiet [OF emits_keyStateError] guards_quiet [OF emits_keyMissingError])
  subgoal for r meta
    by (rule guards_verified [where K = "{mr_ARN entry, km_KeyId meta}"], force simp: sameKey_def, intro kms_rules2)
      (simp_all add: settings_harmless)
  done

lemma guards_adoptKey:
  "guards (\<lambda>x. kmsGuard p (ko_adopt opts) ([KMSCall (DescribeKey alias (Inr meta))] @ x)) (adoptKey v p alias n opts meta l)"
  unfolding adoptKey_def settleAdoptedKey_def Let_def
  by (rule guards_listing [where K = "{km_Arn meta, km_KeyId meta}"], force simp: sameKey_def; simp only: sum.case; intro kms_rules2)
    (auto simp: allowed_def settings_harmless dest: verdict_may)

lemma guards_createKey: "guards (kmsGuard p adopt) (createKey v p alias n opts l)"
  unfolding createKey_def kms_CreateKey_def
proof (rule guards_after_invoke [where C = "\<lambda>r. case r of Inl e \<Rightarrow> harmless | Inr meta \<Rightarrow> settings {km_Arn meta, km_KeyId meta}"], goal_cases)
  case (2 r x c)
  show ?case
  proof (cases r)
    case (Inr meta)
    with 2 have "settings {km_Arn meta, km_KeyId meta} c" by simp
    then show ?thesis by (rule settings_guard [rotated]) (auto simp: Inr touchable_def createdHere_def)
  qed (use 2 in \<open>simp add: harmless_guard\<close>)
next
  case (3 r)
  show ?case
    by (cases r; simp only: sum.case Let_def; intro kms_rules2) (simp_all add: settings_harmless)
qed (simp add: kmsGuard_def)

lemma guards_ensureKey: "guards (kmsGuard p (ko_adopt opts)) (ensureKey v p n opts l)"
  unfolding ensureKey_def Let_def
  by (intro guards_intros guards_resumeKey guards_described guards_adoptKey
      leftmono_shift [OF leftmono_kmsGuard guards_createKey])
    (simp_all only: guards_adoptKey)

lemma guards_mono: "guards G m \<Longrightarrow> (\<And>pre c. G pre c \<Longrightarrow> H pre c) \<Longrightarrow> guards H m"
  unfolding guards_def by meson

lemma guards_ensureKeys:
  "\<forall>k\<in>set ks. k_Adopt k \<longrightarrow> adopt \<Longrightarrow> guards (kmsGuard p adopt) (ensureKeys v p ks l e)"
proof (induction ks arbitrary: l e)
  case (Cons k ks)
  let ?opts = "\<lparr>ko_deletionPolicy = k_DeletionPolicy k, ko_adopt = k_Adopt k, ko_aliasParts = []\<rparr>"
  have "guards (kmsGuard p adopt) (ensureKey v p (k_Name k) ?opts l)"
    by (rule guards_mono [OF guards_ensureKey]) (use Cons.prems in \<open>cases "k_Adopt k"; auto intro: kmsGuard_adopt\<close>)
  with Cons show ?case by (auto intro!: kms_guard_rules)
qed (simp add: guards_ret)

lemma guards_scheduleDeletion: "guards (kmsGuard p adopt) (scheduleDeletion v p entry l res)"
  unfolding scheduleDeletion_def markPendingDeletion_kms_def Let_def
  by (rule guards_described, intro guards_intros guards_listing [where K = "{}"]; simp only: sum.case prod.case ball_simps; intro kms_rules2)
    (auto simp: allowed_def)

lemma guards_relinquish: "guards (kmsGuard p adopt) (relinquishIfStillTagged_kms v p entry)"
  unfolding relinquishIfStillTagged_kms_def
  by (rule guards_described, intro guards_intros guards_listing [where K = "{mr_ARN entry}"];
      simp only: sum.case prod.case ball_simps sameKey_def simp_thms; intro kms_rules2)
    (auto simp: allowed_def settings_harmless intro: mayManage_owned)

lemma guards_silent: "emits (\<lambda>_. False) m \<Longrightarrow> guards G m"
  by (erule guards_emits) simp

lemma guards_retain: "guards (kmsGuard p adopt) (retain_kms v p entry l res)"
  unfolding retain_kms_def Let_def
  by (intro kms_guard_rules guards_relinquish; intro guards_silent kms_rules2; simp)

lemma guards_holdKeyForData: "guards (kmsGuard p adopt) (holdKeyForData p entry use)"
  unfolding holdKeyForData_def by (intro guards_silent kms_rules2)

lemma guards_cleanupKeys: "guards (kmsGuard p adopt) (cleanupKeys v p declared inUse deleting es acc)"
proof (induction es arbitrary: acc)
  case (Cons e es)
  show ?case unfolding cleanupKeys.simps
    by (intro kms_guard_rules Cons.IH guards_holdKeyForData guards_retain guards_scheduleDeletion)
qed (simp add: guards_ret)

section \<open>Which keys can be scheduled for deletion\<close>

text \<open>The calls of a cleanup, with the deletions it may schedule.\<close>

definition schedulesOnly :: "(string \<Rightarrow> int \<Rightarrow> bool) \<Rightarrow> call \<Rightarrow> bool" where
  "schedulesOnly ok c \<longleftrightarrow> (\<forall>k n r. c = KMSCall (ScheduleKeyDeletion k n r) \<longrightarrow> ok k n)"

lemma schedulesOnly_simps [simp]:
  "schedulesOnly ok (KMSCall (DescribeKey k r1))" "schedulesOnly ok (KMSCall (GetKeyPolicy k r4))"
  "schedulesOnly ok (KMSCall (PutKeyPolicy k d r2))" "schedulesOnly ok (KMSCall (ListResourceTags k m r5))"
  "schedulesOnly ok (KMSCall (UntagKey k ks r2))" "schedulesOnly ok (KMSCall (TagKey k t r2))"
  "schedulesOnly ok (KMSCall (ScheduleKeyDeletion k n r2)) \<longleftrightarrow> ok k n"
  by (simp_all add: schedulesOnly_def)

text \<open>An entry whose key a cleanup may schedule: undeclared, of policy Delete, and pending for the quiet window.\<close>

definition deletable :: "pass \<Rightarrow> ManagedResource \<Rightarrow> bool" where
  "deletable p e \<longleftrightarrow> mr_DeletionPolicy e = DeletionPolicyDelete
     \<and> (\<exists>t. mr_PendingDeletionSince e = Some t \<and> since (ps_now p) t \<ge> deletionQuietWindow_kms)"

lemma emits_scheduleDeletion:
  assumes "deletable p entry \<Longrightarrow> ok (mr_ARN entry) scheduledDeletionWindowDays"
    and "mr_DeletionPolicy entry = DeletionPolicyDelete"
  shows "emits (schedulesOnly ok) (scheduleDeletion v p entry l res)"
  unfolding scheduleDeletion_def
proof (intro kms_rules2)
  fix pending
  assume "mr_PendingDeletionSince entry = Some pending" "\<not> since (ps_now p) pending < deletionQuietWindow_kms"
  then have "deletable p entry" using assms(2) by (simp add: deletable_def)
  then show "schedulesOnly ok (KMSCall (ScheduleKeyDeletion (mr_ARN entry) scheduledDeletionWindowDays r))" for r
    using assms(1) by simp
qed simp_all

lemma emits_retain: "emits (schedulesOnly ok) (retain_kms v p entry l res)"
  unfolding retain_kms_def relinquishIfStillTagged_kms_def Let_def by (intro kms_rules2) simp_all

lemma emits_holdKeyForData: "emits C (holdKeyForData p entry use)"
  unfolding holdKeyForData_def by (intro kms_rules2)

text \<open>The entry a held key goes on as: the same key, never of policy Delete.\<close>

lemma bind_holdKeyForData:
  "State_Monad.bind (holdKeyForData p e use) f =
     (if \<not> ku_Retained use then f (e, True)
      else State_Monad.bind (if mr_DeletionPolicy e = DeletionPolicyDelete
          then recordEvent p ''Warning'' ''KeyRetainedForData'' [mr_Name e, mr_ARN e] else ret ())
        (\<lambda>_. f (e\<lparr>mr_DeletionPolicy := DeletionPolicyRetain\<rparr>, False)))"
  by (simp add: holdKeyForData_def)

lemma emits_cleanupKeys:
  assumes "\<And>e. e \<in> set es \<Longrightarrow> mr_Type e = TypeKMS \<Longrightarrow> \<not> declared (mr_Name e) \<Longrightarrow> deletable p e \<Longrightarrow>
      (deleting \<longrightarrow> inUse (mr_Name e) = None) \<Longrightarrow> ok (mr_ARN e) scheduledDeletionWindowDays"
  shows "emits (schedulesOnly ok) (cleanupKeys v p declared inUse deleting es acc)"
  using assms
proof (induction es arbitrary: acc)
  case (Cons e es)
  have IH: "emits (schedulesOnly ok) (cleanupKeys v p declared inUse deleting es acc)" for acc
    by (rule Cons.IH, rule Cons.prems) simp_all
  have step: "emits (schedulesOnly ok)
      (if declared (mr_Name x) then ret (restoreDeclared_kms x l, res, None)
       else if mr_DeletionPolicy x \<noteq> DeletionPolicyDelete then retain_kms v p x l res
       else scheduleDeletion v p x l res)"
    if "mr_Type e = TypeKMS"
      "x = e \<and> (deleting \<longrightarrow> inUse (mr_Name e) = None) \<or> mr_DeletionPolicy x = DeletionPolicyRetain" for x l res
    by (intro emits_if emits_ret emits_retain emits_scheduleDeletion)
      (use that Cons.prems [of e] in auto)
  show ?case
  proof (cases "mr_Type e = TypeKMS")
    case False
    then show ?thesis by (cases acc) (simp add: IH)
  next
    case True
    show ?thesis
    proof (cases "deleting \<and> inUse (mr_Name e) \<noteq> None")
      case False
      then have x: "(case inUse (mr_Name e) of
            Some use \<Rightarrow> if deleting then holdKeyForData p e use else ret (e, False)
          | None \<Rightarrow> ret (e, False)) = ret (e, False)" by (auto split: option.split)
      show ?thesis unfolding cleanupKeys.simps x
        unfolding State_Monad.bind_left_identity prod.case if_False
        by (intro emits_intros IH step) (use True False in auto)
    next
      case held: True
      then obtain use where "inUse (mr_Name e) = Some use" "deleting" by auto
      then have x: "(case inUse (mr_Name e) of
            Some use \<Rightarrow> if deleting then holdKeyForData p e use else ret (e, False)
          | None \<Rightarrow> ret (e, False)) = holdKeyForData p e use" by simp
      show ?thesis unfolding cleanupKeys.simps x bind_holdKeyForData prod.case if_False if_True
        by (intro step emits_intros IH emits_retain) (auto simp: True)
    qed
  qed
qed (simp add: emits_ret)

section \<open>The ledger after ensuring a key\<close>

text \<open>
  The outcome of ensuring the key \<open>n\<close>: no other entry changes, and without an error there is a
  verified entry with the wanted policy.
\<close>

definition ensured :: "string \<Rightarrow> DeletionPolicy \<Rightarrow> ledger \<Rightarrow> ledger \<times> go_error option \<Rightarrow> bool" where
  "ensured n pol l res = (case res of (l', err) \<Rightarrow>
     (\<forall>t m. (t, m) \<noteq> (TypeKMS, n) \<longrightarrow> FindManagedResource l' t m = FindManagedResource l t m)
     \<and> (distinct (map mr_key l) \<longrightarrow> distinct (map mr_key l'))
     \<and> (err = None \<longrightarrow> (\<exists>e. FindManagedResource l' TypeKMS n = Some e \<and> mr_State e = StateVerified
          \<and> mr_DeletionPolicy e = pol)))"

lemma Find_recordKey:
  "FindManagedResource (recordKey p l n arn pol st) t m =
     (if (t, m) = (TypeKMS, n) then Some (upserted (FindManagedResource l t m)
        (zeroManagedResource\<lparr>mr_Type := TypeKMS, mr_Name := n, mr_ARN := arn, mr_DeletionPolicy := pol,
          mr_CreatedAt := (case FindManagedResource l TypeKMS n of Some x \<Rightarrow> mr_CreatedAt x | None \<Rightarrow> ps_now p),
          mr_LastVerifiedAt := Some (ps_now p), mr_State := st\<rparr>))
      else FindManagedResource l t m)"
  by (simp add: recordKey_def Let_def Find_Upsert)

lemma upserted_fields [simp]:
  "mr_ARN (upserted o' e) = mr_ARN e" "mr_State (upserted o' e) = mr_State e"
  "mr_DeletionPolicy (upserted o' e) = mr_DeletionPolicy e" "mr_Type (upserted o' e) = mr_Type e"
  "mr_Name (upserted o' e) = mr_Name e" "mr_LastVerifiedAt (upserted o' e) = mr_LastVerifiedAt e"
  "mr_PendingDeletionSince (upserted o' e) = mr_PendingDeletionSince e"
  by (cases o'; simp)+

lemma distinct_recordKey: "distinct (map mr_key l) \<Longrightarrow> distinct (map mr_key (recordKey p l n arn pol st))"
  by (simp add: recordKey_def Let_def Upsert_distinct)

lemma ensured_error [simp]: "ensured n pol l (l, Some e)"
  by (simp add: ensured_def)

lemma ensured_recordKey:
  "err = None \<and> st = StateVerified \<or> err \<noteq> None \<Longrightarrow> ensured n pol l (recordKey p l n arn pol st, err)"
  by (auto simp: ensured_def Find_recordKey distinct_recordKey)

lemma ensured_twice:
  "ensured n pol l (recordKey p (recordKey p l n arn pol st) n arn' pol StateVerified, None)"
  by (simp add: ensured_def Find_recordKey distinct_recordKey)

lemma returns_createKey: "returns (ensured n (ko_deletionPolicy opts) l) (createKey v p alias n opts l)"
  unfolding createKey_def Let_def
  by (intro returns_intros) (auto intro: ensured_recordKey ensured_twice)

lemma returns_adoptKey: "returns (ensured n (ko_deletionPolicy opts) l) (adoptKey v p alias n opts meta l)"
  unfolding adoptKey_def settleAdoptedKey_def Let_def
  by (intro returns_intros) (auto intro: ensured_recordKey)

lemma returns_resumeKey:
  assumes "FindManagedResource l TypeKMS n = Some e"
  shows "returns (ensured n (ko_deletionPolicy opts) l) (resumeKey v p alias opts e l)"
proof -
  have key: "mr_Type e = TypeKMS" "mr_Name e = n" using Find_key [OF assms] by simp_all
  have "ensured n pol l (UpsertManagedResource l (e\<lparr>mr_DeletionPolicy := pol\<rparr>), None)"
    if "\<not> NeedsRevalidation (ps_now p) e" for pol
    using that key
    by (auto simp: ensured_def Find_Upsert NeedsRevalidation_def Upsert_distinct split: if_splits)
  then show ?thesis
    unfolding resumeKey_def Let_def
    by (intro returns_intros) (auto simp: key intro: ensured_recordKey)
qed

lemma returns_ensureKey: "returns (ensured n (ko_deletionPolicy opts) l) (ensureKey v p n opts l)"
  unfolding ensureKey_def Let_def
  by (intro returns_intros returns_resumeKey returns_createKey returns_adoptKey) simp_all

text \<open>Ensuring all declared keys.\<close>

lemma returns_ensureKeys:
  "returns (\<lambda>(l', err).
     (\<forall>t m. t \<noteq> TypeKMS \<or> m \<notin> set (map k_Name ks) \<longrightarrow> FindManagedResource l' t m = FindManagedResource l t m)
     \<and> (distinct (map mr_key l) \<longrightarrow> distinct (map mr_key l'))
     \<and> (err = None \<longrightarrow> e0 = None \<and> (distinct (map k_Name ks) \<longrightarrow> (\<forall>k\<in>set ks. \<exists>e.
          FindManagedResource l' TypeKMS (k_Name k) = Some e \<and> mr_State e = StateVerified
          \<and> mr_DeletionPolicy e = k_DeletionPolicy k)))) (ensureKeys v p ks l e0)"
proof (induction ks arbitrary: l e0)
  case (Cons k ks)
  let ?opts = "\<lparr>ko_deletionPolicy = k_DeletionPolicy k, ko_adopt = k_Adopt k, ko_aliasParts = []\<rparr>"
  show ?case unfolding ensureKeys.simps
    apply (rule returns_bind [OF returns_ensureKey])
    apply (rule returns_prod)
    apply (rule returns_mono [OF Cons.IH])
    apply (clarsimp simp: ensured_def split: if_splits)
    done
qed (simp add: returns_ret)

section \<open>A new key is recorded before it is used\<close>

definition recordedAs :: "string \<Rightarrow> string \<Rightarrow> ledger \<Rightarrow> bool" where
  "recordedAs n arn l \<longleftrightarrow> (\<exists>e. FindManagedResource l TypeKMS n = Some e \<and> mr_ARN e = arn)"

definition checkpointGuard :: "pass \<Rightarrow> string \<Rightarrow> history \<Rightarrow> call \<Rightarrow> bool" where
  "checkpointGuard p n pre c = (case c of
     KMSCall (CreateKey t r) \<Rightarrow> pre = [] \<and> t = ownerTags p
   | KMSCall _ \<Rightarrow> \<exists>meta ns crName s cr. KMSCall (CreateKey (ownerTags p) (Inr meta)) \<in> set pre
        \<and> K8sCall (PatchStatus ns crName (ps_original p) s (Inr cr)) \<in> set pre \<and> recordedAs n (km_Arn meta) (st_ManagedResources s)
   | _ \<Rightarrow> True)"

definition afterCreate :: "call \<Rightarrow> bool" where
  "afterCreate c \<longleftrightarrow> (\<forall>t r. c \<noteq> KMSCall (CreateKey t r))"

lemma recordedAs_recordKey [simp]: "recordedAs n arn (recordKey p l n arn pol st)"
  by (simp add: recordedAs_def Find_recordKey)

lemma createKey_checkpoints:
  assumes "ps_checkpoint p"
  shows "wp (createKey v p alias n opts l)
    (\<lambda>_ w'. \<exists>new. trace w' = trace w @ new \<and> guardedTrace (checkpointGuard p n) new) w"
proof -
  let ?r = "ka_CreateKey (env_kms v) (trace w) (ownerTags p)"
  let ?c1 = "KMSCall (CreateKey (ownerTags p) ?r)"
  have one: "guardedTrace (checkpointGuard p n) [?c1]"
    using guardedTrace_snoc [of "checkpointGuard p n" "[]" ?c1] by (simp add: checkpointGuard_def)
  show ?thesis
  proof (cases ?r)
    case (Inl e)
    with one show ?thesis by (simp add: createKey_def kms_CreateKey_def wp_simps)
  next
    case (Inr meta)
    let ?l1 = "recordKey p l n (km_Arn meta) (ko_deletionPolicy opts) StateTagPending"
    let ?cr = "withLedger (memCR w) ?l1"
    let ?k = "ha_PatchStatus (env_k8s v) (trace w @ [?c1]) (md_Namespace ?cr) (md_Name ?cr) (ps_original p) (ad_Status ?cr)"
    let ?c2 = "K8sCall (PatchStatus (md_Namespace ?cr) (md_Name ?cr) (ps_original p) (ad_Status ?cr) ?k)"
    have two: "guardedTrace (checkpointGuard p n) [?c1, ?c2]"
      using one guardedTrace_snoc [of "checkpointGuard p n" "[?c1]" ?c2] by (simp add: checkpointGuard_def)
    show ?thesis
    proof (cases ?k)
      case (Inl e)
      with two Inr assms show ?thesis
        by (simp add: createKey_def kms_CreateKey_def checkpoint_def patchStatus_def wp_simps Let_def)
    next
      case (Inr cr)
      define rest where "rest = do {
          recordEvent p ''Normal'' ''KeyCreated'' [km_Arn meta];
          e \<leftarrow> ensureKeyPolicy v (km_Arn meta);
          case e of
            Some err \<Rightarrow> ret (?l1, Some (wrapAWSError err ''setting KMS key policy''))
          | None \<Rightarrow> do {
              rot \<leftarrow> kms_EnableKeyRotation v (km_KeyId meta);
              case rot of
                Inl err \<Rightarrow> ret (?l1, Some (wrapAWSError (ExtError err) ''enabling automatic key rotation''))
              | Inr _ \<Rightarrow> do {
                  e2 \<leftarrow> ensureAlias v alias (km_Arn meta) (km_KeyId meta);
                  case e2 of
                    Some err \<Rightarrow> ret (?l1, Some err)
                  | None \<Rightarrow> do {
                      recordEvent p ''Normal'' ''KeyAliasCreated'' [alias, km_Arn meta];
                      ret (recordKey p ?l1 n (km_Arn meta) (ko_deletionPolicy opts) StateVerified, None)
                    }
                }
            }
        }"
      have e: "emits afterCreate rest"
        unfolding rest_def by (intro kms_rules2) (simp_all add: afterCreate_def)
      have g: "checkpointGuard p n ([?c1, ?c2] @ x) c" if "afterCreate c" for x c
        using that Inr \<open>?r = Inr meta\<close> recordedAs_recordKey [of n "km_Arn meta"]
        by (fastforce simp: checkpointGuard_def afterCreate_def split: call.split kms_call.split)
      let ?w2 = "w\<lparr>trace := trace w @ [?c1, ?c2], memCR := cr\<rparr>"
      have "wp rest (\<lambda>_ w'. \<exists>new. trace w' = trace w @ new \<and> guardedTrace (checkpointGuard p n) new) ?w2"
        by (rule wp_guard_tail [OF _ two e g]) simp
      then show ?thesis
        using \<open>?r = Inr meta\<close> Inr assms
        unfolding rest_def createKey_def kms_CreateKey_def checkpoint_def patchStatus_def
        by (simp add: wp_bind wp_invoke wp_sum wp_option wp_if wp_ret wp_getCR wp_setCR Let_def)
    qed
  qed
qed

section \<open>Merging the service statements\<close>

definition editSid :: "(string \<rightharpoonup> json) \<Rightarrow> string \<Rightarrow> json list \<Rightarrow> json list \<times> bool" where
  "editSid wanted sid ss = (case wanted sid of Some stmt \<Rightarrow> Upsert ss sid stmt | None \<Rightarrow> Remove ss sid)"

text \<open>The statements under a Sid are as the grants want them.\<close>

definition settled :: "(string \<rightharpoonup> json) \<Rightarrow> string \<Rightarrow> json list \<Rightarrow> bool" where
  "settled wanted sid ss = (case wanted sid of
     Some stmt \<Rightarrow> \<exists>s rest. under sid ss = s # rest \<and> equivalent s stmt | None \<Rightarrow> under sid ss = [])"

lemma mergeSid_edit:
  "mergeSid wanted sid (ss, b) = (fst (editSid wanted sid ss), b \<or> snd (editSid wanted sid ss))"
  by (simp add: mergeSid_def editSid_def split_beta split: option.split)

lemma editSid_changed: "snd (editSid wanted sid ss) \<longleftrightarrow> \<not> settled wanted sid ss"
  by (simp add: editSid_def settled_def Upsert_changed_iff Remove_changed_iff split: option.split)

definition wantsOwnSid :: "(string \<rightharpoonup> json) \<Rightarrow> bool" where
  "wantsOwnSid wanted \<longleftrightarrow> (\<forall>sid stmt. wanted sid = Some stmt \<longrightarrow> sidOf stmt = sid)"

lemma editSid_settled:
  assumes "wantsOwnSid wanted"
  shows "settled wanted sid (fst (editSid wanted sid ss))"
proof (cases "wanted sid")
  case None
  then show ?thesis by (simp add: settled_def editSid_def Remove_def Let_def)
next
  case (Some stmt)
  then have "sidOf stmt = sid" using assms by (simp add: wantsOwnSid_def)
  from Upsert_idem [OF this, of ss] Some show ?thesis
    using Upsert_changed_iff [of "fst (Upsert ss sid stmt)" sid stmt] by (simp add: settled_def editSid_def)
qed

lemma editSid_others:
  assumes "wantsOwnSid wanted"
  shows "filter (\<lambda>s. sidOf s \<noteq> sid) (fst (editSid wanted sid ss)) = filter (\<lambda>s. sidOf s \<noteq> sid) ss"
  using assms Upsert_others by (auto simp: editSid_def wantsOwnSid_def Remove_def Let_def split: option.split)

lemma settled_editSid_other:
  assumes "wantsOwnSid wanted" "sid' \<noteq> sid"
  shows "settled wanted sid' (fst (editSid wanted sid ss)) = settled wanted sid' ss"
  unfolding settled_def under_of_others [OF editSid_others [OF assms(1)] assms(2)] ..

lemma sidOf_serviceStatement [simp]: "sidOf (serviceStatement account sid service arns) = sid"
  by (simp add: serviceStatement_def equalFold_def lowerByte_def)

lemma sids_differ [simp]: "sidSNSDelivery \<noteq> sidCloudWatchAlarms" "sidCloudWatchAlarms \<noteq> sidSNSDelivery"
  by (simp_all add: sidSNSDelivery_def sidCloudWatchAlarms_def)

lemma serviceKeyStatements_own: "wantsOwnSid (serviceKeyStatements account g)"
  by (auto simp: wantsOwnSid_def serviceKeyStatements_def Let_def split: if_splits)

text \<open>
  Both Sids are settled afterwards, every other statement is as before, and doing it again changes nothing.
\<close>

lemma mergeGrants_spec:
  fixes account g ss b
  defines "wanted \<equiv> serviceKeyStatements account g"
  defines "out \<equiv> mergeGrants account (Some g) (ss, b)"
  shows "settled wanted sidSNSDelivery (fst out)" "settled wanted sidCloudWatchAlarms (fst out)"
    and "filter (\<lambda>s. sidOf s \<notin> {sidSNSDelivery, sidCloudWatchAlarms}) (fst out) =
         filter (\<lambda>s. sidOf s \<notin> {sidSNSDelivery, sidCloudWatchAlarms}) ss"
    and "mergeGrants account (Some g) (fst out, False) = (fst out, False)"
    and "\<not> snd out \<Longrightarrow> fst out = ss"
proof -
  have own: "wantsOwnSid wanted" unfolding wanted_def by (rule serviceKeyStatements_own)
  define s1 where "s1 = fst (editSid wanted sidSNSDelivery ss)"
  define s2 where "s2 = fst (editSid wanted sidCloudWatchAlarms s1)"
  have out: "fst out = s2"
    by (simp add: out_def mergeGrants_def mergeSid_edit Let_def s1_def s2_def wanted_def)
  have a: "settled wanted sidSNSDelivery s1" unfolding s1_def by (rule editSid_settled [OF own])
  then show A: "settled wanted sidSNSDelivery (fst out)"
    unfolding out s2_def using settled_editSid_other [OF own] by simp
  show B: "settled wanted sidCloudWatchAlarms (fst out)"
    unfolding out s2_def by (rule editSid_settled [OF own])
  have two: "filter (\<lambda>s. sidOf s \<notin> {sidSNSDelivery, sidCloudWatchAlarms}) x =
      filter (\<lambda>s. sidOf s \<noteq> k') (filter (\<lambda>s. sidOf s \<noteq> k) x)"
    if "{k, k'} = {sidSNSDelivery, sidCloudWatchAlarms}" for x k k'
    using that by (simp add: filter_filter) (metis insertCI insertE singletonD)
  show "filter (\<lambda>s. sidOf s \<notin> {sidSNSDelivery, sidCloudWatchAlarms}) (fst out) =
         filter (\<lambda>s. sidOf s \<notin> {sidSNSDelivery, sidCloudWatchAlarms}) ss"
    unfolding out s2_def two [of sidCloudWatchAlarms sidSNSDelivery, OF insert_commute] editSid_others [OF own]
    unfolding two [of sidCloudWatchAlarms sidSNSDelivery, OF insert_commute, symmetric]
    unfolding s1_def two [of sidSNSDelivery sidCloudWatchAlarms, OF refl] editSid_others [OF own] ..
  have same: "fst (editSid wanted k x) = x" if "settled wanted k x" for k x
    using that editSid_changed [of wanted k x] Upsert_unchanged [of x k] Remove_unchanged [of x k]
    by (auto simp: editSid_def split: option.splits)
  show "mergeGrants account (Some g) (fst out, False) = (fst out, False)"
    using A B same editSid_changed by (simp add: mergeGrants_def mergeSid_edit Let_def wanted_def)
  assume "\<not> snd out"
  then have "settled wanted sidSNSDelivery ss" "settled wanted sidCloudWatchAlarms s1"
    by (simp_all add: out_def mergeGrants_def mergeSid_edit Let_def s1_def wanted_def editSid_changed)
  then show "fst out = ss" unfolding out s2_def s1_def using same by metis
qed

lemma Upsert_set: "set (fst (Upsert ss sid stmt)) \<subseteq> insert stmt (set ss)"
  by (induction ss) (auto simp: split_beta Let_def)

lemma mergeGrants_wf:
  assumes "\<forall>s\<in>set ss. wfJSON s"
  shows "\<forall>s\<in>set (fst (mergeGrants account (Some g) (ss, b))). wfJSON s"
proof -
  have w: "wfJSON stmt" if "serviceKeyStatements account g sid = Some stmt" for sid stmt
    using that by (auto simp: serviceKeyStatements_def serviceStatement_def Let_def split: if_splits)
  have e: "\<forall>s\<in>set (fst (editSid (serviceKeyStatements account g) sid xs)). wfJSON s"
    if "\<forall>s\<in>set xs. wfJSON s" for sid xs
  proof (cases "serviceKeyStatements account g sid")
    case None
    then show ?thesis using that by (simp add: editSid_def Remove_def Let_def)
  next
    case (Some stmt)
    then show ?thesis using that w [OF Some] Upsert_set [of xs sid stmt] by (auto simp: editSid_def)
  qed
  show ?thesis using e [OF e [OF assms]] by (simp add: mergeGrants_def mergeSid_edit Let_def)
qed

text \<open>The statements of a policy text.\<close>

definition policyStatements :: "string \<Rightarrow> json list" where
  "policyStatements policy = (case parseJSON policy of
     Some (JObj kvs) \<Rightarrow> statementList (map_of (canonObj kvs) ''Statement'') | _ \<Rightarrow> [])"

lemma wf_statementList: "wfJSON (JObj kvs) \<Longrightarrow> \<forall>s\<in>set (statementList (map_of (canonObj kvs) k)). wfJSON s"
proof -
  assume wf: "wfJSON (JObj kvs)"
  show ?thesis
  proof (cases "map_of (canonObj kvs) k")
    case (Some j)
    then have "(k, j) \<in> set kvs" using canonObj_set map_of_SomeD by metis
    with wf have "wfJSON j" by auto
    with Some show ?thesis by (cases j) (auto simp: statementList_def)
  qed (simp add: statementList_def)
qed

lemma written_policy:
  assumes "\<forall>s\<in>set stmts. wfJSON s" "\<forall>kv\<in>set doc. wfJSON (snd kv)"
  defines "D \<equiv> canonObj (doc @ [(''Statement'', JArr stmts)])"
  shows "parseJSON (renderJSON (JObj D)) = Some (JObj D)" "policyStatements (renderJSON (JObj D)) = stmts"
    "renderJSON (JObj D) \<noteq> []" "canonObj D = D"
proof -
  have "wfJSON (JObj D)" using assms(1,2) canonObj_set unfolding D_def by fastforce
  then show p: "parseJSON (renderJSON (JObj D)) = Some (JObj D)" by (rule parse_render)
  show "canonObj D = D" by (simp add: D_def)
  have "map_of D ''Statement'' = Some (JArr stmts)" by (simp add: D_def map_of_canonObj)
  with p show "policyStatements (renderJSON (JObj D)) = stmts"
    by (simp add: policyStatements_def D_def statementList_def)
qed simp

section \<open>Properties\<close>

text \<open>Bringing the service statements of a key policy in line with the grants touches nothing else.
  Afterwards each of the two Sids of the operator carries the wanted statement, or none when
  nothing needs it; every statement under another Sid is there, unchanged and in order (plus the
  account root statement when there was no policy at all); the text written is one that reads back
  as that policy; and merging once more changes nothing.\<close>

theorem key_policy_merge:
  assumes "mergeKeyPolicy policy account (Some g) = Inr (merged, changed)"
  shows "(\<not> changed \<longrightarrow> merged = policy)
       \<and> (changed \<longrightarrow>
            settled (serviceKeyStatements account g) sidSNSDelivery (policyStatements merged)
          \<and> settled (serviceKeyStatements account g) sidCloudWatchAlarms (policyStatements merged)
          \<and> filter (\<lambda>s. sidOf s \<notin> {sidSNSDelivery, sidCloudWatchAlarms}) (policyStatements merged)
            = filter (\<lambda>s. sidOf s \<notin> {sidSNSDelivery, sidCloudWatchAlarms})
                (if policy = [] then [rootStatement account] else policyStatements policy)
          \<and> mergeKeyPolicy merged account (Some g) = Inr (merged, False))"
proof (cases changed)
  case False
  then show ?thesis
    using assms by (auto simp: mergeKeyPolicy_def Let_def split: option.splits json.splits prod.splits if_splits)
next
  case True
  obtain kvs where kvs: "(if policy = [] then Some (JObj []) else parseJSON policy) = Some (JObj kvs)"
    using assms True by (auto simp: mergeKeyPolicy_def split: option.splits json.splits prod.splits if_splits)
  define ss0 where "ss0 = (if policy = [] then [rootStatement account] else policyStatements policy)"
  define doc1 where "doc1 = (if policy = [] then canonObj (canonObj kvs @ [(''Version'', JStr ''2012-10-17'')]) else canonObj kvs)"
  define out where "out = mergeGrants account (Some g) (ss0, policy = [])"
  have wfk: "wfJSON (JObj kvs)"
  proof (cases "policy = []")
    case False
    then have "parseJSON policy = Some (JObj kvs)" using kvs by simp
    then show ?thesis by (rule parse_wf)
  qed (use kvs in simp)
  have acc: "(if policy = [] then (statementList (map_of (canonObj kvs) ''Statement'') @ [rootStatement account], True)
      else (statementList (map_of (canonObj kvs) ''Statement''), False)) = (ss0, policy = [])"
    using kvs by (auto simp: ss0_def policyStatements_def canonObj_def statementList_def)
  have m: "mergeKeyPolicy policy account (Some g) =
      (if \<not> snd out then Inr (policy, False)
       else Inr (renderJSON (JObj (canonObj (doc1 @ [(''Statement'', JArr (fst out))]))), True))"
    using kvs acc unfolding mergeKeyPolicy_def Let_def doc1_def out_def
    by (simp add: split_beta)
  have merged: "merged = renderJSON (JObj (canonObj (doc1 @ [(''Statement'', JArr (fst out))])))"
    using m assms True by (auto split: if_splits)
  have "\<forall>s\<in>set ss0. wfJSON s"
    using wf_statementList [OF wfk, of "''Statement''"] kvs by (auto simp: ss0_def policyStatements_def rootStatement_def)
  then have wf1: "\<forall>s\<in>set (fst out). wfJSON s" unfolding out_def by (rule mergeGrants_wf)
  have wf2: "\<forall>kv\<in>set doc1. wfJSON (snd kv)"
  proof
    fix kv assume "kv \<in> set doc1"
    then have "kv \<in> set kvs \<or> kv = (''Version'', JStr ''2012-10-17'')"
      by (auto simp: doc1_def dest!: canonObj_set split: if_splits)
    then show "wfJSON (snd kv)" using wfk by auto
  qed
  note W = written_policy [OF wf1 wf2, folded merged]
  have again: "mergeKeyPolicy merged account (Some g) = Inr (merged, False)"
    using W mergeGrants_spec(4) [of account g ss0 "policy = []"]
    by (simp add: mergeKeyPolicy_def Let_def policyStatements_def out_def)
  show ?thesis
    using True again W(2) mergeGrants_spec(1,2,3) [of account g ss0 "policy = []"]
    unfolding ss0_def out_def by simp
qed

theorem key_policy_merge_witness:
  "\<exists>merged. mergeKeyPolicy [] ''123'' (Some \<lparr>sg_SNSTopicARNs = [''arn:t''], sg_AlarmARNs = []\<rparr>) = Inr (merged, True)
     \<and> mergeKeyPolicy merged ''123'' (Some \<lparr>sg_SNSTopicARNs = [''arn:t''], sg_AlarmARNs = []\<rparr>) = Inr (merged, False)"
proof -
  have "\<exists>merged. mergeKeyPolicy [] ''123'' (Some \<lparr>sg_SNSTopicARNs = [''arn:t''], sg_AlarmARNs = []\<rparr>) = Inr (merged, True)"
    by (simp add: mergeKeyPolicy_def mergeGrants_def mergeSid_edit Let_def)
  then show ?thesis using key_policy_merge by blast
qed

text \<open>C6: Whatever AWS answers, ensuring declared and dedicated keys and cleaning keys up change a key only when it is theirs. A deletion
  that is scheduled and a removal of owner tags come after a complete listing of that key's tags in the same run which showed it owned by
  this custom resource. Every other change (tagging, the key policy, rotation, enabling, cancelling a deletion, an alias) is made to
  a key whose complete listing showed that it may be managed: it is owned; or it is owned by the previous incarnation that the
  takeover annotation names; or it is declared with adopt, names no other owner and no other incarnation. The only other keys
  changed are those created in the same run, which are created with the owner tags. Adoption is never allowed for a dedicated key or in
  the cleanup. The statements for other services that the controller adds to the policies of its keys afterwards are not part of this.\<close>

theorem keys_touched_only_when_ours:
  "guards (kmsGuard p (ko_adopt opts)) (ensureKey v p n opts l)
   \<and> guards (kmsGuard p (\<exists>s k. spec = Some s \<and> k \<in> set (kms_Resources s) \<and> k_Adopt k)) (Ensure_kms v p spec l)
   \<and> guards (kmsGuard p False) (EnsureDedicatedKey v p ownerType resourceName pol l)
   \<and> guards (kmsGuard p False) (Cleanup_kms v p spec inUse l deleting)"
proof -
  have "guards (kmsGuard p False) (ensureKey v p m \<lparr>ko_deletionPolicy = pol, ko_adopt = False, ko_aliasParts = as\<rparr> l)" for m as
    using guards_ensureKey [where opts = "\<lparr>ko_deletionPolicy = pol, ko_adopt = False, ko_aliasParts = as\<rparr>"] by simp
  then show ?thesis
    unfolding Ensure_kms_def EnsureDedicatedKey_def Cleanup_kms_def Let_def
    by (intro conjI kms_guard_rules guards_ensureKeys guards_ensureKey guards_cleanupKeys) auto
qed

text \<open>C3: The cleanup schedules the deletion of a key only for an entry of the ledger that is a key
  with deletion policy Delete, has been pending for the whole quiet window, is needed by no
  resource, and (outside the deletion of the custom resource) is not declared; and always with the
  longest window AWS offers. During the deletion of the custom resource a key that data still needs
  waits, or is kept when that data is kept.\<close>

theorem key_deletion_conditions:
  "emits (schedulesOnly (\<lambda>k days. days = 30 \<and> (\<exists>e\<in>set l. mr_Type e = TypeKMS \<and> mr_ARN e = k
       \<and> mr_DeletionPolicy e = DeletionPolicyDelete
       \<and> (\<exists>t. mr_PendingDeletionSince e = Some t \<and> since (ps_now p) t \<ge> 10 * minute)
       \<and> inUse (mr_Name e) = None
       \<and> (deleting \<or> (\<forall>s. spec = Some s \<longrightarrow> mr_Name e \<notin> k_Name ` set (kms_Resources s))))))
     (Cleanup_kms v p spec inUse l deleting)"
  unfolding Cleanup_kms_def
proof (rule emits_cleanupKeys)
  fix e
  assume e: "e \<in> set l" "mr_Type e = TypeKMS" and nd: "\<not> declaredKeyNames spec inUse deleting (mr_Name e)"
    and d: "deletable p e" and u: "deleting \<longrightarrow> inUse (mr_Name e) = None"
  have "inUse (mr_Name e) = None" using nd u by (auto simp: declaredKeyNames_def split: if_splits)
  moreover have "deleting \<or> (\<forall>s. spec = Some s \<longrightarrow> mr_Name e \<notin> k_Name ` set (kms_Resources s))"
    using nd by (auto simp: declaredKeyNames_def split: if_splits)
  ultimately show "scheduledDeletionWindowDays = 30 \<and> (\<exists>x\<in>set l. mr_Type x = TypeKMS \<and> mr_ARN x = mr_ARN e
       \<and> mr_DeletionPolicy x = DeletionPolicyDelete
       \<and> (\<exists>t. mr_PendingDeletionSince x = Some t \<and> since (ps_now p) t \<ge> 10 * minute)
       \<and> inUse (mr_Name x) = None
       \<and> (deleting \<or> (\<forall>s. spec = Some s \<longrightarrow> mr_Name x \<notin> k_Name ` set (kms_Resources s))))"
    using e d by (auto simp: deletable_def deletionQuietWindow_kms_def scheduledDeletionWindowDays_def)
qed

definition demoKey :: ManagedResource where
  "demoKey = zeroManagedResource\<lparr>mr_Type := TypeKMS, mr_Name := ''main'', mr_ARN := ''arn:k'',
     mr_DeletionPolicy := DeletionPolicyDelete, mr_PendingDeletionSince := Some (- hour)\<rparr>"

theorem key_deletion_conditions_witness:
  "emits (schedulesOnly (\<lambda>k days. days = 30 \<and> k = ''arn:k''))
     (Cleanup_kms refusingEnv demoPass None Map.empty [demoKey] False)"
proof (rule emits_mono [OF key_deletion_conditions])
  fix c
  assume "schedulesOnly (\<lambda>k days. days = 30 \<and> (\<exists>e\<in>set [demoKey]. mr_Type e = TypeKMS \<and> mr_ARN e = k
       \<and> mr_DeletionPolicy e = DeletionPolicyDelete
       \<and> (\<exists>t. mr_PendingDeletionSince e = Some t \<and> since (ps_now demoPass) t \<ge> 10 * minute)
       \<and> Map.empty (mr_Name e) = None
       \<and> (False \<or> (\<forall>s. None = Some s \<longrightarrow> mr_Name e \<notin> k_Name ` set (kms_Resources s))))) c"
  then show "schedulesOnly (\<lambda>k days. days = 30 \<and> k = ''arn:k'') c"
    by (simp add: schedulesOnly_def demoKey_def)
qed

text \<open>C27: A key that has just been created in AWS is in the persisted ledger, under its ARN, before
  anything else is done with it: in the run that creates a key, the creation comes first and
  carries the owner tags, and every later KMS call comes after a successful checkpoint of a ledger
  that records the ARN of the new key. So no crash or failure leaves a key that the next pass
  cannot find.\<close>

theorem new_key_checkpointed_before_use:
  assumes "ps_checkpoint p" "run_state (createKey v p alias n opts l) w = (res, w')"
  shows "\<exists>new. trace w' = trace w @ new \<and> guardedTrace (checkpointGuard p n) new"
  using wp_run [OF assms(2) createKey_checkpoints [OF assms(1)]] .

theorem new_key_checkpointed_before_use_witness:
  "\<exists>new. trace (snd (run_state (createKey refusingEnv (demoPass\<lparr>ps_checkpoint := True\<rparr>) ''alias/a'' ''main''
      \<lparr>ko_deletionPolicy = DeletionPolicyDelete, ko_adopt = False, ko_aliasParts = []\<rparr> []) start)) = [] @ new
    \<and> guardedTrace (checkpointGuard (demoPass\<lparr>ps_checkpoint := True\<rparr>) ''main'') new"
  using new_key_checkpointed_before_use [of "demoPass\<lparr>ps_checkpoint := True\<rparr>" refusingEnv "''alias/a''" "''main''"
      "\<lparr>ko_deletionPolicy = DeletionPolicyDelete, ko_adopt = False, ko_aliasParts = []\<rparr>" "[]" start, OF _ surjective_pairing]
  by (simp add: start_def)

text \<open>A reconcile of the declared keys that reports no error leaves a verified ledger entry with
  the declared policy for every one of them, changes no entry of anything else, and keeps one entry
  per key; and a key the ledger already knows is never created a second time, nor is its deletion
  scheduled.\<close>

theorem ensure_keys_complete:
  assumes "distinct (map k_Name ks)" "distinct (map mr_key l)"
  shows "returns (\<lambda>(l', err). distinct (map mr_key l')
       \<and> (\<forall>t m. t \<noteq> TypeKMS \<or> m \<notin> k_Name ` set ks \<longrightarrow> FindManagedResource l' t m = FindManagedResource l t m)
       \<and> (err = None \<longrightarrow> (\<forall>k\<in>set ks. \<exists>e. FindManagedResource l' TypeKMS (k_Name k) = Some e
            \<and> mr_State e = StateVerified \<and> mr_DeletionPolicy e = k_DeletionPolicy k)))
     (Ensure_kms v p (Some \<lparr>kms_Resources = ks\<rparr>) l)
   \<and> (\<forall>n e opts. FindManagedResource l TypeKMS n = Some e \<and> mr_State e \<noteq> StateRelinquished \<longrightarrow>
        emits resumeCalls (ensureKey v p n opts l))"
proof
  show "returns (\<lambda>(l', err). distinct (map mr_key l')
       \<and> (\<forall>t m. t \<noteq> TypeKMS \<or> m \<notin> k_Name ` set ks \<longrightarrow> FindManagedResource l' t m = FindManagedResource l t m)
       \<and> (err = None \<longrightarrow> (\<forall>k\<in>set ks. \<exists>e. FindManagedResource l' TypeKMS (k_Name k) = Some e
            \<and> mr_State e = StateVerified \<and> mr_DeletionPolicy e = k_DeletionPolicy k)))
     (Ensure_kms v p (Some \<lparr>kms_Resources = ks\<rparr>) l)"
    unfolding Ensure_kms_def option.case KMSSpec.simps
    by (rule returns_mono [OF returns_ensureKeys]) (use assms in auto)
  show "\<forall>n e opts. FindManagedResource l TypeKMS n = Some e \<and> mr_State e \<noteq> StateRelinquished \<longrightarrow>
        emits resumeCalls (ensureKey v p n opts l)"
    by (auto simp: ensureKey_def Let_def emits_resumeKey)
qed

theorem ensure_keys_complete_witness:
  "returns (\<lambda>(l', err). distinct (map mr_key l'))
     (Ensure_kms refusingEnv demoPass (Some \<lparr>kms_Resources = [\<lparr>k_Name = ''main'', k_DeletionPolicy = DeletionPolicyDelete, k_Adopt = False\<rparr>]\<rparr>) [])"
  by (rule returns_mono [OF conjunct1 [OF ensure_keys_complete]]) auto

end
