(* ===== verification/Iam_Derive.thy ===== *)
theory Iam_Derive
  imports World Decisions
begin

text \<open>
  Deriving the permissions of a custom resource's role, \<^verbatim>\<open>internal/resources/iam/derive.go\<close>: which
  actions a grant stands for, which grants a custom resource collects from what it owns and
  what other custom resources share with it, and the policy document they become. The reading of
  another custom resource is the only outside call here.
\<close>

section \<open>Actions\<close>

record actionSet =
  as_baseline :: "string list"
  as_readWrite :: "string list"

definition actionSets :: "string \<Rightarrow> actionSet" where
  "actionSets t =
     (if t = typeSQS then
        \<lparr>as_baseline = [''sqs:ReceiveMessage'', ''sqs:DeleteMessage'', ''sqs:GetQueueAttributes'', ''sqs:GetQueueUrl'',
                        ''sqs:ChangeMessageVisibility''],
         as_readWrite = [''sqs:SendMessage'']\<rparr>
      else if t = typeSNS then
        \<lparr>as_baseline = [''sns:Subscribe'', ''sns:Unsubscribe'', ''sns:GetTopicAttributes''],
         as_readWrite = [''sns:Publish'']\<rparr>
      else if t = typeDynamoDB then
        \<lparr>as_baseline = [''dynamodb:GetItem'', ''dynamodb:Query'', ''dynamodb:Scan'', ''dynamodb:BatchGetItem''],
         as_readWrite = [''dynamodb:PutItem'', ''dynamodb:UpdateItem'', ''dynamodb:DeleteItem'',
                         ''dynamodb:BatchWriteItem'', ''dynamodb:ConditionCheckItem'']\<rparr>
      else if t = TypeKMS then
        \<lparr>as_baseline = [''kms:Decrypt''], as_readWrite = [''kms:GenerateDataKey'']\<rparr>
      else \<lparr>as_baseline = [], as_readWrite = []\<rparr>)"

definition s3BucketLevelActions :: "string list" where "s3BucketLevelActions = [''s3:ListBucket'']"
definition s3ObjectBaseline :: "string list" where "s3ObjectBaseline = [''s3:GetObject'']"
definition s3ObjectReadWrite :: "string list" where
  "s3ObjectReadWrite = [''s3:PutObject'', ''s3:DeleteObject'', ''s3:AbortMultipartUpload'']"

record grant =
  g_resourceType :: string
  g_arn :: string
  g_readWrite :: bool
  g_consumed :: bool

definition notForConsumers :: "string \<Rightarrow> string list" where
  "notForConsumers t = (if t = typeSNS then [''sns:Subscribe'', ''sns:Unsubscribe''] else [])"

definition actionsFor :: "string \<Rightarrow> bool \<Rightarrow> string list" where
  "actionsFor resourceType readWrite =
     (let st = actionSets resourceType
      in if readWrite then as_baseline st @ as_readWrite st else as_baseline st)"

definition grantActions :: "grant \<Rightarrow> string list" where
  "grantActions g =
     (let actions = actionsFor (g_resourceType g) (g_readWrite g)
      in if \<not> g_consumed g then actions
         else filter (\<lambda>a. a \<notin> set (notForConsumers (g_resourceType g))) actions)"

definition s3ObjectActions :: "bool \<Rightarrow> string list" where
  "s3ObjectActions readWrite = (if readWrite then s3ObjectBaseline @ s3ObjectReadWrite else s3ObjectBaseline)"

section \<open>References to other custom resources\<close>

datatype ReferenceProblem =
  ReferenceResolved | ReferenceProducerNotFound | ReferenceResourceNotDeclared | ReferenceNotAuthorized

record producerEntry =
  pe_name :: string
  pe_sharedWith :: "SharedWithEntry list"
  pe_encryption :: "EncryptionSpec option"

definition producerEntries :: "string \<Rightarrow> AppDependenciesSpec \<Rightarrow> producerEntry list option" where
  "producerEntries t spec =
     (if t = typeSQS then Some (case sp_SQS spec of None \<Rightarrow> []
        | Some s \<Rightarrow> map (\<lambda>q. \<lparr>pe_name = q_Name q, pe_sharedWith = q_SharedWith q, pe_encryption = q_Encryption q\<rparr>) (sqs_Resources s))
      else if t = typeSNS then Some (case sp_SNS spec of None \<Rightarrow> []
        | Some s \<Rightarrow> map (\<lambda>q. \<lparr>pe_name = t_Name q, pe_sharedWith = t_SharedWith q, pe_encryption = t_Encryption q\<rparr>) (sns_Resources s))
      else if t = typeDynamoDB then Some (case sp_DynamoDB spec of None \<Rightarrow> []
        | Some s \<Rightarrow> map (\<lambda>q. \<lparr>pe_name = tb_Name q, pe_sharedWith = tb_SharedWith q, pe_encryption = tb_Encryption q\<rparr>) (ddb_Resources s))
      else if t = typeS3 then Some (case sp_S3 spec of None \<Rightarrow> []
        | Some s \<Rightarrow> map (\<lambda>q. \<lparr>pe_name = b_Name q, pe_sharedWith = b_SharedWith q, pe_encryption = b_Encryption q\<rparr>) (s3_Resources s))
      else if t = TypeRDS then Some (case sp_RDS spec of None \<Rightarrow> []
        | Some s \<Rightarrow> map (\<lambda>q. \<lparr>pe_name = i_Name q, pe_sharedWith = i_SharedWith q, pe_encryption = None\<rparr>) (rds_Resources s))
      else None)"

definition producerResource ::
  "AppDependencies \<Rightarrow> string \<Rightarrow> string \<Rightarrow> (SharedWithEntry list \<times> EncryptionSpec option) option" where
  "producerResource producer resourceType resourceName =
     (case producerEntries resourceType (ad_Spec producer) of
        None \<Rightarrow> None
      | Some entries \<Rightarrow>
          map_option (\<lambda>e. (pe_sharedWith e, pe_encryption e)) (find (\<lambda>e. pe_name e = resourceName) entries))"

record consumeLookup =
  cl_problem :: ReferenceProblem
  cl_found :: "(AppDependencies \<times> SharedWithEntry \<times> EncryptionSpec option) option"

definition lookupProblem :: "ReferenceProblem \<Rightarrow> consumeLookup" where
  "lookupProblem pr = \<lparr>cl_problem = pr, cl_found = None\<rparr>"

text \<open>The consumer is known by its namespace and name only.\<close>

definition lookupConsume :: "env \<Rightarrow> string \<Rightarrow> string \<Rightarrow> string \<Rightarrow> ConsumeRef \<Rightarrow> (consumeLookup \<times> go_error option) op" where
  "lookupConsume v ns name resourceType ref = do {
     r \<leftarrow> k8s_GetCR v (cr_Namespace ref) (cr_Name ref);
     case r of
       Inl err \<Rightarrow>
         if ex_k8s_notfound err then ret (lookupProblem ReferenceProducerNotFound, None)
         else ret (lookupProblem ReferenceResolved,
                   Some (ReconcileError (wrapf ''reading producer'' [cr_Namespace ref, cr_Name ref] (ExtError err)) True [] False))
     | Inr producer \<Rightarrow>
         (case producerResource producer resourceType (cr_ResourceName ref) of
            None \<Rightarrow> ret (lookupProblem ReferenceResourceNotDeclared, None)
          | Some (sharedWith, encryption) \<Rightarrow>
              (case find (\<lambda>s. sw_Namespace s = ns \<and> sw_Name s = name) sharedWith of
                 Some s \<Rightarrow> ret (\<lparr>cl_problem = ReferenceResolved, cl_found = Some (producer, s, encryption)\<rparr>, None)
               | None \<Rightarrow> ret (lookupProblem ReferenceNotAuthorized, None)))
   }"

definition CheckConsumeReference ::
  "env \<Rightarrow> string \<Rightarrow> string \<Rightarrow> string \<Rightarrow> ConsumeRef \<Rightarrow> (ReferenceProblem \<times> go_error option) op" where
  "CheckConsumeReference v ns name resourceType ref = do {
     (lookup, err) \<leftarrow> lookupConsume v ns name resourceType ref;
     ret (cl_problem lookup, err)
   }"

definition keyLedgerName :: "string \<Rightarrow> string \<Rightarrow> EncryptionSpec option \<Rightarrow> string" where
  "keyLedgerName resourceType name encryption =
     (case encryption of None \<Rightarrow> []
      | Some e \<Rightarrow> if en_KMSKeyRef e \<noteq> [] then en_KMSKeyRef e
                  else if en_Enabled e then DedicatedKeyLedgerName resourceType name else [])"

definition consumePrefix :: "string \<Rightarrow> string \<Rightarrow> ConsumeRef \<Rightarrow> string" where
  "consumePrefix ns name ref =
     ns @ ''/'' @ name @ '' consumes '' @ cr_Namespace ref @ ''/'' @ cr_Name ref @ [CHR 0x27] @ ''s ''
       @ quoted (cr_ResourceName ref)"

definition publishedGrants ::
  "string \<Rightarrow> string \<Rightarrow> ConsumeRef \<Rightarrow> AppDependencies \<Rightarrow> SharedWithEntry \<Rightarrow> EncryptionSpec option \<Rightarrow> grant list \<times> string" where
  "publishedGrants pfx resourceType ref producer grantedTo encryption =
     (let pl = st_ManagedResources (ad_Status producer) in
      case FindManagedResource pl resourceType (cr_ResourceName ref) of
        None \<Rightarrow> ([], pfx @ '': not reconciled there yet'')
      | Some entry \<Rightarrow>
          (let readWrite = (sw_Access grantedTo = AccessLevelReadWrite);
               g = \<lparr>g_resourceType = resourceType, g_arn = mr_ARN entry, g_readWrite = readWrite, g_consumed = True\<rparr>;
               keyName = keyLedgerName resourceType (cr_ResourceName ref) encryption
           in if keyName \<noteq> [] \<and> resourceType \<noteq> typeDynamoDB
              then (case FindManagedResource pl TypeKMS keyName of
                      None \<Rightarrow> ([], pfx @ '': its encryption key is not reconciled there yet'')
                    | Some key \<Rightarrow>
                        ([g, \<lparr>g_resourceType = TypeKMS, g_arn = mr_ARN key, g_readWrite = readWrite, g_consumed = False\<rparr>], []))
              else ([g], [])))"

text \<open>A resolved lookup always carries the producer, so the \<open>None\<close> branch below is not reached.\<close>

definition consumeOutcome :: "string \<Rightarrow> string \<Rightarrow> ConsumeRef \<Rightarrow> consumeLookup \<Rightarrow> grant list \<times> string" where
  "consumeOutcome pfx resourceType ref lookup =
     (case cl_problem lookup of
        ReferenceProducerNotFound \<Rightarrow> ([], pfx @ '': producer CR not found yet'')
      | ReferenceResourceNotDeclared \<Rightarrow> ([], pfx @ '': resource not declared there yet'')
      | ReferenceNotAuthorized \<Rightarrow> ([], pfx @ '': not authorized - owner hasn't granted this CR in sharedWith'')
      | ReferenceResolved \<Rightarrow>
          (case cl_found lookup of None \<Rightarrow> ([], [])
           | Some (producer, grantedTo, encryption) \<Rightarrow> publishedGrants pfx resourceType ref producer grantedTo encryption))"

definition resolveConsume ::
  "env \<Rightarrow> string \<Rightarrow> string \<Rightarrow> string \<Rightarrow> ConsumeRef \<Rightarrow> (grant list \<times> string \<times> go_error option) op" where
  "resolveConsume v ns name resourceType ref = do {
     (lookup, err) \<leftarrow> lookupConsume v ns name resourceType ref;
     case err of
       Some e \<Rightarrow> ret ([], [], Some e)
     | None \<Rightarrow> (case consumeOutcome (consumePrefix ns name ref) resourceType ref lookup of
                  (grants, reason) \<Rightarrow> ret (grants, reason, None))
   }"

definition ResolveConsumeARN ::
  "env \<Rightarrow> string \<Rightarrow> string \<Rightarrow> string \<Rightarrow> ConsumeRef \<Rightarrow> (string option \<times> go_error option) op" where
  "ResolveConsumeARN v ns name resourceType ref = do {
     (grants, reason, err) \<leftarrow> resolveConsume v ns name resourceType ref;
     if err \<noteq> None \<or> reason \<noteq> [] then ret (None, err)
     else (case grants of g # _ \<Rightarrow> ret (Some (g_arn g), None)
           | [] \<Rightarrow> ret (None, Some (msgError ''panic: index out of range'' [])))
   }"

section \<open>Collecting grants\<close>

record ownedResource =
  or_name :: string
  or_dedicatedKey :: bool

record grantSection =
  gs_resourceType :: string
  gs_owned :: "ownedResource list"
  gs_consumes :: "ConsumeRef list"

definition ownedOf :: "('t \<Rightarrow> string) \<Rightarrow> ('t \<Rightarrow> EncryptionSpec option) \<Rightarrow> 't list \<Rightarrow> ownedResource list" where
  "ownedOf nm enc items =
     map (\<lambda>x. \<lparr>or_name = nm x, or_dedicatedKey = (case enc x of None \<Rightarrow> False | Some e \<Rightarrow> en_Enabled e)\<rparr>) items"

definition grantSections :: "AppDependencies \<Rightarrow> grantSection list" where
  "grantSections cr =
     (case sp_SQS (ad_Spec cr) of None \<Rightarrow> []
      | Some s \<Rightarrow> [\<lparr>gs_resourceType = typeSQS, gs_owned = ownedOf q_Name q_Encryption (sqs_Resources s), gs_consumes = sqs_Consumes s\<rparr>])
   @ (case sp_SNS (ad_Spec cr) of None \<Rightarrow> []
      | Some s \<Rightarrow> [\<lparr>gs_resourceType = typeSNS, gs_owned = ownedOf t_Name t_Encryption (sns_Resources s), gs_consumes = sns_Consumes s\<rparr>])
   @ (case sp_DynamoDB (ad_Spec cr) of None \<Rightarrow> []
      | Some s \<Rightarrow> [\<lparr>gs_resourceType = typeDynamoDB, gs_owned = ownedOf tb_Name tb_Encryption (ddb_Resources s), gs_consumes = ddb_Consumes s\<rparr>])
   @ (case sp_S3 (ad_Spec cr) of None \<Rightarrow> []
      | Some s \<Rightarrow> [\<lparr>gs_resourceType = typeS3, gs_owned = ownedOf b_Name b_Encryption (s3_Resources s), gs_consumes = s3_Consumes s\<rparr>])"

definition recordOwned ::
  "AppDependencies \<Rightarrow> string \<Rightarrow> string \<Rightarrow> grant list \<times> string list \<Rightarrow> grant list \<times> string list" where
  "recordOwned cr resourceType name acc =
     (case acc of (grants, skipped) \<Rightarrow>
        (case FindManagedResource (st_ManagedResources (ad_Status cr)) resourceType name of
           Some entry \<Rightarrow> (grants @ [\<lparr>g_resourceType = resourceType, g_arn = mr_ARN entry, g_readWrite = True, g_consumed = False\<rparr>], skipped)
         | None \<Rightarrow> (grants, skipped @ [''owned '' @ resourceType @ '' resource '' @ quoted name @ '' not reconciled yet''])))"

definition collectOwned :: "AppDependencies \<Rightarrow> string \<Rightarrow> ownedResource list \<Rightarrow> grant list \<times> string list \<Rightarrow> grant list \<times> string list" where
  "collectOwned cr t owned acc =
     foldl (\<lambda>a x. let a1 = recordOwned cr t (or_name x) a
                   in if or_dedicatedKey x then recordOwned cr TypeKMS (DedicatedKeyLedgerName t (or_name x)) a1 else a1)
       acc owned"

primrec collectConsumes ::
  "env \<Rightarrow> AppDependencies \<Rightarrow> string \<Rightarrow> ConsumeRef list \<Rightarrow> grant list \<times> string list
   \<Rightarrow> (go_error + grant list \<times> string list) op" where
  "collectConsumes v cr t [] acc = ret (Inr acc)"
| "collectConsumes v cr t (ref # refs) acc = do {
     (g, reason, err) \<leftarrow> resolveConsume v (md_Namespace cr) (md_Name cr) t ref;
     case err of
       Some e \<Rightarrow> ret (Inl e)
     | None \<Rightarrow> (case acc of (grants, skipped) \<Rightarrow>
         if reason \<noteq> [] then collectConsumes v cr t refs (grants, skipped @ [reason])
         else collectConsumes v cr t refs (grants @ g, skipped))
   }"

primrec collectSections ::
  "env \<Rightarrow> AppDependencies \<Rightarrow> grantSection list \<Rightarrow> grant list \<times> string list \<Rightarrow> (go_error + grant list \<times> string list) op" where
  "collectSections v cr [] acc = ret (Inr acc)"
| "collectSections v cr (sec # secs) acc = do {
     r \<leftarrow> collectConsumes v cr (gs_resourceType sec) (gs_consumes sec)
            (collectOwned cr (gs_resourceType sec) (gs_owned sec) acc);
     case r of Inl e \<Rightarrow> ret (Inl e) | Inr acc1 \<Rightarrow> collectSections v cr secs acc1
   }"

definition collectGrants :: "env \<Rightarrow> AppDependencies \<Rightarrow> (go_error + grant list \<times> string list) op" where
  "collectGrants v cr = do {
     r \<leftarrow> collectSections v cr (grantSections cr) ([], []);
     case r of
       Inl e \<Rightarrow> ret (Inl e)
     | Inr acc \<Rightarrow>
         ret (Inr (case sp_KMS (ad_Spec cr) of None \<Rightarrow> acc
                   | Some s \<Rightarrow> foldl (\<lambda>a k. recordOwned cr TypeKMS (k_Name k) a) acc (kms_Resources s)))
   }"

section \<open>The policy document\<close>

record policyStatement =
  pst_Sid :: string
  pst_Effect :: string
  pst_Action :: "string list"
  pst_Resource :: "string list"

definition allow :: "string \<Rightarrow> string list \<Rightarrow> string list \<Rightarrow> policyStatement" where
  "allow sid actions resources = \<lparr>pst_Sid = sid, pst_Effect = ''Allow'', pst_Action = actions, pst_Resource = resources\<rparr>"

definition grantStatements :: "nat \<Rightarrow> grant \<Rightarrow> policyStatement list" where
  "grantStatements i g =
     (if g_resourceType g = typeS3
      then [allow (''s3Bucket'' @ show_nat i) s3BucketLevelActions [g_arn g],
            allow (''s3Object'' @ show_nat i) (s3ObjectActions (g_readWrite g)) [g_arn g @ ''/*'']]
      else [allow (g_resourceType g @ show_nat i) (grantActions g)
              (if g_resourceType g = typeDynamoDB then [g_arn g, g_arn g @ ''/index/*''] else [g_arn g])])"

definition policyStatementsOf :: "grant list \<Rightarrow> policyStatement list" where
  "policyStatementsOf grants = concat (map (\<lambda>(i, g). grantStatements i g) (enumerate 0 grants))"

definition statementJSON :: "policyStatement \<Rightarrow> json" where
  "statementJSON s = JObj [(''Sid'', JStr (pst_Sid s)), (''Effect'', JStr (pst_Effect s)),
     (''Action'', JArr (map JStr (pst_Action s))), (''Resource'', JArr (map JStr (pst_Resource s)))]"

text \<open>A document without grants has a nil slice of statements, which is written as \<^verbatim>\<open>null\<close>.\<close>

definition buildPolicyDocument :: "grant list \<Rightarrow> string" where
  "buildPolicyDocument grants =
     renderJSON (JObj [(''Version'', JStr ''2012-10-17''),
       (''Statement'', if grants = [] then JNull else JArr (map statementJSON (policyStatementsOf grants)))])"

section \<open>What the derivation guarantees\<close>

text \<open>
  Where a grant may come from. \<open>sharedBy\<close>: the producer, as read, declares the resource, lists this
  custom resource in the entry's \<^verbatim>\<open>sharedWith\<close>, and has recorded the granted identifier in its own
  ledger. \<open>ownedGrant\<close>: this custom resource has recorded the identifier itself.
\<close>

definition sharedBy :: "string \<Rightarrow> string \<Rightarrow> string \<Rightarrow> ConsumeRef \<Rightarrow> AppDependencies \<Rightarrow> grant \<Rightarrow> bool" where
  "sharedBy ns name t ref producer g \<longleftrightarrow>
     (\<exists>sharedWith enc s entry. producerResource producer t (cr_ResourceName ref) = Some (sharedWith, enc)
        \<and> s \<in> set sharedWith \<and> sw_Namespace s = ns \<and> sw_Name s = name
        \<and> g_readWrite g = (sw_Access s = AccessLevelReadWrite) \<and> g_arn g = mr_ARN entry
        \<and> FindManagedResource (st_ManagedResources (ad_Status producer)) (g_resourceType g)
            (if g_consumed g then cr_ResourceName ref else keyLedgerName t (cr_ResourceName ref) enc) = Some entry
        \<and> g_resourceType g = (if g_consumed g then t else TypeKMS))"

definition ownedGrant :: "AppDependencies \<Rightarrow> grant \<Rightarrow> bool" where
  "ownedGrant cr g \<longleftrightarrow> g_readWrite g \<and> \<not> g_consumed g
     \<and> (\<exists>name entry. FindManagedResource (st_ManagedResources (ad_Status cr)) (g_resourceType g) name = Some entry
          \<and> g_arn g = mr_ARN entry)"

definition consumedGrant :: "AppDependencies \<Rightarrow> history \<Rightarrow> grant \<Rightarrow> bool" where
  "consumedGrant cr calls g \<longleftrightarrow>
     (\<exists>sec\<in>set (grantSections cr). \<exists>ref\<in>set (gs_consumes sec). \<exists>producer.
        K8sCall (GetCR (cr_Namespace ref) (cr_Name ref) (Inr producer)) \<in> set calls
        \<and> sharedBy (md_Namespace cr) (md_Name cr) (gs_resourceType sec) ref producer g)"

definition readsSucceeded :: "history \<Rightarrow> bool" where
  "readsSucceeded calls \<longleftrightarrow>
     (\<forall>c\<in>set calls. case c of K8sCall (GetCR _ _ (Inl e)) \<Rightarrow> ex_k8s_notfound e | _ \<Rightarrow> True)"

lemma consumedGrant_mono: "consumedGrant cr a g \<Longrightarrow> consumedGrant cr (a @ b) g"
  unfolding consumedGrant_def by fastforce

lemma readsSucceeded_append [simp]: "readsSucceeded (a @ b) \<longleftrightarrow> readsSucceeded a \<and> readsSucceeded b"
  by (auto simp: readsSucceeded_def)

lemma consumePrefix_nonempty [simp]: "consumePrefix ns name ref \<noteq> []"
  by (simp add: consumePrefix_def)

lemma resolveConsume_answer:
  assumes "run_state (lookupConsume v ns name t ref) w = ((lookup, err), w1)"
  obtains r where "trace w1 = trace w @ [K8sCall (GetCR (cr_Namespace ref) (cr_Name ref) r)]"
    and "err = None \<Longrightarrow> readsSucceeded [K8sCall (GetCR (cr_Namespace ref) (cr_Name ref) r)]"
    and "\<And>producer s enc. cl_found lookup = Some (producer, s, enc) \<Longrightarrow> r = Inr producer
      \<and> (\<exists>sharedWith. producerResource producer t (cr_ResourceName ref) = Some (sharedWith, enc) \<and> s \<in> set sharedWith
           \<and> sw_Namespace s = ns \<and> sw_Name s = name)"
    and "cl_problem lookup = ReferenceResolved \<Longrightarrow> err = None \<Longrightarrow> cl_found lookup \<noteq> None"
proof -
  let ?P = "\<lambda>(lookup, err) w1. \<exists>r. trace w1 = trace w @ [K8sCall (GetCR (cr_Namespace ref) (cr_Name ref) r)]
     \<and> (err = None \<longrightarrow> readsSucceeded [K8sCall (GetCR (cr_Namespace ref) (cr_Name ref) r)])
     \<and> (\<forall>producer s enc. cl_found lookup = Some (producer, s, enc) \<longrightarrow> r = Inr producer
          \<and> (\<exists>sharedWith. producerResource producer t (cr_ResourceName ref) = Some (sharedWith, enc) \<and> s \<in> set sharedWith
               \<and> sw_Namespace s = ns \<and> sw_Name s = name))
     \<and> (cl_problem lookup = ReferenceResolved \<longrightarrow> err = None \<longrightarrow> cl_found lookup \<noteq> None)"
  have "wp (lookupConsume v ns name t ref) ?P w"
    unfolding lookupConsume_def k8s_GetCR_def
    by (auto simp: wp_simps lookupProblem_def readsSucceeded_def find_Some_iff split: sum.split option.split)
  from wp_run [OF assms this] that show ?thesis by auto
qed


lemma publishedGrants_shared:
  assumes "producerResource producer t (cr_ResourceName ref) = Some (sharedWith, enc)"
    "s \<in> set sharedWith" "sw_Namespace s = ns" "sw_Name s = name"
    and "publishedGrants pfx t ref producer s enc = (gs, [])" "pfx \<noteq> []" "g \<in> set gs"
  shows "sharedBy ns name t ref producer g"
  using assms unfolding publishedGrants_def sharedBy_def
  by (fastforce simp: Let_def split: option.splits if_splits)

definition resolvedWell :: "string \<Rightarrow> string \<Rightarrow> string \<Rightarrow> ConsumeRef \<Rightarrow> history \<Rightarrow> grant list \<times> string \<times> go_error option \<Rightarrow> bool" where
  "resolvedWell ns name t ref calls res \<longleftrightarrow>
     (case res of (gs, reason, err) \<Rightarrow> err = None \<longrightarrow> readsSucceeded calls \<and>
        (reason = [] \<longrightarrow> (\<exists>producer. K8sCall (GetCR (cr_Namespace ref) (cr_Name ref) (Inr producer)) \<in> set calls
           \<and> (\<forall>g\<in>set gs. sharedBy ns name t ref producer g))))"

lemma consumeOutcome_granted:
  assumes "consumeOutcome pfx t ref lookup = (gs, [])" "pfx \<noteq> []" "cl_problem lookup = ReferenceResolved \<Longrightarrow> cl_found lookup \<noteq> None"
  obtains producer s enc where "cl_found lookup = Some (producer, s, enc)" "publishedGrants pfx t ref producer s enc = (gs, [])"
  using assms by (auto simp: consumeOutcome_def split: ReferenceProblem.splits option.splits)

lemma wp_resolveConsume:
  "wp (resolveConsume v ns name t ref)
     (\<lambda>res w'. \<exists>calls. trace w' = trace w @ calls \<and> resolvedWell ns name t ref calls res) w"
proof -
  obtain lookup err w1 where l: "run_state (lookupConsume v ns name t ref) w = ((lookup, err), w1)"
    by (metis surj_pair)
  obtain r where tr: "trace w1 = trace w @ [K8sCall (GetCR (cr_Namespace ref) (cr_Name ref) r)]"
    and ok: "err = None \<Longrightarrow> readsSucceeded [K8sCall (GetCR (cr_Namespace ref) (cr_Name ref) r)]"
    and fnd: "\<And>producer s enc. cl_found lookup = Some (producer, s, enc) \<Longrightarrow> r = Inr producer
      \<and> (\<exists>sharedWith. producerResource producer t (cr_ResourceName ref) = Some (sharedWith, enc) \<and> s \<in> set sharedWith
           \<and> sw_Namespace s = ns \<and> sw_Name s = name)"
    and res: "cl_problem lookup = ReferenceResolved \<Longrightarrow> err = None \<Longrightarrow> cl_found lookup \<noteq> None"
    using resolveConsume_answer [OF l] by metis
  let ?c = "K8sCall (GetCR (cr_Namespace ref) (cr_Name ref) r)"
  obtain gs reason where o: "consumeOutcome (consumePrefix ns name ref) t ref lookup = (gs, reason)" by fastforce
  have "resolvedWell ns name t ref [?c] (gs, reason, None)" if none: "err = None"
  proof (cases "reason = []")
    case True
    obtain producer s enc where f: "cl_found lookup = Some (producer, s, enc)"
      and p: "publishedGrants (consumePrefix ns name ref) t ref producer s enc = (gs, [])"
      by (rule consumeOutcome_granted [OF o [unfolded True]]) (use res none in auto)
    then show ?thesis
      using fnd [OF f] publishedGrants_shared [OF _ _ _ _ p] ok none by (auto simp: resolvedWell_def)
  qed (use ok none in \<open>simp add: resolvedWell_def\<close>)
  then show ?thesis
    using tr o unfolding resolveConsume_def wp_bind wp_def [of "lookupConsume v ns name t ref"] l
    by (cases err) (auto simp: wp_simps resolvedWell_def)
qed

definition derivedWell :: "AppDependencies \<Rightarrow> history \<Rightarrow> grant list \<times> string list \<Rightarrow> bool" where
  "derivedWell cr calls acc \<longleftrightarrow> readsSucceeded calls \<and> (\<forall>g\<in>set (fst acc). ownedGrant cr g \<or> consumedGrant cr calls g)"

lemma derivedWell_owned:
  "derivedWell cr calls acc \<Longrightarrow> derivedWell cr calls (recordOwned cr t n acc)"
  by (auto simp: derivedWell_def recordOwned_def ownedGrant_def split: option.split prod.split)

lemma derivedWell_collectOwned:
  "derivedWell cr calls acc \<Longrightarrow> derivedWell cr calls (collectOwned cr t owned acc)"
  unfolding collectOwned_def
  by (induction owned arbitrary: acc) (simp_all add: derivedWell_owned Let_def)

lemma derivedWell_step:
  assumes "derivedWell cr calls (gs, sk)" "resolvedWell (md_Namespace cr) (md_Name cr) (gs_resourceType sec) ref new (g, [], None)"
    and "sec \<in> set (grantSections cr)" "ref \<in> set (gs_consumes sec)"
  shows "derivedWell cr (calls @ new) (gs @ g, sk)"
  using assms by (fastforce simp: derivedWell_def resolvedWell_def consumedGrant_def)

lemma derivedWell_skip:
  assumes "derivedWell cr calls (gs, sk)" "resolvedWell ns n t ref new (g, reason, None)"
  shows "derivedWell cr (calls @ new) (gs, sk @ [reason])"
  using assms by (auto simp: derivedWell_def resolvedWell_def intro: consumedGrant_mono)

lemma wp_collectConsumes:
  assumes "sec \<in> set (grantSections cr)" "set refs \<subseteq> set (gs_consumes sec)"
    and "trace w = t0 @ calls" "derivedWell cr calls acc"
  shows "wp (collectConsumes v cr (gs_resourceType sec) refs acc)
     (\<lambda>r w'. \<exists>calls. trace w' = t0 @ calls \<and> (\<forall>acc'. r = Inr acc' \<longrightarrow> derivedWell cr calls acc')) w"
  using assms(2-)
proof (induction refs arbitrary: acc w calls)
  case (Cons ref refs)
  obtain gs sk where acc: "acc = (gs, sk)" by fastforce
  show ?case
    unfolding collectConsumes.simps wp_bind
  proof (rule wp_conseq [OF wp_resolveConsume])
    fix res :: "grant list \<times> string \<times> go_error option" and w1 :: world
    assume "\<exists>new. trace w1 = trace w @ new \<and> resolvedWell (md_Namespace cr) (md_Name cr) (gs_resourceType sec) ref new res"
    then obtain new where n: "trace w1 = t0 @ (calls @ new)"
      "resolvedWell (md_Namespace cr) (md_Name cr) (gs_resourceType sec) ref new res"
      using Cons.prems by auto
    obtain g reason err where res: "res = (g, reason, err)" by (metis surj_pair)
    show "wp (case res of (g, reason, err) \<Rightarrow> case err of
         Some e \<Rightarrow> ret (Inl e)
       | None \<Rightarrow> (case acc of (grants, skipped) \<Rightarrow>
           if reason \<noteq> [] then collectConsumes v cr (gs_resourceType sec) refs (grants, skipped @ [reason])
           else collectConsumes v cr (gs_resourceType sec) refs (grants @ g, skipped)))
       (\<lambda>r w'. \<exists>calls. trace w' = t0 @ calls \<and> (\<forall>acc'. r = Inr acc' \<longrightarrow> derivedWell cr calls acc')) w1"
    proof (cases err)
      case None
      have d: "derivedWell cr (calls @ new) (if reason \<noteq> [] then (gs, sk @ [reason]) else (gs @ g, sk))"
        using derivedWell_skip derivedWell_step [OF _ _ assms(1)] n(2) Cons.prems res None acc by auto
      show ?thesis
        using Cons.IH [OF _ n(1) d] Cons.prems res None acc by auto
    qed (use n res in \<open>auto simp: wp_simps\<close>)
  qed
qed (auto simp: wp_simps)

lemma wp_collectSections:
  assumes "set secs \<subseteq> set (grantSections cr)" "trace w = t0 @ calls" "derivedWell cr calls acc"
  shows "wp (collectSections v cr secs acc)
     (\<lambda>r w'. \<exists>calls. trace w' = t0 @ calls \<and> (\<forall>acc'. r = Inr acc' \<longrightarrow> derivedWell cr calls acc')) w"
  using assms
proof (induction secs arbitrary: acc w calls)
  case (Cons sec secs)
  have d: "derivedWell cr calls (collectOwned cr (gs_resourceType sec) (gs_owned sec) acc)"
    using Cons.prems by (simp add: derivedWell_collectOwned)
  show ?case
    unfolding collectSections.simps wp_bind
  proof (rule wp_conseq [OF wp_collectConsumes [OF _ _ Cons.prems(2) d]])
    fix r :: "go_error + grant list \<times> string list" and w1 :: world
    assume "\<exists>calls. trace w1 = t0 @ calls \<and> (\<forall>acc'. r = Inr acc' \<longrightarrow> derivedWell cr calls acc')"
    then obtain calls1 where c: "trace w1 = t0 @ calls1" "\<And>acc'. r = Inr acc' \<Longrightarrow> derivedWell cr calls1 acc'" by blast
    show "wp (case r of Inl e \<Rightarrow> ret (Inl e) | Inr acc1 \<Rightarrow> collectSections v cr secs acc1)
       (\<lambda>r w'. \<exists>calls. trace w' = t0 @ calls \<and> (\<forall>acc'. r = Inr acc' \<longrightarrow> derivedWell cr calls acc')) w1"
      using c Cons.IH [OF _ c(1)] Cons.prems by (cases r) (auto simp: wp_simps)
  qed (use Cons.prems in auto)
qed (auto simp: wp_simps)

lemma derivedWell_keys:
  "derivedWell cr calls acc \<Longrightarrow> derivedWell cr calls (foldl (\<lambda>a k. recordOwned cr TypeKMS (k_Name k) a) acc ks)"
  by (induction ks arbitrary: acc) (simp_all add: derivedWell_owned)

lemma collectGrants_well:
  "wp (collectGrants v cr) (\<lambda>r w'. \<exists>calls. trace w' = trace w @ calls
     \<and> (\<forall>acc'. r = Inr acc' \<longrightarrow> derivedWell cr calls acc')) w"
  unfolding collectGrants_def wp_bind
proof (rule wp_conseq [OF wp_collectSections [of "grantSections cr" cr w "trace w" "[]"]])
  fix r :: "go_error + grant list \<times> string list" and w1 :: world
  assume "\<exists>calls. trace w1 = trace w @ calls \<and> (\<forall>acc'. r = Inr acc' \<longrightarrow> derivedWell cr calls acc')"
  then show "wp (case r of Inl e \<Rightarrow> ret (Inl e)
     | Inr acc \<Rightarrow> ret (Inr (case sp_KMS (ad_Spec cr) of None \<Rightarrow> acc
         | Some s \<Rightarrow> foldl (\<lambda>a k. recordOwned cr TypeKMS (k_Name k) a) acc (kms_Resources s))))
     (\<lambda>r w'. \<exists>calls. trace w' = trace w @ calls \<and> (\<forall>acc'. r = Inr acc' \<longrightarrow> derivedWell cr calls acc')) w1"
    by (cases r) (auto simp: wp_simps simp del: split_paired_All intro: derivedWell_keys split: option.split)
qed (simp_all add: derivedWell_def readsSucceeded_def)

text \<open>Nothing is dropped once collected: the accumulators only grow.\<close>

definition keeps :: "grant list \<times> string list \<Rightarrow> go_error + grant list \<times> string list \<Rightarrow> bool" where
  "keeps acc r \<longleftrightarrow> (\<forall>acc'. r = Inr acc' \<longrightarrow> set (fst acc) \<subseteq> set (fst acc') \<and> set (snd acc) \<subseteq> set (snd acc'))"

lemma keeps_simps:
  "keeps a (Inl e)"
  "keeps a (Inr b) \<longleftrightarrow> set (fst a) \<subseteq> set (fst b) \<and> set (snd a) \<subseteq> set (snd b)"
  by (auto simp: keeps_def)

lemma keeps_trans: "keeps a (Inr b) \<Longrightarrow> keeps b r \<Longrightarrow> keeps a r"
  by (cases r) (auto simp: keeps_simps)

lemma keeps_recordOwned: "keeps acc (Inr (recordOwned cr t n acc))"
  by (auto simp: keeps_def recordOwned_def split: prod.splits option.splits)

lemma collectOwned_simps [simp]:
  "collectOwned cr t [] acc = acc"
  "collectOwned cr t (x # xs) acc = collectOwned cr t xs
     (if or_dedicatedKey x
      then recordOwned cr TypeKMS (DedicatedKeyLedgerName t (or_name x)) (recordOwned cr t (or_name x) acc)
      else recordOwned cr t (or_name x) acc)"
  by (simp_all add: collectOwned_def)

lemma keeps_collectOwned: "keeps acc (Inr (collectOwned cr t owned acc))"
proof (induction owned arbitrary: acc)
  case (Cons x owned)
  have "keeps acc (Inr (if or_dedicatedKey x
      then recordOwned cr TypeKMS (DedicatedKeyLedgerName t (or_name x)) (recordOwned cr t (or_name x) acc)
      else recordOwned cr t (or_name x) acc))"
    using keeps_trans [OF keeps_recordOwned keeps_recordOwned] keeps_recordOwned by simp
  from keeps_trans [OF this Cons.IH] show ?case by simp
qed (simp add: keeps_def)

lemma keeps_collectConsumes: "returns (keeps acc) (collectConsumes v cr t refs acc)"
proof (induction refs arbitrary: acc)
  case (Cons ref refs)
  have *: "returns (keeps acc) (collectConsumes v cr t refs acc1)"
    if "keeps acc (Inr acc1)" for acc1
    using returns_mono [OF Cons.IH] keeps_trans [OF that] by blast
  show ?case
    unfolding collectConsumes.simps by (intro returns_intros *) (auto simp: keeps_simps)
qed (simp add: returns_def keeps_def)

definition ownedOutcome :: "AppDependencies \<Rightarrow> string \<Rightarrow> string \<Rightarrow> grant list \<times> string list \<Rightarrow> bool" where
  "ownedOutcome cr t name acc \<longleftrightarrow>
     (case FindManagedResource (st_ManagedResources (ad_Status cr)) t name of
        Some entry \<Rightarrow> \<lparr>g_resourceType = t, g_arn = mr_ARN entry, g_readWrite = True, g_consumed = False\<rparr> \<in> set (fst acc)
      | None \<Rightarrow> ''owned '' @ t @ '' resource '' @ quoted name @ '' not reconciled yet'' \<in> set (snd acc))"

lemma ownedOutcome_keeps: "ownedOutcome cr t n acc \<Longrightarrow> keeps acc (Inr acc') \<Longrightarrow> ownedOutcome cr t n acc'"
  by (auto simp: ownedOutcome_def keeps_def split: option.splits)

lemma ownedOutcome_record: "ownedOutcome cr t n (recordOwned cr t n acc)"
  by (auto simp: ownedOutcome_def recordOwned_def split: prod.splits option.splits)

lemma ownedOutcome_collectOwned:
  "x \<in> set owned \<Longrightarrow> ownedOutcome cr t (or_name x) (collectOwned cr t owned acc)
     \<and> (or_dedicatedKey x \<longrightarrow> ownedOutcome cr TypeKMS (DedicatedKeyLedgerName t (or_name x)) (collectOwned cr t owned acc))"
proof (induction owned arbitrary: acc)
  case (Cons y owned)
  let ?a1 = "recordOwned cr t (or_name y) acc"
  let ?a2 = "if or_dedicatedKey y then recordOwned cr TypeKMS (DedicatedKeyLedgerName t (or_name y)) ?a1 else ?a1"
  have eq: "collectOwned cr t (y # owned) acc = collectOwned cr t owned ?a2"
    by simp
  have 1: "ownedOutcome cr t (or_name y) ?a2"
    by (auto intro: ownedOutcome_keeps [OF ownedOutcome_record keeps_recordOwned] ownedOutcome_record)
  have 2: "or_dedicatedKey y \<Longrightarrow> ownedOutcome cr TypeKMS (DedicatedKeyLedgerName t (or_name y)) ?a2"
    by (simp add: ownedOutcome_record)
  show ?case
  proof (cases "x = y")
    case True
    show ?thesis unfolding eq True
      using ownedOutcome_keeps [OF 1 keeps_collectOwned] ownedOutcome_keeps [OF 2 keeps_collectOwned] by blast
  next
    case False
    then have "x \<in> set owned" using Cons.prems by simp
    then show ?thesis unfolding eq by (rule Cons.IH)
  qed
qed simp

lemma sections_keep: "returns (keeps acc) (collectSections v cr secs acc)"
proof (induction secs arbitrary: acc)
  case (Cons sec secs)
  have *: "returns (keeps acc) (collectSections v cr secs acc1)" if "keeps acc (Inr acc1)" for acc1
    using returns_mono [OF Cons.IH] keeps_trans [OF that] by blast
  show ?case
    unfolding collectSections.simps
  proof (rule returns_bind [OF keeps_collectConsumes])
    fix r assume r: "keeps (collectOwned cr (gs_resourceType sec) (gs_owned sec) acc) r"
    show "returns (keeps acc) (case r of Inl e \<Rightarrow> ret (Inl e) | Inr acc1 \<Rightarrow> collectSections v cr secs acc1)"
    proof (cases r)
      case (Inr acc1)
      then show ?thesis using * keeps_trans [OF keeps_collectOwned] r by auto
    qed (simp add: returns_def keeps_def)
  qed
qed (simp add: returns_def keeps_def)

lemma sections_owned:
  assumes "sec \<in> set secs" "x \<in> set (gs_owned sec)"
  shows "returns (\<lambda>r. \<forall>acc'. r = Inr acc' \<longrightarrow> ownedOutcome cr (gs_resourceType sec) (or_name x) acc'
      \<and> (or_dedicatedKey x \<longrightarrow> ownedOutcome cr TypeKMS (DedicatedKeyLedgerName (gs_resourceType sec) (or_name x)) acc'))
    (collectSections v cr secs acc)"
  using assms(1)
proof (induction secs arbitrary: acc)
  case (Cons s secs)
  show ?case
  proof (cases "s = sec")
    case True
    let ?start = "collectOwned cr (gs_resourceType sec) (gs_owned sec) acc"
    let ?reached = "\<lambda>acc'. ownedOutcome cr (gs_resourceType sec) (or_name x) acc'
      \<and> (or_dedicatedKey x \<longrightarrow> ownedOutcome cr TypeKMS (DedicatedKeyLedgerName (gs_resourceType sec) (or_name x)) acc')"
    have reached: "?reached acc'" if "keeps ?start (Inr acc')" for acc'
      using ownedOutcome_collectOwned [OF assms(2)] ownedOutcome_keeps [OF _ that] by blast
    have fin: "returns (\<lambda>r. \<forall>acc'. r = Inr acc' \<longrightarrow> ?reached acc') (collectSections v cr secs acc1)"
      if "keeps ?start (Inr acc1)" for acc1
      by (rule returns_mono [OF sections_keep]) (use keeps_trans [OF that] reached in blast)
    show ?thesis
      unfolding collectSections.simps True
    proof (rule returns_bind [OF keeps_collectConsumes])
      fix r assume "keeps ?start r"
      then show "returns (\<lambda>r. \<forall>acc'. r = Inr acc' \<longrightarrow> ?reached acc')
          (case r of Inl e \<Rightarrow> ret (Inl e) | Inr acc1 \<Rightarrow> collectSections v cr secs acc1)"
        by (cases r) (simp_all only: sum.case fin returns_ret, simp add: returns_def)
    qed
  next
    case False
    with Cons.prems have "sec \<in> set secs" by simp
    note IH = Cons.IH [OF this]
    show ?thesis
      unfolding collectSections.simps by (intro returns_intros IH) simp
  qed
qed simp

lemma keeps_keys: "keeps acc (Inr (foldl (\<lambda>a k. recordOwned cr TypeKMS (k_Name k) a) acc ks))"
proof (induction ks arbitrary: acc)
  case (Cons k ks)
  show ?case using keeps_trans [OF keeps_recordOwned Cons.IH] by simp
qed (simp add: keeps_def)

lemma sections_collect:
  assumes "run_state (collectGrants v cr) w = (Inr acc, w')"
  obtains acc1 w1 where "run_state (collectSections v cr (grantSections cr) ([], [])) w = (Inr acc1, w1)"
    and "keeps acc1 (Inr acc)"
proof -
  obtain r w1 where r: "run_state (collectSections v cr (grantSections cr) ([], [])) w = (r, w1)" by fastforce
  then obtain acc1 where "r = Inr acc1" "acc = (case sp_KMS (ad_Spec cr) of None \<Rightarrow> acc1
      | Some s \<Rightarrow> foldl (\<lambda>a k. recordOwned cr TypeKMS (k_Name k) a) acc1 (kms_Resources s))"
    using assms unfolding collectGrants_def by (cases r) auto
  moreover have "keeps acc1 (Inr acc)"
  proof (cases "sp_KMS (ad_Spec cr)")
    case (Some s)
    then show ?thesis using calculation(2) keeps_keys [of acc1 cr "kms_Resources s"] by simp
  qed (use calculation(2) in \<open>simp add: keeps_simps\<close>)
  ultimately show ?thesis using that r by blast
qed

text \<open>A word that does not end in a digit can be told from the number after it.\<close>

lemma numbered_inject:
  assumes "a @ show_nat i = b @ show_nat j" "a \<noteq> []" "b \<noteq> []" "\<not> isDigit (last a)" "\<not> isDigit (last b)"
  shows "a = b \<and> i = j"
proof -
  have cut: "dropWhile isDigit (rev (x @ show_nat k)) = rev x" if "x \<noteq> []" "\<not> isDigit (last x)" for x k
  proof -
    have "dropWhile isDigit (rev (show_nat k) @ rev x) = dropWhile isDigit (rev x)"
      by (rule dropWhile_append2) (simp add: show_nat_digits)
    then show ?thesis using that by (cases x rule: rev_cases) simp_all
  qed
  have "rev a = rev b" using cut [OF assms(2,4), of i] cut [OF assms(3,5), of j] assms(1) by simp
  then show ?thesis using assms(1) by (simp add: show_nat_inject)
qed

definition grantTypes :: "string set" where
  "grantTypes = {typeSQS, typeSNS, typeDynamoDB, typeS3, TypeKMS}"

definition sidWords :: "grant \<Rightarrow> string set" where
  "sidWords g = (if g_resourceType g = typeS3 then {''s3Bucket'', ''s3Object''} else {g_resourceType g})"

lemma sidWords_last: "g_resourceType g \<in> grantTypes \<Longrightarrow> x \<in> sidWords g \<Longrightarrow> x \<noteq> [] \<and> \<not> isDigit (last x)"
  by (auto simp: sidWords_def grantTypes_def type_names isDigit_def byte_in_def split: if_splits)

lemma grantStatements_sids:
  "map pst_Sid (grantStatements i g) = map (\<lambda>x. x @ show_nat i)
     (if g_resourceType g = typeS3 then [''s3Bucket'', ''s3Object''] else [g_resourceType g])"
  by (simp add: grantStatements_def allow_def)

lemma policy_sids_distinct_from:
  assumes "\<forall>g\<in>set grants. g_resourceType g \<in> grantTypes"
  shows "distinct (map pst_Sid (concat (map (\<lambda>(i, g). grantStatements i g) (enumerate n grants))))
    \<and> (\<forall>s\<in>set (concat (map (\<lambda>(i, g). grantStatements i g) (enumerate n grants))).
         \<exists>i\<ge>n. \<exists>g\<in>set grants. \<exists>x\<in>sidWords g. pst_Sid s = x @ show_nat i)"
  using assms
proof (induction grants arbitrary: n)
  case (Cons g grants)
  let ?rest = "concat (map (\<lambda>(i, g). grantStatements i g) (enumerate (Suc n) grants))"
  have words: "pst_Sid ` set (grantStatements n g) = (\<lambda>x. x @ show_nat n) ` sidWords g"
    unfolding sidWords_def by (simp add: grantStatements_def allow_def)
  have IH: "distinct (map pst_Sid ?rest)"
    "\<forall>s\<in>set ?rest. \<exists>i\<ge>Suc n. \<exists>g\<in>set grants. \<exists>x\<in>sidWords g. pst_Sid s = x @ show_nat i"
    using Cons by auto
  have "y @ show_nat n \<noteq> x @ show_nat i" if "y \<in> sidWords g" "g' \<in> set grants" "x \<in> sidWords g'" "Suc n \<le> i" for x y i g'
    using numbered_inject [of y n x i] sidWords_last [of g y] sidWords_last [of g' x] that Cons.prems by auto
  then have "pst_Sid ` set (grantStatements n g) \<inter> pst_Sid ` set ?rest = {}"
    using IH(2) unfolding words by fastforce
  moreover have "distinct (map pst_Sid (grantStatements n g))" by (simp add: grantStatements_sids)
  moreover have "\<exists>i\<ge>n. \<exists>g'\<in>set (g # grants). \<exists>x\<in>sidWords g'. pst_Sid s = x @ show_nat i"
    if s: "s \<in> set (grantStatements n g @ ?rest)" for s
  proof (cases "s \<in> set (grantStatements n g)")
    case True
    then have "pst_Sid s \<in> (\<lambda>x. x @ show_nat n) ` sidWords g" using words by blast
    then show ?thesis by auto
  next
    case False
    with s IH(2) show ?thesis by (metis Suc_leD Un_iff list.set_intros(2) set_append)
  qed
  ultimately show ?case using IH(1) by auto
qed simp

lemma wf_statement: "wfJSON (statementJSON s)"
  by (simp add: statementJSON_def)

section \<open>Properties\<close>

text \<open>
  C7: Deriving a role's grants either fails or is justified grant by grant. On success every read of
  another custom resource was answered, by the object or by its absence, so a failed read never
  narrows a role; and every grant is either one of a resource this custom resource has recorded
  itself, or one on a resource that a custom resource read during this very derivation declares,
  shares with this one by namespace and name, and has recorded, with write access only when that
  entry says so. The key of a shared encrypted resource is granted under the same conditions.
\<close>

theorem role_grants_are_justified:
  assumes "run_state (collectGrants v cr) w = (Inr (grants, skipped), w')"
  shows "\<exists>calls. trace w' = trace w @ calls \<and> readsSucceeded calls
     \<and> (\<forall>g\<in>set grants. ownedGrant cr g \<or> consumedGrant cr calls g)"
  using wp_run [OF assms collectGrants_well] by (auto simp: derivedWell_def)

definition demoCR :: AppDependencies where
  "demoCR = \<lparr>md_Namespace = ''shop'', md_Name = ''orders'', md_UID = ''u1'', md_ResourceVersion = ''1'', md_Generation = 1,
     md_Annotations = Map.empty, md_Finalizers = [], md_Deleting = False,
     ad_Spec = \<lparr>sp_ServiceAccountName = [],
       sp_SQS = Some \<lparr>sqs_Resources = [], sqs_Consumes = [\<lparr>cr_Namespace = ''pay'', cr_Name = ''bills'', cr_ResourceName = ''jobs''\<rparr>]\<rparr>,
       sp_SNS = None, sp_S3 = None, sp_DynamoDB = None, sp_RDS = None, sp_KMS = None, sp_Alarms = None,
       sp_NetworkServiceAccountName = []\<rparr>,
     ad_Status = \<lparr>st_Conditions = [], st_ManagedResources = [], st_IAMRoleARN = [], st_ServiceAccountName = [],
       st_AlarmsMayExist = None\<rparr>\<rparr>"

definition demoBills :: AppDependencies where
  "demoBills = demoCR\<lparr>md_Namespace := ''pay'', md_Name := ''bills'',
     ad_Spec := (ad_Spec demoCR)\<lparr>sp_SQS := Some \<lparr>sqs_Resources = [\<lparr>q_Name = ''jobs'', q_DLQ = False,
         q_DeletionPolicy = DeletionPolicyDelete, q_Force = False,
         q_SharedWith = [\<lparr>sw_Namespace = ''shop'', sw_Name = ''orders'', sw_Access = AccessLevelReadOnly\<rparr>],
         q_Adopt = False, q_FIFO = False, q_Overrides = None, q_Encryption = None, q_SubscribesTo = []\<rparr>],
       sqs_Consumes = []\<rparr>\<rparr>,
     ad_Status := (ad_Status demoCR)\<lparr>st_ManagedResources := [zeroManagedResource\<lparr>mr_Type := ''sqs'',
       mr_Name := ''jobs'', mr_ARN := ''arn:jobs''\<rparr>]\<rparr>\<rparr>"

definition demoShare :: env where
  "demoShare = refusingEnv\<lparr>env_k8s := (env_k8s refusingEnv)\<lparr>ha_GetCR := \<lambda>h ns n. Inr demoBills\<rparr>\<rparr>"

lemma demoShare_run:
  "run_state (collectGrants demoShare demoCR) start =
     (Inr ([\<lparr>g_resourceType = ''sqs'', g_arn = ''arn:jobs'', g_readWrite = False, g_consumed = True\<rparr>], []),
      start\<lparr>trace := [K8sCall (GetCR ''pay'' ''bills'' (Inr demoBills))]\<rparr>)"
  by (simp add: collectGrants_def grantSections_def demoCR_def demoBills_def demoShare_def start_def resolveConsume_def
      lookupConsume_def k8s_GetCR_def invoke_def producerResource_def producerEntries_def consumeOutcome_def
      publishedGrants_def keyLedgerName_def ownedOf_def type_names zeroManagedResource_def Let_def)

theorem role_grants_are_justified_witness:
  "consumedGrant demoCR [K8sCall (GetCR ''pay'' ''bills'' (Inr demoBills))]
     \<lparr>g_resourceType = ''sqs'', g_arn = ''arn:jobs'', g_readWrite = False, g_consumed = True\<rparr>"
  using role_grants_are_justified [OF demoShare_run] by (auto simp: ownedGrant_def start_def)

text \<open>
  Nothing a custom resource owns is left out of its role without a stated reason. For every resource
  declared in a section with grants, and its dedicated key when it has one, a successful derivation
  holds a read-write grant on the recorded identifier, or, when the ledger has no entry yet, the
  skip reason that names it.
\<close>

theorem owned_resources_granted:
  assumes "run_state (collectGrants v cr) w = (Inr acc, w')"
    and "sec \<in> set (grantSections cr)" "x \<in> set (gs_owned sec)"
  shows "ownedOutcome cr (gs_resourceType sec) (or_name x) acc
    \<and> (or_dedicatedKey x \<longrightarrow> ownedOutcome cr TypeKMS (DedicatedKeyLedgerName (gs_resourceType sec) (or_name x)) acc)"
proof -
  obtain acc1 w1 where "run_state (collectSections v cr (grantSections cr) ([], [])) w = (Inr acc1, w1)"
    and k: "keeps acc1 (Inr acc)"
    by (rule sections_collect [OF assms(1)])
  from returnsD [OF sections_owned [OF assms(2,3)] this(1)] ownedOutcome_keeps [OF _ k] show ?thesis by blast
qed

lemma demoBills_run:
  "run_state (collectGrants refusingEnv demoBills) start =
     (Inr ([\<lparr>g_resourceType = ''sqs'', g_arn = ''arn:jobs'', g_readWrite = True, g_consumed = False\<rparr>], []), start)"
  by (simp add: collectGrants_def grantSections_def demoCR_def demoBills_def start_def ownedOf_def recordOwned_def
      type_names zeroManagedResource_def)

theorem owned_resources_granted_witness:
  "ownedOutcome demoBills ''sqs'' ''jobs''
     ([\<lparr>g_resourceType = ''sqs'', g_arn = ''arn:jobs'', g_readWrite = True, g_consumed = False\<rparr>], [])"
  using owned_resources_granted [OF demoBills_run, of "hd (grantSections demoBills)" "hd (gs_owned (hd (grantSections demoBills)))"]
  by (simp add: grantSections_def demoCR_def demoBills_def ownedOf_def type_names)

text \<open>
  The policy document survives a round trip through JSON: parsing the text gives back exactly the
  statements of the grants, and, for the resource types the derivation uses, no two statements
  share a Sid, which IAM would reject.
\<close>

theorem policy_document_roundtrip:
  assumes "\<forall>g\<in>set grants. g_resourceType g \<in> grantTypes"
  shows "parseJSON (buildPolicyDocument grants) = Some (JObj [(''Version'', JStr ''2012-10-17''),
       (''Statement'', if grants = [] then JNull else JArr (map statementJSON (policyStatementsOf grants)))])
    \<and> distinct (map pst_Sid (policyStatementsOf grants))"
proof
  show "parseJSON (buildPolicyDocument grants) = Some (JObj [(''Version'', JStr ''2012-10-17''),
       (''Statement'', if grants = [] then JNull else JArr (map statementJSON (policyStatementsOf grants)))])"
    unfolding buildPolicyDocument_def by (rule parse_render) (simp add: wf_statement)
  show "distinct (map pst_Sid (policyStatementsOf grants))"
    unfolding policyStatementsOf_def using policy_sids_distinct_from [OF assms] by blast
qed

theorem policy_document_roundtrip_witness:
  "distinct (map pst_Sid (policyStatementsOf
     [\<lparr>g_resourceType = ''s3'', g_arn = ''arn:b'', g_readWrite = True, g_consumed = False\<rparr>,
      \<lparr>g_resourceType = ''s3'', g_arn = ''arn:c'', g_readWrite = False, g_consumed = True\<rparr>]))"
  using policy_document_roundtrip [of "[\<lparr>g_resourceType = ''s3'', g_arn = ''arn:b'', g_readWrite = True, g_consumed = False\<rparr>,
      \<lparr>g_resourceType = ''s3'', g_arn = ''arn:c'', g_readWrite = False, g_consumed = True\<rparr>]"]
  by (simp add: grantTypes_def type_names)

text \<open>
  What a policy document allows, as IAM reads it: an action on a resource is allowed when a statement with effect Allow names both.
\<close>

fun jsonNames :: "json option \<Rightarrow> string \<Rightarrow> bool" where
  "jsonNames (Some (JStr s)) x \<longleftrightarrow> s = x"
| "jsonNames (Some (JArr js)) x \<longleftrightarrow> JStr x \<in> set js"
| "jsonNames _ x \<longleftrightarrow> False"

fun statementAllows :: "string \<Rightarrow> string \<Rightarrow> json \<Rightarrow> bool" where
  "statementAllows a r (JObj members) \<longleftrightarrow> map_of members ''Effect'' = Some (JStr ''Allow'')
     \<and> jsonNames (map_of members ''Action'') a \<and> jsonNames (map_of members ''Resource'') r"
| "statementAllows a r _ \<longleftrightarrow> False"

fun documentAllows :: "json \<Rightarrow> string \<Rightarrow> string \<Rightarrow> bool" where
  "documentAllows (JObj members) a r \<longleftrightarrow>
     (case map_of members ''Statement'' of Some (JArr ss) \<Rightarrow> list_ex (statementAllows a r) ss | _ \<Rightarrow> False)"
| "documentAllows _ a r \<longleftrightarrow> False"

text \<open>
  The access levels as they are documented (\<^verbatim>\<open>docs/resources.md\<close>, access between custom resources): which action a grant allows on the
  identifier of the resource followed by which suffix. Reading a queue includes taking messages off it; writing adds new data; only the
  owner of a topic subscribes endpoints to it.
\<close>

definition accessOf :: "string \<Rightarrow> bool \<Rightarrow> bool \<Rightarrow> string \<Rightarrow> string \<Rightarrow> bool" where
  "accessOf t readWrite consumed a path \<longleftrightarrow>
     (t = ''sqs'' \<and> path = [] \<and>
        (a \<in> {''sqs:ReceiveMessage'', ''sqs:DeleteMessage'', ''sqs:ChangeMessageVisibility'', ''sqs:GetQueueAttributes'', ''sqs:GetQueueUrl''}
         \<or> readWrite \<and> a = ''sqs:SendMessage''))
   \<or> (t = ''sns'' \<and> path = [] \<and>
        (a = ''sns:GetTopicAttributes'' \<or> \<not> consumed \<and> a \<in> {''sns:Subscribe'', ''sns:Unsubscribe''} \<or> readWrite \<and> a = ''sns:Publish''))
   \<or> (t = ''dynamodb'' \<and> path \<in> {[], ''/index/*''} \<and>
        (a \<in> {''dynamodb:GetItem'', ''dynamodb:BatchGetItem'', ''dynamodb:Query'', ''dynamodb:Scan''}
         \<or> readWrite \<and> a \<in> {''dynamodb:PutItem'', ''dynamodb:UpdateItem'', ''dynamodb:DeleteItem'', ''dynamodb:BatchWriteItem'',
             ''dynamodb:ConditionCheckItem''}))
   \<or> (t = ''s3'' \<and> path = [] \<and> a = ''s3:ListBucket'')
   \<or> (t = ''s3'' \<and> path = ''/*'' \<and>
        (a = ''s3:GetObject'' \<or> readWrite \<and> a \<in> {''s3:PutObject'', ''s3:DeleteObject'', ''s3:AbortMultipartUpload''}))
   \<or> (t = ''kms'' \<and> path = [] \<and> (a = ''kms:Decrypt'' \<or> readWrite \<and> a = ''kms:GenerateDataKey''))"

lemma statement_allows:
  "statementAllows a r (statementJSON s) \<longleftrightarrow> pst_Effect s = ''Allow'' \<and> a \<in> set (pst_Action s) \<and> r \<in> set (pst_Resource s)"
  by (auto simp: statementJSON_def)

lemma grantActions_sets:
  "g_resourceType g = typeSQS \<Longrightarrow> grantActions g = [''sqs:ReceiveMessage'', ''sqs:DeleteMessage'', ''sqs:GetQueueAttributes'', ''sqs:GetQueueUrl'',
     ''sqs:ChangeMessageVisibility''] @ (if g_readWrite g then [''sqs:SendMessage''] else [])"
  "g_resourceType g = typeSNS \<Longrightarrow> grantActions g = (if g_consumed g then [] else [''sns:Subscribe'', ''sns:Unsubscribe''])
     @ [''sns:GetTopicAttributes''] @ (if g_readWrite g then [''sns:Publish''] else [])"
  "g_resourceType g = typeDynamoDB \<Longrightarrow> grantActions g = [''dynamodb:GetItem'', ''dynamodb:Query'', ''dynamodb:Scan'', ''dynamodb:BatchGetItem'']
     @ (if g_readWrite g then [''dynamodb:PutItem'', ''dynamodb:UpdateItem'', ''dynamodb:DeleteItem'', ''dynamodb:BatchWriteItem'',
          ''dynamodb:ConditionCheckItem''] else [])"
  "g_resourceType g = TypeKMS \<Longrightarrow> grantActions g = [''kms:Decrypt''] @ (if g_readWrite g then [''kms:GenerateDataKey''] else [])"
  "g_resourceType g \<notin> {typeSQS, typeSNS, typeDynamoDB, TypeKMS} \<Longrightarrow> grantActions g = []"
  by (simp_all add: grantActions_def actionsFor_def actionSets_def notForConsumers_def Let_def type_names)

lemma access_of_type:
  "accessOf typeSQS rw c a path \<longleftrightarrow> path = [] \<and> (a \<in> {''sqs:ReceiveMessage'', ''sqs:DeleteMessage'', ''sqs:ChangeMessageVisibility'',
     ''sqs:GetQueueAttributes'', ''sqs:GetQueueUrl''} \<or> rw \<and> a = ''sqs:SendMessage'')"
  "accessOf typeSNS rw c a path \<longleftrightarrow> path = [] \<and> (a = ''sns:GetTopicAttributes'' \<or> \<not> c \<and> a \<in> {''sns:Subscribe'', ''sns:Unsubscribe''}
     \<or> rw \<and> a = ''sns:Publish'')"
  "accessOf typeDynamoDB rw c a path \<longleftrightarrow> path \<in> {[], ''/index/*''} \<and>
     (a \<in> {''dynamodb:GetItem'', ''dynamodb:BatchGetItem'', ''dynamodb:Query'', ''dynamodb:Scan''}
      \<or> rw \<and> a \<in> {''dynamodb:PutItem'', ''dynamodb:UpdateItem'', ''dynamodb:DeleteItem'', ''dynamodb:BatchWriteItem'', ''dynamodb:ConditionCheckItem''})"
  "accessOf TypeKMS rw c a path \<longleftrightarrow> path = [] \<and> (a = ''kms:Decrypt'' \<or> rw \<and> a = ''kms:GenerateDataKey'')"
  "accessOf typeS3 rw c a path \<longleftrightarrow> path = [] \<and> a = ''s3:ListBucket'' \<or> path = ''/*'' \<and>
     (a = ''s3:GetObject'' \<or> rw \<and> a \<in> {''s3:PutObject'', ''s3:DeleteObject'', ''s3:AbortMultipartUpload''})"
  "t \<notin> {typeSQS, typeSNS, typeDynamoDB, TypeKMS, typeS3} \<Longrightarrow> \<not> accessOf t rw c a path"
  by (simp_all add: accessOf_def type_names)

lemma grantActions_access:
  assumes "g_resourceType g \<noteq> typeS3"
  shows "accessOf (g_resourceType g) (g_readWrite g) (g_consumed g) a path
    \<longleftrightarrow> a \<in> set (grantActions g) \<and> (path = [] \<or> g_resourceType g = typeDynamoDB \<and> path = ''/index/*'')"
proof -
  have distinct: "typeDynamoDB \<notin> {typeSQS, typeSNS, TypeKMS, typeS3}" by (simp add: type_names)
  consider "g_resourceType g = typeSQS" | "g_resourceType g = typeSNS" | "g_resourceType g = typeDynamoDB" | "g_resourceType g = TypeKMS"
    | "g_resourceType g \<notin> {typeSQS, typeSNS, typeDynamoDB, TypeKMS, typeS3}" using assms by blast
  then show ?thesis
  proof cases
    case 1
    with distinct show ?thesis unfolding grantActions_sets(1) [OF 1] 1 access_of_type set_append list.set by (auto simp only: set_simps split: if_splits)
  next
    case 2
    with distinct show ?thesis unfolding grantActions_sets(2) [OF 2] 2 access_of_type set_append list.set by (auto simp only: set_simps split: if_splits)
  next
    case 3
    show ?thesis unfolding grantActions_sets(3) [OF 3] 3 access_of_type set_append list.set by (auto simp only: set_simps split: if_splits)
  next
    case 4
    with distinct show ?thesis unfolding grantActions_sets(4) [OF 4] 4 access_of_type set_append list.set by (auto simp only: set_simps split: if_splits)
  next
    case 5
    then have "g_resourceType g \<notin> {typeSQS, typeSNS, typeDynamoDB, TypeKMS}" by blast
    from grantActions_sets(5) [OF this] access_of_type(6) [OF 5] show ?thesis by simp
  qed
qed

lemma s3_access:
  "accessOf typeS3 rw c a path \<longleftrightarrow> path = [] \<and> a \<in> set s3BucketLevelActions \<or> path = ''/*'' \<and> a \<in> set (s3ObjectActions rw)"
  unfolding access_of_type s3BucketLevelActions_def s3ObjectActions_def s3ObjectBaseline_def s3ObjectReadWrite_def by auto

lemma grant_allows:
  "(\<exists>s\<in>set (grantStatements i g). statementAllows a r (statementJSON s))
   \<longleftrightarrow> (\<exists>path. r = g_arn g @ path \<and> accessOf (g_resourceType g) (g_readWrite g) (g_consumed g) a path)"
proof (cases "g_resourceType g = typeS3")
  case True
  then show ?thesis by (auto simp: grantStatements_def statement_allows allow_def s3_access)
next
  case False
  let ?R = "if g_resourceType g = typeDynamoDB then [g_arn g, g_arn g @ ''/index/*''] else [g_arn g]"
  have "(\<exists>s\<in>set (grantStatements i g). statementAllows a r (statementJSON s)) \<longleftrightarrow> a \<in> set (grantActions g) \<and> r \<in> set ?R"
    using False by (auto simp: grantStatements_def statement_allows allow_def)
  also have "\<dots> \<longleftrightarrow> (\<exists>path. r = g_arn g @ path \<and> (path = [] \<or> g_resourceType g = typeDynamoDB \<and> path = ''/index/*'')
      \<and> a \<in> set (grantActions g))" by auto
  also have "\<dots> \<longleftrightarrow> (\<exists>path. r = g_arn g @ path \<and> accessOf (g_resourceType g) (g_readWrite g) (g_consumed g) a path)"
    unfolding grantActions_access [OF False] by blast
  finally show ?thesis .
qed


end
