(* ===== verification/Sqs_Policy.thy ===== *)
theory Sqs_Policy
  imports World Decisions
begin

text \<open>
  Editing the resource policy of a queue, \<^verbatim>\<open>internal/resources/sqs/policy.go\<close>, and the statements of
  \<^verbatim>\<open>subscriptions.go\<close> that let a topic deliver into it. Marshalling a statement cannot fail, so the
  error results of \<^verbatim>\<open>json.Marshal\<close> have no branch.
\<close>

section \<open>The policy document\<close>

definition pendingDeletionDenySid :: string where
  "pendingDeletionDenySid = ''cloudctl-pending-deletion-deny''"

record policyDocument =
  pd_Version :: string
  pd_Statement :: "json list"

text \<open>
  Unmarshalling into the struct: a null leaves \<^verbatim>\<open>Version\<close> alone and empties \<^verbatim>\<open>Statement\<close>, a value of
  another type fails the call, and an object without the members keeps the zero values.
\<close>

fun documentFields :: "(string \<times> json) list \<Rightarrow> policyDocument \<Rightarrow> policyDocument option" where
  "documentFields [] doc = Some doc"
| "documentFields ((k, v) # kvs) doc =
     (if equalFold k ''Version''
      then (case v of JStr s \<Rightarrow> documentFields kvs (doc\<lparr>pd_Version := s\<rparr>) | JNull \<Rightarrow> documentFields kvs doc | _ \<Rightarrow> None)
      else if equalFold k ''Statement''
      then (case v of JArr xs \<Rightarrow> documentFields kvs (doc\<lparr>pd_Statement := xs\<rparr>)
            | JNull \<Rightarrow> documentFields kvs (doc\<lparr>pd_Statement := []\<rparr>) | _ \<Rightarrow> None)
      else documentFields kvs doc)"

definition parsePolicy :: "string \<Rightarrow> policyDocument option" where
  "parsePolicy raw =
     (case parseJSON raw of
        Some (JObj kvs) \<Rightarrow> documentFields kvs \<lparr>pd_Version = [], pd_Statement = []\<rparr>
      | Some JNull \<Rightarrow> Some \<lparr>pd_Version = [], pd_Statement = []\<rparr>
      | _ \<Rightarrow> None)"

definition renderPolicy :: "policyDocument \<Rightarrow> string" where
  "renderPolicy doc = renderJSON (JObj [(''Version'', JStr (pd_Version doc)), (''Statement'', JArr (pd_Statement doc))])"

definition attrPolicy :: string where "attrPolicy = ''Policy''"

definition policyOf :: "attributes \<Rightarrow> policyDocument option" where
  "policyOf attrs =
     (let raw = goget attrs attrPolicy
      in if raw = [] then Some \<lparr>pd_Version = ''2012-10-17'', pd_Statement = []\<rparr> else parsePolicy raw)"

definition readPolicy :: "env \<Rightarrow> string \<Rightarrow> (go_error + policyDocument) op" where
  "readPolicy v queueURL = do {
     r \<leftarrow> sqs_GetQueueAttributes v queueURL [attrPolicy];
     case r of
       Inl e \<Rightarrow> ret (Inl (wrapf ''reading queue policy'' [] (ExtError e)))
     | Inr attrs \<Rightarrow> (case policyOf attrs of
                    None \<Rightarrow> ret (Inl (msgError ''parsing existing queue policy'' []))
                  | Some doc \<Rightarrow> ret (Inr doc))
   }"

definition writePolicy :: "env \<Rightarrow> string \<Rightarrow> policyDocument \<Rightarrow> go_error option op" where
  "writePolicy v queueURL doc = do {
     r \<leftarrow> sqs_SetQueueAttributes v queueURL [(attrPolicy, renderPolicy doc)];
     case r of Inl e \<Rightarrow> ret (Some (ExtError e)) | Inr _ \<Rightarrow> ret None
   }"

section \<open>The statements of the operator\<close>

definition denyStatement :: "string \<Rightarrow> json" where
  "denyStatement queueArn =
     JObj [(''Sid'', JStr pendingDeletionDenySid), (''Effect'', JStr ''Deny''), (''Principal'', JStr ''*''),
           (''Action'', JArr [JStr ''sqs:SendMessage'']), (''Resource'', JStr queueArn)]"

definition addPendingDeletionDeny :: "env \<Rightarrow> string \<Rightarrow> string \<Rightarrow> go_error option op" where
  "addPendingDeletionDeny v queueURL queueArn = do {
     r \<leftarrow> readPolicy v queueURL;
     case r of
       Inl e \<Rightarrow> ret (Some e)
     | Inr doc \<Rightarrow>
         (case Upsert (pd_Statement doc) pendingDeletionDenySid (denyStatement queueArn) of
            (statements, changed) \<Rightarrow>
              if \<not> changed then ret None else writePolicy v queueURL (doc\<lparr>pd_Statement := statements\<rparr>))
   }"

definition reconcileDeclaredPolicy :: "env \<Rightarrow> pass \<Rightarrow> string \<Rightarrow> string \<Rightarrow> go_error option op" where
  "reconcileDeclaredPolicy v p queueURL queueARN = do {
     r \<leftarrow> readPolicy v queueURL;
     case r of
       Inl e \<Rightarrow> ret (Some (wrapAWSError e ''reading the queue's policy''))
     | Inr doc \<Rightarrow>
         (case Upsert (pd_Statement doc) InsecureTransportSid (DenyInsecureTransport ''sqs:*'' [queueARN]) of
            (statements1, changed) \<Rightarrow>
              (case Remove statements1 pendingDeletionDenySid of (statements, lifted) \<Rightarrow>
                 if \<not> changed \<and> \<not> lifted then ret None
                 else do {
                   w \<leftarrow> writePolicy v queueURL (doc\<lparr>pd_Statement := statements\<rparr>);
                   case w of
                     Some e \<Rightarrow> ret (Some (wrapAWSError e ''writing the queue's policy''))
                   | None \<Rightarrow> do {
                       (if changed then recordEvent p ''Normal'' ''TransportSecurityEnforced'' [queueARN] else ret ());
                       (if lifted then recordEvent p ''Normal'' ''PendingDeletionDenyLifted'' [queueARN] else ret ());
                       ret None
                     }
                 }))
   }"

text \<open>Removing the statements of one Sid; a policy without statements is cleared.\<close>

definition removeStatement :: "env \<Rightarrow> string \<Rightarrow> string \<Rightarrow> go_error option op" where
  "removeStatement v queueURL sid = do {
     r \<leftarrow> readPolicy v queueURL;
     case r of
       Inl e \<Rightarrow> ret (Some e)
     | Inr doc \<Rightarrow>
         (case Remove (pd_Statement doc) sid of (statements, changed) \<Rightarrow>
            if \<not> changed then ret None
            else if statements = [] then do {
              w \<leftarrow> sqs_SetQueueAttributes v queueURL [(attrPolicy, [])];
              case w of Inl e \<Rightarrow> ret (Some (ExtError e)) | Inr _ \<Rightarrow> ret None
            }
            else writePolicy v queueURL (doc\<lparr>pd_Statement := statements\<rparr>))
   }"

definition removePendingDeletionDeny :: "env \<Rightarrow> string \<Rightarrow> go_error option op" where
  "removePendingDeletionDeny v queueURL = removeStatement v queueURL pendingDeletionDenySid"

section \<open>Statements for subscribed topics\<close>

definition subscriptionResourceType :: string where "subscriptionResourceType = ''sqssubscription''"
definition subscriptionLedgerSeparator :: string where "subscriptionLedgerSeparator = ''/subscribes-to/''"

definition subscriptionLedgerName :: "string \<Rightarrow> ConsumeRef \<Rightarrow> string" where
  "subscriptionLedgerName queueName ref =
     queueName @ subscriptionLedgerSeparator @ cr_Namespace ref @ ''/'' @ cr_Name ref @ ''/'' @ cr_ResourceName ref"

definition subscriptionAllowSid :: "string \<Rightarrow> string" where
  "subscriptionAllowSid ledgerName = ''cloudctl-sub-'' @ replaceAll ledgerName ''/'' ''-''"

record subscriptionAllowStatement =
  sa_Sid :: string
  sa_Resource :: string
  sa_SourceArn :: string

definition subscriptionAllow :: "string \<Rightarrow> string \<Rightarrow> string \<Rightarrow> subscriptionAllowStatement" where
  "subscriptionAllow sid queueArn topicArn = \<lparr>sa_Sid = sid, sa_Resource = queueArn, sa_SourceArn = topicArn\<rparr>"

text \<open>The struct as it is marshalled, with its constant members.\<close>

definition allowJSON :: "subscriptionAllowStatement \<Rightarrow> json" where
  "allowJSON a =
     JObj [(''Sid'', JStr (sa_Sid a)), (''Effect'', JStr ''Allow''),
           (''Principal'', JObj [(''Service'', JStr ''sns.amazonaws.com'')]),
           (''Action'', JArr [JStr ''sqs:SendMessage'']), (''Resource'', JStr (sa_Resource a)),
           (''Condition'', JObj [(''ArnEquals'', JObj [(''aws:SourceArn'', JStr (sa_SourceArn a))])])]"

primrec mergeAllows :: "subscriptionAllowStatement list \<Rightarrow> json list \<times> bool \<Rightarrow> json list \<times> bool" where
  "mergeAllows [] acc = acc"
| "mergeAllows (a # as) acc =
     (case acc of (statements, changed) \<Rightarrow>
        (case Upsert statements (sa_Sid a) (allowJSON a) of (statements', statementChanged) \<Rightarrow>
           mergeAllows as (statements', changed \<or> statementChanged)))"

definition ensureSubscriptionAllows :: "env \<Rightarrow> string \<Rightarrow> subscriptionAllowStatement list \<Rightarrow> go_error option op" where
  "ensureSubscriptionAllows v queueURL allows =
     (if allows = [] then ret None
      else do {
        r \<leftarrow> readPolicy v queueURL;
        case r of
          Inl e \<Rightarrow> ret (Some e)
        | Inr doc \<Rightarrow>
            (case mergeAllows allows (pd_Statement doc, False) of (statements, changed) \<Rightarrow>
               if \<not> changed then ret None else writePolicy v queueURL (doc\<lparr>pd_Statement := statements\<rparr>))
      })"

definition removeSubscriptionAllow :: "env \<Rightarrow> string \<Rightarrow> string \<Rightarrow> go_error option op" where
  "removeSubscriptionAllow v queueURL sid = removeStatement v queueURL sid"

section \<open>Round trip of the document\<close>

lemma documentFields_wf:
  assumes "documentFields kvs doc = Some doc'" "\<forall>kv\<in>set kvs. wfJSON (snd kv)" "\<forall>s\<in>set (pd_Statement doc). wfJSON s"
  shows "\<forall>s\<in>set (pd_Statement doc'). wfJSON s"
  using assms
proof (induction kvs doc rule: documentFields.induct)
  case (2 k v kvs doc)
  note IH = 2(1-5) and eq = 2(6) and stmts = 2(8)
  have wf: "\<forall>kv\<in>set kvs. wfJSON (snd kv)" "wfJSON v" using 2(7) by simp_all
  consider (version) "equalFold k ''Version''" | (statement) "\<not> equalFold k ''Version''" "equalFold k ''Statement''"
    | (other) "\<not> equalFold k ''Version''" "\<not> equalFold k ''Statement''" by blast
  then show ?case
  proof cases
    case version
    with eq obtain s where "v = JStr s \<and> documentFields kvs (doc\<lparr>pd_Version := s\<rparr>) = Some doc'
        \<or> v = JNull \<and> documentFields kvs doc = Some doc'" by (cases v) auto
    then show ?thesis using IH(1,2) [OF version] wf(1) stmts by auto
  next
    case statement
    with eq obtain xs where "v = JArr xs \<and> documentFields kvs (doc\<lparr>pd_Statement := xs\<rparr>) = Some doc'
        \<or> v = JNull \<and> documentFields kvs (doc\<lparr>pd_Statement := []\<rparr>) = Some doc'" by (cases v) auto
    then consider (arr) "v = JArr xs" "documentFields kvs (doc\<lparr>pd_Statement := xs\<rparr>) = Some doc'"
      | (nul) "v = JNull" "documentFields kvs (doc\<lparr>pd_Statement := []\<rparr>) = Some doc'" by blast
    then show ?thesis
    proof cases
      case arr
      show ?thesis by (rule IH(4) [OF statement arr(1,2) wf(1)]) (use wf(2) arr(1) in simp)
    next
      case nul
      show ?thesis by (rule IH(3) [OF statement nul(1,2) wf(1)]) simp
    qed
  next
    case other
    then show ?thesis using IH(5) eq wf stmts by simp
  qed
qed simp

lemma policyOf_wf: "policyOf attrs = Some doc \<Longrightarrow> \<forall>s\<in>set (pd_Statement doc). wfJSON s"
proof (cases "goget attrs attrPolicy = []")
  case False
  assume "policyOf attrs = Some doc"
  with False have p: "parsePolicy (goget attrs attrPolicy) = Some doc" by (simp add: policyOf_def Let_def)
  then obtain j where j: "parseJSON (goget attrs attrPolicy) = Some j"
    by (auto simp: parsePolicy_def split: option.splits)
  have "wfJSON j" using j by (rule parse_wf)
  with p j show ?thesis
    by (cases j) (auto simp: parsePolicy_def dest: documentFields_wf)
qed (auto simp: policyOf_def Let_def)

lemma parse_renderPolicy:
  assumes "\<forall>s\<in>set (pd_Statement doc). wfJSON s"
  shows "parsePolicy (renderPolicy doc) = Some doc"
proof -
  have "parseJSON (renderPolicy doc) =
      Some (JObj [(''Version'', JStr (pd_Version doc)), (''Statement'', JArr (pd_Statement doc))])"
    unfolding renderPolicy_def by (rule parse_render) (use assms in simp)
  then show ?thesis
    by (simp add: parsePolicy_def equalFold_def lowerByte_def)
qed

lemma renderPolicy_nonempty [simp]: "renderPolicy doc \<noteq> []"
  by (simp add: renderPolicy_def)

lemma policyOf_written [simp]:
  assumes "\<forall>s\<in>set (pd_Statement doc). wfJSON s"
  shows "policyOf [attrPolicy \<mapsto> renderPolicy doc] = Some doc"
  using parse_renderPolicy [OF assms] by (simp add: policyOf_def Let_def goget_def)

lemma policyOf_cleared [simp]: "policyOf [attrPolicy \<mapsto> []] = Some \<lparr>pd_Version = ''2012-10-17'', pd_Statement = []\<rparr>"
  by (simp add: policyOf_def goget_def)

section \<open>Statements of others survive every edit\<close>

text \<open>The Sids of the operator's own statements share a prefix.\<close>

definition ownSid :: "string \<Rightarrow> bool" where
  "ownSid sid \<longleftrightarrow> hasPrefix sid ''cloudctl-''"

definition foreignStatements :: "json list \<Rightarrow> json list" where
  "foreignStatements ss = filter (\<lambda>s. \<not> ownSid (sidOf s)) ss"

lemma own_sids [simp]:
  "ownSid pendingDeletionDenySid" "ownSid InsecureTransportSid" "ownSid (subscriptionAllowSid n)"
  by (simp_all add: ownSid_def hasPrefix_def pendingDeletionDenySid_def InsecureTransportSid_def subscriptionAllowSid_def)

lemma foreign_under:
  assumes "ownSid sid"
  shows "foreignStatements ss = foreignStatements (filter (\<lambda>s. sidOf s \<noteq> sid) ss)"
  unfolding foreignStatements_def filter_filter using assms by (auto intro: filter_cong)

lemma foreign_Upsert:
  assumes "ownSid sid" "sidOf stmt = sid"
  shows "foreignStatements (fst (Upsert ss sid stmt)) = foreignStatements ss"
  using foreign_under [OF assms(1)] Upsert_others [OF assms(2)] by metis

lemma foreign_Remove: "ownSid sid \<Longrightarrow> foreignStatements (fst (Remove ss sid)) = foreignStatements ss"
  using foreign_under [of sid ss] by (simp add: Remove_def Let_def)

lemma sidOf_denyStatement [simp]: "sidOf (denyStatement a) = pendingDeletionDenySid"
  unfolding denyStatement_def by (rule sidOf_obj_first) (auto simp: equalFold_def lowerByte_def)

lemma sidOf_allowJSON [simp]: "sidOf (allowJSON a) = sa_Sid a"
  unfolding allowJSON_def by (rule sidOf_obj_first) (auto simp: equalFold_def lowerByte_def)

lemma wf_statements [simp]:
  "wfJSON (denyStatement a)" "wfJSON (allowJSON al)" "wfJSON (DenyInsecureTransport x rs)"
  by (simp_all add: denyStatement_def allowJSON_def DenyInsecureTransport_def denyInsecureTransport_def)

lemma wf_Upsert: "\<forall>s\<in>set ss. wfJSON s \<Longrightarrow> wfJSON stmt \<Longrightarrow> \<forall>s\<in>set (fst (Upsert ss sid stmt)). wfJSON s"
  by (induction ss) (auto simp: split_beta Let_def)

lemma wf_Remove: "\<forall>s\<in>set ss. wfJSON s \<Longrightarrow> \<forall>s\<in>set (fst (Remove ss sid)). wfJSON s"
  by (simp add: Remove_def Let_def)

lemma mergeAllows_foreign:
  assumes "\<forall>a\<in>set allows. ownSid (sa_Sid a)"
  shows "foreignStatements (fst (mergeAllows allows (ss, b))) = foreignStatements ss"
  using assms
proof (induction allows arbitrary: ss b)
  case (Cons a allows)
  then show ?case
    using foreign_Upsert [of "sa_Sid a" "allowJSON a" ss] by (simp add: split_beta)
qed simp

lemma mergeAllows_wf:
  assumes "\<forall>s\<in>set ss. wfJSON s"
  shows "\<forall>s\<in>set (fst (mergeAllows allows (ss, b))). wfJSON s"
  using assms
proof (induction allows arbitrary: ss b)
  case (Cons a allows)
  have "\<forall>s\<in>set (fst (Upsert ss (sa_Sid a) (allowJSON a))). wfJSON s" by (rule wf_Upsert [OF Cons.prems]) simp
  from Cons.IH [OF this] show ?case by (simp add: split_beta)
qed simp

text \<open>
  The guard: whenever a policy is written, the same run has read the policy of that queue, and the
  written text denotes a document with exactly the foreign statements of the one read, in order.
\<close>

definition policyGuard :: "history \<Rightarrow> call \<Rightarrow> bool" where
  "policyGuard pre c \<longleftrightarrow> (\<forall>u kvs r body. c = SQSCall (SetQueueAttributes u kvs r) \<longrightarrow> (attrPolicy, body) \<in> set kvs \<longrightarrow>
     (\<exists>attrs doc doc'. SQSCall (GetQueueAttributes u [attrPolicy] (Inr attrs)) \<in> set pre \<and> policyOf attrs = Some doc
        \<and> policyOf [attrPolicy \<mapsto> body] = Some doc'
        \<and> foreignStatements (pd_Statement doc') = foreignStatements (pd_Statement doc)))"

lemma leftmono_policyGuard: "leftmono policyGuard"
  unfolding leftmono_def policyGuard_def by (metis Un_iff set_append)

definition noPolicyWrite :: "call \<Rightarrow> bool" where
  "noPolicyWrite c \<longleftrightarrow> (\<forall>u kvs r. c = SQSCall (SetQueueAttributes u kvs r) \<longrightarrow> attrPolicy \<notin> fst ` set kvs)"

lemma noPolicyWrite_guard: "noPolicyWrite c \<Longrightarrow> policyGuard pre c"
  unfolding noPolicyWrite_def policyGuard_def by (metis fst_conv image_eqI)

lemma guards_noPolicyWrite: "emits noPolicyWrite m \<Longrightarrow> guards policyGuard m"
  by (erule guards_emits) (rule noPolicyWrite_guard)

definition keepsForeign :: "string \<Rightarrow> go_error + policyDocument \<Rightarrow> call \<Rightarrow> bool" where
  "keepsForeign u res c \<longleftrightarrow> noPolicyWrite c \<or>
     (\<exists>doc body r doc'. res = Inr doc \<and> c = SQSCall (SetQueueAttributes u [(attrPolicy, body)] r)
        \<and> ((\<forall>s\<in>set (pd_Statement doc). wfJSON s) \<longrightarrow> policyOf [attrPolicy \<mapsto> body] = Some doc'
             \<and> foreignStatements (pd_Statement doc') = foreignStatements (pd_Statement doc)))"

lemma guards_readPolicy:
  assumes "\<And>res. emits (keepsForeign u res) (f res)"
  shows "guards policyGuard (State_Monad.bind (readPolicy v u) f)"
proof (rule guards_after [OF _ assms])
  fix w :: world
  let ?r = "qa_GetQueueAttributes (env_sqs v) (trace w) u [attrPolicy]"
  let ?c = "SQSCall (GetQueueAttributes u [attrPolicy] ?r)"
  have g: "guardedTrace policyGuard [?c]"
    using guardedTrace_snoc [of policyGuard "[]" ?c] by (simp add: policyGuard_def)
  have "policyGuard ([?c] @ x) c" if r: "?r = Inr attrs" "policyOf attrs = Some doc" and k: "keepsForeign u (Inr doc) c" for attrs doc x c
  proof (cases "noPolicyWrite c")
    case False
    then obtain body ans written where c: "c = SQSCall (SetQueueAttributes u [(attrPolicy, body)] ans)"
      "policyOf [attrPolicy \<mapsto> body] = Some written"
      "foreignStatements (pd_Statement written) = foreignStatements (pd_Statement doc)"
      using k policyOf_wf [OF r(2)] unfolding keepsForeign_def by blast
    have "?c \<in> set ([?c] @ x)" by simp
    with c r show ?thesis unfolding policyGuard_def by auto
  qed (rule noPolicyWrite_guard)
  moreover have "policyGuard ([?c] @ x) c" if "keepsForeign u (Inl e) c" for e x c
    using that noPolicyWrite_guard by (auto simp: keepsForeign_def)
  ultimately show "wp (readPolicy v u) (\<lambda>a w'. \<exists>new. trace w' = trace w @ new \<and> guardedTrace policyGuard new
      \<and> (\<forall>x c. keepsForeign u a c \<longrightarrow> policyGuard (new @ x) c)) w"
    unfolding readPolicy_def sqs_GetQueueAttributes_def using g
    by (auto simp: wp_simps split: sum.split option.split intro!: exI [of _ "[?c]"])
qed

lemma sqs_emits_op:
  "(\<And>r. C (SQSCall (CreateQueue n a t r))) \<Longrightarrow> emits C (sqs_CreateQueue v n a t)"
  "(\<And>r. C (SQSCall (GetQueueUrl n r))) \<Longrightarrow> emits C (sqs_GetQueueUrl v n)"
  "(\<And>r. C (SQSCall (GetQueueAttributes u ns r))) \<Longrightarrow> emits C (sqs_GetQueueAttributes v u ns)"
  "(\<And>r. C (SQSCall (SetQueueAttributes u a r))) \<Longrightarrow> emits C (sqs_SetQueueAttributes v u a)"
  "(\<And>r. C (SQSCall (ListQueueTags u r))) \<Longrightarrow> emits C (sqs_ListQueueTags v u)"
  "(\<And>r. C (SQSCall (TagQueue u t r))) \<Longrightarrow> emits C (sqs_TagQueue v u t)"
  "(\<And>r. C (SQSCall (UntagQueue u ks r))) \<Longrightarrow> emits C (sqs_UntagQueue v u ks)"
  "(\<And>r. C (SQSCall (DeleteQueue u r))) \<Longrightarrow> emits C (sqs_DeleteQueue v u)"
  "(\<And>r. C (SNSCall (Subscribe topic q e r))) \<Longrightarrow> emits C (sns_Subscribe v topic q e)"
  "(\<And>r. C (SNSCall (Unsubscribe s r))) \<Longrightarrow> emits C (sns_Unsubscribe v s)"
  "(\<And>r. C (K8sCall (GetCR space nm r))) \<Longrightarrow> emits C (k8s_GetCR v space nm)"
  by (simp_all add: op_defs emits_invoke)

lemmas sqs_rules = emits_intros sqs_emits_op

lemma emits_writePolicy:
  "(\<And>r. C (SQSCall (SetQueueAttributes u [(attrPolicy, renderPolicy doc)] r))) \<Longrightarrow> emits C (writePolicy v u doc)"
  unfolding writePolicy_def by (intro sqs_rules)

lemma emits_readPolicy:
  "(\<And>r. C (SQSCall (GetQueueAttributes u [attrPolicy] r))) \<Longrightarrow> emits C (readPolicy v u)"
  unfolding readPolicy_def by (intro sqs_rules)

lemma keepsForeign_write:
  assumes "\<forall>s\<in>set (pd_Statement doc). wfJSON s \<Longrightarrow> \<forall>s\<in>set ss. wfJSON s"
    and "foreignStatements ss = foreignStatements (pd_Statement doc)"
  shows "keepsForeign u (Inr doc) (SQSCall (SetQueueAttributes u [(attrPolicy, renderPolicy (doc\<lparr>pd_Statement := ss\<rparr>))] r))"
  unfolding keepsForeign_def using assms by (intro disjI2) (auto intro!: exI [of _ "doc\<lparr>pd_Statement := ss\<rparr>"])

lemma foreign_nil: "foreignStatements [] = []"
  by (simp add: foreignStatements_def)

lemma keepsForeign_clear:
  "foreignStatements (pd_Statement doc) = [] \<Longrightarrow> keepsForeign u (Inr doc) (SQSCall (SetQueueAttributes u [(attrPolicy, [])] r))"
  unfolding keepsForeign_def by (intro disjI2) (auto simp: foreign_nil)

lemma guards_addPendingDeletionDeny: "guards policyGuard (addPendingDeletionDeny v u arn)"
  unfolding addPendingDeletionDeny_def
proof (rule guards_readPolicy)
  fix res :: "go_error + policyDocument"
  show "emits (keepsForeign u res) (case res of Inl e \<Rightarrow> ret (Some e)
     | Inr doc \<Rightarrow> (case Upsert (pd_Statement doc) pendingDeletionDenySid (denyStatement arn) of
         (statements, changed) \<Rightarrow> if \<not> changed then ret None else writePolicy v u (doc\<lparr>pd_Statement := statements\<rparr>)))"
  proof (cases res)
    case (Inr doc)
    have "keepsForeign u (Inr doc) (SQSCall (SetQueueAttributes u [(attrPolicy, renderPolicy (doc\<lparr>pd_Statement := ss\<rparr>))] r))"
      if "Upsert (pd_Statement doc) pendingDeletionDenySid (denyStatement arn) = (ss, b)" for ss b r
      using wf_Upsert [of "pd_Statement doc" "denyStatement arn" pendingDeletionDenySid]
        foreign_Upsert [of pendingDeletionDenySid "denyStatement arn" "pd_Statement doc"] that
      by (intro keepsForeign_write) simp_all
    then show ?thesis unfolding Inr sum.case by (intro sqs_rules emits_writePolicy) blast
  qed (simp add: emits_ret)
qed

lemma guards_reconcileDeclaredPolicy: "guards policyGuard (reconcileDeclaredPolicy v p u arn)"
  unfolding reconcileDeclaredPolicy_def
proof (rule guards_readPolicy)
  fix res :: "go_error + policyDocument"
  let ?stmt = "DenyInsecureTransport ''sqs:*'' [arn]"
  show "emits (keepsForeign u res) (case res of Inl e \<Rightarrow> ret (Some (wrapAWSError e ''reading the queue's policy''))
     | Inr doc \<Rightarrow> (case Upsert (pd_Statement doc) InsecureTransportSid ?stmt of (statements1, changed) \<Rightarrow>
          (case Remove statements1 pendingDeletionDenySid of (statements, lifted) \<Rightarrow>
             if \<not> changed \<and> \<not> lifted then ret None
             else do {
               w \<leftarrow> writePolicy v u (doc\<lparr>pd_Statement := statements\<rparr>);
               case w of
                 Some e \<Rightarrow> ret (Some (wrapAWSError e ''writing the queue's policy''))
               | None \<Rightarrow> do {
                   (if changed then recordEvent p ''Normal'' ''TransportSecurityEnforced'' [arn] else ret ());
                   (if lifted then recordEvent p ''Normal'' ''PendingDeletionDenyLifted'' [arn] else ret ());
                   ret None
                 }
             })))"
  proof (cases res)
    case (Inr doc)
    have "keepsForeign u (Inr doc) (SQSCall (SetQueueAttributes u [(attrPolicy, renderPolicy (doc\<lparr>pd_Statement := ss\<rparr>))] r))"
      if u: "Upsert (pd_Statement doc) InsecureTransportSid ?stmt = (ss1, b)" and d: "Remove ss1 pendingDeletionDenySid = (ss, b')"
      for ss1 ss b b' r
    proof (rule keepsForeign_write)
      have "foreignStatements ss1 = foreignStatements (pd_Statement doc)"
        using foreign_Upsert [of InsecureTransportSid ?stmt "pd_Statement doc"] u by (simp add: DenyInsecureTransport_def)
      then show "foreignStatements ss = foreignStatements (pd_Statement doc)"
        using foreign_Remove [of pendingDeletionDenySid ss1] d by simp
      assume "\<forall>s\<in>set (pd_Statement doc). wfJSON s"
      then have "\<forall>s\<in>set ss1. wfJSON s" using wf_Upsert [of "pd_Statement doc" ?stmt InsecureTransportSid] u by simp
      then show "\<forall>s\<in>set ss. wfJSON s" using wf_Remove [of ss1 pendingDeletionDenySid] d by simp
    qed
    then show ?thesis unfolding Inr sum.case by (intro sqs_rules emits_writePolicy) blast
  qed (simp add: emits_ret)
qed

lemma guards_removeStatement:
  assumes "ownSid sid"
  shows "guards policyGuard (removeStatement v u sid)"
  unfolding removeStatement_def
proof (rule guards_readPolicy)
  fix res :: "go_error + policyDocument"
  show "emits (keepsForeign u res) (case res of Inl e \<Rightarrow> ret (Some e)
     | Inr doc \<Rightarrow> (case Remove (pd_Statement doc) sid of (statements, changed) \<Rightarrow>
         if \<not> changed then ret None
         else if statements = [] then do {
           w \<leftarrow> sqs_SetQueueAttributes v u [(attrPolicy, [])];
           case w of Inl e \<Rightarrow> ret (Some (ExtError e)) | Inr _ \<Rightarrow> ret None
         }
         else writePolicy v u (doc\<lparr>pd_Statement := statements\<rparr>)))"
  proof (cases res)
    case (Inr doc)
    have f: "foreignStatements ss = foreignStatements (pd_Statement doc)" if "Remove (pd_Statement doc) sid = (ss, b)" for ss b
      using foreign_Remove [OF assms, of "pd_Statement doc"] that by simp
    have "keepsForeign u (Inr doc) (SQSCall (SetQueueAttributes u [(attrPolicy, renderPolicy (doc\<lparr>pd_Statement := ss\<rparr>))] r))"
      if "Remove (pd_Statement doc) sid = (ss, b)" for ss b r
      using wf_Remove [of "pd_Statement doc" sid] that f [OF that] by (intro keepsForeign_write) simp_all
    moreover have "keepsForeign u (Inr doc) (SQSCall (SetQueueAttributes u [(attrPolicy, [])] r))"
      if "Remove (pd_Statement doc) sid = ([], b)" for b r
      using f [OF that] by (intro keepsForeign_clear) (simp add: foreign_nil)
    ultimately show ?thesis unfolding Inr sum.case by (intro sqs_rules emits_writePolicy) blast+
  qed (simp add: emits_ret)
qed

lemma guards_ensureSubscriptionAllows:
  assumes "\<forall>a\<in>set allows. ownSid (sa_Sid a)"
  shows "guards policyGuard (ensureSubscriptionAllows v u allows)"
proof (cases "allows = []")
  case False
  show ?thesis
    unfolding ensureSubscriptionAllows_def if_not_P [OF False]
  proof (rule guards_readPolicy)
    fix res :: "go_error + policyDocument"
    show "emits (keepsForeign u res) (case res of Inl e \<Rightarrow> ret (Some e)
       | Inr doc \<Rightarrow> (case mergeAllows allows (pd_Statement doc, False) of (statements, changed) \<Rightarrow>
           if \<not> changed then ret None else writePolicy v u (doc\<lparr>pd_Statement := statements\<rparr>)))"
    proof (cases res)
      case (Inr doc)
      have "keepsForeign u (Inr doc) (SQSCall (SetQueueAttributes u [(attrPolicy, renderPolicy (doc\<lparr>pd_Statement := ss\<rparr>))] r))"
        if "mergeAllows allows (pd_Statement doc, False) = (ss, b)" for ss b r
        using mergeAllows_wf [of "pd_Statement doc" allows False] mergeAllows_foreign [OF assms, of "pd_Statement doc" False] that
        by (intro keepsForeign_write) simp_all
      then show ?thesis unfolding Inr sum.case by (intro sqs_rules emits_writePolicy) blast
    qed (simp add: emits_ret)
  qed
qed (simp add: ensureSubscriptionAllows_def guards_ret)

end
