(* ===== verification/Sqs.thy ===== *)
theory Sqs
  imports Sqs_Policy Kms Iam_Derive
begin

text \<open>
  The SQS package, \<^verbatim>\<open>internal/resources/sqs\<close>: ensuring declared queues and their dead-letter queues
  (\<^verbatim>\<open>sqs.go\<close>), their subscriptions to topics (\<^verbatim>\<open>subscriptions.go\<close>) and the cleanup of queues that are no
  longer declared (\<^verbatim>\<open>cleanup.go\<close>). Names that other packages use too carry the suffix \<open>_sqs\<close>. A Go map
  of attributes is an association list without repeated names. The dereferences of response
  fields assume what AWS documents, that a successful answer has them.
\<close>

section \<open>Subscriptions\<close>

definition resolveTopicARN :: "env \<Rightarrow> pass \<Rightarrow> ConsumeRef \<Rightarrow> (string option \<times> go_error option) op" where
  "resolveTopicARN v p ref = ResolveConsumeARN v (ps_namespace p) (ps_crName p) typeSNS ref"

definition refText :: "string \<Rightarrow> ConsumeRef \<Rightarrow> string list" where
  "refText queueName ref = [queueName, cr_Namespace ref, cr_Name ref, cr_ResourceName ref]"

definition subscriptionEntry :: "pass \<Rightarrow> string \<Rightarrow> string \<Rightarrow> ManagedResource option \<Rightarrow> ManagedResource" where
  "subscriptionEntry p ledgerName arn existing =
     zeroManagedResource\<lparr>mr_Type := subscriptionResourceType, mr_Name := ledgerName, mr_ARN := arn,
       mr_DeletionPolicy := DeletionPolicyDelete, mr_State := StateVerified,
       mr_CreatedAt := (case existing of None \<Rightarrow> ps_now p | Some e \<Rightarrow> mr_CreatedAt e),
       mr_LastVerifiedAt := Some (ps_now p)\<rparr>"

primrec ensureSubscriptionLoop ::
  "env \<Rightarrow> pass \<Rightarrow> string \<Rightarrow> string \<Rightarrow> ConsumeRef list
   \<Rightarrow> ledger \<times> subscriptionAllowStatement list \<times> go_error option
   \<Rightarrow> (ledger \<times> subscriptionAllowStatement list \<times> go_error option) op" where
  "ensureSubscriptionLoop v p queueName queueARN [] acc = ret acc"
| "ensureSubscriptionLoop v p queueName queueARN (ref # refs) acc =
     (case acc of (l, allows, firstErr) \<Rightarrow> do {
        (topic, err) \<leftarrow> resolveTopicARN v p ref;
        (let firstErr1 = firstError firstErr err in
         case topic of
           None \<Rightarrow> ensureSubscriptionLoop v p queueName queueARN refs (l, allows, firstErr1)
         | Some topicARN \<Rightarrow>
             (let ledgerName = subscriptionLedgerName queueName ref;
                  entry = FindManagedResource l subscriptionResourceType ledgerName;
                  allow1 = subscriptionAllow (subscriptionAllowSid ledgerName) queueARN topicARN
              in if (case entry of None \<Rightarrow> True | Some e \<Rightarrow> NeedsRevalidation (ps_now p) e)
                 then do {
                   out \<leftarrow> sns_Subscribe v topicARN ''sqs'' queueARN;
                   case out of
                     Inl e \<Rightarrow> ensureSubscriptionLoop v p queueName queueARN refs
                                (l, allows, firstError firstErr1 (Some (wrapf ''subscribing queue'' (refText queueName ref) (ExtError e))))
                   | Inr arn \<Rightarrow> do {
                       (case entry of
                          None \<Rightarrow> recordEvent p ''Normal'' ''SubscriptionCreated'' (refText queueName ref)
                        | Some e \<Rightarrow> if mr_ARN e \<noteq> arn then recordEvent p ''Warning'' ''SubscriptionRepaired'' (refText queueName ref)
                                    else ret ());
                       ensureSubscriptionLoop v p queueName queueARN refs
                         (UpsertManagedResource l (subscriptionEntry p ledgerName arn entry), allows @ [allow1], firstErr1)
                     }
                 }
                 else ensureSubscriptionLoop v p queueName queueARN refs (l, allows @ [allow1], firstErr1)))
      })"

definition EnsureSubscriptions ::
  "env \<Rightarrow> pass \<Rightarrow> string \<Rightarrow> string \<Rightarrow> string \<Rightarrow> ConsumeRef list \<Rightarrow> ledger \<Rightarrow> (ledger \<times> go_error option) op" where
  "EnsureSubscriptions v p queueName queueURL queueARN subscribesTo l = do {
     (l1, allows, firstErr) \<leftarrow> ensureSubscriptionLoop v p queueName queueARN subscribesTo (l, [], None);
     err \<leftarrow> ensureSubscriptionAllows v queueURL allows;
     ret (l1, firstError firstErr (map_option (wrapf ''granting subscribed topics send access to queue'' [queueName]) err))
   }"

definition subscriptionOf :: "string \<Rightarrow> ManagedResource \<Rightarrow> bool" where
  "subscriptionOf queueName entry \<longleftrightarrow>
     mr_Type entry = subscriptionResourceType \<and> hasPrefix (mr_Name entry) (queueName @ subscriptionLedgerSeparator)"

definition hasSubscriptionEntries :: "ledger \<Rightarrow> string \<Rightarrow> bool" where
  "hasSubscriptionEntries l queueName = list_ex (subscriptionOf queueName) l"

primrec authorizedRefs :: "env \<Rightarrow> pass \<Rightarrow> string \<Rightarrow> ConsumeRef list \<Rightarrow> string list \<Rightarrow> (go_error + string list) op" where
  "authorizedRefs v p queueName [] names = ret (Inr names)"
| "authorizedRefs v p queueName (ref # refs) names = do {
     (topic, err) \<leftarrow> resolveTopicARN v p ref;
     case err of
       Some e \<Rightarrow> ret (Inl e)
     | None \<Rightarrow> (case topic of
                  Some _ \<Rightarrow> authorizedRefs v p queueName refs (names @ [subscriptionLedgerName queueName ref])
                | None \<Rightarrow> authorizedRefs v p queueName refs names)
   }"

primrec cleanupSubscriptionLoop ::
  "env \<Rightarrow> pass \<Rightarrow> string \<Rightarrow> string \<Rightarrow> string list \<Rightarrow> ManagedResource list \<Rightarrow> ledger \<times> go_error option
   \<Rightarrow> (ledger \<times> go_error option) op" where
  "cleanupSubscriptionLoop v p queueName queueURL authorized [] acc = ret acc"
| "cleanupSubscriptionLoop v p queueName queueURL authorized (entry # rest) acc =
     (case acc of (l, firstErr) \<Rightarrow>
        if \<not> subscriptionOf queueName entry \<or> mr_Name entry \<in> set authorized
        then cleanupSubscriptionLoop v p queueName queueURL authorized rest acc
        else do {
          r \<leftarrow> sns_Unsubscribe v (mr_ARN entry);
          (let failed = (case r of Inl e \<Rightarrow> if isException ''NotFoundException'' e then None else Some e | Inr _ \<Rightarrow> None) in
           case failed of
             Some e \<Rightarrow> cleanupSubscriptionLoop v p queueName queueURL authorized rest
                         (l, firstError firstErr (Some (wrapf ''unsubscribing'' [mr_Name entry] (ExtError e))))
           | None \<Rightarrow> do {
               err \<leftarrow> (if queueURL \<noteq> [] then removeSubscriptionAllow v queueURL (subscriptionAllowSid (mr_Name entry)) else ret None);
               case err of
                 Some e \<Rightarrow> cleanupSubscriptionLoop v p queueName queueURL authorized rest
                             (l, firstError firstErr (Some (wrapf ''revoking queue policy grant'' [mr_Name entry] e)))
               | None \<Rightarrow> do {
                   recordEvent p ''Normal'' ''SubscriptionRemoved'' [queueName, mr_Name entry];
                   cleanupSubscriptionLoop v p queueName queueURL authorized rest
                     (RemoveManagedResource l subscriptionResourceType (mr_Name entry), firstErr)
                 }
             })
        })"

definition CleanupSubscriptions ::
  "env \<Rightarrow> pass \<Rightarrow> string \<Rightarrow> string \<Rightarrow> ConsumeRef list \<Rightarrow> ledger \<Rightarrow> (ledger \<times> go_error option) op" where
  "CleanupSubscriptions v p queueName queueURL subscribesTo l = do {
     r \<leftarrow> authorizedRefs v p queueName subscribesTo [];
     case r of
       Inl e \<Rightarrow> ret (l, Some e)
     | Inr authorized \<Rightarrow> cleanupSubscriptionLoop v p queueName queueURL authorized l (l, None)
   }"

section \<open>Ensuring a queue\<close>

definition defaultMaxReceiveCount :: int where "defaultMaxReceiveCount = 5"
definition sqsNameMaxLen :: int where "sqsNameMaxLen = 80"

record queueOptions =
  qo_deletionPolicy :: DeletionPolicy
  qo_force :: bool
  qo_adopt :: bool
  qo_fifo :: bool
  qo_contentBasedDeduplication :: bool
  qo_visibilityTimeoutSeconds :: "int option"
  qo_redrivePolicy :: "string option"
  qo_kmsKeyARN :: "string option"
  qo_derivedFromKey :: string
  qo_derivedRole :: string
  qo_checkAdoptedKey :: "(string \<Rightarrow> go_error option op) option"

text \<open>The error result is \<open>Inl\<close>.\<close>

definition queueNameFromARN :: "string \<Rightarrow> go_error + string" where
  "queueNameFromARN arn =
     (if CHR '':'' \<notin> set arn \<or> last arn = CHR '':'' then Inl (msgError ''unexpected queue ARN format'' [arn])
      else Inr (afterLast arn CHR '':''))"

definition checkFIFOUnchanged :: "ledger \<Rightarrow> string \<Rightarrow> bool \<Rightarrow> go_error option" where
  "checkFIFOUnchanged l resourceName fifo =
     (case FindManagedResource l typeSQS resourceName of
        None \<Rightarrow> None
      | Some existing \<Rightarrow> if mr_State existing = StateRelinquished then None
                         else CheckFIFOUnchanged ''queue'' (mr_ARN existing) fifo)"

definition desiredAttributes :: "queueOptions \<Rightarrow> attr_list" where
  "desiredAttributes opts =
     (case qo_redrivePolicy opts of None \<Rightarrow> [] | Some s \<Rightarrow> [(''RedrivePolicy'', s)])
   @ (if qo_fifo opts
      then [(''ContentBasedDeduplication'', if qo_contentBasedDeduplication opts then ''true'' else ''false'')] else [])
   @ (case qo_visibilityTimeoutSeconds opts of None \<Rightarrow> [] | Some n \<Rightarrow> [(''VisibilityTimeout'', show_int n)])
   @ (case qo_kmsKeyARN opts of None \<Rightarrow> [] | Some a \<Rightarrow> [(''KmsMasterKeyId'', a)])"

definition correctedAttributes :: "queueOptions \<Rightarrow> attr_list" where
  "correctedAttributes opts =
     desiredAttributes opts @ (if qo_redrivePolicy opts = None then [(''RedrivePolicy'', [])] else [])"

definition reconcileAttributes :: "env \<Rightarrow> string \<Rightarrow> queueOptions \<Rightarrow> go_error option op" where
  "reconcileAttributes v queueURL opts =
     (let desired = correctedAttributes opts in do {
        r \<leftarrow> sqs_GetQueueAttributes v queueURL (map fst desired);
        case r of
          Inl e \<Rightarrow> ret (Some (wrapf ''reading current attributes'' [] (ExtError e)))
        | Inr current \<Rightarrow>
            (let changed = filter (\<lambda>kv. goget current (fst kv) \<noteq> snd kv) desired in
             if changed = [] then ret None
             else do {
               s \<leftarrow> sqs_SetQueueAttributes v queueURL changed;
               case s of Inl e \<Rightarrow> ret (Some (ExtError e)) | Inr _ \<Rightarrow> ret None
             })
      })"

definition recordVerified ::
  "env \<Rightarrow> pass \<Rightarrow> string \<Rightarrow> string \<Rightarrow> DeletionPolicy \<Rightarrow> bool \<Rightarrow> ledger \<Rightarrow> (ledger \<times> go_error option) op" where
  "recordVerified v p queueURL ledgerName deletionPolicy force l = do {
     r \<leftarrow> sqs_GetQueueAttributes v queueURL [''QueueArn''];
     case r of
       Inl e \<Rightarrow> ret (l, Some (wrapAWSError (ExtError e) ''reading queue ARN''))
     | Inr attrs \<Rightarrow>
         ret (UpsertManagedResource l (zeroManagedResource\<lparr>
                mr_Type := typeSQS, mr_Name := ledgerName, mr_ARN := goget attrs ''QueueArn'', mr_State := StateVerified,
                mr_DeletionPolicy := deletionPolicy, mr_Force := force,
                mr_CreatedAt := (case FindManagedResource l typeSQS ledgerName of None \<Rightarrow> ps_now p | Some e \<Rightarrow> mr_CreatedAt e),
                mr_LastVerifiedAt := Some (ps_now p)\<rparr>), None)
   }"

definition createQueue ::
  "env \<Rightarrow> pass \<Rightarrow> string \<Rightarrow> string \<Rightarrow> tags \<Rightarrow> queueOptions \<Rightarrow> ledger \<Rightarrow> (ledger \<times> string \<times> go_error option) op" where
  "createQueue v p queueName resourceName tgs opts l =
     (let attrs = desiredAttributes opts @ (if qo_fifo opts then [(''FifoQueue'', ''true'')] else []) in do {
        r \<leftarrow> sqs_CreateQueue v queueName attrs tgs;
        case r of
          Inl cErr \<Rightarrow>
            if isException ''QueueDeletedRecently'' cErr
            then ret (l, [], Some (ReconcileError
                   (wrapf ''queue was deleted too recently to recreate yet'' [queueName] (ExtError cErr)) True [] False))
            else ret (l, [], Some (wrapAWSError (ExtError cErr) ''creating queue''))
        | Inr url \<Rightarrow> do {
            recordEvent p ''Normal'' ''QueueCreated'' [queueName];
            (l1, err) \<leftarrow> recordVerified v p url resourceName (qo_deletionPolicy opts) (qo_force opts) l;
            ret (l1, url, err)
          }
      })"

definition adoptQueue ::
  "env \<Rightarrow> pass \<Rightarrow> string \<Rightarrow> string \<Rightarrow> tags \<Rightarrow> tags \<Rightarrow> queueOptions \<Rightarrow> go_error option op" where
  "adoptQueue v p queueName queueURL currentTags tgs opts =
     (case CheckExistingOwnership p ''queue'' queueName currentTags (qo_adopt opts) of
        Inl ownErr \<Rightarrow> ret (Some ownErr)
      | Inr transferred \<Rightarrow> do {
          keyErr \<leftarrow> (case qo_checkAdoptedKey opts of
             None \<Rightarrow> ret None
           | Some check \<Rightarrow> do {
               r \<leftarrow> sqs_GetQueueAttributes v queueURL [''KmsMasterKeyId''];
               case r of
                 Inl aErr \<Rightarrow> ret (Some (wrapAWSError (ExtError aErr) ''reading the queue's encryption before adopting it''))
               | Inr attrs \<Rightarrow> do {
                   err \<leftarrow> check (goget attrs ''KmsMasterKeyId'');
                   ret (map_option (wrapf ''queue can't be adopted'' [queueName]) err)
                 }
             });
          case keyErr of
            Some e \<Rightarrow> ret (Some e)
          | None \<Rightarrow> do {
              t \<leftarrow> sqs_TagQueue v queueURL (MergeTags currentTags tgs);
              case t of
                Inl tagErr \<Rightarrow> ret (Some (wrapAWSError (ExtError tagErr) ''adopting queue (tagging)''))
              | Inr _ \<Rightarrow> do {
                  (if HasReleaseTags currentTags
                   then do {
                     u \<leftarrow> sqs_UntagQueue v queueURL ReleasedTagKeys;
                     case u of Inl untagErr \<Rightarrow> ReleaseTagFailed p ''queue'' queueName untagErr | Inr _ \<Rightarrow> ret ()
                   }
                   else ret ());
                  (if transferred then recordEvent p ''Normal'' EventOwnershipTransferred [queueName]
                   else recordEvent p ''Normal'' ''QueueAdopted'' [queueName]);
                  ret None
                }
            }
        })"

definition ensureWithinTrust ::
  "env \<Rightarrow> pass \<Rightarrow> ManagedResource \<Rightarrow> queueOptions \<Rightarrow> ledger \<Rightarrow> (ledger \<times> string \<times> bool \<times> go_error option) op" where
  "ensureWithinTrust v p existing opts l =
     (let l1 = UpsertManagedResource l (existing\<lparr>mr_DeletionPolicy := qo_deletionPolicy opts, mr_Force := qo_force opts\<rparr>) in
      case queueNameFromARN (mr_ARN existing) of
        Inl nameErr \<Rightarrow> ret (l1, [], False, Some nameErr)
      | Inr queueName \<Rightarrow> do {
          r \<leftarrow> sqs_GetQueueUrl v queueName;
          case r of
            Inl urlErr \<Rightarrow>
              if isException ''QueueDoesNotExist'' urlErr
              then do { recordEvent p ''Warning'' ''QueueMissing'' [queueName]; ret (l1, [], False, None) }
              else ret (l1, [], False, Some (wrapAWSError (ExtError urlErr) ''resolving queue URL for drift correction''))
          | Inr url \<Rightarrow> do {
              err \<leftarrow> (if desiredAttributes opts \<noteq> [] then reconcileAttributes v url opts else ret None);
              case err of
                Some e \<Rightarrow> ret (l1, [], False, Some (wrapAWSError e ''reconciling queue attributes''))
              | None \<Rightarrow> ret (l1, url, True, None)
            }
        })"

text \<open>The queue exists: it is verified, or adopted, before it is trusted.\<close>

definition ensureExistingQueue ::
  "env \<Rightarrow> pass \<Rightarrow> string \<Rightarrow> string \<Rightarrow> string \<Rightarrow> queueOptions \<Rightarrow> ledger \<Rightarrow> (ledger \<times> string \<times> go_error option) op" where
  "ensureExistingQueue v p queueName queueURL resourceName opts l = do {
     t \<leftarrow> sqs_ListQueueTags v queueURL;
     case t of
       Inl tErr \<Rightarrow> ret (l, [], Some (wrapAWSError (ExtError tErr) ''reading queue tags''))
     | Inr current \<Rightarrow> do {
         aErr \<leftarrow> (if \<not> owned_by_pass p current then adoptQueue v p queueName queueURL current (ownerTags p) opts else ret None);
         case aErr of
           Some e \<Rightarrow> ret (l, [], Some e)
         | None \<Rightarrow> do {
             rErr \<leftarrow> reconcileAttributes v queueURL opts;
             case rErr of
               Some e \<Rightarrow> ret (l, [], Some (wrapAWSError e ''reconciling queue attributes''))
             | None \<Rightarrow> do {
                 (l1, err) \<leftarrow> recordVerified v p queueURL resourceName (qo_deletionPolicy opts) (qo_force opts) l;
                 ret (l1, queueURL, err)
               }
           }
       }
   }"

text \<open>The path that checks ownership against AWS, after the trust window or for a new queue.\<close>

definition ensureVerified ::
  "env \<Rightarrow> pass \<Rightarrow> string \<Rightarrow> queueOptions \<Rightarrow> ledger \<Rightarrow> (ledger \<times> string \<times> go_error option) op" where
  "ensureVerified v p resourceName opts l =
     (let keyParts = (if qo_derivedRole opts \<noteq> [] then [qo_derivedFromKey opts, qo_derivedRole opts] else [resourceName]);
          queueName = QueueOrTopicName (ps_namespace p) (ps_crName p) typeSQS (qo_fifo opts) sqsNameMaxLen keyParts
      in do {
        r \<leftarrow> sqs_GetQueueUrl v queueName;
        case r of
          Inl err \<Rightarrow>
            if isException ''QueueDoesNotExist'' err then createQueue v p queueName resourceName (ownerTags p) opts l
            else ret (l, [], Some (wrapAWSError (ExtError err) ''looking up queue''))
        | Inr queueURL \<Rightarrow> ensureExistingQueue v p queueName queueURL resourceName opts l
      })"

definition ensureQueueExists ::
  "env \<Rightarrow> pass \<Rightarrow> string \<Rightarrow> queueOptions \<Rightarrow> ledger \<Rightarrow> (ledger \<times> string \<times> go_error option) op" where
  "ensureQueueExists v p resourceName opts l =
     (case checkFIFOUnchanged l resourceName (qo_fifo opts) of
        Some e \<Rightarrow> ret (l, [], Some e)
      | None \<Rightarrow>
          (case FindManagedResource l typeSQS resourceName of
             None \<Rightarrow> ensureVerified v p resourceName opts l
           | Some existing \<Rightarrow>
               if NeedsRevalidation (ps_now p) existing then ensureVerified v p resourceName opts l
               else do {
                 (l1, url, present, trustErr) \<leftarrow> ensureWithinTrust v p existing opts l;
                 if trustErr \<noteq> None \<or> present then ret (l1, url, trustErr)
                 else ensureVerified v p resourceName opts l1
               }))"

definition ensureSingleQueue ::
  "env \<Rightarrow> pass \<Rightarrow> string \<Rightarrow> queueOptions \<Rightarrow> ledger \<Rightarrow> (ledger \<times> string \<times> go_error option) op" where
  "ensureSingleQueue v p resourceName opts l =
     (let before = (case FindManagedResource l typeSQS resourceName of None \<Rightarrow> zeroManagedResource | Some e \<Rightarrow> e) in do {
        (l1, queueURL, err) \<leftarrow> ensureQueueExists v p resourceName opts l;
        case err of
          Some e \<Rightarrow> ret (l1, queueURL, Some e)
        | None \<Rightarrow>
            (case FindManagedResource l1 typeSQS resourceName of
               None \<Rightarrow> ret (l1, queueURL, Some (msgError ''expected a ledger entry for queue after ensuring it'' [resourceName]))
             | Some entry \<Rightarrow>
                 if \<not> VerifiedSince before entry then ret (l1, queueURL, None)
                 else do {
                   pErr \<leftarrow> reconcileDeclaredPolicy v p queueURL (mr_ARN entry);
                   ret (l1, queueURL, pErr)
                 })
      })"
section \<open>Ensuring the declared queues\<close>

definition redrivePolicyText :: "string \<Rightarrow> int \<Rightarrow> string" where
  "redrivePolicyText dlqArn maxReceiveCount =
     renderJSON (JObj [(''deadLetterTargetArn'', JStr dlqArn), (''maxReceiveCount'', JStr (show_int maxReceiveCount))])"

text \<open>The key a queue is encrypted with: \<open>Inl\<close> when it cannot be had yet.\<close>

definition resolveQueueKey :: "env \<Rightarrow> pass \<Rightarrow> SQSQueueSpec \<Rightarrow> ledger \<Rightarrow> (ledger \<times> (go_error + string option)) op" where
  "resolveQueueKey v p q l =
     (case q_Encryption q of
        None \<Rightarrow> ret (l, Inr None)
      | Some enc \<Rightarrow>
          (let shared = (if en_KMSKeyRef enc = [] then Inr None
                         else case SharedKeyARN l (en_KMSKeyRef enc) of
                                None \<Rightarrow> Inl (ReconcileError (msgError ''encryption.kmsKeyRef is not ready yet'' [en_KMSKeyRef enc]) True [] True)
                              | Some arn \<Rightarrow> Inr (Some arn)) in
           case shared of
             Inl e \<Rightarrow> ret (l, Inl e)
           | Inr key \<Rightarrow>
               if \<not> en_Enabled enc then ret (l, Inr key)
               else do {
                 (arn, l1, err) \<leftarrow> EnsureDedicatedKey v p typeSQS (q_Name q) (q_DeletionPolicy q) l;
                 case err of
                   Some e \<Rightarrow> ret (l1, Inl (wrapf ''encryption key'' [] e))
                 | None \<Rightarrow> ret (l1, Inr (Some arn))
               }))"

definition dlqOptions :: "env \<Rightarrow> SQSQueueSpec \<Rightarrow> string option \<Rightarrow> queueOptions" where
  "dlqOptions v q key =
     \<lparr>qo_deletionPolicy = q_DeletionPolicy q, qo_force = q_Force q, qo_adopt = q_Adopt q, qo_fifo = q_FIFO q,
      qo_contentBasedDeduplication = False, qo_visibilityTimeoutSeconds = None, qo_redrivePolicy = None,
      qo_kmsKeyARN = key, qo_derivedFromKey = q_Name q, qo_derivedRole = ''dlq'',
      qo_checkAdoptedKey = Some (AdoptedKeyCheck (Some v) key)\<rparr>"

definition mainOptions :: "env \<Rightarrow> SQSQueueSpec \<Rightarrow> string option \<Rightarrow> string \<Rightarrow> queueOptions" where
  "mainOptions v q key dlqArn =
     \<lparr>qo_deletionPolicy = q_DeletionPolicy q, qo_force = q_Force q, qo_adopt = q_Adopt q, qo_fifo = q_FIFO q,
      qo_contentBasedDeduplication =
        (case q_Overrides q of None \<Rightarrow> False
         | Some ov \<Rightarrow> (case so_ContentBasedDeduplication ov of None \<Rightarrow> False | Some b \<Rightarrow> b)),
      qo_visibilityTimeoutSeconds = (case q_Overrides q of None \<Rightarrow> None | Some ov \<Rightarrow> so_VisibilityTimeoutSeconds ov),
      qo_redrivePolicy =
        (if dlqArn = [] then None
         else Some (redrivePolicyText dlqArn
                (case q_Overrides q of None \<Rightarrow> defaultMaxReceiveCount
                 | Some ov \<Rightarrow> (case so_MaxReceiveCount ov of None \<Rightarrow> defaultMaxReceiveCount | Some n \<Rightarrow> n)))),
      qo_kmsKeyARN = key, qo_derivedFromKey = [], qo_derivedRole = [],
      qo_checkAdoptedKey = Some (AdoptedKeyCheck (Some v) key)\<rparr>"

text \<open>The dead-letter queue, when one is asked for, and its identifier.\<close>

definition ensureDLQ ::
  "env \<Rightarrow> pass \<Rightarrow> SQSQueueSpec \<Rightarrow> string option \<Rightarrow> ledger \<Rightarrow> (ledger \<times> (go_error + string)) op" where
  "ensureDLQ v p q key l =
     (if \<not> q_DLQ q then ret (l, Inr [])
      else (let dlqName = DerivedKey (q_Name q) ''dlq'' in do {
        (l1, url, err) \<leftarrow> ensureSingleQueue v p dlqName (dlqOptions v q key) l;
        case err of
          Some e \<Rightarrow> ret (l1, Inl (wrapf ''dlq'' [] e))
        | None \<Rightarrow>
            (case FindManagedResource l1 typeSQS dlqName of
               None \<Rightarrow> ret (l1, Inl (msgError ''dlq: expected a ledger entry after ensuring it, found none'' [dlqName]))
             | Some entry \<Rightarrow> ret (l1, Inr (mr_ARN entry)))
      }))"

text \<open>The subscriptions of a queue that was just ensured.\<close>

definition ensureQueueSubscriptions ::
  "env \<Rightarrow> pass \<Rightarrow> SQSQueueSpec \<Rightarrow> string \<Rightarrow> ledger \<Rightarrow> (ledger \<times> go_error option) op" where
  "ensureQueueSubscriptions v p q queueURL l =
     (if q_SubscribesTo q = [] then ret (l, None)
      else case FindManagedResource l typeSQS (q_Name q) of
             None \<Rightarrow> ret (l, Some (msgError ''expected a ledger entry after ensuring it, found none'' []))
           | Some entry \<Rightarrow>
               (case queueNameFromARN (mr_ARN entry) of
                  Inl e \<Rightarrow> ret (l, Some (wrapf ''resolving queue name for subscription management'' [] e))
                | Inr queueName \<Rightarrow>
                    EnsureSubscriptions v p queueName queueURL (mr_ARN entry) (q_SubscribesTo q) l))"

definition ensureQueue :: "env \<Rightarrow> pass \<Rightarrow> SQSQueueSpec \<Rightarrow> ledger \<Rightarrow> (ledger \<times> go_error option) op" where
  "ensureQueue v p q l = do {
     (l1, keyRes) \<leftarrow> resolveQueueKey v p q l;
     case keyRes of
       Inl e \<Rightarrow> ret (l1, Some e)
     | Inr key \<Rightarrow> do {
         (l2, dlqRes) \<leftarrow> ensureDLQ v p q key l1;
         case dlqRes of
           Inl e \<Rightarrow> ret (l2, Some e)
         | Inr dlqArn \<Rightarrow> do {
             (l3, queueURL, err) \<leftarrow> ensureSingleQueue v p (q_Name q) (mainOptions v q key dlqArn) l2;
             case err of
               Some e \<Rightarrow> ret (l3, Some e)
             | None \<Rightarrow> ensureQueueSubscriptions v p q queueURL l3
           }
       }
   }"

primrec ensureQueues :: "env \<Rightarrow> pass \<Rightarrow> SQSQueueSpec list \<Rightarrow> ledger \<Rightarrow> go_error option \<Rightarrow> (ledger \<times> go_error option) op" where
  "ensureQueues v p [] l firstErr = ret (l, firstErr)"
| "ensureQueues v p (q # qs) l firstErr = do {
     (l1, err) \<leftarrow> ensureQueue v p q l;
     ensureQueues v p qs l1 (firstError firstErr (map_option (wrapf ''queue'' [q_Name q]) err))
   }"

definition Ensure_sqs :: "env \<Rightarrow> pass \<Rightarrow> SQSSpec option \<Rightarrow> ledger \<Rightarrow> (ledger \<times> go_error option) op" where
  "Ensure_sqs v p spec l =
     (case spec of None \<Rightarrow> ret (l, None) | Some s \<Rightarrow> ensureQueues v p (sqs_Resources s) l None)"

section \<open>Cleanup\<close>

definition PendingDeletionGracePeriod :: duration where "PendingDeletionGracePeriod = 7 * 24 * hour"
definition deletionQuietWindow_sqs :: duration where "deletionQuietWindow_sqs = 10 * minute"

datatype QueueCleanupReason = QueueRetained | QueuePendingDeletion | QueueStuckPendingDeletion

type_synonym queue_result = "string \<times> QueueCleanupReason"

definition pendingDeletionReason_sqs :: "pass \<Rightarrow> time \<Rightarrow> QueueCleanupReason" where
  "pendingDeletionReason_sqs p t =
     (if since (ps_now p) t > PendingDeletionGracePeriod then QueueStuckPendingDeletion else QueuePendingDeletion)"

definition declaredQueueNames :: "SQSSpec option \<Rightarrow> bool \<Rightarrow> string \<Rightarrow> bool" where
  "declaredQueueNames spec deleting name =
     (case spec of None \<Rightarrow> False
      | Some s \<Rightarrow> \<not> deleting \<and> (\<exists>q\<in>set (sqs_Resources s). name = q_Name q \<or> (q_DLQ q \<and> name = DerivedKey (q_Name q) ''dlq'')))"

definition subscribesToByName :: "SQSSpec option \<Rightarrow> bool \<Rightarrow> (string \<rightharpoonup> ConsumeRef list)" where
  "subscribesToByName spec deleting =
     (case spec of None \<Rightarrow> Map.empty
      | Some s \<Rightarrow> if deleting then Map.empty
                  else map_of (rev (map (\<lambda>q. (q_Name q, q_SubscribesTo q)) (sqs_Resources s))))"

definition markPendingDeletion_sqs ::
  "pass \<Rightarrow> ledger \<Rightarrow> queue_result list \<Rightarrow> ManagedResource \<Rightarrow> ledger \<times> queue_result list" where
  "markPendingDeletion_sqs p l results entry =
     (let since' = (case mr_PendingDeletionSince entry of None \<Rightarrow> ps_now p | Some t \<Rightarrow> t)
      in (UpsertManagedResource l (entry\<lparr>mr_PendingDeletionSince := Some since'\<rparr>),
          results @ [(mr_Name entry, pendingDeletionReason_sqs p since')]))"

definition clearPendingDeletion_sqs :: "env \<Rightarrow> ManagedResource \<Rightarrow> go_error option op" where
  "clearPendingDeletion_sqs v entry =
     (case queueNameFromARN (mr_ARN entry) of
        Inl nameErr \<Rightarrow> ret (Some nameErr)
      | Inr queueName \<Rightarrow> do {
          r \<leftarrow> sqs_GetQueueUrl v queueName;
          case r of
            Inl err \<Rightarrow>
              if isException ''QueueDoesNotExist'' err then ret None
              else ret (Some (wrapAWSError (ExtError err) ''looking up queue to clear its pending-deletion deny''))
          | Inr url \<Rightarrow> removePendingDeletionDeny v url
        })"

definition restoreDeclared_sqs :: "env \<Rightarrow> pass \<Rightarrow> ManagedResource \<Rightarrow> ledger \<Rightarrow> (ledger \<times> go_error option) op" where
  "restoreDeclared_sqs v p entry l =
     (if mr_PendingDeletionSince entry = None then ret (l, None)
      else do {
        e \<leftarrow> clearPendingDeletion_sqs v entry;
        case e of
          Some err \<Rightarrow> ret (l, Some err)
        | None \<Rightarrow> do {
            recordEvent p ''Normal'' ''QueueDeletionCancelled'' [mr_Name entry, mr_ARN entry];
            ret (UpsertManagedResource l (entry\<lparr>mr_PendingDeletionSince := None, mr_LastEmptyCheckAt := None\<rparr>), None)
          }
      })"

definition relinquishIfStillTagged_sqs :: "env \<Rightarrow> pass \<Rightarrow> ManagedResource \<Rightarrow> (bool \<times> bool \<times> go_error option) op" where
  "relinquishIfStillTagged_sqs v p entry =
     (case queueNameFromARN (mr_ARN entry) of
        Inl nameErr \<Rightarrow> ret (False, False, Some nameErr)
      | Inr queueName \<Rightarrow> do {
          r \<leftarrow> sqs_GetQueueUrl v queueName;
          case r of
            Inl err \<Rightarrow>
              if isException ''QueueDoesNotExist'' err then ret (False, True, None)
              else ret (False, False, Some (wrapAWSError (ExtError err) ''looking up retained queue''))
          | Inr url \<Rightarrow> do {
              t \<leftarrow> sqs_ListQueueTags v url;
              case t of
                Inl tErr \<Rightarrow> ret (False, False, Some (wrapAWSError (ExtError tErr) ''checking ownership tags on retained queue''))
              | Inr current \<Rightarrow>
                  if \<not> owned_by_pass p current then ret (False, False, None)
                  else do {
                    (case ReleaseTags p of
                       None \<Rightarrow> ret ()
                     | Some released \<Rightarrow> do {
                         g \<leftarrow> sqs_TagQueue v url released;
                         case g of Inl tagErr \<Rightarrow> ReleaseTagFailed p ''queue'' (mr_Name entry) tagErr | Inr _ \<Rightarrow> ret ()
                       });
                    u \<leftarrow> sqs_UntagQueue v url [OwnerTagKey, OwnerUIDTagKey];
                    case u of
                      Inl uErr \<Rightarrow> ret (False, False, Some (wrapAWSError (ExtError uErr) ''relinquishing ownership tag on retained queue''))
                    | Inr _ \<Rightarrow> do {
                        e \<leftarrow> removePendingDeletionDeny v url;
                        case e of Some err \<Rightarrow> ret (False, False, Some err) | None \<Rightarrow> ret (True, False, None)
                      }
                  }
            }
        })"

definition retain_sqs ::
  "env \<Rightarrow> pass \<Rightarrow> ManagedResource \<Rightarrow> ledger \<Rightarrow> queue_result list \<Rightarrow> (ledger \<times> queue_result list \<times> go_error option) op" where
  "retain_sqs v p entry l results =
     (let retained = (mr_Name entry, QueueRetained);
          pinsKey = PinsAKey l typeSQS entry
      in if mr_State entry = StateRelinquished \<and> \<not> pinsKey
         then ret (RemoveManagedResource l typeSQS (mr_Name entry), results @ [retained], None)
         else if mr_State entry = StateRelinquished \<and> \<not> NeedsRelinquishedRecheck (ps_now p) entry
         then ret (l, results @ [retained], None)
         else do {
           (relinquished, gone, err) \<leftarrow> relinquishIfStillTagged_sqs v p entry;
           case err of
             Some e \<Rightarrow> ret (l, results, Some e)
           | None \<Rightarrow>
               if gone then ret (RemoveManagedResource l typeSQS (mr_Name entry), results, None)
               else do {
                 (if relinquished then recordEvent p ''Normal'' ''QueueOwnershipRelinquished'' [mr_Name entry, mr_ARN entry] else ret ());
                 ret (if pinsKey then UpsertManagedResource l (Relinquished (ps_now p) entry)
                      else RemoveManagedResource l typeSQS (mr_Name entry), results @ [retained], None)
               }
         })"

text \<open>\<open>Inr None\<close>: the queue is gone; \<open>Inr (Some url)\<close>: it exists and is ours.\<close>

definition verifyOwned_sqs :: "env \<Rightarrow> pass \<Rightarrow> ManagedResource \<Rightarrow> (go_error + string option) op" where
  "verifyOwned_sqs v p entry =
     (case queueNameFromARN (mr_ARN entry) of
        Inl nameErr \<Rightarrow> ret (Inl nameErr)
      | Inr queueName \<Rightarrow> do {
          r \<leftarrow> sqs_GetQueueUrl v queueName;
          case r of
            Inl err \<Rightarrow>
              if isException ''QueueDoesNotExist'' err then ret (Inr None)
              else ret (Inl (wrapAWSError (ExtError err) ''resolving queue URL before delete''))
          | Inr url \<Rightarrow> do {
              t \<leftarrow> sqs_ListQueueTags v url;
              case t of
                Inl err2 \<Rightarrow> ret (Inl (wrapAWSError (ExtError err2) ''re-verifying ownership of queue before delete''))
              | Inr current \<Rightarrow>
                  if \<not> owned_by_pass p current then ret (Inl (OwnershipLostError ''queue'' (mr_Name entry) ''delete it''))
                  else ret (Inr (Some url))
            }
        })"

definition emptyAttributes :: "string list" where
  "emptyAttributes = [''ApproximateNumberOfMessages'', ''ApproximateNumberOfMessagesNotVisible'', ''ApproximateNumberOfMessagesDelayed'']"

definition queueIsEmpty :: "attributes \<Rightarrow> bool" where
  "queueIsEmpty attrs \<longleftrightarrow> goget attrs ''ApproximateNumberOfMessages'' = ''0''
     \<and> goget attrs ''ApproximateNumberOfMessagesNotVisible'' = ''0''
     \<and> goget attrs ''ApproximateNumberOfMessagesDelayed'' = ''0''"

definition gateOnEmpty ::
  "env \<Rightarrow> pass \<Rightarrow> ManagedResource \<Rightarrow> string \<Rightarrow> ledger \<Rightarrow> queue_result list
   \<Rightarrow> (ledger \<times> queue_result list \<times> bool \<times> go_error option) op" where
  "gateOnEmpty v p entry queueURL l results =
     (if mr_PendingDeletionSince entry = None
      then do {
        e \<leftarrow> addPendingDeletionDeny v queueURL (mr_ARN entry);
        case e of
          Some err \<Rightarrow> ret (l, results, False, Some (wrapAWSError err ''blocking new sends to queue pending deletion''))
        | None \<Rightarrow>
            (case markPendingDeletion_sqs p l results entry of (l1, results1) \<Rightarrow> do {
               recordEvent p ''Warning'' ''QueueDeletionPending'' [mr_Name entry, mr_ARN entry];
               ret (l1, results1, False, None)
             })
      }
      else do {
        r \<leftarrow> sqs_GetQueueAttributes v queueURL emptyAttributes;
        case r of
          Inl err \<Rightarrow> ret (l, results, False, Some (wrapAWSError (ExtError err) ''checking queue is empty''))
        | Inr attrs \<Rightarrow>
            if \<not> queueIsEmpty attrs
            then (case markPendingDeletion_sqs p l results (entry\<lparr>mr_LastEmptyCheckAt := Some (ps_now p)\<rparr>) of
                    (l1, results1) \<Rightarrow> ret (l1, results1, False, None))
            else ret (l, results, True, None)
      })"

definition deleteQueue_sqs :: "env \<Rightarrow> pass \<Rightarrow> ManagedResource \<Rightarrow> string \<Rightarrow> ledger \<Rightarrow> (ledger \<times> go_error option) op" where
  "deleteQueue_sqs v p entry queueURL l = do {
     r \<leftarrow> sqs_DeleteQueue v queueURL;
     case r of
       Inl err \<Rightarrow> ret (l, Some (wrapAWSError (ExtError err) ''deleting queue''))
     | Inr _ \<Rightarrow> do {
         recordEvent p ''Warning'' ''QueueDeleted'' [mr_Name entry, mr_ARN entry];
         ret (RemoveManagedResource l typeSQS (mr_Name entry), None)
       }
   }"

definition waitsQuietly :: "pass \<Rightarrow> ManagedResource \<Rightarrow> bool" where
  "waitsQuietly p entry =
     (case mr_PendingDeletionSince entry of None \<Rightarrow> False
      | Some t \<Rightarrow> since (ps_now p) t < deletionQuietWindow_sqs \<or> \<not> NeedsEmptyCheck (ps_now p) entry)"

definition deleteUndeclared ::
  "env \<Rightarrow> pass \<Rightarrow> bool \<Rightarrow> ManagedResource \<Rightarrow> ledger \<Rightarrow> queue_result list
   \<Rightarrow> (ledger \<times> queue_result list \<times> go_error option) op" where
  "deleteUndeclared v p forceDeleteAll entry l results =
     (let forced = (mr_Force entry \<or> forceDeleteAll) in
      if \<not> forced \<and> waitsQuietly p entry
      then ret (l, results @ [(mr_Name entry, pendingDeletionReason_sqs p (the (mr_PendingDeletionSince entry)))], None)
      else do {
        r \<leftarrow> verifyOwned_sqs v p entry;
        case r of
          Inl err \<Rightarrow> ret (l, results, Some err)
        | Inr None \<Rightarrow> ret (RemoveManagedResource l typeSQS (mr_Name entry), results, None)
        | Inr (Some queueURL) \<Rightarrow> do {
            (l1, results1, proceed, err) \<leftarrow> (if forced then ret (l, results, True, None) else gateOnEmpty v p entry queueURL l results);
            if err \<noteq> None \<or> \<not> proceed then ret (l1, results1, err)
            else do {
              (l2, err2) \<leftarrow> deleteQueue_sqs v p entry queueURL l1;
              ret (l2, results1, err2)
            }
          }
      })"

text \<open>
  The loop of \<^verbatim>\<open>Cleanup\<close> over the entries of the ledger it was called with. An iteration only rewrites or
  removes its own entry, so later iterations see the entries they would see in the shared array.
\<close>

primrec cleanupQueues ::
  "env \<Rightarrow> pass \<Rightarrow> (string \<Rightarrow> bool) \<Rightarrow> bool \<Rightarrow> ManagedResource list
   \<Rightarrow> ledger \<times> queue_result list \<times> go_error option \<Rightarrow> (ledger \<times> queue_result list \<times> go_error option) op" where
  "cleanupQueues v p declared force [] acc = ret acc"
| "cleanupQueues v p declared force (entry # rest) acc =
     (case acc of (l, results, firstErr) \<Rightarrow>
        if mr_Type entry \<noteq> typeSQS then cleanupQueues v p declared force rest acc
        else do {
          (l1, results1, entryErr) \<leftarrow>
            (if declared (mr_Name entry)
             then do { (l1, e) \<leftarrow> restoreDeclared_sqs v p entry l; ret (l1, results, e) }
             else if mr_DeletionPolicy entry \<noteq> DeletionPolicyDelete then retain_sqs v p entry l results
             else deleteUndeclared v p force entry l results);
          cleanupQueues v p declared force rest (l1, results1, firstError firstErr entryErr)
        })"

primrec cleanupQueueSubscriptions ::
  "env \<Rightarrow> pass \<Rightarrow> (string \<rightharpoonup> ConsumeRef list) \<Rightarrow> ManagedResource list \<Rightarrow> ledger \<times> go_error option
   \<Rightarrow> (ledger \<times> go_error option) op" where
  "cleanupQueueSubscriptions v p byName [] acc = ret acc"
| "cleanupQueueSubscriptions v p byName (entry # rest) acc =
     (case acc of (l, firstErr) \<Rightarrow>
        if mr_Type entry \<noteq> typeSQS then cleanupQueueSubscriptions v p byName rest acc
        else case queueNameFromARN (mr_ARN entry) of
               Inl nameErr \<Rightarrow> cleanupQueueSubscriptions v p byName rest (l, firstError firstErr (Some nameErr))
             | Inr queueName \<Rightarrow>
                 if \<not> hasSubscriptionEntries l queueName then cleanupQueueSubscriptions v p byName rest acc
                 else do {
                   r \<leftarrow> sqs_GetQueueUrl v queueName;
                   (let url = (case r of Inr u \<Rightarrow> Inr u
                               | Inl e \<Rightarrow> if isException ''QueueDoesNotExist'' e then Inr [] else Inl e) in
                    case url of
                      Inl e \<Rightarrow> cleanupQueueSubscriptions v p byName rest
                        (l, firstError firstErr (Some (wrapAWSError (ExtError e) ''resolving queue URL to tear down the subscriptions'')))
                    | Inr queueURL \<Rightarrow> do {
                        (l1, subErr) \<leftarrow> CleanupSubscriptions v p queueName queueURL
                          (case byName (mr_Name entry) of None \<Rightarrow> [] | Some refs \<Rightarrow> refs) l;
                        cleanupQueueSubscriptions v p byName rest (l1, firstError firstErr subErr)
                      })
                 })"

definition Cleanup_sqs ::
  "env \<Rightarrow> pass \<Rightarrow> SQSSpec option \<Rightarrow> ledger \<Rightarrow> bool \<Rightarrow> bool \<Rightarrow> (ledger \<times> queue_result list \<times> go_error option) op" where
  "Cleanup_sqs v p spec l deleting forceDeleteAll = do {
     (l1, results, firstErr) \<leftarrow> cleanupQueues v p (declaredQueueNames spec deleting) forceDeleteAll l (l, [], None);
     (l2, subErr) \<leftarrow> cleanupQueueSubscriptions v p (subscribesToByName spec deleting) l (l1, None);
     ret (l2, results, firstError firstErr subErr)
   }"

end
