(* ===== verification/Gated_Deletion.thy ===== *)
theory Gated_Deletion
  imports World Decisions
begin

text \<open>
  The contract that the cleanups of several resource packages share (\<^verbatim>\<open>cleanup.go\<close> of \<^verbatim>\<open>sqs\<close> and \<^verbatim>\<open>sns\<close>):
  an undeclared resource with policy Delete is deleted only after its ownership was read, and,
  unless deletion is forced, after the quiet window and a reading that shows it is empty. The
  skeletons \<open>gatedDelete\<close> and \<open>cleanupLoop\<close> are the control flow the packages have in common; the
  locale states what a package's own steps promise and derives the conditions of every deletion.
\<close>

section \<open>The common control flow\<close>

definition gatedDelete ::
  "(ManagedResource \<Rightarrow> bool) \<Rightarrow> (time \<Rightarrow> 'r) \<Rightarrow> (ManagedResource \<Rightarrow> (go_error + 'h option) op)
   \<Rightarrow> (ManagedResource \<Rightarrow> 'h \<Rightarrow> ledger \<Rightarrow> (string \<times> 'r) list \<Rightarrow> (ledger \<times> (string \<times> 'r) list \<times> bool \<times> go_error option) op)
   \<Rightarrow> (ManagedResource \<Rightarrow> 'h \<Rightarrow> ledger \<Rightarrow> (ledger \<times> go_error option) op) \<Rightarrow> string
   \<Rightarrow> bool \<Rightarrow> ManagedResource \<Rightarrow> ledger \<Rightarrow> (string \<times> 'r) list \<Rightarrow> (ledger \<times> (string \<times> 'r) list \<times> go_error option) op" where
  "gatedDelete waits reason verify gate del ty forceDeleteAll entry l results =
     (let forced = (mr_Force entry \<or> forceDeleteAll) in
      if \<not> forced \<and> waits entry
      then ret (l, results @ [(mr_Name entry, reason (the (mr_PendingDeletionSince entry)))], None)
      else do {
        r \<leftarrow> verify entry;
        case r of
          Inl err \<Rightarrow> ret (l, results, Some err)
        | Inr None \<Rightarrow> ret (RemoveManagedResource l ty (mr_Name entry), results, None)
        | Inr (Some h) \<Rightarrow> do {
            (l1, results1, proceed, err) \<leftarrow> (if forced then ret (l, results, True, None) else gate entry h l results);
            if err \<noteq> None \<or> \<not> proceed then ret (l1, results1, err)
            else do {
              (l2, err2) \<leftarrow> del entry h l1;
              ret (l2, results1, err2)
            }
          }
      })"

primrec cleanupLoop ::
  "string \<Rightarrow> (string \<Rightarrow> bool) \<Rightarrow> (ManagedResource \<Rightarrow> ledger \<Rightarrow> (ledger \<times> go_error option) op)
   \<Rightarrow> (ManagedResource \<Rightarrow> ledger \<Rightarrow> 'r list \<Rightarrow> (ledger \<times> 'r list \<times> go_error option) op)
   \<Rightarrow> (ManagedResource \<Rightarrow> ledger \<Rightarrow> 'r list \<Rightarrow> (ledger \<times> 'r list \<times> go_error option) op)
   \<Rightarrow> ManagedResource list \<Rightarrow> ledger \<times> 'r list \<times> go_error option \<Rightarrow> (ledger \<times> 'r list \<times> go_error option) op" where
  "cleanupLoop ty declared restore retain remove [] acc = ret acc"
| "cleanupLoop ty declared restore retain remove (entry # rest) acc =
     (case acc of (l, results, firstErr) \<Rightarrow>
        if mr_Type entry \<noteq> ty then cleanupLoop ty declared restore retain remove rest acc
        else do {
          (l1, results1, entryErr) \<leftarrow>
            (if declared (mr_Name entry)
             then do { (l1, e) \<leftarrow> restore entry l; ret (l1, results, e) }
             else if mr_DeletionPolicy entry \<noteq> DeletionPolicyDelete then retain entry l results
             else remove entry l results);
          cleanupLoop ty declared restore retain remove rest (l1, results1, firstError firstErr entryErr)
        })"

section \<open>The contract\<close>

definition quietlyPending :: "pass \<Rightarrow> ManagedResource \<Rightarrow> bool" where
  "quietlyPending p entry \<longleftrightarrow> (\<exists>t. mr_PendingDeletionSince entry = Some t \<and> since (ps_now p) t \<ge> 10 * minute)"

definition deletableEntry :: "string \<Rightarrow> (string \<Rightarrow> bool) \<Rightarrow> ManagedResource \<Rightarrow> bool" where
  "deletableEntry ty declared entry \<longleftrightarrow>
     mr_Type entry = ty \<and> mr_DeletionPolicy entry = DeletionPolicyDelete \<and> \<not> declared (mr_Name entry)"

definition deletionGuard ::
  "('h \<Rightarrow> call \<Rightarrow> bool) \<Rightarrow> (ManagedResource \<Rightarrow> history \<Rightarrow> 'h \<Rightarrow> bool) \<Rightarrow> (history \<Rightarrow> 'h \<Rightarrow> bool) \<Rightarrow> string
   \<Rightarrow> pass \<Rightarrow> (string \<Rightarrow> bool) \<Rightarrow> bool \<Rightarrow> ledger \<Rightarrow> history \<Rightarrow> call \<Rightarrow> bool" where
  "deletionGuard deletes seenOwned seenEmpty ty p declared force l pre c \<longleftrightarrow> (\<forall>h. deletes h c \<longrightarrow>
     (\<exists>entry\<in>set l. deletableEntry ty declared entry \<and> seenOwned entry pre h
        \<and> (mr_Force entry \<or> force \<or> quietlyPending p entry \<and> seenEmpty pre h)))"

text \<open>
  What a package promises of its steps: every step but the deletion deletes nothing; verifying
  ends in a handle of the entry only after readings that show ownership; the gate lets pass only a pending entry
  whose emptiness it has read; an entry that does not wait and is pending has sat out the quiet window; the
  deletion deletes at most the thing behind the handle. The readings are found in any longer history.
\<close>

locale gated_deletion =
  fixes deletes :: "'h \<Rightarrow> call \<Rightarrow> bool"
    and seenOwned :: "ManagedResource \<Rightarrow> history \<Rightarrow> 'h \<Rightarrow> bool"
    and seenEmpty :: "history \<Rightarrow> 'h \<Rightarrow> bool"
    and handle :: "ManagedResource \<Rightarrow> 'h \<Rightarrow> bool"
    and ty :: string
    and p :: pass
    and waits :: "ManagedResource \<Rightarrow> bool"
    and reason :: "time \<Rightarrow> 'r"
    and verify :: "ManagedResource \<Rightarrow> (go_error + 'h option) op"
    and gate :: "ManagedResource \<Rightarrow> 'h \<Rightarrow> ledger \<Rightarrow> (string \<times> 'r) list \<Rightarrow> (ledger \<times> (string \<times> 'r) list \<times> bool \<times> go_error option) op"
    and del :: "ManagedResource \<Rightarrow> 'h \<Rightarrow> ledger \<Rightarrow> (ledger \<times> go_error option) op"
    and restore :: "ManagedResource \<Rightarrow> ledger \<Rightarrow> (ledger \<times> go_error option) op"
    and retain :: "ManagedResource \<Rightarrow> ledger \<Rightarrow> (string \<times> 'r) list \<Rightarrow> (ledger \<times> (string \<times> 'r) list \<times> go_error option) op"
  assumes seenOwned_mono: "\<And>e pre pre' h. seenOwned e pre h \<Longrightarrow> set pre \<subseteq> set pre' \<Longrightarrow> seenOwned e pre' h"
    and seenEmpty_mono: "\<And>pre pre' h. seenEmpty pre h \<Longrightarrow> set pre \<subseteq> set pre' \<Longrightarrow> seenEmpty pre' h"
    and verify_ok: "\<And>e w. wp (verify e) (\<lambda>r w'. \<exists>new. trace w' = trace w @ new \<and> (\<forall>c\<in>set new. \<forall>h. \<not> deletes h c)
          \<and> (\<forall>h. r = Inr (Some h) \<longrightarrow> handle e h \<and> seenOwned e new h)) w"
    and gate_ok: "\<And>e h l res w. handle e h \<Longrightarrow> wp (gate e h l res) (\<lambda>(l1, res1, proceed, err) w'. \<exists>new. trace w' = trace w @ new
          \<and> (\<forall>c\<in>set new. \<forall>h. \<not> deletes h c)
          \<and> (proceed \<longrightarrow> mr_PendingDeletionSince e \<noteq> None \<and> seenEmpty new h)) w"
    and del_ok: "\<And>e h l. handle e h \<Longrightarrow> emits (\<lambda>c. \<forall>h'. deletes h' c \<longrightarrow> h' = h) (del e h l)"
    and waits_ok: "\<And>e. \<not> waits e \<Longrightarrow> mr_PendingDeletionSince e \<noteq> None \<Longrightarrow> quietlyPending p e"
    and restore_ok: "\<And>e l. emits (\<lambda>c. \<forall>h. \<not> deletes h c) (restore e l)"
    and retain_ok: "\<And>e l res. emits (\<lambda>c. \<forall>h. \<not> deletes h c) (retain e l res)"
begin

abbreviation guard :: "(string \<Rightarrow> bool) \<Rightarrow> bool \<Rightarrow> ledger \<Rightarrow> history \<Rightarrow> call \<Rightarrow> bool" where
  "guard \<equiv> deletionGuard deletes seenOwned seenEmpty ty p"

lemma guard_mono: "guard d f l pre c \<Longrightarrow> set pre \<subseteq> set pre' \<Longrightarrow> guard d f l pre' c"
  unfolding deletionGuard_def by (meson seenOwned_mono seenEmpty_mono)

lemma leftmono_guard: "leftmono (guard d f l)"
  unfolding leftmono_def by (intro allI impI) (erule guard_mono, simp)

lemma guards_keeping: "emits (\<lambda>c. \<forall>h. \<not> deletes h c) m \<Longrightarrow> guards (guard d f l) m"
  by (erule guards_emits) (simp add: deletionGuard_def)

lemma guardedTrace_harmless: "\<forall>c\<in>set new. \<forall>h. \<not> deletes h c \<Longrightarrow> guardedTrace (\<lambda>x. guard d f l (pre @ x)) new"
  by (auto simp: guardedTrace_def deletionGuard_def)

lemma guards_del:
  assumes "entry \<in> set l0" "deletableEntry ty declared entry" "seenOwned entry new h"
    and "mr_Force entry \<or> force \<or> quietlyPending p entry \<and> seenEmpty new h"
    and hd: "handle entry h"
  shows "guards (\<lambda>x. guard declared force l0 (new @ x)) (do { (l2, err2) \<leftarrow> del entry h l1; ret (l2, res1, err2) })"
proof -
  have "guard declared force l0 (new @ x) c" if "\<forall>h'. deletes h' c \<longrightarrow> h' = h" for x c
    unfolding deletionGuard_def
  proof (intro allI impI)
    fix h' assume "deletes h' c"
    with that have "h' = h" by blast
    moreover have "seenOwned entry (new @ x) h" "seenEmpty new h \<Longrightarrow> seenEmpty (new @ x) h"
      using assms(3) seenOwned_mono [of entry new h "new @ x"] seenEmpty_mono [of new h "new @ x"] by auto
    ultimately show "\<exists>entry\<in>set l0. deletableEntry ty declared entry \<and> seenOwned entry (new @ x) h'
        \<and> (mr_Force entry \<or> force \<or> quietlyPending p entry \<and> seenEmpty (new @ x) h')"
      using assms by blast
  qed
  then show ?thesis
    by (intro guards_emits [where C = "\<lambda>c. \<forall>h'. deletes h' c \<longrightarrow> h' = h"] emits_intros del_ok [OF hd])
qed

definition passed :: "ManagedResource \<Rightarrow> bool \<Rightarrow> 'h \<Rightarrow> ledger \<times> (string \<times> 'r) list \<times> bool \<times> go_error option \<Rightarrow> history \<Rightarrow> bool" where
  "passed entry forced h res new \<longleftrightarrow> (case res of (l1, res1, proceed, err) \<Rightarrow>
     proceed \<longrightarrow> forced \<or> mr_PendingDeletionSince entry \<noteq> None \<and> seenEmpty new h)"

lemma guards_gate:
  assumes forced_def: "forced = (mr_Force entry \<or> force)"
    and e: "entry \<in> set l0" "deletableEntry ty declared entry" and o: "seenOwned entry new h" and hd: "handle entry h"
    and w: "forced \<or> \<not> waits entry"
  shows "guards (\<lambda>x. guard declared force l0 (new @ x)) (do {
      (l1, results1, proceed, err) \<leftarrow> (if forced then ret (l, res, True, None) else gate entry h l res);
      if err \<noteq> None \<or> \<not> proceed then ret (l1, results1, err)
      else do { (l2, err2) \<leftarrow> del entry h l1; ret (l2, results1, err2) }
    })" (is "guards ?G _")
proof (rule guards_seq [where R = "passed entry forced h"])
  fix w :: world
  show "wp (if forced then ret (l, res, True, None) else gate entry h l res)
    (\<lambda>a w'. \<exists>new2. trace w' = trace w @ new2 \<and> guardedTrace ?G new2 \<and> passed entry forced h a new2) w"
  proof (cases forced)
    case False
    show ?thesis unfolding if_not_P [OF False]
      by (rule wp_conseq [OF gate_ok [OF hd]]) (use guardedTrace_harmless in \<open>auto simp: passed_def\<close>)
  qed (simp add: wp_simps passed_def)
next
  fix a :: "ledger \<times> (string \<times> 'r) list \<times> bool \<times> go_error option" and new2
  assume g: "passed entry forced h a new2"
  obtain l1 res1 proceed err where a: "a = (l1, res1, proceed, err)" by (metis surj_pair)
  have ok: "mr_Force entry \<or> force \<or> quietlyPending p entry \<and> seenEmpty (new @ new2) h" if proceed
    using g w that waits_ok seenEmpty_mono [of new2 h "new @ new2"] unfolding passed_def a forced_def by auto
  have own: "seenOwned entry (new @ new2) h" using seenOwned_mono [OF o, of "new @ new2"] by simp
  show "guards (\<lambda>x. ?G (new2 @ x)) (case a of (l1, results1, proceed, err) \<Rightarrow>
      if err \<noteq> None \<or> \<not> proceed then ret (l1, results1, err)
      else do { (l2, err2) \<leftarrow> del entry h l1; ret (l2, results1, err2) })"
    unfolding a prod.case append_assoc [symmetric]
    by (intro guards_if guards_ret guards_del [OF e own _ hd] ok) simp
qed

lemma guards_gatedDelete:
  assumes e: "entry \<in> set l0" "deletableEntry ty declared entry"
  shows "guards (guard declared force l0) (gatedDelete waits reason verify gate del ty force entry l res)"
proof (cases "\<not> (mr_Force entry \<or> force) \<and> waits entry")
  case True
  then show ?thesis unfolding gatedDelete_def Let_def by (simp add: guards_ret)
next
  case False
  show ?thesis
    unfolding gatedDelete_def Let_def if_not_P [OF False]
  proof (rule guards_seq [where R = "\<lambda>r new. \<forall>h. r = Inr (Some h) \<longrightarrow> handle entry h \<and> seenOwned entry new h"])
    show "wp (verify entry) (\<lambda>r w'. \<exists>new. trace w' = trace w @ new \<and> guardedTrace (guard declared force l0) new
        \<and> (\<forall>h. r = Inr (Some h) \<longrightarrow> handle entry h \<and> seenOwned entry new h)) w" for w
      by (rule wp_conseq [OF verify_ok]) (use guardedTrace_harmless [of _ _ _ _ "[]"] in fastforce)
  qed (use False in \<open>intro guards_intros guards_gate [OF refl e]; auto\<close>)
qed

lemma guards_cleanupLoop:
  assumes "set es \<subseteq> set l0"
  shows "guards (guard declared force l0)
    (cleanupLoop ty declared restore retain (gatedDelete waits reason verify gate del ty force) es acc)"
  using assms
proof (induction es arbitrary: acc)
  case (Cons entry es)
  have IH: "guards (guard declared force l0)
      (cleanupLoop ty declared restore retain (gatedDelete waits reason verify gate del ty force) es acc)" for acc
    by (rule Cons.IH) (use Cons.prems in simp)
  show ?case
    unfolding cleanupLoop.simps
    by (intro guards_intros guards_bind [OF leftmono_guard] IH guards_gatedDelete
        guards_keeping [OF retain_ok] guards_keeping [OF restore_ok])
      (use Cons.prems in \<open>auto simp: deletableEntry_def\<close>)
qed (simp add: guards_ret)

end

end
