(* ===== verification/Sqs_Safety.thy ===== *)
theory Sqs_Safety
  imports Sqs Gated_Deletion
begin

text \<open>
  What the SQS package never does, whatever AWS and Kubernetes answer: delete or re-tag a queue whose
  tags it has not just read, delete one whose conditions for deletion do not hold, or lose a
  policy statement of somebody else. Every statement is about the calls of a whole run.
\<close>

section \<open>Footprints\<close>

text \<open>Calls to the other services.\<close>

definition aside :: "call \<Rightarrow> bool" where
  "aside c \<longleftrightarrow> (\<forall>q. c \<noteq> SQSCall q)"

lemma aside_simps [simp]: "aside (KMSCall k)" "aside (K8sCall h)" "aside (SNSCall n)" "\<not> aside (SQSCall q)"
  by (simp_all add: aside_def)

lemma aside_resumeKey: "emits aside (resumeKey v p alias opts entry l)"
  by (rule emits_mono [OF emits_resumeKey]) (simp add: resumeCalls_def aside_def)

lemma aside_adoptKey: "emits aside (adoptKey v p alias n opts meta l)"
  by (rule emits_mono [OF emits_adoptKey]) (simp add: resumeCalls_def aside_def)

lemma aside_createKey: "emits aside (createKey v p alias n opts l)"
  unfolding createKey_def Let_def by (intro kms_rules2) simp_all

lemma aside_EnsureDedicatedKey: "emits aside (EnsureDedicatedKey v p t n dp l)"
  unfolding EnsureDedicatedKey_def ensureKey_def Let_def
  by (intro kms_rules2 aside_resumeKey aside_adoptKey aside_createKey) simp_all

lemma aside_AdoptedKeyCheck: "emits aside (AdoptedKeyCheck (Some v) key cur)"
  unfolding AdoptedKeyCheck_def CheckAdoptedKey_def by (intro kms_rules2) simp_all

lemma aside_resolveTopicARN: "emits aside (resolveTopicARN v p ref)"
  unfolding resolveTopicARN_def ResolveConsumeARN_def resolveConsume_def lookupConsume_def
  by (intro sqs_rules) simp_all

lemma aside_resolveQueueKey: "emits aside (resolveQueueKey v p q l)"
  unfolding resolveQueueKey_def Let_def by (intro sqs_rules aside_EnsureDedicatedKey)

lemma aside_ensureSubscriptionLoop: "emits aside (ensureSubscriptionLoop v p n a refs acc)"
proof (induction refs arbitrary: acc)
  case (Cons ref refs)
  show ?case unfolding ensureSubscriptionLoop.simps Let_def
    by (intro sqs_rules aside_resolveTopicARN Cons.IH) simp_all
qed (simp add: emits_ret)

lemma aside_authorizedRefs: "emits aside (authorizedRefs v p n refs names)"
proof (induction refs arbitrary: names)
  case (Cons ref refs)
  show ?case unfolding authorizedRefs.simps
    by (intro sqs_rules aside_resolveTopicARN Cons.IH)
qed (simp add: emits_ret)

lemmas aside_rules = aside_EnsureDedicatedKey aside_AdoptedKeyCheck aside_resolveTopicARN aside_resolveQueueKey
  aside_ensureSubscriptionLoop aside_authorizedRefs

text \<open>Calls that neither tag, untag nor delete a queue.\<close>

definition tame :: "call \<Rightarrow> bool" where
  "tame c = (case c of SQSCall q \<Rightarrow> (case q of TagQueue _ _ _ \<Rightarrow> False | UntagQueue _ ks _ \<Rightarrow> OwnerTagKey \<notin> set ks
     | DeleteQueue _ _ \<Rightarrow> False | _ \<Rightarrow> True) | _ \<Rightarrow> True)"

lemma tame_simps [simp]:
  "tame (KMSCall k)" "tame (K8sCall h)" "tame (SNSCall n)"
  "tame (SQSCall (CreateQueue qn al tg r1))" "tame (SQSCall (GetQueueUrl qn r1))"
  "tame (SQSCall (GetQueueAttributes u ns r2))" "tame (SQSCall (SetQueueAttributes u al r3))"
  "tame (SQSCall (ListQueueTags u r4))" "\<not> tame (SQSCall (TagQueue u tg r3))"
  "tame (SQSCall (UntagQueue u ks r3)) \<longleftrightarrow> OwnerTagKey \<notin> set ks" "\<not> tame (SQSCall (DeleteQueue u r3))"
  by (simp_all add: tame_def)

lemma aside_tame: "aside c \<Longrightarrow> tame c"
  by (cases c) (simp_all add: aside_def tame_def)

lemmas tame_aside = emits_mono [OF _ aside_tame]

lemma tame_readPolicy: "emits tame (readPolicy v u)"
  by (rule emits_readPolicy) simp

lemma tame_writePolicy: "emits tame (writePolicy v u d)"
  by (rule emits_writePolicy) simp

lemma tame_removeStatement: "emits tame (removeStatement v u sid)"
  unfolding removeStatement_def by (intro sqs_rules tame_readPolicy tame_writePolicy) simp_all

lemma tame_policy_edits:
  "emits tame (addPendingDeletionDeny v u arn)"
  "emits tame (removePendingDeletionDeny v u)"
  "emits tame (removeSubscriptionAllow v u sid)"
  "emits tame (reconcileDeclaredPolicy v p u arn)"
  "emits tame (ensureSubscriptionAllows v u allows)"
  unfolding addPendingDeletionDeny_def removePendingDeletionDeny_def removeSubscriptionAllow_def
    reconcileDeclaredPolicy_def ensureSubscriptionAllows_def
  by (intro sqs_rules tame_readPolicy tame_writePolicy tame_removeStatement)+

lemma tame_reconcileAttributes: "emits tame (reconcileAttributes v u opts)"
  unfolding reconcileAttributes_def Let_def by (intro sqs_rules) simp_all

lemma tame_recordVerified: "emits tame (recordVerified v p u n dp f l)"
  unfolding recordVerified_def by (intro sqs_rules) simp

lemma tame_createQueue: "emits tame (createQueue v p qn n t opts l)"
  unfolding createQueue_def Let_def by (intro sqs_rules tame_recordVerified) simp_all

lemma tame_ensureWithinTrust: "emits tame (ensureWithinTrust v p e opts l)"
  unfolding ensureWithinTrust_def Let_def by (intro sqs_rules tame_reconcileAttributes) simp_all

lemma tame_EnsureSubscriptions: "emits tame (EnsureSubscriptions v p qn u a refs l)"
  unfolding EnsureSubscriptions_def
  by (intro sqs_rules tame_aside [OF aside_ensureSubscriptionLoop] tame_policy_edits)

lemma tame_ensureQueueSubscriptions: "emits tame (ensureQueueSubscriptions v p q u l)"
  unfolding ensureQueueSubscriptions_def by (intro sqs_rules tame_EnsureSubscriptions)

lemma tame_cleanupSubscriptionLoop: "emits tame (cleanupSubscriptionLoop v p qn u auth es acc)"
proof (induction es arbitrary: acc)
  case (Cons e es)
  show ?case unfolding cleanupSubscriptionLoop.simps Let_def
    by (intro sqs_rules tame_policy_edits Cons.IH) simp
qed (simp add: emits_ret)

lemma tame_CleanupSubscriptions: "emits tame (CleanupSubscriptions v p qn u refs l)"
  unfolding CleanupSubscriptions_def
  by (intro sqs_rules tame_aside [OF aside_authorizedRefs] tame_cleanupSubscriptionLoop)

lemma tame_cleanupQueueSubscriptions: "emits tame (cleanupQueueSubscriptions v p byName es acc)"
proof (induction es arbitrary: acc)
  case (Cons e es)
  show ?case unfolding cleanupQueueSubscriptions.simps Let_def
    by (intro sqs_rules tame_CleanupSubscriptions Cons.IH) simp
qed (simp add: emits_ret)

lemma tame_restoreDeclared: "emits tame (restoreDeclared_sqs v p e l)"
  unfolding restoreDeclared_sqs_def clearPendingDeletion_sqs_def
  by (intro sqs_rules tame_policy_edits) simp

section \<open>Tags are read before they are changed\<close>

definition sqsGuard :: "pass \<Rightarrow> history \<Rightarrow> call \<Rightarrow> bool" where
  "sqsGuard p pre c \<longleftrightarrow> (case c of
     SQSCall (DeleteQueue u r) \<Rightarrow> \<exists>tm. SQSCall (ListQueueTags u (Inr tm)) \<in> set pre \<and> owned_by_pass p tm
   | SQSCall (UntagQueue u ks r) \<Rightarrow> OwnerTagKey \<in> set ks \<longrightarrow>
       (\<exists>tm. SQSCall (ListQueueTags u (Inr tm)) \<in> set pre \<and> owned_by_pass p tm)
   | SQSCall (TagQueue u t r) \<Rightarrow> \<exists>tm. SQSCall (ListQueueTags u (Inr tm)) \<in> set pre \<and> ours p tm
   | _ \<Rightarrow> True)"

lemma leftmono_sqsGuard: "leftmono (sqsGuard p)"
  unfolding leftmono_def sqsGuard_def by (auto split: call.split sqs_call.split)

lemma tame_guard: "tame c \<Longrightarrow> sqsGuard p pre c"
  by (cases c) (auto simp: tame_def sqsGuard_def split: sqs_call.splits)

lemma guards_tame: "emits tame m \<Longrightarrow> guards (sqsGuard p) m"
  by (erule guards_emits) (rule tame_guard)

text \<open>What may follow a reading of the tags of queue \<open>u\<close>.\<close>

definition afterTags :: "pass \<Rightarrow> string \<Rightarrow> tags reply \<Rightarrow> call \<Rightarrow> bool" where
  "afterTags p u res c \<longleftrightarrow> tame c \<or> (\<exists>tm. res = Inr tm \<and>
     (ours p tm \<and> (\<exists>t r. c = SQSCall (TagQueue u t r))
      \<or> owned_by_pass p tm \<and> ((\<exists>ks r. c = SQSCall (UntagQueue u ks r)) \<or> (\<exists>r. c = SQSCall (DeleteQueue u r)))))"

lemma afterTags_simps [simp]:
  "tame c \<Longrightarrow> afterTags p u res c"
  "afterTags p u (Inr tm) (SQSCall (TagQueue u t r)) \<longleftrightarrow> ours p tm"
  "OwnerTagKey \<notin> set ks \<Longrightarrow> afterTags p u res (SQSCall (UntagQueue u ks r))"
  "owned_by_pass p tm \<Longrightarrow> afterTags p u (Inr tm) (SQSCall (UntagQueue u ks r))"
  "owned_by_pass p tm \<Longrightarrow> afterTags p u (Inr tm) (SQSCall (DeleteQueue u r))"
  by (auto simp: afterTags_def)

lemma guards_ListQueueTags:
  assumes "\<And>res. emits (afterTags p u res) (f res)"
  shows "guards (sqsGuard p) (State_Monad.bind (sqs_ListQueueTags v u) f)"
  unfolding sqs_ListQueueTags_def
proof (rule guards_after_invoke [OF _ _ assms])
  show "sqsGuard p (SQSCall (ListQueueTags u r) # x) c" if "afterTags p u r c" for r x c
    using that tame_guard unfolding afterTags_def by (auto simp: sqsGuard_def)
qed (simp add: tame_guard)

lemma existing_ours: "CheckExistingOwnership p kind name tm adopt = Inr b \<Longrightarrow> ours p tm"
  by (auto simp: CheckExistingOwnership_def ours_def split: option.splits if_splits)

lemma afterTags_tame: "emits tame m \<Longrightarrow> emits (afterTags p u res) m"
  by (erule emits_mono) simp

definition adoptsByOwnKeyCheck :: "env \<Rightarrow> queueOptions \<Rightarrow> bool" where
  "adoptsByOwnKeyCheck v opts \<longleftrightarrow> (\<forall>check. qo_checkAdoptedKey opts = Some check \<longrightarrow> (\<exists>key. check = AdoptedKeyCheck (Some v) key))"

lemma adoptsByOwnKeyCheck_options [simp]:
  "adoptsByOwnKeyCheck v (dlqOptions v q key)" "adoptsByOwnKeyCheck v (mainOptions v q key arn)"
  by (auto simp: adoptsByOwnKeyCheck_def dlqOptions_def mainOptions_def)

lemma afterTags_keyCheck:
  assumes "adoptsByOwnKeyCheck v opts" "qo_checkAdoptedKey opts = Some check"
  shows "emits (afterTags p u res) (check cur)"
  using assms afterTags_tame [OF tame_aside [OF aside_AdoptedKeyCheck]] by (auto simp: adoptsByOwnKeyCheck_def)

lemma afterTags_adoptQueue:
  assumes "adoptsByOwnKeyCheck v opts"
  shows "emits (afterTags p u (Inr tm)) (adoptQueue v p qn u tm tgs opts)"
  unfolding adoptQueue_def
  by (intro sqs_rules afterTags_keyCheck [OF assms])
    (simp_all add: existing_ours owner_not_released)

lemma guards_ensureExistingQueue:
  assumes "adoptsByOwnKeyCheck v opts"
  shows "guards (sqsGuard p) (ensureExistingQueue v p qn u n opts l)"
  unfolding ensureExistingQueue_def
  by (rule guards_ListQueueTags, rule emits_sum, rule emits_ret)
    (simp only: prod.case, intro sqs_rules afterTags_adoptQueue [OF assms]
          afterTags_tame [OF tame_reconcileAttributes] afterTags_tame [OF tame_recordVerified])

lemmas sqs_guard_rules = guards_intros guards_bind [OF leftmono_sqsGuard]

lemma guards_sqs_calls:
  "guards (sqsGuard p) (sqs_GetQueueUrl v qn)"
  "guards (sqsGuard p) (sqs_GetQueueAttributes v u ns)"
  by (auto intro!: guards_tame sqs_rules)

lemma guards_ensureVerified:
  assumes "adoptsByOwnKeyCheck v opts"
  shows "guards (sqsGuard p) (ensureVerified v p n opts l)"
  unfolding ensureVerified_def Let_def
  by (intro sqs_guard_rules guards_sqs_calls guards_tame [OF tame_createQueue] guards_ensureExistingQueue [OF assms])

lemma guards_ensureSingleQueue:
  assumes "adoptsByOwnKeyCheck v opts"
  shows "guards (sqsGuard p) (ensureSingleQueue v p n opts l)"
  unfolding ensureSingleQueue_def ensureQueueExists_def Let_def
  by (intro sqs_guard_rules guards_tame [OF tame_ensureWithinTrust] guards_ensureVerified [OF assms]
      guards_tame [OF tame_policy_edits(4)])

lemma guards_ensureQueue: "guards (sqsGuard p) (ensureQueue v p q l)"
  unfolding ensureQueue_def ensureDLQ_def Let_def
  by (intro sqs_guard_rules guards_tame [OF tame_aside [OF aside_resolveQueueKey]] guards_ensureSingleQueue
      guards_tame [OF tame_ensureQueueSubscriptions]) simp_all

lemma guards_Ensure_sqs: "guards (sqsGuard p) (Ensure_sqs v p spec l)"
proof -
  have "guards (sqsGuard p) (ensureQueues v p qs l e)" for qs l e
  proof (induction qs arbitrary: l e)
    case (Cons q qs)
    show ?case unfolding ensureQueues.simps by (intro sqs_guard_rules guards_ensureQueue Cons.IH)
  qed (simp add: guards_ret)
  then show ?thesis unfolding Ensure_sqs_def by (intro sqs_guard_rules)
qed

lemma guards_retain_sqs: "guards (sqsGuard p) (retain_sqs v p entry l res)"
  unfolding retain_sqs_def relinquishIfStillTagged_sqs_def Let_def
  by (intro sqs_guard_rules guards_sqs_calls guards_ListQueueTags;
      intro sqs_rules guards_tame afterTags_tame [OF tame_policy_edits(2)]; simp add: owned_ours)

section \<open>The conditions of a deletion\<close>

definition noDelete :: "call \<Rightarrow> bool" where
  "noDelete c \<longleftrightarrow> (\<forall>u r. c \<noteq> SQSCall (DeleteQueue u r))"

lemma tame_noDelete: "tame c \<Longrightarrow> noDelete c"
  by (auto simp: noDelete_def)

lemmas noDelete_tame = emits_mono [OF _ tame_noDelete]

text \<open>The queue behind URL \<open>u\<close> is that of \<open>entry\<close> and was seen to be owned by this custom resource.\<close>

definition seenOwned :: "pass \<Rightarrow> ManagedResource \<Rightarrow> history \<Rightarrow> string \<Rightarrow> bool" where
  "seenOwned p entry pre u \<longleftrightarrow> (\<exists>qn tm. queueNameFromARN (mr_ARN entry) = Inr qn
     \<and> SQSCall (GetQueueUrl qn (Inr u)) \<in> set pre \<and> SQSCall (ListQueueTags u (Inr tm)) \<in> set pre \<and> owned_by_pass p tm)"

definition seenEmpty :: "history \<Rightarrow> string \<Rightarrow> bool" where
  "seenEmpty pre u \<longleftrightarrow> (\<exists>attrs. SQSCall (GetQueueAttributes u emptyAttributes (Inr attrs)) \<in> set pre \<and> queueIsEmpty attrs)"

text \<open>The conditions of a deletion, as the shared contract states them, for queues and their URLs.\<close>

definition deletesQueue :: "string \<Rightarrow> call \<Rightarrow> bool" where
  "deletesQueue u c \<longleftrightarrow> (\<exists>r. c = SQSCall (DeleteQueue u r))"

abbreviation deleteGuard :: "pass \<Rightarrow> (string \<Rightarrow> bool) \<Rightarrow> bool \<Rightarrow> ledger \<Rightarrow> history \<Rightarrow> call \<Rightarrow> bool" where
  "deleteGuard p \<equiv> deletionGuard deletesQueue (seenOwned p) seenEmpty typeSQS p"

lemma noDelete_deletes: "noDelete c \<longleftrightarrow> (\<forall>u. \<not> deletesQueue u c)"
  by (auto simp: noDelete_def deletesQueue_def)

lemma leftmono_deleteGuard: "leftmono (deleteGuard p d f l)"
  unfolding leftmono_def deletionGuard_def seenOwned_def seenEmpty_def
  by (simp only: set_append Un_iff) blast

lemma guards_noDelete: "emits noDelete m \<Longrightarrow> guards (deleteGuard p d f l) m"
  by (erule guards_emits) (simp add: noDelete_deletes deletionGuard_def)

lemma wp_verifyOwned:
  "wp (verifyOwned_sqs v p entry) (\<lambda>r w'. \<exists>new. trace w' = trace w @ new \<and> (\<forall>c\<in>set new. noDelete c)
     \<and> (\<forall>u. r = Inr (Some u) \<longrightarrow> seenOwned p entry new u)) w"
  unfolding verifyOwned_sqs_def op_defs
  by (auto simp: wp_simps noDelete_def seenOwned_def split: sum.split intro!: exI)

lemma wp_gateOnEmpty:
  "wp (gateOnEmpty v p entry u l res) (\<lambda>(l1, res1, proceed, err) w'. \<exists>new. trace w' = trace w @ new \<and> (\<forall>c\<in>set new. noDelete c)
     \<and> (proceed \<longrightarrow> mr_PendingDeletionSince entry \<noteq> None \<and> seenEmpty new u)) w"
proof (cases "mr_PendingDeletionSince entry = None")
  case True
  have "wp (addPendingDeletionDeny v u (mr_ARN entry))
      (\<lambda>e w'. \<exists>new. trace w' = trace w @ new \<and> (\<forall>c\<in>set new. noDelete c)) w"
    by (rule wp_emits [OF noDelete_tame [OF tame_policy_edits(1)]])
  then show ?thesis
    unfolding gateOnEmpty_def if_P [OF True] wp_bind
    by (rule wp_conseq) (auto simp: wp_simps split: option.split prod.split)
next
  case False
  then show ?thesis
    unfolding gateOnEmpty_def op_defs
    by (auto simp: wp_simps noDelete_def seenEmpty_def split: sum.split prod.split)
qed

lemma noDelete_retain: "emits noDelete (retain_sqs v p entry l res)"
  unfolding retain_sqs_def relinquishIfStillTagged_sqs_def Let_def
  by (intro sqs_rules noDelete_tame [OF tame_policy_edits(2)]) (simp_all add: noDelete_def)

text \<open>The cleanup of queues is the common control flow with the steps of this package.\<close>

lemma deleteUndeclared_gated:
  "deleteUndeclared v p = gatedDelete (waitsQuietly p) (pendingDeletionReason_sqs p) (verifyOwned_sqs v p)
     (gateOnEmpty v p) (deleteQueue_sqs v p) typeSQS"
  by (intro ext) (simp add: deleteUndeclared_def gatedDelete_def)

lemma cleanupQueues_loop:
  "cleanupQueues v p declared force es acc =
     cleanupLoop typeSQS declared (restoreDeclared_sqs v p) (retain_sqs v p) (deleteUndeclared v p force) es acc"
  by (induction es arbitrary: acc) (simp_all split: prod.split)

interpretation queues: gated_deletion deletesQueue "seenOwned p" seenEmpty "\<lambda>_ _. True" typeSQS p "waitsQuietly p"
    "pendingDeletionReason_sqs p" "verifyOwned_sqs v p" "gateOnEmpty v p" "deleteQueue_sqs v p"
    "restoreDeclared_sqs v p" "retain_sqs v p" for v p
proof
  fix e h l and res :: "queue_result list" and w :: world
  show "wp (verifyOwned_sqs v p e) (\<lambda>r w'. \<exists>new. trace w' = trace w @ new \<and> (\<forall>c\<in>set new. \<forall>h. \<not> deletesQueue h c)
      \<and> (\<forall>h. r = Inr (Some h) \<longrightarrow> True \<and> seenOwned p e new h)) w"
    using wp_verifyOwned [of v p e w] by (simp add: noDelete_deletes)
  show "wp (gateOnEmpty v p e h l res) (\<lambda>(l1, res1, proceed, err) w'. \<exists>new. trace w' = trace w @ new
      \<and> (\<forall>c\<in>set new. \<forall>h. \<not> deletesQueue h c) \<and> (proceed \<longrightarrow> mr_PendingDeletionSince e \<noteq> None \<and> seenEmpty new h)) w"
    using wp_gateOnEmpty [of v p e h l res w] by (simp add: noDelete_deletes)
  show "emits (\<lambda>c. \<forall>h'. deletesQueue h' c \<longrightarrow> h' = h) (deleteQueue_sqs v p e h l)"
    unfolding deleteQueue_sqs_def by (intro sqs_rules) (simp add: deletesQueue_def)
  show "emits (\<lambda>c. \<forall>h. \<not> deletesQueue h c) (restoreDeclared_sqs v p e l)"
    using noDelete_tame [OF tame_restoreDeclared] by (simp add: noDelete_deletes [abs_def])
  show "emits (\<lambda>c. \<forall>h. \<not> deletesQueue h c) (retain_sqs v p e l res)"
    using noDelete_retain by (simp add: noDelete_deletes [abs_def])
qed (auto simp: seenOwned_def seenEmpty_def waitsQuietly_def quietlyPending_def deletionQuietWindow_sqs_def not_less)

lemma guards_cleanupQueues:
  assumes "set es \<subseteq> set l0"
  shows "guards (deleteGuard p declared force l0) (cleanupQueues v p declared force es acc)"
  unfolding cleanupQueues_loop deleteUndeclared_gated by (rule queues.guards_cleanupLoop [OF assms])

lemma guards_deleteUndeclared_tags:
  assumes "mr_Type entry = typeSQS" "mr_DeletionPolicy entry = DeletionPolicyDelete"
  shows "guards (sqsGuard p) (deleteUndeclared v p force entry l res)"
proof (rule guards_mono_emits [OF queues.guards_gatedDelete [where declared = "\<lambda>_. False" and ?l0.0 = "[entry]", folded deleteUndeclared_gated]])
  let ?C = "\<lambda>c. tame c \<or> (\<exists>u r. c = SQSCall (DeleteQueue u r))"
  show "emits ?C (deleteUndeclared v p force entry l res)"
    unfolding deleteUndeclared_def verifyOwned_sqs_def gateOnEmpty_def deleteQueue_sqs_def Let_def
    by (intro sqs_rules emits_mono [OF tame_policy_edits(1), of ?C]) auto
  show "sqsGuard p pre c" if "deleteGuard p (\<lambda>_. False) force [entry] pre c" "?C c" for pre c
    using that tame_guard by (auto simp: deletionGuard_def deletesQueue_def sqsGuard_def seenOwned_def)
qed (use assms in \<open>simp_all add: deletableEntry_def\<close>)

lemma guards_cleanup_tags: "guards (sqsGuard p) (cleanupQueues v p declared force es acc)"
proof (induction es arbitrary: acc)
  case (Cons entry es)
  show ?case
    unfolding cleanupQueues.simps
    by (intro sqs_guard_rules Cons.IH guards_retain_sqs guards_tame [OF tame_restoreDeclared] guards_deleteUndeclared_tags)
      simp_all
qed (simp add: guards_ret)

section \<open>Policies keep the statements of others\<close>

lemma noPolicyWrite_simps [simp]:
  "noPolicyWrite (KMSCall k)" "noPolicyWrite (K8sCall h)" "noPolicyWrite (SNSCall n)"
  "noPolicyWrite (SQSCall (CreateQueue qn al tg r1))" "noPolicyWrite (SQSCall (GetQueueUrl qn r1))"
  "noPolicyWrite (SQSCall (GetQueueAttributes u ns r2))" "noPolicyWrite (SQSCall (ListQueueTags u r4))"
  "noPolicyWrite (SQSCall (TagQueue u tg r3))" "noPolicyWrite (SQSCall (UntagQueue u ks r3))"
  "noPolicyWrite (SQSCall (DeleteQueue u r3))"
  "noPolicyWrite (SQSCall (SetQueueAttributes u al r3)) \<longleftrightarrow> attrPolicy \<notin> fst ` set al"
  by (simp_all add: noPolicyWrite_def)

lemma aside_noPolicyWrite: "aside c \<Longrightarrow> noPolicyWrite c"
  by (cases c) (simp_all add: aside_def noPolicyWrite_def)

lemmas quiet_aside = guards_noPolicyWrite [OF emits_mono [OF _ aside_noPolicyWrite]]

lemma corrected_not_policy: "attrPolicy \<notin> fst ` set (correctedAttributes opts)"
  by (auto simp: correctedAttributes_def desiredAttributes_def attrPolicy_def split: option.splits)

lemma quiet_reconcileAttributes: "emits noPolicyWrite (reconcileAttributes v u opts)"
  unfolding reconcileAttributes_def Let_def
  by (intro sqs_rules) (use corrected_not_policy [of opts] in auto)

lemma quiet_recordVerified: "emits noPolicyWrite (recordVerified v p u n dp f l)"
  unfolding recordVerified_def by (intro sqs_rules) simp

lemma quiet_keyCheck:
  assumes "adoptsByOwnKeyCheck v opts" "qo_checkAdoptedKey opts = Some check"
  shows "emits noPolicyWrite (check cur)"
  using assms emits_mono [OF aside_AdoptedKeyCheck aside_noPolicyWrite] by (auto simp: adoptsByOwnKeyCheck_def)

lemma quiet_ensureVerified:
  assumes "adoptsByOwnKeyCheck v opts"
  shows "emits noPolicyWrite (ensureVerified v p n opts l)"
  unfolding ensureVerified_def ensureExistingQueue_def adoptQueue_def createQueue_def Let_def
  by (intro sqs_rules quiet_reconcileAttributes quiet_recordVerified quiet_keyCheck [OF assms]) simp_all

lemma quiet_ensureWithinTrust: "emits noPolicyWrite (ensureWithinTrust v p e opts l)"
  unfolding ensureWithinTrust_def Let_def by (intro sqs_rules quiet_reconcileAttributes) simp_all

lemmas policy_guard_rules = guards_intros guards_bind [OF leftmono_policyGuard]

lemma policy_ensureSingleQueue:
  assumes "adoptsByOwnKeyCheck v opts"
  shows "guards policyGuard (ensureSingleQueue v p n opts l)"
  unfolding ensureSingleQueue_def ensureQueueExists_def Let_def
  by (intro policy_guard_rules guards_reconcileDeclaredPolicy guards_noPolicyWrite [OF quiet_ensureVerified [OF assms]]
      guards_noPolicyWrite [OF quiet_ensureWithinTrust])

lemma returns_allows:
  "\<forall>a\<in>set (fst (snd acc)). ownSid (sa_Sid a) \<Longrightarrow>
   returns (\<lambda>(l, allows, e). \<forall>a\<in>set allows. ownSid (sa_Sid a)) (ensureSubscriptionLoop v p qn arn refs acc)"
proof (induction refs arbitrary: acc)
  case (Cons ref refs)
  obtain l allows e where acc: "acc = (l, allows, e)" by (metis surj_pair)
  have *: "returns (\<lambda>(l, allows, e). \<forall>a\<in>set allows. ownSid (sa_Sid a)) (ensureSubscriptionLoop v p qn arn refs (l', as, e'))"
    if "\<forall>a\<in>set as. ownSid (sa_Sid a)" for l' as e'
    by (rule Cons.IH) (use that in simp)
  show ?case
    unfolding ensureSubscriptionLoop.simps acc Let_def prod.case
    by (intro returns_intros *) (use Cons.prems acc in \<open>auto simp: subscriptionAllow_def\<close>)
qed (simp add: returns_def split_beta)

lemma policy_EnsureSubscriptions: "guards policyGuard (EnsureSubscriptions v p qn u arn refs l)"
proof -
  have "\<forall>a\<in>set (fst (snd (l, [], None))). ownSid (sa_Sid a)" by simp
  note own = returns_allows [OF this]
  show ?thesis
    unfolding EnsureSubscriptions_def
  proof (rule guards_bind_returns [OF leftmono_policyGuard quiet_aside [OF aside_ensureSubscriptionLoop] own])
  show "guards policyGuard (case a of (l1, allows, firstErr) \<Rightarrow> do {
      err \<leftarrow> ensureSubscriptionAllows v u allows;
      ret (l1, firstError firstErr (map_option (wrapf ''granting subscribed topics send access to queue'' [qn]) err)) })"
    if "case a of (l, allows, e) \<Rightarrow> \<forall>a\<in>set allows. ownSid (sa_Sid a)" for a
    using that by (intro policy_guard_rules guards_ensureSubscriptionAllows) simp
  qed
qed

lemma policy_Ensure_sqs: "guards policyGuard (Ensure_sqs v p spec l)"
proof -
  have q: "guards policyGuard (ensureQueue v p q l)" for q l
    unfolding ensureQueue_def ensureDLQ_def ensureQueueSubscriptions_def Let_def
    by (intro policy_guard_rules quiet_aside [OF aside_resolveQueueKey] policy_ensureSingleQueue policy_EnsureSubscriptions)
      simp_all
  have "guards policyGuard (ensureQueues v p qs l e)" for qs l e
  proof (induction qs arbitrary: l e)
    case (Cons x qs)
    show ?case unfolding ensureQueues.simps by (intro policy_guard_rules q Cons.IH)
  qed (simp add: guards_ret)
  then show ?thesis unfolding Ensure_sqs_def by (intro policy_guard_rules)
qed

lemma policy_quiet_calls:
  "guards policyGuard (sqs_GetQueueUrl v qn)" "guards policyGuard (sqs_ListQueueTags v u)"
  "guards policyGuard (sqs_GetQueueAttributes v u ns)" "guards policyGuard (sqs_TagQueue v u tg)"
  "guards policyGuard (sqs_UntagQueue v u ks)" "guards policyGuard (sqs_DeleteQueue v u)"
  "guards policyGuard (sns_Unsubscribe v s)" "guards policyGuard (recordEvent p et er ea)"
  "guards policyGuard (ReleaseTagFailed p kd nm ex)"
  by (auto intro!: guards_noPolicyWrite sqs_rules)

lemma policy_removals:
  "guards policyGuard (removePendingDeletionDeny v u)"
  "guards policyGuard (removeSubscriptionAllow v u (subscriptionAllowSid n))"
  by (simp_all add: removePendingDeletionDeny_def removeSubscriptionAllow_def guards_removeStatement)

lemma policy_cleanupQueues: "guards policyGuard (cleanupQueues v p declared force es acc)"
proof (induction es arbitrary: acc)
  case (Cons entry es)
  show ?case
    unfolding cleanupQueues.simps restoreDeclared_sqs_def clearPendingDeletion_sqs_def retain_sqs_def
      relinquishIfStillTagged_sqs_def deleteUndeclared_def verifyOwned_sqs_def gateOnEmpty_def deleteQueue_sqs_def Let_def
    by (intro policy_guard_rules Cons.IH policy_quiet_calls policy_removals guards_addPendingDeletionDeny)
qed (simp add: guards_ret)

lemma policy_CleanupSubscriptions: "guards policyGuard (CleanupSubscriptions v p qn u refs l)"
proof -
  have "guards policyGuard (cleanupSubscriptionLoop v p qn u auth es acc)" for auth es acc
  proof (induction es arbitrary: acc)
    case (Cons e es)
    show ?case unfolding cleanupSubscriptionLoop.simps Let_def
      by (intro policy_guard_rules policy_quiet_calls policy_removals Cons.IH)
  qed (simp add: guards_ret)
  then show ?thesis
    unfolding CleanupSubscriptions_def by (intro policy_guard_rules quiet_aside [OF aside_authorizedRefs])
qed

lemma policy_cleanupQueueSubscriptions: "guards policyGuard (cleanupQueueSubscriptions v p byName es acc)"
proof (induction es arbitrary: acc)
  case (Cons e es)
  show ?case unfolding cleanupQueueSubscriptions.simps Let_def
    by (intro policy_guard_rules policy_quiet_calls policy_CleanupSubscriptions Cons.IH)
qed (simp add: guards_ret)

section \<open>Ensuring never deletes\<close>

lemma noDelete_keyCheck:
  assumes "adoptsByOwnKeyCheck v opts" "qo_checkAdoptedKey opts = Some check"
  shows "emits noDelete (check cur)"
  using assms noDelete_tame [OF tame_aside [OF aside_AdoptedKeyCheck]] by (auto simp: adoptsByOwnKeyCheck_def)

lemma noDelete_calls:
  "emits noDelete (sqs_GetQueueUrl v qn)" "emits noDelete (sqs_ListQueueTags v u)"
  "emits noDelete (sqs_GetQueueAttributes v u ns)" "emits noDelete (sqs_TagQueue v u tg)"
  "emits noDelete (sqs_UntagQueue v u ks)"
  by (auto simp: noDelete_def intro!: sqs_emits_op)

lemma noDelete_ensureVerified:
  assumes "adoptsByOwnKeyCheck v opts"
  shows "emits noDelete (ensureVerified v p n opts l)"
proof -
  have "emits noDelete (adoptQueue v p qn u tm tgs opts)" for qn u tm tgs
    unfolding adoptQueue_def by (intro emits_intros noDelete_calls noDelete_keyCheck [OF assms])
  then show ?thesis
    unfolding ensureVerified_def ensureExistingQueue_def Let_def
    by (intro emits_intros noDelete_calls noDelete_tame [OF tame_reconcileAttributes]
        noDelete_tame [OF tame_recordVerified] noDelete_tame [OF tame_createQueue])
qed

lemma noDelete_ensureSingleQueue:
  assumes "adoptsByOwnKeyCheck v opts"
  shows "emits noDelete (ensureSingleQueue v p n opts l)"
  unfolding ensureSingleQueue_def ensureQueueExists_def Let_def
  by (intro emits_intros noDelete_ensureVerified [OF assms] noDelete_tame [OF tame_ensureWithinTrust]
      noDelete_tame [OF tame_policy_edits(4)])

lemma noDelete_Ensure_sqs: "emits noDelete (Ensure_sqs v p spec l)"
proof -
  have q: "emits noDelete (ensureQueue v p q l)" for q l
    unfolding ensureQueue_def ensureDLQ_def Let_def
    by (intro emits_intros noDelete_tame [OF tame_aside [OF aside_resolveQueueKey]] noDelete_ensureSingleQueue
        noDelete_tame [OF tame_ensureQueueSubscriptions]) simp_all
  have "emits noDelete (ensureQueues v p qs l e)" for qs l e
  proof (induction qs arbitrary: l e)
    case (Cons x qs)
    show ?case unfolding ensureQueues.simps by (intro emits_intros q Cons.IH)
  qed (simp add: emits_ret)
  then show ?thesis unfolding Ensure_sqs_def by (intro emits_intros)
qed

section \<open>Properties\<close>

text \<open>
  C2: When a queue may be deleted. Ensuring declared queues never deletes one. Cleaning up deletes the queue
  behind a URL only for an entry of the ledger it was given that is a queue, whose recorded policy
  is Delete and that the spec does not declare (as a queue or as a dead-letter queue), after
  resolving the URL from that entry's own identifier and reading tags there that show this very
  custom resource as the owner, in the same run. Unless deletion is forced, by the entry or by the
  finalizer's override, the queue has moreover been pending for at least the ten minutes of the
  quiet window, so never on the pass that first notices it, and all three message counters read in
  this run were zero.
\<close>

theorem queue_deletion_conditions:
  "emits noDelete (Ensure_sqs v p spec l)
   \<and> guards (deleteGuard p (declaredQueueNames spec deleting) forceDeleteAll l) (Cleanup_sqs v p spec l deleting forceDeleteAll)"
proof
  show "guards (deleteGuard p (declaredQueueNames spec deleting) forceDeleteAll l) (Cleanup_sqs v p spec l deleting forceDeleteAll)"
    unfolding Cleanup_sqs_def
    by (intro guards_intros guards_bind [OF leftmono_deleteGuard] guards_cleanupQueues
        guards_noDelete [OF noDelete_tame [OF tame_cleanupQueueSubscriptions]]) simp
qed (rule noDelete_Ensure_sqs)

text \<open>
  Ownership of queues. In a run of either entry point, the owner tags of a queue are written only
  after its tags, read earlier in the same run, showed no other owner, and they are removed, and
  the queue deleted, only after they showed this custom resource with its own UID.
\<close>

theorem queue_tags_guarded:
  "guards (sqsGuard p) (Ensure_sqs v p spec l)
   \<and> guards (sqsGuard p) (Cleanup_sqs v p spec l deleting forceDeleteAll)"
proof
  show "guards (sqsGuard p) (Cleanup_sqs v p spec l deleting forceDeleteAll)"
    unfolding Cleanup_sqs_def
    by (intro sqs_guard_rules guards_cleanup_tags guards_tame [OF tame_cleanupQueueSubscriptions])
qed (rule guards_Ensure_sqs)

text \<open>
  C29: Policies of queues. Whenever either entry point writes the policy of a queue, whether to enforce
  TLS, to block sends before a deletion, to lift that block, or to grant or revoke a topic's
  deliveries, it has read that queue's policy in the same run, and the text it writes parses to a
  document with exactly the statements of others that the one read had, in the same order.
\<close>

theorem queue_policies_keep_foreign_statements:
  "guards policyGuard (Ensure_sqs v p spec l)
   \<and> guards policyGuard (Cleanup_sqs v p spec l deleting forceDeleteAll)"
proof
  show "guards policyGuard (Cleanup_sqs v p spec l deleting forceDeleteAll)"
    unfolding Cleanup_sqs_def
    by (intro policy_guard_rules policy_cleanupQueues policy_cleanupQueueSubscriptions)
qed (rule policy_Ensure_sqs)

end
