(* ===== verification/Encryption.thy ===== *)
theory Encryption
  imports Kms
begin

text \<open>
  How the DynamoDB and S3 packages find the key a resource is encrypted with (the loops of \<^verbatim>\<open>Ensure\<close> in
  \<^verbatim>\<open>internal/resources/dynamodb/dynamodb.go\<close> and \<^verbatim>\<open>internal/resources/s3/s3.go\<close>), and that this only talks to KMS and the
  custom resource and changes no entry but the one of a dedicated key.
\<close>

text \<open>\<open>Inl\<close> when the key cannot be had yet: the error of the entry, already prefixed with the resource.\<close>

definition resolveEncryptionKey ::
  "env \<Rightarrow> pass \<Rightarrow> string \<Rightarrow> string \<Rightarrow> string \<Rightarrow> DeletionPolicy \<Rightarrow> EncryptionSpec option \<Rightarrow> ledger
   \<Rightarrow> (ledger \<times> (go_error + string option)) op" where
  "resolveEncryptionKey v p kind resourceType name deletionPolicy encryption l =
     (case encryption of
        None \<Rightarrow> ret (l, Inr None)
      | Some enc \<Rightarrow>
          (let shared = (if en_KMSKeyRef enc = [] then Inr None
                         else case SharedKeyARN l (en_KMSKeyRef enc) of
                                None \<Rightarrow> Inl (ReconcileError (msgError ''encryption.kmsKeyRef is not ready yet'' [kind, name, en_KMSKeyRef enc]) True [] True)
                              | Some arn \<Rightarrow> Inr (Some arn)) in
           case shared of
             Inl e \<Rightarrow> ret (l, Inl e)
           | Inr key \<Rightarrow>
               if \<not> en_Enabled enc then ret (l, Inr key)
               else do {
                 (arn, l1, err) \<leftarrow> EnsureDedicatedKey v p resourceType name deletionPolicy l;
                 case err of
                   Some e \<Rightarrow> ret (l1, Inl (wrapf ''encryption key'' [kind, name] e))
                 | None \<Rightarrow> ret (l1, Inr (Some arn))
               }))"

fun keyCall :: "call \<Rightarrow> bool" where
  "keyCall (KMSCall k) \<longleftrightarrow> True"
| "keyCall (K8sCall (PatchStatus ns n b s r)) \<longleftrightarrow> True"
| "keyCall c \<longleftrightarrow> False"

lemma keyCall_EnsureDedicatedKey: "emits keyCall (EnsureDedicatedKey v p t n dp l)"
proof -
  have "emits keyCall (createKey v p al n opts l)" for al n opts l
    unfolding createKey_def Let_def by (intro kms_rules2) simp_all
  moreover have "emits keyCall (resumeKey v p al opts entry l)" for al opts entry l
    unfolding resumeKey_def verifyOrTakeOverKey_def cancelScheduledDeletion_def reassertKeySettings_def Let_def
    by (intro kms_rules2) simp_all
  moreover have "emits keyCall (adoptKey v p al n opts meta l)" for al n opts meta l
    unfolding adoptKey_def settleAdoptedKey_def Let_def by (intro kms_rules2) simp_all
  ultimately show ?thesis
    unfolding EnsureDedicatedKey_def ensureKey_def Let_def by (intro kms_rules2) simp_all
qed

lemma keyCall_AdoptedKeyCheck: "emits keyCall (AdoptedKeyCheck (Some v) key k)"
  unfolding AdoptedKeyCheck_def CheckAdoptedKey_def by (intro kms_rules2) simp_all

lemma keyCall_resolveEncryptionKey: "emits keyCall (resolveEncryptionKey v p kind ty n dp enc l)"
  unfolding resolveEncryptionKey_def Let_def by (intro emits_intros keyCall_EnsureDedicatedKey)

section \<open>Frames\<close>

text \<open>Only entries under the keys \<open>K\<close> change, and a ledger with one entry per key stays one.\<close>

definition changesOnly :: "(string \<times> string) set \<Rightarrow> ledger \<Rightarrow> ledger \<Rightarrow> bool" where
  "changesOnly K l l' \<longleftrightarrow> (\<forall>t m. (t, m) \<notin> K \<longrightarrow> FindManagedResource l' t m = FindManagedResource l t m)
     \<and> (distinct (map mr_key l) \<longrightarrow> distinct (map mr_key l'))"

lemma changesOnly_refl [simp]: "changesOnly K l l"
  by (simp add: changesOnly_def)

lemma changesOnly_trans: "changesOnly K l l1 \<Longrightarrow> changesOnly K' l1 l2 \<Longrightarrow> changesOnly (K \<union> K') l l2"
  by (simp add: changesOnly_def)

lemma changesOnly_mono: "changesOnly K l l' \<Longrightarrow> K \<subseteq> K' \<Longrightarrow> changesOnly K' l l'"
  by (auto simp: changesOnly_def)

lemma changesOnly_Upsert: "mr_key e \<in> K \<Longrightarrow> changesOnly K l (UpsertManagedResource l e)"
  by (auto simp: changesOnly_def Find_Upsert Upsert_distinct)

lemma changesOnly_Find: "changesOnly K l l' \<Longrightarrow> (t, m) \<notin> K \<Longrightarrow> FindManagedResource l' t m = FindManagedResource l t m"
  by (simp add: changesOnly_def)

lemma returns_EnsureDedicatedKey:
  "returns (\<lambda>(arn, l', err). changesOnly {(TypeKMS, DedicatedKeyLedgerName t n)} l l') (EnsureDedicatedKey v p t n pol l)"
  unfolding EnsureDedicatedKey_def Let_def
  by (rule returns_bind [OF returns_ensureKey]; intro returns_intros) (auto simp: ensured_def changesOnly_def)

lemma returns_resolveEncryptionKey:
  "returns (\<lambda>(l', res). changesOnly {(TypeKMS, DedicatedKeyLedgerName ty n)} l l') (resolveEncryptionKey v p kind ty n pol enc l)"
  unfolding resolveEncryptionKey_def Let_def
  by (intro returns_intros returns_bind [OF returns_EnsureDedicatedKey]) auto

end
