(* ===== verification/Sqs_Function.thy ===== *)
theory Sqs_Function
  imports Sqs_Safety Encryption
begin

text \<open>
  What the SQS package achieves: the ledger after ensuring the declared queues, the attributes of a
  queue after drift correction, the subscriptions after a cleanup, and the deletion of a drained
  queue over two passes. The last section shows two subscriptions whose statements share a Sid.
\<close>

section \<open>The ledger after ensuring a queue\<close>

definition queueRecorded :: "pass \<Rightarrow> DeletionPolicy \<Rightarrow> bool \<Rightarrow> ledger \<Rightarrow> string \<Rightarrow> bool" where
  "queueRecorded p pol force l n \<longleftrightarrow> (\<exists>e. FindManagedResource l typeSQS n = Some e \<and> mr_State e = StateVerified
     \<and> \<not> NeedsRevalidation (ps_now p) e \<and> mr_DeletionPolicy e = pol \<and> mr_Force e = force)"

definition queueOutcome ::
  "pass \<Rightarrow> string \<Rightarrow> queueOptions \<Rightarrow> ledger \<Rightarrow> ledger \<Rightarrow> go_error option \<Rightarrow> bool" where
  "queueOutcome p n opts l l' err \<longleftrightarrow> changesOnly {(typeSQS, n)} l l'
     \<and> (err = None \<longrightarrow> queueRecorded p (qo_deletionPolicy opts) (qo_force opts) l' n)"

lemma mr_Force_upserted [simp]: "mr_Force (upserted o' e) = mr_Force e"
  by (cases o') simp_all

lemma queueOutcome_error [simp]: "queueOutcome p n opts l l (Some e)"
  by (simp add: queueOutcome_def)

lemma returns_recordVerified:
  "returns (\<lambda>(l', err). queueOutcome p n opts l l' err)
     (recordVerified v p u n (qo_deletionPolicy opts) (qo_force opts) l)"
  unfolding recordVerified_def
  by (intro returns_intros)
    (auto simp: queueOutcome_def queueRecorded_def Find_Upsert NeedsRevalidation_def since_def TrustWindow_def
      minute_def second_def intro: changesOnly_Upsert)

lemma returns_createQueue:
  "returns (\<lambda>(l', u, err). queueOutcome p n opts l l' err) (createQueue v p qn n tgs opts l)"
  unfolding createQueue_def Let_def
  by (intro returns_intros returns_bind [OF returns_recordVerified]) auto

lemma returns_ensureExistingQueue:
  "returns (\<lambda>(l', u, err). queueOutcome p n opts l l' err) (ensureExistingQueue v p qn u n opts l)"
  unfolding ensureExistingQueue_def
  by (intro returns_intros returns_bind [OF returns_recordVerified]) auto

lemma returns_ensureVerified:
  "returns (\<lambda>(l', u, err). queueOutcome p n opts l l' err) (ensureVerified v p n opts l)"
  unfolding ensureVerified_def Let_def
  by (intro returns_intros returns_createQueue returns_ensureExistingQueue) simp_all

lemma returns_ensureWithinTrust:
  assumes "FindManagedResource l typeSQS n = Some e" "\<not> NeedsRevalidation (ps_now p) e"
  shows "returns (\<lambda>(l', u, present, err). changesOnly {(typeSQS, n)} l l'
      \<and> queueRecorded p (qo_deletionPolicy opts) (qo_force opts) l' n) (ensureWithinTrust v p e opts l)"
proof -
  have key: "mr_Type e = typeSQS" "mr_Name e = n" using Find_key [OF assms(1)] by simp_all
  let ?e = "e\<lparr>mr_DeletionPolicy := qo_deletionPolicy opts, mr_Force := qo_force opts\<rparr>"
  have "changesOnly {(typeSQS, n)} l (UpsertManagedResource l ?e)"
    by (rule changesOnly_Upsert) (simp add: key)
  moreover have "queueRecorded p (qo_deletionPolicy opts) (qo_force opts) (UpsertManagedResource l ?e) n"
    using assms(2) by (auto simp: queueRecorded_def Find_Upsert key NeedsRevalidation_def split: if_splits)
  ultimately show ?thesis
    unfolding ensureWithinTrust_def Let_def by (intro returns_intros) simp_all
qed

lemma queueOutcome_after:
  "changesOnly {(typeSQS, n)} l l1 \<Longrightarrow> queueOutcome p n opts l1 l2 err \<Longrightarrow> queueOutcome p n opts l l2 err"
  using changesOnly_trans [of "{(typeSQS, n)}" l l1 "{(typeSQS, n)}" l2] by (simp add: queueOutcome_def)

lemma returns_ensureQueueExists:
  "returns (\<lambda>(l', u, err). queueOutcome p n opts l l' err) (ensureQueueExists v p n opts l)"
proof (cases "FindManagedResource l typeSQS n")
  case (Some e)
  show ?thesis
  proof (cases "NeedsRevalidation (ps_now p) e")
    case False
    have after: "returns (\<lambda>(l', u, err). queueOutcome p n opts l l' err) (ensureVerified v p n opts l1)"
      if "changesOnly {(typeSQS, n)} l l1" for l1
      by (rule returns_mono [OF returns_ensureVerified]) (use queueOutcome_after [OF that] in auto)
    show ?thesis
      unfolding ensureQueueExists_def Some option.case if_not_P [OF False]
      by (intro returns_option returns_ret returns_bind [OF returns_ensureWithinTrust [OF Some False]] returns_prod returns_if after)
        (auto simp: queueOutcome_def)
  qed (simp add: ensureQueueExists_def Some returns_ensureVerified returns_ret split: option.split)
qed (simp add: ensureQueueExists_def returns_ensureVerified returns_ret split: option.split)

lemma returns_ensureSingleQueue:
  "returns (\<lambda>(l', u, err). queueOutcome p n opts l l' err) (ensureSingleQueue v p n opts l)"
proof -
  have "queueOutcome p n opts l l1 err" if "queueOutcome p n opts l l1 None" for l1 err
    using that by (simp add: queueOutcome_def)
  then show ?thesis
    unfolding ensureSingleQueue_def Let_def
    by (intro returns_bind [OF returns_ensureQueueExists] returns_intros) auto
qed

lemma returns_ensureSubscriptionLoop:
  "returns (\<lambda>(l', allows, e). changesOnly ({subscriptionResourceType} \<times> UNIV) (fst acc) l')
     (ensureSubscriptionLoop v p qn arn refs acc)"
proof (induction refs arbitrary: acc)
  case (Cons ref refs)
  obtain l allows e where acc: "acc = (l, allows, e)" by (metis surj_pair)
  let ?K = "{subscriptionResourceType} \<times> (UNIV :: string set)"
  have step: "returns (\<lambda>(l', allows, e). changesOnly ?K l l') (ensureSubscriptionLoop v p qn arn refs (l1, as, e1))"
    if "changesOnly ?K l l1" for l1 as e1
    by (rule returns_mono [OF Cons.IH]) (use changesOnly_trans [OF that, of ?K] in auto)
  show ?case
    unfolding ensureSubscriptionLoop.simps acc prod.case Let_def fst_conv
    by (intro returns_intros step changesOnly_refl changesOnly_Upsert) (simp add: subscriptionEntry_def)
qed (simp add: returns_def split_beta)

lemma returns_ensureQueueSubscriptions:
  "returns (\<lambda>(l', err). changesOnly ({subscriptionResourceType} \<times> UNIV) l l') (ensureQueueSubscriptions v p q u l)"
  unfolding ensureQueueSubscriptions_def EnsureSubscriptions_def
  by (intro returns_intros returns_bind [OF returns_ensureSubscriptionLoop]) auto

section \<open>The ledger after ensuring the declared queues\<close>

definition queueNames :: "SQSQueueSpec \<Rightarrow> string list" where
  "queueNames q = q_Name q # (if q_DLQ q then [DerivedKey (q_Name q) ''dlq''] else [])"

definition dlqKeys :: "SQSQueueSpec \<Rightarrow> (string \<times> string) set" where
  "dlqKeys q = (if q_DLQ q then {(typeSQS, DerivedKey (q_Name q) ''dlq'')} else {})"

definition queueKeys :: "SQSQueueSpec \<Rightarrow> (string \<times> string) set" where
  "queueKeys q = {typeSQS} \<times> set (queueNames q) \<union> {(TypeKMS, DedicatedKeyLedgerName typeSQS (q_Name q))}
     \<union> {subscriptionResourceType} \<times> UNIV"

lemma key_types [simp]:
  "typeSQS \<noteq> TypeKMS" "TypeKMS \<noteq> typeSQS" "typeSQS \<noteq> subscriptionResourceType" "TypeKMS \<noteq> subscriptionResourceType"
  "subscriptionResourceType \<noteq> typeSQS" "subscriptionResourceType \<noteq> TypeKMS"
  by (simp_all add: type_names subscriptionResourceType_def)

lemma dlq_name [simp]: "DerivedKey n ''dlq'' \<noteq> n" "n \<noteq> DerivedKey n ''dlq''"
  by (simp_all add: DerivedKey_def derivedKeySeparator_def)

lemma returns_resolveQueueKey:
  "returns (\<lambda>(l', res). changesOnly {(TypeKMS, DedicatedKeyLedgerName typeSQS (q_Name q))} l l') (resolveQueueKey v p q l)"
  unfolding resolveQueueKey_def Let_def
  by (intro returns_intros returns_bind [OF returns_EnsureDedicatedKey]) auto

lemma returns_ensureDLQ:
  "returns (\<lambda>(l', res). changesOnly (dlqKeys q) l l'
      \<and> (\<forall>arn. res = Inr arn \<longrightarrow> q_DLQ q \<longrightarrow> queueRecorded p (q_DeletionPolicy q) (q_Force q) l' (DerivedKey (q_Name q) ''dlq'')))
     (ensureDLQ v p q key l)"
  unfolding ensureDLQ_def Let_def
  by (intro returns_intros returns_bind [OF returns_ensureSingleQueue])
    (auto simp: queueOutcome_def dlqOptions_def dlqKeys_def)

definition queueEnsured :: "pass \<Rightarrow> SQSQueueSpec \<Rightarrow> ledger \<Rightarrow> bool" where
  "queueEnsured p q l \<longleftrightarrow> (\<forall>n\<in>set (queueNames q). queueRecorded p (q_DeletionPolicy q) (q_Force q) l n)"

lemma queueRecorded_frame:
  "changesOnly K l l' \<Longrightarrow> (typeSQS, n) \<notin> K \<Longrightarrow> queueRecorded p pol f l' n = queueRecorded p pol f l n"
  by (simp add: queueRecorded_def changesOnly_Find)

lemma ensureQueue_steps:
  assumes "changesOnly {(TypeKMS, DedicatedKeyLedgerName typeSQS (q_Name q))} l l1"
    and "changesOnly (dlqKeys q) l1 l2"
    and "changesOnly {(typeSQS, q_Name q)} l2 l3"
    and "changesOnly ({subscriptionResourceType} \<times> UNIV) l3 l4"
  shows "changesOnly (queueKeys q) l l1" "changesOnly (queueKeys q) l l2" "changesOnly (queueKeys q) l l3"
    "changesOnly (queueKeys q) l l4"
proof -
  note 2 = changesOnly_trans [OF assms(1,2)] and 3 = changesOnly_trans [OF changesOnly_trans [OF assms(1,2)] assms(3)]
  show "changesOnly (queueKeys q) l l1" by (rule changesOnly_mono [OF assms(1)]) (auto simp: queueKeys_def queueNames_def dlqKeys_def)
  show "changesOnly (queueKeys q) l l2" by (rule changesOnly_mono [OF 2]) (auto simp: queueKeys_def queueNames_def dlqKeys_def)
  show "changesOnly (queueKeys q) l l3" by (rule changesOnly_mono [OF 3]) (auto simp: queueKeys_def queueNames_def dlqKeys_def)
  show "changesOnly (queueKeys q) l l4"
    by (rule changesOnly_mono [OF changesOnly_trans [OF 3 assms(4)]]) (auto simp: queueKeys_def queueNames_def dlqKeys_def)
qed

lemma queueEnsured_steps:
  assumes "q_DLQ q \<longrightarrow> queueRecorded p (q_DeletionPolicy q) (q_Force q) l2 (DerivedKey (q_Name q) ''dlq'')"
    and "queueOutcome p (q_Name q) (mainOptions v q key arn) l2 l3 None"
    and "changesOnly ({subscriptionResourceType} \<times> UNIV) l3 l4"
  shows "queueEnsured p q l4"
proof -
  have *: "changesOnly {(typeSQS, q_Name q)} l2 l3" "queueRecorded p (q_DeletionPolicy q) (q_Force q) l3 (q_Name q)"
    using assms(2) by (simp_all add: queueOutcome_def mainOptions_def)
  then have "q_DLQ q \<longrightarrow> queueRecorded p (q_DeletionPolicy q) (q_Force q) l3 (DerivedKey (q_Name q) ''dlq'')"
    using assms(1) queueRecorded_frame [OF *(1)] by simp
  with * show ?thesis
    using queueRecorded_frame [OF assms(3)] by (simp add: queueEnsured_def queueNames_def)
qed

lemma returns_ensureQueue:
  "returns (\<lambda>(l', err). changesOnly (queueKeys q) l l' \<and> (err = None \<longrightarrow> queueEnsured p q l')) (ensureQueue v p q l)"
  unfolding ensureQueue_def
proof (rule returns_bind [OF returns_resolveQueueKey], rule returns_prod)
  fix r :: "ledger \<times> (go_error + string option)" and l1 keyRes
  assume "case r of (l', res) \<Rightarrow> changesOnly {(TypeKMS, DedicatedKeyLedgerName typeSQS (q_Name q))} l l'" "r = (l1, keyRes)"
  then have 1: "changesOnly {(TypeKMS, DedicatedKeyLedgerName typeSQS (q_Name q))} l l1" by simp
  let ?P = "\<lambda>(l', err). changesOnly (queueKeys q) l l' \<and> (err = None \<longrightarrow> queueEnsured p q l')"
  have main: "returns ?P (do {
      (l3, queueURL, err) \<leftarrow> ensureSingleQueue v p (q_Name q) (mainOptions v q key dlqArn) l2;
      case err of Some e \<Rightarrow> ret (l3, Some e) | None \<Rightarrow> ensureQueueSubscriptions v p q queueURL l3 })"
    if 2: "changesOnly (dlqKeys q) l1 l2"
      and d: "q_DLQ q \<longrightarrow> queueRecorded p (q_DeletionPolicy q) (q_Force q) l2 (DerivedKey (q_Name q) ''dlq'')" for key dlqArn l2
  proof (rule returns_bind [OF returns_ensureSingleQueue], intro returns_prod returns_option)
    fix r3 :: "ledger \<times> string \<times> go_error option" and l3 ue url err
    assume "case r3 of (l', u, err) \<Rightarrow> queueOutcome p (q_Name q) (mainOptions v q key dlqArn) l2 l' err"
      "r3 = (l3, ue)" "ue = (url, err)"
    then have o: "queueOutcome p (q_Name q) (mainOptions v q key dlqArn) l2 l3 err" by simp
    then have 3: "changesOnly {(typeSQS, q_Name q)} l2 l3" by (simp add: queueOutcome_def)
    show "returns ?P (ret (l3, Some e))" for e
      using ensureQueue_steps(3) [OF 1 2 3 changesOnly_refl] by (simp add: returns_ret)
    assume "err = None"
    then show "returns ?P (ensureQueueSubscriptions v p q url l3)"
      using ensureQueue_steps(4) [OF 1 2 3] queueEnsured_steps [OF d] o
      by (intro returns_mono [OF returns_ensureQueueSubscriptions]) auto
  qed
  show "returns ?P (case keyRes of Inl e \<Rightarrow> ret (l1, Some e)
     | Inr key \<Rightarrow> do {
         (l2, dlqRes) \<leftarrow> ensureDLQ v p q key l1;
         case dlqRes of Inl e \<Rightarrow> ret (l2, Some e)
         | Inr dlqArn \<Rightarrow> do {
             (l3, queueURL, err) \<leftarrow> ensureSingleQueue v p (q_Name q) (mainOptions v q key dlqArn) l2;
             case err of Some e \<Rightarrow> ret (l3, Some e) | None \<Rightarrow> ensureQueueSubscriptions v p q queueURL l3 }})"
    by (intro returns_sum returns_ret returns_bind [OF returns_ensureDLQ] returns_prod main)
      (use ensureQueue_steps(1) [OF 1 changesOnly_refl changesOnly_refl changesOnly_refl]
        ensureQueue_steps(2) [OF 1 _ changesOnly_refl changesOnly_refl] in auto)
qed

lemma queueEnsured_frame:
  assumes "changesOnly (queueKeys q') l l'" "set (queueNames q) \<inter> set (queueNames q') = {}"
  shows "queueEnsured p q l' = queueEnsured p q l"
proof -
  have "(typeSQS, n) \<notin> queueKeys q'" if "n \<in> set (queueNames q)" for n
    using that assms(2) by (auto simp: queueKeys_def)
  then have "queueRecorded p pol f l' n = queueRecorded p pol f l n" if "n \<in> set (queueNames q)" for n pol f
    using queueRecorded_frame [OF assms(1)] that by blast
  then show ?thesis unfolding queueEnsured_def by (intro ball_cong) simp_all
qed

lemma returns_ensureQueues:
  "returns (\<lambda>(l', err). changesOnly (\<Union> (queueKeys ` set qs)) l l'
     \<and> (err = None \<longrightarrow> e0 = None \<and> (distinct (concat (map queueNames qs)) \<longrightarrow> (\<forall>q\<in>set qs. queueEnsured p q l'))))
   (ensureQueues v p qs l e0)"
proof (induction qs arbitrary: l e0)
  case (Cons q qs)
  show ?case
    unfolding ensureQueues.simps
  proof (rule returns_bind [OF returns_ensureQueue], rule returns_prod, rule returns_mono [OF Cons.IH])
    fix r :: "ledger \<times> go_error option" and l1 err and res :: "ledger \<times> go_error option"
    assume r: "case r of (l', err) \<Rightarrow> changesOnly (queueKeys q) l l' \<and> (err = None \<longrightarrow> queueEnsured p q l')" "r = (l1, err)"
      and res: "case res of (l', err') \<Rightarrow> changesOnly (\<Union> (queueKeys ` set qs)) l1 l' \<and>
        (err' = None \<longrightarrow> firstError e0 (map_option (wrapf ''queue'' [q_Name q]) err) = None \<and>
           (distinct (concat (map queueNames qs)) \<longrightarrow> (\<forall>q\<in>set qs. queueEnsured p q l')))"
    obtain l2 err2 where e: "res = (l2, err2)" by fastforce
    have c1: "changesOnly (queueKeys q) l l1" and c2: "changesOnly (\<Union> (queueKeys ` set qs)) l1 l2"
      using r res e by auto
    have "queueEnsured p q l2" if "err = None" "distinct (concat (map queueNames (q # qs)))"
    proof -
      have disj: "set (queueNames q) \<inter> set (concat (map queueNames qs)) = {}"
        using that(2) by (simp only: list.map concat.simps distinct_append)
      have outside: "(typeSQS, n) \<notin> \<Union> (queueKeys ` set qs)" if "n \<in> set (queueNames q)" for n
      proof
        assume "(typeSQS, n) \<in> \<Union> (queueKeys ` set qs)"
        then obtain q' where "q' \<in> set qs" "(typeSQS, n) \<in> queueKeys q'" by blast
        then have "n \<in> set (concat (map queueNames qs))" by (auto simp: queueKeys_def)
        with that disj show False by blast
      qed
      have "queueRecorded p pol f l2 n = queueRecorded p pol f l1 n" if "n \<in> set (queueNames q)" for n pol f
        by (rule queueRecorded_frame [OF c2 outside [OF that]])
      moreover have "queueEnsured p q l1" using r \<open>err = None\<close> by simp
      ultimately show ?thesis by (simp add: queueEnsured_def)
    qed
    then show "case res of (l', err) \<Rightarrow> changesOnly (\<Union> (queueKeys ` set (q # qs))) l l' \<and>
        (err = None \<longrightarrow> e0 = None \<and> (distinct (concat (map queueNames (q # qs))) \<longrightarrow> (\<forall>q\<in>set (q # qs). queueEnsured p q l')))"
      using changesOnly_trans [OF c1 c2] res e by auto
  qed
qed (simp add: returns_ret)

text \<open>
  C30: A successful pass over the declared queues leaves the ledger complete. With distinct names, for every
  declared queue, and its dead-letter queue when it has one, there is an entry in state Verified
  whose verification is still within the trust window and that carries the deletion policy and
  the force flag of the spec. Successful or not, no entry changes but those of the declared queues,
  of their dedicated keys and of subscriptions, and no key of the ledger is ever doubled.
\<close>

theorem ensure_queues_complete:
  assumes "run_state (Ensure_sqs v p (Some s) l) w = ((l', err), w')"
  shows "changesOnly (\<Union> (queueKeys ` set (sqs_Resources s))) l l'
    \<and> (err = None \<longrightarrow> distinct (concat (map queueNames (sqs_Resources s))) \<longrightarrow>
         (\<forall>q\<in>set (sqs_Resources s). \<forall>n\<in>set (queueNames q).
            queueRecorded p (q_DeletionPolicy q) (q_Force q) l' n))"
  using returnsD [OF returns_ensureQueues] assms unfolding Ensure_sqs_def option.case queueEnsured_def by fastforce

definition demoQueue :: ManagedResource where
  "demoQueue = zeroManagedResource\<lparr>mr_Type := typeSQS, mr_Name := ''jobs'', mr_ARN := ''arn:aws:sqs:eu:1:jobs'',
     mr_State := StateVerified, mr_LastVerifiedAt := Some 0\<rparr>"

definition demoQueueEnv :: env where
  "demoQueueEnv = refusingEnv\<lparr>env_sqs := refusingSqs\<lparr>qa_GetQueueUrl := \<lambda>h n. Inr ''url''\<rparr>\<rparr>"

definition demoQueueSpec :: SQSQueueSpec where
  "demoQueueSpec = hd (sqs_Resources (the (sp_SQS (ad_Spec demoBills))))"

lemma demoQueue_run:
  "run_state (Ensure_sqs demoQueueEnv demoPass (Some \<lparr>sqs_Resources = [demoQueueSpec], sqs_Consumes = []\<rparr>) [demoQueue]) start
   = (([demoQueue\<lparr>mr_DeletionPolicy := DeletionPolicyDelete\<rparr>], None), start\<lparr>trace := [SQSCall (GetQueueUrl ''jobs'' (Inr ''url''))]\<rparr>)"
  by (simp add: Ensure_sqs_def ensureQueue_def resolveQueueKey_def ensureDLQ_def ensureSingleQueue_def ensureQueueExists_def
      checkFIFOUnchanged_def CheckFIFOUnchanged_def hasSuffix_def mainOptions_def ensureWithinTrust_def NeedsRevalidation_def
      demoQueue_def demoQueueSpec_def demoBills_def demoCR_def demoPass_def demoQueueEnv_def zeroManagedResource_def since_def
      TrustWindow_def minute_def second_def queueNameFromARN_def afterLast_def sqs_GetQueueUrl_def invoke_def refusingSqs_def
      desiredAttributes_def start_def carryOver_def VerifiedSince_def ensureQueueSubscriptions_def Let_def)

theorem ensure_queues_complete_witness:
  "queueRecorded demoPass DeletionPolicyDelete False [demoQueue\<lparr>mr_DeletionPolicy := DeletionPolicyDelete\<rparr>] ''jobs''"
  using ensure_queues_complete [OF demoQueue_run]
  by (simp add: queueNames_def demoQueueSpec_def demoBills_def demoCR_def)

section \<open>Drift correction\<close>

lemma desired_distinct: "distinct (map fst (correctedAttributes opts))"
  by (auto simp: correctedAttributes_def desiredAttributes_def split: option.splits)

text \<open>The attributes of a queue after it accepted a list of changes.\<close>

definition afterSetting :: "attributes \<Rightarrow> attr_list \<Rightarrow> attributes" where
  "afterSetting current changed = current ++ map_of changed"

lemma afterSetting_changed:
  assumes "distinct (map fst desired)" "(k, x) \<in> set desired"
  shows "goget (afterSetting current (filter (\<lambda>kv. goget current (fst kv) \<noteq> snd kv) desired)) k = x"
proof (cases "goget current k = x")
  case False
  then have "(k, x) \<in> set (filter (\<lambda>kv. goget current (fst kv) \<noteq> snd kv) desired)" using assms(2) by simp
  moreover have "distinct (map fst (filter (\<lambda>kv. goget current (fst kv) \<noteq> snd kv) desired))"
    using assms(1) by (rule distinct_map_filter)
  ultimately show ?thesis by (simp add: afterSetting_def goget_def map_add_def)
next
  case True
  have "map_of (filter (\<lambda>kv. goget current (fst kv) \<noteq> snd kv) desired) k = None"
    using assms True by (auto simp: map_of_eq_None_iff dest: eq_key_imp_eq_value)
  with True show ?thesis by (simp add: afterSetting_def goget_def map_add_def)
qed

text \<open>
  Drift correction converges in one step and touches nothing else. When it succeeds, the attributes just
  read, updated with what was written (nothing, when no write was needed), have the desired value for
  every attribute the operator manages, the empty redrive policy included when no dead-letter queue
  is declared; and only desired attributes whose value differed were written.
\<close>

theorem queue_attributes_converge:
  assumes "run_state (reconcileAttributes v u opts) w = (None, w')"
  shows "\<exists>current changed. (\<forall>(k, x)\<in>set (correctedAttributes opts). goget (afterSetting current changed) k = x)
    \<and> (\<forall>(k, x)\<in>set changed. (k, x) \<in> set (correctedAttributes opts) \<and> goget current k \<noteq> x)
    \<and> trace w' = trace w @ SQSCall (GetQueueAttributes u (map fst (correctedAttributes opts)) (Inr current))
        # (if changed = [] then [] else [SQSCall (SetQueueAttributes u changed (Inr ()))])"
proof -
  let ?desired = "correctedAttributes opts"
  let ?r = "qa_GetQueueAttributes (env_sqs v) (trace w) u (map fst ?desired)"
  obtain current where r: "?r = Inr current"
    using assms by (cases ?r) (simp_all add: reconcileAttributes_def Let_def sqs_GetQueueAttributes_def invoke_def)
  let ?changed = "filter (\<lambda>kv. goget current (fst kv) \<noteq> snd kv) ?desired"
  let ?h = "trace w @ [SQSCall (GetQueueAttributes u (map fst ?desired) (Inr current))]"
  let ?s = "qa_SetQueueAttributes (env_sqs v) ?h u ?changed"
  have "trace w' = ?h @ (if ?changed = [] then [] else [SQSCall (SetQueueAttributes u ?changed (Inr ()))])"
  proof (cases "?changed = []")
    case True
    with assms r show ?thesis
      by (auto simp: reconcileAttributes_def Let_def sqs_GetQueueAttributes_def invoke_def)
  next
    case False
    with assms r show ?thesis
      by (cases ?s) (auto simp: reconcileAttributes_def Let_def sqs_GetQueueAttributes_def sqs_SetQueueAttributes_def invoke_def)
  qed
  moreover have "\<forall>(k, x)\<in>set ?desired. goget (afterSetting current ?changed) k = x"
    using afterSetting_changed [OF desired_distinct] by blast
  ultimately show ?thesis by (intro exI [of _ current] exI [of _ ?changed]) auto
qed

definition demoOptions :: queueOptions where
  "demoOptions = mainOptions demoQueueEnv demoQueueSpec (Some ''arn:key'') []"

definition demoAttrEnv :: env where
  "demoAttrEnv = refusingEnv\<lparr>env_sqs := refusingSqs\<lparr>qa_GetQueueAttributes := \<lambda>h u ns. Inr Map.empty,
     qa_SetQueueAttributes := \<lambda>h u a. Inr ()\<rparr>\<rparr>"

lemma demoOptions_desired:
  "correctedAttributes demoOptions = [(''KmsMasterKeyId'', ''arn:key''), (''RedrivePolicy'', [])]"
  by (simp add: correctedAttributes_def desiredAttributes_def demoOptions_def mainOptions_def demoQueueSpec_def demoBills_def demoCR_def)

lemma demoAttr_run:
  "run_state (reconcileAttributes demoAttrEnv ''u'' demoOptions) start =
     (None, start\<lparr>trace := [SQSCall (GetQueueAttributes ''u'' [''KmsMasterKeyId'', ''RedrivePolicy''] (Inr Map.empty)),
        SQSCall (SetQueueAttributes ''u'' [(''KmsMasterKeyId'', ''arn:key'')] (Inr ()))]\<rparr>)"
  by (simp add: reconcileAttributes_def demoOptions_desired sqs_GetQueueAttributes_def sqs_SetQueueAttributes_def invoke_def
      demoAttrEnv_def start_def goget_def)

theorem queue_attributes_converge_witness:
  "\<exists>current changed. goget (afterSetting current changed) ''KmsMasterKeyId'' = ''arn:key''
     \<and> goget (afterSetting current changed) ''RedrivePolicy'' = []"
proof -
  obtain current changed where "\<forall>(k, x)\<in>set (correctedAttributes demoOptions). goget (afterSetting current changed) k = x"
    using queue_attributes_converge [OF demoAttr_run] by blast
  then show ?thesis unfolding demoOptions_desired by auto
qed

section \<open>Subscriptions are revoked\<close>

text \<open>A subscription of the queue may stay: its reference is declared and the producer, as read, shares the topic.\<close>

definition mayStay :: "pass \<Rightarrow> string \<Rightarrow> ConsumeRef list \<Rightarrow> history \<Rightarrow> string \<Rightarrow> bool" where
  "mayStay p queueName refs calls name \<longleftrightarrow> (\<exists>ref\<in>set refs. \<exists>producer g. name = subscriptionLedgerName queueName ref
     \<and> K8sCall (GetCR (cr_Namespace ref) (cr_Name ref) (Inr producer)) \<in> set calls
     \<and> sharedBy (ps_namespace p) (ps_crName p) typeSNS ref producer g \<and> g_consumed g)"

lemma mayStay_mono: "mayStay p qn refs calls n \<Longrightarrow> mayStay p qn refs (calls @ later) n"
  unfolding mayStay_def by fastforce

lemma published_consumed: "publishedGrants pfx t ref producer s enc = (g # gs, []) \<Longrightarrow> g_consumed g"
  by (auto simp: publishedGrants_def Let_def split: option.splits if_splits)

lemma published_nonempty: "publishedGrants pfx t ref producer s enc = (gs, []) \<Longrightarrow> pfx \<noteq> [] \<Longrightarrow> gs \<noteq> []"
  by (auto simp: publishedGrants_def Let_def split: option.splits if_splits)

lemma returns_resolveConsume_head:
  "returns (\<lambda>(gs, reason, err). err = None \<longrightarrow> reason = [] \<longrightarrow> gs = [] \<or> g_consumed (hd gs)) (resolveConsume v ns nm t ref)"
  unfolding resolveConsume_def
  by (intro returns_intros)
    (auto simp: consumeOutcome_def publishedGrants_def Let_def split: ReferenceProblem.splits option.splits if_splits)

definition onlyReads :: "call \<Rightarrow> bool" where
  "onlyReads c \<longleftrightarrow> (\<exists>ns n r. c = K8sCall (GetCR ns n r))"

lemma emits_onlyReads: "emits onlyReads (resolveConsume v ns nm t ref)"
  unfolding resolveConsume_def lookupConsume_def
  by (intro sqs_rules) (auto simp: onlyReads_def)

lemma wp_resolveTopicARN:
  "wp (resolveTopicARN v p ref) (\<lambda>(topic, err) w'. \<exists>calls. trace w' = trace w @ calls \<and> (\<forall>c\<in>set calls. onlyReads c)
     \<and> (err = None \<longrightarrow> readsSucceeded calls)
     \<and> (topic \<noteq> None \<longrightarrow> mayStay p queueName [ref] calls (subscriptionLedgerName queueName ref))) w"
proof -
  let ?m = "resolveConsume v (ps_namespace p) (ps_crName p) typeSNS ref"
  obtain gs reason err w1 where r: "run_state ?m w = ((gs, reason, err), w1)" by (metis surj_pair)
  obtain calls where c: "trace w1 = trace w @ calls"
    "resolvedWell (ps_namespace p) (ps_crName p) typeSNS ref calls (gs, reason, err)"
    using wp_run [OF r wp_resolveConsume] by blast
  have only: "\<forall>c\<in>set calls. onlyReads c" using emitsD [OF emits_onlyReads r] c(1) by auto
  have hd: "err = None \<Longrightarrow> reason = [] \<Longrightarrow> gs = [] \<or> g_consumed (hd gs)"
    using returnsD [OF returns_resolveConsume_head r] by simp
  have reads: "err = None \<Longrightarrow> readsSucceeded calls" using c(2) by (simp add: resolvedWell_def)
  have stay: "mayStay p queueName [ref] calls (subscriptionLedgerName queueName ref)"
    if e: "err = None" "reason = []" and g: "gs = g # rest" for g rest
  proof -
    obtain producer where "K8sCall (GetCR (cr_Namespace ref) (cr_Name ref) (Inr producer)) \<in> set calls"
      "\<forall>g\<in>set gs. sharedBy (ps_namespace p) (ps_crName p) typeSNS ref producer g"
      using c(2) e by (auto simp: resolvedWell_def)
    then show ?thesis using hd [OF e] g unfolding mayStay_def by auto
  qed
  show ?thesis
    unfolding resolveTopicARN_def ResolveConsumeARN_def wp_bind wp_def [of ?m] r prod.case
    using c(1) only reads stay
    by (cases gs) (auto simp: wp_simps)
qed

lemma mayStay_refs: "mayStay p qn refs calls n \<Longrightarrow> set refs \<subseteq> set refs' \<Longrightarrow> mayStay p qn refs' calls n"
  unfolding mayStay_def by blast

lemma mayStay_later: "mayStay p qn refs calls n \<Longrightarrow> mayStay p qn refs (before @ calls) n"
  unfolding mayStay_def by fastforce

lemma wp_authorizedRefs:
  assumes "trace w = t0 @ calls" "\<forall>c\<in>set calls. onlyReads c" "readsSucceeded calls"
    and "\<forall>n\<in>set names. mayStay p qn allRefs calls n" "set refs \<subseteq> set allRefs"
  shows "wp (authorizedRefs v p qn refs names) (\<lambda>r w'. \<exists>calls. trace w' = t0 @ calls \<and> (\<forall>c\<in>set calls. onlyReads c)
     \<and> (\<forall>auth. r = Inr auth \<longrightarrow> readsSucceeded calls \<and> (\<forall>n\<in>set auth. mayStay p qn allRefs calls n))) w"
  using assms
proof (induction refs arbitrary: w calls names)
  case (Cons ref refs)
  show ?case
    unfolding authorizedRefs.simps wp_bind
  proof (rule wp_conseq [OF wp_resolveTopicARN [where queueName = qn]])
    fix te :: "string option \<times> go_error option" and w1 :: world
    assume A: "(case te of (topic, err) \<Rightarrow> \<lambda>w'. \<exists>calls. trace w' = trace w @ calls \<and> (\<forall>c\<in>set calls. onlyReads c)
      \<and> (err = None \<longrightarrow> readsSucceeded calls)
      \<and> (topic \<noteq> None \<longrightarrow> mayStay p qn [ref] calls (subscriptionLedgerName qn ref))) w1"
    obtain topic err where te: "te = (topic, err)" by fastforce
    obtain new where n: "trace w1 = trace w @ new" "\<forall>c\<in>set new. onlyReads c" "err = None \<longrightarrow> readsSucceeded new"
      "topic \<noteq> None \<longrightarrow> mayStay p qn [ref] new (subscriptionLedgerName qn ref)"
      using A te by auto
    have tr: "trace w1 = t0 @ (calls @ new)" using n(1) Cons.prems(1) by simp
    have only: "\<forall>c\<in>set (calls @ new). onlyReads c" using n(2) Cons.prems(2) by auto
    have old: "\<forall>n\<in>set names. mayStay p qn allRefs (calls @ new) n" using Cons.prems(4) mayStay_mono by blast
    have stay: "mayStay p qn allRefs (calls @ new) (subscriptionLedgerName qn ref)" if "topic \<noteq> None"
      using n(4) that mayStay_later [OF mayStay_refs [of p qn "[ref]" new _ allRefs]] Cons.prems(5) by auto
    let ?Q = "\<lambda>r w'. \<exists>calls. trace w' = t0 @ calls \<and> (\<forall>c\<in>set calls. onlyReads c)
     \<and> (\<forall>auth. r = Inr auth \<longrightarrow> readsSucceeded calls \<and> (\<forall>n\<in>set auth. mayStay p qn allRefs calls n))"
    have IH: "wp (authorizedRefs v p qn refs nms) ?Q w1"
      if "err = None" "\<forall>n\<in>set nms. mayStay p qn allRefs (calls @ new) n" for nms
      by (rule Cons.IH [OF tr only _ that(2)]) (use n(3) that(1) Cons.prems in auto)
    show "wp (case te of (topic, err) \<Rightarrow> case err of
         Some e \<Rightarrow> ret (Inl e)
       | None \<Rightarrow> (case topic of Some _ \<Rightarrow> authorizedRefs v p qn refs (names @ [subscriptionLedgerName qn ref])
                  | None \<Rightarrow> authorizedRefs v p qn refs names)) ?Q w1"
    proof (cases err)
      case (Some e)
      then show ?thesis using tr only te by (auto simp: wp_simps)
    next
      case None
      then show ?thesis using IH [OF None] old stay te by (cases topic) auto
    qed
  qed
qed (auto simp: wp_simps)

definition revoked :: "string \<Rightarrow> string list \<Rightarrow> ManagedResource \<Rightarrow> bool" where
  "revoked qn auth x \<longleftrightarrow> subscriptionOf qn x \<and> mr_Name x \<notin> set auth"

definition tornDown :: "string \<Rightarrow> string list \<Rightarrow> ManagedResource list \<Rightarrow> ledger \<Rightarrow> ledger \<Rightarrow> history \<Rightarrow> bool" where
  "tornDown qn auth es l l' calls \<longleftrightarrow> set l' \<subseteq> set l \<and>
     (\<forall>x\<in>set es. revoked qn auth x \<longrightarrow> (\<forall>y\<in>set l'. mr_key y \<noteq> mr_key x)
        \<and> (\<exists>r. SNSCall (Unsubscribe (mr_ARN x) r) \<in> set calls))"

definition keptOthers :: "string \<Rightarrow> string list \<Rightarrow> ledger \<Rightarrow> ledger \<Rightarrow> bool" where
  "keptOthers qn auth l l' \<longleftrightarrow> set l' \<subseteq> set l \<and> (\<forall>x\<in>set l. \<not> revoked qn auth x \<longrightarrow> x \<in> set l')"

lemma keptOthers_remove:
  assumes "revoked qn auth x"
  shows "keptOthers qn auth l (RemoveManagedResource l subscriptionResourceType (mr_Name x))"
  using assms unfolding keptOthers_def revoked_def Remove_filter by (auto simp: subscriptionOf_def)

lemma keptOthers_trans: "keptOthers qn auth l l1 \<Longrightarrow> keptOthers qn auth l1 l2 \<Longrightarrow> keptOthers qn auth l l2"
  unfolding keptOthers_def by blast

lemma tornDown_skip:
  "tornDown qn auth es l l' calls \<Longrightarrow> \<not> revoked qn auth x \<Longrightarrow> tornDown qn auth (x # es) l l' calls"
  by (simp add: tornDown_def)

text \<open>One turn of the loop, then the rest.\<close>

definition loopResult :: "string \<Rightarrow> string list \<Rightarrow> ManagedResource list \<Rightarrow> ledger \<times> go_error option \<Rightarrow> history
    \<Rightarrow> ledger \<times> go_error option \<Rightarrow> world \<Rightarrow> bool" where
  "loopResult qn auth es acc t0 res w' \<longleftrightarrow> (\<exists>calls. trace w' = t0 @ calls \<and> keptOthers qn auth (fst acc) (fst res)
     \<and> readsSucceeded calls \<and> (snd res = None \<longrightarrow> snd acc = None \<and> tornDown qn auth es (fst acc) (fst res) calls))"

definition noReads :: "call \<Rightarrow> bool" where "noReads c \<longleftrightarrow> (\<forall>x. c \<noteq> K8sCall x)"

lemma noReads_succeed: "\<forall>c\<in>set calls. noReads c \<Longrightarrow> readsSucceeded calls"
  by (auto simp: readsSucceeded_def noReads_def split: call.split k8s_call.split sum.split)

lemma noReads_remove: "emits noReads (if b then removeSubscriptionAllow v u sid else ret None)"
  unfolding removeSubscriptionAllow_def removeStatement_def
  by (intro sqs_rules emits_readPolicy emits_writePolicy) (simp_all add: noReads_def)

lemma loopResult_skip:
  assumes "loopResult qn auth es acc t0 res w'" "\<not> revoked qn auth x"
  shows "loopResult qn auth (x # es) acc t0 res w'"
  using assms unfolding loopResult_def by (auto intro: tornDown_skip)

lemma loopResult_error:
  assumes "loopResult qn auth es (l, firstError e0 (Some e)) (t0 @ calls) res w'" "\<forall>c\<in>set calls. noReads c"
  shows "loopResult qn auth (x # es) (l, e0) t0 res w'"
proof -
  obtain new where n: "trace w' = t0 @ calls @ new" "keptOthers qn auth l (fst res)" "readsSucceeded new" "snd res \<noteq> None"
    using assms(1) unfolding loopResult_def by auto
  then show ?thesis using noReads_succeed [OF assms(2)] unfolding loopResult_def by (intro exI [of _ "calls @ new"]) auto
qed

lemma loopResult_removed:
  assumes "loopResult qn auth es (RemoveManagedResource l subscriptionResourceType (mr_Name x), e0) (t0 @ calls) res w'"
    and "revoked qn auth x" "\<forall>c\<in>set calls. noReads c" "SNSCall (Unsubscribe (mr_ARN x) r) \<in> set calls"
  shows "loopResult qn auth (x # es) (l, e0) t0 res w'"
proof -
  let ?l1 = "RemoveManagedResource l subscriptionResourceType (mr_Name x)"
  obtain new where n: "trace w' = t0 @ calls @ new" "keptOthers qn auth ?l1 (fst res)" "readsSucceeded new"
    "snd res = None \<longrightarrow> e0 = None \<and> tornDown qn auth es ?l1 (fst res) new"
    using assms(1) unfolding loopResult_def by auto
  have k: "keptOthers qn auth l ?l1" by (rule keptOthers_remove [OF assms(2)])
  have gone: "mr_key y \<noteq> mr_key x" if "y \<in> set (fst res)" for y
    using n(2) that assms(2) unfolding keptOthers_def revoked_def subscriptionOf_def Remove_filter by auto
  have "tornDown qn auth (x # es) l (fst res) (calls @ new)" if "snd res = None"
    using n(4) that k gone assms(4) unfolding tornDown_def keptOthers_def by auto
  then show ?thesis
    using n keptOthers_trans [OF k n(2)] noReads_succeed [OF assms(3)]
    unfolding loopResult_def by (intro exI [of _ "calls @ new"]) auto
qed

lemma wp_cleanupSubscriptionLoop:
  "wp (cleanupSubscriptionLoop v p qn u auth es acc) (loopResult qn auth es acc (trace w)) w"
proof (induction es arbitrary: acc w)
  case Nil
  show ?case by (simp add: wp_simps loopResult_def keptOthers_def tornDown_def readsSucceeded_def)
next
  case (Cons x es)
  obtain l e0 where acc: "acc = (l, e0)" by fastforce
  show ?case
  proof (cases "revoked qn auth x")
    case False
    then have "cleanupSubscriptionLoop v p qn u auth (x # es) acc = cleanupSubscriptionLoop v p qn u auth es acc"
      by (auto simp: acc revoked_def)
    then show ?thesis using wp_conseq [OF Cons.IH loopResult_skip [OF _ False]] by simp
  next
    case True
    let ?r = "na_Unsubscribe (env_sns v) (trace w) (mr_ARN x)"
    let ?c = "SNSCall (Unsubscribe (mr_ARN x) ?r)"
    let ?w1 = "w\<lparr>trace := trace w @ [?c]\<rparr>"
    let ?failed = "case ?r of Inl e \<Rightarrow> if isException ''NotFoundException'' e then None else Some e | Inr _ \<Rightarrow> None"
    let ?Q = "loopResult qn auth (x # es) acc (trace w)"
    let ?m = "if u \<noteq> [] then removeSubscriptionAllow v u (subscriptionAllowSid (mr_Name x)) else ret None"
    have nr: "\<forall>c\<in>set [?c]. noReads c" by (simp add: noReads_def)
    have rest: "wp (cleanupSubscriptionLoop v p qn u auth es (l, firstError e0 (Some e))) ?Q w2"
      if "trace w2 = trace w @ calls" "\<forall>c\<in>set calls. noReads c" for w2 calls e
      unfolding acc by (rule wp_conseq [OF Cons.IH loopResult_error]) (use that in auto)
    have "wp (State_Monad.bind ?m (\<lambda>err. case err of
          Some e \<Rightarrow> cleanupSubscriptionLoop v p qn u auth es
                      (l, firstError e0 (Some (wrapf ''revoking queue policy grant'' [mr_Name x] e)))
        | None \<Rightarrow> do {
            recordEvent p ''Normal'' ''SubscriptionRemoved'' [qn, mr_Name x];
            cleanupSubscriptionLoop v p qn u auth es (RemoveManagedResource l subscriptionResourceType (mr_Name x), e0)
          })) ?Q ?w1"
      unfolding wp_bind
    proof (rule wp_conseq [OF wp_emits [OF noReads_remove]])
      fix err :: "go_error option" and w2 :: world
      assume "\<exists>new. trace w2 = trace ?w1 @ new \<and> (\<forall>c\<in>set new. noReads c)"
      then obtain new where n: "trace w2 = trace w @ ([?c] @ new)" "\<forall>c\<in>set ([?c] @ new). noReads c" using nr by auto
      show "wp (case err of
          Some e \<Rightarrow> cleanupSubscriptionLoop v p qn u auth es
                      (l, firstError e0 (Some (wrapf ''revoking queue policy grant'' [mr_Name x] e)))
        | None \<Rightarrow> do {
            recordEvent p ''Normal'' ''SubscriptionRemoved'' [qn, mr_Name x];
            cleanupSubscriptionLoop v p qn u auth es (RemoveManagedResource l subscriptionResourceType (mr_Name x), e0)
          }) ?Q w2"
      proof (cases err)
        case None
        have "wp (cleanupSubscriptionLoop v p qn u auth es (RemoveManagedResource l subscriptionResourceType (mr_Name x), e0)) ?Q w3"
          if "trace w3 = trace w2" for w3
          unfolding acc by (rule wp_conseq [OF Cons.IH loopResult_removed [OF _ True n(2)]]) (use that n(1) in auto)
        then show ?thesis using None by (simp add: wp_simps)
      qed (use rest [OF n] in simp)
    qed
    then show ?thesis
      using True rest [of ?w1 "[?c]"] nr
      by (cases ?failed) (auto simp: acc revoked_def wp_simps sns_Unsubscribe_def Let_def)
  qed
qed

text \<open>
  C31: Revocation of subscriptions. Cleaning up the subscriptions of a queue only ever drops entries, and only
  subscriptions of that queue. When a producer could not be read, nothing is unsubscribed, the ledger
  is returned as it was and the error is reported: a failed read is no revocation. When it succeeds,
  every subscription of the queue still recorded is declared and its topic is shared with this
  custom resource by a producer read in this run, and every dropped one was unsubscribed.
\<close>

theorem subscriptions_revoked:
  assumes "run_state (CleanupSubscriptions v p qn u refs l) w = ((l', err), w')"
  shows "\<exists>calls. trace w' = trace w @ calls
    \<and> set l' \<subseteq> set l \<and> (\<forall>x\<in>set l. \<not> subscriptionOf qn x \<longrightarrow> x \<in> set l')
    \<and> (\<not> readsSucceeded calls \<longrightarrow> l' = l \<and> err \<noteq> None \<and> (\<forall>a r. SNSCall (Unsubscribe a r) \<notin> set calls))
    \<and> (err = None \<longrightarrow> (\<forall>x\<in>set l'. subscriptionOf qn x \<longrightarrow> mayStay p qn refs calls (mr_Name x))
         \<and> (\<forall>x\<in>set l. x \<notin> set l' \<longrightarrow> (\<exists>r. SNSCall (Unsubscribe (mr_ARN x) r) \<in> set calls)))"
proof -
  obtain r w1 where r: "run_state (authorizedRefs v p qn refs []) w = (r, w1)" by fastforce
  have a: "wp (authorizedRefs v p qn refs []) (\<lambda>r w'. \<exists>calls. trace w' = trace w @ calls \<and> (\<forall>c\<in>set calls. onlyReads c)
     \<and> (\<forall>auth. r = Inr auth \<longrightarrow> readsSucceeded calls \<and> (\<forall>n\<in>set auth. mayStay p qn refs calls n))) w"
    by (rule wp_authorizedRefs [where calls = "[]"]) (simp_all add: readsSucceeded_def)
  obtain c1 where c1: "trace w1 = trace w @ c1" "\<forall>c\<in>set c1. onlyReads c"
    "\<And>auth. r = Inr auth \<Longrightarrow> readsSucceeded c1 \<and> (\<forall>n\<in>set auth. mayStay p qn refs c1 n)"
    using wp_run [OF r a] by blast
  show ?thesis
  proof (cases r)
    case (Inl e)
    then have "l' = l" "err = Some e" "w' = w1" using assms r by (auto simp: CleanupSubscriptions_def)
    then show ?thesis
      using c1 by (intro exI [of _ c1]) (auto simp: onlyReads_def)
  next
    case (Inr auth)
    then have "run_state (cleanupSubscriptionLoop v p qn u auth l (l, None)) w1 = ((l', err), w')"
      using assms r by (simp add: CleanupSubscriptions_def)
    from wp_run [OF this wp_cleanupSubscriptionLoop]
    obtain c2 where c2: "trace w' = trace w1 @ c2" "keptOthers qn auth l l'" "readsSucceeded c2"
      "err = None \<longrightarrow> tornDown qn auth l l l' c2"
      unfolding loopResult_def by auto
    have stay: "mayStay p qn refs (c1 @ c2) (mr_Name x)" if "err = None" "x \<in> set l'" "subscriptionOf qn x" for x
    proof -
      have "\<not> revoked qn auth x" using c2(2,4) that unfolding tornDown_def keptOthers_def by auto
      then show ?thesis using c1(3) [OF Inr] that(3) mayStay_mono by (auto simp: revoked_def)
    qed
    have "\<exists>r. SNSCall (Unsubscribe (mr_ARN x) r) \<in> set (c1 @ c2)" if "err = None" "x \<in> set l" "x \<notin> set l'" for x
      using c2(2,4) that unfolding tornDown_def keptOthers_def by fastforce
    with stay c1 c2 Inr show ?thesis by (intro exI [of _ "c1 @ c2"]) (auto simp: keptOthers_def revoked_def)
  qed
qed

definition demoSubscription :: ManagedResource where
  "demoSubscription = zeroManagedResource\<lparr>mr_Type := subscriptionResourceType, mr_Name := ''jobs/subscribes-to/a/b/t'', mr_ARN := ''arn:sub''\<rparr>"

definition demoUnsubscribeEnv :: env where
  "demoUnsubscribeEnv = refusingEnv\<lparr>env_sns := refusingSns\<lparr>na_Unsubscribe := \<lambda>h a. Inr ()\<rparr>\<rparr>"

lemma demoUnsubscribe_run:
  "run_state (CleanupSubscriptions demoUnsubscribeEnv demoPass ''jobs'' [] [] [demoSubscription]) start =
     (([], None), start\<lparr>trace := [SNSCall (Unsubscribe ''arn:sub'' (Inr ()))]\<rparr>)"
  by (simp add: CleanupSubscriptions_def demoSubscription_def zeroManagedResource_def subscriptionOf_def subscriptionLedgerSeparator_def
      hasPrefix_def sns_Unsubscribe_def invoke_def demoUnsubscribeEnv_def start_def recordEvent_def demoPass_def)

theorem subscriptions_revoked_witness:
  "\<exists>calls r. SNSCall (Unsubscribe ''arn:sub'' r) \<in> set calls \<and> calls = trace (start\<lparr>trace := [SNSCall (Unsubscribe ''arn:sub'' (Inr ()))]\<rparr>)"
  using subscriptions_revoked [OF demoUnsubscribe_run] by (auto simp: start_def demoSubscription_def)

section \<open>A drained queue is deleted\<close>

text \<open>
  An environment in which the queue \<open>qn\<close> exists at \<open>u\<close>, carries the owner tags of \<open>p\<close>, is empty, has a
  policy that parses, and accepts edits of its policy and its deletion.
\<close>

definition drained :: "env \<Rightarrow> pass \<Rightarrow> string \<Rightarrow> string \<Rightarrow> bool" where
  "drained v p qn u \<longleftrightarrow> (\<forall>h. qa_GetQueueUrl (env_sqs v) h qn = Inr u
     \<and> (\<exists>tm. qa_ListQueueTags (env_sqs v) h u = Inr tm \<and> owned_by_pass p tm)
     \<and> (\<exists>attrs. qa_GetQueueAttributes (env_sqs v) h u emptyAttributes = Inr attrs \<and> queueIsEmpty attrs)
     \<and> (\<exists>attrs doc. qa_GetQueueAttributes (env_sqs v) h u [attrPolicy] = Inr attrs \<and> policyOf attrs = Some doc)
     \<and> (\<forall>kvs. qa_SetQueueAttributes (env_sqs v) h u kvs = Inr ())
     \<and> qa_DeleteQueue (env_sqs v) h u = Inr ())"

lemma drainedD:
  assumes "drained v p qn u"
  shows "qa_GetQueueUrl (env_sqs v) h qn = Inr u"
    and "\<exists>tm. qa_ListQueueTags (env_sqs v) h u = Inr tm \<and> owned_by_pass p tm"
    and "\<exists>attrs. qa_GetQueueAttributes (env_sqs v) h u emptyAttributes = Inr attrs \<and> queueIsEmpty attrs"
    and "\<exists>attrs doc. qa_GetQueueAttributes (env_sqs v) h u [attrPolicy] = Inr attrs \<and> policyOf attrs = Some doc"
    and "qa_SetQueueAttributes (env_sqs v) h u kvs = Inr ()"
    and "qa_DeleteQueue (env_sqs v) h u = Inr ()"
  using assms unfolding drained_def by blast+

lemma wp_drained_deny:
  assumes "drained v p qn u"
  shows "wp (addPendingDeletionDeny v u arn) (\<lambda>err w'. err = None) w"
proof -
  obtain attrs doc where a: "qa_GetQueueAttributes (env_sqs v) (trace w) u [attrPolicy] = Inr attrs" "policyOf attrs = Some doc"
    using drainedD(4) [OF assms] by blast
  then show ?thesis
    unfolding addPendingDeletionDeny_def readPolicy_def writePolicy_def op_defs
    by (auto simp: wp_simps drainedD(5) [OF assms] split: prod.split)
qed

lemma wp_drained_verify:
  assumes "drained v p qn u" "queueNameFromARN (mr_ARN e) = Inr qn"
  shows "wp (verifyOwned_sqs v p e) (\<lambda>r w'. r = Inr (Some u)) w"
proof -
  obtain tm where "qa_ListQueueTags (env_sqs v) (trace w @ [SQSCall (GetQueueUrl qn (Inr u))]) u = Inr tm" "owned_by_pass p tm"
    using drainedD(2) [OF assms(1)] by blast
  then show ?thesis
    unfolding verifyOwned_sqs_def op_defs
    by (simp add: wp_simps assms(2) drainedD(1) [OF assms(1)])
qed

lemma wp_run_ex: "wp m Q w \<Longrightarrow> \<exists>a w'. run_state m w = (a, w') \<and> Q a w'"
  by (cases "run_state m w") (auto simp: wp_def)

lemma drained_first_pass:
  assumes d: "drained v p qn u" and n: "queueNameFromARN (mr_ARN e) = Inr qn"
    and e: "\<not> mr_Force e" "mr_PendingDeletionSince e = None"
  shows "wp (deleteUndeclared v p False e l res)
    (\<lambda>r w'. r = (UpsertManagedResource l (e\<lparr>mr_PendingDeletionSince := Some (ps_now p)\<rparr>),
                 res @ [(mr_Name e, QueuePendingDeletion)], None)) w"
proof -
  have quiet: "\<not> waitsQuietly p e" using e by (simp add: waitsQuietly_def)
  have reason: "pendingDeletionReason_sqs p (ps_now p) = QueuePendingDeletion"
    by (simp add: pendingDeletionReason_sqs_def since_def PendingDeletionGracePeriod_def clock_defs)
  have gate: "wp (gateOnEmpty v p e u l res) (\<lambda>r w'. r = (UpsertManagedResource l (e\<lparr>mr_PendingDeletionSince := Some (ps_now p)\<rparr>),
        res @ [(mr_Name e, QueuePendingDeletion)], False, None)) w1" for w1
    unfolding gateOnEmpty_def if_P [OF e(2)] wp_bind
    by (rule wp_conseq [OF wp_drained_deny [OF d]])
      (simp add: wp_simps markPendingDeletion_sqs_def e(2) reason)
  show ?thesis
    unfolding deleteUndeclared_def Let_def wp_bind
    by (simp add: e quiet wp_simps) (rule wp_conseq [OF wp_drained_verify [OF d n]],
        auto intro!: wp_conseq [OF gate] simp: wp_simps)
qed

lemma drained_second_pass:
  assumes d: "drained v p qn u" and n: "queueNameFromARN (mr_ARN e) = Inr qn"
    and e: "\<not> mr_Force e" "mr_PendingDeletionSince e = Some t" "mr_LastEmptyCheckAt e = None"
    and late: "since (ps_now p) t \<ge> deletionQuietWindow_sqs"
  shows "wp (deleteUndeclared v p False e l res)
    (\<lambda>r w'. r = (RemoveManagedResource l typeSQS (mr_Name e), res, None) \<and> SQSCall (DeleteQueue u (Inr ())) \<in> set (trace w')) w"
proof -
  have quiet: "\<not> waitsQuietly p e" using e late by (simp add: waitsQuietly_def NeedsEmptyCheck_def Let_def)
  have gate: "wp (gateOnEmpty v p e u l res) (\<lambda>r w'. r = (l, res, True, None)) w1" for w1
  proof -
    obtain attrs where "qa_GetQueueAttributes (env_sqs v) (trace w1) u emptyAttributes = Inr attrs" "queueIsEmpty attrs"
      using drainedD(3) [OF d] by blast
    then show ?thesis unfolding gateOnEmpty_def op_defs by (simp add: wp_simps e)
  qed
  have del: "wp (deleteQueue_sqs v p e u l) (\<lambda>r w'. r = (RemoveManagedResource l typeSQS (mr_Name e), None)
      \<and> SQSCall (DeleteQueue u (Inr ())) \<in> set (trace w')) w1" for w1
    unfolding deleteQueue_sqs_def op_defs by (simp add: wp_simps drainedD(6) [OF d])
  show ?thesis
    unfolding deleteUndeclared_def Let_def wp_bind
    by (simp add: e quiet wp_simps) (rule wp_conseq [OF wp_drained_verify [OF d n]],
        auto intro!: wp_conseq [OF gate] wp_conseq [OF del] simp: wp_simps)
qed

text \<open>
  C28: An undeclared queue with policy Delete does get deleted. When the queue exists, is owned and stays
  empty, and AWS accepts the calls, the first cleanup only marks the entry as pending, with the time
  of that pass and without an error, and any later one at least ten minutes after it deletes the
  queue and drops the entry.
\<close>

theorem drained_queue_is_deleted:
  assumes "drained v p qn u" "drained v p' qn u" "queueNameFromARN (mr_ARN e) = Inr qn"
    and "FindManagedResource l typeSQS (mr_Name e) = Some e" "\<not> mr_Force e"
    and "mr_PendingDeletionSince e = None" "mr_LastEmptyCheckAt e = None" "mr_Type e = typeSQS"
    and "ps_now p' \<ge> ps_now p + 10 * minute"
  shows "\<exists>l1 e1 w1 l2 w2. run_state (deleteUndeclared v p False e l []) w = ((l1, [(mr_Name e, QueuePendingDeletion)], None), w1)
    \<and> FindManagedResource l1 typeSQS (mr_Name e) = Some e1 \<and> mr_PendingDeletionSince e1 = Some (ps_now p)
    \<and> run_state (deleteUndeclared v p' False e1 l1 []) w1 = ((l2, [], None), w2)
    \<and> FindManagedResource l2 typeSQS (mr_Name e) = None \<and> SQSCall (DeleteQueue u (Inr ())) \<in> set (trace w2)"
proof -
  let ?e = "e\<lparr>mr_PendingDeletionSince := Some (ps_now p)\<rparr>"
  let ?l1 = "UpsertManagedResource l ?e"
  let ?e1 = "carryOver e ?e"
  obtain w1 where 1: "run_state (deleteUndeclared v p False e l []) w = ((?l1, [(mr_Name e, QueuePendingDeletion)], None), w1)"
    using wp_run_ex [OF drained_first_pass [OF assms(1,3,5,6), of l "[]" w]] by auto
  have f: "FindManagedResource ?l1 typeSQS (mr_Name e) = Some ?e1"
    using assms(4,8) by (simp add: Find_Upsert)
  have "since (ps_now p') (ps_now p) \<ge> deletionQuietWindow_sqs"
    using assms(9) by (simp add: since_def deletionQuietWindow_sqs_def)
  then obtain w2 where 2: "run_state (deleteUndeclared v p' False ?e1 ?l1 []) w1 =
      ((RemoveManagedResource ?l1 typeSQS (mr_Name e), [], None), w2)" "SQSCall (DeleteQueue u (Inr ())) \<in> set (trace w2)"
    using wp_run_ex [OF drained_second_pass [OF assms(2), of ?e1 "ps_now p" ?l1 "[]" w1]] assms(3,5,7) by auto
  have "FindManagedResource (RemoveManagedResource ?l1 typeSQS (mr_Name e)) typeSQS (mr_Name e) = None"
    by (simp add: Find_Remove)
  with 1 f 2 show ?thesis by (auto intro!: exI)
qed

definition demoDrained :: env where
  "demoDrained = refusingEnv\<lparr>env_sqs := refusingSqs\<lparr>qa_GetQueueUrl := \<lambda>h n. Inr ''url'',
     qa_ListQueueTags := \<lambda>h u. Inr (ownerTags demoPass),
     qa_GetQueueAttributes := \<lambda>h u ns. if ns = [attrPolicy] then Inr Map.empty else Inr (\<lambda>_. Some ''0''),
     qa_SetQueueAttributes := \<lambda>h u a. Inr (), qa_DeleteQueue := \<lambda>h u. Inr ()\<rparr>\<rparr>"

lemma demoDrained_ok: "drained demoDrained demoPass ''jobs'' ''url''"
  "drained demoDrained (demoPass\<lparr>ps_now := hour\<rparr>) ''jobs'' ''url''"
proof -
  have tags: "owned_by_pass demoPass (ownerTags demoPass)" by simp
  then show "drained demoDrained demoPass ''jobs'' ''url''"
    by (simp add: drained_def demoDrained_def emptyAttributes_def attrPolicy_def queueIsEmpty_def policyOf_def goget_def)
  from tags show "drained demoDrained (demoPass\<lparr>ps_now := hour\<rparr>) ''jobs'' ''url''"
    by (simp add: drained_def demoDrained_def emptyAttributes_def attrPolicy_def queueIsEmpty_def policyOf_def goget_def)
qed

theorem drained_queue_is_deleted_witness:
  "\<exists>l2 w1 w2 e1 l1. run_state (deleteUndeclared demoDrained (demoPass\<lparr>ps_now := hour\<rparr>) False e1 l1 []) w1 = ((l2, [], None), w2)
     \<and> SQSCall (DeleteQueue ''url'' (Inr ())) \<in> set (trace w2)"
proof -
  have "queueNameFromARN (mr_ARN demoQueue) = Inr ''jobs''"
    by (simp add: demoQueue_def zeroManagedResource_def queueNameFromARN_def afterLast_def)
  from drained_queue_is_deleted [OF demoDrained_ok this, of "[demoQueue]" start]
  show ?thesis by (fastforce simp: demoQueue_def zeroManagedResource_def demoPass_def clock_defs)
qed

section \<open>Two subscriptions under one Sid\<close>

text \<open>The Sid of a subscription's statement replaces the slashes of its ledger name, so two references
  that differ only in where a hyphen stands for a slash share one Sid although their ledger names
  differ. Merging the statements of both subscriptions of a queue into an empty policy then leaves the
  second topic's grant only.\<close>

theorem subscription_sids_collide:
  "let r1 = \<lparr>cr_Namespace = ''a-b'', cr_Name = ''c'', cr_ResourceName = ''t''\<rparr>;
       r2 = \<lparr>cr_Namespace = ''a'', cr_Name = ''b-c'', cr_ResourceName = ''t''\<rparr>;
       al = (\<lambda>r topic. subscriptionAllow (subscriptionAllowSid (subscriptionLedgerName ''jobs'' r)) ''arn:q'' topic)
   in subscriptionLedgerName ''jobs'' r1 \<noteq> subscriptionLedgerName ''jobs'' r2
      \<and> mergeAllows [al r1 ''arn:t1'', al r2 ''arn:t2''] ([], False) = ([allowJSON (al r2 ''arn:t2'')], True)"
proof -
  have ne: "\<not> equivalent (allowJSON (subscriptionAllow s ''arn:q'' ''arn:t1'')) (allowJSON (subscriptionAllow s ''arn:q'' ''arn:t2''))" for s
  proof
    let ?j = "\<lambda>topic. allowJSON (subscriptionAllow s ''arn:q'' topic)"
    let ?m = "\<lambda>topic. map (\<lambda>kv. (fst kv, decode (snd kv))) (case ?j topic of JObj kvs \<Rightarrow> kvs | _ \<Rightarrow> [])"
    assume "equivalent (?j ''arn:t1'') (?j ''arn:t2'')"
    then have eq: "map (\<lambda>kv. (fst kv, collapseSingletons (snd kv))) (canonObj (?m ''arn:t1''))
        = map (\<lambda>kv. (fst kv, collapseSingletons (snd kv))) (canonObj (?m ''arn:t2''))"
      by (simp add: equivalent_def allowJSON_def)
    have "map_option collapseSingletons (map_of (canonObj (?m ''arn:t1'')) ''Condition'')
        = map_option collapseSingletons (map_of (canonObj (?m ''arn:t2'')) ''Condition'')"
      using arg_cong [OF eq, of "\<lambda>x. map_of x ''Condition''"] unfolding map_of_map_snd .
    then show False
      by (simp add: map_of_canonObj allowJSON_def subscriptionAllow_def canonObj_def)
  qed
  show ?thesis
    using ne
    by (simp add: Let_def subscriptionLedgerName_def subscriptionLedgerSeparator_def subscriptionAllowSid_def hasPrefix_def
        subscriptionAllow_def)
qed

end
