(* ===== verification/Timeouts.thy ===== *)
theory Timeouts
  imports World
begin

text \<open>
  Deadlines and retry delays, \<^verbatim>\<open>internal/controller/timeouts.go\<close> and the jitter of
  \<^verbatim>\<open>internal/controller/desiredstate.go\<close>. A context with a deadline is its timeout: a call that runs into it
  is answered by the environment with an error. The arithmetic of the jitter, on \<^verbatim>\<open>float64\<close> in the source, is
  exact here; its values stay below two to the power of 53 nanoseconds. The failure limiter and the random
  numbers are parameters (\<open>env_limiter\<close>, \<open>env_rand\<close>) with the laws \<open>limiterLaws\<close> and \<open>randLaws\<close>.
\<close>

section \<open>Section deadlines\<close>

definition baseSectionTimeout :: duration where "baseSectionTimeout = 15 * second"
definition perResourceTimeout :: duration where "perResourceTimeout = 3 * second"
definition baseSectionDeletionTimeout :: duration where "baseSectionDeletionTimeout = 30 * second"
definition perResourceDeletionTimeout :: duration where "perResourceDeletionTimeout = 10 * second"

definition boundedSectionContext :: "ledger \<Rightarrow> string \<Rightarrow> nat \<Rightarrow> duration \<Rightarrow> duration \<Rightarrow> duration" where
  "boundedSectionContext l resourceType declaredCount base perResource =
     (let ledgerCount = length (filter (\<lambda>e. mr_Type e = resourceType) l);
          count = max declaredCount ledgerCount
      in base + int count * perResource)"

definition sectionContext :: "ledger \<Rightarrow> string \<Rightarrow> nat \<Rightarrow> duration" where
  "sectionContext l resourceType declaredCount =
     boundedSectionContext l resourceType declaredCount baseSectionTimeout perResourceTimeout"

definition sectionDeletionContext :: "ledger \<Rightarrow> string \<Rightarrow> nat \<Rightarrow> duration" where
  "sectionDeletionContext l resourceType declaredCount =
     boundedSectionContext l resourceType declaredCount baseSectionDeletionTimeout perResourceDeletionTimeout"

definition reconcileTimeout :: duration where "reconcileTimeout = 45 * minute"

section \<open>Jitter\<close>

definition DriftDetectionInterval :: duration where "DriftDetectionInterval = 5 * minute"
definition driftRequeueJitterFraction :: rat where "driftRequeueJitterFraction = 1 / 5"

text \<open>The conversion of a float to a \<^verbatim>\<open>time.Duration\<close> drops the fraction.\<close>

definition toDuration :: "rat \<Rightarrow> duration" where
  "toDuration x = (if x \<ge> 0 then \<lfloor>x\<rfloor> else \<lceil>x\<rceil>)"

definition jittered :: "env \<Rightarrow> duration \<Rightarrow> duration op" where
  "jittered v d = (let span = of_int d * driftRequeueJitterFraction in do {
     u \<leftarrow> rand_Float64 v;
     ret (d + toDuration (u * 2 * span - span))
   })"

definition jitteredDriftRequeue :: "env \<Rightarrow> duration op" where
  "jitteredDriftRequeue v = jittered v DriftDetectionInterval"

section \<open>The backoff of transient failures\<close>

definition transientRequeueInterval :: duration where "transientRequeueInterval = 30 * second"
definition transientMaxDelay :: duration where "transientMaxDelay = 2 * minute"
definition transientLongAfter :: nat where "transientLongAfter = 10"

definition transientDelay :: "env \<Rightarrow> string \<times> string \<Rightarrow> duration op" where
  "transientDelay v key = do {
     n \<leftarrow> limiter_NumRequeues v key;
     d \<leftarrow> limiter_When v key;
     delay \<leftarrow> jittered v d;
     if n \<ge> transientLongAfter then jitteredDriftRequeue v else ret delay
   }"

definition resetTransientBackoff :: "env \<Rightarrow> string \<times> string \<Rightarrow> unit op" where
  "resetTransientBackoff v key = limiter_Forget v key"

text \<open>\<^verbatim>\<open>errors.As(err, &waitingError{})\<close>.\<close>

fun asWaitingError :: "go_error \<Rightarrow> bool" where
  "asWaitingError (ExtError e) = False"
| "asWaitingError (ReconcileError e _ _ _) = asWaitingError e"
| "asWaitingError (Errorf _ _ None) = False"
| "asWaitingError (Errorf _ _ (Some e)) = asWaitingError e"
| "asWaitingError (WaitingError e) = True"
| "asWaitingError (JoinError a b) = (asWaitingError a \<or> asWaitingError b)"

definition retryDelay :: "env \<Rightarrow> string \<times> string \<Rightarrow> go_error \<Rightarrow> duration op" where
  "retryDelay v key err = do {
     delay \<leftarrow> transientDelay v key;
     if asWaitingError err then do {
       drift \<leftarrow> jitteredDriftRequeue v;
       ret (max delay drift)
     }
     else ret delay
   }"

section \<open>What the limiter and the random numbers promise\<close>

text \<open>
  \<open>failuresOf h k\<close>: how often the limiter was asked about an item since the item was last forgotten.
  The limiter (\<^verbatim>\<open>ItemExponentialFailureRateLimiter\<close> with the two delays of the source) counts these and
  doubles its answer from the base delay up to the cap.
\<close>

fun asksFor :: "string \<times> string \<Rightarrow> call \<Rightarrow> bool" where
  "asksFor k (LimiterCall (LimiterWhen k' d)) \<longleftrightarrow> k' = k"
| "asksFor k c \<longleftrightarrow> False"

fun failuresOf :: "history \<Rightarrow> string \<times> string \<Rightarrow> nat" where
  "failuresOf [] k = 0"
| "failuresOf (c # h) k =
     (if asksFor k c \<and> LimiterCall (LimiterForget k) \<notin> set h then Suc (failuresOf h k) else failuresOf h k)"

definition limiterLaws :: "env \<Rightarrow> bool" where
  "limiterLaws v \<longleftrightarrow>
     (\<forall>h k. la_NumRequeues (env_limiter v) h k = failuresOf h k
        \<and> la_When (env_limiter v) h k = min (transientRequeueInterval * 2 ^ failuresOf h k) transientMaxDelay)"

definition randLaws :: "env \<Rightarrow> bool" where
  "randLaws v \<longleftrightarrow> (\<forall>h. 0 \<le> env_rand v h \<and> env_rand v h < 1)"

lemma failuresOf_append:
  "failuresOf (h @ h') k = failuresOf h' k + (if LimiterCall (LimiterForget k) \<in> set h' then 0 else failuresOf h k)"
  by (induction h) auto

text \<open>The delay a custom resource with \<open>n\<close> failures behind it waits, before jitter.\<close>

definition retryPace :: "nat \<Rightarrow> duration" where
  "retryPace n = (if n \<ge> transientLongAfter then DriftDetectionInterval
                  else min (transientRequeueInterval * 2 ^ n) transientMaxDelay)"

definition aroundPace :: "duration \<Rightarrow> duration \<Rightarrow> bool" where
  "aroundPace pace d \<longleftrightarrow> 4 * pace \<le> 5 * d \<and> 5 * d \<le> 6 * pace"

lemma toDuration_near: "\<bar>x\<bar> \<le> of_int n / 5 \<Longrightarrow> \<bar>5 * toDuration x\<bar> \<le> n"
proof -
  assume x: "\<bar>x\<bar> \<le> of_int n / 5"
  let ?t = "toDuration x"
  have "\<bar>of_int ?t\<bar> \<le> \<bar>x\<bar>"
  proof (cases "x \<ge> 0")
    case True
    then show ?thesis by (simp add: toDuration_def)
  next
    case False
    then have "x \<le> of_int \<lceil>x\<rceil>" "\<lceil>x\<rceil> \<le> 0" by (simp_all add: ceiling_le_iff)
    with False show ?thesis by (simp add: toDuration_def)
  qed
  with x have "of_int \<bar>5 * ?t\<bar> \<le> (of_int n :: rat)" by (simp add: abs_mult)
  then show ?thesis by linarith
qed

lemma jitter_bound:
  assumes "0 \<le> u" "u < 1" "0 \<le> d"
  shows "aroundPace d (d + toDuration (u * 2 * (of_int d * driftRequeueJitterFraction) - of_int d * driftRequeueJitterFraction))"
proof -
  have "u * 2 * (of_int d * driftRequeueJitterFraction) - of_int d * driftRequeueJitterFraction
      = (of_int d / 5) * (2 * u - 1)" by (simp add: driftRequeueJitterFraction_def algebra_simps)
  moreover have "\<bar>(of_int d / 5) * (2 * u - 1)\<bar> \<le> of_int d / 5"
    unfolding abs_mult using assms mult_left_le [of "\<bar>2 * u - 1\<bar>" "\<bar>of_int d / 5\<bar>"] by simp
  ultimately have "\<bar>5 * toDuration (u * 2 * (of_int d * driftRequeueJitterFraction) - of_int d * driftRequeueJitterFraction)\<bar> \<le> d"
    by (metis toDuration_near)
  then show ?thesis by (simp add: aroundPace_def abs_le_iff)
qed

lemma wp_jittered:
  assumes "randLaws v" "0 \<le> d"
  shows "wp (jittered v d) (\<lambda>x w'. aroundPace d x \<and> trace w' = trace w @ [RandCall (env_rand v (trace w))]) w"
  using assms jitter_bound unfolding jittered_def Let_def rand_Float64_def randLaws_def by (simp add: wp_simps)

lemma wp_jitteredDriftRequeue:
  "randLaws v \<Longrightarrow> wp (jitteredDriftRequeue v)
     (\<lambda>x w'. aroundPace DriftDetectionInterval x \<and> trace w' = trace w @ [RandCall (env_rand v (trace w))]) w"
  unfolding jitteredDriftRequeue_def
  by (rule wp_jittered) (simp_all add: DriftDetectionInterval_def clock_defs)

lemma wp_transientDelay:
  assumes "randLaws v" "limiterLaws v"
  shows "wp (transientDelay v key) (\<lambda>d w'. aroundPace (retryPace (failuresOf (trace w) key)) d
     \<and> (\<exists>r rs. trace w' = trace w @ LimiterCall (LimiterWhen key r) # rs \<and> (\<forall>c\<in>set rs. \<exists>x. c = RandCall x))) w"
proof -
  let ?n = "failuresOf (trace w) key"
  let ?d = "min (transientRequeueInterval * 2 ^ ?n) transientMaxDelay"
  let ?c = "LimiterCall (LimiterWhen key ?d)"
  have d: "0 \<le> ?d" by (simp add: transientRequeueInterval_def transientMaxDelay_def clock_defs)
  have j: "wp (jittered v ?d) (\<lambda>x w'. aroundPace ?d x \<and> (\<exists>y. trace w' = trace w @ [?c, RandCall y])) (w\<lparr>trace := trace w @ [?c]\<rparr>)"
    by (rule wp_conseq [OF wp_jittered [OF assms(1) d]]) auto
  have l: "la_NumRequeues (env_limiter v) (trace w) key = ?n" "la_When (env_limiter v) (trace w) key = ?d"
    using assms(2) unfolding limiterLaws_def by blast+
  show ?thesis
    unfolding transientDelay_def limiter_When_def
    by (simp add: wp_simps l)
      (rule wp_conseq [OF j], auto simp: retryPace_def wp_ret_fun intro!: wp_conseq [OF wp_jitteredDriftRequeue [OF assms(1)]])
qed

lemma aroundPace_max: "aroundPace p x \<Longrightarrow> aroundPace q y \<Longrightarrow> q \<le> p \<Longrightarrow> aroundPace p (max x y)"
  by (auto simp: aroundPace_def max_def)

lemma retryPace_le: "retryPace n \<le> DriftDetectionInterval"
  by (simp add: retryPace_def transientMaxDelay_def DriftDetectionInterval_def clock_defs min_def)

text \<open>
  The retry delay of a failed pass is within a fifth of the pace, which doubles from 30 seconds to two
  minutes with the failures of that custom resource since it last succeeded and is five minutes from the
  tenth failure on; a pass that failed only by waiting is not retried faster than every four minutes. The failure is counted for this custom
  resource alone.
\<close>
theorem retry_delay_bounds:
  assumes "randLaws v" "limiterLaws v" "run_state (retryDelay v key err) w = (d, w')"
  shows "aroundPace (if asWaitingError err then DriftDetectionInterval else retryPace (failuresOf (trace w) key)) d
    \<and> retryPace (failuresOf (trace w) key) \<in> {30 * second, 60 * second, 2 * minute, 5 * minute}
    \<and> failuresOf (trace w') key = Suc (failuresOf (trace w) key)
    \<and> (\<forall>k. k \<noteq> key \<longrightarrow> failuresOf (trace w') k = failuresOf (trace w) k)"
proof -
  let ?n = "failuresOf (trace w) key"
  let ?calls = "\<lambda>w'. \<exists>r rs. trace w' = trace w @ LimiterCall (LimiterWhen key r) # rs \<and> (\<forall>c\<in>set rs. \<exists>x. c = RandCall x)"
  have drift: "wp (jitteredDriftRequeue v) (\<lambda>x w'. aroundPace DriftDetectionInterval (max d x) \<and> ?calls w') w1"
    if "aroundPace (retryPace ?n) d" "?calls w1" for d w1
  proof (rule wp_conseq [OF wp_jitteredDriftRequeue [OF assms(1)]], elim conjE, intro conjI)
    fix x :: duration and w2 :: world
    assume x: "aroundPace DriftDetectionInterval x" "trace w2 = trace w1 @ [RandCall (env_rand v (trace w1))]"
    show "aroundPace DriftDetectionInterval (max d x)"
      using aroundPace_max [OF x(1) that(1) retryPace_le] by (simp add: max.commute)
    show "?calls w2" using that(2) x(2) by fastforce
  qed
  have "wp (retryDelay v key err)
      (\<lambda>d w'. aroundPace (if asWaitingError err then DriftDetectionInterval else retryPace ?n) d \<and> ?calls w') w"
    unfolding retryDelay_def wp_bind
  proof (rule wp_conseq [OF wp_transientDelay [OF assms(1,2)]], elim conjE)
    fix d :: duration and w1 :: world
    assume "aroundPace (retryPace ?n) d" "?calls w1"
    with drift [OF this] show "wp (if asWaitingError err then do { drift \<leftarrow> jitteredDriftRequeue v; ret (max d drift) } else ret d)
        (\<lambda>d w'. aroundPace (if asWaitingError err then DriftDetectionInterval else retryPace ?n) d \<and> ?calls w') w1"
      by (simp add: wp_simps wp_ret_fun)
  qed
  from wp_run [OF assms(3) this] obtain r rs
    where d: "aroundPace (if asWaitingError err then DriftDetectionInterval else retryPace ?n) d"
      and tr: "trace w' = trace w @ LimiterCall (LimiterWhen key r) # rs" "\<forall>c\<in>set rs. \<exists>x. c = RandCall x" by blast
  have rs: "failuresOf rs k = 0" "LimiterCall (LimiterForget k) \<notin> set rs" for k
    using tr(2) by (induction rs) auto
  have "retryPace ?n \<in> {30 * second, 60 * second, 2 * minute, 5 * minute}"
  proof -
    consider "?n = 0" | "?n = 1" | m where "?n = Suc (Suc m)" by (metis One_nat_def not0_implies_Suc)
    then show ?thesis
    proof cases
      case 3
      have p: "2 ^ m \<le> (1::int) \<Longrightarrow> 2 ^ m = (1::int)" by (metis one_le_numeral one_le_power order_antisym)
      from 3 show ?thesis
        by (auto dest: p simp: retryPace_def DriftDetectionInterval_def transientRequeueInterval_def transientMaxDelay_def clock_defs min_def)
    qed (simp_all add: retryPace_def transientLongAfter_def transientRequeueInterval_def transientMaxDelay_def clock_defs)
  qed
  with d show ?thesis by (simp add: tr(1) failuresOf_append rs)
qed

definition expLimiter :: limiter_api where
  "expLimiter = \<lparr>la_NumRequeues = failuresOf,
     la_When = \<lambda>h k. min (transientRequeueInterval * 2 ^ failuresOf h k) transientMaxDelay\<rparr>"

definition demoClock :: env where
  "demoClock = refusingEnv\<lparr>env_limiter := expLimiter, env_rand := \<lambda>h. 1 / 2\<rparr>"

lemma demoClock_laws: "randLaws demoClock" "limiterLaws demoClock"
  by (simp_all add: randLaws_def limiterLaws_def demoClock_def expLimiter_def)

theorem retry_delay_bounds_witness:
  "aroundPace (60 * second) (fst (run_state (retryDelay demoClock (''team'', ''orders'') (ExtError refuse))
     (start\<lparr>trace := [LimiterCall (LimiterWhen (''team'', ''orders'') (30 * second))]\<rparr>)))"
proof -
  let ?w = "start\<lparr>trace := [LimiterCall (LimiterWhen (''team'', ''orders'') (30 * second))]\<rparr>"
  let ?m = "retryDelay demoClock (''team'', ''orders'') (ExtError refuse)"
  have "run_state ?m ?w = (fst (run_state ?m ?w), snd (run_state ?m ?w))" by simp
  from retry_delay_bounds [OF demoClock_laws this] show ?thesis
    by (simp add: retryPace_def transientLongAfter_def transientRequeueInterval_def transientMaxDelay_def clock_defs min_def)
qed

end
