(* ===== verification/Reasons.thy ===== *)
theory Reasons
  imports Prelude "HOL-Library.Char_ord"
begin

text \<open>
  The catalogue of condition reasons, \<^verbatim>\<open>internal/reasons/reasons.go\<close>: which reasons exist, whether they
  clear by themselves, and which are reported by an event of their own. The explanatory texts of an
  entry (its meaning and what to do), which only the generated documentation shows, are left out.
\<close>

datatype Kind = KindInfo | KindWaiting | KindFailing

record Reason =
  rn_Name :: string
  rn_Kind :: Kind
  rn_Prefix :: bool
  rn_OwnEvent :: bool

definition register :: "string \<Rightarrow> Kind \<Rightarrow> Reason" where
  "register name kind = \<lparr>rn_Name = name, rn_Kind = kind, rn_Prefix = False, rn_OwnEvent = False\<rparr>"

definition ownEvent :: "Reason \<Rightarrow> Reason" where
  "ownEvent r = r\<lparr>rn_OwnEvent := True\<rparr>"

definition registerFamily :: "string \<Rightarrow> Kind \<Rightarrow> Reason" where
  "registerFamily pre kind = \<lparr>rn_Name = pre, rn_Kind = kind, rn_Prefix = True, rn_OwnEvent = False\<rparr>"

text \<open>The package variables in the order of their declaration, then what \<^verbatim>\<open>init\<close> registers.\<close>

definition healthyReasons :: "Reason list" where
  "healthyReasons = [register ''Reconciled'' KindInfo, register ''AllSectionsReady'' KindInfo]"

definition unclassifiedReasons :: "Reason list" where
  "unclassifiedReasons =
     [register ''SectionsNotReady'' KindWaiting, register ''TransientError'' KindWaiting, register ''Error'' KindFailing,
      register ''PermissionDenied'' KindFailing, register ''EndpointUnreachable'' KindFailing]"

definition ownershipReasons :: "Reason list" where
  "ownershipReasons =
     [register ''OwnedByAnotherCR'' KindFailing, register ''PreviousIncarnation'' KindFailing,
      register ''AdoptRequired'' KindFailing, register ''NameTaken'' KindFailing, register ''OwnershipLost'' KindFailing,
      register ''AdoptionConflict'' KindFailing]"

definition changedReasons :: "Reason list" where
  "changedReasons =
     [register ''ImmutableSettingChanged'' KindFailing, register ''FIFOChanged'' KindFailing,
      register ''KeySchemaMismatch'' KindFailing, register ''ProvisionedCapacityNeeded'' KindFailing,
      ownEvent (register ''InstanceMissing'' KindFailing), ownEvent (register ''TableMissing'' KindFailing),
      register ''InstanceFailed'' KindFailing, register ''InstanceStuckPendingDeletion'' KindFailing,
      ownEvent (register ''RoleHasExternalAttachments'' KindFailing)]"

definition encryptionReasons :: "Reason list" where
  "encryptionReasons =
     [register ''LegacyKMSKeyRef'' KindFailing, register ''KMSKeyRefNotDeclared'' KindFailing,
      ownEvent (register ''KeyDisabled'' KindFailing), ownEvent (register ''KeyUnavailable'' KindFailing),
      register ''EncryptionAsDeclared'' KindInfo, ownEvent (register ''EncryptionRemovalIgnored'' KindFailing),
      ownEvent (register ''KeyMissing'' KindFailing), register ''NotSupported'' KindFailing]"

definition referenceReasons :: "Reason list" where
  "referenceReasons =
     [register ''AllProducersExist'' KindInfo, register ''AllReferencesValid'' KindInfo,
      register ''StaleReferencesFound'' KindWaiting, register ''ProducerNotFoundYet'' KindWaiting,
      register ''ProducerLikelyMisconfigured'' KindFailing, register ''ConsumedResourceNotDeclared'' KindWaiting,
      register ''ConsumeNotAuthorized'' KindWaiting, register ''ReferencesUnknown'' KindWaiting,
      register ''ServiceAccountNotFound'' KindWaiting, register ''ServiceAccountNotClaimable'' KindFailing,
      register ''ServiceAccountInUse'' KindFailing, register ''ConnectionKeyCollision'' KindFailing,
      register ''RegionChanged'' KindFailing, register ''WaitingForRuleRelease'' KindWaiting]"

definition deletionReasons :: "Reason list" where
  "deletionReasons = [register ''ResourcesNotDrained'' KindWaiting, register ''DeletionBlocked'' KindWaiting]"

definition catalogue :: "Reason list" where
  "catalogue = healthyReasons @ unclassifiedReasons @ ownershipReasons @ changedReasons @ encryptionReasons
     @ referenceReasons @ deletionReasons @ [registerFamily ''Instance'' KindWaiting]"

lemmas catalogue_defs =
  catalogue_def healthyReasons_def unclassifiedReasons_def ownershipReasons_def changedReasons_def encryptionReasons_def
  referenceReasons_def deletionReasons_def register_def ownEvent_def registerFamily_def

definition Lookup :: "string \<Rightarrow> Reason option" where
  "Lookup name =
     (case find (\<lambda>r. \<not> rn_Prefix r \<and> rn_Name r = name) catalogue of
        Some r \<Rightarrow> Some r
      | None \<Rightarrow> find (\<lambda>r. rn_Prefix r \<and> hasPrefix name (rn_Name r)) catalogue)"

definition EmitsOwnEvent :: "string \<Rightarrow> bool" where
  "EmitsOwnEvent name = (case Lookup name of None \<Rightarrow> False | Some r \<Rightarrow> rn_OwnEvent r)"

text \<open>
  \<^verbatim>\<open>strings.FieldsFunc\<close> cuts at the characters of a class and drops the empty pieces. The statuses of
  an RDS instance are ASCII words.
\<close>

definition isWordChar :: "char \<Rightarrow> bool" where
  "isWordChar c \<longleftrightarrow>
     list_ex (\<lambda>(first, final). first \<le> c \<and> c \<le> final) [(CHR ''a'', CHR ''z''), (CHR ''A'', CHR ''Z''), (CHR ''0'', CHR ''9'')]"

fun fieldsLoop :: "string \<Rightarrow> string \<Rightarrow> string list" where
  "fieldsLoop [] word = (if word = [] then [] else [word])"
| "fieldsLoop (c # s) word =
     (if isWordChar c then fieldsLoop s (word @ [c])
      else (if word = [] then [] else [word]) @ fieldsLoop s [])"

definition toUpperChar :: "char \<Rightarrow> char" where
  "toUpperChar c = (if CHR ''a'' \<le> c \<and> c \<le> CHR ''z'' then char_of (of_char c - 32 :: nat) else c)"

definition capitalized :: "string \<Rightarrow> string" where
  "capitalized word = (case word of [] \<Rightarrow> [] | c # rest \<Rightarrow> toUpperChar c # rest)"

definition InstanceStatus :: "string \<Rightarrow> string" where
  "InstanceStatus awsStatus = ''Instance'' @ concat (map capitalized (fieldsLoop awsStatus []))"

lemma catalogue_distinct: "distinct (map rn_Name catalogue)"
  by (simp add: catalogue_defs)

lemma Lookup_InstanceStatus: "Lookup (InstanceStatus s) \<noteq> None"
  by (simp add: Lookup_def catalogue_defs InstanceStatus_def hasPrefix_def split: option.split)

end
