(* ===== verification/Controller.thy ===== *)
theory Controller
  imports Timeouts Reasons Conditions Iam_Derive
begin

text \<open>
  The orchestration shared by every section of a pass: the reconciler, the section interface,
  section conditions and events, the region check, finalizers, and the conditions about references and encryption
  (\<^verbatim>\<open>internal/controller\<close>: \<^verbatim>\<open>desiredstate.go\<close>, \<^verbatim>\<open>finalizer.go\<close>, \<^verbatim>\<open>shared_with_status.go\<close>,
  \<^verbatim>\<open>consume_status.go\<close>, \<^verbatim>\<open>encryption_status.go\<close>). The custom resource is the object \<open>memCR\<close> of the world, which
  a successful patch replaces by the server's answer. Logs, metrics and traces are left out.
\<close>

section \<open>The reconciler\<close>

text \<open>
  Of \<^verbatim>\<open>AppDependenciesReconciler\<close>: the region and account of the AWS clients, the OIDC provider, the base security groups of pods, whether there is an event recorder,
  whether release tags are off. Three functions outside the program come with it: the condition helpers of
  apimachinery, the text of an error (\<^verbatim>\<open>err.Error()\<close>, which ends in texts the SDKs compose), and how many pages of a listing
  fit a deadline.
\<close>

record reconciler =
  rc_Region :: string
  rc_AccountID :: string
  rc_OIDCProviderARN :: string
  rc_OIDCProviderURL :: string
  rc_PodBaseSecurityGroupIDs :: "string list"
  rc_Recorder :: bool
  rc_DisableReleaseTags :: bool
  rc_meta :: apimeta
  rc_errorText :: "go_error \<Rightarrow> string"
  rc_pages :: "duration \<Rightarrow> nat"

abbreviation ledgerOf :: "AppDependencies \<Rightarrow> ledger" where
  "ledgerOf cr \<equiv> st_ManagedResources (ad_Status cr)"

abbreviation conditionsOf :: "AppDependencies \<Rightarrow> Condition list" where
  "conditionsOf cr \<equiv> st_Conditions (ad_Status cr)"

abbreviation withConditions :: "AppDependencies \<Rightarrow> Condition list \<Rightarrow> AppDependencies" where
  "withConditions cr cs \<equiv> cr\<lparr>ad_Status := (ad_Status cr)\<lparr>st_Conditions := cs\<rparr>\<rparr>"

text \<open>The identity every package call takes from the custom resource, at the deadline of its section.\<close>

definition passFor :: "reconciler \<Rightarrow> pass \<Rightarrow> AppDependencies \<Rightarrow> duration \<Rightarrow> pass" where
  "passFor r p cr timeout = p\<lparr>ps_namespace := md_Namespace cr, ps_crName := md_Name cr, ps_crUID := md_UID cr,
     ps_pageBudget := rc_pages r timeout\<rparr>"

definition setLedger :: "ledger \<Rightarrow> unit op" where
  "setLedger l = do { cr \<leftarrow> getCR; setCR (withLedger cr l) }"

section \<open>Sections\<close>

record Section =
  sc_name :: string
  sc_reconcile :: "go_error option op"
  sc_finalize :: "(bool \<times> string list \<times> go_error option) op"

definition conditionTypeSQSReady :: string where "conditionTypeSQSReady = ''SQSReady''"
definition conditionTypeSNSReady :: string where "conditionTypeSNSReady = ''SNSReady''"
definition conditionTypeDynamoDBReady :: string where "conditionTypeDynamoDBReady = ''DynamoDBReady''"
definition conditionTypeS3Ready :: string where "conditionTypeS3Ready = ''S3Ready''"
definition conditionTypeRDSReady :: string where "conditionTypeRDSReady = ''RDSReady''"
definition conditionTypeKMSReady :: string where "conditionTypeKMSReady = ''KMSReady''"
definition conditionTypeAlarmsReady :: string where "conditionTypeAlarmsReady = ''AlarmsReady''"
definition conditionTypeKeyPolicyReady :: string where "conditionTypeKeyPolicyReady = ''KeyPolicyReady''"
definition conditionTypeIAMReady :: string where "conditionTypeIAMReady = ''IAMReady''"
definition conditionTypeConnectionInfoReady :: string where "conditionTypeConnectionInfoReady = ''ConnectionInfoReady''"

definition sectionTypes :: "string list" where
  "sectionTypes = [conditionTypeSQSReady, conditionTypeSNSReady, conditionTypeDynamoDBReady, conditionTypeS3Ready,
     conditionTypeRDSReady, conditionTypeKMSReady, conditionTypeAlarmsReady, conditionTypeKeyPolicyReady,
     conditionTypeIAMReady, conditionTypeConnectionInfoReady]"

definition ForceDeleteAllAnnotation :: string where "ForceDeleteAllAnnotation = ''cloudctl.io/force-delete-all''"
definition AbandonOtherRegionAnnotation :: string where "AbandonOtherRegionAnnotation = ''cloudctl.io/abandon-other-region''"
definition AdoptFromUIDAnnotation :: string where "AdoptFromUIDAnnotation = ''cloudctl.io/adopt-from-uid''"

text \<open>The reason a failed section's condition carries.\<close>

definition conditionReason :: "go_error \<Rightarrow> string" where
  "conditionReason err =
     (case asReconcileError err of
        Some re \<Rightarrow>
          if re_Reason re \<noteq> [] then re_Reason re
          else if IsPermissionDenied err then ''PermissionDenied''
          else if IsEndpointUnreachable err then ''EndpointUnreachable''
          else if isRetryable err then ''TransientError'' else ''Error''
      | None \<Rightarrow>
          if IsPermissionDenied err then ''PermissionDenied''
          else if IsEndpointUnreachable err then ''EndpointUnreachable''
          else if isRetryable err then ''TransientError'' else ''Error'')"

definition updateConditions :: "(AppDependencies \<Rightarrow> Condition list) \<Rightarrow> unit op" where
  "updateConditions f = do { cr \<leftarrow> getCR; setCR (withConditions cr (f cr)) }"

definition setCondition :: "reconciler \<Rightarrow> string \<Rightarrow> ConditionStatus \<Rightarrow> string \<Rightarrow> string \<Rightarrow> unit op" where
  "setCondition r conditionType s reason message =
     updateConditions (\<lambda>cr. SetSectionCondition (rc_meta r) (conditionsOf cr) conditionType s reason message
       (md_Generation cr) sectionTypes)"

definition setSectionCondition :: "reconciler \<Rightarrow> pass \<Rightarrow> string \<Rightarrow> go_error option \<Rightarrow> unit op" where
  "setSectionCondition r p conditionType err =
     (case err of
        None \<Rightarrow> setCondition r conditionType ConditionTrue ''Reconciled'' ''reconciled successfully''
      | Some e \<Rightarrow>
          (let reason = conditionReason e; message = StripRequestIDs (rc_errorText r e) in do {
             (if \<not> EmitsOwnEvent reason
              then recordEvent p ''Warning'' reason [CapEventNote (conditionType @ '': '' @ message)] else ret ());
             setCondition r conditionType ConditionFalse reason message
           }))"

text \<open>
  What \<^verbatim>\<open>reconcile\<close> and \<^verbatim>\<open>finalize\<close> of the sections have in common: a call on the current custom resource
  whose ledger is assigned back, once to ensure and once to clean up, or once to finalize.
\<close>

definition ensureThenCleanup ::
  "(AppDependencies \<Rightarrow> (ledger \<times> go_error option) op) \<Rightarrow> (AppDependencies \<Rightarrow> (ledger \<times> 'r \<times> go_error option) op)
   \<Rightarrow> go_error option op" where
  "ensureThenCleanup ensure cleanup = do {
     cr \<leftarrow> getCR;
     (l, ensureErr) \<leftarrow> ensure cr;
     setLedger l;
     cr1 \<leftarrow> getCR;
     (l1, _, cleanupErr) \<leftarrow> cleanup cr1;
     setLedger l1;
     ret (firstError ensureErr cleanupErr)
   }"

definition finalizeWith ::
  "(AppDependencies \<Rightarrow> (ledger \<times> 'r list \<times> go_error option) op) \<Rightarrow> ('r \<Rightarrow> string option)
   \<Rightarrow> (bool \<times> string list \<times> go_error option) op" where
  "finalizeWith cleanup waiting = do {
     cr \<leftarrow> getCR;
     (l, results, err) \<leftarrow> cleanup cr;
     setLedger l;
     case err of
       Some e \<Rightarrow> ret (False, [], Some e)
     | None \<Rightarrow> (let blocked = List.map_filter waiting results in ret (blocked = [], blocked, None))
   }"

definition forceDeleteAll :: "AppDependencies \<Rightarrow> bool" where
  "forceDeleteAll cr \<longleftrightarrow> goget (md_Annotations cr) ForceDeleteAllAnnotation \<noteq> []"

text \<open>\<^verbatim>\<open>finalizeOrder\<close>: the keys go last.\<close>

definition finalizeOrder :: "Section list \<Rightarrow> Section list" where
  "finalizeOrder sections =
     filter (\<lambda>s. sc_name s \<noteq> conditionTypeKMSReady) sections @ filter (\<lambda>s. sc_name s = conditionTypeKMSReady) sections"

section \<open>The ledger's size and region\<close>

definition largeLedgerEntries :: nat where "largeLedgerEntries = 300"

definition warnIfLedgerLarge :: "pass \<Rightarrow> unit op" where
  "warnIfLedgerLarge p = do {
     cr \<leftarrow> getCR;
     if length (ledgerOf cr) \<le> largeLedgerEntries then ret ()
     else recordEvent p ''Warning'' ''LedgerLarge'' [show_nat (length (ledgerOf cr))]
   }"

definition arnRegion :: "string \<Rightarrow> string" where
  "arnRegion arn = (let parts = splitOn arn CHR '':'' in
     if length parts < 6 \<or> parts ! 0 \<noteq> ''arn'' then [] else parts ! 3)"

definition sectionForEntryType :: "string \<Rightarrow> string" where
  "sectionForEntryType t =
     (if hasPrefix t ''sqs'' then conditionTypeSQSReady
      else if hasPrefix t ''sns'' then conditionTypeSNSReady
      else if hasPrefix t ''s3'' then conditionTypeS3Ready
      else if hasPrefix t ''dynamodb'' then conditionTypeDynamoDBReady
      else if hasPrefix t ''iam'' then conditionTypeIAMReady
      else if hasPrefix t ''rds'' \<or> hasPrefix t ''ec2'' then conditionTypeRDSReady
      else conditionTypeKMSReady)"

definition elsewhere :: "string \<Rightarrow> ManagedResource \<Rightarrow> bool" where
  "elsewhere region entry \<longleftrightarrow> arnRegion (mr_ARN entry) \<noteq> [] \<and> arnRegion (mr_ARN entry) \<noteq> region"

definition hasResourceInOtherRegion :: "ledger \<Rightarrow> string \<Rightarrow> bool" where
  "hasResourceInOtherRegion l region \<longleftrightarrow> region \<noteq> [] \<and> list_ex (elsewhere region) l"

section \<open>Finalizers\<close>

definition finalizerName :: string where "finalizerName = ''deps.cloudctl.io/finalizer''"

definition hasFinalizer :: "AppDependencies \<Rightarrow> bool" where
  "hasFinalizer cr \<longleftrightarrow> finalizerName \<in> set (md_Finalizers cr)"

definition ensureFinalizer :: "env \<Rightarrow> ext_error option op" where
  "ensureFinalizer v = do {
     cr \<leftarrow> getCR;
     if hasFinalizer cr then ret None else patchFinalizers v (md_Finalizers cr @ [finalizerName])
   }"

definition removeFinalizer :: "env \<Rightarrow> ext_error option op" where
  "removeFinalizer v = do {
     cr \<leftarrow> getCR;
     if \<not> hasFinalizer cr then ret None else patchFinalizers v (filter (\<lambda>f. f \<noteq> finalizerName) (md_Finalizers cr))
   }"

section \<open>Resources elsewhere\<close>

definition abandonOtherRegion :: "env \<Rightarrow> reconciler \<Rightarrow> pass \<Rightarrow> (bool \<times> ext_error option) op" where
  "abandonOtherRegion v r p = do {
     cr \<leftarrow> getCR;
     if goget (md_Annotations cr) AbandonOtherRegionAnnotation = [] \<or> \<not> hasResourceInOtherRegion (ledgerOf cr) (rc_Region r)
     then ret (False, None)
     else do {
       recordEvent p ''Warning'' ''ResourcesAbandoned'' (filter (\<lambda>a. a \<noteq> []) (map mr_ARN (ledgerOf cr)));
       err \<leftarrow> removeFinalizer v;
       ret (True, err)
     }
   }"

definition refuseOtherRegion :: "env \<Rightarrow> reconciler \<Rightarrow> pass \<Rightarrow> (bool \<times> ext_error option) op" where
  "refuseOtherRegion v r p = do {
     cr \<leftarrow> getCR;
     if rc_Region r = [] then ret (False, None)
     else case find (elsewhere (rc_Region r)) (ledgerOf cr) of
            None \<Rightarrow> ret (False, None)
          | Some entry \<Rightarrow> do {
              setSectionCondition r p (sectionForEntryType (mr_Type entry))
                (Some (ReconcileError (msgError ''is in another region than this operator works in''
                   [mr_Type entry, mr_Name entry, arnRegion (mr_ARN entry), rc_Region r]) False ''RegionChanged'' False));
              err \<leftarrow> patchStatus v (ps_original p);
              ret (True, err)
            }
   }"

end
