(* ===== verification/References.thy ===== *)
theory References
  imports Controller Kms
begin

text \<open>
  The conditions that say whether the references between custom resources resolve and whether encryption
  is what the spec asks for: \<^verbatim>\<open>internal/controller/shared_with_status.go\<close>, \<^verbatim>\<open>consume_status.go\<close> and
  \<^verbatim>\<open>encryption_status.go\<close>. None of their condition types is a section type, so they never change Ready.
\<close>

section \<open>Entries of sharedWith\<close>

definition conditionTypeSharedWithReferences :: string where
  "conditionTypeSharedWithReferences = ''SharedWithReferencesValid''"

record sharedWithRef =
  sr_resourceType :: string
  sr_resourceName :: string
  sr_entry :: SharedWithEntry

definition sharedRefs :: "string \<Rightarrow> string \<Rightarrow> SharedWithEntry list \<Rightarrow> sharedWithRef list" where
  "sharedRefs t name = map (\<lambda>e. \<lparr>sr_resourceType = t, sr_resourceName = name, sr_entry = e\<rparr>)"

definition allSharedWithRefs :: "AppDependenciesSpec \<Rightarrow> sharedWithRef list" where
  "allSharedWithRefs spec =
     (case sp_SQS spec of None \<Rightarrow> [] | Some s \<Rightarrow> concat (map (\<lambda>q. sharedRefs typeSQS (q_Name q) (q_SharedWith q)) (sqs_Resources s)))
     @ (case sp_SNS spec of None \<Rightarrow> [] | Some s \<Rightarrow> concat (map (\<lambda>t. sharedRefs typeSNS (t_Name t) (t_SharedWith t)) (sns_Resources s)))
     @ (case sp_DynamoDB spec of None \<Rightarrow> []
        | Some s \<Rightarrow> concat (map (\<lambda>t. sharedRefs typeDynamoDB (tb_Name t) (tb_SharedWith t)) (ddb_Resources s)))
     @ (case sp_S3 spec of None \<Rightarrow> [] | Some s \<Rightarrow> concat (map (\<lambda>b. sharedRefs typeS3 (b_Name b) (b_SharedWith b)) (s3_Resources s)))"

definition sharedTarget :: "sharedWithRef \<Rightarrow> string" where
  "sharedTarget ref = sr_resourceType ref @ '' '' @ quoted (sr_resourceName ref) @ '' shares with ''
     @ sw_Namespace (sr_entry ref) @ ''/'' @ sw_Name (sr_entry ref)"

primrec readSharedWith :: "env \<Rightarrow> reconciler \<Rightarrow> sharedWithRef list \<Rightarrow> string list \<times> string list \<Rightarrow> (string list \<times> string list) op" where
  "readSharedWith v r [] acc = ret acc"
| "readSharedWith v r (ref # refs) acc = do {
     x \<leftarrow> k8s_GetCR v (sw_Namespace (sr_entry ref)) (sw_Name (sr_entry ref));
     readSharedWith v r refs
       (case acc of (stale, unreadable) \<Rightarrow>
          (case x of
             Inl err \<Rightarrow>
               if ex_k8s_notfound err
               then (stale @ [sharedTarget ref @ '', which does not currently exist (not yet created, or was deleted)''], unreadable)
               else (stale, unreadable @ [sharedTarget ref @ '': '' @ rc_errorText r (ExtError err)])
           | Inr _ \<Rightarrow> (stale, unreadable)))
   }"

definition checkSharedWithReferences :: "env \<Rightarrow> reconciler \<Rightarrow> unit op" where
  "checkSharedWithReferences v r = do {
     cr \<leftarrow> getCR;
     (stale, unreadable) \<leftarrow> readSharedWith v r (allSharedWithRefs (ad_Spec cr)) ([], []);
     (if stale = [] \<and> unreadable = []
      then setCondition r conditionTypeSharedWithReferences ConditionTrue ''AllReferencesValid''
             ''every sharedWith entry resolves to an existing AppDependencies CR''
      else if stale = []
      then setCondition r conditionTypeSharedWithReferences ConditionUnknown ''ReferencesUnknown'' (JoinCapped unreadable ''; '')
      else setCondition r conditionTypeSharedWithReferences ConditionFalse ''StaleReferencesFound''
             (JoinCapped (stale @ unreadable) ''; ''))
   }"

section \<open>References to other custom resources\<close>

definition conditionTypeConsumeReferences :: string where "conditionTypeConsumeReferences = ''ConsumeReferencesValid''"
definition consumeReferenceDanglingThreshold :: duration where "consumeReferenceDanglingThreshold = 30 * minute"

record consumeRefLocation =
  cf_resourceType :: string
  cf_field :: string
  cf_ref :: ConsumeRef

definition located :: "string \<Rightarrow> string \<Rightarrow> ConsumeRef list \<Rightarrow> consumeRefLocation list" where
  "located t field = map (\<lambda>ref. \<lparr>cf_resourceType = t, cf_field = field, cf_ref = ref\<rparr>)"

definition allConsumeRefs :: "AppDependenciesSpec \<Rightarrow> consumeRefLocation list" where
  "allConsumeRefs spec =
     (case sp_SQS spec of None \<Rightarrow> []
      | Some s \<Rightarrow> located typeSQS ''sqs.consumes'' (sqs_Consumes s)
          @ concat (map (\<lambda>q. located typeSNS (''sqs '' @ quoted (q_Name q) @ '' subscribesTo'') (q_SubscribesTo q)) (sqs_Resources s)))
     @ (case sp_SNS spec of None \<Rightarrow> [] | Some s \<Rightarrow> located typeSNS ''sns.consumes'' (sns_Consumes s))
     @ (case sp_DynamoDB spec of None \<Rightarrow> [] | Some s \<Rightarrow> located typeDynamoDB ''dynamodb.consumes'' (ddb_Consumes s))
     @ (case sp_S3 spec of None \<Rightarrow> [] | Some s \<Rightarrow> located typeS3 ''s3.consumes'' (s3_Consumes s))
     @ (case sp_RDS spec of None \<Rightarrow> [] | Some s \<Rightarrow> located TypeRDS ''rds.consumes'' (rds_Consumes s))
     @ (case sp_Alarms spec of None \<Rightarrow> []
        | Some a \<Rightarrow> (case al_SnsTopicRef a of None \<Rightarrow> [] | Some ref \<Rightarrow> located typeSNS ''alarms.snsTopicRef'' [ref]))"

text \<open>The four lists the loop fills: missing, undeclared, unauthorized and unreadable.\<close>

record consumeProblems =
  cp_missing :: "string list"
  cp_undeclared :: "string list"
  cp_unauthorized :: "string list"
  cp_unreadable :: "string list"

definition noProblems :: consumeProblems where
  "noProblems = \<lparr>cp_missing = [], cp_undeclared = [], cp_unauthorized = [], cp_unreadable = []\<rparr>"

definition consumeTarget :: "consumeRefLocation \<Rightarrow> string" where
  "consumeTarget loc = cf_field loc @ '' '' @ cr_Namespace (cf_ref loc) @ ''/'' @ cr_Name (cf_ref loc) @ [CHR 0x27] @ ''s ''
     @ quoted (cr_ResourceName (cf_ref loc))"

definition classifyReference ::
  "reconciler \<Rightarrow> consumeRefLocation \<Rightarrow> ReferenceProblem \<times> go_error option \<Rightarrow> consumeProblems \<Rightarrow> consumeProblems" where
  "classifyReference r loc answer acc =
     (case answer of (problem, err) \<Rightarrow>
        (case err of
           Some e \<Rightarrow> acc\<lparr>cp_unreadable := cp_unreadable acc @ [consumeTarget loc @ '': '' @ rc_errorText r e]\<rparr>
         | None \<Rightarrow>
             (case problem of
                ReferenceProducerNotFound \<Rightarrow>
                  acc\<lparr>cp_missing := cp_missing acc @ [consumeTarget loc @ '': that CR does not currently exist'']\<rparr>
              | ReferenceResourceNotDeclared \<Rightarrow>
                  acc\<lparr>cp_undeclared := cp_undeclared acc @ [consumeTarget loc @ '': that CR does not declare it'']\<rparr>
              | ReferenceNotAuthorized \<Rightarrow>
                  acc\<lparr>cp_unauthorized := cp_unauthorized acc @ [consumeTarget loc @ '': that CR has not listed this CR in sharedWith'']\<rparr>
              | ReferenceResolved \<Rightarrow> acc)))"

primrec readConsumes ::
  "env \<Rightarrow> reconciler \<Rightarrow> string \<Rightarrow> string \<Rightarrow> consumeRefLocation list \<Rightarrow> consumeProblems \<Rightarrow> consumeProblems op" where
  "readConsumes v r ns name [] acc = ret acc"
| "readConsumes v r ns name (loc # locs) acc = do {
     answer \<leftarrow> CheckConsumeReference v ns name (cf_resourceType loc) (cf_ref loc);
     readConsumes v r ns name locs (classifyReference r loc answer acc)
   }"

definition consumeProblemReason ::
  "reconciler \<Rightarrow> pass \<Rightarrow> AppDependencies \<Rightarrow> string list \<Rightarrow> string list \<Rightarrow> string \<Rightarrow> string \<times> string" where
  "consumeProblemReason r p cr unauthorized undeclared message =
     (if unauthorized \<noteq> [] then (''ConsumeNotAuthorized'', message)
      else if undeclared \<noteq> [] then (''ConsumedResourceNotDeclared'', message)
      else case am_FindStatusCondition (rc_meta r) (conditionsOf cr) conditionTypeConsumeReferences of
             None \<Rightarrow> (''ProducerNotFoundYet'', message)
           | Some existing \<Rightarrow>
               if co_Status existing = ConditionFalse
                  \<and> since (ps_now p) (co_LastTransitionTime existing) > consumeReferenceDanglingThreshold
               then (''ProducerLikelyMisconfigured'', message @ '' (unresolved for over 30m0s - this looks like a real misconfiguration, e.g. a typo in the consumer''
                      @ [CHR 0x27] @ ''s namespace/name, rather than a startup-ordering race)'')
               else (''ProducerNotFoundYet'', message))"

definition checkConsumeReferences :: "env \<Rightarrow> reconciler \<Rightarrow> pass \<Rightarrow> unit op" where
  "checkConsumeReferences v r p = do {
     cr \<leftarrow> getCR;
     found \<leftarrow> readConsumes v r (md_Namespace cr) (md_Name cr) (allConsumeRefs (ad_Spec cr)) noProblems;
     let problems = cp_unauthorized found @ cp_undeclared found @ cp_missing found;
     (if problems = [] \<and> cp_unreadable found = []
      then setCondition r conditionTypeConsumeReferences ConditionTrue ''AllProducersExist''
             (''every reference to another CR'' @ [CHR 0x27] @ ''s resource resolves'')
      else if problems = []
      then setCondition r conditionTypeConsumeReferences ConditionUnknown ''ReferencesUnknown'' (JoinCapped (cp_unreadable found) ''; '')
      else (case consumeProblemReason r p cr (cp_unauthorized found) (cp_undeclared found)
                   (JoinCapped (problems @ cp_unreadable found) ''; '') of
              (reason, message) \<Rightarrow> setCondition r conditionTypeConsumeReferences ConditionFalse reason message))
   }"

section \<open>Encryption\<close>

definition conditionTypeEncryptionMatchesSpec :: string where "conditionTypeEncryptionMatchesSpec = ''EncryptionMatchesSpec''"

definition wantsKey :: "EncryptionSpec option \<Rightarrow> bool" where
  "wantsKey e = (case e of None \<Rightarrow> False | Some s \<Rightarrow> en_Enabled s \<or> en_KMSKeyRef s \<noteq> [])"

definition encryptionDropped :: "ledger \<Rightarrow> string \<Rightarrow> string \<Rightarrow> EncryptionSpec option \<Rightarrow> string list" where
  "encryptionDropped l t name encryption =
     (if wantsKey encryption then []
      else case FindManagedResource l t name of
             None \<Rightarrow> []
           | Some entry \<Rightarrow> if PinsAKey l t entry then [t @ '' '' @ quoted name] else [])"

definition stillEncrypted :: "ledger \<Rightarrow> AppDependenciesSpec \<Rightarrow> string list" where
  "stillEncrypted l spec =
     (case sp_SQS spec of None \<Rightarrow> []
      | Some s \<Rightarrow> concat (map (\<lambda>q. encryptionDropped l typeSQS (q_Name q) (q_Encryption q)) (sqs_Resources s)))
     @ (case sp_SNS spec of None \<Rightarrow> []
        | Some s \<Rightarrow> concat (map (\<lambda>t. encryptionDropped l typeSNS (t_Name t) (t_Encryption t)) (sns_Resources s)))
     @ (case sp_DynamoDB spec of None \<Rightarrow> []
        | Some s \<Rightarrow> concat (map (\<lambda>t. encryptionDropped l typeDynamoDB (tb_Name t) (tb_Encryption t)) (ddb_Resources s)))
     @ (case sp_S3 spec of None \<Rightarrow> []
        | Some s \<Rightarrow> concat (map (\<lambda>b. encryptionDropped l typeS3 (b_Name b) (b_Encryption b)) (s3_Resources s)))"

definition checkEncryptionMatchesSpec :: "reconciler \<Rightarrow> pass \<Rightarrow> unit op" where
  "checkEncryptionMatchesSpec r p = do {
     cr \<leftarrow> getCR;
     let still = stillEncrypted (ledgerOf cr) (ad_Spec cr);
     (if still = []
      then setCondition r conditionTypeEncryptionMatchesSpec ConditionTrue ''EncryptionAsDeclared''
             ''no resource is encrypted with a KMS key the spec no longer asks for''
      else (let message = JoinCapped still '', '' @ '': the spec does not ask for KMS encryption, but the resource is still encrypted with its key. ''
                  @ ''Removing encryption is not applied; set it back, or remove the entry, wait for it to be deleted and add it again'' in do {
              setCondition r conditionTypeEncryptionMatchesSpec ConditionFalse ''EncryptionRemovalIgnored'' message;
              recordEvent p ''Warning'' ''EncryptionRemovalIgnored'' [CapEventNote (CapEventNote message)]
            }))
   }"

end
