(* ===== verification/Sns.thy ===== *)
theory Sns
  imports Sqs_Policy Kms
begin

text \<open>
  The SNS package, \<^verbatim>\<open>internal/resources/sns\<close>: ensuring declared topics (\<^verbatim>\<open>sns.go\<close>), their policies
  (\<^verbatim>\<open>policy.go\<close>) and the cleanup of topics that are no longer declared (\<^verbatim>\<open>cleanup.go\<close>). Names that other
  packages use too carry the suffix \<open>_sns\<close>. A Go map of attributes that the code builds is an
  association list without repeated names.
\<close>

section \<open>The policy of a topic\<close>

definition readPolicy_sns :: "env \<Rightarrow> string \<Rightarrow> (go_error + policyDocument) op" where
  "readPolicy_sns v topicArn = do {
     r \<leftarrow> sns_GetTopicAttributes v topicArn;
     case r of
       Inl e \<Rightarrow> ret (Inl (wrapf ''reading topic policy'' [] (ExtError e)))
     | Inr attrs \<Rightarrow> (case policyOf attrs of
                    None \<Rightarrow> ret (Inl (msgError ''parsing existing topic policy'' []))
                  | Some doc \<Rightarrow> ret (Inr doc))
   }"

definition writePolicy_sns :: "env \<Rightarrow> string \<Rightarrow> policyDocument \<Rightarrow> go_error option op" where
  "writePolicy_sns v topicArn doc = do {
     r \<leftarrow> sns_SetTopicAttributes v topicArn attrPolicy (renderPolicy doc);
     case r of Inl e \<Rightarrow> ret (Some (ExtError e)) | Inr _ \<Rightarrow> ret None
   }"

definition denyStatement_sns :: "string \<Rightarrow> json" where
  "denyStatement_sns topicArn =
     JObj [(''Sid'', JStr pendingDeletionDenySid), (''Effect'', JStr ''Deny''), (''Principal'', JStr ''*''),
           (''Action'', JArr [JStr ''sns:Publish'', JStr ''sns:Subscribe'']), (''Resource'', JStr topicArn)]"

definition addPendingDeletionDeny_sns :: "env \<Rightarrow> string \<Rightarrow> go_error option op" where
  "addPendingDeletionDeny_sns v topicArn = do {
     r \<leftarrow> readPolicy_sns v topicArn;
     case r of
       Inl e \<Rightarrow> ret (Some e)
     | Inr doc \<Rightarrow>
         (case Upsert (pd_Statement doc) pendingDeletionDenySid (denyStatement_sns topicArn) of
            (statements, changed) \<Rightarrow>
              if \<not> changed then ret None else writePolicy_sns v topicArn (doc\<lparr>pd_Statement := statements\<rparr>))
   }"

definition topicActions :: "string list" where
  "topicActions = [''sns:GetTopicAttributes'', ''sns:SetTopicAttributes'', ''sns:AddPermission'', ''sns:RemovePermission'',
     ''sns:DeleteTopic'', ''sns:Subscribe'', ''sns:ListSubscriptionsByTopic'', ''sns:Publish'']"

definition reconcileDeclaredPolicy_sns :: "env \<Rightarrow> pass \<Rightarrow> string \<Rightarrow> go_error option op" where
  "reconcileDeclaredPolicy_sns v p topicArn = do {
     r \<leftarrow> readPolicy_sns v topicArn;
     case r of
       Inl e \<Rightarrow> ret (Some (wrapAWSError e ''reading the topic's policy''))
     | Inr doc \<Rightarrow>
         (case Upsert (pd_Statement doc) InsecureTransportSid (DenyInsecureTransportActions topicActions [topicArn]) of
            (statements1, changed) \<Rightarrow>
              (case Remove statements1 pendingDeletionDenySid of (statements, lifted) \<Rightarrow>
                 if \<not> changed \<and> \<not> lifted then ret None
                 else do {
                   w \<leftarrow> writePolicy_sns v topicArn (doc\<lparr>pd_Statement := statements\<rparr>);
                   case w of
                     Some e \<Rightarrow> ret (Some (wrapAWSError e ''writing the topic's policy''))
                   | None \<Rightarrow> do {
                       (if changed then recordEvent p ''Normal'' ''TransportSecurityEnforced'' [topicArn] else ret ());
                       (if lifted then recordEvent p ''Normal'' ''PendingDeletionDenyLifted'' [topicArn] else ret ());
                       ret None
                     }
                 }))
   }"

definition removePendingDeletionDeny_sns :: "env \<Rightarrow> string \<Rightarrow> go_error option op" where
  "removePendingDeletionDeny_sns v topicArn = do {
     r \<leftarrow> readPolicy_sns v topicArn;
     case r of
       Inl e \<Rightarrow> ret (Some e)
     | Inr doc \<Rightarrow>
         (case Remove (pd_Statement doc) pendingDeletionDenySid of (statements, changed) \<Rightarrow>
            if \<not> changed then ret None
            else if statements = [] then do {
              w \<leftarrow> sns_SetTopicAttributes v topicArn attrPolicy [];
              case w of Inl e \<Rightarrow> ret (Some (ExtError e)) | Inr _ \<Rightarrow> ret None
            }
            else writePolicy_sns v topicArn (doc\<lparr>pd_Statement := statements\<rparr>))
   }"

section \<open>Ensuring a topic\<close>

definition snsNameMaxLen :: int where "snsNameMaxLen = 256"

record topicPlace =
  tp_region :: string
  tp_accountID :: string

definition desiredTopicAttributes :: "SNSTopicSpec \<Rightarrow> string option \<Rightarrow> attr_list" where
  "desiredTopicAttributes t kmsKeyARN =
     (if t_FIFO t
      then [(''ContentBasedDeduplication'',
             case t_Overrides t of None \<Rightarrow> ''false''
             | Some ov \<Rightarrow> if no_ContentBasedDeduplication ov = Some True then ''true'' else ''false'')] else [])
   @ (case kmsKeyARN of None \<Rightarrow> [] | Some arn \<Rightarrow> [(''KmsMasterKeyId'', arn)])"

primrec setTopicAttributes :: "env \<Rightarrow> string \<Rightarrow> (string \<rightharpoonup> string) \<Rightarrow> attributes \<Rightarrow> string list \<Rightarrow> go_error option op" where
  "setTopicAttributes v topicArn desired current [] = ret None"
| "setTopicAttributes v topicArn desired current (name # names) =
     (if goget current name = goget desired name then setTopicAttributes v topicArn desired current names
      else do {
        r \<leftarrow> sns_SetTopicAttributes v topicArn name (goget desired name);
        case r of
          Inl e \<Rightarrow> ret (Some (ExtError e))
        | Inr _ \<Rightarrow> setTopicAttributes v topicArn desired current names
      })"

definition reconcileTopicAttributes :: "env \<Rightarrow> string \<Rightarrow> SNSTopicSpec \<Rightarrow> string option \<Rightarrow> go_error option op" where
  "reconcileTopicAttributes v topicArn t kmsKeyARN =
     (let desired = desiredTopicAttributes t kmsKeyARN in
      if desired = [] then ret None
      else do {
        r \<leftarrow> sns_GetTopicAttributes v topicArn;
        case r of
          Inl e \<Rightarrow> ret (Some (wrapf ''reading current attributes'' [] (ExtError e)))
        | Inr current \<Rightarrow> setTopicAttributes v topicArn (map_of desired) current (env_mapOrder v (map fst desired))
      })"

definition recordVerified_sns :: "pass \<Rightarrow> ledger \<Rightarrow> string \<Rightarrow> string \<Rightarrow> DeletionPolicy \<Rightarrow> bool \<Rightarrow> ledger" where
  "recordVerified_sns p l ledgerName arn deletionPolicy force =
     UpsertManagedResource l (zeroManagedResource\<lparr>
       mr_Type := typeSNS, mr_Name := ledgerName, mr_ARN := arn, mr_State := StateVerified,
       mr_DeletionPolicy := deletionPolicy, mr_Force := force,
       mr_CreatedAt := (case FindManagedResource l typeSNS ledgerName of None \<Rightarrow> ps_now p | Some e \<Rightarrow> mr_CreatedAt e),
       mr_LastVerifiedAt := Some (ps_now p)\<rparr>)"

definition checkFIFOUnchanged_sns :: "ledger \<Rightarrow> string \<Rightarrow> bool \<Rightarrow> go_error option" where
  "checkFIFOUnchanged_sns l resourceName fifo =
     (case FindManagedResource l typeSNS resourceName of
        None \<Rightarrow> None
      | Some existing \<Rightarrow> if mr_State existing = StateRelinquished then None
                         else CheckFIFOUnchanged ''topic'' (mr_ARN existing) fifo)"

text \<open>The key a topic is encrypted with: \<open>Inl\<close> when it cannot be had yet.\<close>

definition resolveTopicKey :: "env \<Rightarrow> pass \<Rightarrow> SNSTopicSpec \<Rightarrow> ledger \<Rightarrow> (ledger \<times> (go_error + string option)) op" where
  "resolveTopicKey v p t l =
     (case t_Encryption t of
        None \<Rightarrow> ret (l, Inr None)
      | Some enc \<Rightarrow>
          (let shared = (if en_KMSKeyRef enc = [] then Inr None
                         else case SharedKeyARN l (en_KMSKeyRef enc) of
                                None \<Rightarrow> Inl (ReconcileError (msgError ''encryption.kmsKeyRef is not ready yet'' [en_KMSKeyRef enc]) True [] True)
                              | Some arn \<Rightarrow> Inr (Some arn)) in
           case shared of
             Inl e \<Rightarrow> ret (l, Inl e)
           | Inr key \<Rightarrow>
               if \<not> en_Enabled enc then ret (l, Inr key)
               else do {
                 (arn, l1, err) \<leftarrow> EnsureDedicatedKey v p typeSNS (t_Name t) (t_DeletionPolicy t) l;
                 case err of
                   Some e \<Rightarrow> ret (l1, Inl (wrapf ''encryption key'' [] e))
                 | None \<Rightarrow> ret (l1, Inr (Some arn))
               }))"

definition goneError :: "go_error \<Rightarrow> bool" where
  "goneError err = (case asExt err of None \<Rightarrow> False | Some e \<Rightarrow> isException ''NotFoundException'' e)"

definition ensureWithinTrust_sns ::
  "env \<Rightarrow> pass \<Rightarrow> string \<Rightarrow> ManagedResource \<Rightarrow> SNSTopicSpec \<Rightarrow> string option \<Rightarrow> ledger \<Rightarrow> (ledger \<times> bool \<times> go_error option) op" where
  "ensureWithinTrust_sns v p topicArn existing t kmsKeyARN l =
     (let l1 = UpsertManagedResource l (existing\<lparr>mr_DeletionPolicy := t_DeletionPolicy t, mr_Force := t_Force t\<rparr>) in do {
        probeErr \<leftarrow> (if desiredTopicAttributes t kmsKeyARN = []
                     then do { r \<leftarrow> sns_GetTopicAttributes v topicArn;
                               ret (case r of Inl e \<Rightarrow> Some (ExtError e) | Inr _ \<Rightarrow> None) }
                     else reconcileTopicAttributes v topicArn t kmsKeyARN);
        case probeErr of
          None \<Rightarrow> ret (l1, True, None)
        | Some e \<Rightarrow>
            if goneError e
            then do { recordEvent p ''Warning'' ''TopicMissing'' [topicArn]; ret (l1, False, None) }
            else ret (l1, False, Some (wrapAWSError e ''reconciling topic attributes''))
      })"

definition createTopic ::
  "env \<Rightarrow> pass \<Rightarrow> string \<Rightarrow> tags \<Rightarrow> SNSTopicSpec \<Rightarrow> string option \<Rightarrow> ledger \<Rightarrow> (ledger \<times> go_error option) op" where
  "createTopic v p topicName tgs t kmsKeyARN l =
     (let attrs = desiredTopicAttributes t kmsKeyARN @ (if t_FIFO t then [(''FifoTopic'', ''true'')] else []) in do {
        r \<leftarrow> sns_CreateTopic v topicName (map_of attrs) tgs;
        case r of
          Inl cErr \<Rightarrow> ret (l, Some (wrapAWSError (ExtError cErr) ''creating topic''))
        | Inr arn \<Rightarrow> do {
            recordEvent p ''Normal'' ''TopicCreated'' [arn];
            ret (recordVerified_sns p l (t_Name t) arn (t_DeletionPolicy t) (t_Force t), None)
          }
      })"

definition adoptTopic ::
  "env \<Rightarrow> pass \<Rightarrow> string \<Rightarrow> string \<Rightarrow> tags \<Rightarrow> tags \<Rightarrow> SNSTopicSpec \<Rightarrow> string option \<Rightarrow> go_error option op" where
  "adoptTopic v p topicName topicArn currentTags tgs t kmsKeyARN =
     (case CheckExistingOwnership p ''topic'' topicName currentTags (t_Adopt t) of
        Inl ownErr \<Rightarrow> ret (Some ownErr)
      | Inr transferred \<Rightarrow> do {
          r \<leftarrow> sns_GetTopicAttributes v topicArn;
          case r of
            Inl aErr \<Rightarrow> ret (Some (wrapAWSError (ExtError aErr) ''reading the topic's encryption before adopting it''))
          | Inr attrs \<Rightarrow> do {
              keyErr \<leftarrow> AdoptedKeyCheck (Some v) kmsKeyARN (goget attrs ''KmsMasterKeyId'');
              case keyErr of
                Some e \<Rightarrow> ret (Some (wrapf ''topic can't be adopted'' [topicName] e))
              | None \<Rightarrow> do {
                  g \<leftarrow> sns_TagResource v topicArn (MergeTags currentTags tgs);
                  case g of
                    Inl tagErr \<Rightarrow> ret (Some (wrapAWSError (ExtError tagErr) ''adopting topic (tagging)''))
                  | Inr _ \<Rightarrow> do {
                      (if HasReleaseTags currentTags
                       then do {
                         u \<leftarrow> sns_UntagResource v topicArn ReleasedTagKeys;
                         case u of Inl untagErr \<Rightarrow> ReleaseTagFailed p ''topic'' topicName untagErr | Inr _ \<Rightarrow> ret ()
                       }
                       else ret ());
                      (if transferred then recordEvent p ''Normal'' EventOwnershipTransferred [topicArn]
                       else recordEvent p ''Normal'' ''TopicAdopted'' [topicArn]);
                      ret None
                    }
                }
            }
        })"

text \<open>The path that checks ownership against AWS, after the trust window or for a new topic.\<close>

definition ensureTopicVerified ::
  "env \<Rightarrow> pass \<Rightarrow> string \<Rightarrow> string \<Rightarrow> SNSTopicSpec \<Rightarrow> string option \<Rightarrow> ledger \<Rightarrow> (ledger \<times> go_error option) op" where
  "ensureTopicVerified v p topicName topicArn t kmsKeyARN l = do {
     r \<leftarrow> sns_ListTagsForResource v topicArn;
     case r of
       Inl err \<Rightarrow>
         if isException ''ResourceNotFoundException'' err then createTopic v p topicName (ownerTags p) t kmsKeyARN l
         else ret (l, Some (wrapAWSError (ExtError err) ''looking up topic''))
     | Inr tgs \<Rightarrow> do {
         aErr \<leftarrow> (if \<not> owned_by_pass p (tagsToMap tgs)
                  then adoptTopic v p topicName topicArn (tagsToMap tgs) (ownerTags p) t kmsKeyARN else ret None);
         case aErr of
           Some e \<Rightarrow> ret (l, Some e)
         | None \<Rightarrow> do {
             rErr \<leftarrow> reconcileTopicAttributes v topicArn t kmsKeyARN;
             case rErr of
               Some e \<Rightarrow> ret (l, Some (wrapAWSError e ''reconciling topic attributes''))
             | None \<Rightarrow> ret (recordVerified_sns p l (t_Name t) topicArn (t_DeletionPolicy t) (t_Force t), None)
           }
       }
   }"

definition topicNameOf :: "pass \<Rightarrow> SNSTopicSpec \<Rightarrow> string" where
  "topicNameOf p t = QueueOrTopicName (ps_namespace p) (ps_crName p) typeSNS (t_FIFO t) snsNameMaxLen [t_Name t]"

definition topicArnOf :: "pass \<Rightarrow> topicPlace \<Rightarrow> SNSTopicSpec \<Rightarrow> string" where
  "topicArnOf p pl t = TopicARN (tp_region pl) (tp_accountID pl) (topicNameOf p t)"

definition ensureTopicExists ::
  "env \<Rightarrow> pass \<Rightarrow> topicPlace \<Rightarrow> SNSTopicSpec \<Rightarrow> ledger \<Rightarrow> (ledger \<times> go_error option) op" where
  "ensureTopicExists v p pl t l = do {
     (l1, keyRes) \<leftarrow> resolveTopicKey v p t l;
     case keyRes of
       Inl e \<Rightarrow> ret (l1, Some e)
     | Inr key \<Rightarrow>
         (case checkFIFOUnchanged_sns l1 (t_Name t) (t_FIFO t) of
            Some e \<Rightarrow> ret (l1, Some e)
          | None \<Rightarrow>
              (case FindManagedResource l1 typeSNS (t_Name t) of
                 None \<Rightarrow> ensureTopicVerified v p (topicNameOf p t) (topicArnOf p pl t) t key l1
               | Some existing \<Rightarrow>
                   if NeedsRevalidation (ps_now p) existing
                   then ensureTopicVerified v p (topicNameOf p t) (topicArnOf p pl t) t key l1
                   else do {
                     (l2, present, trustErr) \<leftarrow> ensureWithinTrust_sns v p (topicArnOf p pl t) existing t key l1;
                     if trustErr \<noteq> None \<or> present then ret (l2, trustErr)
                     else ensureTopicVerified v p (topicNameOf p t) (topicArnOf p pl t) t key l2
                   }))
   }"

definition ensureTopic :: "env \<Rightarrow> pass \<Rightarrow> topicPlace \<Rightarrow> SNSTopicSpec \<Rightarrow> ledger \<Rightarrow> (ledger \<times> go_error option) op" where
  "ensureTopic v p pl t l =
     (let before = (case FindManagedResource l typeSNS (t_Name t) of None \<Rightarrow> zeroManagedResource | Some e \<Rightarrow> e) in do {
        (l1, err) \<leftarrow> ensureTopicExists v p pl t l;
        case err of
          Some e \<Rightarrow> ret (l1, Some e)
        | None \<Rightarrow>
            (case FindManagedResource l1 typeSNS (t_Name t) of
               None \<Rightarrow> ret (l1, Some (msgError ''expected a ledger entry for topic after ensuring it'' [t_Name t]))
             | Some entry \<Rightarrow>
                 if \<not> VerifiedSince before entry then ret (l1, None)
                 else do {
                   pErr \<leftarrow> reconcileDeclaredPolicy_sns v p (mr_ARN entry);
                   ret (l1, pErr)
                 })
      })"

primrec ensureTopics ::
  "env \<Rightarrow> pass \<Rightarrow> topicPlace \<Rightarrow> SNSTopicSpec list \<Rightarrow> ledger \<Rightarrow> go_error option \<Rightarrow> (ledger \<times> go_error option) op" where
  "ensureTopics v p pl [] l firstErr = ret (l, firstErr)"
| "ensureTopics v p pl (t # ts) l firstErr = do {
     (l1, err) \<leftarrow> ensureTopic v p pl t l;
     ensureTopics v p pl ts l1 (firstError firstErr (map_option (wrapf ''topic'' [t_Name t]) err))
   }"

definition Ensure_sns :: "env \<Rightarrow> pass \<Rightarrow> topicPlace \<Rightarrow> SNSSpec option \<Rightarrow> ledger \<Rightarrow> (ledger \<times> go_error option) op" where
  "Ensure_sns v p pl spec l =
     (case spec of None \<Rightarrow> ret (l, None) | Some s \<Rightarrow> ensureTopics v p pl (sns_Resources s) l None)"

section \<open>Cleanup\<close>

definition PendingDeletionGracePeriod_sns :: duration where "PendingDeletionGracePeriod_sns = 7 * 24 * hour"
definition deletionQuietWindow_sns :: duration where "deletionQuietWindow_sns = 10 * minute"

datatype TopicCleanupReason = TopicRetained | TopicPendingDeletion | TopicStuckPendingDeletion

type_synonym topic_result = "string \<times> TopicCleanupReason"

definition pendingDeletionReason_sns :: "pass \<Rightarrow> time \<Rightarrow> TopicCleanupReason" where
  "pendingDeletionReason_sns p t =
     (if since (ps_now p) t > PendingDeletionGracePeriod_sns then TopicStuckPendingDeletion else TopicPendingDeletion)"

definition declaredTopicNames :: "SNSSpec option \<Rightarrow> bool \<Rightarrow> string \<Rightarrow> bool" where
  "declaredTopicNames spec deleting name =
     (case spec of None \<Rightarrow> False | Some s \<Rightarrow> \<not> deleting \<and> name \<in> t_Name ` set (sns_Resources s))"

definition markPendingDeletion_sns ::
  "pass \<Rightarrow> ledger \<Rightarrow> topic_result list \<Rightarrow> ManagedResource \<Rightarrow> ledger \<times> topic_result list" where
  "markPendingDeletion_sns p l results entry =
     (let since' = (case mr_PendingDeletionSince entry of None \<Rightarrow> ps_now p | Some t \<Rightarrow> t)
      in (UpsertManagedResource l (entry\<lparr>mr_PendingDeletionSince := Some since'\<rparr>),
          results @ [(mr_Name entry, pendingDeletionReason_sns p since')]))"

definition restoreDeclared_sns :: "env \<Rightarrow> pass \<Rightarrow> ManagedResource \<Rightarrow> ledger \<Rightarrow> (ledger \<times> go_error option) op" where
  "restoreDeclared_sns v p entry l =
     (if mr_PendingDeletionSince entry = None then ret (l, None)
      else do {
        e \<leftarrow> removePendingDeletionDeny_sns v (mr_ARN entry);
        case e of
          Some err \<Rightarrow> ret (l, Some err)
        | None \<Rightarrow> do {
            recordEvent p ''Normal'' ''TopicDeletionCancelled'' [mr_Name entry, mr_ARN entry];
            ret (UpsertManagedResource l (entry\<lparr>mr_PendingDeletionSince := None, mr_LastEmptyCheckAt := None\<rparr>), None)
          }
      })"

definition relinquishIfStillTagged_sns :: "env \<Rightarrow> pass \<Rightarrow> ManagedResource \<Rightarrow> (bool \<times> bool \<times> go_error option) op" where
  "relinquishIfStillTagged_sns v p entry = do {
     t \<leftarrow> sns_ListTagsForResource v (mr_ARN entry);
     case t of
       Inl tErr \<Rightarrow>
         if isException ''ResourceNotFoundException'' tErr then ret (False, True, None)
         else ret (False, False, Some (wrapAWSError (ExtError tErr) ''checking ownership tags on retained topic''))
     | Inr tgs \<Rightarrow>
         if \<not> owned_by_pass p (tagsToMap tgs) then ret (False, False, None)
         else do {
           (case ReleaseTags p of
              None \<Rightarrow> ret ()
            | Some released \<Rightarrow> do {
                g \<leftarrow> sns_TagResource v (mr_ARN entry) released;
                case g of Inl tagErr \<Rightarrow> ReleaseTagFailed p ''topic'' (mr_Name entry) tagErr | Inr _ \<Rightarrow> ret ()
              });
           u \<leftarrow> sns_UntagResource v (mr_ARN entry) [OwnerTagKey, OwnerUIDTagKey];
           case u of
             Inl uErr \<Rightarrow> ret (False, False, Some (wrapAWSError (ExtError uErr) ''relinquishing ownership tag on retained topic''))
           | Inr _ \<Rightarrow> do {
               e \<leftarrow> removePendingDeletionDeny_sns v (mr_ARN entry);
               case e of Some err \<Rightarrow> ret (False, False, Some err) | None \<Rightarrow> ret (True, False, None)
             }
         }
   }"

definition retain_sns ::
  "env \<Rightarrow> pass \<Rightarrow> ManagedResource \<Rightarrow> ledger \<Rightarrow> topic_result list \<Rightarrow> (ledger \<times> topic_result list \<times> go_error option) op" where
  "retain_sns v p entry l results =
     (let retained = (mr_Name entry, TopicRetained);
          pinsKey = PinsAKey l typeSNS entry
      in if mr_State entry = StateRelinquished \<and> \<not> pinsKey
         then ret (RemoveManagedResource l typeSNS (mr_Name entry), results @ [retained], None)
         else if mr_State entry = StateRelinquished \<and> \<not> NeedsRelinquishedRecheck (ps_now p) entry
         then ret (l, results @ [retained], None)
         else do {
           (relinquished, gone, err) \<leftarrow> relinquishIfStillTagged_sns v p entry;
           case err of
             Some e \<Rightarrow> ret (l, results, Some e)
           | None \<Rightarrow>
               if gone then ret (RemoveManagedResource l typeSNS (mr_Name entry), results, None)
               else do {
                 (if relinquished then recordEvent p ''Normal'' ''TopicOwnershipRelinquished'' [mr_Name entry, mr_ARN entry] else ret ());
                 ret (if pinsKey then UpsertManagedResource l (Relinquished (ps_now p) entry)
                      else RemoveManagedResource l typeSNS (mr_Name entry), results @ [retained], None)
               }
         })"

text \<open>\<open>Inr True\<close>: the topic is gone; \<open>Inr False\<close>: it exists and is ours.\<close>

definition verifyOwned_sns :: "env \<Rightarrow> pass \<Rightarrow> ManagedResource \<Rightarrow> (go_error + bool) op" where
  "verifyOwned_sns v p entry = do {
     t \<leftarrow> sns_ListTagsForResource v (mr_ARN entry);
     case t of
       Inl err \<Rightarrow>
         if isException ''ResourceNotFoundException'' err then ret (Inr True)
         else ret (Inl (wrapAWSError (ExtError err) ''re-verifying ownership of topic before delete''))
     | Inr tgs \<Rightarrow>
         if \<not> owned_by_pass p (tagsToMap tgs) then ret (Inl (OwnershipLostError ''topic'' (mr_Name entry) ''delete it''))
         else ret (Inr False)
   }"

text \<open>The paging loop of \<^verbatim>\<open>hasSubscriptions\<close>, bounded by the deadline of the context.\<close>

primrec subscriptionPages :: "env \<Rightarrow> string \<Rightarrow> nat \<Rightarrow> string option \<Rightarrow> (ext_error + bool) op" where
  "subscriptionPages v topicArn 0 nextToken = ret (Inl deadlineExceeded)"
| "subscriptionPages v topicArn (Suc n) nextToken = do {
     r \<leftarrow> sns_ListSubscriptionsByTopic v topicArn nextToken;
     case r of
       Inl e \<Rightarrow> ret (Inl e)
     | Inr out \<Rightarrow>
         if sb_Subscriptions out > 0 then ret (Inr True)
         else (case sb_NextToken out of
                 None \<Rightarrow> ret (Inr False)
               | Some t \<Rightarrow> subscriptionPages v topicArn n (Some t))
   }"

definition hasSubscriptions :: "env \<Rightarrow> pass \<Rightarrow> string \<Rightarrow> (ext_error + bool) op" where
  "hasSubscriptions v p topicArn = subscriptionPages v topicArn (ps_pageBudget p) None"

definition gateOnSubscriptions ::
  "env \<Rightarrow> pass \<Rightarrow> ManagedResource \<Rightarrow> ledger \<Rightarrow> topic_result list
   \<Rightarrow> (ledger \<times> topic_result list \<times> bool \<times> go_error option) op" where
  "gateOnSubscriptions v p entry l results =
     (if mr_PendingDeletionSince entry = None
      then do {
        e \<leftarrow> addPendingDeletionDeny_sns v (mr_ARN entry);
        case e of
          Some err \<Rightarrow> ret (l, results, False, Some (wrapAWSError err ''blocking new activity on topic pending deletion''))
        | None \<Rightarrow>
            (case markPendingDeletion_sns p l results entry of (l1, results1) \<Rightarrow> do {
               recordEvent p ''Warning'' ''TopicDeletionPending'' [mr_Name entry, mr_ARN entry];
               ret (l1, results1, False, None)
             })
      }
      else do {
        r \<leftarrow> hasSubscriptions v p (mr_ARN entry);
        case r of
          Inl err \<Rightarrow> ret (l, results, False, Some (wrapAWSError (ExtError err) ''checking topic for active subscriptions''))
        | Inr hasSubs \<Rightarrow>
            if hasSubs
            then (case markPendingDeletion_sns p l results (entry\<lparr>mr_LastEmptyCheckAt := Some (ps_now p)\<rparr>) of
                    (l1, results1) \<Rightarrow> ret (l1, results1, False, None))
            else ret (l, results, True, None)
      })"

definition deleteTopic :: "env \<Rightarrow> pass \<Rightarrow> ManagedResource \<Rightarrow> ledger \<Rightarrow> (ledger \<times> go_error option) op" where
  "deleteTopic v p entry l = do {
     r \<leftarrow> sns_DeleteTopic v (mr_ARN entry);
     case r of
       Inl err \<Rightarrow> ret (l, Some (wrapAWSError (ExtError err) ''deleting topic''))
     | Inr _ \<Rightarrow> do {
         recordEvent p ''Warning'' ''TopicDeleted'' [mr_Name entry, mr_ARN entry];
         ret (RemoveManagedResource l typeSNS (mr_Name entry), None)
       }
   }"

definition waitsQuietly_sns :: "pass \<Rightarrow> ManagedResource \<Rightarrow> bool" where
  "waitsQuietly_sns p entry =
     (case mr_PendingDeletionSince entry of None \<Rightarrow> False
      | Some t \<Rightarrow> since (ps_now p) t < deletionQuietWindow_sns \<or> \<not> NeedsEmptyCheck (ps_now p) entry)"

definition deleteUndeclared_sns ::
  "env \<Rightarrow> pass \<Rightarrow> bool \<Rightarrow> ManagedResource \<Rightarrow> ledger \<Rightarrow> topic_result list
   \<Rightarrow> (ledger \<times> topic_result list \<times> go_error option) op" where
  "deleteUndeclared_sns v p forceDeleteAll entry l results =
     (let forced = (mr_Force entry \<or> forceDeleteAll) in
      if \<not> forced \<and> waitsQuietly_sns p entry
      then ret (l, results @ [(mr_Name entry, pendingDeletionReason_sns p (the (mr_PendingDeletionSince entry)))], None)
      else do {
        r \<leftarrow> verifyOwned_sns v p entry;
        case r of
          Inl err \<Rightarrow> ret (l, results, Some err)
        | Inr gone \<Rightarrow>
            if gone then ret (RemoveManagedResource l typeSNS (mr_Name entry), results, None)
            else do {
              (l1, results1, proceed, err) \<leftarrow> (if forced then ret (l, results, True, None) else gateOnSubscriptions v p entry l results);
              if err \<noteq> None \<or> \<not> proceed then ret (l1, results1, err)
              else do {
                (l2, err2) \<leftarrow> deleteTopic v p entry l1;
                ret (l2, results1, err2)
              }
            }
      })"

primrec cleanupTopics ::
  "env \<Rightarrow> pass \<Rightarrow> (string \<Rightarrow> bool) \<Rightarrow> bool \<Rightarrow> ManagedResource list
   \<Rightarrow> ledger \<times> topic_result list \<times> go_error option \<Rightarrow> (ledger \<times> topic_result list \<times> go_error option) op" where
  "cleanupTopics v p declared force [] acc = ret acc"
| "cleanupTopics v p declared force (entry # rest) acc =
     (case acc of (l, results, firstErr) \<Rightarrow>
        if mr_Type entry \<noteq> typeSNS then cleanupTopics v p declared force rest acc
        else do {
          (l1, results1, entryErr) \<leftarrow>
            (if declared (mr_Name entry)
             then do { (l1, e) \<leftarrow> restoreDeclared_sns v p entry l; ret (l1, results, e) }
             else if mr_DeletionPolicy entry \<noteq> DeletionPolicyDelete then retain_sns v p entry l results
             else deleteUndeclared_sns v p force entry l results);
          cleanupTopics v p declared force rest (l1, results1, firstError firstErr entryErr)
        })"

definition Cleanup_sns ::
  "env \<Rightarrow> pass \<Rightarrow> SNSSpec option \<Rightarrow> ledger \<Rightarrow> bool \<Rightarrow> bool \<Rightarrow> (ledger \<times> topic_result list \<times> go_error option) op" where
  "Cleanup_sns v p spec l deleting forceDeleteAll =
     cleanupTopics v p (declaredTopicNames spec deleting) forceDeleteAll l (l, [], None)"

end
