(* ===== verification/Alarms.thy ===== *)
theory Alarms
  imports Kms Iam_Derive
begin

text \<open>
  CloudWatch alarms, \<^verbatim>\<open>internal/resources/alarms/alarms.go\<close>. Alarms have no ledger entries: the desired
  set is computed from the spec and diffed against what CloudWatch lists under the name prefix of
  the custom resource. The lemmas show that nothing is overwritten or deleted without proof of
  ownership, that a pass without an error leaves exactly the desired alarms, and for which names
  the prefix finds the alarms at all.
\<close>

section \<open>The alarms a spec asks for\<close>

record alarmDef =
  df_name :: string
  df_description :: string
  df_namespace :: string
  df_metricName :: string
  df_dimensionName :: string
  df_dimensionValue :: string
  df_statistic :: string
  df_comparisonOperator :: string
  df_threshold :: rat
  df_evaluationPeriods :: int
  df_period :: int
  df_treatMissingData :: string

text \<open>\<^verbatim>\<open>ownership\<close> beyond what the pass carries: the region and the account.\<close>

record alarmPlace =
  pl_region :: string
  pl_accountID :: string

definition queueNameDimension :: string where "queueNameDimension = ''QueueName''"
definition treatMissingDataNotBreaching :: string where "treatMissingDataNotBreaching = ''notBreaching''"
definition sqsAgeAlarmSuffix :: string where "sqsAgeAlarmSuffix = ''age''"
definition sqsDLQBackLogAlarmSuffix :: string where "sqsDLQBackLogAlarmSuffix = ''dlq-backlog''"
definition snsDeliveryFailedSuffix :: string where "snsDeliveryFailedSuffix = ''delivery-failed''"
definition dynamoReadThrottleSuffix :: string where "dynamoReadThrottleSuffix = ''read-throttle''"
definition dynamoWriteThrottleSuffix :: string where "dynamoWriteThrottleSuffix = ''write-throttle''"
definition sqsNameMaxLen_alarms :: int where "sqsNameMaxLen_alarms = 80"
definition snsNameMaxLen_alarms :: int where "snsNameMaxLen_alarms = 256"
definition dynamoNameMaxLen :: int where "dynamoNameMaxLen = 255"
definition alarmNameMaxLen :: int where "alarmNameMaxLen = 255"

definition queueAlarms :: "string \<Rightarrow> string \<Rightarrow> SQSQueueSpec \<Rightarrow> alarmDef list" where
  "queueAlarms ns crName q =
     \<lparr>df_name = ResourceName ns crName ''sqs'' (DerivedKey (q_Name q) sqsAgeAlarmSuffix) alarmNameMaxLen,
      df_description = ''Queue '' @ quoted (q_Name q) @ '' has a message older than 15 minutes - processing is falling behind.'',
      df_namespace = ''AWS/SQS'', df_metricName = ''ApproximateAgeOfOldestMessage'',
      df_dimensionName = queueNameDimension,
      df_dimensionValue = QueueOrTopicName ns crName ''sqs'' (q_FIFO q) sqsNameMaxLen_alarms [q_Name q],
      df_statistic = ''Maximum'', df_comparisonOperator = ''GreaterThanThreshold'', df_threshold = 900,
      df_evaluationPeriods = 3, df_period = 300, df_treatMissingData = treatMissingDataNotBreaching\<rparr>
   # (if q_DLQ q then
       [\<lparr>df_name = ResourceName ns crName ''sqs'' (DerivedKey (DerivedKey (q_Name q) ''dlq'') sqsDLQBackLogAlarmSuffix) alarmNameMaxLen,
         df_description = ''Queue '' @ quoted (q_Name q)
           @ [CHR 0x27] @ ''s dead-letter queue has at least one message - something is failing repeatedly.'',
         df_namespace = ''AWS/SQS'', df_metricName = ''ApproximateNumberOfMessagesVisible'',
         df_dimensionName = queueNameDimension,
         df_dimensionValue = QueueOrTopicName ns crName ''sqs'' (q_FIFO q) sqsNameMaxLen_alarms [q_Name q, ''dlq''],
         df_statistic = ''Maximum'', df_comparisonOperator = ''GreaterThanThreshold'', df_threshold = 0,
         df_evaluationPeriods = 1, df_period = 300, df_treatMissingData = treatMissingDataNotBreaching\<rparr>]
      else [])"

definition topicAlarm :: "string \<Rightarrow> string \<Rightarrow> SNSTopicSpec \<Rightarrow> alarmDef" where
  "topicAlarm ns crName t =
     \<lparr>df_name = ResourceName ns crName ''sns'' (DerivedKey (t_Name t) snsDeliveryFailedSuffix) alarmNameMaxLen,
      df_description = ''Topic '' @ quoted (t_Name t) @ '' failed to deliver at least one notification.'',
      df_namespace = ''AWS/SNS'', df_metricName = ''NumberOfNotificationsFailed'',
      df_dimensionName = ''TopicName'',
      df_dimensionValue = QueueOrTopicName ns crName ''sns'' (t_FIFO t) snsNameMaxLen_alarms [t_Name t],
      df_statistic = ''Sum'', df_comparisonOperator = ''GreaterThanThreshold'', df_threshold = 0,
      df_evaluationPeriods = 1, df_period = 300, df_treatMissingData = treatMissingDataNotBreaching\<rparr>"

definition tableAlarm :: "string \<Rightarrow> string \<Rightarrow> DynamoDBTableSpec \<Rightarrow> string \<Rightarrow> string \<Rightarrow> string \<Rightarrow> alarmDef" where
  "tableAlarm ns crName tbl sfx what metric =
     \<lparr>df_name = ResourceName ns crName ''dynamodb'' (DerivedKey (tb_Name tbl) sfx) alarmNameMaxLen,
      df_description = ''Table '' @ quoted (tb_Name tbl) @ '' is being '' @ what @ ''-throttled.'',
      df_namespace = ''AWS/DynamoDB'', df_metricName = metric,
      df_dimensionName = ''TableName'',
      df_dimensionValue = ResourceName ns crName ''dynamodb'' (tb_Name tbl) dynamoNameMaxLen,
      df_statistic = ''Sum'', df_comparisonOperator = ''GreaterThanThreshold'', df_threshold = 0,
      df_evaluationPeriods = 1, df_period = 300, df_treatMissingData = []\<rparr>"

definition desiredAlarms ::
  "string \<Rightarrow> string \<Rightarrow> SQSSpec option \<Rightarrow> SNSSpec option \<Rightarrow> DynamoDBSpec option \<Rightarrow> alarmDef list" where
  "desiredAlarms ns crName sqsSpec snsSpec dynamodbSpec =
     (case sqsSpec of None \<Rightarrow> [] | Some s \<Rightarrow> concat (map (queueAlarms ns crName) (sqs_Resources s)))
   @ (case snsSpec of None \<Rightarrow> [] | Some s \<Rightarrow> map (topicAlarm ns crName) (sns_Resources s))
   @ (case dynamodbSpec of None \<Rightarrow> []
      | Some s \<Rightarrow> concat (map (\<lambda>tbl.
          [tableAlarm ns crName tbl dynamoReadThrottleSuffix ''read'' ''ReadThrottleEvents'',
           tableAlarm ns crName tbl dynamoWriteThrottleSuffix ''write'' ''WriteThrottleEvents'']) (ddb_Resources s)))"

definition alarmARN :: "alarmPlace \<Rightarrow> string \<Rightarrow> string" where
  "alarmARN pl alarmName = ''arn:aws:cloudwatch:'' @ pl_region pl @ '':'' @ pl_accountID pl @ '':alarm:'' @ alarmName"

definition AlarmARNs ::
  "alarmPlace \<Rightarrow> string \<Rightarrow> string \<Rightarrow> AlarmsSpec option \<Rightarrow> SQSSpec option \<Rightarrow> SNSSpec option \<Rightarrow> DynamoDBSpec option
   \<Rightarrow> string list" where
  "AlarmARNs pl ns crName alarmsSpec sqsSpec snsSpec dynamodbSpec =
     (case alarmsSpec of None \<Rightarrow> []
      | Some a \<Rightarrow> if \<not> al_Enabled a then []
                  else map (\<lambda>d. alarmARN pl (df_name d)) (desiredAlarms ns crName sqsSpec snsSpec dynamodbSpec))"

section \<open>Comparing with an existing alarm\<close>

text \<open>\<^verbatim>\<open>aws.ToString\<close> and its siblings read a nil pointer as the zero value.\<close>

definition toString :: "string option \<Rightarrow> string" where
  "toString s = (case s of None \<Rightarrow> [] | Some x \<Rightarrow> x)"

definition toNumber :: "'a::zero option \<Rightarrow> 'a" where
  "toNumber n = (case n of None \<Rightarrow> 0 | Some x \<Rightarrow> x)"

definition hasSettingsWeDoNotSet :: "MetricAlarm \<Rightarrow> bool" where
  "hasSettingsWeDoNotSet current =
     (if ma_Metrics current > 0 \<or> ma_InsufficientDataActions current \<noteq> [] \<or> ma_DatapointsToAlarm current \<noteq> None
         \<or> ma_ExtendedStatistic current \<noteq> None \<or> ma_Unit current \<noteq> [] \<or> ma_EvaluateLowSampleCountPercentile current \<noteq> None
      then True
      else ma_ActionsEnabled current = Some False)"

definition sameMetric :: "MetricAlarm \<Rightarrow> alarmDef \<Rightarrow> bool" where
  "sameMetric current d =
     (case ma_Dimensions current of
        [(n, x)] \<Rightarrow> toString n = df_dimensionName d \<and> toString x = df_dimensionValue d
          \<and> toString (ma_AlarmDescription current) = df_description d
          \<and> toString (ma_Namespace current) = df_namespace d
          \<and> toString (ma_MetricName current) = df_metricName d
          \<and> ma_Statistic current = df_statistic d
      | _ \<Rightarrow> False)"

definition sameEvaluation :: "MetricAlarm \<Rightarrow> alarmDef \<Rightarrow> bool" where
  "sameEvaluation current d \<longleftrightarrow>
     ma_ComparisonOperator current = df_comparisonOperator d
     \<and> toNumber (ma_Threshold current) = df_threshold d
     \<and> toNumber (ma_EvaluationPeriods current) = df_evaluationPeriods d
     \<and> toNumber (ma_Period current) = df_period d"

definition alarmMatches :: "MetricAlarm \<Rightarrow> alarmDef \<Rightarrow> string list \<Rightarrow> bool" where
  "alarmMatches current d actions =
     (if hasSettingsWeDoNotSet current then False
      else if df_treatMissingData d \<noteq> [] \<and> toString (ma_TreatMissingData current) \<noteq> df_treatMissingData d then False
      else sameMetric current d \<and> sameEvaluation current d
           \<and> ma_AlarmActions current = actions \<and> ma_OKActions current = actions)"

section \<open>Reconciling\<close>

primrec alarmPages :: "env \<Rightarrow> string \<Rightarrow> nat \<Rightarrow> string option \<Rightarrow> MetricAlarm list \<Rightarrow> (ext_error + MetricAlarm list) op" where
  "alarmPages v pfx 0 nextToken all = ret (Inl deadlineExceeded)"
| "alarmPages v pfx (Suc n) nextToken all = do {
     r \<leftarrow> cw_DescribeAlarms v pfx nextToken;
     case r of
       Inl e \<Rightarrow> ret (Inl e)
     | Inr out \<Rightarrow>
         (case alp_NextToken out of
            None \<Rightarrow> ret (Inr (all @ alp_MetricAlarms out))
          | Some t \<Rightarrow> alarmPages v pfx n (Some t) (all @ alp_MetricAlarms out))
   }"

definition listAlarmsByPrefix :: "env \<Rightarrow> pass \<Rightarrow> string \<Rightarrow> (ext_error + MetricAlarm list) op" where
  "listAlarmsByPrefix v p pfx = alarmPages v pfx (ps_pageBudget p) None []"

record alarmOwner =
  ao_ours :: bool
  ao_transferable :: bool

definition ownerOfTags :: "pass \<Rightarrow> tags \<Rightarrow> alarmOwner" where
  "ownerOfTags p tgs =
     (if owned_by_pass p tgs then \<lparr>ao_ours = True, ao_transferable = False\<rparr>
      else \<lparr>ao_ours = False,
            ao_transferable = (case IsStaleUID tgs (ps_namespace p) (ps_crName p) (ps_crUID p) of
                                 None \<Rightarrow> False | Some staleUID \<Rightarrow> MayTransferFrom p staleUID)\<rparr>)"

definition alarmOwnership :: "env \<Rightarrow> pass \<Rightarrow> alarmPlace \<Rightarrow> string \<Rightarrow> (go_error + alarmOwner) op" where
  "alarmOwnership v p pl alarmName = do {
     r \<leftarrow> cw_ListTagsForResource v (alarmARN pl alarmName);
     case r of
       Inl err \<Rightarrow> ret (Inl (wrapAWSError (ExtError err) ''reading alarm tags''))
     | Inr tgs \<Rightarrow> ret (Inr (ownerOfTags p (tagsToMap tgs)))
   }"

definition isAlarmOwnedByUs :: "env \<Rightarrow> pass \<Rightarrow> alarmPlace \<Rightarrow> string \<Rightarrow> (go_error + bool) op" where
  "isAlarmOwnedByUs v p pl alarmName = do {
     r \<leftarrow> alarmOwnership v p pl alarmName;
     ret (map_sum id ao_ours r)
   }"

definition alarmInput :: "pass \<Rightarrow> alarmDef \<Rightarrow> bool \<Rightarrow> string list \<Rightarrow> PutMetricAlarmInput" where
  "alarmInput p d isCreate actions =
     \<lparr>pm_AlarmName = df_name d, pm_AlarmDescription = df_description d, pm_Namespace = df_namespace d,
      pm_MetricName = df_metricName d, pm_Dimension = (df_dimensionName d, df_dimensionValue d),
      pm_Statistic = df_statistic d, pm_ComparisonOperator = df_comparisonOperator d,
      pm_Threshold = df_threshold d, pm_EvaluationPeriods = df_evaluationPeriods d, pm_Period = df_period d,
      pm_TreatMissingData = (if df_treatMissingData d \<noteq> [] then Some (df_treatMissingData d) else None),
      pm_AlarmActions = actions, pm_OKActions = actions,
      pm_Tags = (if isCreate then Some (ownerTags p) else None)\<rparr>"

definition putAlarm :: "env \<Rightarrow> pass \<Rightarrow> alarmDef \<Rightarrow> bool \<Rightarrow> string list \<Rightarrow> go_error option op" where
  "putAlarm v p d isCreate actions = do {
     r \<leftarrow> cw_PutMetricAlarm v (alarmInput p d isCreate actions);
     case r of
       Inl err \<Rightarrow> ret (Some (wrapAWSError (ExtError err) ''creating/updating alarm''))
     | Inr _ \<Rightarrow> ret None
   }"

definition reconcileAlarm ::
  "env \<Rightarrow> pass \<Rightarrow> alarmPlace \<Rightarrow> alarmDef \<Rightarrow> MetricAlarm option \<Rightarrow> string list \<Rightarrow> go_error option op" where
  "reconcileAlarm v p pl d current actions =
     (let matches = (case current of None \<Rightarrow> False | Some a \<Rightarrow> alarmMatches a d actions) in
      if matches \<and> \<not> TakingOver p then ret None
      else case current of
             None \<Rightarrow> putAlarm v p d True actions
           | Some _ \<Rightarrow> do {
               r \<leftarrow> alarmOwnership v p pl (df_name d);
               case r of
                 Inl err \<Rightarrow> ret (Some err)
               | Inr owner \<Rightarrow>
                   if ao_ours owner then (if matches then ret None else putAlarm v p d False actions)
                   else if ao_transferable owner then do {
                     x \<leftarrow> cw_DeleteAlarms v [df_name d];
                     case x of
                       Inl err \<Rightarrow> ret (Some (wrapAWSError (ExtError err) ''replacing alarm from a previous incarnation of this CR''))
                     | Inr _ \<Rightarrow> putAlarm v p d True actions
                   }
                   else ret (Some (ReconcileError
                     (msgError ''alarm already exists but isn't tagged as owned by this CR'' [df_name d]) False ''NameTaken'' False))
             })"

text \<open>\<^verbatim>\<open>existingByName\<close>: of two listed alarms with one name the later is kept.\<close>

definition existingByName :: "MetricAlarm list \<Rightarrow> string \<rightharpoonup> MetricAlarm" where
  "existingByName existing = map_of (rev (map (\<lambda>a. (toString (ma_AlarmName a), a)) existing))"

definition existingNames :: "MetricAlarm list \<Rightarrow> string list" where
  "existingNames existing = remdups (map (\<lambda>a. toString (ma_AlarmName a)) existing)"

primrec reconcileDesired ::
  "env \<Rightarrow> pass \<Rightarrow> alarmPlace \<Rightarrow> (string \<rightharpoonup> MetricAlarm) \<Rightarrow> string list \<Rightarrow> alarmDef list \<Rightarrow> go_error option
   \<Rightarrow> go_error option op" where
  "reconcileDesired v p pl existing actions [] firstErr = ret firstErr"
| "reconcileDesired v p pl existing actions (d # ds) firstErr = do {
     e \<leftarrow> reconcileAlarm v p pl d (existing (df_name d)) actions;
     reconcileDesired v p pl existing actions ds (firstError firstErr e)
   }"

primrec ownedUndeclared ::
  "env \<Rightarrow> pass \<Rightarrow> alarmPlace \<Rightarrow> string list \<Rightarrow> string list \<Rightarrow> string list \<times> go_error option
   \<Rightarrow> (string list \<times> go_error option) op" where
  "ownedUndeclared v p pl desired [] acc = ret acc"
| "ownedUndeclared v p pl desired (name # names) acc =
     (if name \<in> set desired then ownedUndeclared v p pl desired names acc
      else do {
        r \<leftarrow> isAlarmOwnedByUs v p pl name;
        ownedUndeclared v p pl desired names
          (case acc of (toDelete, firstErr) \<Rightarrow>
             (case r of Inl err \<Rightarrow> (toDelete, firstError firstErr (Some err))
              | Inr owned \<Rightarrow> (if owned then toDelete @ [name] else toDelete, firstErr)))
      })"

definition deleteUndeclaredAlarms ::
  "env \<Rightarrow> pass \<Rightarrow> alarmPlace \<Rightarrow> string list \<Rightarrow> string list \<Rightarrow> go_error option op" where
  "deleteUndeclaredAlarms v p pl existing desired = do {
     (toDelete, firstErr) \<leftarrow> ownedUndeclared v p pl desired (env_mapOrder v existing) ([], None);
     (if toDelete = [] then ret firstErr
      else do {
        r \<leftarrow> cw_DeleteAlarms v toDelete;
        case r of
          Inl err \<Rightarrow> ret (firstError firstErr (Some (wrapAWSError (ExtError err) ''deleting alarms no longer declared'')))
        | Inr _ \<Rightarrow> ret firstErr
      })
   }"

definition alarmPrefix :: "string \<Rightarrow> string \<Rightarrow> string" where
  "alarmPrefix ns crName = ns @ ''-'' @ crName @ ''-''"

definition reconcileAlarms ::
  "env \<Rightarrow> pass \<Rightarrow> alarmPlace \<Rightarrow> alarmDef list \<Rightarrow> string list \<Rightarrow> go_error option op" where
  "reconcileAlarms v p pl desired actions = do {
     r \<leftarrow> listAlarmsByPrefix v p (alarmPrefix (ps_namespace p) (ps_crName p));
     case r of
       Inl err \<Rightarrow> ret (Some (wrapAWSError (ExtError err) ''listing alarms''))
     | Inr existing \<Rightarrow> do {
         firstErr \<leftarrow> reconcileDesired v p pl (existingByName existing) actions desired None;
         e \<leftarrow> deleteUndeclaredAlarms v p pl (existingNames existing) (map df_name desired);
         ret (firstError firstErr e)
       }
   }"

definition mayExistAfterFailure :: "bool option \<Rightarrow> bool" where
  "mayExistAfterFailure mayExist \<longleftrightarrow> mayExist = None \<or> mayExist = Some True"

definition Ensure_alarms ::
  "env \<Rightarrow> pass \<Rightarrow> alarmPlace \<Rightarrow> AlarmsSpec option \<Rightarrow> SQSSpec option \<Rightarrow> SNSSpec option \<Rightarrow> DynamoDBSpec option \<Rightarrow> bool option
   \<Rightarrow> (bool \<times> go_error option) op" where
  "Ensure_alarms v p pl alarmsSpec sqsSpec snsSpec dynamodbSpec mayExist =
     (let desired = (case alarmsSpec of None \<Rightarrow> []
            | Some a \<Rightarrow> if al_Enabled a then desiredAlarms (ps_namespace p) (ps_crName p) sqsSpec snsSpec dynamodbSpec else [])
      in do {
        actions \<leftarrow> (case alarmsSpec of None \<Rightarrow> ret (Inr [])
          | Some a \<Rightarrow> (case al_SnsTopicRef a of None \<Rightarrow> ret (Inr [])
              | Some ref \<Rightarrow> do {
                  (arn, err) \<leftarrow> ResolveConsumeARN v (ps_namespace p) (ps_crName p) typeSNS ref;
                  (case err of
                     Some e \<Rightarrow> ret (Inl e)
                   | None \<Rightarrow>
                       (case arn of
                          None \<Rightarrow> ret (Inl (ReconcileError (msgError ''alarms.snsTopicRef is not yet authorized or does not exist yet''
                                    [cr_Namespace ref, cr_Name ref, cr_ResourceName ref]) True [] True))
                        | Some x \<Rightarrow> ret (Inr [x])))
                }));
        case actions of
          Inl e \<Rightarrow> ret (mayExistAfterFailure mayExist, Some e)
        | Inr alarmActions \<Rightarrow>
            if desired = [] \<and> mayExist = Some False then ret (False, None)
            else do {
              e \<leftarrow> reconcileAlarms v p pl desired alarmActions;
              case e of Some err \<Rightarrow> ret (True, Some err) | None \<Rightarrow> ret (desired \<noteq> [], None)
            }
      })"

definition Cleanup_alarms :: "env \<Rightarrow> pass \<Rightarrow> alarmPlace \<Rightarrow> go_error option op" where
  "Cleanup_alarms v p pl = reconcileAlarms v p pl [] []"

section \<open>Nothing is touched without proof of ownership\<close>

text \<open>A complete listing under a prefix: pages that follow one another to the last one, all of them answered.\<close>

fun completeListing :: "history \<Rightarrow> string \<Rightarrow> string option \<Rightarrow> AlarmPage list \<Rightarrow> bool" where
  "completeListing pre pfx tok [] \<longleftrightarrow> False"
| "completeListing pre pfx tok (pg # pgs) \<longleftrightarrow>
     CWCall (DescribeAlarms pfx tok (Inr pg)) \<in> set pre
     \<and> (case alp_NextToken pg of None \<Rightarrow> pgs = [] | Some t \<Rightarrow> completeListing pre pfx (Some t) pgs)"

definition listedNames :: "AlarmPage list \<Rightarrow> string set" where
  "listedNames pgs = (\<Union>pg\<in>set pgs. (\<lambda>a. toString (ma_AlarmName a)) ` set (alp_MetricAlarms pg))"

definition tagsShow :: "(alarmOwner \<Rightarrow> bool) \<Rightarrow> pass \<Rightarrow> alarmPlace \<Rightarrow> history \<Rightarrow> string \<Rightarrow> bool" where
  "tagsShow P p pl pre n \<longleftrightarrow> (\<exists>ts. CWCall (ListAlarmTags (alarmARN pl n) (Inr ts)) \<in> set pre \<and> P (ownerOfTags p (tagsToMap ts)))"

text \<open>
  What must have happened before a call that changes alarms: a deletion names alarms whose tags were
  read and are ours or may be taken over; an update follows a read that shows the alarm is ours; a
  creation, which carries the owner tags, follows a complete listing without that name, or the
  deletion of an alarm that may be taken over.
\<close>

definition alarmGuard :: "pass \<Rightarrow> alarmPlace \<Rightarrow> history \<Rightarrow> call \<Rightarrow> bool" where
  "alarmGuard p pl pre c = (case c of
     CWCall (DeleteAlarms ns r) \<Rightarrow> \<forall>n\<in>set ns. tagsShow (\<lambda>x. ao_ours x \<or> ao_transferable x) p pl pre n
   | CWCall (PutMetricAlarm i r) \<Rightarrow>
       (case pm_Tags i of
          None \<Rightarrow> tagsShow ao_ours p pl pre (pm_AlarmName i)
        | Some t \<Rightarrow> t = ownerTags p
            \<and> ((\<exists>pgs. completeListing pre (alarmPrefix (ps_namespace p) (ps_crName p)) None pgs
                   \<and> pm_AlarmName i \<notin> listedNames pgs)
               \<or> tagsShow ao_transferable p pl pre (pm_AlarmName i)
                   \<and> CWCall (DeleteAlarms [pm_AlarmName i] (Inr ())) \<in> set pre))
   | _ \<Rightarrow> True)"

lemma completeListing_mono: "completeListing pre pfx tok pgs \<Longrightarrow> set pre \<subseteq> set pre' \<Longrightarrow> completeListing pre' pfx tok pgs"
  by (induction pgs arbitrary: tok) (auto split: option.splits)

lemma tagsShow_mono: "tagsShow P p pl pre n \<Longrightarrow> set pre \<subseteq> set pre' \<Longrightarrow> tagsShow P p pl pre' n"
  by (auto simp: tagsShow_def)

lemma alarmGuard_mono: "alarmGuard p pl pre c \<Longrightarrow> set pre \<subseteq> set pre' \<Longrightarrow> alarmGuard p pl pre' c"
  unfolding alarmGuard_def
  by (auto split: call.splits cw_call.splits option.splits intro: completeListing_mono tagsShow_mono)

lemma leftmono_alarmGuard: "leftmono (alarmGuard p pl)"
  by (auto simp: leftmono_def intro: alarmGuard_mono)

lemma cw_ops [emits_intros]:
  "(\<And>r. C (CWCall (DescribeAlarms n t r))) \<Longrightarrow> emits C (cw_DescribeAlarms v n t)"
  "(\<And>r. C (CWCall (PutMetricAlarm i r))) \<Longrightarrow> emits C (cw_PutMetricAlarm v i)"
  "(\<And>r. C (CWCall (DeleteAlarms ns r))) \<Longrightarrow> emits C (cw_DeleteAlarms v ns)"
  "(\<And>r. C (CWCall (ListAlarmTags a r))) \<Longrightarrow> emits C (cw_ListTagsForResource v a)"
  by (simp_all add: op_defs emits_invoke)

lemma emits_putAlarm: "(\<And>r. C (CWCall (PutMetricAlarm (alarmInput p d b actions) r))) \<Longrightarrow> emits C (putAlarm v p d b actions)"
  unfolding putAlarm_def by (intro emits_intros)

text \<open>The listing is complete when it succeeds, and the alarms it returns are those of its pages.\<close>

lemma alarmPages_listing:
  "wp (alarmPages v pfx n tok all)
     (\<lambda>r w'. \<exists>new. trace w' = trace w @ new \<and> (\<forall>c\<in>set new. \<exists>t x. c = CWCall (DescribeAlarms pfx t x))
        \<and> (\<forall>as. r = Inr as \<longrightarrow> (\<exists>pgs. completeListing new pfx tok pgs \<and> as = all @ concat (map alp_MetricAlarms pgs)))) w"
proof (induction n arbitrary: tok all w)
  case 0
  then show ?case by (simp add: wp_simps)
next
  case (Suc n)
  let ?r = "ca_DescribeAlarms (env_cw v) (trace w) pfx tok"
  let ?c = "CWCall (DescribeAlarms pfx tok ?r)"
  show ?case
  proof (cases ?r)
    case (Inl e)
    then show ?thesis by (simp add: cw_DescribeAlarms_def wp_simps)
  next
    case (Inr pg)
    show ?thesis
    proof (cases "alp_NextToken pg")
      case None
      with Inr show ?thesis
        by (simp add: cw_DescribeAlarms_def wp_simps) (rule exI [of _ "[pg]"], simp)
    next
      case (Some t)
      let ?w1 = "w\<lparr>trace := trace w @ [?c]\<rparr>"
      have "wp (alarmPages v pfx n (Some t) (all @ alp_MetricAlarms pg))
        (\<lambda>r w'. \<exists>new. trace w' = trace w @ new \<and> (\<forall>c\<in>set new. \<exists>t x. c = CWCall (DescribeAlarms pfx t x))
           \<and> (\<forall>as. r = Inr as \<longrightarrow> (\<exists>pgs. completeListing new pfx tok pgs \<and> as = all @ concat (map alp_MetricAlarms pgs)))) ?w1"
      proof (rule wp_conseq [OF Suc.IH], elim exE conjE)
        fix r w' new
        assume new: "trace w' = trace ?w1 @ new" "\<forall>c\<in>set new. \<exists>t x. c = CWCall (DescribeAlarms pfx t x)"
          and r: "\<forall>as. r = Inr as \<longrightarrow> (\<exists>pgs. completeListing new pfx (Some t) pgs
                    \<and> as = (all @ alp_MetricAlarms pg) @ concat (map alp_MetricAlarms pgs))"
        have "\<exists>pgs. completeListing (?c # new) pfx tok pgs \<and> as = all @ concat (map alp_MetricAlarms pgs)" if eq: "r = Inr as" for as
        proof -
          obtain pgs where "completeListing new pfx (Some t) pgs"
            "as = (all @ alp_MetricAlarms pg) @ concat (map alp_MetricAlarms pgs)" using r eq by blast
          then show ?thesis
            using Some Inr completeListing_mono [of new pfx "Some t" pgs "?c # new"]
            by (intro exI [of _ "pg # pgs"]) auto
        qed
        with new show "\<exists>new. trace w' = trace w @ new \<and> (\<forall>c\<in>set new. \<exists>t x. c = CWCall (DescribeAlarms pfx t x))
           \<and> (\<forall>as. r = Inr as \<longrightarrow> (\<exists>pgs. completeListing new pfx tok pgs \<and> as = all @ concat (map alp_MetricAlarms pgs)))"
          by (intro exI [of _ "?c # new"]) auto
      qed
      with Inr Some show ?thesis by (simp add: cw_DescribeAlarms_def wp_simps)
    qed
  qed
qed
lemma alarmGuard_calls:
  "tagsShow ao_ours p pl pre (df_name d) \<Longrightarrow> alarmGuard p pl pre (CWCall (PutMetricAlarm (alarmInput p d False acts) r))"
  "completeListing pre (alarmPrefix (ps_namespace p) (ps_crName p)) None pgs \<Longrightarrow> df_name d \<notin> listedNames pgs
    \<Longrightarrow> alarmGuard p pl pre (CWCall (PutMetricAlarm (alarmInput p d True acts) r))"
  "tagsShow ao_transferable p pl pre (df_name d) \<Longrightarrow> CWCall (DeleteAlarms [df_name d] (Inr ())) \<in> set pre
    \<Longrightarrow> alarmGuard p pl pre (CWCall (PutMetricAlarm (alarmInput p d True acts) r))"
  "alarmGuard p pl pre (CWCall (ListAlarmTags a r2))" "alarmGuard p pl pre (CWCall (DescribeAlarms x t r3))"
  "alarmGuard p pl pre (K8sCall k)"
  by (auto simp: alarmGuard_def alarmInput_def)

lemma alarmOwnership_shows:
  "wp (alarmOwnership v p pl n) (\<lambda>r w'. \<exists>new. trace w' = trace w @ new \<and> guardedTrace (\<lambda>x. alarmGuard p pl (pre @ x)) new
      \<and> (\<forall>ow. r = Inr ow \<longrightarrow> tagsShow (\<lambda>x. x = ow) p pl new n)) w"
proof -
  let ?r = "ca_ListTagsForResource (env_cw v) (trace w) (alarmARN pl n)"
  have g: "guardedTrace (\<lambda>x. alarmGuard p pl (pre @ x)) [CWCall (ListAlarmTags (alarmARN pl n) ?r)]"
    using guardedTrace_snoc [of "\<lambda>x. alarmGuard p pl (pre @ x)" "[]"] by (simp add: alarmGuard_calls)
  show ?thesis
  proof (cases ?r)
    case (Inl e)
    with g show ?thesis by (simp add: alarmOwnership_def cw_ListTagsForResource_def wp_simps)
  next
    case (Inr ts)
    with g show ?thesis
      by (auto simp: alarmOwnership_def cw_ListTagsForResource_def wp_simps tagsShow_def)
  qed
qed

lemma tagsShow_imp: "tagsShow (\<lambda>x. x = ow) p pl pre n \<Longrightarrow> P ow \<Longrightarrow> set pre \<subseteq> set pre' \<Longrightarrow> tagsShow P p pl pre' n"
  by (auto simp: tagsShow_def)

text \<open>Replacing an alarm that may be taken over: delete it, then create it anew.\<close>

lemma guards_replaceAlarm:
  assumes "tagsShow ao_transferable p pl pre (df_name d)"
  shows "guards (\<lambda>x. alarmGuard p pl (pre @ x)) (do {
      x \<leftarrow> cw_DeleteAlarms v [df_name d];
      case x of Inl err \<Rightarrow> ret (f err) | Inr u \<Rightarrow> putAlarm v p d True acts })"
  unfolding cw_DeleteAlarms_def
proof (rule guards_after_invoke [where C = "\<lambda>r c. r = Inr () \<and> (\<exists>y. c = CWCall (PutMetricAlarm (alarmInput p d True acts) y))"])
  fix r :: "unit reply" and x :: history and c
  show "alarmGuard p pl (pre @ []) (CWCall (DeleteAlarms [df_name d] r))"
    using assms by (auto simp: alarmGuard_def tagsShow_def)
  assume "r = Inr () \<and> (\<exists>y. c = CWCall (PutMetricAlarm (alarmInput p d True acts) y))"
  then show "alarmGuard p pl (pre @ CWCall (DeleteAlarms [df_name d] r) # x) c"
    by (elim conjE exE) (simp add: alarmGuard_calls(3) [OF tagsShow_mono [OF assms]] subset_iff)
next
  fix r :: "unit reply"
  show "emits (\<lambda>c. r = Inr () \<and> (\<exists>y. c = CWCall (PutMetricAlarm (alarmInput p d True acts) y)))
      (case r of Inl err \<Rightarrow> ret (f err) | Inr u \<Rightarrow> putAlarm v p d True acts)"
    by (intro emits_intros emits_putAlarm) auto
qed

lemma guards_reconcileAlarm:
  assumes "completeListing pre (alarmPrefix (ps_namespace p) (ps_crName p)) None pgs"
    and "current = None \<Longrightarrow> df_name d \<notin> listedNames pgs"
  shows "guards (\<lambda>x. alarmGuard p pl (pre @ x)) (reconcileAlarm v p pl d current acts)"
  unfolding reconcileAlarm_def Let_def
proof (intro guards_intros)
  assume "current = None"
  then show "guards (\<lambda>x. alarmGuard p pl (pre @ x)) (putAlarm v p d True acts)"
    using assms completeListing_mono [OF assms(1)]
    by (intro guards_emits [OF emits_putAlarm [where C = "\<lambda>c. \<exists>y. c = CWCall (PutMetricAlarm (alarmInput p d True acts) y)"]])
      (auto intro!: alarmGuard_calls(2))
next
  fix a
  show "guards (\<lambda>x. alarmGuard p pl (pre @ x)) (do {
      r \<leftarrow> alarmOwnership v p pl (df_name d);
      case r of
        Inl err \<Rightarrow> ret (Some err)
      | Inr owner \<Rightarrow>
          if ao_ours owner then (if case current of None \<Rightarrow> False | Some a \<Rightarrow> alarmMatches a d acts then ret None else putAlarm v p d False acts)
          else if ao_transferable owner then do {
            x \<leftarrow> cw_DeleteAlarms v [df_name d];
            case x of
              Inl err \<Rightarrow> ret (Some (wrapAWSError (ExtError err) ''replacing alarm from a previous incarnation of this CR''))
            | Inr _ \<Rightarrow> putAlarm v p d True acts
          }
          else ret (Some (ReconcileError
            (msgError ''alarm already exists but isn't tagged as owned by this CR'' [df_name d]) False ''NameTaken'' False)) })"
  proof (rule guards_seq [OF alarmOwnership_shows])
    fix r :: "go_error + alarmOwner" and new :: history
    assume sh: "\<forall>ow. r = Inr ow \<longrightarrow> tagsShow (\<lambda>x. x = ow) p pl new (df_name d)"
    have upd: "guards (\<lambda>x. alarmGuard p pl (pre @ new @ x)) (putAlarm v p d False acts)" if "r = Inr ow" "ao_ours ow" for ow
      using sh that
      by (intro guards_emits [OF emits_putAlarm [where C = "\<lambda>c. \<exists>y. c = CWCall (PutMetricAlarm (alarmInput p d False acts) y)"]])
        (auto intro!: alarmGuard_calls(1) elim!: tagsShow_imp)
    have repl: "tagsShow ao_transferable p pl (pre @ new) (df_name d)" if "r = Inr ow" "ao_transferable ow" for ow
      using sh that by (auto elim!: tagsShow_imp)
    show "guards (\<lambda>x. alarmGuard p pl (pre @ new @ x)) (case r of
        Inl err \<Rightarrow> ret (Some err)
      | Inr owner \<Rightarrow>
          if ao_ours owner then (if case current of None \<Rightarrow> False | Some a \<Rightarrow> alarmMatches a d acts then ret None else putAlarm v p d False acts)
          else if ao_transferable owner then do {
            x \<leftarrow> cw_DeleteAlarms v [df_name d];
            case x of
              Inl err \<Rightarrow> ret (Some (wrapAWSError (ExtError err) ''replacing alarm from a previous incarnation of this CR''))
            | Inr _ \<Rightarrow> putAlarm v p d True acts
          }
          else ret (Some (ReconcileError
            (msgError ''alarm already exists but isn't tagged as owned by this CR'' [df_name d]) False ''NameTaken'' False)))"
      using guards_replaceAlarm [OF repl] upd by (intro guards_intros) simp_all
  qed
qed

lemma existingByName_None: "existingByName as n = None \<longleftrightarrow> n \<notin> (\<lambda>a. toString (ma_AlarmName a)) ` set as"
  by (auto simp: existingByName_def map_of_eq_None_iff image_iff)

lemma listedNames_concat:
  "as = concat (map alp_MetricAlarms pgs) \<Longrightarrow> listedNames pgs = (\<lambda>a. toString (ma_AlarmName a)) ` set as"
  by (auto simp: listedNames_def)

lemma leftmono_shifted: "leftmono (\<lambda>x. alarmGuard p pl (pre @ x))"
  by (auto simp: leftmono_def intro: alarmGuard_mono)

lemma guards_reconcileDesired:
  assumes "completeListing pre (alarmPrefix (ps_namespace p) (ps_crName p)) None pgs"
    and "as = concat (map alp_MetricAlarms pgs)"
  shows "guards (\<lambda>x. alarmGuard p pl (pre @ x)) (reconcileDesired v p pl (existingByName as) acts ds err)"
proof (induction ds arbitrary: err)
  case (Cons d ds)
  show ?case
    unfolding reconcileDesired.simps
    by (intro guards_bind [OF leftmono_shifted] guards_reconcileAlarm [OF assms(1)] Cons.IH)
      (simp add: existingByName_None listedNames_concat [OF assms(2)])
qed (simp add: guards_ret)

lemma ownedUndeclared_shows:
  "wp (ownedUndeclared v p pl desired names (del, err))
     (\<lambda>r w'. \<exists>new. trace w' = trace w @ new \<and> guardedTrace (\<lambda>x. alarmGuard p pl (pre @ x)) new
        \<and> (\<exists>more. fst r = del @ more \<and> (\<forall>n\<in>set more. tagsShow ao_ours p pl new n))) w"
proof (induction names arbitrary: del err w)
  case Nil
  then show ?case by (simp add: wp_simps)
next
  case (Cons name names)
  let ?next = "\<lambda>r. case r of Inl e \<Rightarrow> (del, firstError err (Some e)) | Inr owned \<Rightarrow> (if owned then del @ [name] else del, err)"
  show ?case
  proof (cases "name \<in> set desired")
    case True
    then show ?thesis using Cons.IH by simp
  next
    case False
    let ?r = "ca_ListTagsForResource (env_cw v) (trace w) (alarmARN pl name)"
    let ?c = "CWCall (ListAlarmTags (alarmARN pl name) ?r)"
    let ?o = "map_sum (\<lambda>e. wrapAWSError (ExtError e) ''reading alarm tags'') (\<lambda>ts. ao_ours (ownerOfTags p (tagsToMap ts))) ?r"
    let ?w1 = "w\<lparr>trace := trace w @ [?c]\<rparr>"
    have run: "wp (isAlarmOwnedByUs v p pl name) Q w = Q ?o ?w1" for Q
      by (cases ?r) (simp_all add: isAlarmOwnedByUs_def alarmOwnership_def cw_ListTagsForResource_def wp_simps)
    obtain del1 err1 where nx: "?next ?o = (del1, err1)" by fastforce
    have one: "\<exists>more. del1 = del @ more \<and> (\<forall>n\<in>set more. tagsShow ao_ours p pl [?c] n)"
      using nx by (cases ?r) (auto simp: tagsShow_def split: if_splits)
    have "wp (ownedUndeclared v p pl desired names (del1, err1))
       (\<lambda>r w'. \<exists>new. trace w' = trace w @ new \<and> guardedTrace (\<lambda>x. alarmGuard p pl (pre @ x)) new
          \<and> (\<exists>more. fst r = del @ more \<and> (\<forall>n\<in>set more. tagsShow ao_ours p pl new n))) ?w1"
    proof (rule wp_conseq [OF Cons.IH], elim exE conjE)
      fix r w' new more
      assume new: "trace w' = trace ?w1 @ new" "guardedTrace (\<lambda>x. alarmGuard p pl (pre @ x)) new"
        and more: "fst r = del1 @ more" "\<forall>n\<in>set more. tagsShow ao_ours p pl new n"
      have "guardedTrace (\<lambda>x. alarmGuard p pl (pre @ x)) [?c]"
        using guardedTrace_snoc [of "\<lambda>x. alarmGuard p pl (pre @ x)" "[]" ?c] by (simp add: alarmGuard_calls)
      then have "guardedTrace (\<lambda>x. alarmGuard p pl (pre @ x)) ([?c] @ new)"
        by (rule guardedTrace_append [OF leftmono_shifted _ new(2)])
      moreover from one obtain m1 where "del1 = del @ m1" "\<forall>n\<in>set m1. tagsShow ao_ours p pl [?c] n" by blast
      ultimately show "\<exists>new. trace w' = trace w @ new \<and> guardedTrace (\<lambda>x. alarmGuard p pl (pre @ x)) new
          \<and> (\<exists>more. fst r = del @ more \<and> (\<forall>n\<in>set more. tagsShow ao_ours p pl new n))"
        using new(1) more tagsShow_mono [of ao_ours p pl _ _ "[?c] @ new"]
        by (intro exI [of _ "[?c] @ new"] conjI exI [of _ "m1 @ more"]) auto
    qed
    with nx False run show ?thesis by (simp add: wp_bind)
  qed
qed

lemma guards_deleteUndeclared:
  "guards (\<lambda>x. alarmGuard p pl (pre @ x)) (deleteUndeclaredAlarms v p pl existing desired)"
  unfolding deleteUndeclaredAlarms_def
proof (rule guards_seq [OF ownedUndeclared_shows])
  fix r :: "string list \<times> go_error option" and new :: history
  assume "\<exists>more. fst r = [] @ more \<and> (\<forall>n\<in>set more. tagsShow ao_ours p pl new n)"
  then have ours: "\<forall>n\<in>set (fst r). tagsShow ao_ours p pl new n" by simp
  have g: "alarmGuard p pl (pre @ new @ x) (CWCall (DeleteAlarms (fst r) y))" for x y
    using ours by (fastforce simp: alarmGuard_def tagsShow_def)
  show "guards (\<lambda>x. alarmGuard p pl (pre @ new @ x)) (case r of (toDelete, firstErr) \<Rightarrow>
      if toDelete = [] then ret firstErr
      else do {
        r \<leftarrow> cw_DeleteAlarms v toDelete;
        case r of
          Inl err \<Rightarrow> ret (firstError firstErr (Some (wrapAWSError (ExtError err) ''deleting alarms no longer declared'')))
        | Inr _ \<Rightarrow> ret firstErr
      })"
  proof (rule guards_emits [where C = "\<lambda>c. \<exists>y. c = CWCall (DeleteAlarms (fst r) y)"])
    show "emits (\<lambda>c. \<exists>y. c = CWCall (DeleteAlarms (fst r) y)) (case r of (toDelete, firstErr) \<Rightarrow>
        if toDelete = [] then ret firstErr
        else do {
          r \<leftarrow> cw_DeleteAlarms v toDelete;
          case r of
            Inl err \<Rightarrow> ret (firstError firstErr (Some (wrapAWSError (ExtError err) ''deleting alarms no longer declared'')))
          | Inr _ \<Rightarrow> ret firstErr
        })"
      by (intro emits_intros) simp
  qed (use g in blast)
qed

lemma guards_reconcileAlarms: "guards (alarmGuard p pl) (reconcileAlarms v p pl desired acts)"
  unfolding reconcileAlarms_def listAlarmsByPrefix_def
proof (rule guards_seq)
  fix w :: world
  let ?pfx = "alarmPrefix (ps_namespace p) (ps_crName p)"
  show "wp (alarmPages v ?pfx (ps_pageBudget p) None [])
     (\<lambda>r w'. \<exists>new. trace w' = trace w @ new \<and> guardedTrace (alarmGuard p pl) new
        \<and> (\<forall>as. r = Inr as \<longrightarrow> (\<exists>pgs. completeListing new ?pfx None pgs \<and> as = concat (map alp_MetricAlarms pgs)))) w"
  proof (rule wp_conseq [OF alarmPages_listing], elim exE conjE)
    fix r w' new
    assume n: "trace w' = trace w @ new" "\<forall>c\<in>set new. \<exists>t x. c = CWCall (DescribeAlarms ?pfx t x)"
      and r: "\<forall>as. r = Inr as \<longrightarrow> (\<exists>pgs. completeListing new ?pfx None pgs \<and> as = [] @ concat (map alp_MetricAlarms pgs))"
    from n(2) have "guardedTrace (alarmGuard p pl) new" by (auto simp: guardedTrace_def alarmGuard_calls)
    with n(1) r show "\<exists>new. trace w' = trace w @ new \<and> guardedTrace (alarmGuard p pl) new
        \<and> (\<forall>as. r = Inr as \<longrightarrow> (\<exists>pgs. completeListing new ?pfx None pgs \<and> as = concat (map alp_MetricAlarms pgs)))"
      by auto
  qed
next
  fix r :: "ext_error + MetricAlarm list" and new :: history
  assume r: "\<forall>as. r = Inr as \<longrightarrow> (\<exists>pgs. completeListing new (alarmPrefix (ps_namespace p) (ps_crName p)) None pgs
      \<and> as = concat (map alp_MetricAlarms pgs))"
  have "guards (\<lambda>x. alarmGuard p pl (new @ x)) (reconcileDesired v p pl (existingByName as) acts desired None)"
    if eq: "r = Inr as" for as
  proof -
    obtain pgs where "completeListing new (alarmPrefix (ps_namespace p) (ps_crName p)) None pgs" "as = concat (map alp_MetricAlarms pgs)"
      using r eq by blast
    then show ?thesis by (rule guards_reconcileDesired)
  qed
  then show "guards (\<lambda>x. alarmGuard p pl (new @ x)) (case r of
       Inl err \<Rightarrow> ret (Some (wrapAWSError (ExtError err) ''listing alarms''))
     | Inr existing \<Rightarrow> do {
         firstErr \<leftarrow> reconcileDesired v p pl (existingByName existing) acts desired None;
         e \<leftarrow> deleteUndeclaredAlarms v p pl (existingNames existing) (map df_name desired);
         ret (firstError firstErr e)
       })"
    by (intro guards_intros guards_bind [OF leftmono_shifted] guards_deleteUndeclared)
qed

lemma emits_ResolveConsumeARN: "(\<And>ns n r. C (K8sCall (GetCR ns n r))) \<Longrightarrow> emits C (ResolveConsumeARN v ns name t ref)"
  unfolding ResolveConsumeARN_def resolveConsume_def lookupConsume_def k8s_GetCR_def
  by (intro emits_intros emits_invoke) auto

text \<open>C33: No alarm is overwritten or deleted without proof of ownership in the same run. A deletion
  names only alarms whose tags were read before and carry this custom resource's name and UID, or
  the UID it was told to take over from; an update of an existing alarm follows a read that shows it
  is ours; and an alarm is created, with the owner tags, only after a complete listing that does not
  contain its name, or after the alarm of a previous incarnation was deleted under the rule above.\<close>

theorem alarms_touched_only_when_ours:
  "guards (alarmGuard p pl) (Ensure_alarms v p pl alarmsSpec sqsSpec snsSpec dynamodbSpec mayExist)
   \<and> guards (alarmGuard p pl) (Cleanup_alarms v p pl)"
proof
  have r: "guards (alarmGuard p pl) (ResolveConsumeARN v ns name t ref)" for ns name t ref
    by (rule guards_emits [OF emits_ResolveConsumeARN [where C = "\<lambda>c. \<exists>k. c = K8sCall k"]]) (auto simp: alarmGuard_calls)
  show "guards (alarmGuard p pl) (Ensure_alarms v p pl alarmsSpec sqsSpec snsSpec dynamodbSpec mayExist)"
    unfolding Ensure_alarms_def Let_def
    by (intro guards_intros guards_bind [OF leftmono_alarmGuard] r guards_reconcileAlarms)
  show "guards (alarmGuard p pl) (Cleanup_alarms v p pl)"
    unfolding Cleanup_alarms_def by (rule guards_reconcileAlarms)
qed
section \<open>A pass without an error leaves the desired alarms\<close>

definition declaredDone :: "pass \<Rightarrow> string list \<Rightarrow> alarmDef \<Rightarrow> MetricAlarm option \<Rightarrow> history \<Rightarrow> bool" where
  "declaredDone p acts d current calls \<longleftrightarrow>
     (\<exists>a. current = Some a \<and> alarmMatches a d acts)
     \<or> (\<exists>b. CWCall (PutMetricAlarm (alarmInput p d b acts) (Inr ())) \<in> set calls)"

definition undeclaredDone :: "pass \<Rightarrow> alarmPlace \<Rightarrow> history \<Rightarrow> string \<Rightarrow> bool" where
  "undeclaredDone p pl calls n \<longleftrightarrow> (\<exists>ts. CWCall (ListAlarmTags (alarmARN pl n) (Inr ts)) \<in> set calls
     \<and> (owned_by_pass p (tagsToMap ts) \<longrightarrow> (\<exists>ns. n \<in> set ns \<and> CWCall (DeleteAlarms ns (Inr ())) \<in> set calls)))"

lemma declaredDone_mono: "declaredDone p acts d current calls \<Longrightarrow> set calls \<subseteq> set calls' \<Longrightarrow> declaredDone p acts d current calls'"
  by (auto simp: declaredDone_def)

lemma putAlarm_done:
  "wp (putAlarm v p d b acts) (\<lambda>e w'. \<exists>new. trace w' = trace w @ new \<and> (e = None \<longrightarrow> declaredDone p acts d current new)) w"
proof (cases "ca_PutMetricAlarm (env_cw v) (trace w) (alarmInput p d b acts)")
  case (Inl e)
  then show ?thesis by (simp add: putAlarm_def cw_PutMetricAlarm_def wp_simps)
next
  case (Inr u)
  then show ?thesis by (auto simp: putAlarm_def cw_PutMetricAlarm_def wp_simps declaredDone_def)
qed

lemma wp_after_calls:
  assumes "wp m (\<lambda>e w'. \<exists>new. trace w' = trace w1 @ new \<and> (e = None \<longrightarrow> declaredDone p acts d current new)) w1"
    and "trace w1 = trace w @ cs"
  shows "wp m (\<lambda>e w'. \<exists>new. trace w' = trace w @ new \<and> (e = None \<longrightarrow> declaredDone p acts d current new)) w1"
proof (rule wp_conseq [OF assms(1)], elim exE conjE)
  fix e w' new
  assume "trace w' = trace w1 @ new" "e = None \<longrightarrow> declaredDone p acts d current new"
  then show "\<exists>new. trace w' = trace w @ new \<and> (e = None \<longrightarrow> declaredDone p acts d current new)"
    using assms(2) declaredDone_mono [of p acts d current new "cs @ new"] by (intro exI [of _ "cs @ new"]) auto
qed

lemma reconcileAlarm_done:
  "wp (reconcileAlarm v p pl d current acts)
     (\<lambda>e w'. \<exists>new. trace w' = trace w @ new \<and> (e = None \<longrightarrow> declaredDone p acts d current new)) w"
proof (cases current)
  case None
  then show ?thesis using putAlarm_done [of v p d True acts w current] by (simp add: reconcileAlarm_def)
next
  case (Some a)
  let ?Q = "\<lambda>e w'. \<exists>new. trace w' = trace w @ new \<and> (e = None \<longrightarrow> declaredDone p acts d current new)"
  let ?r = "ca_ListTagsForResource (env_cw v) (trace w) (alarmARN pl (df_name d))"
  let ?c = "CWCall (ListAlarmTags (alarmARN pl (df_name d)) ?r)"
  let ?w1 = "w\<lparr>trace := trace w @ [?c]\<rparr>"
  have ok: "declaredDone p acts d (Some a) new" if "alarmMatches a d acts" for new
    using that by (simp add: declaredDone_def)
  have put1: "wp (putAlarm v p d b acts) ?Q ?w1" for b
    by (rule wp_after_calls [OF putAlarm_done, where cs = "[?c]"]) simp
  let ?x = "ca_DeleteAlarms (env_cw v) (trace ?w1) [df_name d]"
  let ?c2 = "CWCall (DeleteAlarms [df_name d] ?x)"
  let ?w2 = "?w1\<lparr>trace := trace ?w1 @ [?c2]\<rparr>"
  have put2: "wp (putAlarm v p d b acts) ?Q ?w2" for b
    by (rule wp_after_calls [OF putAlarm_done, where cs = "[?c, ?c2]"]) simp
  show ?thesis
  proof (cases ?r)
    case (Inl e)
    with Some ok show ?thesis
      by (auto simp: reconcileAlarm_def alarmOwnership_def cw_ListTagsForResource_def wp_simps Let_def)
  next
    case (Inr ts)
    with Some ok put1 put2 show ?thesis
      by (cases ?x) (auto simp: reconcileAlarm_def alarmOwnership_def cw_ListTagsForResource_def cw_DeleteAlarms_def wp_simps Let_def)
  qed
qed

lemma reconcileDesired_done:
  "wp (reconcileDesired v p pl existing acts ds err)
     (\<lambda>e w'. \<exists>new. trace w' = trace w @ new \<and> (e = None \<longrightarrow> err = None \<and> (\<forall>d\<in>set ds. declaredDone p acts d (existing (df_name d)) new))) w"
proof (induction ds arbitrary: err w)
  case Nil
  then show ?case by (simp add: wp_simps)
next
  case (Cons d ds)
  show ?case
    unfolding reconcileDesired.simps wp_bind
  proof (rule wp_conseq [OF reconcileAlarm_done], elim exE conjE)
    fix e :: "go_error option" and w1 :: world and n1
    assume w1: "trace w1 = trace w @ n1" "e = None \<longrightarrow> declaredDone p acts d (existing (df_name d)) n1"
    show "wp (reconcileDesired v p pl existing acts ds (firstError err e))
      (\<lambda>e w'. \<exists>new. trace w' = trace w @ new \<and> (e = None \<longrightarrow> err = None \<and> (\<forall>d\<in>set (d # ds). declaredDone p acts d (existing (df_name d)) new))) w1"
    proof (rule wp_conseq [OF Cons.IH], elim exE conjE)
      fix r w' n2
      assume "trace w' = trace w1 @ n2"
        and "r = None \<longrightarrow> firstError err e = None \<and> (\<forall>d\<in>set ds. declaredDone p acts d (existing (df_name d)) n2)"
      with w1 show "\<exists>new. trace w' = trace w @ new \<and> (r = None \<longrightarrow> err = None \<and> (\<forall>d\<in>set (d # ds). declaredDone p acts d (existing (df_name d)) new))"
        by (intro exI [of _ "n1 @ n2"]) (auto intro: declaredDone_mono)
    qed
  qed
qed

text \<open>Every undeclared name was read, and those that are ours are on the list to delete.\<close>

lemma ownedUndeclared_done:
  "wp (ownedUndeclared v p pl desired names (del, err))
     (\<lambda>r w'. \<exists>new. trace w' = trace w @ new \<and> set del \<subseteq> set (fst r) \<and> (snd r = None \<longrightarrow> err = None
        \<and> (\<forall>n\<in>set names - set desired. \<exists>ts. CWCall (ListAlarmTags (alarmARN pl n) (Inr ts)) \<in> set new
              \<and> (owned_by_pass p (tagsToMap ts) \<longrightarrow> n \<in> set (fst r))))) w"
proof (induction names arbitrary: del err w)
  case Nil
  then show ?case by (simp add: wp_simps)
next
  case (Cons name names)
  show ?case
  proof (cases "name \<in> set desired")
    case True
    then show ?thesis using Cons.IH by (simp add: insert_Diff_if)
  next
    case False
    let ?r = "ca_ListTagsForResource (env_cw v) (trace w) (alarmARN pl name)"
    let ?c = "CWCall (ListAlarmTags (alarmARN pl name) ?r)"
    let ?w1 = "w\<lparr>trace := trace w @ [?c]\<rparr>"
    have ours: "ao_ours (ownerOfTags p t) = owned_by_pass p t" for t by (simp add: ownerOfTags_def)
    show ?thesis
    proof (cases ?r)
      case (Inl e)
      let ?e = "firstError err (Some (wrapAWSError (ExtError e) ''reading alarm tags''))"
      have "wp (ownedUndeclared v p pl desired names (del, ?e))
        (\<lambda>r w'. \<exists>new. trace w' = trace w @ new \<and> set del \<subseteq> set (fst r) \<and> (snd r = None \<longrightarrow> err = None
          \<and> (\<forall>n\<in>set (name # names) - set desired. \<exists>ts. CWCall (ListAlarmTags (alarmARN pl n) (Inr ts)) \<in> set new
              \<and> (owned_by_pass p (tagsToMap ts) \<longrightarrow> n \<in> set (fst r))))) ?w1"
        by (rule wp_conseq [OF Cons.IH]) (cases err; auto)
      with Inl False show ?thesis
        by (simp add: isAlarmOwnedByUs_def alarmOwnership_def cw_ListTagsForResource_def wp_simps)
    next
      case (Inr ts)
      let ?del = "if owned_by_pass p (tagsToMap ts) then del @ [name] else del"
      have "wp (ownedUndeclared v p pl desired names (?del, err))
        (\<lambda>r w'. \<exists>new. trace w' = trace w @ new \<and> set del \<subseteq> set (fst r) \<and> (snd r = None \<longrightarrow> err = None
          \<and> (\<forall>n\<in>set (name # names) - set desired. \<exists>ts. CWCall (ListAlarmTags (alarmARN pl n) (Inr ts)) \<in> set new
              \<and> (owned_by_pass p (tagsToMap ts) \<longrightarrow> n \<in> set (fst r))))) ?w1"
      proof (rule wp_conseq [OF Cons.IH], elim exE conjE)
        fix r w' new
        assume new: "trace w' = trace ?w1 @ new" and del: "set ?del \<subseteq> set (fst r)"
          and rest: "snd r = None \<longrightarrow> err = None \<and> (\<forall>n\<in>set names - set desired. \<exists>ts. CWCall (ListAlarmTags (alarmARN pl n) (Inr ts)) \<in> set new
              \<and> (owned_by_pass p (tagsToMap ts) \<longrightarrow> n \<in> set (fst r)))"
        have "CWCall (ListAlarmTags (alarmARN pl name) (Inr ts)) \<in> set (?c # new)" using Inr by simp
        with new del rest show "\<exists>new. trace w' = trace w @ new \<and> set del \<subseteq> set (fst r) \<and> (snd r = None \<longrightarrow> err = None
          \<and> (\<forall>n\<in>set (name # names) - set desired. \<exists>ts. CWCall (ListAlarmTags (alarmARN pl n) (Inr ts)) \<in> set new
              \<and> (owned_by_pass p (tagsToMap ts) \<longrightarrow> n \<in> set (fst r))))"
          by (intro exI [of _ "?c # new"]) (fastforce split: if_splits)
      qed
      with Inr False ours show ?thesis
        by (simp add: isAlarmOwnedByUs_def alarmOwnership_def cw_ListTagsForResource_def wp_simps)
    qed
  qed
qed

lemma deleteUndeclared_done:
  assumes "rangesOver v"
  shows "wp (deleteUndeclaredAlarms v p pl existing desired)
     (\<lambda>e w'. \<exists>new. trace w' = trace w @ new \<and> (e = None \<longrightarrow> (\<forall>n\<in>set existing - set desired. undeclaredDone p pl new n))) w"
  unfolding deleteUndeclaredAlarms_def wp_bind
proof (rule wp_conseq [OF ownedUndeclared_done], elim exE conjE)
  fix r :: "string list \<times> go_error option" and w1 :: world and n1
  assume w1: "trace w1 = trace w @ n1"
    and owned: "snd r = None \<longrightarrow> None = None \<and> (\<forall>n\<in>set (env_mapOrder v existing) - set desired.
       \<exists>ts. CWCall (ListAlarmTags (alarmARN pl n) (Inr ts)) \<in> set n1 \<and> (owned_by_pass p (tagsToMap ts) \<longrightarrow> n \<in> set (fst r)))"
  have same: "set (env_mapOrder v existing) = set existing"
    using assms unfolding rangesOver_def by (metis set_mset_mset)
  obtain del err where r: "r = (del, err)" by fastforce
  let ?x = "ca_DeleteAlarms (env_cw v) (trace w1) del"
  have dn: "undeclaredDone p pl (n1 @ m) n"
    if "err = None" "n \<in> set existing - set desired" "del = [] \<or> CWCall (DeleteAlarms del (Inr ())) \<in> set m" for m n
    using that owned r same unfolding undeclaredDone_def by fastforce
  let ?R = "\<lambda>e w'. \<exists>new. trace w' = trace w @ new \<and> (e = None \<longrightarrow> (\<forall>n\<in>set existing - set desired. undeclaredDone p pl new n))"
  have "?R err w1" if "del = []" using w1 that dn [of _ "[]"] by (intro exI [of _ n1]) auto
  moreover have "?R err (w1\<lparr>trace := trace w1 @ [CWCall (DeleteAlarms del (Inr ()))]\<rparr>)"
    using w1 dn [of _ "[CWCall (DeleteAlarms del (Inr ()))]"] by (intro exI [of _ "n1 @ [CWCall (DeleteAlarms del (Inr ()))]"]) auto
  moreover have "?R (firstError err (Some e)) (w1\<lparr>trace := trace w1 @ [c]\<rparr>)" for e c
    using w1 by (intro exI [of _ "n1 @ [c]"]) auto
  ultimately show "wp (case r of (toDelete, firstErr) \<Rightarrow>
      if toDelete = [] then ret firstErr
      else do {
        r \<leftarrow> cw_DeleteAlarms v toDelete;
        case r of
          Inl err \<Rightarrow> ret (firstError firstErr (Some (wrapAWSError (ExtError err) ''deleting alarms no longer declared'')))
        | Inr _ \<Rightarrow> ret firstErr
      }) ?R w1"
    by (cases ?x) (simp_all add: r wp_if wp_ret wp_bind wp_sum cw_DeleteAlarms_def wp_invoke)
qed
text \<open>The alarm CloudWatch keeps for an input; a missing-data setting that is not sent keeps a default.\<close>

definition putResult :: "PutMetricAlarmInput \<Rightarrow> string option \<Rightarrow> MetricAlarm" where
  "putResult i dflt =
     \<lparr>ma_AlarmName = Some (pm_AlarmName i), ma_AlarmDescription = Some (pm_AlarmDescription i),
      ma_Namespace = Some (pm_Namespace i), ma_MetricName = Some (pm_MetricName i),
      ma_Dimensions = [(Some (fst (pm_Dimension i)), Some (snd (pm_Dimension i)))],
      ma_Statistic = pm_Statistic i, ma_ComparisonOperator = pm_ComparisonOperator i,
      ma_Threshold = Some (pm_Threshold i), ma_EvaluationPeriods = Some (pm_EvaluationPeriods i),
      ma_Period = Some (pm_Period i),
      ma_TreatMissingData = (case pm_TreatMissingData i of None \<Rightarrow> dflt | Some x \<Rightarrow> Some x),
      ma_AlarmActions = pm_AlarmActions i, ma_OKActions = pm_OKActions i,
      ma_InsufficientDataActions = [], ma_Metrics = 0, ma_DatapointsToAlarm = None,
      ma_ExtendedStatistic = None, ma_Unit = [], ma_EvaluateLowSampleCountPercentile = None,
      ma_ActionsEnabled = Some True\<rparr>"

lemma putResult_matches: "alarmMatches (putResult (alarmInput p d b acts) dflt) d acts"
  by (simp add: alarmMatches_def putResult_def alarmInput_def hasSettingsWeDoNotSet_def sameMetric_def
      sameEvaluation_def toString_def toNumber_def)

lemma undeclaredDone_mono: "undeclaredDone p pl calls n \<Longrightarrow> set calls \<subseteq> set calls' \<Longrightarrow> undeclaredDone p pl calls' n"
  unfolding undeclaredDone_def by blast

text \<open>C34: A run that reports no error brings the alarms to the spec. Everything under the prefix was
  listed; every declared alarm was found as declared or was written successfully in this run; every
  listed alarm that is not declared had its tags read and, when they are ours, was deleted
  successfully. What is written is recognised as matching by the next pass, so an unchanged spec
  writes once.\<close>

theorem alarms_converge:
  assumes "rangesOver v" "run_state (reconcileAlarms v p pl desired acts) w = (None, w')"
  shows "\<exists>calls pgs. trace w' = trace w @ calls
     \<and> completeListing calls (alarmPrefix (ps_namespace p) (ps_crName p)) None pgs
     \<and> (\<forall>d\<in>set desired. declaredDone p acts d (existingByName (concat (map alp_MetricAlarms pgs)) (df_name d)) calls)
     \<and> (\<forall>n\<in>listedNames pgs - df_name ` set desired. undeclaredDone p pl calls n)
     \<and> (\<forall>d b dflt. alarmMatches (putResult (alarmInput p d b acts) dflt) d acts)"
proof -
  let ?pfx = "alarmPrefix (ps_namespace p) (ps_crName p)"
  let ?P = "\<lambda>w' calls pgs. trace w' = trace w @ calls \<and> completeListing calls ?pfx None pgs
     \<and> (\<forall>d\<in>set desired. declaredDone p acts d (existingByName (concat (map alp_MetricAlarms pgs)) (df_name d)) calls)
     \<and> (\<forall>n\<in>listedNames pgs - df_name ` set desired. undeclaredDone p pl calls n)"
  have "wp (reconcileAlarms v p pl desired acts) (\<lambda>e w'. e = None \<longrightarrow> (\<exists>calls pgs. ?P w' calls pgs)) w"
    unfolding reconcileAlarms_def listAlarmsByPrefix_def wp_bind
  proof (rule wp_conseq [OF alarmPages_listing], elim exE conjE)
    fix r :: "ext_error + MetricAlarm list" and w1 :: world and n1
    assume w1: "trace w1 = trace w @ n1" and r: "\<forall>as. r = Inr as \<longrightarrow> (\<exists>pgs. completeListing n1 ?pfx None pgs
        \<and> as = [] @ concat (map alp_MetricAlarms pgs))"
    show "wp (case r of Inl err \<Rightarrow> ret (Some (wrapAWSError (ExtError err) ''listing alarms''))
       | Inr existing \<Rightarrow> do {
           firstErr \<leftarrow> reconcileDesired v p pl (existingByName existing) acts desired None;
           e \<leftarrow> deleteUndeclaredAlarms v p pl (existingNames existing) (map df_name desired);
           ret (firstError firstErr e)
         }) (\<lambda>e w'. e = None \<longrightarrow> (\<exists>calls pgs. ?P w' calls pgs)) w1"
    proof (cases r)
      case (Inl e)
      then show ?thesis by (simp add: wp_ret)
    next
      case (Inr as)
      then obtain pgs where pgs: "completeListing n1 ?pfx None pgs" "as = concat (map alp_MetricAlarms pgs)" using r by auto
      have names: "set (existingNames as) = listedNames pgs" by (auto simp: existingNames_def listedNames_def pgs(2))
      show ?thesis unfolding Inr sum.case wp_bind
      proof (rule wp_conseq [OF reconcileDesired_done], elim exE conjE)
        fix e1 :: "go_error option" and w2 :: world and n2
        assume w2: "trace w2 = trace w1 @ n2"
          "e1 = None \<longrightarrow> None = None \<and> (\<forall>d\<in>set desired. declaredDone p acts d (existingByName as (df_name d)) n2)"
        show "wp (deleteUndeclaredAlarms v p pl (existingNames as) (map df_name desired))
          (\<lambda>a. wp (ret (firstError e1 a)) (\<lambda>e w'. e = None \<longrightarrow> (\<exists>calls pgs. ?P w' calls pgs))) w2"
        proof (rule wp_conseq [OF deleteUndeclared_done [OF assms(1)]], elim exE conjE)
          fix e2 :: "go_error option" and w3 :: world and n3
          assume w3: "trace w3 = trace w2 @ n3"
            "e2 = None \<longrightarrow> (\<forall>n\<in>set (existingNames as) - set (map df_name desired). undeclaredDone p pl n3 n)"
          have "?P w3 (n1 @ n2 @ n3) pgs" if "e1 = None" "e2 = None"
            using that w1 w2 w3 pgs names
            by (auto intro: completeListing_mono declaredDone_mono undeclaredDone_mono)
          then show "wp (ret (firstError e1 e2)) (\<lambda>e w'. e = None \<longrightarrow> (\<exists>calls pgs. ?P w' calls pgs)) w3"
            unfolding wp_ret firstError_None by blast
        qed
      qed
    qed
  qed
  from wp_run [OF assms(2) this] show ?thesis using putResult_matches by blast
qed

definition demoAlarm :: alarmDef where
  "demoAlarm = \<lparr>df_name = ''team-orders-jobs'', df_description = [], df_namespace = ''AWS/SQS'', df_metricName = ''Age'',
     df_dimensionName = ''QueueName'', df_dimensionValue = ''jobs'', df_statistic = ''Maximum'',
     df_comparisonOperator = ''GreaterThanThreshold'', df_threshold = 900, df_evaluationPeriods = 3, df_period = 300,
     df_treatMissingData = []\<rparr>"

definition demoAlarmEnv :: env where
  "demoAlarmEnv = refusingEnv\<lparr>env_cw := refusingCw\<lparr>
     ca_DescribeAlarms := \<lambda>h n t. Inr \<lparr>alp_MetricAlarms = [], alp_NextToken = None\<rparr>, ca_PutMetricAlarm := \<lambda>h i. Inr ()\<rparr>\<rparr>"

theorem alarms_converge_witness:
  "\<exists>calls pgs. completeListing calls ''team-orders-'' None pgs
     \<and> declaredDone demoPass [] demoAlarm (existingByName (concat (map alp_MetricAlarms pgs)) (df_name demoAlarm)) calls"
proof -
  have "listAlarmsByPrefix demoAlarmEnv demoPass pfx = State (\<lambda>w. (Inr [], w\<lparr>trace := trace w
      @ [CWCall (DescribeAlarms pfx None (Inr \<lparr>alp_MetricAlarms = [], alp_NextToken = None\<rparr>))]\<rparr>))" for pfx
    by (simp add: listAlarmsByPrefix_def demoPass_def demoAlarmEnv_def cw_DescribeAlarms_def invoke_def refusingCw_def
        numeral_eq_Suc State_Monad.bind_def State_Monad.return_def)
  then have run: "fst (run_state (reconcileAlarms demoAlarmEnv demoPass pl [demoAlarm] []) start) = None" for pl
    by (simp add: reconcileAlarms_def reconcileAlarm_def existingByName_def putAlarm_def
        cw_PutMetricAlarm_def invoke_def demoAlarmEnv_def refusingCw_def deleteUndeclaredAlarms_def refusingEnv_def existingNames_def)
  have "rangesOver demoAlarmEnv" by (simp add: rangesOver_def demoAlarmEnv_def refusingEnv_def)
  from alarms_converge [OF this, of demoPass _ "[demoAlarm]" "[]" start, OF prod_eqI] run
  show ?thesis by (fastforce simp: alarmPrefix_def demoPass_def)
qed

section \<open>Which names the prefix finds\<close>

lemma alarm_name_shape:
  assumes "d \<in> set (desiredAlarms ns crName q t db)"
  obtains ty key where "df_name d = ResourceName ns crName ty key alarmNameMaxLen"
  using assms
  by (auto simp: desiredAlarms_def queueAlarms_def topicAlarm_def tableAlarm_def split: option.splits if_splits)

lemma ResourceName_any:
  "ResourceName ns crName ty key maxLen =
     take (nat (maxLen - 13)) (alarmPrefix ns crName @ key) @ CHR ''-'' # identityHash [ns, crName, ty, key]"
  by (simp add: ResourceName_def ResourceNameFor_def buildName_def alarmPrefix_def Let_def max_def)

text \<open>C40: The listing finds the alarms of a custom resource by the literal prefix
  \<^verbatim>\<open><namespace>-<name>-\<close>, while the readable part of an alarm's name is cut to fit. While namespace and name
  have at most 240 characters together every alarm the spec asks for starts with the prefix; beyond
  253 (a name may have 237, a namespace 63) none does, so those alarms are never listed: they are
  written without an ownership check on every pass and never deleted.\<close>

theorem alarm_prefix_finds_short_names_only:
  assumes "d \<in> set (desiredAlarms ns crName q t db)"
  shows "(length ns + length crName \<le> 240 \<longrightarrow> hasPrefix (df_name d) (alarmPrefix ns crName))
    \<and> (length ns + length crName > 253 \<longrightarrow> \<not> hasPrefix (df_name d) (alarmPrefix ns crName))
    \<and> length (df_name d) \<le> 255"
proof -
  obtain ty key where n: "df_name d = ResourceName ns crName ty key alarmNameMaxLen"
    using alarm_name_shape [OF assms] .
  have len: "length (df_name d) \<le> 255" by (simp add: n ResourceName_any alarmNameMaxLen_def)
  have "hasPrefix (df_name d) (alarmPrefix ns crName)" if "length ns + length crName \<le> 240"
    using that by (simp add: n ResourceName_any alarmNameMaxLen_def hasPrefix_def alarmPrefix_def)
  moreover have "\<not> hasPrefix (df_name d) (alarmPrefix ns crName)" if "length ns + length crName > 253"
  proof
    assume "hasPrefix (df_name d) (alarmPrefix ns crName)"
    then have "length (alarmPrefix ns crName) \<le> length (df_name d)"
      unfolding hasPrefix_def by (metis length_take min.cobounded1)
    with that len show False by (simp add: alarmPrefix_def)
  qed
  ultimately show ?thesis using len by blast
qed

theorem alarm_prefix_finds_short_names_only_witness:
  "let ns = replicate 63 CHR ''a''; n = replicate 237 CHR ''b'' in
   \<not> hasPrefix (df_name (topicAlarm ns n \<lparr>t_Name = ''news'', t_DeletionPolicy = DeletionPolicyRetain, t_Force = False,
       t_SharedWith = [], t_Adopt = False, t_FIFO = False, t_Overrides = None, t_Encryption = None\<rparr>)) (alarmPrefix ns n)"
proof -
  let ?ns = "replicate 63 CHR ''a''" and ?n = "replicate 237 CHR ''b''"
  let ?t = "\<lparr>t_Name = ''news'', t_DeletionPolicy = DeletionPolicyRetain, t_Force = False,
       t_SharedWith = [], t_Adopt = False, t_FIFO = False, t_Overrides = None, t_Encryption = None\<rparr>"
  have "topicAlarm ?ns ?n ?t \<in> set (desiredAlarms ?ns ?n None (Some \<lparr>sns_Resources = [?t], sns_Consumes = []\<rparr>) None)"
    by (simp add: desiredAlarms_def)
  from alarm_prefix_finds_short_names_only [OF this] show ?thesis by simp
qed

end
