(* ===== verification/Sections.thy ===== *)
theory Sections
  imports References Sqs Sns Alarms
begin

text \<open>
  The sections of a pass over keys, queues, topics, alarms and key policies: \<^verbatim>\<open>section_kms.go\<close>,
  \<^verbatim>\<open>section_sqs.go\<close>, \<^verbatim>\<open>section_sns.go\<close>, \<^verbatim>\<open>section_alarms.go\<close> and \<^verbatim>\<open>section_keypolicy.go\<close> under
  \<^verbatim>\<open>internal/controller\<close>. A section's closures take their identity, spec and ledger from the custom resource as
  it is at each call.
\<close>

section \<open>Encryption of the declared resources\<close>

record encryptedResource =
  er_resourceType :: string
  er_name :: string
  er_encryption :: "EncryptionSpec option"

definition encryptedResources :: "AppDependenciesSpec \<Rightarrow> encryptedResource list" where
  "encryptedResources spec =
     (case sp_SQS spec of None \<Rightarrow> []
      | Some s \<Rightarrow> map (\<lambda>x. \<lparr>er_resourceType = typeSQS, er_name = q_Name x, er_encryption = q_Encryption x\<rparr>) (sqs_Resources s))
     @ (case sp_SNS spec of None \<Rightarrow> []
        | Some s \<Rightarrow> map (\<lambda>x. \<lparr>er_resourceType = typeSNS, er_name = t_Name x, er_encryption = t_Encryption x\<rparr>) (sns_Resources s))
     @ (case sp_DynamoDB spec of None \<Rightarrow> []
        | Some s \<Rightarrow> map (\<lambda>x. \<lparr>er_resourceType = typeDynamoDB, er_name = tb_Name x, er_encryption = tb_Encryption x\<rparr>) (ddb_Resources s))
     @ (case sp_S3 spec of None \<Rightarrow> []
        | Some s \<Rightarrow> map (\<lambda>x. \<lparr>er_resourceType = typeS3, er_name = b_Name x, er_encryption = b_Encryption x\<rparr>) (s3_Resources s))
     @ (case sp_RDS spec of None \<Rightarrow> []
        | Some s \<Rightarrow> map (\<lambda>x. \<lparr>er_resourceType = TypeRDS, er_name = i_Name x, er_encryption = i_Encryption x\<rparr>) (rds_Resources s))"

primrec referencedNames :: "encryptedResource list \<Rightarrow> string list \<Rightarrow> string list" where
  "referencedNames [] names = names"
| "referencedNames (x # xs) names =
     referencedNames xs
       (case er_encryption x of None \<Rightarrow> names
        | Some e \<Rightarrow> if en_KMSKeyRef e \<noteq> [] \<and> en_KMSKeyRef e \<notin> set names then names @ [en_KMSKeyRef e] else names)"

definition referencedKMSKeyNames :: "AppDependenciesSpec \<Rightarrow> string list" where
  "referencedKMSKeyNames spec = referencedNames (encryptedResources spec) []"

definition neededKMSKeyNames :: "AppDependenciesSpec \<Rightarrow> string list" where
  "neededKMSKeyNames spec = referencedKMSKeyNames spec
     @ List.map_filter (\<lambda>x. case er_encryption x of None \<Rightarrow> None
         | Some e \<Rightarrow> if en_Enabled e then Some (DedicatedKeyLedgerName (er_resourceType x) (er_name x)) else None)
         (encryptedResources spec)"

definition kmsKeyLedgerName :: "encryptedResource \<Rightarrow> string" where
  "kmsKeyLedgerName x =
     (case er_encryption x of None \<Rightarrow> []
      | Some e \<Rightarrow> if en_KMSKeyRef e \<noteq> [] then en_KMSKeyRef e
                  else if en_Enabled e then DedicatedKeyLedgerName (er_resourceType x) (er_name x) else [])"

primrec stampKey :: "string \<Rightarrow> string \<Rightarrow> string list \<Rightarrow> ledger \<Rightarrow> ledger" where
  "stampKey arn t [] l = l"
| "stampKey arn t (name # names) l =
     stampKey arn t names
       (case FindManagedResource l t name of None \<Rightarrow> l
        | Some entry \<Rightarrow> if mr_KMSKeyARN entry \<noteq> arn then UpsertManagedResource l (entry\<lparr>mr_KMSKeyARN := arn\<rparr>) else l)"

primrec recordKeys :: "encryptedResource list \<Rightarrow> ledger \<Rightarrow> ledger" where
  "recordKeys [] l = l"
| "recordKeys (x # xs) l =
     recordKeys xs
       (let keyName = kmsKeyLedgerName x in
        if keyName = [] then l
        else case FindManagedResource l TypeKMS keyName of None \<Rightarrow> l
             | Some key \<Rightarrow>
                 if mr_ARN key = [] then l
                 else stampKey (mr_ARN key) (er_resourceType x)
                        (er_name x # (if er_resourceType x = typeSQS then [DerivedKey (er_name x) ''dlq''] else [])) l)"

definition recordKMSKeyARNs :: "unit op" where
  "recordKMSKeyARNs = do { cr \<leftarrow> getCR; setLedger (recordKeys (encryptedResources (ad_Spec cr)) (ledgerOf cr)) }"

text \<open>A key is in use when the spec needs it (if the spec counts) or an entry of the ledger holds it.\<close>

definition kmsKeysInUse :: "AppDependencies \<Rightarrow> bool \<Rightarrow> (string \<rightharpoonup> KeyUse)" where
  "kmsKeysInUse cr includeSpec name =
     (let holders = KeyHolders (ledgerOf cr) name in
      if includeSpec \<and> name \<in> set (neededKMSKeyNames (ad_Spec cr)) \<or> holders \<noteq> []
      then Some \<lparr>ku_Retained = list_ex ho_Retained holders\<rparr> else None)"

definition undeclaredKMSKeyRefs :: "AppDependenciesSpec \<Rightarrow> string list" where
  "undeclaredKMSKeyRefs spec =
     filter (\<lambda>name. name \<notin> (case sp_KMS spec of None \<Rightarrow> {} | Some s \<Rightarrow> k_Name ` set (kms_Resources s)))
       (referencedKMSKeyNames spec)"

section \<open>Keys\<close>

definition declaredKeys :: "AppDependenciesSpec \<Rightarrow> nat" where
  "declaredKeys spec = (case sp_KMS spec of None \<Rightarrow> 0 | Some s \<Rightarrow> length (kms_Resources s))"

definition waitingKey :: "key_result \<Rightarrow> string option" where
  "waitingKey res = (case res of (name, reason) \<Rightarrow>
     (case reason of
        KeyPendingDeletion \<Rightarrow> Some (''kms '' @ quoted name @ '': PendingDeletion'')
      | KeyInUse \<Rightarrow> Some (''kms '' @ quoted name @ '': InUseByEncryptedData'')
      | KeyRetained \<Rightarrow> None))"

definition reconcileKeys :: "env \<Rightarrow> reconciler \<Rightarrow> pass \<Rightarrow> go_error option op" where
  "reconcileKeys v r p = do {
     cr \<leftarrow> getCR;
     let t = sectionContext (ledgerOf cr) TypeKMS (declaredKeys (ad_Spec cr));
     (l, ensureErr) \<leftarrow> Ensure_kms v (passFor r p cr t) (sp_KMS (ad_Spec cr)) (ledgerOf cr);
     setLedger l;
     recordKMSKeyARNs;
     cr1 \<leftarrow> getCR;
     (l1, _, cleanupErr) \<leftarrow> Cleanup_kms v (passFor r p cr1 t) (sp_KMS (ad_Spec cr1)) (kmsKeysInUse cr1 True) (ledgerOf cr1) False;
     setLedger l1;
     cr2 \<leftarrow> getCR;
     let err = firstError ensureErr cleanupErr;
     let missing = undeclaredKMSKeyRefs (ad_Spec cr2);
     setSectionCondition r p conditionTypeKMSReady
       (firstError err (if missing \<noteq> [] then Some (ReconcileError
          (msgError ''encryption.kmsKeyRef names keys not declared under kms.resources'' missing) False ''KMSKeyRefNotDeclared'' False) else None));
     ret err
   }"

definition kmsSection :: "env \<Rightarrow> reconciler \<Rightarrow> pass \<Rightarrow> Section" where
  "kmsSection v r p =
     \<lparr>sc_name = conditionTypeKMSReady,
      sc_reconcile = reconcileKeys v r p,
      sc_finalize = finalizeWith
        (\<lambda>cr. Cleanup_kms v (passFor r p cr (sectionDeletionContext (ledgerOf cr) TypeKMS (declaredKeys (ad_Spec cr))))
           (sp_KMS (ad_Spec cr)) (kmsKeysInUse cr False) (ledgerOf cr) True) waitingKey\<rparr>"

text \<open>The cross-CR form of a key reference that an older version had stops the whole pass.\<close>

definition legacyKMSKeyRefPath :: "AppDependenciesSpec \<Rightarrow> string" where
  "legacyKMSKeyRefPath spec =
     (case find (\<lambda>x. case er_encryption x of None \<Rightarrow> False | Some e \<Rightarrow> en_LegacyKMSKeyRef e) (encryptedResources spec) of
        None \<Rightarrow> [] | Some x \<Rightarrow> er_resourceType x @ '' resource '' @ quoted (er_name x))"

definition refuseLegacyKMSKeyRef :: "env \<Rightarrow> reconciler \<Rightarrow> pass \<Rightarrow> (bool \<times> ext_error option) op" where
  "refuseLegacyKMSKeyRef v r p = do {
     cr \<leftarrow> getCR;
     let place = legacyKMSKeyRefPath (ad_Spec cr);
     (if place = [] then ret (False, None)
      else do {
        setSectionCondition r p conditionTypeKMSReady
          (Some (ReconcileError (msgError ''uses the cross-CR form of encryption.kmsKeyRef'' [place]) False ''LegacyKMSKeyRef'' False));
        err \<leftarrow> patchStatus v (ps_original p);
        ret (True, err)
      })
   }"

section \<open>Queues and topics\<close>

definition declaredQueues :: "AppDependenciesSpec \<Rightarrow> nat" where
  "declaredQueues spec = (case sp_SQS spec of None \<Rightarrow> 0 | Some s \<Rightarrow> length (sqs_Resources s))"

definition waitingQueue :: "queue_result \<Rightarrow> string option" where
  "waitingQueue res = (case res of (name, reason) \<Rightarrow>
     (case reason of
        QueuePendingDeletion \<Rightarrow> Some (''sqs '' @ quoted name @ '': PendingDeletion'')
      | QueueStuckPendingDeletion \<Rightarrow> Some (''sqs '' @ quoted name @ '': StuckPendingDeletion'')
      | QueueRetained \<Rightarrow> None))"

definition reconcileQueues :: "env \<Rightarrow> reconciler \<Rightarrow> pass \<Rightarrow> go_error option op" where
  "reconcileQueues v r p = do {
     cr \<leftarrow> getCR;
     let t = sectionContext (ledgerOf cr) typeSQS (declaredQueues (ad_Spec cr));
     err \<leftarrow> ensureThenCleanup
       (\<lambda>cr. Ensure_sqs v (passFor r p cr t) (sp_SQS (ad_Spec cr)) (ledgerOf cr))
       (\<lambda>cr. Cleanup_sqs v (passFor r p cr t) (sp_SQS (ad_Spec cr)) (ledgerOf cr) False False);
     setSectionCondition r p conditionTypeSQSReady err;
     ret err
   }"

definition sqsSection :: "env \<Rightarrow> reconciler \<Rightarrow> pass \<Rightarrow> Section" where
  "sqsSection v r p =
     \<lparr>sc_name = conditionTypeSQSReady,
      sc_reconcile = reconcileQueues v r p,
      sc_finalize = finalizeWith
        (\<lambda>cr. Cleanup_sqs v (passFor r p cr (sectionDeletionContext (ledgerOf cr) typeSQS (declaredQueues (ad_Spec cr))))
           (sp_SQS (ad_Spec cr)) (ledgerOf cr) True (forceDeleteAll cr)) waitingQueue\<rparr>"

definition declaredTopics :: "AppDependenciesSpec \<Rightarrow> nat" where
  "declaredTopics spec = (case sp_SNS spec of None \<Rightarrow> 0 | Some s \<Rightarrow> length (sns_Resources s))"

definition waitingTopic :: "topic_result \<Rightarrow> string option" where
  "waitingTopic res = (case res of (name, reason) \<Rightarrow>
     (case reason of
        TopicPendingDeletion \<Rightarrow> Some (''sns '' @ quoted name @ '': PendingDeletion'')
      | TopicStuckPendingDeletion \<Rightarrow> Some (''sns '' @ quoted name @ '': StuckPendingDeletion'')
      | TopicRetained \<Rightarrow> None))"

definition topicsIn :: "reconciler \<Rightarrow> topicPlace" where
  "topicsIn r = \<lparr>tp_region = rc_Region r, tp_accountID = rc_AccountID r\<rparr>"

definition reconcileTopics :: "env \<Rightarrow> reconciler \<Rightarrow> pass \<Rightarrow> go_error option op" where
  "reconcileTopics v r p = do {
     cr \<leftarrow> getCR;
     let t = sectionContext (ledgerOf cr) typeSNS (declaredTopics (ad_Spec cr));
     err \<leftarrow> ensureThenCleanup
       (\<lambda>cr. Ensure_sns v (passFor r p cr t) (topicsIn r) (sp_SNS (ad_Spec cr)) (ledgerOf cr))
       (\<lambda>cr. Cleanup_sns v (passFor r p cr t) (sp_SNS (ad_Spec cr)) (ledgerOf cr) False False);
     setSectionCondition r p conditionTypeSNSReady err;
     ret err
   }"

definition snsSection :: "env \<Rightarrow> reconciler \<Rightarrow> pass \<Rightarrow> Section" where
  "snsSection v r p =
     \<lparr>sc_name = conditionTypeSNSReady,
      sc_reconcile = reconcileTopics v r p,
      sc_finalize = finalizeWith
        (\<lambda>cr. Cleanup_sns v (passFor r p cr (sectionDeletionContext (ledgerOf cr) typeSNS (declaredTopics (ad_Spec cr))))
           (sp_SNS (ad_Spec cr)) (ledgerOf cr) True (forceDeleteAll cr)) waitingTopic\<rparr>"

section \<open>Alarms\<close>

definition alarmEligibleResourceCount :: "AppDependenciesSpec \<Rightarrow> nat" where
  "alarmEligibleResourceCount spec = declaredQueues spec + declaredTopics spec
     + (case sp_DynamoDB spec of None \<Rightarrow> 0 | Some s \<Rightarrow> length (ddb_Resources s))"

definition alarmsIn :: "reconciler \<Rightarrow> alarmPlace" where
  "alarmsIn r = \<lparr>pl_region = rc_Region r, pl_accountID = rc_AccountID r\<rparr>"

definition reconcileAlarmsSection :: "env \<Rightarrow> reconciler \<Rightarrow> pass \<Rightarrow> go_error option op" where
  "reconcileAlarmsSection v r p = do {
     cr \<leftarrow> getCR;
     let t = sectionContext (ledgerOf cr) ''alarm'' (alarmEligibleResourceCount (ad_Spec cr));
     (mayExist, err) \<leftarrow> Ensure_alarms v (passFor r p cr t) (alarmsIn r) (sp_Alarms (ad_Spec cr)) (sp_SQS (ad_Spec cr))
        (sp_SNS (ad_Spec cr)) (sp_DynamoDB (ad_Spec cr)) (st_AlarmsMayExist (ad_Status cr));
     cr1 \<leftarrow> getCR;
     setCR (cr1\<lparr>ad_Status := (ad_Status cr1)\<lparr>st_AlarmsMayExist := Some mayExist\<rparr>\<rparr>);
     setSectionCondition r p conditionTypeAlarmsReady err;
     ret err
   }"

definition alarmsSection :: "env \<Rightarrow> reconciler \<Rightarrow> pass \<Rightarrow> Section" where
  "alarmsSection v r p =
     \<lparr>sc_name = conditionTypeAlarmsReady,
      sc_reconcile = reconcileAlarmsSection v r p,
      sc_finalize = do {
        cr \<leftarrow> getCR;
        err \<leftarrow> Cleanup_alarms v
          (passFor r p cr (sectionDeletionContext (ledgerOf cr) ''alarm'' (alarmEligibleResourceCount (ad_Spec cr)))) (alarmsIn r);
        ret (err = None, [], err)
      }\<rparr>"

section \<open>Key policies\<close>

definition managedKeys :: "ledger \<Rightarrow> ManagedResource list" where
  "managedKeys l = filter (\<lambda>e. mr_Type e = TypeKMS \<and> mr_ARN e \<noteq> [] \<and> mr_State e \<noteq> StateRelinquished
     \<and> mr_PendingDeletionSince e = None) l"

definition verifiedThisPass :: "ledger option \<Rightarrow> ManagedResource \<Rightarrow> bool" where
  "verifiedThisPass original key =
     (case original of None \<Rightarrow> True
      | Some l \<Rightarrow> VerifiedSince (case FindManagedResource l TypeKMS (mr_Name key) of None \<Rightarrow> zeroManagedResource | Some e \<Rightarrow> e) key)"

definition sharedWithOf :: "AppDependencies \<Rightarrow> string \<Rightarrow> SharedWithEntry list" where
  "sharedWithOf cr topicName =
     (case sp_SNS (ad_Spec cr) of None \<Rightarrow> []
      | Some s \<Rightarrow> (case find (\<lambda>t. t_Name t = topicName) (sns_Resources s) of None \<Rightarrow> [] | Some t \<Rightarrow> t_SharedWith t))"

primrec resolveTopics :: "env \<Rightarrow> AppDependencies \<Rightarrow> ConsumeRef list \<Rightarrow> string list \<Rightarrow> (go_error + string list) op" where
  "resolveTopics v cr [] topics = ret (Inr topics)"
| "resolveTopics v cr (ref # refs) topics = do {
     (arn, err) \<leftarrow> ResolveConsumeARN v (md_Namespace cr) (md_Name cr) typeSNS ref;
     (case err of
        Some e \<Rightarrow> ret (Inl e)
      | None \<Rightarrow> resolveTopics v cr refs (case arn of None \<Rightarrow> topics | Some a \<Rightarrow> topics @ [a]))
   }"

definition queueSourceTopics :: "env \<Rightarrow> AppDependencies \<Rightarrow> string \<Rightarrow> (go_error + string list) op" where
  "queueSourceTopics v cr queueName =
     resolveTopics v cr
       (case sp_SQS (ad_Spec cr) of None \<Rightarrow> []
        | Some s \<Rightarrow> concat (map q_SubscribesTo (filter (\<lambda>q. q_Name q = queueName) (sqs_Resources s)))) []"

definition publishesTo :: "ConsumeRef \<Rightarrow> AppDependencies \<Rightarrow> bool" where
  "publishesTo self c =
     (case sp_Alarms (ad_Spec c) of None \<Rightarrow> False | Some a \<Rightarrow> al_Enabled a \<and> al_SnsTopicRef a = Some self)"

definition alarmARNsOf :: "reconciler \<Rightarrow> AppDependencies \<Rightarrow> string list" where
  "alarmARNsOf r c = AlarmARNs (alarmsIn r) (md_Namespace c) (md_Name c) (sp_Alarms (ad_Spec c)) (sp_SQS (ad_Spec c))
     (sp_SNS (ad_Spec c)) (sp_DynamoDB (ad_Spec c))"

primrec granteeAlarms ::
  "env \<Rightarrow> reconciler \<Rightarrow> AppDependencies \<Rightarrow> string \<Rightarrow> SharedWithEntry list \<Rightarrow> string list \<Rightarrow> (go_error + string list) op" where
  "granteeAlarms v r owner topicName [] arns = ret (Inr arns)"
| "granteeAlarms v r owner topicName (g # gs) arns =
     (if sw_Namespace g = md_Namespace owner \<and> sw_Name g = md_Name owner then granteeAlarms v r owner topicName gs arns
      else do {
        x \<leftarrow> k8s_GetCR v (sw_Namespace g) (sw_Name g);
        case x of
          Inl err \<Rightarrow>
            if ex_k8s_notfound err then granteeAlarms v r owner topicName gs arns
            else ret (Inl (ReconcileError (wrapf ''reading a CR which may publish alarms to topic''
                   [sw_Namespace g, sw_Name g, topicName] (ExtError err)) True [] False))
        | Inr consumer \<Rightarrow>
            granteeAlarms v r owner topicName gs
              (if \<not> md_Deleting consumer \<and> publishesTo \<lparr>cr_Namespace = md_Namespace owner, cr_Name = md_Name owner, cr_ResourceName = topicName\<rparr> consumer
               then arns @ alarmARNsOf r consumer else arns)
      })"

definition topicPublishingAlarms :: "env \<Rightarrow> reconciler \<Rightarrow> AppDependencies \<Rightarrow> string \<Rightarrow> (go_error + string list) op" where
  "topicPublishingAlarms v r owner topicName = do {
     x \<leftarrow> granteeAlarms v r owner topicName (sharedWithOf owner topicName)
       (if publishesTo \<lparr>cr_Namespace = md_Namespace owner, cr_Name = md_Name owner, cr_ResourceName = topicName\<rparr> owner
        then alarmARNsOf r owner else []);
     ret (map_sum (\<lambda>e. e) (\<lambda>arns. remdups_adj (sort arns)) x)
   }"

definition grantsOf :: "(string \<rightharpoonup> ServiceGrants) \<Rightarrow> string \<Rightarrow> ServiceGrants" where
  "grantsOf grants arn = (case grants arn of None \<Rightarrow> noGrants | Some g \<Rightarrow> g)"

primrec serviceGrantsLoop ::
  "env \<Rightarrow> reconciler \<Rightarrow> AppDependencies \<Rightarrow> encryptedResource list \<Rightarrow> (string \<rightharpoonup> ServiceGrants)
   \<Rightarrow> (go_error + (string \<rightharpoonup> ServiceGrants)) op" where
  "serviceGrantsLoop v r cr [] grants = ret (Inr grants)"
| "serviceGrantsLoop v r cr (res # rest) grants =
     (case FindManagedResource (ledgerOf cr) TypeKMS (kmsKeyLedgerName res) of
        None \<Rightarrow> serviceGrantsLoop v r cr rest grants
      | Some key \<Rightarrow>
          if mr_ARN key = [] then serviceGrantsLoop v r cr rest grants
          else (let g = grantsOf grants (mr_ARN key) in
            if er_resourceType res = typeSQS then do {
              x \<leftarrow> queueSourceTopics v cr (er_name res);
              case x of Inl e \<Rightarrow> ret (Inl e)
              | Inr topics \<Rightarrow> serviceGrantsLoop v r cr rest
                  (grants(mr_ARN key \<mapsto> g\<lparr>sg_SNSTopicARNs := sg_SNSTopicARNs g @ topics\<rparr>))
            }
            else if er_resourceType res = typeSNS then do {
              x \<leftarrow> topicPublishingAlarms v r cr (er_name res);
              case x of Inl e \<Rightarrow> ret (Inl e)
              | Inr arns \<Rightarrow> serviceGrantsLoop v r cr rest
                  (grants(mr_ARN key \<mapsto> g\<lparr>sg_AlarmARNs := sg_AlarmARNs g @ arns\<rparr>))
            }
            else serviceGrantsLoop v r cr rest (grants(mr_ARN key \<mapsto> g))))"

definition keyServiceGrants :: "env \<Rightarrow> reconciler \<Rightarrow> AppDependencies \<Rightarrow> (go_error + (string \<rightharpoonup> ServiceGrants)) op" where
  "keyServiceGrants v r cr = serviceGrantsLoop v r cr (encryptedResources (ad_Spec cr)) Map.empty"

primrec syncLoop ::
  "env \<Rightarrow> pass \<Rightarrow> (string \<rightharpoonup> ServiceGrants) \<Rightarrow> ledger option \<Rightarrow> ManagedResource list \<Rightarrow> go_error option \<Rightarrow> go_error option op" where
  "syncLoop v p grants original [] firstErr = ret firstErr"
| "syncLoop v p grants original (key # keys) firstErr =
     (let g = grantsOf grants (mr_ARN key) in
      if length (sg_SNSTopicARNs g) + length (sg_AlarmARNs g) = 0 \<and> \<not> verifiedThisPass original key
      then syncLoop v p grants original keys firstErr
      else do {
        e \<leftarrow> SyncServiceGrants v p (mr_ARN key) g;
        syncLoop v p grants original keys (firstError firstErr e)
      })"

definition syncKeyPolicies ::
  "env \<Rightarrow> reconciler \<Rightarrow> pass \<Rightarrow> AppDependencies \<Rightarrow> ledger option \<Rightarrow> ManagedResource list \<Rightarrow> go_error option op" where
  "syncKeyPolicies v r p cr original keys =
     (if keys = [] then ret None
      else do {
        x \<leftarrow> keyServiceGrants v r cr;
        case x of
          Inl e \<Rightarrow> ret (Some e)
        | Inr grants \<Rightarrow> syncLoop v p grants original keys None
      })"

definition reconcileKeyPolicies :: "env \<Rightarrow> reconciler \<Rightarrow> pass \<Rightarrow> go_error option op" where
  "reconcileKeyPolicies v r p = do {
     cr \<leftarrow> getCR;
     let keys = managedKeys (ledgerOf cr);
     let t = sectionContext (ledgerOf cr) TypeKMS (length keys);
     err \<leftarrow> syncKeyPolicies v r (passFor r p cr t) cr (map_option st_ManagedResources (ps_original p)) keys;
     setSectionCondition r p conditionTypeKeyPolicyReady err;
     ret err
   }"

definition keyPolicySection :: "env \<Rightarrow> reconciler \<Rightarrow> pass \<Rightarrow> Section" where
  "keyPolicySection v r p =
     \<lparr>sc_name = conditionTypeKeyPolicyReady,
      sc_reconcile = reconcileKeyPolicies v r p,
      sc_finalize = ret (True, [], None)\<rparr>"

end
