(* ===== verification/Reconcile.thy ===== *)
theory Reconcile
  imports Sections
begin

text \<open>
  A whole pass over one custom resource: \<^verbatim>\<open>ensureDesiredState\<close> and \<^verbatim>\<open>finalizeDesiredState\<close> of
  \<^verbatim>\<open>internal/controller/desiredstate.go\<close> and the reconciler of \<^verbatim>\<open>appdependencies_controller.go\<close>. The list of
  sections is an argument, as a function of the pass because its members close over it; \<open>connect\<close> is the delivery of connection information
  that ends a pass. Every statement here holds for any list of sections with the contract it names.
\<close>

section \<open>Ensuring\<close>

text \<open>
  \<^verbatim>\<open>equality.Semantic.DeepEqual\<close> on two statuses: a nil list and an empty one are the same.
\<close>

definition semanticEntry :: "ManagedResource \<Rightarrow> ManagedResource" where
  "semanticEntry e = e\<lparr>mr_HeldBy := (if mr_HeldBy e = Some [] then None else mr_HeldBy e)\<rparr>"

definition sameStatus :: "AppDependenciesStatus \<Rightarrow> AppDependenciesStatus \<Rightarrow> bool" where
  "sameStatus a b \<longleftrightarrow> a\<lparr>st_ManagedResources := map semanticEntry (st_ManagedResources a)\<rparr>
     = b\<lparr>st_ManagedResources := map semanticEntry (st_ManagedResources b)\<rparr>"

definition wakesOnChange :: "go_error \<Rightarrow> bool" where
  "wakesOnChange err = (case asReconcileError err of None \<Rightarrow> False | Some re \<Rightarrow> re_WakesOnChange re)"

text \<open>The closure \<^verbatim>\<open>record\<close>: the first error, and whether every error so far is a wait that a watch ends.\<close>

definition recordFailure :: "go_error option \<Rightarrow> go_error option \<times> bool \<Rightarrow> go_error option \<times> bool" where
  "recordFailure err acc =
     (case err of None \<Rightarrow> acc
      | Some e \<Rightarrow> (case acc of (firstErr, onlyWaits) \<Rightarrow> (firstError firstErr (Some e), onlyWaits \<and> wakesOnChange e)))"

primrec ensureSections ::
  "env \<Rightarrow> pass \<Rightarrow> Section list \<Rightarrow> (go_error option \<times> bool) \<times> AppDependenciesStatus \<Rightarrow> (go_error option \<times> bool) op" where
  "ensureSections v p [] acc = ret (fst acc)"
| "ensureSections v p (s # ss) acc =
     (case acc of (failures, lastCheckpointed) \<Rightarrow> do {
        err \<leftarrow> sc_reconcile s;
        cr \<leftarrow> getCR;
        (if sameStatus (ad_Status cr) lastCheckpointed
         then ensureSections v p ss (recordFailure err failures, lastCheckpointed)
         else do {
           cErr \<leftarrow> checkpoint v p (ledgerOf cr);
           cr1 \<leftarrow> getCR;
           ensureSections v p ss (recordFailure (map_option ExtError cErr) (recordFailure err failures), ad_Status cr1)
         })
      })"

definition stampLedger :: "unit op" where
  "stampLedger = do { cr \<leftarrow> getCR; setLedger (Stamp (ledgerOf cr)) }"

definition ensureDesiredState ::
  "env \<Rightarrow> reconciler \<Rightarrow> (pass \<Rightarrow> Section list) \<Rightarrow> (pass \<Rightarrow> go_error option op) \<Rightarrow> pass \<Rightarrow> go_error option op" where
  "ensureDesiredState v r allSections connect p = do {
     WithDescribeCache;
     cr \<leftarrow> getCR;
     failures \<leftarrow> ensureSections v p (allSections p) ((None, True), ad_Status cr);
     stampLedger;
     warnIfLedgerLarge p;
     checkSharedWithReferences v r;
     checkConsumeReferences v r p;
     checkEncryptionMatchesSpec r p;
     connErr \<leftarrow> connect p;
     setSectionCondition r p conditionTypeConnectionInfoReady connErr;
     (case recordFailure connErr failures of (firstErr, onlyWaits) \<Rightarrow>
        ret (if onlyWaits then map_option WaitingError firstErr else firstErr))
   }"

section \<open>Finalizing\<close>

primrec finalizeSections ::
  "Section list \<Rightarrow> bool \<times> string list \<times> go_error option \<Rightarrow> (bool \<times> string list \<times> go_error option) op" where
  "finalizeSections [] acc = ret acc"
| "finalizeSections (s # ss) acc = do {
     (secDone, sectionBlocked, err) \<leftarrow> sc_finalize s;
     finalizeSections ss
       (case acc of (allDone, blocked, firstErr) \<Rightarrow>
          (case err of
             Some e \<Rightarrow> (False, blocked, firstError firstErr (Some e))
           | None \<Rightarrow> if secDone then (allDone, blocked, firstErr) else (False, blocked @ sectionBlocked, firstErr)))
   }"

definition finalizeDesiredState :: "reconciler \<Rightarrow> Section list \<Rightarrow> (bool \<times> go_error option) op" where
  "finalizeDesiredState r sections = do {
     (allDone, blocked, firstErr) \<leftarrow> finalizeSections (finalizeOrder sections) (True, [], None);
     (if \<not> allDone \<and> firstErr = None
      then updateConditions (\<lambda>cr. SetDeletionBlocked (rc_meta r) (conditionsOf cr) (md_Generation cr) blocked)
      else ret ());
     ret (allDone, firstErr)
   }"

section \<open>The reconciler\<close>

type_synonym Result = "duration \<times> go_error option"

definition nameOf :: "AppDependencies \<Rightarrow> string \<times> string" where
  "nameOf cr = (md_Namespace cr, md_Name cr)"

definition statusNeedsPatch :: "string \<Rightarrow> AppDependenciesStatus \<Rightarrow> AppDependencies \<Rightarrow> bool" where
  "statusNeedsPatch versionBefore original cr \<longleftrightarrow>
     md_ResourceVersion cr \<noteq> versionBefore \<or> \<not> sameStatus original (ad_Status cr)"

text \<open>How a pass that ran ends: by the pace of the error, or by the drift interval.\<close>

definition requeueDrift :: "env \<Rightarrow> Result op" where
  "requeueDrift v = do { d \<leftarrow> jitteredDriftRequeue v; ret (d, None) }"

definition endPass :: "env \<Rightarrow> (string \<times> string \<Rightarrow> go_error \<Rightarrow> duration op) \<Rightarrow> go_error option \<Rightarrow> Result op \<Rightarrow> Result op" where
  "endPass v delayFor err succeeded = do {
     cr \<leftarrow> getCR;
     case err of
       Some e \<Rightarrow>
         if isRetryable e then do { d \<leftarrow> delayFor (nameOf cr) e; ret (d, None) }
         else do { resetTransientBackoff v (nameOf cr); ret (0, Some e) }
     | None \<Rightarrow> do { resetTransientBackoff v (nameOf cr); succeeded }
   }"

definition reconcileNormal ::
  "env \<Rightarrow> reconciler \<Rightarrow> (pass \<Rightarrow> Section list) \<Rightarrow> (pass \<Rightarrow> go_error option op) \<Rightarrow> pass \<Rightarrow> AppDependenciesStatus \<Rightarrow> Result op" where
  "reconcileNormal v r allSections connect p original = do {
     (refused, err) \<leftarrow> refuseLegacyKMSKeyRef v r p;
     if refused \<or> err \<noteq> None then ret (0, map_option ExtError err)
     else do {
       (refused, err) \<leftarrow> refuseOtherRegion v r p;
       if err \<noteq> None then ret (0, map_option ExtError err)
       else if refused then requeueDrift v
       else do {
         fErr \<leftarrow> ensureFinalizer v;
         case fErr of
           Some e \<Rightarrow> ret (0, Some (ExtError e))
         | None \<Rightarrow> do {
             before \<leftarrow> getCR;
             err \<leftarrow> ensureDesiredState v r allSections connect p;
             after \<leftarrow> getCR;
             statusErr \<leftarrow> (if statusNeedsPatch (md_ResourceVersion before) original after then patchStatus v (Some original) else ret None);
             endPass v (retryDelay v) (firstError err (map_option ExtError statusErr)) (requeueDrift v)
           }
       }
     }
   }"

definition endDeletion :: "env \<Rightarrow> AppDependenciesStatus \<Rightarrow> bool \<Rightarrow> go_error option \<Rightarrow> Result op" where
  "endDeletion v original allDone err = do {
     after \<leftarrow> getCR;
     statusErr \<leftarrow> (if sameStatus original (ad_Status after) then ret None else patchStatus v (Some original));
     endPass v (\<lambda>key e. transientDelay v key)
       (firstError err (if allDone then None else map_option ExtError statusErr))
       (if \<not> allDone then requeueDrift v
        else do {
          rErr \<leftarrow> removeFinalizer v;
          ret (0, map_option ExtError rErr)
        })
   }"

definition reconcileDelete ::
  "env \<Rightarrow> reconciler \<Rightarrow> (pass \<Rightarrow> Section list) \<Rightarrow> pass \<Rightarrow> AppDependenciesStatus \<Rightarrow> Result op" where
  "reconcileDelete v r allSections p original = do {
     cr \<leftarrow> getCR;
     if \<not> hasFinalizer cr then ret (0, None)
     else do {
       (abandoned, err) \<leftarrow> abandonOtherRegion v r p;
       if err \<noteq> None \<or> abandoned then ret (0, map_option ExtError err)
       else do {
         (refused, err) \<leftarrow> refuseOtherRegion v r p;
         if err \<noteq> None then ret (0, map_option ExtError err)
         else if refused then requeueDrift v
         else do {
           (allDone, err) \<leftarrow> finalizeDesiredState r (allSections (p\<lparr>ps_original := None\<rparr>));
           endDeletion v original allDone err
         }
       }
     }
   }"

definition passOf :: "reconciler \<Rightarrow> time \<Rightarrow> AppDependencies \<Rightarrow> pass" where
  "passOf r now cr = \<lparr>ps_namespace = md_Namespace cr, ps_crName = md_Name cr, ps_crUID = md_UID cr, ps_now = now,
     ps_adoptFromUID = goget (md_Annotations cr) AdoptFromUIDAnnotation, ps_releaseTagsOff = rc_DisableReleaseTags r,
     ps_recordEvent = rc_Recorder r, ps_checkpoint = True, ps_original = Some (ad_Status cr), ps_pageBudget = 0\<rparr>"

definition Reconcile ::
  "env \<Rightarrow> reconciler \<Rightarrow> (pass \<Rightarrow> Section list) \<Rightarrow> (pass \<Rightarrow> go_error option op) \<Rightarrow> time \<Rightarrow> string \<times> string \<Rightarrow> Result op" where
  "Reconcile v r allSections connect now req = do {
     x \<leftarrow> k8s_GetCR v (fst req) (snd req);
     case x of
       Inl err \<Rightarrow>
         if ex_k8s_notfound err then do { resetTransientBackoff v req; ret (0, None) }
         else ret (0, Some (ExtError err))
     | Inr cr \<Rightarrow> do {
         setCR cr;
         (if md_Deleting cr then reconcileDelete v r allSections (passOf r now cr) (ad_Status cr)
          else reconcileNormal v r allSections connect (passOf r now cr) (ad_Status cr))
       }
   }"

end
