(* ===== verification/Sns_Safety.thy ===== *)
theory Sns_Safety
  imports Sns Gated_Deletion
begin

text \<open>
  What the SNS package never does, whatever AWS answers: delete a topic whose conditions for
  deletion do not hold, or change the owner tags of a topic whose tags it has not just read. The
  cleanup is an instance of the shared contract for deletions.
\<close>

section \<open>Footprints\<close>

definition keySide :: "call \<Rightarrow> bool" where
  "keySide c \<longleftrightarrow> (\<forall>q. c \<noteq> SNSCall q)"

lemma keySide_simps [simp]: "keySide (KMSCall k)" "keySide (K8sCall h)" "\<not> keySide (SNSCall q)"
  by (simp_all add: keySide_def)

lemma resumeCalls_keySide: "resumeCalls c \<Longrightarrow> keySide c"
  by (simp add: resumeCalls_def keySide_def)

lemma keySide_EnsureDedicatedKey: "emits keySide (EnsureDedicatedKey v p t n dp l)"
proof -
  have "emits keySide (createKey v p al n opts l)" for al n opts l
    unfolding createKey_def Let_def by (intro kms_rules2) simp_all
  moreover note emits_mono [OF emits_resumeKey resumeCalls_keySide] emits_mono [OF emits_adoptKey resumeCalls_keySide]
  ultimately show ?thesis
    unfolding EnsureDedicatedKey_def ensureKey_def Let_def by (intro kms_rules2) simp_all
qed

lemma keySide_AdoptedKeyCheck: "emits keySide (AdoptedKeyCheck (Some v) key k)"
  unfolding AdoptedKeyCheck_def CheckAdoptedKey_def by (intro kms_rules2) simp_all

lemma keySide_resolveTopicKey: "emits keySide (resolveTopicKey v p t l)"
  unfolding resolveTopicKey_def Let_def by (intro emits_intros keySide_EnsureDedicatedKey)

lemma sns_emits_op:
  "(\<And>r. C (SNSCall (CreateTopic n m t r))) \<Longrightarrow> emits C (sns_CreateTopic v n m t)"
  "(\<And>r. C (SNSCall (GetTopicAttributes a r))) \<Longrightarrow> emits C (sns_GetTopicAttributes v a)"
  "(\<And>r. C (SNSCall (SetTopicAttributes a n x r))) \<Longrightarrow> emits C (sns_SetTopicAttributes v a n x)"
  "(\<And>r. C (SNSCall (ListTopicTags a r))) \<Longrightarrow> emits C (sns_ListTagsForResource v a)"
  "(\<And>r. C (SNSCall (TagTopic a t r))) \<Longrightarrow> emits C (sns_TagResource v a t)"
  "(\<And>r. C (SNSCall (UntagTopic a ks r))) \<Longrightarrow> emits C (sns_UntagResource v a ks)"
  "(\<And>r. C (SNSCall (DeleteTopic a r))) \<Longrightarrow> emits C (sns_DeleteTopic v a)"
  "(\<And>r. C (SNSCall (ListSubscriptionsByTopic a tok r))) \<Longrightarrow> emits C (sns_ListSubscriptionsByTopic v a tok)"
  by (simp_all add: op_defs emits_invoke)

lemmas sns_rules = emits_intros sns_emits_op

text \<open>Calls that neither write or remove owner tags nor delete a topic.\<close>

definition calm :: "call \<Rightarrow> bool" where
  "calm c = (case c of SNSCall q \<Rightarrow> (case q of TagTopic _ _ _ \<Rightarrow> False | UntagTopic _ ks _ \<Rightarrow> OwnerTagKey \<notin> set ks
     | DeleteTopic _ _ \<Rightarrow> False | _ \<Rightarrow> True) | _ \<Rightarrow> True)"

lemma calm_simps [simp]:
  "calm (SNSCall (CreateTopic n x t r1))" "calm (SNSCall (GetTopicAttributes a r2))"
  "calm (SNSCall (SetTopicAttributes a n y r3))" "calm (SNSCall (ListTopicTags a r4))"
  "calm (SNSCall (ListSubscriptionsByTopic a tok r5))"
  "calm (SNSCall (UntagTopic a ks r3)) \<longleftrightarrow> OwnerTagKey \<notin> set ks"
  by (simp_all add: calm_def)

lemma keySide_calm: "keySide c \<Longrightarrow> calm c"
  by (cases c) (auto simp: keySide_def calm_def)

lemmas calm_keySide = emits_mono [OF _ keySide_calm]

lemma calm_policy_edits:
  "emits calm (addPendingDeletionDeny_sns v a)" "emits calm (removePendingDeletionDeny_sns v a)"
  "emits calm (reconcileDeclaredPolicy_sns v p a)"
  unfolding addPendingDeletionDeny_sns_def removePendingDeletionDeny_sns_def reconcileDeclaredPolicy_sns_def
    readPolicy_sns_def writePolicy_sns_def
  by (intro sns_rules; simp)+

lemma calm_setTopicAttributes: "emits calm (setTopicAttributes v a d c ns)"
proof (induction ns)
  case (Cons n ns)
  then show ?case unfolding setTopicAttributes.simps by (intro sns_rules) simp_all
qed (simp add: emits_ret)

lemma calm_reconcileTopicAttributes: "emits calm (reconcileTopicAttributes v a t key)"
  unfolding reconcileTopicAttributes_def Let_def by (intro sns_rules calm_setTopicAttributes) simp

lemma calm_ensureWithinTrust: "emits calm (ensureWithinTrust_sns v p a e t key l)"
  unfolding ensureWithinTrust_sns_def Let_def by (intro sns_rules calm_reconcileTopicAttributes) simp

lemma calm_createTopic: "emits calm (createTopic v p n tg t key l)"
  unfolding createTopic_def Let_def by (intro sns_rules) simp

lemma calm_subscriptionPages: "emits calm (subscriptionPages v a n tok)"
proof (induction n arbitrary: tok)
  case (Suc n)
  show ?case unfolding subscriptionPages.simps by (intro sns_rules Suc.IH) simp
qed (simp add: emits_ret)

lemma calm_restoreDeclared: "emits calm (restoreDeclared_sns v p e l)"
  unfolding restoreDeclared_sns_def by (intro sns_rules calm_policy_edits)

section \<open>Tags are read before they are changed\<close>

definition snsGuard :: "pass \<Rightarrow> history \<Rightarrow> call \<Rightarrow> bool" where
  "snsGuard p pre c \<longleftrightarrow> (case c of
     SNSCall (DeleteTopic a r) \<Rightarrow> \<exists>ts. SNSCall (ListTopicTags a (Inr ts)) \<in> set pre \<and> owned_by_pass p (tagsToMap ts)
   | SNSCall (UntagTopic a ks r) \<Rightarrow> OwnerTagKey \<in> set ks \<longrightarrow>
       (\<exists>ts. SNSCall (ListTopicTags a (Inr ts)) \<in> set pre \<and> owned_by_pass p (tagsToMap ts))
   | SNSCall (TagTopic a t r) \<Rightarrow> \<exists>ts. SNSCall (ListTopicTags a (Inr ts)) \<in> set pre \<and> ours p (tagsToMap ts)
   | _ \<Rightarrow> True)"

lemma leftmono_snsGuard: "leftmono (snsGuard p)"
  unfolding leftmono_def snsGuard_def by (auto split: call.split sns_call.split)

lemma calm_guard: "calm c \<Longrightarrow> snsGuard p pre c"
  by (cases c) (auto simp: calm_def snsGuard_def split: sns_call.splits)

lemma guards_calm: "emits calm m \<Longrightarrow> guards (snsGuard p) m"
  by (erule guards_emits) (rule calm_guard)

text \<open>What may follow a reading of the tags of topic \<open>a\<close>.\<close>

definition afterTopicTags :: "pass \<Rightarrow> string \<Rightarrow> aws_tag list reply \<Rightarrow> call \<Rightarrow> bool" where
  "afterTopicTags p a res c \<longleftrightarrow> calm c \<or> (\<exists>ts. res = Inr ts \<and>
     (ours p (tagsToMap ts) \<and> (\<exists>t r. c = SNSCall (TagTopic a t r))
      \<or> owned_by_pass p (tagsToMap ts) \<and> ((\<exists>ks r. c = SNSCall (UntagTopic a ks r)) \<or> (\<exists>r. c = SNSCall (DeleteTopic a r)))))"

lemma afterTopicTags_simps [simp]:
  "calm c \<Longrightarrow> afterTopicTags p a res c"
  "ours p (tagsToMap ts) \<Longrightarrow> afterTopicTags p a (Inr ts) (SNSCall (TagTopic a t r))"
  "owned_by_pass p (tagsToMap ts) \<Longrightarrow> afterTopicTags p a (Inr ts) (SNSCall (UntagTopic a ks r))"
  "owned_by_pass p (tagsToMap ts) \<Longrightarrow> afterTopicTags p a (Inr ts) (SNSCall (DeleteTopic a r))"
  by (auto simp: afterTopicTags_def)

lemma guards_ListTopicTags:
  assumes "\<And>res. emits (afterTopicTags p a res) (f res)"
  shows "guards (snsGuard p) (State_Monad.bind (sns_ListTagsForResource v a) f)"
  unfolding sns_ListTagsForResource_def
proof (rule guards_after_invoke [OF _ _ assms])
  show "snsGuard p (SNSCall (ListTopicTags a r) # x) c" if "afterTopicTags p a r c" for r x c
    using that calm_guard unfolding afterTopicTags_def by (auto simp: snsGuard_def)
qed (simp add: calm_guard)

lemma existing_ours_topic: "CheckExistingOwnership p kind name tm adopt = Inr b \<Longrightarrow> ours p tm"
  by (auto simp: CheckExistingOwnership_def ours_def split: option.splits if_splits)

lemma afterTopicTags_calm: "emits calm m \<Longrightarrow> emits (afterTopicTags p a res) m"
  by (erule emits_mono) simp

lemma afterTopicTags_adoptTopic:
  "res = Inr ts \<Longrightarrow> emits (afterTopicTags p a res) (adoptTopic v p n a (tagsToMap ts) tg t key)"
  unfolding adoptTopic_def
  by (intro sns_rules afterTopicTags_calm [OF calm_keySide [OF keySide_AdoptedKeyCheck]])
    (simp_all add: existing_ours_topic owner_not_released)

lemma guards_ensureTopicVerified: "guards (snsGuard p) (ensureTopicVerified v p n a t key l)"
  unfolding ensureTopicVerified_def
  by (rule guards_ListTopicTags, rule emits_sum)
    (intro sns_rules afterTopicTags_adoptTopic afterTopicTags_calm [OF calm_reconcileTopicAttributes]
        afterTopicTags_calm [OF calm_createTopic])+

lemmas sns_guard_rules = guards_intros guards_bind [OF leftmono_snsGuard]

lemma guards_Ensure_sns: "guards (snsGuard p) (Ensure_sns v p pl spec l)"
proof -
  have t: "guards (snsGuard p) (ensureTopic v p pl t l)" for t l
    unfolding ensureTopic_def ensureTopicExists_def Let_def
    by (intro sns_guard_rules guards_calm [OF calm_keySide [OF keySide_resolveTopicKey]] guards_ensureTopicVerified
        guards_calm [OF calm_ensureWithinTrust] guards_calm [OF calm_policy_edits(3)])
  have "guards (snsGuard p) (ensureTopics v p pl ts l e)" for ts l e
  proof (induction ts arbitrary: l e)
    case (Cons x ts)
    show ?case unfolding ensureTopics.simps by (intro sns_guard_rules t Cons.IH)
  qed (simp add: guards_ret)
  then show ?thesis unfolding Ensure_sns_def by (intro sns_guard_rules)
qed

lemma guards_retain_sns: "guards (snsGuard p) (retain_sns v p entry l res)"
  unfolding retain_sns_def relinquishIfStillTagged_sns_def Let_def
  by (intro sns_guard_rules guards_ListTopicTags;
      intro sns_rules guards_calm afterTopicTags_calm [OF calm_policy_edits(2)]; simp add: owned_ours)

section \<open>The conditions of a deletion\<close>

definition deletesTopic :: "string \<Rightarrow> call \<Rightarrow> bool" where
  "deletesTopic a c \<longleftrightarrow> (\<exists>r. c = SNSCall (DeleteTopic a r))"

definition topicSeenOwned :: "pass \<Rightarrow> ManagedResource \<Rightarrow> history \<Rightarrow> string \<Rightarrow> bool" where
  "topicSeenOwned p entry pre a \<longleftrightarrow> a = mr_ARN entry
     \<and> (\<exists>ts. SNSCall (ListTopicTags a (Inr ts)) \<in> set pre \<and> owned_by_pass p (tagsToMap ts))"

text \<open>A listing of the subscriptions, page after page to the last one, found none.\<close>

inductive noSubscriptions :: "history \<Rightarrow> string \<Rightarrow> string option \<Rightarrow> bool" for pre a where
  lastPage: "SNSCall (ListSubscriptionsByTopic a tok (Inr pg)) \<in> set pre \<Longrightarrow> sb_Subscriptions pg = 0
     \<Longrightarrow> sb_NextToken pg = None \<Longrightarrow> noSubscriptions pre a tok"
| page: "SNSCall (ListSubscriptionsByTopic a tok (Inr pg)) \<in> set pre \<Longrightarrow> sb_Subscriptions pg = 0
     \<Longrightarrow> sb_NextToken pg = Some t \<Longrightarrow> noSubscriptions pre a (Some t) \<Longrightarrow> noSubscriptions pre a tok"

definition topicSeenUnused :: "history \<Rightarrow> string \<Rightarrow> bool" where
  "topicSeenUnused pre a \<longleftrightarrow> noSubscriptions pre a None"

lemma noSubscriptions_mono: "noSubscriptions pre a tok \<Longrightarrow> set pre \<subseteq> set pre' \<Longrightarrow> noSubscriptions pre' a tok"
  by (induction rule: noSubscriptions.induct) (blast intro: noSubscriptions.intros)+

abbreviation topicDeletionGuard :: "pass \<Rightarrow> (string \<Rightarrow> bool) \<Rightarrow> bool \<Rightarrow> ledger \<Rightarrow> history \<Rightarrow> call \<Rightarrow> bool" where
  "topicDeletionGuard p \<equiv> deletionGuard deletesTopic (topicSeenOwned p) topicSeenUnused typeSNS p"

definition keepsTopics :: "call \<Rightarrow> bool" where
  "keepsTopics c \<longleftrightarrow> (\<forall>a. \<not> deletesTopic a c)"

lemma calm_keeps: "calm c \<Longrightarrow> keepsTopics c"
  by (auto simp: keepsTopics_def deletesTopic_def calm_def)

lemma keepsTopics_simps [simp]:
  "keepsTopics (SNSCall (TagTopic a t r))" "keepsTopics (SNSCall (UntagTopic a ks r))"
  by (simp_all add: keepsTopics_def deletesTopic_def)

lemmas keeps_calm = emits_mono [OF _ calm_keeps]

lemma wp_subscriptionPages:
  "wp (subscriptionPages v a n tok) (\<lambda>r w'. \<exists>new. trace w' = trace w @ new \<and> (\<forall>c\<in>set new. keepsTopics c)
     \<and> (r = Inr False \<longrightarrow> noSubscriptions new a tok)) w"
proof (induction n arbitrary: tok w)
  case 0
  then show ?case by (simp add: wp_simps)
next
  case (Suc n)
  let ?r = "na_ListSubscriptionsByTopic (env_sns v) (trace w) a tok"
  let ?c = "SNSCall (ListSubscriptionsByTopic a tok ?r)"
  have k: "keepsTopics ?c" by (rule calm_keeps) simp
  show ?case
  proof (cases "\<exists>pg t. ?r = Inr pg \<and> sb_Subscriptions pg = 0 \<and> sb_NextToken pg = Some t")
    case True
    then obtain pg t where r: "?r = Inr pg" "sb_Subscriptions pg = 0" "sb_NextToken pg = Some t" by blast
    have "wp (subscriptionPages v a n (Some t)) (\<lambda>r w'. \<exists>new. trace w' = trace w @ new \<and> (\<forall>c\<in>set new. keepsTopics c)
       \<and> (r = Inr False \<longrightarrow> noSubscriptions new a tok)) (w\<lparr>trace := trace w @ [?c]\<rparr>)"
    proof (rule wp_conseq [OF Suc.IH], elim exE conjE)
      fix b :: "ext_error + bool" and w' :: world and new
      assume n: "trace w' = trace (w\<lparr>trace := trace w @ [?c]\<rparr>) @ new" "\<forall>c\<in>set new. keepsTopics c"
        "b = Inr False \<longrightarrow> noSubscriptions new a (Some t)"
      have "noSubscriptions (?c # new) a tok" if "noSubscriptions new a (Some t)"
        by (rule noSubscriptions.page [where pg = pg]) (use r noSubscriptions_mono [OF that, of "?c # new"] in auto)
      with n k show "\<exists>new. trace w' = trace w @ new \<and> (\<forall>c\<in>set new. keepsTopics c) \<and> (b = Inr False \<longrightarrow> noSubscriptions new a tok)"
        by (intro exI [of _ "?c # new"]) auto
    qed
    with r show ?thesis by (simp add: sns_ListSubscriptionsByTopic_def wp_simps)
  next
    case False
    have "noSubscriptions [?c] a tok" if "?r = Inr pg" "sb_Subscriptions pg = 0" "sb_NextToken pg = None" for pg
      by (rule noSubscriptions.lastPage [where pg = pg]) (use that in simp_all)
    then have "wp (subscriptionPages v a (Suc n) tok) (\<lambda>r w'. trace w' = trace w @ [?c]
       \<and> (r = Inr False \<longrightarrow> noSubscriptions [?c] a tok)) w"
      using False by (auto simp: sns_ListSubscriptionsByTopic_def wp_simps split: sum.split option.split)
    then show ?thesis by (rule wp_conseq) (use k in auto)
  qed
qed

lemma wp_gateOnSubscriptions:
  "wp (gateOnSubscriptions v p e l res) (\<lambda>(l1, res1, proceed, err) w'. \<exists>new. trace w' = trace w @ new \<and> (\<forall>c\<in>set new. keepsTopics c)
     \<and> (proceed \<longrightarrow> mr_PendingDeletionSince e \<noteq> None \<and> topicSeenUnused new (mr_ARN e))) w"
proof (cases "mr_PendingDeletionSince e = None")
  case True
  have "wp (addPendingDeletionDeny_sns v (mr_ARN e)) (\<lambda>_ w'. \<exists>new. trace w' = trace w @ new \<and> (\<forall>c\<in>set new. keepsTopics c)) w"
    by (rule wp_emits [OF keeps_calm [OF calm_policy_edits(1)]])
  then show ?thesis
    unfolding gateOnSubscriptions_def if_P [OF True] wp_bind
    by (rule wp_conseq) (auto simp: wp_simps split: option.split prod.split)
next
  case False
  show ?thesis
    unfolding gateOnSubscriptions_def if_not_P [OF False] hasSubscriptions_def wp_bind
    by (rule wp_conseq [OF wp_subscriptionPages])
      (use False in \<open>auto simp: wp_simps topicSeenUnused_def split: sum.split prod.split\<close>)
qed

lemma keeps_retain: "emits keepsTopics (retain_sns v p entry l res)"
  unfolding retain_sns_def relinquishIfStillTagged_sns_def Let_def
  by (intro sns_rules keeps_calm [OF calm_policy_edits(2)]) (simp_all add: calm_keeps)

lemma keeps_Ensure_sns: "emits keepsTopics (Ensure_sns v p pl spec l)"
proof -
  have t: "emits keepsTopics (ensureTopic v p pl t l)" for t l
    unfolding ensureTopic_def ensureTopicExists_def ensureTopicVerified_def adoptTopic_def Let_def
    by (intro sns_rules keeps_calm [OF calm_keySide [OF keySide_resolveTopicKey]] keeps_calm [OF calm_ensureWithinTrust]
        keeps_calm [OF calm_policy_edits(3)] keeps_calm [OF calm_reconcileTopicAttributes] keeps_calm [OF calm_createTopic]
        keeps_calm [OF calm_keySide [OF keySide_AdoptedKeyCheck]]) (simp_all add: calm_keeps)
  have "emits keepsTopics (ensureTopics v p pl ts l e)" for ts l e
  proof (induction ts arbitrary: l e)
    case (Cons x ts)
    show ?case unfolding ensureTopics.simps by (intro emits_intros t Cons.IH)
  qed (simp add: emits_ret)
  then show ?thesis unfolding Ensure_sns_def by (intro emits_intros)
qed

text \<open>Cleaning up topics is the common control flow; the handle of a topic is its ARN.\<close>

definition verifyTopic :: "env \<Rightarrow> pass \<Rightarrow> ManagedResource \<Rightarrow> (go_error + string option) op" where
  "verifyTopic v p entry = do {
     r \<leftarrow> verifyOwned_sns v p entry;
     ret (map_sum id (\<lambda>gone. if gone then None else Some (mr_ARN entry)) r)
   }"

lemma deleteUndeclared_sns_gated:
  "deleteUndeclared_sns v p = gatedDelete (waitsQuietly_sns p) (pendingDeletionReason_sns p) (verifyTopic v p)
     (\<lambda>e h. gateOnSubscriptions v p e) (\<lambda>e h. deleteTopic v p e) typeSNS"
proof (intro ext)
  fix f e l res
  have *: "State_Monad.bind (verifyTopic v p e) g
      = State_Monad.bind (verifyOwned_sns v p e) (\<lambda>r. g (map_sum id (\<lambda>gone. if gone then None else Some (mr_ARN e)) r))" for g :: "_ \<Rightarrow> 'x op"
    by (simp add: verifyTopic_def)
  show "deleteUndeclared_sns v p f e l res = gatedDelete (waitsQuietly_sns p) (pendingDeletionReason_sns p) (verifyTopic v p)
     (\<lambda>e h. gateOnSubscriptions v p e) (\<lambda>e h. deleteTopic v p e) typeSNS f e l res"
    unfolding deleteUndeclared_sns_def gatedDelete_def Let_def *
    by (intro if_cong refl arg_cong [where f = "State_Monad.bind _"] ext) (auto split: sum.split)
qed

lemma cleanupTopics_loop:
  "cleanupTopics v p declared force es acc =
     cleanupLoop typeSNS declared (restoreDeclared_sns v p) (retain_sns v p) (deleteUndeclared_sns v p force) es acc"
  by (induction es arbitrary: acc) (simp_all split: prod.split)

interpretation topics: gated_deletion deletesTopic "topicSeenOwned p" topicSeenUnused "\<lambda>e h. h = mr_ARN e" typeSNS p "waitsQuietly_sns p"
    "pendingDeletionReason_sns p" "verifyTopic v p" "\<lambda>e h. gateOnSubscriptions v p e" "\<lambda>e h. deleteTopic v p e"
    "restoreDeclared_sns v p" "retain_sns v p" for v p
proof
  fix e h l and res :: "topic_result list" and w :: world
  show "wp (verifyTopic v p e) (\<lambda>r w'. \<exists>new. trace w' = trace w @ new \<and> (\<forall>c\<in>set new. \<forall>h. \<not> deletesTopic h c)
      \<and> (\<forall>h. r = Inr (Some h) \<longrightarrow> h = mr_ARN e \<and> topicSeenOwned p e new h)) w"
    unfolding verifyTopic_def verifyOwned_sns_def op_defs
    by (auto simp: wp_simps deletesTopic_def topicSeenOwned_def split: sum.split intro!: exI)
  show "wp (gateOnSubscriptions v p e l res) (\<lambda>(l1, res1, proceed, err) w'. \<exists>new. trace w' = trace w @ new
      \<and> (\<forall>c\<in>set new. \<forall>h. \<not> deletesTopic h c) \<and> (proceed \<longrightarrow> mr_PendingDeletionSince e \<noteq> None \<and> topicSeenUnused new h)) w"
    if "h = mr_ARN e"
    using wp_gateOnSubscriptions [of v p e l res w] that by (simp add: keepsTopics_def)
  show "emits (\<lambda>c. \<forall>h'. deletesTopic h' c \<longrightarrow> h' = h) (deleteTopic v p e l)" if "h = mr_ARN e"
    unfolding deleteTopic_def by (intro sns_rules) (simp add: deletesTopic_def that)
  show "emits (\<lambda>c. \<forall>h. \<not> deletesTopic h c) (restoreDeclared_sns v p e l)"
    using keeps_calm [OF calm_restoreDeclared] by (simp add: keepsTopics_def [abs_def])
  show "emits (\<lambda>c. \<forall>h. \<not> deletesTopic h c) (retain_sns v p e l res)"
    using keeps_retain by (simp add: keepsTopics_def [abs_def])
qed (auto simp: topicSeenOwned_def topicSeenUnused_def waitsQuietly_sns_def quietlyPending_def deletionQuietWindow_sns_def not_less
      elim: noSubscriptions_mono)

lemma guards_cleanup_topic_tags: "guards (snsGuard p) (cleanupTopics v p declared force es acc)"
proof (induction es arbitrary: acc)
  case (Cons entry es)
  have "guards (snsGuard p) (deleteUndeclared_sns v p force entry l res)" if "mr_Type entry = typeSNS" "mr_DeletionPolicy entry = DeletionPolicyDelete" for l res
  proof (rule guards_mono_emits [OF topics.guards_gatedDelete [where declared = "\<lambda>_. False" and ?l0.0 = "[entry]", folded deleteUndeclared_sns_gated]])
    let ?C = "\<lambda>c. calm c \<or> (\<exists>u r. c = SNSCall (DeleteTopic u r))"
    show "emits ?C (deleteUndeclared_sns v p force entry l res)"
      unfolding deleteUndeclared_sns_def verifyOwned_sns_def gateOnSubscriptions_def hasSubscriptions_def deleteTopic_def Let_def
      by (intro sns_rules emits_mono [OF calm_policy_edits(1), of ?C] emits_mono [OF calm_subscriptionPages, of ?C]) auto
    show "snsGuard p pre c" if "topicDeletionGuard p (\<lambda>_. False) force [entry] pre c" "?C c" for pre c
      using that calm_guard by (auto simp: deletionGuard_def deletesTopic_def snsGuard_def topicSeenOwned_def)
  qed (use that in \<open>simp_all add: deletableEntry_def\<close>)
  then show ?case
    unfolding cleanupTopics.simps
    by (intro sns_guard_rules Cons.IH guards_retain_sns guards_calm [OF calm_restoreDeclared]) simp_all
qed (simp add: guards_ret)

section \<open>Properties\<close>

text \<open>C18: When a topic may be deleted, and whose tags are changed. Ensuring declared topics never deletes one.
  Cleaning up deletes a topic only for an entry of the ledger it was given that is a topic with policy Delete
  and is not declared, after reading tags at that entry's own ARN that show this custom resource as
  the owner, in the same run. Unless deletion is forced, the topic has been pending for at least the ten
  minutes of the quiet window and a listing of its subscriptions, complete to the last page, was
  empty. In either entry point owner tags are written only after a reading that shows no other owner,
  and removed only after one that shows this custom resource.\<close>

theorem topic_deletion_conditions:
  "emits keepsTopics (Ensure_sns v p pl spec l)
   \<and> guards (topicDeletionGuard p (declaredTopicNames spec deleting) forceDeleteAll l) (Cleanup_sns v p spec l deleting forceDeleteAll)
   \<and> guards (snsGuard p) (Ensure_sns v p pl spec l) \<and> guards (snsGuard p) (Cleanup_sns v p spec l deleting forceDeleteAll)"
proof (intro conjI)
  show "guards (topicDeletionGuard p (declaredTopicNames spec deleting) forceDeleteAll l) (Cleanup_sns v p spec l deleting forceDeleteAll)"
    unfolding Cleanup_sns_def cleanupTopics_loop deleteUndeclared_sns_gated by (rule topics.guards_cleanupLoop) simp
  show "guards (snsGuard p) (Cleanup_sns v p spec l deleting forceDeleteAll)"
    unfolding Cleanup_sns_def by (rule guards_cleanup_topic_tags)
qed (rule keeps_Ensure_sns guards_Ensure_sns)+

end
