(* ===== verification/Deletion.thy ===== *)
theory Deletion
  imports Reconcile Sqs_Safety Sns_Safety
begin

text \<open>
  What a finished deletion means. The sections of a deletion pass share the in-memory custom resource; each
  one cleans up its own types of ledger entries. A section that reports done without an error leaves no entry of
  policy Delete of the types it cleans, and no section brings back what another has cleaned.
\<close>

section \<open>Computations that leave the custom resource alone\<close>

text \<open>
  \<open>keepsCR m\<close>: \<open>m\<close> neither assigns to the custom resource in memory nor patches it on the server.
\<close>

fun patchesCR :: "call \<Rightarrow> bool" where
  "patchesCR (K8sCall (PatchStatus ns n base s r)) \<longleftrightarrow> True"
| "patchesCR (K8sCall (PatchFinalizers ns n rv fs r)) \<longleftrightarrow> True"
| "patchesCR c \<longleftrightarrow> False"

definition keepsCR :: "'a op \<Rightarrow> bool" where
  "keepsCR m \<longleftrightarrow> (\<forall>w. memCR (snd (run_state m w)) = memCR w) \<and> emits (\<lambda>c. \<not> patchesCR c) m"

named_theorems keepsCR_intros \<open>structural rules for keepsCR\<close>

lemma keepsCR_ret [keepsCR_intros]: "keepsCR (ret x)"
  by (simp add: keepsCR_def emits_ret)

lemma keepsCR_bind [keepsCR_intros]: "keepsCR m \<Longrightarrow> (\<And>a. keepsCR (f a)) \<Longrightarrow> keepsCR (State_Monad.bind m f)"
  by (simp add: keepsCR_def split_beta emits_bind)

lemma keepsCR_invoke: "(\<And>r. \<not> patchesCR (mk r)) \<Longrightarrow> keepsCR (invoke f mk)"
  unfolding keepsCR_def by (intro conjI emits_invoke) (simp_all add: invoke_def)

lemma keepsCR_recordEvent [keepsCR_intros]: "keepsCR (recordEvent p t r a)"
  by (simp add: keepsCR_def recordEvent_def emits_recordEvent [unfolded recordEvent_def])

lemma keepsCR_ReleaseTagFailed [keepsCR_intros]: "keepsCR (ReleaseTagFailed p k n e)"
  by (simp add: ReleaseTagFailed_def keepsCR_recordEvent)

lemma keepsCR_if [keepsCR_intros]: "(b \<Longrightarrow> keepsCR m) \<Longrightarrow> (\<not> b \<Longrightarrow> keepsCR n) \<Longrightarrow> keepsCR (if b then m else n)"
  by simp

lemma keepsCR_option [keepsCR_intros]:
  "keepsCR m \<Longrightarrow> (\<And>a. keepsCR (f a)) \<Longrightarrow> keepsCR (case x of None \<Rightarrow> m | Some a \<Rightarrow> f a)"
  by (cases x) simp_all

lemma keepsCR_sum [keepsCR_intros]:
  "(\<And>e. keepsCR (f e)) \<Longrightarrow> (\<And>a. keepsCR (g a)) \<Longrightarrow> keepsCR (case x of Inl e \<Rightarrow> f e | Inr a \<Rightarrow> g a)"
  by (cases x) simp_all

lemma keepsCR_prod [keepsCR_intros]: "(\<And>a b. keepsCR (f a b)) \<Longrightarrow> keepsCR (case x of (a, b) \<Rightarrow> f a b)"
  by (cases x) simp

lemma keepsCR_list [keepsCR_intros]:
  "keepsCR m \<Longrightarrow> (\<And>a as. keepsCR (f a as)) \<Longrightarrow> keepsCR (case x of [] \<Rightarrow> m | a # as \<Rightarrow> f a as)"
  by (cases x) simp_all

lemma keepsCR_ops [keepsCR_intros]:
  "keepsCR (kms_DescribeKey v k)" "keepsCR (kms_GetKeyPolicy v k)" "keepsCR (kms_PutKeyPolicy v k d)"
  "keepsCR (kms_ListResourceTags v k tok)" "keepsCR (kms_TagResource v k t)" "keepsCR (kms_UntagResource v k ks)"
  "keepsCR (kms_ScheduleKeyDeletion v k days)"
  "keepsCR (sqs_GetQueueUrl v n)" "keepsCR (sqs_GetQueueAttributes v u ks)" "keepsCR (sqs_SetQueueAttributes v u attrs)"
  "keepsCR (sqs_ListQueueTags v u)" "keepsCR (sqs_TagQueue v u t)" "keepsCR (sqs_UntagQueue v u ks)" "keepsCR (sqs_DeleteQueue v u)"
  "keepsCR (sns_GetTopicAttributes v a)" "keepsCR (sns_SetTopicAttributes v a n x)" "keepsCR (sns_ListTagsForResource v a)"
  "keepsCR (sns_TagResource v a t)" "keepsCR (sns_UntagResource v a ks)" "keepsCR (sns_DeleteTopic v a)"
  "keepsCR (sns_ListSubscriptionsByTopic v a tok)" "keepsCR (sns_Unsubscribe v a)"
  "keepsCR (cw_DescribeAlarms v n tok)" "keepsCR (cw_PutMetricAlarm v i)" "keepsCR (cw_DeleteAlarms v ks)"
  "keepsCR (cw_ListTagsForResource v k)" "keepsCR (k8s_GetCR v n x)"
  by (simp_all add: op_defs keepsCR_invoke)

subsection \<open>The cleanups\<close>

lemma keepsCR_policies [keepsCR_intros]:
  "keepsCR (readPolicy v u)" "keepsCR (writePolicy v u d)" "keepsCR (readPolicy_sns v a)" "keepsCR (writePolicy_sns v a d)"
  unfolding readPolicy_def writePolicy_def readPolicy_sns_def writePolicy_sns_def Let_def by (intro keepsCR_intros)+

lemma keepsCR_removeStatement [keepsCR_intros]: "keepsCR (removeStatement v u s)"
  unfolding removeStatement_def Let_def by (intro keepsCR_intros)

lemma keepsCR_denies [keepsCR_intros]:
  "keepsCR (addPendingDeletionDeny v u a)" "keepsCR (removePendingDeletionDeny v u)" "keepsCR (removeSubscriptionAllow v u n)"
  "keepsCR (addPendingDeletionDeny_sns v a)" "keepsCR (removePendingDeletionDeny_sns v a)"
  unfolding addPendingDeletionDeny_def removePendingDeletionDeny_def removeSubscriptionAllow_def
    addPendingDeletionDeny_sns_def removePendingDeletionDeny_sns_def Let_def
  by (intro keepsCR_intros)+

lemma keepsCR_subscriptionPages [keepsCR_intros]: "keepsCR (subscriptionPages v a n tok)"
proof (induction n arbitrary: tok)
  case (Suc n)
  show ?case unfolding subscriptionPages.simps by (intro keepsCR_intros Suc.IH)
qed (simp add: keepsCR_ret)

lemma keepsCR_queue_steps [keepsCR_intros]:
  "keepsCR (clearPendingDeletion_sqs v e)" "keepsCR (restoreDeclared_sqs v p e l)" "keepsCR (relinquishIfStillTagged_sqs v p e)"
  "keepsCR (retain_sqs v p e l res)" "keepsCR (verifyOwned_sqs v p e)" "keepsCR (gateOnEmpty v p e u l res)"
  "keepsCR (deleteQueue_sqs v p e u l)"
  unfolding clearPendingDeletion_sqs_def restoreDeclared_sqs_def relinquishIfStillTagged_sqs_def retain_sqs_def verifyOwned_sqs_def
    gateOnEmpty_def deleteQueue_sqs_def Let_def
  by (intro keepsCR_intros)+

lemma keepsCR_topic_steps [keepsCR_intros]:
  "keepsCR (restoreDeclared_sns v p e l)" "keepsCR (relinquishIfStillTagged_sns v p e)"
  "keepsCR (retain_sns v p e l res')" "keepsCR (verifyOwned_sns v p e)" "keepsCR (gateOnSubscriptions v p e l res')"
  "keepsCR (deleteTopic v p e l)"
  unfolding restoreDeclared_sns_def relinquishIfStillTagged_sns_def retain_sns_def verifyOwned_sns_def
    gateOnSubscriptions_def hasSubscriptions_def deleteTopic_def Let_def
  by (intro keepsCR_intros)+

lemma keepsCR_deletes [keepsCR_intros]:
  "keepsCR (deleteUndeclared v p f e l res)" "keepsCR (deleteUndeclared_sns v p f e l res')"
  unfolding deleteUndeclared_def deleteUndeclared_sns_def Let_def by (intro keepsCR_intros)+

lemma keepsCR_cleanupQueues [keepsCR_intros]: "keepsCR (cleanupQueues v p d f es acc)"
proof (induction es arbitrary: acc)
  case (Cons e es)
  show ?case unfolding cleanupQueues.simps by (intro keepsCR_intros Cons.IH)
qed (simp add: keepsCR_ret)

lemma keepsCR_cleanupTopics [keepsCR_intros]: "keepsCR (cleanupTopics v p d f es acc)"
proof (induction es arbitrary: acc)
  case (Cons e es)
  show ?case unfolding cleanupTopics.simps by (intro keepsCR_intros Cons.IH)
qed (simp add: keepsCR_ret)

lemma keepsCR_resolve [keepsCR_intros]:
  "keepsCR (lookupConsume v ns n t ref)" "keepsCR (resolveConsume v ns n t ref)" "keepsCR (ResolveConsumeARN v ns n t ref)"
  "keepsCR (resolveTopicARN v p ref)"
  unfolding lookupConsume_def resolveConsume_def ResolveConsumeARN_def resolveTopicARN_def by (intro keepsCR_intros)+

lemma keepsCR_authorizedRefs [keepsCR_intros]: "keepsCR (authorizedRefs v p q refs ns)"
proof (induction refs arbitrary: ns)
  case (Cons ref refs)
  show ?case unfolding authorizedRefs.simps by (intro keepsCR_intros Cons.IH)
qed (simp add: keepsCR_ret)

lemma keepsCR_subscriptionLoop [keepsCR_intros]: "keepsCR (cleanupSubscriptionLoop v p q u n es acc)"
proof (induction es arbitrary: acc)
  case (Cons e es)
  show ?case unfolding cleanupSubscriptionLoop.simps Let_def by (intro keepsCR_intros Cons.IH)
qed (simp add: keepsCR_ret)

lemma keepsCR_queueSubscriptions [keepsCR_intros]: "keepsCR (cleanupQueueSubscriptions v p b es acc)"
proof (induction es arbitrary: acc)
  case (Cons e es)
  show ?case unfolding cleanupQueueSubscriptions.simps CleanupSubscriptions_def Let_def by (intro keepsCR_intros Cons.IH)
qed (simp add: keepsCR_ret)

lemma keepsCR_listTagPages [keepsCR_intros]: "keepsCR (listTagPages v k n m tgs)"
proof (induction n arbitrary: m tgs)
  case (Suc n)
  show ?case unfolding listTagPages.simps Let_def by (intro keepsCR_intros Suc.IH)
qed (simp add: keepsCR_ret)

lemma keepsCR_key_steps [keepsCR_intros]:
  "keepsCR (listAllResourceTags v p k)" "keepsCR (ensureKeyPolicy v k)" "keepsCR (SyncServiceGrants v p k g)"
  "keepsCR (relinquishIfStillTagged_kms v p e)" "keepsCR (retain_kms v p e l res)" "keepsCR (scheduleDeletion v p e l res)"
  "keepsCR (holdKeyForData p e u)"
  unfolding listAllResourceTags_def ensureKeyPolicy_def SyncServiceGrants_def relinquishIfStillTagged_kms_def retain_kms_def
    scheduleDeletion_def holdKeyForData_def Let_def
  by (intro keepsCR_intros)+

lemma keepsCR_cleanupKeys [keepsCR_intros]: "keepsCR (cleanupKeys v p d u del es acc)"
proof (induction es arbitrary: acc)
  case (Cons e es)
  show ?case unfolding cleanupKeys.simps by (intro keepsCR_intros Cons.IH)
qed (simp add: keepsCR_ret)

lemma keepsCR_Cleanups [keepsCR_intros]:
  "keepsCR (Cleanup_sqs v p qspec l del f)" "keepsCR (Cleanup_sns v p tspec l del f)" "keepsCR (Cleanup_kms v p kspec u l del)"
  unfolding Cleanup_sqs_def Cleanup_sns_def Cleanup_kms_def by (intro keepsCR_intros)+

section \<open>What a cleanup leaves behind\<close>

text \<open>
  \<open>cleanedOf ty l\<close>: no entry of the type has policy Delete. \<open>changesTypes W l l'\<close>: entries of other types than \<open>W\<close>
  are not added or rewritten.
\<close>

definition cleanedOf :: "string \<Rightarrow> ledger \<Rightarrow> bool" where
  "cleanedOf ty l \<longleftrightarrow> (\<forall>e\<in>set l. mr_Type e = ty \<longrightarrow> mr_DeletionPolicy e \<noteq> DeletionPolicyDelete)"

definition changesTypes :: "string set \<Rightarrow> ledger \<Rightarrow> ledger \<Rightarrow> bool" where
  "changesTypes W l l' \<longleftrightarrow> (\<forall>e\<in>set l'. mr_Type e \<notin> W \<longrightarrow> e \<in> set l)"

lemma changesTypes_refl [simp]: "changesTypes W l l"
  by (simp add: changesTypes_def)

lemma changesTypes_trans: "changesTypes W l l1 \<Longrightarrow> changesTypes W l1 l2 \<Longrightarrow> changesTypes W l l2"
  by (auto simp: changesTypes_def)

lemma changesTypes_mono: "changesTypes W l l' \<Longrightarrow> W \<subseteq> W' \<Longrightarrow> changesTypes W' l l'"
  by (auto simp: changesTypes_def)

text \<open>\<open>sameExcept W l l'\<close>: apart from entries of the types \<open>W\<close>, the two ledgers hold the same.\<close>

definition sameExcept :: "string set \<Rightarrow> ledger \<Rightarrow> ledger \<Rightarrow> bool" where
  "sameExcept W l l' \<longleftrightarrow> (\<forall>e. mr_Type e \<notin> W \<longrightarrow> (e \<in> set l' \<longleftrightarrow> e \<in> set l))"

lemma sameExcept_refl [simp]: "sameExcept W l l"
  by (simp add: sameExcept_def)

lemma sameExcept_trans: "sameExcept W l l1 \<Longrightarrow> sameExcept W l1 l2 \<Longrightarrow> sameExcept W l l2"
  by (simp add: sameExcept_def)

lemma sameExcept_changes: "sameExcept W l l' \<Longrightarrow> changesTypes W l l'"
  by (auto simp: sameExcept_def changesTypes_def)

lemma cleanedOf_kept: "cleanedOf ty l \<Longrightarrow> changesTypes W l l' \<Longrightarrow> ty \<notin> W \<Longrightarrow> cleanedOf ty l'"
  by (auto simp: cleanedOf_def changesTypes_def)

lemma set_Upsert: "x \<in> set (UpsertManagedResource l e) \<Longrightarrow> x \<in> set l \<or> mr_key x = mr_key e \<and> mr_DeletionPolicy x = mr_DeletionPolicy e"
  by (induction l) (auto simp: carryOver_fields split: if_splits)

lemma set_Remove: "x \<in> set (RemoveManagedResource l t n) \<longleftrightarrow> x \<in> set l \<and> mr_key x \<noteq> (t, n)"
  by (auto simp: Remove_filter)

lemma Upsert_other: "mr_key x \<noteq> mr_key e \<Longrightarrow> x \<in> set (UpsertManagedResource l e) \<longleftrightarrow> x \<in> set l"
  by (induction l) (auto simp: carryOver_fields split: if_splits)

lemma sameExcept_Upsert: "mr_Type e \<in> W \<Longrightarrow> sameExcept W l (UpsertManagedResource l e)"
  unfolding sameExcept_def by (metis Upsert_other fst_conv)

lemma sameExcept_Remove: "t \<in> W \<Longrightarrow> sameExcept W l (RemoveManagedResource l t n)"
  by (auto simp: sameExcept_def set_Remove)

text \<open>
  A cleanup loop, by its two steps on an entry that is not declared. Retaining rewrites entries of the type only and keeps the policy;
  removing rewrites the entry at hand and entries of the types \<open>side\<close>, and without an error leaves no entry of the name, or reports it as
  waiting. \<open>waitingFor\<close> and \<open>removed\<close> say so of the results.
\<close>

definition waitingFor :: "('r \<Rightarrow> bool) \<Rightarrow> (string \<times> 'r) list \<Rightarrow> string \<Rightarrow> bool" where
  "waitingFor pendingReason res n \<longleftrightarrow> (\<exists>r. (n, r) \<in> set res \<and> pendingReason r)"

definition removed ::
  "string \<Rightarrow> string set \<Rightarrow> ('r \<Rightarrow> bool) \<Rightarrow> ManagedResource \<Rightarrow> ledger \<Rightarrow> (string \<times> 'r) list
   \<Rightarrow> ledger \<times> (string \<times> 'r) list \<times> go_error option \<Rightarrow> bool" where
  "removed ty side pendingReason e l res out = (case out of (l1, res1, err) \<Rightarrow> set res \<subseteq> set res1
     \<and> (\<forall>x\<in>set l1. x \<in> set l \<or> mr_key x = (ty, mr_Name e) \<or> mr_Type x \<in> side)
     \<and> (err = None \<longrightarrow> waitingFor pendingReason res1 (mr_Name e) \<or> (\<forall>x\<in>set l1. mr_key x \<noteq> (ty, mr_Name e))))"

lemma waitingFor_mono: "waitingFor pr res n \<Longrightarrow> set res \<subseteq> set res1 \<Longrightarrow> waitingFor pr res1 n"
  by (auto simp: waitingFor_def)

locale tidy_loop =
  fixes ty :: string and side :: "string set" and pendingReason :: "'r \<Rightarrow> bool"
    and retain :: "ManagedResource \<Rightarrow> ledger \<Rightarrow> (string \<times> 'r) list \<Rightarrow> (ledger \<times> (string \<times> 'r) list \<times> go_error option) op"
    and remove :: "ManagedResource \<Rightarrow> ledger \<Rightarrow> (string \<times> 'r) list \<Rightarrow> (ledger \<times> (string \<times> 'r) list \<times> go_error option) op"
  assumes side_types: "ty \<notin> side"
    and retain_step: "\<And>e l res. mr_Type e = ty \<Longrightarrow> returns (\<lambda>(l1, res1, err). set res \<subseteq> set res1
          \<and> (\<forall>x\<in>set l1. x \<in> set l \<or> mr_Type x = ty \<and> mr_DeletionPolicy x = mr_DeletionPolicy e)) (retain e l res)"
    and remove_step: "\<And>e l res. mr_Type e = ty \<Longrightarrow> returns (removed ty side pendingReason e l res) (remove e l res)"
begin

text \<open>Every entry of policy Delete is still to come or reported as waiting.\<close>

definition settled :: "ManagedResource list \<Rightarrow> ledger \<times> (string \<times> 'r) list \<times> go_error option \<Rightarrow> bool" where
  "settled rest out = (case out of (l, res, err) \<Rightarrow> err = None \<longrightarrow>
     (\<forall>x\<in>set l. mr_Type x = ty \<and> mr_DeletionPolicy x = DeletionPolicyDelete \<longrightarrow> x \<in> set rest \<or> waitingFor pendingReason res (mr_Name x)))"

lemma returns_cleanupLoop:
  assumes "settled es acc"
  shows "returns (\<lambda>out. settled [] out \<and> changesTypes (insert ty side) (fst acc) (fst out))
    (cleanupLoop ty (\<lambda>_. False) restore retain remove es acc)"
  using assms
proof (induction es arbitrary: acc)
  case Nil
  then show ?case by (simp add: returns_ret)
next
  case (Cons e es)
  obtain l res err where acc: "acc = (l, res, err)" by (metis surj_pair)
  have go: "returns (\<lambda>out. settled [] out \<and> changesTypes (insert ty side) l (fst out))
      (cleanupLoop ty (\<lambda>_. False) restore retain remove es (l1, res1, firstError err err1))"
    if "settled es (l1, res1, firstError err err1)" "changesTypes (insert ty side) l l1" for l1 res1 err1
    by (rule returns_mono [OF Cons.IH [OF that(1)]]) (use that(2) in \<open>auto elim: changesTypes_trans\<close>)
  show ?case
  proof (cases "mr_Type e = ty")
    case False
    then have "settled es (l, res, err)" using Cons.prems by (auto simp: acc settled_def)
    moreover have "firstError err None = err" by (cases err) simp_all
    ultimately show ?thesis using go [of l res None] False by (simp add: acc)
  next
    case True
    have kept: "settled es (l1, res1, firstError err err1) \<and> changesTypes (insert ty side) l l1"
      if "mr_DeletionPolicy e \<noteq> DeletionPolicyDelete" "set res \<subseteq> set res1"
        "\<forall>x\<in>set l1. x \<in> set l \<or> mr_Type x = ty \<and> mr_DeletionPolicy x = mr_DeletionPolicy e" for l1 res1 err1
      using that Cons.prems waitingFor_mono [OF _ that(2)] by (fastforce simp: acc settled_def changesTypes_def)
    have gone: "settled es (l1, res1, firstError err err1) \<and> changesTypes (insert ty side) l l1" if "removed ty side pendingReason e l res (l1, res1, err1)" for l1 res1 err1
      using that Cons.prems waitingFor_mono [of _ res _ res1] side_types by (fastforce simp: acc settled_def changesTypes_def removed_def)
    let ?Q = "\<lambda>(l1, res1, err1). settled es (l1, res1, firstError err err1) \<and> changesTypes (insert ty side) l l1"
    have keep: "returns ?Q (retain e l res)" if "mr_DeletionPolicy e \<noteq> DeletionPolicyDelete"
      by (rule returns_mono [OF retain_step [OF True]]) (use kept [OF that] in auto)
    have rem: "returns ?Q (remove e l res)"
      by (rule returns_mono [OF remove_step [OF True]]) (use gone in auto)
    show ?thesis
      unfolding acc cleanupLoop.simps prod.case fst_conv if_not_P [OF not_not [THEN iffD2, OF True]] if_False
      by (intro returns_bind [where Q = ?Q] returns_if keep rem returns_prod go) auto
  qed
qed

lemma returns_cleaned:
  "returns (\<lambda>(l', res, err). changesTypes (insert ty side) l l'
      \<and> (err = None \<and> (\<forall>(n, r)\<in>set res. \<not> pendingReason r) \<longrightarrow> cleanedOf ty l'))
    (cleanupLoop ty (\<lambda>_. False) restore retain remove l (l, [], None))"
  by (rule returns_mono [OF returns_cleanupLoop]) (auto simp: settled_def cleanedOf_def waitingFor_def)

end

text \<open>
  What the steps of a gated cleanup promise of the ledger, beyond their calls: retaining and gating rewrite the
  entry at hand only and keep its policy, a gate that stops without an error reports the entry as waiting, and a deletion without an
  error removes it.
\<close>

locale tidy_deletion = gated_deletion deletes seenOwned seenEmpty handle ty p waits reason verify gate del restore retain
  for deletes :: "'h \<Rightarrow> call \<Rightarrow> bool" and seenOwned :: "ManagedResource \<Rightarrow> history \<Rightarrow> 'h \<Rightarrow> bool"
    and seenEmpty :: "history \<Rightarrow> 'h \<Rightarrow> bool" and handle :: "ManagedResource \<Rightarrow> 'h \<Rightarrow> bool"
    and ty :: string and p :: pass and waits :: "ManagedResource \<Rightarrow> bool" and reason :: "time \<Rightarrow> 'r"
    and verify :: "ManagedResource \<Rightarrow> (go_error + 'h option) op"
    and gate :: "ManagedResource \<Rightarrow> 'h \<Rightarrow> ledger \<Rightarrow> (string \<times> 'r) list \<Rightarrow> (ledger \<times> (string \<times> 'r) list \<times> bool \<times> go_error option) op"
    and del :: "ManagedResource \<Rightarrow> 'h \<Rightarrow> ledger \<Rightarrow> (ledger \<times> go_error option) op"
    and restore :: "ManagedResource \<Rightarrow> ledger \<Rightarrow> (ledger \<times> go_error option) op"
    and retain :: "ManagedResource \<Rightarrow> ledger \<Rightarrow> (string \<times> 'r) list \<Rightarrow> (ledger \<times> (string \<times> 'r) list \<times> go_error option) op" +
  fixes pendingReason :: "'r \<Rightarrow> bool"
  assumes reason_pending: "\<And>t. pendingReason (reason t)"
    and retain_entry: "\<And>e l res. mr_Type e = ty \<Longrightarrow> returns (\<lambda>(l1, res1, err). set res \<subseteq> set res1
          \<and> (\<forall>x\<in>set l1. x \<in> set l \<or> mr_Type x = ty \<and> mr_DeletionPolicy x = mr_DeletionPolicy e)) (retain e l res)"
    and gate_entry: "\<And>e h l res. mr_Type e = ty \<Longrightarrow> returns (\<lambda>(l1, res1, proceed, err). set res \<subseteq> set res1
          \<and> (\<forall>x\<in>set l1. x \<in> set l \<or> mr_key x = (ty, mr_Name e))
          \<and> (\<not> proceed \<and> err = None \<longrightarrow> (\<exists>r. (mr_Name e, r) \<in> set res1 \<and> pendingReason r))) (gate e h l res)"
    and del_entry: "\<And>e h l. returns (\<lambda>(l1, err). set l1 \<subseteq> set l \<and> (err = None \<longrightarrow> l1 = RemoveManagedResource l ty (mr_Name e))) (del e h l)"
begin

lemma returns_gatedDelete:
  assumes "mr_Type e = ty"
  shows "returns (removed ty {} pendingReason e l res) (gatedDelete waits reason verify gate del ty force e l res)"
proof -
  have del: "returns (removed ty {} pendingReason e l res) (do { (l2, err2) \<leftarrow> del e h l1; ret (l2, res1, err2) })"
    if "set res \<subseteq> set res1" "\<forall>x\<in>set l1. x \<in> set l \<or> mr_key x = (ty, mr_Name e)" for h l1 res1
    by (intro returns_bind [OF del_entry] returns_prod returns_ret) (use that in \<open>auto simp: removed_def set_Remove\<close>)
  show ?thesis
    unfolding gatedDelete_def Let_def
    by (intro returns_if returns_ret returns_bind_any returns_sum returns_option returns_bind [OF gate_entry [OF assms]] returns_prod
        returns_bind [where Q = "\<lambda>(l1, res1, proceed, err). set res \<subseteq> set res1 \<and> (\<forall>x\<in>set l1. x \<in> set l \<or> mr_key x = (ty, mr_Name e))
          \<and> (\<not> proceed \<and> err = None \<longrightarrow> waitingFor pendingReason res1 (mr_Name e))"] del)
      (use gate_entry [OF assms] in \<open>auto simp: removed_def waitingFor_def set_Remove intro: reason_pending elim: returns_mono\<close>)
qed

end

sublocale tidy_deletion \<subseteq> loop: tidy_loop ty "{}" pendingReason retain "gatedDelete waits reason verify gate del ty force" for force
  by unfold_locales (simp, rule retain_entry, assumption, rule returns_gatedDelete)

section \<open>Queues, topics and keys\<close>

definition queuePending :: "QueueCleanupReason \<Rightarrow> bool" where "queuePending r \<longleftrightarrow> r \<noteq> QueueRetained"
definition topicPending :: "TopicCleanupReason \<Rightarrow> bool" where "topicPending r \<longleftrightarrow> r \<noteq> TopicRetained"

lemma Relinquished_policy [simp]: "mr_DeletionPolicy (Relinquished now e) = mr_DeletionPolicy e" "mr_Type (Relinquished now e) = mr_Type e"
  by (simp_all add: Relinquished_def)

interpretation tidy_queues: tidy_deletion deletesQueue "Sqs_Safety.seenOwned p" Sqs_Safety.seenEmpty "\<lambda>_ _. True" typeSQS p "waitsQuietly p"
    "pendingDeletionReason_sqs p" "verifyOwned_sqs v p" "gateOnEmpty v p" "deleteQueue_sqs v p"
    "restoreDeclared_sqs v p" "retain_sqs v p" queuePending for v p
proof
  fix e :: ManagedResource and h :: string and l and res :: "queue_result list"
  show "returns (\<lambda>(l1, res1, err). set res \<subseteq> set res1
      \<and> (\<forall>x\<in>set l1. x \<in> set l \<or> mr_Type x = typeSQS \<and> mr_DeletionPolicy x = mr_DeletionPolicy e)) (retain_sqs v p e l res)"
    if "mr_Type e = typeSQS"
    unfolding retain_sqs_def Let_def
    by (intro returns_intros) (use that in \<open>auto dest: set_Upsert simp: set_Remove\<close>)
  show "returns (\<lambda>(l1, res1, proceed, err). set res \<subseteq> set res1 \<and> (\<forall>x\<in>set l1. x \<in> set l \<or> mr_key x = (typeSQS, mr_Name e))
      \<and> (\<not> proceed \<and> err = None \<longrightarrow> (\<exists>r. (mr_Name e, r) \<in> set res1 \<and> queuePending r))) (gateOnEmpty v p e h l res)"
    if "mr_Type e = typeSQS"
    unfolding gateOnEmpty_def markPendingDeletion_sqs_def Let_def
    by (intro returns_intros) (use that in \<open>auto dest: set_Upsert simp: queuePending_def pendingDeletionReason_sqs_def\<close>)
  show "returns (\<lambda>(l1, err). set l1 \<subseteq> set l \<and> (err = None \<longrightarrow> l1 = RemoveManagedResource l typeSQS (mr_Name e))) (deleteQueue_sqs v p e h l)"
    unfolding deleteQueue_sqs_def by (intro returns_intros) (auto simp: set_Remove)
qed (simp add: queuePending_def pendingDeletionReason_sqs_def)

interpretation tidy_topics: tidy_deletion deletesTopic "topicSeenOwned p" topicSeenUnused "\<lambda>e h. h = mr_ARN e" typeSNS p "waitsQuietly_sns p"
    "pendingDeletionReason_sns p" "verifyTopic v p" "\<lambda>e h. gateOnSubscriptions v p e" "\<lambda>e h. deleteTopic v p e"
    "restoreDeclared_sns v p" "retain_sns v p" topicPending for v p
proof
  fix e :: ManagedResource and h :: string and l and res :: "topic_result list"
  show "returns (\<lambda>(l1, res1, err). set res \<subseteq> set res1
      \<and> (\<forall>x\<in>set l1. x \<in> set l \<or> mr_Type x = typeSNS \<and> mr_DeletionPolicy x = mr_DeletionPolicy e)) (retain_sns v p e l res)"
    if "mr_Type e = typeSNS"
    unfolding retain_sns_def Let_def
    by (intro returns_intros) (use that in \<open>auto dest: set_Upsert simp: set_Remove\<close>)
  show "returns (\<lambda>(l1, res1, proceed, err). set res \<subseteq> set res1 \<and> (\<forall>x\<in>set l1. x \<in> set l \<or> mr_key x = (typeSNS, mr_Name e))
      \<and> (\<not> proceed \<and> err = None \<longrightarrow> (\<exists>r. (mr_Name e, r) \<in> set res1 \<and> topicPending r))) (gateOnSubscriptions v p e l res)"
    if "mr_Type e = typeSNS"
    unfolding gateOnSubscriptions_def markPendingDeletion_sns_def Let_def
    by (intro returns_intros) (use that in \<open>auto dest: set_Upsert simp: topicPending_def pendingDeletionReason_sns_def\<close>)
  show "returns (\<lambda>(l1, err). set l1 \<subseteq> set l \<and> (err = None \<longrightarrow> l1 = RemoveManagedResource l typeSNS (mr_Name e))) (deleteTopic v p e l)"
    unfolding deleteTopic_def by (intro returns_intros) (auto simp: set_Remove)
qed (simp add: topicPending_def pendingDeletionReason_sns_def)

text \<open>Tearing subscriptions down only removes entries.\<close>

lemma returns_subscriptionLoop: "returns (\<lambda>out. set (fst out) \<subseteq> set (fst acc)) (cleanupSubscriptionLoop v p q u n es acc)"
proof (induction es arbitrary: acc)
  case (Cons e es)
  have IH: "returns (\<lambda>out. set (fst out) \<subseteq> set l) (cleanupSubscriptionLoop v p q u n es (l1, err))" if "set l1 \<subseteq> set l" for l l1 err
    by (rule returns_mono [OF Cons.IH]) (use that in auto)
  obtain l err where acc: "acc = (l, err)" by (metis surj_pair)
  show ?case unfolding acc cleanupSubscriptionLoop.simps prod.case Let_def fst_conv
    by (intro returns_intros IH) (simp_all add: set_Remove subset_iff)
qed (simp add: returns_ret)

lemma returns_queueSubscriptions: "returns (\<lambda>out. set (fst out) \<subseteq> set (fst acc)) (cleanupQueueSubscriptions v p b es acc)"
proof (induction es arbitrary: acc)
  case (Cons e es)
  have IH: "returns (\<lambda>out. set (fst out) \<subseteq> set l) (cleanupQueueSubscriptions v p b es (l1, err))" if "set l1 \<subseteq> set l" for l l1 err
    by (rule returns_mono [OF Cons.IH]) (use that in auto)
  have sub: "returns (\<lambda>out. set (fst out) \<subseteq> set l) (CleanupSubscriptions v p q u refs l)" for q u refs l
    unfolding CleanupSubscriptions_def
    by (intro returns_intros returns_subscriptionLoop [where acc = "(l, None)", unfolded fst_conv]) simp
  obtain l err where acc: "acc = (l, err)" by (metis surj_pair)
  show ?case unfolding acc cleanupQueueSubscriptions.simps prod.case Let_def fst_conv
    by (intro returns_if returns_sum returns_bind [OF sub] returns_prod IH returns_bind_any) simp_all
qed (simp add: returns_ret)

definition leavesClean :: "string set \<Rightarrow> string set \<Rightarrow> ('r \<Rightarrow> string option) \<Rightarrow> ledger \<Rightarrow> ledger \<times> 'r list \<times> go_error option \<Rightarrow> bool" where
  "leavesClean W C waiting l out = (case out of (l', res, err) \<Rightarrow> changesTypes W l l'
     \<and> (err = None \<and> List.map_filter waiting res = [] \<longrightarrow> (\<forall>ty\<in>C. cleanedOf ty l')))"

lemma map_filter_Nil: "List.map_filter f xs = [] \<longleftrightarrow> (\<forall>x\<in>set xs. f x = None)"
  by (induction xs) (auto simp: List.map_filter_simps split: option.splits)

lemma queues_cleaned:
  "returns (leavesClean {typeSQS} {typeSQS} waitingQueue l) (Cleanup_sqs v p spec l True force)"
proof -
  have d: "declaredQueueNames spec True = (\<lambda>_. False)" by (rule ext) (simp add: declaredQueueNames_def split: option.split)
  have w: "\<not> queuePending r" if "List.map_filter waitingQueue res = []" "(n, r) \<in> set res" for res n r
    using that by (fastforce simp: map_filter_Nil waitingQueue_def queuePending_def split: QueueCleanupReason.splits)
  show ?thesis
    unfolding Cleanup_sqs_def d cleanupQueues_loop deleteUndeclared_gated
    by (intro returns_bind [OF tidy_queues.loop.returns_cleaned] returns_prod returns_bind [OF returns_queueSubscriptions] returns_ret)
      (auto simp: leavesClean_def changesTypes_def cleanedOf_def dest: w)
qed

lemma topics_cleaned:
  "returns (leavesClean {typeSNS} {typeSNS} waitingTopic l) (Cleanup_sns v p spec l True force)"
proof -
  have d: "declaredTopicNames spec True = (\<lambda>_. False)" by (rule ext) (simp add: declaredTopicNames_def split: option.split)
  have w: "\<not> topicPending r" if "List.map_filter waitingTopic res = []" "(n, r) \<in> set res" for res n r
    using that by (fastforce simp: map_filter_Nil waitingTopic_def topicPending_def split: TopicCleanupReason.splits)
  show ?thesis
    unfolding Cleanup_sns_def d cleanupTopics_loop deleteUndeclared_sns_gated
    by (rule returns_mono [OF tidy_topics.loop.returns_cleaned]) (auto simp: leavesClean_def dest: w)
qed

lemma returns_key_steps:
  assumes "mr_Type e = TypeKMS"
  shows "returns (\<lambda>(l1, res1, err). sameExcept {TypeKMS} l l1) (retain_kms v p e l res)"
    "returns (\<lambda>(l1, res1, err). sameExcept {TypeKMS} l l1) (scheduleDeletion v p e l res)"
  unfolding retain_kms_def scheduleDeletion_def markPendingDeletion_kms_def Let_def
  by ((intro returns_intros, use assms in \<open>auto intro: sameExcept_Upsert sameExcept_Remove\<close>)+)

lemma returns_cleanupKeys: "returns (\<lambda>out. sameExcept {TypeKMS} (fst acc) (fst out)) (cleanupKeys v p d u del es acc)"
proof (induction es arbitrary: acc)
  case (Cons e es)
  have IH: "returns (\<lambda>out. sameExcept {TypeKMS} l (fst out)) (cleanupKeys v p d u del es (l1, x))" if "sameExcept {TypeKMS} l l1" for l l1 x
    by (rule returns_mono [OF Cons.IH]) (use sameExcept_trans [OF that] in auto)
  have hold: "returns (\<lambda>(x, w). mr_Type x = mr_Type e) (case u (mr_Name e) of
        Some use \<Rightarrow> if del then holdKeyForData p e use else ret (e, False) | None \<Rightarrow> ret (e, False))"
    unfolding holdKeyForData_def by (intro returns_intros) auto
  have restore: "sameExcept {TypeKMS} l (restoreDeclared_kms x l)" if "mr_Type x = TypeKMS" for x l
    using that by (auto simp: restoreDeclared_kms_def intro: sameExcept_Upsert)
  obtain l res err where acc: "acc = (l, res, err)" by (metis surj_pair)
  have step: "returns (\<lambda>(l1, res1, err1). sameExcept {TypeKMS} l l1)
      (if d (mr_Name x) then ret (restoreDeclared_kms x l, res, None)
       else if mr_DeletionPolicy x \<noteq> DeletionPolicyDelete then retain_kms v p x l res else scheduleDeletion v p x l res)"
    if "mr_Type x = TypeKMS" for x
    by (intro returns_if returns_key_steps [OF that] returns_ret) (simp add: restore [OF that])
  show ?case unfolding acc cleanupKeys.simps prod.case fst_conv
    by (intro returns_if returns_bind [OF hold] returns_prod IH returns_bind [OF step]) auto
qed (simp add: returns_ret)

lemma keys_apart: "returns (\<lambda>out. sameExcept {TypeKMS} l (fst out)) (Cleanup_kms v p spec u l del)"
  unfolding Cleanup_kms_def by (rule returns_mono [OF returns_cleanupKeys]) simp

lemma keys_cleaned: "returns (leavesClean {TypeKMS} {} waitingKey l) (Cleanup_kms v p spec u l True)"
  by (rule returns_mono [OF keys_apart]) (auto simp: leavesClean_def intro: sameExcept_changes)

subsection \<open>Keys that stay in the ledger\<close>

text \<open>
  An entry of policy Delete of a key outlives a cleanup that reports nothing as waiting in two cases: the calls after the first \<open>n\<close> show
  that AWS has already scheduled the key's deletion, or data that is retained needs the key.
\<close>

definition keyPending :: "KeyCleanupReason \<Rightarrow> bool" where "keyPending r \<longleftrightarrow> r \<noteq> KeyRetained"

definition seenScheduled :: "nat \<Rightarrow> history \<Rightarrow> string \<Rightarrow> bool" where
  "seenScheduled n h arn \<longleftrightarrow> (\<exists>meta. KMSCall (DescribeKey arn (Inr meta)) \<in> set (drop n h) \<and> km_KeyState meta = KeyStatePendingDeletion)"

definition heldForData :: "(string \<rightharpoonup> KeyUse) \<Rightarrow> string \<Rightarrow> bool" where
  "heldForData u name \<longleftrightarrow> (\<exists>use. u name = Some use \<and> ku_Retained use)"

definition keysSettled ::
  "(string \<rightharpoonup> KeyUse) \<Rightarrow> nat \<Rightarrow> history \<Rightarrow> ManagedResource list \<Rightarrow> ledger \<times> key_result list \<times> go_error option \<Rightarrow> bool" where
  "keysSettled u n h rest out = (case out of (l, res, err) \<Rightarrow> err = None \<longrightarrow>
     (\<forall>x\<in>set l. mr_Type x = TypeKMS \<and> mr_DeletionPolicy x = DeletionPolicyDelete \<longrightarrow>
        x \<in> set rest \<or> waitingFor keyPending res (mr_Name x) \<or> seenScheduled n h (mr_ARN x) \<or> heldForData u (mr_Name x)))"

lemma seenScheduled_grow: "seenScheduled n h arn \<Longrightarrow> seenScheduled n (h @ x) arn"
  by (auto simp: seenScheduled_def)

lemma keysSettled_grow: "keysSettled u n h rest out \<Longrightarrow> keysSettled u n (h @ x) rest out"
  unfolding keysSettled_def by (auto dest: seenScheduled_grow split: prod.splits)

text \<open>One entry of policy Delete: without an error it is reported as waiting, or gone, or already scheduled for deletion.\<close>

lemma wp_scheduleDeletion:
  assumes "mr_Type e = TypeKMS" "n \<le> length (trace w)"
  shows "wp (scheduleDeletion v p e l res) (\<lambda>(l1, res1, err) w'. removed TypeKMS {} keyPending e l res (l1, res1, err)
    \<or> (l1, res1, err) = (l, res, None) \<and> seenScheduled n (trace w') (mr_ARN e)) w"
proof -
  have rest: "returns (removed TypeKMS {} keyPending e l res) (do {
       r \<leftarrow> listAllResourceTags v p (mr_ARN e);
       case r of
         Inl err \<Rightarrow> ret (l, res, Some (wrapAWSError (ExtError err) ''re-verifying ownership of KMS key before delete''))
       | Inr tgs \<Rightarrow>
           if \<not> owned_by_pass p (tagsToMap tgs)
           then ret (l, res, Some (OwnershipLostError ''KMS key'' (mr_Name e) ''delete it''))
           else (case mr_PendingDeletionSince e of
                   None \<Rightarrow>
                     (case markPendingDeletion_kms p l res e of (l1, results1) \<Rightarrow> do {
                        recordEvent p ''Warning'' ''KeyDeletionPending'' [mr_Name e, mr_ARN e];
                        ret (l1, results1, None)
                      })
                 | Some pending \<Rightarrow>
                     if since (ps_now p) pending < deletionQuietWindow_kms
                     then ret (l, res @ [(mr_Name e, KeyPendingDeletion)], None)
                     else do {
                       s \<leftarrow> kms_ScheduleKeyDeletion v (mr_ARN e) scheduledDeletionWindowDays;
                       case s of
                         Inl err \<Rightarrow> ret (l, res, Some (wrapAWSError (ExtError err) ''scheduling deletion of KMS key''))
                       | Inr _ \<Rightarrow> do {
                           recordEvent p ''Warning'' ''KeyDeletionScheduled'' [mr_Name e, mr_ARN e];
                           ret (RemoveManagedResource l TypeKMS (mr_Name e), res, None)
                         }
                     }) })"
    unfolding markPendingDeletion_kms_def Let_def
    by (intro returns_intros) (use assms(1) in \<open>auto simp: removed_def waitingFor_def keyPending_def set_Remove dest: set_Upsert\<close>)
  show ?thesis
    unfolding scheduleDeletion_def kms_DescribeKey_def wp_bind wp_invoke
    by (cases "ka_DescribeKey (env_kms v) (trace w) (mr_ARN e)")
      (use assms(2) in \<open>auto simp: wp_ret removed_def set_Remove seenScheduled_def intro!: wp_conseq [OF wp_returns [OF rest]]\<close>)
qed

lemma wp_retained_key:
  assumes "mr_Type e = TypeKMS" "mr_DeletionPolicy e \<noteq> DeletionPolicyDelete"
  shows "wp (retain_kms v p e l res) (\<lambda>(l1, res1, err) w'. set res \<subseteq> set res1
    \<and> (\<forall>x\<in>set l1. x \<in> set l \<or> mr_DeletionPolicy x \<noteq> DeletionPolicyDelete)) w"
proof -
  have "returns (\<lambda>(l1, res1, err). set res \<subseteq> set res1
      \<and> (\<forall>x\<in>set l1. x \<in> set l \<or> mr_DeletionPolicy x \<noteq> DeletionPolicyDelete)) (retain_kms v p e l res)"
    unfolding retain_kms_def Let_def by (intro returns_intros) (use assms in \<open>auto dest: set_Upsert simp: set_Remove\<close>)
  then show ?thesis by (rule wp_conseq [OF wp_returns]) auto
qed

lemma wp_holdKey:
  "wp (case u (mr_Name e) of Some use \<Rightarrow> if True then holdKeyForData p e use else ret (e, False) | None \<Rightarrow> ret (e, False))
     (\<lambda>(x, waiting) w'. trace w' = trace w \<and> mr_Type x = mr_Type e \<and> mr_Name x = mr_Name e \<and> mr_ARN x = mr_ARN e
        \<and> (x = e \<or> mr_DeletionPolicy x \<noteq> DeletionPolicyDelete \<and> heldForData u (mr_Name e))) w"
  by (cases "u (mr_Name e)") (auto simp: holdKeyForData_def wp_simps heldForData_def)

lemma wp_grows: "keepsCR m \<Longrightarrow> wp m (\<lambda>_ w'. \<exists>new. trace w' = trace w @ new) w"
  unfolding keepsCR_def by (elim conjE, rule wp_conseq [OF wp_emits]) auto

lemma wp_key_step:
  assumes "keysSettled u n (trace w) (e # es) (l, res, err)" "n \<le> length (trace w)" "mr_Type e = TypeKMS" "mr_Type x = TypeKMS"
    "mr_Name x = mr_Name e" "mr_ARN x = mr_ARN e" "x = e \<or> mr_DeletionPolicy x \<noteq> DeletionPolicyDelete \<and> heldForData u (mr_Name e)"
  shows "wp (if mr_DeletionPolicy x \<noteq> DeletionPolicyDelete then retain_kms v p x l res else scheduleDeletion v p x l res)
    (\<lambda>(l1, res1, err1) w'. keysSettled u n (trace w') es (l1, res1, firstError err err1) \<and> n \<le> length (trace w')) w"
proof (cases "mr_DeletionPolicy x = DeletionPolicyDelete")
  case True
  then have e: "x = e" using assms(7) by simp
  have "wp (scheduleDeletion v p e l res) (\<lambda>(l1, res1, err1) w'. keysSettled u n (trace w') es (l1, res1, firstError err err1) \<and> n \<le> length (trace w')) w"
  proof (rule wp_conseq [OF wp_conj [OF wp_scheduleDeletion [OF assms(3,2)] wp_grows [OF keepsCR_key_steps(6)]]], goal_cases)
    case (1 out w')
    then obtain l1 res1 err1 new where o: "out = (l1, res1, err1)" "trace w' = trace w @ new"
      "removed TypeKMS {} keyPending e l res (l1, res1, err1) \<or> (l1, res1, err1) = (l, res, None) \<and> seenScheduled n (trace w') (mr_ARN e)"
      by (cases out) auto
    have "keysSettled u n (trace w') (e # es) (l, res, err)" using keysSettled_grow [OF assms(1)] by (simp add: o(2))
    with o(3) have "keysSettled u n (trace w') es (l1, res1, firstError err err1)"
      using waitingFor_mono [of keyPending res _ res1] by (fastforce simp: keysSettled_def removed_def)
    with assms(2) show ?case by (simp add: o(1,2))
  qed
  with True e show ?thesis by simp
next
  case False
  have "wp (retain_kms v p x l res) (\<lambda>(l1, res1, err1) w'. keysSettled u n (trace w') es (l1, res1, firstError err err1) \<and> n \<le> length (trace w')) w"
  proof (rule wp_conseq [OF wp_conj [OF wp_retained_key [OF assms(4) False] wp_grows [OF keepsCR_key_steps(5)]]], goal_cases)
    case (1 out w')
    then obtain l1 res1 err1 new where o: "out = (l1, res1, err1)" "trace w' = trace w @ new" "set res \<subseteq> set res1"
      "\<forall>y\<in>set l1. y \<in> set l \<or> mr_DeletionPolicy y \<noteq> DeletionPolicyDelete"
      by (cases out) auto
    have "keysSettled u n (trace w') (e # es) (l, res, err)" using keysSettled_grow [OF assms(1)] by (simp add: o(2))
    moreover have "mr_DeletionPolicy e = DeletionPolicyDelete \<longrightarrow> heldForData u (mr_Name e)" using assms(7) False by auto
    ultimately have "keysSettled u n (trace w') es (l1, res1, firstError err err1)"
      using o(4) waitingFor_mono [OF _ o(3), of keyPending] by (fastforce simp: keysSettled_def)
    with assms(2) show ?case by (simp add: o(1,2))
  qed
  with False show ?thesis by simp
qed

lemma wp_cleanupKeys:
  assumes "keysSettled u n (trace w) es acc" "n \<le> length (trace w)"
  shows "wp (cleanupKeys v p (\<lambda>_. False) u True es acc) (\<lambda>out w'. keysSettled u n (trace w') [] out) w"
  using assms
proof (induction es arbitrary: acc w)
  case Nil
  then show ?case by (simp add: wp_ret)
next
  case (Cons e es)
  obtain l res err where acc: "acc = (l, res, err)" by (metis surj_pair)
  note settled = Cons.prems(1) [unfolded acc]
  show ?case
  proof (cases "mr_Type e = TypeKMS")
    case False
    then have "keysSettled u n (trace w) es acc" using settled by (auto simp: acc keysSettled_def)
    then show ?thesis using Cons.IH [OF _ Cons.prems(2)] False by (simp add: acc)
  next
    case True
    show ?thesis
      unfolding acc cleanupKeys.simps prod.case if_not_P [OF not_not [THEN iffD2, OF True]] wp_bind [of "case_option _ _ _"]
    proof (rule wp_conseq [OF wp_holdKey], goal_cases)
      case (1 out w1)
      obtain x waiting where out: "out = (x, waiting)" by (cases out)
      have x: "trace w1 = trace w" "mr_Type x = TypeKMS" "mr_Name x = mr_Name e" "mr_ARN x = mr_ARN e"
        "x = e \<or> mr_DeletionPolicy x \<noteq> DeletionPolicyDelete \<and> heldForData u (mr_Name e)" using 1 True by (simp_all add: out)
      have wait: "keysSettled u n (trace w) es (l, res @ [(mr_Name x, KeyInUse)], err)"
        using settled waitingFor_mono [of keyPending res _ "res @ [(mr_Name x, KeyInUse)]"] x(3)
        by (fastforce simp: keysSettled_def waitingFor_def keyPending_def)
      have step: "wp (if mr_DeletionPolicy x \<noteq> DeletionPolicyDelete then retain_kms v p x l res else scheduleDeletion v p x l res)
          (\<lambda>a. wp (cleanupKeys v p (\<lambda>_. False) u True es (fst a, fst (snd a), firstError err (snd (snd a)))) (\<lambda>out w'. keysSettled u n (trace w') [] out)) w1"
        by (rule wp_conseq [OF wp_key_step [OF _ _ True x(2-5)]]) (use settled Cons.prems(2) Cons.IH x(1) in auto)
      show ?case
        using Cons.IH [of w1, unfolded x(1), OF wait Cons.prems(2)] step
        by (simp add: out wp_if wp_bind wp_prod split_beta)
    qed
  qed
qed

lemma wp_Cleanup_kms:
  assumes "n \<le> length (trace w)"
  shows "wp (Cleanup_kms v p spec u l True) (\<lambda>out w'. keysSettled u n (trace w') [] out \<and> sameExcept {TypeKMS} l (fst out) \<and> memCR w' = memCR w) w"
proof -
  have d: "declaredKeyNames spec u True = (\<lambda>_. False)" by (rule ext) (simp add: declaredKeyNames_def)
  have "wp (Cleanup_kms v p spec u l True) (\<lambda>out w'. memCR w' = memCR w) w"
    using keepsCR_Cleanups by (simp add: keepsCR_def wp_def split_beta)
  moreover have "wp (Cleanup_kms v p spec u l True) (\<lambda>out w'. keysSettled u n (trace w') [] out) w"
    unfolding Cleanup_kms_def d by (rule wp_cleanupKeys [OF _ assms]) (simp add: keysSettled_def)
  ultimately show ?thesis using wp_returns [OF keys_apart] by (intro wp_conj)
qed

section \<open>Sections in a deletion pass\<close>

text \<open>
  \<open>finalizes W C s\<close>: finalizing \<open>s\<close> rewrites ledger entries of the types \<open>W\<close> only, leaves the types \<open>C\<close> clean when it reports
  done without an error, and never patches the custom resource.
\<close>

definition finalizes :: "string set \<Rightarrow> string set \<Rightarrow> Section \<Rightarrow> bool" where
  "finalizes W C s \<longleftrightarrow> emits (\<lambda>c. \<not> patchesCR c) (sc_finalize s)
     \<and> (\<forall>w. wp (sc_finalize s) (\<lambda>(secDone, blocked, err) w'. changesTypes W (ledgerOf (memCR w)) (ledgerOf (memCR w'))
          \<and> (secDone \<and> err = None \<longrightarrow> (\<forall>ty\<in>C. cleanedOf ty (ledgerOf (memCR w'))))) w)"

text \<open>The contract of a package's cleanup, and what a section built on it does.\<close>

locale cleanup_package =
  fixes cleanup :: "AppDependencies \<Rightarrow> (ledger \<times> 'r list \<times> go_error option) op"
    and waiting :: "'r \<Rightarrow> string option"
    and W C :: "string set"
  assumes cleanup_keeps: "\<And>cr. keepsCR (cleanup cr)"
    and cleanup_cleans: "\<And>cr. returns (leavesClean W C waiting (ledgerOf cr)) (cleanup cr)"
begin

lemma section_finalizes:
  assumes "sc_finalize s = finalizeWith cleanup waiting"
  shows "finalizes W C s"
proof -
  have em: "emits (\<lambda>c. \<not> patchesCR c) (cleanup cr)" for cr using cleanup_keeps [of cr] by (simp add: keepsCR_def)
  have "wp (finalizeWith cleanup waiting) (\<lambda>(secDone, blocked, err) w'. changesTypes W (ledgerOf (memCR w)) (ledgerOf (memCR w'))
          \<and> (secDone \<and> err = None \<longrightarrow> (\<forall>ty\<in>C. cleanedOf ty (ledgerOf (memCR w'))))) w" for w
  proof -
    obtain l res err w1 where r: "run_state (cleanup (memCR w)) w = ((l, res, err), w1)" by (metis surj_pair)
    have "leavesClean W C waiting (ledgerOf (memCR w)) (l, res, err)" by (rule returnsD [OF cleanup_cleans r])
    then have "wp (cleanup (memCR w)) (\<lambda>out w1. leavesClean W C waiting (ledgerOf (memCR w)) out) w" by (simp add: wp_def r)
    then show ?thesis
      unfolding finalizeWith_def setLedger_def
      by (simp add: wp_simps) (erule wp_conseq, auto simp: wp_simps Let_def leavesClean_def split: option.split)
  qed
  moreover have "emits (\<lambda>c. \<not> patchesCR c) (finalizeWith cleanup waiting)"
    unfolding finalizeWith_def setLedger_def Let_def by (intro emits_intros em)
  ultimately show ?thesis by (simp add: finalizes_def assms)
qed

end

interpretation queue_package: cleanup_package
  "\<lambda>cr. Cleanup_sqs v (passFor r p cr (sectionDeletionContext (ledgerOf cr) typeSQS (declaredQueues (ad_Spec cr))))
     (sp_SQS (ad_Spec cr)) (ledgerOf cr) True (forceDeleteAll cr)"
  waitingQueue "{typeSQS}" "{typeSQS}" for v r p
  by unfold_locales (rule keepsCR_Cleanups queues_cleaned)+

interpretation topic_package: cleanup_package
  "\<lambda>cr. Cleanup_sns v (passFor r p cr (sectionDeletionContext (ledgerOf cr) typeSNS (declaredTopics (ad_Spec cr))))
     (sp_SNS (ad_Spec cr)) (ledgerOf cr) True (forceDeleteAll cr)"
  waitingTopic "{typeSNS}" "{typeSNS}" for v r p
  by unfold_locales (rule keepsCR_Cleanups topics_cleaned)+

interpretation key_package: cleanup_package
  "\<lambda>cr. Cleanup_kms v (passFor r p cr (sectionDeletionContext (ledgerOf cr) TypeKMS (declaredKeys (ad_Spec cr))))
     (sp_KMS (ad_Spec cr)) (kmsKeysInUse cr False) (ledgerOf cr) True"
  waitingKey "{TypeKMS}" "{}" for v r p
  by unfold_locales (rule keepsCR_Cleanups keys_cleaned)+

lemma keepsCR_alarmPages [keepsCR_intros]: "keepsCR (alarmPages v pre n tok acc)"
proof (induction n arbitrary: tok acc)
  case (Suc n)
  show ?case unfolding alarmPages.simps by (intro keepsCR_intros Suc.IH)
qed (simp add: keepsCR_ret)

lemma keepsCR_alarm_steps [keepsCR_intros]:
  "keepsCR (listAlarmsByPrefix v p pre)" "keepsCR (alarmOwnership v p pl n)" "keepsCR (isAlarmOwnedByUs v p pl n)"
  "keepsCR (putAlarm v p d b acts)" "keepsCR (reconcileAlarm v p pl d a acts)"
  unfolding listAlarmsByPrefix_def alarmOwnership_def isAlarmOwnedByUs_def putAlarm_def reconcileAlarm_def Let_def
  by (intro keepsCR_intros)+

lemma keepsCR_reconcileDesired [keepsCR_intros]: "keepsCR (reconcileDesired v p pl ex acts ds e)"
proof (induction ds arbitrary: e)
  case (Cons d ds)
  show ?case unfolding reconcileDesired.simps by (intro keepsCR_intros Cons.IH)
qed (simp add: keepsCR_ret)

lemma keepsCR_ownedUndeclared [keepsCR_intros]: "keepsCR (ownedUndeclared v p pl ds ns acc)"
proof (induction ns arbitrary: acc)
  case (Cons n ns)
  show ?case unfolding ownedUndeclared.simps by (intro keepsCR_intros Cons.IH)
qed (simp add: keepsCR_ret)

lemma keepsCR_Cleanup_alarms: "keepsCR (Cleanup_alarms v p pl)"
  unfolding Cleanup_alarms_def reconcileAlarms_def deleteUndeclaredAlarms_def by (intro keepsCR_intros)

lemma finalizes_quiet: "keepsCR (sc_finalize s) \<Longrightarrow> finalizes {} {} s"
  by (simp add: finalizes_def keepsCR_def wp_def split_beta)

lemma quiet_sections: "keepsCR (sc_finalize (alarmsSection v r p))" "keepsCR (sc_finalize (keyPolicySection v r p))"
proof -
  have g: "keepsCR getCR" by (simp add: keepsCR_def getCR_def emits_getCR [unfolded getCR_def])
  show "keepsCR (sc_finalize (alarmsSection v r p))" unfolding alarmsSection_def by (simp, intro keepsCR_intros keepsCR_Cleanup_alarms g)
  show "keepsCR (sc_finalize (keyPolicySection v r p))" by (simp add: keyPolicySection_def keepsCR_ret)
qed

lemma modelled_finalize:
  "finalizes {TypeKMS} {} (kmsSection v r p)" "finalizes {typeSQS} {typeSQS} (sqsSection v r p)"
  "finalizes {typeSNS} {typeSNS} (snsSection v r p)" "finalizes {} {} (alarmsSection v r p)"
  "finalizes {} {} (keyPolicySection v r p)"
  by (rule key_package.section_finalizes queue_package.section_finalizes topic_package.section_finalizes finalizes_quiet quiet_sections,
      simp_all add: kmsSection_def sqsSection_def snsSection_def quiet_sections)+

text \<open>
  What a deletion pass is to achieve, as a predicate \<open>K\<close>: a section \<open>finishes\<close> it when it holds whenever the section
  reports done, and \<open>preserves\<close> it when reporting done does not undo it. Most are predicates on the ledger.
\<close>

abbreviation onLedger :: "(ledger \<Rightarrow> bool) \<Rightarrow> world \<Rightarrow> bool" where
  "onLedger K w \<equiv> K (ledgerOf (memCR w))"

definition finishes :: "(world \<Rightarrow> bool) \<Rightarrow> Section \<Rightarrow> bool" where
  "finishes K s \<longleftrightarrow> (\<forall>w. wp (sc_finalize s) (\<lambda>(secDone, blocked, err) w'. secDone \<and> err = None \<longrightarrow> K w') w)"

definition preserves :: "(world \<Rightarrow> bool) \<Rightarrow> Section \<Rightarrow> bool" where
  "preserves K s \<longleftrightarrow> (\<forall>w. K w \<longrightarrow> wp (sc_finalize s) (\<lambda>(secDone, blocked, err) w'. secDone \<and> err = None \<longrightarrow> K w') w)"

lemma finishes_preserves: "finishes K s \<Longrightarrow> preserves K s"
  by (simp add: finishes_def preserves_def)

lemma finalizes_finishes: "finalizes W C s \<Longrightarrow> ty \<in> C \<Longrightarrow> finishes (onLedger (cleanedOf ty)) s"
  unfolding finalizes_def finishes_def
proof (intro allI, elim conjE allE)
  fix w :: world
  assume "ty \<in> C" "wp (sc_finalize s) (\<lambda>(secDone, blocked, err) w'. changesTypes W (ledgerOf (memCR w)) (ledgerOf (memCR w'))
    \<and> (secDone \<and> err = None \<longrightarrow> (\<forall>ty\<in>C. cleanedOf ty (ledgerOf (memCR w'))))) w"
  then show "wp (sc_finalize s) (\<lambda>(secDone, blocked, err) w'. secDone \<and> err = None \<longrightarrow> cleanedOf ty (ledgerOf (memCR w'))) w"
    by (auto elim: wp_conseq)
qed

lemma finalizes_changes: "finalizes W C s \<Longrightarrow> wp (sc_finalize s) (\<lambda>_ w'. changesTypes W (ledgerOf (memCR w)) (ledgerOf (memCR w'))) w"
  unfolding finalizes_def by (elim conjE allE) (erule wp_conseq, auto)

lemma finalizes_preserves:
  assumes "finalizes W C s" "\<And>l l'. changesTypes W l l' \<Longrightarrow> K l \<Longrightarrow> K l'"
  shows "preserves (onLedger K) s"
  unfolding preserves_def
  by (intro allI impI, rule wp_conseq [OF finalizes_changes [OF assms(1)]]) (use assms(2) in auto)

lemma finalizes_grows: "finalizes W C s \<Longrightarrow> wp (sc_finalize s) (\<lambda>_ w'. \<exists>new. trace w' = trace w @ new) w"
  unfolding finalizes_def by (elim conjE, rule wp_conseq [OF wp_emits]) auto

lemma wp_finalizeSections:
  assumes "\<forall>s\<in>set ss. preserves K s"
  shows "wp (finalizeSections ss acc) (\<lambda>(d, blocked, err) w'. d \<and> err = None \<longrightarrow> fst acc \<and> snd (snd acc) = None
    \<and> (K w \<or> (\<exists>s\<in>set ss. finishes K s) \<longrightarrow> K w')) w"
  using assms
proof (induction ss arbitrary: acc w)
  case Nil
  then show ?case by (simp add: wp_simps split: prod.split)
next
  case (Cons s ss)
  obtain d0 b0 e0 where acc: "acc = (d0, b0, e0)" by (metis surj_pair)
  obtain d1 b1 e1 w1 where r: "run_state (sc_finalize s) w = ((d1, b1, e1), w1)" by (metis surj_pair)
  let ?acc = "case e1 of Some e \<Rightarrow> (False, b0, firstError e0 (Some e))
      | None \<Rightarrow> if d1 then (d0, b0, e0) else (False, b0 @ b1, e0)"
  have step: "K w1" if h: "d1" "e1 = None" "K w \<or> finishes K s"
    using h(3)
  proof
    assume "K w"
    then show ?thesis using Cons.prems h r unfolding preserves_def wp_def by fastforce
  next
    assume "finishes K s"
    then show ?thesis using h r unfolding finishes_def wp_def by (auto dest!: spec [of _ w])
  qed
  have "wp (finalizeSections ss ?acc) (\<lambda>(d, blocked, err) w'. d \<and> err = None \<longrightarrow> fst ?acc \<and> snd (snd ?acc) = None
    \<and> (K w1 \<or> (\<exists>s\<in>set ss. finishes K s) \<longrightarrow> K w')) w1"
    by (rule Cons.IH) (use Cons.prems in simp)
  then have "wp (finalizeSections ss ?acc) (\<lambda>(d, blocked, err) w'. d \<and> err = None \<longrightarrow> d0 \<and> e0 = None
    \<and> (K w \<or> (\<exists>s\<in>set (s # ss). finishes K s) \<longrightarrow> K w')) w1"
    by (rule wp_conseq) (use step in \<open>auto split: option.splits if_splits\<close>)
  then show ?case
    unfolding acc finalizeSections.simps wp_bind by (simp add: wp_def [of "sc_finalize s"] r)
qed

lemma set_finalizeOrder: "set (finalizeOrder ss) = set ss"
  by (auto simp: finalizeOrder_def)

lemma wp_finalized:
  assumes "wp (finalizeSections (finalizeOrder ss) (True, [], None)) (\<lambda>(d, blocked, err) w'. d \<and> err = None \<longrightarrow> K w') w"
  shows "wp (finalizeDesiredState r ss) (\<lambda>(d, err) w'. d \<and> err = None \<longrightarrow> K w') w"
  using assms unfolding finalizeDesiredState_def updateConditions_def wp_bind
  by (rule wp_conseq) (auto simp: wp_simps split: prod.split)

lemma finalized_clean:
  assumes "\<forall>s\<in>set ss. preserves K s" "\<exists>s\<in>set ss. finishes K s"
  shows "wp (finalizeDesiredState r ss) (\<lambda>(d, err) w'. d \<and> err = None \<longrightarrow> K w') w"
  by (rule wp_finalized, rule wp_conseq [OF wp_finalizeSections [where K = K]]) (use assms in \<open>auto simp: set_finalizeOrder\<close>)

text \<open>
  The order matters for what a later section could undo: under an invariant \<open>I\<close> of the sections before, a section reaches \<open>K\<close>, and the
  sections after it preserve \<open>K\<close>.
\<close>

lemma finalized_from:
  assumes "finalizeOrder ss = pre @ s # post" "I w" "\<And>t w. t \<in> set pre \<Longrightarrow> I w \<Longrightarrow> wp (sc_finalize t) (\<lambda>_. I) w"
    and "\<And>w. I w \<Longrightarrow> wp (sc_finalize s) (\<lambda>(d, blocked, err) w'. d \<and> err = None \<longrightarrow> K w') w" "\<forall>t\<in>set post. preserves K t"
  shows "wp (finalizeDesiredState r ss) (\<lambda>(d, err) w'. d \<and> err = None \<longrightarrow> K w') w"
proof (rule wp_finalized)
  have "wp (finalizeSections (pre @ s # post) acc) (\<lambda>(d, blocked, err) w'. d \<and> err = None \<longrightarrow> K w') w" for acc
    using assms(2,3)
  proof (induction pre arbitrary: acc w)
    case Nil
    obtain d1 b1 e1 w1 where r: "run_state (sc_finalize s) w = ((d1, b1, e1), w1)" by (metis surj_pair)
    have "d1 \<and> e1 = None \<longrightarrow> K w1" using wp_run [OF r assms(4) [OF Nil(1)]] by simp
    then show ?case
      unfolding append_Nil finalizeSections.simps wp_bind
      by (simp add: wp_def [of "sc_finalize s"] r)
        (rule wp_conseq [OF wp_finalizeSections [OF assms(5)]], auto split: prod.splits option.splits if_splits)
  next
    case (Cons t pre)
    have "wp (sc_finalize t) (\<lambda>_. I) w" by (rule Cons.prems) (use Cons.prems(1) in simp_all)
    moreover have "wp (finalizeSections (pre @ s # post) a) (\<lambda>(d, blocked, err) w'. d \<and> err = None \<longrightarrow> K w') w1" if "I w1" for a w1
      by (rule Cons.IH [OF that Cons.prems(2)]) auto
    ultimately show ?case
      unfolding append_Cons finalizeSections.simps wp_bind by (elim wp_conseq) (simp split: prod.split)
  qed
  then show "wp (finalizeSections (finalizeOrder ss) (True, [], None)) (\<lambda>(d, blocked, err) w'. d \<and> err = None \<longrightarrow> K w') w"
    by (simp add: assms(1))
qed

lemma quiet_preserves:
  assumes "keepsCR (sc_finalize s)"
  shows "preserves (onLedger K) s"
proof -
  have "wp (sc_finalize s) (\<lambda>_ w'. memCR w' = memCR w) w" for w using assms by (simp add: keepsCR_def wp_def split_beta)
  note kept = this
  show ?thesis unfolding preserves_def by (intro allI impI, rule wp_conseq [OF kept]) auto
qed

end
