(* ===== verification/Dynamodb.thy ===== *)
theory Dynamodb
  imports Sqs_Policy Encryption
begin

text \<open>
  The DynamoDB package, \<^verbatim>\<open>internal/resources/dynamodb\<close>: ensuring declared tables (\<^verbatim>\<open>dynamodb.go\<close>), the resource
  policy that keeps a table from being refilled (\<^verbatim>\<open>policy.go\<close>) and the cleanup of tables that are no longer declared
  (\<^verbatim>\<open>cleanup.go\<close>). Names that other packages use too carry the suffix \<open>_ddb\<close>.
\<close>

section \<open>The resource policy of a table\<close>

definition pendingDeletionDenySid_ddb :: string where
  "pendingDeletionDenySid_ddb = ''CloudctlPendingDeletionDeny''"

definition noPolicyRevision :: string where "noPolicyRevision = ''NO_POLICY''"

definition pendingDeletionDenyActions :: "string list" where
  "pendingDeletionDenyActions =
     [''dynamodb:PutItem'', ''dynamodb:UpdateItem'', ''dynamodb:BatchWriteItem'', ''dynamodb:PartiQLInsert'', ''dynamodb:PartiQLUpdate'']"

definition denyStatement_ddb :: "string \<Rightarrow> json" where
  "denyStatement_ddb tableARN =
     JObj [(''Sid'', JStr pendingDeletionDenySid_ddb), (''Effect'', JStr ''Deny''), (''Principal'', JStr ''*''),
           (''Action'', JArr (map JStr pendingDeletionDenyActions)),
           (''Resource'', JArr [JStr tableARN, JStr (tableARN @ ''/index/*'')])]"

record tablePolicy =
  tpo_statements :: "json list"
  tpo_revisionID :: string

definition policyWriteError :: "ext_error \<Rightarrow> string \<Rightarrow> go_error" where
  "policyWriteError err errContext =
     (if isException ''PolicyNotFoundException'' err
         \<or> (case ex_api err of None \<Rightarrow> False | Some a \<Rightarrow> ap_ErrorCode a = ''LimitExceededException'')
      then ReconcileError (wrapf errContext [] (ExtError err)) True [] False
      else wrapAWSError (ExtError err) errContext)"

text \<open>
  The struct the policy is unmarshalled into has the member \<^verbatim>\<open>Statement\<close> alone, so a \<^verbatim>\<open>Version\<close> of any type is skipped.
\<close>

fun statementField :: "(string \<times> json) list \<Rightarrow> json list \<Rightarrow> json list option" where
  "statementField [] acc = Some acc"
| "statementField ((k, x) # kvs) acc =
     (if equalFold k ''Statement''
      then (case x of JArr xs \<Rightarrow> statementField kvs xs | JNull \<Rightarrow> statementField kvs [] | _ \<Rightarrow> None)
      else statementField kvs acc)"

definition parseStatements :: "string \<Rightarrow> json list option" where
  "parseStatements raw =
     (case parseJSON raw of Some (JObj kvs) \<Rightarrow> statementField kvs [] | Some JNull \<Rightarrow> Some [] | _ \<Rightarrow> None)"

definition readTablePolicy :: "env \<Rightarrow> string \<Rightarrow> (go_error + tablePolicy) op" where
  "readTablePolicy v tableARN = do {
     r \<leftarrow> ddb_GetResourcePolicy v tableARN;
     case r of
       Inl err \<Rightarrow>
         if isException ''PolicyNotFoundException'' err then ret (Inr \<lparr>tpo_statements = [], tpo_revisionID = []\<rparr>)
         else ret (Inl (wrapAWSError (ExtError err) ''reading the table's resource policy''))
     | Inr (policy, revision) \<Rightarrow>
         (let rev' = (case revision of None \<Rightarrow> [] | Some x \<Rightarrow> x) in
          if policy = None \<or> policy = Some [] then ret (Inr \<lparr>tpo_statements = [], tpo_revisionID = rev'\<rparr>)
          else case parseStatements (the policy) of
                 None \<Rightarrow> ret (Inl (msgError ''parsing the table's resource policy'' []))
               | Some statements \<Rightarrow> ret (Inr \<lparr>tpo_statements = statements, tpo_revisionID = rev'\<rparr>))
   }"

text \<open>Marshalling a map writes its keys in order.\<close>

definition renderTablePolicy :: "json list \<Rightarrow> string" where
  "renderTablePolicy statements = renderJSON (JObj [(''Statement'', JArr statements), (''Version'', JStr ''2012-10-17'')])"

definition writeTablePolicy :: "env \<Rightarrow> string \<Rightarrow> tablePolicy \<Rightarrow> go_error option op" where
  "writeTablePolicy v tableARN policy =
     (let expected = (if tpo_revisionID policy = [] then noPolicyRevision else tpo_revisionID policy) in do {
        r \<leftarrow> ddb_PutResourcePolicy v tableARN (renderTablePolicy (tpo_statements policy)) expected;
        case r of Inl e \<Rightarrow> ret (Some (policyWriteError e ''writing the table's resource policy'')) | Inr _ \<Rightarrow> ret None
      })"

definition addPendingDeletionDeny_ddb :: "env \<Rightarrow> string \<Rightarrow> go_error option op" where
  "addPendingDeletionDeny_ddb v tableARN = do {
     r \<leftarrow> readTablePolicy v tableARN;
     case r of
       Inl e \<Rightarrow> ret (Some e)
     | Inr policy \<Rightarrow>
         (case Upsert (tpo_statements policy) pendingDeletionDenySid_ddb (denyStatement_ddb tableARN) of
            (statements, changed) \<Rightarrow>
              if \<not> changed then ret None else writeTablePolicy v tableARN (policy\<lparr>tpo_statements := statements\<rparr>))
   }"

definition notFound_ddb :: "go_error \<Rightarrow> bool" where
  "notFound_ddb err = (case asExt err of None \<Rightarrow> False | Some e \<Rightarrow> isException ''ResourceNotFoundException'' e)"

definition removePendingDeletionDeny_ddb :: "env \<Rightarrow> string \<Rightarrow> go_error option op" where
  "removePendingDeletionDeny_ddb v tableARN = do {
     r \<leftarrow> readTablePolicy v tableARN;
     case r of
       Inl e \<Rightarrow> ret (if notFound_ddb e then None else Some e)
     | Inr policy \<Rightarrow>
         (case Remove (tpo_statements policy) pendingDeletionDenySid_ddb of (statements, changed) \<Rightarrow>
            if \<not> changed then ret None
            else if statements = [] then do {
              w \<leftarrow> ddb_DeleteResourcePolicy v tableARN (tpo_revisionID policy);
              case w of Inl e \<Rightarrow> ret (Some (policyWriteError e ''removing the table's resource policy'')) | Inr _ \<Rightarrow> ret None
            }
            else writeTablePolicy v tableARN (policy\<lparr>tpo_statements := statements\<rparr>))
   }"

section \<open>Whether a table can be worked on\<close>

definition provisionedDefaultCapacityUnits :: int where "provisionedDefaultCapacityUnits = 5"
definition defaultPITRRetentionDays :: int where "defaultPITRRetentionDays = 35"
definition creationVisibilityGrace :: duration where "creationVisibilityGrace = 5 * minute"

record tableOptions =
  to_deletionPolicy :: DeletionPolicy
  to_force :: bool
  to_adopt :: bool
  to_partitionKey :: string
  to_sortKey :: string
  to_backupEnabled :: bool
  to_backupOff :: bool
  to_retentionDays :: "int option"
  to_billingMode :: DynamoDBBillingMode
  to_kmsKeyARN :: "string option"
  to_deletionProtection :: "bool option"

definition billingModeFor :: "DynamoDBBillingMode \<Rightarrow> BillingMode" where
  "billingModeFor m = (if m = Provisioned then BillingModeProvisioned else BillingModePayPerRequest)"

fun tableStatusText :: "TableStatus \<Rightarrow> string" where
  "tableStatusText TableStatusCreating = ''CREATING''"
| "tableStatusText TableStatusUpdating = ''UPDATING''"
| "tableStatusText TableStatusDeleting = ''DELETING''"
| "tableStatusText TableStatusActive = ''ACTIVE''"
| "tableStatusText TableStatusInaccessibleEncryptionCredentials = ''INACCESSIBLE_ENCRYPTION_CREDENTIALS''"
| "tableStatusText TableStatusArchiving = ''ARCHIVING''"
| "tableStatusText TableStatusArchived = ''ARCHIVED''"
| "tableStatusText TableStatusReplicationNotAuthorized = ''REPLICATION_NOT_AUTHORIZED''"
| "tableStatusText (TableStatusOther s) = s"

definition tableKeyUnavailableError :: "pass \<Rightarrow> string \<Rightarrow> TableStatus \<Rightarrow> go_error op" where
  "tableKeyUnavailableError p tableName tableStatus = do {
     recordEvent p ''Warning'' ''KeyUnavailable'' [tableName, tableStatusText tableStatus];
     ret (ReconcileError (msgError ''its KMS key cannot be used'' [tableName, tableStatusText tableStatus]) False ''KeyUnavailable'' False)
   }"

definition tableStatusError :: "pass \<Rightarrow> string \<Rightarrow> TableStatus \<Rightarrow> go_error option op" where
  "tableStatusError p tableName tableStatus =
     (case tableStatus of
        TableStatusActive \<Rightarrow> ret None
      | TableStatusReplicationNotAuthorized \<Rightarrow> ret None
      | TableStatusInaccessibleEncryptionCredentials \<Rightarrow> do { e \<leftarrow> tableKeyUnavailableError p tableName tableStatus; ret (Some e) }
      | TableStatusArchiving \<Rightarrow> do { e \<leftarrow> tableKeyUnavailableError p tableName tableStatus; ret (Some e) }
      | TableStatusArchived \<Rightarrow> do { e \<leftarrow> tableKeyUnavailableError p tableName tableStatus; ret (Some e) }
      | TableStatusCreating \<Rightarrow> ret (Some (ReconcileError (msgError ''table is still'' [tableName, tableStatusText tableStatus]) True [] False))
      | TableStatusUpdating \<Rightarrow> ret (Some (ReconcileError (msgError ''table is still'' [tableName, tableStatusText tableStatus]) True [] False))
      | TableStatusDeleting \<Rightarrow> ret (Some (ReconcileError (msgError ''table is being deleted'' [tableName]) True [] False))
      | TableStatusOther s \<Rightarrow> ret (Some (ReconcileError (msgError ''table has a status this operator does not recognise yet'' [tableName, s]) True [] False)))"

definition checkBillingModeSwitch :: "string \<Rightarrow> TableDescription \<Rightarrow> tableOptions \<Rightarrow> go_error option" where
  "checkBillingModeSwitch tableName table opts =
     (if billingModeFor (to_billingMode opts) \<noteq> BillingModeProvisioned then None
      else if td_BillingModeSummary table \<noteq> Some BillingModePayPerRequest then None
      else Some (ReconcileError (msgError ''table is on-demand and the spec asks for provisioned capacity'' [tableName])
                   False ''ProvisionedCapacityNeeded'' False))"

definition checkTableWorkable :: "pass \<Rightarrow> string \<Rightarrow> TableDescription \<Rightarrow> tableOptions \<Rightarrow> go_error option op" where
  "checkTableWorkable p tableName table opts = do {
     e \<leftarrow> tableStatusError p tableName (td_TableStatus table);
     case e of Some err \<Rightarrow> ret (Some err) | None \<Rightarrow> ret (checkBillingModeSwitch tableName table opts)
   }"

definition tableMissingError :: "pass \<Rightarrow> ManagedResource \<Rightarrow> string \<Rightarrow> go_error op" where
  "tableMissingError p entry tableName =
     (if mr_State entry = StateCreating \<and> since (ps_now p) (mr_CreatedAt entry) < creationVisibilityGrace
      then ret (ReconcileError (msgError ''table was just created and is not visible yet'' [tableName]) True [] False)
      else do {
        recordEvent p ''Warning'' ''TableMissing'' [mr_ARN entry];
        ret (ReconcileError (msgError ''DynamoDB table no longer exists in AWS'' [tableName, mr_ARN entry]) False ''TableMissing'' False)
      })"

text \<open>\<^verbatim>\<open>tableKeySchema\<close>: a later element of the schema replaces an earlier one of its type.\<close>

fun tableKeySchema :: "(string option \<times> KeyType) list \<Rightarrow> string \<times> string \<Rightarrow> string \<times> string" where
  "tableKeySchema [] acc = acc"
| "tableKeySchema ((n, t) # es) (partitionKey, sortKey) =
     (let name = (case n of None \<Rightarrow> [] | Some x \<Rightarrow> x) in
      case t of
        KeyTypeHash \<Rightarrow> tableKeySchema es (name, sortKey)
      | KeyTypeRange \<Rightarrow> tableKeySchema es (partitionKey, name)
      | KeyTypeOther _ \<Rightarrow> tableKeySchema es (partitionKey, sortKey))"

definition checkKeySchema :: "TableDescription \<Rightarrow> string \<Rightarrow> tableOptions \<Rightarrow> go_error option" where
  "checkKeySchema table tableName opts =
     (case tableKeySchema (td_KeySchema table) ([], []) of (actualPartitionKey, actualSortKey) \<Rightarrow>
        if actualPartitionKey = to_partitionKey opts \<and> actualSortKey = to_sortKey opts then None
        else Some (ReconcileError (msgError ''table has a key schema that doesn't match''
                     [tableName, actualPartitionKey, actualSortKey, to_partitionKey opts, to_sortKey opts]) False ''KeySchemaMismatch'' False))"

section \<open>Attributes\<close>

definition reconcilePointInTimeRecovery :: "env \<Rightarrow> pass \<Rightarrow> string \<Rightarrow> string \<Rightarrow> tableOptions \<Rightarrow> go_error option op" where
  "reconcilePointInTimeRecovery v p tableName tableARN opts =
     (if \<not> to_backupEnabled opts \<and> \<not> to_backupOff opts then ret None
      else do {
        r \<leftarrow> ddb_DescribeContinuousBackups v tableName;
        case r of
          Inl err \<Rightarrow> ret (Some (wrapf ''reading point-in-time recovery status'' [] (ExtError err)))
        | Inr pitrDesc \<Rightarrow>
            (let currentlyEnabled = (case pitrDesc of None \<Rightarrow> False | Some d \<Rightarrow> pr_Enabled d);
                 desiredRetentionDays = (case to_retentionDays opts of None \<Rightarrow> defaultPITRRetentionDays | Some d \<Rightarrow> d)
             in if \<not> to_backupEnabled opts
                then do {
                  (if currentlyEnabled then recordEvent p ''Warning'' ''BackupsLeftEnabled'' [tableARN] else ret ());
                  ret None
                }
                else if currentlyEnabled \<and> (case pr_RecoveryPeriodInDays (the pitrDesc) of None \<Rightarrow> False | Some d \<Rightarrow> d \<ge> desiredRetentionDays)
                then ret None
                else do {
                  u \<leftarrow> ddb_UpdateContinuousBackups v tableName desiredRetentionDays;
                  case u of Inl err \<Rightarrow> ret (Some (wrapf ''correcting point-in-time recovery'' [] (ExtError err))) | Inr _ \<Rightarrow> ret None
                })
      })"

definition noUpdate :: "string \<Rightarrow> UpdateTableInput" where
  "noUpdate tableName = \<lparr>ut_TableName = tableName, ut_BillingMode = None, ut_ProvisionedThroughput = None,
     ut_DeletionProtectionEnabled = None, ut_SSESpecification = None\<rparr>"

definition placeholderCapacity :: "BillingMode \<Rightarrow> (int \<times> int) option" where
  "placeholderCapacity m = (if m = BillingModeProvisioned
     then Some (provisionedDefaultCapacityUnits, provisionedDefaultCapacityUnits) else None)"

definition currentKeyOf :: "TableDescription \<Rightarrow> string" where
  "currentKeyOf table = (case td_SSEDescription table of Some (Some k) \<Rightarrow> k | _ \<Rightarrow> [])"

text \<open>
  The corrections of \<^verbatim>\<open>reconcileTableAttributes\<close> in the order it makes them, each with the text of its error. The
  description is the one the caller read.
\<close>

definition tableCorrections :: "string \<Rightarrow> TableDescription \<Rightarrow> tableOptions \<Rightarrow> (UpdateTableInput \<times> string) list" where
  "tableCorrections tableName table opts =
     (let desiredMode = billingModeFor (to_billingMode opts);
          currentMode = (case td_BillingModeSummary table of None \<Rightarrow> BillingModeProvisioned | Some m \<Rightarrow> m)
      in (if currentMode \<noteq> desiredMode
          then [((noUpdate tableName)\<lparr>ut_BillingMode := Some desiredMode, ut_ProvisionedThroughput := placeholderCapacity desiredMode\<rparr>,
                 ''correcting billing mode'')] else [])
       @ (case to_deletionProtection opts of
            None \<Rightarrow> []
          | Some want \<Rightarrow> if (td_DeletionProtectionEnabled table = Some True) \<noteq> want
                         then [((noUpdate tableName)\<lparr>ut_DeletionProtectionEnabled := Some want\<rparr>, ''correcting deletion protection'')] else [])
       @ (case to_kmsKeyARN opts of
            None \<Rightarrow> []
          | Some key \<Rightarrow> if currentKeyOf table \<noteq> key
                        then [((noUpdate tableName)\<lparr>ut_SSESpecification := Some key\<rparr>, ''correcting server-side encryption key'')] else []))"

primrec updateTables :: "env \<Rightarrow> (UpdateTableInput \<times> string) list \<Rightarrow> go_error option op" where
  "updateTables v [] = ret None"
| "updateTables v (c # cs) = do {
     r \<leftarrow> ddb_UpdateTable v (fst c);
     case r of Inl err \<Rightarrow> ret (Some (wrapf (snd c) [] (ExtError err))) | Inr _ \<Rightarrow> updateTables v cs
   }"

definition reconcileTableAttributes ::
  "env \<Rightarrow> pass \<Rightarrow> string \<Rightarrow> TableDescription \<Rightarrow> tableOptions \<Rightarrow> go_error option op" where
  "reconcileTableAttributes v p tableName table opts = do {
     e \<leftarrow> updateTables v (tableCorrections tableName table opts);
     case e of
       Some err \<Rightarrow> ret (Some err)
     | None \<Rightarrow> reconcilePointInTimeRecovery v p tableName (td_TableArn table) opts
   }"

section \<open>Ensuring a table\<close>

definition recordVerified_ddb :: "pass \<Rightarrow> ledger \<Rightarrow> string \<Rightarrow> string \<Rightarrow> DeletionPolicy \<Rightarrow> bool \<Rightarrow> ledger" where
  "recordVerified_ddb p l ledgerName arn deletionPolicy force =
     UpsertManagedResource l (zeroManagedResource\<lparr>
       mr_Type := typeDynamoDB, mr_Name := ledgerName, mr_ARN := arn, mr_State := StateVerified,
       mr_DeletionPolicy := deletionPolicy, mr_Force := force,
       mr_CreatedAt := (case FindManagedResource l typeDynamoDB ledgerName of None \<Rightarrow> ps_now p | Some e \<Rightarrow> mr_CreatedAt e),
       mr_LastVerifiedAt := Some (ps_now p)\<rparr>)"

primrec tableTagPages :: "env \<Rightarrow> string \<Rightarrow> nat \<Rightarrow> string option \<Rightarrow> aws_tag list \<Rightarrow> (ext_error + aws_tag list) op" where
  "tableTagPages v resourceArn 0 nextToken all = ret (Inl deadlineExceeded)"
| "tableTagPages v resourceArn (Suc n) nextToken all = do {
     r \<leftarrow> ddb_ListTagsOfResource v resourceArn nextToken;
     case r of
       Inl e \<Rightarrow> ret (Inl e)
     | Inr (tgs, next) \<Rightarrow>
         (case next of
            None \<Rightarrow> ret (Inr (all @ tgs))
          | Some t \<Rightarrow> tableTagPages v resourceArn n (Some t) (all @ tgs))
   }"

definition listAllTags :: "env \<Rightarrow> pass \<Rightarrow> string \<Rightarrow> (ext_error + aws_tag list) op" where
  "listAllTags v p resourceArn = tableTagPages v resourceArn (ps_pageBudget p) None []"

definition createTableInput :: "pass \<Rightarrow> string \<Rightarrow> tableOptions \<Rightarrow> CreateTableInput" where
  "createTableInput p tableName opts =
     \<lparr>ct_TableName = tableName,
      ct_AttributeDefinitions = to_partitionKey opts # (if to_sortKey opts = [] then [] else [to_sortKey opts]),
      ct_KeySchema = (to_partitionKey opts, KeyTypeHash) # (if to_sortKey opts = [] then [] else [(to_sortKey opts, KeyTypeRange)]),
      ct_BillingMode = billingModeFor (to_billingMode opts),
      ct_Tags = ownerTags p,
      ct_DeletionProtectionEnabled = (to_deletionProtection opts = None \<or> to_deletionProtection opts = Some True),
      ct_ProvisionedThroughput = placeholderCapacity (billingModeFor (to_billingMode opts)),
      ct_SSESpecification = to_kmsKeyARN opts\<rparr>"

definition createTable ::
  "env \<Rightarrow> pass \<Rightarrow> string \<Rightarrow> string \<Rightarrow> tableOptions \<Rightarrow> ledger \<Rightarrow> (ledger \<times> go_error option) op" where
  "createTable v p tableName resourceName opts l = do {
     r \<leftarrow> ddb_CreateTable v (createTableInput p tableName opts);
     case r of
       Inl err \<Rightarrow> ret (l, Some (wrapAWSError (ExtError err) ''creating table''))
     | Inr arn \<Rightarrow> do {
         recordEvent p ''Normal'' ''TableCreating'' [arn];
         ret (UpsertManagedResource l (zeroManagedResource\<lparr>
                mr_Type := typeDynamoDB, mr_Name := resourceName, mr_ARN := arn, mr_State := StateCreating,
                mr_DeletionPolicy := to_deletionPolicy opts, mr_Force := to_force opts, mr_CreatedAt := ps_now p\<rparr>), None)
       }
   }"

definition adoptTable :: "env \<Rightarrow> pass \<Rightarrow> string \<Rightarrow> tableOptions \<Rightarrow> TableDescription \<Rightarrow> tags \<Rightarrow> go_error option op" where
  "adoptTable v p tableName opts table currentTags =
     (case CheckExistingOwnership p ''table'' tableName currentTags (to_adopt opts) of
        Inl ownErr \<Rightarrow> ret (Some ownErr)
      | Inr transferred \<Rightarrow>
          (case checkKeySchema table tableName opts of
             Some e \<Rightarrow> ret (Some e)
           | None \<Rightarrow> do {
               keyErr \<leftarrow> AdoptedKeyCheck (Some v) (to_kmsKeyARN opts) (currentKeyOf table);
               case keyErr of
                 Some e \<Rightarrow> ret (Some (wrapf ''table can't be adopted'' [tableName] e))
               | None \<Rightarrow> do {
                   g \<leftarrow> ddb_TagResource v (td_TableArn table) (MergeTags currentTags (ownerTags p));
                   case g of
                     Inl tagErr \<Rightarrow> ret (Some (wrapAWSError (ExtError tagErr) ''adopting table (tagging)''))
                   | Inr _ \<Rightarrow> do {
                       (if HasReleaseTags currentTags
                        then do {
                          u \<leftarrow> ddb_UntagResource v (td_TableArn table) ReleasedTagKeys;
                          case u of Inl untagErr \<Rightarrow> ReleaseTagFailed p ''table'' tableName untagErr | Inr _ \<Rightarrow> ret ()
                        }
                        else ret ());
                       (if transferred then recordEvent p ''Normal'' EventOwnershipTransferred [td_TableArn table]
                        else recordEvent p ''Normal'' ''TableAdopted'' [td_TableArn table]);
                       ret None
                     }
                 }
             }))"

text \<open>The path that reads the tags, after the trust window or for a table the ledger does not know.\<close>

definition ensureTableVerified ::
  "env \<Rightarrow> pass \<Rightarrow> string \<Rightarrow> string \<Rightarrow> TableDescription \<Rightarrow> ManagedResource option \<Rightarrow> tableOptions \<Rightarrow> ledger
   \<Rightarrow> (ledger \<times> go_error option) op" where
  "ensureTableVerified v p tableName resourceName table before opts l = do {
     t \<leftarrow> listAllTags v p (td_TableArn table);
     case t of
       Inl tErr \<Rightarrow> ret (l, Some (wrapAWSError (ExtError tErr) ''reading table tags''))
     | Inr tgs \<Rightarrow> do {
         aErr \<leftarrow> (if \<not> owned_by_pass p (tagsToMap tgs) then adoptTable v p tableName opts table (tagsToMap tgs) else ret None);
         case aErr of
           Some e \<Rightarrow> ret (l, Some e)
         | None \<Rightarrow> do {
             rErr \<leftarrow> reconcileTableAttributes v p tableName table opts;
             case rErr of
               Some e \<Rightarrow> ret (l, Some (wrapAWSError e ''reconciling table attributes''))
             | None \<Rightarrow> do {
                 (case before of
                    Some b \<Rightarrow> (if mr_State b = StateCreating then recordEvent p ''Normal'' ''TableActive'' [td_TableArn table] else ret ())
                  | None \<Rightarrow> ret ());
                 ret (recordVerified_ddb p l resourceName (td_TableArn table) (to_deletionPolicy opts) (to_force opts), None)
               }
           }
       }
   }"

text \<open>A table that exists and can be worked on.\<close>

definition ensureExistingTable ::
  "env \<Rightarrow> pass \<Rightarrow> string \<Rightarrow> string \<Rightarrow> TableDescription \<Rightarrow> tableOptions \<Rightarrow> ledger \<Rightarrow> (ledger \<times> go_error option) op" where
  "ensureExistingTable v p tableName resourceName table opts l =
     (let before = FindManagedResource l typeDynamoDB resourceName;
          keyErr = (case before of
                      Some b \<Rightarrow> if mr_State b \<noteq> StateRelinquished then checkKeySchema table tableName opts else None
                    | None \<Rightarrow> None)
      in case keyErr of
           Some e \<Rightarrow> ret (l, Some e)
         | None \<Rightarrow>
             (case before of
                None \<Rightarrow> ensureTableVerified v p tableName resourceName table before opts l
              | Some b \<Rightarrow>
                  if NeedsRevalidation (ps_now p) b then ensureTableVerified v p tableName resourceName table before opts l
                  else do {
                    rErr \<leftarrow> reconcileTableAttributes v p tableName table opts;
                    ret (UpsertManagedResource l (b\<lparr>mr_DeletionPolicy := to_deletionPolicy opts, mr_Force := to_force opts\<rparr>),
                         map_option (\<lambda>e. wrapAWSError e ''reconciling table attributes'') rErr)
                  }))"

definition tableNameOf :: "pass \<Rightarrow> string \<Rightarrow> string" where
  "tableNameOf p resourceName = ResourceName (ps_namespace p) (ps_crName p) typeDynamoDB resourceName 255"

definition ensureTable :: "env \<Rightarrow> pass \<Rightarrow> string \<Rightarrow> tableOptions \<Rightarrow> ledger \<Rightarrow> (ledger \<times> go_error option) op" where
  "ensureTable v p resourceName opts l =
     (let tableName = tableNameOf p resourceName in do {
        r \<leftarrow> ddb_DescribeTable v tableName;
        case r of
          Inl err \<Rightarrow>
            if isException ''ResourceNotFoundException'' err
            then (case FindManagedResource l typeDynamoDB resourceName of
                    None \<Rightarrow> createTable v p tableName resourceName opts l
                  | Some entry \<Rightarrow>
                      if mr_State entry \<noteq> StateRelinquished
                      then do { e \<leftarrow> tableMissingError p entry tableName; ret (l, Some e) }
                      else createTable v p tableName resourceName opts l)
            else ret (l, Some (wrapAWSError (ExtError err) ''looking up table''))
        | Inr table \<Rightarrow> do {
            wErr \<leftarrow> checkTableWorkable p tableName table opts;
            case wErr of
              Some e \<Rightarrow> ret (l, Some e)
            | None \<Rightarrow> ensureExistingTable v p tableName resourceName table opts l
          }
      })"

definition optionsOf :: "DynamoDBTableSpec \<Rightarrow> string option \<Rightarrow> tableOptions" where
  "optionsOf t kmsKeyARN =
     \<lparr>to_deletionPolicy = tb_DeletionPolicy t, to_force = tb_Force t, to_adopt = tb_Adopt t,
      to_partitionKey = tb_PartitionKey t, to_sortKey = tb_SortKey t,
      to_backupEnabled = (case tb_Backup t of None \<Rightarrow> False | Some b \<Rightarrow> db_Enabled b),
      to_backupOff = (case tb_Backup t of None \<Rightarrow> False | Some b \<Rightarrow> \<not> db_Enabled b),
      to_retentionDays = (case tb_Backup t of None \<Rightarrow> None | Some b \<Rightarrow> db_RetentionDays b),
      to_billingMode = (case tb_Overrides t of None \<Rightarrow> BillingModeUnset | Some ov \<Rightarrow> do_BillingMode ov),
      to_kmsKeyARN = kmsKeyARN,
      to_deletionProtection = tb_DeletionProtection t\<rparr>"


primrec ensureTables ::
  "env \<Rightarrow> pass \<Rightarrow> DynamoDBTableSpec list \<Rightarrow> ledger \<Rightarrow> go_error option \<Rightarrow> (ledger \<times> go_error option) op" where
  "ensureTables v p [] l firstErr = ret (l, firstErr)"
| "ensureTables v p (t # ts) l firstErr = do {
     (l1, keyRes) \<leftarrow> resolveEncryptionKey v p ''table'' typeDynamoDB (tb_Name t) (tb_DeletionPolicy t) (tb_Encryption t) l;
     case keyRes of
       Inl e \<Rightarrow> ensureTables v p ts l1 (firstError firstErr (Some e))
     | Inr key \<Rightarrow> do {
         (l2, err) \<leftarrow> ensureTable v p (tb_Name t) (optionsOf t key) l1;
         ensureTables v p ts l2 (firstError firstErr (map_option (wrapf ''table'' [tb_Name t]) err))
       }
   }"

definition Ensure_ddb :: "env \<Rightarrow> pass \<Rightarrow> DynamoDBSpec option \<Rightarrow> ledger \<Rightarrow> (ledger \<times> go_error option) op" where
  "Ensure_ddb v p spec l =
     (case spec of None \<Rightarrow> ret (l, None) | Some s \<Rightarrow> ensureTables v p (ddb_Resources s) l None)"

section \<open>Cleanup\<close>

definition PendingDeletionGracePeriod_ddb :: duration where "PendingDeletionGracePeriod_ddb = 7 * 24 * hour"
definition deletionQuietWindow_ddb :: duration where "deletionQuietWindow_ddb = 10 * minute"

datatype TableCleanupReason = TableRetained | TablePendingDeletion | TableStuckPendingDeletion

type_synonym table_result = "string \<times> TableCleanupReason"

definition pendingDeletionReason_ddb :: "pass \<Rightarrow> time \<Rightarrow> TableCleanupReason" where
  "pendingDeletionReason_ddb p t =
     (if since (ps_now p) t > PendingDeletionGracePeriod_ddb then TableStuckPendingDeletion else TablePendingDeletion)"

definition declaredTableNames :: "DynamoDBSpec option \<Rightarrow> bool \<Rightarrow> string \<Rightarrow> bool" where
  "declaredTableNames spec deleting name =
     (case spec of None \<Rightarrow> False | Some s \<Rightarrow> \<not> deleting \<and> name \<in> tb_Name ` set (ddb_Resources s))"

definition markPendingDeletion_ddb ::
  "pass \<Rightarrow> ledger \<Rightarrow> table_result list \<Rightarrow> ManagedResource \<Rightarrow> ledger \<times> table_result list" where
  "markPendingDeletion_ddb p l results entry =
     (let since' = (case mr_PendingDeletionSince entry of None \<Rightarrow> ps_now p | Some t \<Rightarrow> t)
      in (UpsertManagedResource l (entry\<lparr>mr_PendingDeletionSince := Some since'\<rparr>),
          results @ [(mr_Name entry, pendingDeletionReason_ddb p since')]))"

definition restoreDeclared_ddb :: "env \<Rightarrow> pass \<Rightarrow> ManagedResource \<Rightarrow> ledger \<Rightarrow> (ledger \<times> go_error option) op" where
  "restoreDeclared_ddb v p entry l =
     (if mr_PendingDeletionSince entry = None then ret (l, None)
      else do {
        e \<leftarrow> removePendingDeletionDeny_ddb v (mr_ARN entry);
        case e of
          Some err \<Rightarrow> ret (l, Some err)
        | None \<Rightarrow> do {
            recordEvent p ''Normal'' ''TableDeletionCancelled'' [mr_Name entry, mr_ARN entry];
            ret (UpsertManagedResource l (entry\<lparr>mr_PendingDeletionSince := None, mr_LastEmptyCheckAt := None\<rparr>), None)
          }
      })"

definition relinquishIfStillTagged_ddb :: "env \<Rightarrow> pass \<Rightarrow> ManagedResource \<Rightarrow> (bool \<times> bool \<times> go_error option) op" where
  "relinquishIfStillTagged_ddb v p entry = do {
     t \<leftarrow> listAllTags v p (mr_ARN entry);
     case t of
       Inl tErr \<Rightarrow>
         if isException ''ResourceNotFoundException'' tErr then ret (False, True, None)
         else ret (False, False, Some (wrapAWSError (ExtError tErr) ''checking ownership tags on retained table''))
     | Inr tgs \<Rightarrow>
         if \<not> owned_by_pass p (tagsToMap tgs) then ret (False, False, None)
         else do {
           (case ReleaseTags p of
              None \<Rightarrow> ret ()
            | Some released \<Rightarrow> do {
                g \<leftarrow> ddb_TagResource v (mr_ARN entry) released;
                case g of Inl tagErr \<Rightarrow> ReleaseTagFailed p ''table'' (mr_Name entry) tagErr | Inr _ \<Rightarrow> ret ()
              });
           u \<leftarrow> ddb_UntagResource v (mr_ARN entry) [OwnerTagKey, OwnerUIDTagKey];
           case u of
             Inl uErr \<Rightarrow> ret (False, False, Some (wrapAWSError (ExtError uErr) ''relinquishing ownership tag on retained table''))
           | Inr _ \<Rightarrow> ret (True, False, None)
         }
   }"

definition retain_ddb ::
  "env \<Rightarrow> pass \<Rightarrow> ManagedResource \<Rightarrow> ledger \<Rightarrow> table_result list \<Rightarrow> (ledger \<times> table_result list \<times> go_error option) op" where
  "retain_ddb v p entry l results =
     (let retained = (mr_Name entry, TableRetained);
          pinsKey = PinsAKey l typeDynamoDB entry
      in do {
        dErr \<leftarrow> (if mr_PendingDeletionSince entry \<noteq> None then removePendingDeletionDeny_ddb v (mr_ARN entry) else ret None);
        case dErr of
          Some e \<Rightarrow> ret (l, results, Some e)
        | None \<Rightarrow>
            if mr_State entry = StateRelinquished \<and> \<not> pinsKey
            then ret (RemoveManagedResource l typeDynamoDB (mr_Name entry), results @ [retained], None)
            else if mr_State entry = StateRelinquished \<and> \<not> NeedsRelinquishedRecheck (ps_now p) entry
            then ret (l, results @ [retained], None)
            else do {
              (relinquished, gone, err) \<leftarrow> relinquishIfStillTagged_ddb v p entry;
              case err of
                Some e \<Rightarrow> ret (l, results, Some e)
              | None \<Rightarrow>
                  if gone then ret (RemoveManagedResource l typeDynamoDB (mr_Name entry), results, None)
                  else do {
                    (if relinquished then recordEvent p ''Normal'' ''TableOwnershipRelinquished'' [mr_Name entry, mr_ARN entry] else ret ());
                    ret (if pinsKey then UpsertManagedResource l (Relinquished (ps_now p) entry)
                         else RemoveManagedResource l typeDynamoDB (mr_Name entry), results @ [retained], None)
                  }
            }
      })"

text \<open>\<open>Inr True\<close>: the table is gone; \<open>Inr False\<close>: it exists and is ours.\<close>

definition verifyOwned_ddb :: "env \<Rightarrow> pass \<Rightarrow> ManagedResource \<Rightarrow> (go_error + bool) op" where
  "verifyOwned_ddb v p entry = do {
     t \<leftarrow> listAllTags v p (mr_ARN entry);
     case t of
       Inl err \<Rightarrow>
         if isException ''ResourceNotFoundException'' err then ret (Inr True)
         else ret (Inl (wrapAWSError (ExtError err) ''re-verifying ownership of table before delete''))
     | Inr tgs \<Rightarrow>
         if \<not> owned_by_pass p (tagsToMap tgs) then ret (Inl (OwnershipLostError ''table'' (mr_Name entry) ''delete it''))
         else ret (Inr False)
   }"

definition tableNameFromARN :: "string \<Rightarrow> go_error + string" where
  "tableNameFromARN arn =
     (if CHR ''/'' \<notin> set arn \<or> last arn = CHR ''/'' then Inl (msgError ''unexpected table ARN format'' [arn])
      else Inr (afterLast arn CHR ''/''))"

definition tableIsEmpty :: "env \<Rightarrow> string \<Rightarrow> (go_error + bool) op" where
  "tableIsEmpty v tableArn =
     (case tableNameFromARN tableArn of
        Inl err \<Rightarrow> ret (Inl err)
      | Inr tableName \<Rightarrow> do {
          r \<leftarrow> ddb_Scan v tableName;
          ret (map_sum ExtError (\<lambda>count. count = 0) r)
        })"

definition gateOnEmpty_ddb ::
  "env \<Rightarrow> pass \<Rightarrow> ManagedResource \<Rightarrow> ledger \<Rightarrow> table_result list
   \<Rightarrow> (ledger \<times> table_result list \<times> bool \<times> go_error option) op" where
  "gateOnEmpty_ddb v p entry l results =
     (if mr_PendingDeletionSince entry = None
      then do {
        e \<leftarrow> addPendingDeletionDeny_ddb v (mr_ARN entry);
        case e of
          Some err \<Rightarrow> ret (l, results, False, Some err)
        | None \<Rightarrow>
            (case markPendingDeletion_ddb p l results entry of (l1, results1) \<Rightarrow> do {
               recordEvent p ''Warning'' ''TableDeletionPending'' [mr_Name entry, mr_ARN entry];
               ret (l1, results1, False, None)
             })
      }
      else do {
        r \<leftarrow> tableIsEmpty v (mr_ARN entry);
        case r of
          Inl err \<Rightarrow> ret (l, results, False, Some (wrapAWSError err ''checking table is empty''))
        | Inr isEmpty \<Rightarrow>
            if \<not> isEmpty
            then (case markPendingDeletion_ddb p l results (entry\<lparr>mr_LastEmptyCheckAt := Some (ps_now p)\<rparr>) of
                    (l1, results1) \<Rightarrow> ret (l1, results1, False, None))
            else ret (l, results, True, None)
      })"

definition releaseDeletionProtection :: "env \<Rightarrow> string \<Rightarrow> go_error option op" where
  "releaseDeletionProtection v tableName = do {
     r \<leftarrow> ddb_DescribeTable v tableName;
     case r of
       Inl err \<Rightarrow>
         if isException ''ResourceNotFoundException'' err then ret None
         else ret (Some (wrapAWSError (ExtError err) ''reading table before delete''))
     | Inr table \<Rightarrow>
         if td_DeletionProtectionEnabled table \<noteq> Some True then ret None
         else do {
           u \<leftarrow> ddb_UpdateTable v ((noUpdate tableName)\<lparr>ut_DeletionProtectionEnabled := Some False\<rparr>);
           case u of
             Inl err \<Rightarrow> ret (Some (wrapAWSError (ExtError err) ''turning off deletion protection of table''))
           | Inr _ \<Rightarrow> ret None
         }
   }"

definition deleteTable :: "env \<Rightarrow> pass \<Rightarrow> ManagedResource \<Rightarrow> ledger \<Rightarrow> (ledger \<times> go_error option) op" where
  "deleteTable v p entry l =
     (case tableNameFromARN (mr_ARN entry) of
        Inl err \<Rightarrow> ret (l, Some err)
      | Inr tableName \<Rightarrow> do {
          pErr \<leftarrow> releaseDeletionProtection v tableName;
          case pErr of
            Some e \<Rightarrow> ret (l, Some e)
          | None \<Rightarrow> do {
              r \<leftarrow> ddb_DeleteTable v tableName;
              let failed = (case r of Inl err \<Rightarrow> if isException ''ResourceNotFoundException'' err then None else Some err | Inr _ \<Rightarrow> None);
              case failed of
                Some err \<Rightarrow> ret (l, Some (wrapAWSError (ExtError err) ''deleting table''))
              | None \<Rightarrow> do {
                  recordEvent p ''Warning'' ''TableDeleted'' [mr_Name entry, mr_ARN entry];
                  ret (RemoveManagedResource l typeDynamoDB (mr_Name entry), None)
                }
            }
        })"

definition waitsQuietly_ddb :: "pass \<Rightarrow> ManagedResource \<Rightarrow> bool" where
  "waitsQuietly_ddb p entry =
     (case mr_PendingDeletionSince entry of None \<Rightarrow> False
      | Some t \<Rightarrow> since (ps_now p) t < deletionQuietWindow_ddb \<or> \<not> NeedsEmptyCheck (ps_now p) entry)"

definition deleteUndeclared_ddb ::
  "env \<Rightarrow> pass \<Rightarrow> bool \<Rightarrow> ManagedResource \<Rightarrow> ledger \<Rightarrow> table_result list
   \<Rightarrow> (ledger \<times> table_result list \<times> go_error option) op" where
  "deleteUndeclared_ddb v p forceDeleteAll entry l results =
     (let forced = (mr_Force entry \<or> forceDeleteAll) in
      if \<not> forced \<and> waitsQuietly_ddb p entry
      then ret (l, results @ [(mr_Name entry, pendingDeletionReason_ddb p (the (mr_PendingDeletionSince entry)))], None)
      else do {
        r \<leftarrow> verifyOwned_ddb v p entry;
        case r of
          Inl err \<Rightarrow> ret (l, results, Some err)
        | Inr gone \<Rightarrow>
            if gone then ret (RemoveManagedResource l typeDynamoDB (mr_Name entry), results, None)
            else do {
              (l1, results1, proceed, err) \<leftarrow> (if forced then ret (l, results, True, None) else gateOnEmpty_ddb v p entry l results);
              if err \<noteq> None \<or> \<not> proceed then ret (l1, results1, err)
              else do {
                (l2, err2) \<leftarrow> deleteTable v p entry l1;
                ret (l2, results1, err2)
              }
            }
      })"

primrec cleanupTables ::
  "env \<Rightarrow> pass \<Rightarrow> (string \<Rightarrow> bool) \<Rightarrow> bool \<Rightarrow> ManagedResource list
   \<Rightarrow> ledger \<times> table_result list \<times> go_error option \<Rightarrow> (ledger \<times> table_result list \<times> go_error option) op" where
  "cleanupTables v p declared force [] acc = ret acc"
| "cleanupTables v p declared force (entry # rest) acc =
     (case acc of (l, results, firstErr) \<Rightarrow>
        if mr_Type entry \<noteq> typeDynamoDB then cleanupTables v p declared force rest acc
        else do {
          (l1, results1, entryErr) \<leftarrow>
            (if declared (mr_Name entry)
             then do { (l1, e) \<leftarrow> restoreDeclared_ddb v p entry l; ret (l1, results, e) }
             else if mr_DeletionPolicy entry \<noteq> DeletionPolicyDelete then retain_ddb v p entry l results
             else deleteUndeclared_ddb v p force entry l results);
          cleanupTables v p declared force rest (l1, results1, firstError firstErr entryErr)
        })"

definition Cleanup_ddb ::
  "env \<Rightarrow> pass \<Rightarrow> DynamoDBSpec option \<Rightarrow> ledger \<Rightarrow> bool \<Rightarrow> bool \<Rightarrow> (ledger \<times> table_result list \<times> go_error option) op" where
  "Cleanup_ddb v p spec l deleting forceDeleteAll =
     cleanupTables v p (declaredTableNames spec deleting) forceDeleteAll l (l, [], None)"

end
