(* ===== verification/Paging.thy ===== *)
theory Paging
  imports Kms
begin

text \<open>
  Listings that come in pages: the loops of \<^verbatim>\<open>listAllTags\<close>, \<^verbatim>\<open>listAllResourceTags\<close>, \<^verbatim>\<open>listAllRoleTags\<close> and their like. The locale
  states the control flow such a loop has, and derives what the trace of a successful listing looks like and that a listing
  of finitely many pages ends within its budget.
\<close>

inductive pagedListing :: "('t \<Rightarrow> 'p reply \<Rightarrow> call) \<Rightarrow> ('p \<Rightarrow> 'a list) \<Rightarrow> ('p \<Rightarrow> 't option) \<Rightarrow> 't \<Rightarrow> history \<Rightarrow> 'a list \<Rightarrow> bool"
  for mk items nxt where
  lastPage: "nxt pg = None \<Longrightarrow> pagedListing mk items nxt t [mk t (Inr pg)] (items pg)"
| morePages: "nxt pg = Some t' \<Longrightarrow> pagedListing mk items nxt t' rest xs
    \<Longrightarrow> pagedListing mk items nxt t (mk t (Inr pg) # rest) (items pg @ xs)"

text \<open>A service that answers each token with the same page: how many pages there are from a token on, and what is on them.\<close>

inductive servesPages :: "('t \<Rightarrow> 'p) \<Rightarrow> ('p \<Rightarrow> 'a list) \<Rightarrow> ('p \<Rightarrow> 't option) \<Rightarrow> 't \<Rightarrow> nat \<Rightarrow> 'a list \<Rightarrow> bool"
  for serve items nxt where
  servesLast: "nxt (serve t) = None \<Longrightarrow> servesPages serve items nxt t 1 (items (serve t))"
| servesMore: "nxt (serve t) = Some t' \<Longrightarrow> servesPages serve items nxt t' n xs
    \<Longrightarrow> servesPages serve items nxt t (Suc n) (items (serve t) @ xs)"

text \<open>A chain of pages from a token to a last page, all of them answers found in a history.\<close>

inductive readsPages :: "('t \<Rightarrow> 'p reply \<Rightarrow> call) \<Rightarrow> ('p \<Rightarrow> 'a list) \<Rightarrow> ('p \<Rightarrow> 't option) \<Rightarrow> history \<Rightarrow> 't \<Rightarrow> 'a list \<Rightarrow> bool"
  for mk items nxt pre where
  readLast: "mk t (Inr pg) \<in> set pre \<Longrightarrow> nxt pg = None \<Longrightarrow> readsPages mk items nxt pre t (items pg)"
| readMore: "mk t (Inr pg) \<in> set pre \<Longrightarrow> nxt pg = Some t' \<Longrightarrow> readsPages mk items nxt pre t' xs
    \<Longrightarrow> readsPages mk items nxt pre t (items pg @ xs)"

lemma readsPages_mono: "readsPages mk items nxt pre t xs \<Longrightarrow> set pre \<subseteq> set pre' \<Longrightarrow> readsPages mk items nxt pre' t xs"
  by (induction rule: readsPages.induct) (auto intro: readsPages.intros)

lemma pagedListing_reads: "pagedListing mk items nxt t seg xs \<Longrightarrow> readsPages mk items nxt seg t xs"
proof (induction rule: pagedListing.induct)
  case (morePages pg t' rest xs t)
  show ?case
    by (rule readsPages.readMore [where nxt = nxt and pg = pg and t' = t'])
      (use morePages(1) readsPages_mono [OF morePages.IH, of "mk t (Inr pg) # rest"] in auto)
qed (auto intro: readsPages.readLast)

locale paging =
  fixes loop :: "nat \<Rightarrow> 't \<Rightarrow> 'a list \<Rightarrow> (ext_error + 'a list) op"
    and ask :: "history \<Rightarrow> 't \<Rightarrow> 'p reply"
    and mk :: "'t \<Rightarrow> 'p reply \<Rightarrow> call"
    and items :: "'p \<Rightarrow> 'a list"
    and nxt :: "'p \<Rightarrow> 't option"
  assumes loop_0: "\<And>t acc. loop 0 t acc = ret (Inl deadlineExceeded)"
    and loop_Suc: "\<And>n t acc. loop (Suc n) t acc = do {
          r \<leftarrow> invoke (\<lambda>h. ask h t) (mk t);
          case r of
            Inl e \<Rightarrow> ret (Inl e)
          | Inr pg \<Rightarrow> (case nxt pg of None \<Rightarrow> ret (Inr (acc @ items pg)) | Some t' \<Rightarrow> loop n t' (acc @ items pg))
        }"
begin

lemma emits_loop: "(\<And>t r. C (mk t r)) \<Longrightarrow> emits C (loop n t acc)"
proof (induction n arbitrary: t acc)
  case (Suc n)
  show ?case unfolding loop_Suc by (intro emits_intros emits_invoke Suc.IH Suc.prems)
qed (simp add: loop_0 emits_ret)

lemma wp_loop:
  "wp (loop n t acc) (\<lambda>r w'. \<exists>new. trace w' = trace w @ new \<and> (\<forall>c\<in>set new. \<exists>t r. c = mk t r)
     \<and> (\<forall>xs. r = Inr xs \<longrightarrow> (\<exists>ys. xs = acc @ ys \<and> pagedListing mk items nxt t new ys))) w"
proof (induction n arbitrary: t acc w)
  case 0
  show ?case by (simp add: loop_0 wp_simps)
next
  case (Suc n)
  let ?r = "ask (trace w) t"
  show ?case
  proof (cases "\<exists>pg t'. ?r = Inr pg \<and> nxt pg = Some t'")
    case True
    then obtain pg t' where r: "?r = Inr pg" "nxt pg = Some t'" by blast
    have "wp (loop n t' (acc @ items pg)) (\<lambda>r w'. \<exists>new. trace w' = trace w @ new \<and> (\<forall>c\<in>set new. \<exists>t r. c = mk t r)
       \<and> (\<forall>xs. r = Inr xs \<longrightarrow> (\<exists>ys. xs = acc @ ys \<and> pagedListing mk items nxt t new ys))) (w\<lparr>trace := trace w @ [mk t ?r]\<rparr>)"
    proof (rule wp_conseq [OF Suc.IH], elim exE conjE)
      fix b :: "ext_error + 'a list" and w' :: world and new
      assume n: "trace w' = trace (w\<lparr>trace := trace w @ [mk t ?r]\<rparr>) @ new" "\<forall>c\<in>set new. \<exists>t r. c = mk t r"
        "\<forall>xs. b = Inr xs \<longrightarrow> (\<exists>ys. xs = (acc @ items pg) @ ys \<and> pagedListing mk items nxt t' new ys)"
      show "\<exists>new. trace w' = trace w @ new \<and> (\<forall>c\<in>set new. \<exists>t r. c = mk t r)
        \<and> (\<forall>xs. b = Inr xs \<longrightarrow> (\<exists>ys. xs = acc @ ys \<and> pagedListing mk items nxt t new ys))"
        by (rule exI [of _ "mk t ?r # new"])
          (use n r in \<open>auto intro!: pagedListing.morePages [where nxt = nxt and pg = pg and t' = t']\<close>)
    qed
    with r show ?thesis by (simp add: loop_Suc wp_simps)
  next
    case False
    have "wp (loop (Suc n) t acc) (\<lambda>r w'. trace w' = trace w @ [mk t ?r]
       \<and> (\<forall>xs. r = Inr xs \<longrightarrow> (\<exists>ys. xs = acc @ ys \<and> pagedListing mk items nxt t [mk t ?r] ys))) w"
      using False by (auto simp: loop_Suc wp_simps intro: pagedListing.lastPage split: sum.split option.split)
    then show ?thesis by (rule wp_conseq) auto
  qed
qed

lemma loop_complete:
  assumes "\<And>h t. ask h t = Inr (serve t)" "servesPages serve items nxt t n xs"
  shows "fst (run_state (loop budget t acc) w) = (if n \<le> budget then Inr (acc @ xs) else Inl deadlineExceeded)"
  using assms(2)
proof (induction arbitrary: budget acc w)
  case (servesLast t)
  then show ?case by (cases budget) (simp_all add: loop_0 loop_Suc assms(1) invoke_def)
next
  case (servesMore t t' n xs)
  then show ?case by (cases budget) (simp_all add: loop_0 loop_Suc assms(1) invoke_def)
qed

end

interpretation key_tag_pages: paging "listTagPages v k" "\<lambda>h m. ka_ListResourceTags (env_kms v) h k m"
    "\<lambda>m r. KMSCall (ListResourceTags k m r)" tp_Tags "\<lambda>pg. if tp_Truncated pg then Some (tp_NextMarker pg) else None" for v k
  by unfold_locales (auto simp: kms_ListResourceTags_def intro!: arg_cong [where f = "State_Monad.bind _"] split: sum.split)

end
