(* ===== verification/Dynamodb_Safety.thy ===== *)
theory Dynamodb_Safety
  imports Dynamodb Paging Gated_Deletion
begin

text \<open>
  What the DynamoDB package never does, whatever AWS answers: delete a table whose conditions for deletion do not
  hold, create an empty replacement for a table the ledger knows, or change the owner tags of a table whose tags it has not just read.
\<close>

section \<open>Footprints\<close>

lemma ddb_emits_op:
  "(\<And>r. C (DynamoDBCall (DescribeTable n r))) \<Longrightarrow> emits C (ddb_DescribeTable v n)"
  "(\<And>r. C (DynamoDBCall (CreateTable ci r))) \<Longrightarrow> emits C (ddb_CreateTable v ci)"
  "(\<And>r. C (DynamoDBCall (UpdateTable ui r))) \<Longrightarrow> emits C (ddb_UpdateTable v ui)"
  "(\<And>r. C (DynamoDBCall (DeleteTable n r))) \<Longrightarrow> emits C (ddb_DeleteTable v n)"
  "(\<And>r. C (DynamoDBCall (GetResourcePolicy a r))) \<Longrightarrow> emits C (ddb_GetResourcePolicy v a)"
  "(\<And>r. C (DynamoDBCall (PutResourcePolicy a d x r))) \<Longrightarrow> emits C (ddb_PutResourcePolicy v a d x)"
  "(\<And>r. C (DynamoDBCall (DeleteResourcePolicy a x r))) \<Longrightarrow> emits C (ddb_DeleteResourcePolicy v a x)"
  "(\<And>r. C (DynamoDBCall (ListTableTags a k r))) \<Longrightarrow> emits C (ddb_ListTagsOfResource v a k)"
  "(\<And>r. C (DynamoDBCall (TagTable a t r))) \<Longrightarrow> emits C (ddb_TagResource v a t)"
  "(\<And>r. C (DynamoDBCall (UntagTable a ks r))) \<Longrightarrow> emits C (ddb_UntagResource v a ks)"
  "(\<And>r. C (DynamoDBCall (DescribeContinuousBackups n r))) \<Longrightarrow> emits C (ddb_DescribeContinuousBackups v n)"
  "(\<And>r. C (DynamoDBCall (UpdateContinuousBackups n dd r))) \<Longrightarrow> emits C (ddb_UpdateContinuousBackups v n dd)"
  "(\<And>r. C (DynamoDBCall (ScanCount n r))) \<Longrightarrow> emits C (ddb_Scan v n)"
  by (simp_all add: op_defs emits_invoke)

lemmas ddb_rules = emits_intros ddb_emits_op

text \<open>Calls that neither write or remove owner tags nor create or delete a table.\<close>

definition calmTable :: "call \<Rightarrow> bool" where
  "calmTable c = (case c of DynamoDBCall q \<Rightarrow> (case q of TagTable _ _ _ \<Rightarrow> False | UntagTable _ ks _ \<Rightarrow> OwnerTagKey \<notin> set ks
     | DeleteTable _ _ \<Rightarrow> False | CreateTable _ _ \<Rightarrow> False | _ \<Rightarrow> True) | _ \<Rightarrow> True)"

lemma calmTable_simps [simp]:
  "calmTable (DynamoDBCall (DescribeTable n r0))" "calmTable (DynamoDBCall (UpdateTable u r1))"
  "calmTable (DynamoDBCall (GetResourcePolicy a r2))" "calmTable (DynamoDBCall (PutResourcePolicy a d x r3))"
  "calmTable (DynamoDBCall (DeleteResourcePolicy a x r4))" "calmTable (DynamoDBCall (ListTableTags a k r5))"
  "calmTable (DynamoDBCall (DescribeContinuousBackups n r6))" "calmTable (DynamoDBCall (UpdateContinuousBackups n m r7))"
  "calmTable (DynamoDBCall (ScanCount n r8))"
  "calmTable (DynamoDBCall (UntagTable a ks r9)) \<longleftrightarrow> OwnerTagKey \<notin> set ks"
  by (simp_all add: calmTable_def)

lemma keyCall_calmTable: "keyCall c \<Longrightarrow> calmTable c"
  by (cases c) (auto simp: calmTable_def)

lemma calmTable_key: "emits keyCall m \<Longrightarrow> emits calmTable m"
  by (erule emits_mono) (rule keyCall_calmTable)

lemma calmTable_policy_edits:
  "emits calmTable (addPendingDeletionDeny_ddb v a)" "emits calmTable (removePendingDeletionDeny_ddb v a)"
  unfolding addPendingDeletionDeny_ddb_def removePendingDeletionDeny_ddb_def readTablePolicy_def writeTablePolicy_def Let_def
  by (intro ddb_rules; simp)+

lemma calmTable_updateTables: "emits calmTable (updateTables v cs)"
proof (induction cs)
  case (Cons c cs)
  then show ?case unfolding updateTables.simps by (intro ddb_rules) simp_all
qed (simp add: emits_ret)

lemma calmTable_reconcileTableAttributes: "emits calmTable (reconcileTableAttributes v p n table opts)"
  unfolding reconcileTableAttributes_def reconcilePointInTimeRecovery_def Let_def
  by (intro ddb_rules calmTable_updateTables) simp_all

lemma calmTable_workable: "emits calmTable (checkTableWorkable p n table opts)" "emits calmTable (tableMissingError p e n)"
  unfolding checkTableWorkable_def tableStatusError_def tableKeyUnavailableError_def tableMissingError_def
  by (cases "td_TableStatus table"; simp; intro emits_intros) (intro emits_intros)

interpretation table_tag_pages: paging "tableTagPages v a" "\<lambda>h k. da_ListTagsOfResource (env_ddb v) h a k"
    "\<lambda>k r. DynamoDBCall (ListTableTags a k r)" fst "\<lambda>pg. map_option Some (snd pg)" for v a
  by unfold_locales (auto simp: ddb_ListTagsOfResource_def intro!: arg_cong [where f = "State_Monad.bind _"] split: sum.split option.split prod.split)

text \<open>The tags of a table, read to the last page.\<close>

abbreviation tableTagsRead :: "history \<Rightarrow> string \<Rightarrow> aws_tag list \<Rightarrow> bool" where
  "tableTagsRead pre a \<equiv> readsPages (\<lambda>k r. DynamoDBCall (ListTableTags a k r)) fst (\<lambda>pg. map_option Some (snd pg)) pre None"

lemma tableTagsRead_left: "tableTagsRead pre a ts \<Longrightarrow> tableTagsRead (x @ pre) a ts"
  by (erule readsPages_mono) simp

lemma tableTagsRead_right: "tableTagsRead pre a ts \<Longrightarrow> tableTagsRead (pre @ x) a ts"
  by (erule readsPages_mono) simp

lemma wp_listAllTags:
  "wp (listAllTags v p a) (\<lambda>r w'. \<exists>new. trace w' = trace w @ new \<and> (\<forall>c\<in>set new. calmTable c)
     \<and> (\<forall>tgs. r = Inr tgs \<longrightarrow> tableTagsRead new a tgs)) w"
  unfolding listAllTags_def
proof (rule wp_conseq [OF table_tag_pages.wp_loop], elim exE conjE)
  fix r :: "ext_error + aws_tag list" and w' :: world and new
  assume n: "trace w' = trace w @ new" "\<forall>c\<in>set new. \<exists>t r. c = DynamoDBCall (ListTableTags a t r)"
    "\<forall>xs. r = Inr xs \<longrightarrow> (\<exists>ys. xs = [] @ ys \<and> pagedListing (\<lambda>k r. DynamoDBCall (ListTableTags a k r)) fst (\<lambda>pg. map_option Some (snd pg)) None new ys)"
  show "\<exists>new. trace w' = trace w @ new \<and> (\<forall>c\<in>set new. calmTable c) \<and> (\<forall>tgs. r = Inr tgs \<longrightarrow> tableTagsRead new a tgs)"
    by (rule exI [of _ new]) (use n pagedListing_reads in fastforce)
qed

lemma calmTable_listAllTags: "emits calmTable (listAllTags v p a)"
  unfolding listAllTags_def by (rule table_tag_pages.emits_loop) simp

section \<open>Tags are read before they are changed\<close>

definition ddbGuard :: "pass \<Rightarrow> history \<Rightarrow> call \<Rightarrow> bool" where
  "ddbGuard p pre c \<longleftrightarrow> (case c of
     DynamoDBCall (UntagTable a ks r) \<Rightarrow> OwnerTagKey \<in> set ks \<longrightarrow> (\<exists>ts. tableTagsRead pre a ts \<and> owned_by_pass p (tagsToMap ts))
   | DynamoDBCall (TagTable a t r) \<Rightarrow> \<exists>ts. tableTagsRead pre a ts \<and> ours p (tagsToMap ts)
   | _ \<Rightarrow> True)"

lemma leftmono_ddbGuard: "leftmono (ddbGuard p)"
  unfolding leftmono_def ddbGuard_def by (auto split: call.split dynamodb_call.split dest: tableTagsRead_left)

definition tagCall :: "call \<Rightarrow> bool" where
  "tagCall c \<longleftrightarrow> (\<exists>a t r. c = DynamoDBCall (TagTable a t r)) \<or> (\<exists>a ks r. c = DynamoDBCall (UntagTable a ks r) \<and> OwnerTagKey \<in> set ks)"

lemma calmTable_noTag: "calmTable c \<Longrightarrow> \<not> tagCall c"
  by (auto simp: tagCall_def calmTable_def)

lemma noTag_simps [simp]:
  "\<not> tagCall (DynamoDBCall (CreateTable ci r0))" "\<not> tagCall (DynamoDBCall (DeleteTable n r))"
  by (simp_all add: tagCall_def)

lemma noTag_guard: "\<not> tagCall c \<Longrightarrow> ddbGuard p pre c"
  by (auto simp: tagCall_def ddbGuard_def split: call.splits dynamodb_call.splits)

lemma guards_noTag: "emits (\<lambda>c. \<not> tagCall c) m \<Longrightarrow> guards (ddbGuard p) m"
  by (erule guards_emits) (rule noTag_guard)

lemma noTag_calm: "emits calmTable m \<Longrightarrow> emits (\<lambda>c. \<not> tagCall c) m"
  by (erule emits_mono) (rule calmTable_noTag)

lemmas guards_calmTable = guards_noTag [OF noTag_calm]

text \<open>What may follow a reading of the tags of table \<open>a\<close>.\<close>

definition afterTableTags :: "pass \<Rightarrow> string \<Rightarrow> ext_error + aws_tag list \<Rightarrow> call \<Rightarrow> bool" where
  "afterTableTags p a res c \<longleftrightarrow> \<not> tagCall c \<or> (\<exists>ts. res = Inr ts \<and>
     (ours p (tagsToMap ts) \<and> (\<exists>t r. c = DynamoDBCall (TagTable a t r))
      \<or> owned_by_pass p (tagsToMap ts) \<and> (\<exists>ks r. c = DynamoDBCall (UntagTable a ks r))))"

lemma afterTableTags_simps [simp]:
  "\<not> tagCall c \<Longrightarrow> afterTableTags p a res c"
  "ours p (tagsToMap ts) \<Longrightarrow> afterTableTags p a (Inr ts) (DynamoDBCall (TagTable a t r))"
  "owned_by_pass p (tagsToMap ts) \<Longrightarrow> afterTableTags p a (Inr ts) (DynamoDBCall (UntagTable a ks r))"
  by (auto simp: afterTableTags_def)

lemma guards_listAllTags:
  assumes "\<And>res. emits (afterTableTags p a res) (f res)"
  shows "guards (ddbGuard p) (State_Monad.bind (listAllTags v p a) f)"
proof (rule guards_after [OF _ assms])
  fix w :: world
  show "wp (listAllTags v p a) (\<lambda>res w'. \<exists>new. trace w' = trace w @ new \<and> guardedTrace (ddbGuard p) new
      \<and> (\<forall>x c. afterTableTags p a res c \<longrightarrow> ddbGuard p (new @ x) c)) w"
  proof (rule wp_conseq [OF wp_listAllTags], elim exE conjE)
    fix res :: "ext_error + aws_tag list" and w' :: world and new
    assume n: "trace w' = trace w @ new" "\<forall>c\<in>set new. calmTable c" "\<forall>tgs. res = Inr tgs \<longrightarrow> tableTagsRead new a tgs"
    have "guardedTrace (ddbGuard p) new" using n(2) by (simp add: guardedTrace_def noTag_guard [OF calmTable_noTag])
    moreover have "ddbGuard p (new @ x) c" if "afterTableTags p a res c" for x c
    proof -
      have "tableTagsRead (new @ x) a ts" if "res = Inr ts" for ts
        using n(3) that by (simp add: tableTagsRead_right)
      with that show ?thesis unfolding afterTableTags_def by (auto intro: noTag_guard) (auto simp: ddbGuard_def)
    qed
    ultimately show "\<exists>new. trace w' = trace w @ new \<and> guardedTrace (ddbGuard p) new
      \<and> (\<forall>x c. afterTableTags p a res c \<longrightarrow> ddbGuard p (new @ x) c)" using n(1) by blast
  qed
qed

lemma afterTableTags_noTag: "emits (\<lambda>c. \<not> tagCall c) m \<Longrightarrow> emits (afterTableTags p a res) m"
  by (erule emits_mono) simp

lemma existing_ours_table: "CheckExistingOwnership p kind name tm adopt = Inr b \<Longrightarrow> ours p tm"
  by (auto simp: CheckExistingOwnership_def ours_def split: option.splits if_splits)

lemma afterTableTags_adoptTable:
  "res = Inr ts \<Longrightarrow> a = td_TableArn table \<Longrightarrow> emits (afterTableTags p a res) (adoptTable v p n opts table (tagsToMap ts))"
  unfolding adoptTable_def
  by (intro ddb_rules afterTableTags_noTag [OF noTag_calm [OF calmTable_key [OF keyCall_AdoptedKeyCheck]]])
    (simp_all add: existing_ours_table owner_not_released tagCall_def)

lemma guards_ensureTableVerified: "guards (ddbGuard p) (ensureTableVerified v p n rn table before opts l)"
  unfolding ensureTableVerified_def
  by (rule guards_listAllTags, rule emits_sum)
    (intro ddb_rules afterTableTags_adoptTable afterTableTags_noTag [OF noTag_calm [OF calmTable_reconcileTableAttributes]] refl)+

lemmas ddb_guard_rules = guards_intros guards_bind [OF leftmono_ddbGuard]

lemma noTag_createTable: "emits (\<lambda>c. \<not> tagCall c) (createTable v p n rn opts l)"
  unfolding createTable_def by (intro ddb_rules) simp

lemma noTag_describe: "emits (\<lambda>c. \<not> tagCall c) (ddb_DescribeTable v n)"
  by (intro ddb_rules) (simp add: tagCall_def)

lemma guards_ensureTable: "guards (ddbGuard p) (ensureTable v p rn opts l)"
  unfolding ensureTable_def ensureExistingTable_def Let_def
  by (intro ddb_guard_rules guards_ensureTableVerified guards_noTag [OF noTag_createTable] guards_noTag [OF noTag_describe]
      guards_calmTable [OF calmTable_workable(1)] guards_calmTable [OF calmTable_workable(2)]
      guards_calmTable [OF calmTable_reconcileTableAttributes])

lemma guards_Ensure_ddb: "guards (ddbGuard p) (Ensure_ddb v p spec l)"
proof -
  have "guards (ddbGuard p) (ensureTables v p ts l e)" for ts l e
  proof (induction ts arbitrary: l e)
    case (Cons x ts)
    show ?case unfolding ensureTables.simps
      by (intro ddb_guard_rules guards_ensureTable Cons.IH guards_calmTable [OF calmTable_key [OF keyCall_resolveEncryptionKey]])
  qed (simp add: guards_ret)
  then show ?thesis unfolding Ensure_ddb_def by (intro ddb_guard_rules)
qed

lemma guards_relinquish_ddb: "guards (ddbGuard p) (relinquishIfStillTagged_ddb v p entry)"
  unfolding relinquishIfStillTagged_ddb_def by (rule guards_listAllTags, intro ddb_rules) (simp_all add: owned_ours)

lemma guards_retain_ddb: "guards (ddbGuard p) (retain_ddb v p entry l res)"
  unfolding retain_ddb_def Let_def
  by (intro ddb_guard_rules guards_calmTable [OF calmTable_policy_edits(2)] guards_relinquish_ddb guards_noTag emits_recordEvent)

section \<open>The conditions of a deletion\<close>

text \<open>The handle of a table is the name in its ARN, if that can be read.\<close>

definition deletesTable :: "go_error + string \<Rightarrow> call \<Rightarrow> bool" where
  "deletesTable h c \<longleftrightarrow> (\<exists>n r. h = Inr n \<and> c = DynamoDBCall (DeleteTable n r))"

definition tableSeenOwned :: "pass \<Rightarrow> ManagedResource \<Rightarrow> history \<Rightarrow> go_error + string \<Rightarrow> bool" where
  "tableSeenOwned p entry pre h \<longleftrightarrow> h = tableNameFromARN (mr_ARN entry)
     \<and> (\<exists>ts. tableTagsRead pre (mr_ARN entry) ts \<and> owned_by_pass p (tagsToMap ts))"

definition tableSeenEmpty :: "history \<Rightarrow> go_error + string \<Rightarrow> bool" where
  "tableSeenEmpty pre h \<longleftrightarrow> (\<exists>n. h = Inr n \<and> DynamoDBCall (ScanCount n (Inr 0)) \<in> set pre)"

abbreviation tableDeletionGuard :: "pass \<Rightarrow> (string \<Rightarrow> bool) \<Rightarrow> bool \<Rightarrow> ledger \<Rightarrow> history \<Rightarrow> call \<Rightarrow> bool" where
  "tableDeletionGuard p \<equiv> deletionGuard deletesTable (tableSeenOwned p) tableSeenEmpty typeDynamoDB p"

definition keepsTables :: "call \<Rightarrow> bool" where
  "keepsTables c \<longleftrightarrow> (\<forall>h. \<not> deletesTable h c)"

lemma calmTable_keeps: "calmTable c \<Longrightarrow> keepsTables c"
  by (auto simp: keepsTables_def deletesTable_def calmTable_def)

lemma keepsTables_simps [simp]:
  "keepsTables (DynamoDBCall (TagTable a t r))" "keepsTables (DynamoDBCall (UntagTable a ks r))" "keepsTables (DynamoDBCall (CreateTable ci r1))"
  by (simp_all add: keepsTables_def deletesTable_def)

lemma keepsTables_calm: "emits calmTable m \<Longrightarrow> emits keepsTables m"
  by (erule emits_mono) (rule calmTable_keeps)

lemma wp_gateOnEmpty_ddb:
  "wp (gateOnEmpty_ddb v p e l res) (\<lambda>(l1, res1, proceed, err) w'. \<exists>new. trace w' = trace w @ new \<and> (\<forall>c\<in>set new. keepsTables c)
     \<and> (proceed \<longrightarrow> mr_PendingDeletionSince e \<noteq> None \<and> tableSeenEmpty new (tableNameFromARN (mr_ARN e)))) w"
proof (cases "mr_PendingDeletionSince e = None")
  case True
  have "wp (addPendingDeletionDeny_ddb v (mr_ARN e)) (\<lambda>_ w'. \<exists>new. trace w' = trace w @ new \<and> (\<forall>c\<in>set new. keepsTables c)) w"
    by (rule wp_emits [OF keepsTables_calm [OF calmTable_policy_edits(1)]])
  then show ?thesis
    unfolding gateOnEmpty_ddb_def if_P [OF True] wp_bind
    by (rule wp_conseq) (auto simp: wp_simps split: option.split prod.split)
next
  case False
  have "wp (tableIsEmpty v (mr_ARN e)) (\<lambda>r w'. \<exists>new. trace w' = trace w @ new \<and> (\<forall>c\<in>set new. keepsTables c)
     \<and> (r = Inr True \<longrightarrow> tableSeenEmpty new (tableNameFromARN (mr_ARN e)))) w"
    unfolding tableIsEmpty_def
    by (auto simp: wp_simps ddb_Scan_def tableSeenEmpty_def map_sum_def calmTable_keeps split: sum.split intro!: exI)
  then show ?thesis
    unfolding gateOnEmpty_ddb_def if_not_P [OF False] wp_bind
    by (rule wp_conseq) (use False in \<open>auto simp: wp_simps split: sum.split prod.split\<close>)
qed

lemma keepsTables_retain: "emits keepsTables (retain_ddb v p entry l res)"
  unfolding retain_ddb_def relinquishIfStillTagged_ddb_def Let_def
  by (intro ddb_rules keepsTables_calm [OF calmTable_policy_edits(2)] keepsTables_calm [OF calmTable_listAllTags]) (simp_all add: calmTable_keeps)

lemma keepsTables_restore: "emits keepsTables (restoreDeclared_ddb v p entry l)"
  unfolding restoreDeclared_ddb_def by (intro ddb_rules keepsTables_calm [OF calmTable_policy_edits(2)])

lemma keepsTables_ensureTable: "emits keepsTables (ensureTable v p rn opts l)"
  unfolding ensureTable_def ensureExistingTable_def ensureTableVerified_def adoptTable_def createTable_def Let_def
  by (intro ddb_rules keepsTables_calm [OF calmTable_listAllTags] keepsTables_calm [OF calmTable_reconcileTableAttributes]
      keepsTables_calm [OF calmTable_workable(1)] keepsTables_calm [OF calmTable_workable(2)]
      keepsTables_calm [OF calmTable_key [OF keyCall_AdoptedKeyCheck]]) (simp_all add: calmTable_keeps)

lemma keepsTables_Ensure: "emits keepsTables (Ensure_ddb v p spec l)"
proof -
  have "emits keepsTables (ensureTables v p ts l e)" for ts l e
  proof (induction ts arbitrary: l e)
    case (Cons x ts)
    show ?case unfolding ensureTables.simps
      by (intro emits_intros keepsTables_ensureTable Cons.IH keepsTables_calm [OF calmTable_key [OF keyCall_resolveEncryptionKey]])
  qed (simp add: emits_ret)
  then show ?thesis unfolding Ensure_ddb_def by (intro emits_intros)
qed

definition verifyTable :: "env \<Rightarrow> pass \<Rightarrow> ManagedResource \<Rightarrow> (go_error + (go_error + string) option) op" where
  "verifyTable v p entry = do {
     r \<leftarrow> verifyOwned_ddb v p entry;
     ret (map_sum id (\<lambda>gone. if gone then None else Some (tableNameFromARN (mr_ARN entry))) r)
   }"

lemma deleteUndeclared_ddb_gated:
  "deleteUndeclared_ddb v p = gatedDelete (waitsQuietly_ddb p) (pendingDeletionReason_ddb p) (verifyTable v p)
     (\<lambda>e h. gateOnEmpty_ddb v p e) (\<lambda>e h. deleteTable v p e) typeDynamoDB"
proof (intro ext)
  fix f e l res
  have *: "State_Monad.bind (verifyTable v p e) g
      = State_Monad.bind (verifyOwned_ddb v p e) (\<lambda>r. g (map_sum id (\<lambda>gone. if gone then None else Some (tableNameFromARN (mr_ARN e))) r))" for g :: "_ \<Rightarrow> 'x op"
    by (simp add: verifyTable_def)
  show "deleteUndeclared_ddb v p f e l res = gatedDelete (waitsQuietly_ddb p) (pendingDeletionReason_ddb p) (verifyTable v p)
     (\<lambda>e h. gateOnEmpty_ddb v p e) (\<lambda>e h. deleteTable v p e) typeDynamoDB f e l res"
    unfolding deleteUndeclared_ddb_def gatedDelete_def Let_def *
    by (intro if_cong refl arg_cong [where f = "State_Monad.bind _"] ext) (auto split: sum.split)
qed

lemma cleanupTables_loop:
  "cleanupTables v p declared force es acc =
     cleanupLoop typeDynamoDB declared (restoreDeclared_ddb v p) (retain_ddb v p) (deleteUndeclared_ddb v p force) es acc"
  by (induction es arbitrary: acc) (simp_all split: prod.split)

lemma deleteTable_name: "h = tableNameFromARN (mr_ARN e) \<Longrightarrow> emits (\<lambda>c. \<forall>h'. deletesTable h' c \<longrightarrow> h' = h) (deleteTable v p e l)"
  unfolding deleteTable_def releaseDeletionProtection_def Let_def
  by (intro ddb_rules) (auto simp: deletesTable_def)

interpretation tables: gated_deletion deletesTable "tableSeenOwned p" tableSeenEmpty "\<lambda>e h. h = tableNameFromARN (mr_ARN e)" typeDynamoDB p
    "waitsQuietly_ddb p" "pendingDeletionReason_ddb p" "verifyTable v p" "\<lambda>e h. gateOnEmpty_ddb v p e" "\<lambda>e h. deleteTable v p e"
    "restoreDeclared_ddb v p" "retain_ddb v p" for v p
proof
  fix e h l and res :: "table_result list" and w :: world
  show "wp (verifyTable v p e) (\<lambda>r w'. \<exists>new. trace w' = trace w @ new \<and> (\<forall>c\<in>set new. \<forall>h. \<not> deletesTable h c)
      \<and> (\<forall>h. r = Inr (Some h) \<longrightarrow> h = tableNameFromARN (mr_ARN e) \<and> tableSeenOwned p e new h)) w"
    unfolding verifyTable_def verifyOwned_ddb_def bind_assoc wp_bind [of "listAllTags v p (mr_ARN e)"]
  proof (rule wp_conseq [OF wp_listAllTags], elim exE conjE)
    fix r :: "ext_error + aws_tag list" and w' :: world and new
    assume "trace w' = trace w @ new" "\<forall>c\<in>set new. calmTable c" "\<forall>tgs. r = Inr tgs \<longrightarrow> tableTagsRead new (mr_ARN e) tgs"
    then show "wp (do { a \<leftarrow> (case r of Inl err \<Rightarrow>
              if isException ''ResourceNotFoundException'' err then ret (Inr True)
              else ret (Inl (wrapAWSError (ExtError err) ''re-verifying ownership of table before delete''))
            | Inr tgs \<Rightarrow> if \<not> owned_by_pass p (tagsToMap tgs) then ret (Inl (OwnershipLostError ''table'' (mr_Name e) ''delete it''))
              else ret (Inr False));
          ret (map_sum id (\<lambda>gone. if gone then None else Some (tableNameFromARN (mr_ARN e))) a) })
        (\<lambda>r w'. \<exists>new. trace w' = trace w @ new \<and> (\<forall>c\<in>set new. \<forall>h. \<not> deletesTable h c)
          \<and> (\<forall>h. r = Inr (Some h) \<longrightarrow> h = tableNameFromARN (mr_ARN e) \<and> tableSeenOwned p e new h)) w'"
      by (auto simp: wp_simps tableSeenOwned_def calmTable_keeps [unfolded keepsTables_def] split: sum.split)
  qed
  show "wp (gateOnEmpty_ddb v p e l res) (\<lambda>(l1, res1, proceed, err) w'. \<exists>new. trace w' = trace w @ new
      \<and> (\<forall>c\<in>set new. \<forall>h. \<not> deletesTable h c) \<and> (proceed \<longrightarrow> mr_PendingDeletionSince e \<noteq> None \<and> tableSeenEmpty new h)) w"
    if "h = tableNameFromARN (mr_ARN e)"
    using wp_gateOnEmpty_ddb [of v p e l res w] that by (simp add: keepsTables_def)
  show "emits (\<lambda>c. \<forall>h'. deletesTable h' c \<longrightarrow> h' = h) (deleteTable v p e l)" if "h = tableNameFromARN (mr_ARN e)"
    by (rule deleteTable_name [OF that])
  show "emits (\<lambda>c. \<forall>h. \<not> deletesTable h c) (restoreDeclared_ddb v p e l)"
    using keepsTables_restore by (simp add: keepsTables_def [abs_def])
  show "emits (\<lambda>c. \<forall>h. \<not> deletesTable h c) (retain_ddb v p e l res)"
    using keepsTables_retain by (simp add: keepsTables_def [abs_def])
qed (auto simp: tableSeenOwned_def tableSeenEmpty_def waitsQuietly_ddb_def quietlyPending_def deletionQuietWindow_ddb_def not_less
      elim: readsPages_mono)

lemma guards_cleanup_table_tags: "guards (ddbGuard p) (cleanupTables v p declared force es acc)"
proof (induction es arbitrary: acc)
  case (Cons entry es)
  have "emits (\<lambda>c. \<not> tagCall c) (deleteUndeclared_ddb v p force entry l res)" for l res
    unfolding deleteUndeclared_ddb_def verifyOwned_ddb_def gateOnEmpty_ddb_def tableIsEmpty_def deleteTable_def releaseDeletionProtection_def Let_def
    by (intro ddb_rules noTag_calm [OF calmTable_policy_edits(1)] noTag_calm [OF calmTable_listAllTags]) (simp_all add: tagCall_def)
  moreover have "emits (\<lambda>c. \<not> tagCall c) (restoreDeclared_ddb v p entry l)" for l
    unfolding restoreDeclared_ddb_def by (intro ddb_rules noTag_calm [OF calmTable_policy_edits(2)])
  ultimately show ?case
    unfolding cleanupTables.simps by (intro ddb_guard_rules Cons.IH guards_retain_ddb guards_noTag)
qed (simp add: guards_ret)

section \<open>A table is never replaced\<close>

definition liveTable :: "ledger \<Rightarrow> string \<Rightarrow> bool" where
  "liveTable l n \<longleftrightarrow> (\<exists>e. FindManagedResource l typeDynamoDB n = Some e \<and> mr_State e \<noteq> StateRelinquished)"

definition tableOutcome :: "string \<Rightarrow> ledger \<Rightarrow> ledger \<times> go_error option \<Rightarrow> bool" where
  "tableOutcome n l res = (case res of (l', err) \<Rightarrow> changesOnly {(typeDynamoDB, n)} l l' \<and> (liveTable l n \<longrightarrow> liveTable l' n)
     \<and> (err = None \<longrightarrow> liveTable l' n))"

lemma tableOutcome_error [simp]: "tableOutcome n l (l, Some e)"
  by (simp add: tableOutcome_def)

lemma tableOutcome_Upsert:
  "mr_key e = (typeDynamoDB, n) \<Longrightarrow> mr_State e \<noteq> StateRelinquished \<Longrightarrow> tableOutcome n l (UpsertManagedResource l e, err)"
  by (auto simp: tableOutcome_def liveTable_def Find_Upsert intro: changesOnly_Upsert)

lemma returns_ensureTableVerified: "returns (tableOutcome n l) (ensureTableVerified v p tn n table before opts l)"
  unfolding ensureTableVerified_def recordVerified_ddb_def
  by (intro returns_intros) (auto intro: tableOutcome_Upsert)

lemma returns_createTable: "returns (tableOutcome n l) (createTable v p tn n opts l)"
  unfolding createTable_def by (intro returns_intros) (auto intro: tableOutcome_Upsert)

lemma returns_ensureTable: "returns (tableOutcome n l) (ensureTable v p n opts l)"
proof -
  have trusted: "tableOutcome n l (UpsertManagedResource l (b\<lparr>mr_DeletionPolicy := pol, mr_Force := f\<rparr>), err)"
    if "FindManagedResource l typeDynamoDB n = Some b" "\<not> NeedsRevalidation (ps_now p) b" for b pol f err
    by (rule tableOutcome_Upsert) (use that Find_key [OF that(1)] in \<open>auto simp: NeedsRevalidation_def split: if_splits\<close>)
  show ?thesis
    unfolding ensureTable_def ensureExistingTable_def Let_def
    by (intro returns_intros returns_ensureTableVerified returns_createTable) (auto intro: trusted)
qed

text \<open>A creation is for a declared table that the ledger does not hold, after AWS said there is none.\<close>

definition createsGuard :: "pass \<Rightarrow> DynamoDBTableSpec list \<Rightarrow> ledger \<Rightarrow> history \<Rightarrow> call \<Rightarrow> bool" where
  "createsGuard p ts l pre c \<longleftrightarrow> (\<forall>ci r. c = DynamoDBCall (CreateTable ci r) \<longrightarrow>
     (\<exists>t\<in>set ts. ct_TableName ci = tableNameOf p (tb_Name t) \<and> \<not> liveTable l (tb_Name t) \<and> ct_Tags ci = ownerTags p
        \<and> ct_DeletionProtectionEnabled ci = (tb_DeletionProtection t \<noteq> Some False)
        \<and> (\<exists>e. DynamoDBCall (DescribeTable (ct_TableName ci) (Inl e)) \<in> set pre \<and> isException ''ResourceNotFoundException'' e)))"

lemma leftmono_createsGuard: "leftmono (createsGuard p ts l)"
  unfolding leftmono_def createsGuard_def by fastforce

lemma calmTable_noCreate: "calmTable c \<Longrightarrow> createsGuard p ts l pre c"
  by (auto simp: createsGuard_def calmTable_def)

lemma guards_noCreate: "emits calmTable m \<Longrightarrow> guards (createsGuard p ts l) m"
  by (erule guards_emits) (rule calmTable_noCreate)

lemma guards_ensureTable_creates:
  assumes "t \<in> set ts" "liveTable l (tb_Name t) \<longrightarrow> liveTable l1 (tb_Name t)"
  shows "guards (createsGuard p ts l) (ensureTable v p (tb_Name t) (optionsOf t key) l1)"
proof -
  let ?n = "tableNameOf p (tb_Name t)" and ?D = "\<lambda>r. DynamoDBCall (DescribeTable (tableNameOf p (tb_Name t)) r)"
  let ?C = "\<lambda>r c. calmTable c \<or> (\<exists>tg k x. c = DynamoDBCall (TagTable tg k x))
     \<or> (\<not> liveTable l1 (tb_Name t) \<and> (\<exists>x e. c = DynamoDBCall (CreateTable (createTableInput p ?n (optionsOf t key)) x)
          \<and> r = Inl e \<and> isException ''ResourceNotFoundException'' e))"
  have calm: "emits (?C r) m" if "emits calmTable m" for r m
    by (rule emits_mono [OF that]) simp
  have verified: "emits (?C r) (ensureTableVerified v p tn n table before opts l1)" for r tn n table before opts
    unfolding ensureTableVerified_def adoptTable_def
    by (intro ddb_rules calm [OF calmTable_listAllTags] calm [OF calmTable_reconcileTableAttributes]
        calm [OF calmTable_key [OF keyCall_AdoptedKeyCheck]]) (auto simp: owner_not_released)
  show ?thesis
    unfolding ensureTable_def Let_def ddb_DescribeTable_def
  proof (rule guards_after_invoke [where C = ?C])
    show "createsGuard p ts l (?D r # x) c" if "?C r c" for r x c
      using that
    proof (elim disjE exE conjE)
      fix xa e assume "c = DynamoDBCall (CreateTable (createTableInput p ?n (optionsOf t key)) xa)" "r = Inl e"
        "isException ''ResourceNotFoundException'' e" "\<not> liveTable l1 (tb_Name t)"
      moreover have "(y = None \<or> y = Some True) = (y \<noteq> Some False)" for y :: "bool option" by (cases y) auto
      ultimately show "createsGuard p ts l (?D r # x) c"
        unfolding createsGuard_def using assms
        by (intro allI impI bexI [of _ t]) (auto simp: createTableInput_def optionsOf_def)
    qed (simp_all add: calmTable_noCreate, simp add: createsGuard_def)
    have existing: "emits (?C r) (ensureExistingTable v p ?n (tb_Name t) table (optionsOf t key) l1)" for r table
      unfolding ensureExistingTable_def Let_def
      by (intro ddb_rules verified calm [OF calmTable_reconcileTableAttributes])
    show "emits (?C r) (case r of
        Inl err \<Rightarrow> if isException ''ResourceNotFoundException'' err
          then (case FindManagedResource l1 typeDynamoDB (tb_Name t) of
                  None \<Rightarrow> createTable v p ?n (tb_Name t) (optionsOf t key) l1
                | Some entry \<Rightarrow> if mr_State entry \<noteq> StateRelinquished
                    then do { e \<leftarrow> tableMissingError p entry ?n; ret (l1, Some e) }
                    else createTable v p ?n (tb_Name t) (optionsOf t key) l1)
          else ret (l1, Some (wrapAWSError (ExtError err) ''looking up table''))
      | Inr table \<Rightarrow> do { wErr \<leftarrow> checkTableWorkable p ?n table (optionsOf t key);
          case wErr of Some e \<Rightarrow> ret (l1, Some e) | None \<Rightarrow> ensureExistingTable v p ?n (tb_Name t) table (optionsOf t key) l1 })" for r
      unfolding createTable_def
      by (intro ddb_rules existing calm [OF calmTable_workable(1)] calm [OF calmTable_workable(2)]) (auto simp: liveTable_def)
  qed (simp add: calmTable_noCreate)
qed

lemma live_changes: "changesOnly K l l' \<Longrightarrow> (typeDynamoDB, n) \<notin> K \<Longrightarrow> liveTable l' n \<longleftrightarrow> liveTable l n"
  by (simp add: liveTable_def changesOnly_def)

lemma guards_ensureTables_creates:
  assumes "set ts \<subseteq> set ts0" "\<forall>n. liveTable l n \<longrightarrow> liveTable l1 n"
  shows "guards (createsGuard p ts0 l) (ensureTables v p ts l1 e)"
  using assms
proof (induction ts arbitrary: l1 e)
  case (Cons t ts)
  have keep: "\<forall>n. liveTable l n \<longrightarrow> liveTable l2 n" if "changesOnly {(TypeKMS, m)} l1 l2" for m l2
    using Cons.prems live_changes [OF that] by (auto simp: type_names)
  have keep2: "\<forall>n. liveTable l n \<longrightarrow> liveTable l3 n" if "\<forall>n. liveTable l n \<longrightarrow> liveTable l2 n" "tableOutcome (tb_Name t) l2 (l3, err)" for l2 l3 err
  proof (intro allI impI)
    fix n assume "liveTable l n"
    then have "liveTable l2 n" using that(1) by blast
    with that(2) show "liveTable l3 n"
      by (cases "n = tb_Name t") (auto simp: tableOutcome_def dest: live_changes [where n = n])
  qed
  show ?case
    unfolding ensureTables.simps
  proof (rule guards_bind_returns, rule leftmono_createsGuard, rule guards_noCreate [OF calmTable_key [OF keyCall_resolveEncryptionKey]],
        rule returns_resolveEncryptionKey, rule guards_prod)
    fix res :: "ledger \<times> (go_error + string option)" and l2 keyRes
    assume "case res of (l', res) \<Rightarrow> changesOnly {(TypeKMS, DedicatedKeyLedgerName typeDynamoDB (tb_Name t))} l1 l'" "res = (l2, keyRes)"
    then have l2: "\<forall>n. liveTable l n \<longrightarrow> liveTable l2 n" using keep by auto
    have IH: "guards (createsGuard p ts0 l) (ensureTables v p ts l3 e')" if "\<forall>n. liveTable l n \<longrightarrow> liveTable l3 n" for l3 e'
      by (rule Cons.IH) (use Cons.prems that in auto)
    show "guards (createsGuard p ts0 l) (case keyRes of
         Inl er \<Rightarrow> ensureTables v p ts l2 (firstError e (Some er))
       | Inr key \<Rightarrow> do {
           (l3, err) \<leftarrow> ensureTable v p (tb_Name t) (optionsOf t key) l2;
           ensureTables v p ts l3 (firstError e (map_option (wrapf ''table'' [tb_Name t]) err))
         })"
      by (intro guards_sum guards_bind_returns [OF leftmono_createsGuard guards_ensureTable_creates returns_ensureTable] guards_prod IH l2)
        (use Cons.prems l2 keep2 [OF l2] in auto)
  qed
qed (simp add: guards_ret)

section \<open>Properties\<close>

text \<open>C17: When a table may be created or deleted, and whose tags are changed. Ensuring declared tables never deletes one, and
  creates one only for a declared table that the ledger does not hold (or has let go of) and that AWS has just said does not
  exist, with the owner tags and deletion protection unless the spec turns it off: a table that disappeared is never replaced by
  an empty one. Cleaning up deletes a table only for an undeclared entry of policy Delete whose tags, read to the last page
  in the same run, show this custom resource as the owner, and, unless deletion is forced, after the ten minutes of the quiet window
  and a consistent scan that counted no item. In both, owner tags are written or removed only after such a reading.\<close>

theorem table_deletion_conditions:
  "emits keepsTables (Ensure_ddb v p spec l)
   \<and> guards (createsGuard p (case spec of None \<Rightarrow> [] | Some s \<Rightarrow> ddb_Resources s) l) (Ensure_ddb v p spec l)
   \<and> guards (tableDeletionGuard p (declaredTableNames spec deleting) forceDeleteAll l) (Cleanup_ddb v p spec l deleting forceDeleteAll)
   \<and> guards (ddbGuard p) (Ensure_ddb v p spec l) \<and> guards (ddbGuard p) (Cleanup_ddb v p spec l deleting forceDeleteAll)"
proof (intro conjI)
  show "guards (createsGuard p (case spec of None \<Rightarrow> [] | Some s \<Rightarrow> ddb_Resources s) l) (Ensure_ddb v p spec l)"
    unfolding Ensure_ddb_def by (cases spec) (simp_all add: guards_ret guards_ensureTables_creates)
  show "guards (tableDeletionGuard p (declaredTableNames spec deleting) forceDeleteAll l) (Cleanup_ddb v p spec l deleting forceDeleteAll)"
    unfolding Cleanup_ddb_def cleanupTables_loop deleteUndeclared_ddb_gated by (rule tables.guards_cleanupLoop) simp
  show "guards (ddbGuard p) (Cleanup_ddb v p spec l deleting forceDeleteAll)"
    unfolding Cleanup_ddb_def by (rule guards_cleanup_table_tags)
qed (rule keepsTables_Ensure guards_Ensure_ddb)+

section \<open>Settings\<close>

text \<open>What AWS makes of an update: the settings it names change, the others stay.\<close>

definition applyUpdate :: "UpdateTableInput \<Rightarrow> TableDescription \<Rightarrow> TableDescription" where
  "applyUpdate u d = d\<lparr>
     td_BillingModeSummary := (case ut_BillingMode u of None \<Rightarrow> td_BillingModeSummary d | Some m \<Rightarrow> Some m),
     td_DeletionProtectionEnabled := (case ut_DeletionProtectionEnabled u of None \<Rightarrow> td_DeletionProtectionEnabled d | Some b \<Rightarrow> Some b),
     td_SSEDescription := (case ut_SSESpecification u of None \<Rightarrow> td_SSEDescription d | Some k \<Rightarrow> Some (Some k))\<rparr>"

text \<open>Backups are extended or turned on, never cut short: the answer just read shows less than what is written.\<close>

definition backupGuard :: "string \<Rightarrow> tableOptions \<Rightarrow> history \<Rightarrow> call \<Rightarrow> bool" where
  "backupGuard n opts pre c \<longleftrightarrow> (\<forall>m d r. c = DynamoDBCall (UpdateContinuousBackups m d r) \<longrightarrow> to_backupEnabled opts
     \<and> (\<exists>x. DynamoDBCall (DescribeContinuousBackups m (Inr x)) \<in> set pre
          \<and> (\<forall>b k. x = Some b \<and> pr_Enabled b \<and> pr_RecoveryPeriodInDays b = Some k \<longrightarrow> k < d)))"

lemma guards_backup: "guards (backupGuard n opts) (reconcilePointInTimeRecovery v p tn arn opts)"
proof -
  let ?C = "\<lambda>r c. backupGuard n opts [DynamoDBCall (DescribeContinuousBackups tn r)] c"
  have "emits (?C r) (case r of
          Inl err \<Rightarrow> ret (Some (wrapf ''reading point-in-time recovery status'' [] (ExtError err)))
        | Inr pitrDesc \<Rightarrow>
            (let currentlyEnabled = (case pitrDesc of None \<Rightarrow> False | Some d \<Rightarrow> pr_Enabled d);
                 desiredRetentionDays = (case to_retentionDays opts of None \<Rightarrow> defaultPITRRetentionDays | Some d \<Rightarrow> d)
             in if \<not> to_backupEnabled opts
                then do { (if currentlyEnabled then recordEvent p ''Warning'' ''BackupsLeftEnabled'' [arn] else ret ()); ret None }
                else if currentlyEnabled \<and> (case pr_RecoveryPeriodInDays (the pitrDesc) of None \<Rightarrow> False | Some d \<Rightarrow> d \<ge> desiredRetentionDays)
                then ret None
                else do {
                  u \<leftarrow> ddb_UpdateContinuousBackups v tn desiredRetentionDays;
                  case u of Inl err \<Rightarrow> ret (Some (wrapf ''correcting point-in-time recovery'' [] (ExtError err))) | Inr _ \<Rightarrow> ret None
                }))" for r
    unfolding Let_def by (intro ddb_rules) (auto simp: backupGuard_def split: option.splits)
  moreover have "backupGuard n opts (y # x) c" if "backupGuard n opts [y] c" for y x c
    using that by (fastforce simp: backupGuard_def)
  ultimately show ?thesis
    unfolding reconcilePointInTimeRecovery_def ddb_DescribeContinuousBackups_def
    by (intro guards_if guards_ret guards_after_invoke [where C = ?C]) (auto simp: backupGuard_def)
qed

text \<open>Correcting a table converges and weakens nothing. Applying the corrections that the code derives from a
  table's description yields a description that needs none. They touch deletion protection only when the spec sets it, the encryption
  key only when the spec asks for one, and, for a table that passed the check of its billing mode, they never set the placeholder capacity. A
  write of the backup window happens only when backups are asked for and the window just read is off or shorter.\<close>

theorem table_settings_converge:
  fixes opts :: tableOptions
  assumes "checkBillingModeSwitch n d opts = None" "td_BillingModeSummary d \<in> {None, Some BillingModeProvisioned, Some BillingModePayPerRequest}"
  defines "d' \<equiv> fold applyUpdate (map fst (tableCorrections n d opts)) d"
  shows "tableCorrections n d' opts = []
    \<and> (to_deletionProtection opts = None \<longrightarrow> td_DeletionProtectionEnabled d' = td_DeletionProtectionEnabled d)
    \<and> (to_kmsKeyARN opts = None \<longrightarrow> td_SSEDescription d' = td_SSEDescription d)
    \<and> (\<forall>u\<in>set (map fst (tableCorrections n d opts)). ut_ProvisionedThroughput u = None \<and> ut_TableName u = n)
    \<and> guards (backupGuard n opts) (reconcilePointInTimeRecovery v p n (td_TableArn d) opts)"
proof (intro conjI)
  show "tableCorrections n d' opts = []"
    by (auto simp: d'_def tableCorrections_def applyUpdate_def noUpdate_def currentKeyOf_def Let_def split: option.splits)
  show "\<forall>u\<in>set (map fst (tableCorrections n d opts)). ut_ProvisionedThroughput u = None \<and> ut_TableName u = n"
    using assms(1,2) by (auto simp: tableCorrections_def noUpdate_def placeholderCapacity_def checkBillingModeSwitch_def billingModeFor_def
        Let_def split: option.splits if_splits)
qed (auto simp: d'_def tableCorrections_def applyUpdate_def noUpdate_def Let_def guards_backup split: option.splits)

definition demoTable :: TableDescription where
  "demoTable = \<lparr>td_TableArn = ''arn:aws:dynamodb:eu-west-1:1:table/orders'', td_TableStatus = TableStatusActive,
     td_KeySchema = [(Some ''id'', KeyTypeHash)], td_BillingModeSummary = None, td_DeletionProtectionEnabled = Some True, td_SSEDescription = None\<rparr>"

definition demoOptions :: tableOptions where
  "demoOptions = \<lparr>to_deletionPolicy = DeletionPolicyDelete, to_force = False, to_adopt = False, to_partitionKey = ''id'', to_sortKey = [],
     to_backupEnabled = True, to_backupOff = False, to_retentionDays = None, to_billingMode = BillingModeUnset,
     to_kmsKeyARN = Some ''arn:key'', to_deletionProtection = None\<rparr>"

theorem table_settings_converge_witness:
  "tableCorrections ''orders'' (fold applyUpdate (map fst (tableCorrections ''orders'' demoTable demoOptions)) demoTable) demoOptions = []
   \<and> length (tableCorrections ''orders'' demoTable demoOptions) = 2"
proof -
  have "checkBillingModeSwitch ''orders'' demoTable demoOptions = None"
    by (simp add: checkBillingModeSwitch_def demoOptions_def billingModeFor_def)
  moreover have "td_BillingModeSummary demoTable \<in> {None, Some BillingModeProvisioned, Some BillingModePayPerRequest}"
    by (simp add: demoTable_def)
  ultimately have "tableCorrections ''orders'' (fold applyUpdate (map fst (tableCorrections ''orders'' demoTable demoOptions)) demoTable) demoOptions = []"
    using table_settings_converge [of "''orders''" demoTable demoOptions refusingEnv demoPass] by blast
  moreover have "length (tableCorrections ''orders'' demoTable demoOptions) = 2"
    by (simp add: tableCorrections_def demoTable_def demoOptions_def billingModeFor_def currentKeyOf_def Let_def)
  ultimately show ?thesis by blast
qed

end
