(* ===== verification/S3.thy ===== *)
theory S3
  imports Sqs_Policy Encryption
begin

text \<open>
  The S3 package, \<^verbatim>\<open>internal/resources/s3\<close>: ensuring declared buckets (\<^verbatim>\<open>s3.go\<close>), the bucket policy (\<^verbatim>\<open>policy.go\<close>), transport
  security and the warning about public buckets (\<^verbatim>\<open>exposure.go\<close>), and the cleanup of buckets that are no longer declared
  (\<^verbatim>\<open>cleanup.go\<close>). Names that other packages use too carry the suffix \<open>_s3\<close>.
\<close>

section \<open>Errors\<close>

definition hasErrorCode :: "ext_error \<Rightarrow> string \<Rightarrow> bool" where
  "hasErrorCode e code = (case ex_api e of None \<Rightarrow> False | Some a \<Rightarrow> ap_ErrorCode a = code)"

definition isNoSuchTagSet :: "ext_error \<Rightarrow> bool" where
  "isNoSuchTagSet e = hasErrorCode e ''NoSuchTagSet''"

definition isNoSuchLifecycleConfiguration :: "ext_error \<Rightarrow> bool" where
  "isNoSuchLifecycleConfiguration e = hasErrorCode e ''NoSuchLifecycleConfiguration''"

definition isServerSideEncryptionConfigurationNotFound :: "ext_error \<Rightarrow> bool" where
  "isServerSideEncryptionConfigurationNotFound e = hasErrorCode e ''ServerSideEncryptionConfigurationNotFoundError''"

definition isNoSuchBucketPolicy :: "ext_error \<Rightarrow> bool" where
  "isNoSuchBucketPolicy e = hasErrorCode e ''NoSuchBucketPolicy''"

definition notFound_s3 :: "ext_error \<Rightarrow> bool" where
  "notFound_s3 e \<longleftrightarrow> \<not> isNoSuchTagSet e
     \<and> (isException ''NotFound'' e \<or> isException ''NoSuchBucket'' e \<or> isException ''NoSuchUpload'' e \<or> ex_status e = Some 404)"

definition isNotFoundError :: "go_error \<Rightarrow> bool" where
  "isNotFoundError err = (case asExt err of None \<Rightarrow> False | Some e \<Rightarrow> notFound_s3 e)"

text \<open>The failure of a call whose answer is not used.\<close>

definition failure :: "unit reply \<Rightarrow> go_error option" where
  "failure r = (case r of Inl e \<Rightarrow> Some (ExtError e) | Inr _ \<Rightarrow> None)"

section \<open>The policy of a bucket\<close>

definition bucketARN :: "string \<Rightarrow> string" where "bucketARN bucket = ''arn:aws:s3:::'' @ bucket"

definition pendingDeletionDenySid_s3 :: string where
  "pendingDeletionDenySid_s3 = ''cloudctl-pending-deletion-deny''"

definition denyStatement_s3 :: "string \<Rightarrow> json" where
  "denyStatement_s3 bucket =
     JObj [(''Sid'', JStr pendingDeletionDenySid_s3), (''Effect'', JStr ''Deny''), (''Principal'', JStr ''*''),
           (''Action'', JStr ''s3:PutObject''), (''Resource'', JStr (bucketARN bucket @ ''/*''))]"

definition readPolicy_s3 :: "env \<Rightarrow> string \<Rightarrow> (go_error + policyDocument) op" where
  "readPolicy_s3 v bucket = do {
     r \<leftarrow> s3_GetBucketPolicy v bucket;
     case r of
       Inl err \<Rightarrow>
         if isNoSuchBucketPolicy err then ret (Inr \<lparr>pd_Version = ''2012-10-17'', pd_Statement = []\<rparr>)
         else ret (Inl (wrapf ''reading bucket policy'' [] (ExtError err)))
     | Inr policy \<Rightarrow>
         if policy = None \<or> policy = Some [] then ret (Inr \<lparr>pd_Version = ''2012-10-17'', pd_Statement = []\<rparr>)
         else (case parsePolicy (the policy) of
                 None \<Rightarrow> ret (Inl (msgError ''parsing existing bucket policy'' []))
               | Some doc \<Rightarrow> ret (Inr doc))
   }"

definition writePolicy_s3 :: "env \<Rightarrow> string \<Rightarrow> policyDocument \<Rightarrow> go_error option op" where
  "writePolicy_s3 v bucket doc = do {
     r \<leftarrow> s3_PutBucketPolicy v bucket (renderPolicy doc);
     ret (failure r)
   }"

definition addPendingDeletionDeny_s3 :: "env \<Rightarrow> string \<Rightarrow> go_error option op" where
  "addPendingDeletionDeny_s3 v bucket = do {
     r \<leftarrow> readPolicy_s3 v bucket;
     case r of
       Inl e \<Rightarrow> ret (Some e)
     | Inr doc \<Rightarrow>
         (case Upsert (pd_Statement doc) pendingDeletionDenySid_s3 (denyStatement_s3 bucket) of
            (statements, changed) \<Rightarrow>
              if \<not> changed then ret None else writePolicy_s3 v bucket (doc\<lparr>pd_Statement := statements\<rparr>))
   }"

definition deleteBucketPolicy :: "env \<Rightarrow> string \<Rightarrow> go_error option op" where
  "deleteBucketPolicy v bucket = do {
     r \<leftarrow> s3_DeleteBucketPolicy v bucket;
     case r of Inl e \<Rightarrow> ret (if notFound_s3 e then None else Some (ExtError e)) | Inr _ \<Rightarrow> ret None
   }"

text \<open>What was written: the statement on transport, the deny of a pending deletion.\<close>

record policySync =
  sy_transport :: bool
  sy_lifted :: bool

definition declaredStatements :: "string \<Rightarrow> bool \<Rightarrow> json list \<Rightarrow> json list \<times> policySync" where
  "declaredStatements bucket want ss =
     (let (ss1, transport) =
            (if want then Upsert ss InsecureTransportSid (DenyInsecureTransport ''s3:*'' [bucketARN bucket, bucketARN bucket @ ''/*''])
             else Remove ss InsecureTransportSid);
          (ss2, lifted) = Remove ss1 pendingDeletionDenySid_s3
      in (ss2, \<lparr>sy_transport = transport, sy_lifted = lifted\<rparr>))"

definition syncDeclaredPolicy :: "env \<Rightarrow> string \<Rightarrow> bool \<Rightarrow> (policySync \<times> go_error option) op" where
  "syncDeclaredPolicy v bucket want =
     (let nothing = \<lparr>sy_transport = False, sy_lifted = False\<rparr> in do {
        r \<leftarrow> readPolicy_s3 v bucket;
        case r of
          Inl e \<Rightarrow> ret (nothing, Some e)
        | Inr doc \<Rightarrow>
            (case declaredStatements bucket want (pd_Statement doc) of (statements, did) \<Rightarrow>
               if \<not> sy_transport did \<and> \<not> sy_lifted did then ret (nothing, None)
               else if statements = [] then do {
                 e \<leftarrow> deleteBucketPolicy v bucket;
                 ret (if e = None then did else nothing, e)
               }
               else do {
                 e \<leftarrow> writePolicy_s3 v bucket (doc\<lparr>pd_Statement := statements\<rparr>);
                 ret (did, e)
               })
      })"

definition removePendingDeletionDeny_s3 :: "env \<Rightarrow> string \<Rightarrow> go_error option op" where
  "removePendingDeletionDeny_s3 v bucket = do {
     r \<leftarrow> readPolicy_s3 v bucket;
     case r of
       Inl e \<Rightarrow> ret (Some e)
     | Inr doc \<Rightarrow>
         (case Remove (pd_Statement doc) pendingDeletionDenySid_s3 of (statements, changed) \<Rightarrow>
            if \<not> changed then ret None
            else if statements = [] then deleteBucketPolicy v bucket
            else writePolicy_s3 v bucket (doc\<lparr>pd_Statement := statements\<rparr>))
   }"

section \<open>Transport security and public access\<close>

definition allUsersURI :: string where "allUsersURI = ''http://acs.amazonaws.com/groups/global/AllUsers''"
definition authenticatedUsersURI :: string where
  "authenticatedUsersURI = ''http://acs.amazonaws.com/groups/global/AuthenticatedUsers''"

definition hasWebsite :: "env \<Rightarrow> string \<Rightarrow> (ext_error + bool) op" where
  "hasWebsite v bucket = do {
     r \<leftarrow> s3_GetBucketWebsite v bucket;
     case r of
       Inl e \<Rightarrow> if hasErrorCode e ''NoSuchWebsiteConfiguration'' then ret (Inr False) else ret (Inl e)
     | Inr _ \<Rightarrow> ret (Inr True)
   }"

definition reconcileTransportSecurity :: "env \<Rightarrow> pass \<Rightarrow> string \<Rightarrow> go_error option op" where
  "reconcileTransportSecurity v p bucket = do {
     w \<leftarrow> hasWebsite v bucket;
     case w of
       Inl err \<Rightarrow> ret (Some (wrapAWSError (ExtError err) ''checking whether the bucket hosts a website''))
     | Inr website \<Rightarrow> do {
         (did, err) \<leftarrow> syncDeclaredPolicy v bucket (\<not> website);
         case err of
           Some e \<Rightarrow> ret (Some (wrapAWSError e ''reconciling the bucket's policy''))
         | None \<Rightarrow> do {
             (if website then recordEvent p ''Warning'' ''TransportSecurityNotEnforced'' [bucket]
              else if sy_transport did then recordEvent p ''Normal'' ''TransportSecurityEnforced'' [bucket, InsecureTransportSid]
              else ret ());
             (if sy_lifted did then recordEvent p ''Normal'' ''PendingDeletionDenyLifted'' [pendingDeletionDenySid_s3, bucket] else ret ());
             ret None
           }
       }
   }"

definition boolValue :: "bool option \<Rightarrow> bool" where "boolValue b \<longleftrightarrow> b = Some True"

definition publicAccessBlock :: "env \<Rightarrow> string \<Rightarrow> (ext_error + PublicAccessBlock) op" where
  "publicAccessBlock v bucket = (let none = \<lparr>pb_RestrictPublicBuckets = None, pb_IgnorePublicAcls = None\<rparr> in do {
     r \<leftarrow> s3_GetPublicAccessBlock v bucket;
     case r of
       Inl e \<Rightarrow> if hasErrorCode e ''NoSuchPublicAccessBlockConfiguration'' then ret (Inr none) else ret (Inl e)
     | Inr b \<Rightarrow> ret (Inr (case b of None \<Rightarrow> none | Some x \<Rightarrow> x))
   })"

definition policyIsPublic :: "env \<Rightarrow> string \<Rightarrow> (ext_error + bool) op" where
  "policyIsPublic v bucket = do {
     r \<leftarrow> s3_GetBucketPolicyStatus v bucket;
     case r of
       Inl e \<Rightarrow> if hasErrorCode e ''NoSuchBucketPolicy'' then ret (Inr False) else ret (Inl e)
     | Inr st \<Rightarrow> ret (Inr (case st of None \<Rightarrow> False | Some b \<Rightarrow> boolValue b))
   }"

definition aclIsPublic :: "env \<Rightarrow> string \<Rightarrow> (ext_error + bool) op" where
  "aclIsPublic v bucket = do {
     r \<leftarrow> s3_GetBucketAcl v bucket;
     case r of
       Inl e \<Rightarrow> ret (Inl e)
     | Inr grants \<Rightarrow> ret (Inr (\<exists>g\<in>set grants. g = Some (Some allUsersURI) \<or> g = Some (Some authenticatedUsersURI)))
   }"

definition publicExposure :: "env \<Rightarrow> string \<Rightarrow> (ext_error + string list) op" where
  "publicExposure v bucket = do {
     b \<leftarrow> publicAccessBlock v bucket;
     case b of
       Inl e \<Rightarrow> ret (Inl e)
     | Inr block \<Rightarrow> do {
         pol \<leftarrow> (if boolValue (pb_RestrictPublicBuckets block) then ret (Inr False) else policyIsPublic v bucket);
         case pol of
           Inl e \<Rightarrow> ret (Inl e)
         | Inr viaPolicy \<Rightarrow> do {
             acl \<leftarrow> (if boolValue (pb_IgnorePublicAcls block) then ret (Inr False) else aclIsPublic v bucket);
             case acl of
               Inl e \<Rightarrow> ret (Inl e)
             | Inr viaACL \<Rightarrow> ret (Inr ((if viaPolicy then [''its bucket policy''] else []) @ (if viaACL then [''its ACL''] else [])))
           }
       }
   }"

definition warnIfPublic :: "env \<Rightarrow> pass \<Rightarrow> string \<Rightarrow> unit op" where
  "warnIfPublic v p bucket =
     (if \<not> ps_recordEvent p then ret ()
      else do {
        r \<leftarrow> publicExposure v bucket;
        case r of
          Inl e \<Rightarrow> recordEvent p ''Warning'' ''PublicAccessCheckFailed'' [bucket]
        | Inr via \<Rightarrow> if via \<noteq> [] then recordEvent p ''Warning'' ''BucketPubliclyAccessible'' [bucket, join via '' and ''] else ret ()
      })"

section \<open>Options and names\<close>

definition s3NameMaxLen :: int where "s3NameMaxLen = 63"
definition accountHashLen :: int where "accountHashLen = 8"
definition regionUSEast1 :: string where "regionUSEast1 = ''us-east-1''"

definition bucketName :: "string \<Rightarrow> string \<Rightarrow> string \<Rightarrow> string \<Rightarrow> string" where
  "bucketName namespace crName resourceKey accountID =
     ResourceNameFor NameStyleS3 namespace crName typeS3 resourceKey (s3NameMaxLen - accountHashLen - 1)
       @ ''-'' @ take (nat accountHashLen) (sha256_hex accountID)"

record bucketOptions =
  bo_deletionPolicy :: DeletionPolicy
  bo_force :: bool
  bo_adopt :: bool
  bo_backupEnabled :: bool
  bo_replicationRequested :: bool
  bo_versioningOverride :: "bool option"
  bo_lifecycleOverride :: "S3LifecycleRule list"
  bo_lifecycleOverrideSet :: bool
  bo_kmsKeyARN :: "string option"

definition bucketOptionsOf :: "S3BucketSpec \<Rightarrow> string option \<Rightarrow> bucketOptions" where
  "bucketOptionsOf b kmsKeyARN =
     (let rules = (case b_Overrides b of None \<Rightarrow> None | Some ov \<Rightarrow> s3o_LifecycleRules ov) in
      \<lparr>bo_deletionPolicy = b_DeletionPolicy b, bo_force = b_Force b, bo_adopt = b_Adopt b,
       bo_backupEnabled = (case b_Backup b of None \<Rightarrow> False | Some x \<Rightarrow> b3_Enabled x),
       bo_replicationRequested = (case b_Replication b of None \<Rightarrow> False | Some x \<Rightarrow> r3_Enabled x),
       bo_versioningOverride = (case b_Overrides b of None \<Rightarrow> None | Some ov \<Rightarrow> s3o_VersioningEnabled ov),
       bo_lifecycleOverride = (case rules of None \<Rightarrow> [] | Some rs \<Rightarrow> rs),
       bo_lifecycleOverrideSet = (rules \<noteq> None),
       bo_kmsKeyARN = kmsKeyARN\<rparr>)"

section \<open>Lifecycle rules\<close>

definition defaultLifecycleRuleID :: string where "defaultLifecycleRuleID = ''cloudctl-backup-default''"

definition defaultLifecycleRules :: "S3LifecycleRule list" where
  "defaultLifecycleRules =
     [\<lparr>slr_ID = defaultLifecycleRuleID, slr_TransitionAfterDays = None, slr_TransitionStorageClass = [],
       slr_ExpirationAfterDays = None, slr_NoncurrentVersionExpirationAfterDays = Some 30\<rparr>]"

definition desiredLifecycleRules :: "bucketOptions \<Rightarrow> S3LifecycleRule list" where
  "desiredLifecycleRules opts =
     (if bo_lifecycleOverrideSet opts then bo_lifecycleOverride opts
      else if bo_backupEnabled opts then defaultLifecycleRules
      else [])"

definition buildLifecycleRule :: "S3LifecycleRule \<Rightarrow> LifecycleRule" where
  "buildLifecycleRule r =
     \<lparr>lr_ID = Some (slr_ID r), lr_Status = ''Enabled'', lr_Prefix = None,
      lr_Filter = Some \<lparr>lf_Prefix = Some [], lf_And = False, lf_Tag = False, lf_ObjectSizeGreaterThan = False, lf_ObjectSizeLessThan = False\<rparr>,
      lr_Transitions = (case slr_TransitionAfterDays r of None \<Rightarrow> []
        | Some d \<Rightarrow> [\<lparr>lt_Days = Some d, lt_StorageClass = slr_TransitionStorageClass r, lt_Date = False\<rparr>]),
      lr_Expiration = map_option (\<lambda>d. \<lparr>lx_Days = Some d, lx_Date = False, lx_ExpiredObjectDeleteMarker = False\<rparr>) (slr_ExpirationAfterDays r),
      lr_NoncurrentVersionExpiration =
        map_option (\<lambda>d. \<lparr>nv_NoncurrentDays = Some d, nv_NewerNoncurrentVersions = False\<rparr>) (slr_NoncurrentVersionExpirationAfterDays r),
      lr_NoncurrentVersionTransitions = 0, lr_AbortIncompleteMultipartUpload = False\<rparr>"

definition buildLifecycleRules :: "S3LifecycleRule list \<Rightarrow> LifecycleRule list" where
  "buildLifecycleRules rules = map buildLifecycleRule rules"

text \<open>\<^verbatim>\<open>aws.ToString\<close> and \<^verbatim>\<open>aws.ToInt32\<close>: the zero value for a missing pointer.\<close>

definition toStr :: "string option \<Rightarrow> string" where
  "toStr s = (case s of None \<Rightarrow> [] | Some x \<Rightarrow> x)"

definition toInt :: "int option \<Rightarrow> int" where
  "toInt i = (case i of None \<Rightarrow> 0 | Some x \<Rightarrow> x)"

definition transitionText :: "LifecycleTransition list \<Rightarrow> string" where
  "transitionText ts = (case ts of [t] \<Rightarrow> show_int (toInt (lt_Days t)) @ ''/'' @ lt_StorageClass t | _ \<Rightarrow> [])"

text \<open>\<open>None\<close> for a rule that uses anything the operator never sets.\<close>

definition lifecycleRuleFingerprint :: "LifecycleRule \<Rightarrow> string option" where
  "lifecycleRuleFingerprint r =
     (if lr_AbortIncompleteMultipartUpload r \<or> lr_NoncurrentVersionTransitions r > 0 \<or> length (lr_Transitions r) > 1 \<or> toStr (lr_Prefix r) \<noteq> []
      then None
      else if (case lr_Filter r of None \<Rightarrow> False
               | Some f \<Rightarrow> lf_And f \<or> lf_Tag f \<or> lf_ObjectSizeGreaterThan f \<or> lf_ObjectSizeLessThan f) then None
      else if (case lr_Transitions r of [t] \<Rightarrow> lt_Date t | _ \<Rightarrow> False) then None
      else if (case lr_Expiration r of None \<Rightarrow> False | Some e \<Rightarrow> lx_Date e \<or> lx_ExpiredObjectDeleteMarker e) then None
      else if (case lr_NoncurrentVersionExpiration r of None \<Rightarrow> False | Some n \<Rightarrow> nv_NewerNoncurrentVersions n) then None
      else Some (join [lr_Status r, (case lr_Filter r of None \<Rightarrow> [] | Some f \<Rightarrow> toStr (lf_Prefix f)), transitionText (lr_Transitions r),
                       show_int (case lr_Expiration r of None \<Rightarrow> 0 | Some e \<Rightarrow> toInt (lx_Days e)),
                       show_int (case lr_NoncurrentVersionExpiration r of None \<Rightarrow> 0 | Some n \<Rightarrow> toInt (nv_NoncurrentDays n))] ''|''))"

primrec wantedFingerprints :: "LifecycleRule list \<Rightarrow> (string \<rightharpoonup> string) \<Rightarrow> (string \<rightharpoonup> string) option" where
  "wantedFingerprints [] want = Some want"
| "wantedFingerprints (r # rs) want =
     (case lifecycleRuleFingerprint r of None \<Rightarrow> None | Some fp \<Rightarrow> wantedFingerprints rs (want(toStr (lr_ID r) \<mapsto> fp)))"

definition lifecycleRulesMatch :: "LifecycleRule list \<Rightarrow> LifecycleRule list \<Rightarrow> bool" where
  "lifecycleRulesMatch current desired =
     (if length current \<noteq> length desired then False
      else case wantedFingerprints desired (\<lambda>_. None) of
             None \<Rightarrow> False
           | Some want \<Rightarrow> list_all (\<lambda>r. case lifecycleRuleFingerprint r of None \<Rightarrow> False | Some fp \<Rightarrow> goget want (toStr (lr_ID r)) = fp) current)"

section \<open>Attributes\<close>

definition reconcileVersioning :: "env \<Rightarrow> string \<Rightarrow> bucketOptions \<Rightarrow> go_error option op" where
  "reconcileVersioning v bucket opts =
     (let explicit = (bo_versioningOverride opts \<noteq> None);
          desired = (case bo_versioningOverride opts of None \<Rightarrow> bo_backupEnabled opts | Some b \<Rightarrow> b) in do {
        r \<leftarrow> s3_GetBucketVersioning v bucket;
        case r of
          Inl err \<Rightarrow> ret (Some (wrapf ''reading versioning status'' [] (ExtError err)))
        | Inr st \<Rightarrow>
            (let enabled = (st = ''Enabled'') in
             if enabled = desired \<or> (enabled \<and> \<not> explicit) then ret None
             else do {
               u \<leftarrow> s3_PutBucketVersioning v bucket (if desired then ''Enabled'' else ''Suspended'');
               ret (map_option (wrapf ''correcting versioning'' []) (failure u))
             })
      })"

text \<open>The first rule that names a key, with its bucket-key flag.\<close>

fun firstKey :: "EncryptionRule list \<Rightarrow> string \<times> bool" where
  "firstKey [] = ([], False)"
| "firstKey (rule # rules) =
     (case er_Default rule of Some (Some k) \<Rightarrow> (k, boolValue (er_BucketKeyEnabled rule)) | _ \<Rightarrow> firstKey rules)"

definition currentBucketEncryption :: "env \<Rightarrow> string \<Rightarrow> (go_error + string \<times> bool) op" where
  "currentBucketEncryption v bucket = do {
     r \<leftarrow> s3_GetBucketEncryption v bucket;
     case r of
       Inl e \<Rightarrow>
         if isServerSideEncryptionConfigurationNotFound e then ret (Inr ([], False))
         else ret (Inl (wrapf ''reading encryption configuration'' [] (ExtError e)))
     | Inr conf \<Rightarrow> ret (Inr (case conf of None \<Rightarrow> ([], False) | Some rules \<Rightarrow> firstKey rules))
   }"

definition reconcileEncryption :: "env \<Rightarrow> string \<Rightarrow> bucketOptions \<Rightarrow> go_error option op" where
  "reconcileEncryption v bucket opts =
     (case bo_kmsKeyARN opts of
        None \<Rightarrow> ret None
      | Some want \<Rightarrow> do {
          c \<leftarrow> currentBucketEncryption v bucket;
          case c of
            Inl e \<Rightarrow> ret (Some e)
          | Inr (key, bucketKeyEnabled) \<Rightarrow>
              if key = want \<and> bucketKeyEnabled then ret None
              else do {
                u \<leftarrow> s3_PutBucketEncryption v bucket want;
                ret (map_option (wrapf ''correcting server-side encryption key'' []) (failure u))
              }
        })"

definition reconcileLifecycle :: "env \<Rightarrow> string \<Rightarrow> bucketOptions \<Rightarrow> go_error option op" where
  "reconcileLifecycle v bucket opts =
     (let rules = desiredLifecycleRules opts; desired = buildLifecycleRules rules in do {
        r \<leftarrow> s3_GetBucketLifecycleConfiguration v bucket;
        case (case r of Inl e \<Rightarrow> if isNoSuchLifecycleConfiguration e then Inr [] else Inl e | Inr rs \<Rightarrow> Inr rs) of
          Inl e \<Rightarrow> ret (Some (wrapf ''reading lifecycle policy'' [] (ExtError e)))
        | Inr currentRules \<Rightarrow>
            if lifecycleRulesMatch currentRules desired then ret None
            else if rules = [] then do {
              d \<leftarrow> s3_DeleteBucketLifecycle v bucket;
              case d of
                Inl e \<Rightarrow> ret (if notFound_s3 e then None else Some (wrapf ''removing lifecycle policy'' [] (ExtError e)))
              | Inr _ \<Rightarrow> ret None
            }
            else do {
              u \<leftarrow> s3_PutBucketLifecycleConfiguration v bucket desired;
              ret (map_option (wrapf ''setting lifecycle policy'' []) (failure u))
            }
      })"

definition reconcileBucketAttributes :: "env \<Rightarrow> string \<Rightarrow> bucketOptions \<Rightarrow> go_error option op" where
  "reconcileBucketAttributes v bucket opts = do {
     e1 \<leftarrow> reconcileVersioning v bucket opts;
     case e1 of
       Some e \<Rightarrow> ret (Some e)
     | None \<Rightarrow> do {
         e2 \<leftarrow> reconcileEncryption v bucket opts;
         case e2 of Some e \<Rightarrow> ret (Some e) | None \<Rightarrow> reconcileLifecycle v bucket opts
       }
   }"

section \<open>Ensuring a bucket\<close>

definition recordVerified_s3 :: "pass \<Rightarrow> ledger \<Rightarrow> string \<Rightarrow> string \<Rightarrow> DeletionPolicy \<Rightarrow> bool \<Rightarrow> ledger" where
  "recordVerified_s3 p l ledgerName arn deletionPolicy force =
     UpsertManagedResource l (zeroManagedResource\<lparr>
       mr_Type := typeS3, mr_Name := ledgerName, mr_ARN := arn, mr_State := StateVerified,
       mr_DeletionPolicy := deletionPolicy, mr_Force := force,
       mr_CreatedAt := (case FindManagedResource l typeS3 ledgerName of None \<Rightarrow> ps_now p | Some e \<Rightarrow> mr_CreatedAt e),
       mr_LastVerifiedAt := Some (ps_now p)\<rparr>)"

text \<open>The second component: the bucket is still there.\<close>

definition ensureWithinTrust_s3 ::
  "env \<Rightarrow> pass \<Rightarrow> string \<Rightarrow> ManagedResource \<Rightarrow> bucketOptions \<Rightarrow> ledger \<Rightarrow> (ledger \<times> bool \<times> go_error option) op" where
  "ensureWithinTrust_s3 v p bucket existing opts l =
     (let l1 = UpsertManagedResource l (existing\<lparr>mr_DeletionPolicy := bo_deletionPolicy opts, mr_Force := bo_force opts\<rparr>) in do {
        attrErr \<leftarrow> reconcileBucketAttributes v bucket opts;
        case attrErr of
          None \<Rightarrow> ret (l1, True, None)
        | Some e \<Rightarrow>
            if isNotFoundError e then do {
              recordEvent p ''Warning'' ''BucketMissing'' [bucket];
              ret (l1, False, None)
            }
            else ret (l1, False, Some (wrapAWSError e ''reconciling bucket attributes''))
      })"

definition createBucketIfMissing :: "env \<Rightarrow> pass \<Rightarrow> string \<Rightarrow> string \<Rightarrow> go_error option op" where
  "createBucketIfMissing v p region bucket = do {
     h \<leftarrow> s3_HeadBucket v bucket;
     case h of
       Inr _ \<Rightarrow> ret None
     | Inl err \<Rightarrow>
         if \<not> notFound_s3 err then ret (Some (wrapAWSError (ExtError err) ''checking bucket existence''))
         else do {
           c \<leftarrow> s3_CreateBucket v bucket (ownerTags p) (if region \<noteq> regionUSEast1 then Some region else None);
           case c of
             Inl cErr \<Rightarrow> ret (Some (wrapAWSError (ExtError cErr) ''creating bucket''))
           | Inr _ \<Rightarrow> do { recordEvent p ''Normal'' ''BucketCreated'' [bucket]; ret None }
         }
   }"

definition readBucketTags :: "env \<Rightarrow> string \<Rightarrow> (go_error + tags) op" where
  "readBucketTags v bucket = do {
     r \<leftarrow> s3_GetBucketTagging v bucket;
     case r of
       Inr ts \<Rightarrow> ret (Inr (tagsToMap ts))
     | Inl err \<Rightarrow> if isNoSuchTagSet err then ret (Inr (\<lambda>_. None)) else ret (Inl (wrapAWSError (ExtError err) ''reading bucket tags''))
   }"

definition bucketKMSKey :: "env \<Rightarrow> string \<Rightarrow> (go_error + string) op" where
  "bucketKMSKey v bucket = do {
     r \<leftarrow> s3_GetBucketEncryption v bucket;
     case r of
       Inl err \<Rightarrow>
         if isServerSideEncryptionConfigurationNotFound err then ret (Inr [])
         else ret (Inl (wrapAWSError (ExtError err) ''reading the bucket's encryption before adopting it''))
     | Inr conf \<Rightarrow> ret (Inr (case conf of None \<Rightarrow> [] | Some rules \<Rightarrow> fst (firstKey rules)))
   }"

definition sameKey :: "string \<Rightarrow> string \<Rightarrow> bool" where
  "sameKey current want \<longleftrightarrow> current \<noteq> [] \<and> (current = want \<or> hasSuffix want (''/'' @ current))"

definition adoptBucket :: "env \<Rightarrow> pass \<Rightarrow> string \<Rightarrow> tags \<Rightarrow> bucketOptions \<Rightarrow> go_error option op" where
  "adoptBucket v p bucket currentTags opts =
     (case CheckExistingOwnership p ''bucket'' bucket currentTags (bo_adopt opts) of
        Inl ownErr \<Rightarrow> ret (Some ownErr)
      | Inr transferred \<Rightarrow> do {
          k \<leftarrow> bucketKMSKey v bucket;
          case k of
            Inl keyErr \<Rightarrow> ret (Some keyErr)
          | Inr currentKey \<Rightarrow> do {
              e \<leftarrow> AdoptedKeyCheck (Some v) (bo_kmsKeyARN opts) currentKey;
              case e of
                Some err \<Rightarrow> ret (Some (wrapf ''bucket can't be adopted'' [bucket] err))
              | None \<Rightarrow> do {
                  (if toStr (bo_kmsKeyARN opts) \<noteq> [] \<and> \<not> sameKey currentKey (toStr (bo_kmsKeyARN opts))
                   then recordEvent p ''Normal'' ''BucketExistingObjectsKeepTheirEncryption'' [bucket, toStr (bo_kmsKeyARN opts)]
                   else ret ());
                  g \<leftarrow> s3_PutBucketTagging v bucket (WithoutReleaseTags (MergeTags currentTags (ownerTags p)));
                  case g of
                    Inl tagErr \<Rightarrow> ret (Some (wrapAWSError (ExtError tagErr) ''tagging bucket''))
                  | Inr _ \<Rightarrow> do {
                      (if transferred then recordEvent p ''Normal'' EventOwnershipTransferred [bucket]
                       else recordEvent p ''Normal'' ''BucketAdopted'' [bucket]);
                      ret None
                    }
                }
            }
        })"

text \<open>A bucket whose tags were read: it is ours, or taken over, and then corrected.\<close>

definition ensureTaggedBucket ::
  "env \<Rightarrow> pass \<Rightarrow> string \<Rightarrow> string \<Rightarrow> bucketOptions \<Rightarrow> ledger \<Rightarrow> tags \<Rightarrow> (ledger \<times> go_error option) op" where
  "ensureTaggedBucket v p bucket resourceName opts l currentTags = do {
     aErr \<leftarrow> (if \<not> owned_by_pass p currentTags then adoptBucket v p bucket currentTags opts else ret None);
     case aErr of
       Some e \<Rightarrow> ret (l, Some e)
     | None \<Rightarrow> do {
         rErr \<leftarrow> reconcileBucketAttributes v bucket opts;
         case rErr of
           Some e \<Rightarrow> ret (l, Some (wrapAWSError e ''reconciling bucket attributes''))
         | None \<Rightarrow> do {
             sErr \<leftarrow> reconcileTransportSecurity v p bucket;
             case sErr of
               Some e \<Rightarrow> ret (l, Some e)
             | None \<Rightarrow> do {
                 warnIfPublic v p bucket;
                 ret (recordVerified_s3 p l resourceName (bucketARN bucket) (bo_deletionPolicy opts) (bo_force opts), None)
               }
           }
       }
   }"

text \<open>The path after the trust window, or when the bucket is gone.\<close>

definition ensureBucketVerified ::
  "env \<Rightarrow> pass \<Rightarrow> string \<Rightarrow> string \<Rightarrow> string \<Rightarrow> bucketOptions \<Rightarrow> ledger \<Rightarrow> (ledger \<times> go_error option) op" where
  "ensureBucketVerified v p region bucket resourceName opts l = do {
     cErr \<leftarrow> createBucketIfMissing v p region bucket;
     case cErr of
       Some e \<Rightarrow> ret (l, Some e)
     | None \<Rightarrow> do {
         t \<leftarrow> readBucketTags v bucket;
         case t of
           Inl e \<Rightarrow> ret (l, Some e)
         | Inr currentTags \<Rightarrow> ensureTaggedBucket v p bucket resourceName opts l currentTags
       }
   }"

definition ErrReplicationNotSupported :: go_error where
  "ErrReplicationNotSupported = msgError ''replication is not implemented yet'' []"

definition ensureBucket ::
  "env \<Rightarrow> pass \<Rightarrow> string \<Rightarrow> string \<Rightarrow> string \<Rightarrow> bucketOptions \<Rightarrow> ledger \<Rightarrow> (ledger \<times> go_error option) op" where
  "ensureBucket v p region accountID resourceName opts l =
     (if bo_replicationRequested opts then ret (l, Some (ReconcileError ErrReplicationNotSupported False ''NotSupported'' False))
      else let bucket = bucketName (ps_namespace p) (ps_crName p) resourceName accountID in
        case FindManagedResource l typeS3 resourceName of
          None \<Rightarrow> ensureBucketVerified v p region bucket resourceName opts l
        | Some existing \<Rightarrow>
            if NeedsRevalidation (ps_now p) existing then ensureBucketVerified v p region bucket resourceName opts l
            else do {
              (l1, present, trustErr) \<leftarrow> ensureWithinTrust_s3 v p bucket existing opts l;
              if trustErr \<noteq> None \<or> present then ret (l1, trustErr)
              else ensureBucketVerified v p region bucket resourceName opts l1
            })"

primrec ensureBuckets ::
  "env \<Rightarrow> pass \<Rightarrow> string \<Rightarrow> string \<Rightarrow> S3BucketSpec list \<Rightarrow> ledger \<Rightarrow> go_error option \<Rightarrow> (ledger \<times> go_error option) op" where
  "ensureBuckets v p region accountID [] l firstErr = ret (l, firstErr)"
| "ensureBuckets v p region accountID (b # bs) l firstErr = do {
     (l1, keyRes) \<leftarrow> resolveEncryptionKey v p ''bucket'' typeS3 (b_Name b) (b_DeletionPolicy b) (b_Encryption b) l;
     case keyRes of
       Inl e \<Rightarrow> ensureBuckets v p region accountID bs l1 (firstError firstErr (Some e))
     | Inr key \<Rightarrow> do {
         (l2, err) \<leftarrow> ensureBucket v p region accountID (b_Name b) (bucketOptionsOf b key) l1;
         ensureBuckets v p region accountID bs l2 (firstError firstErr (map_option (wrapf ''bucket'' [b_Name b]) err))
       }
   }"

definition Ensure_s3 :: "env \<Rightarrow> pass \<Rightarrow> string \<Rightarrow> string \<Rightarrow> S3Spec option \<Rightarrow> ledger \<Rightarrow> (ledger \<times> go_error option) op" where
  "Ensure_s3 v p region accountID spec l =
     (case spec of None \<Rightarrow> ret (l, None) | Some s \<Rightarrow> ensureBuckets v p region accountID (s3_Resources s) l None)"

section \<open>Cleanup\<close>

definition PendingDeletionGracePeriod_s3 :: duration where "PendingDeletionGracePeriod_s3 = 7 * 24 * hour"
definition deletionQuietWindow_s3 :: duration where "deletionQuietWindow_s3 = 10 * minute"

datatype BucketCleanupReason = BucketRetained | BucketPendingDeletion | BucketStuckPendingDeletion

type_synonym bucket_result = "string \<times> BucketCleanupReason"

definition pendingDeletionReason_s3 :: "pass \<Rightarrow> time \<Rightarrow> BucketCleanupReason" where
  "pendingDeletionReason_s3 p t =
     (if since (ps_now p) t > PendingDeletionGracePeriod_s3 then BucketStuckPendingDeletion else BucketPendingDeletion)"

definition declaredBucketNames :: "S3Spec option \<Rightarrow> bool \<Rightarrow> string \<Rightarrow> bool" where
  "declaredBucketNames spec deleting name =
     (case spec of None \<Rightarrow> False | Some s \<Rightarrow> \<not> deleting \<and> name \<in> b_Name ` set (s3_Resources s))"

definition bucketNameFromARN :: "string \<Rightarrow> go_error + string" where
  "bucketNameFromARN arn =
     (if \<not> hasPrefix arn (bucketARN []) \<or> length arn = length (bucketARN []) then Inl (msgError ''unexpected bucket ARN format'' [arn])
      else Inr (drop (length (bucketARN [])) arn))"

definition markPendingDeletion_s3 ::
  "pass \<Rightarrow> ledger \<Rightarrow> bucket_result list \<Rightarrow> ManagedResource \<Rightarrow> ledger \<times> bucket_result list" where
  "markPendingDeletion_s3 p l results entry =
     (let since' = (case mr_PendingDeletionSince entry of None \<Rightarrow> ps_now p | Some t \<Rightarrow> t)
      in (UpsertManagedResource l (entry\<lparr>mr_PendingDeletionSince := Some since'\<rparr>),
          results @ [(mr_Name entry, pendingDeletionReason_s3 p since')]))"

definition restoreDeclared_s3 :: "env \<Rightarrow> pass \<Rightarrow> ManagedResource \<Rightarrow> ledger \<Rightarrow> (ledger \<times> go_error option) op" where
  "restoreDeclared_s3 v p entry l =
     (if mr_PendingDeletionSince entry = None then ret (l, None)
      else case bucketNameFromARN (mr_ARN entry) of
        Inl nameErr \<Rightarrow> ret (l, Some nameErr)
      | Inr bucket \<Rightarrow> do {
          e \<leftarrow> removePendingDeletionDeny_s3 v bucket;
          case e of
            Some err \<Rightarrow> ret (l, Some (wrapAWSError err ''removing pending-deletion deny from bucket''))
          | None \<Rightarrow> do {
              recordEvent p ''Normal'' ''BucketDeletionCancelled'' [mr_Name entry, mr_ARN entry];
              ret (UpsertManagedResource l (entry\<lparr>mr_PendingDeletionSince := None, mr_LastEmptyCheckAt := None\<rparr>), None)
            }
        })"

text \<open>The tags that stay when a bucket is let go of.\<close>

definition withoutOwnerTags :: "tags \<Rightarrow> tags" where
  "withoutOwnerTags tgs = tgs(OwnerTagKey := None, OwnerUIDTagKey := None)"

definition relinquishIfStillTagged_s3 :: "env \<Rightarrow> pass \<Rightarrow> ManagedResource \<Rightarrow> (bool \<times> bool \<times> go_error option) op" where
  "relinquishIfStillTagged_s3 v p entry =
     (case bucketNameFromARN (mr_ARN entry) of
        Inl nameErr \<Rightarrow> ret (False, False, Some nameErr)
      | Inr bucket \<Rightarrow> do {
          t \<leftarrow> s3_GetBucketTagging v bucket;
          case t of
            Inl tErr \<Rightarrow>
              if notFound_s3 tErr then ret (False, True, None)
              else if isNoSuchTagSet tErr then ret (False, False, None)
              else ret (False, False, Some (wrapAWSError (ExtError tErr) ''checking ownership tags on retained bucket''))
          | Inr ts \<Rightarrow>
              if \<not> owned_by_pass p (tagsToMap ts) then ret (False, False, None)
              else do {
                released \<leftarrow> (case ReleaseTags p of
                   None \<Rightarrow> ret False
                 | Some rel \<Rightarrow> do {
                     g \<leftarrow> s3_PutBucketTagging v bucket (MergeTags (withoutOwnerTags (tagsToMap ts)) rel);
                     case g of
                       Inr _ \<Rightarrow> ret True
                     | Inl err \<Rightarrow> do { ReleaseTagFailed p ''bucket'' (mr_Name entry) err; ret False }
                   });
                if released then ret (True, False, None)
                else do {
                  g \<leftarrow> s3_PutBucketTagging v bucket (withoutOwnerTags (tagsToMap ts));
                  case g of
                    Inl err \<Rightarrow> ret (False, False, Some (wrapAWSError (ExtError err) ''relinquishing ownership tag on retained bucket''))
                  | Inr _ \<Rightarrow> ret (True, False, None)
                }
              }
        })"

definition retain_s3 ::
  "env \<Rightarrow> pass \<Rightarrow> ManagedResource \<Rightarrow> ledger \<Rightarrow> bucket_result list \<Rightarrow> (ledger \<times> bucket_result list \<times> go_error option) op" where
  "retain_s3 v p entry l results =
     (let retained = (mr_Name entry, BucketRetained);
          pinsKey = PinsAKey l typeS3 entry
      in if mr_State entry = StateRelinquished \<and> \<not> pinsKey
         then ret (RemoveManagedResource l typeS3 (mr_Name entry), results @ [retained], None)
         else if mr_State entry = StateRelinquished \<and> \<not> NeedsRelinquishedRecheck (ps_now p) entry
         then ret (l, results @ [retained], None)
         else do {
           (relinquished, gone, err) \<leftarrow> relinquishIfStillTagged_s3 v p entry;
           case err of
             Some e \<Rightarrow> ret (l, results, Some e)
           | None \<Rightarrow>
               if gone then ret (RemoveManagedResource l typeS3 (mr_Name entry), results, None)
               else do {
                 (if relinquished then recordEvent p ''Normal'' ''BucketOwnershipRelinquished'' [mr_Name entry, mr_ARN entry] else ret ());
                 ret (if pinsKey then UpsertManagedResource l (Relinquished (ps_now p) entry)
                      else RemoveManagedResource l typeS3 (mr_Name entry), results @ [retained], None)
               }
         })"

text \<open>\<open>Inr True\<close>: the bucket is gone; \<open>Inr False\<close>: it exists and is ours.\<close>

definition verifyOwned_s3 :: "env \<Rightarrow> pass \<Rightarrow> ManagedResource \<Rightarrow> string \<Rightarrow> (go_error + bool) op" where
  "verifyOwned_s3 v p entry bucket = do {
     t \<leftarrow> s3_GetBucketTagging v bucket;
     case t of
       Inl err \<Rightarrow>
         if notFound_s3 err then ret (Inr True)
         else if \<not> isNoSuchTagSet err then ret (Inl (wrapAWSError (ExtError err) ''re-verifying ownership of bucket before delete''))
         else if \<not> owned_by_pass p (\<lambda>_. None) then ret (Inl (OwnershipLostError ''bucket'' (mr_Name entry) ''delete it''))
         else ret (Inr False)
     | Inr ts \<Rightarrow>
         if \<not> owned_by_pass p (tagsToMap ts) then ret (Inl (OwnershipLostError ''bucket'' (mr_Name entry) ''delete it''))
         else ret (Inr False)
   }"

definition bucketIsEmpty :: "env \<Rightarrow> string \<Rightarrow> (ext_error + bool) op" where
  "bucketIsEmpty v bucket = do {
     r \<leftarrow> s3_ListObjectVersions v bucket None None (Some 1);
     ret (map_sum id (\<lambda>pg. vp_Versions pg = [] \<and> vp_DeleteMarkers pg = []) r)
   }"

definition gateOnEmpty_s3 ::
  "env \<Rightarrow> pass \<Rightarrow> ManagedResource \<Rightarrow> string \<Rightarrow> ledger \<Rightarrow> bucket_result list
   \<Rightarrow> (ledger \<times> bucket_result list \<times> bool \<times> go_error option) op" where
  "gateOnEmpty_s3 v p entry bucket l results =
     (if mr_PendingDeletionSince entry = None
      then do {
        e \<leftarrow> addPendingDeletionDeny_s3 v bucket;
        case e of
          Some err \<Rightarrow> ret (l, results, False, Some (wrapAWSError err ''blocking new writes to bucket pending deletion''))
        | None \<Rightarrow>
            (case markPendingDeletion_s3 p l results entry of (l1, results1) \<Rightarrow> do {
               recordEvent p ''Warning'' ''BucketDeletionPending'' [mr_Name entry, mr_ARN entry];
               ret (l1, results1, False, None)
             })
      }
      else do {
        r \<leftarrow> bucketIsEmpty v bucket;
        case r of
          Inl err \<Rightarrow> ret (l, results, False, Some (wrapAWSError (ExtError err) ''checking bucket is empty''))
        | Inr isEmpty \<Rightarrow>
            if \<not> isEmpty
            then (case markPendingDeletion_s3 p l results (entry\<lparr>mr_LastEmptyCheckAt := Some (ps_now p)\<rparr>) of
                    (l1, results1) \<Rightarrow> ret (l1, results1, False, None))
            else ret (l, results, True, None)
      })"

subsection \<open>Emptying a bucket\<close>

text \<open>Batches of at most 1000 identifiers, cut from the front.\<close>

function batches :: "object_id list \<Rightarrow> object_id list list" where
  "batches ids = (if ids = [] then [] else take 1000 ids # batches (drop 1000 ids))"
  by auto
termination by (relation "measure length") auto

declare batches.simps [simp del]

primrec deleteBatches :: "env \<Rightarrow> string \<Rightarrow> object_id list list \<Rightarrow> go_error option op" where
  "deleteBatches v bucket [] = ret None"
| "deleteBatches v bucket (ids # rest) = do {
     r \<leftarrow> s3_DeleteObjects v bucket ids;
     case r of
       Inl err \<Rightarrow> ret (Some (wrapf ''batch-deleting objects'' [] (ExtError err)))
     | Inr errs \<Rightarrow>
         (case errs of
            [] \<Rightarrow> deleteBatches v bucket rest
          | msg # _ \<Rightarrow> ret (Some (msgError ''failed to delete objects'' [show_nat (length errs), toStr msg])))
   }"

text \<open>Out of budget, the deadline of the pass has passed and the next listing fails with it.\<close>

primrec versionPages :: "env \<Rightarrow> string \<Rightarrow> nat \<Rightarrow> string option \<times> string option \<Rightarrow> go_error option op" where
  "versionPages v bucket 0 marker = ret (Some (wrapf ''listing object versions'' [] (ExtError deadlineExceeded)))"
| "versionPages v bucket (Suc n) marker = do {
     r \<leftarrow> s3_ListObjectVersions v bucket (fst marker) (snd marker) None;
     case r of
       Inl err \<Rightarrow> ret (if notFound_s3 err then None else Some (wrapf ''listing object versions'' [] (ExtError err)))
     | Inr pg \<Rightarrow> do {
         e \<leftarrow> deleteBatches v bucket (batches (vp_Versions pg @ vp_DeleteMarkers pg));
         case e of
           Some err \<Rightarrow> ret (Some err)
         | None \<Rightarrow>
             if vp_IsTruncated pg \<noteq> Some True then ret None
             else versionPages v bucket n (vp_NextKeyMarker pg, vp_NextVersionIdMarker pg)
       }
   }"

definition deleteAllObjectVersions :: "env \<Rightarrow> pass \<Rightarrow> string \<Rightarrow> go_error option op" where
  "deleteAllObjectVersions v p bucket = versionPages v bucket (ps_pageBudget p) (None, None)"

definition errUploadsRemain :: go_error where
  "errUploadsRemain = msgError ''deadline reached with multipart uploads still to abort'' []"

text \<open>
  One page of uploads, each aborted by a goroutine of its own, in the order the scheduler runs them; the state is
  what the mutex protects: how many failed and the first failure.
\<close>

definition abortUpload :: "env \<Rightarrow> string \<Rightarrow> object_id \<Rightarrow> nat \<times> ext_error option \<Rightarrow> (nat \<times> ext_error option) op" where
  "abortUpload v bucket u st = do {
     expired \<leftarrow> ctx_Err v;
     if expired then ret st
     else do {
       r \<leftarrow> s3_AbortMultipartUpload v bucket u;
       case r of
         Inr _ \<Rightarrow> ret st
       | Inl err \<Rightarrow>
           if notFound_s3 err then ret st
           else do {
             late \<leftarrow> ctx_Err v;
             ret (if late then st else (Suc (fst st), if snd st = None then Some err else snd st))
           }
     }
   }"

primrec abortUploads :: "env \<Rightarrow> string \<Rightarrow> object_id list \<Rightarrow> nat \<times> ext_error option \<Rightarrow> (nat \<times> ext_error option) op" where
  "abortUploads v bucket [] st = ret st"
| "abortUploads v bucket (u # us) st = do { st1 \<leftarrow> abortUpload v bucket u st; abortUploads v bucket us st1 }"

primrec uploadPages ::
  "env \<Rightarrow> string \<Rightarrow> nat \<Rightarrow> string option \<times> string option \<Rightarrow> nat \<times> ext_error option \<Rightarrow> go_error option op" where
  "uploadPages v bucket 0 marker st = ret (Some errUploadsRemain)"
| "uploadPages v bucket (Suc n) marker st = do {
     r \<leftarrow> s3_ListMultipartUploads v bucket (fst marker) (snd marker);
     case r of
       Inl err \<Rightarrow>
         if notFound_s3 err then ret None
         else do {
           expired \<leftarrow> ctx_Err v;
           ret (Some (if expired then errUploadsRemain else wrapf ''listing multipart uploads'' [] (ExtError err)))
         }
     | Inr pg \<Rightarrow> do {
         us \<leftarrow> scheduled v (up_Uploads pg);
         st1 \<leftarrow> abortUploads v bucket us st;
         expired \<leftarrow> ctx_Err v;
         if expired then ret (Some errUploadsRemain)
         else if up_IsTruncated pg = Some True then uploadPages v bucket n (up_NextKeyMarker pg, up_NextUploadIdMarker pg) st1
         else ret (case st1 of (failed, firstErr) \<Rightarrow>
                if failed > 0 then Some (Errorf ''failed to abort multipart uploads'' [show_nat failed] (map_option ExtError firstErr)) else None)
       }
   }"

definition abortMultipartUploads :: "env \<Rightarrow> pass \<Rightarrow> string \<Rightarrow> go_error option op" where
  "abortMultipartUploads v p bucket = uploadPages v bucket (ps_pageBudget p) (None, None) (0, None)"

text \<open>\<^verbatim>\<open>errors.Is\<close> of the sentinel, which is only ever returned bare.\<close>

definition abortUploadsError :: "go_error \<Rightarrow> go_error" where
  "abortUploadsError err =
     (case wrapAWSError err ''aborting multipart uploads in bucket'' of
        ReconcileError e retryable reason wakes \<Rightarrow> ReconcileError e (retryable \<or> err = errUploadsRemain) reason wakes
      | other \<Rightarrow> other)"

definition deleteBucket :: "env \<Rightarrow> pass \<Rightarrow> ManagedResource \<Rightarrow> string \<Rightarrow> ledger \<Rightarrow> (ledger \<times> go_error option) op" where
  "deleteBucket v p entry bucket l = do {
     e1 \<leftarrow> deleteAllObjectVersions v p bucket;
     case e1 of
       Some e \<Rightarrow> ret (l, Some (wrapAWSError e ''deleting objects in bucket''))
     | None \<Rightarrow> do {
         e2 \<leftarrow> abortMultipartUploads v p bucket;
         case e2 of
           Some e \<Rightarrow> ret (l, Some (abortUploadsError e))
         | None \<Rightarrow> do {
             r \<leftarrow> s3_DeleteBucket v bucket;
             case r of
               Inl err \<Rightarrow>
                 if notFound_s3 err then ret (RemoveManagedResource l typeS3 (mr_Name entry), None)
                 else ret (l, Some (wrapAWSError (ExtError err) ''deleting bucket''))
             | Inr _ \<Rightarrow> do {
                 recordEvent p ''Warning'' ''BucketDeleted'' [mr_Name entry, mr_ARN entry];
                 ret (RemoveManagedResource l typeS3 (mr_Name entry), None)
               }
           }
       }
   }"

definition waitsQuietly_s3 :: "pass \<Rightarrow> ManagedResource \<Rightarrow> bool" where
  "waitsQuietly_s3 p entry =
     (case mr_PendingDeletionSince entry of None \<Rightarrow> False
      | Some t \<Rightarrow> since (ps_now p) t < deletionQuietWindow_s3 \<or> \<not> NeedsEmptyCheck (ps_now p) entry)"

definition deleteUndeclared_s3 ::
  "env \<Rightarrow> pass \<Rightarrow> bool \<Rightarrow> ManagedResource \<Rightarrow> ledger \<Rightarrow> bucket_result list
   \<Rightarrow> (ledger \<times> bucket_result list \<times> go_error option) op" where
  "deleteUndeclared_s3 v p forceDeleteAll entry l results =
     (let forced = (mr_Force entry \<or> forceDeleteAll) in
      if \<not> forced \<and> waitsQuietly_s3 p entry
      then ret (l, results @ [(mr_Name entry, pendingDeletionReason_s3 p (the (mr_PendingDeletionSince entry)))], None)
      else case bucketNameFromARN (mr_ARN entry) of
        Inl nameErr \<Rightarrow> ret (l, results, Some nameErr)
      | Inr bucket \<Rightarrow> do {
          r \<leftarrow> verifyOwned_s3 v p entry bucket;
          case r of
            Inl err \<Rightarrow> ret (l, results, Some err)
          | Inr gone \<Rightarrow>
              if gone then ret (RemoveManagedResource l typeS3 (mr_Name entry), results, None)
              else do {
                (l1, results1, proceed, err) \<leftarrow> (if forced then ret (l, results, True, None) else gateOnEmpty_s3 v p entry bucket l results);
                if err \<noteq> None \<or> \<not> proceed then ret (l1, results1, err)
                else do {
                  (l2, err2) \<leftarrow> deleteBucket v p entry bucket l1;
                  ret (l2, results1, err2)
                }
              }
        })"

primrec cleanupBuckets ::
  "env \<Rightarrow> pass \<Rightarrow> (string \<Rightarrow> bool) \<Rightarrow> bool \<Rightarrow> ManagedResource list
   \<Rightarrow> ledger \<times> bucket_result list \<times> go_error option \<Rightarrow> (ledger \<times> bucket_result list \<times> go_error option) op" where
  "cleanupBuckets v p declared force [] acc = ret acc"
| "cleanupBuckets v p declared force (entry # rest) acc =
     (case acc of (l, results, firstErr) \<Rightarrow>
        if mr_Type entry \<noteq> typeS3 then cleanupBuckets v p declared force rest acc
        else do {
          (l1, results1, entryErr) \<leftarrow>
            (if declared (mr_Name entry)
             then do { (l1, e) \<leftarrow> restoreDeclared_s3 v p entry l; ret (l1, results, e) }
             else if mr_DeletionPolicy entry \<noteq> DeletionPolicyDelete then retain_s3 v p entry l results
             else deleteUndeclared_s3 v p force entry l results);
          cleanupBuckets v p declared force rest (l1, results1, firstError firstErr entryErr)
        })"

definition Cleanup_s3 ::
  "env \<Rightarrow> pass \<Rightarrow> S3Spec option \<Rightarrow> ledger \<Rightarrow> bool \<Rightarrow> bool \<Rightarrow> (ledger \<times> bucket_result list \<times> go_error option) op" where
  "Cleanup_s3 v p spec l deleting forceDeleteAll =
     cleanupBuckets v p (declaredBucketNames spec deleting) forceDeleteAll l (l, [], None)"

end
