(* ===== verification/S3_Safety.thy ===== *)
theory S3_Safety
  imports S3 Gated_Deletion
begin

text \<open>
  What the S3 package never does, whatever AWS answers: delete a bucket, an object or an upload unless the conditions of a
  deletion hold, create a bucket that exists, write tags that lose those of others, or suspend versioning that the spec does
  not turn off. Last, that the comparison of lifecycle rules decides equality of what the rules say.
\<close>

section \<open>Footprints\<close>

lemma s3_emits_op:
  "(\<And>r. C (S3Call (HeadBucket b r))) \<Longrightarrow> emits C (s3_HeadBucket v b)"
  "(\<And>r. C (S3Call (CreateBucket b t loc r))) \<Longrightarrow> emits C (s3_CreateBucket v b t loc)"
  "(\<And>r. C (S3Call (DeleteBucket b r))) \<Longrightarrow> emits C (s3_DeleteBucket v b)"
  "(\<And>r. C (S3Call (GetBucketTagging b r))) \<Longrightarrow> emits C (s3_GetBucketTagging v b)"
  "(\<And>r. C (S3Call (PutBucketTagging b t r))) \<Longrightarrow> emits C (s3_PutBucketTagging v b t)"
  "(\<And>r. C (S3Call (GetBucketVersioning b r))) \<Longrightarrow> emits C (s3_GetBucketVersioning v b)"
  "(\<And>r. C (S3Call (PutBucketVersioning b s r))) \<Longrightarrow> emits C (s3_PutBucketVersioning v b s)"
  "(\<And>r. C (S3Call (GetBucketLifecycleConfiguration b r))) \<Longrightarrow> emits C (s3_GetBucketLifecycleConfiguration v b)"
  "(\<And>r. C (S3Call (PutBucketLifecycleConfiguration b rs r))) \<Longrightarrow> emits C (s3_PutBucketLifecycleConfiguration v b rs)"
  "(\<And>r. C (S3Call (DeleteBucketLifecycle b r))) \<Longrightarrow> emits C (s3_DeleteBucketLifecycle v b)"
  "(\<And>r. C (S3Call (ListObjectVersions b k i m r))) \<Longrightarrow> emits C (s3_ListObjectVersions v b k i m)"
  "(\<And>r. C (S3Call (DeleteObjects b ids r))) \<Longrightarrow> emits C (s3_DeleteObjects v b ids)"
  "(\<And>r. C (S3Call (ListMultipartUploads b k i r))) \<Longrightarrow> emits C (s3_ListMultipartUploads v b k i)"
  "(\<And>r. C (S3Call (AbortMultipartUpload b u r))) \<Longrightarrow> emits C (s3_AbortMultipartUpload v b u)"
  "(\<And>r. C (S3Call (GetBucketEncryption b r))) \<Longrightarrow> emits C (s3_GetBucketEncryption v b)"
  "(\<And>r. C (S3Call (PutBucketEncryption b k' r))) \<Longrightarrow> emits C (s3_PutBucketEncryption v b k')"
  "(\<And>r. C (S3Call (GetBucketPolicy b r))) \<Longrightarrow> emits C (s3_GetBucketPolicy v b)"
  "(\<And>r. C (S3Call (PutBucketPolicy b s r))) \<Longrightarrow> emits C (s3_PutBucketPolicy v b s)"
  "(\<And>r. C (S3Call (DeleteBucketPolicy b r))) \<Longrightarrow> emits C (s3_DeleteBucketPolicy v b)"
  "(\<And>r. C (S3Call (GetBucketWebsite b r))) \<Longrightarrow> emits C (s3_GetBucketWebsite v b)"
  "(\<And>r. C (S3Call (GetBucketPolicyStatus b r))) \<Longrightarrow> emits C (s3_GetBucketPolicyStatus v b)"
  "(\<And>r. C (S3Call (GetPublicAccessBlock b r))) \<Longrightarrow> emits C (s3_GetPublicAccessBlock v b)"
  "(\<And>r. C (S3Call (GetBucketAcl b r))) \<Longrightarrow> emits C (s3_GetBucketAcl v b)"
  "(\<And>r. C (ContextCall r)) \<Longrightarrow> emits C (ctx_Err v)"
  by (simp_all add: op_defs emits_invoke)

lemmas s3_rules = emits_intros s3_emits_op

text \<open>What destroys something in bucket \<open>b\<close>: the bucket itself, objects, uploads.\<close>

definition destroys :: "string \<Rightarrow> call \<Rightarrow> bool" where
  "destroys b c \<longleftrightarrow> (\<exists>r. c = S3Call (DeleteBucket b r)) \<or> (\<exists>ids r. c = S3Call (DeleteObjects b ids r))
     \<or> (\<exists>u r. c = S3Call (AbortMultipartUpload b u r))"

text \<open>Calls that neither destroy nor create anything, nor write tags or versioning.\<close>

definition calmBucket :: "call \<Rightarrow> bool" where
  "calmBucket c = (case c of S3Call q \<Rightarrow> (case q of DeleteBucket _ _ \<Rightarrow> False | DeleteObjects _ _ _ \<Rightarrow> False | AbortMultipartUpload _ _ _ \<Rightarrow> False
     | PutBucketTagging _ _ _ \<Rightarrow> False | CreateBucket _ _ _ _ \<Rightarrow> False | PutBucketVersioning _ _ _ \<Rightarrow> False | _ \<Rightarrow> True) | _ \<Rightarrow> True)"

lemma keyCall_calmBucket: "keyCall c \<Longrightarrow> calmBucket c"
  by (cases c) (auto simp: calmBucket_def)

lemma calmBucket_key: "emits keyCall m \<Longrightarrow> emits calmBucket m"
  by (erule emits_mono) (rule keyCall_calmBucket)

lemma calmBucket_policy:
  "emits calmBucket (readPolicy_s3 v b)" "emits calmBucket (writePolicy_s3 v b d)" "emits calmBucket (deleteBucketPolicy v b)"
  unfolding readPolicy_s3_def writePolicy_s3_def deleteBucketPolicy_def
  by (intro s3_rules; simp add: calmBucket_def)+

lemma calmBucket_policy_edits:
  "emits calmBucket (addPendingDeletionDeny_s3 v b)" "emits calmBucket (removePendingDeletionDeny_s3 v b)"
  "emits calmBucket (syncDeclaredPolicy v b want)"
  unfolding addPendingDeletionDeny_s3_def removePendingDeletionDeny_s3_def syncDeclaredPolicy_def Let_def
  by (intro s3_rules calmBucket_policy)+

lemma calmBucket_exposure: "emits calmBucket (reconcileTransportSecurity v p b)" "emits calmBucket (warnIfPublic v p b)"
  unfolding reconcileTransportSecurity_def hasWebsite_def warnIfPublic_def publicExposure_def publicAccessBlock_def
    policyIsPublic_def aclIsPublic_def Let_def
  by (intro s3_rules calmBucket_policy_edits; simp add: calmBucket_def)+

lemma calmBucket_attributes:
  "emits calmBucket (reconcileEncryption v b opts)" "emits calmBucket (reconcileLifecycle v b opts)" "emits calmBucket (bucketKMSKey v b)"
  unfolding reconcileEncryption_def currentBucketEncryption_def reconcileLifecycle_def bucketKMSKey_def Let_def
  by (intro s3_rules; simp add: calmBucket_def)+

text \<open>Versioning is written as the spec explicitly says, or turned on; it is suspended only when the spec says so.\<close>

definition attributeCall :: "bucketOptions \<Rightarrow> call \<Rightarrow> bool" where
  "attributeCall opts c \<longleftrightarrow> calmBucket c \<or> (\<exists>b s r. c = S3Call (PutBucketVersioning b s r)
     \<and> (s \<noteq> ''Enabled'' \<longrightarrow> bo_versioningOverride opts = Some False))"

lemma attributeCall_calm: "emits calmBucket m \<Longrightarrow> emits (attributeCall opts) m"
  by (erule emits_mono) (simp add: attributeCall_def)

lemma attributeCall_reconcile: "emits (attributeCall opts) (reconcileBucketAttributes v b opts)"
proof -
  have "emits (attributeCall opts) (reconcileVersioning v b opts)"
    unfolding reconcileVersioning_def Let_def
    by (intro s3_rules) (auto simp: attributeCall_def calmBucket_def split: option.splits)
  then show ?thesis
    unfolding reconcileBucketAttributes_def
    by (intro s3_rules attributeCall_calm [OF calmBucket_attributes(1)] attributeCall_calm [OF calmBucket_attributes(2)])
qed

section \<open>Tags and creation\<close>

definition bucketTagsRead :: "history \<Rightarrow> string \<Rightarrow> tags \<Rightarrow> bool" where
  "bucketTagsRead pre b m \<longleftrightarrow> (\<exists>ts. S3Call (GetBucketTagging b (Inr ts)) \<in> set pre \<and> m = tagsToMap ts)
     \<or> (\<exists>e. S3Call (GetBucketTagging b (Inl e)) \<in> set pre \<and> isNoSuchTagSet e \<and> m = (\<lambda>_. None))"

definition ownTagKeys :: "string set" where
  "ownTagKeys = {OwnerTagKey, OwnerUIDTagKey} \<union> set ReleasedTagKeys"

definition keepsForeignTags :: "tags \<Rightarrow> tags \<Rightarrow> bool" where
  "keepsForeignTags m t \<longleftrightarrow> (\<forall>k. k \<notin> ownTagKeys \<longrightarrow> t k = m k)"

text \<open>
  A write of tags follows a reading of them that shows the bucket may be taken over or is ours, and keeps the tags of
  others, since the write replaces the whole set; a creation follows the answer that there is no such bucket; versioning is suspended
  only for a bucket whose spec turns it off.
\<close>

definition s3Guard :: "pass \<Rightarrow> bool \<Rightarrow> history \<Rightarrow> call \<Rightarrow> bool" where
  "s3Guard p suspends pre c = (case c of
     S3Call (PutBucketTagging b t r) \<Rightarrow>
       \<exists>m. bucketTagsRead pre b m \<and> ours p m \<and> keepsForeignTags m t \<and> (owned_by_pass p t \<or> owned_by_pass p m \<and> t OwnerTagKey = None)
   | S3Call (CreateBucket b t loc r) \<Rightarrow> t = ownerTags p \<and> (\<exists>e. S3Call (HeadBucket b (Inl e)) \<in> set pre \<and> notFound_s3 e)
   | S3Call (PutBucketVersioning b s r) \<Rightarrow> s = ''Enabled'' \<or> suspends
   | _ \<Rightarrow> True)"

lemma bucketTagsRead_mono: "bucketTagsRead pre b m \<Longrightarrow> set pre \<subseteq> set pre' \<Longrightarrow> bucketTagsRead pre' b m"
  unfolding bucketTagsRead_def by blast

lemma s3Guard_mono: "s3Guard p f pre c \<Longrightarrow> set pre \<subseteq> set pre' \<Longrightarrow> s3Guard p f pre' c"
  unfolding s3Guard_def by (auto split: call.splits s3_call.splits) (blast intro: bucketTagsRead_mono)+

lemma leftmono_s3Guard: "leftmono (s3Guard p f)"
  unfolding leftmono_def by (intro allI impI) (erule s3Guard_mono, simp)

lemma s3Guard_calm: "calmBucket c \<Longrightarrow> s3Guard p f pre c"
  by (auto simp: calmBucket_def s3Guard_def split: call.splits s3_call.splits)

lemma s3Guard_attribute: "attributeCall opts c \<Longrightarrow> (bo_versioningOverride opts = Some False \<longrightarrow> f) \<Longrightarrow> s3Guard p f pre c"
  by (auto simp: attributeCall_def s3Guard_calm) (auto simp: s3Guard_def)

lemma guards_calmBucket: "emits calmBucket m \<Longrightarrow> guards (s3Guard p f) m"
  by (erule guards_emits) (rule s3Guard_calm)

lemma guards_attributes:
  "(bo_versioningOverride opts = Some False \<longrightarrow> f) \<Longrightarrow> guards (s3Guard p f) (reconcileBucketAttributes v b opts)"
  by (rule guards_emits [OF attributeCall_reconcile]) (rule s3Guard_attribute)

lemmas s3_guard_rules = guards_intros guards_bind [OF leftmono_s3Guard]

lemma guards_createBucketIfMissing: "guards (s3Guard p f) (createBucketIfMissing v p region b)"
  unfolding createBucketIfMissing_def s3_HeadBucket_def
proof (rule guards_after_invoke [where C = "\<lambda>r c. calmBucket c \<or> (\<exists>e loc x. r = Inl e \<and> notFound_s3 e \<and> c = S3Call (CreateBucket b (ownerTags p) loc x))"])
  show "s3Guard p f [] (S3Call (HeadBucket b r))" for r by (simp add: s3Guard_def)
  show "s3Guard p f (S3Call (HeadBucket b r) # x) c"
    if "calmBucket c \<or> (\<exists>e loc y. r = Inl e \<and> notFound_s3 e \<and> c = S3Call (CreateBucket b (ownerTags p) loc y))" for r x c
    using that by (auto simp: s3Guard_calm) (auto simp: s3Guard_def)
qed (intro s3_rules; auto)

lemma existing_ours_bucket: "CheckExistingOwnership p kind name tm adopt = Inr t \<Longrightarrow> ours p tm"
  by (auto simp: CheckExistingOwnership_def ours_def split: option.splits if_splits)

lemma merged_keeps: "keepsForeignTags m (WithoutReleaseTags (MergeTags m (ownerTags p)))"
  by (auto simp: keepsForeignTags_def ownTagKeys_def WithoutReleaseTags_def deleteKeys_def MergeTags_def ownerTags_def map_add_def)

lemma released_keeps: "keepsForeignTags m (withoutOwnerTags m)" "ReleaseTags p = Some rel \<Longrightarrow> keepsForeignTags m (MergeTags (withoutOwnerTags m) rel)"
  "withoutOwnerTags m OwnerTagKey = None" "ReleaseTags p = Some rel \<Longrightarrow> MergeTags (withoutOwnerTags m) rel OwnerTagKey = None"
  by (auto simp: keepsForeignTags_def ownTagKeys_def withoutOwnerTags_def ReleaseTags_def ReleasedTagKeys_def MergeTags_def map_add_def
      ReleasedFromTagKey_def ReleasedAtTagKey_def OwnerTagKey_def split: if_splits)

lemma not_owned_untagged: "\<not> owned_by_pass p (\<lambda>_. None)"
  by (simp add: IsOwnedBy_def OwnerTagValue_def)

lemma owned_ours_bucket: "owned_by_pass p m \<Longrightarrow> ours p m"
  by (auto simp: IsOwnedBy_def ours_def goget_def split: option.splits)

text \<open>What may follow the reading of a bucket's tags.\<close>

definition afterBucketTags :: "pass \<Rightarrow> bool \<Rightarrow> string \<Rightarrow> aws_tag list reply \<Rightarrow> call \<Rightarrow> bool" where
  "afterBucketTags p f b res c \<longleftrightarrow> s3Guard p f [S3Call (GetBucketTagging b res)] c"

lemma afterBucketTags_calm: "emits calmBucket m \<Longrightarrow> emits (afterBucketTags p f b res) m"
  by (erule emits_mono) (simp add: afterBucketTags_def s3Guard_calm)

lemma guards_after_tags:
  assumes "\<And>res. emits (afterBucketTags p f b res) (g res)"
  shows "guards (s3Guard p f) (State_Monad.bind (s3_GetBucketTagging v b) g)"
  unfolding s3_GetBucketTagging_def
proof (rule guards_after_invoke [OF _ _ assms])
  show "s3Guard p f (S3Call (GetBucketTagging b res) # x) c" if "afterBucketTags p f b res c" for res x c
    using that unfolding afterBucketTags_def by (rule s3Guard_mono) simp
qed (simp add: s3Guard_def)

lemma afterBucketTags_put:
  assumes "(\<exists>ts. res = Inr ts \<and> m = tagsToMap ts) \<or> (\<exists>e. res = Inl e \<and> isNoSuchTagSet e \<and> m = (\<lambda>_. None))"
    and "ours p m" "keepsForeignTags m t" "owned_by_pass p t \<or> owned_by_pass p m \<and> t OwnerTagKey = None"
  shows "afterBucketTags p f b res (S3Call (PutBucketTagging b t r))"
  unfolding afterBucketTags_def s3Guard_def using assms by (auto simp: bucketTagsRead_def)

lemma afterBucketTags_adoptBucket:
  assumes "(\<exists>ts. res = Inr ts \<and> m = tagsToMap ts) \<or> (\<exists>e. res = Inl e \<and> isNoSuchTagSet e \<and> m = (\<lambda>_. None))"
  shows "emits (afterBucketTags p f b res) (adoptBucket v p b m opts)"
  unfolding adoptBucket_def
  by (intro s3_rules afterBucketTags_calm [OF calmBucket_attributes(3)] afterBucketTags_calm [OF calmBucket_key [OF keyCall_AdoptedKeyCheck]]
      afterBucketTags_put [OF assms] existing_ours_bucket merged_keeps) (simp_all add: owned_WithoutReleaseTags)

lemma guards_ensureBucketVerified:
  assumes "bo_versioningOverride opts = Some False \<longrightarrow> f"
  shows "guards (s3Guard p f) (ensureBucketVerified v p region b rn opts l)"
proof -
  have attr: "emits (afterBucketTags p f b res) (reconcileBucketAttributes v b opts)" for res
    by (rule emits_mono [OF attributeCall_reconcile]) (simp add: afterBucketTags_def s3Guard_attribute assms)
  have tail: "emits (afterBucketTags p f b res) (ensureTaggedBucket v p b rn opts l m)"
    if "(\<exists>ts. res = Inr ts \<and> m = tagsToMap ts) \<or> (\<exists>e. res = Inl e \<and> isNoSuchTagSet e \<and> m = (\<lambda>_. None))" for res m
    unfolding ensureTaggedBucket_def
    by (intro s3_rules afterBucketTags_adoptBucket [OF that] attr afterBucketTags_calm [OF calmBucket_exposure(1)]
        afterBucketTags_calm [OF calmBucket_exposure(2)])
  show ?thesis
    unfolding ensureBucketVerified_def readBucketTags_def bind_assoc
    by (rule guards_bind [OF leftmono_s3Guard guards_createBucketIfMissing], intro guards_option guards_ret guards_after_tags)
      (auto simp: emits_ret split: sum.split intro!: tail)
qed

lemma guards_ensureBucket:
  assumes "bo_versioningOverride opts = Some False \<longrightarrow> f"
  shows "guards (s3Guard p f) (ensureBucket v p region acc rn opts l)"
  unfolding ensureBucket_def ensureWithinTrust_s3_def Let_def
  by (intro s3_guard_rules guards_ensureBucketVerified assms guards_attributes guards_calmBucket emits_recordEvent)

definition suspendsVersioning :: "S3Spec option \<Rightarrow> bool" where
  "suspendsVersioning spec \<longleftrightarrow>
     (\<exists>s b ov. spec = Some s \<and> b \<in> set (s3_Resources s) \<and> b_Overrides b = Some ov \<and> s3o_VersioningEnabled ov = Some False)"

lemma guards_Ensure_s3: "guards (s3Guard p (suspendsVersioning spec)) (Ensure_s3 v p region acc spec l)"
proof (cases spec)
  case (Some s)
  have "guards (s3Guard p (suspendsVersioning spec)) (ensureBuckets v p region acc bs l e)" if "set bs \<subseteq> set (s3_Resources s)" for bs l e
    using that
  proof (induction bs arbitrary: l e)
    case (Cons b bs)
    have "bo_versioningOverride (bucketOptionsOf b key) = Some False \<longrightarrow> suspendsVersioning spec" for key
      using Cons.prems Some by (auto simp: bucketOptionsOf_def suspendsVersioning_def Let_def split: option.splits)
    moreover have "guards (s3Guard p (suspendsVersioning spec)) (ensureBuckets v p region acc bs l e)" for l e
      by (rule Cons.IH) (use Cons.prems in simp)
    ultimately show ?case unfolding ensureBuckets.simps
      by (intro s3_guard_rules guards_ensureBucket guards_calmBucket [OF calmBucket_key [OF keyCall_resolveEncryptionKey]])
  qed (simp add: guards_ret)
  with Some show ?thesis by (simp add: Ensure_s3_def)
qed (simp add: Ensure_s3_def guards_ret)

lemma guards_retain_s3: "guards (s3Guard p f) (retain_s3 v p entry l res)"
proof -
  have "guards (s3Guard p f) (relinquishIfStillTagged_s3 v p entry)"
    unfolding relinquishIfStillTagged_s3_def
    by (intro guards_sum guards_ret guards_after_tags, intro s3_rules)
      (auto intro!: afterBucketTags_put intro: released_keeps owned_ours_bucket)
  then show ?thesis
    unfolding retain_s3_def Let_def by (intro s3_guard_rules guards_calmBucket [OF emits_recordEvent])
qed

section \<open>The conditions of a deletion\<close>

definition keepsBuckets :: "call \<Rightarrow> bool" where
  "keepsBuckets c \<longleftrightarrow> (\<forall>b. \<not> destroys b c)"

lemma attribute_keeps: "attributeCall opts c \<Longrightarrow> keepsBuckets c" "calmBucket c \<Longrightarrow> keepsBuckets c"
  by (auto simp: keepsBuckets_def destroys_def calmBucket_def attributeCall_def)

lemma keepsBuckets_simps [simp]:
  "keepsBuckets (S3Call (PutBucketTagging b t r))" "keepsBuckets (S3Call (CreateBucket b t loc r1))"
  "keepsBuckets (S3Call (GetBucketTagging b r2))" "keepsBuckets (S3Call (HeadBucket b r3))"
  by (simp_all add: keepsBuckets_def destroys_def)

lemma keepsBuckets_calm: "emits calmBucket m \<Longrightarrow> emits keepsBuckets m"
  by (erule emits_mono) (rule attribute_keeps)

lemma keepsBuckets_Ensure: "emits keepsBuckets (Ensure_s3 v p region acc spec l)"
proof -
  have attr: "emits keepsBuckets (reconcileBucketAttributes v b opts)" for b opts
    by (rule emits_mono [OF attributeCall_reconcile]) (rule attribute_keeps)
  have "emits keepsBuckets (ensureBuckets v p region acc bs l e)" for bs l e
  proof (induction bs arbitrary: l e)
    case (Cons b bs)
    show ?case
      unfolding ensureBuckets.simps ensureBucket_def ensureWithinTrust_s3_def ensureBucketVerified_def createBucketIfMissing_def
        readBucketTags_def ensureTaggedBucket_def adoptBucket_def Let_def
      by (intro s3_rules attr Cons.IH keepsBuckets_calm [OF calmBucket_key [OF keyCall_resolveEncryptionKey]]
          keepsBuckets_calm [OF calmBucket_key [OF keyCall_AdoptedKeyCheck]] keepsBuckets_calm [OF calmBucket_attributes(3)]
          keepsBuckets_calm [OF calmBucket_exposure(1)] keepsBuckets_calm [OF calmBucket_exposure(2)]) simp_all
  qed (simp add: emits_ret)
  then show ?thesis unfolding Ensure_s3_def by (intro emits_intros)
qed

lemma keepsBuckets_retain: "emits keepsBuckets (retain_s3 v p entry l res)"
  unfolding retain_s3_def relinquishIfStillTagged_s3_def Let_def by (intro s3_rules) simp_all

lemma keepsBuckets_restore: "emits keepsBuckets (restoreDeclared_s3 v p entry l)"
  unfolding restoreDeclared_s3_def by (intro s3_rules keepsBuckets_calm [OF calmBucket_policy_edits(2)])

definition bucketSeenOwned :: "pass \<Rightarrow> ManagedResource \<Rightarrow> history \<Rightarrow> string \<Rightarrow> bool" where
  "bucketSeenOwned p entry pre b \<longleftrightarrow> bucketNameFromARN (mr_ARN entry) = Inr b
     \<and> (\<exists>ts. S3Call (GetBucketTagging b (Inr ts)) \<in> set pre \<and> owned_by_pass p (tagsToMap ts))"

text \<open>A listing that shows no version and no delete marker.\<close>

definition bucketSeenEmpty :: "history \<Rightarrow> string \<Rightarrow> bool" where
  "bucketSeenEmpty pre b \<longleftrightarrow> (\<exists>pg. S3Call (ListObjectVersions b None None (Some 1) (Inr pg)) \<in> set pre
     \<and> vp_Versions pg = [] \<and> vp_DeleteMarkers pg = [])"

abbreviation bucketDeletionGuard :: "pass \<Rightarrow> (string \<Rightarrow> bool) \<Rightarrow> bool \<Rightarrow> ledger \<Rightarrow> history \<Rightarrow> call \<Rightarrow> bool" where
  "bucketDeletionGuard p \<equiv> deletionGuard destroys (bucketSeenOwned p) bucketSeenEmpty typeS3 p"

definition verifyBucket :: "env \<Rightarrow> pass \<Rightarrow> ManagedResource \<Rightarrow> (go_error + string option) op" where
  "verifyBucket v p entry = (case bucketNameFromARN (mr_ARN entry) of
     Inl nameErr \<Rightarrow> ret (Inl nameErr)
   | Inr bucket \<Rightarrow> do {
       r \<leftarrow> verifyOwned_s3 v p entry bucket;
       ret (map_sum id (\<lambda>gone. if gone then None else Some bucket) r)
     })"

lemma deleteUndeclared_s3_gated:
  "deleteUndeclared_s3 v p = gatedDelete (waitsQuietly_s3 p) (pendingDeletionReason_s3 p) (verifyBucket v p)
     (gateOnEmpty_s3 v p) (deleteBucket v p) typeS3"
proof (intro ext)
  fix f e l res
  have *: "State_Monad.bind (verifyBucket v p e) g = (case bucketNameFromARN (mr_ARN e) of
       Inl err \<Rightarrow> g (Inl err)
     | Inr b \<Rightarrow> State_Monad.bind (verifyOwned_s3 v p e b) (\<lambda>r. g (map_sum id (\<lambda>gone. if gone then None else Some b) r)))" for g :: "_ \<Rightarrow> 'x op"
    by (simp add: verifyBucket_def split: sum.split)
  show "deleteUndeclared_s3 v p f e l res = gatedDelete (waitsQuietly_s3 p) (pendingDeletionReason_s3 p) (verifyBucket v p)
     (gateOnEmpty_s3 v p) (deleteBucket v p) typeS3 f e l res"
    unfolding deleteUndeclared_s3_def gatedDelete_def Let_def *
    by (intro if_cong refl) (auto split: sum.split intro!: arg_cong [where f = "State_Monad.bind _"] ext)
qed

lemma cleanupBuckets_loop:
  "cleanupBuckets v p declared force es acc =
     cleanupLoop typeS3 declared (restoreDeclared_s3 v p) (retain_s3 v p) (deleteUndeclared_s3 v p force) es acc"
  by (induction es arbitrary: acc) (simp_all split: prod.split)

text \<open>Emptying and deleting a bucket touches that bucket alone.\<close>

definition onBucket :: "string \<Rightarrow> call \<Rightarrow> bool" where
  "onBucket b c \<longleftrightarrow> (\<forall>b'. destroys b' c \<longrightarrow> b' = b)"

lemma onBucket_simps [simp]:
  "onBucket b (S3Call (DeleteBucket b r))" "onBucket b (S3Call (DeleteObjects b ids r1))" "onBucket b (S3Call (AbortMultipartUpload b u r2))"
  "onBucket b (S3Call (ListObjectVersions b' k i m r3))" "onBucket b (S3Call (ListMultipartUploads b' k i r4))" "onBucket b (ContextCall x)"
  by (simp_all add: onBucket_def destroys_def)

lemma onBucket_deleteAllObjectVersions: "emits (onBucket b) (deleteAllObjectVersions v p b)"
proof -
  have batch: "emits (onBucket b) (deleteBatches v b bs)" for bs
  proof (induction bs)
    case (Cons ids bs)
    then show ?case unfolding deleteBatches.simps by (intro s3_rules) simp_all
  qed (simp add: emits_ret)
  have "emits (onBucket b) (versionPages v b n m)" for n m
  proof (induction n arbitrary: m)
    case (Suc n)
    show ?case unfolding versionPages.simps by (intro s3_rules batch Suc.IH) simp
  qed (simp add: emits_ret)
  then show ?thesis by (simp add: deleteAllObjectVersions_def)
qed

lemma onBucket_abortMultipartUploads: "emits (onBucket b) (abortMultipartUploads v p b)"
proof -
  have aborts: "emits (onBucket b) (abortUploads v b us st)" for us st
  proof (induction us arbitrary: st)
    case (Cons u us)
    show ?case unfolding abortUploads.simps abortUpload_def by (intro s3_rules Cons.IH) simp_all
  qed (simp add: emits_ret)
  have "emits (onBucket b) (uploadPages v b n m st)" for n m st
  proof (induction n arbitrary: m st)
    case (Suc n)
    show ?case unfolding uploadPages.simps by (intro s3_rules aborts Suc.IH) simp_all
  qed (simp add: emits_ret)
  then show ?thesis by (simp add: abortMultipartUploads_def)
qed

lemma onBucket_deleteBucket: "emits (onBucket b) (deleteBucket v p e b l)"
  unfolding deleteBucket_def
  by (intro s3_rules onBucket_deleteAllObjectVersions onBucket_abortMultipartUploads) simp

lemma wp_gateOnEmpty_s3:
  "wp (gateOnEmpty_s3 v p e b l res) (\<lambda>(l1, res1, proceed, err) w'. \<exists>new. trace w' = trace w @ new \<and> (\<forall>c\<in>set new. keepsBuckets c)
     \<and> (proceed \<longrightarrow> mr_PendingDeletionSince e \<noteq> None \<and> bucketSeenEmpty new b)) w"
proof (cases "mr_PendingDeletionSince e = None")
  case True
  have "wp (addPendingDeletionDeny_s3 v b) (\<lambda>_ w'. \<exists>new. trace w' = trace w @ new \<and> (\<forall>c\<in>set new. keepsBuckets c)) w"
    by (rule wp_emits [OF keepsBuckets_calm [OF calmBucket_policy_edits(1)]])
  then show ?thesis
    unfolding gateOnEmpty_s3_def if_P [OF True] wp_bind
    by (rule wp_conseq) (auto simp: wp_simps split: option.split prod.split)
next
  case False
  have "wp (bucketIsEmpty v b) (\<lambda>r w'. \<exists>new. trace w' = trace w @ new \<and> (\<forall>c\<in>set new. keepsBuckets c)
     \<and> (r = Inr True \<longrightarrow> bucketSeenEmpty new b)) w"
    unfolding bucketIsEmpty_def
    by (auto simp: wp_simps s3_ListObjectVersions_def bucketSeenEmpty_def map_sum_def keepsBuckets_def destroys_def split: sum.split intro!: exI)
  then show ?thesis
    unfolding gateOnEmpty_s3_def if_not_P [OF False] wp_bind
    by (rule wp_conseq) (use False in \<open>auto simp: wp_simps split: sum.split prod.split\<close>)
qed

interpretation buckets: gated_deletion destroys "bucketSeenOwned p" bucketSeenEmpty "\<lambda>e h. bucketNameFromARN (mr_ARN e) = Inr h" typeS3 p
    "waitsQuietly_s3 p" "pendingDeletionReason_s3 p" "verifyBucket v p" "gateOnEmpty_s3 v p" "deleteBucket v p"
    "restoreDeclared_s3 v p" "retain_s3 v p" for v p
proof
  fix e h l and res :: "bucket_result list" and w :: world
  show "wp (verifyBucket v p e) (\<lambda>r w'. \<exists>new. trace w' = trace w @ new \<and> (\<forall>c\<in>set new. \<forall>h. \<not> destroys h c)
      \<and> (\<forall>h. r = Inr (Some h) \<longrightarrow> bucketNameFromARN (mr_ARN e) = Inr h \<and> bucketSeenOwned p e new h)) w"
    unfolding verifyBucket_def verifyOwned_s3_def
    by (auto simp: wp_simps s3_GetBucketTagging_def bucketSeenOwned_def not_owned_untagged destroys_def split: sum.split)
  show "wp (gateOnEmpty_s3 v p e h l res) (\<lambda>(l1, res1, proceed, err) w'. \<exists>new. trace w' = trace w @ new
      \<and> (\<forall>c\<in>set new. \<forall>h. \<not> destroys h c) \<and> (proceed \<longrightarrow> mr_PendingDeletionSince e \<noteq> None \<and> bucketSeenEmpty new h)) w"
    using wp_gateOnEmpty_s3 [of v p e h l res w] by (simp add: keepsBuckets_def)
  show "emits (\<lambda>c. \<forall>h'. destroys h' c \<longrightarrow> h' = h) (deleteBucket v p e h l)"
    using onBucket_deleteBucket by (simp add: onBucket_def [abs_def])
  show "emits (\<lambda>c. \<forall>h. \<not> destroys h c) (restoreDeclared_s3 v p e l)"
    using keepsBuckets_restore by (simp add: keepsBuckets_def [abs_def])
  show "emits (\<lambda>c. \<forall>h. \<not> destroys h c) (retain_s3 v p e l res)"
    using keepsBuckets_retain by (simp add: keepsBuckets_def [abs_def])
qed (auto simp: bucketSeenOwned_def bucketSeenEmpty_def waitsQuietly_s3_def quietlyPending_def deletionQuietWindow_s3_def not_less)


definition writesTags :: "call \<Rightarrow> bool" where
  "writesTags c \<longleftrightarrow> (\<exists>b t r. c = S3Call (PutBucketTagging b t r)) \<or> (\<exists>b t x r. c = S3Call (CreateBucket b t x r))
     \<or> (\<exists>b s r. c = S3Call (PutBucketVersioning b s r))"

lemma writesTags_simps [simp]:
  "\<not> writesTags (S3Call (DeleteBucket b r0))" "\<not> writesTags (S3Call (DeleteObjects b ids r1))"
  "\<not> writesTags (S3Call (AbortMultipartUpload b u r2))" "\<not> writesTags (S3Call (ListObjectVersions b k i m r3))"
  "\<not> writesTags (S3Call (ListMultipartUploads b k i r4))" "\<not> writesTags (S3Call (GetBucketTagging b r5))" "\<not> writesTags (ContextCall x)"
  by (simp_all add: writesTags_def)

lemma s3Guard_quiet: "\<not> writesTags c \<Longrightarrow> s3Guard p f pre c"
  by (auto simp: writesTags_def s3Guard_def split: call.splits s3_call.splits)

lemma quiet_calm: "emits calmBucket m \<Longrightarrow> emits (\<lambda>c. \<not> writesTags c) m"
  by (erule emits_mono) (auto simp: writesTags_def calmBucket_def)

lemma quiet_deleteBucket: "emits (\<lambda>c. \<not> writesTags c) (deleteBucket v p e b l)"
proof -
  have batch: "emits (\<lambda>c. \<not> writesTags c) (deleteBatches v b bs)" for bs
  proof (induction bs)
    case (Cons ids bs)
    then show ?case unfolding deleteBatches.simps by (intro s3_rules) simp_all
  qed (simp add: emits_ret)
  have pages: "emits (\<lambda>c. \<not> writesTags c) (versionPages v b n m)" for n m
  proof (induction n arbitrary: m)
    case (Suc n)
    show ?case unfolding versionPages.simps by (intro s3_rules batch Suc.IH) simp
  qed (simp add: emits_ret)
  have aborts: "emits (\<lambda>c. \<not> writesTags c) (abortUploads v b us st)" for us st
  proof (induction us arbitrary: st)
    case (Cons u us)
    show ?case unfolding abortUploads.simps abortUpload_def by (intro s3_rules Cons.IH) simp_all
  qed (simp add: emits_ret)
  have uploads: "emits (\<lambda>c. \<not> writesTags c) (uploadPages v b n m st)" for n m st
  proof (induction n arbitrary: m st)
    case (Suc n)
    show ?case unfolding uploadPages.simps by (intro s3_rules aborts Suc.IH) simp_all
  qed (simp add: emits_ret)
  show ?thesis
    unfolding deleteBucket_def deleteAllObjectVersions_def abortMultipartUploads_def by (intro s3_rules pages uploads) simp
qed

lemma guards_Cleanup_s3_tags: "guards (s3Guard p f) (Cleanup_s3 v p spec l deleting force)"
proof -
  have quiet: "emits (\<lambda>c. \<not> writesTags c) (deleteUndeclared_s3 v p force entry l res)" "emits (\<lambda>c. \<not> writesTags c) (restoreDeclared_s3 v p entry l)"
    for entry l res
    unfolding deleteUndeclared_s3_def verifyOwned_s3_def gateOnEmpty_s3_def bucketIsEmpty_def restoreDeclared_s3_def Let_def
    by (intro s3_rules quiet_deleteBucket quiet_calm [OF calmBucket_policy_edits(1)] quiet_calm [OF calmBucket_policy_edits(2)]; simp)+
  have "guards (s3Guard p f) (cleanupBuckets v p declared force es acc)" for declared es acc
  proof (induction es arbitrary: acc)
    case (Cons entry es)
    show ?case unfolding cleanupBuckets.simps
      by (intro s3_guard_rules Cons.IH guards_retain_s3 guards_emits [OF quiet(1) s3Guard_quiet] guards_emits [OF quiet(2) s3Guard_quiet])
  qed (simp add: guards_ret)
  then show ?thesis by (simp add: Cleanup_s3_def)
qed

section \<open>Properties\<close>

text \<open>C16: When buckets and what is in them may be destroyed, and whose tags are written. Ensuring declared buckets destroys
  nothing, creates a bucket only after AWS said there is none, and suspends versioning only when some bucket's spec turns it off. Cleaning up deletes
  a bucket, an object version or an unfinished upload only for an undeclared entry of policy Delete whose tags, read in the same run,
  show this custom resource as the owner, and, unless deletion is forced, after the ten minutes of the quiet window and a listing without any
  version or delete marker. In both, the tag set is written only after it was read, only of a bucket that is ours or may be taken over, and
  with every tag of others kept.\<close>

theorem bucket_deletion_conditions:
  "emits keepsBuckets (Ensure_s3 v p region acc spec l)
   \<and> guards (bucketDeletionGuard p (declaredBucketNames spec deleting) forceDeleteAll l) (Cleanup_s3 v p spec l deleting forceDeleteAll)
   \<and> guards (s3Guard p (suspendsVersioning spec)) (Ensure_s3 v p region acc spec l)
   \<and> guards (s3Guard p False) (Cleanup_s3 v p spec l deleting forceDeleteAll)"
proof (intro conjI)
  show "guards (bucketDeletionGuard p (declaredBucketNames spec deleting) forceDeleteAll l) (Cleanup_s3 v p spec l deleting forceDeleteAll)"
    unfolding Cleanup_s3_def cleanupBuckets_loop deleteUndeclared_s3_gated by (rule buckets.guards_cleanupLoop) simp
qed (rule keepsBuckets_Ensure guards_Ensure_s3 guards_Cleanup_s3_tags)+

section \<open>Lifecycle rules\<close>

text \<open>What a rule says, as far as the operator can set it: \<open>0\<close> days stand for a setting that is absent.\<close>

definition ruleView :: "LifecycleRule \<Rightarrow> string \<times> string \<times> string \<times> (int \<times> string) option \<times> int \<times> int" where
  "ruleView r = (toStr (lr_ID r), lr_Status r, (case lr_Filter r of None \<Rightarrow> [] | Some f \<Rightarrow> toStr (lf_Prefix f)),
     (case lr_Transitions r of [t] \<Rightarrow> Some (toInt (lt_Days t), lt_StorageClass t) | _ \<Rightarrow> None),
     (case lr_Expiration r of None \<Rightarrow> 0 | Some e \<Rightarrow> toInt (lx_Days e)),
     (case lr_NoncurrentVersionExpiration r of None \<Rightarrow> 0 | Some n \<Rightarrow> toInt (nv_NoncurrentDays n)))"

text \<open>A rule that uses nothing beyond that.\<close>

definition operatorShaped :: "LifecycleRule \<Rightarrow> bool" where
  "operatorShaped r \<longleftrightarrow> \<not> lr_AbortIncompleteMultipartUpload r \<and> lr_NoncurrentVersionTransitions r = 0 \<and> length (lr_Transitions r) \<le> 1
     \<and> toStr (lr_Prefix r) = []
     \<and> (\<forall>f. lr_Filter r = Some f \<longrightarrow> \<not> (lf_And f \<or> lf_Tag f \<or> lf_ObjectSizeGreaterThan f \<or> lf_ObjectSizeLessThan f))
     \<and> (\<forall>t\<in>set (lr_Transitions r). \<not> lt_Date t)
     \<and> (\<forall>e. lr_Expiration r = Some e \<longrightarrow> \<not> (lx_Date e \<or> lx_ExpiredObjectDeleteMarker e))
     \<and> (\<forall>n. lr_NoncurrentVersionExpiration r = Some n \<longrightarrow> \<not> nv_NewerNoncurrentVersions n)"

definition viewText :: "string \<times> string \<times> string \<times> (int \<times> string) option \<times> int \<times> int \<Rightarrow> string" where
  "viewText = (\<lambda>(i, st, pre, tr, ex, nc). join [st, pre, (case tr of None \<Rightarrow> [] | Some (d, c) \<Rightarrow> show_int d @ ''/'' @ c), show_int ex, show_int nc] ''|'')"

lemma fingerprint_view: "lifecycleRuleFingerprint r = (if operatorShaped r then Some (viewText (ruleView r)) else None)"
proof -
  consider "lr_Transitions r = []" | t where "lr_Transitions r = [t]" | t u ts where "lr_Transitions r = t # u # ts"
    by (metis list.exhaust)
  then show ?thesis
  proof cases
    case 3
    then show ?thesis by (simp add: lifecycleRuleFingerprint_def operatorShaped_def)
  qed (cases "lr_Filter r"; cases "lr_Expiration r"; cases "lr_NoncurrentVersionExpiration r";
      simp add: lifecycleRuleFingerprint_def operatorShaped_def viewText_def ruleView_def transitionText_def)+
qed

lemma buildLifecycleRule_shaped [simp]: "operatorShaped (buildLifecycleRule r)"
  by (auto simp: operatorShaped_def buildLifecycleRule_def toStr_def split: option.splits)

lemma show_int_fresh: "c \<in> set (show_int i) \<Longrightarrow> isDigit c \<or> c = CHR ''-''"
  by (auto simp: show_int_def dest: show_nat_digits split: if_splits)

lemma show_int_bars [simp]: "CHR ''|'' \<notin> set (show_int i)" "CHR ''/'' \<notin> set (show_int i)"
  using show_int_fresh [of "CHR ''|''" i] show_int_fresh [of "CHR ''/''" i] by (auto simp: isDigit_def byte_in_def)

lemma show_nat_dash: "CHR ''-'' \<notin> set (show_nat n)"
  using show_nat_digits [of "CHR ''-''" n] by (auto simp: isDigit_def byte_in_def)

lemma show_int_inject: "show_int i = show_int j \<longleftrightarrow> i = j"
proof -
  have "CHR ''-'' # s \<noteq> show_nat n" for s n using show_nat_dash [of n] by (metis list.set_intros(1))
  then show ?thesis by (auto simp: show_int_def show_nat_inject dest: sym)
qed

lemma viewText_inject:
  assumes same: "viewText (i, st, pre, tr, ex, nc) = viewText (i, st', [], tr', ex', nc')"
    and fresh: "CHR ''|'' \<notin> set st" "CHR ''|'' \<notin> set st'"
      "\<forall>d c. tr = Some (d, c) \<longrightarrow> CHR ''|'' \<notin> set c" "\<forall>d c. tr' = Some (d, c) \<longrightarrow> CHR ''|'' \<notin> set c"
  shows "(st, pre, tr, ex, nc) = (st', [], tr', ex', nc')"
proof -
  define tt :: "(int \<times> string) option \<Rightarrow> string" where "tt x = (case x of None \<Rightarrow> [] | Some (d, c) \<Rightarrow> show_int d @ ''/'' @ c)" for x
  have tt: "CHR ''|'' \<notin> set (tt tr)" "CHR ''|'' \<notin> set (tt tr')" using fresh(3,4) by (auto simp: tt_def split: option.split)
  have eq: "join [st, pre, tt tr, show_int ex, show_int nc] ''|'' = join [st', [], tt tr', show_int ex', show_int nc'] ''|''"
    using same by (simp add: viewText_def tt_def)
  have none: "filter (\<lambda>c. c = CHR ''|'') s = []" if "CHR ''|'' \<notin> set s" for s
    using that by (auto simp: filter_empty_conv)
  have "filter (\<lambda>c. c = CHR ''|'') pre = []"
    using arg_cong [OF eq, of "\<lambda>s. length (filter (\<lambda>c. c = CHR ''|'') s)"] by (simp add: join_Cons none tt fresh)
  then have "CHR ''|'' \<notin> set pre" by (auto simp: filter_empty_conv)
  then have parts: "[st, pre, tt tr, show_int ex, show_int nc] = [st', [], tt tr', show_int ex', show_int nc']"
    by (intro join_fresh_inj [OF eq]) (use tt fresh in auto)
  moreover have "tr = tr'"
  proof (cases tr; cases tr')
    fix x y assume "tr = Some x" "tr' = Some y"
    moreover have "d = d' \<and> c = c'" if "show_int d @ CHR ''/'' # c = show_int d' @ CHR ''/'' # c'" for d d' c c'
      using split_at_fresh [OF that show_int_bars(2) show_int_bars(2)] by (simp add: show_int_inject)
    moreover obtain d c d' c' where "x = (d, c)" "y = (d', c')" by (metis surj_pair)
    ultimately show ?thesis using parts by (simp add: tt_def) blast
  qed (use parts in \<open>auto simp: tt_def\<close>)
  ultimately show ?thesis by (simp add: show_int_inject)
qed

lemma wantedFingerprints_eq:
  "list_all operatorShaped rs \<Longrightarrow>
     wantedFingerprints rs want = Some (want ++ map_of (rev (map (\<lambda>r. (toStr (lr_ID r), viewText (ruleView r))) rs)))"
  by (induction rs arbitrary: want) (simp_all add: fingerprint_view map_add_def fun_eq_iff split: option.split)

lemma wantedFingerprints_lookup:
  assumes "list_all operatorShaped rs" "distinct (map (\<lambda>r. toStr (lr_ID r)) rs)" "wantedFingerprints rs (\<lambda>_. None) = Some want"
  shows "want i = Some fp \<longleftrightarrow> (\<exists>r\<in>set rs. toStr (lr_ID r) = i \<and> viewText (ruleView r) = fp)"
proof -
  let ?kv = "\<lambda>r. (toStr (lr_ID r), viewText (ruleView r))"
  have "Some ((\<lambda>_. None) ++ map_of (rev (map ?kv rs))) = Some want" using wantedFingerprints_eq [OF assms(1), of "\<lambda>_. None"] assms(3) by simp
  then have "want = map_of (rev (map ?kv rs))" by (auto simp: map_add_def fun_eq_iff split: option.splits)
  moreover have "distinct (map fst (rev (map ?kv rs)))" using assms(2) by (simp add: rev_map [symmetric] o_def)
  ultimately have "want i = Some fp \<longleftrightarrow> (i, fp) \<in> set (rev (map ?kv rs))" by (metis map_of_eq_Some_iff)
  then show ?thesis by auto
qed

lemma viewText_nonempty [simp]: "viewText x \<noteq> []"
  by (auto simp: viewText_def join_Cons split: prod.split)

lemma equal_text_equal_view:
  assumes fresh: "\<forall>r\<in>set rules. CHR ''|'' \<notin> set (slr_TransitionStorageClass r)"
      "\<forall>r\<in>set current. CHR ''|'' \<notin> set (lr_Status r) \<and> (\<forall>t\<in>set (lr_Transitions r). CHR ''|'' \<notin> set (lt_StorageClass t))"
    and h: "r \<in> set current" "d \<in> set (buildLifecycleRules rules)" "toStr (lr_ID d) = toStr (lr_ID r)"
      "viewText (ruleView d) = viewText (ruleView r)"
  shows "ruleView r = ruleView d"
proof -
  obtain s where s: "s \<in> set rules" "d = buildLifecycleRule s" using h(2) by (auto simp: buildLifecycleRules_def)
  have pre: "ruleView d = (slr_ID s, ''Enabled'', [], map_option (\<lambda>t. (t, slr_TransitionStorageClass s)) (slr_TransitionAfterDays s),
      toInt (slr_ExpirationAfterDays s), toInt (slr_NoncurrentVersionExpirationAfterDays s))"
    by (simp add: s ruleView_def buildLifecycleRule_def toStr_def toInt_def split: option.split)
  obtain st pfx tr ex nc where r: "ruleView r = (slr_ID s, st, pfx, tr, ex, nc)"
    using h(3) pre by (auto simp: ruleView_def)
  have "CHR ''|'' \<notin> set st" "\<forall>a c. tr = Some (a, c) \<longrightarrow> CHR ''|'' \<notin> set c"
    using fresh(2) h(1) r by (auto simp: ruleView_def split: list.splits)
  moreover have "\<forall>a c. map_option (\<lambda>t. (t, slr_TransitionStorageClass s)) (slr_TransitionAfterDays s) = Some (a, c) \<longrightarrow> CHR ''|'' \<notin> set c"
    using fresh(1) s(1) by auto
  moreover have "CHR ''|'' \<notin> set ''Enabled''" by simp
  ultimately show ?thesis
    using viewText_inject [OF h(4) [unfolded pre r, symmetric]] unfolding pre r by blast
qed

lemma same_views_same_length:
  assumes "distinct (map f xs)" "distinct (map f ys)"
  shows "length xs = length ys \<and> f ` set xs \<subseteq> f ` set ys \<longleftrightarrow> f ` set xs = f ` set ys"
proof -
  have len: "length xs = card (f ` set xs)" "length ys = card (f ` set ys)"
    using distinct_card [OF assms(1)] distinct_card [OF assms(2)] by simp_all
  show ?thesis using card_subset_eq [of "f ` set ys" "f ` set xs"] len by auto
qed

text \<open>The comparison of lifecycle rules is equality of what the rules say. When rule names are distinct on both sides and no status or
  storage class contains a vertical bar (S3 and the schema guarantee both), the textual fingerprints match exactly when the bucket has no rule
  with a setting the operator never writes and the bucket's rules and the wanted ones say the same, name by name: status, prefix, transition, expiration and
  expiration of old versions. So a rule somebody changed or added is always noticed, and a bucket that already has the wanted rules is never written.\<close>

theorem lifecycle_match_is_equality:
  assumes "distinct (map slr_ID rules)" "distinct (map (\<lambda>r. toStr (lr_ID r)) current)"
    and "\<forall>r\<in>set rules. CHR ''|'' \<notin> set (slr_TransitionStorageClass r)"
    and "\<forall>r\<in>set current. CHR ''|'' \<notin> set (lr_Status r) \<and> (\<forall>t\<in>set (lr_Transitions r). CHR ''|'' \<notin> set (lt_StorageClass t))"
  shows "lifecycleRulesMatch current (buildLifecycleRules rules) \<longleftrightarrow>
    (\<forall>r\<in>set current. operatorShaped r) \<and> ruleView ` set current = ruleView ` set (buildLifecycleRules rules)"
proof -
  let ?des = "buildLifecycleRules rules" and ?id = "\<lambda>r. toStr (lr_ID r)"
  have shaped: "list_all operatorShaped ?des" by (simp add: buildLifecycleRules_def list_all_iff)
  have ids: "distinct (map ?id ?des)" using assms(1) by (simp add: buildLifecycleRules_def buildLifecycleRule_def toStr_def o_def)
  obtain want where want: "wantedFingerprints ?des (\<lambda>_. None) = Some want" using wantedFingerprints_eq [OF shaped] by simp
  note look = wantedFingerprints_lookup [OF shaped ids want]
  have id_view: "?id r = fst (ruleView r)" for r by (simp add: ruleView_def)
  have dv: "distinct (map ruleView ?des)" "distinct (map ruleView current)"
    using ids assms(2) unfolding id_view by (auto simp: distinct_map inj_on_def)
  note same = equal_text_equal_view [OF assms(3,4)]
  have key: "(\<exists>d\<in>set ?des. ?id d = ?id r \<and> viewText (ruleView d) = viewText (ruleView r)) \<longleftrightarrow> ruleView r \<in> ruleView ` set ?des"
    if "r \<in> set current" for r
  proof
    assume "ruleView r \<in> ruleView ` set ?des"
    then obtain d where "d \<in> set ?des" "ruleView d = ruleView r" by force
    then show "\<exists>d\<in>set ?des. ?id d = ?id r \<and> viewText (ruleView d) = viewText (ruleView r)" unfolding id_view by (intro bexI [of _ d]) simp_all
  qed (use same [OF that] in blast)
  have "lifecycleRulesMatch current ?des \<longleftrightarrow> length current = length ?des
      \<and> (\<forall>r\<in>set current. operatorShaped r \<and> (\<exists>d\<in>set ?des. ?id d = ?id r \<and> viewText (ruleView d) = viewText (ruleView r)))"
  proof -
    have "goget want i = viewText x \<longleftrightarrow> want i = Some (viewText x)" for i x by (auto simp: goget_def split: option.splits) (metis viewText_nonempty)
    then show ?thesis
      unfolding lifecycleRulesMatch_def want look [symmetric] by (auto simp: fingerprint_view list_all_iff split: if_splits)
  qed
  also have "\<dots> \<longleftrightarrow> length current = length ?des \<and> (\<forall>r\<in>set current. operatorShaped r) \<and> ruleView ` set current \<subseteq> ruleView ` set ?des"
    by (simp add: key image_subset_iff ball_conj_distrib)
  also have "\<dots> \<longleftrightarrow> (\<forall>r\<in>set current. operatorShaped r) \<and> ruleView ` set current = ruleView ` set ?des"
    using same_views_same_length [OF dv(2,1)] by blast
  finally show ?thesis .
qed

definition demoRule :: S3LifecycleRule where
  "demoRule = \<lparr>slr_ID = ''old'', slr_TransitionAfterDays = Some 30, slr_TransitionStorageClass = ''GLACIER'',
     slr_ExpirationAfterDays = None, slr_NoncurrentVersionExpirationAfterDays = None\<rparr>"

theorem lifecycle_match_is_equality_witness:
  "lifecycleRulesMatch [buildLifecycleRule demoRule] (buildLifecycleRules [demoRule])
   \<and> \<not> lifecycleRulesMatch [(buildLifecycleRule demoRule)\<lparr>lr_Status := ''Disabled''\<rparr>] (buildLifecycleRules [demoRule])"
proof
  show "lifecycleRulesMatch [buildLifecycleRule demoRule] (buildLifecycleRules [demoRule])"
    by (subst lifecycle_match_is_equality) (simp_all add: demoRule_def buildLifecycleRule_def buildLifecycleRules_def operatorShaped_def toStr_def)
  show "\<not> lifecycleRulesMatch [(buildLifecycleRule demoRule)\<lparr>lr_Status := ''Disabled''\<rparr>] (buildLifecycleRules [demoRule])"
    by (subst lifecycle_match_is_equality) (simp_all add: demoRule_def buildLifecycleRule_def buildLifecycleRules_def ruleView_def)
qed

end
