(* ===== verification/Data_Sections.thy ===== *)
theory Data_Sections
  imports Deletion Dynamodb_Safety S3_Safety
begin

text \<open>
  The sections of a pass over tables and buckets, \<^verbatim>\<open>internal/controller/section_dynamodb.go\<close> and \<^verbatim>\<open>section_s3.go\<close>, and
  what they leave behind when a deletion is finished.
\<close>

section \<open>The sections\<close>

definition declaredTables :: "AppDependenciesSpec \<Rightarrow> nat" where
  "declaredTables spec = (case sp_DynamoDB spec of None \<Rightarrow> 0 | Some s \<Rightarrow> length (ddb_Resources s))"

definition waitingTable :: "table_result \<Rightarrow> string option" where
  "waitingTable res = (case res of (name, reason) \<Rightarrow>
     (case reason of
        TablePendingDeletion \<Rightarrow> Some (''dynamodb '' @ quoted name @ '': PendingDeletion'')
      | TableStuckPendingDeletion \<Rightarrow> Some (''dynamodb '' @ quoted name @ '': StuckPendingDeletion'')
      | TableRetained \<Rightarrow> None))"

definition reconcileTables :: "env \<Rightarrow> reconciler \<Rightarrow> pass \<Rightarrow> go_error option op" where
  "reconcileTables v r p = do {
     cr \<leftarrow> getCR;
     let t = sectionContext (ledgerOf cr) typeDynamoDB (declaredTables (ad_Spec cr));
     err \<leftarrow> ensureThenCleanup
       (\<lambda>cr. Ensure_ddb v (passFor r p cr t) (sp_DynamoDB (ad_Spec cr)) (ledgerOf cr))
       (\<lambda>cr. Cleanup_ddb v (passFor r p cr t) (sp_DynamoDB (ad_Spec cr)) (ledgerOf cr) False False);
     setSectionCondition r p conditionTypeDynamoDBReady err;
     ret err
   }"

definition dynamodbSection :: "env \<Rightarrow> reconciler \<Rightarrow> pass \<Rightarrow> Section" where
  "dynamodbSection v r p =
     \<lparr>sc_name = conditionTypeDynamoDBReady,
      sc_reconcile = reconcileTables v r p,
      sc_finalize = finalizeWith
        (\<lambda>cr. Cleanup_ddb v (passFor r p cr (sectionDeletionContext (ledgerOf cr) typeDynamoDB (declaredTables (ad_Spec cr))))
           (sp_DynamoDB (ad_Spec cr)) (ledgerOf cr) True (forceDeleteAll cr)) waitingTable\<rparr>"

definition declaredBuckets :: "AppDependenciesSpec \<Rightarrow> nat" where
  "declaredBuckets spec = (case sp_S3 spec of None \<Rightarrow> 0 | Some s \<Rightarrow> length (s3_Resources s))"

definition waitingBucket :: "bucket_result \<Rightarrow> string option" where
  "waitingBucket res = (case res of (name, reason) \<Rightarrow>
     (case reason of
        BucketPendingDeletion \<Rightarrow> Some (''s3 '' @ quoted name @ '': PendingDeletion'')
      | BucketStuckPendingDeletion \<Rightarrow> Some (''s3 '' @ quoted name @ '': StuckPendingDeletion'')
      | BucketRetained \<Rightarrow> None))"

definition reconcileBuckets :: "env \<Rightarrow> reconciler \<Rightarrow> pass \<Rightarrow> go_error option op" where
  "reconcileBuckets v r p = do {
     cr \<leftarrow> getCR;
     let t = sectionContext (ledgerOf cr) typeS3 (declaredBuckets (ad_Spec cr));
     err \<leftarrow> ensureThenCleanup
       (\<lambda>cr. Ensure_s3 v (passFor r p cr t) (rc_Region r) (rc_AccountID r) (sp_S3 (ad_Spec cr)) (ledgerOf cr))
       (\<lambda>cr. Cleanup_s3 v (passFor r p cr t) (sp_S3 (ad_Spec cr)) (ledgerOf cr) False False);
     setSectionCondition r p conditionTypeS3Ready err;
     ret err
   }"

definition s3Section :: "env \<Rightarrow> reconciler \<Rightarrow> pass \<Rightarrow> Section" where
  "s3Section v r p =
     \<lparr>sc_name = conditionTypeS3Ready,
      sc_reconcile = reconcileBuckets v r p,
      sc_finalize = finalizeWith
        (\<lambda>cr. Cleanup_s3 v (passFor r p cr (sectionDeletionContext (ledgerOf cr) typeS3 (declaredBuckets (ad_Spec cr))))
           (sp_S3 (ad_Spec cr)) (ledgerOf cr) True (forceDeleteAll cr)) waitingBucket\<rparr>"

section \<open>The cleanups leave the custom resource alone\<close>

lemma keepsCR_data_ops [keepsCR_intros]:
  "keepsCR (ddb_DescribeTable v n)" "keepsCR (ddb_UpdateTable v u)" "keepsCR (ddb_DeleteTable v n)" "keepsCR (ddb_GetResourcePolicy v a)"
  "keepsCR (ddb_PutResourcePolicy v a d x)" "keepsCR (ddb_DeleteResourcePolicy v a x)" "keepsCR (ddb_ListTagsOfResource v a k)"
  "keepsCR (ddb_TagResource v a t)" "keepsCR (ddb_UntagResource v a ks)" "keepsCR (ddb_Scan v n)"
  "keepsCR (s3_DeleteBucket v b)" "keepsCR (s3_GetBucketTagging v b)" "keepsCR (s3_PutBucketTagging v b t)"
  "keepsCR (s3_ListObjectVersions v b k i m)" "keepsCR (s3_DeleteObjects v b ids)" "keepsCR (s3_ListMultipartUploads v b k i)"
  "keepsCR (s3_AbortMultipartUpload v b u')" "keepsCR (s3_GetBucketPolicy v b)" "keepsCR (s3_PutBucketPolicy v b d)"
  "keepsCR (s3_DeleteBucketPolicy v b)" "keepsCR (ctx_Err v)"
  by (simp_all add: op_defs keepsCR_invoke)

lemma keepsCR_scheduled [keepsCR_intros]: "keepsCR (scheduled v xs)"
  by (simp add: keepsCR_def scheduled_def emits_scheduled [unfolded scheduled_def])

lemma keepsCR_tableTags [keepsCR_intros]: "keepsCR (tableTagPages v a n tok tgs)"
proof (induction n arbitrary: tok tgs)
  case (Suc n)
  show ?case unfolding tableTagPages.simps by (intro keepsCR_intros Suc.IH)
qed (simp add: keepsCR_ret)

lemma keepsCR_table_steps [keepsCR_intros]:
  "keepsCR (listAllTags v p a)" "keepsCR (addPendingDeletionDeny_ddb v a)" "keepsCR (removePendingDeletionDeny_ddb v a)"
  "keepsCR (restoreDeclared_ddb v p e l)" "keepsCR (relinquishIfStillTagged_ddb v p e)" "keepsCR (retain_ddb v p e l res)"
  "keepsCR (deleteUndeclared_ddb v p f e l res)"
  unfolding listAllTags_def addPendingDeletionDeny_ddb_def removePendingDeletionDeny_ddb_def readTablePolicy_def writeTablePolicy_def
    restoreDeclared_ddb_def relinquishIfStillTagged_ddb_def retain_ddb_def deleteUndeclared_ddb_def verifyOwned_ddb_def gateOnEmpty_ddb_def
    tableIsEmpty_def deleteTable_def releaseDeletionProtection_def Let_def
  by (intro keepsCR_intros)+

lemma keepsCR_cleanupTables [keepsCR_intros]: "keepsCR (cleanupTables v p d f es acc)"
proof (induction es arbitrary: acc)
  case (Cons e es)
  show ?case unfolding cleanupTables.simps by (intro keepsCR_intros Cons.IH)
qed (simp add: keepsCR_ret)

lemma keepsCR_deleteBatches [keepsCR_intros]: "keepsCR (deleteBatches v b bs)"
proof (induction bs)
  case (Cons ids bs)
  then show ?case unfolding deleteBatches.simps by (intro keepsCR_intros)
qed (simp add: keepsCR_ret)

lemma keepsCR_versionPages [keepsCR_intros]: "keepsCR (versionPages v b n m)"
proof (induction n arbitrary: m)
  case (Suc n)
  show ?case unfolding versionPages.simps by (intro keepsCR_intros Suc.IH)
qed (simp add: keepsCR_ret)

lemma keepsCR_abortUploads [keepsCR_intros]: "keepsCR (abortUploads v b us st)"
proof (induction us arbitrary: st)
  case (Cons u us)
  show ?case unfolding abortUploads.simps abortUpload_def by (intro keepsCR_intros Cons.IH)
qed (simp add: keepsCR_ret)

lemma keepsCR_uploadPages [keepsCR_intros]: "keepsCR (uploadPages v b n m st)"
proof (induction n arbitrary: m st)
  case (Suc n)
  show ?case unfolding uploadPages.simps by (intro keepsCR_intros Suc.IH)
qed (simp add: keepsCR_ret)

lemma keepsCR_bucket_steps [keepsCR_intros]:
  "keepsCR (addPendingDeletionDeny_s3 v b)" "keepsCR (removePendingDeletionDeny_s3 v b)"
  "keepsCR (restoreDeclared_s3 v p e l)" "keepsCR (retain_s3 v p e l res)" "keepsCR (deleteBucket v p e b l)"
  "keepsCR (deleteUndeclared_s3 v p f e l res)"
  unfolding addPendingDeletionDeny_s3_def removePendingDeletionDeny_s3_def readPolicy_s3_def writePolicy_s3_def deleteBucketPolicy_def
    restoreDeclared_s3_def relinquishIfStillTagged_s3_def retain_s3_def deleteUndeclared_s3_def verifyOwned_s3_def gateOnEmpty_s3_def
    bucketIsEmpty_def deleteBucket_def deleteAllObjectVersions_def abortMultipartUploads_def Let_def
  by (intro keepsCR_intros)+

lemma keepsCR_cleanupBuckets [keepsCR_intros]: "keepsCR (cleanupBuckets v p d f es acc)"
proof (induction es arbitrary: acc)
  case (Cons e es)
  show ?case unfolding cleanupBuckets.simps by (intro keepsCR_intros Cons.IH)
qed (simp add: keepsCR_ret)

lemma keepsCR_data_Cleanups: "keepsCR (Cleanup_ddb v p spec l del f)" "keepsCR (Cleanup_s3 v p spec' l del f)"
  unfolding Cleanup_ddb_def Cleanup_s3_def by (intro keepsCR_intros)+

section \<open>What a finished cleanup leaves\<close>

definition tablePending :: "TableCleanupReason \<Rightarrow> bool" where "tablePending r \<longleftrightarrow> r \<noteq> TableRetained"
definition bucketPending :: "BucketCleanupReason \<Rightarrow> bool" where "bucketPending r \<longleftrightarrow> r \<noteq> BucketRetained"

interpretation tidy_tables: tidy_deletion deletesTable "tableSeenOwned p" tableSeenEmpty "\<lambda>e h. h = tableNameFromARN (mr_ARN e)" typeDynamoDB p
    "waitsQuietly_ddb p" "pendingDeletionReason_ddb p" "verifyTable v p" "\<lambda>e h. gateOnEmpty_ddb v p e" "\<lambda>e h. deleteTable v p e"
    "restoreDeclared_ddb v p" "retain_ddb v p" tablePending for v p
proof
  fix e :: ManagedResource and l and res :: "table_result list"
  show "returns (\<lambda>(l1, res1, err). set res \<subseteq> set res1
      \<and> (\<forall>x\<in>set l1. x \<in> set l \<or> mr_Type x = typeDynamoDB \<and> mr_DeletionPolicy x = mr_DeletionPolicy e)) (retain_ddb v p e l res)"
    if "mr_Type e = typeDynamoDB"
    unfolding retain_ddb_def Let_def
    by (intro returns_intros) (use that in \<open>auto dest: set_Upsert simp: set_Remove\<close>)
  show "returns (\<lambda>(l1, res1, proceed, err). set res \<subseteq> set res1 \<and> (\<forall>x\<in>set l1. x \<in> set l \<or> mr_key x = (typeDynamoDB, mr_Name e))
      \<and> (\<not> proceed \<and> err = None \<longrightarrow> (\<exists>r. (mr_Name e, r) \<in> set res1 \<and> tablePending r))) (gateOnEmpty_ddb v p e l res)"
    if "mr_Type e = typeDynamoDB"
    unfolding gateOnEmpty_ddb_def markPendingDeletion_ddb_def Let_def
    by (intro returns_intros) (use that in \<open>auto dest: set_Upsert simp: tablePending_def pendingDeletionReason_ddb_def\<close>)
  show "returns (\<lambda>(l1, err). set l1 \<subseteq> set l \<and> (err = None \<longrightarrow> l1 = RemoveManagedResource l typeDynamoDB (mr_Name e))) (deleteTable v p e l)"
    unfolding deleteTable_def Let_def by (intro returns_intros) (auto simp: set_Remove)
qed (simp add: tablePending_def pendingDeletionReason_ddb_def)

interpretation tidy_buckets: tidy_deletion destroys "bucketSeenOwned p" bucketSeenEmpty "\<lambda>e h. bucketNameFromARN (mr_ARN e) = Inr h" typeS3 p
    "waitsQuietly_s3 p" "pendingDeletionReason_s3 p" "verifyBucket v p" "gateOnEmpty_s3 v p" "deleteBucket v p"
    "restoreDeclared_s3 v p" "retain_s3 v p" bucketPending for v p
proof
  fix e :: ManagedResource and h :: string and l and res :: "bucket_result list"
  show "returns (\<lambda>(l1, res1, err). set res \<subseteq> set res1
      \<and> (\<forall>x\<in>set l1. x \<in> set l \<or> mr_Type x = typeS3 \<and> mr_DeletionPolicy x = mr_DeletionPolicy e)) (retain_s3 v p e l res)"
    if "mr_Type e = typeS3"
    unfolding retain_s3_def Let_def
    by (intro returns_intros) (use that in \<open>auto dest: set_Upsert simp: set_Remove\<close>)
  show "returns (\<lambda>(l1, res1, proceed, err). set res \<subseteq> set res1 \<and> (\<forall>x\<in>set l1. x \<in> set l \<or> mr_key x = (typeS3, mr_Name e))
      \<and> (\<not> proceed \<and> err = None \<longrightarrow> (\<exists>r. (mr_Name e, r) \<in> set res1 \<and> bucketPending r))) (gateOnEmpty_s3 v p e h l res)"
    if "mr_Type e = typeS3"
    unfolding gateOnEmpty_s3_def markPendingDeletion_s3_def Let_def
    by (intro returns_intros) (use that in \<open>auto dest: set_Upsert simp: bucketPending_def pendingDeletionReason_s3_def\<close>)
  show "returns (\<lambda>(l1, err). set l1 \<subseteq> set l \<and> (err = None \<longrightarrow> l1 = RemoveManagedResource l typeS3 (mr_Name e))) (deleteBucket v p e h l)"
    unfolding deleteBucket_def by (intro returns_intros) (auto simp: set_Remove)
qed (simp add: bucketPending_def pendingDeletionReason_s3_def)

lemma tables_cleaned:
  "returns (leavesClean {typeDynamoDB} {typeDynamoDB} waitingTable l) (Cleanup_ddb v p spec l True force)"
proof -
  have d: "declaredTableNames spec True = (\<lambda>_. False)" by (rule ext) (simp add: declaredTableNames_def split: option.split)
  have w: "\<not> tablePending r" if "List.map_filter waitingTable res = []" "(n, r) \<in> set res" for res n r
    using that by (fastforce simp: map_filter_Nil waitingTable_def tablePending_def split: TableCleanupReason.splits)
  show ?thesis
    unfolding Cleanup_ddb_def d cleanupTables_loop deleteUndeclared_ddb_gated
    by (rule returns_mono [OF tidy_tables.loop.returns_cleaned]) (auto simp: leavesClean_def dest: w)
qed

lemma buckets_cleaned:
  "returns (leavesClean {typeS3} {typeS3} waitingBucket l) (Cleanup_s3 v p spec l True force)"
proof -
  have d: "declaredBucketNames spec True = (\<lambda>_. False)" by (rule ext) (simp add: declaredBucketNames_def split: option.split)
  have w: "\<not> bucketPending r" if "List.map_filter waitingBucket res = []" "(n, r) \<in> set res" for res n r
    using that by (fastforce simp: map_filter_Nil waitingBucket_def bucketPending_def split: BucketCleanupReason.splits)
  show ?thesis
    unfolding Cleanup_s3_def d cleanupBuckets_loop deleteUndeclared_s3_gated
    by (rule returns_mono [OF tidy_buckets.loop.returns_cleaned]) (auto simp: leavesClean_def dest: w)
qed

interpretation table_package: cleanup_package
  "\<lambda>cr. Cleanup_ddb v (passFor r p cr (sectionDeletionContext (ledgerOf cr) typeDynamoDB (declaredTables (ad_Spec cr))))
     (sp_DynamoDB (ad_Spec cr)) (ledgerOf cr) True (forceDeleteAll cr)"
  waitingTable "{typeDynamoDB}" "{typeDynamoDB}" for v r p
  by unfold_locales (rule keepsCR_data_Cleanups tables_cleaned)+

interpretation bucket_package: cleanup_package
  "\<lambda>cr. Cleanup_s3 v (passFor r p cr (sectionDeletionContext (ledgerOf cr) typeS3 (declaredBuckets (ad_Spec cr))))
     (sp_S3 (ad_Spec cr)) (ledgerOf cr) True (forceDeleteAll cr)"
  waitingBucket "{typeS3}" "{typeS3}" for v r p
  by unfold_locales (rule keepsCR_data_Cleanups buckets_cleaned)+

lemma data_finalize:
  "finalizes {typeDynamoDB} {typeDynamoDB} (dynamodbSection v r p)" "finalizes {typeS3} {typeS3} (s3Section v r p)"
proof -
  show "finalizes {typeDynamoDB} {typeDynamoDB} (dynamodbSection v r p)" by (rule table_package.section_finalizes) (simp add: dynamodbSection_def)
  show "finalizes {typeS3} {typeS3} (s3Section v r p)" by (rule bucket_package.section_finalizes) (simp add: s3Section_def)
qed

end
