(* ===== verification/Iam_Role.thy ===== *)
theory Iam_Role
  imports Iam_Derive Paging Conditions Sha256
begin

text \<open>
  The role of a custom resource, \<^verbatim>\<open>internal/resources/iam/iam.go\<close> and \<^verbatim>\<open>cleanup.go\<close>: one role, whose trust policy admits one
  service account and whose single inline policy is the document of \<^verbatim>\<open>derive.go\<close>. What follows the operations says
  whom a trust policy admits, that documents stored by IAM are recognised, and when a role is written or deleted.
\<close>

section \<open>Documents\<close>

definition roleLedgerName :: string where "roleLedgerName = ''role''"
definition roleInlinePolicyName :: string where "roleInlinePolicyName = ''cloudctl-derived-policy''"
definition iamRoleNameMaxLen :: int where "iamRoleNameMaxLen = 64"
definition rolePolicySizeLimit :: nat where "rolePolicySizeLimit = 10240"

definition roleName :: "string \<Rightarrow> string \<Rightarrow> string" where
  "roleName namespace crName = ResourceName namespace crName TypeIAM roleLedgerName iamRoleNameMaxLen"

definition policyDigest :: "string \<Rightarrow> string" where
  "policyDigest document = sha256_hex document"

text \<open>\<^verbatim>\<open>strings.TrimPrefix\<close> and \<^verbatim>\<open>strings.TrimSuffix\<close>, as the issuer's address is cut. The members of a Go map are written sorted.\<close>

definition oidcHost :: "string \<Rightarrow> string" where
  "oidcHost url =
     (let host = (if hasPrefix url ''https://'' then drop 8 url else url)
      in if hasSuffix host ''/'' then butlast host else host)"

definition subjectOf :: "string \<Rightarrow> string \<Rightarrow> string" where
  "subjectOf namespace serviceAccountName = ''system:serviceaccount:'' @ namespace @ '':'' @ serviceAccountName"

definition trustStatement :: "string \<Rightarrow> string \<Rightarrow> string \<Rightarrow> string \<Rightarrow> json" where
  "trustStatement oidcProviderARN host namespace serviceAccountName =
     JObj [(''Action'', JStr ''sts:AssumeRoleWithWebIdentity''),
       (''Condition'', JObj [(''StringEquals'',
          JObj [(host @ '':aud'', JStr ''sts.amazonaws.com''), (host @ '':sub'', JStr (subjectOf namespace serviceAccountName))])]),
       (''Effect'', JStr ''Allow''),
       (''Principal'', JObj [(''Federated'', JStr oidcProviderARN)])]"

definition trustDocument :: "string \<Rightarrow> string \<Rightarrow> string \<Rightarrow> string \<Rightarrow> json" where
  "trustDocument oidcProviderARN oidcProviderURL namespace serviceAccountName =
     JObj [(''Statement'', JArr [trustStatement oidcProviderARN (oidcHost oidcProviderURL) namespace serviceAccountName]),
       (''Version'', JStr ''2012-10-17'')]"

definition buildTrustPolicy :: "string \<Rightarrow> string \<Rightarrow> string \<Rightarrow> string \<Rightarrow> string" where
  "buildTrustPolicy oidcProviderARN oidcProviderURL namespace serviceAccountName =
     renderJSON (trustDocument oidcProviderARN oidcProviderURL namespace serviceAccountName)"

definition workloadServiceAccount :: "AppDependencies \<Rightarrow> string" where
  "workloadServiceAccount cr =
     (if sp_ServiceAccountName (ad_Spec cr) = [] then md_Name cr else sp_ServiceAccountName (ad_Spec cr))"

definition ensureTrustPolicy :: "string \<Rightarrow> string \<Rightarrow> AppDependencies \<Rightarrow> go_error + string" where
  "ensureTrustPolicy oidcProviderARN oidcProviderURL cr =
     (if oidcProviderARN = [] \<or> oidcProviderURL = []
      then Inl (msgError ''this CR needs an IAM role but the OIDC provider was not configured'' [])
      else Inr (buildTrustPolicy oidcProviderARN oidcProviderURL (md_Namespace cr) (workloadServiceAccount cr)))"

definition ensurePermissionsPolicy :: "grant list \<Rightarrow> go_error + string" where
  "ensurePermissionsPolicy grants =
     (let policy = buildPolicyDocument grants
      in if length policy > rolePolicySizeLimit
         then Inl (msgError ''derived IAM policy is over the limit'' [show_nat (length policy), show_nat rolePolicySizeLimit])
         else Inr policy)"

text \<open>\<^verbatim>\<open>url.QueryUnescape\<close>: \<open>None\<close> for a percent sign that two hexadecimal digits do not follow.\<close>

fun queryUnescape :: "string \<Rightarrow> string option" where
  "queryUnescape [] = Some []"
| "queryUnescape (c # s) =
     (if c = CHR ''%''
      then (case s of
              a # b # t \<Rightarrow>
                (case (hexVal a, hexVal b) of
                   (Some x, Some y) \<Rightarrow> map_option ((#) (char_of (16 * x + y))) (queryUnescape t)
                 | _ \<Rightarrow> None)
            | _ \<Rightarrow> None)
      else map_option ((#) (if c = CHR ''+'' then CHR '' '' else c)) (queryUnescape s))"

definition policyDocumentEquivalent :: "string \<Rightarrow> string \<Rightarrow> bool" where
  "policyDocumentEquivalent currentEncoded desired =
     (case queryUnescape currentEncoded of
        None \<Rightarrow> False
      | Some current \<Rightarrow>
          current = desired
          \<or> (case (parseJSON current, parseJSON desired) of
               (Some currentDoc, Some desiredDoc) \<Rightarrow> decode currentDoc = decode desiredDoc
             | _ \<Rightarrow> False))"

section \<open>The role\<close>

definition isNoSuchEntity :: "ext_error \<Rightarrow> bool" where
  "isNoSuchEntity e \<longleftrightarrow> isException ''NoSuchEntityException'' e"

primrec roleTagPages :: "env \<Rightarrow> string \<Rightarrow> nat \<Rightarrow> string option \<Rightarrow> aws_tag list \<Rightarrow> (ext_error + aws_tag list) op" where
  "roleTagPages v name 0 marker all = ret (Inl deadlineExceeded)"
| "roleTagPages v name (Suc n) marker all = do {
     r \<leftarrow> iam_ListRoleTags v name marker;
     case r of
       Inl e \<Rightarrow> ret (Inl e)
     | Inr out \<Rightarrow>
         if \<not> tp_Truncated out then ret (Inr (all @ tp_Tags out))
         else roleTagPages v name n (tp_NextMarker out) (all @ tp_Tags out)
   }"

definition listAllRoleTags :: "env \<Rightarrow> pass \<Rightarrow> string \<Rightarrow> (ext_error + aws_tag list) op" where
  "listAllRoleTags v p name = roleTagPages v name (ps_pageBudget p) None []"

definition ensureRolePolicy :: "env \<Rightarrow> string \<Rightarrow> string \<Rightarrow> go_error option op" where
  "ensureRolePolicy v name policyDocument = do {
     r \<leftarrow> iam_GetRolePolicy v name roleInlinePolicyName;
     if (case r of Inr (Some d) \<Rightarrow> policyDocumentEquivalent d policyDocument | _ \<Rightarrow> False) then ret None
     else do {
       r2 \<leftarrow> iam_PutRolePolicy v name roleInlinePolicyName policyDocument;
       case r2 of
         Inl e \<Rightarrow> ret (Some (wrapAWSError (ExtError e) ''attaching derived policy to role''))
       | Inr _ \<Rightarrow> ret None
     }
   }"

definition skippedToError :: "string list \<Rightarrow> go_error option" where
  "skippedToError skipped =
     (if skipped = [] then None
      else Some (ReconcileError (msgError ''some consumed resources could not be granted yet'' [JoinCapped skipped ''; '']) False [] True))"

text \<open>\<^verbatim>\<open>verifyRoleOwnership\<close>, once the tags have been read.\<close>

definition takeOverRole :: "env \<Rightarrow> pass \<Rightarrow> string \<Rightarrow> tags \<Rightarrow> go_error option op" where
  "takeOverRole v p name roleTags =
     (if IsOwnedBy roleTags (ps_namespace p) (ps_crName p) (ps_crUID p) then ret None
      else
        (case IsStaleUID roleTags (ps_namespace p) (ps_crName p) (ps_crUID p) of
           None \<Rightarrow> ret (Some (msgError ''IAM role already exists and is not owned by this CR'' [name]))
         | Some staleUID \<Rightarrow>
             if \<not> MayTransferFrom p staleUID
             then ret (Some (msgError ''IAM role already exists and is tagged with an earlier UID'' [name, staleUID]))
             else do {
               r \<leftarrow> iam_TagRole v name (ownerTags p);
               case r of
                 Inl e \<Rightarrow> ret (Some (wrapAWSError (ExtError e) ''taking over IAM role (tagging)''))
               | Inr _ \<Rightarrow> ret None
             }))"

definition verifyRoleOwnership :: "env \<Rightarrow> pass \<Rightarrow> string \<Rightarrow> go_error option op" where
  "verifyRoleOwnership v p name = do {
     r \<leftarrow> listAllRoleTags v p name;
     case r of
       Inl e \<Rightarrow> ret (Some (wrapAWSError (ExtError e) ''reading role tags''))
     | Inr tgs \<Rightarrow> takeOverRole v p name (tagsToMap tgs)
   }"

text \<open>The trust policy of an existing role, and the role's ARN.\<close>

definition correctTrustPolicy :: "env \<Rightarrow> string \<Rightarrow> string \<Rightarrow> string \<times> string option \<Rightarrow> (go_error + string \<times> bool) op" where
  "correctTrustPolicy v name trustPolicy role =
     (if (case snd role of None \<Rightarrow> True | Some current \<Rightarrow> \<not> policyDocumentEquivalent current trustPolicy)
      then do {
        r \<leftarrow> iam_UpdateAssumeRolePolicy v name trustPolicy;
        case r of
          Inl e \<Rightarrow> ret (Inl (wrapAWSError (ExtError e) ''correcting IAM role trust policy''))
        | Inr _ \<Rightarrow> ret (Inr (fst role, False))
      }
      else ret (Inr (fst role, False)))"

definition ensureRole :: "env \<Rightarrow> pass \<Rightarrow> string \<Rightarrow> string \<Rightarrow> bool \<Rightarrow> (go_error + string \<times> bool) op" where
  "ensureRole v p name trustPolicy verifyOwnership = do {
     r \<leftarrow> iam_GetRole v name;
     case r of
       Inl e \<Rightarrow>
         if isNoSuchEntity e
         then do {
           c \<leftarrow> iam_CreateRole v name trustPolicy (ownerTags p);
           case c of
             Inl e2 \<Rightarrow> ret (Inl (wrapAWSError (ExtError e2) ''creating IAM role''))
           | Inr arn \<Rightarrow> ret (Inr (arn, True))
         }
         else ret (Inl (wrapAWSError (ExtError e) ''looking up IAM role''))
     | Inr role \<Rightarrow>
         if verifyOwnership
         then do {
           err \<leftarrow> verifyRoleOwnership v p name;
           case err of Some e \<Rightarrow> ret (Inl e) | None \<Rightarrow> correctTrustPolicy v name trustPolicy role
         }
         else correctTrustPolicy v name trustPolicy role
   }"

definition recordVerified_iam :: "pass \<Rightarrow> ledger \<Rightarrow> string \<Rightarrow> string \<Rightarrow> bool \<Rightarrow> ledger" where
  "recordVerified_iam p l arn digest keepVerifiedAt =
     (let existing = FindManagedResource l TypeIAM roleLedgerName
      in UpsertManagedResource l (zeroManagedResource\<lparr>
           mr_Type := TypeIAM, mr_Name := roleLedgerName, mr_ARN := arn, mr_DeletionPolicy := DeletionPolicyDelete,
           mr_CreatedAt := (case existing of None \<Rightarrow> ps_now p | Some e \<Rightarrow> mr_CreatedAt e),
           mr_LastVerifiedAt :=
             (case existing of
                Some e \<Rightarrow> (if keepVerifiedAt \<and> mr_LastVerifiedAt e \<noteq> None then mr_LastVerifiedAt e else Some (ps_now p))
              | None \<Rightarrow> Some (ps_now p)),
           mr_State := StateVerified, mr_AppliedDigest := digest\<rparr>))"

text \<open>
  \<^verbatim>\<open>Ensure\<close> from the documents on, and as a whole. The second component of the result is the role's ARN, empty when there
  is none.
\<close>

definition reconcileRole ::
  "env \<Rightarrow> pass \<Rightarrow> string \<Rightarrow> string \<Rightarrow> string \<Rightarrow> string list \<Rightarrow> ledger \<Rightarrow> (ledger \<times> string \<times> go_error option) op" where
  "reconcileRole v p name trustPolicy permissionsPolicy skipped l =
     (let entry = FindManagedResource l TypeIAM roleLedgerName;
          trusted = (case entry of None \<Rightarrow> False | Some e \<Rightarrow> \<not> NeedsRevalidation (ps_now p) e);
          digest = policyDigest permissionsPolicy
      in do {
        r \<leftarrow> ensureRole v p name trustPolicy (\<not> trusted);
        case r of
          Inl e \<Rightarrow> ret (l, [], Some e)
        | Inr (arn, created) \<Rightarrow> do {
            err \<leftarrow> (if \<not> trusted \<or> created \<or> map_option mr_AppliedDigest entry \<noteq> Some digest
                   then ensureRolePolicy v name permissionsPolicy else ret None);
            case err of
              Some e \<Rightarrow> ret (l, [], Some e)
            | None \<Rightarrow> ret (recordVerified_iam p l arn digest (trusted \<and> \<not> created), arn, skippedToError skipped)
          }
      })"

definition Ensure_iam ::
  "env \<Rightarrow> pass \<Rightarrow> string \<Rightarrow> string \<Rightarrow> AppDependencies \<Rightarrow> ledger \<Rightarrow> (ledger \<times> string \<times> go_error option) op" where
  "Ensure_iam v p oidcProviderARN oidcProviderURL cr l = do {
     r \<leftarrow> collectGrants v cr;
     case r of
       Inl e \<Rightarrow> ret (l, [], Some e)
     | Inr (grants, skipped) \<Rightarrow>
         if grants = [] then ret (l, [], skippedToError skipped)
         else
           (case ensureTrustPolicy oidcProviderARN oidcProviderURL cr of
              Inl e \<Rightarrow> ret (l, [], Some e)
            | Inr trustPolicy \<Rightarrow>
                (case ensurePermissionsPolicy grants of
                   Inl e \<Rightarrow> ret (l, [], Some e)
                 | Inr permissionsPolicy \<Rightarrow>
                     reconcileRole v p (roleName (md_Namespace cr) (md_Name cr)) trustPolicy permissionsPolicy skipped l))
   }"

section \<open>Letting the role go\<close>

text \<open>\<^verbatim>\<open>strings.LastIndex\<close> of a slash, and what follows it.\<close>

definition roleNameFromARN :: "string \<Rightarrow> go_error + string" where
  "roleNameFromARN arn =
     (if CHR ''/'' \<notin> set arn \<or> afterLast arn CHR ''/'' = []
      then Inl (msgError ''unexpected role ARN format'' [arn]) else Inr (afterLast arn CHR ''/''))"

definition attachmentNote :: "string \<Rightarrow> string option list reply \<Rightarrow> string list" where
  "attachmentNote what r =
     (case r of
        Inl _ \<Rightarrow> []
      | Inr names \<Rightarrow>
          if names = [] then [] else [what @ join (map (\<lambda>a. case a of None \<Rightarrow> [] | Some s \<Rightarrow> s) names) '', ''])"

definition roleInUseError :: "env \<Rightarrow> string \<Rightarrow> go_error op" where
  "roleInUseError v name = do {
     policies \<leftarrow> iam_ListAttachedRolePolicies v name;
     profiles \<leftarrow> iam_ListInstanceProfilesForRole v name;
     let found = attachmentNote ''managed policies '' policies @ attachmentNote ''instance profiles '' profiles;
     let what = (if found = [] then ''managed policies or instance profiles'' else join found '' and '');
     ret (ReconcileError (msgError ''IAM role cannot be deleted while it has attachments'' [name, what]) True
            ''RoleHasExternalAttachments'' False)
   }"

text \<open>\<^verbatim>\<open>Cleanup\<close> from the tags on.\<close>

definition deleteRole :: "env \<Rightarrow> string \<Rightarrow> ledger \<Rightarrow> (ledger \<times> go_error option) op" where
  "deleteRole v name l = do {
     r \<leftarrow> iam_DeleteRolePolicy v name roleInlinePolicyName;
     case (case r of Inl e \<Rightarrow> if isNoSuchEntity e then None else Some e | Inr _ \<Rightarrow> None) of
       Some e \<Rightarrow> ret (l, Some (wrapAWSError (ExtError e) ''deleting inline policy on role''))
     | None \<Rightarrow> do {
         r2 \<leftarrow> iam_DeleteRole v name;
         case r2 of
           Inl e \<Rightarrow>
             if isNoSuchEntity e then ret (RemoveManagedResource l TypeIAM roleLedgerName, None)
             else if isException ''DeleteConflictException'' e then do { err \<leftarrow> roleInUseError v name; ret (l, Some err) }
             else ret (l, Some (wrapAWSError (ExtError e) ''deleting IAM role''))
         | Inr _ \<Rightarrow> ret (RemoveManagedResource l TypeIAM roleLedgerName, None)
       }
   }"

definition deleteOwnedRole :: "env \<Rightarrow> pass \<Rightarrow> string \<Rightarrow> ledger \<Rightarrow> (ledger \<times> go_error option) op" where
  "deleteOwnedRole v p name l = do {
     r \<leftarrow> listAllRoleTags v p name;
     case r of
       Inl e \<Rightarrow>
         if isNoSuchEntity e then ret (RemoveManagedResource l TypeIAM roleLedgerName, None)
         else ret (l, Some (wrapAWSError (ExtError e) ''re-verifying ownership of IAM role before delete''))
     | Inr tgs \<Rightarrow>
         if \<not> IsOwnedBy (tagsToMap tgs) (ps_namespace p) (ps_crName p) (ps_crUID p)
         then ret (l, Some (OwnershipLostError ''IAM role'' name ''delete it''))
         else deleteRole v name l
   }"

definition stillNeeded :: "env \<Rightarrow> AppDependencies \<Rightarrow> bool \<Rightarrow> (go_error + bool) op" where
  "stillNeeded v cr deleting =
     (if deleting then ret (Inr False)
      else do {
        r \<leftarrow> collectGrants v cr;
        case r of Inl e \<Rightarrow> ret (Inl e) | Inr (grants, _) \<Rightarrow> ret (Inr (grants \<noteq> []))
      })"

definition Cleanup_iam :: "env \<Rightarrow> pass \<Rightarrow> AppDependencies \<Rightarrow> ledger \<Rightarrow> bool \<Rightarrow> (ledger \<times> go_error option) op" where
  "Cleanup_iam v p cr l deleting =
     (case FindManagedResource l TypeIAM roleLedgerName of
        None \<Rightarrow> ret (l, None)
      | Some entry \<Rightarrow> do {
          n \<leftarrow> stillNeeded v cr deleting;
          case n of
            Inl e \<Rightarrow> ret (l, Some e)
          | Inr needed \<Rightarrow>
              if needed then ret (l, None)
              else
                (case roleNameFromARN (mr_ARN entry) of
                   Inl e \<Rightarrow> ret (l, Some e)
                 | Inr name \<Rightarrow> deleteOwnedRole v p name l)
        })"

section \<open>Whom a role trusts\<close>

lemma hasSuffix_butlast: "hasSuffix s [c] \<Longrightarrow> butlast s @ [c] = s"
  by (cases s rule: rev_cases) (auto simp: hasSuffix_def)

lemma wf_trustDocument: "wfJSON (trustDocument a u ns sa)"
  by (simp add: trustDocument_def trustStatement_def)

lemma subjectOf_inject:
  assumes "CHR '':'' \<notin> set ns" "CHR '':'' \<notin> set ns'"
  shows "subjectOf ns sa = subjectOf ns' sa' \<longleftrightarrow> ns = ns' \<and> sa = sa'"
  using split_at_fresh [of ns _ _ ns'] assms by (auto simp: subjectOf_def)

text \<open>C35: A role is assumed by one workload. The text of its trust policy parses back to a document with a single statement, which lets the
  configured OIDC provider assume the role for one audience and one subject, and two trust policies are the same text only if
  provider, issuer, namespace and service account are the same; namespaces, like every Kubernetes name, hold no colon.\<close>

theorem trust_policy_admits_one_account:
  assumes "CHR '':'' \<notin> set ns" "CHR '':'' \<notin> set ns'"
  shows "parseJSON (buildTrustPolicy a u ns sa) = Some (trustDocument a u ns sa)
    \<and> (buildTrustPolicy a u ns sa = buildTrustPolicy a' u' ns' sa'
       \<longleftrightarrow> a = a' \<and> oidcHost u = oidcHost u' \<and> ns = ns' \<and> sa = sa')"
proof
  have p: "parseJSON (buildTrustPolicy a u ns sa) = Some (trustDocument a u ns sa)" for a u ns sa
    unfolding buildTrustPolicy_def by (rule parse_render) (rule wf_trustDocument)
  then show "parseJSON (buildTrustPolicy a u ns sa) = Some (trustDocument a u ns sa)" .
  have "trustDocument a u ns sa = trustDocument a' u' ns' sa'"
    if "buildTrustPolicy a u ns sa = buildTrustPolicy a' u' ns' sa'"
    using p [of a u ns sa] p [of a' u' ns' sa'] that by simp
  moreover have "trustDocument a u ns sa = trustDocument a' u' ns' sa'
      \<longleftrightarrow> a = a' \<and> oidcHost u = oidcHost u' \<and> ns = ns' \<and> sa = sa'"
    using subjectOf_inject [OF assms, of sa sa'] by (auto simp: trustDocument_def trustStatement_def)
  ultimately show "buildTrustPolicy a u ns sa = buildTrustPolicy a' u' ns' sa'
      \<longleftrightarrow> a = a' \<and> oidcHost u = oidcHost u' \<and> ns = ns' \<and> sa = sa'"
    by (auto simp: buildTrustPolicy_def)
qed

theorem trust_policy_admits_one_account_witness:
  "buildTrustPolicy ''arn:idp'' ''https://oidc.eks/id/'' ''team'' ''orders'' \<noteq> buildTrustPolicy ''arn:idp'' ''https://oidc.eks/id/'' ''team'' ''bills''"
  using trust_policy_admits_one_account [of "''team''" "''team''" "''arn:idp''" "''https://oidc.eks/id/''" "''orders''" "''arn:idp''"
      "''https://oidc.eks/id/''" "''bills''"] by simp

section \<open>Stored documents are recognised\<close>

text \<open>
  The encoding in which IAM returns a document: percent escapes (RFC 3986) for every byte but a set of safe ones.
\<close>

definition percentEncode :: "(char \<Rightarrow> bool) \<Rightarrow> string \<Rightarrow> string" where
  "percentEncode safe s = concat (map (\<lambda>c. if safe c then [c]
     else [CHR ''%'', hexDigit (of_char c div 16), hexDigit (of_char c mod 16)]) s)"

lemma queryUnescape_percentEncode:
  assumes "\<not> safe CHR ''%''" "\<not> safe CHR ''+''"
  shows "queryUnescape (percentEncode safe s) = Some s"
proof (induction s)
  case (Cons c s)
  show ?case
  proof (cases "safe c")
    case True
    then have "c \<noteq> CHR ''%''" "c \<noteq> CHR ''+''" using assms by auto
    with True Cons show ?thesis by (simp add: percentEncode_def)
  next
    case False
    let ?n = "of_char c :: nat"
    have "?n < 256" using of_char_mod_256 [of c, where 'a = nat] by (metis mod_less_divisor zero_less_numeral)
    then have "?n div 16 < 16" by (simp add: div_less_iff_less_mult)
    then have "hexVal (hexDigit (?n div 16)) = Some (?n div 16)" "hexVal (hexDigit (?n mod 16)) = Some (?n mod 16)"
      by (auto intro!: hexVal_hexDigit)
    moreover have "char_of (16 * (?n div 16) + ?n mod 16) = c" by simp
    ultimately show ?thesis using False Cons by (simp add: percentEncode_def)
  qed
qed (simp add: percentEncode_def)

text \<open>Two objects without duplicate members that decode to the same map have the same members.\<close>

lemma decode_member:
  assumes "distinct (map fst kvs)" "distinct (map fst kvs')" "decode (JObj kvs) = decode (JObj kvs')"
  shows "map_option decode (map_of kvs k) = map_option decode (map_of kvs' k)"
proof -
  have "map_option decode (map_of xs k) = map_of (canonObj (map (\<lambda>kv. (fst kv, decode (snd kv))) xs)) k"
    if "distinct (map fst xs)" for xs :: "(string \<times> json) list"
  proof -
    have "map_of (rev (map (\<lambda>kv. (fst kv, decode (snd kv))) xs)) = map_of (map (\<lambda>kv. (fst kv, decode (snd kv))) xs)"
      by (rule map_of_rev_distinct) (simp add: that o_def)
    then show ?thesis by (simp add: map_of_canonObj map_of_map_snd)
  qed
  with assms show ?thesis by simp
qed

lemma decode_strings_inject: "map decode (map JStr xs) = map decode (map JStr ys) \<longleftrightarrow> xs = ys"
  by (induction xs arbitrary: ys) (auto simp: Cons_eq_map_conv)

lemma decode_statement_inject: "decode (statementJSON s) = decode (statementJSON s') \<longleftrightarrow> s = s'"
proof
  assume d: "decode (statementJSON s) = decode (statementJSON s')"
  note m = decode_member [OF _ _ d [unfolded statementJSON_def], simplified]
  from m [of "''Sid''"] m [of "''Effect''"] m [of "''Action''"] m [of "''Resource''"] show "s = s'"
    by (simp add: decode_strings_inject [simplified])
qed simp

lemma decode_statements_inject:
  "map decode (map statementJSON xs) = map decode (map statementJSON ys) \<longleftrightarrow> xs = ys"
  by (induction xs arbitrary: ys) (auto simp: Cons_eq_map_conv decode_statement_inject)

text \<open>A stored document is recognised. Whatever bytes IAM escapes when it returns a document, as long as it escapes the percent and the
  plus sign, comparing it with the wanted one decides equality of the two documents: of the texts, or of what they say. For the derived
  permissions this means the same statements in the same order, so a role that carries them is not written again.\<close>

theorem stored_policy_recognised:
  assumes "\<not> safe CHR ''%''" "\<not> safe CHR ''+''"
  shows "(policyDocumentEquivalent (percentEncode safe current) desired
      \<longleftrightarrow> current = desired \<or> (\<exists>j j'. parseJSON current = Some j \<and> parseJSON desired = Some j' \<and> decode j = decode j'))
    \<and> (grants \<noteq> [] \<longrightarrow> grants' \<noteq> [] \<longrightarrow>
        (policyDocumentEquivalent (percentEncode safe (buildPolicyDocument grants)) (buildPolicyDocument grants')
         \<longleftrightarrow> policyStatementsOf grants = policyStatementsOf grants'))"
proof (intro conjI impI)
  show eq: "policyDocumentEquivalent (percentEncode safe current) desired
      \<longleftrightarrow> current = desired \<or> (\<exists>j j'. parseJSON current = Some j \<and> parseJSON desired = Some j' \<and> decode j = decode j')"
    for current desired
    by (auto simp: policyDocumentEquivalent_def queryUnescape_percentEncode [where safe = safe, OF assms] split: option.split)
  assume g: "grants \<noteq> []" "grants' \<noteq> []"
  let ?doc = "\<lambda>g. JObj [(''Version'', JStr ''2012-10-17''), (''Statement'', JArr (map statementJSON (policyStatementsOf g)))]"
  have p: "parseJSON (buildPolicyDocument g) = Some (?doc g)" if "g \<noteq> []" for g
    unfolding buildPolicyDocument_def using that parse_render [of "?doc g"] by (simp add: wf_statement)
  have d: "decode (?doc grants) = decode (?doc grants') \<longleftrightarrow> policyStatementsOf grants = policyStatementsOf grants'"
    using decode_member [of "[(''Version'', JStr ''2012-10-17''), (''Statement'', JArr (map statementJSON (policyStatementsOf grants)))]"
        "[(''Version'', JStr ''2012-10-17''), (''Statement'', JArr (map statementJSON (policyStatementsOf grants')))]" "''Statement''"]
      decode_statements_inject by auto
  have "decode (?doc grants) = decode (?doc grants')" if "buildPolicyDocument grants = buildPolicyDocument grants'"
    using p [OF g(1), unfolded that, unfolded p [OF g(2)]] by (simp only: option.inject)
  moreover have "(\<exists>j j'. parseJSON (buildPolicyDocument grants) = Some j \<and> parseJSON (buildPolicyDocument grants') = Some j' \<and> decode j = decode j')
      \<longleftrightarrow> decode (?doc grants) = decode (?doc grants')"
    unfolding p [OF g(1)] p [OF g(2)] by blast
  ultimately show "policyDocumentEquivalent (percentEncode safe (buildPolicyDocument grants)) (buildPolicyDocument grants')
      \<longleftrightarrow> policyStatementsOf grants = policyStatementsOf grants'"
    unfolding eq d by blast
qed

theorem stored_policy_recognised_witness:
  "policyDocumentEquivalent (percentEncode isLetter ''{ }'') ''{}''"
proof -
  have "parseJSON ''{ }'' = Some (JObj [])" "parseJSON ''{}'' = Some (JObj [])" "\<not> isLetter CHR ''%''" "\<not> isLetter CHR ''+''"
    by code_simp+
  then show ?thesis using stored_policy_recognised [of isLetter "''{ }''" "''{}''"] by blast
qed


section \<open>When a role is written or deleted\<close>

interpretation role_tag_pages: paging "roleTagPages v n" "\<lambda>h m. ia_ListRoleTags (env_iam v) h n m"
    "\<lambda>m r. IAMCall (ListRoleTags n m r)" tp_Tags "\<lambda>pg. if tp_Truncated pg then Some (tp_NextMarker pg) else None" for v n
  by unfold_locales (auto simp: iam_ListRoleTags_def intro!: arg_cong [where f = "State_Monad.bind _"] split: sum.split)

text \<open>The tags of a role, read to the last page; a role that is ours, or whose earlier UID may be taken over.\<close>

abbreviation roleTagsRead :: "history \<Rightarrow> string \<Rightarrow> aws_tag list \<Rightarrow> bool" where
  "roleTagsRead pre n \<equiv> readsPages (\<lambda>m r. IAMCall (ListRoleTags n m r)) tp_Tags
     (\<lambda>pg. if tp_Truncated pg then Some (tp_NextMarker pg) else None) pre None"

definition takeover :: "pass \<Rightarrow> tags \<Rightarrow> bool" where
  "takeover p tm \<longleftrightarrow> (\<exists>u. IsStaleUID tm (ps_namespace p) (ps_crName p) (ps_crUID p) = Some u \<and> MayTransferFrom p u)"

definition roleSeenOurs :: "pass \<Rightarrow> string \<Rightarrow> history \<Rightarrow> bool" where
  "roleSeenOurs p n pre \<longleftrightarrow> (\<exists>ts. roleTagsRead pre n ts \<and> (owned_by_pass p (tagsToMap ts) \<or> takeover p (tagsToMap ts)))"

definition roleCreated :: "string \<Rightarrow> history \<Rightarrow> bool" where
  "roleCreated n pre \<longleftrightarrow> (\<exists>d t arn. IAMCall (CreateRole n d t (Inr arn)) \<in> set pre)"

text \<open>
  What a pass may do to the role \<open>n\<close>, where \<open>T\<close> are the trust policies and \<open>P\<close> the permissions it may write and
  \<open>trusted\<close> says that the ledger vouches for the role.
\<close>

definition roleGuard :: "pass \<Rightarrow> string \<Rightarrow> bool \<Rightarrow> (string \<Rightarrow> bool) \<Rightarrow> (history \<Rightarrow> string \<Rightarrow> bool) \<Rightarrow> history \<Rightarrow> call \<Rightarrow> bool" where
  "roleGuard p n trusted T P pre c \<longleftrightarrow> (case c of
     IAMCall (CreateRole m d t r) \<Rightarrow> m = n \<and> T d \<and> t = ownerTags p
       \<and> (\<exists>e. IAMCall (GetRole n (Inl e)) \<in> set pre \<and> isNoSuchEntity e)
   | IAMCall (TagRole m t r) \<Rightarrow> m = n \<and> t = ownerTags p \<and> (\<exists>ts. roleTagsRead pre n ts \<and> takeover p (tagsToMap ts))
   | IAMCall (UpdateAssumeRolePolicy m d r) \<Rightarrow> m = n \<and> T d \<and> (trusted \<or> roleSeenOurs p n pre)
   | IAMCall (PutRolePolicy m q d r) \<Rightarrow> m = n \<and> q = roleInlinePolicyName \<and> P pre d
       \<and> (trusted \<or> roleSeenOurs p n pre \<or> roleCreated n pre)
   | IAMCall (DeleteRole m r) \<Rightarrow> False
   | IAMCall (DeleteRolePolicy m q r) \<Rightarrow> False
   | _ \<Rightarrow> True)"

lemma roleSeenOurs_mono: "roleSeenOurs p n pre \<Longrightarrow> set pre \<subseteq> set pre' \<Longrightarrow> roleSeenOurs p n pre'"
  unfolding roleSeenOurs_def by (elim exE conjE, intro exI conjI, erule (1) readsPages_mono, assumption)

lemma roleCreated_mono: "roleCreated n pre \<Longrightarrow> set pre \<subseteq> set pre' \<Longrightarrow> roleCreated n pre'"
  unfolding roleCreated_def by blast

lemma roleGuard_mono:
  assumes "roleGuard p n trusted T P pre c" "set pre \<subseteq> set pre'" "\<And>d. T d \<Longrightarrow> T' d" "\<And>d. P pre d \<Longrightarrow> P' pre' d"
  shows "roleGuard p n trusted T' P' pre' c"
proof -
  have t: "roleTagsRead pre m ts \<Longrightarrow> roleTagsRead pre' m ts" for m ts using assms(2) by (rule readsPages_mono [rotated])
  show ?thesis
    using assms(1) t assms(2-) roleSeenOurs_mono [OF _ assms(2)] roleCreated_mono [OF _ assms(2)]
    unfolding roleGuard_def by (cases c) (auto split: iam_call.splits)
qed

definition readsRole :: "call \<Rightarrow> bool" where
  "readsRole c \<longleftrightarrow> (case c of IAMCall x \<Rightarrow> (case x of GetRole _ _ \<Rightarrow> True | ListRoleTags _ _ _ \<Rightarrow> True | GetRolePolicy _ _ _ \<Rightarrow> True
     | ListAttachedRolePolicies _ _ \<Rightarrow> True | ListInstanceProfilesForRole _ _ \<Rightarrow> True | _ \<Rightarrow> False) | K8sCall (GetCR _ _ _) \<Rightarrow> True | _ \<Rightarrow> False)"

lemma readsRole_guard: "readsRole c \<Longrightarrow> roleGuard p n trusted T P pre c"
  by (cases c) (auto simp: readsRole_def roleGuard_def split: iam_call.splits)

lemma wp_listAllRoleTags:
  "wp (listAllRoleTags v p n) (\<lambda>r w'. \<exists>new. trace w' = trace w @ new \<and> (\<forall>c\<in>set new. readsRole c)
     \<and> (\<forall>ts. r = Inr ts \<longrightarrow> roleTagsRead new n ts)) w"
  unfolding listAllRoleTags_def
proof (rule wp_conseq [OF role_tag_pages.wp_loop], elim exE conjE)
  fix r :: "ext_error + aws_tag list" and w' :: world and new
  assume n: "trace w' = trace w @ new" "\<forall>c\<in>set new. \<exists>t r. c = IAMCall (ListRoleTags n t r)"
    "\<forall>xs. r = Inr xs \<longrightarrow> (\<exists>ys. xs = [] @ ys \<and> pagedListing (\<lambda>m r. IAMCall (ListRoleTags n m r)) tp_Tags
        (\<lambda>pg. if tp_Truncated pg then Some (tp_NextMarker pg) else None) None new ys)"
  show "\<exists>new. trace w' = trace w @ new \<and> (\<forall>c\<in>set new. readsRole c) \<and> (\<forall>ts. r = Inr ts \<longrightarrow> roleTagsRead new n ts)"
    by (rule exI [of _ new]) (use n pagedListing_reads in \<open>fastforce simp: readsRole_def\<close>)
qed

text \<open>The role stays ours while its trust policy is compared and corrected.\<close>

lemma guardedTrace_shift: "guardedTrace G a \<Longrightarrow> guardedTrace (\<lambda>x. G (a @ x)) b \<Longrightarrow> guardedTrace G (a @ b)"
  by (induction b rule: rev_induct) (simp_all add: guardedTrace_snoc flip: append_assoc)

lemma guardedTrace_mono: "guardedTrace G t \<Longrightarrow> (\<And>pre c. G pre c \<Longrightarrow> H pre c) \<Longrightarrow> guardedTrace H t"
  unfolding guardedTrace_def by blast

lemma guardedTrace_single: "guardedTrace G [c] \<longleftrightarrow> G [] c"
  using guardedTrace_snoc [of G "[]" c] by simp

lemma wp_correctTrustPolicy:
  assumes "trusted \<or> roleSeenOurs p n pre" "T d"
  shows "wp (correctTrustPolicy v n d role) (\<lambda>r w'. \<exists>new. trace w' = trace w @ new
     \<and> guardedTrace (\<lambda>x. roleGuard p n trusted T P (pre @ x)) new) w"
proof -
  have "guardedTrace (\<lambda>x. roleGuard p n trusted T P (pre @ x)) [IAMCall (UpdateAssumeRolePolicy n d r)]" for r
    using assms by (simp add: guardedTrace_single roleGuard_def)
  then show ?thesis
    unfolding correctTrustPolicy_def iam_UpdateAssumeRolePolicy_def by (auto simp: wp_simps split: sum.split)
qed

lemma wp_verifyRoleOwnership:
  "wp (verifyRoleOwnership v p n) (\<lambda>r w'. \<exists>new. trace w' = trace w @ new
     \<and> guardedTrace (roleGuard p n trusted T P) new \<and> (r = None \<longrightarrow> roleSeenOurs p n new)) w"
  unfolding verifyRoleOwnership_def wp_bind
proof (rule wp_conseq [OF wp_listAllRoleTags], elim exE conjE)
  fix r :: "ext_error + aws_tag list" and w' :: world and new
  assume n: "trace w' = trace w @ new" "\<forall>c\<in>set new. readsRole c" "\<forall>ts. r = Inr ts \<longrightarrow> roleTagsRead new n ts"
  have g: "guardedTrace (roleGuard p n trusted T P) new" using n(2) by (simp add: guardedTrace_def readsRole_guard)
  show "wp (case r of Inl e \<Rightarrow> ret (Some (wrapAWSError (ExtError e) ''reading role tags''))
      | Inr tgs \<Rightarrow> takeOverRole v p n (tagsToMap tgs)) (\<lambda>r w'. \<exists>new. trace w' = trace w @ new
      \<and> guardedTrace (roleGuard p n trusted T P) new \<and> (r = None \<longrightarrow> roleSeenOurs p n new)) w'"
  proof (cases r)
    case (Inr ts)
    then have ts: "roleTagsRead new n ts" using n(3) by simp
    show ?thesis
    proof (cases "takeover p (tagsToMap ts) \<and> \<not> owned_by_pass p (tagsToMap ts)")
      case True
      then obtain u where u: "IsStaleUID (tagsToMap ts) (ps_namespace p) (ps_crName p) (ps_crUID p) = Some u" "MayTransferFrom p u"
        by (auto simp: takeover_def)
      have seen: "roleSeenOurs p n (new @ x)" for x
        by (rule roleSeenOurs_mono [of p n new]) (use ts True in \<open>auto simp: roleSeenOurs_def\<close>)
      have "guardedTrace (roleGuard p n trusted T P) (new @ [IAMCall (TagRole n (ownerTags p) r')])" for r'
        using g ts True unfolding guardedTrace_snoc by (auto simp: roleGuard_def)
      with seen n(1) True u show ?thesis
        by (auto simp: Inr takeOverRole_def iam_TagRole_def wp_simps split: sum.split)
    next
      case False
      then have "roleSeenOurs p n new" if "owned_by_pass p (tagsToMap ts)" using ts that by (auto simp: roleSeenOurs_def)
      with n(1) g False show ?thesis by (auto simp: Inr takeOverRole_def takeover_def wp_simps split: option.split)
    qed
  qed (use n g in \<open>auto simp: wp_simps\<close>)
qed

lemma wp_ensureRole:
  assumes "T d"
  shows "wp (ensureRole v p n d (\<not> trusted)) (\<lambda>r w'. \<exists>new. trace w' = trace w @ new \<and> guardedTrace (roleGuard p n trusted T P) new
     \<and> (\<forall>arn created. r = Inr (arn, created) \<longrightarrow> trusted \<or> roleSeenOurs p n new \<or> roleCreated n new)) w"
    (is "wp _ ?Q w")
proof -
  let ?G = "roleGuard p n trusted T P"
  let ?r = "ia_GetRole (env_iam v) (trace w) n"
  let ?w = "w\<lparr>trace := trace w @ [IAMCall (GetRole n ?r)]\<rparr>"
  have g0: "guardedTrace ?G [IAMCall (GetRole n x)]" for x by (simp add: guardedTrace_single roleGuard_def)
  have create: "guardedTrace ?G [IAMCall (GetRole n (Inl e)), IAMCall (CreateRole n d (ownerTags p) x)]" if "isNoSuchEntity e" for e x
    using g0 assms that guardedTrace_snoc [of ?G "[IAMCall (GetRole n (Inl e))]"] by (auto simp: roleGuard_def)
  have correct: "wp (correctTrustPolicy v n d role) ?Q wx"
    if h: "trace wx = trace w @ pre" "guardedTrace ?G pre" "trusted \<or> roleSeenOurs p n pre" for role and wx :: world and pre
  proof (rule wp_conseq [OF wp_correctTrustPolicy [where T = T and d = d and P = P, OF h(3) assms]], elim exE conjE)
    fix r :: "go_error + string \<times> bool" and w' :: world and new
    assume m: "trace w' = trace wx @ new" "guardedTrace (\<lambda>x. ?G (pre @ x)) new"
    have "trusted \<or> roleSeenOurs p n (pre @ new)" using h(3) roleSeenOurs_mono [of p n pre "pre @ new"] by auto
    with m h guardedTrace_shift [OF h(2) m(2)] show "?Q r w'" by (intro exI [of _ "pre @ new"]) auto
  qed
  have verify: "wp (verifyRoleOwnership v p n) (\<lambda>err. wp (case err of Some e \<Rightarrow> ret (Inl e) | None \<Rightarrow> correctTrustPolicy v n d role) ?Q) ?w" for role
  proof (rule wp_conseq [OF wp_verifyRoleOwnership [where trusted = trusted and T = T and P = "\<lambda>x. P ([IAMCall (GetRole n ?r)] @ x)"]], elim exE conjE)
    fix err :: "go_error option" and w1 :: world and new
    assume m: "trace w1 = trace ?w @ new" "guardedTrace (roleGuard p n trusted T (\<lambda>x. P ([IAMCall (GetRole n ?r)] @ x))) new"
      "err = None \<longrightarrow> roleSeenOurs p n new"
    have "guardedTrace (\<lambda>x. ?G ([IAMCall (GetRole n ?r)] @ x)) new"
      by (rule guardedTrace_mono [OF m(2)], erule roleGuard_mono) auto
    then have g: "guardedTrace ?G ([IAMCall (GetRole n ?r)] @ new)" by (rule guardedTrace_shift [OF g0])
    have s: "roleSeenOurs p n ([IAMCall (GetRole n ?r)] @ new)" if "err = None"
      by (rule roleSeenOurs_mono [of p n new]) (use m(3) that in auto)
    show "wp (case err of Some e \<Rightarrow> ret (Inl e) | None \<Rightarrow> correctTrustPolicy v n d role) ?Q w1"
    proof (cases err)
      case None
      then show ?thesis using correct [of w1 "[IAMCall (GetRole n ?r)] @ new"] m(1) g s by simp
    next
      case (Some e)
      then show ?thesis using m(1) g by (auto simp: wp_simps intro!: exI [of _ "[IAMCall (GetRole n ?r)] @ new"])
    qed
  qed
  show ?thesis
  proof (cases ?r)
    case (Inl e)
    then show ?thesis using g0 create
      by (auto simp: ensureRole_def iam_GetRole_def iam_CreateRole_def wp_simps roleCreated_def split: sum.split)
  next
    case (Inr role)
    then show ?thesis
      using correct [where role = role and wx = ?w and pre = "[IAMCall (GetRole n ?r)]"] verify [of role] g0
      by (cases trusted) (simp_all add: ensureRole_def iam_GetRole_def wp_simps del: split_paired_All)
  qed
qed

lemma emits_ensureRolePolicy:
  "emits (\<lambda>c. readsRole c \<or> (\<exists>x. c = IAMCall (PutRolePolicy n roleInlinePolicyName q x))) (ensureRolePolicy v n q)"
  unfolding ensureRolePolicy_def iam_GetRolePolicy_def iam_PutRolePolicy_def
  by (intro emits_intros emits_invoke) (auto simp: readsRole_def)

lemma guards_reconcileRole:
  assumes "trusted = (case FindManagedResource l TypeIAM roleLedgerName of None \<Rightarrow> False | Some e \<Rightarrow> \<not> NeedsRevalidation (ps_now p) e)"
  shows "guards (roleGuard p n trusted ((=) d) (\<lambda>_. (=) q)) (reconcileRole v p n d q skipped l)"
  unfolding reconcileRole_def Let_def assms [symmetric]
proof (rule guards_after [where C = "\<lambda>r c. readsRole c \<or> ((\<exists>arn created. r = Inr (arn, created)) \<and> (\<exists>x. c = IAMCall (PutRolePolicy n roleInlinePolicyName q x)))"])
  let ?G = "roleGuard p n trusted ((=) d) (\<lambda>_. (=) q)"
  show "wp (ensureRole v p n d (\<not> trusted)) (\<lambda>r w'. \<exists>new. trace w' = trace w @ new \<and> guardedTrace ?G new
     \<and> (\<forall>x c. readsRole c \<or> (\<exists>arn created. r = Inr (arn, created)) \<and> (\<exists>x. c = IAMCall (PutRolePolicy n roleInlinePolicyName q x)) \<longrightarrow> ?G (new @ x) c)) w" for w
  proof (rule wp_conseq [OF wp_ensureRole [where T = "(=) d" and P = "\<lambda>_. (=) q", OF refl]], elim exE conjE)
    fix r :: "go_error + string \<times> bool" and w' :: world and new
    assume m: "trace w' = trace w @ new" "guardedTrace ?G new"
      "\<forall>arn created. r = Inr (arn, created) \<longrightarrow> trusted \<or> roleSeenOurs p n new \<or> roleCreated n new"
    have "?G (new @ x) (IAMCall (PutRolePolicy n roleInlinePolicyName q y))" if "r = Inr (arn, created)" for arn created x y
      using m(3) that roleSeenOurs_mono [of p n new "new @ x"] roleCreated_mono [of n new "new @ x"] by (auto simp: roleGuard_def)
    with m show "\<exists>new. trace w' = trace w @ new \<and> guardedTrace ?G new
      \<and> (\<forall>x c. readsRole c \<or> (\<exists>arn created. r = Inr (arn, created)) \<and> (\<exists>x. c = IAMCall (PutRolePolicy n roleInlinePolicyName q x)) \<longrightarrow> ?G (new @ x) c)"
      by (intro exI [of _ new]) (auto intro: readsRole_guard)
  qed
qed (intro emits_intros emits_mono [OF emits_ensureRolePolicy]; auto)

lemma emits_collectConsumes: "emits readsRole (collectConsumes v cr t refs acc)"
proof (induction refs arbitrary: acc)
  case (Cons ref refs)
  show ?case unfolding collectConsumes.simps resolveConsume_def lookupConsume_def k8s_GetCR_def
    by (intro emits_intros emits_invoke Cons.IH) (simp_all add: readsRole_def)
qed (simp add: emits_ret)

lemma emits_collectSections: "emits readsRole (collectSections v cr secs acc)"
  by (induction secs arbitrary: acc) (auto intro!: emits_intros emits_collectConsumes)

lemma emits_collectGrants: "emits readsRole (collectGrants v cr)"
  unfolding collectGrants_def by (intro emits_intros emits_collectSections)

text \<open>
  A permissions policy a pass may write: the document of grants that are each justified by the ledger or by a read made
  earlier in the same run, within the size IAM accepts. A trust policy it may write: the one for the workload's service account.
\<close>

definition justifiedPolicy :: "AppDependencies \<Rightarrow> history \<Rightarrow> string \<Rightarrow> bool" where
  "justifiedPolicy cr pre d \<longleftrightarrow> (\<exists>grants. grants \<noteq> [] \<and> d = buildPolicyDocument grants \<and> length d \<le> rolePolicySizeLimit
     \<and> (\<forall>g\<in>set grants. ownedGrant cr g \<or> consumedGrant cr pre g))"

definition workloadTrust :: "string \<Rightarrow> string \<Rightarrow> AppDependencies \<Rightarrow> string \<Rightarrow> bool" where
  "workloadTrust a u cr d \<longleftrightarrow> a \<noteq> [] \<and> u \<noteq> [] \<and> d = buildTrustPolicy a u (md_Namespace cr) (workloadServiceAccount cr)"

definition roleVouched :: "pass \<Rightarrow> ledger \<Rightarrow> bool" where
  "roleVouched p l \<longleftrightarrow>
     (case FindManagedResource l TypeIAM roleLedgerName of None \<Rightarrow> False | Some e \<Rightarrow> \<not> NeedsRevalidation (ps_now p) e)"

lemma guards_Ensure_iam:
  "guards (roleGuard p (roleName (md_Namespace cr) (md_Name cr)) (roleVouched p l) (workloadTrust a u cr) (justifiedPolicy cr))
     (Ensure_iam v p a u cr l)" (is "guards ?G _")
  unfolding Ensure_iam_def
proof (rule guards_seq [where R = "\<lambda>r calls. \<forall>acc. r = Inr acc \<longrightarrow> derivedWell cr calls acc"])
  show "wp (collectGrants v cr) (\<lambda>r w'. \<exists>new. trace w' = trace w @ new \<and> guardedTrace ?G new
     \<and> (\<forall>acc. r = Inr acc \<longrightarrow> derivedWell cr new acc)) w" for w
  proof (rule wp_conseq [OF wp_conj [OF collectGrants_well wp_emits [OF emits_collectGrants]]], elim exE conjE)
    fix r :: "go_error + grant list \<times> string list" and w' :: world and c1 c2
    assume "trace w' = trace w @ c1" "\<forall>acc. r = Inr acc \<longrightarrow> derivedWell cr c1 acc" "trace w' = trace w @ c2" "\<forall>c\<in>set c2. readsRole c"
    then show "\<exists>new. trace w' = trace w @ new \<and> guardedTrace ?G new \<and> (\<forall>acc. r = Inr acc \<longrightarrow> derivedWell cr new acc)"
      by (intro exI [of _ c1]) (auto simp: guardedTrace_def readsRole_guard)
  qed
next
  fix r :: "go_error + grant list \<times> string list" and new
  assume r: "\<forall>acc. r = Inr acc \<longrightarrow> derivedWell cr new acc"
  have "guards (\<lambda>x. ?G (new @ x)) (reconcileRole v p (roleName (md_Namespace cr) (md_Name cr)) d q skipped l)"
    if h: "r = Inr (grants, skipped)" "grants \<noteq> []" "ensureTrustPolicy a u cr = Inr d" "ensurePermissionsPolicy grants = Inr q"
    for grants skipped d q
  proof (rule guards_mono [OF guards_reconcileRole [OF roleVouched_def]], erule roleGuard_mono)
    show "workloadTrust a u cr x" if "d = x" for x
      using h(3) that by (auto simp: ensureTrustPolicy_def workloadTrust_def split: if_splits)
    show "justifiedPolicy cr (new @ pre) x" if "q = x" for pre x
    proof -
      have "q = buildPolicyDocument grants \<and> length q \<le> rolePolicySizeLimit"
        using h(4) by (auto simp: ensurePermissionsPolicy_def Let_def split: if_splits)
      moreover have "\<forall>g\<in>set grants. ownedGrant cr g \<or> consumedGrant cr (new @ pre) g"
        using r h(1) consumedGrant_mono [of cr new _ pre] by (auto simp: derivedWell_def)
      ultimately show ?thesis using h(2) that unfolding justifiedPolicy_def by blast
    qed
  qed simp
  then show "guards (\<lambda>x. ?G (new @ x)) (case r of Inl e \<Rightarrow> ret (l, [], Some e)
      | Inr (grants, skipped) \<Rightarrow>
          if grants = [] then ret (l, [], skippedToError skipped)
          else (case ensureTrustPolicy a u cr of Inl e \<Rightarrow> ret (l, [], Some e)
                | Inr trustPolicy \<Rightarrow> (case ensurePermissionsPolicy grants of Inl e \<Rightarrow> ret (l, [], Some e)
                   | Inr permissionsPolicy \<Rightarrow>
                       reconcileRole v p (roleName (md_Namespace cr) (md_Name cr)) trustPolicy permissionsPolicy skipped l)))"
    by (intro guards_intros) auto
qed

text \<open>A role is deleted, with its inline policy, only after its tags showed it is ours.\<close>

definition roleDeletionGuard :: "pass \<Rightarrow> ledger \<Rightarrow> history \<Rightarrow> call \<Rightarrow> bool" where
  "roleDeletionGuard p l pre c \<longleftrightarrow> readsRole c
     \<or> (\<exists>e n. FindManagedResource l TypeIAM roleLedgerName = Some e \<and> roleNameFromARN (mr_ARN e) = Inr n
          \<and> (\<exists>ts. roleTagsRead pre n ts \<and> owned_by_pass p (tagsToMap ts))
          \<and> ((\<exists>r. c = IAMCall (DeleteRole n r)) \<or> (\<exists>r. c = IAMCall (DeleteRolePolicy n roleInlinePolicyName r))))"

lemma emits_deleteRole:
  "emits (\<lambda>c. readsRole c \<or> (\<exists>r. c = IAMCall (DeleteRole n r)) \<or> (\<exists>r. c = IAMCall (DeleteRolePolicy n roleInlinePolicyName r))) (deleteRole v n l)"
  unfolding deleteRole_def roleInUseError_def Let_def iam_DeleteRolePolicy_def iam_DeleteRole_def iam_ListAttachedRolePolicies_def
    iam_ListInstanceProfilesForRole_def
  by (intro emits_intros emits_invoke) (auto simp: readsRole_def)

lemma leftmono_roleDeletionGuard: "leftmono (roleDeletionGuard p l)"
  unfolding leftmono_def
proof (intro allI impI)
  fix x pre c assume g: "roleDeletionGuard p l pre c"
  have "roleTagsRead pre n ts \<Longrightarrow> roleTagsRead (x @ pre) n ts" for n ts by (erule readsPages_mono) simp
  with g show "roleDeletionGuard p l (x @ pre) c" unfolding roleDeletionGuard_def by auto
qed

lemma guards_deleteOwnedRole:
  assumes "FindManagedResource l TypeIAM roleLedgerName = Some e" "roleNameFromARN (mr_ARN e) = Inr n"
  shows "guards (roleDeletionGuard p l) (deleteOwnedRole v p n l)"
  unfolding deleteOwnedRole_def
proof (rule guards_after [where C = "\<lambda>r c. readsRole c \<or> (\<exists>ts. r = Inr ts \<and> owned_by_pass p (tagsToMap ts))
    \<and> ((\<exists>r. c = IAMCall (DeleteRole n r)) \<or> (\<exists>r. c = IAMCall (DeleteRolePolicy n roleInlinePolicyName r)))"])
  show "wp (listAllRoleTags v p n) (\<lambda>r w'. \<exists>new. trace w' = trace w @ new \<and> guardedTrace (roleDeletionGuard p l) new
     \<and> (\<forall>x c. readsRole c \<or> (\<exists>ts. r = Inr ts \<and> owned_by_pass p (tagsToMap ts))
        \<and> ((\<exists>r. c = IAMCall (DeleteRole n r)) \<or> (\<exists>r. c = IAMCall (DeleteRolePolicy n roleInlinePolicyName r)))
        \<longrightarrow> roleDeletionGuard p l (new @ x) c)) w" for w
  proof (rule wp_conseq [OF wp_listAllRoleTags], elim exE conjE)
    fix r :: "ext_error + aws_tag list" and w' :: world and new
    assume m: "trace w' = trace w @ new" "\<forall>c\<in>set new. readsRole c" "\<forall>ts. r = Inr ts \<longrightarrow> roleTagsRead new n ts"
    have "roleTagsRead (new @ x) n ts" if "r = Inr ts" for x ts
      by (rule readsPages_mono) (use m(3) that in auto)
    with m assms show "\<exists>new. trace w' = trace w @ new \<and> guardedTrace (roleDeletionGuard p l) new
     \<and> (\<forall>x c. readsRole c \<or> (\<exists>ts. r = Inr ts \<and> owned_by_pass p (tagsToMap ts))
        \<and> ((\<exists>r. c = IAMCall (DeleteRole n r)) \<or> (\<exists>r. c = IAMCall (DeleteRolePolicy n roleInlinePolicyName r)))
        \<longrightarrow> roleDeletionGuard p l (new @ x) c)"
      by (intro exI [of _ new]) (auto simp: guardedTrace_def roleDeletionGuard_def)
  qed
qed (intro emits_intros emits_mono [OF emits_deleteRole]; auto)

lemma guards_Cleanup_iam: "guards (roleDeletionGuard p l) (Cleanup_iam v p cr l deleting)"
proof -
  have "guards (roleDeletionGuard p l) (stillNeeded v cr deleting)"
    unfolding stillNeeded_def
    by (rule guards_emits [where C = readsRole]) (auto intro!: emits_intros emits_collectGrants simp: roleDeletionGuard_def)
  then show ?thesis
    unfolding Cleanup_iam_def
    by (intro guards_intros guards_bind [OF leftmono_roleDeletionGuard] guards_deleteOwnedRole) auto
qed

text \<open>C19: When the role may change. Ensuring touches one role, the one named after this custom resource: it is created only after IAM said it does
  not exist, its owner tags are rewritten only after its tags showed an earlier UID this pass may take over from, and its policies are written only
  when the pass created it, the ledger still vouches for it, or its tags, read in this pass, show it as ours; what is written is the trust policy of
  the workload's service account and a document of grants each justified by the ledger or by a read of this pass. Cleaning up deletes a role and its
  inline policy only for the recorded role and after all its tags were read and name this custom resource.\<close>

theorem role_changes_guarded:
  "guards (roleGuard p (roleName (md_Namespace cr) (md_Name cr)) (roleVouched p l) (workloadTrust a u cr) (justifiedPolicy cr))
     (Ensure_iam v p a u cr l)
   \<and> guards (roleDeletionGuard p l) (Cleanup_iam v p cr l deleting)"
  by (intro conjI guards_Ensure_iam guards_Cleanup_iam)

text \<open>What the cleanup does once it has decided that the role is not needed, with IAM answering.\<close>

definition roleReleased :: "pass \<Rightarrow> string \<Rightarrow> TagPage \<Rightarrow> ledger \<Rightarrow> world \<Rightarrow> (ledger \<times> go_error option) \<times> world" where
  "roleReleased p n pg l w =
     (let listed = IAMCall (ListRoleTags n None (Inr pg)) in
      if owned_by_pass p (tagsToMap (tp_Tags pg))
      then ((RemoveManagedResource l TypeIAM roleLedgerName, None),
            w\<lparr>trace := trace w @ [listed, IAMCall (DeleteRolePolicy n roleInlinePolicyName (Inr ())), IAMCall (DeleteRole n (Inr ()))]\<rparr>)
      else ((l, Some (OwnershipLostError ''IAM role'' n ''delete it'')), w\<lparr>trace := trace w @ [listed]\<rparr>))"

text \<open>A declared queue, topic, table or bucket that the ledger of the custom resource knows.\<close>

definition ownsReconciled :: "AppDependencies \<Rightarrow> bool" where
  "ownsReconciled cr \<longleftrightarrow> list_ex (\<lambda>sec. list_ex (\<lambda>x. HasManagedResource (st_ManagedResources (ad_Status cr)) (gs_resourceType sec) (or_name x))
     (gs_owned sec)) (grantSections cr)"

definition ownsAndConsumesNothing :: "AppDependencies \<Rightarrow> bool" where
  "ownsAndConsumesNothing cr \<longleftrightarrow> list_all (\<lambda>sec. gs_owned sec = [] \<and> gs_consumes sec = []) (grantSections cr)
     \<and> (case sp_KMS (ad_Spec cr) of None \<Rightarrow> True | Some s \<Rightarrow> kms_Resources s = [])"

lemma reconciled_grants:
  assumes "run_state (collectGrants v cr) w = (Inr (grants, skipped), w1)" "ownsReconciled cr"
  shows "grants \<noteq> []"
proof -
  from assms(2) obtain sec x where x: "sec \<in> set (grantSections cr)" "x \<in> set (gs_owned sec)"
      "HasManagedResource (st_ManagedResources (ad_Status cr)) (gs_resourceType sec) (or_name x)"
    by (auto simp: ownsReconciled_def list_ex_iff)
  from owned_resources_granted [OF assms(1) x(1,2)] x(3) show ?thesis
    by (auto simp: ownedOutcome_def HasManagedResource_def split: option.splits)
qed

lemma nothing_collected:
  assumes "ownsAndConsumesNothing cr"
  shows "run_state (collectGrants v cr) w = (Inr ([], []), w)"
proof -
  have "run_state (collectSections v cr secs acc) w = (Inr acc, w)" if "list_all (\<lambda>sec. gs_owned sec = [] \<and> gs_consumes sec = []) secs" for secs acc
    using that by (induction secs arbitrary: acc) simp_all
  with assms show ?thesis
    by (auto simp: collectGrants_def ownsAndConsumesNothing_def split: option.splits)
qed

lemma run_deleteOwnedRole:
  assumes "\<And>h m. ia_ListRoleTags (env_iam v) h n m = Inr pg" "\<not> tp_Truncated pg" "ps_pageBudget p > 0"
    and "\<And>h q. ia_DeleteRolePolicy (env_iam v) h n q = Inr ()" "\<And>h. ia_DeleteRole (env_iam v) h n = Inr ()"
  shows "run_state (deleteOwnedRole v p n l) w = roleReleased p n pg l w"
proof -
  obtain b where b: "ps_pageBudget p = Suc b" using assms(3) by (cases "ps_pageBudget p") auto
  show ?thesis
    using assms(1,2,4,5)
    by (simp add: roleReleased_def deleteOwnedRole_def listAllRoleTags_def b iam_ListRoleTags_def deleteRole_def
        iam_DeleteRolePolicy_def iam_DeleteRole_def invoke_def)
qed


definition demoRole :: ManagedResource where
  "demoRole = zeroManagedResource\<lparr>mr_Type := ''iam'', mr_Name := ''role'', mr_ARN := ''arn:aws:iam::1:role/r''\<rparr>"

definition demoRolePass :: pass where
  "demoRolePass = demoPass\<lparr>ps_namespace := ''shop'', ps_crName := ''orders'', ps_crUID := ''u1'', ps_pageBudget := 1\<rparr>"

definition demoRoleTags :: TagPage where
  "demoRoleTags = \<lparr>tp_Tags = [(Some OwnerTagKey, Some (OwnerTagValue ''shop'' ''orders'')), (Some OwnerUIDTagKey, Some ''u1'')],
     tp_Truncated = False, tp_NextMarker = None\<rparr>"

definition goneProducer :: env where
  "goneProducer = refusingEnv\<lparr>
     env_k8s := (env_k8s refusingEnv)\<lparr>ha_GetCR := \<lambda>h ns n. Inl (plain_ext_error\<lparr>ex_k8s_notfound := True\<rparr>)\<rparr>,
     env_iam := refusingIam\<lparr>ia_ListRoleTags := \<lambda>h n m. Inr demoRoleTags,
       ia_DeleteRolePolicy := \<lambda>h n q. Inr (), ia_DeleteRole := \<lambda>h n. Inr ()\<rparr>\<rparr>"

lemma demo_role:
  "FindManagedResource [demoRole] TypeIAM roleLedgerName = Some demoRole" "roleNameFromARN (mr_ARN demoRole) = Inr ''r''"
  "owned_by_pass demoRolePass (tagsToMap (tp_Tags demoRoleTags))"
  "mr_Type demoRole = TypeIAM" "mr_Name demoRole = roleLedgerName"
  by (simp_all add: demoRole_def roleNameFromARN_def afterLast_def roleLedgerName_def type_names zeroManagedResource_def
      demoRolePass_def demoRoleTags_def IsOwnedBy_def OwnerTagKey_def OwnerUIDTagKey_def)


text \<open>
  What the property above leaves open, as the code decides it: a custom resource that still consumes a resource whose producer is missing for
  the moment has no grants, so its role goes.
\<close>

lemma skipped_role_goes:
  "\<exists>w'. run_state (Cleanup_iam goneProducer demoRolePass demoCR [demoRole] False) start = (([], None), w')
     \<and> IAMCall (DeleteRole ''r'' (Inr ())) \<in> set (trace w') \<and> \<not> ownsAndConsumesNothing demoCR"
proof -
  have env: "\<And>h m. ia_ListRoleTags (env_iam goneProducer) h ''r'' m = Inr demoRoleTags" "\<not> tp_Truncated demoRoleTags" "ps_pageBudget demoRolePass > 0"
    "\<And>h q. ia_DeleteRolePolicy (env_iam goneProducer) h ''r'' q = Inr ()" "\<And>h. ia_DeleteRole (env_iam goneProducer) h ''r'' = Inr ()"
    by (simp_all add: goneProducer_def demoRoleTags_def demoRolePass_def)
  have "\<exists>skipped w1. run_state (collectGrants goneProducer demoCR) start = (Inr ([], skipped), w1)"
    by (simp add: collectGrants_def grantSections_def demoCR_def goneProducer_def start_def resolveConsume_def
        lookupConsume_def k8s_GetCR_def invoke_def consumeOutcome_def ownedOf_def lookupProblem_def plain_ext_error_def type_names Let_def)
  moreover have "\<not> ownsAndConsumesNothing demoCR" by (simp add: ownsAndConsumesNothing_def grantSections_def demoCR_def)
  ultimately show ?thesis
    using demo_role run_deleteOwnedRole [OF env] by (auto simp: Cleanup_iam_def stillNeeded_def roleReleased_def)
qed

end
