(* ===== verification/Service_Account.thy ===== *)
theory Service_Account
  imports Iam_Role
begin

text \<open>
  The service account a workload runs as, \<^verbatim>\<open>internal/resources/serviceaccount/serviceaccount.go\<close> with \<^verbatim>\<open>AppliedBy\<close> of
  \<^verbatim>\<open>internal/status/fieldmanager.go\<close>: whom it may be claimed from, how the role's annotation and the network identity label are applied
  and released by server-side apply. Every apply forces ownership of its fields. An applied owner reference is always that of a controller
  that blocks deletion.
\<close>

section \<open>Claims\<close>

definition RoleARNAnnotation :: string where "RoleARNAnnotation = ''eks.amazonaws.com/role-arn''"
definition fieldOwner_sa :: string where "fieldOwner_sa = ''cloudctl-operator-serviceaccount''"
definition NetworkIdentityLabelKey :: string where "NetworkIdentityLabelKey = ''cloudctl.io/network-identity''"
definition legacyNetworkIdentityFieldOwner :: string where
  "legacyNetworkIdentityFieldOwner = ''cloudctl-operator-network-identity''"
definition AllowClaimAnnotation :: string where "AllowClaimAnnotation = ''cloudctl.io/allow-claim''"
definition defaultServiceAccount :: string where "defaultServiceAccount = ''default''"

definition networkIdentityFieldOwner :: "string \<Rightarrow> string" where
  "networkIdentityFieldOwner crUID = ''cloudctl-network-identity-'' @ crUID"

definition AppliedBy :: "string list \<Rightarrow> string \<Rightarrow> bool" where
  "AppliedBy appliers manager \<longleftrightarrow> manager \<in> set appliers"

definition refuseDefault :: "string \<Rightarrow> go_error option" where
  "refuseDefault name =
     (if name \<noteq> defaultServiceAccount then None
      else Some (ReconcileError (msgError ''ServiceAccount is what every pod in the namespace runs as unless it names another'' [name])
             False ''ServiceAccountNotClaimable'' False))"

text \<open>\<^verbatim>\<open>strings.TrimSpace\<close>: the bytes of the blanks of Unicode, dropped from either end.\<close>

definition spaceRunes :: "string list" where
  "spaceRunes =
     map (\<lambda>c. [c]) [CHR 0x09, CHR 0x0A, CHR 0x0B, CHR 0x0C, CHR 0x0D, CHR 0x20]
     @ map (\<lambda>c. [CHR 0xC2, c]) [CHR 0x85, CHR 0xA0]
     @ [[CHR 0xE1, CHR 0x9A, CHR 0x80], [CHR 0xE2, CHR 0x81, CHR 0x9F], [CHR 0xE3, CHR 0x80, CHR 0x80]]
     @ map (\<lambda>n. [CHR 0xE2, CHR 0x80, char_of n]) ([128::nat..<139] @ [168, 169, 175])"

function dropRunes :: "string list \<Rightarrow> string \<Rightarrow> string" where
  "dropRunes runes s =
     (case find (\<lambda>r. r \<noteq> [] \<and> hasPrefix s r) runes of None \<Rightarrow> s | Some r \<Rightarrow> dropRunes runes (drop (length r) s))"
  by pat_completeness auto
termination
  by (relation "measure (\<lambda>(runes, s). length s)")
    (auto simp: find_Some_iff hasPrefix_prefix prefix_def)

declare dropRunes.simps [simp del]

definition TrimSpace :: "string \<Rightarrow> string" where
  "TrimSpace s = rev (dropRunes (map rev spaceRunes) (rev (dropRunes spaceRunes s)))"

definition consents :: "ServiceAccount \<Rightarrow> string \<Rightarrow> bool" where
  "consents sa crName \<longleftrightarrow> list_ex (\<lambda>name. TrimSpace name = crName) (splitOn (goget (sa_Annotations sa) AllowClaimAnnotation) CHR '','')"

definition existingRoleNote :: "ServiceAccount \<Rightarrow> string" where
  "existingRoleNote sa =
     (let role = goget (sa_Annotations sa) RoleARNAnnotation in if role \<noteq> [] then '' and already has IAM role '' @ role else [])"

definition claimError :: "ServiceAccount \<Rightarrow> string \<Rightarrow> string \<Rightarrow> string \<Rightarrow> go_error option" where
  "claimError sa namespace crName crUID =
     (case refuseDefault (sa_Name sa) of
        Some e \<Rightarrow> Some e
      | None \<Rightarrow>
          if IsOwnedBy (sa_Annotations sa) namespace crName crUID then None
          else if goget (sa_Annotations sa) OwnerTagKey \<noteq> []
          then Some (ReconcileError (msgError ''ServiceAccount is already claimed by a different AppDependencies CR''
                 [sa_Name sa, goget (sa_Annotations sa) OwnerTagKey]) False ''ServiceAccountInUse'' False)
          else if \<not> consents sa crName
          then Some (ReconcileError (msgError ''ServiceAccount was not created by this operator''
                 [sa_Name sa, existingRoleNote sa, AllowClaimAnnotation, crName]) False ''ServiceAccountNotClaimable'' False)
          else None)"

definition notFoundError :: "string \<Rightarrow> go_error" where
  "notFoundError name = ReconcileError (msgError ''ServiceAccount does not exist'' [name]) True ''ServiceAccountNotFound'' False"

definition ownerReference :: "string \<Rightarrow> string \<Rightarrow> OwnerReference" where
  "ownerReference crName crUID =
     \<lparr>or_APIVersion = ''deps.cloudctl.io/v1alpha1'', or_Kind = ''AppDependencies'', or_Name = crName, or_UID = crUID\<rparr>"

definition ownedBy :: "ServiceAccount \<Rightarrow> string \<Rightarrow> bool" where
  "ownedBy sa crUID \<longleftrightarrow> (case sa_Controller sa of None \<Rightarrow> False | Some owner \<Rightarrow> or_UID owner = crUID)"

definition hasAnnotations :: "ServiceAccount \<Rightarrow> (string \<rightharpoonup> string) \<Rightarrow> bool" where
  "hasAnnotations sa want \<longleftrightarrow> (\<forall>k\<in>dom want. goget (sa_Annotations sa) k = the (want k))"

definition upToDate :: "ServiceAccount \<Rightarrow> (string \<rightharpoonup> string) \<Rightarrow> bool \<Rightarrow> string \<Rightarrow> bool" where
  "upToDate existing annotations wantOwnerRef crUID \<longleftrightarrow>
     hasAnnotations existing annotations \<and> wantOwnerRef = ownedBy existing crUID \<and> AppliedBy (sa_AppliedBy existing) fieldOwner_sa"

section \<open>Applying and releasing\<close>

definition getServiceAccount :: "env \<Rightarrow> string \<Rightarrow> string \<Rightarrow> (go_error + ServiceAccount option) op" where
  "getServiceAccount v namespace name = do {
     r \<leftarrow> k8s_GetServiceAccount v namespace name;
     case r of
       Inl e \<Rightarrow> if ex_k8s_notfound e then ret (Inr None) else ret (Inl (ExtError e))
     | Inr sa \<Rightarrow> ret (Inr (Some sa))
   }"

definition serviceAccountApply :: "string \<Rightarrow> string \<Rightarrow> string \<Rightarrow> ServiceAccountApply" where
  "serviceAccountApply namespace name manager =
     \<lparr>sy_Namespace = namespace, sy_Name = name, sy_Annotations = Map.empty, sy_Labels = Map.empty, sy_OwnerReference = None,
      sy_FieldOwner = manager\<rparr>"

definition applyError :: "unit reply \<Rightarrow> go_error option" where
  "applyError r = (case r of Inl e \<Rightarrow> Some (ExtError e) | Inr _ \<Rightarrow> None)"

definition EnsureNetworkIdentityLabel :: "env \<Rightarrow> string \<Rightarrow> string \<Rightarrow> string \<Rightarrow> string \<Rightarrow> go_error option op" where
  "EnsureNetworkIdentityLabel v namespace crName crUID name =
     (case refuseDefault name of
        Some e \<Rightarrow> ret (Some e)
      | None \<Rightarrow> do {
          r \<leftarrow> getServiceAccount v namespace name;
          let apply = (serviceAccountApply namespace name (networkIdentityFieldOwner crUID))\<lparr>sy_Labels := [NetworkIdentityLabelKey \<mapsto> name]\<rparr>;
          let owned = apply\<lparr>sy_OwnerReference := Some (ownerReference crName crUID)\<rparr>;
          case r of
            Inl e \<Rightarrow> ret (Some e)
          | Inr None \<Rightarrow>
              if name \<noteq> crName then ret (Some (notFoundError name))
              else do { a \<leftarrow> k8s_ApplyServiceAccount v owned; ret (applyError a) }
          | Inr (Some existing) \<Rightarrow>
              (case claimError existing namespace crName crUID of
                 Some e \<Rightarrow> ret (Some e)
               | None \<Rightarrow>
                   if goget (sa_Labels existing) NetworkIdentityLabelKey = name
                      \<and> AppliedBy (sa_AppliedBy existing) (networkIdentityFieldOwner crUID)
                   then ret None
                   else do {
                     a \<leftarrow> k8s_ApplyServiceAccount v (if ownedBy existing crUID then owned else apply);
                     ret (applyError a)
                   })
        })"

definition ReleaseNetworkIdentityLabel :: "env \<Rightarrow> string \<Rightarrow> string \<Rightarrow> string \<Rightarrow> string \<Rightarrow> go_error option op" where
  "ReleaseNetworkIdentityLabel v namespace crName crUID name = do {
     r \<leftarrow> k8s_GetServiceAccount v namespace name;
     case r of
       Inl e \<Rightarrow> if ex_k8s_notfound e then ret None else ret (Some (ExtError e))
     | Inr sa \<Rightarrow> do {
         a \<leftarrow> k8s_ApplyServiceAccount v ((serviceAccountApply namespace name (networkIdentityFieldOwner crUID))\<lparr>
                sy_OwnerReference := if ownedBy sa crUID then Some (ownerReference crName crUID) else None\<rparr>);
         case applyError a of
           Some e \<Rightarrow> ret (Some e)
         | None \<Rightarrow> do {
             b \<leftarrow> k8s_ApplyServiceAccount v (serviceAccountApply namespace name legacyNetworkIdentityFieldOwner);
             ret (applyError b)
           }
       }
   }"

text \<open>An owner reference set before the release stays, as it was read.\<close>

definition release :: "env \<Rightarrow> AppDependencies \<Rightarrow> string \<Rightarrow> go_error option op" where
  "release v cr name = do {
     r \<leftarrow> k8s_GetServiceAccount v (md_Namespace cr) name;
     case r of
       Inl e \<Rightarrow> if ex_k8s_notfound e then ret None else ret (Some (ExtError e))
     | Inr sa \<Rightarrow> do {
         a \<leftarrow> k8s_ApplyServiceAccount v ((serviceAccountApply (md_Namespace cr) name fieldOwner_sa)\<lparr>
                sy_OwnerReference := if ownedBy sa (md_UID cr) then sa_Controller sa else None\<rparr>);
         ret (applyError a)
       }
   }"

definition releasePrevious :: "env \<Rightarrow> AppDependencies \<Rightarrow> string \<Rightarrow> go_error option op" where
  "releasePrevious v cr target =
     (let prev = st_ServiceAccountName (ad_Status cr)
      in if prev = [] \<or> prev = target then ret None else release v cr prev)"

definition checkTarget :: "AppDependencies \<Rightarrow> ServiceAccount option \<Rightarrow> bool \<Rightarrow> string \<Rightarrow> go_error option" where
  "checkTarget cr existing defaultedName target =
     (case refuseDefault target of
        Some e \<Rightarrow> Some e
      | None \<Rightarrow>
          (case existing of
             None \<Rightarrow> if \<not> defaultedName then Some (notFoundError target) else None
           | Some sa \<Rightarrow> claimError sa (md_Namespace cr) (md_Name cr) (md_UID cr)))"

definition withOwnerReference :: "env \<Rightarrow> ServiceAccountApply \<Rightarrow> AppDependencies \<Rightarrow> go_error + ServiceAccountApply" where
  "withOwnerReference v apply cr =
     (case env_GVK v of
        Inl e \<Rightarrow> Inl (ExtError e)
      | Inr (groupVersion, kind) \<Rightarrow>
          Inr (apply\<lparr>sy_OwnerReference := Some \<lparr>or_APIVersion = groupVersion, or_Kind = kind, or_Name = md_Name cr, or_UID = md_UID cr\<rparr>\<rparr>))"

definition claimAnnotations :: "AppDependencies \<Rightarrow> string \<Rightarrow> string \<rightharpoonup> string" where
  "claimAnnotations cr roleARN =
     [RoleARNAnnotation \<mapsto> roleARN, OwnerTagKey \<mapsto> OwnerTagValue (md_Namespace cr) (md_Name cr), OwnerUIDTagKey \<mapsto> md_UID cr]"

text \<open>\<^verbatim>\<open>Ensure\<close> once the target may be used and the previous one was released.\<close>

definition applyClaim ::
  "env \<Rightarrow> AppDependencies \<Rightarrow> string \<Rightarrow> string \<Rightarrow> bool \<Rightarrow> ServiceAccount option \<Rightarrow> (string \<times> go_error option) op" where
  "applyClaim v cr roleARN target defaultedName existing =
     (let isOwnedByUs = (case existing of None \<Rightarrow> False
                         | Some sa \<Rightarrow> IsOwnedBy (sa_Annotations sa) (md_Namespace cr) (md_Name cr) (md_UID cr));
          wantOwnerRef = (defaultedName \<and> (existing = None \<or> isOwnedByUs));
          annotations = claimAnnotations cr roleARN;
          apply = (serviceAccountApply (md_Namespace cr) target fieldOwner_sa)\<lparr>sy_Annotations := annotations\<rparr>;
          unchanged = st_ServiceAccountName (ad_Status cr)
      in if (case existing of None \<Rightarrow> False | Some sa \<Rightarrow> upToDate sa annotations wantOwnerRef (md_UID cr)) then ret (target, None)
         else
           (case (if wantOwnerRef then withOwnerReference v apply cr else Inr apply) of
              Inl e \<Rightarrow> ret (unchanged, Some e)
            | Inr apply' \<Rightarrow> do {
                a \<leftarrow> k8s_ApplyServiceAccount v apply';
                case applyError a of Some e \<Rightarrow> ret (unchanged, Some e) | None \<Rightarrow> ret (target, None)
              }))"

definition Ensure_sa :: "env \<Rightarrow> AppDependencies \<Rightarrow> string \<Rightarrow> (string \<times> go_error option) op" where
  "Ensure_sa v cr roleARN =
     (let unchanged = st_ServiceAccountName (ad_Status cr);
          defaultedName = (sp_ServiceAccountName (ad_Spec cr) = []);
          target = (if defaultedName then md_Name cr else sp_ServiceAccountName (ad_Spec cr))
      in if roleARN = [] then ret (unchanged, None)
         else do {
           r \<leftarrow> getServiceAccount v (md_Namespace cr) target;
           case r of
             Inl e \<Rightarrow> ret (unchanged, Some e)
           | Inr existing \<Rightarrow>
               (case checkTarget cr existing defaultedName target of
                  Some e \<Rightarrow> ret (unchanged, Some e)
                | None \<Rightarrow> do {
                    err \<leftarrow> releasePrevious v cr target;
                    case err of
                      Some e \<Rightarrow> ret (unchanged, Some e)
                    | None \<Rightarrow> applyClaim v cr roleARN target defaultedName existing
                  })
         })"

definition Cleanup_sa :: "env \<Rightarrow> AppDependencies \<Rightarrow> go_error option op" where
  "Cleanup_sa v cr =
     (if st_ServiceAccountName (ad_Status cr) = [] then ret None else release v cr (st_ServiceAccountName (ad_Status cr)))"

section \<open>Who may be claimed\<close>

text \<open>
  What a reading of a service account must show before this custom resource may write to it: there is none and it has the custom
  resource's own name, or it is claimed by this custom resource, or it is unclaimed and its owner consents.
\<close>

definition answers :: "ServiceAccount reply \<Rightarrow> ServiceAccount option \<Rightarrow> bool" where
  "answers r existing \<longleftrightarrow> (case existing of None \<Rightarrow> \<exists>e. r = Inl e \<and> ex_k8s_notfound e | Some sa \<Rightarrow> r = Inr sa)"

definition saSeen :: "string \<Rightarrow> string \<Rightarrow> history \<Rightarrow> ServiceAccount option \<Rightarrow> bool" where
  "saSeen ns name pre existing \<longleftrightarrow> (\<exists>r. K8sCall (GetServiceAccount ns name r) \<in> set pre \<and> answers r existing)"

definition claimable :: "string \<Rightarrow> string \<Rightarrow> string \<Rightarrow> string \<Rightarrow> ServiceAccount option \<Rightarrow> bool" where
  "claimable ns crName crUID name existing \<longleftrightarrow> name \<noteq> defaultServiceAccount
     \<and> (case existing of None \<Rightarrow> name = crName
        | Some sa \<Rightarrow> IsOwnedBy (sa_Annotations sa) ns crName crUID
            \<or> goget (sa_Annotations sa) OwnerTagKey = [] \<and> consents sa crName)"

definition readsSA :: "call \<Rightarrow> bool" where
  "readsSA c \<longleftrightarrow> (\<exists>ns n r. c = K8sCall (GetServiceAccount ns n r))"

definition bareApply :: "string \<Rightarrow> ServiceAccountApply \<Rightarrow> bool" where
  "bareApply manager i \<longleftrightarrow> sy_Annotations i = Map.empty \<and> sy_Labels i = Map.empty \<and> sy_FieldOwner i = manager"

definition claimWrite :: "AppDependencies \<Rightarrow> string \<Rightarrow> ServiceAccountApply \<Rightarrow> bool" where
  "claimWrite cr roleARN i \<longleftrightarrow> sy_Namespace i = md_Namespace cr \<and> sy_FieldOwner i = fieldOwner_sa \<and> sy_Labels i = Map.empty
     \<and> (sy_Name i = workloadServiceAccount cr \<and> sy_Annotations i = claimAnnotations cr roleARN
        \<or> sy_Name i = st_ServiceAccountName (ad_Status cr) \<and> sy_Annotations i = Map.empty)"

definition claimGuard :: "AppDependencies \<Rightarrow> string \<Rightarrow> history \<Rightarrow> call \<Rightarrow> bool" where
  "claimGuard cr roleARN pre c \<longleftrightarrow> readsSA c \<or> (\<exists>i r existing. c = K8sCall (ApplyServiceAccount i r) \<and> claimWrite cr roleARN i
     \<and> saSeen (md_Namespace cr) (workloadServiceAccount cr) pre existing
     \<and> claimable (md_Namespace cr) (md_Name cr) (md_UID cr) (workloadServiceAccount cr) existing)"

definition labelGuard :: "string \<Rightarrow> string \<Rightarrow> string \<Rightarrow> string \<Rightarrow> history \<Rightarrow> call \<Rightarrow> bool" where
  "labelGuard ns crName crUID name pre c \<longleftrightarrow> readsSA c \<or> (\<exists>i r existing. c = K8sCall (ApplyServiceAccount i r)
     \<and> sy_Namespace i = ns \<and> sy_Name i = name \<and> sy_Labels i = [NetworkIdentityLabelKey \<mapsto> name] \<and> sy_Annotations i = Map.empty
     \<and> sy_FieldOwner i = networkIdentityFieldOwner crUID \<and> saSeen ns name pre existing \<and> claimable ns crName crUID name existing)"

definition releaseGuard :: "AppDependencies \<Rightarrow> history \<Rightarrow> call \<Rightarrow> bool" where
  "releaseGuard cr pre c \<longleftrightarrow> readsSA c \<or> (\<exists>i r sa. c = K8sCall (ApplyServiceAccount i r) \<and> bareApply fieldOwner_sa i
     \<and> sy_Namespace i = md_Namespace cr \<and> sy_Name i = st_ServiceAccountName (ad_Status cr) \<and> saSeen (md_Namespace cr) (sy_Name i) pre (Some sa))"

lemma refuseDefault_None: "refuseDefault name = None \<longleftrightarrow> name \<noteq> defaultServiceAccount"
  by (simp add: refuseDefault_def)

lemma claimError_None:
  "claimError sa ns crName crUID = None \<longleftrightarrow> sa_Name sa \<noteq> defaultServiceAccount
     \<and> (IsOwnedBy (sa_Annotations sa) ns crName crUID \<or> goget (sa_Annotations sa) OwnerTagKey = [] \<and> consents sa crName)"
  by (auto simp: claimError_def refuseDefault_def)

lemma checkTarget_claimable:
  "checkTarget cr existing (sp_ServiceAccountName (ad_Spec cr) = []) (workloadServiceAccount cr) = None
   \<Longrightarrow> claimable (md_Namespace cr) (md_Name cr) (md_UID cr) (workloadServiceAccount cr) existing"
  by (auto simp: checkTarget_def claimable_def refuseDefault_def claimError_None workloadServiceAccount_def split: option.splits if_splits)

lemma saSeen_head: "answers r existing \<Longrightarrow> saSeen ns n (K8sCall (GetServiceAccount ns n r) # x) existing"
  by (auto simp: saSeen_def)

lemma applySimps [simp]:
  "sy_Namespace (serviceAccountApply ns n m) = ns" "sy_Name (serviceAccountApply ns n m) = n"
  "sy_Annotations (serviceAccountApply ns n m) = Map.empty" "sy_Labels (serviceAccountApply ns n m) = Map.empty"
  "sy_FieldOwner (serviceAccountApply ns n m) = m" "sy_OwnerReference (serviceAccountApply ns n m) = None"
  by (simp_all add: serviceAccountApply_def)

lemma emits_release:
  "emits (\<lambda>c. readsSA c \<or> (\<exists>i r. c = K8sCall (ApplyServiceAccount i r) \<and> bareApply fieldOwner_sa i \<and> sy_Namespace i = md_Namespace cr
     \<and> sy_Name i = name)) (release v cr name)"
  unfolding release_def k8s_GetServiceAccount_def k8s_ApplyServiceAccount_def
  by (intro emits_intros emits_invoke) (auto simp: readsSA_def bareApply_def)

lemma emits_applyClaim:
  "emits (\<lambda>c. readsSA c \<or> (\<exists>i r. c = K8sCall (ApplyServiceAccount i r) \<and> claimWrite cr roleARN i))
     (applyClaim v cr roleARN (workloadServiceAccount cr) defaulted existing)"
  unfolding applyClaim_def Let_def k8s_ApplyServiceAccount_def
  by (intro emits_intros emits_invoke) (auto simp: claimWrite_def withOwnerReference_def split: if_splits sum.splits)

lemma emits_releasePrevious:
  "emits (\<lambda>c. readsSA c \<or> (\<exists>i r. c = K8sCall (ApplyServiceAccount i r) \<and> claimWrite cr roleARN i)) (releasePrevious v cr target)"
  unfolding releasePrevious_def Let_def
  by (intro emits_intros emits_mono [OF emits_release]) (auto simp: claimWrite_def bareApply_def)

lemma guards_Ensure_sa: "guards (claimGuard cr roleARN) (Ensure_sa v cr roleARN)"
proof -
  let ?t = "workloadServiceAccount cr"
  let ?C = "\<lambda>r c. readsSA c \<or> (\<exists>existing. answers r existing \<and> claimable (md_Namespace cr) (md_Name cr) (md_UID cr) ?t existing
      \<and> (\<exists>i r. c = K8sCall (ApplyServiceAccount i r) \<and> claimWrite cr roleARN i))"
  let ?rest = "\<lambda>ex. do { err \<leftarrow> releasePrevious v cr ?t;
      case err of Some e \<Rightarrow> ret (st_ServiceAccountName (ad_Status cr), Some e)
      | None \<Rightarrow> applyClaim v cr roleARN ?t (sp_ServiceAccountName (ad_Spec cr) = []) ex }"
  have rest: "emits (?C r) (?rest ex)" if "answers r ex" "claimable (md_Namespace cr) (md_Name cr) (md_UID cr) ?t ex" for r ex
    by (rule emits_mono [where C = "\<lambda>c. readsSA c \<or> (\<exists>i r. c = K8sCall (ApplyServiceAccount i r) \<and> claimWrite cr roleARN i)"])
      (intro emits_intros emits_releasePrevious emits_applyClaim, use that in blast)
  have "guards (claimGuard cr roleARN) (do {
      r \<leftarrow> invoke (\<lambda>h. ha_GetServiceAccount (env_k8s v) h (md_Namespace cr) ?t) (\<lambda>r. K8sCall (GetServiceAccount (md_Namespace cr) ?t r));
      a \<leftarrow> (case r of Inl e \<Rightarrow> if ex_k8s_notfound e then ret (Inr None) else ret (Inl (ExtError e)) | Inr sa \<Rightarrow> ret (Inr (Some sa)));
      case a of Inl e \<Rightarrow> ret (st_ServiceAccountName (ad_Status cr), Some e)
      | Inr ex \<Rightarrow> (case checkTarget cr ex (sp_ServiceAccountName (ad_Spec cr) = []) ?t of
          Some e \<Rightarrow> ret (st_ServiceAccountName (ad_Status cr), Some e) | None \<Rightarrow> ?rest ex) })"
  proof (rule guards_after_invoke [where C = ?C])
    fix r :: "ServiceAccount reply"
    show "emits (?C r) (do {
      a \<leftarrow> (case r of Inl e \<Rightarrow> if ex_k8s_notfound e then ret (Inr None) else ret (Inl (ExtError e)) | Inr sa \<Rightarrow> ret (Inr (Some sa)));
      case a of Inl e \<Rightarrow> ret (st_ServiceAccountName (ad_Status cr), Some e)
      | Inr ex \<Rightarrow> (case checkTarget cr ex (sp_ServiceAccountName (ad_Spec cr) = []) ?t of
          Some e \<Rightarrow> ret (st_ServiceAccountName (ad_Status cr), Some e) | None \<Rightarrow> ?rest ex) })"
    proof (cases r)
      case (Inl e)
      then show ?thesis
        using rest [of r None] checkTarget_claimable [of cr None]
        by (cases "ex_k8s_notfound e"; cases "checkTarget cr None (sp_ServiceAccountName (ad_Spec cr) = []) ?t") (simp_all add: answers_def emits_ret)
    next
      case (Inr sa)
      then show ?thesis
        using rest [of r "Some sa"] checkTarget_claimable [of cr "Some sa"]
        by (cases "checkTarget cr (Some sa) (sp_ServiceAccountName (ad_Spec cr) = []) ?t") (simp_all add: answers_def emits_ret)
    qed
  next
    show "claimGuard cr roleARN (K8sCall (GetServiceAccount (md_Namespace cr) ?t r) # x) c" if "?C r c" for r x c
      using that saSeen_head unfolding claimGuard_def by blast
  qed (simp add: claimGuard_def readsSA_def)
  then show ?thesis
    unfolding Ensure_sa_def Let_def getServiceAccount_def k8s_GetServiceAccount_def workloadServiceAccount_def [symmetric] bind_assoc
    by (intro guards_intros)
qed

lemma guards_label: "guards (labelGuard ns crName crUID name) (EnsureNetworkIdentityLabel v ns crName crUID name)"
proof -
  let ?C = "\<lambda>r c. readsSA c \<or> (\<exists>existing i y. c = K8sCall (ApplyServiceAccount i y) \<and> answers r existing
      \<and> claimable ns crName crUID name existing \<and> sy_Namespace i = ns \<and> sy_Name i = name
      \<and> sy_Labels i = [NetworkIdentityLabelKey \<mapsto> name] \<and> sy_Annotations i = Map.empty \<and> sy_FieldOwner i = networkIdentityFieldOwner crUID)"
  show ?thesis
    unfolding EnsureNetworkIdentityLabel_def Let_def getServiceAccount_def k8s_GetServiceAccount_def bind_assoc
  proof (intro guards_intros, rule guards_after_invoke [where C = ?C])
    fix r :: "ServiceAccount reply"
    assume d: "refuseDefault name = None"
    have none: "\<exists>ex. answers (Inl e) ex \<and> claimable ns crName crUID name ex" if "name = crName" "ex_k8s_notfound e" for e
      using d that by (intro exI [of _ None]) (simp add: claimable_def refuseDefault_None answers_def)
    have some: "\<exists>ex. answers (Inr sa) ex \<and> claimable ns crName crUID name ex" if "claimError sa ns crName crUID = None" for sa
      using d that by (intro exI [of _ "Some sa"]) (simp add: claimable_def refuseDefault_None claimError_None answers_def)
    show "emits (?C r) (do {
      a \<leftarrow> (case r of Inl e \<Rightarrow> if ex_k8s_notfound e then ret (Inr None) else ret (Inl (ExtError e)) | Inr sa \<Rightarrow> ret (Inr (Some sa)));
      case a of Inl e \<Rightarrow> ret (Some e)
      | Inr None \<Rightarrow> if name \<noteq> crName then ret (Some (notFoundError name))
          else do { a \<leftarrow> k8s_ApplyServiceAccount v ((serviceAccountApply ns name (networkIdentityFieldOwner crUID))\<lparr>sy_Labels := [NetworkIdentityLabelKey \<mapsto> name],
                   sy_OwnerReference := Some (ownerReference crName crUID)\<rparr>); ret (applyError a) }
      | Inr (Some existing) \<Rightarrow> (case claimError existing ns crName crUID of
          None \<Rightarrow> if goget (sa_Labels existing) NetworkIdentityLabelKey = name \<and> AppliedBy (sa_AppliedBy existing) (networkIdentityFieldOwner crUID)
             then ret None
             else do { a \<leftarrow> k8s_ApplyServiceAccount v (if ownedBy existing crUID
                  then (serviceAccountApply ns name (networkIdentityFieldOwner crUID))\<lparr>sy_Labels := [NetworkIdentityLabelKey \<mapsto> name],
                   sy_OwnerReference := Some (ownerReference crName crUID)\<rparr>
                  else (serviceAccountApply ns name (networkIdentityFieldOwner crUID))\<lparr>sy_Labels := [NetworkIdentityLabelKey \<mapsto> name]\<rparr>); ret (applyError a) }
          | Some e \<Rightarrow> ret (Some e)) })"
      unfolding k8s_ApplyServiceAccount_def
      using none some by (cases r) (auto intro!: emits_intros emits_invoke)
  next
    show "labelGuard ns crName crUID name (K8sCall (GetServiceAccount ns name r) # x) c" if "?C r c" for r x c
      using that saSeen_head unfolding labelGuard_def by blast
  qed (simp add: labelGuard_def readsSA_def)
qed

lemma guards_Cleanup_sa: "guards (releaseGuard cr) (Cleanup_sa v cr)"
  unfolding Cleanup_sa_def release_def k8s_GetServiceAccount_def
proof (intro guards_intros, rule guards_after_invoke [where C = "\<lambda>r c. readsSA c \<or> (\<exists>i y sa. r = Inr sa \<and> c = K8sCall (ApplyServiceAccount i y)
    \<and> bareApply fieldOwner_sa i \<and> sy_Namespace i = md_Namespace cr \<and> sy_Name i = st_ServiceAccountName (ad_Status cr))"])
  show "releaseGuard cr (K8sCall (GetServiceAccount (md_Namespace cr) (st_ServiceAccountName (ad_Status cr)) r) # x) c"
    if "readsSA c \<or> (\<exists>i y sa. r = Inr sa \<and> c = K8sCall (ApplyServiceAccount i y)
    \<and> bareApply fieldOwner_sa i \<and> sy_Namespace i = md_Namespace cr \<and> sy_Name i = st_ServiceAccountName (ad_Status cr))" for r x c
    using that by (auto simp: releaseGuard_def saSeen_def answers_def)
qed (auto simp: releaseGuard_def readsSA_def bareApply_def k8s_ApplyServiceAccount_def intro!: emits_intros emits_invoke)

text \<open>C36: Whose service account is written. The role is attached only to the service account the trust policy names, never to the namespace's default
  one, and only after a reading of this pass showed that it does not exist and would carry the custom resource's own name, that it is claimed by this
  custom resource, or that it is unclaimed and its owner consented; the service account used before is let go of only after that, so a refused
  change of service account leaves the workload its role. The network identity label is put under the same conditions, under a field manager of this custom
  resource's own. Cleaning up applies an empty claim, and only to a service account that a reading found.\<close>

theorem service_account_claims_guarded:
  "guards (claimGuard cr roleARN) (Ensure_sa v cr roleARN)
   \<and> guards (labelGuard ns crName crUID name) (EnsureNetworkIdentityLabel v ns crName crUID name)
   \<and> guards (releaseGuard cr) (Cleanup_sa v cr)"
  by (intro conjI guards_Ensure_sa guards_label guards_Cleanup_sa)

end
