(* ===== verification/Iam_Section.thy ===== *)
theory Iam_Section
  imports Data_Sections Service_Account
begin

text \<open>
  The section of a pass over the role and its service account, \<^verbatim>\<open>internal/controller/section_iam.go\<close>, and what finishing it means
  in a deletion.
\<close>

section \<open>The section\<close>

definition encryptedCount :: "EncryptionSpec option \<Rightarrow> nat" where
  "encryptedCount e = (case e of None \<Rightarrow> 0 | Some x \<Rightarrow> if en_Enabled x \<or> en_KMSKeyRef x \<noteq> [] then 1 else 0)"

definition iamWorkloadCount :: "AppDependenciesSpec \<Rightarrow> nat" where
  "iamWorkloadCount spec =
     (case sp_SQS spec of None \<Rightarrow> 0 | Some s \<Rightarrow>
        length (sqs_Resources s) + length (sqs_Consumes s) + sum_list (map (encryptedCount \<circ> q_Encryption) (sqs_Resources s)))
   + (case sp_SNS spec of None \<Rightarrow> 0 | Some s \<Rightarrow>
        length (sns_Resources s) + length (sns_Consumes s) + sum_list (map (encryptedCount \<circ> t_Encryption) (sns_Resources s)))
   + (case sp_DynamoDB spec of None \<Rightarrow> 0 | Some s \<Rightarrow>
        length (ddb_Resources s) + length (ddb_Consumes s) + sum_list (map (encryptedCount \<circ> tb_Encryption) (ddb_Resources s)))
   + (case sp_S3 spec of None \<Rightarrow> 0 | Some s \<Rightarrow>
        length (s3_Resources s) + length (s3_Consumes s) + sum_list (map (encryptedCount \<circ> b_Encryption) (s3_Resources s)))
   + (case sp_KMS spec of None \<Rightarrow> 0 | Some s \<Rightarrow> length (kms_Resources s))"

definition setIAMRoleARN :: "string \<Rightarrow> unit op" where
  "setIAMRoleARN arn = do { cr \<leftarrow> getCR; setCR (cr\<lparr>ad_Status := (ad_Status cr)\<lparr>st_IAMRoleARN := arn\<rparr>\<rparr>) }"

definition setServiceAccountName :: "string \<Rightarrow> unit op" where
  "setServiceAccountName n = do { cr \<leftarrow> getCR; setCR (cr\<lparr>ad_Status := (ad_Status cr)\<lparr>st_ServiceAccountName := n\<rparr>\<rparr>) }"

definition syncServiceAccount :: "env \<Rightarrow> go_error option op" where
  "syncServiceAccount v = do {
     cr \<leftarrow> getCR;
     if st_IAMRoleARN (ad_Status cr) \<noteq> []
     then do {
       (saName, err) \<leftarrow> Ensure_sa v cr (st_IAMRoleARN (ad_Status cr));
       case err of
         Some e \<Rightarrow> ret (Some e)
       | None \<Rightarrow> do { setServiceAccountName saName; ret None }
     }
     else if st_ServiceAccountName (ad_Status cr) \<noteq> []
     then do {
       err \<leftarrow> Cleanup_sa v cr;
       case err of
         Some e \<Rightarrow> ret (Some e)
       | None \<Rightarrow> do { setServiceAccountName []; ret None }
     }
     else ret None
   }"

definition reconcileRoleSection :: "env \<Rightarrow> reconciler \<Rightarrow> pass \<Rightarrow> go_error option op" where
  "reconcileRoleSection v r p = do {
     cr0 \<leftarrow> getCR;
     let t = sectionContext (ledgerOf cr0) TypeIAM (iamWorkloadCount (ad_Spec cr0));
     recordKMSKeyARNs;
     cr \<leftarrow> getCR;
     (l, roleARN, ensureErr) \<leftarrow> Ensure_iam v (passFor r p cr t) (rc_OIDCProviderARN r) (rc_OIDCProviderURL r) cr (ledgerOf cr);
     setLedger l;
     (if roleARN \<noteq> [] then setIAMRoleARN roleARN else ret ());
     cr1 \<leftarrow> getCR;
     (l1, cleanupErr) \<leftarrow> Cleanup_iam v (passFor r p cr1 t) cr1 (ledgerOf cr1) False;
     setLedger l1;
     (if \<not> HasManagedResource l1 TypeIAM roleLedgerName then setIAMRoleARN [] else ret ());
     saErr \<leftarrow> syncServiceAccount v;
     let err = firstError ensureErr (firstError cleanupErr saErr);
     setSectionCondition r p conditionTypeIAMReady err;
     ret err
   }"

text \<open>A role that cannot go because of what others attached to it is reported on the custom resource as well.\<close>

definition reportAttachments :: "reconciler \<Rightarrow> pass \<Rightarrow> go_error \<Rightarrow> unit op" where
  "reportAttachments r p err =
     (if (case asReconcileError err of None \<Rightarrow> False | Some re \<Rightarrow> re_Reason re = ''RoleHasExternalAttachments'')
      then do {
        updateConditions (\<lambda>cr. SetDeletionBlocked (rc_meta r) (conditionsOf cr) (md_Generation cr) [rc_errorText r err]);
        recordEvent p ''Warning'' ''RoleHasExternalAttachments'' [rc_errorText r err]
      }
      else ret ())"

definition finalizeRole :: "env \<Rightarrow> reconciler \<Rightarrow> pass \<Rightarrow> (bool \<times> string list \<times> go_error option) op" where
  "finalizeRole v r p = do {
     cr \<leftarrow> getCR;
     let t = sectionDeletionContext (ledgerOf cr) TypeIAM (iamWorkloadCount (ad_Spec cr));
     (l, err) \<leftarrow> Cleanup_iam v (passFor r p cr t) cr (ledgerOf cr) True;
     setLedger l;
     case err of
       Some e \<Rightarrow> do { reportAttachments r p e; ret (False, [], Some e) }
     | None \<Rightarrow> do {
         setIAMRoleARN [];
         cr1 \<leftarrow> getCR;
         saErr \<leftarrow> Cleanup_sa v cr1;
         case saErr of
           Some e \<Rightarrow> ret (False, [], Some e)
         | None \<Rightarrow> do { setServiceAccountName []; ret (True, [], None) }
       }
   }"

definition iamSection :: "env \<Rightarrow> reconciler \<Rightarrow> pass \<Rightarrow> Section" where
  "iamSection v r p = \<lparr>sc_name = conditionTypeIAMReady, sc_reconcile = reconcileRoleSection v r p, sc_finalize = finalizeRole v r p\<rparr>"

section \<open>A finished deletion\<close>

definition noRole :: "ledger \<Rightarrow> bool" where
  "noRole l \<longleftrightarrow> \<not> HasManagedResource l TypeIAM roleLedgerName"

lemma noRole_kept: "changesTypes W l l' \<Longrightarrow> TypeIAM \<notin> W \<Longrightarrow> noRole l \<Longrightarrow> noRole l'"
  unfolding noRole_def HasManagedResource_def changesTypes_def Find_None_iff by auto

lemma keepsCR_role_ops [keepsCR_intros]:
  "keepsCR (iam_DeleteRolePolicy v n q)" "keepsCR (iam_DeleteRole v n)" "keepsCR (iam_ListRoleTags v n m)"
  "keepsCR (iam_ListAttachedRolePolicies v n)" "keepsCR (iam_ListInstanceProfilesForRole v n)"
  "keepsCR (k8s_GetServiceAccount v ns n)" "keepsCR (k8s_ApplyServiceAccount v i)"
  by (simp_all add: op_defs keepsCR_invoke)

lemma keepsCR_roleTags [keepsCR_intros]: "keepsCR (roleTagPages v n b m tgs)"
proof (induction b arbitrary: m tgs)
  case (Suc b)
  show ?case unfolding roleTagPages.simps by (intro keepsCR_intros Suc.IH)
qed (simp add: keepsCR_ret)

lemma keepsCR_Cleanup_iam: "keepsCR (Cleanup_iam v p cr l True)"
  unfolding Cleanup_iam_def stillNeeded_def deleteOwnedRole_def listAllRoleTags_def deleteRole_def roleInUseError_def Let_def
  by (simp, intro keepsCR_intros)

lemma keepsCR_Cleanup_sa: "keepsCR (Cleanup_sa v cr)"
  unfolding Cleanup_sa_def release_def by (intro keepsCR_intros)

lemma noRole_Remove: "noRole (RemoveManagedResource l TypeIAM roleLedgerName)"
  by (auto simp: noRole_def HasManagedResource_def Find_None_iff set_Remove)

lemma returns_Cleanup_iam:
  "returns (\<lambda>(l', err). sameExcept {TypeIAM} l l' \<and> (err = None \<longrightarrow> noRole l')) (Cleanup_iam v p cr l True)"
proof -
  have d: "returns (\<lambda>(l', err). sameExcept {TypeIAM} l l' \<and> (err = None \<longrightarrow> noRole l')) (deleteOwnedRole v p n l)" for n
    unfolding deleteOwnedRole_def deleteRole_def
    by (intro returns_intros) (auto simp: sameExcept_Remove noRole_Remove)
  show ?thesis
    unfolding Cleanup_iam_def stillNeeded_def if_True
    by (intro returns_intros returns_bind [OF returns_ret [of "(=) (Inr False)", OF refl]] d)
      (auto simp: noRole_def HasManagedResource_def)
qed

lemma role_finalize: "finalizes {TypeIAM} {} (iamSection v r p)" "finishes (onLedger noRole) (iamSection v r p)"
  "wp (sc_finalize (iamSection v r p)) (\<lambda>_ w'. sameExcept {TypeIAM} (ledgerOf (memCR w)) (ledgerOf (memCR w'))) w"
proof -
  have "wp (finalizeRole v r p) (\<lambda>(d, b, err) w'. sameExcept {TypeIAM} (ledgerOf (memCR w)) (ledgerOf (memCR w'))
      \<and> (d \<and> err = None \<longrightarrow> noRole (ledgerOf (memCR w')))) w" for w
  proof -
    let ?cr = "memCR w"
    let ?m = "Cleanup_iam v (passFor r p ?cr (sectionDeletionContext (ledgerOf ?cr) TypeIAM (iamWorkloadCount (ad_Spec ?cr)))) ?cr (ledgerOf ?cr) True"
    obtain l err w1 where m: "run_state ?m w = ((l, err), w1)" by (metis surj_pair)
    have l: "sameExcept {TypeIAM} (ledgerOf ?cr) l \<and> (err = None \<longrightarrow> noRole l)"
      using returnsD [OF returns_Cleanup_iam m] by simp
    have sa: "wp (Cleanup_sa v cr) Q w2" if "\<And>a w3. memCR w3 = memCR w2 \<Longrightarrow> Q a w3" for cr w2 and Q :: "go_error option \<Rightarrow> world \<Rightarrow> bool"
      using keepsCR_Cleanup_sa [of v cr] that by (simp add: keepsCR_def wp_def split_beta)
    show ?thesis
      using l unfolding finalizeRole_def setLedger_def setIAMRoleARN_def setServiceAccountName_def reportAttachments_def updateConditions_def Let_def
      by (simp add: wp_simps wp_def [of ?m] m)
        (auto simp: wp_simps split: option.split intro!: sa)
  qed
  note fin = this
  have "emits (\<lambda>c. \<not> patchesCR c) (finalizeRole v r p)"
    unfolding finalizeRole_def setLedger_def setIAMRoleARN_def setServiceAccountName_def reportAttachments_def updateConditions_def Let_def
    by (intro emits_intros) (simp_all add: keepsCR_Cleanup_iam [unfolded keepsCR_def] keepsCR_Cleanup_sa [unfolded keepsCR_def])
  then show "finalizes {TypeIAM} {} (iamSection v r p)"
    unfolding finalizes_def iamSection_def by (auto intro: wp_conseq [OF fin] sameExcept_changes)
  show "finishes (onLedger noRole) (iamSection v r p)"
    unfolding finishes_def iamSection_def by (auto intro: wp_conseq [OF fin])
  show "wp (sc_finalize (iamSection v r p)) (\<lambda>_ w'. sameExcept {TypeIAM} (ledgerOf (memCR w)) (ledgerOf (memCR w'))) w"
    unfolding iamSection_def by (auto intro: wp_conseq [OF fin])
qed

end
