(* ===== verification/Rds_Instance.thy ===== *)
theory Rds_Instance
  imports Encryption Reasons
begin

text \<open>
  One RDS instance: \<^verbatim>\<open>version.go\<close>, \<^verbatim>\<open>adoption.go\<close> and the instance half of \<^verbatim>\<open>rds.go\<close> under
  \<^verbatim>\<open>internal/resources/rds\<close>. The description of an instance comes through the cache of the pass.
\<close>

section \<open>Engine versions\<close>

text \<open>\<^verbatim>\<open>strconv.Atoi\<close>: an optional sign and decimal digits that fit 64 bits.\<close>

definition decimalValue :: "string \<Rightarrow> int" where
  "decimalValue ds = foldl (\<lambda>n c. 10 * n + (of_char c - 48)) 0 ds"

definition Atoi :: "string \<Rightarrow> int option" where
  "Atoi s =
     (let signed = s \<noteq> [] \<and> (hd s = CHR ''+'' \<or> hd s = CHR ''-'');
          ds = (if signed then tl s else s);
          n = (if signed \<and> hd s = CHR ''-'' then - decimalValue ds else decimalValue ds)
      in if ds = [] \<or> \<not> list_all isDigit ds \<or> n < - (2 ^ 63) \<or> 2 ^ 63 \<le> n then None else Some n)"

fun parseParts :: "string list \<Rightarrow> int list option" where
  "parseParts [] = Some []"
| "parseParts (part # parts) =
     (case Atoi part of None \<Rightarrow> None | Some n \<Rightarrow> if n < 0 then None else map_option (\<lambda>ns. n # ns) (parseParts parts))"

definition parseVersion :: "string \<Rightarrow> int list option" where
  "parseVersion v = (if v = [] then None else parseParts (splitOn v CHR ''.''))"

fun compareVersions :: "int list \<Rightarrow> int list \<Rightarrow> int" where
  "compareVersions [] [] = 0"
| "compareVersions (x # xs) [] = (if x \<noteq> 0 then (if x < 0 then -1 else 1) else compareVersions xs [])"
| "compareVersions [] (y # ys) = (if 0 \<noteq> y then (if 0 < y then -1 else 1) else compareVersions [] ys)"
| "compareVersions (x # xs) (y # ys) = (if x \<noteq> y then (if x < y then -1 else 1) else compareVersions xs ys)"

fun hasVersionPrefix :: "int list \<Rightarrow> int list \<Rightarrow> bool" where
  "hasVersionPrefix v [] = True"
| "hasVersionPrefix [] (q # qs) = False"
| "hasVersionPrefix (x # xs) (q # qs) = (x = q \<and> hasVersionPrefix xs qs)"

definition matchesVersion :: "int list \<Rightarrow> string \<times> bool \<Rightarrow> bool" where
  "matchesVersion want target = (case parseVersion (fst target) of None \<Rightarrow> False | Some tv \<Rightarrow> hasVersionPrefix tv want)"

definition engineVersionUpgrade :: "env \<Rightarrow> string \<Rightarrow> string \<Rightarrow> string \<Rightarrow> (go_error + bool \<times> bool) op" where
  "engineVersionUpgrade v engine current desired =
     (if current = [] then ret (Inr (False, False))
      else case parseVersion current of
        None \<Rightarrow> ret (Inl (msgError ''cannot compare current engine version'' [current]))
      | Some have' \<Rightarrow>
          (case parseVersion desired of
             None \<Rightarrow> ret (Inl (msgError ''engineVersion must be dotted numbers such as 16 or 16.4'' [desired]))
           | Some want \<Rightarrow>
               if compareVersions have' want \<ge> 0 then ret (Inr (False, False))
               else do {
                 r \<leftarrow> rds_DescribeDBEngineVersions v engine current;
                 case r of
                   Inl e \<Rightarrow> ret (Inl (wrapAWSError_rds (ExtError e) ''listing valid engine upgrade targets''))
                 | Inr versions \<Rightarrow>
                     (let matches = filter (matchesVersion want) (concat versions) in
                      if matches = []
                      then ret (Inl (msgError ''engineVersion is not a valid upgrade target'' [desired, engine, current]))
                      else ret (Inr (True, list_ex snd matches)))
               }))"

section \<open>What an instance is and what it should be\<close>

record instanceOptions =
  io_deletionPolicy :: DeletionPolicy
  io_adopt :: bool
  io_engine :: string
  io_engineVersion :: string
  io_instanceClass :: string
  io_allocatedStorage :: int
  io_maxAllocatedStorage :: "int option"
  io_applyImmediately :: bool
  io_allowMajor :: bool
  io_dbSubnetGroupName :: string
  io_multiAZ :: bool
  io_backupEnabled :: bool
  io_kmsKeyARN :: "string option"
  io_encryptionOff :: bool
  io_deletionProtection :: "bool option"
  io_securityGroupID :: string

definition SecurityGroupIDFromARN :: "string \<Rightarrow> string" where
  "SecurityGroupIDFromARN arn = afterLast arn CHR ''/''"

definition wantsMultiAZ :: "RDSInstanceSpec \<Rightarrow> bool" where
  "wantsMultiAZ r = (case i_HighAvailability r of None \<Rightarrow> False | Some h \<Rightarrow> ha_Enabled h)"

definition optionsFor :: "RDSInstanceSpec \<Rightarrow> string \<Rightarrow> instanceOptions" where
  "optionsFor r sgARN =
     \<lparr>io_deletionPolicy = i_DeletionPolicy r, io_adopt = i_Adopt r, io_engine = i_Engine r, io_engineVersion = i_EngineVersion r,
      io_instanceClass = i_InstanceClass r, io_allocatedStorage = i_AllocatedStorage r,
      io_maxAllocatedStorage = i_MaxAllocatedStorage r, io_applyImmediately = i_ApplyImmediately r,
      io_allowMajor = i_AllowMajorVersionUpgrade r, io_dbSubnetGroupName = i_DBSubnetGroupName r,
      io_multiAZ = wantsMultiAZ r,
      io_backupEnabled = (case i_Backup r of None \<Rightarrow> False | Some b \<Rightarrow> rb_Enabled b),
      io_kmsKeyARN = None,
      io_encryptionOff = (case i_Encryption r of None \<Rightarrow> False | Some e \<Rightarrow> \<not> en_Enabled e \<and> en_KMSKeyRef e = []),
      io_deletionProtection = i_DeletionProtection r,
      io_securityGroupID = SecurityGroupIDFromARN sgARN\<rparr>"

record instanceAttributes =
  at_instanceClass :: string
  at_engineVersion :: string
  at_multiAZ :: bool
  at_backupRetention :: int
  at_allocatedStorage :: int

definition orElse :: "'a option \<Rightarrow> 'a \<Rightarrow> 'a" where
  "orElse x d = (case x of None \<Rightarrow> d | Some y \<Rightarrow> y)"

text \<open>The attributes once every change AWS has already accepted lands.\<close>

definition effectiveAttributes :: "DBInstance \<Rightarrow> instanceAttributes" where
  "effectiveAttributes inst =
     (let attrs = \<lparr>at_instanceClass = di_DBInstanceClass inst, at_engineVersion = di_EngineVersion inst, at_multiAZ = di_MultiAZ inst,
            at_backupRetention = di_BackupRetentionPeriod inst, at_allocatedStorage = di_AllocatedStorage inst\<rparr> in
      case di_PendingModifiedValues inst of
        None \<Rightarrow> attrs
      | Some pending \<Rightarrow>
          \<lparr>at_instanceClass = orElse (pv_DBInstanceClass pending) (at_instanceClass attrs),
           at_engineVersion = orElse (pv_EngineVersion pending) (at_engineVersion attrs),
           at_multiAZ = orElse (pv_MultiAZ pending) (at_multiAZ attrs),
           at_backupRetention = orElse (pv_BackupRetentionPeriod pending) (at_backupRetention attrs),
           at_allocatedStorage = orElse (pv_AllocatedStorage pending) (at_allocatedStorage attrs)\<rparr>)"

section \<open>Adoption\<close>

text \<open>
  A conflict is the tag of its message with the strings formatted into it. The key check is made with a client, so
  \<^verbatim>\<open>CheckAdoptedKey\<close> never misses one.
\<close>

definition orNone :: "string \<Rightarrow> string" where
  "orNone s = (if s = [] then ''none'' else s)"

definition show_bool :: "bool \<Rightarrow> string" where
  "show_bool b = (if b then ''true'' else ''false'')"

definition differs :: "string \<Rightarrow> string \<Rightarrow> string \<Rightarrow> string list" where
  "differs field actual want = [field, actual, want]"

definition adoptionConflicts :: "DBInstance \<Rightarrow> RDSInstanceSpec \<Rightarrow> string list list" where
  "adoptionConflicts inst r =
     (let cur = effectiveAttributes inst in
        (if di_Engine inst \<noteq> i_Engine r then [differs ''engine'' (di_Engine inst) (i_Engine r)] else [])
      @ (if di_DBSubnetGroupName inst \<noteq> i_DBSubnetGroupName r
         then [differs ''dbSubnetGroupName'' (orNone (di_DBSubnetGroupName inst)) (i_DBSubnetGroupName r)] else [])
      @ (if di_PubliclyAccessible inst then [[''instance is publicly accessible'']] else [])
      @ (if at_instanceClass cur \<noteq> i_InstanceClass r then [differs ''instanceClass'' (at_instanceClass cur) (i_InstanceClass r)] else [])
      @ (if at_multiAZ cur \<noteq> wantsMultiAZ r then [differs ''multiAZ'' (show_bool (at_multiAZ cur)) (show_bool (wantsMultiAZ r))] else [])
      @ (if i_AllocatedStorage r > at_allocatedStorage cur
         then [differs ''allocatedStorage'' (show_int (at_allocatedStorage cur)) (show_int (i_AllocatedStorage r))] else [])
      @ (case parseVersion (at_engineVersion cur) of None \<Rightarrow> []
         | Some have' \<Rightarrow>
             (case parseVersion (i_EngineVersion r) of None \<Rightarrow> []
              | Some want \<Rightarrow> if compareVersions have' want < 0 then [differs ''engineVersion'' (at_engineVersion cur) (i_EngineVersion r)] else [])))"

definition encryptionConflict :: "env \<Rightarrow> DBInstance \<Rightarrow> RDSInstanceSpec \<Rightarrow> ledger \<Rightarrow> (go_error + string list option) op" where
  "encryptionConflict v inst r l =
     (let encrypted = di_StorageEncrypted inst; key = di_KmsKeyId inst in
      case i_Encryption r of
        Some e \<Rightarrow>
          if en_Enabled e
          then ret (Inr (Some [if encrypted then ''storage is encrypted with an existing key, but encryption.enabled asks for a new one''
                               else ''storage is not encrypted (spec: encryption.enabled)'']))
          else if en_KMSKeyRef e \<noteq> []
          then (if \<not> encrypted then ret (Inr (Some [''storage is not encrypted (spec: encryption.kmsKeyRef)'']))
                else case SharedKeyARN l (en_KMSKeyRef e) of
                       None \<Rightarrow> ret (Inr None)
                     | Some want \<Rightarrow> ret (Inr (if key \<noteq> want then Some [''kms key'', key, want] else None)))
          else ret (Inr (if encrypted then Some [''storage is encrypted (spec: encryption.enabled: false)''] else None))
      | None \<Rightarrow>
          if \<not> encrypted then ret (Inr (Some [''storage is not encrypted, and an unset encryption means the RDS key of AWS'']))
          else do {
            err \<leftarrow> CheckAdoptedKey (Some v) key [];
            case err of
              None \<Rightarrow> ret (Inr None)
            | Some e \<Rightarrow>
                (case asReconcileError e of
                   Some conflict \<Rightarrow>
                     if re_Reason conflict = ''AdoptionConflict'' then ret (Inr (Some (case re_Err conflict of Errorf tag args e' \<Rightarrow> tag # args | _ \<Rightarrow> [])))
                     else ret (Inl e)
                 | None \<Rightarrow> ret (Inl e))
          })"

definition instanceIDOf :: "pass \<Rightarrow> string \<Rightarrow> string" where
  "instanceIDOf p name = ResourceNameFor NameStyleRDS (ps_namespace p) (ps_crName p) TypeRDS name 63"

text \<open>An instance this operator is still responsible for; a relinquished one is not.\<close>

definition trackedInstance :: "ledger \<Rightarrow> string \<Rightarrow> ManagedResource option" where
  "trackedInstance l name =
     (case FindManagedResource l TypeRDS name of
        None \<Rightarrow> None | Some e \<Rightarrow> if mr_State e = StateRelinquished then None else Some e)"

definition lookupInstance :: "env \<Rightarrow> string \<Rightarrow> (go_error + DBInstance option) op" where
  "lookupInstance v instanceID = do {
     r \<leftarrow> describeDBInstanceCached v instanceID;
     case r of
       Inl e \<Rightarrow>
         if isException ''DBInstanceNotFoundFault'' e then ret (Inr None)
         else ret (Inl (wrapAWSError_rds (ExtError e) ''looking up instance''))
     | Inr instances \<Rightarrow> ret (Inr (case instances of [] \<Rightarrow> None | inst # _ \<Rightarrow> Some inst))
   }"

definition conflictError :: "string \<Rightarrow> string list list \<Rightarrow> go_error option" where
  "conflictError instanceID conflicts =
     (if conflicts = [] then None
      else Some (ReconcileError (msgError ''instance exists but cannot be adopted as declared'' (instanceID # concat conflicts))
             False ''AdoptionConflict'' False))"

definition checkAdoptable :: "env \<Rightarrow> pass \<Rightarrow> RDSInstanceSpec \<Rightarrow> ledger \<Rightarrow> go_error option op" where
  "checkAdoptable v p r l =
     (if \<not> i_Adopt r then ret None
      else if trackedInstance l (i_Name r) \<noteq> None then ret None
      else do {
        x \<leftarrow> lookupInstance v (instanceIDOf p (i_Name r));
        case x of
          Inl e \<Rightarrow> ret (Some e)
        | Inr None \<Rightarrow> ret None
        | Inr (Some inst) \<Rightarrow> do {
            t \<leftarrow> rds_ListTagsForResource v (di_DBInstanceArn inst);
            case t of
              Inl e \<Rightarrow> ret (Some (wrapAWSError_rds (ExtError e) ''reading instance tags''))
            | Inr ts \<Rightarrow>
                if tagsToMap ts OwnerTagKey \<noteq> None then ret None
                else do {
                  k \<leftarrow> encryptionConflict v inst r l;
                  case k of
                    Inl e \<Rightarrow> ret (Some e)
                  | Inr keyConflict \<Rightarrow>
                      ret (conflictError (instanceIDOf p (i_Name r)) (adoptionConflicts inst r @ (case keyConflict of None \<Rightarrow> [] | Some c \<Rightarrow> [c])))
                }
          }
      })"

section \<open>Creating\<close>

definition instanceInput :: "pass \<Rightarrow> string \<Rightarrow> instanceOptions \<Rightarrow> CreateDBInstanceInput" where
  "instanceInput p instanceID opts =
     \<lparr>ci_DBInstanceIdentifier = instanceID, ci_Engine = io_engine opts, ci_EngineVersion = io_engineVersion opts,
      ci_DBInstanceClass = io_instanceClass opts, ci_AllocatedStorage = io_allocatedStorage opts,
      ci_DBSubnetGroupName = io_dbSubnetGroupName opts, ci_VpcSecurityGroupIds = [io_securityGroupID opts],
      ci_MasterUsername = ''cloudctl_admin'', ci_ManageMasterUserPassword = True, ci_PubliclyAccessible = False,
      ci_MultiAZ = io_multiAZ opts, ci_CopyTagsToSnapshot = True, ci_MaxAllocatedStorage = io_maxAllocatedStorage opts,
      ci_StorageType = ''gp3'', ci_Tags = ownerTags p,
      ci_BackupRetentionPeriod = (if io_backupEnabled opts then 7 else 0),
      ci_StorageEncrypted = (if io_kmsKeyARN opts \<noteq> None \<or> \<not> io_encryptionOff opts then Some True else None),
      ci_KmsKeyId = io_kmsKeyARN opts,
      ci_DeletionProtection = orElse (io_deletionProtection opts) True\<rparr>"

definition createInstance ::
  "env \<Rightarrow> pass \<Rightarrow> string \<Rightarrow> string \<Rightarrow> instanceOptions \<Rightarrow> ledger \<Rightarrow> (ledger \<times> go_error option) op" where
  "createInstance v p instanceID resourceName opts l = do {
     r \<leftarrow> rds_CreateDBInstance v (instanceInput p instanceID opts);
     case r of
       Inl e \<Rightarrow> ret (l, Some (wrapAWSError_rds (ExtError e) ''creating instance''))
     | Inr arn \<Rightarrow> do {
         recordEvent p ''Normal'' ''InstanceCreating'' [arn];
         ret (UpsertManagedResource l (zeroManagedResource\<lparr>mr_Type := TypeRDS, mr_Name := resourceName, mr_ARN := arn,
                mr_State := StateCreating, mr_DeletionPolicy := io_deletionPolicy opts, mr_CreatedAt := ps_now p\<rparr>), None)
       }
   }"

definition creationVisibilityGrace :: duration where "creationVisibilityGrace = 5 * minute"

definition instanceMissingError :: "pass \<Rightarrow> ManagedResource \<Rightarrow> string \<Rightarrow> go_error op" where
  "instanceMissingError p entry instanceID =
     (if mr_State entry = StateCreating \<and> since (ps_now p) (mr_CreatedAt entry) < creationVisibilityGrace
      then ret (ReconcileError (msgError ''instance was just created and is not visible yet'' [instanceID]) True [] False)
      else do {
        recordEvent p ''Warning'' ''InstanceMissing'' [mr_ARN entry];
        ret (ReconcileError (msgError ''RDS instance no longer exists in AWS'' [instanceID, mr_ARN entry]) False ''InstanceMissing'' False)
      })"

text \<open>The third component is the status observed, empty when none was.\<close>

definition ensureMissingInstance ::
  "env \<Rightarrow> pass \<Rightarrow> string \<Rightarrow> string \<Rightarrow> instanceOptions \<Rightarrow> ledger \<Rightarrow> (ledger \<times> go_error option \<times> string) op" where
  "ensureMissingInstance v p instanceID resourceName opts l =
     (case trackedInstance l resourceName of
        Some entry \<Rightarrow> do { e \<leftarrow> instanceMissingError p entry instanceID; ret (l, Some e, []) }
      | None \<Rightarrow> do {
          (created, err) \<leftarrow> createInstance v p instanceID resourceName opts l;
          ret (created, err, if err = None then ''creating'' else [])
        })"

section \<open>Ownership and status\<close>

definition ensureInstanceOwnership :: "env \<Rightarrow> pass \<Rightarrow> string \<Rightarrow> string \<Rightarrow> bool \<Rightarrow> go_error option op" where
  "ensureInstanceOwnership v p instanceID instanceARN adopt = do {
     t \<leftarrow> rds_ListTagsForResource v instanceARN;
     case t of
       Inl e \<Rightarrow> ret (Some (wrapAWSError_rds (ExtError e) ''reading instance tags''))
     | Inr ts \<Rightarrow>
         (let currentTags = tagsToMap ts;
              owner = currentTags OwnerTagKey;
              stale = IsStaleUID currentTags (ps_namespace p) (ps_crName p) (ps_crUID p)
          in if IsOwnedBy currentTags (ps_namespace p) (ps_crName p) (ps_crUID p) then ret None
             else if owner \<noteq> None \<and> owner \<noteq> Some (OwnerTagValue (ps_namespace p) (ps_crName p))
             then ret (Some (OwnedByAnotherCRError ''instance'' instanceID (the owner)))
             else if stale \<noteq> None \<and> \<not> MayTransferFrom p (the stale)
             then ret (Some (PreviousIncarnationError ''instance'' instanceID (the stale)))
             else if stale = None \<and> \<not> adopt then ret (Some (AdoptRequiredError ''instance'' instanceID))
             else do {
               r \<leftarrow> rds_AddTagsToResource v instanceARN (MergeTags currentTags (ownerTags p));
               case r of
                 Inl e \<Rightarrow> ret (Some (wrapAWSError_rds (ExtError e) ''adopting instance (tagging)''))
               | Inr _ \<Rightarrow> do {
                   (if HasReleaseTags currentTags
                    then do {
                      u \<leftarrow> rds_RemoveTagsFromResource v instanceARN ReleasedTagKeys;
                      (case u of Inl e \<Rightarrow> ReleaseTagFailed p ''instance'' instanceID e | Inr _ \<Rightarrow> ret ())
                    }
                    else ret ());
                   recordEvent p ''Normal'' (if stale \<noteq> None then EventOwnershipTransferred else ''InstanceAdopted'') [instanceARN];
                   ret None
                 }
             })
   }"

definition checkImmutableSettings :: "DBInstance \<Rightarrow> string \<Rightarrow> instanceOptions \<Rightarrow> go_error option" where
  "checkImmutableSettings inst instanceID opts =
     (let changed =
            (if di_Engine inst \<noteq> io_engine opts then [differs ''engine'' (di_Engine inst) (io_engine opts)] else [])
          @ (if di_DBSubnetGroupName inst \<noteq> io_dbSubnetGroupName opts
             then [differs ''dbSubnetGroupName'' (orNone (di_DBSubnetGroupName inst)) (io_dbSubnetGroupName opts)] else [])
          @ (if di_StorageEncrypted inst = io_encryptionOff opts
             then [differs ''storage encryption'' (show_bool (di_StorageEncrypted inst)) (show_bool (\<not> io_encryptionOff opts))]
             else case io_kmsKeyARN opts of None \<Rightarrow> []
                  | Some key \<Rightarrow> if di_StorageEncrypted inst \<and> di_KmsKeyId inst \<noteq> key then [differs ''KMS key'' (di_KmsKeyId inst) key] else [])
      in if changed = [] then None
         else Some (ReconcileError (msgError ''instance cannot change'' (instanceID # concat changed)) False ''ImmutableSettingChanged'' False))"

definition checkTrackedImmutables :: "DBInstance \<Rightarrow> string \<Rightarrow> instanceOptions \<Rightarrow> ManagedResource option \<Rightarrow> go_error option" where
  "checkTrackedImmutables inst instanceID opts existing =
     (case existing of None \<Rightarrow> None
      | Some e \<Rightarrow> if mr_State e = StateRelinquished then None else checkImmutableSettings inst instanceID opts)"

text \<open>\<open>Inr True\<close>: still serving connections while AWS limits modifications.\<close>

definition checkInstanceStatus :: "string \<Rightarrow> string \<Rightarrow> go_error + bool" where
  "checkInstanceStatus instanceID instanceStatus =
     (if instanceStatus = ''failed''
      then Inl (ReconcileError (msgError ''instance entered a failed status'' [instanceID, instanceStatus]) False (InstanceStatus instanceStatus) False)
      else if instanceStatus = ''available'' then Inr False
      else if instanceStatus = ''backing-up'' \<or> instanceStatus = ''storage-optimization'' then Inr True
      else Inl (ReconcileError (msgError ''instance is still'' [instanceID, instanceStatus]) True (InstanceStatus instanceStatus) False))"

definition warnIfPublic :: "pass \<Rightarrow> DBInstance \<Rightarrow> unit op" where
  "warnIfPublic p inst =
     (if di_PubliclyAccessible inst then recordEvent p ''Warning'' ''InstancePubliclyAccessible'' [di_DBInstanceArn inst] else ret ())"

section \<open>Changing\<close>

definition noChange :: "string \<Rightarrow> ModifyDBInstanceInput" where
  "noChange instanceID =
     \<lparr>mi_DBInstanceIdentifier = instanceID, mi_DBInstanceClass = None, mi_MultiAZ = None, mi_BackupRetentionPeriod = None,
      mi_AllocatedStorage = None, mi_Iops = None, mi_EngineVersion = None, mi_AllowMajorVersionUpgrade = None,
      mi_VpcSecurityGroupIds = None, mi_DeletionProtection = None, mi_CopyTagsToSnapshot = None, mi_MaxAllocatedStorage = None,
      mi_ApplyImmediately = None\<rparr>"

definition reconcileSizing :: "ModifyDBInstanceInput \<Rightarrow> instanceAttributes \<Rightarrow> instanceOptions \<Rightarrow> ModifyDBInstanceInput \<times> bool" where
  "reconcileSizing m cur' opts =
     (let classDiffers = at_instanceClass cur' \<noteq> io_instanceClass opts;
          azDiffers = at_multiAZ cur' \<noteq> io_multiAZ opts;
          m1 = (if classDiffers then m\<lparr>mi_DBInstanceClass := Some (io_instanceClass opts)\<rparr> else m);
          m2 = (if azDiffers then m1\<lparr>mi_MultiAZ := Some (io_multiAZ opts)\<rparr> else m1)
      in (m2, classDiffers \<or> azDiffers))"

definition reconcileBackupRetention ::
  "pass \<Rightarrow> ModifyDBInstanceInput \<Rightarrow> instanceAttributes \<Rightarrow> instanceOptions \<Rightarrow> string \<Rightarrow> (ModifyDBInstanceInput \<times> bool) op" where
  "reconcileBackupRetention p m cur' opts instanceARN =
     (let desired = (if io_backupEnabled opts then 7 else 0) in
      if at_backupRetention cur' < desired then ret (m\<lparr>mi_BackupRetentionPeriod := Some desired\<rparr>, True)
      else do {
        (if at_backupRetention cur' > 0 \<and> \<not> io_backupEnabled opts
         then recordEvent p ''Warning'' ''BackupsLeftEnabled'' [instanceARN] else ret ());
        ret (m, False)
      })"

definition autoscalingMayHaveGrown :: "DBInstance \<Rightarrow> int \<Rightarrow> bool" where
  "autoscalingMayHaveGrown inst actual \<longleftrightarrow> di_MaxAllocatedStorage inst > 0 \<and> actual \<le> di_MaxAllocatedStorage inst"

definition reportStorageLargerThanSpec :: "pass \<Rightarrow> string \<Rightarrow> int \<Rightarrow> int \<Rightarrow> unit op" where
  "reportStorageLargerThanSpec p instanceARN actual want =
     (if want \<ge> actual then ret ()
      else recordEvent p ''Warning'' ''StorageLargerThanSpec'' [instanceARN, show_int actual, show_int want])"

definition reconcileStorage ::
  "pass \<Rightarrow> ModifyDBInstanceInput \<Rightarrow> DBInstance \<Rightarrow> instanceAttributes \<Rightarrow> instanceOptions \<Rightarrow> string \<Rightarrow> (ModifyDBInstanceInput \<times> bool) op" where
  "reconcileStorage p m inst cur' opts instanceARN = do {
     (if \<not> autoscalingMayHaveGrown inst (at_allocatedStorage cur')
      then reportStorageLargerThanSpec p instanceARN (at_allocatedStorage cur') (io_allocatedStorage opts) else ret ());
     (if io_allocatedStorage opts \<le> at_allocatedStorage cur' then ret (m, False)
      else (let m1 = m\<lparr>mi_AllocatedStorage := Some (io_allocatedStorage opts)\<rparr> in
            ret (if (di_StorageType inst = ''io1'' \<or> di_StorageType inst = ''io2'') \<and> di_Iops inst \<noteq> None
                 then m1\<lparr>mi_Iops := di_Iops inst\<rparr> else m1, True)))
   }"

definition reconcileEngineVersion ::
  "env \<Rightarrow> ModifyDBInstanceInput \<Rightarrow> instanceAttributes \<Rightarrow> instanceOptions \<Rightarrow> (go_error + ModifyDBInstanceInput \<times> bool) op" where
  "reconcileEngineVersion v m cur' opts = do {
     u \<leftarrow> engineVersionUpgrade v (io_engine opts) (at_engineVersion cur') (io_engineVersion opts);
     case u of
       Inl e \<Rightarrow> ret (Inl e)
     | Inr (upgrade, major) \<Rightarrow>
         if \<not> upgrade then ret (Inr (m, False))
         else if major \<and> \<not> io_allowMajor opts
         then ret (Inl (msgError ''engineVersion is a major upgrade'' [io_engineVersion opts, at_engineVersion cur']))
         else ret (Inr (m\<lparr>mi_EngineVersion := Some (io_engineVersion opts),
                         mi_AllowMajorVersionUpgrade := (if major then Some True else None)\<rparr>, True))
   }"

definition withSecurityGroup :: "DBInstance \<Rightarrow> string \<Rightarrow> string list \<times> bool" where
  "withSecurityGroup inst groupID =
     (let groups = map fst (filter (\<lambda>m. snd m \<noteq> ''removing'') (di_VpcSecurityGroups inst));
          missing = groupID \<notin> set groups
      in (if missing then groups @ [groupID] else groups, missing))"

definition reconcileDeletionProtection ::
  "pass \<Rightarrow> ModifyDBInstanceInput \<Rightarrow> DBInstance \<Rightarrow> instanceOptions \<Rightarrow> string \<Rightarrow> (ModifyDBInstanceInput \<times> bool) op" where
  "reconcileDeletionProtection p m inst opts instanceARN =
     (if io_adopt opts \<and> io_deletionProtection opts = None
      then do {
        (if \<not> di_DeletionProtection inst then recordEvent p ''Warning'' ''DeletionProtectionOff'' [instanceARN] else ret ());
        ret (m, False)
      }
      else (let want = orElse (io_deletionProtection opts) True in
            if di_DeletionProtection inst = want then ret (m, False)
            else do {
              (if want then recordEvent p ''Warning'' ''DeletionProtectionEnabled'' [instanceARN] else ret ());
              ret (m\<lparr>mi_DeletionProtection := Some want\<rparr>, True)
            }))"

definition reconcileCopyTags :: "ModifyDBInstanceInput \<Rightarrow> DBInstance \<Rightarrow> instanceOptions \<Rightarrow> ModifyDBInstanceInput \<times> bool" where
  "reconcileCopyTags m inst opts =
     (if io_adopt opts \<or> di_CopyTagsToSnapshot inst then (m, False) else (m\<lparr>mi_CopyTagsToSnapshot := Some True\<rparr>, True))"

definition reconcileAutoscaling :: "ModifyDBInstanceInput \<Rightarrow> DBInstance \<Rightarrow> instanceOptions \<Rightarrow> ModifyDBInstanceInput \<times> bool" where
  "reconcileAutoscaling m inst opts =
     (case io_maxAllocatedStorage opts of None \<Rightarrow> (m, False)
      | Some limit \<Rightarrow> if di_MaxAllocatedStorage inst = limit then (m, False) else (m\<lparr>mi_MaxAllocatedStorage := Some limit\<rparr>, True))"

definition sendModify ::
  "env \<Rightarrow> pass \<Rightarrow> ModifyDBInstanceInput \<Rightarrow> DBInstance \<Rightarrow> string \<Rightarrow> instanceOptions \<Rightarrow> bool \<Rightarrow> bool \<Rightarrow> go_error option op" where
  "sendModify v p m inst instanceARN opts storageGrowth otherChange =
     (let growthOnly = storageGrowth \<and> \<not> otherChange \<and> di_PendingModifiedValues inst = None;
          immediate = (io_applyImmediately opts \<or> growthOnly)
      in do {
        r \<leftarrow> rds_ModifyDBInstance v (m\<lparr>mi_ApplyImmediately := Some immediate\<rparr>);
        case r of
          Inl e \<Rightarrow> ret (Some (wrapAWSError_rds (ExtError e) ''updating instance attributes''))
        | Inr _ \<Rightarrow> do {
            (if (storageGrowth \<or> otherChange) \<and> \<not> immediate then recordEvent p ''Normal'' ''ChangeDeferred'' [instanceARN] else ret ());
            ret None
          }
      })"

definition reconcileInstanceAttributes ::
  "env \<Rightarrow> pass \<Rightarrow> string \<Rightarrow> string \<Rightarrow> DBInstance \<Rightarrow> instanceOptions \<Rightarrow> go_error option op" where
  "reconcileInstanceAttributes v p instanceID instanceARN inst opts =
     (let cur' = effectiveAttributes inst; (m1, sizing) = reconcileSizing (noChange instanceID) cur' opts in do {
        (m2, backup) \<leftarrow> reconcileBackupRetention p m1 cur' opts instanceARN;
        (m3, storageGrowth) \<leftarrow> reconcileStorage p m2 inst cur' opts instanceARN;
        u \<leftarrow> reconcileEngineVersion v m3 cur' opts;
        case u of
          Inl e \<Rightarrow> ret (Some e)
        | Inr (m4, upgrade) \<Rightarrow>
            (let otherChange = (sizing \<or> backup \<or> upgrade);
                 (groups, groupMissing) = withSecurityGroup inst (io_securityGroupID opts);
                 m5 = (if groupMissing then m4\<lparr>mi_VpcSecurityGroupIds := Some groups\<rparr> else m4) in do {
               (m6, protectionChange) \<leftarrow> reconcileDeletionProtection p m5 inst opts instanceARN;
               let (m7, copyTags) = reconcileCopyTags m6 inst opts;
               let (m8, autoscaling) = reconcileAutoscaling m7 inst opts;
               (if \<not> storageGrowth \<and> \<not> otherChange \<and> \<not> groupMissing \<and> \<not> protectionChange \<and> \<not> copyTags \<and> \<not> autoscaling
                then ret None
                else sendModify v p m8 inst instanceARN opts storageGrowth otherChange)
             })
      })"

section \<open>Ensuring one instance\<close>

definition recordVerified_rds :: "pass \<Rightarrow> ledger \<Rightarrow> string \<Rightarrow> string \<Rightarrow> DeletionPolicy \<Rightarrow> ledger" where
  "recordVerified_rds p l ledgerName arn deletionPolicy =
     (let fresh = (case FindManagedResource l TypeRDS ledgerName of
                    None \<Rightarrow> zeroManagedResource\<lparr>mr_CreatedAt := ps_now p\<rparr>
                  | Some existing \<Rightarrow> zeroManagedResource\<lparr>mr_CreatedAt := mr_CreatedAt existing,
                      mr_ObservedStatus := mr_ObservedStatus existing, mr_ObservedStatusSince := mr_ObservedStatusSince existing\<rparr>)
      in UpsertManagedResource l (fresh\<lparr>mr_Type := TypeRDS, mr_Name := ledgerName, mr_ARN := arn, mr_State := StateVerified,
           mr_DeletionPolicy := deletionPolicy, mr_LastVerifiedAt := Some (ps_now p)\<rparr>))"

definition recordObservedStatus :: "pass \<Rightarrow> ledger \<Rightarrow> string \<Rightarrow> string \<Rightarrow> ledger" where
  "recordObservedStatus p l resourceName observed =
     (if observed = [] then l
      else case FindManagedResource l TypeRDS resourceName of
             None \<Rightarrow> l
           | Some entry \<Rightarrow>
               if mr_ObservedStatus entry = observed then l
               else UpsertManagedResource l (entry\<lparr>mr_ObservedStatus := observed, mr_ObservedStatusSince := Some (ps_now p)\<rparr>))"

text \<open>What follows the ownership check of an instance AWS has.\<close>

definition ensureVerifiedInstance ::
  "env \<Rightarrow> pass \<Rightarrow> string \<Rightarrow> DBInstance \<Rightarrow> string \<Rightarrow> instanceOptions \<Rightarrow> ManagedResource option \<Rightarrow> bool \<Rightarrow> ledger
   \<Rightarrow> (ledger \<times> go_error option) op" where
  "ensureVerifiedInstance v p instanceID inst resourceName opts existing needsOwnershipCheck l =
     (case checkTrackedImmutables inst instanceID opts existing of
        Some e \<Rightarrow> ret (l, Some e)
      | None \<Rightarrow>
          (case checkInstanceStatus instanceID (di_DBInstanceStatus inst) of
             Inl e \<Rightarrow> ret (l, Some e)
           | Inr servingOnly \<Rightarrow> do {
               warnIfPublic p inst;
               err \<leftarrow> (if servingOnly then ret None else reconcileInstanceAttributes v p instanceID (di_DBInstanceArn inst) inst opts);
               case err of
                 Some e \<Rightarrow> ret (l, Some e)
               | None \<Rightarrow>
                   (case existing of
                      None \<Rightarrow> ret (recordVerified_rds p l resourceName (di_DBInstanceArn inst) (io_deletionPolicy opts), None)
                    | Some entry \<Rightarrow>
                        if \<not> needsOwnershipCheck
                        then ret (UpsertManagedResource l (entry\<lparr>mr_DeletionPolicy := io_deletionPolicy opts\<rparr>), None)
                        else do {
                          (if mr_State entry = StateCreating then recordEvent p ''Normal'' ''InstanceAvailable'' [di_DBInstanceArn inst] else ret ());
                          ret (recordVerified_rds p l resourceName (di_DBInstanceArn inst) (io_deletionPolicy opts), None)
                        })
             }))"

definition ensureInstanceObserving ::
  "env \<Rightarrow> pass \<Rightarrow> string \<Rightarrow> instanceOptions \<Rightarrow> ledger \<Rightarrow> (ledger \<times> go_error option \<times> string) op" where
  "ensureInstanceObserving v p resourceName opts l =
     (let instanceID = instanceIDOf p resourceName in do {
        x \<leftarrow> lookupInstance v instanceID;
        case x of
          Inl e \<Rightarrow> ret (l, Some e, [])
        | Inr None \<Rightarrow> ensureMissingInstance v p instanceID resourceName opts l
        | Inr (Some inst) \<Rightarrow>
            (let existing = FindManagedResource l TypeRDS resourceName;
                 needsOwnershipCheck = (case existing of None \<Rightarrow> True | Some e \<Rightarrow> NeedsRevalidation (ps_now p) e) in do {
               oErr \<leftarrow> (if needsOwnershipCheck then ensureInstanceOwnership v p instanceID (di_DBInstanceArn inst) (io_adopt opts) else ret None);
               case oErr of
                 Some e \<Rightarrow> ret (l, Some e, di_DBInstanceStatus inst)
               | None \<Rightarrow> do {
                   (l1, err) \<leftarrow> ensureVerifiedInstance v p instanceID inst resourceName opts existing needsOwnershipCheck l;
                   ret (l1, err, di_DBInstanceStatus inst)
                 }
             })
      })"

definition ensureInstance ::
  "env \<Rightarrow> pass \<Rightarrow> string \<Rightarrow> instanceOptions \<Rightarrow> ledger \<Rightarrow> (ledger \<times> go_error option) op" where
  "ensureInstance v p resourceName opts l = do {
     (l1, err, observed) \<leftarrow> ensureInstanceObserving v p resourceName opts l;
     ret (recordObservedStatus p l1 resourceName observed, err)
   }"

end
