(* ===== verification/Rds_Network.thy ===== *)
theory Rds_Network
  imports Rds_Instance Service_Account
begin

text \<open>
  The network side of RDS: the security group of an instance and its ingress rules (\<^verbatim>\<open>securitygroup.go\<close>), and the security
  group of a consumer's pods (\<^verbatim>\<open>podnetworkidentity.go\<close>), under \<^verbatim>\<open>internal/resources/rds\<close>. The description text of a
  new group is a constant and left out; \<^verbatim>\<open>wrapEC2Error\<close> is \<open>wrapAWSError\<close>.
\<close>

section \<open>Security groups\<close>

definition typeSecurityGroup :: string where "typeSecurityGroup = ''ec2-securitygroup''"
definition podNetworkIdentityLedgerName :: string where "podNetworkIdentityLedgerName = ''pod-network-identity''"
definition instanceSecurityGroupSuffix :: string where "instanceSecurityGroupSuffix = ''#securitygroup''"

definition instanceSecurityGroupLedgerName :: "string \<Rightarrow> string" where
  "instanceSecurityGroupLedgerName inst = inst @ instanceSecurityGroupSuffix"

definition enginePort :: "string \<Rightarrow> int" where
  "enginePort engine = (if engine = ''postgres'' then 5432 else 3306)"

definition securityGroupARN :: "string \<Rightarrow> string \<Rightarrow> string \<Rightarrow> string" where
  "securityGroupARN region accountID groupID = ''arn:aws:ec2:'' @ region @ '':'' @ accountID @ '':security-group/'' @ groupID"

definition ownsGroup :: "pass \<Rightarrow> SecurityGroup \<Rightarrow> bool" where
  "ownsGroup p g \<longleftrightarrow> IsOwnedBy (tagsToMap (sg_Tags g)) (ps_namespace p) (ps_crName p) (ps_crUID p)"

definition describeOwnedGroup :: "env \<Rightarrow> pass \<Rightarrow> string \<Rightarrow> SecurityGroup option op" where
  "describeOwnedGroup v p arn =
     (if arn = [] then ret None
      else do {
        r \<leftarrow> ec2_DescribeSecurityGroup v (SecurityGroupIDFromARN arn);
        case r of
          Inl _ \<Rightarrow> ret None
        | Inr groups \<Rightarrow> ret (case groups of [] \<Rightarrow> None | g # _ \<Rightarrow> if ownsGroup p g then Some g else None)
      })"

definition resolveVPCID :: "env \<Rightarrow> string \<Rightarrow> (go_error + string) op" where
  "resolveVPCID v dbSubnetGroupName = do {
     r \<leftarrow> rds_DescribeDBSubnetGroups v dbSubnetGroupName;
     case r of
       Inl e \<Rightarrow> ret (Inl (wrapAWSError_rds (ExtError e) ''resolving VPC for DB subnet group''))
     | Inr groups \<Rightarrow>
         (case groups of
            Some vpcID # _ \<Rightarrow> ret (Inr vpcID)
          | _ \<Rightarrow> ret (Inl (msgError ''DB subnet group did not report a VPC ID'' [dbSubnetGroupName])))
   }"

definition takeOverGroup :: "env \<Rightarrow> pass \<Rightarrow> SecurityGroup \<Rightarrow> bool \<Rightarrow> (go_error + string \<times> IpPermission list) op" where
  "takeOverGroup v p g adopt =
     (let groupID = sg_GroupId g;
          tgs = tagsToMap (sg_Tags g);
          owner = tgs OwnerTagKey;
          stale = IsStaleUID tgs (ps_namespace p) (ps_crName p) (ps_crUID p)
      in if ownsGroup p g then ret (Inr (groupID, sg_IpPermissions g))
         else if owner \<noteq> None \<and> owner \<noteq> Some (OwnerTagValue (ps_namespace p) (ps_crName p))
         then ret (Inl (OwnedByAnotherCRError ''security group'' groupID (the owner)))
         else if \<not> adopt \<and> (case stale of None \<Rightarrow> True | Some uid \<Rightarrow> \<not> MayTransferFrom p uid)
         then ret (Inl (case stale of
                          Some uid \<Rightarrow> PreviousIncarnationError ''security group'' groupID uid
                        | None \<Rightarrow> AdoptRequiredError ''security group'' groupID))
         else do {
           r \<leftarrow> ec2_CreateTags v groupID (ownerTags p);
           case r of
             Inl e \<Rightarrow> ret (Inl (wrapAWSError (ExtError e) ''adopting security group (tagging)''))
           | Inr _ \<Rightarrow> ret (Inr (groupID, sg_IpPermissions g))
         })"

definition createGroup :: "env \<Rightarrow> pass \<Rightarrow> string \<Rightarrow> string \<Rightarrow> (go_error + string \<times> IpPermission list) op" where
  "createGroup v p groupName vpcID = do {
     r \<leftarrow> ec2_CreateSecurityGroup v groupName vpcID (ownerTags p);
     case r of
       Inl e \<Rightarrow>
         if apiCode (ExtError e) ''InvalidGroup.Duplicate''
         then ret (Inl (ReconcileError (wrapf ''security group was created moments ago and is not visible yet'' [groupName] (ExtError e)) True [] False))
         else ret (Inl (wrapAWSError (ExtError e) ''creating security group''))
     | Inr groupID \<Rightarrow> ret (Inr (groupID, []))
   }"

definition findOrCreateSecurityGroup ::
  "env \<Rightarrow> pass \<Rightarrow> string \<Rightarrow> string \<Rightarrow> bool \<Rightarrow> (go_error + string \<times> IpPermission list) op" where
  "findOrCreateSecurityGroup v p groupName vpcID adopt = do {
     r \<leftarrow> ec2_FindSecurityGroups v groupName vpcID;
     case r of
       Inl e \<Rightarrow> ret (Inl (wrapAWSError (ExtError e) ''looking up security group''))
     | Inr groups \<Rightarrow> (case groups of g # _ \<Rightarrow> takeOverGroup v p g adopt | [] \<Rightarrow> createGroup v p groupName vpcID)
   }"

section \<open>Ingress\<close>

definition PodNetworkIdentityARN :: "AppDependencies \<Rightarrow> string option" where
  "PodNetworkIdentityARN cr =
     (case FindManagedResource (st_ManagedResources (ad_Status cr)) typeSecurityGroup podNetworkIdentityLedgerName of
        None \<Rightarrow> None
      | Some entry \<Rightarrow> if mr_PendingDeletionSince entry \<noteq> None then None else Some (mr_ARN entry))"

text \<open>A consumer that is being deleted or does not list the instance is not granted.\<close>

definition asksFor :: "AppDependencies \<Rightarrow> ConsumeRef \<Rightarrow> bool" where
  "asksFor consumer ref \<longleftrightarrow> \<not> md_Deleting consumer
     \<and> (case sp_RDS (ad_Spec consumer) of None \<Rightarrow> False | Some s \<Rightarrow> ref \<in> set (rds_Consumes s))"

definition consumerPodSecurityGroupARN :: "env \<Rightarrow> string \<Rightarrow> string \<Rightarrow> ConsumeRef \<Rightarrow> (go_error + string option) op" where
  "consumerPodSecurityGroupARN v namespace crName ref = do {
     r \<leftarrow> k8s_GetCR v namespace crName;
     case r of
       Inl e \<Rightarrow>
         if ex_k8s_notfound e then ret (Inr None)
         else ret (Inl (ReconcileError (wrapf ''reading consumer'' [namespace, crName] (ExtError e)) True [] False))
     | Inr consumer \<Rightarrow> ret (Inr (if asksFor consumer ref then PodNetworkIdentityARN consumer else None))
   }"

text \<open>The groups that the rules of the engine's port name.\<close>

definition grantedGroups :: "int \<Rightarrow> IpPermission list \<Rightarrow> string list" where
  "grantedGroups port perms =
     concat (map (\<lambda>perm. if ip_FromPort perm = port \<and> ip_ToPort perm = port then List.map_filter (\<lambda>g. g) (ip_UserIdGroupPairs perm) else []) perms)"

primrec collectConsumers ::
  "env \<Rightarrow> ConsumeRef \<Rightarrow> string list \<Rightarrow> SharedWithEntry list \<Rightarrow> string list \<times> string list \<Rightarrow> (go_error + string list \<times> string list) op" where
  "collectConsumers v ref have' [] acc = ret (Inr acc)"
| "collectConsumers v ref have' (consumer # consumers) acc = do {
     r \<leftarrow> consumerPodSecurityGroupARN v (sw_Namespace consumer) (sw_Name consumer) ref;
     case r of
       Inl e \<Rightarrow> ret (Inl e)
     | Inr None \<Rightarrow> collectConsumers v ref have' consumers acc
     | Inr (Some arn) \<Rightarrow>
         (case acc of (desired, missing) \<Rightarrow>
            (let groupID = SecurityGroupIDFromARN arn in
             collectConsumers v ref have' consumers
               (groupID # desired,
                if groupID \<notin> set desired \<and> groupID \<notin> set have' then missing @ [groupID] else missing)))
   }"

primrec revokeEach :: "env \<Rightarrow> string \<Rightarrow> int \<Rightarrow> string list \<Rightarrow> go_error option \<Rightarrow> go_error option op" where
  "revokeEach v groupID port [] firstErr = ret firstErr"
| "revokeEach v groupID port (stale # rest) firstErr = do {
     r \<leftarrow> ec2_RevokeSecurityGroupIngress v groupID port stale;
     revokeEach v groupID port rest
       (case r of
          Inl e \<Rightarrow> if apiCode (ExtError e) ''InvalidPermission.NotFound'' then firstErr
                   else firstError firstErr (Some (wrapAWSError (ExtError e) ''revoking stale ingress for security group''))
        | Inr _ \<Rightarrow> firstErr)
   }"

definition revokeStaleIngress :: "env \<Rightarrow> string \<Rightarrow> int \<Rightarrow> string list \<Rightarrow> string list \<Rightarrow> go_error option op" where
  "revokeStaleIngress v groupID port have' desired =
     revokeEach v groupID port (filter (\<lambda>g. g \<notin> set desired) (sort (remdups have'))) None"

definition grantMissing :: "env \<Rightarrow> string \<Rightarrow> int \<Rightarrow> string list \<Rightarrow> go_error option op" where
  "grantMissing v groupID port missing = do {
     r \<leftarrow> ec2_AuthorizeSecurityGroupIngress v groupID port missing;
     ret (case r of
            Inl e \<Rightarrow> if apiCode (ExtError e) ''InvalidPermission.Duplicate'' then None
                     else Some (wrapAWSError (ExtError e) ''granting ingress to consumer groups'')
          | Inr _ \<Rightarrow> None)
   }"

definition reconcileIngress ::
  "env \<Rightarrow> pass \<Rightarrow> string \<Rightarrow> IpPermission list \<Rightarrow> string \<Rightarrow> string \<Rightarrow> SharedWithEntry list \<Rightarrow> bool \<Rightarrow> go_error option op" where
  "reconcileIngress v p groupID perms engine resourceName sharedWith revokeOnly =
     (let port = enginePort engine;
          have' = grantedGroups port perms;
          ref = \<lparr>cr_Namespace = ps_namespace p, cr_Name = ps_crName p, cr_ResourceName = resourceName\<rparr>
      in do {
        r \<leftarrow> collectConsumers v ref have' sharedWith ([], []);
        case r of
          Inl e \<Rightarrow> ret (Some e)
        | Inr (desired, missing) \<Rightarrow> do {
            grantErr \<leftarrow> (if missing \<noteq> [] \<and> \<not> revokeOnly then grantMissing v groupID port missing else ret None);
            revokeErr \<leftarrow> revokeStaleIngress v groupID port have' desired;
            ret (firstError grantErr revokeErr)
          }
      })"

section \<open>The group of an instance\<close>

definition narrowInstanceIngress ::
  "env \<Rightarrow> pass \<Rightarrow> string \<Rightarrow> string \<Rightarrow> SharedWithEntry list \<Rightarrow> string \<Rightarrow> go_error option op" where
  "narrowInstanceIngress v p resourceName engine sharedWith recordedARN = do {
     known \<leftarrow> describeOwnedGroup v p recordedARN;
     case known of
       None \<Rightarrow> ret None
     | Some g \<Rightarrow> reconcileIngress v p (sg_GroupId g) (sg_IpPermissions g) engine resourceName sharedWith True
   }"

definition instanceGroup ::
  "env \<Rightarrow> pass \<Rightarrow> string \<Rightarrow> string \<Rightarrow> bool \<Rightarrow> string \<Rightarrow> (go_error + string \<times> IpPermission list) op" where
  "instanceGroup v p resourceName dbSubnetGroupName adopt recordedARN = do {
     known \<leftarrow> describeOwnedGroup v p recordedARN;
     case known of
       Some g \<Rightarrow> ret (Inr (sg_GroupId g, sg_IpPermissions g))
     | None \<Rightarrow> do {
         vpc \<leftarrow> resolveVPCID v dbSubnetGroupName;
         case vpc of
           Inl e \<Rightarrow> ret (Inl e)
         | Inr vpcID \<Rightarrow>
             findOrCreateSecurityGroup v p (ResourceName (ps_namespace p) (ps_crName p) ''rds-sg'' resourceName 255) vpcID adopt
       }
   }"

definition ensureInstanceSecurityGroup ::
  "env \<Rightarrow> pass \<Rightarrow> string \<Rightarrow> string \<Rightarrow> RDSInstanceSpec \<Rightarrow> string \<Rightarrow> (go_error + string) op" where
  "ensureInstanceSecurityGroup v p region accountID r recordedARN = do {
     g \<leftarrow> instanceGroup v p (i_Name r) (i_DBSubnetGroupName r) (i_Adopt r) recordedARN;
     case g of
       Inl e \<Rightarrow> ret (Inl e)
     | Inr (groupID, perms) \<Rightarrow> do {
         err \<leftarrow> reconcileIngress v p groupID perms (i_Engine r) (i_Name r) (i_SharedWith r) False;
         ret (case err of Some e \<Rightarrow> Inl e | None \<Rightarrow> Inr (securityGroupARN region accountID groupID))
       }
   }"

definition recordInstanceSecurityGroup :: "pass \<Rightarrow> ledger \<Rightarrow> string \<Rightarrow> string \<Rightarrow> ledger" where
  "recordInstanceSecurityGroup p l inst arn =
     (let name = instanceSecurityGroupLedgerName inst in
      UpsertManagedResource l (zeroManagedResource\<lparr>mr_Type := typeSecurityGroup, mr_Name := name, mr_ARN := arn,
        mr_DeletionPolicy := DeletionPolicyDelete, mr_State := StateVerified,
        mr_CreatedAt := (case FindManagedResource l typeSecurityGroup name of None \<Rightarrow> ps_now p | Some e \<Rightarrow> mr_CreatedAt e),
        mr_LastVerifiedAt := Some (ps_now p)\<rparr>))"

definition securityGroupOwnedBy :: "env \<Rightarrow> pass \<Rightarrow> string \<Rightarrow> (go_error + bool) op" where
  "securityGroupOwnedBy v p groupID = do {
     r \<leftarrow> ec2_DescribeSecurityGroup v groupID;
     case r of
       Inl e \<Rightarrow>
         if apiCode (ExtError e) ''InvalidGroup.NotFound'' then ret (Inr False)
         else ret (Inl (wrapAWSError (ExtError e) ''checking security group ownership before deleting it''))
     | Inr groups \<Rightarrow> ret (Inr (case groups of [] \<Rightarrow> False | g # _ \<Rightarrow> ownsGroup p g))
   }"

definition deleteGroupError :: "ext_error \<Rightarrow> string \<Rightarrow> go_error" where
  "deleteGroupError e errContext =
     (if apiCode (ExtError e) ''DependencyViolation''
      then ReconcileError (wrapf (errContext @ '': still in use'') [] (ExtError e)) True ''WaitingForRuleRelease'' False
      else wrapAWSError (ExtError e) errContext)"

text \<open>Deletes the group unless it is not ours; the error is the one to report.\<close>

definition deleteOwnedGroup :: "env \<Rightarrow> pass \<Rightarrow> string \<Rightarrow> string \<Rightarrow> go_error option op" where
  "deleteOwnedGroup v p groupID errContext = do {
     owned \<leftarrow> securityGroupOwnedBy v p groupID;
     case owned of
       Inl e \<Rightarrow> ret (Some e)
     | Inr False \<Rightarrow> ret None
     | Inr True \<Rightarrow> do {
         r \<leftarrow> ec2_DeleteSecurityGroup v groupID;
         ret (case r of
                Inl e \<Rightarrow> if apiCode (ExtError e) ''InvalidGroup.NotFound'' then None else Some (deleteGroupError e errContext)
              | Inr _ \<Rightarrow> None)
       }
   }"

definition cutInstance :: "string \<Rightarrow> string option" where
  "cutInstance name =
     (if hasSuffix name instanceSecurityGroupSuffix then Some (take (length name - length instanceSecurityGroupSuffix) name) else None)"

definition declaredInstanceNames :: "RDSSpec option \<Rightarrow> bool \<Rightarrow> string \<Rightarrow> bool" where
  "declaredInstanceNames spec deleting name =
     (case spec of None \<Rightarrow> False | Some s \<Rightarrow> \<not> deleting \<and> name \<in> i_Name ` set (rds_Resources s))"

text \<open>The group of an instance that is neither declared nor in the ledger any more.\<close>

definition orphanedGroup :: "(string \<Rightarrow> bool) \<Rightarrow> ledger \<Rightarrow> ManagedResource \<Rightarrow> bool" where
  "orphanedGroup declared l entry \<longleftrightarrow>
     (case cutInstance (mr_Name entry) of None \<Rightarrow> False
      | Some inst \<Rightarrow> mr_Type entry = typeSecurityGroup \<and> \<not> declared inst \<and> \<not> HasManagedResource l TypeRDS inst)"

primrec cleanupGroups ::
  "env \<Rightarrow> pass \<Rightarrow> (string \<Rightarrow> bool) \<Rightarrow> ledger \<Rightarrow> ManagedResource list \<Rightarrow> ledger \<times> go_error option \<Rightarrow> (ledger \<times> go_error option) op" where
  "cleanupGroups v p declared l [] acc = ret acc"
| "cleanupGroups v p declared l (entry # entries) acc =
     (if \<not> orphanedGroup declared l entry then cleanupGroups v p declared l entries acc
      else do {
        err \<leftarrow> deleteOwnedGroup v p (SecurityGroupIDFromARN (mr_ARN entry)) ''deleting the security group of removed instance'';
        cleanupGroups v p declared l entries
          (case acc of (updated, firstErr) \<Rightarrow>
             (case err of
                Some e \<Rightarrow> (updated, firstError firstErr (Some e))
              | None \<Rightarrow> (RemoveManagedResource updated typeSecurityGroup (mr_Name entry), firstErr)))
      })"

definition CleanupInstanceSecurityGroups ::
  "env \<Rightarrow> pass \<Rightarrow> RDSSpec option \<Rightarrow> ledger \<Rightarrow> bool \<Rightarrow> (ledger \<times> go_error option) op" where
  "CleanupInstanceSecurityGroups v p spec l deleting = cleanupGroups v p (declaredInstanceNames spec deleting) l l (l, None)"

section \<open>The group of a consumer's pods\<close>

definition getProducer :: "env \<Rightarrow> ConsumeRef \<Rightarrow> (go_error + AppDependencies option) op" where
  "getProducer v ref = do {
     r \<leftarrow> k8s_GetCR v (cr_Namespace ref) (cr_Name ref);
     case r of
       Inr producer \<Rightarrow> ret (Inr (Some producer))
     | Inl e \<Rightarrow>
         if ex_k8s_notfound e then ret (Inr None)
         else ret (Inl (ReconcileError (wrapf ''reading producer'' [cr_Namespace ref, cr_Name ref] (ExtError e)) True [] False))
   }"

definition producedInstances :: "AppDependencies option \<Rightarrow> ConsumeRef \<Rightarrow> RDSInstanceSpec list" where
  "producedInstances producer ref =
     (case producer of None \<Rightarrow> []
      | Some cr \<Rightarrow> (case sp_RDS (ad_Spec cr) of None \<Rightarrow> []
                   | Some s \<Rightarrow> filter (\<lambda>r. i_Name r = cr_ResourceName ref) (rds_Resources s)))"

primrec firstConsumedSubnetGroupName :: "env \<Rightarrow> ConsumeRef list \<Rightarrow> (go_error + string option) op" where
  "firstConsumedSubnetGroupName v [] = ret (Inr None)"
| "firstConsumedSubnetGroupName v (ref # refs) = do {
     x \<leftarrow> getProducer v ref;
     case x of
       Inl e \<Rightarrow> ret (Inl e)
     | Inr producer \<Rightarrow>
         (case producedInstances producer ref of
            r # _ \<Rightarrow> ret (Inr (Some (i_DBSubnetGroupName r)))
          | [] \<Rightarrow> firstConsumedSubnetGroupName v refs)
   }"

primrec anyVPCMatches :: "env \<Rightarrow> RDSInstanceSpec list \<Rightarrow> string \<Rightarrow> (go_error + bool) op" where
  "anyVPCMatches v [] wantVPCID = ret (Inr False)"
| "anyVPCMatches v (r # rs) wantVPCID = do {
     vpc \<leftarrow> resolveVPCID v (i_DBSubnetGroupName r);
     case vpc of
       Inl e \<Rightarrow> if apiCode e ''DBSubnetGroupNotFoundFault'' then anyVPCMatches v rs wantVPCID else ret (Inl e)
     | Inr vpcID \<Rightarrow> if vpcID = wantVPCID then ret (Inr True) else anyVPCMatches v rs wantVPCID
   }"

primrec anyConsumedVPCMatches :: "env \<Rightarrow> ConsumeRef list \<Rightarrow> string \<Rightarrow> (go_error + bool) op" where
  "anyConsumedVPCMatches v [] wantVPCID = ret (Inr False)"
| "anyConsumedVPCMatches v (ref # refs) wantVPCID = do {
     x \<leftarrow> getProducer v ref;
     case x of
       Inl e \<Rightarrow> ret (Inl e)
     | Inr producer \<Rightarrow> do {
         y \<leftarrow> anyVPCMatches v (producedInstances producer ref) wantVPCID;
         case y of
           Inl e \<Rightarrow> ret (Inl e)
         | Inr True \<Rightarrow> ret (Inr True)
         | Inr False \<Rightarrow> anyConsumedVPCMatches v refs wantVPCID
       }
   }"

definition existingPodIdentityGroup :: "env \<Rightarrow> pass \<Rightarrow> ledger \<Rightarrow> SecurityGroup option op" where
  "existingPodIdentityGroup v p l =
     (case FindManagedResource l typeSecurityGroup podNetworkIdentityLedgerName of
        None \<Rightarrow> ret None | Some entry \<Rightarrow> describeOwnedGroup v p (mr_ARN entry))"

definition freshPodGroup :: "env \<Rightarrow> pass \<Rightarrow> ConsumeRef list \<Rightarrow> (go_error + (string \<times> bool) option) op" where
  "freshPodGroup v p consumes = do {
     x \<leftarrow> firstConsumedSubnetGroupName v consumes;
     case x of
       Inl e \<Rightarrow> ret (Inl e)
     | Inr None \<Rightarrow> ret (Inr None)
     | Inr (Some dbSubnetGroupName) \<Rightarrow> do {
         vpc \<leftarrow> resolveVPCID v dbSubnetGroupName;
         case vpc of
           Inl e \<Rightarrow> ret (Inl e)
         | Inr vpcID \<Rightarrow> do {
             g \<leftarrow> findOrCreateSecurityGroup v p
                  (ResourceName (ps_namespace p) (ps_crName p) ''rds-pod-sg'' ''network-identity'' 255) vpcID False;
             case g of Inl e \<Rightarrow> ret (Inl e) | Inr (groupID, _) \<Rightarrow> ret (Inr (Some (groupID, True)))
           }
       }
   }"

text \<open>The group and whether its VPC was just verified; \<open>None\<close> while no consumed producer has resolved yet.\<close>

definition podSecurityGroup :: "env \<Rightarrow> pass \<Rightarrow> ConsumeRef list \<Rightarrow> ledger \<Rightarrow> (go_error + (string \<times> bool) option) op" where
  "podSecurityGroup v p consumes l = do {
     recorded \<leftarrow> existingPodIdentityGroup v p l;
     case recorded of
       None \<Rightarrow> freshPodGroup v p consumes
     | Some g \<Rightarrow>
         if (case FindManagedResource l typeSecurityGroup podNetworkIdentityLedgerName of
               None \<Rightarrow> False | Some entry \<Rightarrow> \<not> NeedsRevalidation (ps_now p) entry)
         then ret (Inr (Some (sg_GroupId g, False)))
         else do {
           x \<leftarrow> anyConsumedVPCMatches v consumes (sg_VpcId g);
           case x of
             Inl e \<Rightarrow> ret (Inl e)
           | Inr True \<Rightarrow> ret (Inr (Some (sg_GroupId g, True)))
           | Inr False \<Rightarrow> freshPodGroup v p consumes
         }
   }"

definition podGroupIDs :: "string list \<Rightarrow> string \<Rightarrow> string list" where
  "podGroupIDs bases groupID = foldl (\<lambda>ids x. if x \<in> set ids then ids else ids @ [x]) [] (bases @ [groupID])"

definition securityGroupPolicyName :: "pass \<Rightarrow> string" where
  "securityGroupPolicyName p = ResourceName (ps_namespace p) (ps_crName p) ''rds-pod-sg-policy'' ''network-identity'' 253"

definition securityGroupPolicyFieldOwner :: string where
  "securityGroupPolicyFieldOwner = ''cloudctl-operator-network-identity''"

definition ensureSecurityGroupPolicy :: "env \<Rightarrow> pass \<Rightarrow> string \<Rightarrow> string list \<Rightarrow> go_error option op" where
  "ensureSecurityGroupPolicy v p serviceAccountName groupIDs =
     (let spec = ([NetworkIdentityLabelKey \<mapsto> serviceAccountName], groupIDs) in do {
        existing \<leftarrow> k8s_GetSecurityGroupPolicy v (ps_namespace p) (securityGroupPolicyName p);
        if (case existing of Inl _ \<Rightarrow> False
            | Inr policy \<Rightarrow> gp_Spec policy = Some spec \<and> AppliedBy (gp_AppliedBy policy) securityGroupPolicyFieldOwner)
        then ret None
        else do {
          a \<leftarrow> k8s_ApplySecurityGroupPolicy v \<lparr>gy_Namespace = ps_namespace p, gy_Name = securityGroupPolicyName p, gy_Spec = spec,
                 gy_FieldOwner = securityGroupPolicyFieldOwner\<rparr>;
          ret (case a of Inl e \<Rightarrow> Some (wrapf ''applying SecurityGroupPolicy'' [] (ExtError e)) | Inr _ \<Rightarrow> None)
        }
      })"

definition recordPodIdentity :: "pass \<Rightarrow> ledger \<Rightarrow> string \<Rightarrow> bool \<Rightarrow> ledger" where
  "recordPodIdentity p l arn freshlyVerified =
     (let existing = FindManagedResource l typeSecurityGroup podNetworkIdentityLedgerName in
      UpsertManagedResource l (zeroManagedResource\<lparr>mr_Type := typeSecurityGroup, mr_Name := podNetworkIdentityLedgerName, mr_ARN := arn,
        mr_DeletionPolicy := DeletionPolicyDelete, mr_State := StateVerified,
        mr_CreatedAt := (case existing of None \<Rightarrow> ps_now p | Some e \<Rightarrow> mr_CreatedAt e),
        mr_LastVerifiedAt := Some (case existing of None \<Rightarrow> ps_now p
          | Some e \<Rightarrow> if freshlyVerified then ps_now p else orElse (mr_LastVerifiedAt e) (ps_now p))\<rparr>))"

definition EnsurePodNetworkIdentity ::
  "env \<Rightarrow> pass \<Rightarrow> string \<Rightarrow> string \<Rightarrow> string list \<Rightarrow> string \<Rightarrow> ConsumeRef list \<Rightarrow> ledger \<Rightarrow> (ledger \<times> go_error option) op" where
  "EnsurePodNetworkIdentity v p region accountID baseGroupIDs serviceAccountName consumes l = do {
     g \<leftarrow> podSecurityGroup v p consumes l;
     case g of
       Inl e \<Rightarrow> ret (l, Some e)
     | Inr None \<Rightarrow> ret (l, None)
     | Inr (Some (groupID, freshlyVerified)) \<Rightarrow> do {
         err \<leftarrow> EnsureNetworkIdentityLabel v (ps_namespace p) (ps_crName p) (ps_crUID p) serviceAccountName;
         case err of
           Some e \<Rightarrow> ret (l, Some (wrapf ''labeling ServiceAccount for network identity'' [serviceAccountName] e))
         | None \<Rightarrow> do {
             (if baseGroupIDs = [] then recordEvent p ''Warning'' ''PodBaseSecurityGroupsUnset'' [serviceAccountName] else ret ());
             pErr \<leftarrow> ensureSecurityGroupPolicy v p serviceAccountName (podGroupIDs baseGroupIDs groupID);
             case pErr of
               Some e \<Rightarrow> ret (l, Some e)
             | None \<Rightarrow> ret (recordPodIdentity p l (securityGroupARN region accountID groupID) freshlyVerified, None)
           }
       }
   }"

definition CleanupPodNetworkIdentity :: "env \<Rightarrow> pass \<Rightarrow> string \<Rightarrow> ledger \<Rightarrow> (ledger \<times> go_error option) op" where
  "CleanupPodNetworkIdentity v p serviceAccountName l =
     (case FindManagedResource l typeSecurityGroup podNetworkIdentityLedgerName of
        None \<Rightarrow> ret (l, None)
      | Some entry \<Rightarrow>
          (let l1 = (if mr_PendingDeletionSince entry = None
                     then UpsertManagedResource l (entry\<lparr>mr_PendingDeletionSince := Some (ps_now p)\<rparr>) else l) in do {
             d \<leftarrow> k8s_DeleteSecurityGroupPolicy v (ps_namespace p) (securityGroupPolicyName p);
             case (case d of Inl e \<Rightarrow> if ex_k8s_notfound e then None else Some e | Inr _ \<Rightarrow> None) of
               Some e \<Rightarrow> ret (l1, Some (wrapf ''deleting SecurityGroupPolicy'' [] (ExtError e)))
             | None \<Rightarrow> do {
                 err \<leftarrow> ReleaseNetworkIdentityLabel v (ps_namespace p) (ps_crName p) (ps_crUID p) serviceAccountName;
                 case err of
                   Some e \<Rightarrow> ret (l1, Some (wrapf ''releasing network identity label on ServiceAccount'' [serviceAccountName] e))
                 | None \<Rightarrow> do {
                     dErr \<leftarrow> deleteOwnedGroup v p (SecurityGroupIDFromARN (mr_ARN entry)) ''deleting pod network identity security group'';
                     case dErr of
                       Some e \<Rightarrow> ret (l1, Some e)
                     | None \<Rightarrow> ret (RemoveManagedResource l1 typeSecurityGroup podNetworkIdentityLedgerName, None)
                   }
               }
           }))"

end
