(* ===== verification/Rds.thy ===== *)
theory Rds
  imports Rds_Network
begin

text \<open>
  The RDS package as the controller calls it: \<^verbatim>\<open>Ensure\<close> of \<^verbatim>\<open>internal/resources/rds/rds.go\<close> and \<^verbatim>\<open>Cleanup\<close> of
  \<^verbatim>\<open>cleanup.go\<close>. The operator has no call that deletes an instance.
\<close>

section \<open>Ensure\<close>

definition isAuthorizedByGrants :: "RDSSubnetGroupGrant list \<Rightarrow> string \<Rightarrow> string \<Rightarrow> bool" where
  "isAuthorizedByGrants grants namespace dbSubnetGroupName \<longleftrightarrow>
     list_ex (\<lambda>g. gr_DBSubnetGroupName g = dbSubnetGroupName \<and> namespace \<in> set (gr_AllowedNamespaces g)) grants"

text \<open>The grants are listed once, on first use; \<open>None\<close> before that.\<close>

type_synonym grants_memo = "RDSSubnetGroupGrant list reply option"

definition listSubnetGroupGrants :: "env \<Rightarrow> grants_memo \<Rightarrow> RDSSubnetGroupGrant list reply op" where
  "listSubnetGroupGrants v memo = (case memo of Some r \<Rightarrow> ret r | None \<Rightarrow> k8s_ListSubnetGroupGrants v)"

definition recordedGroupARN :: "ledger \<Rightarrow> string \<Rightarrow> string" where
  "recordedGroupARN l name =
     (case FindManagedResource l typeSecurityGroup (instanceSecurityGroupLedgerName name) of None \<Rightarrow> [] | Some e \<Rightarrow> mr_ARN e)"

definition notAuthorizedError :: "pass \<Rightarrow> RDSInstanceSpec \<Rightarrow> go_error" where
  "notAuthorizedError p r = ReconcileError
     (msgError ''namespace is not authorized to use DB subnet group'' [i_Name r, ps_namespace p, i_DBSubnetGroupName r]) True [] True"

definition holdUnauthorized :: "env \<Rightarrow> pass \<Rightarrow> RDSInstanceSpec \<Rightarrow> ledger \<Rightarrow> go_error op" where
  "holdUnauthorized v p r l =
     (case trackedInstance l (i_Name r) of
        None \<Rightarrow> ret (notAuthorizedError p r)
      | Some _ \<Rightarrow> do {
          err \<leftarrow> narrowInstanceIngress v p (i_Name r) (i_Engine r) (i_SharedWith r) (recordedGroupARN l (i_Name r));
          ret (case err of
                 None \<Rightarrow> notAuthorizedError p r
               | Some e \<Rightarrow> JoinError (notAuthorizedError p r) (wrapf ''narrowing network access'' [i_Name r] e))
        })"

definition placeInstance ::
  "env \<Rightarrow> pass \<Rightarrow> string \<Rightarrow> string \<Rightarrow> RDSInstanceSpec \<Rightarrow> ledger \<Rightarrow> (ledger \<times> go_error option) op" where
  "placeInstance v p region accountID r l = do {
     aErr \<leftarrow> checkAdoptable v p r l;
     case aErr of
       Some e \<Rightarrow> ret (l, Some (wrapf ''instance'' [i_Name r] e))
     | None \<Rightarrow> do {
         sg \<leftarrow> ensureInstanceSecurityGroup v p region accountID r (recordedGroupARN l (i_Name r));
         case sg of
           Inl e \<Rightarrow> ret (l, Some (wrapf ''instance: security group'' [i_Name r] e))
         | Inr sgARN \<Rightarrow> do {
             (l2, key) \<leftarrow> resolveEncryptionKey v p ''instance'' TypeRDS (i_Name r) (i_DeletionPolicy r) (i_Encryption r)
                          (recordInstanceSecurityGroup p l (i_Name r) sgARN);
             case key of
               Inl e \<Rightarrow> ret (l2, Some e)
             | Inr kmsKeyARN \<Rightarrow> do {
                 (l3, err) \<leftarrow> ensureInstance v p (i_Name r) ((optionsFor r sgARN)\<lparr>io_kmsKeyARN := kmsKeyARN\<rparr>) l2;
                 ret (l3, map_option (wrapf ''instance'' [i_Name r]) err)
               }
           }
       }
   }"

definition ensureResource ::
  "env \<Rightarrow> pass \<Rightarrow> string \<Rightarrow> string \<Rightarrow> RDSInstanceSpec \<Rightarrow> grants_memo \<Rightarrow> ledger \<Rightarrow> (grants_memo \<times> ledger \<times> go_error option) op" where
  "ensureResource v p region accountID r memo l =
     (if (case i_Replication r of None \<Rightarrow> False | Some x \<Rightarrow> rr_Enabled x)
      then ret (memo, l, Some (ReconcileError (msgError ''replication is not implemented yet'' [i_Name r]) False ''NotSupported'' False))
      else do {
        grants \<leftarrow> listSubnetGroupGrants v memo;
        case grants of
          Inl e \<Rightarrow> ret (Some grants, l, Some (wrapf ''checking subnet group authorization'' [i_Name r] (ExtError e)))
        | Inr gs \<Rightarrow>
            if \<not> isAuthorizedByGrants gs (ps_namespace p) (i_DBSubnetGroupName r)
            then do { e \<leftarrow> holdUnauthorized v p r l; ret (Some grants, l, Some e) }
            else do { (l1, err) \<leftarrow> placeInstance v p region accountID r l; ret (Some grants, l1, err) }
      })"

primrec ensureInstances ::
  "env \<Rightarrow> pass \<Rightarrow> string \<Rightarrow> string \<Rightarrow> RDSInstanceSpec list \<Rightarrow> grants_memo \<times> ledger \<times> go_error option \<Rightarrow> (ledger \<times> go_error option) op" where
  "ensureInstances v p region accountID [] acc = ret (snd acc)"
| "ensureInstances v p region accountID (r # rs) acc =
     (case acc of (memo, l, firstErr) \<Rightarrow> do {
        (memo1, l1, err) \<leftarrow> ensureResource v p region accountID r memo l;
        ensureInstances v p region accountID rs (memo1, l1, firstError firstErr err)
      })"

definition Ensure_rds :: "env \<Rightarrow> pass \<Rightarrow> string \<Rightarrow> string \<Rightarrow> RDSSpec option \<Rightarrow> ledger \<Rightarrow> (ledger \<times> go_error option) op" where
  "Ensure_rds v p region accountID spec l =
     (case spec of None \<Rightarrow> ret (l, None)
      | Some s \<Rightarrow> ensureInstances v p region accountID (rds_Resources s) (None, l, None))"

section \<open>Final snapshots\<close>

datatype InstanceCleanupReason = InstanceRetained | InstancePendingDeletion | InstanceStuckPendingDeletion

type_synonym instance_result = "string \<times> InstanceCleanupReason"

definition PendingDeletionGracePeriod_rds :: duration where "PendingDeletionGracePeriod_rds = hour"
definition deletionQuietWindow_rds :: duration where "deletionQuietWindow_rds = 10 * minute"

definition pendingDeletionReason_rds :: "pass \<Rightarrow> time \<Rightarrow> InstanceCleanupReason" where
  "pendingDeletionReason_rds p t =
     (if since (ps_now p) t > PendingDeletionGracePeriod_rds then InstanceStuckPendingDeletion else InstancePendingDeletion)"

definition ownsSnapshot :: "pass \<Rightarrow> DBSnapshot \<Rightarrow> bool" where
  "ownsSnapshot p s \<longleftrightarrow> IsOwnedBy (tagsToMap (ss_TagList s)) (ps_namespace p) (ps_crName p) (ps_crUID p)"

definition deleteSnapshot ::
  "env \<Rightarrow> pass \<Rightarrow> string \<Rightarrow> string \<Rightarrow> ledger \<Rightarrow> string \<Rightarrow> (ledger \<times> go_error option) op" where
  "deleteSnapshot v p snapshotID resourceName l why = do {
     d \<leftarrow> rds_DeleteDBSnapshot v snapshotID;
     case (case d of Inl e \<Rightarrow> if isException ''DBSnapshotNotFoundFault'' e then None else Some e | Inr _ \<Rightarrow> None) of
       Some e \<Rightarrow> ret (l, Some (wrapAWSError_rds (ExtError e) ''deleting retired snapshot''))
     | None \<Rightarrow> do {
         recordEvent p ''Normal'' ''FinalSnapshotRetired'' [snapshotID, resourceName, why];
         ret (RemoveManagedResource l ResourceTypeRDSSnapshot resourceName, None)
       }
   }"

definition retireFinalSnapshot ::
  "env \<Rightarrow> pass \<Rightarrow> string \<Rightarrow> ledger \<Rightarrow> string \<Rightarrow> (ledger \<times> go_error option) op" where
  "retireFinalSnapshot v p resourceName l why =
     (case FindManagedResource l ResourceTypeRDSSnapshot resourceName of
        None \<Rightarrow> ret (l, None)
      | Some existing \<Rightarrow> do {
          r \<leftarrow> rds_DescribeDBSnapshots v (mr_ARN existing);
          case r of
            Inl e \<Rightarrow> ret (l, Some (wrapAWSError_rds (ExtError e) ''checking snapshot before retiring it''))
          | Inr [] \<Rightarrow> ret (RemoveManagedResource l ResourceTypeRDSSnapshot resourceName, None)
          | Inr (snapshot # _) \<Rightarrow>
              if \<not> ownsSnapshot p snapshot
              then do {
                recordEvent p ''Warning'' ''FinalSnapshotNotOwned'' [mr_ARN existing];
                ret (RemoveManagedResource l ResourceTypeRDSSnapshot resourceName, None)
              }
              else if mr_State existing = StateVerified \<or> ss_Status snapshot = ''available''
              then deleteSnapshot v p (mr_ARN existing) resourceName l why
              else if ss_Status snapshot = ''failed'' then ret (RemoveManagedResource l ResourceTypeRDSSnapshot resourceName, None)
              else ret (l, None)
        })"

definition instanceIDFromARN :: "string \<Rightarrow> go_error + string" where
  "instanceIDFromARN arn =
     (if CHR '':'' \<notin> set arn \<or> afterLast arn CHR '':'' = [] then Inl (msgError ''unexpected instance ARN format'' [arn])
      else Inr (afterLast arn CHR '':''))"

text \<open>The identifier of a snapshot carries the second at which the deletion began to be pending.\<close>

definition snapshotIDOf :: "pass \<Rightarrow> string \<Rightarrow> time \<Rightarrow> string" where
  "snapshotIDOf p name pendingSince =
     DerivedResourceNameFor NameStyleRDS (ps_namespace p) (ps_crName p) TypeRDS 255 [name, ''final-snapshot'', show_int (pendingSince div second)]"

definition createFinalSnapshot ::
  "env \<Rightarrow> pass \<Rightarrow> ManagedResource \<Rightarrow> string \<Rightarrow> string \<Rightarrow> ledger \<Rightarrow> (ledger \<times> go_error option) op" where
  "createFinalSnapshot v p entry instanceID snapshotID l = do {
     c \<leftarrow> rds_CreateDBSnapshot v instanceID snapshotID (ownerTags p);
     case (case c of Inl e \<Rightarrow> if isException ''DBSnapshotAlreadyExistsFault'' e then None else Some e | Inr _ \<Rightarrow> None) of
       Some e \<Rightarrow> ret (l, Some (wrapAWSError_rds (ExtError e) ''creating final snapshot for stuck instance''))
     | None \<Rightarrow> do {
         recordEvent p ''Normal'' ''FinalSnapshotCreating'' [snapshotID, mr_Name entry];
         ret (UpsertManagedResource l (zeroManagedResource\<lparr>mr_Type := ResourceTypeRDSSnapshot, mr_Name := mr_Name entry,
                mr_ARN := snapshotID, mr_State := StateCreating, mr_DeletionPolicy := DeletionPolicyRetain, mr_CreatedAt := ps_now p,
                mr_KMSKeyARN := mr_KMSKeyARN entry\<rparr>), None)
       }
   }"

definition pollFinalSnapshot ::
  "env \<Rightarrow> pass \<Rightarrow> ManagedResource \<Rightarrow> ManagedResource \<Rightarrow> ledger \<Rightarrow> (ledger \<times> go_error option) op" where
  "pollFinalSnapshot v p entry existing l = do {
     r \<leftarrow> rds_DescribeDBSnapshots v (mr_ARN existing);
     case r of
       Inl e \<Rightarrow> ret (l, Some (wrapAWSError_rds (ExtError e) ''checking final snapshot''))
     | Inr [] \<Rightarrow> ret (l, None)
     | Inr (snapshot # _) \<Rightarrow>
         if ss_Status snapshot = ''available''
         then do {
           recordEvent p ''Normal'' ''FinalSnapshotReady'' [mr_ARN existing, mr_Name entry];
           ret (UpsertManagedResource l (existing\<lparr>mr_State := StateVerified, mr_LastVerifiedAt := Some (ps_now p)\<rparr>), None)
         }
         else if ss_Status snapshot = ''failed''
         then do { recordEvent p ''Warning'' ''FinalSnapshotFailed'' [mr_ARN existing, mr_Name entry]; ret (l, None) }
         else ret (l, None)
   }"

definition ensureFinalSnapshot ::
  "env \<Rightarrow> pass \<Rightarrow> ManagedResource \<Rightarrow> time \<Rightarrow> ledger \<Rightarrow> (ledger \<times> go_error option) op" where
  "ensureFinalSnapshot v p entry pendingSince l =
     (let expected = snapshotIDOf p (mr_Name entry) pendingSince;
          existing = FindManagedResource l ResourceTypeRDSSnapshot (mr_Name entry) in
      if (case existing of None \<Rightarrow> False | Some s \<Rightarrow> mr_ARN s \<noteq> expected)
      then retireFinalSnapshot v p (mr_Name entry) l ''superseded by a newer episode''
      else if (case existing of None \<Rightarrow> False | Some s \<Rightarrow> mr_State s = StateVerified) then ret (l, None)
      else case instanceIDFromARN (mr_ARN entry) of
             Inl e \<Rightarrow> ret (l, Some e)
           | Inr instanceID \<Rightarrow>
               (case existing of
                  None \<Rightarrow> createFinalSnapshot v p entry instanceID expected l
                | Some s \<Rightarrow> pollFinalSnapshot v p entry s l))"

section \<open>Cleanup\<close>

text \<open>\<open>Inr None\<close> when the instance is gone, otherwise whether it is still tagged as ours.\<close>

definition verifyInstanceOwned :: "env \<Rightarrow> pass \<Rightarrow> ManagedResource \<Rightarrow> (go_error + bool option) op" where
  "verifyInstanceOwned v p entry = do {
     t \<leftarrow> rds_ListTagsForResource v (mr_ARN entry);
     case t of
       Inl e \<Rightarrow>
         if isException ''DBInstanceNotFoundFault'' e then ret (Inr None)
         else ret (Inl (wrapAWSError_rds (ExtError e) ''re-verifying ownership of instance''))
     | Inr ts \<Rightarrow> ret (Inr (Some (IsOwnedBy (tagsToMap ts) (ps_namespace p) (ps_crName p) (ps_crUID p))))
   }"

definition untagInstance :: "env \<Rightarrow> pass \<Rightarrow> ManagedResource \<Rightarrow> (go_error + bool option) op" where
  "untagInstance v p entry = do {
     (case ReleaseTags p of
        None \<Rightarrow> ret ()
      | Some released \<Rightarrow> do {
          a \<leftarrow> rds_AddTagsToResource v (mr_ARN entry) released;
          (case a of Inl e \<Rightarrow> ReleaseTagFailed p ''instance'' (mr_Name entry) e | Inr _ \<Rightarrow> ret ())
        });
     u \<leftarrow> rds_RemoveTagsFromResource v (mr_ARN entry) [OwnerTagKey, OwnerUIDTagKey];
     case u of
       Inl e \<Rightarrow> ret (Inl (wrapAWSError_rds (ExtError e) ''relinquishing ownership tag on retained instance''))
     | Inr _ \<Rightarrow> ret (Inr (Some True))
   }"

text \<open>\<open>Inr None\<close> when the instance is gone, otherwise whether its tags were removed.\<close>

definition relinquishIfStillTagged_rds :: "env \<Rightarrow> pass \<Rightarrow> ManagedResource \<Rightarrow> (go_error + bool option) op" where
  "relinquishIfStillTagged_rds v p entry = do {
     t \<leftarrow> rds_ListTagsForResource v (mr_ARN entry);
     case t of
       Inl e \<Rightarrow>
         if isException ''DBInstanceNotFoundFault'' e then ret (Inr None)
         else ret (Inl (wrapAWSError_rds (ExtError e) ''checking ownership tags on retained instance''))
     | Inr ts \<Rightarrow>
         if \<not> IsOwnedBy (tagsToMap ts) (ps_namespace p) (ps_crName p) (ps_crUID p) then ret (Inr (Some False))
         else untagInstance v p entry
   }"

definition retainEntry :: "env \<Rightarrow> pass \<Rightarrow> ManagedResource \<Rightarrow> ledger \<Rightarrow> (ledger \<times> bool \<times> go_error option) op" where
  "retainEntry v p entry l =
     (if mr_State entry = StateRelinquished \<and> \<not> NeedsRelinquishedRecheck (ps_now p) entry then ret (l, True, None)
      else do {
        x \<leftarrow> relinquishIfStillTagged_rds v p entry;
        case x of
          Inl e \<Rightarrow> ret (l, False, Some e)
        | Inr None \<Rightarrow> ret (RemoveManagedResource l TypeRDS (mr_Name entry), False, None)
        | Inr (Some relinquished) \<Rightarrow> do {
            (if relinquished then recordEvent p ''Normal'' ''InstanceOwnershipRelinquished'' [mr_Name entry, mr_ARN entry] else ret ());
            ret (UpsertManagedResource l (Relinquished (ps_now p) entry), True, None)
          }
      })"

definition retain_rds ::
  "env \<Rightarrow> pass \<Rightarrow> ManagedResource \<Rightarrow> ledger \<Rightarrow> instance_result list \<Rightarrow> (ledger \<times> instance_result list \<times> go_error option) op" where
  "retain_rds v p entry l results = do {
     (l1, retained, err) \<leftarrow> retainEntry v p entry l;
     ret (l1, if retained then results @ [(mr_Name entry, InstanceRetained)] else results, err)
   }"

definition restoreDeclared_rds :: "env \<Rightarrow> pass \<Rightarrow> ManagedResource \<Rightarrow> ledger \<Rightarrow> (ledger \<times> go_error option) op" where
  "restoreDeclared_rds v p entry l =
     (if mr_PendingDeletionSince entry = None then retireFinalSnapshot v p (mr_Name entry) l ''the instance reappeared in spec''
      else do {
        recordEvent p ''Normal'' ''InstanceDeletionCancelled'' [mr_Name entry, mr_ARN entry];
        retireFinalSnapshot v p (mr_Name entry) (UpsertManagedResource l (entry\<lparr>mr_PendingDeletionSince := None\<rparr>))
          ''the instance reappeared in spec''
      })"

definition pendDeletion ::
  "env \<Rightarrow> pass \<Rightarrow> ManagedResource \<Rightarrow> ledger \<Rightarrow> instance_result list \<Rightarrow> (ledger \<times> instance_result list \<times> go_error option) op" where
  "pendDeletion v p entry l results = do {
     x \<leftarrow> verifyInstanceOwned v p entry;
     case x of
       Inl e \<Rightarrow> ret (l, results, Some e)
     | Inr None \<Rightarrow> ret (RemoveManagedResource l TypeRDS (mr_Name entry), results, None)
     | Inr (Some False) \<Rightarrow> ret (l, results, Some (OwnershipLostError ''instance'' (mr_Name entry) ''act on it''))
     | Inr (Some True) \<Rightarrow>
         (case mr_PendingDeletionSince entry of
            None \<Rightarrow> do {
              recordEvent p ''Warning'' ''InstanceDeletionRequiresManualAction'' [mr_Name entry, mr_ARN entry];
              ret (UpsertManagedResource l (entry\<lparr>mr_PendingDeletionSince := Some (ps_now p)\<rparr>),
                   results @ [(mr_Name entry, pendingDeletionReason_rds p (ps_now p))], None)
            }
          | Some t \<Rightarrow>
              (let results1 = results @ [(mr_Name entry, pendingDeletionReason_rds p t)] in
               if since (ps_now p) t < deletionQuietWindow_rds then ret (l, results1, None)
               else do { (l1, err) \<leftarrow> ensureFinalSnapshot v p entry t l; ret (l1, results1, err) }))
   }"

primrec cleanupInstances ::
  "env \<Rightarrow> pass \<Rightarrow> (string \<Rightarrow> bool) \<Rightarrow> ManagedResource list \<Rightarrow> ledger \<times> instance_result list \<times> go_error option
   \<Rightarrow> (ledger \<times> instance_result list \<times> go_error option) op" where
  "cleanupInstances v p declared [] acc = ret acc"
| "cleanupInstances v p declared (entry # entries) acc =
     (case acc of (l, results, firstErr) \<Rightarrow>
        if mr_Type entry \<noteq> TypeRDS then cleanupInstances v p declared entries acc
        else do {
          (l1, results1, err) \<leftarrow>
            (if declared (mr_Name entry) then do { (l1, err) \<leftarrow> restoreDeclared_rds v p entry l; ret (l1, results, err) }
             else if mr_DeletionPolicy entry \<noteq> DeletionPolicyDelete then retain_rds v p entry l results
             else pendDeletion v p entry l results);
          cleanupInstances v p declared entries (l1, results1, firstError firstErr err)
        })"

definition orphanDue :: "pass \<Rightarrow> ledger \<Rightarrow> ManagedResource \<Rightarrow> bool" where
  "orphanDue p l entry \<longleftrightarrow> mr_Type entry = ResourceTypeRDSSnapshot \<and> \<not> HasManagedResource l TypeRDS (mr_Name entry)
     \<and> (mr_State entry \<noteq> StateVerified
        \<or> (case mr_LastVerifiedAt entry of None \<Rightarrow> True | Some t \<Rightarrow> since (ps_now p) t > RelinquishedRecheckInterval))"

primrec orphanedSnapshots ::
  "env \<Rightarrow> pass \<Rightarrow> ManagedResource list \<Rightarrow> ledger \<times> go_error option \<Rightarrow> (ledger \<times> go_error option) op" where
  "orphanedSnapshots v p [] acc = ret acc"
| "orphanedSnapshots v p (entry # entries) acc =
     (case acc of (l, firstErr) \<Rightarrow>
        if \<not> orphanDue p l entry then orphanedSnapshots v p entries acc
        else do {
          r \<leftarrow> rds_DescribeDBSnapshots v (mr_ARN entry);
          orphanedSnapshots v p entries
            (case r of
               Inl e \<Rightarrow> if isException ''DBSnapshotNotFoundFault'' e then (RemoveManagedResource l ResourceTypeRDSSnapshot (mr_Name entry), firstErr)
                        else (l, firstError firstErr (Some (wrapAWSError_rds (ExtError e) ''checking final snapshot of a removed instance'')))
             | Inr [] \<Rightarrow> (RemoveManagedResource l ResourceTypeRDSSnapshot (mr_Name entry), firstErr)
             | Inr (snapshot # _) \<Rightarrow>
                 if ss_Status snapshot = ''available''
                 then (UpsertManagedResource l (entry\<lparr>mr_State := StateVerified, mr_LastVerifiedAt := Some (ps_now p)\<rparr>), firstErr)
                 else (l, firstErr))
        })"

definition checkOrphanedSnapshots :: "env \<Rightarrow> pass \<Rightarrow> ledger \<Rightarrow> (ledger \<times> go_error option) op" where
  "checkOrphanedSnapshots v p l = orphanedSnapshots v p l (l, None)"

definition Cleanup_rds ::
  "env \<Rightarrow> pass \<Rightarrow> RDSSpec option \<Rightarrow> ledger \<Rightarrow> bool \<Rightarrow> (ledger \<times> instance_result list \<times> go_error option) op" where
  "Cleanup_rds v p spec l deleting = do {
     (l1, results, firstErr) \<leftarrow> cleanupInstances v p (declaredInstanceNames spec deleting) l (l, [], None);
     (l2, snapshotErr) \<leftarrow> checkOrphanedSnapshots v p l1;
     ret (l2, results, firstError firstErr snapshotErr)
   }"

end
