(* ===== verification/Rds_Safety.thy ===== *)
theory Rds_Safety
  imports Rds
begin

text \<open>
  What the RDS package never does. A database is created only where there was none; its storage, backups, engine version and
  network groups are never reduced; a withdrawn grant only narrows access; ingress follows the consumers who are shared with and
  ask; snapshots, groups and tags are only changed after they were read as this custom resource's own.
\<close>

section \<open>Engine versions in order\<close>

text \<open>The reference order: the first component that differs decides, missing components being zero.\<close>

definition component :: "int list \<Rightarrow> nat \<Rightarrow> int" where
  "component a i = (if i < length a then a ! i else 0)"

definition versionLess :: "int list \<Rightarrow> int list \<Rightarrow> bool" where
  "versionLess a b \<longleftrightarrow> (\<exists>i. (\<forall>j<i. component a j = component b j) \<and> component a i < component b i)"

lemma component_simps [simp]: "component [] i = 0" "component (x # xs) 0 = x" "component (x # xs) (Suc i) = component xs i"
  by (simp_all add: component_def)

lemma component_drop: "component a (Suc i) = component (tl a) i"
  by (cases a) simp_all

lemma all_nat_split: "(\<forall>n::nat. Q n) = (Q 0 \<and> (\<forall>m. Q (Suc m)))"
  using nat.nchotomy by metis

lemma versionLess_step:
  "versionLess a b \<longleftrightarrow> component a 0 < component b 0 \<or> component a 0 = component b 0 \<and> versionLess (tl a) (tl b)"
proof
  assume "versionLess a b"
  then obtain i where i: "\<forall>j<i. component a j = component b j" "component a i < component b i"
    unfolding versionLess_def by blast
  show "component a 0 < component b 0 \<or> component a 0 = component b 0 \<and> versionLess (tl a) (tl b)"
  proof (cases i)
    case 0
    then show ?thesis using i by simp
  next
    case (Suc k)
    then have "\<forall>j<k. component (tl a) j = component (tl b) j" "component (tl a) k < component (tl b) k" "component a 0 = component b 0"
      using i by (auto simp flip: component_drop)
    then show ?thesis unfolding versionLess_def by blast
  qed
next
  assume "component a 0 < component b 0 \<or> component a 0 = component b 0 \<and> versionLess (tl a) (tl b)"
  then show "versionLess a b"
  proof
    assume "component a 0 < component b 0"
    then show ?thesis unfolding versionLess_def by (intro exI [of _ 0]) simp
  next
    assume h: "component a 0 = component b 0 \<and> versionLess (tl a) (tl b)"
    then obtain k where "\<forall>j<k. component (tl a) j = component (tl b) j" "component (tl a) k < component (tl b) k"
      unfolding versionLess_def by blast
    with h show ?thesis
      unfolding versionLess_def by (intro exI [of _ "Suc k"]) (auto simp: component_drop less_Suc_eq_0_disj)
  qed
qed

lemma versionLess_Nil: "\<not> versionLess [] []"
  by (simp add: versionLess_def)

lemma compareVersions_sound:
  "(compareVersions a b < 0 \<longleftrightarrow> versionLess a b) \<and> (compareVersions a b > 0 \<longleftrightarrow> versionLess b a)
   \<and> (compareVersions a b = 0 \<longleftrightarrow> (\<forall>i. component a i = component b i))"
proof (induction a b rule: compareVersions.induct)
  case (2 x xs)
  then show ?case
    using versionLess_step [of "x # xs" "[]"] versionLess_step [of "[]" "x # xs"] all_nat_split [of "\<lambda>i. component (x # xs) i = component [] i"]
    by auto
next
  case (3 y ys)
  then show ?case
    using versionLess_step [of "y # ys" "[]"] versionLess_step [of "[]" "y # ys"] all_nat_split [of "\<lambda>i. component [] i = component (y # ys) i"]
    by auto
next
  case (4 x xs y ys)
  then show ?case
    using versionLess_step [of "x # xs" "y # ys"] versionLess_step [of "y # ys" "x # xs"]
      all_nat_split [of "\<lambda>i. component (x # xs) i = component (y # ys) i"]
    by auto
qed (simp add: versionLess_Nil)

section \<open>Changes to an instance\<close>

text \<open>What a modification of the instance \<open>k\<close> may ask for, given what AWS has or has already accepted.\<close>

definition onlyAdvances :: "string \<Rightarrow> DBInstance \<Rightarrow> instanceOptions \<Rightarrow> ModifyDBInstanceInput \<Rightarrow> bool" where
  "onlyAdvances k inst opts m \<longleftrightarrow> mi_DBInstanceIdentifier m = k
   \<and> (\<forall>s. mi_AllocatedStorage m = Some s \<longrightarrow> s > at_allocatedStorage (effectiveAttributes inst))
   \<and> (\<forall>b. mi_BackupRetentionPeriod m = Some b \<longrightarrow> b > at_backupRetention (effectiveAttributes inst))
   \<and> (\<forall>x. mi_EngineVersion m = Some x \<longrightarrow>
        (\<exists>a b. parseVersion (at_engineVersion (effectiveAttributes inst)) = Some a \<and> parseVersion x = Some b \<and> versionLess a b))
   \<and> (mi_AllowMajorVersionUpgrade m \<noteq> None \<longrightarrow> io_allowMajor opts)
   \<and> (\<forall>gs. mi_VpcSecurityGroupIds m = Some gs \<longrightarrow>
        {g. \<exists>st. (g, st) \<in> set (di_VpcSecurityGroups inst) \<and> st \<noteq> ''removing''} \<union> {io_securityGroupID opts} \<subseteq> set gs)
   \<and> (mi_DeletionProtection m = Some False \<longrightarrow> io_deletionProtection opts = Some False)
   \<and> (mi_CopyTagsToSnapshot m \<noteq> Some False)"

lemma onlyAdvances_noChange: "onlyAdvances k inst opts (noChange k)"
  by (simp add: onlyAdvances_def noChange_def)

lemma onlyAdvances_sizing: "onlyAdvances k inst opts m \<Longrightarrow> onlyAdvances k inst opts (fst (reconcileSizing m c opts))"
  by (simp add: onlyAdvances_def reconcileSizing_def Let_def)

lemma onlyAdvances_backup:
  "onlyAdvances k inst opts m \<Longrightarrow> c = effectiveAttributes inst
   \<Longrightarrow> returns (\<lambda>(m', b). onlyAdvances k inst opts m') (reconcileBackupRetention p m c opts arn)"
  unfolding reconcileBackupRetention_def Let_def by (intro returns_intros) (simp_all add: onlyAdvances_def)

lemma onlyAdvances_storage:
  "onlyAdvances k inst opts m \<Longrightarrow> c = effectiveAttributes inst
   \<Longrightarrow> returns (\<lambda>(m', b). onlyAdvances k inst opts m') (reconcileStorage p m inst c opts arn)"
  unfolding reconcileStorage_def Let_def by (intro returns_intros) (simp_all add: onlyAdvances_def)

lemma returns_engineVersionUpgrade:
  "returns (\<lambda>u. \<forall>major. u = Inr (True, major) \<longrightarrow> (\<exists>a b. parseVersion current = Some a \<and> parseVersion desired = Some b \<and> versionLess a b))
     (engineVersionUpgrade v engine current desired)"
  unfolding engineVersionUpgrade_def Let_def using compareVersions_sound by (intro returns_intros) (auto simp: not_le)

lemma onlyAdvances_engine:
  assumes "onlyAdvances k inst opts m" "c = effectiveAttributes inst"
  shows "returns (\<lambda>u. \<forall>m' b. u = Inr (m', b) \<longrightarrow> onlyAdvances k inst opts m') (reconcileEngineVersion v m c opts)"
  unfolding reconcileEngineVersion_def
  by (intro returns_bind [OF returns_engineVersionUpgrade] returns_intros) (use assms in \<open>auto simp: onlyAdvances_def\<close>)

lemma onlyAdvances_groups:
  "onlyAdvances k inst opts m \<Longrightarrow> withSecurityGroup inst (io_securityGroupID opts) = (gs, missing)
   \<Longrightarrow> onlyAdvances k inst opts (m\<lparr>mi_VpcSecurityGroupIds := Some gs\<rparr>)"
  by (auto simp: onlyAdvances_def withSecurityGroup_def Let_def image_iff split: if_splits)

lemma onlyAdvances_protection:
  "onlyAdvances k inst opts m \<Longrightarrow> returns (\<lambda>(m', b). onlyAdvances k inst opts m') (reconcileDeletionProtection p m inst opts arn)"
  unfolding reconcileDeletionProtection_def Let_def
  by (intro returns_intros) (auto simp: onlyAdvances_def orElse_def split: option.splits)

lemma onlyAdvances_settings:
  "onlyAdvances k inst opts m \<Longrightarrow> onlyAdvances k inst opts (fst (reconcileCopyTags m inst opts))"
  "onlyAdvances k inst opts m \<Longrightarrow> onlyAdvances k inst opts (fst (reconcileAutoscaling m inst opts))"
  by (auto simp: onlyAdvances_def reconcileCopyTags_def reconcileAutoscaling_def split: option.splits)

definition readsVersions :: "call \<Rightarrow> bool" where
  "readsVersions c \<longleftrightarrow> (\<exists>engine x r. c = RDSCall (DescribeDBEngineVersions engine x r))"

text \<open>A computation that reads engine versions and then makes at most one call, a modification with \<open>P\<close>.\<close>

definition modifiesOnce :: "(ModifyDBInstanceInput \<Rightarrow> bool) \<Rightarrow> 'a op \<Rightarrow> bool" where
  "modifiesOnce P m \<longleftrightarrow> (\<forall>w. \<exists>reads tail. trace (snd (run_state m w)) = trace w @ reads @ tail \<and> (\<forall>c\<in>set reads. readsVersions c)
     \<and> (tail = [] \<or> (\<exists>i r. tail = [RDSCall (ModifyDBInstance i r)] \<and> P i)))"

lemma modifiesOnce_ret: "modifiesOnce P (ret x)"
  by (simp add: modifiesOnce_def)

lemma modifiesOnce_cases:
  "(\<And>e. x = Inl e \<Longrightarrow> modifiesOnce P (f e)) \<Longrightarrow> (\<And>a. x = Inr a \<Longrightarrow> modifiesOnce P (g a)) \<Longrightarrow> modifiesOnce P (case x of Inl e \<Rightarrow> f e | Inr a \<Rightarrow> g a)"
  "(\<And>a b. y = (a, b) \<Longrightarrow> modifiesOnce P (h a b)) \<Longrightarrow> modifiesOnce P (case y of (a, b) \<Rightarrow> h a b)"
  by (auto split: sum.split prod.split)

lemma modifiesOnce_bind:
  assumes "emits readsVersions m" "returns Q m" "\<And>a. Q a \<Longrightarrow> modifiesOnce P (f a)"
  shows "modifiesOnce P (State_Monad.bind m f)"
  unfolding modifiesOnce_def
proof
  fix w :: world
  obtain a w1 where r: "run_state m w = (a, w1)" by fastforce
  obtain n1 where n1: "trace w1 = trace w @ n1" "\<forall>c\<in>set n1. readsVersions c" using assms(1) r unfolding emits_def by (metis snd_conv)
  have "Q a" using assms(2) r unfolding returns_def by (metis fst_conv)
  from assms(3) [OF this] obtain reads tail where "trace (snd (run_state (f a) w1)) = trace w1 @ reads @ tail" "\<forall>c\<in>set reads. readsVersions c"
      "tail = [] \<or> (\<exists>i r. tail = [RDSCall (ModifyDBInstance i r)] \<and> P i)"
    unfolding modifiesOnce_def by blast
  with n1 r show "\<exists>reads tail. trace (snd (run_state (m \<bind> f) w)) = trace w @ reads @ tail \<and> (\<forall>c\<in>set reads. readsVersions c)
      \<and> (tail = [] \<or> (\<exists>i r. tail = [RDSCall (ModifyDBInstance i r)] \<and> P i))"
    by (intro exI [of _ "n1 @ reads"] exI [of _ tail]) auto
qed

lemma modifiesOnce_sendModify: "onlyAdvances k inst opts m \<Longrightarrow> modifiesOnce (onlyAdvances k inst opts) (sendModify v p m i arn opts g oc)"
  unfolding modifiesOnce_def
proof
  fix w :: world
  assume m: "onlyAdvances k inst opts m"
  define m' where "m' = m\<lparr>mi_ApplyImmediately := Some (io_applyImmediately opts \<or> g \<and> \<not> oc \<and> di_PendingModifiedValues i = None)\<rparr>"
  have "onlyAdvances k inst opts m'" using m by (simp add: m'_def onlyAdvances_def)
  moreover have "\<exists>r. trace (snd (run_state (sendModify v p m i arn opts g oc) w)) = trace w @ [] @ [RDSCall (ModifyDBInstance m' r)]"
    by (simp add: m'_def sendModify_def Let_def rds_ModifyDBInstance_def invoke_def recordEvent_def split: sum.split)
  ultimately show "\<exists>reads tail. trace (snd (run_state (sendModify v p m i arn opts g oc) w)) = trace w @ reads @ tail
      \<and> (\<forall>c\<in>set reads. readsVersions c) \<and> (tail = [] \<or> (\<exists>i r. tail = [RDSCall (ModifyDBInstance i r)] \<and> onlyAdvances k inst opts i))"
    by (metis list.set(1) empty_iff)
qed

lemma emits_settings:
  "emits C (reconcileBackupRetention p m c opts arn)" "emits C (reconcileStorage p m inst c opts arn)"
  "emits C (reconcileDeletionProtection p m inst opts arn)"
  unfolding reconcileBackupRetention_def reconcileStorage_def reconcileDeletionProtection_def reportStorageLargerThanSpec_def Let_def
  by (intro emits_intros)+

lemma emits_reconcileEngineVersion: "(\<And>a b r. C (RDSCall (DescribeDBEngineVersions a b r))) \<Longrightarrow> emits C (reconcileEngineVersion v m c opts)"
  unfolding reconcileEngineVersion_def engineVersionUpgrade_def rds_DescribeDBEngineVersions_def Let_def
  by (intro emits_intros emits_invoke)

lemma instance_changes_only_advance:
  "modifiesOnce (onlyAdvances k inst opts) (reconcileInstanceAttributes v p k arn inst opts)"
proof -
  let ?c = "effectiveAttributes inst"
  obtain m1 sizing where s: "reconcileSizing (noChange k) ?c opts = (m1, sizing)" by fastforce
  have m1: "onlyAdvances k inst opts m1" using onlyAdvances_sizing [where c = ?c, OF onlyAdvances_noChange, of k inst opts] s by simp
  obtain gs missing where g: "withSecurityGroup inst (io_securityGroupID opts) = (gs, missing)" by fastforce
  have finish: "modifiesOnce (onlyAdvances k inst opts) (do {
       (m6, protectionChange) \<leftarrow> reconcileDeletionProtection p m5 inst opts arn;
       let (m7, copyTags) = reconcileCopyTags m6 inst opts;
       let (m8, autoscaling) = reconcileAutoscaling m7 inst opts;
       (if \<not> a \<and> \<not> b \<and> \<not> missing \<and> \<not> protectionChange \<and> \<not> copyTags \<and> \<not> autoscaling
        then ret None else sendModify v p m8 inst arn opts a b) })" if h: "onlyAdvances k inst opts m5" for m5 a b
  proof (rule modifiesOnce_bind [OF emits_settings(3) onlyAdvances_protection [OF h]], clarify)
    fix m6 pc assume m6: "onlyAdvances k inst opts m6"
    obtain m7 ct where m7: "reconcileCopyTags m6 inst opts = (m7, ct)" by fastforce
    obtain m8 au where m8: "reconcileAutoscaling m7 inst opts = (m8, au)" by fastforce
    have "onlyAdvances k inst opts m8"
      using onlyAdvances_settings(1) [OF m6] onlyAdvances_settings(2) [of k inst opts m7] m7 m8 by simp
    then show "modifiesOnce (onlyAdvances k inst opts) (let (m7, copyTags) = reconcileCopyTags m6 inst opts;
       (m8, autoscaling) = reconcileAutoscaling m7 inst opts in
       (if \<not> a \<and> \<not> b \<and> \<not> missing \<and> \<not> pc \<and> \<not> copyTags \<and> \<not> autoscaling
        then ret None else sendModify v p m8 inst arn opts a b))"
      unfolding m7 m8 Let_def prod.case by (simp add: modifiesOnce_ret modifiesOnce_sendModify)
  qed
  show ?thesis
    unfolding reconcileInstanceAttributes_def s g Let_def prod.case
  proof (rule modifiesOnce_bind [OF emits_settings(1) onlyAdvances_backup [OF m1 refl]], clarify)
    fix m2 b2 assume m2: "onlyAdvances k inst opts m2"
    show "modifiesOnce (onlyAdvances k inst opts) (do {
        (m3, storageGrowth) \<leftarrow> reconcileStorage p m2 inst ?c opts arn;
        u \<leftarrow> reconcileEngineVersion v m3 ?c opts;
        case u of Inl e \<Rightarrow> ret (Some e)
        | Inr (m4, upgrade) \<Rightarrow> do {
            (m6, protectionChange) \<leftarrow> reconcileDeletionProtection p
               (if missing then m4\<lparr>mi_VpcSecurityGroupIds := Some gs\<rparr> else m4) inst opts arn;
            case reconcileCopyTags m6 inst opts of (m7, copyTags) \<Rightarrow>
              case reconcileAutoscaling m7 inst opts of (m8, autoscaling) \<Rightarrow>
                (if \<not> storageGrowth \<and> \<not> (sizing \<or> b2 \<or> upgrade) \<and> \<not> missing \<and> \<not> protectionChange \<and> \<not> copyTags \<and> \<not> autoscaling
                 then ret None else sendModify v p m8 inst arn opts storageGrowth (sizing \<or> b2 \<or> upgrade)) } })"
      by (rule modifiesOnce_bind [OF emits_settings(2) onlyAdvances_storage [OF m2 refl]], clarify,
          rule modifiesOnce_bind [OF emits_reconcileEngineVersion onlyAdvances_engine], simp add: readsVersions_def, assumption, rule refl)
        (auto intro!: modifiesOnce_cases modifiesOnce_ret finish [unfolded Let_def] onlyAdvances_groups [OF _ g])
  qed
qed

text \<open>An instance that already has what its spec asks for.\<close>

definition settled :: "DBInstance \<Rightarrow> instanceOptions \<Rightarrow> bool" where
  "settled inst opts \<longleftrightarrow>
     (let c = effectiveAttributes inst in
        at_instanceClass c = io_instanceClass opts \<and> at_multiAZ c = io_multiAZ opts
      \<and> (io_backupEnabled opts \<longrightarrow> at_backupRetention c \<ge> 7) \<and> at_backupRetention c \<ge> 0
      \<and> at_allocatedStorage c \<ge> io_allocatedStorage opts
      \<and> (\<exists>a b. parseVersion (at_engineVersion c) = Some a \<and> parseVersion (io_engineVersion opts) = Some b \<and> \<not> versionLess a b)
      \<and> (\<exists>st. (io_securityGroupID opts, st) \<in> set (di_VpcSecurityGroups inst) \<and> st \<noteq> ''removing'')
      \<and> (io_adopt opts \<and> io_deletionProtection opts = None \<or> di_DeletionProtection inst = orElse (io_deletionProtection opts) True)
      \<and> (io_adopt opts \<or> di_CopyTagsToSnapshot inst)
      \<and> (io_maxAllocatedStorage opts = None \<or> io_maxAllocatedStorage opts = Some (di_MaxAllocatedStorage inst)))"

lemma settled_sends_nothing:
  assumes "settled inst opts"
  shows "wp (reconcileInstanceAttributes v p k arn inst opts) (\<lambda>err w'. err = None \<and> trace w' = trace w) w"
proof -
  let ?c = "effectiveAttributes inst"
  have s: "at_instanceClass ?c = io_instanceClass opts" "at_multiAZ ?c = io_multiAZ opts"
    "io_backupEnabled opts \<Longrightarrow> at_backupRetention ?c \<ge> 7" "at_backupRetention ?c \<ge> 0"
    "at_allocatedStorage ?c \<ge> io_allocatedStorage opts"
    "\<exists>st. (io_securityGroupID opts, st) \<in> set (di_VpcSecurityGroups inst) \<and> st \<noteq> ''removing''"
    "io_adopt opts \<and> io_deletionProtection opts = None \<or> di_DeletionProtection inst = orElse (io_deletionProtection opts) True"
    "io_adopt opts \<or> di_CopyTagsToSnapshot inst"
    "io_maxAllocatedStorage opts = None \<or> io_maxAllocatedStorage opts = Some (di_MaxAllocatedStorage inst)"
    using assms by (auto simp: settled_def Let_def)
  obtain a b where v: "parseVersion (at_engineVersion ?c) = Some a" "parseVersion (io_engineVersion opts) = Some b" "\<not> versionLess a b"
    using assms by (auto simp: settled_def Let_def)
  have u: "engineVersionUpgrade v (io_engine opts) (at_engineVersion ?c) (io_engineVersion opts) = ret (Inr (False, False))"
    using v compareVersions_sound [of a b] by (auto simp: engineVersionUpgrade_def)
  have g: "snd (withSecurityGroup inst (io_securityGroupID opts)) = False"
    using s(6) by (force simp: withSecurityGroup_def Let_def image_iff)
  have ct: "reconcileCopyTags m inst opts = (m, False)" for m using s(8) by (auto simp: reconcileCopyTags_def)
  have au: "reconcileAutoscaling m inst opts = (m, False)" for m using s(9) by (auto simp: reconcileAutoscaling_def)
  have d: "wp (reconcileDeletionProtection p m inst opts arn) Q w1" if "\<And>w2. trace w2 = trace w1 \<Longrightarrow> Q (m, False) w2" for m Q w1
    using s(7) that by (auto simp: reconcileDeletionProtection_def Let_def wp_simps)
  obtain gs where gs: "withSecurityGroup inst (io_securityGroupID opts) = (gs, False)" using g by (metis prod.collapse)
  have bk: "\<not> at_backupRetention ?c < (if io_backupEnabled opts then 7 else 0)" using s(3,4) by auto
  have st: "\<not> at_allocatedStorage ?c < io_allocatedStorage opts" using s(5) by simp
  show ?thesis
    unfolding reconcileInstanceAttributes_def reconcileSizing_def reconcileBackupRetention_def reconcileStorage_def
      reportStorageLargerThanSpec_def reconcileEngineVersion_def u gs ct au Let_def
    using s(1,2) bk st by (auto simp: wp_simps intro!: d)
qed

text \<open>C22: Reconciling the attributes of a database sends at most one modification, of that instance, and it only ever moves the instance
  forward. Whatever AWS reports, the calls made are readings of engine versions followed by at most one modification; it names the instance,
  raises its storage and its backup retention, never lowers them; asks for an engine version strictly newer than the one it has or
  is about to have, with a major upgrade only when the spec allows it; keeps every security group the instance has; and turns deletion
  protection off only when the spec says so. An instance that already has what its spec asks for is left alone: no call is made and no
  error returned.\<close>

theorem database_only_advances:
  assumes "run_state (reconcileInstanceAttributes v p k arn inst opts) w = (err, w')"
  shows "(\<exists>reads tail. trace w' = trace w @ reads @ tail \<and> (\<forall>c\<in>set reads. readsVersions c)
           \<and> (tail = [] \<or> (\<exists>i r. tail = [RDSCall (ModifyDBInstance i r)] \<and> onlyAdvances k inst opts i)))
    \<and> (settled inst opts \<longrightarrow> err = None \<and> trace w' = trace w)"
proof
  show "\<exists>reads tail. trace w' = trace w @ reads @ tail \<and> (\<forall>c\<in>set reads. readsVersions c)
      \<and> (tail = [] \<or> (\<exists>i r. tail = [RDSCall (ModifyDBInstance i r)] \<and> onlyAdvances k inst opts i))"
    using instance_changes_only_advance [of k inst opts v p arn] assms unfolding modifiesOnce_def by (metis snd_conv)
  show "settled inst opts \<longrightarrow> err = None \<and> trace w' = trace w"
    using wp_run [OF assms settled_sends_nothing] by blast
qed

definition demoDB :: DBInstance where
  "demoDB = \<lparr>di_DBInstanceArn = ''arn:aws:rds:eu:1:db:orders'', di_DBInstanceIdentifier = ''orders'', di_DBInstanceStatus = ''available'',
     di_DBInstanceClass = ''db.t4g.micro'', di_Engine = ''postgres'', di_EngineVersion = ''16.4'', di_MultiAZ = False,
     di_BackupRetentionPeriod = 7, di_AllocatedStorage = 40, di_MaxAllocatedStorage = 0, di_PendingModifiedValues = None,
     di_PubliclyAccessible = False, di_StorageEncrypted = True, di_KmsKeyId = ''k'', di_DBSubnetGroupName = ''db'',
     di_VpcSecurityGroups = [(''sg-1'', ''active'')], di_DeletionProtection = True, di_CopyTagsToSnapshot = True,
     di_StorageType = ''gp3'', di_Iops = None, di_Endpoint = None, di_MasterUserSecret = None\<rparr>"

definition demoDBSpec :: RDSInstanceSpec where
  "demoDBSpec = \<lparr>i_Name = ''orders'', i_DBSubnetGroupName = ''db'', i_Engine = ''postgres'', i_EngineVersion = ''16'',
     i_InstanceClass = ''db.t4g.micro'', i_AllocatedStorage = 20, i_MaxAllocatedStorage = None, i_DeletionPolicy = DeletionPolicyRetain,
     i_AllowMajorVersionUpgrade = False, i_ApplyImmediately = False, i_Adopt = False, i_DeletionProtection = None, i_SharedWith = [],
     i_HighAvailability = None, i_Backup = Some \<lparr>rb_Enabled = True\<rparr>, i_Replication = None, i_Encryption = None\<rparr>"

lemma demo_settled: "settled demoDB (optionsFor demoDBSpec ''arn:aws:ec2:eu:1:security-group/sg-1'')"
proof -
  have "parseVersion ''16.4'' = Some [16, 4]" "parseVersion ''16'' = Some [16]"
    by (simp_all add: parseVersion_def Atoi_def decimalValue_def isDigit_def byte_in_def)
  moreover have "\<not> versionLess [16, 4] [16]" using compareVersions_sound [of "[16, 4]" "[16]"] by simp
  ultimately show ?thesis
    by (simp add: settled_def demoDB_def demoDBSpec_def optionsFor_def effectiveAttributes_def SecurityGroupIDFromARN_def afterLast_def
        wantsMultiAZ_def orElse_def)
qed

definition demoBigger :: instanceOptions where
  "demoBigger = (optionsFor demoDBSpec ''arn:aws:ec2:eu:1:security-group/sg-1'')\<lparr>io_allocatedStorage := 80\<rparr>"

lemma demo_grows:
  "wp (reconcileInstanceAttributes refusingEnv demoPass ''orders'' ''arn'' demoDB demoBigger)
     (\<lambda>err w'. \<exists>i r. trace w' = [RDSCall (ModifyDBInstance i r)] \<and> mi_AllocatedStorage i = Some 80) start"
proof -
  have "parseVersion ''16.4'' = Some [16, 4]" "parseVersion ''16'' = Some [16]"
    by (simp_all add: parseVersion_def Atoi_def decimalValue_def isDigit_def byte_in_def)
  then show ?thesis
    by (simp add: reconcileInstanceAttributes_def reconcileSizing_def reconcileBackupRetention_def reconcileStorage_def
        reportStorageLargerThanSpec_def reconcileEngineVersion_def engineVersionUpgrade_def withSecurityGroup_def reconcileDeletionProtection_def
        reconcileCopyTags_def reconcileAutoscaling_def sendModify_def rds_ModifyDBInstance_def noChange_def demoBigger_def demoDB_def
        demoDBSpec_def optionsFor_def effectiveAttributes_def SecurityGroupIDFromARN_def afterLast_def wantsMultiAZ_def orElse_def
        start_def wp_simps Let_def split: sum.split)
qed

theorem database_only_advances_witness:
  "trace (snd (run_state (reconcileInstanceAttributes refusingEnv demoPass ''orders'' ''arn'' demoDB
      (optionsFor demoDBSpec ''arn:aws:ec2:eu:1:security-group/sg-1'')) start)) = []
   \<and> (\<exists>i r. trace (snd (run_state (reconcileInstanceAttributes refusingEnv demoPass ''orders'' ''arn'' demoDB demoBigger) start))
          = [RDSCall (ModifyDBInstance i r)]
        \<and> mi_DBInstanceIdentifier i = ''orders'' \<and> mi_AllocatedStorage i = Some 80)"
proof -
  let ?run = "run_state (reconcileInstanceAttributes refusingEnv demoPass ''orders'' ''arn'' demoDB demoBigger) start"
  obtain i r where t: "trace (snd ?run) = [RDSCall (ModifyDBInstance i r)]" "mi_AllocatedStorage i = Some 80"
    using demo_grows by (auto simp: wp_def split_beta)
  obtain reads tail where rt: "trace (snd ?run) = trace start @ reads @ tail" "\<forall>c\<in>set reads. readsVersions c"
      "tail = [] \<or> (\<exists>i r. tail = [RDSCall (ModifyDBInstance i r)] \<and> onlyAdvances ''orders'' demoDB demoBigger i)"
    using database_only_advances [OF surjective_pairing, of refusingEnv demoPass "''orders''" "''arn''" demoDB demoBigger start] by blast
  have "[RDSCall (ModifyDBInstance i r)] = reads @ tail" using rt(1) t(1) by (simp add: start_def)
  with rt(2,3) have "onlyAdvances ''orders'' demoDB demoBigger i" by (auto simp: readsVersions_def Cons_eq_append_conv)
  then show ?thesis
    using database_only_advances [OF surjective_pairing, of refusingEnv demoPass "''orders''" "''arn''" demoDB
        "optionsFor demoDBSpec ''arn:aws:ec2:eu:1:security-group/sg-1''" start] demo_settled t
    by (auto simp: start_def onlyAdvances_def)
qed

section \<open>Ingress\<close>

text \<open>The group a consumer has published, if it may reach the instance: it is there, not being deleted, and asks for it.\<close>

definition consumerGroup :: "(string \<Rightarrow> string \<Rightarrow> AppDependencies reply) \<Rightarrow> ConsumeRef \<Rightarrow> SharedWithEntry \<Rightarrow> string option" where
  "consumerGroup cluster ref c =
     (case cluster (sw_Namespace c) (sw_Name c) of
        Inl _ \<Rightarrow> None
      | Inr cr \<Rightarrow> if asksFor cr ref then map_option SecurityGroupIDFromARN (PodNetworkIdentityARN cr) else None)"

definition readable :: "(string \<Rightarrow> string \<Rightarrow> AppDependencies reply) \<Rightarrow> SharedWithEntry \<Rightarrow> bool" where
  "readable cluster c = (case cluster (sw_Namespace c) (sw_Name c) of Inl e \<Rightarrow> ex_k8s_notfound e | Inr _ \<Rightarrow> True)"

definition desiredGroups :: "(string \<Rightarrow> string \<Rightarrow> AppDependencies reply) \<Rightarrow> ConsumeRef \<Rightarrow> SharedWithEntry list \<Rightarrow> string set" where
  "desiredGroups cluster ref sharedWith = {g. \<exists>c\<in>set sharedWith. consumerGroup cluster ref c = Some g}"

definition readsCRs :: "history \<Rightarrow> bool" where
  "readsCRs h \<longleftrightarrow> (\<forall>c\<in>set h. \<exists>ns n r. c = K8sCall (GetCR ns n r))"

lemma readsCRs_append [simp]: "readsCRs (a @ b) \<longleftrightarrow> readsCRs a \<and> readsCRs b"
  by (auto simp: readsCRs_def)

lemma readsCRs_single [simp]: "readsCRs [K8sCall (GetCR ns n r)]" "readsCRs []"
  by (auto simp: readsCRs_def)

definition collected ::
  "(string \<Rightarrow> string \<Rightarrow> AppDependencies reply) \<Rightarrow> ConsumeRef \<Rightarrow> string list \<Rightarrow> string set \<Rightarrow> history
   \<Rightarrow> go_error + string list \<times> string list \<Rightarrow> world \<Rightarrow> bool" where
  "collected cluster ref have' groups t r w' \<longleftrightarrow> (\<exists>h desired missing. r = Inr (desired, missing) \<and> trace w' = t @ h \<and> readsCRs h
     \<and> set desired = groups \<and> distinct missing \<and> set missing = groups - set have')"

lemma wp_collectConsumers:
  assumes "\<And>h ns n. ha_GetCR (env_k8s v) h ns n = cluster ns n" "\<forall>c\<in>set cs. readable cluster c"
    and "distinct missing" "set missing = set desired - set have'"
  shows "wp (collectConsumers v ref have' cs (desired, missing))
    (collected cluster ref have' (set desired \<union> desiredGroups cluster ref cs) (trace w)) w"
  using assms(2-)
proof (induction cs arbitrary: desired missing w)
  case Nil
  then show ?case by (simp add: wp_simps desiredGroups_def collected_def)
next
  case (Cons c cs)
  let ?call = "K8sCall (GetCR (sw_Namespace c) (sw_Name c) (cluster (sw_Namespace c) (sw_Name c)))"
  let ?w = "w\<lparr>trace := trace w @ [?call]\<rparr>"
  define published where "published = (case cluster (sw_Namespace c) (sw_Name c) of Inl e \<Rightarrow> None
             | Inr cr \<Rightarrow> if asksFor cr ref then PodNetworkIdentityARN cr else None)"
  have k: "wp (consumerPodSecurityGroupARN v (sw_Namespace c) (sw_Name c) ref) Q w = Q (Inr published) ?w" for Q
    using Cons.prems(1)
    by (auto simp: published_def consumerPodSecurityGroupARN_def k8s_GetCR_def wp_simps assms(1) readable_def split: sum.split)
  have g: "consumerGroup cluster ref c = map_option SecurityGroupIDFromARN published"
    by (simp add: consumerGroup_def published_def split: sum.split)
  have groups: "desiredGroups cluster ref (c # cs)
      = (case published of None \<Rightarrow> {} | Some arn \<Rightarrow> {SecurityGroupIDFromARN arn}) \<union> desiredGroups cluster ref cs"
    by (auto simp: desiredGroups_def g split: option.split)
  have IH: "wp (collectConsumers v ref have' cs (desired1, missing1))
      (collected cluster ref have' (set desired1 \<union> desiredGroups cluster ref cs) (trace w)) ?w"
    if "distinct missing1" "set missing1 = set desired1 - set have'" for desired1 missing1
    using Cons.IH [of missing1 desired1 ?w] that Cons.prems(1)
    by (auto elim!: wp_conseq intro: exI [of _ "?call # h" for h] simp: collected_def readsCRs_def)
  show ?case
  proof (cases published)
    case None
    with IH [OF Cons.prems(2,3)] groups show ?thesis by (simp add: wp_bind k)
  next
    case (Some arn)
    let ?g = "SecurityGroupIDFromARN arn"
    have "wp (collectConsumers v ref have' cs (?g # desired, if ?g \<notin> set desired \<and> ?g \<notin> set have' then missing @ [?g] else missing))
      (collected cluster ref have' (set (?g # desired) \<union> desiredGroups cluster ref cs) (trace w)) ?w"
      by (rule IH) (use Cons.prems(2,3) in auto)
    with groups Some show ?thesis by (simp add: wp_bind k Let_def)
  qed
qed

lemma wp_revokeEach:
  "wp (revokeEach v groupID port gs err) (\<lambda>e w'. \<exists>rs. length rs = length gs
     \<and> trace w' = trace w @ map2 (\<lambda>s r. EC2Call (RevokeSecurityGroupIngress groupID port s r)) gs rs
     \<and> (list_all (\<lambda>r. \<not> isl r) rs \<longrightarrow> e = err)) w"
proof (induction gs arbitrary: err w)
  case Nil
  then show ?case by (simp add: wp_simps)
next
  case (Cons g gs)
  show ?case
    unfolding revokeEach.simps ec2_RevokeSecurityGroupIngress_def wp_bind wp_invoke
  proof (rule wp_conseq [OF Cons.IH], elim exE conjE)
    fix e w' rs
    let ?r = "ea_RevokeSecurityGroupIngress (env_ec2 v) (trace w) groupID port g"
    assume "length rs = length gs"
      "trace w' = trace (w\<lparr>trace := trace w @ [EC2Call (RevokeSecurityGroupIngress groupID port g ?r)]\<rparr>)
         @ map2 (\<lambda>s r. EC2Call (RevokeSecurityGroupIngress groupID port s r)) gs rs"
      "list_all (\<lambda>r. \<not> isl r) rs \<longrightarrow> e = (case ?r of
          Inl e \<Rightarrow> if apiCode (ExtError e) ''InvalidPermission.NotFound'' then err
                   else firstError err (Some (wrapAWSError (ExtError e) ''revoking stale ingress for security group''))
        | Inr _ \<Rightarrow> err)"
    then show "\<exists>rs. length rs = length (g # gs)
        \<and> trace w' = trace w @ map2 (\<lambda>s r. EC2Call (RevokeSecurityGroupIngress groupID port s r)) (g # gs) rs
        \<and> (list_all (\<lambda>r. \<not> isl r) rs \<longrightarrow> e = err)"
      by (intro exI [of _ "?r # rs"]) (auto split: sum.splits)
  qed
qed

text \<open>What an accepted call does to the set of groups that have a rule on the port of a security group, and which calls were accepted.\<close>

fun applyIngress :: "string \<Rightarrow> int \<Rightarrow> call \<Rightarrow> string set \<Rightarrow> string set" where
  "applyIngress groupID port (EC2Call (AuthorizeSecurityGroupIngress g q gs (Inr _))) S = (if g = groupID \<and> q = port then S \<union> set gs else S)"
| "applyIngress groupID port (EC2Call (RevokeSecurityGroupIngress g q s (Inr _))) S = (if g = groupID \<and> q = port then S - {s} else S)"
| "applyIngress groupID port c S = S"

fun acceptedIngress :: "call \<Rightarrow> bool" where
  "acceptedIngress (EC2Call (AuthorizeSecurityGroupIngress g q gs r)) \<longleftrightarrow> \<not> isl r"
| "acceptedIngress (EC2Call (RevokeSecurityGroupIngress g q s r)) \<longleftrightarrow> \<not> isl r"
| "acceptedIngress c \<longleftrightarrow> True"

lemma apply_accepted:
  "\<not> isl r \<Longrightarrow> applyIngress groupID port (EC2Call (AuthorizeSecurityGroupIngress groupID port gs r)) S = S \<union> set gs"
  "\<not> isl r \<Longrightarrow> applyIngress groupID port (EC2Call (RevokeSecurityGroupIngress groupID port s r)) S = S - {s}"
  by (cases r; simp)+

lemma apply_reads: "readsCRs h \<Longrightarrow> fold (applyIngress groupID port) h S = S"
  by (induction h arbitrary: S) (auto simp: readsCRs_def)

lemma apply_revokes:
  "length rs = length gs \<Longrightarrow> list_all (\<lambda>r. \<not> isl r) rs \<Longrightarrow>
   fold (applyIngress groupID port) (map2 (\<lambda>s r. EC2Call (RevokeSecurityGroupIngress groupID port s r)) gs rs) S = S - set gs"
proof (induction gs arbitrary: rs S)
  case (Cons g gs)
  then obtain r rs' where "rs = r # rs'" by (cases rs) auto
  with Cons show ?case by (auto simp: apply_accepted)
qed simp

lemma accepted_revokes:
  "length rs = length gs \<Longrightarrow> list_all acceptedIngress (map2 (\<lambda>s r. EC2Call (RevokeSecurityGroupIngress g port s r)) gs rs) \<longleftrightarrow> list_all (\<lambda>r. \<not> isl r) rs"
  by (induction gs rs rule: list_induct2') auto

text \<open>The calls of \<open>reconcileIngress\<close> on a cluster whose custom resources can be read.\<close>

definition ingressCalls :: "string \<Rightarrow> int \<Rightarrow> bool \<Rightarrow> string list \<Rightarrow> string list \<Rightarrow> history \<Rightarrow> bool" where
  "ingressCalls groupID port revokeOnly missing stale h \<longleftrightarrow> (\<exists>reads grants rs. h = reads @ grants @ map2 (\<lambda>s r. EC2Call (RevokeSecurityGroupIngress groupID port s r)) stale rs
     \<and> readsCRs reads \<and> length rs = length stale
     \<and> (if missing = [] \<or> revokeOnly then grants = [] else \<exists>r. grants = [EC2Call (AuthorizeSecurityGroupIngress groupID port missing r)]))"

lemma ingress_effect:
  assumes "ingressCalls groupID port revokeOnly missing stale h" "list_all acceptedIngress h"
  shows "fold (applyIngress groupID port) h S = (if revokeOnly then S else S \<union> set missing) - set stale"
proof -
  obtain reads grants rs where h: "h = reads @ grants @ map2 (\<lambda>s r. EC2Call (RevokeSecurityGroupIngress groupID port s r)) stale rs"
    "readsCRs reads" "length rs = length stale"
    "if missing = [] \<or> revokeOnly then grants = [] else \<exists>r. grants = [EC2Call (AuthorizeSecurityGroupIngress groupID port missing r)]"
    using assms(1) unfolding ingressCalls_def by blast
  have rs: "list_all (\<lambda>r. \<not> isl r) rs" using assms(2) accepted_revokes [OF h(3)] by (simp add: h(1))
  have "fold (applyIngress groupID port) grants S = (if revokeOnly then S else S \<union> set missing)"
    using h(4) assms(2) by (auto simp: h(1) apply_accepted split: if_splits)
  then show ?thesis by (simp add: h(1) apply_reads [OF h(2)] apply_revokes [OF h(3) rs])
qed

lemma wp_reconcileIngress:
  assumes "\<And>h ns n. ha_GetCR (env_k8s v) h ns n = cluster ns n" "\<forall>c\<in>set sharedWith. readable cluster c"
    and "have' = grantedGroups (enginePort engine) perms"
    and "wanted = desiredGroups cluster \<lparr>cr_Namespace = ps_namespace p, cr_Name = ps_crName p, cr_ResourceName = resourceName\<rparr> sharedWith"
  shows "wp (reconcileIngress v p groupID perms engine resourceName sharedWith revokeOnly)
     (\<lambda>err w'. \<exists>missing h. distinct missing \<and> set missing = wanted - set have' \<and> trace w' = trace w @ h
        \<and> ingressCalls groupID (enginePort engine) revokeOnly missing (filter (\<lambda>g. g \<notin> wanted) (sort (remdups have'))) h
        \<and> (list_all acceptedIngress h \<longrightarrow> err = None)) w"
proof -
  let ?ref = "\<lparr>cr_Namespace = ps_namespace p, cr_Name = ps_crName p, cr_ResourceName = resourceName\<rparr>"
  let ?port = "enginePort engine"
  have col: "wp (collectConsumers v ?ref have' sharedWith ([], [])) (collected cluster ?ref have' wanted (trace w)) w"
    using wp_collectConsumers [OF assms(1,2), of "[]" "[]" have' ?ref w] by (simp add: assms(4))
  have grant: "wp (if missing \<noteq> [] \<and> \<not> revokeOnly then grantMissing v groupID ?port missing else ret None)
      (\<lambda>e w'. \<exists>grants. trace w' = trace w1 @ grants \<and> (list_all acceptedIngress grants \<longrightarrow> e = None)
         \<and> (if missing = [] \<or> revokeOnly then grants = [] else \<exists>r. grants = [EC2Call (AuthorizeSecurityGroupIngress groupID ?port missing r)])) w1"
    for missing w1
    by (auto simp: grantMissing_def ec2_AuthorizeSecurityGroupIngress_def wp_simps split: sum.splits)
  show ?thesis
    unfolding reconcileIngress_def Let_def assms(3) [symmetric] wp_bind
  proof (rule wp_conseq [OF col])
    fix r w1 assume "collected cluster ?ref have' wanted (trace w) r w1"
    then obtain h desired missing where r: "r = Inr (desired, missing)" "trace w1 = trace w @ h" "readsCRs h" "set desired = wanted"
      "distinct missing" "set missing = wanted - set have'" unfolding collected_def by blast
    show "wp (case r of Inl e \<Rightarrow> ret (Some e) | Inr (desired, missing) \<Rightarrow> do {
            grantErr \<leftarrow> (if missing \<noteq> [] \<and> \<not> revokeOnly then grantMissing v groupID ?port missing else ret None);
            revokeErr \<leftarrow> revokeStaleIngress v groupID ?port have' desired;
            ret (firstError grantErr revokeErr) })
       (\<lambda>err w'. \<exists>missing h. distinct missing \<and> set missing = wanted - set have' \<and> trace w' = trace w @ h
        \<and> ingressCalls groupID ?port revokeOnly missing (filter (\<lambda>g. g \<notin> wanted) (sort (remdups have'))) h
        \<and> (list_all acceptedIngress h \<longrightarrow> err = None)) w1"
      unfolding r(1) sum.case prod.case wp_bind revokeStaleIngress_def r(4) wp_ret
    proof (rule wp_conseq [OF grant], elim exE conjE, rule wp_conseq [OF wp_revokeEach], elim exE conjE)
      fix w2 w3 :: world and grants :: history and rs and e1 e2 :: "go_error option"
      let ?revokes = "map2 (\<lambda>s r. EC2Call (RevokeSecurityGroupIngress groupID ?port s r)) (filter (\<lambda>g. g \<notin> wanted) (sort (remdups have'))) rs"
      assume a: "trace w2 = trace w1 @ grants" "if missing = [] \<or> revokeOnly then grants = [] else \<exists>r. grants = [EC2Call (AuthorizeSecurityGroupIngress groupID ?port missing r)]"
        "length rs = length (filter (\<lambda>g. g \<notin> wanted) (sort (remdups have')))" "trace w3 = trace w2 @ ?revokes"
        and e: "list_all acceptedIngress grants \<longrightarrow> e1 = None" "list_all (\<lambda>r. \<not> isl r) rs \<longrightarrow> e2 = None"
      have "list_all acceptedIngress (h @ grants @ ?revokes) \<longrightarrow> firstError e1 e2 = None"
        using e accepted_revokes [OF a(3), of groupID ?port] by (simp add: firstError_def)
      moreover have "ingressCalls groupID ?port revokeOnly missing (filter (\<lambda>g. g \<notin> wanted) (sort (remdups have'))) (h @ grants @ ?revokes)"
        using r(3) a(2,3) unfolding ingressCalls_def by blast
      ultimately show "\<exists>missing h. distinct missing \<and> set missing = wanted - set have' \<and> trace w3 = trace w @ h
        \<and> ingressCalls groupID ?port revokeOnly missing (filter (\<lambda>g. g \<notin> wanted) (sort (remdups have'))) h
        \<and> (list_all acceptedIngress h \<longrightarrow> firstError e1 e2 = None)"
        using r(2,5,6) a(1,4) by (intro exI [of _ missing] exI [of _ "h @ grants @ ?revokes"]) simp
    qed
  qed
qed

lemma wp_collectConsumers_unreadable:
  assumes "\<And>h ns n. ha_GetCR (env_k8s v) h ns n = cluster ns n" "\<exists>c\<in>set cs. \<not> readable cluster c"
  shows "wp (collectConsumers v ref have' cs acc) (\<lambda>r w'. (\<exists>e. r = Inl e) \<and> (\<exists>h. trace w' = trace w @ h \<and> readsCRs h)) w"
  using assms(2)
proof (induction cs arbitrary: acc w)
  case (Cons c cs)
  let ?r = "cluster (sw_Namespace c) (sw_Name c)"
  let ?call = "K8sCall (GetCR (sw_Namespace c) (sw_Name c) ?r)"
  let ?w = "w\<lparr>trace := trace w @ [?call]\<rparr>"
  let ?Q = "\<lambda>r w'. (\<exists>e. r = Inl e) \<and> (\<exists>h. trace w' = trace w @ h \<and> readsCRs h)"
  have IH: "wp (collectConsumers v ref have' cs acc1) ?Q ?w" if "readable cluster c" for acc1
    using Cons.IH [of acc1 ?w] Cons.prems that
    by (auto elim!: wp_conseq intro: exI [of _ "?call # h" for h] simp: readsCRs_def)
  have k: "wp (consumerPodSecurityGroupARN v (sw_Namespace c) (sw_Name c) ref) (\<lambda>r w'. w' = ?w \<and> (readable cluster c \<longleftrightarrow> (\<exists>x. r = Inr x))) w"
    by (auto simp: consumerPodSecurityGroupARN_def k8s_GetCR_def wp_simps assms(1) readable_def split: sum.split)
  show ?case
    unfolding collectConsumers.simps wp_bind
    by (rule wp_conseq [OF k]) (auto simp: wp_simps Let_def intro!: IH split: sum.split option.split prod.split)
qed simp

lemma wp_reconcileIngress_unreadable:
  assumes "\<And>h ns n. ha_GetCR (env_k8s v) h ns n = cluster ns n" "\<exists>c\<in>set sharedWith. \<not> readable cluster c"
  shows "wp (reconcileIngress v p groupID perms engine resourceName sharedWith revokeOnly)
     (\<lambda>err w'. err \<noteq> None \<and> (\<exists>h. trace w' = trace w @ h \<and> readsCRs h)) w"
  unfolding reconcileIngress_def Let_def wp_bind
  by (rule wp_conseq [OF wp_collectConsumers_unreadable [OF assms]]) (auto simp: wp_simps)

text \<open>C21: Who may connect to a database follows what both sides declare. A group is wanted when its custom resource is in \<^verbatim>\<open>sharedWith\<close>, exists,
  is not being deleted, lists the instance in its \<^verbatim>\<open>rds.consumes\<close> and has published the group. When every custom resource the
  instance is shared with can be read (or is known not to exist), the rules of the instance's security group on the engine's port are
  changed by one call that grants exactly the wanted groups without a rule, unless access is only being narrowed, and by one revocation for
  each group that has a rule there and is not wanted; no other rule is named. If EC2 accepts these calls, no error is returned and
  the groups with a rule on the port are afterwards exactly the wanted ones, or, when narrowing, the wanted ones that had a rule. When a
  custom resource cannot be read, an error is returned and no rule is added or removed.\<close>

theorem ingress_follows_sharing:
  assumes "\<And>h ns n. ha_GetCR (env_k8s v) h ns n = cluster ns n"
    and "have' = grantedGroups (enginePort engine) perms"
    and "wanted = desiredGroups cluster \<lparr>cr_Namespace = ps_namespace p, cr_Name = ps_crName p, cr_ResourceName = resourceName\<rparr> sharedWith"
    and "run_state (reconcileIngress v p groupID perms engine resourceName sharedWith revokeOnly) w = (err, w')"
  shows "if \<forall>c\<in>set sharedWith. readable cluster c
    then \<exists>missing h. distinct missing \<and> set missing = wanted - set have' \<and> trace w' = trace w @ h
      \<and> ingressCalls groupID (enginePort engine) revokeOnly missing (filter (\<lambda>g. g \<notin> wanted) (sort (remdups have'))) h
      \<and> (list_all acceptedIngress h \<longrightarrow> err = None
           \<and> fold (applyIngress groupID (enginePort engine)) h (set have') = (if revokeOnly then set have' \<inter> wanted else wanted))
    else err \<noteq> None \<and> (\<exists>h. trace w' = trace w @ h \<and> readsCRs h)"
proof (cases "\<forall>c\<in>set sharedWith. readable cluster c")
  case True
  from wp_run [OF assms(4) wp_reconcileIngress [OF assms(1) True assms(2,3)]]
  obtain missing h where h: "distinct missing" "set missing = wanted - set have'" "trace w' = trace w @ h"
    "ingressCalls groupID (enginePort engine) revokeOnly missing (filter (\<lambda>g. g \<notin> wanted) (sort (remdups have'))) h"
    "list_all acceptedIngress h \<longrightarrow> err = None" by blast
  have "fold (applyIngress groupID (enginePort engine)) h (set have') = (if revokeOnly then set have' \<inter> wanted else wanted)"
    if "list_all acceptedIngress h"
    using ingress_effect [OF h(4) that, of "set have'"] h(2) by auto
  with h True show ?thesis by (simp, blast)
next
  case False
  then have bad: "\<exists>c\<in>set sharedWith. \<not> readable cluster c" by blast
  show ?thesis
    unfolding if_not_P [OF False] using wp_run [OF assms(4) wp_reconcileIngress_unreadable [OF assms(1) bad]] .
qed

definition demoReports :: AppDependencies where
  "demoReports = emptyCR\<lparr>md_Name := ''reports'', ad_Spec := (ad_Spec emptyCR)\<lparr>sp_RDS := Some \<lparr>rds_Resources = [],
       rds_Consumes = [\<lparr>cr_Namespace = ''team'', cr_Name = ''orders'', cr_ResourceName = ''db''\<rparr>]\<rparr>\<rparr>,
     ad_Status := (ad_Status emptyCR)\<lparr>st_ManagedResources := [zeroManagedResource\<lparr>mr_Type := typeSecurityGroup,
       mr_Name := podNetworkIdentityLedgerName, mr_ARN := ''arn:aws:ec2:eu:1:security-group/sg-reports''\<rparr>]\<rparr>\<rparr>"

definition demoCluster :: env where
  "demoCluster = refusingEnv\<lparr>env_k8s := (env_k8s refusingEnv)\<lparr>ha_GetCR := \<lambda>h ns n. Inr demoReports\<rparr>\<rparr>"

theorem ingress_follows_sharing_witness:
  "\<exists>h. trace (snd (run_state (reconcileIngress demoCluster demoPass ''sg-db'' [\<lparr>ip_FromPort = 5432, ip_ToPort = 5432, ip_UserIdGroupPairs = [Some ''sg-old'']\<rparr>]
        ''postgres'' ''db'' [\<lparr>sw_Namespace = ''team'', sw_Name = ''reports'', sw_Access = AccessLevelReadWrite\<rparr>] False) start)) = h
      \<and> ingressCalls ''sg-db'' 5432 False [''sg-reports''] [''sg-old''] h"
proof -
  let ?ref = "\<lparr>cr_Namespace = ''team'', cr_Name = ''orders'', cr_ResourceName = ''db''\<rparr>"
  let ?cl = "\<lambda>ns n. Inr demoReports"
  let ?sw = "[\<lparr>sw_Namespace = ''team'', sw_Name = ''reports'', sw_Access = AccessLevelReadWrite\<rparr>]"
  have w: "desiredGroups ?cl ?ref ?sw = {''sg-reports''}"
    by (simp add: desiredGroups_def consumerGroup_def demoReports_def asksFor_def emptyCR_def PodNetworkIdentityARN_def
        zeroManagedResource_def SecurityGroupIDFromARN_def afterLast_def)
  have d: "missing = [''sg-reports'']" if "distinct missing" "set missing = {''sg-reports''}" for missing
    using that by (cases missing) (auto simp: subset_singleton_iff)
  show ?thesis
    using ingress_follows_sharing [OF _ _ _ surjective_pairing, where v = demoCluster and cluster = ?cl and have' = "[''sg-old'']" and engine = "''postgres''"
        and perms = "[\<lparr>ip_FromPort = 5432, ip_ToPort = 5432, ip_UserIdGroupPairs = [Some ''sg-old'']\<rparr>]"
        and wanted = "{''sg-reports''}" and p = demoPass and resourceName = "''db''" and sharedWith = ?sw and groupID = "''sg-db''" and revokeOnly = False and w = start]
    by (auto simp: demoCluster_def grantedGroups_def enginePort_def map_filter_def readable_def w demoPass_def start_def dest!: d)
qed

section \<open>A withdrawn grant\<close>

definition narrows :: "call \<Rightarrow> bool" where
  "narrows c \<longleftrightarrow> (\<exists>ns n r. c = K8sCall (GetCR ns n r)) \<or> (\<exists>g r. c = EC2Call (DescribeSecurityGroup g r))
     \<or> (\<exists>g port s r. c = EC2Call (RevokeSecurityGroupIngress g port s r))"

lemma narrows_calls:
  "narrows (K8sCall (GetCR ns n r1))" "narrows (EC2Call (DescribeSecurityGroup g r2))" "narrows (EC2Call (RevokeSecurityGroupIngress g port s r3))"
  by (auto simp: narrows_def)

lemma emits_collectConsumers: "(\<And>ns n r. C (K8sCall (GetCR ns n r))) \<Longrightarrow> emits C (collectConsumers v ref have' cs acc)"
proof (induction cs arbitrary: acc)
  case (Cons c cs)
  then show ?case
    unfolding collectConsumers.simps consumerPodSecurityGroupARN_def k8s_GetCR_def Let_def
    by (intro emits_intros emits_invoke Cons.IH) auto
qed (simp add: emits_ret)

lemma emits_revokeEach: "(\<And>s r. C (EC2Call (RevokeSecurityGroupIngress g port s r))) \<Longrightarrow> emits C (revokeEach v g port gs err)"
proof (induction gs arbitrary: err)
  case (Cons s gs)
  then show ?case unfolding revokeEach.simps ec2_RevokeSecurityGroupIngress_def by (intro emits_intros emits_invoke Cons.IH) auto
qed (simp add: emits_ret)

lemma narrows_reconcileIngress: "emits narrows (reconcileIngress v p g perms engine n sw True)"
  unfolding reconcileIngress_def revokeStaleIngress_def Let_def
  by (intro emits_intros emits_collectConsumers emits_revokeEach narrows_calls) simp

lemma narrows_holdUnauthorized: "emits narrows (holdUnauthorized v p r l)"
  unfolding holdUnauthorized_def narrowInstanceIngress_def describeOwnedGroup_def ec2_DescribeSecurityGroup_def
  by (intro emits_intros emits_invoke narrows_reconcileIngress narrows_calls)

lemma returns_holdUnauthorized: "returns (\<lambda>e. isRetryable e \<and> wakes e) (holdUnauthorized v p r l)"
  if "\<And>e. wakes e \<longleftrightarrow> (case asReconcileError e of None \<Rightarrow> False | Some re \<Rightarrow> re_WakesOnChange re)"
  unfolding holdUnauthorized_def notAuthorizedError_def
  by (intro returns_intros) (auto simp: that isRetryable_def split: option.split)

text \<open>Without a grant for its subnet group nothing is done for an instance but taking access away. When the grants that are listed do not
  hand the group to the namespace, every call after the listing reads a custom resource, describes a security group or revokes an ingress rule;
  the ledger is returned as it was; and the error, even joined with a failure of the narrowing, is one that is retried and wakes up when a
  grant appears.\<close>

theorem withdrawn_grant_only_narrows:
  assumes "ha_ListSubnetGroupGrants (env_k8s v) (trace w) = Inr gs" "\<not> isAuthorizedByGrants gs (ps_namespace p) (i_DBSubnetGroupName r)"
    and "i_Replication r = None"
  shows "wp (ensureResource v p region accountID r None l) (\<lambda>(memo, l', err) w'. l' = l
      \<and> (\<exists>e. err = Some e \<and> isRetryable e \<and> (\<exists>re. asReconcileError e = Some re \<and> re_WakesOnChange re))
      \<and> (\<exists>h. trace w' = trace w @ K8sCall (ListSubnetGroupGrants (Inr gs)) # h \<and> list_all narrows h)) w"
proof -
  define wakes where "wakes e \<longleftrightarrow> (case asReconcileError e of None \<Rightarrow> False | Some re \<Rightarrow> re_WakesOnChange re)" for e
  let ?w = "w\<lparr>trace := trace w @ [K8sCall (ListSubnetGroupGrants (Inr gs))]\<rparr>"
  have "wp (holdUnauthorized v p r l) (\<lambda>e w'. (isRetryable e \<and> wakes e) \<and> (\<exists>h. trace w' = trace ?w @ h \<and> (\<forall>c\<in>set h. narrows c))) ?w"
    by (rule wp_conj [OF wp_returns [OF returns_holdUnauthorized [OF wakes_def]] wp_emits [OF narrows_holdUnauthorized]])
  then show ?thesis
    unfolding ensureResource_def listSubnetGroupGrants_def k8s_ListSubnetGroupGrants_def using assms
    by (auto simp: wp_simps wakes_def list_all_iff elim!: wp_conseq split: option.splits)
qed

theorem withdrawn_grant_only_narrows_witness:
  "wp (ensureResource (refusingEnv\<lparr>env_k8s := (env_k8s refusingEnv)\<lparr>ha_ListSubnetGroupGrants := \<lambda>h. Inr []\<rparr>\<rparr>) demoPass ''eu'' ''1'' demoDBSpec None [])
     (\<lambda>(memo, l', err) w'. l' = [] \<and> err \<noteq> None) start"
  using withdrawn_grant_only_narrows [of "refusingEnv\<lparr>env_k8s := (env_k8s refusingEnv)\<lparr>ha_ListSubnetGroupGrants := \<lambda>h. Inr []\<rparr>\<rparr>" start "[]" demoPass demoDBSpec "''eu''" "''1''" "[]"]
  by (auto simp: isAuthorizedByGrants_def demoDBSpec_def elim!: wp_conseq)

end
