(* ===== verification/Rds_Creation.thy ===== *)
theory Rds_Creation
  imports Rds_Safety
begin

text \<open>
  When a database is created. The description of an instance may come from the cache of the pass, so the statement needs the
  invariant of that cache: what it holds was answered by AWS earlier in the trace.
\<close>

section \<open>The cache of descriptions\<close>

definition backed :: "world \<Rightarrow> bool" where
  "backed w \<longleftrightarrow> (\<forall>k xs. describeCache w k = Some xs \<longrightarrow> RDSCall (DescribeDBInstances k (Inr xs)) \<in> set (trace w))"

definition keepsCache :: "'a op \<Rightarrow> bool" where
  "keepsCache m \<longleftrightarrow> (\<forall>w. describeCache (snd (run_state m w)) = describeCache w)"

named_theorems keepsCache_intros \<open>structural rules for keepsCache\<close>

lemma keepsCache_ret [keepsCache_intros]: "keepsCache (ret x)"
  by (simp add: keepsCache_def)

lemma keepsCache_bind [keepsCache_intros]: "keepsCache m \<Longrightarrow> (\<And>a. keepsCache (f a)) \<Longrightarrow> keepsCache (State_Monad.bind m f)"
  by (simp add: keepsCache_def split_beta)

lemma keepsCache_basic [keepsCache_intros]:
  "keepsCache (invoke f mk)" "keepsCache (recordEvent p t r a)" "keepsCache getCR" "keepsCache (setCR cr)"
  by (simp_all add: keepsCache_def invoke_def recordEvent_def getCR_def setCR_def)

lemma keepsCache_if [keepsCache_intros]: "(b \<Longrightarrow> keepsCache m) \<Longrightarrow> (\<not> b \<Longrightarrow> keepsCache n) \<Longrightarrow> keepsCache (if b then m else n)"
  by simp

lemma keepsCache_option [keepsCache_intros]:
  "keepsCache m \<Longrightarrow> (\<And>a. keepsCache (f a)) \<Longrightarrow> keepsCache (case x of None \<Rightarrow> m | Some a \<Rightarrow> f a)"
  by (cases x) simp_all

lemma keepsCache_sum [keepsCache_intros]:
  "(\<And>e. keepsCache (f e)) \<Longrightarrow> (\<And>a. keepsCache (g a)) \<Longrightarrow> keepsCache (case x of Inl e \<Rightarrow> f e | Inr a \<Rightarrow> g a)"
  by (cases x) simp_all

lemma keepsCache_prod [keepsCache_intros]: "(\<And>a b. keepsCache (f a b)) \<Longrightarrow> keepsCache (case x of (a, b) \<Rightarrow> f a b)"
  by (cases x) simp

lemma keepsCache_list [keepsCache_intros]:
  "keepsCache m \<Longrightarrow> (\<And>a as. keepsCache (f a as)) \<Longrightarrow> keepsCache (case x of [] \<Rightarrow> m | a # as \<Rightarrow> f a as)"
  by (cases x) simp_all

lemma keepsCache_bool [keepsCache_intros]: "keepsCache m \<Longrightarrow> keepsCache n \<Longrightarrow> keepsCache (case b of True \<Rightarrow> m | False \<Rightarrow> n)"
  by (cases b) simp_all

lemma keepsCache_checkpoint [keepsCache_intros]: "keepsCache (checkpoint v p l)" "keepsCache (patchStatus v b)"
  unfolding checkpoint_def patchStatus_def by (intro keepsCache_intros)+

subsection \<open>Computations that do not describe instances\<close>

lemma keepsCache_listTagPages [keepsCache_intros]: "keepsCache (listTagPages v k n m tgs)"
proof (induction n arbitrary: m tgs)
  case (Suc n)
  show ?case unfolding listTagPages.simps Let_def op_defs by (intro keepsCache_intros Suc.IH)
qed (simp add: keepsCache_ret)

lemma keepsCache_key_steps [keepsCache_intros]:
  "keepsCache (ensureKeyPolicy v k)" "keepsCache (keyStateError p k st)" "keepsCache (keyMissingError p e)" "keepsCache (reviveKey v k)"
  "keepsCache (ensureRotation v k)" "keepsCache (ensureAlias v a b c)"
  unfolding ensureKeyPolicy_def SyncServiceGrants_def keyStateError_def keyMissingError_def reviveKey_def ensureRotation_def ensureAlias_def
    op_defs Let_def
  by (intro keepsCache_intros)+

lemma keepsCache_createKey [keepsCache_intros]: "keepsCache (createKey v p al n opts l)"
  unfolding createKey_def Let_def op_defs by (intro keepsCache_intros)

lemma keepsCache_resumeKey [keepsCache_intros]: "keepsCache (resumeKey v p al opts entry l)"
  unfolding resumeKey_def verifyOrTakeOverKey_def cancelScheduledDeletion_def reassertKeySettings_def listAllResourceTags_def ReleaseTagFailed_def
    op_defs Let_def
  by (intro keepsCache_intros)

lemma keepsCache_adoptKey [keepsCache_intros]: "keepsCache (adoptKey v p al n opts meta l)"
  unfolding adoptKey_def settleAdoptedKey_def listAllResourceTags_def ReleaseTagFailed_def op_defs Let_def by (intro keepsCache_intros)

lemma keepsCache_resolveEncryptionKey: "keepsCache (resolveEncryptionKey v p kind ty n dp enc l)"
  unfolding resolveEncryptionKey_def EnsureDedicatedKey_def ensureKey_def op_defs Let_def by (intro keepsCache_intros)

lemma keepsCache_collectConsumers [keepsCache_intros]: "keepsCache (collectConsumers v ref have' cs acc)"
proof (induction cs arbitrary: acc)
  case (Cons c cs)
  show ?case unfolding collectConsumers.simps consumerPodSecurityGroupARN_def op_defs Let_def by (intro keepsCache_intros Cons.IH)
qed (simp add: keepsCache_ret)

lemma keepsCache_revokeEach [keepsCache_intros]: "keepsCache (revokeEach v g port gs err)"
proof (induction gs arbitrary: err)
  case (Cons s gs)
  show ?case unfolding revokeEach.simps op_defs by (intro keepsCache_intros Cons.IH)
qed (simp add: keepsCache_ret)

lemma keepsCache_reconcileIngress [keepsCache_intros]: "keepsCache (reconcileIngress v p g perms engine n sw b)"
  unfolding reconcileIngress_def revokeStaleIngress_def grantMissing_def op_defs Let_def by (intro keepsCache_intros)

lemma keepsCache_group: "keepsCache (ensureInstanceSecurityGroup v p region account r arn)" "keepsCache (holdUnauthorized v p r l)"
  unfolding ensureInstanceSecurityGroup_def instanceGroup_def describeOwnedGroup_def resolveVPCID_def findOrCreateSecurityGroup_def
    takeOverGroup_def createGroup_def holdUnauthorized_def narrowInstanceIngress_def op_defs Let_def
  by (intro keepsCache_intros)+

lemma keepsCache_attributes [keepsCache_intros]: "keepsCache (reconcileInstanceAttributes v p k arn inst opts)"
  unfolding reconcileInstanceAttributes_def reconcileBackupRetention_def reconcileStorage_def reportStorageLargerThanSpec_def
    reconcileEngineVersion_def engineVersionUpgrade_def reconcileDeletionProtection_def sendModify_def op_defs Let_def
  by (intro keepsCache_intros)

lemma keepsCache_instance:
  "keepsCache (ensureInstanceOwnership v p k arn adopt)" "keepsCache (ensureVerifiedInstance v p k inst n opts ex b l)"
  "keepsCache (encryptionConflict v inst r l)" "keepsCache (createInstance v p k n opts l)" "keepsCache (instanceMissingError p e k)"
  unfolding ensureInstanceOwnership_def ensureVerifiedInstance_def warnIfPublic_def encryptionConflict_def CheckAdoptedKey_def createInstance_def
    instanceMissingError_def ReleaseTagFailed_def op_defs Let_def
  by (intro keepsCache_intros)+

section \<open>Creating a database\<close>

definition creates :: "call \<Rightarrow> bool" where
  "creates c \<longleftrightarrow> (\<exists>i r. c = RDSCall (CreateDBInstance i r))"

text \<open>
  \<open>createsWhen K P m\<close>: started with a backed cache and a trace that satisfies \<open>K\<close>, every creation \<open>m\<close> asks for is made when
  the trace so far and its input satisfy \<open>P\<close>.
\<close>

definition createsWhen :: "(history \<Rightarrow> bool) \<Rightarrow> (history \<Rightarrow> CreateDBInstanceInput \<Rightarrow> bool) \<Rightarrow> 'a op \<Rightarrow> bool" where
  "createsWhen K P m \<longleftrightarrow> (\<forall>w. backed w \<and> K (trace w) \<longrightarrow> wp m (\<lambda>_ w'. backed w' \<and> (\<exists>new. trace w' = trace w @ new
     \<and> (\<forall>pre i r post. new = pre @ RDSCall (CreateDBInstance i r) # post \<longrightarrow> P (trace w @ pre) i))) w)"

definition grow :: "(history \<Rightarrow> bool) \<Rightarrow> bool" where
  "grow K \<longleftrightarrow> (\<forall>h x. K h \<longrightarrow> K (h @ x))"

definition quietly :: "(history \<Rightarrow> bool) \<Rightarrow> 'a op \<Rightarrow> ('a \<Rightarrow> history \<Rightarrow> bool) \<Rightarrow> bool" where
  "quietly K m J \<longleftrightarrow> (\<forall>w. backed w \<and> K (trace w) \<longrightarrow> wp m (\<lambda>a w'. backed w' \<and> (\<exists>new. trace w' = trace w @ new \<and> (\<forall>c\<in>set new. \<not> creates c))
     \<and> J a (trace w')) w)"

lemma backed_append: "backed w \<Longrightarrow> describeCache w' = describeCache w \<Longrightarrow> trace w' = trace w @ x \<Longrightarrow> backed w'"
  by (auto simp: backed_def)

lemma quietly_intro:
  assumes "emits (\<lambda>c. \<not> creates c) m" "keepsCache m" "returns Q m"
  shows "quietly K m (\<lambda>a h. Q a)"
  unfolding quietly_def
proof (intro allI impI, elim conjE)
  fix w :: world assume "backed w"
  obtain a w1 where m: "run_state m w = (a, w1)" by fastforce
  obtain new where new: "trace w1 = trace w @ new" "\<forall>c\<in>set new. \<not> creates c" using emitsD [OF assms(1) m] by blast
  have "describeCache w1 = describeCache w" using assms(2) m unfolding keepsCache_def by (metis snd_conv)
  then have "backed w1" by (rule backed_append [OF \<open>backed w\<close> _ new(1)])
  moreover have "Q a" by (rule returnsD [OF assms(3) m])
  ultimately show "wp m (\<lambda>a w'. backed w' \<and> (\<exists>new. trace w' = trace w @ new \<and> (\<forall>c\<in>set new. \<not> creates c)) \<and> Q a) w"
    using new m by (auto simp: wp_def)
qed

definition learns :: "(history \<Rightarrow> bool) \<Rightarrow> 'a op \<Rightarrow> ('a \<Rightarrow> history \<Rightarrow> bool) \<Rightarrow> bool" where
  "learns K m J \<longleftrightarrow> (\<forall>w. backed w \<and> K (trace w) \<longrightarrow> wp m (\<lambda>a w'. J a (trace w')) w)"

lemma createsWhen_bind:
  assumes "createsWhen K P m" "learns K m J" "grow K" "\<And>a. createsWhen (\<lambda>h. K h \<and> J a h) P (f a)"
  shows "createsWhen K P (State_Monad.bind m f)"
  unfolding createsWhen_def
proof (intro allI impI, elim conjE)
  fix w :: world assume w: "backed w" "K (trace w)"
  obtain a w1 where m: "run_state m w = (a, w1)" by fastforce
  obtain b w2 where f: "run_state (f a) w1 = (b, w2)" by fastforce
  obtain new where n1: "backed w1" "trace w1 = trace w @ new"
    "\<And>pre i r post. new = pre @ RDSCall (CreateDBInstance i r) # post \<Longrightarrow> P (trace w @ pre) i"
    using assms(1) w m by (auto simp: createsWhen_def wp_def)
  have "J a (trace w1)" using assms(2) w m by (auto simp: learns_def wp_def)
  moreover have "K (trace w1)" using assms(3) w(2) n1(2) by (simp add: grow_def)
  ultimately obtain new2 where n2: "backed w2" "trace w2 = trace w1 @ new2"
    "\<And>pre i r post. new2 = pre @ RDSCall (CreateDBInstance i r) # post \<Longrightarrow> P (trace w1 @ pre) i"
    using assms(4) [of a] n1(1) f by (auto simp: createsWhen_def wp_def)
  have "P (trace w @ pre) i" if h: "new @ new2 = pre @ RDSCall (CreateDBInstance i r) # post" for pre i r post
    using h unfolding append_eq_append_conv2
  proof (elim exE disjE conjE)
    fix us assume us: "new = pre @ us" "us @ new2 = RDSCall (CreateDBInstance i r) # post"
    show ?thesis
    proof (cases us)
      case Nil
      then show ?thesis using us n1(2) n2(3) [of "[]" i r post] by simp
    next
      case (Cons c cs)
      then show ?thesis using us by (intro n1(3) [of pre i r cs]) simp
    qed
  next
    fix us assume "new @ us = pre" "new2 = us @ RDSCall (CreateDBInstance i r) # post"
    then show ?thesis using n1(2) n2(3) [of us i r post] by auto
  qed
  then have "backed w2 \<and> (\<exists>new. trace w2 = trace w @ new
      \<and> (\<forall>pre i r post. new = pre @ RDSCall (CreateDBInstance i r) # post \<longrightarrow> P (trace w @ pre) i))"
    using n1(2) n2(1,2) by (intro conjI exI [of _ "new @ new2"]) auto
  then show "wp (State_Monad.bind m f) (\<lambda>_ w'. backed w' \<and> (\<exists>new. trace w' = trace w @ new
      \<and> (\<forall>pre i r post. new = pre @ RDSCall (CreateDBInstance i r) # post \<longrightarrow> P (trace w @ pre) i))) w"
    using m f by (simp add: wp_def)
qed

lemma createsWhen_quiet: "quietly K m J \<Longrightarrow> createsWhen K P m"
  unfolding quietly_def createsWhen_def
proof (intro allI impI, erule allE, erule impE, assumption, erule wp_conseq, elim conjE exE)
  fix w w' :: world and new assume "backed w'" "trace w' = trace w @ new" "\<forall>c\<in>set new. \<not> creates c"
  then show "backed w' \<and> (\<exists>new. trace w' = trace w @ new
      \<and> (\<forall>pre i r post. new = pre @ RDSCall (CreateDBInstance i r) # post \<longrightarrow> P (trace w @ pre) i))"
    by (auto simp: creates_def intro!: exI [of _ new])
qed

lemma learns_quietly: "quietly K m J \<Longrightarrow> learns K m J"
  unfolding quietly_def learns_def by (elim all_forward imp_forward wp_conseq) blast+

lemma createsWhen_seq:
  "quietly K m J \<Longrightarrow> grow K \<Longrightarrow> (\<And>a. createsWhen (\<lambda>h. K h \<and> J a h) P (f a)) \<Longrightarrow> createsWhen K P (State_Monad.bind m f)"
  by (rule createsWhen_bind [OF createsWhen_quiet learns_quietly])

lemma createsWhen_silent: "emits (\<lambda>c. \<not> creates c) m \<Longrightarrow> keepsCache m \<Longrightarrow> createsWhen K P m"
  by (rule createsWhen_quiet [OF quietly_intro [where Q = "\<lambda>_. True"]]) (simp_all add: returns_def)

lemma createsWhen_ret: "createsWhen K P (ret x)"
  by (rule createsWhen_silent [OF emits_ret keepsCache_ret])

lemma createsWhen_mono: "createsWhen K P m \<Longrightarrow> (\<And>h. K' h \<Longrightarrow> K h) \<Longrightarrow> createsWhen K' P m"
  by (simp add: createsWhen_def)

lemma createsWhen_weaken: "createsWhen K P m \<Longrightarrow> (\<And>h i. P h i \<Longrightarrow> Q h i) \<Longrightarrow> createsWhen K Q m"
  unfolding createsWhen_def by (elim all_forward imp_forward wp_conseq) blast+

lemma createsWhen_sum:
  "(\<And>e. createsWhen K P (f e)) \<Longrightarrow> (\<And>a. createsWhen K P (g a)) \<Longrightarrow> createsWhen K P (case x of Inl e \<Rightarrow> f e | Inr a \<Rightarrow> g a)"
  by (cases x) simp_all

lemma createsWhen_option:
  "createsWhen K P m \<Longrightarrow> (\<And>a. createsWhen K P (f a)) \<Longrightarrow> createsWhen K P (case x of None \<Rightarrow> m | Some a \<Rightarrow> f a)"
  by (cases x) simp_all

lemma createsWhen_if: "createsWhen K P m \<Longrightarrow> createsWhen K P n \<Longrightarrow> createsWhen K P (if b then m else n)"
  by simp

subsection \<open>Looking up\<close>

definition absentSeen :: "string \<Rightarrow> history \<Rightarrow> bool" where
  "absentSeen k h \<longleftrightarrow> (\<exists>r. RDSCall (DescribeDBInstances k r) \<in> set h
     \<and> (r = Inr [] \<or> (\<exists>e. r = Inl e \<and> isException ''DBInstanceNotFoundFault'' e)))"

lemma grow_conj: "grow K \<Longrightarrow> grow J \<Longrightarrow> grow (\<lambda>h. K h \<and> J h)" and grow_True: "grow (\<lambda>h. True)" and grow_const: "grow (\<lambda>h. b)"
  by (simp_all add: grow_def)

lemma grow_member: "grow (\<lambda>h. c \<in> set h)"
  by (simp add: grow_def)

lemma grow_imp: "grow K \<Longrightarrow> grow (\<lambda>h. b \<longrightarrow> K h)"
  by (simp add: grow_def)

lemma grow_absentSeen: "grow (absentSeen k)"
  by (auto simp: grow_def absentSeen_def)

lemma quietly_describe:
  "quietly K (describeDBInstanceCached v k) (\<lambda>r h. RDSCall (DescribeDBInstances k r) \<in> set h)"
  unfolding quietly_def describeDBInstanceCached_def rds_DescribeDBInstances_def
  by (auto simp: wp_simps backed_def creates_def split: option.split sum.split)

lemma quietly_lookup: "quietly K (lookupInstance v k) (\<lambda>x h. x = Inr None \<longrightarrow> absentSeen k h)"
  unfolding quietly_def lookupInstance_def wp_bind
proof (intro allI impI)
  fix w :: world assume "backed w \<and> K (trace w)"
  then have "wp (describeDBInstanceCached v k) (\<lambda>r w'. backed w' \<and> (\<exists>new. trace w' = trace w @ new \<and> (\<forall>c\<in>set new. \<not> creates c))
      \<and> RDSCall (DescribeDBInstances k r) \<in> set (trace w')) w"
    using quietly_describe unfolding quietly_def by blast
  then show "wp (describeDBInstanceCached v k) (\<lambda>r. wp (case r of
       Inl e \<Rightarrow> if isException ''DBInstanceNotFoundFault'' e then ret (Inr None)
         else ret (Inl (wrapAWSError_rds (ExtError e) ''looking up instance''))
     | Inr instances \<Rightarrow> ret (Inr (case instances of [] \<Rightarrow> None | inst # _ \<Rightarrow> Some inst)))
     (\<lambda>x w'. backed w' \<and> (\<exists>new. trace w' = trace w @ new \<and> (\<forall>c\<in>set new. \<not> creates c)) \<and> (x = Inr None \<longrightarrow> absentSeen k (trace w')))) w"
    by (rule wp_conseq) (auto simp: wp_simps absentSeen_def split: sum.split list.split)
qed

subsection \<open>Who creates nothing\<close>

lemma creates_simps [simp]:
  "\<not> creates (KMSCall k)" "\<not> creates (K8sCall c)" "\<not> creates (EC2Call e)" "\<not> creates (RDSCall (ModifyDBInstance m r))"
  "\<not> creates (RDSCall (ListInstanceTags a r2))" "\<not> creates (RDSCall (AddTagsToResource a t r3))" "\<not> creates (RDSCall (RemoveTagsFromResource a ks r3))"
  "\<not> creates (RDSCall (DescribeDBSubnetGroups n r4))" "\<not> creates (RDSCall (DescribeDBEngineVersions en n r5))"
  by (simp_all add: creates_def)

lemma silent_reconcileIngress: "emits (\<lambda>c. \<not> creates c) (reconcileIngress v p g perms engine n sw b)"
  unfolding reconcileIngress_def revokeStaleIngress_def grantMissing_def op_defs Let_def
  by (intro emits_intros emits_invoke emits_collectConsumers emits_revokeEach creates_simps)

lemma silent_group: "emits (\<lambda>c. \<not> creates c) (ensureInstanceSecurityGroup v p region account r arn)"
  unfolding ensureInstanceSecurityGroup_def instanceGroup_def describeOwnedGroup_def resolveVPCID_def findOrCreateSecurityGroup_def
    takeOverGroup_def createGroup_def op_defs Let_def
  by (intro emits_intros emits_invoke silent_reconcileIngress creates_simps)

lemma silent_resolve: "emits (\<lambda>c. \<not> creates c) (resolveEncryptionKey v p kind ty n dp enc l)"
  by (rule emits_mono [OF keyCall_resolveEncryptionKey]) (auto elim: keyCall.elims)

lemma silent_attributes: "emits (\<lambda>c. \<not> creates c) (reconcileInstanceAttributes v p k arn inst opts)"
  unfolding reconcileInstanceAttributes_def reconcileBackupRetention_def reconcileStorage_def reportStorageLargerThanSpec_def
    reconcileEngineVersion_def engineVersionUpgrade_def reconcileDeletionProtection_def sendModify_def op_defs Let_def
  by (intro emits_intros emits_invoke creates_simps)

lemma silent_instance:
  "emits (\<lambda>c. \<not> creates c) (ensureInstanceOwnership v p k arn adopt)" "emits (\<lambda>c. \<not> creates c) (ensureVerifiedInstance v p k inst n opts ex b l)"
  "emits (\<lambda>c. \<not> creates c) (encryptionConflict v inst r l)" "emits (\<lambda>c. \<not> creates c) (instanceMissingError p e k)"
  unfolding ensureInstanceOwnership_def ensureVerifiedInstance_def warnIfPublic_def encryptionConflict_def CheckAdoptedKey_def
    instanceMissingError_def op_defs Let_def
  by (intro emits_intros emits_invoke silent_attributes creates_simps)+

lemma silent_hold: "emits (\<lambda>c. \<not> creates c) (holdUnauthorized v p r l)"
  by (rule emits_mono [OF narrows_holdUnauthorized]) (auto simp: narrows_def)

subsection \<open>One instance\<close>

definition newInstance :: "pass \<Rightarrow> string \<Rightarrow> instanceOptions \<Rightarrow> history \<Rightarrow> CreateDBInstanceInput \<Rightarrow> bool" where
  "newInstance p name opts h i \<longleftrightarrow> i = instanceInput p (instanceIDOf p name) opts \<and> absentSeen (instanceIDOf p name) h"

lemma quietly_any: "emits (\<lambda>c. \<not> creates c) m \<Longrightarrow> keepsCache m \<Longrightarrow> quietly K m (\<lambda>a h. True)"
  by (rule quietly_intro) (simp_all add: returns_def)

lemma createsWhen_createInstance:
  assumes "\<And>h. K h \<Longrightarrow> P h (instanceInput p k opts)"
  shows "createsWhen K P (createInstance v p k n opts l)"
  unfolding createsWhen_def createInstance_def rds_CreateDBInstance_def
  using assms by (auto simp: wp_simps Cons_eq_append_conv split: sum.split intro: backed_append)

lemma createsWhen_missing:
  assumes "\<And>h. K h \<Longrightarrow> P h (instanceInput p k opts)" "trackedInstance l n = None"
  shows "createsWhen K P (ensureMissingInstance v p k n opts l)"
  unfolding ensureMissingInstance_def assms(2) option.case
proof -
  have "createsWhen K P (createInstance v p k n opts l)" by (rule createsWhen_createInstance) (rule assms(1))
  then show "createsWhen K P (do { (created, err) \<leftarrow> createInstance v p k n opts l;
      ret (created, err, if err = None then ''creating'' else []) })"
    unfolding createsWhen_def wp_bind by (auto simp: wp_simps split_beta elim!: wp_conseq)
qed

lemma createsWhen_ensureInstance:
  "createsWhen K (\<lambda>h i. trackedInstance l n = None \<and> newInstance p n opts h i) (ensureInstance v p n opts l)" if "grow K"
proof -
  let ?P = "\<lambda>h i. trackedInstance l n = None \<and> newInstance p n opts h i"
  let ?K = "\<lambda>x h. K h \<and> (x = Inr None \<longrightarrow> absentSeen (instanceIDOf p n) h)"
  have missing: "createsWhen (?K (Inr None)) ?P (ensureMissingInstance v p (instanceIDOf p n) n opts l)"
  proof (cases "trackedInstance l n")
    case None
    then show ?thesis
      by (intro createsWhen_missing) (simp_all add: newInstance_def)
  next
    case (Some e)
    then show ?thesis
      unfolding ensureMissingInstance_def
      by (simp, intro createsWhen_silent emits_bind keepsCache_bind silent_instance keepsCache_instance emits_ret keepsCache_ret)
  qed
  have body: "createsWhen (?K x) ?P (case x of Inl e \<Rightarrow> ret (l, Some e, [])
        | Inr None \<Rightarrow> ensureMissingInstance v p (instanceIDOf p n) n opts l
        | Inr (Some inst) \<Rightarrow>
            (let existing = FindManagedResource l TypeRDS n;
                 needsOwnershipCheck = (case existing of None \<Rightarrow> True | Some e \<Rightarrow> NeedsRevalidation (ps_now p) e) in do {
               oErr \<leftarrow> (if needsOwnershipCheck then ensureInstanceOwnership v p (instanceIDOf p n) (di_DBInstanceArn inst) (io_adopt opts) else ret None);
               case oErr of
                 Some e \<Rightarrow> ret (l, Some e, di_DBInstanceStatus inst)
               | None \<Rightarrow> do {
                   (l1, err) \<leftarrow> ensureVerifiedInstance v p (instanceIDOf p n) inst n opts existing needsOwnershipCheck l;
                   ret (l1, err, di_DBInstanceStatus inst)
                 }
             }))" for x
  proof (cases "x = Inr None")
    case True
    then show ?thesis using missing by simp
  next
    case False
    then show ?thesis
      unfolding Let_def
      by (cases x; cases "projr x")
        (auto intro!: createsWhen_ret createsWhen_silent emits_bind keepsCache_bind silent_instance keepsCache_instance emits_ret keepsCache_ret
          emits_if emits_option emits_prod keepsCache_if keepsCache_option keepsCache_prod)
  qed
  have "createsWhen K ?P (ensureInstanceObserving v p n opts l)"
    unfolding ensureInstanceObserving_def Let_def
    by (rule createsWhen_seq [OF quietly_lookup that]) (rule body [unfolded Let_def])
  then show ?thesis
    unfolding ensureInstance_def createsWhen_def wp_bind by (auto simp: wp_simps split_beta elim!: wp_conseq)
qed

subsection \<open>The ledger keeps what it tracks\<close>

definition keepsTracked :: "ledger \<Rightarrow> ledger \<Rightarrow> bool" where
  "keepsTracked l l' \<longleftrightarrow> (\<forall>n. trackedInstance l' n = None \<longrightarrow> trackedInstance l n = None)"

lemma keepsTracked_refl [simp]: "keepsTracked l l"
  by (simp add: keepsTracked_def)

lemma keepsTracked_trans: "keepsTracked l l1 \<Longrightarrow> keepsTracked l1 l2 \<Longrightarrow> keepsTracked l l2"
  by (simp add: keepsTracked_def)

lemma keepsTracked_Upsert: "mr_Type e = TypeRDS \<Longrightarrow> mr_State e \<noteq> StateRelinquished \<Longrightarrow> keepsTracked l (UpsertManagedResource l e)"
  by (auto simp: keepsTracked_def trackedInstance_def Find_Upsert upserted_def split: option.splits if_splits)

lemma keepsTracked_same:
  "FindManagedResource l TypeRDS (mr_Name e) = Some e0 \<Longrightarrow> mr_Type e = TypeRDS \<Longrightarrow> mr_State e = mr_State e0
   \<Longrightarrow> keepsTracked l (UpsertManagedResource l e)"
  by (auto simp: keepsTracked_def trackedInstance_def Find_Upsert split: option.splits if_splits)

lemma keepsTracked_changesOnly: "changesOnly K l l' \<Longrightarrow> \<forall>n. (TypeRDS, n) \<notin> K \<Longrightarrow> keepsTracked l l'"
  by (simp add: keepsTracked_def trackedInstance_def changesOnly_def)

lemma keepsTracked_group: "keepsTracked l (recordInstanceSecurityGroup p l n arn)"
  by (simp add: recordInstanceSecurityGroup_def keepsTracked_def trackedInstance_def Let_def typeSecurityGroup_def TypeRDS_def)

lemma keepsTracked_observed: "keepsTracked l (recordObservedStatus p l n st)"
  using Find_key [of l TypeRDS n]
  by (auto simp: recordObservedStatus_def split: option.split intro!: keepsTracked_same)

lemma returns_ensureInstance: "returns (\<lambda>(l', err). keepsTracked l l') (ensureInstance v p n opts l)"
proof -
  have verified: "keepsTracked l (recordVerified_rds p l n arn pol)" for arn pol
    unfolding recordVerified_rds_def Let_def by (rule keepsTracked_Upsert) simp_all
  have trusted: "keepsTracked l (UpsertManagedResource l (e\<lparr>mr_DeletionPolicy := pol\<rparr>))" if "FindManagedResource l TypeRDS n = Some e" for e pol
    using Find_key [OF that] that by (intro keepsTracked_same [of _ _ e]) auto
  have "returns (\<lambda>(l', err). keepsTracked l l') (ensureVerifiedInstance v p k inst n opts (FindManagedResource l TypeRDS n) b l)" for k inst b
    unfolding ensureVerifiedInstance_def by (intro returns_intros) (auto intro: verified trusted)
  note ver = this
  have "returns (\<lambda>(l', err, st). keepsTracked l l') (ensureMissingInstance v p k n opts l)" for k
    unfolding ensureMissingInstance_def createInstance_def instanceMissingError_def
    by (intro returns_intros returns_bind [of "\<lambda>(l', err). keepsTracked l l'"]) (auto intro!: keepsTracked_Upsert)
  note mis = this
  have "returns (\<lambda>(l', err, st). keepsTracked l l') (ensureInstanceObserving v p n opts l)"
    unfolding ensureInstanceObserving_def Let_def
    by (intro returns_intros mis returns_bind [OF ver]) auto
  then show ?thesis
    unfolding ensureInstance_def
    by (intro returns_bind [where Q = "\<lambda>(l', err, st). keepsTracked l l'"] returns_intros)
      (auto intro: keepsTracked_trans keepsTracked_observed)
qed

lemma returns_placedKey: "returns (\<lambda>(l', res). keepsTracked l l')
      (resolveEncryptionKey v p kind TypeRDS n dp enc (recordInstanceSecurityGroup p l nm arn))"
proof (rule returns_mono [OF returns_resolveEncryptionKey], clarify)
  fix l' assume "changesOnly {(TypeKMS, DedicatedKeyLedgerName TypeRDS n)} (recordInstanceSecurityGroup p l nm arn) l'"
  then have "keepsTracked (recordInstanceSecurityGroup p l nm arn) l'"
    by (rule keepsTracked_changesOnly) (simp add: TypeRDS_def TypeKMS_def)
  with keepsTracked_group show "keepsTracked l l'" by (rule keepsTracked_trans)
qed

lemma returns_placeInstance: "returns (\<lambda>(l', err). keepsTracked l l') (placeInstance v p region account r l)"
  unfolding placeInstance_def
  by (intro returns_intros returns_bind [OF returns_placedKey] returns_bind [OF returns_ensureInstance])
    (auto intro: keepsTracked_trans)

lemma returns_ensureResource: "returns (\<lambda>(memo', l', err). keepsTracked l l') (ensureResource v p region account r memo l)"
  unfolding ensureResource_def
  by (intro returns_intros returns_bind [OF returns_placeInstance]) auto

section \<open>All declared instances\<close>

lemma createsWhen_keep:
  assumes "grow K" "createsWhen K P m"
  shows "createsWhen K (\<lambda>h i. K h \<and> P h i) m"
  unfolding createsWhen_def
proof (intro allI impI)
  fix w :: world assume w: "backed w \<and> K (trace w)"
  have k: "K (trace w @ pre)" for pre using assms(1) w by (simp add: grow_def)
  show "wp m (\<lambda>_ w'. backed w' \<and> (\<exists>new. trace w' = trace w @ new
     \<and> (\<forall>pre i r post. new = pre @ RDSCall (CreateDBInstance i r) # post \<longrightarrow> K (trace w @ pre) \<and> P (trace w @ pre) i))) w"
    using assms(2) [unfolded createsWhen_def, rule_format, OF w] by (simp add: k)
qed

lemma creates_nowhere: "\<forall>pre i r post. new = pre @ RDSCall (CreateDBInstance i r) # post \<longrightarrow> False \<Longrightarrow> \<forall>c\<in>set new. \<not> creates c"
  by (auto simp: creates_def dest!: split_list)

lemma quietly_createsNone:
  assumes "createsWhen K (\<lambda>h i. False) m"
  shows "quietly K m (\<lambda>a h. True)"
  unfolding quietly_def
proof (intro allI impI)
  fix w :: world assume w: "backed w \<and> K (trace w)"
  show "wp m (\<lambda>a w'. backed w' \<and> (\<exists>new. trace w' = trace w @ new \<and> (\<forall>c\<in>set new. \<not> creates c)) \<and> True) w"
    by (rule wp_conseq [OF assms [unfolded createsWhen_def, rule_format, OF w]]) (use creates_nowhere in blast)
qed

lemma quietly_adoptable: "grow K \<Longrightarrow> quietly K (checkAdoptable v p r l) (\<lambda>a h. True)"
proof -
  assume "grow K"
  let ?tail = "\<lambda>x. case x of
          Inl e \<Rightarrow> ret (Some e)
        | Inr None \<Rightarrow> ret None
        | Inr (Some inst) \<Rightarrow> do {
            t \<leftarrow> rds_ListTagsForResource v (di_DBInstanceArn inst);
            case t of
              Inl e \<Rightarrow> ret (Some (wrapAWSError_rds (ExtError e) ''reading instance tags''))
            | Inr ts \<Rightarrow>
                if tagsToMap ts OwnerTagKey \<noteq> None then ret None
                else do {
                  k \<leftarrow> encryptionConflict v inst r l;
                  case k of
                    Inl e \<Rightarrow> ret (Some e)
                  | Inr keyConflict \<Rightarrow>
                      ret (conflictError (instanceIDOf p (i_Name r)) (adoptionConflicts inst r @ (case keyConflict of None \<Rightarrow> [] | Some c \<Rightarrow> [c])))
                }
          }"
  have "createsWhen J Q (?tail x)" for J Q x
    unfolding rds_ListTagsForResource_def
    by (intro createsWhen_silent emits_intros keepsCache_intros emits_invoke silent_instance keepsCache_instance creates_simps)
  then have "createsWhen K (\<lambda>h i. False) (State_Monad.bind (lookupInstance v (instanceIDOf p (i_Name r))) ?tail)"
    by (rule createsWhen_seq [OF quietly_lookup \<open>grow K\<close>])
  then show ?thesis
    unfolding checkAdoptable_def
    by (intro quietly_createsNone createsWhen_if createsWhen_ret)
qed

lemma createsWhen_map: "createsWhen K P m \<Longrightarrow> createsWhen K P (State_Monad.bind m (\<lambda>a. ret (f a)))"
  unfolding createsWhen_def wp_bind by (auto simp: wp_simps elim!: wp_conseq)

lemma createsWhen_placeInstance:
  assumes "grow K"
  shows "createsWhen K (\<lambda>h i. trackedInstance l (i_Name r) = None
      \<and> (\<exists>sgARN key. newInstance p (i_Name r) ((optionsFor r sgARN)\<lparr>io_kmsKeyARN := key\<rparr>) h i)) (placeInstance v p region account r l)"
    (is "createsWhen K ?P _")
proof -
  have one: "createsWhen J ?P (ensureInstance v p (i_Name r) ((optionsFor r sgARN)\<lparr>io_kmsKeyARN := key\<rparr>) l2)"
    if "grow J" "keepsTracked l l2" for J sgARN key l2
    by (rule createsWhen_weaken [OF createsWhen_ensureInstance [OF that(1)]]) (use that(2) in \<open>auto simp: keepsTracked_def\<close>)
  have encrypted: "createsWhen J ?P (do {
        (l2, key) \<leftarrow> resolveEncryptionKey v p ''instance'' TypeRDS (i_Name r) (i_DeletionPolicy r) (i_Encryption r)
                          (recordInstanceSecurityGroup p l (i_Name r) sgARN);
        case key of
          Inl e \<Rightarrow> ret (l2, Some e)
        | Inr kmsKeyARN \<Rightarrow> do {
            (l3, err) \<leftarrow> ensureInstance v p (i_Name r) ((optionsFor r sgARN)\<lparr>io_kmsKeyARN := kmsKeyARN\<rparr>) l2;
            ret (l3, map_option (wrapf ''instance'' [i_Name r]) err)
          } })" if "grow J" for J sgARN
  proof (rule createsWhen_seq [OF quietly_intro [OF silent_resolve keepsCache_resolveEncryptionKey returns_placedKey] that])
    fix x :: "ledger \<times> (go_error + string option)"
    have g: "grow (\<lambda>h. J h \<and> b)" for b using that by (simp add: grow_def)
    obtain l2 key where x: "x = (l2, key)" by (cases x)
    show "createsWhen (\<lambda>h. J h \<and> (case x of (l', res) \<Rightarrow> keepsTracked l l')) ?P (case x of (l2, key) \<Rightarrow> case key of
          Inl e \<Rightarrow> ret (l2, Some e)
        | Inr kmsKeyARN \<Rightarrow> do {
            (l3, err) \<leftarrow> ensureInstance v p (i_Name r) ((optionsFor r sgARN)\<lparr>io_kmsKeyARN := kmsKeyARN\<rparr>) l2;
            ret (l3, map_option (wrapf ''instance'' [i_Name r]) err)
          })"
    proof (cases "keepsTracked l l2")
      case True
      then show ?thesis unfolding x split_beta prod.case
        by (cases key) (simp_all add: createsWhen_ret, intro createsWhen_map one that g)
    next
      case False
      then show ?thesis unfolding x by (simp add: createsWhen_def)
    qed
  qed
  have g: "grow (\<lambda>h. K h \<and> True)" "grow (\<lambda>h. (K h \<and> True) \<and> True)" using assms by simp_all
  have grouped: "createsWhen (\<lambda>h. K h \<and> True) ?P (do {
         sg \<leftarrow> ensureInstanceSecurityGroup v p region account r (recordedGroupARN l (i_Name r));
         case sg of
           Inl e \<Rightarrow> ret (l, Some (wrapf ''instance: security group'' [i_Name r] e))
         | Inr sgARN \<Rightarrow> do {
             (l2, key) \<leftarrow> resolveEncryptionKey v p ''instance'' TypeRDS (i_Name r) (i_DeletionPolicy r) (i_Encryption r)
                          (recordInstanceSecurityGroup p l (i_Name r) sgARN);
             case key of
               Inl e \<Rightarrow> ret (l2, Some e)
             | Inr kmsKeyARN \<Rightarrow> do {
                 (l3, err) \<leftarrow> ensureInstance v p (i_Name r) ((optionsFor r sgARN)\<lparr>io_kmsKeyARN := kmsKeyARN\<rparr>) l2;
                 ret (l3, map_option (wrapf ''instance'' [i_Name r]) err)
               }
           } })"
    by (rule createsWhen_seq [OF quietly_any [OF silent_group keepsCache_group(1)] g(1)])
      (rule createsWhen_sum [OF createsWhen_ret encrypted [OF g(2)]])
  show ?thesis
    unfolding placeInstance_def
    by (rule createsWhen_seq [OF quietly_adoptable [OF assms] assms]) (rule createsWhen_option [OF grouped createsWhen_ret])
qed
subsection \<open>The grants\<close>

definition grantsKnown :: "grants_memo \<Rightarrow> history \<Rightarrow> bool" where
  "grantsKnown memo h = (case memo of Some (Inr gs) \<Rightarrow> K8sCall (ListSubnetGroupGrants (Inr gs)) \<in> set h | _ \<Rightarrow> True)"

lemma grow_grantsKnown: "grow (grantsKnown memo)"
  by (auto simp: grow_def grantsKnown_def split: option.split sum.split)

lemma quietly_grants: "quietly (grantsKnown memo) (listSubnetGroupGrants v memo) (\<lambda>r h. grantsKnown (Some r) h)"
  unfolding quietly_def listSubnetGroupGrants_def k8s_ListSubnetGroupGrants_def
  by (auto simp: wp_simps grantsKnown_def backed_def split: option.split sum.split)

text \<open>When the operator may create a database: declared, not tracked, not private to somebody else, and known to be absent.\<close>

definition mayCreate :: "pass \<Rightarrow> RDSInstanceSpec list \<Rightarrow> ledger \<Rightarrow> history \<Rightarrow> CreateDBInstanceInput \<Rightarrow> bool" where
  "mayCreate p rs l h i \<longleftrightarrow> (\<exists>r\<in>set rs. trackedInstance l (i_Name r) = None \<and> ci_DBInstanceIdentifier i = instanceIDOf p (i_Name r)
     \<and> ci_DBSubnetGroupName i = i_DBSubnetGroupName r \<and> absentSeen (instanceIDOf p (i_Name r)) h)
   \<and> (\<exists>gs. K8sCall (ListSubnetGroupGrants (Inr gs)) \<in> set h \<and> isAuthorizedByGrants gs (ps_namespace p) (ci_DBSubnetGroupName i))
   \<and> \<not> ci_PubliclyAccessible i \<and> ci_ManageMasterUserPassword i \<and> ci_Tags i = ownerTags p"

lemma mayCreate_new:
  "newInstance p (i_Name r) ((optionsFor r sgARN)\<lparr>io_kmsKeyARN := key\<rparr>) h i \<Longrightarrow> trackedInstance l (i_Name r) = None \<Longrightarrow> r \<in> set rs
   \<Longrightarrow> grantsKnown (Some (Inr gs)) h \<Longrightarrow> isAuthorizedByGrants gs (ps_namespace p) (i_DBSubnetGroupName r) \<Longrightarrow> mayCreate p rs l h i"
  by (auto simp: mayCreate_def newInstance_def instanceInput_def optionsFor_def grantsKnown_def)

lemma createsWhen_authorized:
  assumes "isAuthorizedByGrants gs (ps_namespace p) (i_DBSubnetGroupName r)" "r \<in> set rs" "keepsTracked l0 l"
  shows "createsWhen (grantsKnown (Some (Inr gs))) (mayCreate p rs l0) (placeInstance v p region account r l)"
proof (rule createsWhen_weaken [OF createsWhen_keep [OF grow_grantsKnown createsWhen_placeInstance [OF grow_grantsKnown]]])
  fix h i
  assume "grantsKnown (Some (Inr gs)) h \<and> trackedInstance l (i_Name r) = None
    \<and> (\<exists>sgARN key. newInstance p (i_Name r) ((optionsFor r sgARN)\<lparr>io_kmsKeyARN := key\<rparr>) h i)"
  then show "mayCreate p rs l0 h i"
    using assms by (auto simp: keepsTracked_def intro: mayCreate_new)
qed

lemma learns_createsWhen:
  assumes "createsWhen K P m" "grow K" "returns Q m"
  shows "learns K m (\<lambda>a h. K h \<and> Q a)"
  unfolding learns_def
proof (intro allI impI)
  fix w :: world assume w: "backed w \<and> K (trace w)"
  obtain a w1 where m: "run_state m w = (a, w1)" by fastforce
  obtain new where "trace w1 = trace w @ new" using assms(1) w m by (auto simp: createsWhen_def wp_def)
  then have "K (trace w1)" using assms(2) w by (simp add: grow_def)
  then show "wp m (\<lambda>a w'. K (trace w') \<and> Q a) w" using returnsD [OF assms(3) m] m by (simp add: wp_def)
qed

lemma learns_seq: "quietly K m J \<Longrightarrow> grow K \<Longrightarrow> (\<And>a. learns (\<lambda>h. K h \<and> J a h) (f a) L) \<Longrightarrow> learns K (State_Monad.bind m f) L"
  unfolding learns_def wp_bind
proof (intro allI impI)
  fix w :: world
  assume q: "quietly K m J" and g: "grow K" and w: "backed w \<and> K (trace w)"
    and f: "\<And>a. \<forall>w. backed w \<and> K (trace w) \<and> J a (trace w) \<longrightarrow> wp (f a) (\<lambda>a w'. L a (trace w')) w"
  show "wp m (\<lambda>a. wp (f a) (\<lambda>a w'. L a (trace w'))) w"
    by (rule wp_conseq [OF q [unfolded quietly_def, rule_format, OF w]]) (use f g w in \<open>auto simp: grow_def\<close>)
qed

lemma learns_map: "learns K m (\<lambda>a h. L (f a) h) \<Longrightarrow> learns K (State_Monad.bind m (\<lambda>a. ret (f a))) L"
  unfolding learns_def wp_bind by (simp add: wp_ret_fun)

lemma learns_mono: "learns K m J \<Longrightarrow> (\<And>h. K' h \<Longrightarrow> K h) \<Longrightarrow> (\<And>a h. J a h \<Longrightarrow> L a h) \<Longrightarrow> learns K' m L"
  unfolding learns_def by (auto elim!: wp_conseq)

lemma learns_if: "(b \<Longrightarrow> learns K m J) \<Longrightarrow> (\<not> b \<Longrightarrow> learns K n J) \<Longrightarrow> learns K (if b then m else n) J"
  by simp

text \<open>After the grants are known, one instance is held or placed.\<close>

lemma resource_after_grants:
  fixes l l0 :: ledger and v p region account r
  defines "tail \<equiv> \<lambda>grants. case grants of
          Inl e \<Rightarrow> ret (Some grants, l, Some (wrapf ''checking subnet group authorization'' [i_Name r] (ExtError e)))
        | Inr gs \<Rightarrow>
            if \<not> isAuthorizedByGrants gs (ps_namespace p) (i_DBSubnetGroupName r)
            then do { e \<leftarrow> holdUnauthorized v p r l; ret (Some grants, l, Some e) }
            else do { (l1, err) \<leftarrow> placeInstance v p region account r l; ret (Some grants, l1, err) }"
  assumes "r \<in> set rs" "keepsTracked l0 l"
  shows "createsWhen (grantsKnown (Some grants)) (mayCreate p rs l0) (tail grants)"
    and "learns (grantsKnown (Some grants)) (tail grants) (\<lambda>(memo, l1, err) h. grantsKnown memo h \<and> keepsTracked l l1)"
proof -
  let ?L = "\<lambda>(memo, l1, err) h. grantsKnown memo h \<and> keepsTracked l l1"
  have "createsWhen (grantsKnown (Some grants)) (mayCreate p rs l0) (tail grants) \<and> learns (grantsKnown (Some grants)) (tail grants) ?L"
  proof (cases grants)
    case (Inl e)
    then show ?thesis unfolding tail_def by (simp add: createsWhen_ret learns_def wp_simps)
  next
    case (Inr gs)
    show ?thesis
    proof (cases "isAuthorizedByGrants gs (ps_namespace p) (i_DBSubnetGroupName r)")
      case True
      note c = createsWhen_authorized [OF True assms(2,3)]
      have "learns (grantsKnown (Some (Inr gs))) (placeInstance v p region account r l)
          (\<lambda>a h. grantsKnown (Some (Inr gs)) h \<and> (case a of (l', err) \<Rightarrow> keepsTracked l l'))"
        by (rule learns_createsWhen [OF c grow_grantsKnown returns_placeInstance])
      then have "learns (grantsKnown (Some (Inr gs))) (placeInstance v p region account r l) (\<lambda>a h. ?L (Some (Inr gs), fst a, snd a) h)"
        by (rule learns_mono) auto
      then show ?thesis using True Inr c unfolding tail_def by (simp add: case_prod_unfold createsWhen_map learns_map)
    next
      case False
      have c: "createsWhen (grantsKnown (Some (Inr gs))) (mayCreate p rs l0) (holdUnauthorized v p r l)"
        by (rule createsWhen_silent [OF silent_hold keepsCache_group(2)])
      have "learns (grantsKnown (Some (Inr gs))) (holdUnauthorized v p r l) (\<lambda>a h. ?L (Some (Inr gs), l, Some a) h)"
        by (rule learns_mono [OF learns_createsWhen [OF c grow_grantsKnown, where Q = "\<lambda>_. True"]]) (simp_all add: returns_def)
      then show ?thesis using False Inr c unfolding tail_def by (simp add: createsWhen_map learns_map)
    qed
  qed
  then show "createsWhen (grantsKnown (Some grants)) (mayCreate p rs l0) (tail grants)"
    and "learns (grantsKnown (Some grants)) (tail grants) ?L" by simp_all
qed

lemma createsWhen_ensureResource:
  assumes "r \<in> set rs" "keepsTracked l0 l"
  shows "createsWhen (grantsKnown memo) (mayCreate p rs l0) (ensureResource v p region account r memo l)"
    and "learns (grantsKnown memo) (ensureResource v p region account r memo l) (\<lambda>(memo, l1, err) h. grantsKnown memo h \<and> keepsTracked l l1)"
  unfolding ensureResource_def
  by (intro createsWhen_if createsWhen_ret createsWhen_seq [OF quietly_grants grow_grantsKnown]
      createsWhen_mono [OF resource_after_grants(1) [OF assms]], simp)
    (rule learns_if, simp add: learns_def wp_simps,
      intro learns_seq [OF quietly_grants grow_grantsKnown] learns_mono [OF resource_after_grants(2) [OF assms]], simp_all)
lemma createsWhen_ensureInstances:
  "set rs \<subseteq> set rs0 \<Longrightarrow> keepsTracked l0 l
   \<Longrightarrow> createsWhen (grantsKnown memo) (mayCreate p rs0 l0) (ensureInstances v p region account rs (memo, l, e))"
proof (induction rs arbitrary: memo l e)
  case (Cons r rs)
  have r: "r \<in> set rs0" and rs: "set rs \<subseteq> set rs0" using Cons.prems(1) by simp_all
  have rest: "createsWhen (\<lambda>h. grantsKnown memo h \<and> (\<lambda>(memo', l', err) h. grantsKnown memo' h \<and> keepsTracked l l') x h) (mayCreate p rs0 l0)
      (case x of (memo', l', err) \<Rightarrow> ensureInstances v p region account rs (memo', l', firstError e err))" for x :: "grants_memo \<times> ledger \<times> go_error option"
  proof -
    obtain m' l' err where x: "x = (m', l', err)" by (cases x)
    show ?thesis
    proof (cases "keepsTracked l l'")
      case True
      then show ?thesis unfolding x prod.case
        by (intro createsWhen_mono [OF Cons.IH [OF rs keepsTracked_trans [OF Cons.prems(2)]]]) simp_all
    qed (simp add: x createsWhen_def)
  qed
  show ?case
    unfolding ensureInstances.simps prod.case
    by (rule createsWhen_bind [OF createsWhen_ensureResource [OF r Cons.prems(2)] grow_grantsKnown rest])
qed (simp add: createsWhen_ret)

text \<open>
  C8: A database is created only for a declared instance the custom resource does not track, after AWS answered in this pass that no instance
  of that identifier exists, and after a listing of the subnet group grants that lets this namespace use the subnet group. It is created
  private, with its master password managed by AWS, and tagged as owned by this custom resource.
\<close>

theorem instances_created_only_when_new:
  "wp (do { WithDescribeCache; Ensure_rds v p region account (Some s) l })
     (\<lambda>_ w'. \<exists>new. trace w' = trace w @ new
        \<and> (\<forall>pre i r post. new = pre @ RDSCall (CreateDBInstance i r) # post \<longrightarrow> mayCreate p (rds_Resources s) l (trace w @ pre) i)) w"
proof -
  have "backed (w\<lparr>describeCache := Map.empty\<rparr>)" by (simp add: backed_def)
  then show ?thesis
    using createsWhen_ensureInstances [OF subset_refl keepsTracked_refl, of None p "rds_Resources s" l v region account None]
    unfolding createsWhen_def Ensure_rds_def grantsKnown_def WithDescribeCache_def
    by (auto simp: wp_simps wp_def elim!: allE [of _ "w\<lparr>describeCache := Map.empty\<rparr>"])
qed

definition demoNew :: env where
  "demoNew = refusingEnv\<lparr>
     env_k8s := (env_k8s refusingEnv)\<lparr>ha_ListSubnetGroupGrants := \<lambda>h. Inr [\<lparr>gr_DBSubnetGroupName = ''db'', gr_AllowedNamespaces = [''team'']\<rparr>]\<rparr>,
     env_ec2 := refusingEc2\<lparr>ea_FindSecurityGroups := \<lambda>h n vpc. Inr [], ea_CreateSecurityGroup := \<lambda>h n vpc t. Inr ''sg-1''\<rparr>,
     env_rds := refusingRds\<lparr>ra_DescribeDBSubnetGroups := \<lambda>h n. Inr [Some ''vpc-1''], ra_DescribeDBInstances := \<lambda>h n. Inr [],
       ra_CreateDBInstance := \<lambda>h i. Inr ''arn:db''\<rparr>\<rparr>"

lemma demo_creates:
  "wp (do { WithDescribeCache; Ensure_rds demoNew demoPass ''eu'' ''1'' (Some \<lparr>rds_Resources = [demoDBSpec], rds_Consumes = []\<rparr>) [] })
     (\<lambda>_ w'. \<exists>i r. RDSCall (CreateDBInstance i r) \<in> set (trace w')) start"
  by (simp add: Ensure_rds_def ensureResource_def listSubnetGroupGrants_def k8s_ListSubnetGroupGrants_def demoNew_def demoDBSpec_def
      isAuthorizedByGrants_def demoPass_def placeInstance_def checkAdoptable_def ensureInstanceSecurityGroup_def instanceGroup_def
      describeOwnedGroup_def recordedGroupARN_def resolveVPCID_def findOrCreateSecurityGroup_def createGroup_def reconcileIngress_def
      revokeStaleIngress_def grantedGroups_def resolveEncryptionKey_def ensureInstance_def ensureInstanceObserving_def
      lookupInstance_def describeDBInstanceCached_def ensureMissingInstance_def trackedInstance_def createInstance_def op_defs wp_simps start_def
      recordInstanceSecurityGroup_def Let_def Find_Upsert upserted_def typeSecurityGroup_def TypeRDS_def)

theorem instances_created_only_when_new_witness:
  "wp (do { WithDescribeCache; Ensure_rds demoNew demoPass ''eu'' ''1'' (Some \<lparr>rds_Resources = [demoDBSpec], rds_Consumes = []\<rparr>) [] })
     (\<lambda>_ w'. \<exists>pre i r post. trace w' = pre @ RDSCall (CreateDBInstance i r) # post \<and> mayCreate demoPass [demoDBSpec] [] pre i) start"
proof -
  obtain a w' where run: "run_state (do { WithDescribeCache; Ensure_rds demoNew demoPass ''eu'' ''1''
      (Some \<lparr>rds_Resources = [demoDBSpec], rds_Consumes = []\<rparr>) [] }) start = (a, w')" by fastforce
  obtain i r where "RDSCall (CreateDBInstance i r) \<in> set (trace w')" using demo_creates run unfolding wp_def by auto
  then obtain pre post where t: "trace w' = pre @ RDSCall (CreateDBInstance i r) # post" by (auto dest: split_list)
  have "mayCreate demoPass [demoDBSpec] [] pre i"
    using instances_created_only_when_new [of demoNew demoPass "''eu''" "''1''" "\<lparr>rds_Resources = [demoDBSpec], rds_Consumes = []\<rparr>" "[]" start]
      run t unfolding wp_def start_def by (simp add: start_def)
  then show ?thesis using run t unfolding wp_def by auto
qed

end
