(* ===== verification/Rds_Cleanup.thy ===== *)
theory Rds_Cleanup
  imports Rds_Creation
begin

text \<open>
  What cleaning up after removed databases may do: instances are only untagged, and only when their tags say they belong to this custom
  resource; a final snapshot is taken only of such an instance, and a snapshot or a security group is deleted only after AWS showed it to be
  owned.
\<close>

section \<open>The guard\<close>

definition tagsSeenOwned :: "pass \<Rightarrow> string \<Rightarrow> history \<Rightarrow> bool" where
  "tagsSeenOwned p arn h \<longleftrightarrow> (\<exists>ts. RDSCall (ListInstanceTags arn (Inr ts)) \<in> set h
     \<and> IsOwnedBy (tagsToMap ts) (ps_namespace p) (ps_crName p) (ps_crUID p))"

definition snapshotSeenOwned :: "pass \<Rightarrow> string \<Rightarrow> history \<Rightarrow> bool" where
  "snapshotSeenOwned p k h \<longleftrightarrow> (\<exists>s ss. RDSCall (DescribeDBSnapshots k (Inr (s # ss))) \<in> set h \<and> ownsSnapshot p s)"

definition groupSeenOwned :: "pass \<Rightarrow> string \<Rightarrow> history \<Rightarrow> bool" where
  "groupSeenOwned p g h \<longleftrightarrow> (\<exists>s ss. EC2Call (DescribeSecurityGroup g (Inr (s # ss))) \<in> set h \<and> ownsGroup p s)"

fun rdsCleanupGuard :: "pass \<Rightarrow> history \<Rightarrow> call \<Rightarrow> bool" where
  "rdsCleanupGuard p h (RDSCall (ListInstanceTags arn r)) = True"
| "rdsCleanupGuard p h (RDSCall (DescribeDBSnapshots k r)) = True"
| "rdsCleanupGuard p h (RDSCall (AddTagsToResource arn t r)) = (tagsSeenOwned p arn h \<and> ReleaseTags p = Some t)"
| "rdsCleanupGuard p h (RDSCall (RemoveTagsFromResource arn ks r)) = (tagsSeenOwned p arn h \<and> ks = [OwnerTagKey, OwnerUIDTagKey])"
| "rdsCleanupGuard p h (RDSCall (CreateDBSnapshot i k t r)) =
     ((\<exists>arn. tagsSeenOwned p arn h \<and> instanceIDFromARN arn = Inr i) \<and> t = ownerTags p)"
| "rdsCleanupGuard p h (RDSCall (DeleteDBSnapshot k r)) = snapshotSeenOwned p k h"
| "rdsCleanupGuard p h (EC2Call (DescribeSecurityGroup g r)) = True"
| "rdsCleanupGuard p h (EC2Call (DeleteSecurityGroup g r)) = groupSeenOwned p g h"
| "rdsCleanupGuard p h c = False"

lemma seenOwned_append:
  "tagsSeenOwned p arn h \<Longrightarrow> tagsSeenOwned p arn (x @ h)" "snapshotSeenOwned p k h \<Longrightarrow> snapshotSeenOwned p k (x @ h)"
  "groupSeenOwned p g h \<Longrightarrow> groupSeenOwned p g (x @ h)"
  by (auto simp: tagsSeenOwned_def snapshotSeenOwned_def groupSeenOwned_def)

lemma leftmono_rdsCleanupGuard: "leftmono (rdsCleanupGuard p)"
  unfolding leftmono_def
proof (intro allI impI)
  fix x pre :: history and c :: call
  show "rdsCleanupGuard p pre c \<Longrightarrow> rdsCleanupGuard p (x @ pre) c"
    by (induction p pre c rule: rdsCleanupGuard.induct) (auto intro: seenOwned_append)
qed

lemma seenOwned_read:
  "ownsSnapshot p s \<Longrightarrow> snapshotSeenOwned p k (RDSCall (DescribeDBSnapshots k (Inr (s # ss))) # h)"
  "ownsGroup p g \<Longrightarrow> groupSeenOwned p k (EC2Call (DescribeSecurityGroup k (Inr (g # gs))) # h)"
  unfolding snapshotSeenOwned_def groupSeenOwned_def by (meson list.set_intros(1))+

lemmas rds_guard_rules = guards_intros guards_bind [OF leftmono_rdsCleanupGuard]

lemma guards_shift: "leftmono G \<Longrightarrow> guards G m \<Longrightarrow> guards (\<lambda>x. G (new @ x)) m"
  unfolding guards_def leftmono_def by meson

lemma guards_event: "guards G (recordEvent p t r a)"
  by (rule guards_emits [OF emits_recordEvent [where C = "\<lambda>_. False"]]) simp

section \<open>Snapshots\<close>

lemma emits_deleteSnapshot: "emits (\<lambda>c. \<exists>r. c = RDSCall (DeleteDBSnapshot k r)) (deleteSnapshot v p k n l why)"
  unfolding deleteSnapshot_def op_defs by (intro emits_intros emits_invoke) simp_all

lemma guards_retire: "guards (rdsCleanupGuard p) (retireFinalSnapshot v p n l why)"
proof -
  define tail where "tail = (\<lambda>(existing :: ManagedResource) r. case r of
            Inl e \<Rightarrow> ret (l, Some (wrapAWSError_rds (ExtError e) ''checking snapshot before retiring it''))
          | Inr [] \<Rightarrow> ret (RemoveManagedResource l ResourceTypeRDSSnapshot n, None)
          | Inr (snapshot # _) \<Rightarrow>
              if \<not> ownsSnapshot p snapshot
              then do {
                recordEvent p ''Warning'' ''FinalSnapshotNotOwned'' [mr_ARN existing];
                ret (RemoveManagedResource l ResourceTypeRDSSnapshot n, None)
              }
              else if mr_State existing = StateVerified \<or> ss_Status snapshot = ''available''
              then deleteSnapshot v p (mr_ARN existing) n l why
              else if ss_Status snapshot = ''failed'' then ret (RemoveManagedResource l ResourceTypeRDSSnapshot n, None)
              else ret (l, None))"
  let ?C = "\<lambda>existing r c. (\<exists>s ss. r = Inr (s # ss) \<and> ownsSnapshot p s) \<and> (\<exists>r. c = RDSCall (DeleteDBSnapshot (mr_ARN existing) r))"
  have "emits (?C existing r) (tail existing r)" for existing r
  proof (cases "\<exists>s ss. r = Inr (s # ss) \<and> ownsSnapshot p s")
    case True
    then show ?thesis unfolding tail_def by (auto intro!: emits_intros emits_mono [OF emits_deleteSnapshot])
  next
    case False
    then show ?thesis unfolding tail_def by (auto intro!: emits_intros split: sum.split list.split)
  qed
  then have "guards (rdsCleanupGuard p) (State_Monad.bind (rds_DescribeDBSnapshots v (mr_ARN existing)) (tail existing))" for existing
    unfolding rds_DescribeDBSnapshots_def
    by (rule guards_after_invoke [where C = "?C existing", rotated 2]) (auto simp: seenOwned_read)
  note step = this [unfolded tail_def]
  show ?thesis unfolding retireFinalSnapshot_def by (intro guards_intros step)
qed

lemma emits_pollFinalSnapshot: "emits (\<lambda>c. \<exists>k r. c = RDSCall (DescribeDBSnapshots k r)) (pollFinalSnapshot v p entry existing l)"
  unfolding pollFinalSnapshot_def op_defs by (intro emits_intros emits_invoke) simp_all

lemma emits_createFinalSnapshot:
  "emits (\<lambda>c. \<exists>r. c = RDSCall (CreateDBSnapshot i k (ownerTags p) r)) (createFinalSnapshot v p entry i k l)"
  unfolding createFinalSnapshot_def op_defs by (intro emits_intros emits_invoke) simp_all

lemma guards_ensureFinalSnapshot:
  assumes "tagsSeenOwned p (mr_ARN entry) new"
  shows "guards (\<lambda>x. rdsCleanupGuard p (new @ x)) (ensureFinalSnapshot v p entry t l)"
proof -
  have seen: "tagsSeenOwned p (mr_ARN entry) (new @ x)" for x using assms by (auto simp: tagsSeenOwned_def)
  have "guards (\<lambda>x. rdsCleanupGuard p (new @ x)) (createFinalSnapshot v p entry i k l)" if "instanceIDFromARN (mr_ARN entry) = Inr i" for i k
    by (rule guards_emits [OF emits_createFinalSnapshot]) (use seen that in \<open>auto intro!: exI [of _ "mr_ARN entry"]\<close>)
  moreover have "guards (\<lambda>x. rdsCleanupGuard p (new @ x)) (pollFinalSnapshot v p entry s l)" for s
    by (rule guards_emits [OF emits_pollFinalSnapshot]) auto
  moreover note guards_shift [OF leftmono_rdsCleanupGuard guards_retire]
  ultimately show ?thesis unfolding ensureFinalSnapshot_def Let_def by (intro guards_intros)
qed

section \<open>Instances\<close>

lemma emits_untagInstance:
  "emits (\<lambda>c. (\<exists>t r. ReleaseTags p = Some t \<and> c = RDSCall (AddTagsToResource (mr_ARN entry) t r))
     \<or> (\<exists>r. c = RDSCall (RemoveTagsFromResource (mr_ARN entry) [OwnerTagKey, OwnerUIDTagKey] r))) (untagInstance v p entry)"
  unfolding untagInstance_def op_defs by (intro emits_intros emits_invoke) (cases "ReleaseTags p", auto intro!: emits_intros emits_invoke)

lemma guards_relinquishInstance: "guards (rdsCleanupGuard p) (relinquishIfStillTagged_rds v p entry)"
  unfolding relinquishIfStillTagged_rds_def rds_ListTagsForResource_def
proof (rule guards_after_invoke)
  fix r :: "aws_tag list reply"
  let ?C = "\<lambda>c. (\<exists>ts. r = Inr ts \<and> IsOwnedBy (tagsToMap ts) (ps_namespace p) (ps_crName p) (ps_crUID p))
      \<and> ((\<exists>t r. ReleaseTags p = Some t \<and> c = RDSCall (AddTagsToResource (mr_ARN entry) t r))
        \<or> (\<exists>r. c = RDSCall (RemoveTagsFromResource (mr_ARN entry) [OwnerTagKey, OwnerUIDTagKey] r)))"
  show "rdsCleanupGuard p (RDSCall (ListInstanceTags (mr_ARN entry) r) # x) c" if "?C c" for x c
    using that by (auto simp: tagsSeenOwned_def)
  show "emits ?C (case r of
       Inl e \<Rightarrow>
         if isException ''DBInstanceNotFoundFault'' e then ret (Inr None)
         else ret (Inl (wrapAWSError_rds (ExtError e) ''checking ownership tags on retained instance''))
     | Inr ts \<Rightarrow>
         if \<not> IsOwnedBy (tagsToMap ts) (ps_namespace p) (ps_crName p) (ps_crUID p) then ret (Inr (Some False))
         else untagInstance v p entry)"
    by (cases r) (auto intro!: emits_intros emits_mono [OF emits_untagInstance])
qed simp

lemma guards_retain_rds: "guards (rdsCleanupGuard p) (retain_rds v p entry l results)"
  unfolding retain_rds_def retainEntry_def by (intro rds_guard_rules guards_relinquishInstance guards_event)

lemma guards_restoreDeclared_rds: "guards (rdsCleanupGuard p) (restoreDeclared_rds v p entry l)"
  unfolding restoreDeclared_rds_def by (intro rds_guard_rules guards_retire guards_event)

lemma wp_verifyInstanceOwned:
  "wp (verifyInstanceOwned v p entry) (\<lambda>a w'. \<exists>new. trace w' = trace w @ new \<and> guardedTrace (rdsCleanupGuard p) new
     \<and> (a = Inr (Some True) \<longrightarrow> tagsSeenOwned p (mr_ARN entry) new)) w"
  unfolding verifyInstanceOwned_def rds_ListTagsForResource_def
  using guardedTrace_snoc [of "rdsCleanupGuard p" "[]" "RDSCall (ListInstanceTags (mr_ARN entry) r)" for r]
  by (auto simp: wp_simps tagsSeenOwned_def split: sum.split)

lemma guards_pendDeletion: "guards (rdsCleanupGuard p) (pendDeletion v p entry l results)"
  unfolding pendDeletion_def
proof (rule guards_seq [OF wp_verifyInstanceOwned])
  fix a :: "go_error + bool option" and new :: history
  assume seen: "a = Inr (Some True) \<longrightarrow> tagsSeenOwned p (mr_ARN entry) new"
  have m: "leftmono (\<lambda>x. rdsCleanupGuard p (new @ x))" if "tagsSeenOwned p (mr_ARN entry) new"
    unfolding leftmono_def
  proof (intro allI impI)
    fix x pre :: history and c :: call
    show "rdsCleanupGuard p (new @ pre) c \<Longrightarrow> rdsCleanupGuard p (new @ x @ pre) c"
      by (cases "(p, pre, c)" rule: rdsCleanupGuard.cases) (auto simp: tagsSeenOwned_def snapshotSeenOwned_def groupSeenOwned_def)
  qed
  show "guards (\<lambda>x. rdsCleanupGuard p (new @ x)) (case a of
       Inl e \<Rightarrow> ret (l, results, Some e)
     | Inr None \<Rightarrow> ret (RemoveManagedResource l TypeRDS (mr_Name entry), results, None)
     | Inr (Some False) \<Rightarrow> ret (l, results, Some (OwnershipLostError ''instance'' (mr_Name entry) ''act on it''))
     | Inr (Some True) \<Rightarrow>
         (case mr_PendingDeletionSince entry of
            None \<Rightarrow> do {
              recordEvent p ''Warning'' ''InstanceDeletionRequiresManualAction'' [mr_Name entry, mr_ARN entry];
              ret (UpsertManagedResource l (entry\<lparr>mr_PendingDeletionSince := Some (ps_now p)\<rparr>),
                   results @ [(mr_Name entry, pendingDeletionReason_rds p (ps_now p))], None)
            }
          | Some t \<Rightarrow>
              (let results1 = results @ [(mr_Name entry, pendingDeletionReason_rds p t)] in
               if since (ps_now p) t < deletionQuietWindow_rds then ret (l, results1, None)
               else do { (l1, err) \<leftarrow> ensureFinalSnapshot v p entry t l; ret (l1, results1, err) })))"
  proof (cases "a = Inr (Some True)")
    case True
    with seen have s: "tagsSeenOwned p (mr_ARN entry) new" by simp
    show ?thesis unfolding True Let_def sum.case option.case bool.case
      by (intro guards_intros guards_bind [OF m [OF s]] guards_event guards_ensureFinalSnapshot [OF s])
  next
    case False
    then show ?thesis by (auto intro: guards_ret split: sum.split option.split bool.split)
  qed
qed

lemma guards_cleanupInstances: "guards (rdsCleanupGuard p) (cleanupInstances v p declared es acc)"
proof (induction es arbitrary: acc)
  case (Cons entry es)
  show ?case unfolding cleanupInstances.simps
    by (intro rds_guard_rules Cons.IH guards_restoreDeclared_rds guards_retain_rds guards_pendDeletion)
qed (simp add: guards_ret)

lemma guards_orphanedSnapshots: "guards (rdsCleanupGuard p) (orphanedSnapshots v p es acc)"
proof (induction es arbitrary: acc)
  case (Cons entry es)
  have "guards (rdsCleanupGuard p) (rds_DescribeDBSnapshots v k)" for k
    by (rule guards_emits [where C = "\<lambda>c. \<exists>r. c = RDSCall (DescribeDBSnapshots k r)"])
      (auto simp: rds_DescribeDBSnapshots_def intro!: emits_invoke)
  then show ?case unfolding orphanedSnapshots.simps by (intro rds_guard_rules Cons.IH)
qed (simp add: guards_ret)

section \<open>Security groups\<close>

lemma guards_deleteOwnedGroup: "guards (rdsCleanupGuard p) (deleteOwnedGroup v p g ctx)"
  unfolding deleteOwnedGroup_def
proof (rule guards_after [where C = "\<lambda>a c. a = Inr True \<and> (\<exists>r. c = EC2Call (DeleteSecurityGroup g r))"])
  fix w :: world
  show "wp (securityGroupOwnedBy v p g) (\<lambda>a w'. \<exists>new. trace w' = trace w @ new \<and> guardedTrace (rdsCleanupGuard p) new
      \<and> (\<forall>x c. a = Inr True \<and> (\<exists>r. c = EC2Call (DeleteSecurityGroup g r)) \<longrightarrow> rdsCleanupGuard p (new @ x) c)) w"
    unfolding securityGroupOwnedBy_def ec2_DescribeSecurityGroup_def
    using guardedTrace_snoc [of "rdsCleanupGuard p" "[]" "EC2Call (DescribeSecurityGroup g r)" for r]
    by (auto simp: wp_simps seenOwned_read split: sum.split list.split)
next
  fix a :: "go_error + bool"
  show "emits (\<lambda>c. a = Inr True \<and> (\<exists>r. c = EC2Call (DeleteSecurityGroup g r))) (case a of
       Inl e \<Rightarrow> ret (Some e)
     | Inr False \<Rightarrow> ret None
     | Inr True \<Rightarrow> do {
         r \<leftarrow> ec2_DeleteSecurityGroup v g;
         ret (case r of
                Inl e \<Rightarrow> if apiCode (ExtError e) ''InvalidGroup.NotFound'' then None else Some (deleteGroupError e ctx)
              | Inr _ \<Rightarrow> None)
       })"
    by (auto simp: ec2_DeleteSecurityGroup_def intro!: emits_intros emits_invoke split: sum.split bool.split)
qed

lemma guards_cleanupGroups: "guards (rdsCleanupGuard p) (cleanupGroups v p declared l es acc)"
proof (induction es arbitrary: acc)
  case (Cons entry es)
  show ?case unfolding cleanupGroups.simps by (intro rds_guard_rules Cons.IH guards_deleteOwnedGroup)
qed (simp add: guards_ret)

section \<open>The property\<close>

text \<open>
  C14: Cleaning up never modifies or deletes a database. A tag is removed only from an instance whose tags were just read and name this
  custom resource; a final snapshot is taken only of such an instance and carries the owner tags; a snapshot or a security group is deleted
  only after AWS described it as owned by this custom resource. Nothing else is called.
\<close>

theorem rds_cleanup_guarded:
  "guards (rdsCleanupGuard p) (do {
     (l1, results, err) \<leftarrow> Cleanup_rds v p spec l deleting;
     (l2, gErr) \<leftarrow> CleanupInstanceSecurityGroups v p spec l1 deleting;
     ret (l2, results, err, gErr) })"
  unfolding Cleanup_rds_def checkOrphanedSnapshots_def CleanupInstanceSecurityGroups_def
  by (intro rds_guard_rules guards_cleanupInstances guards_orphanedSnapshots guards_cleanupGroups)

end
