(* ===== verification/Connection.thy ===== *)
theory Connection
  imports Rds_Cleanup Service_Account Iam_Derive Controller
begin

text \<open>
  What a workload is told about its resources: the connection ConfigMap of \<^verbatim>\<open>internal/resources/configmap/configmap.go\<close>
  and the credentials Secret of \<^verbatim>\<open>internal/resources/rds/secret.go\<close>, with \<^verbatim>\<open>connectioninfo.go\<close>. The names that are
  folded into keys are restricted to ASCII by the patterns of the custom resource definition, so upper-casing and replacing are byte-wise.
\<close>

section \<open>Connection info of an instance\<close>

record ConnectionInfo =
  co_Host :: string
  co_Port :: int
  co_Engine :: string
  co_DBInstanceIdentifier :: string
  co_CredentialsSecretARN :: string

definition connectionInfoOf :: "DBInstance \<Rightarrow> ConnectionInfo option" where
  "connectionInfoOf inst =
     (case di_Endpoint inst of
        Some (Some address, port) \<Rightarrow>
          Some \<lparr>co_Host = address, co_Port = port, co_Engine = di_Engine inst, co_DBInstanceIdentifier = di_DBInstanceIdentifier inst,
                co_CredentialsSecretARN = orElse (di_MasterUserSecret inst) []\<rparr>
      | _ \<Rightarrow> None)"

definition ResolveConnectionInfo :: "env \<Rightarrow> string \<Rightarrow> (go_error + ConnectionInfo option) op" where
  "ResolveConnectionInfo v instanceARN =
     (case instanceIDFromARN instanceARN of
        Inl e \<Rightarrow> ret (Inl e)
      | Inr instanceID \<Rightarrow> do {
          r \<leftarrow> describeDBInstanceCached v instanceID;
          case r of
            Inl e \<Rightarrow>
              if isException ''DBInstanceNotFoundFault'' e then ret (Inr None)
              else ret (Inl (wrapAWSError_rds (ExtError e) ''resolving RDS connection info''))
          | Inr instances \<Rightarrow> ret (Inr (case instances of [] \<Rightarrow> None | inst # _ \<Rightarrow> connectionInfoOf inst))
        })"

definition IsConsumerAuthorized :: "AppDependencies \<Rightarrow> string \<Rightarrow> string \<Rightarrow> string \<Rightarrow> bool" where
  "IsConsumerAuthorized producer resourceName namespace name =
     (case sp_RDS (ad_Spec producer) of None \<Rightarrow> False
      | Some s \<Rightarrow>
          (case find (\<lambda>r. i_Name r = resourceName) (rds_Resources s) of None \<Rightarrow> False
           | Some r \<Rightarrow> list_ex (\<lambda>sw. sw_Namespace sw = namespace \<and> sw_Name sw = name) (i_SharedWith r)))"

section \<open>Keyed data\<close>

record KeyedData =
  kd_values :: "string \<rightharpoonup> string"
  kd_sources :: "string \<rightharpoonup> string"

definition NewKeyedData :: KeyedData where
  "NewKeyedData = \<lparr>kd_values = Map.empty, kd_sources = Map.empty\<rparr>"

definition Put :: "string \<Rightarrow> string \<Rightarrow> string \<Rightarrow> KeyedData \<Rightarrow> go_error + KeyedData" where
  "Put key val source d =
     (case kd_sources d key of
        Some prior \<Rightarrow>
          if prior \<noteq> source
          then Inl (ReconcileError (msgError ''would both be written to the key'' [prior, source, key]) False ''ConnectionKeyCollision'' False)
          else Inr \<lparr>kd_values = (kd_values d)(key \<mapsto> val), kd_sources = (kd_sources d)(key \<mapsto> source)\<rparr>
      | None \<Rightarrow> Inr \<lparr>kd_values = (kd_values d)(key \<mapsto> val), kd_sources = (kd_sources d)(key \<mapsto> source)\<rparr>)"

definition envChar :: "char \<Rightarrow> char" where
  "envChar c = (let u = toUpperChar c in
     if CHR ''A'' \<le> u \<and> u \<le> CHR ''Z'' \<or> CHR ''0'' \<le> u \<and> u \<le> CHR ''9'' then u else CHR ''_'')"

definition envKey :: "string list \<Rightarrow> string" where
  "envKey parts = map envChar (join parts ''_'')"

text \<open>A loop that stops at the first error.\<close>

primrec untilError :: "('a \<Rightarrow> 's \<Rightarrow> (go_error + 's) op) \<Rightarrow> 'a list \<Rightarrow> 's \<Rightarrow> (go_error + 's) op" where
  "untilError f [] s = ret (Inr s)"
| "untilError f (x # xs) s = do {
     r \<leftarrow> f x s;
     case r of Inl e \<Rightarrow> ret (Inl e) | Inr s1 \<Rightarrow> untilError f xs s1
   }"

section \<open>The connection ConfigMap\<close>

definition sourceOf :: "string \<Rightarrow> string \<Rightarrow> string \<Rightarrow> string \<Rightarrow> string" where
  "sourceOf resourceType resourceName producerNamespace producerCRName =
     resourceType @ '' '' @ quoted resourceName
       @ (if producerCRName = [] then '' (owned)'' else '' consumed from '' @ producerNamespace @ ''/'' @ producerCRName)"

definition arnResourceID :: "string \<Rightarrow> string" where
  "arnResourceID arn = afterLast (afterLast arn CHR '':'') CHR ''/''"

definition sqsQueueURL :: "string \<Rightarrow> string \<Rightarrow> string \<Rightarrow> go_error + string" where
  "sqsQueueURL region accountID queueName =
     (if region = [] \<or> accountID = [] then Inl (msgError ''cannot derive an SQS queue URL without both region and account ID'' [])
      else Inr (''https://sqs.'' @ region @ ''.amazonaws.com/'' @ accountID @ ''/'' @ queueName))"

definition keyParts :: "string \<Rightarrow> string \<Rightarrow> string \<Rightarrow> string \<Rightarrow> string \<Rightarrow> string list" where
  "keyParts resourceType resourceName producerNamespace producerCRName ending =
     (if producerCRName = [] then [resourceType, resourceName, ending]
      else [resourceType, producerNamespace, producerCRName, resourceName, ending])"

definition connectionValue :: "string \<Rightarrow> string \<Rightarrow> string \<Rightarrow> string \<Rightarrow> go_error + string \<times> string" where
  "connectionValue resourceType arn region accountID =
     (if resourceType = typeSQS
      then (case sqsQueueURL region accountID (arnResourceID arn) of Inl e \<Rightarrow> Inl e | Inr url \<Rightarrow> Inr (''URL'', url))
      else if resourceType = typeSNS then Inr (''ARN'', arn)
      else if resourceType = typeDynamoDB then Inr (''TABLE_NAME'', arnResourceID arn)
      else if resourceType = typeS3 then Inr (''BUCKET'', arnResourceID arn)
      else Inl (msgError ''connectionKV: unknown resource type'' [resourceType]))"

definition connectionKV ::
  "string \<Rightarrow> string \<Rightarrow> string \<Rightarrow> string \<Rightarrow> string \<Rightarrow> string \<Rightarrow> string \<Rightarrow> go_error + string \<times> string" where
  "connectionKV resourceType resourceName arn region accountID producerNamespace producerCRName =
     (case connectionValue resourceType arn region accountID of
        Inl e \<Rightarrow> Inl e
      | Inr (ending, val) \<Rightarrow> Inr (envKey (keyParts resourceType resourceName producerNamespace producerCRName ending), val))"

definition addOwned :: "AppDependencies \<Rightarrow> string \<Rightarrow> string \<Rightarrow> string \<Rightarrow> string \<Rightarrow> KeyedData \<Rightarrow> go_error + KeyedData" where
  "addOwned cr resourceType region accountID resourceName d =
     (case FindManagedResource (ledgerOf cr) resourceType resourceName of
        None \<Rightarrow> Inr d
      | Some entry \<Rightarrow>
          (case connectionKV resourceType resourceName (mr_ARN entry) region accountID [] [] of
             Inl e \<Rightarrow> Inl e
           | Inr (key, val) \<Rightarrow> Put key val (sourceOf resourceType resourceName [] []) d))"

definition addConsumed :: "env \<Rightarrow> AppDependencies \<Rightarrow> string \<Rightarrow> string \<Rightarrow> string \<Rightarrow> ConsumeRef \<Rightarrow> KeyedData \<Rightarrow> (go_error + KeyedData) op" where
  "addConsumed v consumer resourceType region accountID ref d = do {
     (arn, err) \<leftarrow> ResolveConsumeARN v (md_Namespace consumer) (md_Name consumer) resourceType ref;
     case err of
       Some e \<Rightarrow> ret (Inl e)
     | None \<Rightarrow>
         (case arn of None \<Rightarrow> ret (Inr d)
          | Some a \<Rightarrow>
              (case connectionKV resourceType (cr_ResourceName ref) a region accountID (cr_Namespace ref) (cr_Name ref) of
                 Inl e \<Rightarrow> ret (Inl e)
               | Inr (key, val) \<Rightarrow>
                   ret (Put key val (sourceOf resourceType (cr_ResourceName ref) (cr_Namespace ref) (cr_Name ref)) d)))
   }"

record connectionSection =
  cs_resourceType :: string
  cs_owned :: "string list"
  cs_consumes :: "ConsumeRef list"

definition connectionSections :: "AppDependencies \<Rightarrow> connectionSection list" where
  "connectionSections cr =
     (case sp_SQS (ad_Spec cr) of None \<Rightarrow> []
      | Some s \<Rightarrow> [\<lparr>cs_resourceType = typeSQS, cs_owned = map q_Name (sqs_Resources s), cs_consumes = sqs_Consumes s\<rparr>])
     @ (case sp_SNS (ad_Spec cr) of None \<Rightarrow> []
      | Some s \<Rightarrow> [\<lparr>cs_resourceType = typeSNS, cs_owned = map t_Name (sns_Resources s), cs_consumes = sns_Consumes s\<rparr>])
     @ (case sp_DynamoDB (ad_Spec cr) of None \<Rightarrow> []
      | Some s \<Rightarrow> [\<lparr>cs_resourceType = typeDynamoDB, cs_owned = map tb_Name (ddb_Resources s), cs_consumes = ddb_Consumes s\<rparr>])
     @ (case sp_S3 (ad_Spec cr) of None \<Rightarrow> []
      | Some s \<Rightarrow> [\<lparr>cs_resourceType = typeS3, cs_owned = map b_Name (s3_Resources s), cs_consumes = s3_Consumes s\<rparr>])"

definition addSection :: "env \<Rightarrow> AppDependencies \<Rightarrow> string \<Rightarrow> string \<Rightarrow> connectionSection \<Rightarrow> KeyedData \<Rightarrow> (go_error + KeyedData) op" where
  "addSection v cr region accountID sec d = do {
     r \<leftarrow> untilError (\<lambda>name d. ret (addOwned cr (cs_resourceType sec) region accountID name d)) (cs_owned sec) d;
     case r of
       Inl e \<Rightarrow> ret (Inl e)
     | Inr d1 \<Rightarrow> untilError (addConsumed v cr (cs_resourceType sec) region accountID) (cs_consumes sec) d1
   }"

subsection \<open>RDS instances\<close>

definition connectionFields :: "ConnectionInfo \<Rightarrow> string \<Rightarrow> string" where
  "connectionFields info ending =
     (if ending = ''HOST'' then co_Host info
      else if ending = ''PORT'' then show_int (co_Port info)
      else if ending = ''ENGINE'' then co_Engine info
      else co_DBInstanceIdentifier info)"

primrec putFields ::
  "(string \<Rightarrow> string) \<Rightarrow> (string \<Rightarrow> string) \<Rightarrow> string \<Rightarrow> string list \<Rightarrow> KeyedData \<Rightarrow> go_error + KeyedData" where
  "putFields key val source [] d = Inr d"
| "putFields key val source (ending # endings) d =
     (case Put (key ending) (val ending) source d of Inl e \<Rightarrow> Inl e | Inr d1 \<Rightarrow> putFields key val source endings d1)"

text \<open>The fields are ranged over as a map, in an order that is not fixed.\<close>

definition setRDSConnectionKeys ::
  "env \<Rightarrow> string \<Rightarrow> string \<Rightarrow> string \<Rightarrow> ConnectionInfo \<Rightarrow> KeyedData \<Rightarrow> go_error + KeyedData" where
  "setRDSConnectionKeys v resourceName producerNamespace producerCRName info d =
     putFields (\<lambda>ending. envKey (keyParts TypeRDS resourceName producerNamespace producerCRName ending)) (connectionFields info)
       (sourceOf TypeRDS resourceName producerNamespace producerCRName)
       (env_mapOrder v [''HOST'', ''PORT'', ''ENGINE'', ''DB_INSTANCE_IDENTIFIER'']) d"

definition addOwnedRDS :: "env \<Rightarrow> AppDependencies \<Rightarrow> string \<Rightarrow> KeyedData \<Rightarrow> (go_error + KeyedData) op" where
  "addOwnedRDS v cr resourceName d =
     (case FindManagedResource (ledgerOf cr) TypeRDS resourceName of
        None \<Rightarrow> ret (Inr d)
      | Some entry \<Rightarrow> do {
          r \<leftarrow> ResolveConnectionInfo v (mr_ARN entry);
          case r of
            Inl e \<Rightarrow> ret (Inl e)
          | Inr None \<Rightarrow> ret (Inr d)
          | Inr (Some info) \<Rightarrow> ret (setRDSConnectionKeys v resourceName [] [] info d)
        })"

definition addSharedRDS :: "env \<Rightarrow> AppDependencies \<Rightarrow> AppDependencies \<Rightarrow> ConsumeRef \<Rightarrow> KeyedData \<Rightarrow> (go_error + KeyedData) op" where
  "addSharedRDS v consumer producer ref d =
     (if \<not> IsConsumerAuthorized producer (cr_ResourceName ref) (md_Namespace consumer) (md_Name consumer) then ret (Inr d)
      else case FindManagedResource (ledgerOf producer) TypeRDS (cr_ResourceName ref) of
             None \<Rightarrow> ret (Inr d)
           | Some entry \<Rightarrow> do {
               r \<leftarrow> ResolveConnectionInfo v (mr_ARN entry);
               case r of
                 Inl e \<Rightarrow> ret (Inl e)
               | Inr None \<Rightarrow> ret (Inr d)
               | Inr (Some info) \<Rightarrow> ret (setRDSConnectionKeys v (cr_ResourceName ref) (cr_Namespace ref) (cr_Name ref) info d)
             })"

definition addConsumedRDS :: "env \<Rightarrow> AppDependencies \<Rightarrow> ConsumeRef \<Rightarrow> KeyedData \<Rightarrow> (go_error + KeyedData) op" where
  "addConsumedRDS v consumer ref d = do {
     r \<leftarrow> k8s_GetCR v (cr_Namespace ref) (cr_Name ref);
     case r of
       Inl e \<Rightarrow>
         if ex_k8s_notfound e then ret (Inr d)
         else ret (Inl (ReconcileError (wrapf ''reading producer'' [cr_Namespace ref, cr_Name ref] (ExtError e)) True [] False))
     | Inr producer \<Rightarrow> addSharedRDS v consumer producer ref d
   }"

definition addRDSConnections :: "env \<Rightarrow> AppDependencies \<Rightarrow> KeyedData \<Rightarrow> (go_error + KeyedData) op" where
  "addRDSConnections v cr d =
     (case sp_RDS (ad_Spec cr) of
        None \<Rightarrow> ret (Inr d)
      | Some s \<Rightarrow> do {
          r \<leftarrow> untilError (addOwnedRDS v cr) (map i_Name (rds_Resources s)) d;
          case r of
            Inl e \<Rightarrow> ret (Inl e)
          | Inr d1 \<Rightarrow> untilError (addConsumedRDS v cr) (rds_Consumes s) d1
        })"

definition buildConnectionData :: "env \<Rightarrow> string \<Rightarrow> string \<Rightarrow> AppDependencies \<Rightarrow> (go_error + (string \<rightharpoonup> string)) op" where
  "buildConnectionData v region accountID cr = do {
     r \<leftarrow> untilError (addSection v cr region accountID) (connectionSections cr) NewKeyedData;
     case r of
       Inl e \<Rightarrow> ret (Inl e)
     | Inr d \<Rightarrow> do {
         r2 \<leftarrow> addRDSConnections v cr d;
         ret (case r2 of Inl e \<Rightarrow> Inl e | Inr d2 \<Rightarrow> Inr (kd_values d2))
       }
   }"

subsection \<open>Writing it\<close>

definition ConfigMapName :: "string \<Rightarrow> string" where
  "ConfigMapName crName = crName @ ''-connection''"

definition fieldOwner_cm :: string where "fieldOwner_cm = ''cloudctl-operator-configmap''"

definition ManagedLabelKey :: string where "ManagedLabelKey = ''cloudctl.io/managed''"
definition ManagedLabelValue :: string where "ManagedLabelValue = ''true''"

definition ManagedByLabelKey :: string where "ManagedByLabelKey = ''app.kubernetes.io/managed-by''"
definition ManagedByLabelValue :: string where "ManagedByLabelValue = ''cloudctl-operator''"

definition managedLabels :: "string \<rightharpoonup> string" where
  "managedLabels = [ManagedLabelKey \<mapsto> ManagedLabelValue, ManagedByLabelKey \<mapsto> ManagedByLabelValue]"

definition controlledBy :: "OwnerReference option \<Rightarrow> string \<Rightarrow> bool" where
  "controlledBy controller crUID = (case controller of None \<Rightarrow> False | Some owner \<Rightarrow> or_UID owner = crUID)"

definition getConfigMap :: "env \<Rightarrow> string \<Rightarrow> string \<Rightarrow> (ext_error + ConfigMap option) op" where
  "getConfigMap v namespace name = do {
     r \<leftarrow> k8s_GetConfigMap v CachedReader namespace name;
     r1 \<leftarrow> (case r of Inl e \<Rightarrow> if ex_k8s_notfound e then k8s_GetConfigMap v APIReader namespace name else ret r | Inr _ \<Rightarrow> ret r);
     ret (case r1 of Inl e \<Rightarrow> if ex_k8s_notfound e then Inr None else Inl e | Inr cm \<Rightarrow> Inr (Some cm))
   }"

definition nameTaken :: "string \<Rightarrow> string \<Rightarrow> go_error" where
  "nameTaken kind name =
     ReconcileError (msgError (kind @ '' already exists and is not owned by this CR - refusing to manage it'') [name]) False ''NameTaken'' False"

definition crReference :: "string \<times> string \<Rightarrow> AppDependencies \<Rightarrow> OwnerReference" where
  "crReference gvk cr = \<lparr>or_APIVersion = fst gvk, or_Kind = snd gvk, or_Name = md_Name cr, or_UID = md_UID cr\<rparr>"

definition applyConfigMap :: "env \<Rightarrow> AppDependencies \<Rightarrow> (string \<rightharpoonup> string) \<Rightarrow> go_error option op" where
  "applyConfigMap v cr data =
     (case env_GVK v of
        Inl e \<Rightarrow> ret (Some (ExtError e))
      | Inr gvk \<Rightarrow> do {
          a \<leftarrow> k8s_ApplyConfigMap v \<lparr>cy_Namespace = md_Namespace cr, cy_Name = ConfigMapName (md_Name cr), cy_Labels = managedLabels,
                 cy_Data = data, cy_OwnerReference = crReference gvk cr, cy_FieldOwner = fieldOwner_cm\<rparr>;
          ret (applyError a)
        })"

definition Ensure_cm :: "env \<Rightarrow> string \<Rightarrow> string \<Rightarrow> AppDependencies \<Rightarrow> go_error option op" where
  "Ensure_cm v region accountID cr = do {
     d \<leftarrow> buildConnectionData v region accountID cr;
     case d of
       Inl e \<Rightarrow> ret (Some e)
     | Inr data \<Rightarrow> do {
         x \<leftarrow> getConfigMap v (md_Namespace cr) (ConfigMapName (md_Name cr));
         case x of
           Inl e \<Rightarrow> ret (Some (ExtError e))
         | Inr None \<Rightarrow> applyConfigMap v cr data
         | Inr (Some existing) \<Rightarrow>
             if \<not> controlledBy (cm_Controller existing) (md_UID cr) then ret (Some (nameTaken ''ConfigMap'' (ConfigMapName (md_Name cr))))
             else if cm_Data existing = data \<and> goget (cm_Labels existing) ManagedLabelKey = ManagedLabelValue
                     \<and> AppliedBy (cm_AppliedBy existing) fieldOwner_cm
             then ret None
             else applyConfigMap v cr data
       }
   }"

section \<open>The credentials Secret\<close>

definition CredentialsSecretName :: "string \<Rightarrow> string" where
  "CredentialsSecretName crName = crName @ ''-rds-credentials''"

definition secretFieldOwner :: string where "secretFieldOwner = ''cloudctl-operator-rds-secret''"

definition credentialsKey :: "string \<Rightarrow> string \<Rightarrow> string" where
  "credentialsKey resourceName ending = envKey [TypeRDS, resourceName, ending]"

text \<open>
  \<^verbatim>\<open>json.Unmarshal\<close> into a struct of two strings: names match up to case, the last one wins, \<^verbatim>\<open>null\<close> leaves a
  field alone and any other type of value is an error.
\<close>

fun credentialFields :: "(string \<times> json) list \<Rightarrow> string \<times> string \<Rightarrow> (string \<times> string) option" where
  "credentialFields [] acc = Some acc"
| "credentialFields ((k, j) # kvs) (user, pwd) =
     (if equalFold k ''username''
      then (case j of JStr s \<Rightarrow> credentialFields kvs (s, pwd) | JNull \<Rightarrow> credentialFields kvs (user, pwd) | _ \<Rightarrow> None)
      else if equalFold k ''password''
      then (case j of JStr s \<Rightarrow> credentialFields kvs (user, s) | JNull \<Rightarrow> credentialFields kvs (user, pwd) | _ \<Rightarrow> None)
      else credentialFields kvs (user, pwd))"

definition parseCredentials :: "string \<Rightarrow> (string \<times> string) option" where
  "parseCredentials s =
     (case parseJSON s of
        Some (JObj kvs) \<Rightarrow> credentialFields kvs ([], [])
      | Some JNull \<Rightarrow> Some ([], [])
      | _ \<Rightarrow> None)"

definition putCredentials :: "string \<Rightarrow> string \<times> string \<Rightarrow> KeyedData \<Rightarrow> go_error + KeyedData" where
  "putCredentials resourceName cred d =
     (let source = ''RDS instance '' @ quoted resourceName in
      case Put (credentialsKey resourceName ''USERNAME'') (fst cred) source d of
        Inl e \<Rightarrow> Inl e
      | Inr d1 \<Rightarrow> Put (credentialsKey resourceName ''PASSWORD'') (snd cred) source d1)"

definition addCredentials :: "env \<Rightarrow> string \<Rightarrow> string \<Rightarrow> KeyedData \<Rightarrow> (go_error + KeyedData) op" where
  "addCredentials v instanceARN resourceName d = do {
     x \<leftarrow> ResolveConnectionInfo v instanceARN;
     case x of
       Inl e \<Rightarrow> ret (Inl e)
     | Inr None \<Rightarrow> ret (Inr d)
     | Inr (Some info) \<Rightarrow>
         if co_CredentialsSecretARN info = [] then ret (Inr d)
         else do {
           r \<leftarrow> sm_GetSecretValue v (co_CredentialsSecretARN info);
           case r of
             Inl e \<Rightarrow> ret (Inl (wrapAWSError_rds (ExtError e) ''reading managed credentials secret''))
           | Inr s \<Rightarrow>
               (case parseCredentials (orElse s []) of
                  None \<Rightarrow> ret (Inl (msgError ''parsing managed credentials secret'' [resourceName]))
                | Some cred \<Rightarrow> ret (putCredentials resourceName cred d))
         }
   }"

definition addDeclaredCredentials :: "env \<Rightarrow> AppDependencies \<Rightarrow> string \<Rightarrow> KeyedData \<Rightarrow> (go_error + KeyedData) op" where
  "addDeclaredCredentials v cr resourceName d =
     (case FindManagedResource (ledgerOf cr) TypeRDS resourceName of
        None \<Rightarrow> ret (Inr d)
      | Some entry \<Rightarrow> addCredentials v (mr_ARN entry) resourceName d)"

definition buildCredentialsData :: "env \<Rightarrow> AppDependencies \<Rightarrow> (go_error + (string \<rightharpoonup> string)) op" where
  "buildCredentialsData v cr =
     (case sp_RDS (ad_Spec cr) of
        None \<Rightarrow> ret (Inr Map.empty)
      | Some s \<Rightarrow> do {
          r \<leftarrow> untilError (addDeclaredCredentials v cr) (map i_Name (rds_Resources s)) NewKeyedData;
          ret (case r of Inl e \<Rightarrow> Inl e | Inr d \<Rightarrow> Inr (kd_values d))
        })"

definition getSecret :: "env \<Rightarrow> string \<Rightarrow> string \<Rightarrow> (ext_error + Secret option) op" where
  "getSecret v namespace name = do {
     r \<leftarrow> k8s_GetSecret v CachedReader namespace name;
     r1 \<leftarrow> (case r of Inl e \<Rightarrow> if ex_k8s_notfound e then k8s_GetSecret v APIReader namespace name else ret r | Inr _ \<Rightarrow> ret r);
     ret (case r1 of Inl e \<Rightarrow> if ex_k8s_notfound e then Inr None else Inl e | Inr s \<Rightarrow> Inr (Some s))
   }"

definition applySecret :: "env \<Rightarrow> AppDependencies \<Rightarrow> (string \<rightharpoonup> string) \<Rightarrow> go_error option op" where
  "applySecret v cr data =
     (case env_GVK v of
        Inl e \<Rightarrow> ret (Some (ExtError e))
      | Inr gvk \<Rightarrow> do {
          a \<leftarrow> k8s_ApplySecret v \<lparr>sx_Namespace = md_Namespace cr, sx_Name = CredentialsSecretName (md_Name cr), sx_Labels = managedLabels,
                 sx_Type = ''Opaque'', sx_Data = data, sx_OwnerReference = crReference gvk cr,
                 sx_FieldOwner = secretFieldOwner\<rparr>;
          ret (applyError a)
        })"

definition deleteSecret :: "env \<Rightarrow> AppDependencies \<Rightarrow> go_error option op" where
  "deleteSecret v cr = do {
     r \<leftarrow> k8s_DeleteSecret v (md_Namespace cr) (CredentialsSecretName (md_Name cr));
     ret (case r of Inl e \<Rightarrow> if ex_k8s_notfound e then None else Some (ExtError e) | Inr _ \<Rightarrow> None)
   }"

definition EnsureCredentialsSecret :: "env \<Rightarrow> AppDependencies \<Rightarrow> go_error option op" where
  "EnsureCredentialsSecret v cr = do {
     d \<leftarrow> buildCredentialsData v cr;
     case d of
       Inl e \<Rightarrow> ret (Some e)
     | Inr data \<Rightarrow> do {
         x \<leftarrow> getSecret v (md_Namespace cr) (CredentialsSecretName (md_Name cr));
         case x of
           Inl e \<Rightarrow> ret (Some (ExtError e))
         | Inr None \<Rightarrow> if data = Map.empty then ret None else applySecret v cr data
         | Inr (Some existing) \<Rightarrow>
             if \<not> controlledBy (se_Controller existing) (md_UID cr) then ret (Some (nameTaken ''secret'' (CredentialsSecretName (md_Name cr))))
             else if data = Map.empty then deleteSecret v cr
             else if se_Data existing = data \<and> goget (se_Labels existing) ManagedLabelKey = ManagedLabelValue
                     \<and> AppliedBy (se_AppliedBy existing) secretFieldOwner
             then ret None
             else applySecret v cr data
       }
   }"

text \<open>The delivery of connection info at the end of a pass: the Secret only when the ConfigMap was written.\<close>

definition connect :: "env \<Rightarrow> string \<Rightarrow> string \<Rightarrow> AppDependencies \<Rightarrow> go_error option op" where
  "connect v region accountID cr = do {
     err \<leftarrow> Ensure_cm v region accountID cr;
     case err of Some e \<Rightarrow> ret (Some e) | None \<Rightarrow> EnsureCredentialsSecret v cr
   }"

section \<open>What the ConfigMap says\<close>

text \<open>\<open>keyed J h d\<close>: every value of \<open>d\<close> is one that the source recorded for its key contributes, given the calls \<open>h\<close>.\<close>

definition keyed :: "(history \<Rightarrow> string \<Rightarrow> string \<Rightarrow> string \<Rightarrow> bool) \<Rightarrow> history \<Rightarrow> KeyedData \<Rightarrow> bool" where
  "keyed J h d \<longleftrightarrow> (\<forall>k val. kd_values d k = Some val \<longrightarrow> (\<exists>s. kd_sources d k = Some s \<and> J h s k val))
     \<and> dom (kd_sources d) = dom (kd_values d)"

definition growing :: "(history \<Rightarrow> string \<Rightarrow> string \<Rightarrow> string \<Rightarrow> bool) \<Rightarrow> bool" where
  "growing J \<longleftrightarrow> (\<forall>h x s k val. J h s k val \<longrightarrow> J (h @ x) s k val)"

lemma keyed_grow: "growing J \<Longrightarrow> keyed J h d \<Longrightarrow> keyed J (h @ x) d"
  by (fastforce simp: keyed_def growing_def)

lemma Put_cases:
  assumes "Put k val s d = Inr d'"
  shows "kd_values d' = (kd_values d)(k \<mapsto> val)" "kd_sources d' = (kd_sources d)(k \<mapsto> s)" "kd_sources d \<subseteq>\<^sub>m kd_sources d'"
  using assms by (auto simp: Put_def map_le_def split: option.splits if_splits)

lemma Put_keyed: "Put k val s d = Inr d' \<Longrightarrow> keyed J h d \<Longrightarrow> J h s k val \<Longrightarrow> keyed J h d'"
  by (auto simp: keyed_def Put_cases(1,2))

text \<open>
  A description of an instance that the pass has: one that its cache held when the delivery began, or one that a call answered.
\<close>

definition described :: "(string \<rightharpoonup> DBInstance list) \<Rightarrow> history \<Rightarrow> string \<Rightarrow> DBInstance list reply \<Rightarrow> bool" where
  "described cache h i r \<longleftrightarrow> (\<exists>insts. r = Inr insts \<and> cache i = Some insts) \<or> RDSCall (DescribeDBInstances i r) \<in> set h"

definition cacheSound :: "(string \<rightharpoonup> DBInstance list) \<Rightarrow> world \<Rightarrow> bool" where
  "cacheSound cache w \<longleftrightarrow> (\<forall>i insts. describeCache w i = Some insts \<longrightarrow> described cache (trace w) i (Inr insts))"

lemma described_grow: "described cache h i r \<Longrightarrow> described cache (h @ x) i r"
  by (auto simp: described_def)

lemma cacheSound_calls:
  "cacheSound cache w \<Longrightarrow> describeCache w' = describeCache w \<Longrightarrow> trace w' = trace w @ new \<Longrightarrow> cacheSound cache w'"
  by (auto simp: cacheSound_def intro: described_grow)

text \<open>
  \<open>collects cache K J Q d m\<close>: from calls that satisfy \<open>K\<close> and well-kept data \<open>d\<close>, a result of \<open>m\<close> is well kept, keeps the source
  of every key of \<open>d\<close>, and its sources and the calls satisfy \<open>Q\<close>.
\<close>

definition collects ::
  "(string \<rightharpoonup> DBInstance list) \<Rightarrow> (history \<Rightarrow> bool) \<Rightarrow> (history \<Rightarrow> string \<Rightarrow> string \<Rightarrow> string \<Rightarrow> bool)
   \<Rightarrow> (history \<Rightarrow> (string \<rightharpoonup> string) \<Rightarrow> bool) \<Rightarrow> KeyedData \<Rightarrow> (go_error + KeyedData) op \<Rightarrow> bool" where
  "collects cache K J Q d m \<longleftrightarrow> (\<forall>w. cacheSound cache w \<and> K (trace w) \<and> keyed J (trace w) d \<longrightarrow>
     wp m (\<lambda>r w'. cacheSound cache w' \<and> (\<exists>new. trace w' = trace w @ new)
       \<and> (\<forall>d'. r = Inr d' \<longrightarrow> keyed J (trace w') d' \<and> kd_sources d \<subseteq>\<^sub>m kd_sources d' \<and> Q (trace w') (kd_sources d'))) w)"

definition lasting :: "(history \<Rightarrow> (string \<rightharpoonup> string) \<Rightarrow> bool) \<Rightarrow> bool" where
  "lasting Q \<longleftrightarrow> (\<forall>h x S S'. Q h S \<longrightarrow> S \<subseteq>\<^sub>m S' \<longrightarrow> Q (h @ x) S')"

lemma map_le_Some: "S \<subseteq>\<^sub>m S' \<Longrightarrow> S k = Some s \<Longrightarrow> S' k = Some s"
  by (auto simp: map_le_def dom_def)

lemma lasting_conj: "lasting Q \<Longrightarrow> lasting R \<Longrightarrow> lasting (\<lambda>h S. Q h S \<and> R h S)"
  unfolding lasting_def by blast

lemma lasting_ball: "(\<And>x. x \<in> A \<Longrightarrow> lasting (Q x)) \<Longrightarrow> lasting (\<lambda>h S. \<forall>x\<in>A. Q x h S)"
  unfolding lasting_def by blast

lemma collects_same: "(\<And>h. K h \<Longrightarrow> Q h (kd_sources d)) \<Longrightarrow> collects cache K J Q d (ret (Inr d))"
  and collects_err: "collects cache K J Q d (ret (Inl e))"
  by (simp_all add: collects_def wp_simps)

lemma collects_put:
  assumes "\<And>h. K h \<Longrightarrow> J h s k val" "\<And>h S. K h \<Longrightarrow> S k = Some s \<Longrightarrow> Q h S"
  shows "collects cache K J Q d (ret (Put k val s d))"
proof -
  have "kd_sources d' k = Some s" if "Put k val s d = Inr d'" for d' using Put_cases(2) [OF that] by simp
  then show ?thesis unfolding collects_def using assms by (auto simp: wp_simps intro: Put_keyed dest: Put_cases(3))
qed

lemma collects_if: "(b \<Longrightarrow> collects cache K J Q d m) \<Longrightarrow> (\<not> b \<Longrightarrow> collects cache K J Q d n) \<Longrightarrow> collects cache K J Q d (if b then m else n)"
  by simp

lemma collects_option:
  "(x = None \<Longrightarrow> collects cache K J Q d m) \<Longrightarrow> (\<And>a. x = Some a \<Longrightarrow> collects cache K J Q d (f a))
   \<Longrightarrow> collects cache K J Q d (case x of None \<Rightarrow> m | Some a \<Rightarrow> f a)"
  by (cases x) simp_all

lemma collects_sum:
  "(\<And>e. x = Inl e \<Longrightarrow> collects cache K J Q d (f e)) \<Longrightarrow> (\<And>a. x = Inr a \<Longrightarrow> collects cache K J Q d (g a))
   \<Longrightarrow> collects cache K J Q d (case x of Inl e \<Rightarrow> f e | Inr a \<Rightarrow> g a)"
  by (cases x) simp_all

lemma collects_then:
  assumes "collects cache K J Q d m" "grow K" "lasting Q" "\<And>d1. collects cache K J R d1 (f d1)"
  shows "collects cache K J (\<lambda>h S. Q h S \<and> R h S) d (do { r \<leftarrow> m; case r of Inl e \<Rightarrow> ret (Inl e) | Inr d1 \<Rightarrow> f d1 })"
  unfolding collects_def wp_bind
proof (intro allI impI)
  fix w :: world assume w: "cacheSound cache w \<and> K (trace w) \<and> keyed J (trace w) d"
  let ?R = "\<lambda>(r :: go_error + KeyedData) w'. cacheSound cache w' \<and> (\<exists>new. trace w' = trace w @ new)
      \<and> (\<forall>d'. r = Inr d' \<longrightarrow> keyed J (trace w') d' \<and> kd_sources d \<subseteq>\<^sub>m kd_sources d' \<and> Q (trace w') (kd_sources d') \<and> R (trace w') (kd_sources d'))"
  show "wp m (\<lambda>r. wp (case r of Inl e \<Rightarrow> ret (Inl e) | Inr d1 \<Rightarrow> f d1) ?R) w"
  proof (rule wp_conseq [OF assms(1) [unfolded collects_def, rule_format, OF w]], elim conjE exE)
    fix r :: "go_error + KeyedData" and w1 :: world and new
    assume c: "cacheSound cache w1" and t: "trace w1 = trace w @ new"
      and post: "\<forall>d'. r = Inr d' \<longrightarrow> keyed J (trace w1) d' \<and> kd_sources d \<subseteq>\<^sub>m kd_sources d' \<and> Q (trace w1) (kd_sources d')"
    show "wp (case r of Inl e \<Rightarrow> ret (Inl e) | Inr d1 \<Rightarrow> f d1) ?R w1"
    proof (cases r)
      case (Inl e)
      then show ?thesis using c t by (simp add: wp_simps)
    next
      case (Inr d1)
      then have d1: "keyed J (trace w1) d1" "kd_sources d \<subseteq>\<^sub>m kd_sources d1" "Q (trace w1) (kd_sources d1)" using post by auto
      have k: "cacheSound cache w1 \<and> K (trace w1) \<and> keyed J (trace w1) d1" using assms(2) w t c d1(1) by (simp add: grow_def)
      have keep: "Q (trace w1 @ x) S" if "kd_sources d1 \<subseteq>\<^sub>m S" for x S using assms(3) d1(3) that unfolding lasting_def by blast
      have "wp (f d1) ?R w1"
        by (rule wp_conseq [OF assms(4) [unfolded collects_def, rule_format, OF k]])
          (use t d1(2) keep in \<open>auto intro: map_le_trans\<close>)
      then show ?thesis by (simp add: Inr)
    qed
  qed
qed

lemma collects_weaken:
  assumes "collects cache K J Q d m" "\<And>h S. Q h S \<Longrightarrow> R h S"
  shows "collects cache K J R d m"
  unfolding collects_def
proof (intro allI impI)
  fix w :: world assume w: "cacheSound cache w \<and> K (trace w) \<and> keyed J (trace w) d"
  show "wp m (\<lambda>r w'. cacheSound cache w' \<and> (\<exists>new. trace w' = trace w @ new)
       \<and> (\<forall>d'. r = Inr d' \<longrightarrow> keyed J (trace w') d' \<and> kd_sources d \<subseteq>\<^sub>m kd_sources d' \<and> R (trace w') (kd_sources d'))) w"
    by (rule wp_conseq [OF assms(1) [unfolded collects_def, rule_format, OF w]]) (use assms(2) in blast)
qed

lemma collects_untilError:
  assumes "grow K" "\<And>x. x \<in> set xs \<Longrightarrow> lasting (Q x)" "\<And>x d. x \<in> set xs \<Longrightarrow> collects cache K J (Q x) d (f x d)"
  shows "collects cache K J (\<lambda>h S. \<forall>x\<in>set xs. Q x h S) d (untilError f xs d)"
  using assms(2,3)
proof (induction xs arbitrary: d)
  case (Cons x xs)
  have "collects cache K J (\<lambda>h S. Q x h S \<and> (\<forall>x\<in>set xs. Q x h S)) d
      (do { r \<leftarrow> f x d; case r of Inl e \<Rightarrow> ret (Inl e) | Inr d1 \<Rightarrow> untilError f xs d1 })"
    using Cons by (intro collects_then assms(1)) auto
  then show ?case by simp
qed (simp add: collects_same)

lemma collects_read:
  assumes "\<And>w. cacheSound cache w \<Longrightarrow> wp m (\<lambda>a w'. cacheSound cache w' \<and> (\<exists>new. trace w' = trace w @ new) \<and> R a (trace w')) w"
    and "grow K" "growing J" "\<And>a. collects cache (\<lambda>h. K h \<and> R a h) J Q d (f a)"
  shows "collects cache K J Q d (State_Monad.bind m f)"
  unfolding collects_def wp_bind
proof (intro allI impI)
  fix w :: world assume w: "cacheSound cache w \<and> K (trace w) \<and> keyed J (trace w) d"
  then have c: "cacheSound cache w" by simp
  show "wp m (\<lambda>a. wp (f a) (\<lambda>r w'. cacheSound cache w' \<and> (\<exists>new. trace w' = trace w @ new)
     \<and> (\<forall>d'. r = Inr d' \<longrightarrow> keyed J (trace w') d' \<and> kd_sources d \<subseteq>\<^sub>m kd_sources d' \<and> Q (trace w') (kd_sources d')))) w"
  proof (rule wp_conseq [OF assms(1) [OF c]], elim conjE exE)
    fix a and w1 :: world and new assume t: "cacheSound cache w1" "trace w1 = trace w @ new" "R a (trace w1)"
    then have k: "cacheSound cache w1 \<and> (K (trace w1) \<and> R a (trace w1)) \<and> keyed J (trace w1) d"
      using w assms(2) keyed_grow [OF assms(3)] by (simp add: grow_def)
    show "wp (f a) (\<lambda>r w'. cacheSound cache w' \<and> (\<exists>new. trace w' = trace w @ new)
       \<and> (\<forall>d'. r = Inr d' \<longrightarrow> keyed J (trace w') d' \<and> kd_sources d \<subseteq>\<^sub>m kd_sources d' \<and> Q (trace w') (kd_sources d'))) w1"
      by (rule wp_conseq [OF assms(4) [unfolded collects_def, rule_format, OF k]]) (use t in auto)
  qed
qed

subsection \<open>Where a value may come from\<close>

definition sharedEntry :: "AppDependencies \<Rightarrow> string \<Rightarrow> ConsumeRef \<Rightarrow> AppDependencies \<Rightarrow> string \<Rightarrow> bool" where
  "sharedEntry cr t ref producer arn \<longleftrightarrow>
     (\<exists>sharedWith enc s entry. producerResource producer t (cr_ResourceName ref) = Some (sharedWith, enc)
        \<and> s \<in> set sharedWith \<and> sw_Namespace s = md_Namespace cr \<and> sw_Name s = md_Name cr
        \<and> FindManagedResource (ledgerOf producer) t (cr_ResourceName ref) = Some entry \<and> arn = mr_ARN entry)"

definition producerReply :: "ConsumeRef \<Rightarrow> AppDependencies reply \<Rightarrow> history \<Rightarrow> bool" where
  "producerReply ref r h \<longleftrightarrow> K8sCall (GetCR (cr_Namespace ref) (cr_Name ref) r) \<in> set h"

abbreviation producerRead :: "ConsumeRef \<Rightarrow> AppDependencies \<Rightarrow> history \<Rightarrow> bool" where
  "producerRead ref producer h \<equiv> producerReply ref (Inr producer) h"

definition ownedValue :: "AppDependencies \<Rightarrow> string \<Rightarrow> string \<Rightarrow> string \<Rightarrow> string \<Rightarrow> string \<Rightarrow> bool" where
  "ownedValue cr region account s k val \<longleftrightarrow> (\<exists>sec\<in>set (connectionSections cr). \<exists>n\<in>set (cs_owned sec). \<exists>e.
     FindManagedResource (ledgerOf cr) (cs_resourceType sec) n = Some e
     \<and> connectionKV (cs_resourceType sec) n (mr_ARN e) region account [] [] = Inr (k, val) \<and> s = sourceOf (cs_resourceType sec) n [] [])"

definition consumedValue :: "AppDependencies \<Rightarrow> string \<Rightarrow> string \<Rightarrow> history \<Rightarrow> string \<Rightarrow> string \<Rightarrow> string \<Rightarrow> bool" where
  "consumedValue cr region account h s k val \<longleftrightarrow> (\<exists>sec\<in>set (connectionSections cr). \<exists>ref\<in>set (cs_consumes sec). \<exists>producer arn.
     producerRead ref producer h \<and> sharedEntry cr (cs_resourceType sec) ref producer arn
     \<and> connectionKV (cs_resourceType sec) (cr_ResourceName ref) arn region account (cr_Namespace ref) (cr_Name ref) = Inr (k, val)
     \<and> s = sourceOf (cs_resourceType sec) (cr_ResourceName ref) (cr_Namespace ref) (cr_Name ref))"

text \<open>
  The connection info that a description of the instance with the recorded ARN gives, and one of its four fields under its key.
\<close>

definition infoOf :: "DBInstance list reply \<Rightarrow> ConnectionInfo option" where
  "infoOf r = (case r of Inr (inst # _) \<Rightarrow> connectionInfoOf inst | _ \<Rightarrow> None)"

definition endings :: "string list" where
  "endings = [''HOST'', ''PORT'', ''ENGINE'', ''DB_INSTANCE_IDENTIFIER'']"

definition rdsValue ::
  "(string \<rightharpoonup> DBInstance list) \<Rightarrow> history \<Rightarrow> string \<Rightarrow> string \<Rightarrow> string \<Rightarrow> string \<Rightarrow> string \<Rightarrow> string \<Rightarrow> string \<Rightarrow> bool" where
  "rdsValue cache h arn n ns crName s k val \<longleftrightarrow> s = sourceOf TypeRDS n ns crName
     \<and> (\<exists>i r info ending. instanceIDFromARN arn = Inr i \<and> described cache h i r \<and> infoOf r = Some info \<and> ending \<in> set endings
          \<and> k = envKey (keyParts TypeRDS n ns crName ending) \<and> val = connectionFields info ending)"

definition databaseValue ::
  "(string \<rightharpoonup> DBInstance list) \<Rightarrow> AppDependencies \<Rightarrow> history \<Rightarrow> string \<Rightarrow> string \<Rightarrow> string \<Rightarrow> bool" where
  "databaseValue cache cr h s k val \<longleftrightarrow> (\<exists>rs. sp_RDS (ad_Spec cr) = Some rs
     \<and> ((\<exists>r\<in>set (rds_Resources rs). \<exists>e. FindManagedResource (ledgerOf cr) TypeRDS (i_Name r) = Some e
             \<and> rdsValue cache h (mr_ARN e) (i_Name r) [] [] s k val)
        \<or> (\<exists>ref\<in>set (rds_Consumes rs). \<exists>producer e. producerRead ref producer h
             \<and> IsConsumerAuthorized producer (cr_ResourceName ref) (md_Namespace cr) (md_Name cr)
             \<and> FindManagedResource (ledgerOf producer) TypeRDS (cr_ResourceName ref) = Some e
             \<and> rdsValue cache h (mr_ARN e) (cr_ResourceName ref) (cr_Namespace ref) (cr_Name ref) s k val)))"

definition contributes ::
  "(string \<rightharpoonup> DBInstance list) \<Rightarrow> AppDependencies \<Rightarrow> string \<Rightarrow> string \<Rightarrow> history \<Rightarrow> string \<Rightarrow> string \<Rightarrow> string \<Rightarrow> bool" where
  "contributes cache cr region account h s k val \<longleftrightarrow>
     ownedValue cr region account s k val \<or> consumedValue cr region account h s k val \<or> databaseValue cache cr h s k val"

lemma producerReply_grow: "producerReply ref r h \<Longrightarrow> producerReply ref r (h @ x)"
  by (simp add: producerReply_def)

lemma rdsValue_grow: "rdsValue cache h arn n ns c s k val \<Longrightarrow> rdsValue cache (h @ x) arn n ns c s k val"
  unfolding rdsValue_def by (blast intro: described_grow)

lemma growing_contributes: "growing (contributes cache cr region account)"
proof -
  have "consumedValue cr region account h s k val \<Longrightarrow> consumedValue cr region account (h @ x) s k val" for h x s k val
    unfolding consumedValue_def by (blast intro: producerReply_grow)
  moreover have "databaseValue cache cr h s k val \<Longrightarrow> databaseValue cache cr (h @ x) s k val" for h x s k val
    unfolding databaseValue_def by (blast intro: producerReply_grow rdsValue_grow)
  ultimately show ?thesis unfolding growing_def contributes_def by blast
qed

subsection \<open>What must be there\<close>

text \<open>
  The keys that each declared resource is entitled to, with its source: an owned one by its ledger entry; a consumed one by an
  answer in this pass to the reading of its producer; a database by a description of it that the pass has.
\<close>

definition ownedKeys :: "AppDependencies \<Rightarrow> string \<Rightarrow> string \<Rightarrow> string \<Rightarrow> string \<Rightarrow> (string \<rightharpoonup> string) \<Rightarrow> bool" where
  "ownedKeys cr region account t n S \<longleftrightarrow> (\<forall>e k val. FindManagedResource (ledgerOf cr) t n = Some e
     \<longrightarrow> connectionKV t n (mr_ARN e) region account [] [] = Inr (k, val) \<longrightarrow> S k = Some (sourceOf t n [] []))"

text \<open>The identifier that the producer, as read, publishes for the reference, its encryption key being recorded too.\<close>

definition publishedARN :: "AppDependencies \<Rightarrow> string \<Rightarrow> ConsumeRef \<Rightarrow> AppDependencies reply \<Rightarrow> string option" where
  "publishedARN cr t ref r = (case r of Inl _ \<Rightarrow> None
     | Inr producer \<Rightarrow> (case producerResource producer t (cr_ResourceName ref) of None \<Rightarrow> None
         | Some (sharedWith, encryption) \<Rightarrow>
             (case find (\<lambda>s. sw_Namespace s = md_Namespace cr \<and> sw_Name s = md_Name cr) sharedWith of None \<Rightarrow> None
              | Some s \<Rightarrow> (case fst (publishedGrants [] t ref producer s encryption) of [] \<Rightarrow> None | g # _ \<Rightarrow> Some (g_arn g)))))"

definition consumedKeys :: "AppDependencies \<Rightarrow> string \<Rightarrow> string \<Rightarrow> string \<Rightarrow> ConsumeRef \<Rightarrow> history \<Rightarrow> (string \<rightharpoonup> string) \<Rightarrow> bool" where
  "consumedKeys cr region account t ref h S \<longleftrightarrow> (\<exists>r. producerReply ref r h \<and> (\<forall>arn k val. publishedARN cr t ref r = Some arn
     \<longrightarrow> connectionKV t (cr_ResourceName ref) arn region account (cr_Namespace ref) (cr_Name ref) = Inr (k, val)
     \<longrightarrow> S k = Some (sourceOf t (cr_ResourceName ref) (cr_Namespace ref) (cr_Name ref))))"

definition rdsKeys ::
  "(string \<rightharpoonup> DBInstance list) \<Rightarrow> string \<Rightarrow> string \<Rightarrow> string \<Rightarrow> string \<Rightarrow> history \<Rightarrow> (string \<rightharpoonup> string) \<Rightarrow> bool" where
  "rdsKeys cache arn n ns crName h S \<longleftrightarrow> (\<exists>i r. instanceIDFromARN arn = Inr i \<and> described cache h i r
     \<and> (infoOf r \<noteq> None \<longrightarrow> (\<forall>ending\<in>set endings. S (envKey (keyParts TypeRDS n ns crName ending)) = Some (sourceOf TypeRDS n ns crName))))"

definition ownedDatabaseKeys :: "(string \<rightharpoonup> DBInstance list) \<Rightarrow> AppDependencies \<Rightarrow> string \<Rightarrow> history \<Rightarrow> (string \<rightharpoonup> string) \<Rightarrow> bool" where
  "ownedDatabaseKeys cache cr n h S \<longleftrightarrow> (\<forall>e. FindManagedResource (ledgerOf cr) TypeRDS n = Some e \<longrightarrow> rdsKeys cache (mr_ARN e) n [] [] h S)"

definition consumedDatabaseKeys ::
  "(string \<rightharpoonup> DBInstance list) \<Rightarrow> AppDependencies \<Rightarrow> ConsumeRef \<Rightarrow> history \<Rightarrow> (string \<rightharpoonup> string) \<Rightarrow> bool" where
  "consumedDatabaseKeys cache cr ref h S \<longleftrightarrow> (\<exists>r. producerReply ref r h \<and> (\<forall>producer e. r = Inr producer
     \<longrightarrow> IsConsumerAuthorized producer (cr_ResourceName ref) (md_Namespace cr) (md_Name cr)
     \<longrightarrow> FindManagedResource (ledgerOf producer) TypeRDS (cr_ResourceName ref) = Some e
     \<longrightarrow> rdsKeys cache (mr_ARN e) (cr_ResourceName ref) (cr_Namespace ref) (cr_Name ref) h S))"

definition sectionKeys :: "AppDependencies \<Rightarrow> string \<Rightarrow> string \<Rightarrow> connectionSection \<Rightarrow> history \<Rightarrow> (string \<rightharpoonup> string) \<Rightarrow> bool" where
  "sectionKeys cr region account sec h S \<longleftrightarrow> (\<forall>n\<in>set (cs_owned sec). ownedKeys cr region account (cs_resourceType sec) n S)
     \<and> (\<forall>ref\<in>set (cs_consumes sec). consumedKeys cr region account (cs_resourceType sec) ref h S)"

definition databaseKeys :: "(string \<rightharpoonup> DBInstance list) \<Rightarrow> AppDependencies \<Rightarrow> history \<Rightarrow> (string \<rightharpoonup> string) \<Rightarrow> bool" where
  "databaseKeys cache cr h S \<longleftrightarrow> (\<forall>rs. sp_RDS (ad_Spec cr) = Some rs
     \<longrightarrow> (\<forall>r\<in>set (rds_Resources rs). ownedDatabaseKeys cache cr (i_Name r) h S) \<and> (\<forall>ref\<in>set (rds_Consumes rs). consumedDatabaseKeys cache cr ref h S))"

lemma lasting_owned: "lasting (\<lambda>h. ownedKeys cr region account t n)"
  unfolding lasting_def ownedKeys_def by (blast intro: map_le_Some)

lemma lasting_consumed: "lasting (consumedKeys cr region account t ref)"
  unfolding lasting_def consumedKeys_def by (blast intro: map_le_Some producerReply_grow)

lemma lasting_rds: "lasting (rdsKeys cache arn n ns c)"
  unfolding lasting_def rdsKeys_def by (blast intro: map_le_Some described_grow)

lemma lasting_ownedDatabase: "lasting (ownedDatabaseKeys cache cr n)"
  using lasting_rds unfolding lasting_def ownedDatabaseKeys_def by blast

lemma lasting_consumedDatabase: "lasting (consumedDatabaseKeys cache cr ref)"
  using lasting_rds unfolding lasting_def consumedDatabaseKeys_def by (blast intro: producerReply_grow)

lemma lasting_section: "lasting (sectionKeys cr region account sec)"
  unfolding sectionKeys_def by (intro lasting_conj lasting_ball lasting_owned lasting_consumed)

subsection \<open>Each step adds what it may and what it must\<close>

lemma collects_addOwned:
  assumes "sec \<in> set (connectionSections cr)" "n \<in> set (cs_owned sec)"
  shows "collects cache K (contributes cache cr region account) (\<lambda>h. ownedKeys cr region account (cs_resourceType sec) n) d
    (ret (addOwned cr (cs_resourceType sec) region account n d))"
proof (cases "FindManagedResource (ledgerOf cr) (cs_resourceType sec) n")
  case None
  then show ?thesis by (simp add: addOwned_def ownedKeys_def collects_same)
next
  case e: (Some e)
  show ?thesis
  proof (cases "connectionKV (cs_resourceType sec) n (mr_ARN e) region account [] []")
    case (Inl x)
    then show ?thesis by (simp add: addOwned_def e collects_err)
  next
    case (Inr kv)
    obtain k val where kv: "kv = (k, val)" by (cases kv)
    have "contributes cache cr region account h (sourceOf (cs_resourceType sec) n [] []) k val" for h
      using assms e Inr kv by (auto simp: contributes_def ownedValue_def)
    then show ?thesis by (simp add: addOwned_def e Inr kv collects_put ownedKeys_def)
  qed
qed

lemma readShared:
  assumes "producerResource producer t (cr_ResourceName ref) = Some (sharedWith, enc)"
    "find (\<lambda>s. sw_Namespace s = md_Namespace cr \<and> sw_Name s = md_Name cr) sharedWith = Some s"
    "FindManagedResource (ledgerOf producer) t (cr_ResourceName ref) = Some entry"
  shows "sharedEntry cr t ref producer (mr_ARN entry)"
proof -
  have "s \<in> set sharedWith \<and> sw_Namespace s = md_Namespace cr \<and> sw_Name s = md_Name cr" using assms(2) by (auto simp: find_Some_iff)
  then show ?thesis using assms(1,3) unfolding sharedEntry_def by blast
qed

lemma publishedARN_shared: "publishedARN cr t ref r = Some arn \<Longrightarrow> \<exists>producer. r = Inr producer \<and> sharedEntry cr t ref producer arn"
  by (auto simp: publishedARN_def publishedGrants_def Let_def split: sum.splits option.splits list.splits if_splits)
    (erule (2) readShared)+

lemma publishedGrants_cases:
  obtains c cs where "publishedGrants p t ref producer s enc = ([], c # cs)" "fst (publishedGrants [] t ref producer s enc) = []"
  | g gs where "publishedGrants p t ref producer s enc = (g # gs, [])" "fst (publishedGrants [] t ref producer s enc) = g # gs"
proof -
  have "(\<exists>x. publishedGrants p t ref producer s enc = ([], x) \<and> x \<noteq> [] \<and> fst (publishedGrants [] t ref producer s enc) = [])
      \<or> (\<exists>g gs. publishedGrants p t ref producer s enc = (g # gs, []) \<and> fst (publishedGrants [] t ref producer s enc) = g # gs)"
    by (simp add: publishedGrants_def Let_def split: option.split)
  then show thesis using that by (auto simp: neq_Nil_conv)
qed

lemma wp_ResolveConsumeARN:
  "wp (ResolveConsumeARN v (md_Namespace cr) (md_Name cr) t ref) (\<lambda>a w'. describeCache w' = describeCache w
     \<and> (\<exists>r. trace w' = trace w @ [K8sCall (GetCR (cr_Namespace ref) (cr_Name ref) r)] \<and> (snd a = None \<longrightarrow> fst a = publishedARN cr t ref r))) w"
proof -
  define r where "r = ha_GetCR (env_k8s v) (trace w) (cr_Namespace ref) (cr_Name ref)"
  note defs = ResolveConsumeARN_def resolveConsume_def lookupConsume_def k8s_GetCR_def publishedARN_def consumeOutcome_def lookupProblem_def
  show ?thesis
  proof (cases r)
    case (Inl e)
    then show ?thesis unfolding r_def by (simp add: defs wp_simps)
  next
    case (Inr producer)
    note read = this [unfolded r_def]
    show ?thesis
    proof (cases "producerResource producer t (cr_ResourceName ref)")
      case None
      then show ?thesis by (simp add: defs wp_simps read)
    next
      case (Some p)
      obtain sharedWith enc where p: "producerResource producer t (cr_ResourceName ref) = Some (sharedWith, enc)" using Some by (cases p) simp
      show ?thesis
      proof (cases "find (\<lambda>s. sw_Namespace s = md_Namespace cr \<and> sw_Name s = md_Name cr) sharedWith")
        case None
        then show ?thesis by (simp add: defs wp_simps read p)
      next
        case (Some s)
        show ?thesis
          by (rule publishedGrants_cases [of "consumePrefix (md_Namespace cr) (md_Name cr) ref" t ref producer s enc])
            (simp_all add: defs wp_simps read p Some split: prod.split)
      qed
    qed
  qed
qed

lemma collects_addConsumed:
  assumes "sec \<in> set (connectionSections cr)" "ref \<in> set (cs_consumes sec)" "grow K"
  shows "collects cache K (contributes cache cr region account) (consumedKeys cr region account (cs_resourceType sec) ref) d
    (addConsumed v cr (cs_resourceType sec) region account ref d)"
  unfolding addConsumed_def
proof (rule collects_read [where R = "\<lambda>a h. \<exists>r. producerReply ref r h \<and> (snd a = None \<longrightarrow> fst a = publishedARN cr (cs_resourceType sec) ref r)",
      OF _ assms(3) growing_contributes], goal_cases)
  case (1 w)
  then show ?case
    by (rule_tac wp_conseq [OF wp_ResolveConsumeARN]) (auto intro: cacheSound_calls simp: producerReply_def)
next
  case (2 a)
  let ?t = "cs_resourceType sec"
  let ?K = "\<lambda>h. K h \<and> (\<exists>r. producerReply ref r h \<and> (snd a = None \<longrightarrow> fst a = publishedARN cr ?t ref r))"
  let ?Q = "consumedKeys cr region account ?t ref"
  have put: "collects cache ?K (contributes cache cr region account) ?Q d
      (ret (Put k val (sourceOf ?t (cr_ResourceName ref) (cr_Namespace ref) (cr_Name ref)) d))"
    if a: "a = (Some arn, None)"
      and kv: "connectionKV ?t (cr_ResourceName ref) arn region account (cr_Namespace ref) (cr_Name ref) = Inr (k, val)" for arn k val
  proof (rule collects_put)
    fix h assume "?K h"
    then obtain r where r: "producerReply ref r h" "publishedARN cr ?t ref r = Some arn" using a by auto
    from publishedARN_shared [OF r(2)] r(1)
    show "contributes cache cr region account h (sourceOf ?t (cr_ResourceName ref) (cr_Namespace ref) (cr_Name ref)) k val"
      using assms(1,2) kv unfolding contributes_def consumedValue_def by blast
    fix S :: "string \<rightharpoonup> string"
    assume "S k = Some (sourceOf ?t (cr_ResourceName ref) (cr_Namespace ref) (cr_Name ref))"
    with r kv show "?Q h S" unfolding consumedKeys_def by force
  qed
  have none: "collects cache ?K (contributes cache cr region account) ?Q d (ret (Inr d))" if "a = (None, None)"
    using that by (intro collects_same) (force simp: consumedKeys_def)
  show ?case
    unfolding case_prod_unfold
    by (intro collects_option collects_sum collects_err; (rule none | rule put)?) (auto simp: prod_eq_iff)
qed

lemma collects_addSection:
  assumes "sec \<in> set (connectionSections cr)" "grow K"
  shows "collects cache K (contributes cache cr region account) (sectionKeys cr region account sec) d (addSection v cr region account sec d)"
  unfolding addSection_def sectionKeys_def
  by (intro collects_then collects_untilError assms(2) lasting_ball lasting_owned lasting_consumed collects_addOwned collects_addConsumed assms(1))

subsection \<open>Databases\<close>

lemma putFields_keyed:
  assumes "putFields key val s es d = Inr d'" "keyed J h d" "\<And>e. e \<in> set es \<Longrightarrow> J h s (key e) (val e)"
  shows "keyed J h d' \<and> kd_sources d \<subseteq>\<^sub>m kd_sources d' \<and> (\<forall>e\<in>set es. kd_sources d' (key e) = Some s)"
  using assms
proof (induction es arbitrary: d)
  case (Cons x xs)
  then obtain d1 where d1: "Put (key x) (val x) s d = Inr d1" "putFields key val s xs d1 = Inr d'"
    by (auto split: sum.splits)
  have "keyed J h d1" by (rule Put_keyed [OF d1(1) Cons.prems(2)]) (use Cons.prems(3) in simp)
  from Cons.IH [OF d1(2) this] Cons.prems(3)
  have "keyed J h d' \<and> kd_sources d1 \<subseteq>\<^sub>m kd_sources d' \<and> (\<forall>e\<in>set xs. kd_sources d' (key e) = Some s)" by simp
  moreover have "kd_sources d1 (key x) = Some s" using Put_cases(2) [OF d1(1)] by simp
  ultimately show ?case using Put_cases(3) [OF d1(1)] by (auto intro: map_le_trans map_le_Some)
qed simp

lemma collects_fields:
  assumes "rangesOver v" "\<And>h ending. K h \<Longrightarrow> ending \<in> set endings
      \<Longrightarrow> J h (sourceOf TypeRDS n ns c) (envKey (keyParts TypeRDS n ns c ending)) (connectionFields info ending)"
    and "\<And>h S. K h \<Longrightarrow> \<forall>ending\<in>set endings. S (envKey (keyParts TypeRDS n ns c ending)) = Some (sourceOf TypeRDS n ns c) \<Longrightarrow> Q h S"
  shows "collects cache K J Q d (ret (setRDSConnectionKeys v n ns c info d))"
proof -
  have "set (env_mapOrder v endings) = set endings" using assms(1) mset_eq_setD unfolding rangesOver_def by metis
  then have "keyed J h d' \<and> kd_sources d \<subseteq>\<^sub>m kd_sources d' \<and> Q h (kd_sources d')"
    if "setRDSConnectionKeys v n ns c info d = Inr d'" "K h" "keyed J h d" for h d'
    using putFields_keyed [OF that(1) [unfolded setRDSConnectionKeys_def, folded endings_def] that(3)] assms(2,3) that(2) by simp
  then show ?thesis unfolding collects_def by (auto simp: wp_simps)
qed

lemma wp_ResolveConnectionInfo:
  "cacheSound cache w \<Longrightarrow> wp (ResolveConnectionInfo v arn) (\<lambda>a w'. cacheSound cache w' \<and> (\<exists>new. trace w' = trace w @ new)
     \<and> (\<forall>x. a = Inr x \<longrightarrow> (\<exists>i r. instanceIDFromARN arn = Inr i \<and> described cache (trace w') i r \<and> x = infoOf r))) w"
proof -
  assume c: "cacheSound cache w"
  then have known: "described cache (trace w) i (Inr insts)" if "describeCache w i = Some insts" for i insts
    using that by (simp add: cacheSound_def)
  have store: "cacheSound cache (w\<lparr>trace := trace w @ [RDSCall (DescribeDBInstances i (Inr insts))], describeCache := (describeCache w)(i \<mapsto> insts)\<rparr>)"
    and new: "cacheSound cache (w\<lparr>trace := trace w @ [x]\<rparr>)" for i insts x
    using c by (auto simp: cacheSound_def described_def)
  show ?thesis
    unfolding ResolveConnectionInfo_def describeDBInstanceCached_def rds_DescribeDBInstances_def
    using c known store new
    by (auto simp: wp_simps infoOf_def described_def split: sum.split option.split list.split)
qed

lemma collects_resolved:
  assumes "rangesOver v" "grow K"
    and "\<And>h s k val. K h \<Longrightarrow> rdsValue cache h arn n ns c s k val \<Longrightarrow> contributes cache cr region account h s k val"
    and "\<And>h S. K h \<Longrightarrow> rdsKeys cache arn n ns c h S \<Longrightarrow> Q h S"
  shows "collects cache K (contributes cache cr region account) Q d (do {
     r \<leftarrow> ResolveConnectionInfo v arn;
     case r of Inl e \<Rightarrow> ret (Inl e) | Inr None \<Rightarrow> ret (Inr d) | Inr (Some info) \<Rightarrow> ret (setRDSConnectionKeys v n ns c info d) })"
proof (rule collects_read [OF wp_ResolveConnectionInfo assms(2) growing_contributes], assumption)
  fix a :: "go_error + ConnectionInfo option"
  let ?K = "\<lambda>h. K h \<and> (\<forall>x. a = Inr x \<longrightarrow> (\<exists>i r. instanceIDFromARN arn = Inr i \<and> described cache h i r \<and> x = infoOf r))"
  have "collects cache ?K (contributes cache cr region account) Q d (ret (setRDSConnectionKeys v n ns c info d))" if got: "a = Inr (Some info)" for info
  proof (rule collects_fields [OF assms(1)])
    fix h ending assume h: "?K h" "ending \<in> set endings"
    then obtain i r where r: "instanceIDFromARN arn = Inr i" "described cache h i r" "Some info = infoOf r" using got by blast
    have "rdsValue cache h arn n ns c (sourceOf TypeRDS n ns c) (envKey (keyParts TypeRDS n ns c ending)) (connectionFields info ending)"
      unfolding rdsValue_def by (intro conjI refl exI [of _ i] exI [of _ r] exI [of _ info] exI [of _ ending] r(1,2) r(3) [symmetric] h(2))
    with h(1) show "contributes cache cr region account h (sourceOf TypeRDS n ns c) (envKey (keyParts TypeRDS n ns c ending)) (connectionFields info ending)"
      by (intro assms(3)) auto
  next
    fix h S assume "?K h" "\<forall>ending\<in>set endings. S (envKey (keyParts TypeRDS n ns c ending)) = Some (sourceOf TypeRDS n ns c)"
    then show "Q h S" using got by (intro assms(4)) (auto simp: rdsKeys_def)
  qed
  moreover have "collects cache ?K (contributes cache cr region account) Q d (ret (Inr d))" if got: "a = Inr None"
    by (rule collects_same, rule assms(4)) (use got in \<open>force simp: rdsKeys_def\<close>)+
  ultimately show "collects cache ?K (contributes cache cr region account) Q d
      (case a of Inl e \<Rightarrow> ret (Inl e) | Inr None \<Rightarrow> ret (Inr d) | Inr (Some info) \<Rightarrow> ret (setRDSConnectionKeys v n ns c info d))"
    by (intro collects_sum collects_option collects_err) auto
qed

lemma collects_addOwnedRDS:
  assumes "rangesOver v" "sp_RDS (ad_Spec cr) = Some rs" "r \<in> set (rds_Resources rs)" "grow K"
  shows "collects cache K (contributes cache cr region account) (ownedDatabaseKeys cache cr (i_Name r)) d (addOwnedRDS v cr (i_Name r) d)"
  unfolding addOwnedRDS_def
proof (rule collects_option)
  assume "FindManagedResource (ledgerOf cr) TypeRDS (i_Name r) = None"
  then show "collects cache K (contributes cache cr region account) (ownedDatabaseKeys cache cr (i_Name r)) d (ret (Inr d))"
    by (simp add: collects_same ownedDatabaseKeys_def)
next
  fix entry assume e: "FindManagedResource (ledgerOf cr) TypeRDS (i_Name r) = Some entry"
  show "collects cache K (contributes cache cr region account) (ownedDatabaseKeys cache cr (i_Name r)) d (do {
       r1 \<leftarrow> ResolveConnectionInfo v (mr_ARN entry);
       case r1 of Inl e \<Rightarrow> ret (Inl e) | Inr None \<Rightarrow> ret (Inr d) | Inr (Some info) \<Rightarrow> ret (setRDSConnectionKeys v (i_Name r) [] [] info d) })"
    by (rule collects_resolved [OF assms(1,4)]) (use e assms(2,3) in \<open>auto simp: contributes_def databaseValue_def ownedDatabaseKeys_def\<close>)
qed

lemma collects_addConsumedRDS:
  assumes "rangesOver v" "sp_RDS (ad_Spec cr) = Some rs" "ref \<in> set (rds_Consumes rs)" "grow K"
  shows "collects cache K (contributes cache cr region account) (consumedDatabaseKeys cache cr ref) d (addConsumedRDS v cr ref d)"
  unfolding addConsumedRDS_def
proof (rule collects_read [where R = "\<lambda>a h. producerReply ref a h", OF _ assms(4) growing_contributes], goal_cases)
  case (1 w)
  then show ?case
    unfolding k8s_GetCR_def by (auto simp: wp_simps producerReply_def intro: cacheSound_calls)
next
  case (2 a)
  let ?K = "\<lambda>h. K h \<and> producerReply ref a h"
  let ?Q = "consumedDatabaseKeys cache cr ref"
  have g: "grow ?K" using assms(4) by (auto simp: grow_def intro: producerReply_grow)
  have shared: "collects cache ?K (contributes cache cr region account) ?Q d (addSharedRDS v cr producer ref d)" if "a = Inr producer" for producer
    unfolding addSharedRDS_def
    by (intro collects_if collects_option collects_same collects_resolved [OF assms(1) g])
      (use assms(2,3) that in \<open>auto simp: contributes_def databaseValue_def consumedDatabaseKeys_def\<close>)
  have none: "collects cache ?K (contributes cache cr region account) ?Q d (ret (Inr d))" if "a = Inl e" for e
    by (rule collects_same) (use that in \<open>auto simp: consumedDatabaseKeys_def\<close>)
  show ?case by (intro collects_sum collects_if collects_err shared none)
qed

lemma collects_addRDSConnections:
  assumes "rangesOver v" "grow K"
  shows "collects cache K (contributes cache cr region account) (databaseKeys cache cr) d (addRDSConnections v cr d)"
proof (cases "sp_RDS (ad_Spec cr)")
  case None
  then show ?thesis by (simp add: addRDSConnections_def databaseKeys_def collects_same)
next
  case (Some rs)
  have "collects cache K (contributes cache cr region account)
      (\<lambda>h S. (\<forall>n\<in>set (map i_Name (rds_Resources rs)). ownedDatabaseKeys cache cr n h S) \<and> (\<forall>ref\<in>set (rds_Consumes rs). consumedDatabaseKeys cache cr ref h S))
      d (addRDSConnections v cr d)"
    unfolding addRDSConnections_def Some option.case
    by (intro collects_then collects_untilError assms(2) lasting_ball lasting_ownedDatabase lasting_consumedDatabase
        collects_addConsumedRDS [OF assms(1) Some])
      (auto intro: collects_addOwnedRDS [OF assms(1) Some _ assms(2)] assms(2))
  then show ?thesis by (rule collects_weaken) (simp add: databaseKeys_def Some)
qed

subsection \<open>The whole map\<close>

lemma cacheSound_start: "cacheSound (describeCache w) w"
  by (simp add: cacheSound_def described_def)

lemma wp_buildConnectionData:
  assumes "rangesOver v"
  shows "wp (buildConnectionData v region account cr) (\<lambda>r w'. \<forall>data. r = Inr data \<longrightarrow> (\<exists>d. data = kd_values d
     \<and> keyed (contributes (describeCache w) cr region account) (trace w') d
     \<and> (\<forall>sec\<in>set (connectionSections cr). sectionKeys cr region account sec (trace w') (kd_sources d))
     \<and> databaseKeys (describeCache w) cr (trace w') (kd_sources d))) w"
proof -
  let ?C = "describeCache w"
  let ?Q = "\<lambda>h S. (\<forall>sec\<in>set (connectionSections cr). sectionKeys cr region account sec h S) \<and> databaseKeys ?C cr h S"
  have c: "collects ?C (\<lambda>_. True) (contributes ?C cr region account) ?Q NewKeyedData (do {
      r \<leftarrow> untilError (addSection v cr region account) (connectionSections cr) NewKeyedData;
      case r of Inl e \<Rightarrow> ret (Inl e) | Inr d \<Rightarrow> addRDSConnections v cr d })"
    by (intro collects_then collects_untilError collects_addSection collects_addRDSConnections [OF assms] grow_True lasting_ball lasting_section)
  have start: "cacheSound ?C w \<and> True \<and> keyed J (trace w) NewKeyedData" for J by (simp add: keyed_def NewKeyedData_def cacheSound_start)
  let ?R = "\<lambda>(r :: go_error + KeyedData) w'. \<forall>d. r = Inr d \<longrightarrow> keyed (contributes ?C cr region account) (trace w') d \<and> ?Q (trace w') (kd_sources d)"
  have "wp (untilError (addSection v cr region account) (connectionSections cr) NewKeyedData)
      (\<lambda>r. wp (case r of Inl e \<Rightarrow> ret (Inl e) | Inr d \<Rightarrow> addRDSConnections v cr d) ?R) w"
    by (rule wp_conseq [OF c [unfolded collects_def wp_bind, rule_format, OF start]], erule wp_conseq) blast
  then show ?thesis
    unfolding buildConnectionData_def wp_bind
  proof (rule wp_conseq, goal_cases)
    case (1 r w1)
    show ?case
    proof (cases r)
      case (Inl e)
      then show ?thesis by (simp add: wp_simps)
    next
      case (Inr d)
      then have "wp (addRDSConnections v cr d) ?R w1" using 1 by simp
      then show ?thesis unfolding Inr sum.case wp_bind
        by (rule wp_conseq) (auto simp: wp_simps split: sum.splits)
    qed
  qed
qed

text \<open>The source of an owned resource names its type and its name.\<close>

lemma sourceOf_head: "\<exists>r. sourceOf t n ns c = t @ CHR '' '' # r"
  by (simp add: sourceOf_def)

lemma sourceOf_prefix:
  assumes "sourceOf t n ns c = sourceOf t' n' ns' c'" "CHR '' '' \<notin> set t" "CHR '' '' \<notin> set t'"
  shows "t = t'"
proof -
  obtain r r' where "sourceOf t n ns c = t @ CHR '' '' # r" "sourceOf t' n' ns' c' = t' @ CHR '' '' # r'"
    using sourceOf_head by metis
  with assms(1) have "t @ CHR '' '' # r = t' @ CHR '' '' # r'" by simp
  from split_at_fresh [OF this assms(2,3)] show ?thesis by simp
qed

lemma sourceOf_owned: "sourceOf t n [] [] = sourceOf t n' [] [] \<Longrightarrow> n = n'"
  by (simp add: sourceOf_def quoted_def)

lemma sourceOf_consumed: "CHR '')'' \<notin> set c \<Longrightarrow> c \<noteq> [] \<Longrightarrow> sourceOf t n [] [] \<noteq> sourceOf t' n' ns c"
proof
  assume c: "CHR '')'' \<notin> set c" "c \<noteq> []" and "sourceOf t n [] [] = sourceOf t' n' ns c"
  then have "last (sourceOf t n [] []) = last (sourceOf t' n' ns c)" by simp
  then have "last c = CHR '')''" using c(2) by (simp add: sourceOf_def)
  then show False using c last_in_set [of c] by auto
qed

lemma section_types: "sec \<in> set (connectionSections cr) \<Longrightarrow> CHR '' '' \<notin> set (cs_resourceType sec) \<and> cs_resourceType sec \<noteq> TypeRDS"
  by (auto simp: connectionSections_def typeSQS_def typeSNS_def typeDynamoDB_def typeS3_def TypeRDS_def split: option.splits)

definition namedReferences :: "AppDependencies \<Rightarrow> bool" where
  "namedReferences cr \<longleftrightarrow> list_all (\<lambda>ref. cr_Name ref \<noteq> [] \<and> CHR '')'' \<notin> set (cr_Name ref))
     (concat (map cs_consumes (connectionSections cr)) @ (case sp_RDS (ad_Spec cr) of None \<Rightarrow> [] | Some s \<Rightarrow> rds_Consumes s))"

lemma contributes_owned:
  assumes "contributes cache cr region account h (sourceOf (cs_resourceType sec) n [] []) k val" "namedReferences cr"
    "sec \<in> set (connectionSections cr)" "FindManagedResource (ledgerOf cr) (cs_resourceType sec) n = Some e"
  shows "connectionKV (cs_resourceType sec) n (mr_ARN e) region account [] [] = Inr (k, val)"
proof -
  let ?s = "sourceOf (cs_resourceType sec) n [] []"
  note types = section_types [OF assms(3)]
  have "\<not> consumedValue cr region account h ?s k val"
  proof
    assume "consumedValue cr region account h ?s k val"
    then obtain sec' ref where r: "sec' \<in> set (connectionSections cr)" "ref \<in> set (cs_consumes sec')"
      "?s = sourceOf (cs_resourceType sec') (cr_ResourceName ref) (cr_Namespace ref) (cr_Name ref)" unfolding consumedValue_def by blast
    then have "cr_Name ref \<noteq> [] \<and> CHR '')'' \<notin> set (cr_Name ref)" using assms(2) by (auto simp: namedReferences_def list_all_iff)
    with r(3) sourceOf_consumed show False by blast
  qed
  moreover have "\<not> databaseValue cache cr h ?s k val"
  proof
    assume "databaseValue cache cr h ?s k val"
    then obtain arn n' ns c where "rdsValue cache h arn n' ns c ?s k val" unfolding databaseValue_def by blast
    then have "?s = sourceOf TypeRDS n' ns c" by (simp add: rdsValue_def)
    then have "cs_resourceType sec = TypeRDS" by (rule sourceOf_prefix) (use types in \<open>simp_all add: TypeRDS_def\<close>)
    with types show False by simp
  qed
  ultimately obtain sec' n' e' where o: "sec' \<in> set (connectionSections cr)" "FindManagedResource (ledgerOf cr) (cs_resourceType sec') n' = Some e'"
    "connectionKV (cs_resourceType sec') n' (mr_ARN e') region account [] [] = Inr (k, val)" "?s = sourceOf (cs_resourceType sec') n' [] []"
    using assms(1) unfolding contributes_def ownedValue_def by blast
  have t: "cs_resourceType sec = cs_resourceType sec'"
    by (rule sourceOf_prefix [OF o(4)]) (use types section_types [OF o(1)] in auto)
  with o(4) have "n = n'" by (simp add: sourceOf_owned)
  with t o(2,3) assms(4) show ?thesis by simp
qed

text \<open>
  C10: The connection ConfigMap never tells a workload of one resource under the key of another. When the data is built, each key has one
  source, and its value is what that source gives: a declared queue, topic, table or bucket of the ledger; one that a custom resource
  read in the pass has recorded, declares and shares with this one; or a field of the endpoint of a database, taken from a description, held from earlier in the pass or made in
  this building, of the instance whose ARN the ledger of this custom resource, or of one that shares the database with it, records. Nothing
  is left out: every declared resource that is recorded, every consumed one whose producer answered that it is recorded and shared, and
  every owned or shared database whose description has an endpoint is the source of its own keys, so resources that fold into the same key make
  the building fail; and an owned queue, topic, table or bucket has its own value there. Go ranges over the fields of a
  database in any order, and names of custom resources contain no closing parenthesis, as the custom resource definition requires.
\<close>

theorem connection_data_faithful:
  assumes "rangesOver v" "namedReferences cr" "run_state (buildConnectionData v region account cr) w = (Inr data, w')"
  shows "\<exists>sources. dom sources = dom data
    \<and> (\<forall>k s val. sources k = Some s \<longrightarrow> data k = Some val \<longrightarrow> contributes (describeCache w) cr region account (trace w') s k val)
    \<and> (\<forall>sec\<in>set (connectionSections cr). sectionKeys cr region account sec (trace w') sources)
    \<and> databaseKeys (describeCache w) cr (trace w') sources
    \<and> (\<forall>sec\<in>set (connectionSections cr). \<forall>n\<in>set (cs_owned sec). \<forall>e k val.
         FindManagedResource (ledgerOf cr) (cs_resourceType sec) n = Some e
         \<longrightarrow> connectionKV (cs_resourceType sec) n (mr_ARN e) region account [] [] = Inr (k, val) \<longrightarrow> data k = Some val)"
proof -
  obtain d where d: "data = kd_values d" "keyed (contributes (describeCache w) cr region account) (trace w') d"
    "\<forall>sec\<in>set (connectionSections cr). sectionKeys cr region account sec (trace w') (kd_sources d)"
    "databaseKeys (describeCache w) cr (trace w') (kd_sources d)"
    using wp_run [OF assms(3) wp_buildConnectionData [OF assms(1)]] by blast
  have val: "contributes (describeCache w) cr region account (trace w') s k val" if "kd_sources d k = Some s" "data k = Some val" for k s val
    using d(1,2) that unfolding keyed_def by fastforce
  have "data k = Some val" if h: "sec \<in> set (connectionSections cr)" "n \<in> set (cs_owned sec)"
    "FindManagedResource (ledgerOf cr) (cs_resourceType sec) n = Some e"
    "connectionKV (cs_resourceType sec) n (mr_ARN e) region account [] [] = Inr (k, val)" for sec n e k val
  proof -
    have s: "kd_sources d k = Some (sourceOf (cs_resourceType sec) n [] [])" using d(3) h unfolding sectionKeys_def ownedKeys_def by blast
    then obtain val' where v': "data k = Some val'" using d(1,2) unfolding keyed_def by (metis domD domI)
    from contributes_owned [OF val [OF s v'] assms(2) h(1,3)] h(4) v' show ?thesis by simp
  qed
  moreover have "dom (kd_sources d) = dom data" using d(1,2) by (simp add: keyed_def)
  ultimately show ?thesis using val d(3,4) by (intro exI [of _ "kd_sources d"]) blast
qed

definition demoTopicCR :: AppDependencies where
  "demoTopicCR = emptyCR\<lparr>md_Namespace := ''team'', md_Name := ''orders'',
     ad_Spec := (ad_Spec emptyCR)\<lparr>sp_SNS := Some \<lparr>sns_Resources = [\<lparr>t_Name = ''events'', t_DeletionPolicy = DeletionPolicyRetain, t_Force = False,
       t_SharedWith = [], t_Adopt = False, t_FIFO = False, t_Overrides = None, t_Encryption = None\<rparr>], sns_Consumes = []\<rparr>\<rparr>,
     ad_Status := (ad_Status emptyCR)\<lparr>st_ManagedResources := [zeroManagedResource\<lparr>mr_Type := typeSNS, mr_Name := ''events'',
       mr_ARN := ''arn:aws:sns:eu:1:orders-events''\<rparr>]\<rparr>\<rparr>"

theorem connection_data_faithful_witness:
  "\<exists>data. run_state (buildConnectionData refusingEnv ''eu'' ''1'' demoTopicCR) start = (Inr data, start)
    \<and> data ''SNS_EVENTS_ARN'' = Some ''arn:aws:sns:eu:1:orders-events''"
proof -
  have sec: "connectionSections demoTopicCR = [\<lparr>cs_resourceType = typeSNS, cs_owned = [''events''], cs_consumes = []\<rparr>]"
    by (simp add: connectionSections_def demoTopicCR_def emptyCR_def)
  have rds: "sp_RDS (ad_Spec demoTopicCR) = None" by (simp add: demoTopicCR_def emptyCR_def)
  have find: "FindManagedResource (ledgerOf demoTopicCR) typeSNS ''events''
      = Some (zeroManagedResource\<lparr>mr_Type := typeSNS, mr_Name := ''events'', mr_ARN := ''arn:aws:sns:eu:1:orders-events''\<rparr>)"
    by (simp add: demoTopicCR_def emptyCR_def)
  have kv: "connectionKV typeSNS ''events'' ''arn:aws:sns:eu:1:orders-events'' ''eu'' ''1'' [] []
      = Inr (''SNS_EVENTS_ARN'', ''arn:aws:sns:eu:1:orders-events'')"
  proof -
    have "envKey [''sns'', ''events'', ''ARN''] = ''SNS_EVENTS_ARN''" by code_simp
    then show ?thesis by (simp add: connectionKV_def connectionValue_def typeSNS_def typeSQS_def keyParts_def)
  qed
  obtain data where run: "run_state (buildConnectionData refusingEnv ''eu'' ''1'' demoTopicCR) start = (Inr data, start)"
    by (simp add: buildConnectionData_def sec addSection_def addRDSConnections_def rds addOwned_def find kv Put_def NewKeyedData_def)
  have named: "namedReferences demoTopicCR" by (simp add: namedReferences_def sec rds)
  have ranges: "rangesOver refusingEnv" by (simp add: rangesOver_def refusingEnv_def)
  from connection_data_faithful [OF ranges named run] have "data ''SNS_EVENTS_ARN'' = Some ''arn:aws:sns:eu:1:orders-events''"
    using find kv by (auto simp: sec)
  with run show ?thesis by blast
qed

section \<open>Who may write\<close>

definition refersTo :: "AppDependencies \<Rightarrow> OwnerReference \<Rightarrow> bool" where
  "refersTo cr owner \<longleftrightarrow> or_Name owner = md_Name cr \<and> or_UID owner = md_UID cr"

definition configMapFree :: "AppDependencies \<Rightarrow> history \<Rightarrow> bool" where
  "configMapFree cr h \<longleftrightarrow>
     (\<exists>e. K8sCall (GetConfigMap APIReader (md_Namespace cr) (ConfigMapName (md_Name cr)) (Inl e)) \<in> set h \<and> ex_k8s_notfound e)
   \<or> (\<exists>rd m. K8sCall (GetConfigMap rd (md_Namespace cr) (ConfigMapName (md_Name cr)) (Inr m)) \<in> set h \<and> controlledBy (cm_Controller m) (md_UID cr))"

definition secretOurs :: "AppDependencies \<Rightarrow> history \<Rightarrow> bool" where
  "secretOurs cr h \<longleftrightarrow> (\<exists>rd s. K8sCall (GetSecret rd (md_Namespace cr) (CredentialsSecretName (md_Name cr)) (Inr s)) \<in> set h
     \<and> controlledBy (se_Controller s) (md_UID cr))"

definition secretFree :: "AppDependencies \<Rightarrow> history \<Rightarrow> bool" where
  "secretFree cr h \<longleftrightarrow> secretOurs cr h
   \<or> (\<exists>e. K8sCall (GetSecret APIReader (md_Namespace cr) (CredentialsSecretName (md_Name cr)) (Inl e)) \<in> set h \<and> ex_k8s_notfound e)"

fun connectionGuard :: "AppDependencies \<Rightarrow> history \<Rightarrow> call \<Rightarrow> bool" where
  "connectionGuard cr h (K8sCall (ApplyConfigMap i r)) = (configMapFree cr h \<and> cy_Namespace i = md_Namespace cr
     \<and> cy_Name i = ConfigMapName (md_Name cr) \<and> refersTo cr (cy_OwnerReference i))"
| "connectionGuard cr h (K8sCall (ApplySecret i r)) = (secretFree cr h \<and> sx_Namespace i = md_Namespace cr
     \<and> sx_Name i = CredentialsSecretName (md_Name cr) \<and> refersTo cr (sx_OwnerReference i) \<and> sx_Data i \<noteq> Map.empty)"
| "connectionGuard cr h (K8sCall (DeleteSecret ns n r)) = (secretOurs cr h \<and> ns = md_Namespace cr \<and> n = CredentialsSecretName (md_Name cr))"
| "connectionGuard cr h (K8sCall (GetCR ns n r)) = True"
| "connectionGuard cr h (K8sCall (GetConfigMap rd ns n r)) = True"
| "connectionGuard cr h (K8sCall (GetSecret rd ns n r)) = True"
| "connectionGuard cr h (RDSCall (DescribeDBInstances k r)) = True"
| "connectionGuard cr h (SecretsCall (GetSecretValue a r)) = True"
| "connectionGuard cr h c = False"

lemma leftmono_connectionGuard: "leftmono (connectionGuard cr)"
  unfolding leftmono_def
proof (intro allI impI)
  fix x pre :: history and c :: call
  show "connectionGuard cr pre c \<Longrightarrow> connectionGuard cr (x @ pre) c"
    by (induction cr pre c rule: connectionGuard.induct) (auto simp: configMapFree_def secretFree_def secretOurs_def)
qed

definition readsConnection :: "call \<Rightarrow> bool" where
  "readsConnection c \<longleftrightarrow> (\<exists>ns n r. c = K8sCall (GetCR ns n r)) \<or> (\<exists>k r. c = RDSCall (DescribeDBInstances k r))
     \<or> (\<exists>a r. c = SecretsCall (GetSecretValue a r))"

lemma emits_untilError:
  assumes "\<And>x d. emits C (f x d)"
  shows "emits C (untilError f xs d)"
proof (induction xs arbitrary: d)
  case (Cons x xs)
  then show ?case by (auto intro!: emits_intros assms)
qed (simp add: emits_ret)

lemma reads_info: "emits readsConnection (ResolveConnectionInfo v arn)"
  unfolding ResolveConnectionInfo_def describeDBInstanceCached_def op_defs
  by (intro emits_intros emits_invoke) (auto simp: readsConnection_def)

lemma reads_data: "emits readsConnection (buildConnectionData v region account cr)" "emits readsConnection (buildCredentialsData v cr)"
  unfolding buildConnectionData_def addSection_def addConsumed_def ResolveConsumeARN_def resolveConsume_def lookupConsume_def
    addRDSConnections_def addOwnedRDS_def addConsumedRDS_def addSharedRDS_def buildCredentialsData_def addDeclaredCredentials_def
    addCredentials_def op_defs
  by (intro emits_intros emits_untilError emits_invoke reads_info, auto simp: readsConnection_def intro!: emits_intros)+

lemma guards_reads: "emits readsConnection m \<Longrightarrow> guards (connectionGuard cr) m"
  by (rule guards_emits [of readsConnection]) (auto simp: readsConnection_def)
lemma guardedTrace_reads: "list_all (\<lambda>c. \<forall>h. G h c) new \<Longrightarrow> guardedTrace G new"
proof (induction new rule: rev_induct)
  case (snoc c new)
  then show ?case by (simp add: guardedTrace_snoc)
qed simp

lemma wp_getConfigMap:
  "wp (getConfigMap v (md_Namespace cr) (ConfigMapName (md_Name cr))) (\<lambda>a w'. \<exists>new. trace w' = trace w @ new
     \<and> guardedTrace (connectionGuard cr) new
     \<and> (a = Inr None \<or> (\<exists>m. a = Inr (Some m) \<and> controlledBy (cm_Controller m) (md_UID cr)) \<longrightarrow> configMapFree cr new)) w"
  unfolding getConfigMap_def k8s_GetConfigMap_def
  by (auto simp: wp_simps configMapFree_def intro!: guardedTrace_reads split: sum.split)

lemma wp_getSecret:
  "wp (getSecret v (md_Namespace cr) (CredentialsSecretName (md_Name cr))) (\<lambda>a w'. \<exists>new. trace w' = trace w @ new
     \<and> guardedTrace (connectionGuard cr) new
     \<and> (a = Inr None \<longrightarrow> secretFree cr new) \<and> (\<forall>s. a = Inr (Some s) \<longrightarrow> controlledBy (se_Controller s) (md_UID cr) \<longrightarrow> secretOurs cr new)) w"
  unfolding getSecret_def k8s_GetSecret_def
  by (auto simp: wp_simps secretFree_def secretOurs_def intro!: guardedTrace_reads split: sum.split)

lemma seen_append:
  "configMapFree cr new \<Longrightarrow> configMapFree cr (new @ x)" "secretOurs cr new \<Longrightarrow> secretOurs cr (new @ x)"
  "secretFree cr new \<Longrightarrow> secretFree cr (new @ x)"
  by (auto simp: configMapFree_def secretFree_def secretOurs_def)

lemma emits_writes:
  "emits (\<lambda>c. \<exists>i r. c = K8sCall (ApplyConfigMap i r) \<and> cy_Namespace i = md_Namespace cr \<and> cy_Name i = ConfigMapName (md_Name cr)
     \<and> refersTo cr (cy_OwnerReference i)) (applyConfigMap v cr data)"
  "emits (\<lambda>c. \<exists>i r. c = K8sCall (ApplySecret i r) \<and> sx_Namespace i = md_Namespace cr \<and> sx_Name i = CredentialsSecretName (md_Name cr)
     \<and> refersTo cr (sx_OwnerReference i) \<and> sx_Data i = data) (applySecret v cr data)"
  "emits (\<lambda>c. \<exists>r. c = K8sCall (DeleteSecret (md_Namespace cr) (CredentialsSecretName (md_Name cr)) r)) (deleteSecret v cr)"
  unfolding applyConfigMap_def applySecret_def deleteSecret_def op_defs
  by (intro emits_intros emits_invoke, auto simp: refersTo_def crReference_def)+

lemma guards_applyConfigMap: "configMapFree cr new \<Longrightarrow> guards (\<lambda>x. connectionGuard cr (new @ x)) (applyConfigMap v cr data)"
  by (rule guards_emits [OF emits_writes(1)]) (auto intro: seen_append)

lemma guards_applySecret:
  "secretFree cr new \<Longrightarrow> data \<noteq> Map.empty \<Longrightarrow> guards (\<lambda>x. connectionGuard cr (new @ x)) (applySecret v cr data)"
  by (rule guards_emits [OF emits_writes(2)]) (auto intro: seen_append)

lemma guards_deleteSecret: "secretOurs cr new \<Longrightarrow> guards (\<lambda>x. connectionGuard cr (new @ x)) (deleteSecret v cr)"
  by (rule guards_emits [OF emits_writes(3)]) (auto intro: seen_append)

lemma guards_Ensure_cm: "guards (connectionGuard cr) (Ensure_cm v region account cr)"
  unfolding Ensure_cm_def
proof (rule guards_bind [OF leftmono_connectionGuard guards_reads [OF reads_data(1)]], rule guards_sum [OF guards_ret])
  fix data
  show "guards (connectionGuard cr) (do {
       x \<leftarrow> getConfigMap v (md_Namespace cr) (ConfigMapName (md_Name cr));
       case x of
         Inl e \<Rightarrow> ret (Some (ExtError e))
       | Inr None \<Rightarrow> applyConfigMap v cr data
       | Inr (Some existing) \<Rightarrow>
           if \<not> controlledBy (cm_Controller existing) (md_UID cr) then ret (Some (nameTaken ''ConfigMap'' (ConfigMapName (md_Name cr))))
           else if cm_Data existing = data \<and> goget (cm_Labels existing) ManagedLabelKey = ManagedLabelValue
                   \<and> AppliedBy (cm_AppliedBy existing) fieldOwner_cm
           then ret None
           else applyConfigMap v cr data })"
    by (rule guards_seq [OF wp_getConfigMap], intro guards_intros guards_applyConfigMap) blast+
qed

lemma guards_EnsureCredentialsSecret: "guards (connectionGuard cr) (EnsureCredentialsSecret v cr)"
  unfolding EnsureCredentialsSecret_def
proof (rule guards_bind [OF leftmono_connectionGuard guards_reads [OF reads_data(2)]], rule guards_sum [OF guards_ret])
  fix data
  have free: "secretOurs cr new \<Longrightarrow> secretFree cr new" for new by (simp add: secretFree_def)
  show "guards (connectionGuard cr) (do {
       x \<leftarrow> getSecret v (md_Namespace cr) (CredentialsSecretName (md_Name cr));
       case x of
         Inl e \<Rightarrow> ret (Some (ExtError e))
       | Inr None \<Rightarrow> if data = Map.empty then ret None else applySecret v cr data
       | Inr (Some existing) \<Rightarrow>
           if \<not> controlledBy (se_Controller existing) (md_UID cr) then ret (Some (nameTaken ''secret'' (CredentialsSecretName (md_Name cr))))
           else if data = Map.empty then deleteSecret v cr
           else if se_Data existing = data \<and> goget (se_Labels existing) ManagedLabelKey = ManagedLabelValue
                   \<and> AppliedBy (se_AppliedBy existing) secretFieldOwner
           then ret None
           else applySecret v cr data })"
    by (rule guards_seq [OF wp_getSecret], intro guards_intros guards_applySecret guards_deleteSecret) (auto intro: free)
qed

text \<open>
  C38: The delivery of connection info writes two objects of the namespace of the custom resource and nothing else: the ConfigMap and the
  Secret with its name, with an owner reference to it. Each is written only when the API server itself said in this pass that there is none,
  or after a read that shows it is controlled by this custom resource; the Secret is deleted only in the latter case, and never written
  empty.
\<close>

theorem connection_objects_guarded: "guards (connectionGuard cr) (connect v region account cr)"
  unfolding connect_def
  by (intro guards_bind [OF leftmono_connectionGuard] guards_intros guards_Ensure_cm guards_EnsureCredentialsSecret)

end
