(* ===== verification/Rds_Section.thy ===== *)
theory Rds_Section
  imports Iam_Section Connection
begin

text \<open>
  The section of a pass over databases, \<^verbatim>\<open>internal/controller/section_rds.go\<close>, and what finishing it means in a deletion.
\<close>

section \<open>The section\<close>

definition declaredInstances :: "AppDependenciesSpec \<Rightarrow> nat" where
  "declaredInstances spec = (case sp_RDS spec of None \<Rightarrow> 0 | Some s \<Rightarrow> length (rds_Resources s))"

definition rdsNetworkServiceAccountName :: "AppDependencies \<Rightarrow> string" where
  "rdsNetworkServiceAccountName cr =
     (if sp_NetworkServiceAccountName (ad_Spec cr) \<noteq> [] then sp_NetworkServiceAccountName (ad_Spec cr)
      else if sp_ServiceAccountName (ad_Spec cr) \<noteq> [] then sp_ServiceAccountName (ad_Spec cr)
      else md_Name cr)"

definition stuckInstanceNames :: "instance_result list \<Rightarrow> string list" where
  "stuckInstanceNames results = map fst (filter (\<lambda>res. snd res = InstanceStuckPendingDeletion) results)"

definition stuckError :: "instance_result list \<Rightarrow> go_error option" where
  "stuckError results =
     (if stuckInstanceNames results = [] then None
      else Some (ReconcileError (msgError ''instances removed from spec and stuck pending manual deletion'' (stuckInstanceNames results))
             False ''InstanceStuckPendingDeletion'' False))"

definition syncNetworkIdentity :: "env \<Rightarrow> reconciler \<Rightarrow> pass \<Rightarrow> go_error option op" where
  "syncNetworkIdentity v r p = do {
     cr \<leftarrow> getCR;
     (l, err) \<leftarrow>
       (case (case sp_RDS (ad_Spec cr) of None \<Rightarrow> [] | Some s \<Rightarrow> rds_Consumes s) of
          [] \<Rightarrow> CleanupPodNetworkIdentity v p (rdsNetworkServiceAccountName cr) (ledgerOf cr)
        | c # cs \<Rightarrow> EnsurePodNetworkIdentity v p (rc_Region r) (rc_AccountID r) (rc_PodBaseSecurityGroupIDs r)
                      (rdsNetworkServiceAccountName cr) (c # cs) (ledgerOf cr));
     setLedger l;
     ret err
   }"

definition reconcileDatabases :: "env \<Rightarrow> reconciler \<Rightarrow> pass \<Rightarrow> go_error option op" where
  "reconcileDatabases v r p = do {
     cr \<leftarrow> getCR;
     let q = passFor r p cr (sectionContext (ledgerOf cr) TypeRDS (declaredInstances (ad_Spec cr)));
     (l, ensureErr) \<leftarrow> Ensure_rds v q (rc_Region r) (rc_AccountID r) (sp_RDS (ad_Spec cr)) (ledgerOf cr);
     setLedger l;
     networkErr \<leftarrow> syncNetworkIdentity v r q;
     cr1 \<leftarrow> getCR;
     (l1, results, cleanupErr) \<leftarrow> Cleanup_rds v q (sp_RDS (ad_Spec cr1)) (ledgerOf cr1) False;
     setLedger l1;
     cr2 \<leftarrow> getCR;
     (l2, groupErr) \<leftarrow> CleanupInstanceSecurityGroups v q (sp_RDS (ad_Spec cr2)) (ledgerOf cr2) False;
     setLedger l2;
     let err = firstError ensureErr (firstError networkErr (firstError groupErr cleanupErr));
     setSectionCondition r p conditionTypeRDSReady (firstError err (stuckError results));
     ret err
   }"

definition waitingInstance :: "instance_result \<Rightarrow> string option" where
  "waitingInstance res = (case res of (name, reason) \<Rightarrow>
     (case reason of
        InstancePendingDeletion \<Rightarrow> Some (''rds '' @ quoted name @ '': PendingDeletion'')
      | InstanceStuckPendingDeletion \<Rightarrow> Some (''rds '' @ quoted name @ '': StuckPendingDeletion'')
      | InstanceRetained \<Rightarrow> None))"

definition finalizeGroups :: "env \<Rightarrow> pass \<Rightarrow> instance_result list \<Rightarrow> (bool \<times> string list \<times> go_error option) op" where
  "finalizeGroups v q results = do {
     cr \<leftarrow> getCR;
     (l, err) \<leftarrow> CleanupInstanceSecurityGroups v q (sp_RDS (ad_Spec cr)) (ledgerOf cr) True;
     setLedger l;
     case err of
       Some e \<Rightarrow> ret (False, [], Some e)
     | None \<Rightarrow> (let blocked = List.map_filter waitingInstance results in ret (blocked = [], blocked, None))
   }"

definition finalizeInstances :: "env \<Rightarrow> pass \<Rightarrow> (bool \<times> string list \<times> go_error option) op" where
  "finalizeInstances v q = do {
     cr \<leftarrow> getCR;
     (l, results, err) \<leftarrow> Cleanup_rds v q (sp_RDS (ad_Spec cr)) (ledgerOf cr) True;
     setLedger l;
     case err of Some e \<Rightarrow> ret (False, [], Some e) | None \<Rightarrow> finalizeGroups v q results
   }"

definition finalizeDatabases :: "env \<Rightarrow> reconciler \<Rightarrow> pass \<Rightarrow> (bool \<times> string list \<times> go_error option) op" where
  "finalizeDatabases v r p = do {
     cr \<leftarrow> getCR;
     let q = passFor r p cr (sectionDeletionContext (ledgerOf cr) TypeRDS (declaredInstances (ad_Spec cr)));
     (l, networkErr) \<leftarrow> CleanupPodNetworkIdentity v q (rdsNetworkServiceAccountName cr) (ledgerOf cr);
     setLedger l;
     case networkErr of Some e \<Rightarrow> ret (False, [], Some e) | None \<Rightarrow> finalizeInstances v q
   }"

definition rdsSection :: "env \<Rightarrow> reconciler \<Rightarrow> pass \<Rightarrow> Section" where
  "rdsSection v r p = \<lparr>sc_name = conditionTypeRDSReady, sc_reconcile = reconcileDatabases v r p, sc_finalize = finalizeDatabases v r p\<rparr>"

section \<open>The cleanups leave the custom resource alone\<close>

lemma keepsCR_rds_ops [keepsCR_intros]:
  "keepsCR (rds_ListTagsForResource v a)" "keepsCR (rds_AddTagsToResource v a t)" "keepsCR (rds_RemoveTagsFromResource v a ks)"
  "keepsCR (rds_DescribeDBSnapshots v k)" "keepsCR (rds_CreateDBSnapshot v i k t)" "keepsCR (rds_DeleteDBSnapshot v k)"
  "keepsCR (ec2_DescribeSecurityGroup v g)" "keepsCR (ec2_DeleteSecurityGroup v g)" "keepsCR (k8s_DeleteSecurityGroupPolicy v ns n)"
  by (simp_all add: op_defs keepsCR_invoke)

lemma keepsCR_bool [keepsCR_intros]: "keepsCR m \<Longrightarrow> keepsCR n \<Longrightarrow> keepsCR (case b of True \<Rightarrow> m | False \<Rightarrow> n)"
  by (cases b) simp_all

lemma keepsCR_deleteOwnedGroup [keepsCR_intros]: "keepsCR (deleteOwnedGroup v p g ctx)"
  unfolding deleteOwnedGroup_def securityGroupOwnedBy_def by (intro keepsCR_intros)

lemma keepsCR_cleanupGroups [keepsCR_intros]: "keepsCR (cleanupGroups v p declared l es acc)"
proof (induction es arbitrary: acc)
  case (Cons e es)
  show ?case unfolding cleanupGroups.simps by (intro keepsCR_intros Cons.IH)
qed (simp add: keepsCR_ret)

lemma keepsCR_instance_steps [keepsCR_intros]:
  "keepsCR (retireFinalSnapshot v p n l why)" "keepsCR (restoreDeclared_rds v p e l)" "keepsCR (retain_rds v p e l res)"
  "keepsCR (pendDeletion v p e l res)"
  unfolding restoreDeclared_rds_def retain_rds_def retainEntry_def relinquishIfStillTagged_rds_def untagInstance_def pendDeletion_def
    verifyInstanceOwned_def ensureFinalSnapshot_def createFinalSnapshot_def pollFinalSnapshot_def retireFinalSnapshot_def deleteSnapshot_def Let_def
  by (intro keepsCR_intros)+

lemma keepsCR_cleanupInstances [keepsCR_intros]: "keepsCR (cleanupInstances v p declared es acc)"
proof (induction es arbitrary: acc)
  case (Cons e es)
  show ?case unfolding cleanupInstances.simps by (intro keepsCR_intros Cons.IH)
qed (simp add: keepsCR_ret)

lemma keepsCR_orphanedSnapshots [keepsCR_intros]: "keepsCR (orphanedSnapshots v p es acc)"
proof (induction es arbitrary: acc)
  case (Cons e es)
  show ?case unfolding orphanedSnapshots.simps by (intro keepsCR_intros Cons.IH)
qed (simp add: keepsCR_ret)

lemma keepsCR_rds_Cleanups:
  "keepsCR (Cleanup_rds v p spec l del)" "keepsCR (CleanupInstanceSecurityGroups v p spec l del)" "keepsCR (CleanupPodNetworkIdentity v p n l)"
  unfolding Cleanup_rds_def checkOrphanedSnapshots_def CleanupInstanceSecurityGroups_def CleanupPodNetworkIdentity_def
    ReleaseNetworkIdentityLabel_def getServiceAccount_def Let_def
  by (intro keepsCR_intros)+

lemma returns_list [returns_intros]:
  "(x = [] \<Longrightarrow> returns P m) \<Longrightarrow> (\<And>a as. x = a # as \<Longrightarrow> returns P (f a as)) \<Longrightarrow> returns P (case x of [] \<Rightarrow> m | a # as \<Rightarrow> f a as)"
  by (cases x) simp_all

lemma returns_bool [returns_intros]: "(b \<Longrightarrow> returns P m) \<Longrightarrow> (\<not> b \<Longrightarrow> returns P n) \<Longrightarrow> returns P (case b of True \<Rightarrow> m | False \<Rightarrow> n)"
  by (cases b) simp_all

section \<open>What a finished cleanup leaves\<close>

definition instancePending :: "InstanceCleanupReason \<Rightarrow> bool" where "instancePending r \<longleftrightarrow> r \<noteq> InstanceRetained"

lemma cleanupInstances_loop:
  "cleanupInstances v p declared es acc = cleanupLoop TypeRDS declared (restoreDeclared_rds v p) (retain_rds v p) (pendDeletion v p) es acc"
  by (induction es arbitrary: acc) (simp_all add: split_beta)

lemma snapshot_type [simp]: "ResourceTypeRDSSnapshot \<noteq> TypeRDS" "TypeRDS \<noteq> ResourceTypeRDSSnapshot"
  by (simp_all add: ResourceTypeRDSSnapshot_def TypeRDS_def)

lemma returns_finalSnapshot:
  "returns (\<lambda>(l1, err). changesTypes {ResourceTypeRDSSnapshot} l l1) (ensureFinalSnapshot v p e t l)"
  unfolding ensureFinalSnapshot_def retireFinalSnapshot_def deleteSnapshot_def createFinalSnapshot_def pollFinalSnapshot_def Let_def
  by (intro returns_intros) (auto simp: changesTypes_def set_Remove dest!: set_Upsert Find_key)

interpretation tidy_instances: tidy_loop TypeRDS "{ResourceTypeRDSSnapshot}" instancePending "retain_rds v p" "pendDeletion v p" for v p
proof
  fix e :: ManagedResource and l and res :: "instance_result list"
  assume e: "mr_Type e = TypeRDS"
  show "returns (\<lambda>(l1, res1, err). set res \<subseteq> set res1
      \<and> (\<forall>x\<in>set l1. x \<in> set l \<or> mr_Type x = TypeRDS \<and> mr_DeletionPolicy x = mr_DeletionPolicy e)) (retain_rds v p e l res)"
  proof -
    have "returns (\<lambda>(l1, retained, err). \<forall>x\<in>set l1. x \<in> set l \<or> mr_Type x = TypeRDS \<and> mr_DeletionPolicy x = mr_DeletionPolicy e) (retainEntry v p e l)"
      unfolding retainEntry_def by (intro returns_intros) (use e in \<open>auto dest: set_Upsert simp: set_Remove\<close>)
    then show ?thesis unfolding retain_rds_def by (intro returns_bind [where Q = "\<lambda>(l1, retained, err). \<forall>x\<in>set l1. x \<in> set l \<or> mr_Type x = TypeRDS \<and> mr_DeletionPolicy x = mr_DeletionPolicy e"] returns_intros) auto
  qed
  show "returns (removed TypeRDS {ResourceTypeRDSSnapshot} instancePending e l res) (pendDeletion v p e l res)"
    unfolding pendDeletion_def Let_def
    by (intro returns_bind_any returns_sum returns_option returns_bool returns_if returns_ret returns_bind [OF returns_finalSnapshot] returns_prod)
      (use e in \<open>auto simp: removed_def waitingFor_def instancePending_def pendingDeletionReason_rds_def set_Remove changesTypes_def dest: set_Upsert\<close>)
qed simp

lemma returns_orphanedSnapshots: "returns (\<lambda>out. changesTypes {ResourceTypeRDSSnapshot} (fst acc) (fst out)) (orphanedSnapshots v p es acc)"
proof (induction es arbitrary: acc)
  case (Cons e es)
  obtain l err where acc: "acc = (l, err)" by (cases acc)
  have IH: "returns (\<lambda>out. changesTypes {ResourceTypeRDSSnapshot} l (fst out)) (orphanedSnapshots v p es a)"
    if "changesTypes {ResourceTypeRDSSnapshot} l (fst a)" for a
    by (rule returns_mono [OF Cons.IH]) (use changesTypes_trans [OF that] in auto)
  show ?case unfolding acc orphanedSnapshots.simps prod.case fst_conv
    by (intro returns_if returns_bind_any IH)
      (auto simp: orphanDue_def changesTypes_def set_Remove dest: set_Upsert split: sum.split list.split)
qed (simp add: returns_ret)

lemma instances_cleaned:
  "returns (leavesClean {TypeRDS, ResourceTypeRDSSnapshot} {TypeRDS} waitingInstance l) (Cleanup_rds v p spec l True)"
proof -
  have d: "declaredInstanceNames spec True = (\<lambda>_. False)" by (rule ext) (simp add: declaredInstanceNames_def split: option.split)
  have w: "\<not> instancePending r" if "List.map_filter waitingInstance res = []" "(n, r) \<in> set res" for res n r
    using that by (fastforce simp: map_filter_Nil waitingInstance_def instancePending_def split: InstanceCleanupReason.splits)
  have late: "leavesClean {TypeRDS, ResourceTypeRDSSnapshot} {TypeRDS} waitingInstance l (l2, res, firstError err err2)"
    if "changesTypes (insert TypeRDS {ResourceTypeRDSSnapshot}) l l1"
      "err = None \<and> (\<forall>(n, r)\<in>set res. \<not> instancePending r) \<longrightarrow> cleanedOf TypeRDS l1" "changesTypes {ResourceTypeRDSSnapshot} l1 l2"
    for l1 l2 res err err2
    using that changesTypes_trans [OF that(1) changesTypes_mono [OF that(3)]] cleanedOf_kept [of TypeRDS l1 "{ResourceTypeRDSSnapshot}" l2]
    by (auto simp: leavesClean_def dest: w split: option.splits)
  show ?thesis
    unfolding Cleanup_rds_def d cleanupInstances_loop checkOrphanedSnapshots_def
    by (intro returns_bind [OF tidy_instances.returns_cleaned] returns_prod
        returns_bind [OF returns_orphanedSnapshots [where acc = "(l1, None)" for l1, unfolded fst_conv]] returns_ret) (auto intro: late)
qed

text \<open>Without an error no group of an instance that has left the ledger stays in it.\<close>

lemma returns_cleanupGroups:
  "returns (\<lambda>out. set (fst out) \<subseteq> set (fst acc) \<and> sameExcept {typeSecurityGroup} (fst acc) (fst out)
     \<and> (snd out = None \<longrightarrow> snd acc = None \<and> (\<forall>e\<in>set (fst out). e \<in> set es \<longrightarrow> \<not> orphanedGroup declared l e)))
   (cleanupGroups v p declared l es acc)"
proof (induction es arbitrary: acc)
  case (Cons e es)
  obtain u err where acc: "acc = (u, err)" by (cases acc)
  have IH: "returns (\<lambda>out. set (fst out) \<subseteq> set u \<and> sameExcept {typeSecurityGroup} u (fst out)
      \<and> (snd out = None \<longrightarrow> err = None \<and> (\<forall>x\<in>set (fst out). x \<in> set (e # es) \<longrightarrow> \<not> orphanedGroup declared l x)))
    (cleanupGroups v p declared l es a)"
    if "set (fst a) \<subseteq> set u" "sameExcept {typeSecurityGroup} u (fst a)"
      "snd a = None \<longrightarrow> err = None \<and> (orphanedGroup declared l e \<longrightarrow> e \<notin> set (fst a))" for a
    by (rule returns_mono [OF Cons.IH]) (use that in \<open>auto intro: sameExcept_trans\<close>)
  have orphan: "e \<notin> set (RemoveManagedResource u typeSecurityGroup (mr_Name e))" if "orphanedGroup declared l e"
    using that by (auto simp: set_Remove orphanedGroup_def split: option.splits)
  show ?case unfolding acc cleanupGroups.simps prod.case fst_conv snd_conv
    by (intro returns_if returns_bind_any IH) (auto simp: set_Remove sameExcept_Remove dest: orphan split: option.split)
qed (simp add: returns_ret)

text \<open>The group of an instance stays only while the instance is in the ledger.\<close>

definition groupsDone :: "ledger \<Rightarrow> bool" where
  "groupsDone l \<longleftrightarrow> (\<forall>e\<in>set l. mr_Type e = typeSecurityGroup \<longrightarrow>
     (\<forall>inst. cutInstance (mr_Name e) = Some inst \<longrightarrow> HasManagedResource l TypeRDS inst))"

lemma sameExcept_Has: "sameExcept W l l' \<Longrightarrow> t \<notin> W \<Longrightarrow> HasManagedResource l' t n \<longleftrightarrow> HasManagedResource l t n"
  unfolding HasManagedResource_def sameExcept_def not_None_eq [symmetric] Find_None_iff by (auto simp: Find_None_iff)

lemma groupsDone_kept: "sameExcept W l l' \<Longrightarrow> typeSecurityGroup \<notin> W \<Longrightarrow> TypeRDS \<notin> W \<Longrightarrow> groupsDone l \<Longrightarrow> groupsDone l'"
  unfolding groupsDone_def by (auto simp: sameExcept_Has) (simp add: sameExcept_def)

lemma returns_instanceGroups:
  "returns (\<lambda>(l', err). set l' \<subseteq> set l \<and> (err = None \<longrightarrow> groupsDone l')) (CleanupInstanceSecurityGroups v p spec l True)"
proof -
  have d: "declaredInstanceNames spec True = (\<lambda>_. False)" by (rule ext) (simp add: declaredInstanceNames_def split: option.split)
  have "groupsDone l'" if "set l' \<subseteq> set l" "sameExcept {typeSecurityGroup} l l'" "\<forall>e\<in>set l'. e \<in> set l \<longrightarrow> \<not> orphanedGroup (\<lambda>_. False) l e" for l'
    using that sameExcept_Has [OF that(2), of TypeRDS] unfolding groupsDone_def orphanedGroup_def
    by (fastforce simp: typeSecurityGroup_def TypeRDS_def split: option.splits)
  then show ?thesis
    unfolding CleanupInstanceSecurityGroups_def d by (intro returns_mono [OF returns_cleanupGroups]) auto
qed

definition noPodGroup :: "ledger \<Rightarrow> bool" where
  "noPodGroup l \<longleftrightarrow> \<not> HasManagedResource l typeSecurityGroup podNetworkIdentityLedgerName"

lemma noPodGroup_kept: "changesTypes W l l' \<Longrightarrow> typeSecurityGroup \<notin> W \<Longrightarrow> noPodGroup l \<Longrightarrow> noPodGroup l'"
  unfolding noPodGroup_def HasManagedResource_def changesTypes_def Find_None_iff by auto

lemma noPodGroup_subset: "set l' \<subseteq> set l \<Longrightarrow> noPodGroup l \<Longrightarrow> noPodGroup l'"
  unfolding noPodGroup_def HasManagedResource_def Find_None_iff by auto

lemma returns_podGroup:
  "returns (\<lambda>(l', err). changesTypes {typeSecurityGroup} l l' \<and> (err = None \<longrightarrow> noPodGroup l')) (CleanupPodNetworkIdentity v p n l)"
  unfolding CleanupPodNetworkIdentity_def Let_def
    by (intro returns_intros)
      (auto simp: changesTypes_def set_Remove noPodGroup_def HasManagedResource_def Find_Remove dest!: set_Upsert Find_key split: if_splits)

lemma wp_keeps: "keepsCR m \<Longrightarrow> returns Q m \<Longrightarrow> wp m (\<lambda>a w'. memCR w' = memCR w \<and> Q a) w"
  unfolding keepsCR_def returns_def wp_def by (simp add: split_beta)

abbreviation databaseTypes :: "string set" where
  "databaseTypes \<equiv> {TypeRDS, ResourceTypeRDSSnapshot, typeSecurityGroup}"

definition databasesDone :: "ledger \<Rightarrow> bool" where
  "databasesDone l \<longleftrightarrow> cleanedOf TypeRDS l \<and> noPodGroup l \<and> groupsDone l"

lemma group_types [simp]: "typeSecurityGroup \<noteq> TypeRDS" "typeSecurityGroup \<noteq> ResourceTypeRDSSnapshot"
  by (simp_all add: typeSecurityGroup_def TypeRDS_def ResourceTypeRDSSnapshot_def)

lemma cleanedOf_subset: "set l' \<subseteq> set l \<Longrightarrow> cleanedOf ty l \<Longrightarrow> cleanedOf ty l'"
  by (auto simp: cleanedOf_def)

lemma wp_finalizeGroups:
  assumes "changesTypes databaseTypes l0 (ledgerOf (memCR w))" "noPodGroup (ledgerOf (memCR w))"
    and "List.map_filter waitingInstance results = [] \<longrightarrow> cleanedOf TypeRDS (ledgerOf (memCR w))"
  shows "wp (finalizeGroups v q results) (\<lambda>(secDone, blocked, err) w'. changesTypes databaseTypes l0 (ledgerOf (memCR w'))
    \<and> (secDone \<and> err = None \<longrightarrow> databasesDone (ledgerOf (memCR w')))) w"
proof -
  let ?cr = "memCR w"
  have sub: "changesTypes databaseTypes l0 l \<and> noPodGroup l \<and> (List.map_filter waitingInstance results = [] \<longrightarrow> cleanedOf TypeRDS l)"
    if "set l \<subseteq> set (ledgerOf ?cr)" for l
    using assms that cleanedOf_subset [OF that] noPodGroup_subset [OF that] by (auto simp: changesTypes_def)
  have "wp (CleanupInstanceSecurityGroups v q (sp_RDS (ad_Spec ?cr)) (ledgerOf ?cr) True) (\<lambda>a w'. memCR w' = ?cr
      \<and> (case a of (l', err) \<Rightarrow> set l' \<subseteq> set (ledgerOf ?cr) \<and> (err = None \<longrightarrow> groupsDone l'))) w"
    by (rule wp_keeps [OF keepsCR_rds_Cleanups(2) returns_instanceGroups])
  then show ?thesis
    unfolding finalizeGroups_def setLedger_def
    by (simp add: wp_simps) (erule wp_conseq, auto simp: wp_simps Let_def databasesDone_def dest: sub split: option.split)
qed

lemma wp_finalizeInstances:
  assumes "changesTypes databaseTypes l0 (ledgerOf (memCR w))" "noPodGroup (ledgerOf (memCR w))"
  shows "wp (finalizeInstances v q) (\<lambda>(secDone, blocked, err) w'. changesTypes databaseTypes l0 (ledgerOf (memCR w'))
    \<and> (secDone \<and> err = None \<longrightarrow> databasesDone (ledgerOf (memCR w')))) w"
proof -
  let ?cr = "memCR w"
  have "wp (Cleanup_rds v q (sp_RDS (ad_Spec ?cr)) (ledgerOf ?cr) True) (\<lambda>a w'. memCR w' = ?cr
      \<and> leavesClean {TypeRDS, ResourceTypeRDSSnapshot} {TypeRDS} waitingInstance (ledgerOf ?cr) a) w"
    by (rule wp_keeps [OF keepsCR_rds_Cleanups(1) instances_cleaned])
  moreover have "changesTypes databaseTypes l0 l \<and> noPodGroup l" if "changesTypes {TypeRDS, ResourceTypeRDSSnapshot} (ledgerOf ?cr) l" for l
    using changesTypes_trans [OF assms(1) changesTypes_mono [OF that]] noPodGroup_kept [OF that _ assms(2)] by auto
  ultimately show ?thesis
    unfolding finalizeInstances_def setLedger_def
    by (simp add: wp_simps) (erule wp_conseq, auto simp: wp_simps leavesClean_def split: option.split intro!: wp_finalizeGroups)
qed

lemma databases_finalize: "finalizes databaseTypes {TypeRDS} (rdsSection v r p)" "finishes (onLedger databasesDone) (rdsSection v r p)"
proof -
  have fin: "wp (finalizeDatabases v r p) (\<lambda>(secDone, blocked, err) w'. changesTypes databaseTypes (ledgerOf (memCR w)) (ledgerOf (memCR w'))
    \<and> (secDone \<and> err = None \<longrightarrow> databasesDone (ledgerOf (memCR w')))) w" for w
  proof -
    let ?cr = "memCR w"
    let ?q = "passFor r p ?cr (sectionDeletionContext (ledgerOf ?cr) TypeRDS (declaredInstances (ad_Spec ?cr)))"
    have "wp (CleanupPodNetworkIdentity v ?q (rdsNetworkServiceAccountName ?cr) (ledgerOf ?cr)) (\<lambda>a w'. memCR w' = ?cr
        \<and> (case a of (l', err) \<Rightarrow> changesTypes {typeSecurityGroup} (ledgerOf ?cr) l' \<and> (err = None \<longrightarrow> noPodGroup l'))) w"
      by (rule wp_keeps [OF keepsCR_rds_Cleanups(3) returns_podGroup])
    then show ?thesis
      unfolding finalizeDatabases_def setLedger_def Let_def
      by (simp add: wp_simps)
        (erule wp_conseq, auto simp: wp_simps split: option.split intro!: wp_finalizeInstances intro: changesTypes_mono)
  qed
  have "emits (\<lambda>c. \<not> patchesCR c) (finalizeDatabases v r p)"
    unfolding finalizeDatabases_def finalizeInstances_def finalizeGroups_def setLedger_def Let_def
    by (intro emits_intros) (simp_all add: keepsCR_rds_Cleanups [unfolded keepsCR_def])
  then show "finalizes databaseTypes {TypeRDS} (rdsSection v r p)"
    unfolding finalizes_def rdsSection_def by (auto simp: databasesDone_def intro: wp_conseq [OF fin])
  show "finishes (onLedger databasesDone) (rdsSection v r p)"
    unfolding finishes_def rdsSection_def by (auto intro: wp_conseq [OF fin])
qed

end
