(* ===== verification/Pass.thy ===== *)
theory Pass
  imports Rds_Section
begin

text \<open>
  The sections in the order of \<^verbatim>\<open>allSections\<close> and the whole pass built from them (\<^verbatim>\<open>internal/controller/desiredstate.go\<close>): when the
  finalizer goes, what a pass over resources of another region may do, and that a pass always comes back.
\<close>

section \<open>The sections\<close>

definition allSections :: "env \<Rightarrow> reconciler \<Rightarrow> pass \<Rightarrow> Section list" where
  "allSections v r p = map (\<lambda>s. s v r p)
     [kmsSection, sqsSection, snsSection, dynamodbSection, s3Section, rdsSection, alarmsSection, keyPolicySection, iamSection]"

definition deliverConnection :: "env \<Rightarrow> reconciler \<Rightarrow> pass \<Rightarrow> go_error option op" where
  "deliverConnection v r p = do { cr \<leftarrow> getCR; connect v (rc_Region r) (rc_AccountID r) cr }"

section \<open>A finished deletion\<close>

text \<open>
  The types of ledger entries that each section may rewrite when it finalizes. No type belongs to two sections, so what one section has
  finished no other undoes.
\<close>

definition footprints :: "env \<Rightarrow> reconciler \<Rightarrow> pass \<Rightarrow> (string set \<times> Section) list" where
  "footprints v r p = zip [{TypeKMS}, {typeSQS}, {typeSNS}, {typeDynamoDB}, {typeS3}, databaseTypes, {}, {}, {TypeIAM}] (allSections v r p)"

lemma footprints_sections: "snd ` set (footprints v r p) = set (allSections v r p)"
  by (simp add: footprints_def allSections_def)

lemma footprints_finalize: "(W, s) \<in> set (footprints v r p) \<Longrightarrow> \<exists>C. finalizes W C s"
  by (auto simp: footprints_def allSections_def
      intro: modelled_finalize data_finalize role_finalize(1) databases_finalize(1))

lemma deletion_achieves:
  assumes "\<And>W l l'. changesTypes W l l' \<Longrightarrow> ty \<notin> W \<Longrightarrow> K l \<Longrightarrow> K l'"
    and "\<forall>(W, s)\<in>set (footprints v r p). ty \<in> W \<longrightarrow> finishes (onLedger K) s" "\<exists>(W, s)\<in>set (footprints v r p). ty \<in> W"
  shows "wp (finalizeDesiredState r (allSections v r p)) (\<lambda>(d, err) w'. d \<and> err = None \<longrightarrow> K (ledgerOf (memCR w'))) w"
proof (rule finalized_clean; unfold footprints_sections [symmetric])
  have "preserves (onLedger K) s" if s: "(W, s) \<in> set (footprints v r p)" for W s
  proof (cases "ty \<in> W")
    case True
    then show ?thesis using s assms(2) by (auto intro: finishes_preserves)
  next
    case False
    from footprints_finalize [OF s] obtain C where "finalizes W C s" ..
    then show ?thesis by (rule finalizes_preserves) (rule assms(1) [OF _ False])
  qed
  then show "\<forall>s\<in>snd ` set (footprints v r p). preserves (onLedger K) s" by auto
  show "\<exists>s\<in>snd ` set (footprints v r p). finishes (onLedger K) s" using assms(2,3) by auto
qed

lemmas type_names = typeSQS_def typeSNS_def typeDynamoDB_def typeS3_def TypeRDS_def TypeKMS_def TypeIAM_def typeSecurityGroup_def
  ResourceTypeRDSSnapshot_def

lemmas section_names = conditionTypeKMSReady_def conditionTypeSQSReady_def conditionTypeSNSReady_def conditionTypeDynamoDBReady_def
  conditionTypeS3Ready_def conditionTypeRDSReady_def conditionTypeAlarmsReady_def conditionTypeKeyPolicyReady_def conditionTypeIAMReady_def

lemma finalizing_order:
  "finalizeOrder (allSections v r p) = map (\<lambda>s. s v r p)
     [sqsSection, snsSection, dynamodbSection, s3Section, rdsSection, alarmsSection, keyPolicySection, iamSection, kmsSection]"
  by (simp add: finalizeOrder_def allSections_def kmsSection_def sqsSection_def snsSection_def dynamodbSection_def s3Section_def rdsSection_def
      alarmsSection_def keyPolicySection_def iamSection_def section_names)

subsection \<open>Keys\<close>

text \<open>
  Data that stays although the custom resource goes, and that needs the key of an entry \<open>e\<close> to be read: its entry records the ARN that \<open>before\<close>
  has for the key, or the key is the one dedicated to it. A snapshot has the key of its database.
\<close>

definition neededByRetained :: "ledger \<Rightarrow> ledger \<Rightarrow> ManagedResource \<Rightarrow> bool" where
  "neededByRetained before l e \<longleftrightarrow> (\<exists>d\<in>set l. mr_Type d \<notin> {TypeKMS, TypeIAM} \<and> mr_DeletionPolicy d \<noteq> DeletionPolicyDelete
     \<and> ((\<exists>k\<in>set before. mr_key k = mr_key e \<and> mr_ARN k = mr_KMSKeyARN d)
        \<or> mr_Name e = DedicatedKeyLedgerName (if mr_Type d = ResourceTypeRDSSnapshot then TypeRDS else mr_Type d) (cutBefore (mr_Name d) CHR ''#'')))"

text \<open>A key of policy Delete that is still in the ledger: AWS was seen to have scheduled its deletion, or retained data needs it.\<close>

definition keysDone :: "nat \<Rightarrow> history \<Rightarrow> ledger \<Rightarrow> ledger \<Rightarrow> bool" where
  "keysDone n h before l \<longleftrightarrow> (\<forall>e\<in>set l. mr_Type e = TypeKMS \<and> mr_DeletionPolicy e = DeletionPolicyDelete \<longrightarrow>
     seenScheduled n h (mr_ARN e) \<or> neededByRetained before l e)"

lemma held_needed:
  assumes "heldForData (kmsKeysInUse cr False) (mr_Name e)" "mr_Type e = TypeKMS" "sameExcept {TypeKMS} (ledgerOf cr) l"
    and "\<forall>k\<in>set (ledgerOf cr). mr_Type k = TypeKMS \<longrightarrow> k \<in> set before"
  shows "neededByRetained before l e"
proof -
  have "list_ex ho_Retained (KeyHolders (ledgerOf cr) (mr_Name e))"
    using assms(1) by (auto simp: heldForData_def kmsKeysInUse_def Let_def split: if_splits)
  then obtain d where d: "d \<in> set (ledgerOf cr)" "heldKey (ledgerOf cr) (byARN (ledgerOf cr) Map.empty) d = Some (mr_Name e)"
    "mr_DeletionPolicy d \<noteq> DeletionPolicyDelete" by (auto simp: KeyHolders_eq list_ex_iff holderOf_def)
  have ty: "mr_Type d \<notin> {TypeKMS, TypeIAM}" using d(2) by (auto simp: heldKey_def)
  then have "d \<in> set l" using d(1) assms(3) by (simp add: sameExcept_def)
  moreover have "(\<exists>k\<in>set before. mr_key k = mr_key e \<and> mr_ARN k = mr_KMSKeyARN d)
      \<or> mr_Name e = DedicatedKeyLedgerName (if mr_Type d = ResourceTypeRDSSnapshot then TypeRDS else mr_Type d) (cutBefore (mr_Name d) CHR ''#'')"
    using d(2) ty assms(2,4) byARN_Some [of "ledgerOf cr" "mr_KMSKeyARN d" "mr_Name e"]
    by (fastforce simp: heldKey_def Let_def split: if_splits option.splits)
  ultimately show ?thesis using ty d(3) unfolding neededByRetained_def by blast
qed

lemma kms_finalized:
  assumes "n \<le> length (trace w)" "\<forall>k\<in>set (ledgerOf (memCR w)). mr_Type k = TypeKMS \<longrightarrow> k \<in> set before"
  shows "wp (sc_finalize (kmsSection v r p)) (\<lambda>(d, b, err) w'. sameExcept {TypeKMS} (ledgerOf (memCR w)) (ledgerOf (memCR w'))
    \<and> (d \<and> err = None \<longrightarrow> keysDone n (trace w') before (ledgerOf (memCR w')))) w"
proof -
  let ?cr = "memCR w"
  have pending: "\<not> waitingFor keyPending res name" if "List.map_filter waitingKey res = []" for res name
    using that by (fastforce simp: map_filter_Nil waitingKey_def waitingFor_def keyPending_def split: KeyCleanupReason.splits)
  have left: "keysDone n h before l" if "keysSettled (kmsKeysInUse ?cr False) n h [] (l, res, None)" "sameExcept {TypeKMS} (ledgerOf ?cr) l"
    "List.map_filter waitingKey res = []" for h l res
    using that(1) pending [OF that(3)] held_needed [OF _ _ that(2) assms(2)] by (auto simp: keysSettled_def keysDone_def)
  show ?thesis
    unfolding kmsSection_def Section.simps finalizeWith_def setLedger_def
    by (simp add: wp_simps, rule wp_conseq [OF wp_Cleanup_kms [OF assms(1)]])
      (auto simp: wp_simps Let_def intro: left split: option.split)
qed

lemma others_finalize:
  assumes "t \<in> set (map (\<lambda>s. s v r p) [sqsSection, snsSection, dynamodbSection, s3Section, rdsSection, alarmsSection, keyPolicySection, iamSection])"
  shows "\<exists>W C. finalizes W C t \<and> TypeKMS \<notin> W"
proof -
  have "TypeKMS \<notin> {typeSQS}" "TypeKMS \<notin> {typeSNS}" "TypeKMS \<notin> {typeDynamoDB}" "TypeKMS \<notin> {typeS3}" "TypeKMS \<notin> databaseTypes"
    "TypeKMS \<notin> {}" "TypeKMS \<notin> {TypeIAM}" by (simp_all add: type_names)
  with assms show ?thesis
    using modelled_finalize [of v r p] data_finalize [of v r p] role_finalize(1) [of v r p] databases_finalize(1) [of v r p]
    by (simp only: list.map list.set insert_iff empty_iff) (elim disjE; blast)
qed

lemma deletion_keys:
  "wp (finalizeDesiredState r (allSections v r p)) (\<lambda>(d, err) w'. d \<and> err = None
     \<longrightarrow> keysDone (length (trace w)) (trace w') (ledgerOf (memCR w)) (ledgerOf (memCR w'))) w"
proof (rule finalized_from [where pre = "map (\<lambda>s. s v r p) [sqsSection, snsSection, dynamodbSection, s3Section, rdsSection, alarmsSection,
    keyPolicySection, iamSection]" and post = "[]" and s = "kmsSection v r p" and I = "\<lambda>w1. length (trace w) \<le> length (trace w1)
      \<and> (\<forall>k\<in>set (ledgerOf (memCR w1)). mr_Type k = TypeKMS \<longrightarrow> k \<in> set (ledgerOf (memCR w)))"], goal_cases)
  case (3 t w1)
  from others_finalize [OF 3(1)] obtain W C where f: "finalizes W C t" "TypeKMS \<notin> W" by blast
  show ?case
    by (rule wp_conseq [OF wp_conj [OF finalizes_changes [OF f(1)] finalizes_grows [OF f(1)]]])
      (use 3(2) f(2) in \<open>auto simp: changesTypes_def\<close>)
next
  case (4 w1)
  then show ?case by (intro wp_conseq [OF kms_finalized [where before = "ledgerOf (memCR w)" and n = "length (trace w)"]]) auto
qed (simp_all add: finalizing_order)

subsection \<open>Everything else\<close>

lemma deletion_groups:
  "wp (finalizeDesiredState r (allSections v r p)) (\<lambda>(d, err) w'. d \<and> err = None \<longrightarrow> groupsDone (ledgerOf (memCR w'))) w"
proof (rule finalized_from [where pre = "map (\<lambda>s. s v r p) [sqsSection, snsSection, dynamodbSection, s3Section]" and s = "rdsSection v r p"
    and post = "map (\<lambda>s. s v r p) [alarmsSection, keyPolicySection, iamSection, kmsSection]" and I = "\<lambda>_. True"
    and K = "onLedger groupsDone"], goal_cases)
  case (4 w1)
  show ?case using databases_finalize(2) [of v r p] by (auto simp: finishes_def databasesDone_def intro: wp_conseq)
next
  case 5
  have kms: "wp (sc_finalize (kmsSection v r p)) (\<lambda>_ w'. sameExcept {TypeKMS} (ledgerOf (memCR w)) (ledgerOf (memCR w'))) w" for w
    by (rule wp_conseq [OF kms_finalized [where n = 0 and before = "ledgerOf (memCR w)"]]) auto
  have kept: "groupsDone l \<Longrightarrow> sameExcept {TypeIAM} l l' \<Longrightarrow> groupsDone l'" "groupsDone l \<Longrightarrow> sameExcept {TypeKMS} l l' \<Longrightarrow> groupsDone l'" for l l'
    by (erule (1) groupsDone_kept [rotated 3], simp_all add: type_names)+
  have "preserves (onLedger groupsDone) (iamSection v r p)"
    unfolding preserves_def by (intro allI impI, rule wp_conseq [OF role_finalize(3)]) (auto intro: kept(1))
  moreover have "preserves (onLedger groupsDone) (kmsSection v r p)"
    unfolding preserves_def by (intro allI impI, rule wp_conseq [OF kms]) (auto intro: kept(2))
  ultimately show ?case by (simp add: quiet_preserves quiet_sections)
qed (simp_all add: finalizing_order wp_def)

text \<open>
  What is left when a deletion that began in \<open>w\<close> is done in \<open>w1\<close>: no entry of policy Delete of a queue, topic, table, bucket or
  database; of the keys of policy Delete only those above; groups of instances only for instances that are still in the ledger, which are
  retained ones; no role, and no security group for the pods.
\<close>

definition everythingDone :: "world \<Rightarrow> world \<Rightarrow> bool" where
  "everythingDone w w1 \<longleftrightarrow> (let l = ledgerOf (memCR w1) in
     (\<forall>ty\<in>{typeSQS, typeSNS, typeDynamoDB, typeS3, TypeRDS}. cleanedOf ty l)
     \<and> keysDone (length (trace w)) (trace w1) (ledgerOf (memCR w)) l
     \<and> groupsDone l \<and> noRole l \<and> noPodGroup l)"

lemma finishes_databases: "finishes (onLedger (cleanedOf TypeRDS)) (rdsSection v r p)" "finishes (onLedger noPodGroup) (rdsSection v r p)"
  using databases_finalize(2) [of v r p] by (simp_all add: finishes_def databasesDone_def wp_def split_beta)

lemma deletion_done:
  "wp (finalizeDesiredState r (allSections v r p)) (\<lambda>(d, err) w'. d \<and> err = None \<longrightarrow> everythingDone w w') w"
proof -
  have own: "\<forall>(W, s)\<in>set (footprints v r p). ty \<in> W \<longrightarrow> finishes (onLedger (cleanedOf ty)) s" "\<exists>(W, s)\<in>set (footprints v r p). ty \<in> W"
    if "ty \<in> {typeSQS, typeSNS, typeDynamoDB, typeS3, TypeRDS}" for ty
    using that finalizes_finishes [OF modelled_finalize(2)] finalizes_finishes [OF modelled_finalize(3)]
      finalizes_finishes [OF data_finalize(1)] finalizes_finishes [OF data_finalize(2)] finishes_databases(1)
    by (auto simp: footprints_def allSections_def type_names)
  have "wp (finalizeDesiredState r (allSections v r p)) (\<lambda>(d, err) w'. d \<and> err = None \<longrightarrow> cleanedOf ty (ledgerOf (memCR w'))) w"
    if "ty \<in> {typeSQS, typeSNS, typeDynamoDB, typeS3, TypeRDS}" for ty
    by (rule deletion_achieves [OF _ own [OF that]]) (rule cleanedOf_kept)
  moreover have "wp (finalizeDesiredState r (allSections v r p)) (\<lambda>(d, err) w'. d \<and> err = None \<longrightarrow> noRole (ledgerOf (memCR w'))) w"
    by (rule deletion_achieves [OF noRole_kept]) (auto simp: footprints_def allSections_def type_names role_finalize(2))
  moreover have "wp (finalizeDesiredState r (allSections v r p)) (\<lambda>(d, err) w'. d \<and> err = None \<longrightarrow> noPodGroup (ledgerOf (memCR w'))) w"
    by (rule deletion_achieves [OF noPodGroup_kept]) (auto simp: footprints_def allSections_def type_names finishes_databases(2))
  ultimately show ?thesis using deletion_keys [of r v p w] deletion_groups [of r v p w]
    by (simp add: wp_def everythingDone_def Let_def split_beta)
qed

fun patchesFinalizers :: "call \<Rightarrow> bool" where
  "patchesFinalizers (K8sCall (PatchFinalizers ns n rv fs r)) \<longleftrightarrow> True"
| "patchesFinalizers c \<longleftrightarrow> False"

lemma patches_CR: "patchesFinalizers c \<Longrightarrow> patchesCR c"
  by (cases c rule: patchesFinalizers.cases) simp_all

lemma emits_finalizeSections: "\<forall>s\<in>set ss. emits C (sc_finalize s) \<Longrightarrow> emits C (finalizeSections ss acc)"
proof (induction ss arbitrary: acc)
  case (Cons s ss)
  have "emits C (sc_finalize s)" "\<And>acc. emits C (finalizeSections ss acc)" using Cons by simp_all
  then show ?case unfolding finalizeSections.simps by (intro emits_intros)
qed (simp add: emits_ret)

lemma emits_finalizing: "emits (\<lambda>c. \<not> patchesFinalizers c) (finalizeDesiredState r (allSections v r p))"
proof -
  have "emits (\<lambda>c. \<not> patchesCR c) (sc_finalize s)" if "s \<in> set (allSections v r p)" for s
    using that unfolding footprints_sections [symmetric] by (auto dest!: footprints_finalize simp: finalizes_def)
  then have "\<forall>s\<in>set (allSections v r p). emits (\<lambda>c. \<not> patchesFinalizers c) (sc_finalize s)"
    using patches_CR by (blast intro: emits_mono)
  then show ?thesis
    unfolding finalizeDesiredState_def updateConditions_def
    by (intro emits_intros emits_finalizeSections) (simp add: set_finalizeOrder)
qed

lemma emits_pace:
  "(\<And>x. C (RandCall x)) \<Longrightarrow> emits C (requeueDrift v)"
  "(\<And>x. C (RandCall x)) \<Longrightarrow> (\<And>d. C (LimiterCall (LimiterWhen k d))) \<Longrightarrow> emits C (transientDelay v k)"
  "C (LimiterCall (LimiterForget k)) \<Longrightarrow> emits C (resetTransientBackoff v k)"
  unfolding requeueDrift_def transientDelay_def resetTransientBackoff_def jitteredDriftRequeue_def jittered_def rand_Float64_def
    limiter_When_def limiter_Forget_def Let_def
  by (intro emits_intros emits_invoke; simp)+

lemma emits_setSectionCondition: "emits C (setSectionCondition r p t e)"
  unfolding setSectionCondition_def setCondition_def updateConditions_def Let_def by (intro emits_intros)
lemma emits_endPass:
  assumes "\<And>x. C (RandCall x)" "\<And>k d. C (LimiterCall (LimiterWhen k d))" "\<And>k. C (LimiterCall (LimiterForget k))"
    and "err = None \<Longrightarrow> emits C m"
  shows "emits C (endPass v (\<lambda>key e. transientDelay v key) err m)"
  unfolding endPass_def by (intro emits_intros emits_pace assms)

definition abandons :: "reconciler \<Rightarrow> AppDependencies \<Rightarrow> bool" where
  "abandons r cr \<longleftrightarrow> goget (md_Annotations cr) AbandonOtherRegionAnnotation \<noteq> [] \<and> hasResourceInOtherRegion (ledgerOf cr) (rc_Region r)"

lemma run_abandonOtherRegion: "\<not> abandons r (memCR w) \<Longrightarrow> run_state (abandonOtherRegion v r p) w = ((False, None), w)"
  by (auto simp: abandonOtherRegion_def abandons_def getCR_def)

lemma emits_refuseOtherRegion:
  "(\<And>ns n s b. C (K8sCall (PatchStatus ns n (ps_original p) s b))) \<Longrightarrow> emits C (refuseOtherRegion v r p)"
  unfolding refuseOtherRegion_def by (intro emits_intros emits_setSectionCondition emits_patchStatus)

lemma elsewhere_found:
  "find (elsewhere region) l = None \<longleftrightarrow> \<not> list_ex (elsewhere region) l"
  by (auto simp: find_None_iff list_ex_iff)

lemma run_refuseOtherRegion:
  "\<not> hasResourceInOtherRegion (ledgerOf (memCR w)) (rc_Region r) \<Longrightarrow> run_state (refuseOtherRegion v r p) w = ((False, None), w)"
  by (auto simp: refuseOtherRegion_def hasResourceInOtherRegion_def getCR_def elsewhere_found [symmetric])

lemma wp_setSectionCondition:
  "wp (setSectionCondition r p t e) (\<lambda>_ w'. trace w' = trace w \<and> (\<exists>cs. memCR w' = withConditions (memCR w) cs)) w"
  by (auto simp: setSectionCondition_def setCondition_def updateConditions_def Let_def wp_simps split: option.split)

text \<open>A refusal patches the status once, with the ledger as it was.\<close>

definition patchesConditions :: "AppDependencies \<Rightarrow> call \<Rightarrow> bool" where
  "patchesConditions cr c \<longleftrightarrow> (\<exists>b cs a. c = K8sCall (PatchStatus (md_Namespace cr) (md_Name cr) b ((ad_Status cr)\<lparr>st_Conditions := cs\<rparr>) a))"

lemma wp_refusal:
  "wp (do { setSectionCondition r p t e; err \<leftarrow> patchStatus v b; ret (True, err) })
     (\<lambda>a w'. fst a \<and> (\<exists>c. trace w' = trace w @ [c] \<and> patchesConditions (memCR w) c)) w"
  unfolding wp_bind
  by (rule wp_conseq [OF wp_setSectionCondition])
    (auto simp: patchStatus_def wp_simps patchesConditions_def split: sum.split)

lemma wp_refuseOtherRegion:
  "hasResourceInOtherRegion (ledgerOf (memCR w)) (rc_Region r) \<Longrightarrow>
     wp (refuseOtherRegion v r p) (\<lambda>a w'. fst a \<and> (\<exists>c. trace w' = trace w @ [c] \<and> patchesConditions (memCR w) c)) w"
  by (cases "find (elsewhere (rc_Region r)) (ledgerOf (memCR w))")
    (auto simp: refuseOtherRegion_def hasResourceInOtherRegion_def wp_getCR wp_bind [of getCR] elsewhere_found intro: wp_refusal)

lemma wp_refuseLegacyKMSKeyRef:
  "wp (refuseLegacyKMSKeyRef v r p) (\<lambda>a w'. if legacyKMSKeyRefPath (ad_Spec (memCR w)) = [] then a = (False, None) \<and> w' = w
     else fst a \<and> (\<exists>c. trace w' = trace w @ [c] \<and> patchesConditions (memCR w) c)) w"
  by (simp add: refuseLegacyKMSKeyRef_def wp_getCR wp_bind [of getCR] Let_def wp_refusal wp_ret)
lemma wp_requeueDrift:
  "wp (requeueDrift v) (\<lambda>_ w'. \<exists>x. trace w' = trace w @ [RandCall x]) w"
  by (simp add: requeueDrift_def jitteredDriftRequeue_def jittered_def rand_Float64_def Let_def wp_simps)

lemma wp_reconcileDelete:
  "\<not> abandons r (memCR w) \<Longrightarrow> hasResourceInOtherRegion (ledgerOf (memCR w)) (rc_Region r) \<Longrightarrow>
     wp (reconcileDelete v r secs p original)
       (\<lambda>_ w'. \<exists>new. trace w' = trace w @ new \<and> (\<forall>c\<in>set new. patchesConditions (memCR w) c \<or> (\<exists>x. c = RandCall x))) w"
  unfolding reconcileDelete_def
  by (simp add: wp_getCR wp_bind [of getCR] wp_ret wp_bind [of "abandonOtherRegion _ _ _"] wp_def [of "abandonOtherRegion _ _ _"]
      run_abandonOtherRegion wp_bind [of "refuseOtherRegion _ _ _"])
    (auto simp: wp_ret intro!: wp_conseq [OF wp_refuseOtherRegion] wp_conseq [OF wp_requeueDrift])

text \<open>The course of a deletion pass that finalizes.\<close>

lemma wp_finalizing:
  assumes "hasFinalizer (memCR w)" "\<not> abandons r (memCR w)" "\<not> hasResourceInOtherRegion (ledgerOf (memCR w)) (rc_Region r)"
  shows "wp (reconcileDelete v r secs p original) Q w
    = wp (finalizeDesiredState r (secs (p\<lparr>ps_original := None\<rparr>)) \<bind> (\<lambda>(allDone, err). endDeletion v original allDone err)) Q w"
  unfolding reconcileDelete_def
  by (simp add: assms wp_getCR wp_bind [of getCR] wp_bind [of "abandonOtherRegion _ _ _"] wp_def [of "abandonOtherRegion _ _ _"]
      run_abandonOtherRegion wp_bind [of "refuseOtherRegion _ _ _"] wp_def [of "refuseOtherRegion _ _ _"] run_refuseOtherRegion)

lemma deletion_without_finalizer:
  assumes "\<not> abandons r (memCR w)"
    and "\<And>w1. run_state (finalizeDesiredState r (allSections v r (p\<lparr>ps_original := None\<rparr>))) w \<noteq> ((True, None), w1)"
  shows "wp (reconcileDelete v r (allSections v r) p original)
    (\<lambda>_ w'. \<exists>new. trace w' = trace w @ new \<and> (\<forall>c\<in>set new. \<not> patchesFinalizers c)) w"
proof (cases "hasResourceInOtherRegion (ledgerOf (memCR w)) (rc_Region r)")
  case True
  show ?thesis
    by (rule wp_conseq [OF wp_reconcileDelete [OF assms(1) True]]) (fastforce simp: patchesConditions_def)
next
  case False
  let ?C = "\<lambda>c. \<not> patchesFinalizers c"
  let ?Q = "\<lambda>_ w'. \<exists>new. trace w' = trace w @ new \<and> (\<forall>c\<in>set new. ?C c)"
  let ?fin = "finalizeDesiredState r (allSections v r (p\<lparr>ps_original := None\<rparr>))"
  obtain allDone err w1 where f: "run_state ?fin w = ((allDone, err), w1)" by (metis surj_pair)
  then have nd: "\<not> (allDone \<and> err = None)" using assms(2) by auto
  have "emits ?C (endDeletion v original allDone err)"
    unfolding endDeletion_def
    by (intro emits_intros emits_endPass emits_patchStatus) (use nd in \<open>auto simp: firstError_def intro: emits_pace split: option.splits\<close>)
  moreover obtain new where new: "trace w1 = trace w @ new" "\<forall>c\<in>set new. ?C c"
    using emits_finalizing [of r v "p\<lparr>ps_original := None\<rparr>"] f unfolding emits_def by (metis snd_conv)
  ultimately have "wp (endDeletion v original allDone err) ?Q w1" by (auto intro!: wp_conseq [OF wp_emits])
  then show ?thesis
    by (cases "hasFinalizer (memCR w)")
      (simp_all add: wp_finalizing [OF _ assms(1) False] wp_bind [of ?fin] wp_def [of ?fin] f,
        simp add: reconcileDelete_def wp_getCR wp_bind [of getCR] wp_ret)
qed

text \<open>
  C1: The finalizer of a custom resource that is being deleted is taken off only when there is nothing left to do for it. Every write of
  the finalizers by a deletion pass means that the pass finalized every section without an error and with none of them waiting, and
  that the ledger it then had holds no entry of policy Delete of a queue, a topic, a table, a bucket or a database, no security group
  of an instance that is not itself still in the ledger (and so retained), no role, and no security group for the pods; and a key of policy
  Delete only if a call of the pass showed that AWS has already scheduled its deletion, or if retained data of the ledger needs it. The
  exception is that an annotation tells the operator to abandon resources that are in another region.
\<close>
theorem finalizer_removed_only_when_done:
  assumes "run_state (reconcileDelete v r (allSections v r) p original) w = (res, w')"
    and "c \<in> set (drop (length (trace w)) (trace w'))" "patchesFinalizers c"
  shows "abandons r (memCR w)
    \<or> (\<exists>w1. run_state (finalizeDesiredState r (allSections v r (p\<lparr>ps_original := None\<rparr>))) w = ((True, None), w1)
         \<and> everythingDone w w1)"
proof (cases "\<exists>w1. run_state (finalizeDesiredState r (allSections v r (p\<lparr>ps_original := None\<rparr>))) w = ((True, None), w1)")
  case True
  then obtain w1 where f: "run_state (finalizeDesiredState r (allSections v r (p\<lparr>ps_original := None\<rparr>))) w = ((True, None), w1)" ..
  have "everythingDone w w1" using wp_run [OF f deletion_done] by simp
  with f show ?thesis by blast
next
  case False
  show ?thesis
  proof (rule ccontr)
    assume "\<not> ?thesis"
    with False wp_run [OF assms(1) deletion_without_finalizer] show False using assms(2,3) by fastforce
  qed
qed

definition demoReconciler :: reconciler where
  "demoReconciler = \<lparr>rc_Region = ''eu-west-1'', rc_AccountID = ''123456789012'', rc_OIDCProviderARN = [], rc_OIDCProviderURL = [],
     rc_PodBaseSecurityGroupIDs = [], rc_Recorder = True, rc_DisableReleaseTags = False, rc_meta = listMeta,
     rc_errorText = (\<lambda>e. []), rc_pages = (\<lambda>d. 1)\<rparr>"

definition demoDeleting :: AppDependencies where
  "demoDeleting = emptyCR\<lparr>md_Finalizers := [finalizerName], md_Deleting := True\<rparr>"

definition demoGone :: env where
  "demoGone = demoAlarmEnv\<lparr>env_k8s := (env_k8s refusingEnv)\<lparr>ha_PatchFinalizers := \<lambda>h ns n rv fs. Inr (emptyCR\<lparr>md_Deleting := True\<rparr>)\<rparr>\<rparr>"

lemma demo_alarms:
  "ps_pageBudget q = 1 \<Longrightarrow> wp (Cleanup_alarms demoGone q pl) (\<lambda>a w'. a = None \<and> memCR w' = memCR w) w"
  by (simp add: Cleanup_alarms_def reconcileAlarms_def listAlarmsByPrefix_def demoGone_def demoAlarmEnv_def refusingCw_def
      cw_DescribeAlarms_def deleteUndeclaredAlarms_def existingNames_def refusingEnv_def wp_simps)

lemma demo_step:
  assumes "memCR w = demoDeleting"
  shows "\<forall>s\<in>set (allSections demoGone demoReconciler p). wp (sc_finalize s) (\<lambda>a w'. a = (True, [], None) \<and> memCR w' = demoDeleting) w"
proof -
  have "wp (sc_finalize (alarmsSection demoGone demoReconciler p)) (\<lambda>a w'. a = (True, [], None) \<and> memCR w' = demoDeleting) w"
    unfolding alarmsSection_def Let_def Section.simps wp_bind wp_getCR
    by (rule wp_conseq [OF demo_alarms]) (simp_all add: assms wp_simps passFor_def demoReconciler_def)
  with assms show ?thesis
    unfolding allSections_def
    by (simp add: firstError_def kmsSection_def sqsSection_def snsSection_def dynamodbSection_def s3Section_def rdsSection_def
      keyPolicySection_def iamSection_def finalizeWith_def finalizeDatabases_def finalizeInstances_def finalizeGroups_def finalizeRole_def
      Cleanup_kms_def Cleanup_sqs_def Cleanup_sns_def Cleanup_ddb_def Cleanup_s3_def Cleanup_rds_def checkOrphanedSnapshots_def Cleanup_iam_def Cleanup_sa_def
      stillNeeded_def CleanupPodNetworkIdentity_def CleanupInstanceSecurityGroups_def setLedger_def setIAMRoleARN_def
      setServiceAccountName_def Let_def demoDeleting_def emptyCR_def wp_simps)
qed

lemma demo_finalized:
  assumes "memCR w = demoDeleting" "set ss \<subseteq> set (allSections demoGone demoReconciler p)"
  shows "wp (finalizeSections ss (True, [], None)) (\<lambda>a w'. a = (True, [], None) \<and> memCR w' = demoDeleting) w"
  using assms
proof (induction ss arbitrary: w)
  case (Cons s ss)
  have "wp (sc_finalize s) (\<lambda>a w'. a = (True, [], None) \<and> memCR w' = demoDeleting) w" using demo_step [OF Cons.prems(1)] Cons.prems(2) by auto
  then show ?case
    unfolding finalizeSections.simps wp_bind by (rule wp_conseq) (use Cons in auto)
qed (simp add: wp_ret)

theorem finalizer_removed_only_when_done_witness:
  "\<exists>w1. run_state (finalizeDesiredState demoReconciler (allSections demoGone demoReconciler
      ((passOf demoReconciler 0 demoDeleting)\<lparr>ps_original := None\<rparr>))) (start\<lparr>memCR := demoDeleting\<rparr>) = ((True, None), w1)
    \<and> everythingDone (start\<lparr>memCR := demoDeleting\<rparr>) w1"
proof -
  let ?w = "start\<lparr>memCR := demoDeleting\<rparr>"
  let ?p = "passOf demoReconciler 0 demoDeleting"
  let ?m = "reconcileDelete demoGone demoReconciler (allSections demoGone demoReconciler) ?p (ad_Status demoDeleting)"
  have region: "\<not> abandons demoReconciler demoDeleting" "\<not> hasResourceInOtherRegion (ledgerOf demoDeleting) (rc_Region demoReconciler)"
    "hasFinalizer demoDeleting"
    by (simp_all add: hasFinalizer_def abandons_def hasResourceInOtherRegion_def demoDeleting_def emptyCR_def)
  have f: "wp (finalizeDesiredState demoReconciler (allSections demoGone demoReconciler (?p\<lparr>ps_original := None\<rparr>)))
      (\<lambda>a w'. a = (True, None) \<and> memCR w' = demoDeleting) ?w"
    unfolding finalizeDesiredState_def wp_bind
    by (rule wp_conseq [OF demo_finalized [where p = "?p\<lparr>ps_original := None\<rparr>"]]) (simp_all add: set_finalizeOrder wp_simps)
  have "wp ?m (\<lambda>_ w'. patchesFinalizers (last (trace w')) \<and> trace w' \<noteq> []) ?w"
    by (simp add: wp_finalizing region, subst wp_bind, rule wp_conseq [OF f], auto simp: wp_simps endDeletion_def endPass_def
        resetTransientBackoff_def limiter_Forget_def removeFinalizer_def patchFinalizers_def sameStatus_def region(3) demoGone_def firstError_def)
  then have "patchesFinalizers (last (trace (snd (run_state ?m ?w))))" "trace (snd (run_state ?m ?w)) \<noteq> []"
    by (simp_all add: wp_def split_beta)
  then show ?thesis
    using finalizer_removed_only_when_done [of demoGone demoReconciler ?p "ad_Status demoDeleting" ?w "fst (run_state ?m ?w)"
        "snd (run_state ?m ?w)" "last (trace (snd (run_state ?m ?w)))"] region(1)
    by (simp add: start_def)
qed

section \<open>Resources of another region\<close>

lemma wp_reconcileNormal:
  assumes "hasResourceInOtherRegion (ledgerOf (memCR w)) (rc_Region r)"
  shows "wp (reconcileNormal v r secs deliver p original)
    (\<lambda>_ w'. \<exists>new. trace w' = trace w @ new \<and> (\<forall>c\<in>set new. patchesConditions (memCR w) c \<or> (\<exists>x. c = RandCall x))) w"
  unfolding reconcileNormal_def wp_bind [of "refuseLegacyKMSKeyRef _ _ _"]
  by (rule wp_conseq [OF wp_refuseLegacyKMSKeyRef])
    (auto simp: wp_ret wp_bind [of "refuseOtherRegion _ _ _"] split: if_splits
      intro!: wp_conseq [OF wp_refuseOtherRegion [OF assms]] wp_conseq [OF wp_requeueDrift])

text \<open>
  C12: A pass touches nothing when the ledger shows a resource of another region than the one the operator works in, where every name it
  would look up means another resource. Whatever the environment answers, the pass reads the custom resource and then at most patches
  its status, with the conditions changed and the ledger as it was, and draws the number that spreads its return. The exception
  is a custom resource being deleted whose annotation abandons such resources.
\<close>
theorem other_region_touches_nothing:
  assumes "ha_GetCR (env_k8s v) (trace w) (fst req) (snd req) = Inr cr" "hasResourceInOtherRegion (ledgerOf cr) (rc_Region r)"
    and "\<not> (md_Deleting cr \<and> abandons r cr)"
    and "run_state (Reconcile v r (allSections v r) (deliverConnection v r) now req) w = (res, w')"
  shows "\<exists>new. trace w' = trace w @ K8sCall (GetCR (fst req) (snd req) (Inr cr)) # new
    \<and> (\<forall>c\<in>set new. patchesConditions cr c \<or> (\<exists>x. c = RandCall x))"
proof -
  let ?w = "w\<lparr>trace := trace w @ [K8sCall (GetCR (fst req) (snd req) (Inr cr))], memCR := cr\<rparr>"
  let ?Q = "\<lambda>_ w'. \<exists>new. trace w' = trace ?w @ new \<and> (\<forall>c\<in>set new. patchesConditions (memCR ?w) c \<or> (\<exists>x. c = RandCall x))"
  have "wp (Reconcile v r (allSections v r) (deliverConnection v r) now req) ?Q w"
    unfolding Reconcile_def k8s_GetCR_def
    using assms(1-3) wp_reconcileNormal [of ?w r v "allSections v r" "deliverConnection v r" "passOf r now cr" "ad_Status cr"]
      wp_reconcileDelete [of r ?w v "allSections v r" "passOf r now cr" "ad_Status cr"]
    by (simp add: wp_bind wp_invoke wp_setCR split: sum.split)
  from wp_run [OF assms(4) this] show ?thesis by auto
qed

definition demoMoved :: AppDependencies where
  "demoMoved = emptyCR\<lparr>ad_Status := (ad_Status emptyCR)\<lparr>st_ManagedResources := [demoKey\<lparr>mr_ARN := ''arn:aws:kms:us-east-1:123456789012:key/k1''\<rparr>]\<rparr>\<rparr>"

definition demoServes :: "AppDependencies \<Rightarrow> env" where
  "demoServes cr = demoClock\<lparr>env_k8s := (env_k8s refusingEnv)\<lparr>ha_GetCR := \<lambda>h ns n. Inr cr\<rparr>\<rparr>"

theorem other_region_touches_nothing_witness:
  "\<exists>new. trace (snd (run_state (Reconcile (demoServes demoMoved) demoReconciler (allSections (demoServes demoMoved) demoReconciler)
      (deliverConnection (demoServes demoMoved) demoReconciler) 0 (''team'', ''orders'')) start))
      = K8sCall (GetCR ''team'' ''orders'' (Inr demoMoved)) # new
    \<and> list_all (\<lambda>c. patchesConditions demoMoved c \<or> (\<exists>x. c = RandCall x)) new"
proof -
  have m: "hasResourceInOtherRegion (ledgerOf demoMoved) (rc_Region demoReconciler)" by code_simp
  have d: "\<not> (md_Deleting demoMoved \<and> abandons demoReconciler demoMoved)" by (simp add: demoMoved_def emptyCR_def)
  have g: "ha_GetCR (env_k8s (demoServes demoMoved)) (trace start) (fst (''team'', ''orders'')) (snd (''team'', ''orders'')) = Inr demoMoved"
    by (simp add: demoServes_def)
  from other_region_touches_nothing [OF g m d surjective_pairing, of 0] show ?thesis by (simp add: start_def list_all_iff)
qed

section \<open>Coming back\<close>

text \<open>A pass is repeated when it returns an error, which the work queue retries, or a delay; the delays are between 24 seconds and six minutes.\<close>

definition comesBack :: "Result \<Rightarrow> bool" where
  "comesBack res \<longleftrightarrow> snd res \<noteq> None \<or> 24 * second \<le> fst res \<and> fst res \<le> 6 * minute"

lemma aroundPace_bounds:
  "aroundPace pace d \<Longrightarrow> pace \<in> {30 * second, 60 * second, 2 * minute, 5 * minute} \<Longrightarrow> 24 * second \<le> d \<and> d \<le> 6 * minute"
  by (auto simp: aroundPace_def clock_defs)

lemma returns_requeueDrift: "randLaws v \<Longrightarrow> returns comesBack (requeueDrift v)"
  unfolding requeueDrift_def returns_def
  using wp_jitteredDriftRequeue [of v] aroundPace_bounds [of DriftDetectionInterval]
  by (fastforce simp: wp_def split_beta comesBack_def DriftDetectionInterval_def)

lemma returns_retryDelay:
  "randLaws v \<Longrightarrow> limiterLaws v \<Longrightarrow> returns (\<lambda>d. 24 * second \<le> d \<and> d \<le> 6 * minute) (retryDelay v key e)"
  unfolding returns_def
proof
  fix w
  assume "randLaws v" "limiterLaws v"
  from retry_delay_bounds [OF this surjective_pairing, where key = key and err = e and w = w]
  show "24 * second \<le> fst (run_state (retryDelay v key e) w) \<and> fst (run_state (retryDelay v key e) w) \<le> 6 * minute"
    by (intro aroundPace_bounds [of "if asWaitingError e then DriftDetectionInterval else retryPace (failuresOf (trace w) key)"])
      (auto simp: DriftDetectionInterval_def)
qed

lemma returns_transientDelay:
  "randLaws v \<Longrightarrow> limiterLaws v \<Longrightarrow> returns (\<lambda>d. 24 * second \<le> d \<and> d \<le> 6 * minute) (transientDelay v key)"
  using returns_retryDelay [of v key "ExtError refuse"] by (simp add: retryDelay_def returns_def split_beta)

lemma returns_endPass:
  assumes "\<And>key e. returns (\<lambda>d. 24 * second \<le> d \<and> d \<le> 6 * minute) (delayFor key e)" "err = None \<Longrightarrow> returns comesBack m"
  shows "returns comesBack (endPass v delayFor err m)"
  unfolding endPass_def
  by (intro returns_intros returns_bind [OF assms(1)] assms(2)) (simp_all add: comesBack_def)

lemma returns_endDeletion:
  assumes "randLaws v" "limiterLaws v" "\<not> (allDone \<and> err = None)"
  shows "returns comesBack (endDeletion v original allDone err)"
  unfolding endDeletion_def
  by (intro returns_intros returns_endPass returns_transientDelay assms(1,2))
    (use assms in \<open>auto simp: firstError_def intro: returns_requeueDrift split: option.splits\<close>)

lemma normal_comes_back:
  assumes "randLaws v" "limiterLaws v" "legacyKMSKeyRefPath (ad_Spec (memCR w)) = []"
  shows "wp (reconcileNormal v r secs deliver p original) (\<lambda>a w'. comesBack a) w"
proof -
  let ?rest = "do {
       (refused, err) \<leftarrow> refuseOtherRegion v r p;
       if err \<noteq> None then ret (0, map_option ExtError err)
       else if refused then requeueDrift v
       else do {
         fErr \<leftarrow> ensureFinalizer v;
         case fErr of
           Some e \<Rightarrow> ret (0, Some (ExtError e))
         | None \<Rightarrow> do {
             before \<leftarrow> getCR;
             err \<leftarrow> ensureDesiredState v r secs deliver p;
             after \<leftarrow> getCR;
             statusErr \<leftarrow> (if statusNeedsPatch (md_ResourceVersion before) original after then patchStatus v (Some original) else ret None);
             endPass v (retryDelay v) (firstError err (map_option ExtError statusErr)) (requeueDrift v)
           }
       }
     }"
  have "returns comesBack ?rest"
    by (intro returns_intros returns_endPass returns_retryDelay returns_requeueDrift assms(1,2)) (auto simp: comesBack_def)
  then show ?thesis
    unfolding reconcileNormal_def wp_bind [of "refuseLegacyKMSKeyRef _ _ _"]
    by (intro wp_conseq [OF wp_refuseLegacyKMSKeyRef]) (use assms(3) in \<open>simp add: wp_returns\<close>)
qed

lemma deletion_comes_back:
  assumes "randLaws v" "limiterLaws v" "hasFinalizer (memCR w)" "\<not> abandons r (memCR w)"
    and "fst (run_state (finalizeDesiredState r (secs (p\<lparr>ps_original := None\<rparr>))) w) \<noteq> (True, None)"
  shows "wp (reconcileDelete v r secs p original) (\<lambda>a w'. comesBack a) w"
proof (cases "hasResourceInOtherRegion (ledgerOf (memCR w)) (rc_Region r)")
  case True
  have "wp (refuseOtherRegion v r p) (\<lambda>(refused, err). wp (if err \<noteq> None then ret (0, map_option ExtError err)
      else if refused then requeueDrift v else m) (\<lambda>a w'. comesBack a)) w" for m
    by (rule wp_conseq [OF wp_refuseOtherRegion [OF True]])
      (auto simp: wp_ret comesBack_def intro!: wp_conseq [OF wp_returns [OF returns_requeueDrift [OF assms(1)]]])
  with assms(3) show ?thesis
    unfolding reconcileDelete_def
    by (simp add: wp_getCR wp_bind [of getCR] wp_bind [of "abandonOtherRegion _ _ _"] wp_def [of "abandonOtherRegion _ _ _"]
        run_abandonOtherRegion [OF assms(4)] wp_bind [of "refuseOtherRegion _ _ _"] case_prod_unfold)
next
  case False
  let ?fin = "finalizeDesiredState r (secs (p\<lparr>ps_original := None\<rparr>))"
  obtain allDone err w1 where f: "run_state ?fin w = ((allDone, err), w1)" by (metis surj_pair)
  then have "\<not> (allDone \<and> err = None)" using assms(5) by auto
  from returns_endDeletion [OF assms(1,2) this]
  have "wp (endDeletion v original allDone err) (\<lambda>a w'. comesBack a) w1" by (rule wp_returns)
  then show ?thesis
    by (simp add: wp_finalizing [OF assms(3,4) False] wp_bind [of ?fin] wp_def [of ?fin] f)
qed

text \<open>
  C11: A custom resource is never forgotten. When the limiter and the random numbers behave as documented, every pass over an existing custom
  resource ends, and it ends with an error, which the work queue retries, or with a delay between 24 seconds and six minutes after
  which the next pass comes. The exceptions are those in which nothing is left to do: a custom resource being deleted that has no finalizer
  any more, that abandons its resources of another region or whose sections all report done, and one with a key reference
  of a form that only an edit, which wakes the operator, can mend.
\<close>
theorem every_pass_comes_back:
  assumes "randLaws v" "limiterLaws v" "ha_GetCR (env_k8s v) (trace w) (fst req) (snd req) = Inr cr"
  shows "comesBack (fst (run_state (Reconcile v r (allSections v r) (deliverConnection v r) now req) w))
    \<or> (if md_Deleting cr
        then hasFinalizer cr \<longrightarrow> abandons r cr
          \<or> fst (run_state (finalizeDesiredState r (allSections v r ((passOf r now cr)\<lparr>ps_original := None\<rparr>)))
              (w\<lparr>trace := trace w @ [K8sCall (GetCR (fst req) (snd req) (Inr cr))], memCR := cr\<rparr>)) = (True, None)
        else legacyKMSKeyRefPath (ad_Spec cr) \<noteq> [])"
proof -
  define w0 where "w0 = w\<lparr>trace := trace w @ [K8sCall (GetCR (fst req) (snd req) (Inr cr))], memCR := cr\<rparr>"
  let ?secs = "allSections v r"
  let ?deliver = "deliverConnection v r"
  have run: "run_state (Reconcile v r ?secs ?deliver now req) w
      = run_state (if md_Deleting cr then reconcileDelete v r ?secs (passOf r now cr) (ad_Status cr)
          else reconcileNormal v r ?secs ?deliver (passOf r now cr) (ad_Status cr)) w0"
    using assms(3) by (simp add: Reconcile_def k8s_GetCR_def invoke_def setCR_def w0_def)
  have "comesBack (fst (run_state (reconcileNormal v r ?secs ?deliver (passOf r now cr) (ad_Status cr)) w0))"
    if "legacyKMSKeyRefPath (ad_Spec cr) = []"
    using normal_comes_back [OF assms(1,2), of w0] that by (simp add: w0_def wp_def split_beta)
  moreover have "comesBack (fst (run_state (reconcileDelete v r ?secs (passOf r now cr) (ad_Status cr)) w0))"
    if "hasFinalizer cr" "\<not> abandons r cr"
      "fst (run_state (finalizeDesiredState r (?secs ((passOf r now cr)\<lparr>ps_original := None\<rparr>))) w0) \<noteq> (True, None)"
    using deletion_comes_back [OF assms(1,2), of w0 r ?secs "passOf r now cr" "ad_Status cr"] that
    by (simp add: w0_def wp_def split_beta)
  ultimately show ?thesis by (auto simp: run w0_def [symmetric])
qed

theorem every_pass_comes_back_witness:
  "comesBack (fst (run_state (Reconcile (demoServes emptyCR) demoReconciler (allSections (demoServes emptyCR) demoReconciler)
     (deliverConnection (demoServes emptyCR) demoReconciler) 0 (''team'', ''orders'')) start))"
proof -
  have laws: "randLaws (demoServes emptyCR)" "limiterLaws (demoServes emptyCR)"
    using demoClock_laws by (simp_all add: demoServes_def randLaws_def limiterLaws_def)
  have g: "ha_GetCR (env_k8s (demoServes emptyCR)) (trace start) (fst (''team'', ''orders'')) (snd (''team'', ''orders'')) = Inr emptyCR"
    by (simp add: demoServes_def)
  have "\<not> md_Deleting emptyCR" "legacyKMSKeyRefPath (ad_Spec emptyCR) = []"
    by (simp_all add: emptyCR_def legacyKMSKeyRefPath_def encryptedResources_def)
  with every_pass_comes_back [OF laws g, of demoReconciler 0] show ?thesis by simp
qed

section \<open>Listings\<close>

definition markerOf :: "TagPage \<Rightarrow> string option option" where
  "markerOf pg = (if tp_Truncated pg then Some (tp_NextMarker pg) else None)"

text \<open>
  C37: The loops that read the tags of a key, a table or a role page by page end, and they end with everything. Against a service whose
  listing from the first page on has \<open>n\<close> pages, a loop returns the tags of all of them in order when its deadline leaves time for \<open>n\<close>
  calls, and the error of the deadline, never a part of the tags, when it does not. Ownership is therefore never judged by a part.
\<close>
theorem tag_listings_complete:
  assumes "\<And>h m. ka_ListResourceTags (env_kms v) h key m = Inr (keyPage m)" "servesPages keyPage tp_Tags markerOf None n1 tags1"
    and "\<And>h m. da_ListTagsOfResource (env_ddb v) h table m = Inr (tablePage m)"
      "servesPages tablePage fst (\<lambda>pg. map_option Some (snd pg)) None n2 tags2"
    and "\<And>h m. ia_ListRoleTags (env_iam v) h role m = Inr (rolePage m)" "servesPages rolePage tp_Tags markerOf None n3 tags3"
  shows "fst (run_state (listAllResourceTags v p key) w) = (if n1 \<le> ps_pageBudget p then Inr tags1 else Inl deadlineExceeded)
    \<and> fst (run_state (listAllTags v p table) w) = (if n2 \<le> ps_pageBudget p then Inr tags2 else Inl deadlineExceeded)
    \<and> fst (run_state (listAllRoleTags v p role) w) = (if n3 \<le> ps_pageBudget p then Inr tags3 else Inl deadlineExceeded)"
  using key_tag_pages.loop_complete [OF assms(1) assms(2) [unfolded markerOf_def [abs_def]], of "ps_pageBudget p" "[]" w]
    table_tag_pages.loop_complete [OF assms(3,4), of "ps_pageBudget p" "[]" w]
    role_tag_pages.loop_complete [OF assms(5) assms(6) [unfolded markerOf_def [abs_def]], of "ps_pageBudget p" "[]" w]
  by (simp add: listAllResourceTags_def listAllTags_def listAllRoleTags_def)

definition demoTagPage :: "string option \<Rightarrow> TagPage" where
  "demoTagPage m = (if m = None then \<lparr>tp_Tags = [(Some ''owner'', Some ''u1'')], tp_Truncated = True, tp_NextMarker = Some ''2''\<rparr>
     else \<lparr>tp_Tags = [(Some ''team'', Some ''a'')], tp_Truncated = False, tp_NextMarker = None\<rparr>)"

definition demoTags :: env where
  "demoTags = refusingEnv\<lparr>env_kms := refusingKms\<lparr>ka_ListResourceTags := \<lambda>h k m. Inr (demoTagPage m)\<rparr>,
     env_ddb := refusingDdb\<lparr>da_ListTagsOfResource := \<lambda>h a m. Inr ([(Some ''owner'', Some ''u1'')], None)\<rparr>,
     env_iam := refusingIam\<lparr>ia_ListRoleTags := \<lambda>h n m. Inr (demoTagPage m)\<rparr>\<rparr>"

theorem tag_listings_complete_witness:
  "fst (run_state (listAllResourceTags demoTags demoPass ''k'') start) = Inr [(Some ''owner'', Some ''u1''), (Some ''team'', Some ''a'')]
   \<and> fst (run_state (listAllTags demoTags (demoPass\<lparr>ps_pageBudget := 1\<rparr>) ''t'') start) = Inr [(Some ''owner'', Some ''u1'')]
   \<and> fst (run_state (listAllRoleTags demoTags (demoPass\<lparr>ps_pageBudget := 1\<rparr>) ''r'') start) = Inl deadlineExceeded"
proof -
  have pages: "servesPages demoTagPage tp_Tags markerOf None (Suc 1) [(Some ''owner'', Some ''u1''), (Some ''team'', Some ''a'')]"
    using servesPages.servesMore [OF _ servesPages.servesLast, of markerOf demoTagPage None "Some ''2''" tp_Tags]
    by (simp add: demoTagPage_def markerOf_def)
  have one: "servesPages (\<lambda>m. ([(Some ''owner'', Some ''u1'')], None)) fst (\<lambda>pg. map_option Some (snd pg)) None 1 [(Some ''owner'', Some ''u1'')]"
    using servesPages.servesLast [of "\<lambda>pg. map_option Some (snd pg)" "\<lambda>m. ([(Some ''owner'', Some ''u1'')], None)" None fst] by simp
  note all = tag_listings_complete [of demoTags _ demoTagPage, OF _ pages _ one _ pages]
  show ?thesis
    using all [of "''k''" "''t''" "''r''" demoPass start] all [of "''k''" "''t''" "''r''" "demoPass\<lparr>ps_pageBudget := 1\<rparr>" start]
    by (simp add: demoTags_def demoPass_def)
qed

end
