(* ===== verification/Watches.thy ===== *)
theory Watches
  imports References Rds_Network
begin

text \<open>
  What makes the operator look at a custom resource: the predicates of \<^verbatim>\<open>internal/controller/predicates\<close>, the indexes and map functions of
  \<^verbatim>\<open>internal/controller/watches\<close>, and the watches that \<^verbatim>\<open>SetupWithManager\<close> builds from them. The parts of controller-runtime that
  these use are fields of a record, an argument of everything here, and \<open>runtimeLaws\<close> is what its documentation promises.
\<close>

section \<open>The runtime\<close>

datatype 'o event = CreateEvent 'o | UpdateEvent 'o 'o | DeleteEvent 'o | GenericEvent 'o

record 'o predicate_funcs =
  pf_CreateFunc :: "('o \<Rightarrow> bool) option"
  pf_UpdateFunc :: "('o \<Rightarrow> 'o \<Rightarrow> bool) option"
  pf_DeleteFunc :: "('o \<Rightarrow> bool) option"
  pf_GenericFunc :: "('o \<Rightarrow> bool) option"

type_synonym request = "string \<times> string"
type_synonym cr_predicate = "AppDependencies event \<Rightarrow> bool"

record runtime =
  rt_GenerationChangedPredicate :: cr_predicate
  rt_Or :: "cr_predicate \<Rightarrow> cr_predicate \<Rightarrow> cr_predicate"
  rt_Funcs :: "AppDependencies predicate_funcs \<Rightarrow> cr_predicate"
  rt_EnqueueRequestForObject :: "AppDependencies event \<Rightarrow> request list"
  rt_EnqueueRequestsFromMapFunc :: "(AppDependencies \<Rightarrow> request list) \<Rightarrow> AppDependencies event \<Rightarrow> request list"
  rt_List :: "string \<Rightarrow> string \<Rightarrow> AppDependencies list reply"

section \<open>Predicates\<close>

definition ForceReconcileAnnotation :: string where "ForceReconcileAnnotation = ''cloudctl.io/force-reconcile''"

definition setOrChanged :: "(string \<rightharpoonup> string) \<Rightarrow> (string \<rightharpoonup> string) \<Rightarrow> string \<Rightarrow> bool" where
  "setOrChanged oldAnn newAnn key \<longleftrightarrow> goget newAnn key \<noteq> [] \<and> goget newAnn key \<noteq> goget oldAnn key"

definition onUpdate :: "('o \<Rightarrow> 'o \<Rightarrow> bool) \<Rightarrow> 'o predicate_funcs" where
  "onUpdate f = \<lparr>pf_CreateFunc = None, pf_UpdateFunc = Some f, pf_DeleteFunc = None, pf_GenericFunc = None\<rparr>"

definition AppDependenciesPredicate :: "runtime \<Rightarrow> cr_predicate" where
  "AppDependenciesPredicate rt = rt_Or rt (rt_GenerationChangedPredicate rt)
     (rt_Funcs rt (onUpdate (\<lambda>old new.
        goget (md_Annotations old) ForceReconcileAnnotation \<noteq> goget (md_Annotations new) ForceReconcileAnnotation
        \<or> setOrChanged (md_Annotations old) (md_Annotations new) AdoptFromUIDAnnotation
        \<or> setOrChanged (md_Annotations old) (md_Annotations new) ForceDeleteAllAnnotation
        \<or> setOrChanged (md_Annotations old) (md_Annotations new) AbandonOtherRegionAnnotation)))"

definition ledgerARNs :: "AppDependencies \<Rightarrow> (string \<rightharpoonup> string)" where
  "ledgerARNs cr = foldl (\<lambda>arns r. arns(mr_Type r @ ''/'' @ mr_Name r \<mapsto> mr_ARN r)) Map.empty (ledgerOf cr)"

definition ProducerChangedPredicate :: "runtime \<Rightarrow> cr_predicate" where
  "ProducerChangedPredicate rt = rt_Or rt (AppDependenciesPredicate rt)
     (rt_Funcs rt \<lparr>pf_CreateFunc = Some (\<lambda>_. False), pf_UpdateFunc = Some (\<lambda>old new. ledgerARNs old \<noteq> ledgerARNs new),
        pf_DeleteFunc = Some (\<lambda>_. False), pf_GenericFunc = Some (\<lambda>_. False)\<rparr>)"

definition SpecOrDeletionChangedPredicate :: "runtime \<Rightarrow> cr_predicate" where
  "SpecOrDeletionChangedPredicate rt = rt_Funcs rt
     \<lparr>pf_CreateFunc = Some (\<lambda>_. True),
      pf_UpdateFunc = Some (\<lambda>old new. md_Generation old \<noteq> md_Generation new \<or> md_Deleting old \<noteq> md_Deleting new),
      pf_DeleteFunc = Some (\<lambda>_. True), pf_GenericFunc = Some (\<lambda>_. False)\<rparr>"

text \<open>The watched objects are service accounts, so the annotations are a parameter.\<close>

definition AnnotationValueChangedPredicate :: "('o \<Rightarrow> (string \<rightharpoonup> string)) \<Rightarrow> string \<Rightarrow> 'o predicate_funcs" where
  "AnnotationValueChangedPredicate annotations key =
     \<lparr>pf_CreateFunc = Some (\<lambda>_. True), pf_UpdateFunc = Some (\<lambda>old new. goget (annotations old) key \<noteq> goget (annotations new) key),
      pf_DeleteFunc = Some (\<lambda>_. True), pf_GenericFunc = Some (\<lambda>_. True)\<rparr>"

definition rdsConsumes :: "AppDependencies \<Rightarrow> ConsumeRef list" where
  "rdsConsumes cr = (case sp_RDS (ad_Spec cr) of None \<Rightarrow> [] | Some s \<Rightarrow> rds_Consumes s)"

definition PodNetworkIdentityPublishedPredicate :: "runtime \<Rightarrow> cr_predicate" where
  "PodNetworkIdentityPublishedPredicate rt = rt_Funcs rt
     \<lparr>pf_CreateFunc = Some (\<lambda>_. True),
      pf_UpdateFunc = Some (\<lambda>old new. orElse (PodNetworkIdentityARN old) [] \<noteq> orElse (PodNetworkIdentityARN new) []
        \<or> md_Deleting old \<noteq> md_Deleting new \<or> rdsConsumes old \<noteq> rdsConsumes new),
      pf_DeleteFunc = Some (\<lambda>_. True), pf_GenericFunc = Some (\<lambda>_. False)\<rparr>"

section \<open>Indexes\<close>

definition IndexConsumesFrom :: string where "IndexConsumesFrom = ''cloudctl.io/consumes-from''"
definition IndexRDSSubnetGroup :: string where "IndexRDSSubnetGroup = ''cloudctl.io/rds-subnet-group''"
definition IndexRDSSharedWith :: string where "IndexRDSSharedWith = ''cloudctl.io/rds-shared-with''"

definition NamespacedKey :: "string \<Rightarrow> string \<Rightarrow> string" where
  "NamespacedKey namespace name = namespace @ ''/'' @ name"

definition indexConsumesFrom :: "AppDependencies \<Rightarrow> string list" where
  "indexConsumesFrom cr =
     (let spec = ad_Spec cr; add = map (\<lambda>ref. NamespacedKey (cr_Namespace ref) (cr_Name ref)) in
      (case sp_SQS spec of None \<Rightarrow> [] | Some s \<Rightarrow> add (sqs_Consumes s) @ concat (map (\<lambda>q. add (q_SubscribesTo q)) (sqs_Resources s)))
      @ (case sp_Alarms spec of None \<Rightarrow> [] | Some a \<Rightarrow> (case al_SnsTopicRef a of None \<Rightarrow> [] | Some ref \<Rightarrow> add [ref]))
      @ (case sp_SNS spec of None \<Rightarrow> [] | Some s \<Rightarrow> add (sns_Consumes s))
      @ (case sp_DynamoDB spec of None \<Rightarrow> [] | Some s \<Rightarrow> add (ddb_Consumes s))
      @ (case sp_S3 spec of None \<Rightarrow> [] | Some s \<Rightarrow> add (s3_Consumes s))
      @ (case sp_RDS spec of None \<Rightarrow> [] | Some s \<Rightarrow> add (rds_Consumes s)))"

definition indexRDSSubnetGroup :: "AppDependencies \<Rightarrow> string list" where
  "indexRDSSubnetGroup cr = (case sp_RDS (ad_Spec cr) of None \<Rightarrow> [] | Some s \<Rightarrow> map i_DBSubnetGroupName (rds_Resources s))"

definition indexRDSSharedWith :: "AppDependencies \<Rightarrow> string list" where
  "indexRDSSharedWith cr =
     (case sp_RDS (ad_Spec cr) of None \<Rightarrow> []
      | Some s \<Rightarrow> concat (map (\<lambda>r. map (\<lambda>sw. NamespacedKey (sw_Namespace sw) (sw_Name sw)) (i_SharedWith r)) (rds_Resources s)))"

definition Indexes :: "string \<Rightarrow> (AppDependencies \<Rightarrow> string list) option" where
  "Indexes = [IndexConsumesFrom \<mapsto> indexConsumesFrom, IndexRDSSubnetGroup \<mapsto> indexRDSSubnetGroup, IndexRDSSharedWith \<mapsto> indexRDSSharedWith]"

section \<open>Map functions\<close>

definition crKey :: "AppDependencies \<Rightarrow> request" where
  "crKey cr = (md_Namespace cr, md_Name cr)"

definition ProducerToConsumers :: "runtime \<Rightarrow> AppDependencies \<Rightarrow> request list" where
  "ProducerToConsumers rt producer =
     (case rt_List rt IndexConsumesFrom (NamespacedKey (md_Namespace producer) (md_Name producer)) of
        Inl e \<Rightarrow> []
      | Inr consumers \<Rightarrow> map crKey (filter (\<lambda>c. crKey c \<noteq> crKey producer) consumers))"

definition ConsumerPodIdentityToRDSProducers :: "runtime \<Rightarrow> AppDependencies \<Rightarrow> request list" where
  "ConsumerPodIdentityToRDSProducers rt consumer =
     (case rt_List rt IndexRDSSharedWith (NamespacedKey (md_Namespace consumer) (md_Name consumer)) of
        Inl e \<Rightarrow> []
      | Inr producers \<Rightarrow> map crKey (filter (\<lambda>c. crKey c \<noteq> crKey consumer) producers))"

definition SubnetGroupGrantToAffectedCRs :: "runtime \<Rightarrow> RDSSubnetGroupGrant \<Rightarrow> request list" where
  "SubnetGroupGrantToAffectedCRs rt grant =
     (case rt_List rt IndexRDSSubnetGroup (gr_DBSubnetGroupName grant) of Inl e \<Rightarrow> [] | Inr affected \<Rightarrow> map crKey affected)"

definition AlarmConsumerToTopicProducer :: "AppDependencies \<Rightarrow> request list" where
  "AlarmConsumerToTopicProducer consumer =
     (case sp_Alarms (ad_Spec consumer) of None \<Rightarrow> []
      | Some a \<Rightarrow>
          (case al_SnsTopicRef a of None \<Rightarrow> []
           | Some ref \<Rightarrow> if (cr_Namespace ref, cr_Name ref) = crKey consumer then [] else [(cr_Namespace ref, cr_Name ref)]))"

text \<open>The requests that an event on a custom resource puts into the work queue.\<close>

definition wakes :: "runtime \<Rightarrow> AppDependencies event \<Rightarrow> request list" where
  "wakes rt e =
     (if AppDependenciesPredicate rt e then rt_EnqueueRequestForObject rt e else [])
     @ (if ProducerChangedPredicate rt e then rt_EnqueueRequestsFromMapFunc rt (ProducerToConsumers rt) e else [])
     @ (if PodNetworkIdentityPublishedPredicate rt e then rt_EnqueueRequestsFromMapFunc rt (ConsumerPodIdentityToRDSProducers rt) e else [])
     @ (if SpecOrDeletionChangedPredicate rt e then rt_EnqueueRequestsFromMapFunc rt AlarmConsumerToTopicProducer e else [])"

section \<open>What the runtime promises\<close>

fun funcsAllow :: "'o predicate_funcs \<Rightarrow> 'o event \<Rightarrow> bool" where
  "funcsAllow f (CreateEvent x) = (case pf_CreateFunc f of None \<Rightarrow> True | Some g \<Rightarrow> g x)"
| "funcsAllow f (UpdateEvent x y) = (case pf_UpdateFunc f of None \<Rightarrow> True | Some g \<Rightarrow> g x y)"
| "funcsAllow f (DeleteEvent x) = (case pf_DeleteFunc f of None \<Rightarrow> True | Some g \<Rightarrow> g x)"
| "funcsAllow f (GenericEvent x) = (case pf_GenericFunc f of None \<Rightarrow> True | Some g \<Rightarrow> g x)"

fun generationMoved :: "AppDependencies event \<Rightarrow> bool" where
  "generationMoved (UpdateEvent old new) \<longleftrightarrow> md_Generation old \<noteq> md_Generation new"
| "generationMoved e \<longleftrightarrow> True"

fun eventObjects :: "'o event \<Rightarrow> 'o list" where
  "eventObjects (CreateEvent x) = [x]"
| "eventObjects (UpdateEvent x y) = [x, y]"
| "eventObjects (DeleteEvent x) = [x]"
| "eventObjects (GenericEvent x) = [x]"

text \<open>The object of an event itself is the one after the change; a map function is applied to the object before it too.\<close>

fun eventObject :: "'o event \<Rightarrow> 'o" where
  "eventObject (CreateEvent x) = x"
| "eventObject (UpdateEvent x y) = y"
| "eventObject (DeleteEvent x) = x"
| "eventObject (GenericEvent x) = x"

definition runtimeLaws :: "runtime \<Rightarrow> AppDependencies list \<Rightarrow> bool" where
  "runtimeLaws rt store \<longleftrightarrow>
     (\<forall>e. rt_GenerationChangedPredicate rt e = generationMoved e)
   \<and> (\<forall>a b e. rt_Or rt a b e = (a e \<or> b e))
   \<and> (\<forall>f e. rt_Funcs rt f e = funcsAllow f e)
   \<and> (\<forall>e. set (rt_EnqueueRequestForObject rt e) = {crKey (eventObject e)})
   \<and> (\<forall>f e. set (rt_EnqueueRequestsFromMapFunc rt f e) = (\<Union>x\<in>set (eventObjects e). set (f x)))
   \<and> (\<forall>field extract key. Indexes field = Some extract \<longrightarrow>
        (\<exists>xs. rt_List rt field key = Inr xs \<and> set xs = {cr \<in> set store. key \<in> set (extract cr)}))"

lemma runtimeLawsD:
  assumes "runtimeLaws rt store"
  shows "rt_GenerationChangedPredicate rt e = generationMoved e" "rt_Or rt a b e = (a e \<or> b e)" "rt_Funcs rt f e = funcsAllow f e"
    "set (rt_EnqueueRequestForObject rt e) = {crKey (eventObject e)}"
    "set (rt_EnqueueRequestsFromMapFunc rt g e) = (\<Union>x\<in>set (eventObjects e). set (g x))"
  using assms by (simp_all add: runtimeLaws_def)

lemma listed:
  assumes "runtimeLaws rt store" "Indexes field = Some extract" "rt_List rt field key = r"
  obtains xs where "r = Inr xs" "set xs = {cr \<in> set store. key \<in> set (extract cr)}"
proof -
  from assms(1) have "\<forall>field extract key. Indexes field = Some extract \<longrightarrow>
      (\<exists>xs. rt_List rt field key = Inr xs \<and> set xs = {cr \<in> set store. key \<in> set (extract cr)})" by (simp add: runtimeLaws_def)
  with assms(2,3) that show thesis by metis
qed

lemma index_functions:
  "Indexes IndexConsumesFrom = Some indexConsumesFrom" "Indexes IndexRDSSharedWith = Some indexRDSSharedWith"
  "Indexes IndexRDSSubnetGroup = Some indexRDSSubnetGroup"
  by (simp_all add: Indexes_def IndexConsumesFrom_def IndexRDSSharedWith_def IndexRDSSubnetGroup_def)

section \<open>Who has to hear of a change\<close>

text \<open>The index of references holds exactly the references a pass resolves (\<^verbatim>\<open>allConsumeRefs\<close>).\<close>

lemma index_complete:
  "set (indexConsumesFrom cr) = (\<lambda>l. NamespacedKey (cr_Namespace (cf_ref l)) (cr_Name (cf_ref l))) ` set (allConsumeRefs (ad_Spec cr))"
proof -
  have ref: "(\<lambda>l. f (cf_ref l)) ` set (located t x refs) = f ` set refs" for f :: "ConsumeRef \<Rightarrow> string" and t x refs
    by (simp add: located_def image_image)
  show ?thesis
    unfolding indexConsumesFrom_def allConsumeRefs_def Let_def
    by (simp only: set_append image_Un ref [of "\<lambda>ref. NamespacedKey (cr_Namespace ref) (cr_Name ref)"] option.case_distrib [of set])
      (auto simp: ref [of "\<lambda>ref. NamespacedKey (cr_Namespace ref) (cr_Name ref)"] image_Un image_UN split: option.split)
qed

definition refersToCR :: "AppDependencies \<Rightarrow> AppDependencies \<Rightarrow> bool" where
  "refersToCR cr producer \<longleftrightarrow> (\<exists>l\<in>set (allConsumeRefs (ad_Spec cr)). (cr_Namespace (cf_ref l), cr_Name (cf_ref l)) = crKey producer)"

definition sharesDatabaseWith :: "AppDependencies \<Rightarrow> AppDependencies \<Rightarrow> bool" where
  "sharesDatabaseWith cr consumer \<longleftrightarrow> (\<exists>s r sw. sp_RDS (ad_Spec cr) = Some s \<and> r \<in> set (rds_Resources s) \<and> sw \<in> set (i_SharedWith r)
     \<and> (sw_Namespace sw, sw_Name sw) = crKey consumer)"

definition notifiesTopicOf :: "AppDependencies \<Rightarrow> AppDependencies \<Rightarrow> bool" where
  "notifiesTopicOf consumer cr \<longleftrightarrow> (\<exists>a ref. sp_Alarms (ad_Spec consumer) = Some a \<and> al_SnsTopicRef a = Some ref
     \<and> (cr_Namespace ref, cr_Name ref) = crKey cr)"

definition recordedARN :: "AppDependencies \<Rightarrow> string \<Rightarrow> string \<Rightarrow> string option" where
  "recordedARN cr t n = map_option mr_ARN (FindManagedResource (ledgerOf cr) t n)"

text \<open>
  \<open>mustHear old new cr\<close>: the update from \<open>old\<close> to \<open>new\<close> changes something that a pass over \<open>cr\<close> reads of this custom resource: a share or an
  ARN of a resource \<open>cr\<close> refers to, who may reach a database of \<open>cr\<close>, or the alarms that notify a topic of \<open>cr\<close>.
\<close>

definition mustHear :: "AppDependencies \<Rightarrow> AppDependencies \<Rightarrow> AppDependencies \<Rightarrow> bool" where
  "mustHear old new cr \<longleftrightarrow>
     refersToCR cr new \<and> (md_Generation old \<noteq> md_Generation new
       \<or> (\<exists>t n. CHR ''/'' \<notin> set t \<and> recordedARN old t n \<noteq> recordedARN new t n))
   \<or> sharesDatabaseWith cr new \<and> (orElse (PodNetworkIdentityARN old) [] \<noteq> orElse (PodNetworkIdentityARN new) [] \<or> md_Deleting old \<noteq> md_Deleting new
       \<or> rdsConsumes old \<noteq> rdsConsumes new)
   \<or> (notifiesTopicOf old cr \<or> notifiesTopicOf new cr) \<and> (md_Generation old \<noteq> md_Generation new \<or> md_Deleting old \<noteq> md_Deleting new)"

lemma NamespacedKey_crKey: "(a, b) = crKey cr \<Longrightarrow> NamespacedKey a b = NamespacedKey (md_Namespace cr) (md_Name cr)"
  by (simp add: crKey_def)

text \<open>A ledger whose keys are distinct, with types that hold no slash, as the operator writes it.\<close>

definition plainLedger :: "ledger \<Rightarrow> bool" where
  "plainLedger l \<longleftrightarrow> distinct (map mr_key l) \<and> (\<forall>e\<in>set l. CHR ''/'' \<notin> set (mr_Type e))"

lemma foldl_updates: "foldl (\<lambda>m x. m(k x \<mapsto> v x)) m xs = m ++ map_of (rev (map (\<lambda>x. (k x, v x)) xs))"
  by (induction xs arbitrary: m) auto

lemma ledgerARNs_find:
  assumes "plainLedger (ledgerOf cr)" "CHR ''/'' \<notin> set t"
  shows "ledgerARNs cr (t @ ''/'' @ n) = recordedARN cr t n"
proof -
  let ?k = "\<lambda>r. mr_Type r @ ''/'' @ mr_Name r"
  have keys: "distinct (map ?k l)" if "plainLedger l" for l
    using that by (induction l) (fastforce simp: plainLedger_def slash_split image_iff)+
  have find: "map_of (map (\<lambda>r. (?k r, mr_ARN r)) l) (t @ ''/'' @ n) = map_option mr_ARN (FindManagedResource l t n)" if "plainLedger l" for l
    using that assms(2) by (induction l) (auto simp: plainLedger_def slash_split)
  have "map_of (rev (map (\<lambda>r. (?k r, mr_ARN r)) (ledgerOf cr))) = map_of (map (\<lambda>r. (?k r, mr_ARN r)) (ledgerOf cr))"
    using keys [OF assms(1)] by (intro map_of_rev_distinct) (simp add: comp_def)
  then show ?thesis using find [OF assms(1)] by (simp add: ledgerARNs_def foldl_updates recordedARN_def)
qed

lemma ARNs_differ:
  assumes "plainLedger (ledgerOf old)" "plainLedger (ledgerOf new)" "CHR ''/'' \<notin> set t" "recordedARN old t n \<noteq> recordedARN new t n"
  shows "ledgerARNs old \<noteq> ledgerARNs new"
  using ledgerARNs_find [OF assms(1,3), of n] ledgerARNs_find [OF assms(2,3), of n] assms(4) by auto

lemma consumer_mapped:
  assumes "runtimeLaws rt store" "cr \<in> set store" "refersToCR cr new" "crKey cr \<noteq> crKey new"
  shows "crKey cr \<in> set (ProducerToConsumers rt new)"
proof -
  obtain xs where "rt_List rt IndexConsumesFrom (NamespacedKey (md_Namespace new) (md_Name new)) = Inr xs"
    "set xs = {cr \<in> set store. NamespacedKey (md_Namespace new) (md_Name new) \<in> set (indexConsumesFrom cr)}"
    using listed [OF assms(1) index_functions(1) refl] by metis
  moreover have "NamespacedKey (md_Namespace new) (md_Name new) \<in> set (indexConsumesFrom cr)"
    using assms(3) unfolding refersToCR_def index_complete by (metis (no_types, lifting) NamespacedKey_crKey image_eqI)
  ultimately show ?thesis using assms(2,4) by (simp add: ProducerToConsumers_def)
qed

lemma producer_mapped:
  assumes "runtimeLaws rt store" "cr \<in> set store" "sharesDatabaseWith cr new" "crKey cr \<noteq> crKey new"
  shows "crKey cr \<in> set (ConsumerPodIdentityToRDSProducers rt new)"
proof -
  obtain xs where "rt_List rt IndexRDSSharedWith (NamespacedKey (md_Namespace new) (md_Name new)) = Inr xs"
    "set xs = {cr \<in> set store. NamespacedKey (md_Namespace new) (md_Name new) \<in> set (indexRDSSharedWith cr)}"
    using listed [OF assms(1) index_functions(2) refl] by metis
  moreover have "NamespacedKey (md_Namespace new) (md_Name new) \<in> set (indexRDSSharedWith cr)"
    using assms(3) unfolding sharesDatabaseWith_def indexRDSSharedWith_def by (force simp: crKey_def)
  ultimately show ?thesis using assms(2,4) by (simp add: ConsumerPodIdentityToRDSProducers_def)
qed

lemma topic_mapped: "notifiesTopicOf x cr \<Longrightarrow> crKey cr \<noteq> crKey x \<Longrightarrow> crKey cr \<in> set (AlarmConsumerToTopicProducer x)"
  unfolding notifiesTopicOf_def AlarmConsumerToTopicProducer_def by (elim exE conjE) simp

text \<open>
  C9: Whoever depends on a custom resource hears of a change to it at once, not at the next periodic pass. Under what controller-runtime promises
  of its predicates, handlers and indexes, an update of a custom resource puts into the work queue every other custom resource
  that refers to it, when its spec or an ARN it published changed; every one that shares a database with it, when its
  network identity, the databases it asks for or its deletion changed; and every one whose topic its alarms notify, before or after the
  change. So a withdrawn share or a deleted resource is acted on as soon as it is seen.
\<close>
theorem dependents_are_woken:
  assumes "runtimeLaws rt store" "crKey old = crKey new" "plainLedger (ledgerOf old)" "plainLedger (ledgerOf new)"
    and "cr \<in> set store" "crKey cr \<noteq> crKey new" "mustHear old new cr"
  shows "crKey cr \<in> set (wakes rt (UpdateEvent old new))"
proof -
  note laws = runtimeLawsD [OF assms(1)]
  from assms(7) consider
      (refers) "refersToCR cr new" "ProducerChangedPredicate rt (UpdateEvent old new)"
    | (shares) "sharesDatabaseWith cr new" "PodNetworkIdentityPublishedPredicate rt (UpdateEvent old new)"
    | (topic) "notifiesTopicOf old cr \<or> notifiesTopicOf new cr" "SpecOrDeletionChangedPredicate rt (UpdateEvent old new)"
    unfolding mustHear_def using ARNs_differ [OF assms(3,4)]
    by (auto simp: ProducerChangedPredicate_def AppDependenciesPredicate_def PodNetworkIdentityPublishedPredicate_def
        SpecOrDeletionChangedPredicate_def laws)
  then show ?thesis
  proof cases
    case refers
    then show ?thesis using consumer_mapped [OF assms(1,5) _ assms(6)] by (simp add: wakes_def laws)
  next
    case shares
    then show ?thesis using producer_mapped [OF assms(1,5) _ assms(6)] by (simp add: wakes_def laws)
  next
    case topic
    then show ?thesis using topic_mapped [of _ cr] assms(2,6) by (auto simp: wakes_def laws)
  qed
qed

lemma enqueued_producers:
  assumes "runtimeLaws rt store"
  shows "set (ProducerToConsumers rt x) = crKey ` {cr \<in> set store. crKey cr \<noteq> crKey x \<and> NamespacedKey (md_Namespace x) (md_Name x) \<in> set (indexConsumesFrom cr)}"
    "set (ConsumerPodIdentityToRDSProducers rt x) = crKey ` {cr \<in> set store. crKey cr \<noteq> crKey x \<and> NamespacedKey (md_Namespace x) (md_Name x) \<in> set (indexRDSSharedWith cr)}"
proof -
  obtain xs where "rt_List rt IndexConsumesFrom (NamespacedKey (md_Namespace x) (md_Name x)) = Inr xs"
    "set xs = {cr \<in> set store. NamespacedKey (md_Namespace x) (md_Name x) \<in> set (indexConsumesFrom cr)}"
    using listed [OF assms index_functions(1) refl] by metis
  then show "set (ProducerToConsumers rt x) = crKey ` {cr \<in> set store. crKey cr \<noteq> crKey x \<and> NamespacedKey (md_Namespace x) (md_Name x) \<in> set (indexConsumesFrom cr)}"
    by (auto simp: ProducerToConsumers_def)
  obtain ys where "rt_List rt IndexRDSSharedWith (NamespacedKey (md_Namespace x) (md_Name x)) = Inr ys"
    "set ys = {cr \<in> set store. NamespacedKey (md_Namespace x) (md_Name x) \<in> set (indexRDSSharedWith cr)}"
    using listed [OF assms index_functions(2) refl] by metis
  then show "set (ConsumerPodIdentityToRDSProducers rt x) = crKey ` {cr \<in> set store. crKey cr \<noteq> crKey x \<and> NamespacedKey (md_Namespace x) (md_Name x) \<in> set (indexRDSSharedWith cr)}"
    by (auto simp: ConsumerPodIdentityToRDSProducers_def)
qed

text \<open>
  C39: The operator does not wake itself by what it writes to a status, and wakes others only by what they read there. Of an update of a
  custom resource that leaves the spec, the generation, the annotations and the deletion mark as they were, exactly these others are put
  into the work queue: when the ARNs of the ledger changed, those that refer to it; and when the security group it publishes for its pods changed,
  which it also does when that group begins to wait for its deletion, those that share a database with it. The custom resource
  itself is never among them, and when neither changed nobody is.
\<close>
theorem status_writes_wake_only_readers:
  assumes "runtimeLaws rt store" "crKey old = crKey new" "md_Generation old = md_Generation new" "md_Annotations old = md_Annotations new"
    and "md_Deleting old = md_Deleting new" "ad_Spec old = ad_Spec new"
  shows "set (wakes rt (UpdateEvent old new)) = crKey ` {cr \<in> set store. crKey cr \<noteq> crKey new
        \<and> (ledgerARNs old \<noteq> ledgerARNs new \<and> NamespacedKey (md_Namespace new) (md_Name new) \<in> set (indexConsumesFrom cr)
           \<or> orElse (PodNetworkIdentityARN old) [] \<noteq> orElse (PodNetworkIdentityARN new) []
              \<and> NamespacedKey (md_Namespace new) (md_Name new) \<in> set (indexRDSSharedWith cr))}
    \<and> crKey new \<notin> set (wakes rt (UpdateEvent old new))
    \<and> (ledgerARNs old = ledgerARNs new \<and> PodNetworkIdentityARN old = PodNetworkIdentityARN new \<longrightarrow> wakes rt (UpdateEvent old new) = [])"
proof -
  have same: "md_Namespace old = md_Namespace new" "md_Name old = md_Name new" using assms(2) by (simp_all add: crKey_def)
  have woken: "set (wakes rt (UpdateEvent old new)) =
      (if ledgerARNs old \<noteq> ledgerARNs new then set (ProducerToConsumers rt old) \<union> set (ProducerToConsumers rt new) else {})
      \<union> (if orElse (PodNetworkIdentityARN old) [] \<noteq> orElse (PodNetworkIdentityARN new) []
         then set (ConsumerPodIdentityToRDSProducers rt old) \<union> set (ConsumerPodIdentityToRDSProducers rt new) else {})"
    using assms(3-6) unfolding wakes_def AppDependenciesPredicate_def ProducerChangedPredicate_def PodNetworkIdentityPublishedPredicate_def
      SpecOrDeletionChangedPredicate_def
    by (simp add: runtimeLawsD [OF assms(1)] onUpdate_def setOrChanged_def rdsConsumes_def Un_def)
  have eq: "set (wakes rt (UpdateEvent old new)) = crKey ` {cr \<in> set store. crKey cr \<noteq> crKey new
        \<and> (ledgerARNs old \<noteq> ledgerARNs new \<and> NamespacedKey (md_Namespace new) (md_Name new) \<in> set (indexConsumesFrom cr)
           \<or> orElse (PodNetworkIdentityARN old) [] \<noteq> orElse (PodNetworkIdentityARN new) []
              \<and> NamespacedKey (md_Namespace new) (md_Name new) \<in> set (indexRDSSharedWith cr))}"
    (is "_ = crKey ` ?S")
  proof -
    let ?A = "{cr \<in> set store. crKey cr \<noteq> crKey new \<and> NamespacedKey (md_Namespace new) (md_Name new) \<in> set (indexConsumesFrom cr)}"
    let ?B = "{cr \<in> set store. crKey cr \<noteq> crKey new \<and> NamespacedKey (md_Namespace new) (md_Name new) \<in> set (indexRDSSharedWith cr)}"
    have "?S = (if ledgerARNs old \<noteq> ledgerARNs new then ?A else {})
        \<union> (if orElse (PodNetworkIdentityARN old) [] \<noteq> orElse (PodNetworkIdentityARN new) [] then ?B else {})" by auto
    then have "crKey ` ?S = (if ledgerARNs old \<noteq> ledgerARNs new then crKey ` ?A else {})
        \<union> (if orElse (PodNetworkIdentityARN old) [] \<noteq> orElse (PodNetworkIdentityARN new) [] then crKey ` ?B else {})"
      by (simp only: image_Un if_distrib [of "(`) crKey"] image_empty)
    then show ?thesis unfolding woken enqueued_producers [OF assms(1)] same assms(2) Un_absorb by (rule sym)
  qed
  show ?thesis
  proof (intro conjI impI)
    show "crKey new \<notin> set (wakes rt (UpdateEvent old new))" unfolding eq by (simp add: image_iff) metis
    assume "ledgerARNs old = ledgerARNs new \<and> PodNetworkIdentityARN old = PodNetworkIdentityARN new"
    then have "set (wakes rt (UpdateEvent old new)) = {}" unfolding woken by simp
    then show "wakes rt (UpdateEvent old new) = []" by simp
  qed (rule eq)
qed

section \<open>A runtime\<close>

definition demoRuntime :: "AppDependencies list \<Rightarrow> runtime" where
  "demoRuntime store =
     \<lparr>rt_GenerationChangedPredicate = generationMoved, rt_Or = (\<lambda>a b e. a e \<or> b e), rt_Funcs = funcsAllow,
      rt_EnqueueRequestForObject = (\<lambda>e. [crKey (eventObject e)]), rt_EnqueueRequestsFromMapFunc = (\<lambda>f e. concat (map f (eventObjects e))),
      rt_List = (\<lambda>field key. case Indexes field of None \<Rightarrow> Inl refuse | Some extract \<Rightarrow> Inr (filter (\<lambda>cr. key \<in> set (extract cr)) store))\<rparr>"

lemma demoRuntime_laws: "runtimeLaws (demoRuntime store) store"
  by (auto simp: runtimeLaws_def demoRuntime_def)

definition demoConsumer :: AppDependencies where
  "demoConsumer = emptyCR\<lparr>md_Name := ''billing'', ad_Spec := (ad_Spec emptyCR)\<lparr>sp_SQS := Some \<lparr>sqs_Resources = [],
     sqs_Consumes = [\<lparr>cr_Namespace = ''team'', cr_Name = ''orders'', cr_ResourceName = ''jobs''\<rparr>]\<rparr>\<rparr>\<rparr>"

theorem dependents_are_woken_witness:
  "(''team'', ''billing'') \<in> set (wakes (demoRuntime [demoConsumer]) (UpdateEvent emptyCR (emptyCR\<lparr>md_Generation := 2\<rparr>)))"
proof -
  have "mustHear emptyCR (emptyCR\<lparr>md_Generation := 2\<rparr>) demoConsumer"
    by (simp add: mustHear_def refersToCR_def demoConsumer_def emptyCR_def allConsumeRefs_def located_def crKey_def)
  from dependents_are_woken [OF demoRuntime_laws _ _ _ _ _ this, of "[demoConsumer]"] show ?thesis
    by (simp add: crKey_def demoConsumer_def emptyCR_def plainLedger_def)
qed

definition demoRecorded :: AppDependencies where
  "demoRecorded = emptyCR\<lparr>ad_Status := (ad_Status emptyCR)\<lparr>st_ManagedResources := [zeroManagedResource\<lparr>mr_Type := typeSQS, mr_Name := ''jobs'', mr_ARN := ''arn:q''\<rparr>]\<rparr>\<rparr>"

theorem status_writes_wake_only_readers_witness:
  "set (wakes (demoRuntime [demoConsumer, emptyCR]) (UpdateEvent emptyCR demoRecorded)) = {(''team'', ''billing'')}
    \<and> wakes (demoRuntime [demoConsumer, emptyCR]) (UpdateEvent demoRecorded (demoRecorded\<lparr>md_ResourceVersion := ''2''\<rparr>)) = []"
proof
  have "ledgerARNs emptyCR (typeSQS @ ''/jobs'') \<noteq> ledgerARNs demoRecorded (typeSQS @ ''/jobs'')"
    by (simp add: ledgerARNs_def emptyCR_def demoRecorded_def)
  then have arns: "ledgerARNs emptyCR \<noteq> ledgerARNs demoRecorded" by (rule contrapos_nn) (rule fun_cong)
  have pods: "PodNetworkIdentityARN demoRecorded = PodNetworkIdentityARN emptyCR"
    by (simp add: PodNetworkIdentityARN_def demoRecorded_def emptyCR_def zeroManagedResource_def typeSQS_def typeSecurityGroup_def)
  show "set (wakes (demoRuntime [demoConsumer, emptyCR]) (UpdateEvent emptyCR demoRecorded)) = {(''team'', ''billing'')}"
  proof -
    let ?key = "NamespacedKey (md_Namespace demoRecorded) (md_Name demoRecorded)"
    have same: "crKey emptyCR = crKey demoRecorded" "md_Generation emptyCR = md_Generation demoRecorded"
      "md_Annotations emptyCR = md_Annotations demoRecorded" "md_Deleting emptyCR = md_Deleting demoRecorded" "ad_Spec emptyCR = ad_Spec demoRecorded"
      by (simp_all add: demoRecorded_def crKey_def)
    have refers: "crKey demoConsumer = (''team'', ''billing'')" "crKey demoConsumer \<noteq> crKey demoRecorded" "?key \<in> set (indexConsumesFrom demoConsumer)"
      by (simp_all add: demoRecorded_def demoConsumer_def emptyCR_def crKey_def indexConsumesFrom_def NamespacedKey_def)
    have "{cr \<in> set [demoConsumer, emptyCR]. crKey cr \<noteq> crKey demoRecorded \<and> (ledgerARNs emptyCR \<noteq> ledgerARNs demoRecorded \<and> ?key \<in> set (indexConsumesFrom cr)
        \<or> orElse (PodNetworkIdentityARN emptyCR) [] \<noteq> orElse (PodNetworkIdentityARN demoRecorded) [] \<and> ?key \<in> set (indexRDSSharedWith cr))} = {demoConsumer}"
      using arns refers same(1) by (auto simp: pods)
    with status_writes_wake_only_readers [OF demoRuntime_laws same, of "[demoConsumer, emptyCR]"] refers(1) show ?thesis by simp
  qed
  show "wakes (demoRuntime [demoConsumer, emptyCR]) (UpdateEvent demoRecorded (demoRecorded\<lparr>md_ResourceVersion := ''2''\<rparr>)) = []"
    using status_writes_wake_only_readers [OF demoRuntime_laws, of demoRecorded "demoRecorded\<lparr>md_ResourceVersion := ''2''\<rparr>" "[demoConsumer, emptyCR]"]
    by (simp add: crKey_def ledgerARNs_def PodNetworkIdentityARN_def)
qed

end
