(* ===== verification/View.thy ===== *)
theory View
  imports References Reasons Policy "HOL-Library.Product_Lexorder"
begin

text \<open>
  What the command line shows of a custom resource: \<^verbatim>\<open>internal/cli/view/view.go\<close>, which turns the status that the operator wrote into
  the tables it prints. The lemmas compare what it shows with the decisions the operator acts on (\<^verbatim>\<open>internal/decisions\<close>). The
  explanatory texts of the catalogue are left out, as in the theory of the reasons. \<^verbatim>\<open>slices.SortFunc\<close> leaves the order of
  equal elements open; here it is the order of the input.
\<close>

section \<open>Texts\<close>

definition stateText :: "ManagedResourceState \<Rightarrow> string" where
  "stateText s = (case s of StateUnset \<Rightarrow> [] | StateCreating \<Rightarrow> ''Creating'' | StateTagPending \<Rightarrow> ''TagPending'' | StateVerified \<Rightarrow> ''Verified''
     | StateNeedsVerification \<Rightarrow> ''NeedsVerification'' | StateRelinquished \<Rightarrow> ''Relinquished'')"

definition onDeleteText :: "OnDeleteOutcome \<Rightarrow> string" where
  "onDeleteText a = (case a of OnDeleteUnset \<Rightarrow> [] | OnDeleteRetain \<Rightarrow> ''Retain'' | OnDeleteDelete \<Rightarrow> ''Delete''
     | OnDeleteEvenIfNotEmpty \<Rightarrow> ''DeleteEvenIfNotEmpty'' | OnDeleteManual \<Rightarrow> ''ManualDeletion'')"

definition policyText :: "DeletionPolicy \<Rightarrow> string" where
  "policyText d = (case d of DeletionPolicyUnset \<Rightarrow> [] | DeletionPolicyRetain \<Rightarrow> ''Retain'' | DeletionPolicyDelete \<Rightarrow> ''Delete'')"

definition kindText :: "Kind \<Rightarrow> string" where
  "kindText k = (case k of KindInfo \<Rightarrow> ''Info'' | KindWaiting \<Rightarrow> ''Waiting'' | KindFailing \<Rightarrow> ''Failing'')"

text \<open>\<open>None\<close> is the zero time.\<close>

definition Age :: "time \<Rightarrow> time option \<Rightarrow> string" where
  "Age now t =
     (case t of None \<Rightarrow> ''-''
      | Some x \<Rightarrow>
          (let d = now - x in
           if d < 0 then ''0s''
           else if d < minute then show_int (d div second) @ ''s''
           else if d < hour then show_int (d div minute) @ ''m''
           else if d < 24 * hour then show_int (d div hour) @ ''h''
           else show_int (d div (24 * hour)) @ ''d''))"

section \<open>The ledger\<close>

record ResourceRow =
  rr_Type :: string
  rr_Name :: string
  rr_ARN :: string
  rr_State :: string
  rr_DeletionPolicy :: string
  rr_OnDelete :: string
  rr_ObservedStatus :: string
  rr_Force :: bool
  rr_CreatedAt :: time
  rr_LastVerifiedAt :: "time option"
  rr_PendingDeletionSince :: "time option"
  rr_HeldBy :: "string list option"

definition resourceRow :: "ManagedResource \<Rightarrow> ResourceRow" where
  "resourceRow e =
     \<lparr>rr_Type = mr_Type e, rr_Name = mr_Name e, rr_ARN = mr_ARN e, rr_State = stateText (mr_State e),
      rr_DeletionPolicy = policyText (mr_DeletionPolicy e), rr_OnDelete = onDeleteText (mr_OnDelete e),
      rr_ObservedStatus = mr_ObservedStatus e, rr_Force = mr_Force e, rr_CreatedAt = mr_CreatedAt e,
      rr_LastVerifiedAt = mr_LastVerifiedAt e, rr_PendingDeletionSince = mr_PendingDeletionSince e, rr_HeldBy = mr_HeldBy e\<rparr>"

definition sortRows :: "ResourceRow list \<Rightarrow> ResourceRow list" where
  "sortRows = sort_key (\<lambda>r. (rr_Type r, rr_Name r))"

record ResourceFilter =
  rf_Type :: string
  rf_State :: string
  rf_OnDelete :: string

definition matches :: "string \<Rightarrow> string \<Rightarrow> bool" where
  "matches wanted shown \<longleftrightarrow> wanted = [] \<or> equalFold wanted shown"

definition Resources :: "AppDependencies \<Rightarrow> ResourceFilter \<Rightarrow> ResourceRow list" where
  "Resources cr f = sortRows (filter (\<lambda>r. matches (rf_Type f) (rr_Type r) \<and> matches (rf_State f) (rr_State r)
     \<and> matches (rf_OnDelete f) (rr_OnDelete r)) (map resourceRow (ledgerOf cr)))"

record LedgerSummary =
  ls_Total :: nat
  ls_ByState :: "string \<Rightarrow> nat"
  ls_Attention :: "ResourceRow list"

definition needsLook :: "ManagedResource \<Rightarrow> bool" where
  "needsLook e \<longleftrightarrow> mr_State e \<noteq> StateVerified \<or> mr_PendingDeletionSince e \<noteq> None"

definition later :: "time option \<Rightarrow> time option \<Rightarrow> time option" where
  "later seen t = (case t of None \<Rightarrow> seen | Some x \<Rightarrow> (case seen of None \<Rightarrow> Some x | Some y \<Rightarrow> if x > y then Some x else Some y))"

primrec summariseLedger :: "ManagedResource list \<Rightarrow> LedgerSummary \<times> time option \<Rightarrow> LedgerSummary \<times> time option" where
  "summariseLedger [] acc = (case acc of (s, t) \<Rightarrow> (s\<lparr>ls_Attention := sortRows (ls_Attention s)\<rparr>, t))"
| "summariseLedger (e # es) acc =
     (case acc of (s, t) \<Rightarrow>
        summariseLedger es
          (s\<lparr>ls_Total := Suc (ls_Total s), ls_ByState := (ls_ByState s)(stateText (mr_State e) := Suc (ls_ByState s (stateText (mr_State e)))),
             ls_Attention := ls_Attention s @ (if needsLook e then [resourceRow e] else [])\<rparr>,
           later t (mr_LastVerifiedAt e)))"

section \<open>Conditions\<close>

definition otherConditions :: "string \<Rightarrow> bool" where
  "otherConditions t \<longleftrightarrow> t \<in> {''SharedWithReferencesValid'', ''ConsumeReferencesValid'', ''DeletionBlocked'', ''EncryptionMatchesSpec''}"

record SectionView =
  sv_Type :: string
  sv_Ready :: bool
  sv_Reason :: string
  sv_Message :: string
  sv_Kind :: string
  sv_Since :: time

definition sectionView :: "Condition \<Rightarrow> SectionView" where
  "sectionView c =
     \<lparr>sv_Type = co_Type c, sv_Ready = (co_Status c = ConditionTrue), sv_Reason = co_Reason c, sv_Message = co_Message c,
      sv_Kind = (case Lookup (co_Reason c) of None \<Rightarrow> ''Unknown'' | Some r \<Rightarrow> kindText (rn_Kind r)), sv_Since = co_LastTransitionTime c\<rparr>"

definition splitConditions :: "Condition list \<Rightarrow> SectionView list \<times> SectionView list" where
  "splitConditions conditions =
     (let shown = filter (\<lambda>c. co_Type c \<noteq> ConditionTypeReady) conditions in
      (sort_key sv_Type (map sectionView (filter (\<lambda>c. \<not> otherConditions (co_Type c)) shown)),
       sort_key sv_Type (map sectionView (filter (\<lambda>c. otherConditions (co_Type c)) shown))))"

record StatusView =
  vw_Context :: string
  vw_Namespace :: string
  vw_Name :: string
  vw_Generation :: int
  vw_ObservedGeneration :: int
  vw_UpToDate :: bool
  vw_Ready :: bool
  vw_Deleting :: bool
  vw_ReadyReason :: string
  vw_ReadyMessage :: string
  vw_LastVerifiedAt :: "time option"
  vw_Sections :: "SectionView list"
  vw_Other :: "SectionView list"
  vw_Ledger :: LedgerSummary

definition emptyView :: "AppDependencies \<Rightarrow> string \<Rightarrow> string \<Rightarrow> StatusView" where
  "emptyView cr context namespace =
     \<lparr>vw_Context = context, vw_Namespace = namespace, vw_Name = md_Name cr, vw_Generation = md_Generation cr, vw_ObservedGeneration = 0,
      vw_UpToDate = False, vw_Ready = False, vw_Deleting = md_Deleting cr, vw_ReadyReason = ''NoStatusYet'',
      vw_ReadyMessage = ''the operator has not reported a status for this CR yet'', vw_LastVerifiedAt = None, vw_Sections = [], vw_Other = [],
      vw_Ledger = \<lparr>ls_Total = 0, ls_ByState = (\<lambda>_. 0), ls_Attention = []\<rparr>\<rparr>"

definition Status :: "apimeta \<Rightarrow> AppDependencies \<Rightarrow> string \<Rightarrow> string \<Rightarrow> StatusView" where
  "Status m cr context namespace =
     (let v = emptyView cr context namespace;
          v1 = (case am_FindStatusCondition m (conditionsOf cr) ConditionTypeReady of
                  None \<Rightarrow> v
                | Some ready \<Rightarrow>
                    v\<lparr>vw_Ready := (co_Status ready = ConditionTrue), vw_ObservedGeneration := co_ObservedGeneration ready,
                      vw_UpToDate := (md_Generation cr = co_ObservedGeneration ready), vw_ReadyReason := co_Reason ready,
                      vw_ReadyMessage := co_Message ready, vw_Sections := fst (splitConditions (conditionsOf cr)),
                      vw_Other := snd (splitConditions (conditionsOf cr))\<rparr>)
      in case summariseLedger (ledgerOf cr) (vw_Ledger v1, vw_LastVerifiedAt v1) of
           (summary, verified) \<Rightarrow> v1\<lparr>vw_Ledger := summary, vw_LastVerifiedAt := verified\<rparr>)"

section \<open>What is kept\<close>

record RetainedRow =
  rw_Namespace :: string
  rw_CR :: string
  rw_Type :: string
  rw_Name :: string
  rw_State :: string
  rw_OnDelete :: string
  rw_Why :: string
  rw_Detail :: string

definition isRetained :: "ManagedResource \<Rightarrow> bool" where
  "isRetained e = (if mr_OnDelete e \<noteq> OnDeleteUnset then mr_OnDelete e = OnDeleteRetain else mr_DeletionPolicy e \<noteq> DeletionPolicyDelete)"

definition byKey :: "ManagedResource list \<Rightarrow> (string \<rightharpoonup> ManagedResource)" where
  "byKey = foldl (\<lambda>m e. m(mr_Type e @ ''/'' @ mr_Name e \<mapsto> e)) Map.empty"

definition heldNames :: "ManagedResource \<Rightarrow> string list" where
  "heldNames e = (case mr_HeldBy e of None \<Rightarrow> [] | Some names \<Rightarrow> names)"

definition heldByRetained :: "ManagedResource \<Rightarrow> (string \<rightharpoonup> ManagedResource) \<Rightarrow> bool" where
  "heldByRetained key m \<longleftrightarrow> list_ex (\<lambda>holder. case m holder of None \<Rightarrow> False | Some h \<Rightarrow> isRetained h) (heldNames key)"

definition retainedWhy :: "ManagedResource \<Rightarrow> (string \<rightharpoonup> ManagedResource) \<Rightarrow> string" where
  "retainedWhy e m =
     (if mr_State e = StateRelinquished then ''LetGo''
      else if mr_Type e = TypeKMS \<and> heldByRetained e m then ''KeyHeld''
      else if isRetained e then ''KeptOnDelete''
      else [])"

definition retainedRow :: "AppDependencies \<Rightarrow> ManagedResource \<Rightarrow> string \<Rightarrow> RetainedRow" where
  "retainedRow cr e why =
     \<lparr>rw_Namespace = md_Namespace cr, rw_CR = md_Name cr, rw_Type = mr_Type e, rw_Name = mr_Name e, rw_State = stateText (mr_State e),
      rw_OnDelete = onDeleteText (mr_OnDelete e), rw_Why = why,
      rw_Detail = (if heldNames e = [] then [] else ''held by '' @ join (heldNames e) '', '')\<rparr>"

definition retainedOf :: "AppDependencies \<Rightarrow> RetainedRow list" where
  "retainedOf cr =
     (let entries = sort_key mr_key (ledgerOf cr) in
      List.map_filter (\<lambda>e. let why = retainedWhy e (byKey entries) in if why = [] then None else Some (retainedRow cr e why)) entries)"

definition Retained :: "AppDependencies list \<Rightarrow> RetainedRow list" where
  "Retained crs = concat (map retainedOf (sort_key (\<lambda>cr. (md_Namespace cr, md_Name cr)) crs))"

section \<open>The command line and the decisions\<close>

text \<open>A stamped ledger with one entry per key and types without a slash, as the operator writes it.\<close>

definition stampedLedger :: "ledger \<Rightarrow> ledger \<Rightarrow> bool" where
  "stampedLedger l s \<longleftrightarrow> s = Stamp l \<and> distinct (map mr_key l) \<and> (\<forall>e\<in>set l. CHR ''/'' \<notin> set (mr_Type e))"

lemma foldl_entry:
  assumes "distinct (map mr_key es)" "\<forall>e\<in>set es. CHR ''/'' \<notin> set (mr_Type e)" "e \<in> set es"
  shows "byKey es (mr_Type e @ ''/'' @ mr_Name e) = Some e"
proof -
  have "foldl (\<lambda>m e. m(mr_Type e @ ''/'' @ mr_Name e \<mapsto> e)) m es (mr_Type e @ ''/'' @ mr_Name e) = Some e" for m
    using assms
  proof (induction es rule: rev_induct)
    case (snoc x xs)
    show ?case
    proof (cases "e = x")
      case False
      with snoc.prems have e: "e \<in> set xs" "mr_key e \<noteq> mr_key x" by (auto simp: image_iff)
      moreover have "CHR ''/'' \<notin> set (mr_Type e)" "CHR ''/'' \<notin> set (mr_Type x)" using snoc.prems(2) e(1) by auto
      ultimately show ?thesis using snoc.IH snoc.prems(1,2) by (auto simp: slash_split)
    qed simp
  qed simp
  then show ?thesis by (simp add: byKey_def)
qed

lemma isRetained_stamped: "isRetained (stampEntry h e) \<longleftrightarrow> OnDelete e = OnDeleteRetain"
  by (simp add: isRetained_def stampEntry_def OnDelete_def)

lemma heldNames_stamped:
  assumes "mr_Type e = TypeKMS" "length (h (mr_Name e)) \<le> maxHeldBy"
  shows "set (heldNames (stampEntry h e)) = (\<lambda>x. ho_Type x @ ''/'' @ ho_Name x) ` set (h (mr_Name e))"
proof -
  have "length (sort (map (\<lambda>x. ho_Type x @ ''/'' @ ho_Name x) (h (mr_Name e)))) \<le> maxHeldBy" using assms(2) by simp
  then show ?thesis using assms(1) by (auto simp: heldNames_def stampEntry_def heldBy_def Let_def)
qed

lemma holders_indexed:
  assumes "stampedLedger l s" "set es = set s" "distinct (map mr_key es)" "h \<in> set (KeyHolders l n)"
  shows "\<exists>x\<in>set l. byKey es (ho_Type h @ ''/'' @ ho_Name h) = Some (stampEntry (KeyHolders l) x) \<and> ho_Retained h = (OnDelete x = OnDeleteRetain)"
proof -
  from KeyHolders_sound [OF assms(4)] obtain x where x: "x \<in> set l" "h = holderOf x" by blast
  let ?x = "stampEntry (KeyHolders l) x"
  have "?x \<in> set es" using x(1) assms(1,2) by (simp add: stampedLedger_def Stamp_def)
  moreover have "\<forall>e\<in>set es. CHR ''/'' \<notin> set (mr_Type e)" using assms(1,2) by (auto simp: stampedLedger_def Stamp_def)
  ultimately have "byKey es (mr_Type ?x @ ''/'' @ mr_Name ?x) = Some ?x" using foldl_entry [OF assms(3)] by blast
  then show ?thesis using x by (intro bexI [of _ x]) (simp_all add: holderOf_def OnDelete_def)
qed

text \<open>What the operator will keep of a ledger entry when its custom resource goes, or already let go.\<close>

definition keptPastCR :: "ledger \<Rightarrow> ManagedResource \<Rightarrow> bool" where
  "keptPastCR l e \<longleftrightarrow> mr_State e = StateRelinquished \<or> OnDelete e = OnDeleteRetain
     \<or> mr_Type e = TypeKMS \<and> list_ex ho_Retained (KeyHolders l (mr_Name e))"

lemma retainedWhy_kept:
  assumes "stampedLedger l s" "set es = set s" "distinct (map mr_key es)" "e \<in> set l" "length (KeyHolders l (mr_Name e)) \<le> maxHeldBy"
  shows "retainedWhy (stampEntry (KeyHolders l) e) (byKey es) \<noteq> [] \<longleftrightarrow> keptPastCR l e"
proof -
  let ?h = "KeyHolders l"
  have "heldByRetained (stampEntry ?h e) (byKey es) \<longleftrightarrow> list_ex ho_Retained (?h (mr_Name e))" if t: "mr_Type e = TypeKMS"
  proof -
    have "heldByRetained (stampEntry ?h e) (byKey es)
        \<longleftrightarrow> (\<exists>x\<in>set (?h (mr_Name e)). case byKey es (ho_Type x @ ''/'' @ ho_Name x) of None \<Rightarrow> False | Some y \<Rightarrow> isRetained y)"
      unfolding heldByRetained_def list_ex_iff heldNames_stamped [where h = ?h, OF t assms(5)] by simp
    also have "\<dots> \<longleftrightarrow> (\<exists>x\<in>set (?h (mr_Name e)). ho_Retained x)"
    proof (rule bex_cong [OF refl])
      fix x assume "x \<in> set (?h (mr_Name e))"
      from holders_indexed [OF assms(1-3) this]
      show "(case byKey es (ho_Type x @ ''/'' @ ho_Name x) of None \<Rightarrow> False | Some y \<Rightarrow> isRetained y) = ho_Retained x"
        by (auto simp: isRetained_stamped)
    qed
    finally show ?thesis by (simp add: list_ex_iff)
  qed
  moreover have "mr_State (stampEntry ?h e) = mr_State e" by (simp add: stampEntry_def)
  ultimately show ?thesis by (auto simp: retainedWhy_def keptPastCR_def isRetained_stamped)
qed

lemma set_map_filter_if: "set (List.map_filter (\<lambda>x. if P x then None else Some (f x)) xs) = f ` {x \<in> set xs. \<not> P x}"
  by (induction xs) (auto simp: List.map_filter_simps)

definition shownAs :: "RetainedRow \<Rightarrow> string \<times> string \<times> string \<times> string \<times> string" where
  "shownAs r = (rw_Namespace r, rw_CR r, rw_Type r, rw_Name r, rw_OnDelete r)"

definition decidedAs :: "AppDependencies \<Rightarrow> ManagedResource \<Rightarrow> string \<times> string \<times> string \<times> string \<times> string" where
  "decidedAs cr e = (md_Namespace cr, md_Name cr, mr_Type e, mr_Name e, onDeleteText (OnDelete e))"

lemma retainedOf_rows:
  assumes st: "stampedLedger l (ledgerOf cr)" "\<And>n. length (KeyHolders l n) \<le> maxHeldBy"
  shows "shownAs ` set (retainedOf cr) = decidedAs cr ` {e \<in> set l. keptPastCR l e}"
proof -
  let ?es = "sort_key mr_key (ledgerOf cr)"
  let ?st = "stampEntry (KeyHolders l)"
  have l: "ledgerOf cr = Stamp l" "distinct (map mr_key (ledgerOf cr))" using st(1) by (simp_all add: stampedLedger_def)
  have "mset (map mr_key ?es) = mset (map mr_key (ledgerOf cr))" by simp
  from mset_eq_imp_distinct_iff [OF this] l(2) have es: "distinct (map mr_key ?es)" by blast
  have kept: "retainedWhy (?st e) (byKey ?es) \<noteq> [] \<longleftrightarrow> keptPastCR l e" if "e \<in> set l" for e
    by (rule retainedWhy_kept [OF st(1) _ es that st(2)]) simp
  have shown: "shownAs (retainedRow cr (?st e) why) = decidedAs cr e" for e why
    by (simp add: shownAs_def decidedAs_def retainedRow_def stampEntry_def)
  have "set (retainedOf cr) = (\<lambda>e. retainedRow cr e (retainedWhy e (byKey ?es))) ` {e \<in> ?st ` set l. retainedWhy e (byKey ?es) \<noteq> []}"
    unfolding retainedOf_def Let_def set_map_filter_if by (simp add: l(1) Stamp_def)
  also have "{e \<in> ?st ` set l. retainedWhy e (byKey ?es) \<noteq> []} = ?st ` {e \<in> set l. keptPastCR l e}"
    using kept by blast
  finally show ?thesis by (simp add: image_image shown)
qed

text \<open>
  C23: The table of what is kept is what the operator decides. For custom resources whose ledgers were stamped by a pass and no key of which has more
  holders than the twenty that are published, the rows of \<^verbatim>\<open>Retained\<close> are exactly the ledger entries that were let go, that
  the deletion code retains, or that are keys which retained data still needs: every one of them has a row, with the outcome the
  deletion code acts on, and there is no other row.
\<close>
theorem retained_listing_is_the_decision:
  assumes "\<forall>cr\<in>set crs. stampedLedger (ledgers cr) (ledgerOf cr) \<and> (\<forall>n. length (KeyHolders (ledgers cr) n) \<le> maxHeldBy)"
  shows "shownAs ` set (Retained crs) = (\<Union>cr\<in>set crs. decidedAs cr ` {e \<in> set (ledgers cr). keptPastCR (ledgers cr) e})"
proof -
  have "shownAs ` set (retainedOf cr) = decidedAs cr ` {e \<in> set (ledgers cr). keptPastCR (ledgers cr) e}" if "cr \<in> set crs" for cr
    using assms that by (intro retainedOf_rows) auto
  then show ?thesis unfolding Retained_def by (simp add: image_UN)
qed

definition demoHeld :: "string \<Rightarrow> DeletionPolicy \<Rightarrow> ManagedResource" where
  "demoHeld n d = zeroManagedResource\<lparr>mr_Type := ''sqs'', mr_Name := n, mr_KMSKeyARN := ''arn:k'', mr_DeletionPolicy := d\<rparr>"

definition demoHeldKey :: ManagedResource where
  "demoHeldKey = zeroManagedResource\<lparr>mr_Type := ''kms'', mr_Name := ''main'', mr_ARN := ''arn:k'', mr_DeletionPolicy := DeletionPolicyDelete\<rparr>"

definition withEntries :: "ledger \<Rightarrow> AppDependencies" where
  "withEntries l = withLedger emptyCR (Stamp l)"

theorem retained_listing_is_the_decision_witness:
  "(''team'', ''orders'', ''kms'', ''main'', ''Delete'') \<in> shownAs ` set (Retained [withEntries [demoHeldKey, demoHeld ''jobs'' DeletionPolicyRetain]])"
proof -
  let ?l = "[demoHeldKey, demoHeld ''jobs'' DeletionPolicyRetain]"
  have h: "KeyHolders ?l n = (if n = ''main'' then [holderOf (demoHeld ''jobs'' DeletionPolicyRetain)] else [])" for n
    by (simp add: KeyHolders_eq heldKey_def type_names zeroManagedResource_def demoHeld_def demoHeldKey_def)
  have "stampedLedger ?l (ledgerOf (withEntries ?l)) \<and> (\<forall>n. length (KeyHolders ?l n) \<le> maxHeldBy)"
    by (simp add: stampedLedger_def withEntries_def h maxHeldBy_def) (simp add: demoHeld_def demoHeldKey_def)
  then have "shownAs ` set (Retained [withEntries ?l]) = decidedAs (withEntries ?l) ` {e \<in> set ?l. keptPastCR ?l e}"
    using retained_listing_is_the_decision [of "[withEntries ?l]" "\<lambda>_. ?l"] by simp
  moreover have "keptPastCR ?l demoHeldKey"
    by code_simp
  then have "decidedAs (withEntries ?l) demoHeldKey \<in> decidedAs (withEntries ?l) ` {e \<in> set ?l. keptPastCR ?l e}" by (intro imageI) simp
  moreover have "decidedAs (withEntries ?l) demoHeldKey = (''team'', ''orders'', ''kms'', ''main'', ''Delete'')"
    by (simp add: decidedAs_def withEntries_def emptyCR_def demoHeldKey_def OnDelete_def onDeleteText_def forceable_def type_names)
  ultimately show ?thesis by metis
qed

text \<open>
  The bound of twenty holders is needed. The published list of holders is cut at twenty names, and the table reads only that list: a key
  whose twenty-first holder in alphabetical order is the retained one has no row, although the operator keeps it for that data.
\<close>
theorem retained_listing_misses_held_key:
  "let l = demoHeldKey # demoHeld ''z'' DeletionPolicyRetain # map (\<lambda>i. demoHeld (replicate (Suc i) CHR ''a'') DeletionPolicyDelete) [0..<20]
   in keptPastCR l demoHeldKey \<and> map rw_Name (Retained [withEntries l]) = [''z'']"
  by code_simp

text \<open>The command line files every condition the way the controller does: what decides Ready is a section, what does not is not.\<close>

lemma conditions_filed_as_controlled:
  "\<forall>t\<in>set sectionTypes. \<not> otherConditions t"
  "otherConditions t \<longleftrightarrow> t \<in> {conditionTypeSharedWithReferences, conditionTypeConsumeReferences, ConditionTypeDeletionBlocked,
     conditionTypeEncryptionMatchesSpec}"
  by code_simp
    (simp add: otherConditions_def conditionTypeSharedWithReferences_def conditionTypeConsumeReferences_def ConditionTypeDeletionBlocked_def
      conditionTypeEncryptionMatchesSpec_def)

end
