(* ===== verification/Spec2Isabelle.thy ===== *)
theory Spec2Isabelle
  imports Ledger Ownership Naming Policy Decisions Conditions Kms Iam_Derive Sqs_Function Pass Watches View
begin

text \<open>
  Verification of the cloudctl operator, a Kubernetes operator that creates, corrects and deletes the AWS resources an
  \<^verbatim>\<open>AppDependencies\<close> custom resource declares: KMS keys, SQS queues, SNS topics, DynamoDB tables, S3 buckets, RDS instances, CloudWatch
  alarms, one IAM role, and the service account, ConfigMap and Secret through which a workload uses them. The whole operator is modelled
  from the Go sources under \<^verbatim>\<open>src/\<close>, as a library of theories, one per component.

  \<^bold>\<open>The program and its parts.\<close> An event on a custom resource passes the predicates and map functions
  (\<^verbatim>\<open>internal/controller/predicates\<close>, \<^verbatim>\<open>watches\<close>) and puts custom resources into a work queue. For each, \<^verbatim>\<open>Reconcile\<close>
  (\<^verbatim>\<open>appdependencies_controller.go\<close>) reads it and either ensures or finalizes it. A pass runs the sections (\<^verbatim>\<open>section_*.go\<close>) in the order
  of \<^verbatim>\<open>allSections\<close>; each calls its package under \<^verbatim>\<open>internal/resources\<close> with the ledger (\<^verbatim>\<open>status.managedResources\<close>) and assigns the
  ledger it gets back. The ledger is the operator's memory of what it owns. A package creates and corrects what is declared
  (\<^verbatim>\<open>Ensure\<close>), and lets go of or deletes what is not declared any more (\<^verbatim>\<open>Cleanup\<close>), after it has read the owner tags of
  each resource. Between sections, and inside some, the ledger is checkpointed to the API server. A pass ends with the delivery of
  connection info, the conditions, a patch of the status and the time of the next pass. A deletion pass finalizes the sections, keys
  last, and takes the finalizer off when all report done.

  \<^bold>\<open>State and effects.\<close> The world (theory \<open>World\<close>) is a record of the trace of all calls with their answers, the events recorded, the
  custom resource in memory that the sections share, and the cache of instance descriptions of the pass. A Go function that
  talks to AWS or Kubernetes is a state-monad computation on it. The services are not part of the repository: they are the
  environment \<open>env\<close>, a record of functions from the history of calls to an answer (theory \<open>Calls\<close>, one record for each client interface), an
  argument of every definition that calls them. Nothing is assumed of their answers: eventual consistency, failures, expired
  deadlines and other actors between two calls are all covered. Also parameters, with their documented laws as named hypotheses where a
  property needs them: the order in which Go ranges over a map (\<open>env_mapOrder\<close>, \<open>rangesOver\<close>), the schedule of concurrent
  lookups (\<open>env_schedule\<close>), random numbers and the failure limiter of client-go (\<open>randLaws\<close>, \<open>limiterLaws\<close>), the condition helpers of apimachinery
  (\<open>apimeta_laws\<close>), and the predicates, handlers and indexes of controller-runtime (\<open>runtimeLaws\<close>). Errors are values: \<open>go_error\<close>
  mirrors the wrapping types of the code, \<open>ext_error\<close> what a service answers with. The text of an error is a tag with its
  arguments; where a text reaches a condition, \<open>rc_errorText\<close> renders it.

  \<^bold>\<open>Time, fuel and numbers.\<close> A pass reads the clock once (\<open>ps_now\<close>); times are nanoseconds. A deadline shows as an error answer. The loops
  over pages have no bound in the code but the deadline of their section; the model gives them the number of calls the deadline allows
  (\<open>ps_pageBudget\<close>, computed by \<open>rc_pages\<close> from the deadline of \<^verbatim>\<open>timeouts.go\<close>), after which they fail with the error of the
  deadline. Any budget is covered, so no safety statement rests on it; that a listing of \<open>n\<close> pages ends completely with
  every budget of at least \<open>n\<close> is proved (\<open>tag_listings_complete\<close>). Every other loop recurses on a list or has a termination proof. Counters and
  sizes are Go ints far below their range and are \<open>int\<close> or \<open>nat\<close>; SHA-256 works on 32-bit words. Strings are byte lists.

  \<^bold>\<open>The theories.\<close>

  \<^item> \<open>Prelude\<close>: the string and clock helpers of Go that the code uses, shared lemmas. \<open>Json\<close>: \<^verbatim>\<open>encoding/json\<close> with the round trip of printing and
    parsing. \<open>Sha256\<close>: the hash in names and digests.
  \<^item> \<open>Api_Types\<close> (\<^verbatim>\<open>api/v1alpha1\<close>), \<open>Ledger\<close> (\<^verbatim>\<open>status/managed_resources.go\<close>; locale \<open>ledger_store\<close>: the list refines a finite map and keeps the
    recorded key), \<open>Errors\<close> (\<^verbatim>\<open>aws/errors.go\<close>), \<open>Ownership\<close> (\<^verbatim>\<open>aws/ownership.go\<close>, \<^verbatim>\<open>tags.go\<close>: when a resource may be taken over), \<open>Naming\<close>
    (\<^verbatim>\<open>aws/naming.go\<close>: names are valid and collide only when hashes do), \<open>Policy\<close> (\<^verbatim>\<open>awspolicy\<close>; locale \<open>statement_editor\<close>), \<open>Decisions\<close>
    (\<^verbatim>\<open>decisions\<close>: what a deletion does, who holds a key), \<open>Reasons\<close>, \<open>Conditions\<close> (\<^verbatim>\<open>status/conditions.go\<close>: Ready is True exactly when every
    section is).
  \<^item> \<open>Calls\<close>, \<open>World\<close>: the environment and the program logic: \<open>emits\<close> (what a computation may call), \<open>guards\<close> (what must have been read before
    a call), \<open>returns\<close> and \<open>wp\<close> (what it returns). \<open>Paging\<close>: locale \<open>paging\<close> for the page loops. \<open>Gated_Deletion\<close>: locale
    \<open>gated_deletion\<close>, the contract that the cleanups of queues, topics, tables and buckets share; each interprets it.
  \<^item> \<open>Kms\<close>, \<open>Sqs\<close> with \<open>Sqs_Policy\<close>, \<open>Sns\<close>, \<open>Dynamodb\<close>, \<open>S3\<close>, \<open>Encryption\<close>, \<open>Alarms\<close>, \<open>Iam_Derive\<close>, \<open>Iam_Role\<close>, \<open>Service_Account\<close>,
    \<open>Rds_Instance\<close>, \<open>Rds_Network\<close>, \<open>Rds\<close>, \<open>Connection\<close>: the packages under \<^verbatim>\<open>internal/resources\<close>, whole handlers with every guard and
    error path. \<open>Sqs_Safety\<close>, \<open>Sqs_Function\<close>, \<open>Sns_Safety\<close>, \<open>Dynamodb_Safety\<close>, \<open>S3_Safety\<close>, \<open>Rds_Safety\<close>, \<open>Rds_Creation\<close> and \<open>Rds_Cleanup\<close> hold what
    is proved of them: when a resource is created, tagged, changed or deleted, that foreign policy statements survive, that a database only
    moves forward, who may connect to it, that a pass without errors achieves what the spec says.
  \<^item> \<open>Controller\<close>, \<open>Timeouts\<close>, \<open>References\<close>, \<open>Sections\<close>, \<open>Data_Sections\<close>, \<open>Iam_Section\<close>, \<open>Rds_Section\<close>, \<open>Reconcile\<close>, \<open>Pass\<close>:
    \<^verbatim>\<open>internal/controller\<close>. \<open>Deletion\<close> states the contract of a section that finalizes (locales \<open>tidy_loop\<close>, \<open>tidy_deletion\<close>, \<open>cleanup_package\<close>,
    interpreted on every package), from which \<open>Pass\<close> concludes that the finalizer goes only when nothing is left, that resources of
    another region are not touched, and that every pass comes back.
  \<^item> \<open>Watches\<close>: which change wakes whom. \<open>View\<close>: the tables of the command line (\<^verbatim>\<open>internal/cli/view\<close>), compared with \<open>Decisions\<close>.

  \<^bold>\<open>What the properties say.\<close> Safety statements quantify over every environment: they speak of the calls of a whole run of an entry point,
  each of which is allowed only after what was read earlier in the same run. Liveness and convergence statements name what they need of the
  environment, and a concrete environment shows that it can hold. Each property with hypotheses has an instance on concrete data.

  \<^bold>\<open>Not modelled.\<close> Process start-up and caches (\<^verbatim>\<open>cmd\<close>, \<^verbatim>\<open>controller/cache.go\<close>), the middleware of the AWS SDK for rate limits and
  credentials, metrics, traces and logs, the flag parsing and rendering of the command line, generated deep copies, and the test helpers: they
  carry no decision about a resource. Wake-ups by owned ConfigMaps, Secrets and service accounts are done by controller-runtime alone. The
  texts of the reasons catalogue are left out. Concurrent passes over different custom resources are interleavings of calls, which the
  environment already stands for; two passes over the same one do not run at once, which is a promise of the work queue. Names that are folded
  into keys of the ConfigMap are ASCII, as the custom resource definition demands.
\<close>

end
